(* ===== verification/Prelude.thy ===== *)
theory Prelude
  imports Main
begin

section \<open>Shared vocabulary: results, options, lists\<close>

text \<open>
  What every component uses: errors as the left summand of a sum type, sequencing of fallible
  steps, the first-match and last-match searches and the keyed update of an array that the
  TypeScript code writes with \<open>find\<close>, \<open>findIndex\<close>, \<open>findLast\<close> and spread syntax, and the lemmas
  that the component theories share about them.
\<close>

named_theorems result_simps \<open>evaluation of sequenced fallible steps\<close>
named_theorems upsert_simps \<open>keyed update of an array\<close>

subsection \<open>Fallible computations\<close>

definition bindE :: "'e + 'a \<Rightarrow> ('a \<Rightarrow> 'e + 'b) \<Rightarrow> 'e + 'b" where
  "bindE m f = (case m of Inl e \<Rightarrow> Inl e | Inr a \<Rightarrow> f a)"

lemma bindE_Inl [simp, result_simps]: "bindE (Inl e) f = Inl e"
  by (simp add: bindE_def)

lemma bindE_Inr [simp, result_simps]: "bindE (Inr a) f = f a"
  by (simp add: bindE_def)

lemma bindE_eq_Inr [result_simps]:
  "bindE m f = Inr b \<longleftrightarrow> (\<exists>a. m = Inr a \<and> f a = Inr b)"
  by (cases m) auto

lemma bindE_eq_Inl [result_simps]:
  "bindE m f = Inl e \<longleftrightarrow> m = Inl e \<or> (\<exists>a. m = Inr a \<and> f a = Inl e)"
  by (cases m) auto

definition ensure :: "bool \<Rightarrow> 'e \<Rightarrow> 'e + unit" where
  "ensure b e = (if b then Inr () else Inl e)"

lemma ensure_eq_Inr [simp, result_simps]: "ensure b e = Inr u \<longleftrightarrow> b"
  by (simp add: ensure_def)

lemma ensure_eq_Inl [simp, result_simps]: "ensure b e = Inl e' \<longleftrightarrow> \<not> b \<and> e' = e"
  by (auto simp: ensure_def)

lemma ensure_True [simp]: "ensure True e = Inr ()"
  by (simp add: ensure_def)

lemma ensure_False [simp]: "ensure False e = Inl e"
  by (simp add: ensure_def)

fun mapE :: "('a \<Rightarrow> 'e + 'b) \<Rightarrow> 'a list \<Rightarrow> 'e + 'b list" where
  "mapE f [] = Inr []"
| "mapE f (x # xs) = bindE (f x) (\<lambda>y. bindE (mapE f xs) (\<lambda>ys. Inr (y # ys)))"

fun foldE :: "('s \<Rightarrow> 'a \<Rightarrow> 'e + 's) \<Rightarrow> 's \<Rightarrow> 'a list \<Rightarrow> 'e + 's" where
  "foldE f s [] = Inr s"
| "foldE f s (x # xs) = bindE (f s x) (\<lambda>s'. foldE f s' xs)"

lemma mapE_eq_Inr: "mapE f xs = Inr ys \<longleftrightarrow> list_all2 (\<lambda>x y. f x = Inr y) xs ys"
proof (induction xs arbitrary: ys)
  case Nil
  then show ?case by auto
next
  case (Cons x xs)
  then show ?case by (cases ys) (auto simp: result_simps)
qed

lemma mapE_length: "mapE f xs = Inr ys \<Longrightarrow> length ys = length xs"
  by (auto simp: mapE_eq_Inr dest: list_all2_lengthD)

lemma foldE_append: "foldE f s (xs @ ys) = bindE (foldE f s xs) (\<lambda>s'. foldE f s' ys)"
proof (induction xs arbitrary: s)
  case (Cons x xs)
  then show ?case by (cases "f s x") auto
qed simp

lemma foldE_snoc: "foldE f s (xs @ [x]) = bindE (foldE f s xs) (\<lambda>s'. f s' x)"
proof -
  have "bindE (f t x) Inr = f t x" for t
    by (cases "f t x") auto
  then show ?thesis by (simp add: foldE_append)
qed

lemma foldE_invariant:
  assumes "\<And>s x s'. I s \<Longrightarrow> x \<in> set xs \<Longrightarrow> f s x = Inr s' \<Longrightarrow> I s'"
    and "I s" and "foldE f s xs = Inr t"
  shows "I t"
  using assms
proof (induction xs arbitrary: s)
  case (Cons x xs)
  from Cons.prems(3) obtain u where u: "f s x = Inr u" "foldE f u xs = Inr t"
    by (auto simp: result_simps)
  have "I u"
    using Cons.prems(1)[OF Cons.prems(2) _ u(1)] by simp
  moreover have "I s'" if "I s" "y \<in> set xs" "f s y = Inr s'" for s y s'
    using Cons.prems(1)[OF that(1) _ that(3)] that(2) by simp
  ultimately show ?case
    using Cons.IH u(2) by blast
qed simp

subsection \<open>Searching an array\<close>

fun findFirst :: "('a \<Rightarrow> bool) \<Rightarrow> 'a list \<Rightarrow> 'a option" where
  "findFirst p [] = None"
| "findFirst p (x # xs) = (if p x then Some x else findFirst p xs)"

definition findLast :: "('a \<Rightarrow> bool) \<Rightarrow> 'a list \<Rightarrow> 'a option" where
  "findLast p xs = findFirst p (rev xs)"

lemma findFirst_None: "findFirst p xs = None \<longleftrightarrow> (\<forall>x\<in>set xs. \<not> p x)"
  by (induction xs) auto

lemma findFirst_SomeD: "findFirst p xs = Some x \<Longrightarrow> x \<in> set xs \<and> p x"
  by (induction xs) (auto split: if_splits)

lemma findFirst_append:
  "findFirst p (xs @ ys) = (case findFirst p xs of None \<Rightarrow> findFirst p ys | Some x \<Rightarrow> Some x)"
  by (induction xs) auto

lemma findFirst_cong:
  "(\<And>x. x \<in> set xs \<Longrightarrow> p x = q x) \<Longrightarrow> findFirst p xs = findFirst q xs"
  by (induction xs) auto

lemma findLast_None: "findLast p xs = None \<longleftrightarrow> (\<forall>x\<in>set xs. \<not> p x)"
  by (simp add: findLast_def findFirst_None)

lemma findLast_SomeD: "findLast p xs = Some x \<Longrightarrow> x \<in> set xs \<and> p x"
  by (auto simp: findLast_def dest: findFirst_SomeD)

lemma findLast_snoc: "findLast p (xs @ [x]) = (if p x then Some x else findLast p xs)"
  by (simp add: findLast_def)

lemma findFirst_distinct:
  assumes "distinct (map k xs)" "x \<in> set xs"
  shows "findFirst (\<lambda>y. k y = k x) xs = Some x"
  using assms by (induction xs) (auto simp: image_iff)

subsection \<open>Replacing the first match or appending\<close>

text \<open>
  \<open>entities.findIndex(p)\<close> followed by either \<open>[...entities, x]\<close> or a \<open>map\<close> that replaces the
  element at the index found.
\<close>

fun upsertBy :: "('a \<Rightarrow> bool) \<Rightarrow> 'a \<Rightarrow> 'a list \<Rightarrow> 'a list" where
  "upsertBy p x [] = [x]"
| "upsertBy p x (y # ys) = (if p y then x # ys else y # upsertBy p x ys)"

lemma set_upsertBy: "set (upsertBy p x ys) \<subseteq> insert x (set ys)"
  by (induction ys) auto

lemma upsertBy_mem: "x \<in> set (upsertBy p x ys)"
  by (induction ys) auto

lemma upsertBy_all:
  "P x \<Longrightarrow> (\<And>y. y \<in> set ys \<Longrightarrow> P y) \<Longrightarrow> y \<in> set (upsertBy p x ys) \<Longrightarrow> P y"
  using set_upsertBy[of p x ys] by blast

lemma map_upsertBy:
  "map k (upsertBy (\<lambda>y. k y = k x) x ys) =
     (if k x \<in> k ` set ys then map k ys else map k ys @ [k x])"
  by (induction ys) auto

lemma distinct_upsertBy [upsert_simps]:
  "distinct (map k ys) \<Longrightarrow> distinct (map k (upsertBy (\<lambda>y. k y = k x) x ys))"
  by (simp add: map_upsertBy)

lemma findFirst_upsertBy_same [upsert_simps]:
  "findFirst (\<lambda>y. k y = k x) (upsertBy (\<lambda>y. k y = k x) x ys) = Some x"
  by (induction ys) auto

lemma findFirst_upsertBy_other [upsert_simps]:
  "a \<noteq> k x \<Longrightarrow>
     findFirst (\<lambda>y. k y = a) (upsertBy (\<lambda>y. k y = k x) x ys) = findFirst (\<lambda>y. k y = a) ys"
  by (induction ys) auto

lemma upsertBy_idem:
  "p x \<Longrightarrow> upsertBy p x (upsertBy p x ys) = upsertBy p x ys"
  by (induction ys) auto

lemma length_upsertBy: "length ys \<le> length (upsertBy p x ys)"
  by (induction ys) auto

end
