(* ===== verification/JsLib.thy ===== *)
theory JsLib
  imports Prelude
begin

section \<open>The part of the JavaScript library the program uses: strings, numbers, JSON text\<close>

text \<open>
  A JavaScript string is a sequence of code units. The model takes the code units below 256, one
  \<open>char\<close> each, so that \<open>length\<close> and comparison count code units as the program does. \<open>trim\<close> and
  \<open>/\s/u\<close> remove or find the white space of that range. A number is an integer or a decimal
  fraction written by its shortest digits, which is what \<open>JSON.stringify\<close> prints; not-a-number and
  the infinities are kept for the checks that reject them. A value is a JSON tree in which an
  absent property is \<open>JUndefined\<close>. Two serialisers of the program work on such values: both print
  objects with sorted keys and drop undefined properties, one with the order of code units (the
  domain package), one with \<open>localeCompare\<close> (the application package).
\<close>

subsection \<open>Characters and white space\<close>

definition codeUnit :: "char \<Rightarrow> nat" where
  "codeUnit c = of_char c"

lemma codeUnit_inj [simp]: "codeUnit c = codeUnit d \<longleftrightarrow> c = d"
  by (simp add: codeUnit_def)

definition isWhitespace :: "char \<Rightarrow> bool" where
  "isWhitespace c \<longleftrightarrow> codeUnit c \<in> {9, 10, 11, 12, 13, 32, 160}"

definition trim :: "string \<Rightarrow> string" where
  "trim s = rev (dropWhile isWhitespace (rev (dropWhile isWhitespace s)))"

definition hasWhitespace :: "string \<Rightarrow> bool" where
  "hasWhitespace s \<longleftrightarrow> list_ex isWhitespace s"

lemma dropWhile_fixed: "dropWhile p xs = xs \<longleftrightarrow> xs = [] \<or> \<not> p (hd xs)"
proof (cases xs)
  case (Cons a list)
  have "length (dropWhile p list) \<noteq> length (a # list)"
    using length_dropWhile_le[of p list] by simp
  then have "dropWhile p list \<noteq> a # list" by metis
  with Cons show ?thesis by auto
qed simp

lemma trim_ends:
  "trim s \<noteq> [] \<Longrightarrow> \<not> isWhitespace (hd (trim s)) \<and> \<not> isWhitespace (last (trim s))"
proof -
  assume ne: "trim s \<noteq> []"
  let ?a = "dropWhile isWhitespace s"
  let ?b = "dropWhile isWhitespace (rev ?a)"
  from ne have b: "?b \<noteq> []" by (simp add: trim_def)
  have last: "\<not> isWhitespace (last (trim s))"
    using hd_dropWhile[OF b] by (simp add: trim_def last_rev)
  obtain pre where pre: "rev ?a = pre @ ?b"
    by (metis takeWhile_dropWhile_id)
  then have "?a = rev ?b @ rev pre"
    by (metis rev_append rev_rev_ident)
  then have "?a = trim s @ rev pre" by (simp add: trim_def)
  with ne have "hd ?a = hd (trim s)" "?a \<noteq> []"
    by (metis hd_append2, metis append_is_Nil_conv)
  then have "\<not> isWhitespace (hd (trim s))"
    using hd_dropWhile[of isWhitespace s] by simp
  with last show ?thesis by simp
qed

lemma trim_fixed:
  assumes "s = [] \<or> \<not> isWhitespace (hd s) \<and> \<not> isWhitespace (last s)"
  shows "trim s = s"
proof (cases "s = []")
  case False
  then have "dropWhile isWhitespace s = s" "dropWhile isWhitespace (rev s) = rev s"
    using assms by (simp_all add: dropWhile_fixed hd_rev)
  then show ?thesis by (simp add: trim_def)
qed (simp add: trim_def)

lemma trim_trim [simp]: "trim (trim s) = trim s"
  using trim_ends[of s] trim_fixed[of "trim s"] by blast

lemma trim_Nil [simp]: "trim [] = []"
  by (simp add: trim_def)

lemma trim_no_whitespace: "\<not> hasWhitespace s \<Longrightarrow> trim s = s"
  by (rule trim_fixed) (auto simp: hasWhitespace_def list_ex_iff)

lemma length_trim: "length (trim s) \<le> length s"
  unfolding trim_def
  by (metis length_dropWhile_le length_rev order_trans)

subsection \<open>String order\<close>

fun stringLess :: "string \<Rightarrow> string \<Rightarrow> bool" where
  "stringLess _ [] = False"
| "stringLess [] (_ # _) = True"
| "stringLess (a # as) (b # bs) =
     (if codeUnit a < codeUnit b then True
      else if codeUnit b < codeUnit a then False else stringLess as bs)"

text \<open>
  \<open>localeCompare\<close> on the property names of the program, which are ASCII letters: letters compare
  without case first, and a lower-case letter precedes its upper-case form.
\<close>

definition isUpper :: "char \<Rightarrow> bool" where
  "isUpper c \<longleftrightarrow> 65 \<le> codeUnit c \<and> codeUnit c \<le> 90"

definition lowerCase :: "char \<Rightarrow> char" where
  "lowerCase c = (if isUpper c then char_of (codeUnit c + 32) else c)"

definition localeLess :: "string \<Rightarrow> string \<Rightarrow> bool" where
  "localeLess a b =
     (if map lowerCase a = map lowerCase b
      then stringLess (map (\<lambda>c. if isUpper c then CHR ''1'' else CHR ''0'') a)
                      (map (\<lambda>c. if isUpper c then CHR ''1'' else CHR ''0'') b)
      else stringLess (map lowerCase a) (map lowerCase b))"

lemma stringLess_irrefl [simp]: "\<not> stringLess a a"
  by (induction a) auto

lemma stringLess_asym: "stringLess a b \<Longrightarrow> \<not> stringLess b a"
  by (induction a b rule: stringLess.induct) (auto split: if_splits)

lemma stringLess_total: "stringLess a b \<or> a = b \<or> stringLess b a"
proof (induction a b rule: stringLess.induct)
  case (3 a as b bs)
  then show ?case by (cases "codeUnit a" "codeUnit b" rule: linorder_cases) auto
next
  case (1 a)
  then show ?case by (cases a) auto
qed simp

lemma stringLess_trans: "stringLess a b \<Longrightarrow> stringLess b c \<Longrightarrow> stringLess a c"
proof (induction a b arbitrary: c rule: stringLess.induct)
  case (2 b bs)
  then show ?case by (cases c) auto
next
  case (3 a as b bs)
  then show ?case by (cases c) (auto split: if_splits)
qed simp

subsection \<open>Numbers\<close>

text \<open>
  \<open>Frac m s\<close> is the number \<open>m / 10^s\<close> that is no integer, with \<open>s > 0\<close> and the last digit of \<open>m\<close> not
  zero. Integers are the safe integers of the program, all below \<open>10^21\<close>, where the printed form
  has no exponent.
\<close>

datatype js_number = NaN | PosInfinity | NegInfinity | IntNum int | Frac int nat

definition MAX_SAFE_INTEGER :: int where
  "MAX_SAFE_INTEGER = 9007199254740991"

definition isSafeInteger :: "int \<Rightarrow> bool" where
  "isSafeInteger n \<longleftrightarrow> - MAX_SAFE_INTEGER \<le> n \<and> n \<le> MAX_SAFE_INTEGER"

fun isFinite :: "js_number \<Rightarrow> bool" where
  "isFinite (IntNum _) = True"
| "isFinite (Frac _ _) = True"
| "isFinite _ = False"

fun numberLessInt :: "js_number \<Rightarrow> int \<Rightarrow> bool" where
  "numberLessInt (IntNum m) k = (m < k)"
| "numberLessInt (Frac m s) k = (m < k * 10 ^ s)"
| "numberLessInt NegInfinity k = True"
| "numberLessInt _ k = False"

fun numberGreaterInt :: "js_number \<Rightarrow> int \<Rightarrow> bool" where
  "numberGreaterInt (IntNum m) k = (m > k)"
| "numberGreaterInt (Frac m s) k = (m > k * 10 ^ s)"
| "numberGreaterInt PosInfinity k = True"
| "numberGreaterInt _ k = False"

definition digitChar :: "nat \<Rightarrow> char" where
  "digitChar d = char_of (48 + d)"

fun natString :: "nat \<Rightarrow> string" where
  "natString n = (if n < 10 then [digitChar n] else natString (n div 10) @ [digitChar (n mod 10)])"

declare natString.simps [simp del]

definition intString :: "int \<Rightarrow> string" where
  "intString n = (if n < 0 then ''-'' @ natString (nat (- n)) else natString (nat n))"

definition fracString :: "int \<Rightarrow> nat \<Rightarrow> string" where
  "fracString m s =
     (let ds = natString (nat \<bar>m\<bar>); sign = (if m < 0 then ''-'' else '''');
          n = int (length ds) - int s in
      if 0 < n then sign @ take (nat n) ds @ ''.'' @ drop (nat n) ds
      else if - 6 < n then sign @ ''0.'' @ replicate (nat (- n)) (CHR ''0'') @ ds
      else sign @ take 1 ds @ (if length ds = 1 then '''' else ''.'' @ drop 1 ds)
           @ ''e-'' @ natString (nat (1 - n)))"

fun numberString :: "js_number \<Rightarrow> string" where
  "numberString (IntNum n) = intString n"
| "numberString (Frac m s) = fracString m s"
| "numberString _ = ''null''"

subsection \<open>JSON text\<close>

definition hexDigit :: "nat \<Rightarrow> char" where
  "hexDigit d = (if d < 10 then char_of (48 + d) else char_of (87 + d))"

definition escapeChar :: "char \<Rightarrow> string" where
  "escapeChar c =
     (let n = codeUnit c in
      if n = 34 then [CHR 92, CHR 34]
      else if n = 92 then [CHR 92, CHR 92]
      else if n = 8 then [CHR 92, CHR ''b'']
      else if n = 9 then [CHR 92, CHR ''t'']
      else if n = 10 then [CHR 92, CHR ''n'']
      else if n = 12 then [CHR 92, CHR ''f'']
      else if n = 13 then [CHR 92, CHR ''r'']
      else if n < 32 then [CHR 92, CHR ''u'', CHR ''0'', CHR ''0'', hexDigit (n div 16), hexDigit (n mod 16)]
      else [c])"

definition jsonString :: "string \<Rightarrow> string" where
  "jsonString s = [CHR 34] @ concat (map escapeChar s) @ [CHR 34]"

datatype js_value =
    JNull
  | JUndefined
  | JBool bool
  | JNum js_number
  | JStr string
  | JArr "js_value list"
  | JObj "(string \<times> js_value) list"

fun joinWith :: "string \<Rightarrow> string list \<Rightarrow> string" where
  "joinWith sep [] = ''''"
| "joinWith sep [x] = x"
| "joinWith sep (x # y # xs) = x @ sep @ joinWith sep (y # xs)"

fun insertEntry :: "(string \<Rightarrow> string \<Rightarrow> bool) \<Rightarrow> string \<times> 'a \<Rightarrow> (string \<times> 'a) list \<Rightarrow> (string \<times> 'a) list" where
  "insertEntry lt e [] = [e]"
| "insertEntry lt e (f # fs) = (if lt (fst f) (fst e) then f # insertEntry lt e fs else e # f # fs)"

definition sortEntries :: "(string \<Rightarrow> string \<Rightarrow> bool) \<Rightarrow> (string \<times> 'a) list \<Rightarrow> (string \<times> 'a) list" where
  "sortEntries lt es = foldr (insertEntry lt) es []"

lemma set_insertEntry [simp]: "set (insertEntry lt e fs) = insert e (set fs)"
  by (induction fs) auto

lemma set_sortEntries [simp]: "set (sortEntries lt es) = set es"
  by (induction es) (auto simp: sortEntries_def)

lemma js_entry_size: "e \<in> set es \<Longrightarrow> size (snd e) < size (JObj es)"
  by (induction es) auto

lemma js_element_size: "v \<in> set vs \<Longrightarrow> size v < size (JArr vs)"
  by (induction vs) auto

definition definedEntries :: "(string \<times> js_value) list \<Rightarrow> (string \<times> js_value) list" where
  "definedEntries es = filter (\<lambda>e. snd e \<noteq> JUndefined) es"

text \<open>
  \<open>stableSerialize(undefined)\<close> is the value undefined, which \<open>Array.join\<close> prints as nothing.
\<close>

function stableSerialize :: "(string \<Rightarrow> string \<Rightarrow> bool) \<Rightarrow> js_value \<Rightarrow> string" where
  "stableSerialize lt JNull = ''null''"
| "stableSerialize lt JUndefined = ''''"
| "stableSerialize lt (JBool b) = (if b then ''true'' else ''false'')"
| "stableSerialize lt (JNum n) = numberString n"
| "stableSerialize lt (JStr s) = jsonString s"
| "stableSerialize lt (JArr vs) = ''['' @ joinWith '','' (map (stableSerialize lt) vs) @ '']''"
| "stableSerialize lt (JObj es) =
     ''{'' @ joinWith '',''
        (map (\<lambda>e. jsonString (fst e) @ '':'' @ stableSerialize lt (snd e))
           (sortEntries lt (definedEntries es))) @ ''}''"
  by pat_completeness auto
termination
  by (relation "measure (\<lambda>(lt, v). size v)")
    (auto simp: definedEntries_def dest: js_entry_size js_element_size)

definition domainSerialize :: "js_value \<Rightarrow> string" where
  "domainSerialize v = stableSerialize stringLess v"

definition localeSerialize :: "js_value \<Rightarrow> string" where
  "localeSerialize v = stableSerialize localeLess v"

text \<open>\<open>JSON.stringify\<close> keeps the insertion order of properties and prints undefined elements as null.\<close>

function jsonStringify :: "js_value \<Rightarrow> string" where
  "jsonStringify JNull = ''null''"
| "jsonStringify JUndefined = ''null''"
| "jsonStringify (JBool b) = (if b then ''true'' else ''false'')"
| "jsonStringify (JNum n) = numberString n"
| "jsonStringify (JStr s) = jsonString s"
| "jsonStringify (JArr vs) = ''['' @ joinWith '','' (map jsonStringify vs) @ '']''"
| "jsonStringify (JObj es) =
     ''{'' @ joinWith '',''
        (map (\<lambda>e. jsonString (fst e) @ '':'' @ jsonStringify (snd e)) (definedEntries es)) @ ''}''"
  by pat_completeness auto
termination
  by (relation "measure size") (auto simp: definedEntries_def dest: js_entry_size js_element_size)

definition jsOption :: "('a \<Rightarrow> js_value) \<Rightarrow> 'a option \<Rightarrow> js_value" where
  "jsOption f x = (case x of None \<Rightarrow> JUndefined | Some a \<Rightarrow> f a)"

abbreviation jsStrings :: "string list \<Rightarrow> js_value" where
  "jsStrings xs \<equiv> JArr (map JStr xs)"

end
