(* ===== verification/Authorization.thy ===== *)
theory Authorization
  imports JsLib
begin

section \<open>Authorization: \<open>packages/application/src/authorization.ts\<close>\<close>

text \<open>
  The capabilities, the context of a user or of a shared display, and the check that every command
  makes first: the meeting, then the owner scope, then the capability.
\<close>

datatype permission =
    MeetingRead | PrivateReadOwn | ArtifactCreateOwn | DisclosureProposeOwn | DisclosureApproveOwn
  | DecisionCommit | DecisionReviewConfirm | DemoEventInject | DemoReset | ByokConfigure
  | JudgeManagedAi

datatype contextRole = FacilitatorRole | PlainParticipantRole

record userContext =
  uctCapabilities :: "permission list"
  uctMeetingId :: string
  uctParticipantId :: string
  uctRole :: contextRole
  uctSessionId :: string
  uctUserId :: string

record displayContext =
  dctCapabilities :: "permission list"
  dctDisplayTokenId :: string
  dctMeetingId :: string

datatype authorizationContext = UserContext userContext | DisplayContext displayContext

record authorizationRequest =
  areCapability :: permission
  areMeetingId :: string
  areOwnerParticipantId :: "string option"

datatype authorizationResult =
    Authorized | AuthForbidden | AuthMeetingScopeMismatch | AuthOwnerScopeMismatch

fun contextMeetingId :: "authorizationContext \<Rightarrow> string" where
  "contextMeetingId (UserContext u) = uctMeetingId u"
| "contextMeetingId (DisplayContext d) = dctMeetingId d"

fun contextCapabilities :: "authorizationContext \<Rightarrow> permission list" where
  "contextCapabilities (UserContext u) = uctCapabilities u"
| "contextCapabilities (DisplayContext d) = dctCapabilities d"

fun isOwner :: "authorizationContext \<Rightarrow> string \<Rightarrow> bool" where
  "isOwner (UserContext u) owner = (uctParticipantId u = owner)"
| "isOwner (DisplayContext d) owner = False"

definition authorize :: "authorizationContext \<Rightarrow> authorizationRequest \<Rightarrow> authorizationResult" where
  "authorize context request =
     (if contextMeetingId context \<noteq> areMeetingId request then AuthMeetingScopeMismatch
      else if (case areOwnerParticipantId request of
                 None \<Rightarrow> False | Some owner \<Rightarrow> \<not> isOwner context owner) then AuthOwnerScopeMismatch
      else if \<not> List.member (contextCapabilities context) (areCapability request) then AuthForbidden
      else Authorized)"

lemma authorize_Authorized:
  "authorize context request = Authorized \<longleftrightarrow>
     contextMeetingId context = areMeetingId request \<and>
     (\<forall>owner. areOwnerParticipantId request = Some owner \<longrightarrow> isOwner context owner) \<and>
     areCapability request \<in> set (contextCapabilities context)"
  by (auto simp: authorize_def split: option.splits)

text \<open>The check that a command of a user makes, without an owner scope.\<close>

definition mayUse :: "userContext \<Rightarrow> permission \<Rightarrow> string \<Rightarrow> bool" where
  "mayUse context capability m \<longleftrightarrow>
     authorize (UserContext context)
       \<lparr>areCapability = capability, areMeetingId = m, areOwnerParticipantId = None\<rparr> = Authorized"

lemma mayUse_iff:
  "mayUse context capability m \<longleftrightarrow> uctMeetingId context = m \<and> capability \<in> set (uctCapabilities context)"
  by (simp add: mayUse_def authorize_Authorized)

end
