(* ===== verification/JsDate.thy ===== *)
theory JsDate
  imports JsLib
begin

section \<open>Dates: \<open>Date.parse\<close> and \<open>toISOString\<close> on canonical timestamps\<close>

text \<open>
  A time value is a number of milliseconds since 1970. \<open>isoString\<close> is \<open>Date.prototype.toISOString\<close>
  and \<open>dateParse\<close> is \<open>Date.parse\<close> on the strings that \<open>toISOString\<close> prints, with the proleptic
  Gregorian calendar and the years outside 0--9999 in their signed six-digit form. On every other
  string \<open>dateParse\<close> is \<open>None\<close> (not a number); the only check of the program for which another
  parse matters, \<open>timestamp\<close>, rejects those strings anyway because it prints the time again and
  compares. The lemma \<open>dateParse_isoString\<close> is the round trip.
\<close>

subsection \<open>The calendar\<close>

definition isLeapYear :: "int \<Rightarrow> bool" where
  "isLeapYear y \<longleftrightarrow> y mod 4 = 0 \<and> (y mod 100 \<noteq> 0 \<or> y mod 400 = 0)"

definition monthLengths :: "int \<Rightarrow> int list" where
  "monthLengths y = [31, if isLeapYear y then 29 else 28, 31, 30, 31, 30, 31, 31, 30, 31, 30, 31]"

text \<open>Days from the first of January of year 0 to the first of January of year \<open>y\<close>.\<close>

definition daysBeforeYear :: "int \<Rightarrow> int" where
  "daysBeforeYear y = 365 * y + (y + 3) div 4 - (y + 99) div 100 + (y + 399) div 400"

definition EPOCH_DAY :: int where
  "EPOCH_DAY = 719528"

definition yearOfDay :: "int \<Rightarrow> int" where
  "yearOfDay d =
     (let y = (400 * d) div 146097 in
      if d < daysBeforeYear y then y - 1
      else if daysBeforeYear (y + 1) \<le> d then y + 1 else y)"

fun monthOfDay :: "int list \<Rightarrow> nat \<Rightarrow> int \<Rightarrow> nat \<times> int" where
  "monthOfDay [] m d = (m, d)"
| "monthOfDay (l # ls) m d = (if d < l then (m, d) else monthOfDay ls (m + 1) (d - l))"

lemma div_shift:
  fixes y n :: int
  assumes "0 < n"
  shows "(y + n) div n = (y + (n - 1)) div n + (if y mod n = 0 then 1 else 0)"
proof -
  have r: "0 \<le> y mod n" "y mod n < n" using assms by simp_all
  have "(y + (n - 1)) div n = y div n + (y mod n + (n - 1)) div n"
    using assms div_mult_self2[of n "y mod n + (n - 1)" "y div n"]
    by (metis add.assoc div_mult_self2 mult_div_mod_eq add.commute less_irrefl)
  also have "(y mod n + (n - 1)) div n = (if y mod n = 0 then 0 else 1)"
  proof (cases "y mod n = 0")
    case True
    with assms show ?thesis by simp
  next
    case False
    with r have "0 < y mod n" by simp
    then have "(y mod n + (n - 1)) div n = ((y mod n - 1) + n) div n" by (simp add: algebra_simps)
    also have "\<dots> = (y mod n - 1) div n + 1" using div_add_self2[of n "y mod n - 1"] assms by simp
    also have "(y mod n - 1) div n = 0" using r \<open>0 < y mod n\<close> by simp
    finally show ?thesis using False by simp
  qed
  finally show ?thesis using assms div_add_self2[of n y] by simp
qed

lemma ceiling_bounds:
  fixes y n :: int
  assumes "0 < n"
  shows "n * ((y + (n - 1)) div n) \<le> y + (n - 1)" "y \<le> n * ((y + (n - 1)) div n)"
proof -
  have "y + (n - 1) = n * ((y + (n - 1)) div n) + (y + (n - 1)) mod n" by simp
  moreover have "0 \<le> (y + (n - 1)) mod n" "(y + (n - 1)) mod n < n" using assms by simp_all
  ultimately show "n * ((y + (n - 1)) div n) \<le> y + (n - 1)" "y \<le> n * ((y + (n - 1)) div n)"
    by linarith+
qed

lemma leap_mods:
  fixes y :: int
  shows "y mod 400 = 0 \<Longrightarrow> y mod 100 = 0" "y mod 100 = 0 \<Longrightarrow> y mod 4 = 0"
proof -
  have "(4::int) dvd 100" "(100::int) dvd 400" by simp_all
  then show "y mod 400 = 0 \<Longrightarrow> y mod 100 = 0" "y mod 100 = 0 \<Longrightarrow> y mod 4 = 0"
    by (metis dvd_trans mod_0_imp_dvd dvd_imp_mod_0)+
qed

lemma sum_monthLengths:
  "sum_list (monthLengths y) = 365 + (if y mod 4 = 0 then 1 else 0)
     - (if y mod 100 = 0 then 1 else 0) + (if y mod 400 = 0 then 1 else 0)"
proof -
  consider "y mod 400 = 0" "y mod 100 = 0" "y mod 4 = 0" | "y mod 400 \<noteq> 0" "y mod 100 = 0" "y mod 4 = 0"
    | "y mod 400 \<noteq> 0" "y mod 100 \<noteq> 0" "y mod 4 = 0" | "y mod 400 \<noteq> 0" "y mod 100 \<noteq> 0" "y mod 4 \<noteq> 0"
    using leap_mods[of y] by argo
  then show ?thesis
    by cases (simp_all add: monthLengths_def isLeapYear_def)
qed

lemma daysBeforeYear_step:
  "daysBeforeYear (y + 1) = daysBeforeYear y + sum_list (monthLengths y)"
proof -
  define a b c :: int where "a = (if y mod 4 = 0 then 1 else 0)"
    and "b = (if y mod 100 = 0 then 1 else 0)" and "c = (if y mod 400 = 0 then 1 else 0)"
  have "(y + 1 + 3) div 4 = (y + 3) div 4 + a" "(y + 1 + 99) div 100 = (y + 99) div 100 + b"
       "(y + 1 + 399) div 400 = (y + 399) div 400 + c"
    using div_shift[of 4 y] div_shift[of 100 y] div_shift[of 400 y]
    by (simp_all add: add.assoc a_def[symmetric] b_def[symmetric] c_def[symmetric] del: if_split)
  moreover have "sum_list (monthLengths y) = 365 + a - b + c"
    unfolding sum_monthLengths a_def b_def c_def ..
  moreover have "365 * (y + 1) = 365 * y + 365" by simp
  ultimately show ?thesis
    unfolding daysBeforeYear_def by linarith
qed

lemma daysBeforeYear_bounds:
  "146097 * y - 400 \<le> 400 * daysBeforeYear y" "400 * daysBeforeYear y \<le> 146097 * y + 700"
  using ceiling_bounds[of 4 y] ceiling_bounds[of 100 y] ceiling_bounds[of 400 y]
  unfolding daysBeforeYear_def by simp_all

lemma yearOfDay_bounds:
  "daysBeforeYear (yearOfDay d) \<le> d \<and> d < daysBeforeYear (yearOfDay d + 1)"
proof -
  define y where "y = (400 * d) div 146097"
  have "400 * d = 146097 * y + (400 * d) mod 146097" unfolding y_def by simp
  moreover have "0 \<le> (400 * d) mod 146097" "(400 * d) mod 146097 < 146097" by simp_all
  ultimately have y: "146097 * y \<le> 400 * d" "400 * d < 146097 * y + 146097" by linarith+
  have "daysBeforeYear (y - 1) \<le> d"
    using daysBeforeYear_bounds(2)[of "y - 1"] y by simp
  moreover have "d < daysBeforeYear (y + 2)"
    using daysBeforeYear_bounds(1)[of "y + 2"] y by simp
  ultimately show ?thesis
    unfolding yearOfDay_def Let_def y_def[symmetric] by (auto simp: add.assoc)
qed

lemma monthOfDay_correct:
  assumes "0 \<le> d" "d < sum_list ls" "monthOfDay ls m d = (m', d')"
  shows "m \<le> m' \<and> m' < m + length ls \<and> 0 \<le> d' \<and> d' < ls ! (m' - m) \<and>
         sum_list (take (m' - m) ls) + d' = d"
  using assms
proof (induction ls m d rule: monthOfDay.induct)
  case (2 l ls m d)
  show ?case
  proof (cases "d < l")
    case False
    with "2.prems" have "monthOfDay ls (m + 1) (d - l) = (m', d')" by simp
    with "2.IH"[OF False] "2.prems" False
    have "Suc m \<le> m'" "m' < Suc m + length ls" "0 \<le> d'" "d' < ls ! (m' - Suc m)"
      "sum_list (take (m' - Suc m) ls) + d' = d - l"
      by auto
    moreover from \<open>Suc m \<le> m'\<close> have "m' - m = Suc (m' - Suc m)" by simp
    ultimately show ?thesis by simp
  qed (use "2.prems" in auto)
qed simp

subsection \<open>Digits\<close>

fun digitsN :: "nat \<Rightarrow> nat \<Rightarrow> string" where
  "digitsN 0 n = []"
| "digitsN (Suc k) n = digitsN k (n div 10) @ [digitChar (n mod 10)]"

definition digitValue :: "char \<Rightarrow> nat option" where
  "digitValue c =
     (if 48 \<le> codeUnit c \<and> codeUnit c \<le> 57 then Some (codeUnit c - 48) else None)"

fun parseDigits :: "nat \<Rightarrow> string \<Rightarrow> nat option" where
  "parseDigits acc [] = Some acc"
| "parseDigits acc (c # cs) =
     (case digitValue c of None \<Rightarrow> None | Some d \<Rightarrow> parseDigits (10 * acc + d) cs)"

lemma codeUnit_digitChar: "d < 10 \<Longrightarrow> codeUnit (digitChar d) = 48 + d"
  by (simp add: codeUnit_def digitChar_def of_char_of)

lemma digitValue_digitChar [simp]: "d < 10 \<Longrightarrow> digitValue (digitChar d) = Some d"
  by (simp add: digitValue_def codeUnit_digitChar)

lemma length_digitsN [simp]: "length (digitsN k n) = k"
  by (induction k arbitrary: n) auto

lemma parseDigits_append:
  "parseDigits acc (xs @ ys) =
     (case parseDigits acc xs of None \<Rightarrow> None | Some a \<Rightarrow> parseDigits a ys)"
  by (induction acc xs rule: parseDigits.induct) (auto split: option.splits)

lemma parseDigits_digitsN: "n < 10 ^ k \<Longrightarrow> parseDigits 0 (digitsN k n) = Some n"
proof (induction k arbitrary: n)
  case (Suc k)
  then have "parseDigits 0 (digitsN k (n div 10)) = Some (n div 10)"
    by (simp add: less_mult_imp_div_less mult.commute)
  then show ?case by (simp add: parseDigits_append)
qed simp

subsection \<open>Printing and parsing\<close>

definition MS_PER_DAY :: int where
  "MS_PER_DAY = 86400000"

definition MAX_TIME :: int where
  "MAX_TIME = 8640000000000000"

definition yearString :: "int \<Rightarrow> string" where
  "yearString y =
     (if 0 \<le> y \<and> y \<le> 9999 then digitsN 4 (nat y)
      else if y < 0 then ''-'' @ digitsN 6 (nat (- y)) else ''+'' @ digitsN 6 (nat y))"

definition isoString :: "int \<Rightarrow> string" where
  "isoString ms =
     (let d = ms div MS_PER_DAY + EPOCH_DAY; t = nat (ms mod MS_PER_DAY);
          y = yearOfDay d; (m, dd) = monthOfDay (monthLengths y) 0 (d - daysBeforeYear y) in
      yearString y @ ''-'' @ digitsN 2 (m + 1) @ ''-'' @ digitsN 2 (nat dd + 1) @ ''T'' @
      digitsN 2 (t div 3600000) @ '':'' @ digitsN 2 (t div 60000 mod 60) @ '':'' @
      digitsN 2 (t div 1000 mod 60) @ ''.'' @ digitsN 3 (t mod 1000) @ ''Z'')"

fun parseYear :: "string \<Rightarrow> (int \<times> string) option" where
  "parseYear [] = None"
| "parseYear (c # cs) =
     (if c = CHR ''+'' then map_option (\<lambda>n. (int n, drop 6 cs)) (parseDigits 0 (take 6 cs))
      else if c = CHR ''-'' then map_option (\<lambda>n. (- int n, drop 6 cs)) (parseDigits 0 (take 6 cs))
      else map_option (\<lambda>n. (int n, drop 4 (c # cs))) (parseDigits 0 (take 4 (c # cs))))"

definition timeOfFields :: "int \<Rightarrow> nat \<Rightarrow> nat \<Rightarrow> nat \<Rightarrow> nat \<Rightarrow> nat \<Rightarrow> nat \<Rightarrow> int option" where
  "timeOfFields y mo dd h mi s ms =
     (if 1 \<le> mo \<and> mo \<le> 12 \<and> 1 \<le> dd \<and> int dd \<le> monthLengths y ! (mo - 1) \<and>
         h < 24 \<and> mi < 60 \<and> s < 60
      then let v = (daysBeforeYear y + sum_list (take (mo - 1) (monthLengths y)) + int dd - 1
                    - EPOCH_DAY) * MS_PER_DAY + int (3600000 * h + 60000 * mi + 1000 * s + ms)
           in if \<bar>v\<bar> \<le> MAX_TIME then Some v else None
      else None)"

definition fieldsOf :: "string \<Rightarrow> nat option list" where
  "fieldsOf r = map (\<lambda>(i, n). parseDigits 0 (take n (drop i r)))
                  [(1, 2), (4, 2), (7, 2), (10, 2), (13, 2), (16, 3)]"

definition separatorsOf :: "string \<Rightarrow> string" where
  "separatorsOf r = map (\<lambda>i. r ! i) [0, 3, 6, 9, 12, 15, 19]"

definition dateParse :: "string \<Rightarrow> int option" where
  "dateParse s =
     (case parseYear s of
        None \<Rightarrow> None
      | Some (y, r) \<Rightarrow>
          if length r = 20 \<and> separatorsOf r = ''--T::.Z'' then
            (case fieldsOf r of
               [Some mo, Some dd, Some h, Some mi, Some sec, Some ms] \<Rightarrow>
                 timeOfFields y mo dd h mi sec ms
             | _ \<Rightarrow> None)
          else None)"

lemma digitsN_head:
  assumes "digitsN (Suc k) n = c # cs"
  shows "c \<noteq> CHR ''+'' \<and> c \<noteq> CHR ''-''"
proof -
  have "\<exists>d < 10. c = digitChar d"
    using assms
  proof (induction k arbitrary: n cs)
    case (Suc k)
    obtain c' cs' where *: "digitsN (Suc k) (n div 10) = c' # cs'"
      by (cases "digitsN (Suc k) (n div 10)") (use length_digitsN[of "Suc k" "n div 10"] in auto)
    moreover from Suc.prems have "digitsN (Suc k) (n div 10) @ [digitChar (n mod 10)] = c # cs"
      by (metis digitsN.simps(2))
    ultimately have "c' = c" by simp
    with Suc.IH * show ?case by blast
  next
    case 0
    then show ?case by (intro exI[of _ "n mod 10"]) simp
  qed
  then have "48 \<le> codeUnit c" by (auto simp: codeUnit_digitChar)
  moreover have "codeUnit (CHR ''+'') = 43" "codeUnit (CHR ''-'') = 45"
    by (simp_all add: codeUnit_def)
  ultimately show ?thesis by auto
qed

lemma digitsN_4_head: "digitsN 4 n = c # cs \<Longrightarrow> c \<noteq> CHR ''+'' \<and> c \<noteq> CHR ''-''"
  using digitsN_head[of 3] by simp

lemma parseYear_yearString:
  assumes "\<bar>y\<bar> < 1000000"
  shows "parseYear (yearString y @ r) = Some (y, r)"
proof (cases "0 \<le> y \<and> y \<le> 9999")
  case True
  obtain c cs where c: "digitsN 4 (nat y) = c # cs"
    by (cases "digitsN 4 (nat y)") (use length_digitsN[of 4 "nat y"] in auto)
  have "length (c # cs) = 4" using length_digitsN[of 4 "nat y"] c by simp
  moreover have "nat y < 10 ^ 4" using True by (simp add: nat_less_iff)
  then have "parseDigits 0 (c # cs) = Some (nat y)"
    using parseDigits_digitsN[of "nat y" 4] c by simp
  ultimately show ?thesis
    using True digitsN_4_head[OF c] by (simp add: yearString_def c del: parseDigits.simps)
next
  case False
  then show ?thesis
    using assms parseDigits_digitsN[of "nat y" 6] parseDigits_digitsN[of "nat (- y)" 6]
    by (auto simp: yearString_def)
qed

lemma fieldsOf_print:
  assumes "r = ''-'' @ digitsN 2 a @ ''-'' @ digitsN 2 b @ ''T'' @ digitsN 2 c @ '':'' @
      digitsN 2 d @ '':'' @ digitsN 2 e @ ''.'' @ digitsN 3 f @ ''Z''"
    and "a < 100" "b < 100" "c < 100" "d < 100" "e < 100" "f < 1000"
  shows "length r = 20 \<and> separatorsOf r = ''--T::.Z'' \<and>
    fieldsOf r = [Some a, Some b, Some c, Some d, Some e, Some f]"
proof -
  have "parseDigits 0 (digitsN 2 n) = Some n" if "n < 100" for n
    using parseDigits_digitsN[of n 2] that by simp
  moreover have "parseDigits 0 (digitsN 3 n) = Some n" if "n < 1000" for n
    using parseDigits_digitsN[of n 3] that by simp
  moreover have "separatorsOf r = ''--T::.Z''"
    unfolding assms(1) separatorsOf_def by (simp add: nth_append)
  ultimately show ?thesis
    using assms by (simp add: fieldsOf_def)
qed

lemma yearOfDay_range:
  assumes "\<bar>d\<bar> \<le> 200000000"
  shows "\<bar>yearOfDay d\<bar> < 1000000"
proof -
  have "daysBeforeYear (yearOfDay d) \<le> d" "d < daysBeforeYear (yearOfDay d + 1)"
    using yearOfDay_bounds[of d] by simp_all
  then show ?thesis
    using daysBeforeYear_bounds(1)[of "yearOfDay d + 1"] daysBeforeYear_bounds(2)[of "yearOfDay d"]
      daysBeforeYear_bounds(1)[of "yearOfDay d"] daysBeforeYear_bounds(2)[of "yearOfDay d + 1"]
      assms by (simp add: algebra_simps)
qed

lemma monthLengths_le: "m < 12 \<Longrightarrow> monthLengths y ! m \<le> 31"
  unfolding monthLengths_def
  by (auto simp: nth_Cons' split: if_splits)

lemma clock_fields:
  "3600000 * (t div 3600000) + 60000 * (t div 60000 mod 60) + 1000 * (t div 1000 mod 60)
     + t mod 1000 = (t::nat)"
proof -
  have "t div 60000 div 60 = t div 3600000" "t div 1000 div 60 = t div 60000"
    by (simp_all add: div_mult2_eq[symmetric])
  then show ?thesis
    using div_mult_mod_eq[of "t div 60000" 60] div_mult_mod_eq[of "t div 1000" 60]
      div_mult_mod_eq[of t 1000] by linarith
qed

lemma dateParse_isoString:
  assumes "\<bar>ms\<bar> \<le> MAX_TIME"
  shows "dateParse (isoString ms) = Some ms"
proof -
  define d where "d = ms div MS_PER_DAY + EPOCH_DAY"
  define t where "t = nat (ms mod MS_PER_DAY)"
  define y where "y = yearOfDay d"
  obtain m dd where md: "monthOfDay (monthLengths y) 0 (d - daysBeforeYear y) = (m, dd)"
    by fastforce
  have t: "t < 86400000" "int t = ms mod MS_PER_DAY"
    by (auto simp: t_def MS_PER_DAY_def)
  have ms: "ms = (d - EPOCH_DAY) * MS_PER_DAY + int t"
    using t(2) by (simp add: d_def div_mult_mod_eq)
  have "\<bar>d\<bar> \<le> 200000000"
    using assms unfolding d_def MAX_TIME_def MS_PER_DAY_def EPOCH_DAY_def by linarith
  then have yr: "\<bar>y\<bar> < 1000000" by (simp add: y_def yearOfDay_range)
  have yb: "daysBeforeYear y \<le> d" "d - daysBeforeYear y < sum_list (monthLengths y)"
    using yearOfDay_bounds[of d] daysBeforeYear_step[of y] by (auto simp: y_def)
  have len: "length (monthLengths y) = 12" by (simp add: monthLengths_def)
  have mdc: "m < 12" "0 \<le> dd" "dd < monthLengths y ! m"
    "sum_list (take m (monthLengths y)) + dd = d - daysBeforeYear y"
    using monthOfDay_correct[OF _ yb(2) md] yb(1) len by auto
  then have dd: "nat dd + 1 < 100" using monthLengths_le[of m y] by linarith
  have h: "t div 3600000 < 24" "t div 60000 mod 60 < 60" "t div 1000 mod 60 < 60" "t mod 1000 < 1000"
    using t(1) by simp_all
  have clock: "3600000 * (t div 3600000) + 60000 * (t div 60000 mod 60)
      + 1000 * (t div 1000 mod 60) + t mod 1000 = t"
    by (rule clock_fields)
  define r where "r = ''-'' @ digitsN 2 (m + 1) @ ''-'' @ digitsN 2 (nat dd + 1) @ ''T'' @
      digitsN 2 (t div 3600000) @ '':'' @ digitsN 2 (t div 60000 mod 60) @ '':'' @
      digitsN 2 (t div 1000 mod 60) @ ''.'' @ digitsN 3 (t mod 1000) @ ''Z''"
  have r: "length r = 20 \<and> separatorsOf r = ''--T::.Z'' \<and> fieldsOf r =
     [Some (m + 1), Some (nat dd + 1), Some (t div 3600000), Some (t div 60000 mod 60),
      Some (t div 1000 mod 60), Some (t mod 1000)]"
    by (rule fieldsOf_print[OF r_def]) (use mdc dd h in auto)
  have iso: "isoString ms = yearString y @ r"
    using md by (simp add: isoString_def Let_def r_def d_def[symmetric] t_def[symmetric] y_def)
  have "timeOfFields y (m + 1) (nat dd + 1) (t div 3600000) (t div 60000 mod 60)
      (t div 1000 mod 60) (t mod 1000) = Some ms"
    using mdc h clock assms
    by (simp add: timeOfFields_def Let_def ms algebra_simps)
  then show ?thesis
    using r by (simp add: dateParse_def iso parseYear_yearString[OF yr])
qed

lemma isoString_inj:
  "\<bar>a\<bar> \<le> MAX_TIME \<Longrightarrow> \<bar>b\<bar> \<le> MAX_TIME \<Longrightarrow> isoString a = isoString b \<Longrightarrow> a = b"
  by (metis dateParse_isoString option.inject)

lemma isoString_ends: "\<exists>p. isoString ms = p @ ''Z''"
  unfolding isoString_def Let_def case_prod_beta by (metis append.assoc)

lemma dateParse_range: "dateParse s = Some ms \<Longrightarrow> \<bar>ms\<bar> \<le> MAX_TIME"
  by (auto simp: dateParse_def timeOfFields_def Let_def split: option.splits if_splits list.splits)

subsection \<open>Evaluation on concrete times\<close>

named_theorems date_eval \<open>evaluation of printed and parsed times\<close>

lemma digitsN_numeral [date_eval]:
  "digitsN (numeral k) n = digitsN (pred_numeral k) (n div 10) @ [digitChar (n mod 10)]"
  by (simp only: numeral_eq_Suc[of k] digitsN.simps)

lemma digitChar_0 [date_eval]: "digitChar 0 = CHR ''0''" by code_simp
lemma digitChar_Suc_0 [date_eval]: "digitChar (Suc 0) = CHR ''1''" by code_simp
lemma digitChar_2 [date_eval]: "digitChar 2 = CHR ''2''" by code_simp
lemma digitChar_3 [date_eval]: "digitChar 3 = CHR ''3''" by code_simp
lemma digitChar_4 [date_eval]: "digitChar 4 = CHR ''4''" by code_simp
lemma digitChar_5 [date_eval]: "digitChar 5 = CHR ''5''" by code_simp
lemma digitChar_6 [date_eval]: "digitChar 6 = CHR ''6''" by code_simp
lemma digitChar_7 [date_eval]: "digitChar 7 = CHR ''7''" by code_simp
lemma digitChar_8 [date_eval]: "digitChar 8 = CHR ''8''" by code_simp
lemma digitChar_9 [date_eval]: "digitChar 9 = CHR ''9''" by code_simp

lemmas isoString_eval [date_eval] =
  isoString_def yearOfDay_def MS_PER_DAY_def EPOCH_DAY_def daysBeforeYear_def monthLengths_def
  isLeapYear_def yearString_def MAX_TIME_def

lemma isoString_epoch: "isoString 0 = ''1970-01-01T00:00:00.000Z''"
  by (simp add: date_eval)

lemma isoString_2026: "isoString 1784736000123 = ''2026-07-22T16:00:00.123Z''"
  by (simp add: date_eval)

end
