(* ===== verification/Values.thy ===== *)
theory Values
  imports JsDate
begin

section \<open>Branded values: \<open>packages/domain/src/values.ts\<close>\<close>

text \<open>
  Identifiers, texts, hashes, positions and timestamps are plain strings and numbers that a smart
  constructor has checked. Every exception the modelled code throws is a value of \<open>exn\<close>. The
  constructors of the source are defined one by one; \<open>opaque_defs\<close> collects the ones that only trim a
  string, and the lemmas say what a constructed value satisfies and that constructing it again
  changes nothing.
\<close>

subsection \<open>Exceptions\<close>

datatype transitionErrorCode =
    InvalidStateTransition
  | DecisionAuthorityRequired
  | DecisionConditionRequired

datatype projectionErrorCode =
    MeetingScopeMismatch
  | StalePosition
  | PositionGap
  | IdempotencyConflict
  | EventIdConflict
  | OptimisticConcurrencyConflict
  | InvalidEventPayload

datatype exn =
    DomainValueError string
  | DecisionTransitionError transitionErrorCode string
  | ProjectionError projectionErrorCode string
  | TypeError string
  | RangeError string
  | JsError string

fun isDomainValueError :: "exn \<Rightarrow> bool" where
  "isDomainValueError (DomainValueError _) = True"
| "isDomainValueError _ = False"

subsection \<open>Texts and integers\<close>

definition opaqueText :: "string \<Rightarrow> string \<Rightarrow> exn + string" where
  "opaqueText v label =
     (let normalized = trim v in
      if length normalized = 0 then Inl (DomainValueError (label @ '' must not be empty''))
      else Inr normalized)"

definition opaqueInteger :: "int \<Rightarrow> string \<Rightarrow> int \<Rightarrow> exn + int" where
  "opaqueInteger v label minimum =
     (if \<not> isSafeInteger v \<or> v < minimum
      then Inl (DomainValueError (label @ '' must be a safe integer greater than or equal to '' @
             intString minimum))
      else Inr v)"

definition actionId :: "string \<Rightarrow> exn + string" where
  "actionId v = opaqueText v ''ActionId''"

definition artifactId :: "string \<Rightarrow> exn + string" where
  "artifactId v = opaqueText v ''ArtifactId''"

definition auditReferenceId :: "string \<Rightarrow> exn + string" where
  "auditReferenceId v = opaqueText v ''AuditReferenceId''"

definition causationId :: "string \<Rightarrow> exn + string" where
  "causationId v = opaqueText v ''CausationId''"

definition claimId :: "string \<Rightarrow> exn + string" where
  "claimId v = opaqueText v ''ClaimId''"

definition constraintId :: "string \<Rightarrow> exn + string" where
  "constraintId v = opaqueText v ''ConstraintId''"

definition correlationId :: "string \<Rightarrow> exn + string" where
  "correlationId v = opaqueText v ''CorrelationId''"

definition criterionId :: "string \<Rightarrow> exn + string" where
  "criterionId v = opaqueText v ''CriterionId''"

definition decisionId :: "string \<Rightarrow> exn + string" where
  "decisionId v = opaqueText v ''DecisionId''"

definition decisionRevisionId :: "string \<Rightarrow> exn + string" where
  "decisionRevisionId v = opaqueText v ''DecisionRevisionId''"

definition disclosureId :: "string \<Rightarrow> exn + string" where
  "disclosureId v = opaqueText v ''DisclosureId''"

definition displayTokenId :: "string \<Rightarrow> exn + string" where
  "displayTokenId v = opaqueText v ''DisplayTokenId''"

definition dissentId :: "string \<Rightarrow> exn + string" where
  "dissentId v = opaqueText v ''DissentId''"

definition evaluationId :: "string \<Rightarrow> exn + string" where
  "evaluationId v = opaqueText v ''EvaluationId''"

definition eventId :: "string \<Rightarrow> exn + string" where
  "eventId v = opaqueText v ''EventId''"

definition evidenceId :: "string \<Rightarrow> exn + string" where
  "evidenceId v = opaqueText v ''EvidenceId''"

definition externalEventId :: "string \<Rightarrow> exn + string" where
  "externalEventId v = opaqueText v ''ExternalEventId''"

definition idempotencyKey :: "string \<Rightarrow> exn + string" where
  "idempotencyKey v = opaqueText v ''IdempotencyKey''"

definition interventionId :: "string \<Rightarrow> exn + string" where
  "interventionId v = opaqueText v ''InterventionId''"

definition meetingId :: "string \<Rightarrow> exn + string" where
  "meetingId v = opaqueText v ''MeetingId''"

definition monitorRegistrationId :: "string \<Rightarrow> exn + string" where
  "monitorRegistrationId v = opaqueText v ''MonitorRegistrationId''"

definition optionId :: "string \<Rightarrow> exn + string" where
  "optionId v = opaqueText v ''OptionId''"

definition participantId :: "string \<Rightarrow> exn + string" where
  "participantId v = opaqueText v ''ParticipantId''"

definition premiseId :: "string \<Rightarrow> exn + string" where
  "premiseId v = opaqueText v ''PremiseId''"

definition propositionId :: "string \<Rightarrow> exn + string" where
  "propositionId v = opaqueText v ''PropositionId''"

definition questionId :: "string \<Rightarrow> exn + string" where
  "questionId v = opaqueText v ''QuestionId''"

definition reconsiderationTaskId :: "string \<Rightarrow> exn + string" where
  "reconsiderationTaskId v = opaqueText v ''ReconsiderationTaskId''"

definition relationId :: "string \<Rightarrow> exn + string" where
  "relationId v = opaqueText v ''RelationId''"

definition resetRequestId :: "string \<Rightarrow> exn + string" where
  "resetRequestId v = opaqueText v ''ResetRequestId''"

definition riskId :: "string \<Rightarrow> exn + string" where
  "riskId v = opaqueText v ''RiskId''"

definition sourceReferenceId :: "string \<Rightarrow> exn + string" where
  "sourceReferenceId v = opaqueText v ''SourceReferenceId''"

definition stanceId :: "string \<Rightarrow> exn + string" where
  "stanceId v = opaqueText v ''StanceId''"

definition suggestionId :: "string \<Rightarrow> exn + string" where
  "suggestionId v = opaqueText v ''SuggestionId''"

definition userId :: "string \<Rightarrow> exn + string" where
  "userId v = opaqueText v ''UserId''"

definition utteranceId :: "string \<Rightarrow> exn + string" where
  "utteranceId v = opaqueText v ''UtteranceId''"

definition contentHash :: "string \<Rightarrow> exn + string" where
  "contentHash v = opaqueText v ''ContentHash''"

definition nonEmptyText :: "string \<Rightarrow> exn + string" where
  "nonEmptyText v = opaqueText v ''NonEmptyText''"

definition previewHash :: "string \<Rightarrow> exn + string" where
  "previewHash v = opaqueText v ''PreviewHash''"

definition promptVersion :: "string \<Rightarrow> exn + string" where
  "promptVersion v = opaqueText v ''PromptVersion''"

lemmas opaque_defs =
  actionId_def artifactId_def auditReferenceId_def causationId_def claimId_def constraintId_def
  correlationId_def criterionId_def decisionId_def decisionRevisionId_def disclosureId_def
  displayTokenId_def dissentId_def evaluationId_def eventId_def evidenceId_def
  externalEventId_def idempotencyKey_def interventionId_def meetingId_def
  monitorRegistrationId_def optionId_def participantId_def premiseId_def propositionId_def
  questionId_def reconsiderationTaskId_def relationId_def resetRequestId_def riskId_def
  sourceReferenceId_def stanceId_def suggestionId_def userId_def utteranceId_def contentHash_def
  nonEmptyText_def previewHash_def promptVersion_def

definition timestamp :: "string \<Rightarrow> exn + string" where
  "timestamp v =
     (let err = Inl (DomainValueError ''Timestamp must be a canonical UTC ISO 8601 string'') in
      if v = [] \<or> last v \<noteq> CHR ''Z'' then err
      else case dateParse v of
             None \<Rightarrow> err
           | Some ms \<Rightarrow> if isoString ms \<noteq> v then err else Inr v)"

definition meetingPosition :: "int \<Rightarrow> exn + int" where
  "meetingPosition v = opaqueInteger v ''MeetingPosition'' 0"

definition revisionNumber :: "int \<Rightarrow> exn + int" where
  "revisionNumber v = opaqueInteger v ''RevisionNumber'' 1"

definition schemaVersion :: "int \<Rightarrow> exn + int" where
  "schemaVersion v = opaqueInteger v ''SchemaVersion'' 1"

record textRange =
  rangeStart :: int
  rangeEnd :: int

definition mkTextRange :: "int \<Rightarrow> int \<Rightarrow> exn + textRange" where
  "mkTextRange start end' =
     (if \<not> isSafeInteger start \<or> \<not> isSafeInteger end' \<or> start < 0 \<or> end' \<le> start
      then Inl (DomainValueError ''TextRange requires safe integer offsets with 0 <= start < end'')
      else Inr \<lparr>rangeStart = start, rangeEnd = end'\<rparr>)"

subsection \<open>What the constructors guarantee\<close>

lemma opaqueText_Inr: "opaqueText v l = Inr s \<longleftrightarrow> s = trim v \<and> s \<noteq> []"
  by (auto simp: opaqueText_def Let_def)

lemma opaqueText_Inl: "opaqueText v l = Inl e \<Longrightarrow> isDomainValueError e"
  by (auto simp: opaqueText_def Let_def split: if_splits)

lemma opaqueText_stable: "opaqueText v l = Inr s \<Longrightarrow> opaqueText s l' = Inr s"
  by (auto simp: opaqueText_Inr)

lemma opaqueText_clean: "v \<noteq> [] \<Longrightarrow> trim v = v \<Longrightarrow> opaqueText v l = Inr v"
  by (simp add: opaqueText_Inr)

lemma opaqueInteger_Inr:
  "opaqueInteger v l m = Inr n \<longleftrightarrow> n = v \<and> isSafeInteger v \<and> m \<le> v"
  by (auto simp: opaqueInteger_def)

lemma opaqueInteger_Inl: "opaqueInteger v l m = Inl e \<Longrightarrow> isDomainValueError e"
  by (auto simp: opaqueInteger_def split: if_splits)

lemma timestamp_Inr:
  "timestamp v = Inr s \<longleftrightarrow> s = v \<and> (\<exists>ms. \<bar>ms\<bar> \<le> MAX_TIME \<and> v = isoString ms)"
proof
  assume "timestamp v = Inr s"
  then show "s = v \<and> (\<exists>ms. \<bar>ms\<bar> \<le> MAX_TIME \<and> v = isoString ms)"
    by (auto simp: timestamp_def Let_def dest: dateParse_range split: if_splits option.splits)
next
  assume "s = v \<and> (\<exists>ms. \<bar>ms\<bar> \<le> MAX_TIME \<and> v = isoString ms)"
  then obtain ms where ms: "\<bar>ms\<bar> \<le> MAX_TIME" "v = isoString ms" and s: "s = v" by blast
  have "v \<noteq> []" "last v = CHR ''Z''" using isoString_ends[of ms] ms(2) by auto
  then show "timestamp v = Inr s"
    using s dateParse_isoString[OF ms(1)] ms(2) by (simp add: timestamp_def Let_def)
qed

lemma timestamp_Inl: "timestamp v = Inl e \<Longrightarrow> isDomainValueError e"
  by (auto simp: timestamp_def Let_def split: if_splits option.splits)

lemma timestamp_isoString: "\<bar>ms\<bar> \<le> MAX_TIME \<Longrightarrow> timestamp (isoString ms) = Inr (isoString ms)"
  by (auto simp: timestamp_Inr)

lemmas integer_defs = meetingPosition_def revisionNumber_def schemaVersion_def

lemma meetingPosition_Inr:
  "meetingPosition v = Inr n \<longleftrightarrow> n = v \<and> 0 \<le> v \<and> v \<le> MAX_SAFE_INTEGER"
  by (auto simp: meetingPosition_def opaqueInteger_Inr isSafeInteger_def MAX_SAFE_INTEGER_def)

lemma revisionNumber_Inr:
  "revisionNumber v = Inr n \<longleftrightarrow> n = v \<and> 1 \<le> v \<and> v \<le> MAX_SAFE_INTEGER"
  by (auto simp: revisionNumber_def opaqueInteger_Inr isSafeInteger_def MAX_SAFE_INTEGER_def)

lemma revisionNumber_Inl: "revisionNumber v = Inl e \<Longrightarrow> isDomainValueError e"
  by (auto simp: revisionNumber_def dest: opaqueInteger_Inl)

lemma revisionNumber_1 [simp]: "revisionNumber 1 = Inr 1"
  by (simp add: revisionNumber_Inr MAX_SAFE_INTEGER_def)

lemma schemaVersion_1 [simp]: "schemaVersion 1 = Inr 1"
  by (simp add: schemaVersion_def opaqueInteger_Inr isSafeInteger_def MAX_SAFE_INTEGER_def)

lemma mkTextRange_Inr:
  "mkTextRange a b = Inr r \<longleftrightarrow>
     r = \<lparr>rangeStart = a, rangeEnd = b\<rparr> \<and> 0 \<le> a \<and> a < b \<and> b \<le> MAX_SAFE_INTEGER"
  by (auto simp: mkTextRange_def isSafeInteger_def MAX_SAFE_INTEGER_def)

end
