(* ===== verification/EventStore.thy ===== *)
theory EventStore
  imports Values
begin

section \<open>The event store: \<open>packages/adapters-node/src/sqlite.ts\<close> behind \<open>packages/ports\<close>\<close>

text \<open>
  The SQLite tables \<open>events\<close>, \<open>event_appends\<close> and \<open>projections\<close> and the operations of
  \<open>SqliteEventProjectionStore\<close> on them: append with optimistic concurrency and idempotent replay,
  load, position, projection get and put, and the atomic commit. The codec that turns an event into
  JSON text is the parameter \<open>enc\<close>; a row holds the event itself, as \<open>decode\<close> gives back what
  \<open>encode\<close> was given, and \<open>enc\<close> serves where the code compares texts. A transaction that throws
  leaves the tables as they were. The locale \<open>event_log\<close> is the port \<open>EventStore\<close> as its clients
  see it, with an abstract log per meeting, and SQLite interprets it.
\<close>

subsection \<open>Requests and outcomes of the port\<close>

record 'ev eventRecord =
  ercEvent :: 'ev
  ercPosition :: int

record 'ev appendEventsRequest =
  aprEvents :: "'ev list"
  aprExpectedPosition :: "int option"
  aprIdempotencyKey :: "string option"
  aprMeetingId :: string
  aprPayloadFingerprint :: "string option"
  aprTrustFingerprint :: "bool option"

datatype 'ev appendEventsOutcome =
    Appended "'ev eventRecord list"
  | Replayed "'ev eventRecord list"
  | PositionConflict int int
  | AppendIdempotencyConflict string

record projectionScope =
  pscMeetingId :: string
  pscOwnerParticipantId :: "string option"
  pscProjection :: string

record 'p projectionWrite =
  pwrScope :: projectionScope
  pwrValue :: 'p

subsection \<open>Tables\<close>

record 'ev eventRow =
  rowMeetingId :: string
  rowPosition :: int
  rowEvent :: 'ev

record idempotencyRow =
  idrMeetingId :: string
  idrKey :: string
  idrPayloadFingerprint :: string
  idrEventPayloads :: string
  idrFirstPosition :: int
  idrEventCount :: int

record 'p projectionRow =
  prwMeetingId :: string
  prwProjection :: string
  prwScopeKind :: string
  prwOwnerParticipantId :: string
  prwValue :: 'p

record ('ev, 'p) database =
  dbEvents :: "'ev eventRow list"
  dbAppends :: "idempotencyRow list"
  dbProjections :: "'p projectionRow list"

definition emptyDatabase :: "('ev, 'p) database" where
  "emptyDatabase = \<lparr>dbEvents = [], dbAppends = [], dbProjections = []\<rparr>"

subsection \<open>Argument checks and transactions\<close>

definition requireNonEmpty :: "string \<Rightarrow> string \<Rightarrow> exn + unit" where
  "requireNonEmpty value label = ensure (length value \<noteq> 0) (TypeError (label @ '' must not be empty''))"

definition requirePosition :: "int \<Rightarrow> string \<Rightarrow> exn + unit" where
  "requirePosition value label =
     ensure (\<not> (\<not> isSafeInteger value \<or> value < 0))
       (TypeError (label @ '' must be a non-negative safe integer''))"

definition requireOption :: "('a \<Rightarrow> exn + unit) \<Rightarrow> 'a option \<Rightarrow> exn + unit" where
  "requireOption check x = (case x of None \<Rightarrow> Inr () | Some a \<Rightarrow> check a)"

definition requirePresent :: "('a \<Rightarrow> exn + unit) \<Rightarrow> string \<Rightarrow> 'a option \<Rightarrow> exn + unit" where
  "requirePresent check message x =
     (case x of None \<Rightarrow> Inl (TypeError message) | Some a \<Rightarrow> check a)"

text \<open>\<open>BEGIN IMMEDIATE\<close>, the work, then \<open>COMMIT\<close>, or \<open>ROLLBACK\<close> and the exception again.\<close>

definition runTransaction :: "('db \<Rightarrow> exn + 'a \<times> 'db) \<Rightarrow> 'db \<Rightarrow> (exn + 'a) \<times> 'db" where
  "runTransaction work db = (case work db of Inl e \<Rightarrow> (Inl e, db) | Inr (a, db') \<Rightarrow> (Inr a, db'))"

subsection \<open>Reading events\<close>

text \<open>\<open>COALESCE(MAX(position), 0)\<close>; the table admits positive positions only.\<close>

definition readPosition :: "('ev, 'p) database \<Rightarrow> string \<Rightarrow> int" where
  "readPosition db m = foldr max (map rowPosition (filter (\<lambda>r. rowMeetingId r = m) (dbEvents db))) 0"

definition toRecord :: "'ev eventRow \<Rightarrow> 'ev eventRecord" where
  "toRecord r = \<lparr>ercEvent = rowEvent r, ercPosition = rowPosition r\<rparr>"

definition loadEventRange ::
  "('ev, 'p) database \<Rightarrow> string \<Rightarrow> int \<Rightarrow> int \<Rightarrow> exn + 'ev eventRecord list" where
  "loadEventRange db m firstPosition eventCount =
     (let rows = sort_key rowPosition (filter (\<lambda>r. rowMeetingId r = m \<and>
          firstPosition \<le> rowPosition r \<and> rowPosition r < firstPosition + eventCount) (dbEvents db)) in
      if int (length rows) \<noteq> eventCount then
        Inl (JsError ''Idempotent append points to an incomplete event range'')
      else Inr (map toRecord rows))"

definition sqliteLoad ::
  "('ev, 'p) database \<Rightarrow> string \<Rightarrow> int option \<Rightarrow> exn + 'ev eventRecord list" where
  "sqliteLoad db m afterOption =
     bindE (requireNonEmpty m ''meetingId'') (\<lambda>_.
     let afterPosition = (case afterOption of None \<Rightarrow> 0 | Some a \<Rightarrow> a) in
     bindE (requirePosition afterPosition ''afterPosition'') (\<lambda>_.
     Inr (map toRecord (sort_key rowPosition
       (filter (\<lambda>r. rowMeetingId r = m \<and> rowPosition r > afterPosition) (dbEvents db))))))"

definition sqlitePosition :: "('ev, 'p) database \<Rightarrow> string \<Rightarrow> exn + int" where
  "sqlitePosition db m = bindE (requireNonEmpty m ''meetingId'') (\<lambda>_. Inr (readPosition db m))"

subsection \<open>Appending\<close>

definition insertEvent :: "('ev, 'p) database \<Rightarrow> 'ev eventRow \<Rightarrow> exn + ('ev, 'p) database" where
  "insertEvent db row =
     bindE (ensure (rowPosition row > 0) (JsError ''CHECK constraint failed: position > 0'')) (\<lambda>_.
     bindE (ensure (\<not> list_ex (\<lambda>r. rowMeetingId r = rowMeetingId row \<and> rowPosition r = rowPosition row)
         (dbEvents db)) (JsError ''UNIQUE constraint failed: events.meeting_id, events.position'')) (\<lambda>_.
     Inr (db\<lparr>dbEvents := dbEvents db @ [row]\<rparr>)))"

fun insertEvents ::
  "('ev, 'p) database \<Rightarrow> string \<Rightarrow> int \<Rightarrow> 'ev list \<Rightarrow> exn + 'ev eventRecord list \<times> ('ev, 'p) database" where
  "insertEvents db m position [] = Inr ([], db)"
| "insertEvents db m position (ev # evs) =
     (if \<not> isSafeInteger position then
        Inl (RangeError ''Event position exceeds the safe integer range'')
      else
        bindE (insertEvent db \<lparr>rowMeetingId = m, rowPosition = position, rowEvent = ev\<rparr>) (\<lambda>db'.
        bindE (insertEvents db' m (position + 1) evs) (\<lambda>(records, db'').
        Inr (\<lparr>ercEvent = ev, ercPosition = position\<rparr> # records, db''))))"

definition insertAppend :: "('ev, 'p) database \<Rightarrow> idempotencyRow \<Rightarrow> exn + ('ev, 'p) database" where
  "insertAppend db row =
     bindE (ensure (idrFirstPosition row > 0 \<and> idrEventCount row \<ge> 0)
       (JsError ''CHECK constraint failed: event_appends'')) (\<lambda>_.
     bindE (ensure (\<not> list_ex (\<lambda>r. idrMeetingId r = idrMeetingId row \<and> idrKey r = idrKey row)
         (dbAppends db)) (JsError ''UNIQUE constraint failed: event_appends.meeting_id, event_appends.idempotency_key'')) (\<lambda>_.
     Inr (db\<lparr>dbAppends := dbAppends db @ [row]\<rparr>)))"

definition findAppend :: "('ev, 'p) database \<Rightarrow> string \<Rightarrow> string \<Rightarrow> idempotencyRow option" where
  "findAppend db m k = findFirst (\<lambda>r. idrMeetingId r = m \<and> idrKey r = k) (dbAppends db)"

definition serializedPayloads :: "('ev \<Rightarrow> string) \<Rightarrow> 'ev list \<Rightarrow> string" where
  "serializedPayloads enc evs = jsonStringify (jsStrings (map enc evs))"

definition requestFingerprint :: "('ev \<Rightarrow> string) \<Rightarrow> 'ev appendEventsRequest \<Rightarrow> string" where
  "requestFingerprint enc r =
     (case aprPayloadFingerprint r of
        Some f \<Rightarrow> f | None \<Rightarrow> serializedPayloads enc (aprEvents r))"

definition replayConflict :: "('ev \<Rightarrow> string) \<Rightarrow> 'ev appendEventsRequest \<Rightarrow> idempotencyRow \<Rightarrow> bool" where
  "replayConflict enc r previous \<longleftrightarrow>
     idrPayloadFingerprint previous \<noteq> requestFingerprint enc r \<or>
     aprTrustFingerprint r \<noteq> Some True \<and>
       idrEventPayloads previous \<noteq> serializedPayloads enc (aprEvents r)"

definition appendRows ::
  "('ev \<Rightarrow> string) \<Rightarrow> (('ev, 'p) database \<Rightarrow> exn + ('ev, 'p) database) \<Rightarrow> 'ev appendEventsRequest \<Rightarrow>
     int \<Rightarrow> ('ev, 'p) database \<Rightarrow> exn + 'ev appendEventsOutcome \<times> ('ev, 'p) database" where
  "appendRows enc afterAppend r actual db =
     bindE (insertEvents db (aprMeetingId r) (actual + 1) (aprEvents r)) (\<lambda>(records, db1).
     bindE (case aprIdempotencyKey r of
              None \<Rightarrow> Inr db1
            | Some k \<Rightarrow> insertAppend db1
                \<lparr>idrMeetingId = aprMeetingId r, idrKey = k,
                 idrPayloadFingerprint = requestFingerprint enc r,
                 idrEventPayloads = serializedPayloads enc (aprEvents r),
                 idrFirstPosition = actual + 1, idrEventCount = int (length records)\<rparr>) (\<lambda>db2.
     bindE (afterAppend db2) (\<lambda>db3. Inr (Appended records, db3))))"

definition appendNew ::
  "('ev \<Rightarrow> string) \<Rightarrow> (('ev, 'p) database \<Rightarrow> exn + ('ev, 'p) database) \<Rightarrow> 'ev appendEventsRequest \<Rightarrow>
     ('ev, 'p) database \<Rightarrow> exn + 'ev appendEventsOutcome \<times> ('ev, 'p) database" where
  "appendNew enc afterAppend r db =
     (let actual = readPosition db (aprMeetingId r) in
      case aprExpectedPosition r of
        Some expected \<Rightarrow>
          if expected \<noteq> actual then Inr (PositionConflict actual expected, db)
          else appendRows enc afterAppend r actual db
      | None \<Rightarrow> appendRows enc afterAppend r actual db)"

definition appendWork ::
  "('ev \<Rightarrow> string) \<Rightarrow> (('ev, 'p) database \<Rightarrow> exn + ('ev, 'p) database) \<Rightarrow> 'ev appendEventsRequest \<Rightarrow>
     ('ev, 'p) database \<Rightarrow> exn + 'ev appendEventsOutcome \<times> ('ev, 'p) database" where
  "appendWork enc afterAppend r db =
     (case aprIdempotencyKey r of
        None \<Rightarrow> appendNew enc afterAppend r db
      | Some k \<Rightarrow>
          (case findAppend db (aprMeetingId r) k of
             None \<Rightarrow> appendNew enc afterAppend r db
           | Some previous \<Rightarrow>
               if replayConflict enc r previous then Inr (AppendIdempotencyConflict k, db)
               else bindE (loadEventRange db (aprMeetingId r) (idrFirstPosition previous)
                 (idrEventCount previous)) (\<lambda>records. Inr (Replayed records, db))))"

definition checkAppend :: "'ev appendEventsRequest \<Rightarrow> exn + unit" where
  "checkAppend r =
     bindE (requireNonEmpty (aprMeetingId r) ''meetingId'') (\<lambda>_.
     bindE (requireOption (\<lambda>p. requirePosition p ''expectedPosition'') (aprExpectedPosition r)) (\<lambda>_.
     requireOption (\<lambda>k. requireNonEmpty k ''idempotencyKey'') (aprIdempotencyKey r)))"

definition appendSqlite ::
  "('ev \<Rightarrow> string) \<Rightarrow> (('ev, 'p) database \<Rightarrow> exn + ('ev, 'p) database) \<Rightarrow> 'ev appendEventsRequest \<Rightarrow>
     ('ev, 'p) database \<Rightarrow> (exn + 'ev appendEventsOutcome) \<times> ('ev, 'p) database" where
  "appendSqlite enc afterAppend r db =
     (case checkAppend r of
        Inl e \<Rightarrow> (Inl e, db)
      | Inr _ \<Rightarrow> runTransaction (appendWork enc afterAppend r) db)"

definition sqliteAppend ::
  "('ev \<Rightarrow> string) \<Rightarrow> 'ev appendEventsRequest \<Rightarrow> ('ev, 'p) database \<Rightarrow>
     (exn + 'ev appendEventsOutcome) \<times> ('ev, 'p) database" where
  "sqliteAppend enc r db = appendSqlite enc Inr r db"

subsection \<open>Projections and atomic commits\<close>

definition projectionPartition :: "projectionScope \<Rightarrow> exn + string \<times> string" where
  "projectionPartition s =
     bindE (requireNonEmpty (pscMeetingId s) ''meetingId'') (\<lambda>_.
     bindE (requireNonEmpty (pscProjection s) ''projection'') (\<lambda>_.
     case pscOwnerParticipantId s of
       None \<Rightarrow> Inr (''shared'', [])
     | Some owner \<Rightarrow>
         bindE (requireNonEmpty owner ''ownerParticipantId'') (\<lambda>_. Inr (''owner_private'', owner))))"

definition projectionKey :: "'p projectionRow \<Rightarrow> string \<times> string \<times> string \<times> string" where
  "projectionKey r = (prwMeetingId r, prwProjection r, prwScopeKind r, prwOwnerParticipantId r)"

definition upsertProjection ::
  "projectionScope \<Rightarrow> 'p \<Rightarrow> ('ev, 'p) database \<Rightarrow> exn + ('ev, 'p) database" where
  "upsertProjection s value db =
     bindE (projectionPartition s) (\<lambda>(kind, owner).
     let row = \<lparr>prwMeetingId = pscMeetingId s, prwProjection = pscProjection s, prwScopeKind = kind,
                prwOwnerParticipantId = owner, prwValue = value\<rparr> in
     Inr (db\<lparr>dbProjections := upsertBy (\<lambda>r. projectionKey r = projectionKey row) row (dbProjections db)\<rparr>))"

definition sqliteGet :: "('ev, 'p) database \<Rightarrow> projectionScope \<Rightarrow> exn + 'p option" where
  "sqliteGet db s =
     bindE (projectionPartition s) (\<lambda>(kind, owner).
     Inr (map_option prwValue (findFirst
       (\<lambda>r. projectionKey r = (pscMeetingId s, pscProjection s, kind, owner)) (dbProjections db))))"

definition sqlitePut ::
  "projectionScope \<Rightarrow> 'p \<Rightarrow> ('ev, 'p) database \<Rightarrow> (exn + unit) \<times> ('ev, 'p) database" where
  "sqlitePut s value db =
     (case upsertProjection s value db of Inl e \<Rightarrow> (Inl e, db) | Inr db' \<Rightarrow> (Inr (), db'))"

fun upsertProjections ::
  "'p projectionWrite list \<Rightarrow> ('ev, 'p) database \<Rightarrow> exn + ('ev, 'p) database" where
  "upsertProjections [] db = Inr db"
| "upsertProjections (w # ws) db =
     bindE (upsertProjection (pwrScope w) (pwrValue w) db) (upsertProjections ws)"

definition checkCommit :: "'ev appendEventsRequest \<Rightarrow> 'p projectionWrite list \<Rightarrow> exn + unit" where
  "checkCommit r ws =
     bindE (ensure (length (aprEvents r) \<noteq> 0)
       (TypeError ''Atomic commits require at least one event'')) (\<lambda>_.
     bindE (requirePresent (\<lambda>p. requirePosition p ''expectedPosition'')
       ''expectedPosition must be a non-negative safe integer'' (aprExpectedPosition r)) (\<lambda>_.
     bindE (requirePresent (\<lambda>k. requireNonEmpty k ''idempotencyKey'')
       ''Cannot read properties of undefined'' (aprIdempotencyKey r)) (\<lambda>_.
     ensure (list_all (\<lambda>w. pscMeetingId (pwrScope w) = aprMeetingId r) ws)
       (TypeError ''Atomic projection writes must belong to the appended meeting''))))"

definition sqliteCommit ::
  "('ev \<Rightarrow> string) \<Rightarrow> 'ev appendEventsRequest \<Rightarrow> 'p projectionWrite list \<Rightarrow> ('ev, 'p) database \<Rightarrow>
     (exn + 'ev appendEventsOutcome) \<times> ('ev, 'p) database" where
  "sqliteCommit enc r ws db =
     (case checkCommit r ws of
        Inl e \<Rightarrow> (Inl e, db)
      | Inr _ \<Rightarrow> appendSqlite enc (upsertProjections ws) r db)"


subsection \<open>Logs\<close>

text \<open>The log of a meeting, the rows that hold it and the records that a load returns.\<close>

definition logOf :: "('ev, 'p) database \<Rightarrow> string \<Rightarrow> 'ev list" where
  "logOf db m = map rowEvent (filter (\<lambda>r. rowMeetingId r = m) (dbEvents db))"

fun numberRows :: "string \<Rightarrow> int \<Rightarrow> 'ev list \<Rightarrow> 'ev eventRow list" where
  "numberRows m n [] = []"
| "numberRows m n (ev # evs) =
     \<lparr>rowMeetingId = m, rowPosition = n, rowEvent = ev\<rparr> # numberRows m (n + 1) evs"

definition numberRecords :: "int \<Rightarrow> 'ev list \<Rightarrow> 'ev eventRecord list" where
  "numberRecords n evs = map toRecord (numberRows [] n evs)"

definition contiguous :: "('ev, 'p) database \<Rightarrow> string \<Rightarrow> bool" where
  "contiguous db m \<longleftrightarrow> filter (\<lambda>r. rowMeetingId r = m) (dbEvents db) = numberRows m 1 (logOf db m)"

lemma numberRecords_simps [simp]:
  "numberRecords n [] = []"
  "numberRecords n (ev # evs) = \<lparr>ercEvent = ev, ercPosition = n\<rparr> # numberRecords (n + 1) evs"
  by (simp_all add: numberRecords_def toRecord_def)

lemma toRecord_numberRows [simp]: "map toRecord (numberRows m n evs) = numberRecords n evs"
  by (induction evs arbitrary: n) (simp_all add: toRecord_def)

lemma length_numberRows [simp]: "length (numberRows m n evs) = length evs"
  by (induction evs arbitrary: n) simp_all

lemma length_numberRecords [simp]: "length (numberRecords n evs) = length evs"
  by (induction evs arbitrary: n) simp_all

lemma events_numberRecords [simp]: "map ercEvent (numberRecords n evs) = evs"
  by (induction evs arbitrary: n) simp_all

lemma numberRows_append:
  "numberRows m n (xs @ ys) = numberRows m n xs @ numberRows m (n + int (length xs)) ys"
  by (induction xs arbitrary: n) (simp_all add: algebra_simps)

lemma numberRows_rows [simp]: "map rowEvent (numberRows m n evs) = evs"
  by (induction evs arbitrary: n) simp_all

lemma numberRows_filter_same [simp]:
  "filter (\<lambda>r. rowMeetingId r = m) (numberRows m n evs) = numberRows m n evs"
  by (induction evs arbitrary: n) simp_all

lemma numberRows_filter_other [simp]:
  "m \<noteq> m' \<Longrightarrow> filter (\<lambda>r. rowMeetingId r = m') (numberRows m n evs) = []"
  by (induction evs arbitrary: n) simp_all

lemma numberRows_range:
  "r \<in> set (numberRows m n evs) \<Longrightarrow>
     rowMeetingId r = m \<and> n \<le> rowPosition r \<and> rowPosition r < n + int (length evs)"
  by (induction evs arbitrary: n) fastforce+


lemma numberRows_slice:
  "filter (\<lambda>r. rowMeetingId r = m \<and> n + int (length xs) \<le> rowPosition r \<and>
        rowPosition r < n + int (length xs) + int (length ys)) (numberRows m n (xs @ ys @ zs)) =
     numberRows m (n + int (length xs)) ys"
proof -
  let ?Q = "\<lambda>r. rowMeetingId r = m \<and> n + int (length xs) \<le> rowPosition r \<and>
        rowPosition r < n + int (length xs) + int (length ys)"
  have "filter ?Q (numberRows m n xs) = []"
    by (auto simp: filter_empty_conv dest: numberRows_range)
  moreover have "filter ?Q (numberRows m (n + int (length xs)) ys) = numberRows m (n + int (length xs)) ys"
    by (auto simp: filter_id_conv dest: numberRows_range)
  moreover have "filter ?Q (numberRows m (n + int (length xs) + int (length ys)) zs) = []"
    by (auto simp: filter_empty_conv dest: numberRows_range)
  ultimately show ?thesis by (simp add: numberRows_append)
qed

lemma sort_numberRows [simp]: "sort_key rowPosition (numberRows m n evs) = numberRows m n evs"
proof (rule sort_key_id_if_sorted)
  show "sorted (map rowPosition (numberRows m n evs))"
  proof (induction evs arbitrary: n)
    case (Cons ev evs)
    then show ?case by (auto dest: numberRows_range)
  qed simp
qed


lemma foldr_max_numberRows:
  "foldr max (map rowPosition (numberRows m n evs)) k =
     (if evs = [] then k else max k (n + int (length evs) - 1))"
  by (induction evs arbitrary: n) auto

lemma readPosition_contiguous:
  assumes "contiguous db m"
  shows "readPosition db m = int (length (logOf db m))"
proof -
  have "readPosition db m = foldr max (map rowPosition (numberRows m 1 (logOf db m))) 0"
    using assms unfolding contiguous_def readPosition_def by simp
  then show ?thesis by (simp add: foldr_max_numberRows)
qed

text \<open>The receipts of earlier appends: where the events of an idempotency key are in the log.\<close>

definition receiptOk :: "('ev \<Rightarrow> string) \<Rightarrow> ('ev, 'p) database \<Rightarrow> idempotencyRow \<Rightarrow> bool" where
  "receiptOk enc db row \<longleftrightarrow>
     (\<exists>xs ys zs. logOf db (idrMeetingId row) = xs @ ys @ zs \<and>
        idrFirstPosition row = 1 + int (length xs) \<and> idrEventCount row = int (length ys) \<and>
        idrEventPayloads row = serializedPayloads enc ys)"

definition storeOk :: "('ev \<Rightarrow> string) \<Rightarrow> ('ev, 'p) database \<Rightarrow> bool" where
  "storeOk enc db \<longleftrightarrow>
     (\<forall>m. contiguous db m) \<and> (\<forall>row \<in> set (dbAppends db). receiptOk enc db row)"

lemma storeOk_empty: "storeOk enc emptyDatabase"
  by (simp add: storeOk_def emptyDatabase_def contiguous_def logOf_def)

lemma loadEventRange_slice:
  assumes "contiguous db m" "logOf db m = xs @ ys @ zs"
  shows "loadEventRange db m (1 + int (length xs)) (int (length ys)) =
    Inr (numberRecords (1 + int (length xs)) ys)"
proof -
  let ?in = "\<lambda>r. 1 + int (length xs) \<le> rowPosition r \<and>
      rowPosition r < 1 + int (length xs) + int (length ys)"
  have "filter (\<lambda>r. rowMeetingId r = m \<and> ?in r) (dbEvents db) =
    filter (\<lambda>r. rowMeetingId r = m \<and> ?in r) (filter (\<lambda>r. rowMeetingId r = m) (dbEvents db))"
    by (simp add: conj_commute conj_left_commute)
  also have "\<dots> = numberRows m (1 + int (length xs)) ys"
    using assms numberRows_slice[of m 1 xs ys zs] by (simp add: contiguous_def)
  finally show ?thesis by (simp add: loadEventRange_def Let_def)
qed

lemma sqliteLoad_log:
  assumes "contiguous db m" "m \<noteq> []"
  shows "sqliteLoad db m None = Inr (numberRecords 1 (logOf db m))"
proof -
  have "filter (\<lambda>r. rowMeetingId r = m \<and> 0 < rowPosition r) (dbEvents db) =
    filter (\<lambda>r. 0 < rowPosition r) (filter (\<lambda>r. rowMeetingId r = m) (dbEvents db))"
    by (simp add: conj_commute)
  also have "\<dots> = numberRows m 1 (logOf db m)"
    using assms(1) by (auto simp: contiguous_def filter_id_conv dest: numberRows_range)
  finally show ?thesis
    using assms(2) by (simp add: sqliteLoad_def requireNonEmpty_def requirePosition_def isSafeInteger_def
        MAX_SAFE_INTEGER_def)
qed

subsection \<open>What an append does to the log\<close>

definition addEvents :: "string \<Rightarrow> 'ev list \<Rightarrow> ('ev, 'p) database \<Rightarrow> ('ev, 'p) database" where
  "addEvents m evs db =
     db\<lparr>dbEvents := dbEvents db @ numberRows m (int (length (logOf db m)) + 1) evs\<rparr>"

lemma logOf_addEvents: "logOf (addEvents m evs db) = (logOf db)(m := logOf db m @ evs)"
  by (rule ext) (simp add: logOf_def addEvents_def)

lemma contiguous_addEvents: "contiguous db m' \<Longrightarrow> contiguous (addEvents m evs db) m'"
  by (cases "m' = m")
    (simp_all add: contiguous_def logOf_addEvents numberRows_append, simp_all add: addEvents_def add.commute)

lemma addEvents_step:
  "addEvents m evs (addEvents m [ev] db) = addEvents m (ev # evs) db"
  unfolding addEvents_def logOf_def by simp

lemma insertEvents_contiguous:
  assumes "contiguous db m"
  shows "insertEvents db m (int (length (logOf db m)) + 1) evs =
    (if int (length (logOf db m)) + int (length evs) \<le> MAX_SAFE_INTEGER \<or> evs = [] then
       Inr (numberRecords (int (length (logOf db m)) + 1) evs, addEvents m evs db)
     else Inl (RangeError ''Event position exceeds the safe integer range''))"
  using assms
proof (induction evs arbitrary: db)
  case Nil
  then show ?case by (simp add: addEvents_def)
next
  case (Cons ev evs)
  let ?n = "int (length (logOf db m)) + 1"
  let ?db = "addEvents m [ev] db"
  have "rowPosition r \<noteq> ?n" if "r \<in> set (dbEvents db)" "rowMeetingId r = m" for r
  proof -
    have "set (filter (\<lambda>r. rowMeetingId r = m) (dbEvents db)) = set (numberRows m 1 (logOf db m))"
      using Cons.prems unfolding contiguous_def by (rule arg_cong)
    then have "r \<in> set (numberRows m 1 (logOf db m))" using that by auto
    then show ?thesis by (auto dest: numberRows_range)
  qed
  then have "insertEvent db \<lparr>rowMeetingId = m, rowPosition = ?n, rowEvent = ev\<rparr> = Inr ?db"
    by (auto simp: insertEvent_def addEvents_def list_ex_iff)
  moreover have "insertEvents ?db m (?n + 1) evs =
    (if ?n + int (length evs) \<le> MAX_SAFE_INTEGER \<or> evs = [] then
       Inr (numberRecords (?n + 1) evs, addEvents m evs ?db)
     else Inl (RangeError ''Event position exceeds the safe integer range''))"
    using Cons.IH[OF contiguous_addEvents[OF Cons.prems, where m = m and evs = "[ev]"]]
    by (simp add: logOf_addEvents algebra_simps)
  ultimately show ?case
    by (auto simp: isSafeInteger_def addEvents_step MAX_SAFE_INTEGER_def algebra_simps)
qed

text \<open>Whatever ran after the append left the events and the receipts alone.\<close>

definition keepsEvents :: "(('ev, 'p) database \<Rightarrow> exn + ('ev, 'p) database) \<Rightarrow> bool" where
  "keepsEvents f \<longleftrightarrow> (\<forall>db db'. f db = Inr db' \<longrightarrow> dbEvents db' = dbEvents db \<and> dbAppends db' = dbAppends db)"

lemma keepsEvents_Inr [simp]: "keepsEvents Inr"
  by (simp add: keepsEvents_def)

lemma keepsEvents_upsertProjections: "keepsEvents (upsertProjections ws)"
proof (induction ws)
  case (Cons w ws)
  then show ?case
    by (fastforce simp: keepsEvents_def upsertProjection_def result_simps Let_def)
qed (simp add: keepsEvents_def)

lemma logOf_events: "dbEvents db' = dbEvents db \<Longrightarrow> logOf db' = logOf db"
  by (simp add: logOf_def fun_eq_iff)

lemma storeOk_cong:
  "dbEvents db' = dbEvents db \<Longrightarrow> dbAppends db' = dbAppends db \<Longrightarrow> storeOk enc db' = storeOk enc db"
  by (simp add: storeOk_def contiguous_def receiptOk_def logOf_def)

definition newReceipt :: "('ev \<Rightarrow> string) \<Rightarrow> 'ev appendEventsRequest \<Rightarrow> int \<Rightarrow> string \<Rightarrow> idempotencyRow" where
  "newReceipt enc r actual k =
     \<lparr>idrMeetingId = aprMeetingId r, idrKey = k, idrPayloadFingerprint = requestFingerprint enc r,
      idrEventPayloads = serializedPayloads enc (aprEvents r),
      idrFirstPosition = actual + 1, idrEventCount = int (length (aprEvents r))\<rparr>"

definition afterAppendOf :: "('ev \<Rightarrow> string) \<Rightarrow> 'ev appendEventsRequest \<Rightarrow> ('ev, 'p) database \<Rightarrow> ('ev, 'p) database" where
  "afterAppendOf enc r db =
     (addEvents (aprMeetingId r) (aprEvents r) db)
       \<lparr>dbAppends := dbAppends db @
          (case aprIdempotencyKey r of None \<Rightarrow> []
           | Some k \<Rightarrow> [newReceipt enc r (int (length (logOf db (aprMeetingId r)))) k])\<rparr>"

text \<open>A successful append of new events, said in terms of the log.\<close>

definition appendsNew ::
  "('ev, 'p) database \<Rightarrow> 'ev appendEventsRequest \<Rightarrow> 'ev eventRecord list \<Rightarrow> bool" where
  "appendsNew db r records \<longleftrightarrow>
     records = numberRecords (int (length (logOf db (aprMeetingId r))) + 1) (aprEvents r) \<and>
     (\<forall>e. aprExpectedPosition r = Some e \<longrightarrow> e = int (length (logOf db (aprMeetingId r)))) \<and>
     (\<forall>k. aprIdempotencyKey r = Some k \<longrightarrow> findAppend db (aprMeetingId r) k = None)"

lemma findAppend_None:
  "findAppend db m k = None \<longleftrightarrow> \<not> list_ex (\<lambda>r. idrMeetingId r = m \<and> idrKey r = k) (dbAppends db)"
  by (auto simp: findAppend_def findFirst_None list_ex_iff)

lemma addEvents_appends [simp]: "dbAppends (addEvents m evs db) = dbAppends db"
  by (simp add: addEvents_def)

lemma addEvents_same_appends [simp]:
  "addEvents m evs db\<lparr>dbAppends := dbAppends db\<rparr> = addEvents m evs db"
  by (simp add: addEvents_def)

lemma appendRows_Inr:
  assumes "contiguous db (aprMeetingId r)"
    and "appendRows enc after r (int (length (logOf db (aprMeetingId r)))) db = Inr (out, db')"
  shows "out = Appended (numberRecords (int (length (logOf db (aprMeetingId r))) + 1) (aprEvents r)) \<and>
    after (afterAppendOf enc r db) = Inr db' \<and>
    (\<forall>k. aprIdempotencyKey r = Some k \<longrightarrow> findAppend db (aprMeetingId r) k = None)"
  using assms(2) insertEvents_contiguous[OF assms(1), of "aprEvents r"]
  by (cases "aprIdempotencyKey r")
    (auto simp: appendRows_def result_simps insertAppend_def afterAppendOf_def newReceipt_def
      findAppend_None split: if_splits)

lemma appendWork_cases:
  assumes "storeOk enc db" "appendWork enc after r db = Inr (out, db')"
  shows "(\<exists>records. out = Appended records \<and> appendsNew db r records \<and>
        after (afterAppendOf enc r db) = Inr db') \<or>
    db' = db \<and> (\<forall>records. out \<noteq> Appended records)"
proof -
  have c: "contiguous db (aprMeetingId r)" using assms(1) by (simp add: storeOk_def)
  note pos = readPosition_contiguous[OF c]
  have new: ?thesis if "appendNew enc after r db = Inr (out, db')"
    using that appendRows_Inr[OF c, of enc after out db']
    by (auto simp: appendNew_def pos Let_def appendsNew_def split: option.splits if_splits)
  show ?thesis
    using assms(2) new by (auto simp: appendWork_def result_simps split: option.splits if_splits)
qed


lemma receiptOk_addEvents: "receiptOk enc db row \<Longrightarrow> receiptOk enc (addEvents m evs db) row"
proof -
  assume "receiptOk enc db row"
  then obtain xs ys zs where "logOf db (idrMeetingId row) = xs @ ys @ zs"
    "idrFirstPosition row = 1 + int (length xs)" "idrEventCount row = int (length ys)"
    "idrEventPayloads row = serializedPayloads enc ys"
    by (auto simp: receiptOk_def)
  then show ?thesis
    unfolding receiptOk_def logOf_addEvents
    by (intro exI[of _ xs] exI[of _ ys] exI[of _ "zs @ (if idrMeetingId row = m then evs else [])"]) auto
qed

lemma storeOk_afterAppend:
  assumes "storeOk enc db"
  shows "storeOk enc (afterAppendOf enc r db)"
proof -
  let ?db = "addEvents (aprMeetingId r) (aprEvents r) db"
  have ev: "dbEvents (afterAppendOf enc r db) = dbEvents ?db" by (simp add: afterAppendOf_def)
  have "contiguous (afterAppendOf enc r db) m" for m
    using contiguous_addEvents[of db m "aprMeetingId r" "aprEvents r"] assms logOf_events[OF ev]
    by (simp add: storeOk_def contiguous_def ev)
  moreover have "receiptOk enc (afterAppendOf enc r db) row" if "receiptOk enc ?db row" for row
    using that by (simp add: receiptOk_def logOf_events[OF ev])
  moreover have "receiptOk enc ?db (newReceipt enc r (int (length (logOf db (aprMeetingId r)))) k)" for k
    unfolding receiptOk_def logOf_addEvents newReceipt_def
    by (intro exI[of _ "logOf db (aprMeetingId r)"] exI[of _ "aprEvents r"] exI[of _ "[]"]) simp
  ultimately show ?thesis
    using assms receiptOk_addEvents unfolding storeOk_def
    by (fastforce simp: afterAppendOf_def split: option.splits)
qed

lemma appendSqlite_cases:
  assumes "storeOk enc db" "keepsEvents after" "appendSqlite enc after r db = (out, db')"
  shows "(\<exists>records. out = Inr (Appended records) \<and> appendsNew db r records \<and>
        checkAppend r = Inr () \<and> after (afterAppendOf enc r db) = Inr db' \<and> storeOk enc db' \<and>
        logOf db' = (logOf db)(aprMeetingId r := logOf db (aprMeetingId r) @ aprEvents r)) \<or>
    db' = db \<and> (\<forall>records. out \<noteq> Inr (Appended records))"
proof (cases "checkAppend r")
  case (Inr u)
  show ?thesis
  proof (cases "appendWork enc after r db")
    case (Inr res)
    with \<open>checkAppend r = Inr u\<close> assms(3) obtain o' where res: "out = Inr o'" "res = (o', db')"
      by (cases res) (auto simp: appendSqlite_def runTransaction_def)
    have "dbEvents db' = dbEvents (afterAppendOf enc r db) \<and> dbAppends db' = dbAppends (afterAppendOf enc r db)"
      if "after (afterAppendOf enc r db) = Inr db'"
      using that assms(2) by (simp add: keepsEvents_def)
    moreover have "logOf (afterAppendOf enc r db) =
        (logOf db)(aprMeetingId r := logOf db (aprMeetingId r) @ aprEvents r)"
      unfolding logOf_addEvents[symmetric] by (rule logOf_events) (simp add: afterAppendOf_def)
    ultimately show ?thesis
      using appendWork_cases[OF assms(1) Inr[unfolded res(2)]] storeOk_afterAppend[OF assms(1), of r]
        storeOk_cong[of db' "afterAppendOf enc r db" enc] logOf_events[of db' "afterAppendOf enc r db"]
        \<open>checkAppend r = Inr u\<close> res(1) by auto
  qed (use assms(3) \<open>checkAppend r = Inr u\<close> in \<open>auto simp: appendSqlite_def runTransaction_def\<close>)
qed (use assms(3) in \<open>auto simp: appendSqlite_def\<close>)

text \<open>What an append answers on a sound store, outcome by outcome, and what it leaves.\<close>

definition appendEffect ::
  "('ev \<Rightarrow> string) \<Rightarrow> 'ev appendEventsRequest \<Rightarrow> ('ev, 'p) database \<Rightarrow> exn + 'ev appendEventsOutcome \<Rightarrow>
     ('ev, 'p) database \<Rightarrow> bool" where
  "appendEffect enc r db out db' \<longleftrightarrow>
     (let m = aprMeetingId r; log = logOf db m; actual = int (length log);
          known = (case aprIdempotencyKey r of None \<Rightarrow> None | Some k \<Rightarrow> findAppend db m k)
      in case out of
        Inl e \<Rightarrow> db' = db \<and> (checkAppend r = Inl e \<or>
          known = None \<and> actual + int (length (aprEvents r)) > MAX_SAFE_INTEGER \<and>
          e = RangeError ''Event position exceeds the safe integer range'')
      | Inr (AppendIdempotencyConflict k) \<Rightarrow> db' = db \<and> aprIdempotencyKey r = Some k \<and>
          (\<exists>row. known = Some row \<and> replayConflict enc r row)
      | Inr (Replayed records) \<Rightarrow> db' = db \<and>
          (\<exists>row xs ys zs. known = Some row \<and> \<not> replayConflict enc r row \<and> log = xs @ ys @ zs \<and>
             idrFirstPosition row = 1 + int (length xs) \<and> idrEventCount row = int (length ys) \<and>
             records = numberRecords (1 + int (length xs)) ys)
      | Inr (PositionConflict seen expected) \<Rightarrow> db' = db \<and> known = None \<and>
          seen = actual \<and> aprExpectedPosition r = Some expected \<and> expected \<noteq> actual
      | Inr (Appended records) \<Rightarrow> known = None \<and>
          (\<forall>e. aprExpectedPosition r = Some e \<longrightarrow> e = actual) \<and>
          records = numberRecords (actual + 1) (aprEvents r) \<and>
          logOf db' = (logOf db)(m := log @ aprEvents r) \<and>
          dbAppends db' = dbAppends db @
            (case aprIdempotencyKey r of None \<Rightarrow> [] | Some k \<Rightarrow> [newReceipt enc r actual k]) \<and>
          dbProjections db' = dbProjections db)"

lemma replay_range:
  assumes "storeOk enc db" "findAppend db m k = Some row"
  obtains xs ys zs where "logOf db m = xs @ ys @ zs" "idrFirstPosition row = 1 + int (length xs)"
    "idrEventCount row = int (length ys)"
    "loadEventRange db m (idrFirstPosition row) (idrEventCount row) = Inr (numberRecords (1 + int (length xs)) ys)"
proof -
  from findFirst_SomeD[OF assms(2)[unfolded findAppend_def]] have row: "row \<in> set (dbAppends db)" "idrMeetingId row = m" by auto
  with assms(1) have "receiptOk enc db row" by (simp add: storeOk_def)
  with row(2) obtain xs ys zs where s: "logOf db m = xs @ ys @ zs" "idrFirstPosition row = 1 + int (length xs)"
    "idrEventCount row = int (length ys)" by (auto simp: receiptOk_def)
  moreover have "loadEventRange db m (1 + int (length xs)) (int (length ys)) = Inr (numberRecords (1 + int (length xs)) ys)"
    by (rule loadEventRange_slice[OF _ s(1)]) (use assms(1) in \<open>simp add: storeOk_def\<close>)
  ultimately show thesis by (intro that[of xs ys zs]) simp_all
qed

lemma appendRows_new:
  assumes "storeOk enc db" "case aprIdempotencyKey r of None \<Rightarrow> True | Some k \<Rightarrow> findAppend db (aprMeetingId r) k = None"
  shows "appendRows enc Inr r (int (length (logOf db (aprMeetingId r)))) db =
    (if int (length (logOf db (aprMeetingId r))) + int (length (aprEvents r)) \<le> MAX_SAFE_INTEGER \<or> aprEvents r = [] then
       Inr (Appended (numberRecords (int (length (logOf db (aprMeetingId r))) + 1) (aprEvents r)), afterAppendOf enc r db)
     else Inl (RangeError ''Event position exceeds the safe integer range''))"
proof -
  have "contiguous db (aprMeetingId r)" using assms(1) by (simp add: storeOk_def)
  note ins = insertEvents_contiguous[OF this, of "aprEvents r"]
  show ?thesis
    using assms(2) ins
    by (cases "aprIdempotencyKey r") (simp_all add: appendRows_def insertAppend_def afterAppendOf_def newReceipt_def findAppend_None)
qed

lemma appendSqlite_effect:
  assumes "storeOk enc db"
  shows "appendEffect enc r db (fst (appendSqlite enc Inr r db)) (snd (appendSqlite enc Inr r db))"
proof -
  let ?m = "aprMeetingId r"
  let ?n = "int (length (logOf db ?m))"
  have c: "contiguous db ?m" using assms by (simp add: storeOk_def)
  have log: "logOf (afterAppendOf enc r db) = (logOf db)(?m := logOf db ?m @ aprEvents r)"
    unfolding logOf_addEvents[symmetric] by (rule logOf_events) (simp add: afterAppendOf_def)
  have kept: "dbProjections (afterAppendOf enc r db) = dbProjections db" "dbAppends (afterAppendOf enc r db) = dbAppends db @
      (case aprIdempotencyKey r of None \<Rightarrow> [] | Some k \<Rightarrow> [newReceipt enc r ?n k])"
    by (simp_all add: afterAppendOf_def addEvents_def)
  have fresh: ?thesis
    if ok: "checkAppend r = Inr ()" and work: "appendWork enc Inr r db = appendNew enc Inr r db"
      and none: "case aprIdempotencyKey r of None \<Rightarrow> True | Some k \<Rightarrow> findAppend db ?m k = None"
    using readPosition_contiguous[OF c] appendRows_new[OF assms none] none
    by (auto simp: appendSqlite_def ok runTransaction_def work appendNew_def appendEffect_def Let_def log kept
        split: option.splits)
  show ?thesis
  proof (cases "checkAppend r")
    case (Inl e)
    then show ?thesis by (simp add: appendSqlite_def appendEffect_def Let_def)
  next
    case ok: (Inr u)
    show ?thesis
    proof (cases "aprIdempotencyKey r")
      case None
      then show ?thesis using fresh ok by (simp add: appendWork_def)
    next
      case k: (Some k)
      show ?thesis
      proof (cases "findAppend db ?m k")
        case None
        then show ?thesis using fresh ok k by (simp add: appendWork_def)
      next
        case row: (Some row)
        obtain xs ys zs where "logOf db ?m = xs @ ys @ zs" "idrFirstPosition row = 1 + int (length xs)"
          "idrEventCount row = int (length ys)"
          "loadEventRange db ?m (idrFirstPosition row) (idrEventCount row) = Inr (numberRecords (1 + int (length xs)) ys)"
          by (rule replay_range[OF assms row])
        then show ?thesis
          using ok k row by (auto simp: appendSqlite_def runTransaction_def appendWork_def appendEffect_def Let_def)
      qed
    qed
  qed
qed

text \<open>What the store remembers of a keyed append.\<close>

definition remembersAppend ::
  "('ev \<Rightarrow> string) \<Rightarrow> ('ev, 'p) database \<Rightarrow> 'ev appendEventsRequest \<Rightarrow> 'ev eventRecord list \<Rightarrow> bool" where
  "remembersAppend enc db r records \<longleftrightarrow>
     checkAppend r = Inr () \<and>
     (\<exists>k xs zs. aprIdempotencyKey r = Some k \<and>
        findAppend db (aprMeetingId r) k = Some (newReceipt enc r (int (length xs)) k) \<and>
        logOf db (aprMeetingId r) = xs @ aprEvents r @ zs \<and>
        records = numberRecords (1 + int (length xs)) (aprEvents r))"

lemma replayConflict_newReceipt: "\<not> replayConflict enc r (newReceipt enc r n k)"
  by (simp add: replayConflict_def newReceipt_def)

lemma remembered_append_replays:
  assumes "storeOk enc db" "remembersAppend enc db r records"
  shows "appendSqlite enc after r db = (Inr (Replayed records), db)"
proof -
  obtain k xs zs where k: "aprIdempotencyKey r = Some k"
    "findAppend db (aprMeetingId r) k = Some (newReceipt enc r (int (length xs)) k)"
    "logOf db (aprMeetingId r) = xs @ aprEvents r @ zs"
    "records = numberRecords (1 + int (length xs)) (aprEvents r)" "checkAppend r = Inr ()"
    using assms(2) by (auto simp: remembersAppend_def)
  have "loadEventRange db (aprMeetingId r) (1 + int (length xs)) (int (length (aprEvents r))) = Inr records"
    using loadEventRange_slice[OF _ k(3)] assms(1) k(4) by (simp add: storeOk_def)
  then have "appendWork enc after r db = Inr (Replayed records, db)"
    using k(1,2) by (simp add: appendWork_def replayConflict_newReceipt)
      (simp add: newReceipt_def add.commute)
  with k(5) show ?thesis by (simp add: appendSqlite_def runTransaction_def)
qed

lemma findAppend_extend:
  "dbAppends db' = dbAppends db @ rows \<Longrightarrow> findAppend db m k = Some row \<Longrightarrow> findAppend db' m k = Some row"
  by (simp add: findAppend_def findFirst_append)

lemma remembers_extend:
  assumes "remembersAppend enc db r records" "dbAppends db' = dbAppends db @ rows"
    "logOf db' (aprMeetingId r) = logOf db (aprMeetingId r) @ es"
  shows "remembersAppend enc db' r records"
  using assms findAppend_extend[OF assms(2)] unfolding remembersAppend_def
  by (metis append.assoc)

lemma remembers_after:
  assumes "storeOk enc db" "keepsEvents after" "remembersAppend enc db r records"
  shows "remembersAppend enc (snd (appendSqlite enc after q db)) r records"
proof -
  obtain out db' where ap: "appendSqlite enc after q db = (out, db')" by (cases "appendSqlite enc after q db")
  from appendSqlite_cases[OF assms(1,2) ap] show ?thesis
  proof (elim disjE exE conjE)
    fix records'
    assume "after (afterAppendOf enc q db) = Inr db'"
      and log: "logOf db' = (logOf db)(aprMeetingId q := logOf db (aprMeetingId q) @ aprEvents q)"
    then obtain rows where "dbAppends db' = dbAppends db @ rows"
      using assms(2) by (auto simp: keepsEvents_def afterAppendOf_def)
    then show ?thesis
      using remembers_extend[OF assms(3), of db' rows
          "if aprMeetingId r = aprMeetingId q then aprEvents q else []"] log ap by auto
  qed (use assms(3) ap in simp)
qed

lemma appended_is_remembered:
  assumes "storeOk enc db" "keepsEvents after"
    "appendSqlite enc after r db = (Inr (Appended records), db')" "aprIdempotencyKey r = Some k"
  shows "remembersAppend enc db' r records"
proof -
  from appendSqlite_cases[OF assms(1-3)] have
    new: "appendsNew db r records" and ok: "checkAppend r = Inr ()"
    and db': "after (afterAppendOf enc r db) = Inr db'"
    and log: "logOf db' = (logOf db)(aprMeetingId r := logOf db (aprMeetingId r) @ aprEvents r)"
    by auto
  have app: "dbAppends db' = dbAppends db @ [newReceipt enc r (int (length (logOf db (aprMeetingId r)))) k]"
    using db' assms(2,4) by (auto simp: keepsEvents_def afterAppendOf_def)
  have none: "findAppend db (aprMeetingId r) k = None"
    using new assms(4) by (simp add: appendsNew_def)
  have "findAppend db' (aprMeetingId r) k =
      Some (newReceipt enc r (int (length (logOf db (aprMeetingId r)))) k)"
    using none by (simp add: findAppend_def app findFirst_append newReceipt_def)
  then show ?thesis
    unfolding remembersAppend_def using new ok assms(4) log
    by (intro conjI exI[of _ k] exI[of _ "logOf db (aprMeetingId r)"] exI[of _ "[]"])
      (simp_all add: appendsNew_def add.commute)
qed

subsection \<open>The port: an append-only log with optimistic concurrency and idempotent retries\<close>

locale event_log =
  fixes append :: "'ev appendEventsRequest \<Rightarrow> 'db \<Rightarrow> (exn + 'ev appendEventsOutcome) \<times> 'db"
    and load :: "'db \<Rightarrow> string \<Rightarrow> int option \<Rightarrow> exn + 'ev eventRecord list"
    and log :: "'db \<Rightarrow> string \<Rightarrow> 'ev list"
    and ok :: "'db \<Rightarrow> bool"
    and remembers :: "'db \<Rightarrow> 'ev appendEventsRequest \<Rightarrow> 'ev eventRecord list \<Rightarrow> bool"
  assumes append_ok: "ok db \<Longrightarrow> ok (snd (append r db))"
    and append_new: "ok db \<Longrightarrow> append r db = (Inr (Appended records), db') \<Longrightarrow>
      log db' = (log db)(aprMeetingId r := log db (aprMeetingId r) @ aprEvents r) \<and>
      records = numberRecords (int (length (log db (aprMeetingId r))) + 1) (aprEvents r) \<and>
      (\<forall>e. aprExpectedPosition r = Some e \<longrightarrow> e = int (length (log db (aprMeetingId r))))"
    and append_other: "ok db \<Longrightarrow> append r db = (out, db') \<Longrightarrow>
      (\<And>records. out \<noteq> Inr (Appended records)) \<Longrightarrow> db' = db"
    and load_log: "ok db \<Longrightarrow> m \<noteq> [] \<Longrightarrow> load db m None = Inr (numberRecords 1 (log db m))"
    and append_remembers: "ok db \<Longrightarrow> append r db = (Inr (Appended records), db') \<Longrightarrow>
      aprIdempotencyKey r = Some k \<Longrightarrow> remembers db' r records"
    and remembers_append: "ok db \<Longrightarrow> remembers db r records \<Longrightarrow> remembers (snd (append q db)) r records"
    and remembers_replays: "ok db \<Longrightarrow> remembers db r records \<Longrightarrow> append r db = (Inr (Replayed records), db)"
begin

definition appendAll :: "'ev appendEventsRequest list \<Rightarrow> 'db \<Rightarrow> 'db" where
  "appendAll rs db = foldl (\<lambda>db r. snd (append r db)) db rs"

lemma append_grows:
  assumes "ok db"
  shows "\<exists>es. log (snd (append r db)) m = log db m @ es"
proof (cases "\<exists>records. fst (append r db) = Inr (Appended records)")
  case True
  then obtain records where "append r db = (Inr (Appended records), snd (append r db))"
    by (metis prod.collapse)
  from append_new[OF assms this] show ?thesis by (cases "m = aprMeetingId r") auto
next
  case False
  then have "snd (append r db) = db"
    using append_other[OF assms, of r "fst (append r db)" "snd (append r db)"] by simp
  then show ?thesis by simp
qed

lemma appendAll_induct:
  assumes "ok db" "P db" "\<And>db r. ok db \<Longrightarrow> P db \<Longrightarrow> P (snd (append r db))"
  shows "ok (appendAll rs db) \<and> P (appendAll rs db)"
  using assms(1,2) unfolding appendAll_def
  by (induction rs arbitrary: db) (auto intro: append_ok assms(3))

lemma log_only_grows:
  assumes "ok db"
  shows "\<exists>es. log (appendAll rs db) m = log db m @ es"
proof -
  have "\<exists>es. log (appendAll rs db) m = log db m @ es"
    using appendAll_induct[of db "\<lambda>d. \<exists>es. log d m = log db m @ es" rs] assms append_grows
    by (metis append.assoc append_Nil2)
  then show ?thesis .
qed

lemma retry_replays:
  assumes "ok db" "append r db = (Inr (Appended records), db')" "aprIdempotencyKey r = Some k"
  shows "append r (appendAll rs db') = (Inr (Replayed records), appendAll rs db')"
proof -
  have "ok db'" using append_ok[OF assms(1), of r] assms(2) by simp
  then have "ok (appendAll rs db') \<and> remembers (appendAll rs db') r records"
    using appendAll_induct[of db' "\<lambda>d. remembers d r records" rs] append_remembers[OF assms]
      remembers_append by blast
  then show ?thesis by (simp add: remembers_replays)
qed

lemma one_writer_per_position:
  assumes "ok db" "append r db = (Inr (Appended records), db')" "aprEvents r \<noteq> []"
    and "aprExpectedPosition r = Some e" "aprExpectedPosition q = Some e" "aprMeetingId q = aprMeetingId r"
  shows "fst (append q (appendAll rs db')) \<noteq> Inr (Appended records')"
proof
  assume "fst (append q (appendAll rs db')) = Inr (Appended records')"
  then have q: "append q (appendAll rs db') = (Inr (Appended records'), snd (append q (appendAll rs db')))"
    by (metis prod.collapse)
  have ok': "ok db'" using append_ok[OF assms(1), of r] assms(2) by simp
  then have "ok (appendAll rs db')" using appendAll_induct[of db' "\<lambda>_. True"] by simp
  note new = append_new[OF this q]
  obtain es where "log (appendAll rs db') (aprMeetingId r) = log db' (aprMeetingId r) @ es"
    using log_only_grows[OF ok'] by blast
  with new append_new[OF assms(1,2)] assms(4-)
  have "int (length (aprEvents r)) + int (length es) = 0" by simp
  with assms(3) show False by (cases "aprEvents r") auto
qed

end

interpretation sqlite: event_log "sqliteAppend enc" sqliteLoad logOf "storeOk enc" "remembersAppend enc"
  for enc :: "'ev \<Rightarrow> string"
proof unfold_locales
  fix db db' :: "('ev, 'p) database" and r q :: "'ev appendEventsRequest"
    and records :: "'ev eventRecord list" and m k and out
  assume ok: "storeOk enc db"
  show "storeOk enc (snd (sqliteAppend enc r db))"
    using appendSqlite_cases[OF ok keepsEvents_Inr, of r] ok
    by (cases "appendSqlite enc Inr r db") (auto simp: sqliteAppend_def)
  show "db' = db" if "sqliteAppend enc r db = (out, db')" "\<And>records. out \<noteq> Inr (Appended records)"
    using appendSqlite_cases[OF ok keepsEvents_Inr that(1)[unfolded sqliteAppend_def]] that(2) by auto
  show "logOf db' = (logOf db)(aprMeetingId r := logOf db (aprMeetingId r) @ aprEvents r) \<and>
      records = numberRecords (int (length (logOf db (aprMeetingId r))) + 1) (aprEvents r) \<and>
      (\<forall>e. aprExpectedPosition r = Some e \<longrightarrow> e = int (length (logOf db (aprMeetingId r))))"
    if "sqliteAppend enc r db = (Inr (Appended records), db')"
    using appendSqlite_cases[OF ok keepsEvents_Inr that[unfolded sqliteAppend_def]]
    by (auto simp: appendsNew_def)
  show "sqliteLoad db m None = Inr (numberRecords 1 (logOf db m))" if "m \<noteq> []"
  proof (rule sqliteLoad_log[OF _ that])
    show "contiguous db m" using ok by (simp add: storeOk_def)
  qed
  show "remembersAppend enc db' r records"
    if "sqliteAppend enc r db = (Inr (Appended records), db')" "aprIdempotencyKey r = Some k"
    using appended_is_remembered[OF ok keepsEvents_Inr that(1)[unfolded sqliteAppend_def] that(2)] .
  show "remembersAppend enc (snd (sqliteAppend enc q db)) r records" if "remembersAppend enc db r records"
    using remembers_after[OF ok keepsEvents_Inr that] by (simp add: sqliteAppend_def)
  show "sqliteAppend enc r db = (Inr (Replayed records), db)" if "remembersAppend enc db r records"
    using remembered_append_replays[OF ok that] by (simp add: sqliteAppend_def)
qed


subsection \<open>Projections\<close>

lemma projectionPartition_Inr:
  "projectionPartition s = Inr (kind, owner) \<longleftrightarrow>
     pscMeetingId s \<noteq> [] \<and> pscProjection s \<noteq> [] \<and>
     (case pscOwnerParticipantId s of
        None \<Rightarrow> kind = ''shared'' \<and> owner = []
      | Some p \<Rightarrow> p \<noteq> [] \<and> kind = ''owner_private'' \<and> owner = p)"
  by (auto simp: projectionPartition_def requireNonEmpty_def result_simps split: option.splits)

definition scopeOk :: "projectionScope \<Rightarrow> bool" where
  "scopeOk s \<longleftrightarrow> pscMeetingId s \<noteq> [] \<and> pscProjection s \<noteq> [] \<and> pscOwnerParticipantId s \<noteq> Some []"

definition partitionOf :: "projectionScope \<Rightarrow> string \<times> string" where
  "partitionOf s =
     (case pscOwnerParticipantId s of None \<Rightarrow> (''shared'', []) | Some p \<Rightarrow> (''owner_private'', p))"

lemma projectionPartition_ok: "scopeOk s \<Longrightarrow> projectionPartition s = Inr (partitionOf s)"
  by (cases "partitionOf s")
    (auto simp: scopeOk_def partitionOf_def projectionPartition_Inr split: option.splits)

lemma projectionPartition_bad: "\<not> scopeOk s \<Longrightarrow> \<exists>e. projectionPartition s = Inl e"
  by (cases "projectionPartition s")
    (auto simp: scopeOk_def projectionPartition_Inr split: option.splits)

lemma partitionOf_inj: "partitionOf s = partitionOf t \<longleftrightarrow> pscOwnerParticipantId s = pscOwnerParticipantId t"
  by (auto simp: partitionOf_def split: option.splits)

lemma upsertProjection_Inr:
  "upsertProjection s v db = Inr db' \<longleftrightarrow>
     scopeOk s \<and>
     db' = db\<lparr>dbProjections := upsertBy
        (\<lambda>r. projectionKey r = (pscMeetingId s, pscProjection s, partitionOf s))
        \<lparr>prwMeetingId = pscMeetingId s, prwProjection = pscProjection s,
         prwScopeKind = fst (partitionOf s), prwOwnerParticipantId = snd (partitionOf s), prwValue = v\<rparr>
        (dbProjections db)\<rparr>"
proof (cases "scopeOk s")
  case True
  then show ?thesis
    by (cases "partitionOf s")
      (auto simp: upsertProjection_def projectionPartition_ok Let_def projectionKey_def)
next
  case False
  then show ?thesis using projectionPartition_bad[OF False] by (auto simp: upsertProjection_def)
qed

lemma sqliteGet_ok:
  "scopeOk s \<Longrightarrow> sqliteGet db s = Inr (map_option prwValue (findFirst
     (\<lambda>r. projectionKey r = (pscMeetingId s, pscProjection s, partitionOf s)) (dbProjections db)))"
  by (cases "partitionOf s") (simp add: sqliteGet_def projectionPartition_ok)

lemma get_after_upsert:
  assumes "upsertProjection s v db = Inr db'" "scopeOk t"
  shows "sqliteGet db' t = (if t = s then Inr (Some v) else sqliteGet db t)"
proof -
  let ?row = "\<lparr>prwMeetingId = pscMeetingId s, prwProjection = pscProjection s,
         prwScopeKind = fst (partitionOf s), prwOwnerParticipantId = snd (partitionOf s), prwValue = v\<rparr>"
  have key: "projectionKey ?row = (pscMeetingId s, pscProjection s, partitionOf s)"
    by (simp add: projectionKey_def)
  have eq: "(pscMeetingId t, pscProjection t, partitionOf t) = projectionKey ?row \<longleftrightarrow> t = s"
    unfolding key by (auto simp: partitionOf_inj intro: projectionScope.equality)
  show ?thesis
    using assms findFirst_upsertBy_same[of projectionKey ?row "dbProjections db"]
      findFirst_upsertBy_other[of "(pscMeetingId t, pscProjection t, partitionOf t)" projectionKey ?row
        "dbProjections db"]
    unfolding upsertProjection_Inr key[symmetric] sqliteGet_ok[OF assms(2)] eq[symmetric]
    by auto
qed

lemma get_after_upserts:
  assumes "upsertProjections ws db = Inr db'" "scopeOk t"
  shows "sqliteGet db' t =
    (case findLast (\<lambda>w. pwrScope w = t) ws of Some w \<Rightarrow> Inr (Some (pwrValue w)) | None \<Rightarrow> sqliteGet db t)"
  using assms(1)
proof (induction ws arbitrary: db)
  case Nil
  then show ?case by (simp add: findLast_def)
next
  case (Cons w ws)
  then obtain db1 where db1: "upsertProjection (pwrScope w) (pwrValue w) db = Inr db1"
    "upsertProjections ws db1 = Inr db'" by (auto simp: result_simps)
  have "findLast (\<lambda>w. pwrScope w = t) (w # ws) =
    (case findLast (\<lambda>w. pwrScope w = t) ws of Some v \<Rightarrow> Some v
     | None \<Rightarrow> if pwrScope w = t then Some w else None)"
    by (auto simp: findLast_def findFirst_append split: option.splits)
  with Cons.IH[OF db1(2)] get_after_upsert[OF db1(1) assms(2)] show ?case
    by (auto split: option.splits)
qed

subsection \<open>Properties\<close>

definition exampleRequest :: "string list \<Rightarrow> int option \<Rightarrow> string option \<Rightarrow> string appendEventsRequest" where
  "exampleRequest evs expected key =
     \<lparr>aprEvents = evs, aprExpectedPosition = expected, aprIdempotencyKey = key, aprMeetingId = ''m'',
      aprPayloadFingerprint = None, aprTrustFingerprint = None\<rparr>"

definition exampleStore :: "(string, nat) database" where
  "exampleStore = snd (sqliteAppend (\<lambda>s. s) (exampleRequest [''a''] (Some 0) (Some ''k'')) emptyDatabase)"

lemmas store_eval =
  sqliteAppend_def appendSqlite_def checkAppend_def requireNonEmpty_def requireOption_def
  requirePosition_def isSafeInteger_def MAX_SAFE_INTEGER_def runTransaction_def appendWork_def
  appendNew_def appendRows_def insertEvent_def insertAppend_def findAppend_def readPosition_def
  exampleRequest_def emptyDatabase_def

lemma exampleStore_append:
  "sqliteAppend (\<lambda>s. s) (exampleRequest [''a''] (Some 0) (Some ''k'')) emptyDatabase =
     (Inr (Appended [\<lparr>ercEvent = ''a'', ercPosition = 1\<rparr>]), exampleStore)"
  unfolding exampleStore_def by (simp add: store_eval)

text \<open>C14. The event store refines an append-only log, whatever an append answers. Appended: the log of its
  meeting is extended by exactly the given events, at the positions that follow the last one, only when the
  expected position was the current one and the key was new; no other meeting's log changes, a keyed
  request adds one receipt and the projections stay. Replayed: the key was known with the same request,
  the answer is the range of the log that its receipt names. Key conflict: the key was known with another
  request. Position conflict: the key was new and the expected position was not the current one. The only exceptions
  are invalid arguments and running out of safe positions. In all cases but the first the whole database
  is as it was; afterwards every log loads in order with positions 1, 2, 3, ...\<close>

theorem append_extends_log:
  assumes "storeOk enc db" "sqliteAppend enc r db = (out, db')"
  shows "appendEffect enc r db out db' \<and> storeOk enc db' \<and>
    (\<forall>m. m \<noteq> [] \<longrightarrow> sqliteLoad db' m None = Inr (numberRecords 1 (logOf db' m)))"
  using appendSqlite_effect[OF assms(1), of r] sqlite.append_ok[OF assms(1), of r] assms(2) sqlite.load_log
  by (metis sqliteAppend_def fst_conv snd_conv)

theorem append_extends_log_witness:
  "logOf exampleStore ''m'' = [''a''] \<and> storeOk (\<lambda>s. s) exampleStore \<and>
   appendEffect (\<lambda>s. s) (exampleRequest [''b''] (Some 0) None) exampleStore (Inr (PositionConflict 1 0)) exampleStore"
proof -
  have first: "appendEffect (\<lambda>s. s) (exampleRequest [''a''] (Some 0) (Some ''k'')) emptyDatabase
      (Inr (Appended [\<lparr>ercEvent = ''a'', ercPosition = 1\<rparr>])) exampleStore \<and> storeOk (\<lambda>s. s) exampleStore"
    using append_extends_log[OF storeOk_empty exampleStore_append] by blast
  then have log: "logOf exampleStore ''m'' = [''a'']"
    by (simp add: appendEffect_def Let_def logOf_def emptyDatabase_def exampleRequest_def)
  have "sqliteAppend (\<lambda>s. s) (exampleRequest [''b''] (Some 0) None) exampleStore = (Inr (PositionConflict 1 0), exampleStore)"
    by (simp add: exampleStore_def store_eval)
  from append_extends_log[OF conjunct2[OF first] this] first log show ?thesis by blast
qed

text \<open>An append that does not succeed (a conflict, a replay, an invalid argument, a failure of
  the transaction) leaves the whole database as it was.\<close>

theorem failed_append_changes_nothing:
  assumes "storeOk enc db" "sqliteAppend enc r db = (out, db')"
    and "\<forall>records. out \<noteq> Inr (Appended records)"
  shows "db' = db"
  using sqlite.append_other[OF assms(1,2)] assms(3) by blast

theorem failed_append_changes_nothing_witness:
  "snd (sqliteAppend (\<lambda>s. s) (exampleRequest [''b''] (Some 7) None) emptyDatabase) =
   (emptyDatabase :: (string, nat) database)"
  by (rule failed_append_changes_nothing[OF storeOk_empty, of "\<lambda>s. s" "exampleRequest [''b''] (Some 7) None"
        "Inr (PositionConflict 0 7)"]) (simp_all add: store_eval)

text \<open>C15. Retries are safe: repeating a keyed append that succeeded, at any later time and after any
  other appends, returns the records of the first call as replayed and changes nothing.\<close>

theorem retried_append_is_replayed:
  assumes "storeOk enc db" "sqliteAppend enc r db = (Inr (Appended records), db')"
    and "aprIdempotencyKey r = Some k"
  shows "sqliteAppend enc r (foldl (\<lambda>d q. snd (sqliteAppend enc q d)) db' qs) =
    (Inr (Replayed records), foldl (\<lambda>d q. snd (sqliteAppend enc q d)) db' qs)"
  using sqlite.retry_replays[OF assms] by (simp add: sqlite.appendAll_def)

theorem retried_append_is_replayed_witness:
  "fst (sqliteAppend (\<lambda>s. s) (exampleRequest [''a''] (Some 0) (Some ''k''))
     (snd (sqliteAppend (\<lambda>s. s) (exampleRequest [''b''] (Some 1) None) exampleStore))) =
   Inr (Replayed [\<lparr>ercEvent = ''a'', ercPosition = 1\<rparr>])"
  using retried_append_is_replayed[OF storeOk_empty exampleStore_append, of "''k''"
      "[exampleRequest [''b''] (Some 1) None]"]
  by (simp add: exampleRequest_def)

text \<open>Optimistic concurrency: of all appends of events to a meeting that name the same expected
  position, at most one succeeds, whatever other appends run between them.\<close>

theorem one_append_per_expected_position:
  assumes "storeOk enc db" "sqliteAppend enc r db = (Inr (Appended records), db')" "aprEvents r \<noteq> []"
    and "aprExpectedPosition r = Some e" "aprExpectedPosition q = Some e" "aprMeetingId q = aprMeetingId r"
  shows "fst (sqliteAppend enc q (foldl (\<lambda>d s. snd (sqliteAppend enc s d)) db' qs)) \<noteq>
    Inr (Appended records')"
  using sqlite.one_writer_per_position[OF assms] by (simp add: sqlite.appendAll_def)

theorem one_append_per_expected_position_witness:
  "fst (sqliteAppend (\<lambda>s. s) (exampleRequest [''b''] (Some 0) None) exampleStore) \<noteq>
   Inr (Appended [\<lparr>ercEvent = ''b'', ercPosition = 1\<rparr>])"
  using one_append_per_expected_position[OF storeOk_empty exampleStore_append, of 0
      "exampleRequest [''b''] (Some 0) None" "[]"]
  by (simp add: exampleRequest_def)

text \<open>C16. A commit is atomic: either the database is unchanged, or the events are appended and every
  projection write took effect; reading a projection afterwards gives the last value written to its
  scope and, for a scope not written, the value of before. Shared and owner-private scopes never
  overlap.\<close>

theorem commit_is_atomic:
  assumes "storeOk enc db" "sqliteCommit enc r ws db = (out, db')"
  shows "db' = db \<and> (\<forall>records. out \<noteq> Inr (Appended records)) \<or>
    (\<exists>records. out = Inr (Appended records) \<and> aprEvents r \<noteq> [] \<and> storeOk enc db' \<and>
      logOf db' = (logOf db)(aprMeetingId r := logOf db (aprMeetingId r) @ aprEvents r) \<and>
      (\<forall>t. scopeOk t \<longrightarrow> sqliteGet db' t =
         (case findLast (\<lambda>w. pwrScope w = t) ws of
            Some w \<Rightarrow> Inr (Some (pwrValue w)) | None \<Rightarrow> sqliteGet db t)))"
proof (cases "checkCommit r ws")
  case (Inr u)
  then have ne: "aprEvents r \<noteq> []" by (auto simp: checkCommit_def result_simps)
  have get: "sqliteGet (afterAppendOf enc r db) t = sqliteGet db t" for t
    by (simp add: sqliteGet_def afterAppendOf_def addEvents_def)
  have "appendSqlite enc (upsertProjections ws) r db = (out, db')"
    using assms(2) Inr by (simp add: sqliteCommit_def)
  from appendSqlite_cases[OF assms(1) keepsEvents_upsertProjections this] show ?thesis
  proof (elim disjE exE conjE)
    fix records
    assume out: "out = Inr (Appended records)" and ups: "upsertProjections ws (afterAppendOf enc r db) = Inr db'"
      and st: "storeOk enc db'"
      and log: "logOf db' = (logOf db)(aprMeetingId r := logOf db (aprMeetingId r) @ aprEvents r)"
    show ?thesis
      using get_after_upserts[OF ups] unfolding get by (intro disjI2 exI[of _ records] conjI allI impI out ne st log)
  qed simp
qed (use assms(2) in \<open>auto simp: sqliteCommit_def\<close>)

theorem commit_is_atomic_witness:
  "\<exists>db' :: (string, nat) database.
     sqliteCommit (\<lambda>s. s) (exampleRequest [''a''] (Some 0) (Some ''k''))
       [\<lparr>pwrScope = \<lparr>pscMeetingId = ''m'', pscOwnerParticipantId = None, pscProjection = ''meeting''\<rparr>,
         pwrValue = 7\<rparr>] emptyDatabase = (Inr (Appended [\<lparr>ercEvent = ''a'', ercPosition = 1\<rparr>]), db') \<and>
     sqliteGet db' \<lparr>pscMeetingId = ''m'', pscOwnerParticipantId = None, pscProjection = ''meeting''\<rparr> =
       Inr (Some 7)"
proof -
  let ?s = "\<lparr>pscMeetingId = ''m'', pscOwnerParticipantId = None, pscProjection = ''meeting''\<rparr>"
  let ?r = "exampleRequest [''a''] (Some 0) (Some ''k'')"
  have "\<exists>db' :: (string, nat) database. sqliteCommit (\<lambda>s. s) ?r [\<lparr>pwrScope = ?s, pwrValue = 7\<rparr>] emptyDatabase =
      (Inr (Appended [\<lparr>ercEvent = ''a'', ercPosition = 1\<rparr>]), db')"
    by (simp add: sqliteCommit_def checkCommit_def requirePresent_def store_eval upsertProjection_def
        projectionPartition_def)
  then obtain db' :: "(string, nat) database" where c:
    "sqliteCommit (\<lambda>s. s) ?r [\<lparr>pwrScope = ?s, pwrValue = 7\<rparr>] emptyDatabase =
      (Inr (Appended [\<lparr>ercEvent = ''a'', ercPosition = 1\<rparr>]), db')" by blast
  from commit_is_atomic[OF storeOk_empty c] have "sqliteGet db' ?s = Inr (Some 7)"
    by (auto simp: scopeOk_def findLast_def)
  with c show ?thesis by blast
qed

end
