(* ===== verification/Entities.thy ===== *)
theory Entities
  imports Values
begin

section \<open>Domain records: \<open>packages/domain/src/entities.ts\<close>\<close>

text \<open>
  Every entity of the source is the intersection of the common record fields, a scope and its own
  fields; here it is a record that extends \<open>commonRecord\<close>. The scope is the pair of \<open>recVisibility\<close>
  and the optional \<open>recOwner\<close> (for Actions and reconsideration tasks, whose type declares an
  \<open>ownerParticipantId\<close> of its own, the same property holds the owner). Each \<open>create\<close> function is the
  sequence of checks of the source in their order; it returns its argument or the first error. The
  lemmas characterise acceptance of each constructor that the rest of the program relies on.
\<close>

subsection \<open>Enumerations\<close>

datatype visibility = Private | Shared
datatype origin = HumanUtterance | HumanInput | SourceArtifactOrigin | AiInference | SystemOrigin
datatype confirmationStatus = NotApplicable | Proposed | Confirmed | RejectedConfirmation
datatype meetingPhase = Preparing | Deliberating | Deciding | Ended
datatype participantRole = Facilitator | ParticipantRole
datatype capability =
    ReadShared | ReadOwnPrivate | AddOwnPrivateArtifact | ProposeOwnDisclosure | CommitDecision
  | ConfirmReviewRequired | InjectDemoEvent | ResetDemoMeeting | ConfigureByok
datatype artifactType = DocumentArtifact | UrlArtifact | TextArtifact
datatype artifactProcessingState = Registered | Processing | Processed | FailedProcessing
datatype stancePosition = Support | Oppose | Uncertain
datatype resolutionStatus = OpenQuestion | ResolvedQuestion
datatype optionState = CandidateOption | SelectedOption | DiscardedOption
datatype decisionStatus =
    DRAFT | DECISION_READY | COMMITTED | MONITORING | AT_RISK | REVIEW_REQUIRED | SUPERSEDED | REJECTED
datatype actionStatus = Planned | Active | Held | Completed
datatype disposition = PendingDisposition | AcceptedDisposition | RejectedDisposition
datatype signatureResult = ValidSignature | NoSignature
datatype taskState = TaskOpen | TaskInProgress | TaskCompleted | TaskCancelled
datatype relationKind =
    Supports | Contradicts | Assumes | Answers | DependsOn | Satisfies | Violates | Implements
  | DerivedFrom | Affects

subsection \<open>Records\<close>

record commonRecord =
  recId :: string
  recMeetingId :: string
  recCreatedAt :: string
  recCreatedBy :: string
  recOrigin :: origin
  recConfirmation :: confirmationStatus
  recRevision :: int
  recVisibility :: visibility
  recOwner :: "string option"

record participantAssignment =
  asgParticipantId :: string
  asgRole :: participantRole
  asgActive :: bool

record displayTokenState =
  tokTokenId :: string
  tokExpiresAt :: string
  tokRevokedAt :: "string option"

record meeting = commonRecord +
  mtgPurpose :: string
  mtgPhase :: meetingPhase
  mtgFacilitator :: string
  mtgAssignments :: "participantAssignment list"
  mtgDisplayTokens :: "displayTokenState list"

record participant = commonRecord +
  parUserId :: string
  parRole :: participantRole
  parPermissions :: "capability list"
  parActive :: bool
  parJoinedAt :: "string option"

record sourceArtifact = commonRecord +
  artType :: artifactType
  artStorageReference :: string
  artContentHash :: string
  artContentType :: "string option"
  artDerivedArtifactId :: "string option"
  artDerivedContentHash :: "string option"
  artDerivedSizeBytes :: "int option"
  artDerivedStorageReference :: "string option"
  artOriginalFilename :: "string option"
  artSourceLocatorHash :: "string option"
  artSizeBytes :: int
  artProcessingState :: artifactProcessingState

record utterance = commonRecord +
  uttParticipantId :: string
  uttChannel :: visibility
  uttText :: string
  uttCapturedAt :: string
  uttIdempotencyKey :: string

record propositionEntity = commonRecord +
  proStatement :: string
  proSourceReferenceIds :: "string list"

record stance = commonRecord +
  staParticipantId :: string
  staPropositionId :: string
  staPosition :: stancePosition

record question = commonRecord +
  quePrompt :: string
  queResolution :: resolutionStatus

record claim = commonRecord +
  claStatement :: string
  claSourceReferenceIds :: "string list"

record monitorCondition =
  monDescription :: string
  monRegistrationId :: "string option"

record premise = commonRecord +
  preStatement :: string
  preDependencyScope :: "string list"
  preMonitorCondition :: "monitorCondition option"

record evidence = commonRecord +
  evdExactSnippet :: string
  evdSourceArtifactId :: string
  evdSourceRange :: textRange
  evdDisclosureAuditReferenceId :: string

record optionEntity = commonRecord +
  optLabel :: string
  optDescription :: string
  optState :: optionState

record criterion = commonRecord +
  criName :: string
  criDescription :: string

record constraintEntity = commonRecord +
  cstStatement :: string
  cstSourceReferenceIds :: "string list"

record risk = commonRecord +
  rskStatement :: string
  rskProbability :: "js_number option"
  rskImpact :: "js_number option"

record evaluation = commonRecord +
  evlOptionId :: string
  evlCriterionId :: string
  evlAssessment :: string

record decisionReadiness =
  rdyOutcome :: bool
  rdyPremiseIds :: bool
  rdyEvidenceIds :: bool
  rdyActionIds :: bool
  rdyMonitorCondition :: bool

record decision = commonRecord +
  decTitle :: string
  decOutcome :: string
  decStatus :: decisionStatus
  decActiveRevision :: int
  decActiveRevisionId :: string
  decPremiseIds :: "string list"
  decEvidenceIds :: "string list"
  decDissentIds :: "string list"
  decActionIds :: "string list"
  decMonitorCondition :: monitorCondition
  decSupersededBy :: "string option"

record dissent = commonRecord +
  disParticipantId :: string
  disReason :: string
  disRetained :: bool

record action = commonRecord +
  actScope :: "string list"
  actStatus :: actionStatus
  actAffectedPremiseIds :: "string list"
  actHoldReason :: "string option"

record intervention = commonRecord +
  intSuggestion :: string
  intAudience :: "string list"
  intDisposition :: disposition

record externalEvent = commonRecord +
  extDescription :: string
  extEventType :: string
  extMonitorRegistrationId :: string
  extPayloadHash :: string
  extSchemaVersion :: int
  extSource :: string
  extSourceReference :: string
  extJurisdiction :: string
  extEffectiveAt :: string
  extReceivedAt :: string
  extSignatureResult :: signatureResult

record decisionSnapshot =
  snpTitle :: string
  snpOutcome :: string
  snpStatus :: decisionStatus
  snpPremiseIds :: "string list"
  snpEvidenceIds :: "string list"
  snpDissentIds :: "string list"
  snpActionIds :: "string list"
  snpMonitorCondition :: monitorCondition

record decisionRevision = commonRecord +
  drvDecisionId :: string
  drvVersion :: int
  drvPreviousRevisionId :: "string option"
  drvSnapshot :: decisionSnapshot
  drvChangeReason :: string

record reconsiderationTask = commonRecord +
  tskDecisionId :: string
  tskTriggerExternalEventId :: string
  tskAffectedPremiseIds :: "string list"
  tskAffectedActionIds :: "string list"
  tskState :: taskState

record relation = commonRecord +
  relSourceId :: string
  relTargetId :: string
  relKind :: relationKind
  relSourceReferenceIds :: "string list"

subsection \<open>Shared checks\<close>

definition domainCheck :: "bool \<Rightarrow> string \<Rightarrow> exn + unit" where
  "domainCheck ok message = ensure ok (DomainValueError message)"

definition assertRecordScope :: "'a commonRecord_scheme \<Rightarrow> exn + unit" where
  "assertRecordScope r =
     (if recVisibility r = Private then
        domainCheck (\<not> (recOwner r = None \<or> recOwner r = Some []))
          ''Private records require an ownerParticipantId''
      else Inr ())"

definition assertCommonRecord :: "'a commonRecord_scheme \<Rightarrow> exn + unit" where
  "assertCommonRecord r =
     bindE (assertRecordScope r) (\<lambda>_.
       domainCheck (length (recId r) \<noteq> 0) ''Domain record id must not be empty'')"

definition assertUnique :: "'a list \<Rightarrow> string \<Rightarrow> exn + unit" where
  "assertUnique vs label = domainCheck (distinct vs) (label @ '' must not contain duplicates'')"

definition assertProbability :: "js_number option \<Rightarrow> string \<Rightarrow> exn + unit" where
  "assertProbability v label =
     (case v of
        None \<Rightarrow> Inr ()
      | Some x \<Rightarrow>
          domainCheck (\<not> (\<not> isFinite x \<or> numberLessInt x 0 \<or> numberGreaterInt x 1))
            (label @ '' must be between 0 and 1''))"

definition checked :: "(exn + unit) list \<Rightarrow> 'a \<Rightarrow> exn + 'a" where
  "checked cs input = foldr (\<lambda>c rest. bindE c (\<lambda>_. rest)) cs (Inr input)"

subsection \<open>Constructors\<close>

definition createMeeting :: "meeting \<Rightarrow> exn + meeting" where
  "createMeeting input = checked
     [assertCommonRecord input,
      domainCheck (\<not> (recVisibility input \<noteq> Shared \<or> recId input \<noteq> recMeetingId input))
        ''Meeting must be shared and use its own ID as meeting scope'',
      domainCheck (length (mtgAssignments input) \<noteq> 0) ''Meeting requires at least one participant'',
      assertUnique (map asgParticipantId (mtgAssignments input)) ''Meeting participant assignments'',
      domainCheck
        (case findFirst (\<lambda>a. asgParticipantId a = mtgFacilitator input) (mtgAssignments input) of
           None \<Rightarrow> False
         | Some f \<Rightarrow> asgRole f = Facilitator \<and> asgActive f)
        ''Meeting facilitator must have an active facilitator assignment'']
     input"

definition createParticipant :: "participant \<Rightarrow> exn + participant" where
  "createParticipant input = checked
     [assertCommonRecord input,
      domainCheck (recVisibility input = Shared) ''Participant records must be shared'',
      assertUnique (parPermissions input) ''Participant permissions'',
      domainCheck
        (\<not> (parRole input = Facilitator \<and>
             (CommitDecision \<notin> set (parPermissions input) \<or>
              ConfirmReviewRequired \<notin> set (parPermissions input))))
        ''Facilitator requires commitment and review capabilities'']
     input"

definition MAX_ARTIFACT_BYTES :: int where
  "MAX_ARTIFACT_BYTES = 20 * 1024 * 1024"

definition createSourceArtifact :: "sourceArtifact \<Rightarrow> exn + sourceArtifact" where
  "createSourceArtifact input = checked
     [assertCommonRecord input,
      domainCheck (\<not> (\<not> isSafeInteger (artSizeBytes input) \<or> artSizeBytes input < 0))
        ''SourceArtifact sizeBytes must be a non-negative safe integer'',
      domainCheck (\<not> artSizeBytes input > MAX_ARTIFACT_BYTES)
        ''SourceArtifact exceeds the 20 MB domain limit'',
      domainCheck
        (case artDerivedSizeBytes input of
           None \<Rightarrow> True
         | Some n \<Rightarrow> \<not> (\<not> isSafeInteger n \<or> n < 0 \<or> n > MAX_ARTIFACT_BYTES))
        ''SourceArtifact derivedSizeBytes must satisfy the 20 MB domain limit'']
     input"

definition createUtterance :: "utterance \<Rightarrow> exn + utterance" where
  "createUtterance input = checked
     [assertCommonRecord input,
      domainCheck (uttChannel input = recVisibility input)
        ''Utterance channel must equal its immutable visibility'',
      domainCheck
        (\<not> (recVisibility input = Private \<and> Some (uttParticipantId input) \<noteq> recOwner input))
        ''Private utterance owner must be the speaking participant'']
     input"

definition createProposition :: "propositionEntity \<Rightarrow> exn + propositionEntity" where
  "createProposition input = checked
     [assertCommonRecord input,
      assertUnique (proSourceReferenceIds input) ''Proposition source references'']
     input"

definition createStance :: "stance \<Rightarrow> exn + stance" where
  "createStance input = checked [assertCommonRecord input] input"

definition createQuestion :: "question \<Rightarrow> exn + question" where
  "createQuestion input = checked [assertCommonRecord input] input"

definition createClaim :: "claim \<Rightarrow> exn + claim" where
  "createClaim input = checked
     [assertCommonRecord input, assertUnique (claSourceReferenceIds input) ''Claim source references'']
     input"

definition createPremise :: "premise \<Rightarrow> exn + premise" where
  "createPremise input = checked
     [assertCommonRecord input, assertUnique (preDependencyScope input) ''Premise dependency scope'']
     input"

definition createEvidence :: "evidence \<Rightarrow> exn + evidence" where
  "createEvidence input = checked
     [assertCommonRecord input,
      domainCheck (\<not> (recVisibility input \<noteq> Shared \<or> recConfirmation input \<noteq> Confirmed))
        ''Published Evidence must be shared and human-confirmed'',
      domainCheck (recOrigin input = SourceArtifactOrigin)
        ''Published Evidence must originate from an approved source artifact'']
     input"

definition createOption :: "optionEntity \<Rightarrow> exn + optionEntity" where
  "createOption input = checked [assertCommonRecord input] input"

definition createCriterion :: "criterion \<Rightarrow> exn + criterion" where
  "createCriterion input = checked [assertCommonRecord input] input"

definition createConstraint :: "constraintEntity \<Rightarrow> exn + constraintEntity" where
  "createConstraint input = checked
     [assertCommonRecord input,
      assertUnique (cstSourceReferenceIds input) ''Constraint source references'']
     input"

definition createRisk :: "risk \<Rightarrow> exn + risk" where
  "createRisk input = checked
     [assertCommonRecord input,
      assertProbability (rskProbability input) ''Risk probability'',
      assertProbability (rskImpact input) ''Risk impact'']
     input"

definition createEvaluation :: "evaluation \<Rightarrow> exn + evaluation" where
  "createEvaluation input = checked [assertCommonRecord input] input"

definition createDecision :: "decision \<Rightarrow> exn + decision" where
  "createDecision input = checked
     [assertCommonRecord input,
      assertUnique (decPremiseIds input) ''Decision premise IDs'',
      assertUnique (decEvidenceIds input) ''Decision evidence IDs'',
      assertUnique (decDissentIds input) ''Decision dissent IDs'',
      assertUnique (decActionIds input) ''Decision Action IDs'',
      domainCheck (decActiveRevision input = recRevision input)
        ''Decision activeRevision and record revision must agree'',
      domainCheck (\<not> (decStatus input = SUPERSEDED \<and> decSupersededBy input = None))
        ''A superseded Decision requires its replacement Decision ID'']
     input"

definition createDissent :: "dissent \<Rightarrow> exn + dissent" where
  "createDissent input = checked [assertCommonRecord input] input"

text \<open>\<open>input.ownerParticipantId.length\<close> on an absent owner is a \<open>TypeError\<close>.\<close>

definition createAction :: "action \<Rightarrow> exn + action" where
  "createAction input = checked
     [assertCommonRecord input,
      (case recOwner input of
         None \<Rightarrow> Inl (TypeError ''ownerParticipantId is undefined'')
       | Some ow \<Rightarrow> domainCheck (length ow \<noteq> 0) ''Action requires an owner''),
      assertUnique (actScope input) ''Action scope'',
      assertUnique (actAffectedPremiseIds input) ''Action affected premise IDs'',
      domainCheck (\<not> (actStatus input = Held \<and> actHoldReason input = None))
        ''A held Action requires a hold reason'']
     input"

definition createIntervention :: "intervention \<Rightarrow> exn + intervention" where
  "createIntervention input = checked
     [assertCommonRecord input,
      assertUnique (intAudience input) ''Intervention audience participant IDs'']
     input"

definition createExternalEvent :: "externalEvent \<Rightarrow> exn + externalEvent" where
  "createExternalEvent input = checked
     [assertCommonRecord input,
      domainCheck
        (\<not> (recVisibility input \<noteq> Shared \<or>
             (extSignatureResult input \<noteq> ValidSignature \<and> extSignatureResult input \<noteq> NoSignature)))
        ''Canonical ExternalEvent must be shared and transport-authenticated'']
     input"

definition createDecisionRevision :: "decisionRevision \<Rightarrow> exn + decisionRevision" where
  "createDecisionRevision input = checked
     [assertCommonRecord input,
      domainCheck
        (\<not> (recVisibility input \<noteq> Shared \<or> recConfirmation input \<noteq> Confirmed \<or>
             recRevision input \<noteq> drvVersion input))
        ''DecisionRevision must be shared, confirmed, and match its version'',
      bindE (revisionNumber 1) (\<lambda>one.
        domainCheck (\<not> (drvVersion input = one \<and> drvPreviousRevisionId input \<noteq> None))
          ''The first Decision revision cannot have a previous revision''),
      bindE (revisionNumber 1) (\<lambda>one.
        domainCheck (\<not> (drvVersion input > one \<and> drvPreviousRevisionId input = None))
          ''A later Decision revision requires a previous revision''),
      assertUnique (snpPremiseIds (drvSnapshot input)) ''Revision premise IDs'',
      assertUnique (snpEvidenceIds (drvSnapshot input)) ''Revision evidence IDs'',
      assertUnique (snpDissentIds (drvSnapshot input)) ''Revision dissent IDs'',
      assertUnique (snpActionIds (drvSnapshot input)) ''Revision Action IDs'']
     input"

definition createReconsiderationTask :: "reconsiderationTask \<Rightarrow> exn + reconsiderationTask" where
  "createReconsiderationTask input = checked
     [assertCommonRecord input,
      domainCheck (recVisibility input = Shared) ''ReconsiderationTask must be shared'',
      domainCheck
        (\<not> (length (tskAffectedPremiseIds input) = 0 \<or> length (tskAffectedActionIds input) = 0))
        ''ReconsiderationTask requires affected premises and Actions'',
      assertUnique (tskAffectedPremiseIds input) ''Task premise IDs'',
      assertUnique (tskAffectedActionIds input) ''Task Action IDs'']
     input"

definition createRelation :: "relation \<Rightarrow> exn + relation" where
  "createRelation input = checked
     [assertCommonRecord input,
      domainCheck (relSourceId input \<noteq> relTargetId input) ''Relation source and target must differ'',
      assertUnique (relSourceReferenceIds input) ''Relation source references'']
     input"

subsection \<open>Acceptance\<close>

definition recordOk :: "'a commonRecord_scheme \<Rightarrow> bool" where
  "recordOk r \<longleftrightarrow>
     recId r \<noteq> [] \<and> (recVisibility r = Private \<longrightarrow> (\<exists>ow. recOwner r = Some ow \<and> ow \<noteq> []))"

lemma checked_Inr: "checked cs x = Inr y \<longleftrightarrow> y = x \<and> (\<forall>c\<in>set cs. c = Inr ())"
  by (induction cs) (auto simp: checked_def result_simps)

lemma checked_Inl: "checked cs x = Inl e \<Longrightarrow> \<exists>c\<in>set cs. c = Inl e"
  by (induction cs) (auto simp: checked_def result_simps)

lemma domainCheck_Inr [simp]: "domainCheck b m = Inr u \<longleftrightarrow> b"
  by (simp add: domainCheck_def)

lemma domainCheck_Inl: "domainCheck b m = Inl e \<Longrightarrow> isDomainValueError e"
  by (auto simp: domainCheck_def)

lemma assertCommonRecord_Inr [simp]: "assertCommonRecord r = Inr u \<longleftrightarrow> recordOk r"
  by (auto simp: assertCommonRecord_def assertRecordScope_def recordOk_def result_simps
      neq_Nil_conv)

lemma assertCommonRecord_Inl: "assertCommonRecord r = Inl e \<Longrightarrow> isDomainValueError e"
  by (auto simp: assertCommonRecord_def assertRecordScope_def result_simps split: if_splits
      dest: domainCheck_Inl)

lemma assertUnique_Inr [simp]: "assertUnique vs l = Inr u \<longleftrightarrow> distinct vs"
  by (simp add: assertUnique_def)

lemma assertUnique_Inl: "assertUnique vs l = Inl e \<Longrightarrow> isDomainValueError e"
  by (auto simp: assertUnique_def dest: domainCheck_Inl)

lemmas check_errors =
  domainCheck_Inl[OF sym] assertCommonRecord_Inl[OF sym] assertUnique_Inl[OF sym]

definition decisionOk :: "decision \<Rightarrow> bool" where
  "decisionOk d \<longleftrightarrow>
     recordOk d \<and> distinct (decPremiseIds d) \<and> distinct (decEvidenceIds d) \<and>
     distinct (decDissentIds d) \<and> distinct (decActionIds d) \<and>
     decActiveRevision d = recRevision d \<and> (decStatus d = SUPERSEDED \<longrightarrow> decSupersededBy d \<noteq> None)"

lemma createDecision_Inr: "createDecision d = Inr d' \<longleftrightarrow> d' = d \<and> decisionOk d"
  by (auto simp: createDecision_def checked_Inr decisionOk_def)

lemma createDecision_Inl: "createDecision d = Inl e \<Longrightarrow> isDomainValueError e"
  by (auto simp: createDecision_def dest!: checked_Inl dest: check_errors)

definition revisionOk :: "decisionRevision \<Rightarrow> bool" where
  "revisionOk r \<longleftrightarrow>
     recordOk r \<and> recVisibility r = Shared \<and> recConfirmation r = Confirmed \<and>
     recRevision r = drvVersion r \<and>
     (drvVersion r = 1 \<longrightarrow> drvPreviousRevisionId r = None) \<and>
     (drvVersion r > 1 \<longrightarrow> drvPreviousRevisionId r \<noteq> None) \<and>
     distinct (snpPremiseIds (drvSnapshot r)) \<and> distinct (snpEvidenceIds (drvSnapshot r)) \<and>
     distinct (snpDissentIds (drvSnapshot r)) \<and> distinct (snpActionIds (drvSnapshot r))"

lemma createDecisionRevision_Inr: "createDecisionRevision r = Inr r' \<longleftrightarrow> r' = r \<and> revisionOk r"
  by (auto simp: createDecisionRevision_def checked_Inr revisionOk_def)

lemma createDecisionRevision_Inl: "createDecisionRevision r = Inl e \<Longrightarrow> isDomainValueError e"
  by (auto simp: createDecisionRevision_def dest!: checked_Inl dest: check_errors)

definition actionOk :: "action \<Rightarrow> bool" where
  "actionOk a \<longleftrightarrow>
     recordOk a \<and> (\<exists>ow. recOwner a = Some ow \<and> ow \<noteq> []) \<and> distinct (actScope a) \<and>
     distinct (actAffectedPremiseIds a) \<and> (actStatus a = Held \<longrightarrow> actHoldReason a \<noteq> None)"

lemma createAction_Inr: "createAction a = Inr a' \<longleftrightarrow> a' = a \<and> actionOk a"
  by (auto simp: createAction_def checked_Inr actionOk_def split: option.splits)

definition taskOk :: "reconsiderationTask \<Rightarrow> bool" where
  "taskOk t \<longleftrightarrow>
     recordOk t \<and> recVisibility t = Shared \<and> tskAffectedPremiseIds t \<noteq> [] \<and>
     tskAffectedActionIds t \<noteq> [] \<and> distinct (tskAffectedPremiseIds t) \<and>
     distinct (tskAffectedActionIds t)"

lemma createReconsiderationTask_Inr:
  "createReconsiderationTask t = Inr t' \<longleftrightarrow> t' = t \<and> taskOk t"
  by (auto simp: createReconsiderationTask_def checked_Inr taskOk_def)

lemma createReconsiderationTask_Inl:
  "createReconsiderationTask t = Inl e \<Longrightarrow> isDomainValueError e"
  by (auto simp: createReconsiderationTask_def dest!: checked_Inl dest: check_errors)

lemma createUtterance_Inr:
  "createUtterance u = Inr u' \<longleftrightarrow>
     u' = u \<and> recordOk u \<and> uttChannel u = recVisibility u \<and>
     (recVisibility u = Private \<longrightarrow> recOwner u = Some (uttParticipantId u))"
  by (auto simp: createUtterance_def checked_Inr)

lemma createUtterance_Inl: "createUtterance u = Inl e \<Longrightarrow> isDomainValueError e"
  by (auto simp: createUtterance_def dest!: checked_Inl dest: check_errors)

lemma createEvidence_Inr:
  "createEvidence e = Inr e' \<longleftrightarrow>
     e' = e \<and> recordOk e \<and> recVisibility e = Shared \<and> recConfirmation e = Confirmed \<and>
     recOrigin e = SourceArtifactOrigin"
  by (auto simp: createEvidence_def checked_Inr)

lemma createMeeting_Inr:
  "createMeeting m = Inr m' \<longleftrightarrow>
     m' = m \<and> recordOk m \<and> recVisibility m = Shared \<and> recId m = recMeetingId m \<and>
     distinct (map asgParticipantId (mtgAssignments m)) \<and>
     (\<exists>f \<in> set (mtgAssignments m). asgParticipantId f = mtgFacilitator m \<and>
        asgRole f = Facilitator \<and> asgActive f)"
proof (cases "distinct (map asgParticipantId (mtgAssignments m))")
  case True
  have "(case findFirst (\<lambda>a. asgParticipantId a = mtgFacilitator m) (mtgAssignments m) of
           None \<Rightarrow> False | Some f \<Rightarrow> asgRole f = Facilitator \<and> asgActive f) \<longleftrightarrow>
        (\<exists>f \<in> set (mtgAssignments m). asgParticipantId f = mtgFacilitator m \<and>
           asgRole f = Facilitator \<and> asgActive f)"
    (is "?l \<longleftrightarrow> ?r")
  proof
    assume ?l
    then show ?r by (auto split: option.splits dest: findFirst_SomeD)
  next
    assume ?r
    then obtain f where f: "f \<in> set (mtgAssignments m)" "asgParticipantId f = mtgFacilitator m"
      "asgRole f = Facilitator" "asgActive f" by blast
    have "findFirst (\<lambda>a. asgParticipantId a = mtgFacilitator m) (mtgAssignments m) = Some f"
      using findFirst_distinct[OF True f(1)] f(2) by simp
    then show ?l using f by simp
  qed
  then show ?thesis
    by (auto simp: createMeeting_def checked_Inr)
qed (auto simp: createMeeting_def checked_Inr)

end
