(* ===== verification/Events.thy ===== *)
theory Events
  imports Entities
begin

section \<open>Domain events: \<open>packages/domain/src/events.ts\<close>\<close>

text \<open>
  The events that a meeting's log holds: one payload constructor per event type of
  \<open>DomainEventPayloads\<close>, the envelope, and the reference that the audit timeline keeps of an event.
  A property that TypeScript marks optional is an option. The discriminated union of shared and
  private envelopes is \<open>eventScope\<close>: a private event carries its owner, a shared one has none.
  The second half is the JSON image of a payload, property by property, from which
  \<open>projections.ts\<close> and the event stores compute fingerprints.
\<close>

subsection \<open>Payloads\<close>

datatype domainActor = ParticipantActor string | SystemActor | AiActor string

record aiSuggestionMetadata =
  aimModel :: string
  aimPromptVersion :: string
  aimInputReferenceIds :: "string list"
  aimConfidence :: js_number
  aimReason :: string

record premiseDetails =
  prdEvidenceReferenceIds :: "string list"
  prdDependencyScope :: "string list"
  prdMonitorCondition :: "monitorCondition option"

record dissentDetails =
  didParticipantId :: string
  didRetained :: bool

record actionDetails =
  acdOwnerParticipantId :: string
  acdScope :: "string list"
  acdAffectedPremiseSuggestionIds :: "string list"

datatype decisionProvenance =
    AiAssisted (prvOperation: string) (prvOutputSchemaVersion: string) (prvGeneratedAt: string)
  | HumanAuthored

record decisionDetails =
  dedTitle :: string
  dedOutcome :: string
  dedMonitorCondition :: monitorCondition
  dedPremiseSuggestionIds :: "string list"
  dedDissentSuggestionIds :: "string list"
  dedActionSuggestionIds :: "string list"
  dedProvenance :: "decisionProvenance option"

datatype inferenceCandidate =
    PropositionCandidate
  | PremiseCandidate "premiseDetails option"
  | DissentCandidate "dissentDetails option"
  | ActionCandidate "actionDetails option"
  | DecisionCandidate "decisionDetails option"

record inferenceSuggestedPayload =
  infSuggestionId :: string
  infStatement :: string
  infMetadata :: aiSuggestionMetadata
  infCandidate :: inferenceCandidate

record disclosureOutgoingPayload =
  outExactSnippet :: string
  outSourceArtifactId :: string
  outSourceRange :: textRange

datatype confirmedInference =
    ConfirmedProposition propositionEntity
  | ConfirmedStance stance
  | ConfirmedPremise premise
  | ConfirmedOption optionEntity
  | ConfirmedDissent dissent
  | ConfirmedAction action

record artifactProcessing =
  apgArtifactId :: string
  apgProcessingState :: artifactProcessingState
  apgContentHash :: "string option"
  apgDerivedArtifactId :: "string option"
  apgDerivedSizeBytes :: "int option"
  apgDerivedStorageReference :: "string option"
  apgFailureCode :: "string option"

datatype floorReleaseReason = Released | Expired | Disconnected
datatype leaseExpiryReason = HeartbeatLost | LeaseMeetingEnded | SessionEnded
datatype reviewDisposition = ConfirmInvalidation | RejectSuggestion

record invalidationSuggestion =
  ivsSuggestionId :: string
  ivsDecisionId :: string
  ivsActiveRevisionId :: string
  ivsExternalEventId :: string
  ivsAffectedPremiseIds :: "string list"
  ivsAffectedActionIds :: "string list"
  ivsEvidenceReferenceIds :: "string list"
  ivsMetadata :: aiSuggestionMetadata
  ivsGeneratedAt :: string
  ivsOperation :: string
  ivsOutputSchemaVersion :: string

record facilitatorReview =
  fvwDecision :: decision
  fvwDecisionId :: string
  fvwSuggestionId :: string
  fvwFacilitatorParticipantId :: string
  fvwDisposition :: reviewDisposition
  fvwReviewedPremiseIds :: "string list"
  fvwReviewedEvidenceReferenceIds :: "string list"
  fvwReviewedActionIds :: "string list"
  fvwReason :: string

datatype domainEventPayload =
    MeetingCreated meeting
  | ParticipantAssigned participant
  | ParticipantJoined string string
  | MeetingEnded string "string option"
  | DisplayTokenIssued string string
  | DisplayTokenRevoked string string
  | ArtifactRegistered sourceArtifact
  | ArtifactProcessed artifactProcessing
  | UtteranceCaptured utterance
  | SharedFloorAcquired string string
  | SharedFloorReleased string floorReleaseReason
  | DisclosureProposed string string disclosureOutgoingPayload
  | DisclosurePreviewed string disclosureOutgoingPayload string
  | DisclosureApproved string string string string
  | DisclosureRejected string string "string option"
  | EvidenceShared evidence
  | InferenceSuggested inferenceSuggestedPayload
  | InferenceConfirmed string confirmedInference string
  | InferenceRejected string string "string option"
  | DecisionDrafted decision decisionRevision
  | DecisionMarkedReady decision
  | DecisionCommitted decision decisionRevision
  | MonitoringStarted decision string
  | ExternalEventReceived externalEvent
  | AssumptionInvalidationSuggested invalidationSuggestion
  | DecisionMarkedAtRisk decision string "string list" "string list"
  | FacilitatorReviewed facilitatorReview
  | DecisionReviewRequired decision string "string list" string
  | ActionHeld string string "action list"
  | ReconsiderationTaskCreated reconsiderationTask
  | DecisionRevisionCommitted decision decisionRevision
  | DecisionSuperseded decision string
  | DecisionRejected decision string
  | DemoResetRequested string string
  | DemoResetCompleted string string
  | ApiKeyLeaseUpdated string
  | ApiKeyLeaseExpired string leaseExpiryReason

fun eventTypeName :: "domainEventPayload \<Rightarrow> string" where
  "eventTypeName (MeetingCreated _) = ''MeetingCreated''"
| "eventTypeName (ParticipantAssigned _) = ''ParticipantAssigned''"
| "eventTypeName (ParticipantJoined _ _) = ''ParticipantJoined''"
| "eventTypeName (MeetingEnded _ _) = ''MeetingEnded''"
| "eventTypeName (DisplayTokenIssued _ _) = ''DisplayTokenIssued''"
| "eventTypeName (DisplayTokenRevoked _ _) = ''DisplayTokenRevoked''"
| "eventTypeName (ArtifactRegistered _) = ''ArtifactRegistered''"
| "eventTypeName (ArtifactProcessed _) = ''ArtifactProcessed''"
| "eventTypeName (UtteranceCaptured _) = ''UtteranceCaptured''"
| "eventTypeName (SharedFloorAcquired _ _) = ''SharedFloorAcquired''"
| "eventTypeName (SharedFloorReleased _ _) = ''SharedFloorReleased''"
| "eventTypeName (DisclosureProposed _ _ _) = ''DisclosureProposed''"
| "eventTypeName (DisclosurePreviewed _ _ _) = ''DisclosurePreviewed''"
| "eventTypeName (DisclosureApproved _ _ _ _) = ''DisclosureApproved''"
| "eventTypeName (DisclosureRejected _ _ _) = ''DisclosureRejected''"
| "eventTypeName (EvidenceShared _) = ''EvidenceShared''"
| "eventTypeName (InferenceSuggested _) = ''InferenceSuggested''"
| "eventTypeName (InferenceConfirmed _ _ _) = ''InferenceConfirmed''"
| "eventTypeName (InferenceRejected _ _ _) = ''InferenceRejected''"
| "eventTypeName (DecisionDrafted _ _) = ''DecisionDrafted''"
| "eventTypeName (DecisionMarkedReady _) = ''DecisionMarkedReady''"
| "eventTypeName (DecisionCommitted _ _) = ''DecisionCommitted''"
| "eventTypeName (MonitoringStarted _ _) = ''MonitoringStarted''"
| "eventTypeName (ExternalEventReceived _) = ''ExternalEventReceived''"
| "eventTypeName (AssumptionInvalidationSuggested _) = ''AssumptionInvalidationSuggested''"
| "eventTypeName (DecisionMarkedAtRisk _ _ _ _) = ''DecisionMarkedAtRisk''"
| "eventTypeName (FacilitatorReviewed _) = ''FacilitatorReviewed''"
| "eventTypeName (DecisionReviewRequired _ _ _ _) = ''DecisionReviewRequired''"
| "eventTypeName (ActionHeld _ _ _) = ''ActionHeld''"
| "eventTypeName (ReconsiderationTaskCreated _) = ''ReconsiderationTaskCreated''"
| "eventTypeName (DecisionRevisionCommitted _ _) = ''DecisionRevisionCommitted''"
| "eventTypeName (DecisionSuperseded _ _) = ''DecisionSuperseded''"
| "eventTypeName (DecisionRejected _ _) = ''DecisionRejected''"
| "eventTypeName (DemoResetRequested _ _) = ''DemoResetRequested''"
| "eventTypeName (DemoResetCompleted _ _) = ''DemoResetCompleted''"
| "eventTypeName (ApiKeyLeaseUpdated _) = ''ApiKeyLeaseUpdated''"
| "eventTypeName (ApiKeyLeaseExpired _ _) = ''ApiKeyLeaseExpired''"

subsection \<open>Envelopes\<close>

datatype eventScope = SharedScope | PrivateScope string

record domainEvent =
  evEventId :: string
  evSchemaVersion :: int
  evMeetingId :: string
  evPosition :: int
  evActor :: domainActor
  evOccurredAt :: string
  evCorrelationId :: string
  evCausationId :: "string option"
  evIdempotencyKey :: "string option"
  evScope :: eventScope
  evPayload :: domainEventPayload

record appendContract =
  acExpectedPosition :: int
  acIdempotencyKey :: "string option"

record eventReference =
  refEventId :: string
  refEventType :: string
  refMeetingId :: string
  refPosition :: int
  refVisibility :: visibility
  refOccurredAt :: string

fun scopeVisibility :: "eventScope \<Rightarrow> visibility" where
  "scopeVisibility SharedScope = Shared"
| "scopeVisibility (PrivateScope _) = Private"

definition toEventReference :: "domainEvent \<Rightarrow> eventReference" where
  "toEventReference ev =
     \<lparr>refEventId = evEventId ev, refEventType = eventTypeName (evPayload ev),
      refMeetingId = evMeetingId ev, refPosition = evPosition ev,
      refVisibility = scopeVisibility (evScope ev), refOccurredAt = evOccurredAt ev\<rparr>"

subsection \<open>The JSON image of a payload\<close>

fun visibilityJson :: "visibility \<Rightarrow> js_value" where
  "visibilityJson Private = JStr ''private''"
| "visibilityJson Shared = JStr ''shared''"

fun originJson :: "origin \<Rightarrow> js_value" where
  "originJson HumanUtterance = JStr ''human_utterance''"
| "originJson HumanInput = JStr ''human_input''"
| "originJson SourceArtifactOrigin = JStr ''source_artifact''"
| "originJson AiInference = JStr ''ai_inference''"
| "originJson SystemOrigin = JStr ''system''"

fun confirmationJson :: "confirmationStatus \<Rightarrow> js_value" where
  "confirmationJson NotApplicable = JStr ''not_applicable''"
| "confirmationJson Proposed = JStr ''proposed''"
| "confirmationJson Confirmed = JStr ''confirmed''"
| "confirmationJson RejectedConfirmation = JStr ''rejected''"

fun phaseJson :: "meetingPhase \<Rightarrow> js_value" where
  "phaseJson Preparing = JStr ''preparing''"
| "phaseJson Deliberating = JStr ''deliberating''"
| "phaseJson Deciding = JStr ''deciding''"
| "phaseJson Ended = JStr ''ended''"

fun roleJson :: "participantRole \<Rightarrow> js_value" where
  "roleJson Facilitator = JStr ''facilitator''"
| "roleJson ParticipantRole = JStr ''participant''"

fun capabilityJson :: "capability \<Rightarrow> js_value" where
  "capabilityJson ReadShared = JStr ''read_shared''"
| "capabilityJson ReadOwnPrivate = JStr ''read_own_private''"
| "capabilityJson AddOwnPrivateArtifact = JStr ''add_own_private_artifact''"
| "capabilityJson ProposeOwnDisclosure = JStr ''propose_own_disclosure''"
| "capabilityJson CommitDecision = JStr ''commit_decision''"
| "capabilityJson ConfirmReviewRequired = JStr ''confirm_review_required''"
| "capabilityJson InjectDemoEvent = JStr ''inject_demo_event''"
| "capabilityJson ResetDemoMeeting = JStr ''reset_demo_meeting''"
| "capabilityJson ConfigureByok = JStr ''configure_byok''"

fun artifactTypeJson :: "artifactType \<Rightarrow> js_value" where
  "artifactTypeJson DocumentArtifact = JStr ''document''"
| "artifactTypeJson UrlArtifact = JStr ''url''"
| "artifactTypeJson TextArtifact = JStr ''text''"

fun processingStateJson :: "artifactProcessingState \<Rightarrow> js_value" where
  "processingStateJson Registered = JStr ''registered''"
| "processingStateJson Processing = JStr ''processing''"
| "processingStateJson Processed = JStr ''processed''"
| "processingStateJson FailedProcessing = JStr ''failed''"

fun stancePositionJson :: "stancePosition \<Rightarrow> js_value" where
  "stancePositionJson Support = JStr ''support''"
| "stancePositionJson Oppose = JStr ''oppose''"
| "stancePositionJson Uncertain = JStr ''uncertain''"

fun optionStateJson :: "optionState \<Rightarrow> js_value" where
  "optionStateJson CandidateOption = JStr ''candidate''"
| "optionStateJson SelectedOption = JStr ''selected''"
| "optionStateJson DiscardedOption = JStr ''discarded''"

fun decisionStatusJson :: "decisionStatus \<Rightarrow> js_value" where
  "decisionStatusJson DRAFT = JStr ''DRAFT''"
| "decisionStatusJson DECISION_READY = JStr ''DECISION_READY''"
| "decisionStatusJson COMMITTED = JStr ''COMMITTED''"
| "decisionStatusJson MONITORING = JStr ''MONITORING''"
| "decisionStatusJson AT_RISK = JStr ''AT_RISK''"
| "decisionStatusJson REVIEW_REQUIRED = JStr ''REVIEW_REQUIRED''"
| "decisionStatusJson SUPERSEDED = JStr ''SUPERSEDED''"
| "decisionStatusJson REJECTED = JStr ''REJECTED''"

fun actionStatusJson :: "actionStatus \<Rightarrow> js_value" where
  "actionStatusJson Planned = JStr ''planned''"
| "actionStatusJson Active = JStr ''active''"
| "actionStatusJson Held = JStr ''held''"
| "actionStatusJson Completed = JStr ''completed''"

fun signatureResultJson :: "signatureResult \<Rightarrow> js_value" where
  "signatureResultJson ValidSignature = JStr ''valid''"
| "signatureResultJson NoSignature = JStr ''not_applicable''"

fun taskStateJson :: "taskState \<Rightarrow> js_value" where
  "taskStateJson TaskOpen = JStr ''open''"
| "taskStateJson TaskInProgress = JStr ''in_progress''"
| "taskStateJson TaskCompleted = JStr ''completed''"
| "taskStateJson TaskCancelled = JStr ''cancelled''"

fun floorReleaseReasonJson :: "floorReleaseReason \<Rightarrow> js_value" where
  "floorReleaseReasonJson Released = JStr ''released''"
| "floorReleaseReasonJson Expired = JStr ''expired''"
| "floorReleaseReasonJson Disconnected = JStr ''disconnected''"

fun leaseExpiryReasonJson :: "leaseExpiryReason \<Rightarrow> js_value" where
  "leaseExpiryReasonJson HeartbeatLost = JStr ''heartbeat_lost''"
| "leaseExpiryReasonJson LeaseMeetingEnded = JStr ''meeting_ended''"
| "leaseExpiryReasonJson SessionEnded = JStr ''session_ended''"

fun reviewDispositionJson :: "reviewDisposition \<Rightarrow> js_value" where
  "reviewDispositionJson ConfirmInvalidation = JStr ''confirm_invalidation''"
| "reviewDispositionJson RejectSuggestion = JStr ''reject_suggestion''"

abbreviation jsInt :: "int \<Rightarrow> js_value" where
  "jsInt n \<equiv> JNum (IntNum n)"

definition commonJson :: "'a commonRecord_scheme \<Rightarrow> (string \<times> js_value) list" where
  "commonJson r =
     [(''id'', JStr (recId r)), (''meetingId'', JStr (recMeetingId r)),
      (''createdAt'', JStr (recCreatedAt r)), (''createdBy'', JStr (recCreatedBy r)),
      (''origin'', originJson (recOrigin r)),
      (''confirmationStatus'', confirmationJson (recConfirmation r)),
      (''revision'', jsInt (recRevision r)), (''visibility'', visibilityJson (recVisibility r)),
      (''ownerParticipantId'', jsOption JStr (recOwner r))]"

definition participantAssignmentJson :: "participantAssignment \<Rightarrow> js_value" where
  "participantAssignmentJson r = JObj (
     [(''participantId'', JStr (asgParticipantId r)), (''role'', roleJson (asgRole r)),
      (''active'', JBool (asgActive r))])"

definition displayTokenStateJson :: "displayTokenState \<Rightarrow> js_value" where
  "displayTokenStateJson r = JObj (
     [(''tokenId'', JStr (tokTokenId r)), (''expiresAt'', JStr (tokExpiresAt r)),
      (''revokedAt'', jsOption JStr (tokRevokedAt r))])"

definition meetingJson :: "meeting \<Rightarrow> js_value" where
  "meetingJson r = JObj (commonJson r @
     [(''purpose'', JStr (mtgPurpose r)), (''phase'', phaseJson (mtgPhase r)),
      (''facilitatorParticipantId'', JStr (mtgFacilitator r)),
      (''participantAssignments'', JArr (map participantAssignmentJson (mtgAssignments r))),
      (''displayTokens'', JArr (map displayTokenStateJson (mtgDisplayTokens r)))])"

definition participantJson :: "participant \<Rightarrow> js_value" where
  "participantJson r = JObj (commonJson r @
     [(''userId'', JStr (parUserId r)), (''role'', roleJson (parRole r)),
      (''permissions'', JArr (map capabilityJson (parPermissions r))),
      (''active'', JBool (parActive r)), (''joinedAt'', jsOption JStr (parJoinedAt r))])"

definition sourceArtifactJson :: "sourceArtifact \<Rightarrow> js_value" where
  "sourceArtifactJson r = JObj (commonJson r @
     [(''artifactType'', artifactTypeJson (artType r)),
      (''storageReference'', JStr (artStorageReference r)),
      (''contentHash'', JStr (artContentHash r)),
      (''contentType'', jsOption JStr (artContentType r)),
      (''derivedArtifactId'', jsOption JStr (artDerivedArtifactId r)),
      (''derivedContentHash'', jsOption JStr (artDerivedContentHash r)),
      (''derivedSizeBytes'', jsOption jsInt (artDerivedSizeBytes r)),
      (''derivedStorageReference'', jsOption JStr (artDerivedStorageReference r)),
      (''originalFilename'', jsOption JStr (artOriginalFilename r)),
      (''sourceLocatorHash'', jsOption JStr (artSourceLocatorHash r)),
      (''sizeBytes'', jsInt (artSizeBytes r)),
      (''processingState'', processingStateJson (artProcessingState r))])"

definition utteranceJson :: "utterance \<Rightarrow> js_value" where
  "utteranceJson r = JObj (commonJson r @
     [(''participantId'', JStr (uttParticipantId r)),
      (''channel'', visibilityJson (uttChannel r)), (''text'', JStr (uttText r)),
      (''capturedAt'', JStr (uttCapturedAt r)),
      (''idempotencyKey'', JStr (uttIdempotencyKey r))])"

definition propositionJson :: "propositionEntity \<Rightarrow> js_value" where
  "propositionJson r = JObj (commonJson r @
     [(''statement'', JStr (proStatement r)),
      (''sourceReferenceIds'', jsStrings (proSourceReferenceIds r))])"

definition stanceJson :: "stance \<Rightarrow> js_value" where
  "stanceJson r = JObj (commonJson r @
     [(''participantId'', JStr (staParticipantId r)),
      (''propositionId'', JStr (staPropositionId r)),
      (''position'', stancePositionJson (staPosition r))])"

definition monitorConditionJson :: "monitorCondition \<Rightarrow> js_value" where
  "monitorConditionJson r = JObj (
     [(''description'', JStr (monDescription r)),
      (''registrationId'', jsOption JStr (monRegistrationId r))])"

definition premiseJson :: "premise \<Rightarrow> js_value" where
  "premiseJson r = JObj (commonJson r @
     [(''statement'', JStr (preStatement r)),
      (''dependencyScope'', jsStrings (preDependencyScope r)),
      (''monitorCondition'', jsOption monitorConditionJson (preMonitorCondition r))])"

definition textRangeJson :: "textRange \<Rightarrow> js_value" where
  "textRangeJson r = JObj (
     [(''start'', jsInt (rangeStart r)), (''end'', jsInt (rangeEnd r))])"

definition evidenceJson :: "evidence \<Rightarrow> js_value" where
  "evidenceJson r = JObj (commonJson r @
     [(''exactSnippet'', JStr (evdExactSnippet r)),
      (''sourceArtifactId'', JStr (evdSourceArtifactId r)),
      (''sourceRange'', textRangeJson (evdSourceRange r)),
      (''disclosureAuditReferenceId'', JStr (evdDisclosureAuditReferenceId r))])"

definition optionJson :: "optionEntity \<Rightarrow> js_value" where
  "optionJson r = JObj (commonJson r @
     [(''label'', JStr (optLabel r)), (''description'', JStr (optDescription r)),
      (''state'', optionStateJson (optState r))])"

definition decisionJson :: "decision \<Rightarrow> js_value" where
  "decisionJson r = JObj (commonJson r @
     [(''title'', JStr (decTitle r)), (''outcome'', JStr (decOutcome r)),
      (''status'', decisionStatusJson (decStatus r)),
      (''activeRevision'', jsInt (decActiveRevision r)),
      (''activeRevisionId'', JStr (decActiveRevisionId r)),
      (''premiseIds'', jsStrings (decPremiseIds r)),
      (''evidenceIds'', jsStrings (decEvidenceIds r)),
      (''dissentIds'', jsStrings (decDissentIds r)),
      (''actionIds'', jsStrings (decActionIds r)),
      (''monitorCondition'', monitorConditionJson (decMonitorCondition r)),
      (''supersededByDecisionId'', jsOption JStr (decSupersededBy r))])"

definition dissentJson :: "dissent \<Rightarrow> js_value" where
  "dissentJson r = JObj (commonJson r @
     [(''participantId'', JStr (disParticipantId r)), (''reason'', JStr (disReason r)),
      (''retained'', JBool (disRetained r))])"

definition actionJson :: "action \<Rightarrow> js_value" where
  "actionJson r = JObj (commonJson r @
     [(''scope'', jsStrings (actScope r)), (''status'', actionStatusJson (actStatus r)),
      (''affectedPremiseIds'', jsStrings (actAffectedPremiseIds r)),
      (''holdReason'', jsOption JStr (actHoldReason r))])"

definition externalEventJson :: "externalEvent \<Rightarrow> js_value" where
  "externalEventJson r = JObj (commonJson r @
     [(''description'', JStr (extDescription r)), (''eventType'', JStr (extEventType r)),
      (''monitorRegistrationId'', JStr (extMonitorRegistrationId r)),
      (''payloadHash'', JStr (extPayloadHash r)),
      (''schemaVersion'', jsInt (extSchemaVersion r)), (''source'', JStr (extSource r)),
      (''sourceReference'', JStr (extSourceReference r)),
      (''jurisdiction'', JStr (extJurisdiction r)), (''effectiveAt'', JStr (extEffectiveAt r)),
      (''receivedAt'', JStr (extReceivedAt r)),
      (''signatureResult'', signatureResultJson (extSignatureResult r))])"

definition decisionSnapshotJson :: "decisionSnapshot \<Rightarrow> js_value" where
  "decisionSnapshotJson r = JObj (
     [(''title'', JStr (snpTitle r)), (''outcome'', JStr (snpOutcome r)),
      (''status'', decisionStatusJson (snpStatus r)),
      (''premiseIds'', jsStrings (snpPremiseIds r)),
      (''evidenceIds'', jsStrings (snpEvidenceIds r)),
      (''dissentIds'', jsStrings (snpDissentIds r)),
      (''actionIds'', jsStrings (snpActionIds r)),
      (''monitorCondition'', monitorConditionJson (snpMonitorCondition r))])"

definition decisionRevisionJson :: "decisionRevision \<Rightarrow> js_value" where
  "decisionRevisionJson r = JObj (commonJson r @
     [(''decisionId'', JStr (drvDecisionId r)), (''version'', jsInt (drvVersion r)),
      (''previousRevisionId'', jsOption JStr (drvPreviousRevisionId r)),
      (''snapshot'', decisionSnapshotJson (drvSnapshot r)),
      (''changeReason'', JStr (drvChangeReason r))])"

definition reconsiderationTaskJson :: "reconsiderationTask \<Rightarrow> js_value" where
  "reconsiderationTaskJson r = JObj (commonJson r @
     [(''decisionId'', JStr (tskDecisionId r)),
      (''triggerExternalEventId'', JStr (tskTriggerExternalEventId r)),
      (''affectedPremiseIds'', jsStrings (tskAffectedPremiseIds r)),
      (''affectedActionIds'', jsStrings (tskAffectedActionIds r)),
      (''state'', taskStateJson (tskState r))])"

definition aiSuggestionMetadataJson :: "aiSuggestionMetadata \<Rightarrow> js_value" where
  "aiSuggestionMetadataJson r = JObj (
     [(''model'', JStr (aimModel r)), (''promptVersion'', JStr (aimPromptVersion r)),
      (''inputReferenceIds'', jsStrings (aimInputReferenceIds r)),
      (''confidence'', JNum (aimConfidence r)), (''reason'', JStr (aimReason r))])"

definition premiseDetailsJson :: "premiseDetails \<Rightarrow> js_value" where
  "premiseDetailsJson r = JObj (
     [(''evidenceReferenceIds'', jsStrings (prdEvidenceReferenceIds r)),
      (''dependencyScope'', jsStrings (prdDependencyScope r)),
      (''monitorCondition'', jsOption monitorConditionJson (prdMonitorCondition r))])"

definition dissentDetailsJson :: "dissentDetails \<Rightarrow> js_value" where
  "dissentDetailsJson r = JObj (
     [(''participantId'', JStr (didParticipantId r)), (''retained'', JBool (didRetained r))])"

definition actionDetailsJson :: "actionDetails \<Rightarrow> js_value" where
  "actionDetailsJson r = JObj (
     [(''ownerParticipantId'', JStr (acdOwnerParticipantId r)),
      (''scope'', jsStrings (acdScope r)),
      (''affectedPremiseSuggestionIds'', jsStrings (acdAffectedPremiseSuggestionIds r))])"

fun decisionProvenanceJson :: "decisionProvenance \<Rightarrow> js_value" where
  "decisionProvenanceJson (AiAssisted op ver at) =
     JObj [(''origin'', JStr ''ai_assisted''), (''operation'', JStr op),
           (''outputSchemaVersion'', JStr ver), (''generatedAt'', JStr at)]"
| "decisionProvenanceJson HumanAuthored = JObj [(''origin'', JStr ''human_authored'')]"

definition decisionDetailsJson :: "decisionDetails \<Rightarrow> js_value" where
  "decisionDetailsJson r = JObj (
     [(''title'', JStr (dedTitle r)), (''outcome'', JStr (dedOutcome r)),
      (''monitorCondition'', monitorConditionJson (dedMonitorCondition r)),
      (''premiseSuggestionIds'', jsStrings (dedPremiseSuggestionIds r)),
      (''dissentSuggestionIds'', jsStrings (dedDissentSuggestionIds r)),
      (''actionSuggestionIds'', jsStrings (dedActionSuggestionIds r)),
      (''provenance'', jsOption decisionProvenanceJson (dedProvenance r))])"

fun candidateJson :: "inferenceCandidate \<Rightarrow> (string \<times> js_value) list" where
  "candidateJson PropositionCandidate =
     [(''candidateKind'', JStr ''proposition''), (''details'', JUndefined)]"
| "candidateJson (PremiseCandidate d) =
     [(''candidateKind'', JStr ''premise''), (''details'', jsOption premiseDetailsJson d)]"
| "candidateJson (DissentCandidate d) =
     [(''candidateKind'', JStr ''dissent''), (''details'', jsOption dissentDetailsJson d)]"
| "candidateJson (ActionCandidate d) =
     [(''candidateKind'', JStr ''action''), (''details'', jsOption actionDetailsJson d)]"
| "candidateJson (DecisionCandidate d) =
     [(''candidateKind'', JStr ''decision''), (''details'', jsOption decisionDetailsJson d)]"

definition inferenceSuggestedJson :: "inferenceSuggestedPayload \<Rightarrow> js_value" where
  "inferenceSuggestedJson p =
     JObj ([(''suggestionId'', JStr (infSuggestionId p)), (''statement'', JStr (infStatement p)),
            (''metadata'', aiSuggestionMetadataJson (infMetadata p))] @ candidateJson (infCandidate p))"

definition disclosureOutgoingPayloadJson :: "disclosureOutgoingPayload \<Rightarrow> js_value" where
  "disclosureOutgoingPayloadJson r = JObj (
     [(''exactSnippet'', JStr (outExactSnippet r)),
      (''sourceArtifactId'', JStr (outSourceArtifactId r)),
      (''sourceRange'', textRangeJson (outSourceRange r))])"

fun confirmedInferenceJson :: "confirmedInference \<Rightarrow> js_value" where
  "confirmedInferenceJson (ConfirmedProposition x) =
     JObj [(''kind'', JStr ''proposition''), (''entity'', propositionJson x)]"
| "confirmedInferenceJson (ConfirmedStance x) =
     JObj [(''kind'', JStr ''stance''), (''entity'', stanceJson x)]"
| "confirmedInferenceJson (ConfirmedPremise x) =
     JObj [(''kind'', JStr ''premise''), (''entity'', premiseJson x)]"
| "confirmedInferenceJson (ConfirmedOption x) =
     JObj [(''kind'', JStr ''option''), (''entity'', optionJson x)]"
| "confirmedInferenceJson (ConfirmedDissent x) =
     JObj [(''kind'', JStr ''dissent''), (''entity'', dissentJson x)]"
| "confirmedInferenceJson (ConfirmedAction x) =
     JObj [(''kind'', JStr ''action''), (''entity'', actionJson x)]"

definition artifactProcessingJson :: "artifactProcessing \<Rightarrow> js_value" where
  "artifactProcessingJson r = JObj (
     [(''artifactId'', JStr (apgArtifactId r)),
      (''processingState'', processingStateJson (apgProcessingState r)),
      (''contentHash'', jsOption JStr (apgContentHash r)),
      (''derivedArtifactId'', jsOption JStr (apgDerivedArtifactId r)),
      (''derivedSizeBytes'', jsOption jsInt (apgDerivedSizeBytes r)),
      (''derivedStorageReference'', jsOption JStr (apgDerivedStorageReference r)),
      (''failureCode'', jsOption JStr (apgFailureCode r))])"

fun payloadJson :: "domainEventPayload \<Rightarrow> js_value" where
  "payloadJson (MeetingCreated m) =
     JObj [(''meeting'', meetingJson m)]"
| "payloadJson (ParticipantAssigned p) =
     JObj [(''participant'', participantJson p)]"
| "payloadJson (ParticipantJoined p t) =
     JObj [(''participantId'', JStr p), (''joinedAt'', JStr t)]"
| "payloadJson (MeetingEnded t why) =
     JObj [(''endedAt'', JStr t), (''reason'', jsOption JStr why)]"
| "payloadJson (DisplayTokenIssued i t) =
     JObj [(''displayTokenId'', JStr i), (''expiresAt'', JStr t)]"
| "payloadJson (DisplayTokenRevoked i t) =
     JObj [(''displayTokenId'', JStr i), (''revokedAt'', JStr t)]"
| "payloadJson (ArtifactRegistered a) =
     JObj [(''artifact'', sourceArtifactJson a)]"
| "payloadJson (ArtifactProcessed g) =
     artifactProcessingJson g"
| "payloadJson (UtteranceCaptured u) =
     JObj [(''utterance'', utteranceJson u)]"
| "payloadJson (SharedFloorAcquired p t) =
     JObj [(''participantId'', JStr p), (''leaseExpiresAt'', JStr t)]"
| "payloadJson (SharedFloorReleased p why) =
     JObj [(''participantId'', JStr p), (''reason'', floorReleaseReasonJson why)]"
| "payloadJson (DisclosureProposed i p out) =
     JObj [(''disclosureId'', JStr i), (''ownerParticipantId'', JStr p), (''outgoingPayload'',
       disclosureOutgoingPayloadJson out)]"
| "payloadJson (DisclosurePreviewed i out h) =
     JObj [(''disclosureId'', JStr i), (''outgoingPayload'', disclosureOutgoingPayloadJson out),
       (''previewHash'', JStr h)]"
| "payloadJson (DisclosureApproved i h e t) =
     JObj [(''disclosureId'', JStr i), (''previewHash'', JStr h), (''resultingEvidenceId'', JStr
       e), (''approvedAt'', JStr t)]"
| "payloadJson (DisclosureRejected i t why) =
     JObj [(''disclosureId'', JStr i), (''rejectedAt'', JStr t), (''reason'', jsOption JStr why)]"
| "payloadJson (EvidenceShared e) =
     JObj [(''evidence'', evidenceJson e)]"
| "payloadJson (InferenceSuggested p) =
     inferenceSuggestedJson p"
| "payloadJson (InferenceConfirmed i c p) =
     JObj [(''suggestionId'', JStr i), (''result'', confirmedInferenceJson c), (''confirmedBy'',
       JStr p)]"
| "payloadJson (InferenceRejected i p why) =
     JObj [(''suggestionId'', JStr i), (''rejectedBy'', JStr p), (''reason'', jsOption JStr why)]"
| "payloadJson (DecisionDrafted d rv) =
     JObj [(''decision'', decisionJson d), (''revision'', decisionRevisionJson rv)]"
| "payloadJson (DecisionMarkedReady d) =
     JObj [(''decision'', decisionJson d)]"
| "payloadJson (DecisionCommitted d rv) =
     JObj [(''decision'', decisionJson d), (''revision'', decisionRevisionJson rv)]"
| "payloadJson (MonitoringStarted d i) =
     JObj [(''decision'', decisionJson d), (''monitorRegistrationId'', JStr i)]"
| "payloadJson (ExternalEventReceived x) =
     JObj [(''externalEvent'', externalEventJson x)]"
| "payloadJson (AssumptionInvalidationSuggested v) =
     JObj [(''suggestionId'', JStr (ivsSuggestionId v)), (''decisionId'', JStr (ivsDecisionId
       v)), (''activeRevisionId'', JStr (ivsActiveRevisionId v)), (''externalEventId'', JStr
       (ivsExternalEventId v)), (''affectedPremiseIds'', jsStrings (ivsAffectedPremiseIds v)),
       (''affectedActionIds'', jsStrings (ivsAffectedActionIds v)), (''evidenceReferenceIds'',
       jsStrings (ivsEvidenceReferenceIds v)), (''metadata'', aiSuggestionMetadataJson (ivsMetadata
       v)), (''provenance'', JObj [(''generatedAt'', JStr (ivsGeneratedAt v)), (''operation'', JStr
       (ivsOperation v)), (''outputSchemaVersion'', JStr (ivsOutputSchemaVersion v))])]"
| "payloadJson (DecisionMarkedAtRisk d i ps as) =
     JObj [(''decision'', decisionJson d), (''suggestionId'', JStr i), (''affectedPremiseIds'',
       jsStrings ps), (''affectedActionIds'', jsStrings as)]"
| "payloadJson (FacilitatorReviewed f) =
     JObj [(''decision'', decisionJson (fvwDecision f)), (''decisionId'', JStr (fvwDecisionId
       f)), (''suggestionId'', JStr (fvwSuggestionId f)), (''facilitatorParticipantId'', JStr
       (fvwFacilitatorParticipantId f)), (''disposition'', reviewDispositionJson (fvwDisposition
       f)), (''reviewedPremiseIds'', jsStrings (fvwReviewedPremiseIds f)),
       (''reviewedEvidenceReferenceIds'', jsStrings (fvwReviewedEvidenceReferenceIds f)),
       (''reviewedActionIds'', jsStrings (fvwReviewedActionIds f)), (''reason'', JStr (fvwReason
       f))]"
| "payloadJson (DecisionReviewRequired d i as k) =
     JObj [(''decision'', decisionJson d), (''suggestionId'', JStr i), (''heldActionIds'',
       jsStrings as), (''reconsiderationTaskId'', JStr k)]"
| "payloadJson (ActionHeld d i as) =
     JObj [(''decisionId'', JStr d), (''suggestionId'', JStr i), (''actions'', JArr (map
       actionJson as))]"
| "payloadJson (ReconsiderationTaskCreated k) =
     JObj [(''task'', reconsiderationTaskJson k)]"
| "payloadJson (DecisionRevisionCommitted d rv) =
     JObj [(''decision'', decisionJson d), (''revision'', decisionRevisionJson rv)]"
| "payloadJson (DecisionSuperseded d i) =
     JObj [(''decision'', decisionJson d), (''replacementDecisionId'', JStr i)]"
| "payloadJson (DecisionRejected d why) =
     JObj [(''decision'', decisionJson d), (''reason'', JStr why)]"
| "payloadJson (DemoResetRequested i n) =
     JObj [(''resetRequestId'', JStr i), (''seedName'', JStr n)]"
| "payloadJson (DemoResetCompleted i n) =
     JObj [(''resetRequestId'', JStr i), (''seedName'', JStr n)]"
| "payloadJson (ApiKeyLeaseUpdated t) =
     JObj [(''expiresAt'', JStr t)]"
| "payloadJson (ApiKeyLeaseExpired t why) =
     JObj [(''expiredAt'', JStr t), (''reason'', leaseExpiryReasonJson why)]"

end
