(* ===== verification/Examples.thy ===== *)
theory Examples
  imports Events
begin

section \<open>Concrete records and events\<close>

text \<open>
  One small meeting, \<open>m1\<close>, with facilitator \<open>p1\<close> and participant \<open>p2\<close>: the records and events on
  which the witnesses of the component theories evaluate the definitions.
\<close>

definition exampleMonitor :: monitorCondition where
  "exampleMonitor = \<lparr>monDescription = ''EU AI Act'', monRegistrationId = None\<rparr>"

definition exampleDecision :: "decisionStatus \<Rightarrow> decision" where
  "exampleDecision s = \<lparr>recId = ''d1'', recMeetingId = ''m1'', recCreatedAt = ''t'',
     recCreatedBy = ''p1'', recOrigin = HumanInput, recConfirmation = Confirmed, recRevision = 1,
     recVisibility = Shared, recOwner = None, decTitle = ''Rollout'', decOutcome = ''Ship'',
     decStatus = s, decActiveRevision = 1, decActiveRevisionId = ''r1'', decPremiseIds = [''q1''],
     decEvidenceIds = [''e1''], decDissentIds = [], decActionIds = [''a1''],
     decMonitorCondition = exampleMonitor, decSupersededBy = None\<rparr>"

definition exampleSnapshot :: decisionSnapshot where
  "exampleSnapshot = \<lparr>snpTitle = ''Rollout'', snpOutcome = ''Ship later'', snpStatus = COMMITTED,
     snpPremiseIds = [''q1''], snpEvidenceIds = [''e1''], snpDissentIds = [], snpActionIds = [''a1''],
     snpMonitorCondition = exampleMonitor\<rparr>"

definition exampleRevision :: "int \<Rightarrow> string \<Rightarrow> string option \<Rightarrow> decisionRevision" where
  "exampleRevision v i prev = \<lparr>recId = i, recMeetingId = ''m1'', recCreatedAt = ''t'',
     recCreatedBy = ''p1'', recOrigin = HumanInput, recConfirmation = Confirmed, recRevision = v,
     recVisibility = Shared, recOwner = None, drvDecisionId = ''d1'', drvVersion = v,
     drvPreviousRevisionId = prev, drvSnapshot = exampleSnapshot, drvChangeReason = ''c''\<rparr>"

definition exampleAction :: "string \<Rightarrow> actionStatus \<Rightarrow> action" where
  "exampleAction i s = \<lparr>recId = i, recMeetingId = ''m1'', recCreatedAt = ''t'', recCreatedBy = ''p1'',
     recOrigin = HumanInput, recConfirmation = Confirmed, recRevision = 1, recVisibility = Shared,
     recOwner = Some ''p2'', actScope = [''eu''], actStatus = s, actAffectedPremiseIds = [''q1''],
     actHoldReason = None\<rparr>"

definition exampleTask :: reconsiderationTask where
  "exampleTask = \<lparr>recId = ''k1'', recMeetingId = ''m1'', recCreatedAt = ''t'',
     recCreatedBy = ''system'', recOrigin = SystemOrigin, recConfirmation = NotApplicable,
     recRevision = 1, recVisibility = Shared, recOwner = Some ''p1'', tskDecisionId = ''d1'',
     tskTriggerExternalEventId = ''x1'', tskAffectedPremiseIds = [''q1''],
     tskAffectedActionIds = [''a1''], tskState = TaskOpen\<rparr>"

lemmas example_record_defs =
  exampleMonitor_def exampleDecision_def exampleSnapshot_def exampleRevision_def exampleAction_def
  exampleTask_def

definition exampleMeeting :: meeting where
  "exampleMeeting = \<lparr>recId = ''m1'', recMeetingId = ''m1'', recCreatedAt = ''t'', recCreatedBy = ''p1'',
     recOrigin = HumanInput, recConfirmation = Confirmed, recRevision = 1, recVisibility = Shared,
     recOwner = None, mtgPurpose = ''Decide'', mtgPhase = Deliberating, mtgFacilitator = ''p1'',
     mtgAssignments = [\<lparr>asgParticipantId = ''p1'', asgRole = Facilitator, asgActive = True\<rparr>,
       \<lparr>asgParticipantId = ''p2'', asgRole = ParticipantRole, asgActive = True\<rparr>],
     mtgDisplayTokens = []\<rparr>"

definition exampleUtterance :: "string \<Rightarrow> visibility \<Rightarrow> string option \<Rightarrow> utterance" where
  "exampleUtterance i v owner = \<lparr>recId = i, recMeetingId = ''m1'', recCreatedAt = ''t'',
     recCreatedBy = ''p2'', recOrigin = HumanUtterance, recConfirmation = NotApplicable,
     recRevision = 1, recVisibility = v, recOwner = owner, uttParticipantId = ''p2'', uttChannel = v,
     uttText = ''Hello'', uttCapturedAt = ''t'', uttIdempotencyKey = ''k''\<rparr>"

definition exampleEvent :: "string \<Rightarrow> int \<Rightarrow> eventScope \<Rightarrow> domainEventPayload \<Rightarrow> domainEvent" where
  "exampleEvent i n scope payload = \<lparr>evEventId = i, evSchemaVersion = 1, evMeetingId = ''m1'',
     evPosition = n, evActor = ParticipantActor ''p1'', evOccurredAt = ''t'', evCorrelationId = ''c'',
     evCausationId = None, evIdempotencyKey = None, evScope = scope, evPayload = payload\<rparr>"

definition createdEvent :: domainEvent where
  "createdEvent = exampleEvent ''v1'' 1 SharedScope (MeetingCreated exampleMeeting)"

definition privateEvent :: domainEvent where
  "privateEvent = exampleEvent ''v2'' 2 (PrivateScope ''p2'')
     (UtteranceCaptured (exampleUtterance ''u1'' Private (Some ''p2'')))"

definition draftedEvent :: domainEvent where
  "draftedEvent = exampleEvent ''v3'' 3 SharedScope
     (DecisionDrafted (exampleDecision DRAFT) (exampleRevision 1 ''r1'' None))"

definition readyEvent :: domainEvent where
  "readyEvent = exampleEvent ''v4'' 4 SharedScope (DecisionMarkedReady (exampleDecision DECISION_READY))"

definition exampleLog :: "domainEvent list" where
  "exampleLog = [createdEvent, privateEvent, draftedEvent, readyEvent]"

lemmas example_event_defs =
  exampleMeeting_def exampleUtterance_def exampleEvent_def createdEvent_def privateEvent_def
  draftedEvent_def readyEvent_def exampleLog_def

end
