(* ===== verification/DecisionStateMachine.thy ===== *)
theory DecisionStateMachine
  imports Examples
begin

section \<open>The life of a Decision: \<open>packages/domain/src/decision-state-machine.ts\<close>\<close>

text \<open>
  The transition function on Decisions with its guards, the Action hold that a confirmed
  invalidation causes, the append-only revision history, and the life of a reconsideration task.
  The specification \<open>decisionStep\<close> is a step relation with one rule per edge of the life cycle that
  names who may take the edge, on what evidence, and the Decision that results;
  \<open>transition_refines_step\<close> proves that the code takes exactly these steps. Invariants of runs are
  proved by induction over sequences of requests.
\<close>

subsection \<open>Requests\<close>

datatype decisionAuthority =
    FacilitatorAuthority string
  | SystemAuthority
  | AiAuthority string
  | ParticipantAuthority string

record transitionRequest =
  reqTo :: decisionStatus
  reqAuthority :: decisionAuthority
  reqReadiness :: "decisionReadiness option"
  reqExplicitCommit :: "bool option"
  reqMonitorRegistrationId :: "string option"
  reqSuggestionRecorded :: "bool option"
  reqSuggestionReferenceIds :: "string list option"
  reqAffectedPremiseIds :: "string list option"
  reqAffectedActionIds :: "string list option"
  reqReviewedPremiseIds :: "string list option"
  reqReviewedEvidenceReferenceIds :: "string list option"
  reqReviewedActionIds :: "string list option"
  reqInvalidationConfirmed :: "bool option"
  reqRejectionReason :: "string option"
  reqRevision :: "decisionRevision option"
  reqReplacementDecisionId :: "string option"

text \<open>A request literal of the source that gives only \<open>to\<close> and \<open>authority\<close>.\<close>

definition plainRequest :: "decisionStatus \<Rightarrow> decisionAuthority \<Rightarrow> transitionRequest" where
  "plainRequest to auth = \<lparr>reqTo = to, reqAuthority = auth, reqReadiness = None,
     reqExplicitCommit = None, reqMonitorRegistrationId = None, reqSuggestionRecorded = None,
     reqSuggestionReferenceIds = None, reqAffectedPremiseIds = None, reqAffectedActionIds = None,
     reqReviewedPremiseIds = None, reqReviewedEvidenceReferenceIds = None,
     reqReviewedActionIds = None, reqInvalidationConfirmed = None, reqRejectionReason = None,
     reqRevision = None, reqReplacementDecisionId = None\<rparr>"

subsection \<open>The transition function\<close>

fun validTargets :: "decisionStatus \<Rightarrow> decisionStatus list" where
  "validTargets DRAFT = [DECISION_READY]"
| "validTargets DECISION_READY = [COMMITTED]"
| "validTargets COMMITTED = [MONITORING]"
| "validTargets MONITORING = [AT_RISK]"
| "validTargets AT_RISK = [MONITORING, REVIEW_REQUIRED]"
| "validTargets REVIEW_REQUIRED = [COMMITTED, SUPERSEDED, REJECTED]"
| "validTargets SUPERSEDED = []"
| "validTargets REJECTED = []"

definition decisionTransitionMatrix :: "decisionStatus \<Rightarrow> decisionStatus \<Rightarrow> bool" where
  "decisionTransitionMatrix from' to = List.member (validTargets from') to"

definition requireFacilitator :: "decisionAuthority \<Rightarrow> exn + string" where
  "requireFacilitator auth =
     (case auth of
        FacilitatorAuthority p \<Rightarrow> Inr p
      | _ \<Rightarrow> Inl (DecisionTransitionError DecisionAuthorityRequired
               ''This Decision transition requires facilitator authority''))"

definition requireSystem :: "decisionAuthority \<Rightarrow> exn + unit" where
  "requireSystem auth =
     (case auth of
        SystemAuthority \<Rightarrow> Inr ()
      | _ \<Rightarrow> Inl (DecisionTransitionError DecisionAuthorityRequired
               ''This Decision transition requires deterministic system authority''))"

definition requireCondition :: "bool \<Rightarrow> string \<Rightarrow> exn + unit" where
  "requireCondition c message = ensure c (DecisionTransitionError DecisionConditionRequired message)"

definition readinessComplete :: "decisionReadiness option \<Rightarrow> bool" where
  "readinessComplete readiness =
     (case readiness of
        None \<Rightarrow> False
      | Some r \<Rightarrow> rdyOutcome r \<and> rdyPremiseIds r \<and> rdyEvidenceIds r \<and> rdyActionIds r \<and>
                  rdyMonitorCondition r)"

definition optionLength :: "'a list option \<Rightarrow> nat" where
  "optionLength xs = (case xs of None \<Rightarrow> 0 | Some ys \<Rightarrow> length ys)"

definition replaceDecisionStatus :: "decision \<Rightarrow> decisionStatus \<Rightarrow> exn + decision" where
  "replaceDecisionStatus d status = createDecision (d\<lparr>decStatus := status\<rparr>)"

definition statusString :: "decisionStatus \<Rightarrow> string" where
  "statusString s =
     (case s of DRAFT \<Rightarrow> ''DRAFT'' | DECISION_READY \<Rightarrow> ''DECISION_READY'' | COMMITTED \<Rightarrow> ''COMMITTED''
      | MONITORING \<Rightarrow> ''MONITORING'' | AT_RISK \<Rightarrow> ''AT_RISK'' | REVIEW_REQUIRED \<Rightarrow> ''REVIEW_REQUIRED''
      | SUPERSEDED \<Rightarrow> ''SUPERSEDED'' | REJECTED \<Rightarrow> ''REJECTED'')"

definition recommitMatches :: "decision \<Rightarrow> string \<Rightarrow> decisionRevision \<Rightarrow> exn + bool" where
  "recommitMatches d facilitatorId rv =
     (if drvDecisionId rv \<noteq> recId d then Inr False
      else bindE (revisionNumber (decActiveRevision d + 1)) (\<lambda>next.
        Inr (drvVersion rv = next \<and> recCreatedBy rv = facilitatorId \<and>
             snpStatus (drvSnapshot rv) = COMMITTED)))"

definition recommitted :: "decision \<Rightarrow> decisionRevision \<Rightarrow> decision" where
  "recommitted d rv =
     d\<lparr>decStatus := COMMITTED, decActiveRevision := drvVersion rv,
       decActiveRevisionId := recId rv, recRevision := drvVersion rv,
       decTitle := snpTitle (drvSnapshot rv), decOutcome := snpOutcome (drvSnapshot rv),
       decPremiseIds := snpPremiseIds (drvSnapshot rv),
       decEvidenceIds := snpEvidenceIds (drvSnapshot rv),
       decDissentIds := snpDissentIds (drvSnapshot rv),
       decActionIds := snpActionIds (drvSnapshot rv),
       decMonitorCondition := snpMonitorCondition (drvSnapshot rv)\<rparr>"

definition transitionDecision :: "decision \<Rightarrow> transitionRequest \<Rightarrow> exn + decision" where
  "transitionDecision d r =
     (let from' = decStatus d; to = reqTo r; auth = reqAuthority r in
      if \<not> decisionTransitionMatrix from' to then
        Inl (DecisionTransitionError InvalidStateTransition
          (''Decision cannot transition from '' @ statusString from' @ '' to '' @ statusString to))
      else if to = REVIEW_REQUIRED \<and> (\<exists>m. auth = AiAuthority m) then
        Inl (DecisionTransitionError DecisionAuthorityRequired
          ''AI cannot enter REVIEW_REQUIRED; facilitator confirmation is required'')
      else if from' = DRAFT \<and> to = DECISION_READY then
        bindE (requireFacilitator auth) (\<lambda>_.
        bindE (requireCondition
          (readinessComplete (reqReadiness r) \<and> length (decOutcome d) > 0 \<and>
           length (decPremiseIds d) > 0 \<and> length (decEvidenceIds d) > 0 \<and>
           length (decActionIds d) > 0 \<and> length (monDescription (decMonitorCondition d)) > 0)
          ''Decision readiness requires outcome, premise, evidence, Action, and monitor fields'') (\<lambda>_.
        replaceDecisionStatus d to))
      else if from' = DECISION_READY \<and> to = COMMITTED then
        bindE (requireFacilitator auth) (\<lambda>_.
        bindE (requireCondition (reqExplicitCommit r = Some True)
          ''Decision commitment must be explicit'') (\<lambda>_.
        replaceDecisionStatus d to))
      else if from' = COMMITTED \<and> to = MONITORING then
        bindE (requireSystem auth) (\<lambda>_.
        bindE (requireCondition (reqMonitorRegistrationId r \<noteq> None)
          ''Monitoring requires a server-derived monitor registration ID'') (\<lambda>_.
        createDecision (d\<lparr>decMonitorCondition :=
            (decMonitorCondition d)\<lparr>monRegistrationId := reqMonitorRegistrationId r\<rparr>,
          decStatus := MONITORING\<rparr>)))
      else if from' = MONITORING \<and> to = AT_RISK then
        bindE (requireSystem auth) (\<lambda>_.
        bindE (requireCondition (reqSuggestionRecorded r = Some True)
          ''AT_RISK requires a recorded AI invalidation suggestion with references'') (\<lambda>_.
        bindE (requireCondition
          (optionLength (reqSuggestionReferenceIds r) > 0 \<and>
           optionLength (reqAffectedPremiseIds r) > 0 \<and> optionLength (reqAffectedActionIds r) > 0)
          ''AT_RISK requires referenced evidence, affected premises, and affected Actions'') (\<lambda>_.
        replaceDecisionStatus d to)))
      else if from' = AT_RISK \<and> to = REVIEW_REQUIRED then
        bindE (requireFacilitator auth) (\<lambda>_.
        bindE (requireCondition (reqInvalidationConfirmed r = Some True)
          ''REVIEW_REQUIRED requires facilitator confirmation'') (\<lambda>_.
        bindE (requireCondition
          (optionLength (reqReviewedPremiseIds r) > 0 \<and>
           optionLength (reqReviewedEvidenceReferenceIds r) > 0 \<and>
           optionLength (reqReviewedActionIds r) > 0)
          ''Facilitator must review affected premises, evidence, and Actions'') (\<lambda>_.
        replaceDecisionStatus d to)))
      else if from' = AT_RISK \<and> to = MONITORING then
        bindE (requireFacilitator auth) (\<lambda>_.
        bindE (requireCondition (reqRejectionReason r \<noteq> None)
          ''Rejecting an invalidation suggestion requires an audit reason'') (\<lambda>_.
        replaceDecisionStatus d to))
      else if from' = REVIEW_REQUIRED \<and> to = COMMITTED then
        bindE (requireFacilitator auth) (\<lambda>facilitatorId.
        case reqRevision r of
          None \<Rightarrow> Inl (DecisionTransitionError DecisionConditionRequired
                    ''Recommit requires an explicit new Decision revision'')
        | Some rv \<Rightarrow>
            bindE (requireCondition (reqExplicitCommit r = Some True)
              ''Recommit requires an explicit new Decision revision'') (\<lambda>_.
            bindE (recommitMatches d facilitatorId rv) (\<lambda>ok.
            bindE (requireCondition ok
              ''Recommit revision must be the next version for this Decision and facilitator'') (\<lambda>_.
            createDecision (recommitted d rv)))))
      else if from' = REVIEW_REQUIRED \<and> to = SUPERSEDED then
        bindE (requireFacilitator auth) (\<lambda>_.
        bindE (requireCondition
          (reqReplacementDecisionId r \<noteq> None \<and> reqReplacementDecisionId r \<noteq> Some (recId d))
          ''Superseding requires a different replacement Decision'') (\<lambda>_.
        createDecision (d\<lparr>decSupersededBy := reqReplacementDecisionId r, decStatus := SUPERSEDED\<rparr>)))
      else if from' = REVIEW_REQUIRED \<and> to = REJECTED then
        bindE (requireFacilitator auth) (\<lambda>_.
        bindE (requireCondition (reqRejectionReason r \<noteq> None)
          ''Rejecting a Decision requires an audit reason'') (\<lambda>_.
        replaceDecisionStatus d to))
      else replaceDecisionStatus d to)"

subsection \<open>Holding Actions\<close>

record actionHoldSelection =
  holdAffectedPremiseIds :: "string list"
  holdSuggestedActionIds :: "string list"
  holdReason :: string

definition selectActionsToHold :: "action list \<Rightarrow> actionHoldSelection \<Rightarrow> action list" where
  "selectActionsToHold actions sel =
     filter (\<lambda>a. actStatus a \<noteq> Completed \<and> actStatus a \<noteq> Held \<and>
               List.member (holdSuggestedActionIds sel) (recId a) \<and>
               list_ex (List.member (holdAffectedPremiseIds sel)) (actAffectedPremiseIds a)) actions"

definition holdAction :: "actionHoldSelection \<Rightarrow> action \<Rightarrow> exn + action" where
  "holdAction sel a =
     bindE (revisionNumber (recRevision a + 1)) (\<lambda>next.
       createAction (a\<lparr>actStatus := Held, actHoldReason := Some (holdReason sel),
                       recRevision := next\<rparr>))"

definition holdAffectedActions :: "action list \<Rightarrow> actionHoldSelection \<Rightarrow> exn + action list" where
  "holdAffectedActions actions sel =
     (let selected = map recId (selectActionsToHold actions sel) in
      mapE (\<lambda>a. if List.member selected (recId a) then holdAction sel a else Inr a) actions)"

subsection \<open>Revision history\<close>

record newDecisionRevisionInput =
  nriId :: string
  nriChangeReason :: string
  nriCreatedAt :: string
  nriCreatedBy :: string
  nriSnapshot :: decisionSnapshot

definition nextDecisionRevision :: "decision \<Rightarrow> newDecisionRevisionInput \<Rightarrow> exn + decisionRevision" where
  "nextDecisionRevision d input =
     bindE (revisionNumber (decActiveRevision d + 1)) (\<lambda>next.
       createDecisionRevision \<lparr>recId = nriId input, recMeetingId = recMeetingId d,
         recCreatedAt = nriCreatedAt input, recCreatedBy = nriCreatedBy input,
         recOrigin = HumanInput, recConfirmation = Confirmed, recRevision = next,
         recVisibility = Shared, recOwner = None, drvDecisionId = recId d, drvVersion = next,
         drvPreviousRevisionId = Some (decActiveRevisionId d), drvSnapshot = nriSnapshot input,
         drvChangeReason = nriChangeReason input\<rparr>)"

definition sameValues :: "'a list \<Rightarrow> 'a list \<Rightarrow> bool" where
  "sameValues left right \<longleftrightarrow>
     length left = length right \<and> list_all (\<lambda>(a, b). a = b) (zip left right)"

definition sameDecisionRevision :: "decisionRevision \<Rightarrow> decisionRevision \<Rightarrow> bool" where
  "sameDecisionRevision l r \<longleftrightarrow>
     recId l = recId r \<and> recMeetingId l = recMeetingId r \<and> drvDecisionId l = drvDecisionId r \<and>
     drvVersion l = drvVersion r \<and> drvPreviousRevisionId l = drvPreviousRevisionId r \<and>
     snpTitle (drvSnapshot l) = snpTitle (drvSnapshot r) \<and>
     snpOutcome (drvSnapshot l) = snpOutcome (drvSnapshot r) \<and>
     snpStatus (drvSnapshot l) = snpStatus (drvSnapshot r) \<and>
     sameValues (snpPremiseIds (drvSnapshot l)) (snpPremiseIds (drvSnapshot r)) \<and>
     sameValues (snpEvidenceIds (drvSnapshot l)) (snpEvidenceIds (drvSnapshot r)) \<and>
     sameValues (snpDissentIds (drvSnapshot l)) (snpDissentIds (drvSnapshot r)) \<and>
     sameValues (snpActionIds (drvSnapshot l)) (snpActionIds (drvSnapshot r)) \<and>
     monDescription (snpMonitorCondition (drvSnapshot l)) =
       monDescription (snpMonitorCondition (drvSnapshot r)) \<and>
     monRegistrationId (snpMonitorCondition (drvSnapshot l)) =
       monRegistrationId (snpMonitorCondition (drvSnapshot r)) \<and>
     drvChangeReason l = drvChangeReason r \<and> recCreatedAt l = recCreatedAt r \<and>
     recCreatedBy l = recCreatedBy r \<and> recOrigin l = recOrigin r \<and>
     recConfirmation l = recConfirmation r \<and> recRevision l = recRevision r"

definition latestRevision :: "decisionRevision list \<Rightarrow> string \<Rightarrow> decisionRevision option" where
  "latestRevision history did = findLast (\<lambda>r. drvDecisionId r = did) history"

definition appendDecisionRevision ::
  "decisionRevision list \<Rightarrow> decisionRevision \<Rightarrow> exn + decisionRevision list" where
  "appendDecisionRevision history rv =
     (case findFirst (\<lambda>r. recId r = recId rv) history of
        Some existing \<Rightarrow>
          if sameDecisionRevision existing rv then Inr history
          else Inl (DecisionTransitionError DecisionConditionRequired
                 ''Decision revision ID conflicts with existing history'')
      | None \<Rightarrow>
          let latest = latestRevision history (drvDecisionId rv) in
          bindE (revisionNumber ((case latest of None \<Rightarrow> 0 | Some l \<Rightarrow> drvVersion l) + 1)) (\<lambda>expected.
          bindE (requireCondition
            (drvVersion rv = expected \<and> drvPreviousRevisionId rv = map_option recId latest)
            ''Decision revisions must append in version order without replacing history'') (\<lambda>_.
          bindE (createDecisionRevision rv) (\<lambda>rv'. Inr (history @ [rv'])))))"

subsection \<open>Reconsideration tasks\<close>

record newReconsiderationTaskInput =
  ntiId :: string
  ntiMeetingId :: string
  ntiDecisionId :: string
  ntiTriggerExternalEventId :: string
  ntiOwnerParticipantId :: string
  ntiAffectedPremiseIds :: "string list"
  ntiAffectedActionIds :: "string list"
  ntiCreatedAt :: string

definition newReconsiderationTask :: "newReconsiderationTaskInput \<Rightarrow> exn + reconsiderationTask" where
  "newReconsiderationTask input =
     bindE (revisionNumber 1) (\<lambda>one.
       createReconsiderationTask \<lparr>recId = ntiId input, recMeetingId = ntiMeetingId input,
         recCreatedAt = ntiCreatedAt input, recCreatedBy = ''system'', recOrigin = SystemOrigin,
         recConfirmation = NotApplicable, recRevision = one, recVisibility = Shared,
         recOwner = Some (ntiOwnerParticipantId input), tskDecisionId = ntiDecisionId input,
         tskTriggerExternalEventId = ntiTriggerExternalEventId input,
         tskAffectedPremiseIds = ntiAffectedPremiseIds input,
         tskAffectedActionIds = ntiAffectedActionIds input, tskState = TaskOpen\<rparr>)"

fun taskStateString :: "taskState \<Rightarrow> string" where
  "taskStateString TaskOpen = ''open''"
| "taskStateString TaskInProgress = ''in_progress''"
| "taskStateString TaskCompleted = ''completed''"
| "taskStateString TaskCancelled = ''cancelled''"

definition reviseReconsiderationTask ::
  "reconsiderationTask \<Rightarrow> taskState \<Rightarrow> exn + reconsiderationTask" where
  "reviseReconsiderationTask t state =
     (if tskState t = state then Inr t
      else
        let allowed =
          (tskState t = TaskOpen \<and> (state = TaskInProgress \<or> state = TaskCancelled)) \<or>
          (tskState t = TaskInProgress \<and> (state = TaskCompleted \<or> state = TaskCancelled)) in
        if \<not> allowed then
          Inl (DecisionTransitionError InvalidStateTransition
            (''ReconsiderationTask cannot transition from '' @ taskStateString (tskState t) @
             '' to '' @ taskStateString state))
        else
          bindE (revisionNumber (recRevision t + 1)) (\<lambda>next.
            createReconsiderationTask (t\<lparr>tskState := state, recRevision := next\<rparr>)))"

subsection \<open>Specification: the life cycle as a step relation\<close>

inductive decisionStep :: "decision \<Rightarrow> transitionRequest \<Rightarrow> decision \<Rightarrow> bool" where
  step_ready:
    "decStatus d = DRAFT \<Longrightarrow> reqTo r = DECISION_READY \<Longrightarrow> reqAuthority r = FacilitatorAuthority p \<Longrightarrow>
     readinessComplete (reqReadiness r) \<Longrightarrow> decOutcome d \<noteq> [] \<Longrightarrow> decPremiseIds d \<noteq> [] \<Longrightarrow>
     decEvidenceIds d \<noteq> [] \<Longrightarrow> decActionIds d \<noteq> [] \<Longrightarrow> monDescription (decMonitorCondition d) \<noteq> [] \<Longrightarrow>
     decisionStep d r (d\<lparr>decStatus := DECISION_READY\<rparr>)"
| step_commit:
    "decStatus d = DECISION_READY \<Longrightarrow> reqTo r = COMMITTED \<Longrightarrow> reqAuthority r = FacilitatorAuthority p \<Longrightarrow>
     reqExplicitCommit r = Some True \<Longrightarrow> decisionStep d r (d\<lparr>decStatus := COMMITTED\<rparr>)"
| step_monitor:
    "decStatus d = COMMITTED \<Longrightarrow> reqTo r = MONITORING \<Longrightarrow> reqAuthority r = SystemAuthority \<Longrightarrow>
     reqMonitorRegistrationId r = Some m \<Longrightarrow>
     decisionStep d r (d\<lparr>decMonitorCondition :=
       (decMonitorCondition d)\<lparr>monRegistrationId := Some m\<rparr>, decStatus := MONITORING\<rparr>)"
| step_at_risk:
    "decStatus d = MONITORING \<Longrightarrow> reqTo r = AT_RISK \<Longrightarrow> reqAuthority r = SystemAuthority \<Longrightarrow>
     reqSuggestionRecorded r = Some True \<Longrightarrow> reqSuggestionReferenceIds r = Some (s # ss) \<Longrightarrow>
     reqAffectedPremiseIds r = Some (q # qs) \<Longrightarrow> reqAffectedActionIds r = Some (a # as) \<Longrightarrow>
     decisionStep d r (d\<lparr>decStatus := AT_RISK\<rparr>)"
| step_review:
    "decStatus d = AT_RISK \<Longrightarrow> reqTo r = REVIEW_REQUIRED \<Longrightarrow> reqAuthority r = FacilitatorAuthority p \<Longrightarrow>
     reqInvalidationConfirmed r = Some True \<Longrightarrow> reqReviewedPremiseIds r = Some (q # qs) \<Longrightarrow>
     reqReviewedEvidenceReferenceIds r = Some (e # es) \<Longrightarrow> reqReviewedActionIds r = Some (a # as) \<Longrightarrow>
     decisionStep d r (d\<lparr>decStatus := REVIEW_REQUIRED\<rparr>)"
| step_dismiss:
    "decStatus d = AT_RISK \<Longrightarrow> reqTo r = MONITORING \<Longrightarrow> reqAuthority r = FacilitatorAuthority p \<Longrightarrow>
     reqRejectionReason r = Some why \<Longrightarrow> decisionStep d r (d\<lparr>decStatus := MONITORING\<rparr>)"
| step_recommit:
    "decStatus d = REVIEW_REQUIRED \<Longrightarrow> reqTo r = COMMITTED \<Longrightarrow> reqAuthority r = FacilitatorAuthority p \<Longrightarrow>
     reqExplicitCommit r = Some True \<Longrightarrow> reqRevision r = Some rv \<Longrightarrow> drvDecisionId rv = recId d \<Longrightarrow>
     drvVersion rv = decActiveRevision d + 1 \<Longrightarrow> 1 \<le> drvVersion rv \<Longrightarrow>
     drvVersion rv \<le> MAX_SAFE_INTEGER \<Longrightarrow> recCreatedBy rv = p \<Longrightarrow>
     snpStatus (drvSnapshot rv) = COMMITTED \<Longrightarrow> decisionOk (recommitted d rv) \<Longrightarrow>
     decisionStep d r (recommitted d rv)"
| step_supersede:
    "decStatus d = REVIEW_REQUIRED \<Longrightarrow> reqTo r = SUPERSEDED \<Longrightarrow> reqAuthority r = FacilitatorAuthority p \<Longrightarrow>
     reqReplacementDecisionId r = Some d' \<Longrightarrow> d' \<noteq> recId d \<Longrightarrow>
     decisionStep d r (d\<lparr>decSupersededBy := Some d', decStatus := SUPERSEDED\<rparr>)"
| step_reject:
    "decStatus d = REVIEW_REQUIRED \<Longrightarrow> reqTo r = REJECTED \<Longrightarrow> reqAuthority r = FacilitatorAuthority p \<Longrightarrow>
     reqRejectionReason r = Some why \<Longrightarrow> decisionStep d r (d\<lparr>decStatus := REJECTED\<rparr>)"

named_theorems transition_simps \<open>inversion of the guards of a transition\<close>

lemma requireFacilitator_Inr [transition_simps]:
  "requireFacilitator a = Inr p \<longleftrightarrow> a = FacilitatorAuthority p"
  by (cases a) (auto simp: requireFacilitator_def)

lemma requireSystem_Inr [transition_simps]: "requireSystem a = Inr u \<longleftrightarrow> a = SystemAuthority"
  by (cases a) (auto simp: requireSystem_def)

lemma requireCondition_Inr [transition_simps]: "requireCondition c m = Inr u \<longleftrightarrow> c"
  by (simp add: requireCondition_def)

lemma optionLength_pos [transition_simps]: "0 < optionLength xs \<longleftrightarrow> (\<exists>y ys. xs = Some (y # ys))"
  by (auto simp: optionLength_def neq_Nil_conv split: option.splits)

lemma replaceDecisionStatus_Inr [transition_simps]:
  "replaceDecisionStatus d s = Inr d' \<longleftrightarrow>
     d' = d\<lparr>decStatus := s\<rparr> \<and> decisionOk (d\<lparr>decStatus := s\<rparr>)"
  by (auto simp: replaceDecisionStatus_def createDecision_Inr)

lemma recommitMatches_True [transition_simps]:
  "recommitMatches d p rv = Inr ok \<and> ok \<longleftrightarrow>
     ok \<and> drvDecisionId rv = recId d \<and> drvVersion rv = decActiveRevision d + 1 \<and>
     1 \<le> drvVersion rv \<and> drvVersion rv \<le> MAX_SAFE_INTEGER \<and> recCreatedBy rv = p \<and>
     snpStatus (drvSnapshot rv) = COMMITTED"
  by (auto simp: recommitMatches_def result_simps revisionNumber_Inr)

lemma decisionOk_status:
  "decisionOk d \<Longrightarrow> s \<noteq> SUPERSEDED \<or> decSupersededBy d \<noteq> None \<Longrightarrow>
     decisionOk (d\<lparr>decStatus := s\<rparr>)"
  by (auto simp: decisionOk_def recordOk_def)

lemma decisionOk_monitor:
  "decisionOk d \<Longrightarrow> decisionOk (d\<lparr>decMonitorCondition := mc, decStatus := MONITORING\<rparr>)"
  by (auto simp: decisionOk_def recordOk_def)

lemma decisionOk_supersede:
  "decisionOk d \<Longrightarrow> decisionOk (d\<lparr>decSupersededBy := Some x, decStatus := SUPERSEDED\<rparr>)"
  by (auto simp: decisionOk_def recordOk_def)

lemmas decisionOk_updates = decisionOk_status decisionOk_monitor decisionOk_supersede

lemmas transition_eval = transitionDecision_def decisionTransitionMatrix_def Let_def result_simps

lemma matrix_iff: "decisionTransitionMatrix f t \<longleftrightarrow> t \<in> set (validTargets f)"
  by (simp add: decisionTransitionMatrix_def)

lemma transition_outside_matrix:
  "reqTo r \<notin> set (validTargets (decStatus d)) \<Longrightarrow>
     transitionDecision d r = Inl (DecisionTransitionError InvalidStateTransition
       (''Decision cannot transition from '' @ statusString (decStatus d) @ '' to '' @
        statusString (reqTo r)))"
  by (simp only: transitionDecision_def matrix_iff Let_def simp_thms if_True)

text \<open>Every step of the specification is taken by the code.\<close>

lemma step_transition: "decisionStep d r d' \<Longrightarrow> decisionOk d \<Longrightarrow> transitionDecision d r = Inr d'"
proof (induction rule: decisionStep.induct)
  case (step_recommit d r p rv)
  then show ?case
    by (simp add: transition_eval transition_simps createDecision_Inr recommitMatches_def
        revisionNumber_Inr)
qed (simp_all add: transition_eval transition_simps createDecision_Inr decisionOk_updates)

text \<open>Every transition the code accepts is a step of the specification.\<close>

lemma transition_step: "transitionDecision d r = Inr d' \<Longrightarrow> decisionStep d r d'"
proof (cases "decStatus d")
  case DRAFT
  assume "transitionDecision d r = Inr d'"
  with DRAFT show ?thesis
    by (cases "reqTo r") (auto simp: transition_eval transition_simps neq_Nil_conv intro!: step_ready)
next
  case DECISION_READY
  assume "transitionDecision d r = Inr d'"
  with DECISION_READY show ?thesis
    by (cases "reqTo r") (auto simp: transition_eval transition_simps intro!: step_commit)
next
  case COMMITTED
  assume "transitionDecision d r = Inr d'"
  with COMMITTED show ?thesis
    by (cases "reqTo r")
      (auto simp: transition_eval transition_simps createDecision_Inr intro!: step_monitor)
next
  case MONITORING
  assume "transitionDecision d r = Inr d'"
  with MONITORING show ?thesis
    by (cases "reqTo r") (auto simp: transition_eval transition_simps intro!: step_at_risk)
next
  case AT_RISK
  assume "transitionDecision d r = Inr d'"
  with AT_RISK show ?thesis
    by (cases "reqTo r")
      (auto simp: transition_eval transition_simps split: if_splits
        intro!: step_review step_dismiss)
next
  case REVIEW_REQUIRED
  assume *: "transitionDecision d r = Inr d'"
  show ?thesis
  proof (cases "reqTo r")
    case COMMITTED
    with * REVIEW_REQUIRED obtain p rv ok where "reqAuthority r = FacilitatorAuthority p"
      "reqExplicitCommit r = Some True" "reqRevision r = Some rv"
      "recommitMatches d p rv = Inr ok" "ok" "decisionOk (recommitted d rv)" "d' = recommitted d rv"
      by (auto simp: transition_eval transition_simps createDecision_Inr split: option.splits)
    with COMMITTED REVIEW_REQUIRED recommitMatches_True[of d p rv ok] show ?thesis
      by (auto intro!: step_recommit)
  qed (use * REVIEW_REQUIRED in \<open>auto simp: transition_eval transition_simps createDecision_Inr
      intro!: step_supersede step_reject\<close>)
qed (auto simp: transition_eval)

subsection \<open>Facts about single transitions\<close>

inductive_cases decisionStepE: "decisionStep d r d'"
inductive_simps decisionStep_terminal: "decisionStep d r d'"

lemma step_decisionOk: "decisionStep d r d' \<Longrightarrow> decisionOk d \<Longrightarrow> decisionOk d'"
  by (erule decisionStepE) (auto intro: decisionOk_updates)

lemma step_identity:
  "decisionStep d r d' \<Longrightarrow>
     recId d' = recId d \<and> recMeetingId d' = recMeetingId d \<and> recCreatedAt d' = recCreatedAt d \<and>
     recCreatedBy d' = recCreatedBy d \<and> recOrigin d' = recOrigin d \<and>
     recConfirmation d' = recConfirmation d \<and> recVisibility d' = recVisibility d"
  by (erule decisionStepE) (auto simp: recommitted_def)

lemma step_target: "decisionStep d r d' \<Longrightarrow> decStatus d' = reqTo r"
  by (erule decisionStepE) (auto simp: recommitted_def)

lemma step_matrix: "decisionStep d r d' \<Longrightarrow> decStatus d' \<in> set (validTargets (decStatus d))"
  by (erule decisionStepE) (auto simp: recommitted_def)

definition decisionContent ::
  "decision \<Rightarrow> string \<times> string \<times> string list \<times> string list \<times> string list \<times> string list \<times> int \<times> string" where
  "decisionContent d =
     (decTitle d, decOutcome d, decPremiseIds d, decEvidenceIds d, decDissentIds d, decActionIds d,
      decActiveRevision d, decActiveRevisionId d)"

lemma step_content:
  "decisionStep d r d' \<Longrightarrow> decStatus d \<noteq> REVIEW_REQUIRED \<or> decStatus d' \<noteq> COMMITTED \<Longrightarrow>
     decisionContent d' = decisionContent d"
  by (erule decisionStepE) (auto simp: recommitted_def decisionContent_def)

lemma step_version:
  "decisionStep d r d' \<Longrightarrow>
     decActiveRevision d' = decActiveRevision d +
       (if decStatus d = REVIEW_REQUIRED \<and> decStatus d' = COMMITTED then 1 else 0)"
  by (erule decisionStepE) (auto simp: recommitted_def)

definition facilitatorRequest :: "transitionRequest \<Rightarrow> bool" where
  "facilitatorRequest r \<longleftrightarrow> (\<exists>p. reqAuthority r = FacilitatorAuthority p)"

lemma step_authority:
  "decisionStep d r d' \<Longrightarrow>
     (if reqAuthority r = SystemAuthority
      then (decStatus d, decStatus d') \<in> {(COMMITTED, MONITORING), (MONITORING, AT_RISK)}
      else facilitatorRequest r)"
  by (erule decisionStepE) (auto simp: facilitatorRequest_def recommitted_def)

subsection \<open>Runs\<close>

definition runTransitions :: "decision \<Rightarrow> transitionRequest list \<Rightarrow> exn + decision" where
  "runTransitions d rs = foldE transitionDecision d rs"

lemma run_induct [consumes 1, case_names start step]:
  assumes "runTransitions d rs = Inr d'"
    and "P [] d"
    and "\<And>rs r e e'. runTransitions d rs = Inr e \<Longrightarrow> P rs e \<Longrightarrow> decisionStep e r e' \<Longrightarrow> P (rs @ [r]) e'"
  shows "P rs d'"
  using assms(1)
proof (induction rs arbitrary: d' rule: rev_induct)
  case Nil
  then show ?case using assms(2) by (simp add: runTransitions_def)
next
  case (snoc r rs)
  then obtain e where e: "runTransitions d rs = Inr e" "transitionDecision e r = Inr d'"
    by (auto simp: runTransitions_def foldE_snoc result_simps)
  show ?case
    by (rule assms(3)[OF e(1) snoc.IH[OF e(1)] transition_step[OF e(2)]])
qed

lemma run_decisionOk: "runTransitions d rs = Inr d' \<Longrightarrow> decisionOk d \<Longrightarrow> decisionOk d'"
  by (induction rule: run_induct) (auto intro: step_decisionOk)

lemma run_terminal:
  "runTransitions d rs = Inr d' \<Longrightarrow> decStatus d \<in> {SUPERSEDED, REJECTED} \<Longrightarrow> d' = d \<and> rs = []"
  by (cases rs) (auto simp: runTransitions_def result_simps transition_outside_matrix)

text \<open>The statuses that only a confirmed commitment opens.\<close>

definition beforeCommit :: "decisionStatus \<Rightarrow> bool" where
  "beforeCommit s \<longleftrightarrow> s = DRAFT \<or> s = DECISION_READY"

lemma step_beforeCommit:
  "decisionStep d r d' \<Longrightarrow> beforeCommit (decStatus d) \<Longrightarrow> \<not> beforeCommit (decStatus d') \<Longrightarrow>
     facilitatorRequest r \<and> reqExplicitCommit r = Some True \<and> reqTo r = COMMITTED"
  by (erule decisionStepE) (auto simp: beforeCommit_def facilitatorRequest_def)

definition recommits :: "transitionRequest list \<Rightarrow> nat" where
  "recommits rs = length (filter (\<lambda>r. reqTo r = COMMITTED \<and> reqRevision r \<noteq> None) rs)"

subsection \<open>Held Actions\<close>

lemma member_map_recId:
  "List.member (map recId (filter p as)) i \<longleftrightarrow> (\<exists>a\<in>set as. p a \<and> recId a = i)"
  by auto

lemma holdAction_Inr:
  "holdAction sel a = Inr a' \<longleftrightarrow>
     a' = a\<lparr>actStatus := Held, actHoldReason := Some (holdReason sel),
            recRevision := recRevision a + 1\<rparr> \<and> actionOk a' \<and>
     1 \<le> recRevision a + 1 \<and> recRevision a + 1 \<le> MAX_SAFE_INTEGER"
  by (auto simp: holdAction_def result_simps revisionNumber_Inr createAction_Inr)

definition selectedForHold :: "actionHoldSelection \<Rightarrow> action \<Rightarrow> bool" where
  "selectedForHold sel a \<longleftrightarrow>
     actStatus a \<notin> {Completed, Held} \<and> recId a \<in> set (holdSuggestedActionIds sel) \<and>
     set (actAffectedPremiseIds a) \<inter> set (holdAffectedPremiseIds sel) \<noteq> {}"

lemma selectActionsToHold_spec:
  "selectActionsToHold actions sel = filter (selectedForHold sel) actions"
  unfolding selectActionsToHold_def selectedForHold_def
  by (rule filter_cong) (auto simp: list_ex_iff)

lemma selected_iff:
  assumes "distinct (map recId actions)" "a \<in> set actions"
  shows "List.member (map recId (filter p actions)) (recId a) \<longleftrightarrow> p a"
  using assms by (auto simp: distinct_map inj_on_def)

lemma holdAffectedActions_spec:
  assumes "distinct (map recId actions)"
  shows "holdAffectedActions actions sel = Inr held \<longleftrightarrow>
    list_all2 (\<lambda>a a'. if selectedForHold sel a then holdAction sel a = Inr a' else a' = a)
      actions held"
  unfolding holdAffectedActions_def Let_def selectActionsToHold_spec mapE_eq_Inr
  using selected_iff[OF assms]
  by (intro iffI; elim list.rel_mono_strong) (auto split: if_splits)

lemma holdAction_not_selected: "holdAction sel a = Inr a' \<Longrightarrow> \<not> selectedForHold sel a'"
  by (auto simp: holdAction_Inr selectedForHold_def)

lemma holdAffectedActions_ids:
  assumes "holdAffectedActions actions sel = Inr held"
  shows "map recId held = map recId actions"
proof -
  have "list_all2 (\<lambda>a a'. recId a' = recId a) actions held"
    using assms unfolding holdAffectedActions_def Let_def mapE_eq_Inr
    by (rule list.rel_mono_strong) (auto simp: holdAction_Inr split: if_splits)
  then show ?thesis by (induction rule: list_all2_induct) auto
qed

subsection \<open>Revision histories\<close>

lemma sameValues_iff [simp]: "sameValues xs ys \<longleftrightarrow> xs = ys"
proof -
  have "length xs = length ys \<Longrightarrow> list_all (\<lambda>(a, b). a = b) (zip xs ys) \<Longrightarrow> xs = ys"
    by (induction xs ys rule: list_induct2) auto
  then show ?thesis by (auto simp: sameValues_def list_all_iff in_set_zip)
qed

lemma sameDecisionRevision_iff:
  "sameDecisionRevision l r \<longleftrightarrow>
     r = l\<lparr>recVisibility := recVisibility r, recOwner := recOwner r\<rparr>"
proof
  assume *: "sameDecisionRevision l r"
  have "snpMonitorCondition (drvSnapshot l) = snpMonitorCondition (drvSnapshot r)"
    using * by (auto simp: sameDecisionRevision_def intro: monitorCondition.equality)
  with * have "drvSnapshot l = drvSnapshot r"
    by (auto simp: sameDecisionRevision_def intro: decisionSnapshot.equality)
  with * show "r = l\<lparr>recVisibility := recVisibility r, recOwner := recOwner r\<rparr>"
    by (intro decisionRevision.equality) (auto simp: sameDecisionRevision_def)
next
  assume "r = l\<lparr>recVisibility := recVisibility r, recOwner := recOwner r\<rparr>"
  then have "sameDecisionRevision l (l\<lparr>recVisibility := recVisibility r, recOwner := recOwner r\<rparr>) =
             sameDecisionRevision l r" by simp
  then show "sameDecisionRevision l r"
    by (simp add: sameDecisionRevision_def)
qed

text \<open>
  The history of one Decision: versions 1, 2, 3, ... in order, each revision naming the one before
  it, and revision identifiers that never repeat.
\<close>

definition revisionsOf :: "decisionRevision list \<Rightarrow> string \<Rightarrow> decisionRevision list" where
  "revisionsOf history did = filter (\<lambda>r. drvDecisionId r = did) history"

definition chained :: "decisionRevision list \<Rightarrow> bool" where
  "chained rs \<longleftrightarrow>
     (\<forall>i < length rs. drvVersion (rs ! i) = int i + 1 \<and>
        drvPreviousRevisionId (rs ! i) = (if i = 0 then None else Some (recId (rs ! (i - 1)))))"

definition historyOk :: "decisionRevision list \<Rightarrow> bool" where
  "historyOk history \<longleftrightarrow>
     distinct (map recId history) \<and> (\<forall>r \<in> set history. revisionOk r) \<and>
     (\<forall>did. chained (revisionsOf history did))"

lemma historyOk_Nil [simp]: "historyOk []"
  by (simp add: historyOk_def revisionsOf_def chained_def)

lemma latestRevision_last:
  "latestRevision history did =
     (if revisionsOf history did = [] then None else Some (last (revisionsOf history did)))"
proof (induction history rule: rev_induct)
  case Nil
  then show ?case by (simp add: latestRevision_def revisionsOf_def findLast_def)
next
  case (snoc r rs)
  then show ?case by (auto simp: latestRevision_def revisionsOf_def findLast_snoc)
qed

lemma chained_snoc:
  "chained (rs @ [r]) \<longleftrightarrow>
     chained rs \<and> drvVersion r = int (length rs) + 1 \<and>
     drvPreviousRevisionId r = (if rs = [] then None else Some (recId (last rs)))"
proof -
  define Q where "Q xs i \<longleftrightarrow> drvVersion (xs ! i) = int i + 1 \<and>
    drvPreviousRevisionId (xs ! i) = (if i = 0 then None else Some (recId (xs ! (i - 1))))"
    for xs :: "decisionRevision list" and i
  have "(\<forall>i<length rs. Q (rs @ [r]) i) = (\<forall>i<length rs. Q rs i)"
    by (intro all_cong) (auto simp: Q_def nth_append)
  moreover have "Q (rs @ [r]) (length rs) \<longleftrightarrow> drvVersion r = int (length rs) + 1 \<and>
     drvPreviousRevisionId r = (if rs = [] then None else Some (recId (last rs)))"
    by (cases rs rule: rev_cases) (auto simp: Q_def nth_append)
  moreover have "chained xs \<longleftrightarrow> (\<forall>i<length xs. Q xs i)" for xs
    by (simp add: chained_def Q_def)
  ultimately show ?thesis by (auto simp: All_less_Suc)
qed

lemma chained_last: "chained rs \<Longrightarrow> rs \<noteq> [] \<Longrightarrow> drvVersion (last rs) = int (length rs)"
  by (cases rs rule: rev_cases) (auto simp: chained_snoc)

lemma appendDecisionRevision_cases:
  assumes "appendDecisionRevision history rv = Inr h'"
  shows "h' = history \<and> (\<exists>r \<in> set history. sameDecisionRevision r rv) \<or>
    h' = history @ [rv] \<and> recId rv \<notin> recId ` set history \<and> revisionOk rv \<and>
      drvPreviousRevisionId rv = map_option recId (latestRevision history (drvDecisionId rv)) \<and>
      drvVersion rv =
        (case latestRevision history (drvDecisionId rv) of None \<Rightarrow> 0 | Some l \<Rightarrow> drvVersion l) + 1"
proof (cases "findFirst (\<lambda>r. recId r = recId rv) history")
  case None
  then have "recId rv \<notin> recId ` set history" by (auto simp: findFirst_None)
  with None assms show ?thesis
    by (auto simp: appendDecisionRevision_def Let_def result_simps revisionNumber_Inr
        requireCondition_Inr createDecisionRevision_Inr)
next
  case (Some r)
  then have "r \<in> set history" by (auto dest: findFirst_SomeD)
  with Some assms show ?thesis
    by (auto simp: appendDecisionRevision_def split: if_splits)
qed

lemma appendDecisionRevision_historyOk:
  assumes "historyOk history" "appendDecisionRevision history rv = Inr h'"
  shows "historyOk h'"
  using appendDecisionRevision_cases[OF assms(2)]
proof (elim disjE conjE)
  let ?rs = "revisionsOf history (drvDecisionId rv)"
  assume h': "h' = history @ [rv]" and new: "recId rv \<notin> recId ` set history" and ok: "revisionOk rv"
    and prev: "drvPreviousRevisionId rv = map_option recId (latestRevision history (drvDecisionId rv))"
    and ver: "drvVersion rv =
        (case latestRevision history (drvDecisionId rv) of None \<Rightarrow> 0 | Some l \<Rightarrow> drvVersion l) + 1"
  have ch: "chained ?rs" using assms(1) by (simp add: historyOk_def)
  have "chained (?rs @ [rv])"
    using ch prev ver chained_last[OF ch] by (auto simp: chained_snoc latestRevision_last)
  then have "chained (revisionsOf h' did)" for did
    using assms(1) by (auto simp: h' historyOk_def revisionsOf_def)
  then show ?thesis
    using assms(1) new ok by (auto simp: historyOk_def h')
qed (use assms(1) in simp)

subsection \<open>Reconsideration tasks\<close>

fun taskRank :: "taskState \<Rightarrow> nat" where
  "taskRank TaskOpen = 0"
| "taskRank TaskInProgress = 1"
| "taskRank TaskCompleted = 2"
| "taskRank TaskCancelled = 2"

lemma reviseTask_Inr:
  "reviseReconsiderationTask t s = Inr t' \<Longrightarrow>
     t' = t \<and> tskState t = s \<or>
     taskRank (tskState t) < taskRank s \<and>
       t' = t\<lparr>tskState := s, recRevision := recRevision t + 1\<rparr> \<and> taskOk t'"
  by (auto simp: reviseReconsiderationTask_def Let_def result_simps revisionNumber_Inr
      createReconsiderationTask_Inr split: if_splits)

subsection \<open>Facts about runs\<close>

fun recommitCount :: "decision \<Rightarrow> transitionRequest list \<Rightarrow> nat" where
  "recommitCount d [] = 0"
| "recommitCount d (r # rs) =
     (case transitionDecision d r of
        Inl _ \<Rightarrow> 0
      | Inr e \<Rightarrow> (if decStatus d = REVIEW_REQUIRED \<and> reqTo r = COMMITTED then 1 else 0) +
                 recommitCount e rs)"

definition sameIdentity :: "decision \<Rightarrow> decision \<Rightarrow> bool" where
  "sameIdentity d e \<longleftrightarrow>
     recId e = recId d \<and> recMeetingId e = recMeetingId d \<and> recCreatedAt e = recCreatedAt d \<and>
     recCreatedBy e = recCreatedBy d \<and> recOrigin e = recOrigin d \<and>
     recConfirmation e = recConfirmation d \<and> recVisibility e = recVisibility d"

lemma run_version_content:
  "runTransitions d rs = Inr d' \<Longrightarrow>
     decActiveRevision d' = decActiveRevision d + int (recommitCount d rs) \<and>
     (recommitCount d rs = 0 \<longrightarrow> decisionContent d' = decisionContent d) \<and> sameIdentity d d'"
proof (induction rs arbitrary: d)
  case Nil
  then show ?case by (simp add: runTransitions_def sameIdentity_def)
next
  case (Cons r rs)
  then obtain e where e: "transitionDecision d r = Inr e" "runTransitions e rs = Inr d'"
    by (auto simp: runTransitions_def result_simps)
  note st = transition_step[OF e(1)]
  from Cons.IH[OF e(2)] step_version[OF st] step_content[OF st] step_identity[OF st] step_target[OF st]
  show ?case by (auto simp: e(1) sameIdentity_def)
qed

lemma run_commit:
  "runTransitions d rs = Inr d' \<Longrightarrow> beforeCommit (decStatus d) \<Longrightarrow> \<not> beforeCommit (decStatus d') \<Longrightarrow>
     \<exists>r \<in> set rs. facilitatorRequest r \<and> reqExplicitCommit r = Some True \<and> reqTo r = COMMITTED"
proof (induction rule: run_induct)
  case (step rs r e e')
  then show ?case
    using step_beforeCommit[of e r e'] by (cases "beforeCommit (decStatus e)") auto
qed simp

lemma run_review:
  "runTransitions d rs = Inr d' \<Longrightarrow> decStatus d \<noteq> REVIEW_REQUIRED \<Longrightarrow> decStatus d' = REVIEW_REQUIRED \<Longrightarrow>
     \<exists>r \<in> set rs. facilitatorRequest r \<and> reqInvalidationConfirmed r = Some True"
proof (induction rule: run_induct)
  case (step rs r e e')
  then have "decStatus e \<noteq> REVIEW_REQUIRED"
    by (auto elim!: decisionStepE simp: recommitted_def)
  with step.hyps(2) step.prems have "facilitatorRequest r \<and> reqInvalidationConfirmed r = Some True"
    by (auto elim!: decisionStepE simp: recommitted_def facilitatorRequest_def)
  then show ?case by auto
qed simp

lemma appends_ok:
  "historyOk h \<Longrightarrow> foldE appendDecisionRevision h rvs = Inr h' \<Longrightarrow>
     historyOk h' \<and> (\<exists>new. h' = h @ new \<and> set new \<subseteq> set rvs)"
proof (induction rvs arbitrary: h)
  case (Cons rv rvs)
  then obtain g where g: "appendDecisionRevision h rv = Inr g" "foldE appendDecisionRevision g rvs = Inr h'"
    by (auto simp: result_simps)
  have "g = h \<or> g = h @ [rv]" using appendDecisionRevision_cases[OF g(1)] by blast
  moreover have "historyOk g" using appendDecisionRevision_historyOk[OF Cons.prems(1) g(1)] .
  ultimately show ?case using Cons.IH[OF _ g(2)] by fastforce
qed simp

lemma append_again:
  assumes "appendDecisionRevision h rv = Inr h'"
  shows "appendDecisionRevision h' rv = Inr h'"
proof (cases "findFirst (\<lambda>r. recId r = recId rv) h")
  case None
  then have "h' = h @ [rv]"
    using appendDecisionRevision_cases[OF assms]
    by (auto simp: findFirst_None sameDecisionRevision_def)
  with None show ?thesis
    by (simp add: appendDecisionRevision_def findFirst_append sameDecisionRevision_def)
next
  case (Some r)
  then show ?thesis using assms by (auto simp: appendDecisionRevision_def split: if_splits)
qed

lemma nextDecisionRevision_Inr:
  "nextDecisionRevision d input = Inr rv \<Longrightarrow>
     recId rv = nriId input \<and> drvDecisionId rv = recId d \<and> drvVersion rv = decActiveRevision d + 1 \<and>
     drvPreviousRevisionId rv = Some (decActiveRevisionId d) \<and> drvSnapshot rv = nriSnapshot input \<and>
     recCreatedBy rv = nriCreatedBy input \<and> recCreatedAt rv = nriCreatedAt input \<and> revisionOk rv \<and>
     recMeetingId rv = recMeetingId d \<and>
     1 \<le> decActiveRevision d + 1 \<and> decActiveRevision d + 1 \<le> MAX_SAFE_INTEGER"
  by (auto simp: nextDecisionRevision_def result_simps revisionNumber_Inr createDecisionRevision_Inr)

subsection \<open>Concrete requests\<close>

definition commitRequest :: transitionRequest where
  "commitRequest = (plainRequest COMMITTED (FacilitatorAuthority ''p1''))\<lparr>reqExplicitCommit := Some True\<rparr>"

definition reviewRequest :: transitionRequest where
  "reviewRequest = (plainRequest REVIEW_REQUIRED (FacilitatorAuthority ''p1''))
     \<lparr>reqInvalidationConfirmed := Some True, reqReviewedPremiseIds := Some [''q1''],
      reqReviewedEvidenceReferenceIds := Some [''e1''], reqReviewedActionIds := Some [''a1'']\<rparr>"

definition recommitRequest :: transitionRequest where
  "recommitRequest = commitRequest\<lparr>reqRevision := Some (exampleRevision 2 ''r2'' (Some ''r1''))\<rparr>"

lemmas example_defs =
  example_record_defs commitRequest_def reviewRequest_def recommitRequest_def plainRequest_def

lemma exampleDecision_ok: "s \<noteq> SUPERSEDED \<Longrightarrow> decisionOk (exampleDecision s)"
  by (simp add: decisionOk_def recordOk_def example_defs)

lemma example_commit:
  "transitionDecision (exampleDecision DECISION_READY) commitRequest = Inr (exampleDecision COMMITTED)"
  by (rule step_transition[OF _ exampleDecision_ok])
    (use step_commit[of "exampleDecision DECISION_READY" commitRequest "''p1''"] in
     \<open>simp_all add: example_defs\<close>)

lemma example_run:
  "runTransitions (exampleDecision DECISION_READY) [commitRequest] = Inr (exampleDecision COMMITTED)"
  by (simp add: runTransitions_def example_commit)

lemma example_review:
  "runTransitions (exampleDecision AT_RISK) [reviewRequest] = Inr (exampleDecision REVIEW_REQUIRED)"
proof -
  have "decisionStep (exampleDecision AT_RISK) reviewRequest (exampleDecision REVIEW_REQUIRED)"
    using step_review[of "exampleDecision AT_RISK" reviewRequest "''p1''" "''q1''" "[]" "''e1''" "[]" "''a1''" "[]"]
    by (simp add: example_defs)
  then have "transitionDecision (exampleDecision AT_RISK) reviewRequest = Inr (exampleDecision REVIEW_REQUIRED)"
    by (rule step_transition) (simp add: exampleDecision_ok)
  then show ?thesis by (simp add: runTransitions_def)
qed

subsection \<open>Properties\<close>

text \<open>C1. The transition function takes exactly the steps of the life-cycle specification: a
  well-formed Decision moves if and only if the specification has the edge for this request, and to
  the Decision the specification names.\<close>

theorem transition_refines_step:
  "decisionOk d \<Longrightarrow> transitionDecision d r = Inr d' \<longleftrightarrow> decisionStep d r d'"
  using transition_step step_transition by blast

theorem transition_refines_step_witness:
  "decisionOk (exampleDecision DECISION_READY) \<and>
   decisionStep (exampleDecision DECISION_READY) commitRequest (exampleDecision COMMITTED)"
  using transition_refines_step[of "exampleDecision DECISION_READY" commitRequest "exampleDecision COMMITTED"]
  by (simp add: exampleDecision_ok example_commit)

text \<open>C2. Neither an AI nor an ordinary participant ever moves a Decision: whatever the state and
  whatever evidence the request carries, the transition is refused.\<close>

theorem only_facilitator_or_system_moves:
  "reqAuthority r = AiAuthority m \<or> reqAuthority r = ParticipantAuthority p \<Longrightarrow>
     \<exists>e. transitionDecision d r = Inl e"
proof -
  assume auth: "reqAuthority r = AiAuthority m \<or> reqAuthority r = ParticipantAuthority p"
  have "\<not> decisionStep d r d'" for d'
    using step_authority[of d r d'] auth by (auto simp: facilitatorRequest_def)
  then have "transitionDecision d r \<noteq> Inr d'" for d'
    using transition_step by blast
  then show ?thesis by (cases "transitionDecision d r") auto
qed

theorem only_facilitator_or_system_moves_witness:
  "\<exists>e. transitionDecision (exampleDecision AT_RISK)
         (reviewRequest\<lparr>reqAuthority := AiAuthority ''gpt''\<rparr>) = Inl e"
  using only_facilitator_or_system_moves
    [of "reviewRequest\<lparr>reqAuthority := AiAuthority ''gpt''\<rparr>" "''gpt''" "[]" "exampleDecision AT_RISK"]
  by simp

text \<open>C3. Commitment gate: a Decision that starts as a draft or ready gets past commitment, in any
  sequence of accepted transitions, only if a facilitator explicitly committed it on the way.\<close>

theorem commitment_needs_explicit_facilitator:
  "runTransitions d rs = Inr d' \<Longrightarrow> decStatus d \<in> {DRAFT, DECISION_READY} \<Longrightarrow>
     decStatus d' \<notin> {DRAFT, DECISION_READY} \<Longrightarrow>
     \<exists>r \<in> set rs. (\<exists>p. reqAuthority r = FacilitatorAuthority p) \<and> reqExplicitCommit r = Some True"
  using run_commit[of d rs d'] by (auto simp: beforeCommit_def facilitatorRequest_def)

theorem commitment_needs_explicit_facilitator_witness:
  "\<exists>r \<in> set [commitRequest]. (\<exists>p. reqAuthority r = FacilitatorAuthority p) \<and>
     reqExplicitCommit r = Some True"
  by (rule commitment_needs_explicit_facilitator[OF example_run]) (simp_all add: exampleDecision_def)

text \<open>Review gate: a Decision reaches REVIEW_REQUIRED, in any sequence of accepted transitions,
  only if a facilitator confirmed the invalidation on the way; an AI suggestion alone never does.\<close>

theorem review_needs_facilitator_confirmation:
  "runTransitions d rs = Inr d' \<Longrightarrow> decStatus d \<noteq> REVIEW_REQUIRED \<Longrightarrow> decStatus d' = REVIEW_REQUIRED \<Longrightarrow>
     \<exists>r \<in> set rs. (\<exists>p. reqAuthority r = FacilitatorAuthority p) \<and>
       reqInvalidationConfirmed r = Some True"
  using run_review[of d rs d'] by (simp add: facilitatorRequest_def)

theorem review_needs_facilitator_confirmation_witness:
  "\<exists>r \<in> set [reviewRequest]. (\<exists>p. reqAuthority r = FacilitatorAuthority p) \<and>
     reqInvalidationConfirmed r = Some True"
  by (rule review_needs_facilitator_confirmation[OF example_review]) (simp_all add: exampleDecision_def)

text \<open>C4. Along any sequence of accepted transitions the active revision number grows by exactly one
  for every recommit after a review and by nothing else; without a recommit the committed content
  (title, outcome, premises, evidence, dissent, Actions, revision) is unchanged; identity, meeting,
  author and visibility never change; and well-formedness is kept.\<close>

theorem run_changes_content_only_by_recommit:
  "runTransitions d rs = Inr d' \<Longrightarrow>
     decActiveRevision d' = decActiveRevision d + int (recommitCount d rs) \<and>
     (recommitCount d rs = 0 \<longrightarrow> decisionContent d' = decisionContent d) \<and>
     sameIdentity d d' \<and> (decisionOk d \<longrightarrow> decisionOk d')"
  using run_version_content run_decisionOk by blast

theorem run_changes_content_only_by_recommit_witness:
  "decisionContent (exampleDecision COMMITTED) = decisionContent (exampleDecision DECISION_READY) \<and>
   sameIdentity (exampleDecision DECISION_READY) (exampleDecision COMMITTED)"
  using run_changes_content_only_by_recommit[OF example_run]
  by (simp add: example_commit exampleDecision_def)

text \<open>SUPERSEDED and REJECTED are final: no request is accepted there.\<close>

theorem terminal_statuses_are_final:
  "decStatus d = SUPERSEDED \<or> decStatus d = REJECTED \<Longrightarrow>
     \<exists>message. transitionDecision d r = Inl (DecisionTransitionError InvalidStateTransition message)"
  by (rule exI, rule transition_outside_matrix) auto

theorem terminal_statuses_are_final_witness:
  "\<exists>message. transitionDecision (exampleDecision REJECTED) commitRequest =
     Inl (DecisionTransitionError InvalidStateTransition message)"
  by (rule terminal_statuses_are_final) (simp add: exampleDecision_def)

text \<open>C5. Holding Actions: with distinct Action identifiers the hold keeps the list and its order,
  changes exactly the unfinished, not yet held Actions that are both suggested and touch an affected
  premise (status held, the given reason, revision plus one), leaves every other Action alone, and a
  second hold with the same selection changes nothing.\<close>

theorem hold_affected_actions_exact:
  assumes "distinct (map recId actions)" and "holdAffectedActions actions sel = Inr held"
  shows "map recId held = map recId actions \<and>
    (\<forall>i < length actions. held ! i =
      (if selectedForHold sel (actions ! i)
       then (actions ! i)\<lparr>actStatus := Held, actHoldReason := Some (holdReason sel),
              recRevision := recRevision (actions ! i) + 1\<rparr>
       else actions ! i)) \<and>
    holdAffectedActions held sel = Inr held"
proof -
  have rel: "list_all2 (\<lambda>a a'. if selectedForHold sel a then holdAction sel a = Inr a' else a' = a)
      actions held"
    using assms holdAffectedActions_spec by blast
  have ids: "map recId held = map recId actions"
    using holdAffectedActions_ids[OF assms(2)] .
  have nth: "held ! i = (if selectedForHold sel (actions ! i)
       then (actions ! i)\<lparr>actStatus := Held, actHoldReason := Some (holdReason sel),
              recRevision := recRevision (actions ! i) + 1\<rparr>
       else actions ! i)" if "i < length actions" for i
    using list_all2_nthD[OF rel that] by (auto simp: holdAction_Inr split: if_splits)
  have "\<not> selectedForHold sel a'" if mem: "a' \<in> set held" for a'
  proof -
    obtain i where "i < length held" "a' = held ! i" using mem by (auto simp: in_set_conv_nth)
    then show ?thesis
      using list_all2_nthD2[OF rel, of i] holdAction_not_selected by (auto split: if_splits)
  qed
  then have "list_all2 (\<lambda>a a'. if selectedForHold sel a then holdAction sel a = Inr a' else a' = a)
      held held"
    by (intro list_all2_all_nthI) auto
  then have "holdAffectedActions held sel = Inr held"
    using holdAffectedActions_spec[of held sel held] assms(1) by (simp add: ids)
  with ids nth show ?thesis by blast
qed

theorem hold_affected_actions_exact_witness:
  "holdAffectedActions
     [(exampleAction ''a1'' Active)\<lparr>actStatus := Held, actHoldReason := Some ''law'', recRevision := 2\<rparr>,
      exampleAction ''a2'' Completed]
     \<lparr>holdAffectedPremiseIds = [''q1''], holdSuggestedActionIds = [''a1''], holdReason = ''law''\<rparr> =
   Inr [(exampleAction ''a1'' Active)\<lparr>actStatus := Held, actHoldReason := Some ''law'', recRevision := 2\<rparr>,
      exampleAction ''a2'' Completed]"
  by (rule hold_affected_actions_exact
      [of "[exampleAction ''a1'' Active, exampleAction ''a2'' Completed]",
       THEN conjunct2, THEN conjunct2])
    (simp_all add: example_defs holdAffectedActions_def selectActionsToHold_def holdAction_def
      revisionNumber_def opaqueInteger_def isSafeInteger_def MAX_SAFE_INTEGER_def createAction_Inr
      actionOk_def recordOk_def bindE_eq_Inr)

text \<open>C6. The revision history is append-only and chained: whatever sequence of revisions is
  offered, the accepted history extends the old one by offered revisions only, has no repeated
  revision identifier, and lists for every Decision the versions 1, 2, 3, ... each naming its
  predecessor.\<close>

theorem revision_history_append_only:
  "historyOk h \<Longrightarrow> foldE appendDecisionRevision h rvs = Inr h' \<Longrightarrow>
     historyOk h' \<and> (\<exists>new. h' = h @ new \<and> set new \<subseteq> set rvs)"
  by (rule appends_ok)

theorem revision_history_append_only_witness:
  "historyOk [exampleRevision 1 ''r1'' None, exampleRevision 2 ''r2'' (Some ''r1'')]"
  using revision_history_append_only
    [of "[]" "[exampleRevision 1 ''r1'' None, exampleRevision 2 ''r2'' (Some ''r1'')]"
        "[exampleRevision 1 ''r1'' None, exampleRevision 2 ''r2'' (Some ''r1'')]"]
  by (simp add: appendDecisionRevision_def latestRevision_def findLast_def revisionNumber_def
      opaqueInteger_def isSafeInteger_def MAX_SAFE_INTEGER_def createDecisionRevision_Inr revisionOk_def
      recordOk_def example_defs bindE_eq_Inr requireCondition_def)

text \<open>Offering a revision twice is harmless: once it is accepted, offering it again leaves the
  history as it is.\<close>

theorem revision_append_idempotent:
  "appendDecisionRevision h rv = Inr h' \<Longrightarrow> appendDecisionRevision h' rv = Inr h'"
  by (rule append_again)

theorem revision_append_idempotent_witness:
  "appendDecisionRevision [exampleRevision 1 ''r1'' None] (exampleRevision 1 ''r1'' None) =
     Inr [exampleRevision 1 ''r1'' None]"
  by (rule revision_append_idempotent[of "[]"])
    (simp add: appendDecisionRevision_def latestRevision_def findLast_def revisionNumber_def
      opaqueInteger_def isSafeInteger_def MAX_SAFE_INTEGER_def createDecisionRevision_Inr revisionOk_def
      recordOk_def example_defs bindE_eq_Inr requireCondition_def)

text \<open>The revision that \<open>nextDecisionRevision\<close> derives from a Decision fits both consumers: if the
  Decision's active revision is the latest of the history and the identifier is new, the history
  accepts it; and if its snapshot is a commitment and the Decision is under review, the facilitator
  who created it can recommit with it.\<close>

theorem next_revision_fits_history_and_recommit:
  assumes "nextDecisionRevision d input = Inr rv"
    and "latestRevision h (recId d) = Some l" "recId l = decActiveRevisionId d"
    and "drvVersion l = decActiveRevision d" "nriId input \<notin> recId ` set h"
    and "decisionOk d" "decStatus d = REVIEW_REQUIRED" "snpStatus (nriSnapshot input) = COMMITTED"
  shows "appendDecisionRevision h rv = Inr (h @ [rv]) \<and>
    transitionDecision d ((plainRequest COMMITTED (FacilitatorAuthority (nriCreatedBy input)))
            \<lparr>reqExplicitCommit := Some True, reqRevision := Some rv\<rparr>) = Inr (recommitted d rv)"
proof (rule conjI)
  note rv = nextDecisionRevision_Inr[OF assms(1)]
  have "findFirst (\<lambda>r. recId r = recId rv) h = None"
    using assms(5) rv by (auto simp: findFirst_None intro: rev_image_eqI)
  then show "appendDecisionRevision h rv = Inr (h @ [rv])"
    using assms(2-4) rv
    by (auto simp: appendDecisionRevision_def Let_def bindE_eq_Inr revisionNumber_Inr
        requireCondition_Inr createDecisionRevision_Inr)
  have "decisionOk (recommitted d rv)"
    using rv assms(6) by (auto simp: decisionOk_def recommitted_def recordOk_def revisionOk_def)
  then have "decisionStep d ((plainRequest COMMITTED (FacilitatorAuthority (nriCreatedBy input)))
            \<lparr>reqExplicitCommit := Some True, reqRevision := Some rv\<rparr>) (recommitted d rv)"
    using rv assms(7,8) by (intro step_recommit) (auto simp: plainRequest_def)
  then show "transitionDecision d ((plainRequest COMMITTED (FacilitatorAuthority (nriCreatedBy input)))
            \<lparr>reqExplicitCommit := Some True, reqRevision := Some rv\<rparr>) = Inr (recommitted d rv)"
    by (rule step_transition) (rule assms(6))
qed

theorem next_revision_fits_history_and_recommit_witness:
  "appendDecisionRevision [exampleRevision 1 ''r1'' None] (exampleRevision 2 ''r2'' (Some ''r1'')) =
     Inr [exampleRevision 1 ''r1'' None, exampleRevision 2 ''r2'' (Some ''r1'')]"
  using next_revision_fits_history_and_recommit
    [of "exampleDecision REVIEW_REQUIRED"
        "\<lparr>nriId = ''r2'', nriChangeReason = ''c'', nriCreatedAt = ''t'', nriCreatedBy = ''p1'',
          nriSnapshot = exampleSnapshot\<rparr>"
        "exampleRevision 2 ''r2'' (Some ''r1'')" "[exampleRevision 1 ''r1'' None]"
        "exampleRevision 1 ''r1'' None"]
  by (simp add: nextDecisionRevision_def latestRevision_def findLast_def
      revisionNumber_def opaqueInteger_def isSafeInteger_def MAX_SAFE_INTEGER_def
      createDecisionRevision_Inr revisionOk_def decisionOk_def recordOk_def example_defs bindE_eq_Inr)

text \<open>A reconsideration task only moves forward (open, in progress, then completed or
  cancelled), each move adds one to its revision and keeps the rest of the record; a finished task
  accepts no other state.\<close>

theorem reconsideration_task_moves_forward:
  assumes "reviseReconsiderationTask t s = Inr t'"
  shows "(t' = t \<and> tskState t = s \<or>
       taskRank (tskState t) < taskRank s \<and>
         t' = t\<lparr>tskState := s, recRevision := recRevision t + 1\<rparr>) \<and>
    (taskRank (tskState t) = 2 \<longrightarrow> s = tskState t)"
  using reviseTask_Inr[OF assms] by (cases s) auto

theorem reconsideration_task_moves_forward_witness:
  "taskRank (tskState exampleTask) < taskRank TaskInProgress"
  using reconsideration_task_moves_forward
    [of exampleTask TaskInProgress "exampleTask\<lparr>tskState := TaskInProgress, recRevision := 2\<rparr>"]
  by (simp add: reviseReconsiderationTask_def example_record_defs revisionNumber_def opaqueInteger_def
      isSafeInteger_def MAX_SAFE_INTEGER_def createReconsiderationTask_Inr taskOk_def recordOk_def
      bindE_eq_Inr)

end
