(* ===== verification/Projections.thy ===== *)
theory Projections
  imports Examples
begin

section \<open>Projections: \<open>packages/domain/src/projections.ts\<close>\<close>

text \<open>
  The reducer that folds a meeting's events into the shared projection that every participant sees
  and the private workspace of each owner. Duplicate deliveries are recognised by event identifier
  and idempotency key together with a fingerprint of the content. The switch of
  \<open>reduceSharedEvent\<close> is split into one definition per group of event types, and the reducer
  dispatches to them.
\<close>

subsection \<open>State\<close>

record sharedFloorProjection =
  flrParticipantId :: string
  flrLeaseExpiresAt :: string

record sharedMeetingProjection =
  shpMeetingId :: string
  shpPosition :: int
  shpMeeting :: "meeting option"
  shpParticipants :: "participant list"
  shpArtifacts :: "sourceArtifact list"
  shpUtterances :: "utterance list"
  shpEvidence :: "evidence list"
  shpPropositions :: "propositionEntity list"
  shpStances :: "stance list"
  shpPremises :: "premise list"
  shpOptions :: "optionEntity list"
  shpDissent :: "dissent list"
  shpDecisions :: "decision list"
  shpDecisionRevisions :: "decisionRevision list"
  shpActions :: "action list"
  shpReconsiderationTasks :: "reconsiderationTask list"
  shpExternalEvents :: "externalEvent list"
  shpSharedFloor :: "sharedFloorProjection option"
  shpAuditTimeline :: "eventReference list"

datatype disclosureState = DspProposed | DspPreviewed | DspApproved | DspRejected

record disclosureProjection =
  dspDisclosureId :: string
  dspState :: disclosureState
  dspPreviewHash :: "string option"

record ownerPrivateProjection =
  oppMeetingId :: string
  oppOwnerParticipantId :: string
  oppArtifacts :: "sourceArtifact list"
  oppUtterances :: "utterance list"
  oppDisclosures :: "disclosureProjection list"
  oppInferenceSuggestionIds :: "string list"
  oppInferenceSuggestions :: "inferenceSuggestedPayload list"

record idempotencyReceipt =
  rcpKey :: string
  rcpEventId :: string
  rcpFingerprint :: string

record processedEventReceipt =
  prcEventId :: string
  prcFingerprint :: string

record meetingProjection =
  mprMeetingId :: string
  mprPosition :: int
  mprShared :: sharedMeetingProjection
  mprPrivateWorkspaces :: "ownerPrivateProjection list"
  mprIdempotencyReceipts :: "idempotencyReceipt list"
  mprProcessedEvents :: "processedEventReceipt list"

definition createEmptySharedMeetingProjection :: "string \<Rightarrow> sharedMeetingProjection" where
  "createEmptySharedMeetingProjection m =
     \<lparr>shpMeetingId = m, shpPosition = 0, shpMeeting = None, shpParticipants = [],
      shpArtifacts = [], shpUtterances = [], shpEvidence = [], shpPropositions = [],
      shpStances = [], shpPremises = [], shpOptions = [], shpDissent = [], shpDecisions = [],
      shpDecisionRevisions = [], shpActions = [], shpReconsiderationTasks = [],
      shpExternalEvents = [], shpSharedFloor = None, shpAuditTimeline = []\<rparr>"

definition createEmptyMeetingProjection :: "string \<Rightarrow> meetingProjection" where
  "createEmptyMeetingProjection m =
     \<lparr>mprMeetingId = m, mprPosition = 0, mprShared = createEmptySharedMeetingProjection m,
      mprPrivateWorkspaces = [], mprIdempotencyReceipts = [], mprProcessedEvents = []\<rparr>"

definition assertExpectedPosition :: "meetingProjection \<Rightarrow> appendContract \<Rightarrow> exn + unit" where
  "assertExpectedPosition p contract =
     ensure (mprPosition p = acExpectedPosition contract)
       (ProjectionError OptimisticConcurrencyConflict
         (''Expected meeting position '' @ intString (acExpectedPosition contract) @
          '', actual '' @ intString (mprPosition p)))"

subsection \<open>Duplicates\<close>

definition upsertById :: "'a commonRecord_scheme list \<Rightarrow> 'a commonRecord_scheme \<Rightarrow> 'a commonRecord_scheme list" where
  "upsertById entities entity = upsertBy (\<lambda>current. recId current = recId entity) entity entities"

definition eventFingerprint :: "domainEvent \<Rightarrow> string" where
  "eventFingerprint ev =
     domainSerialize (JObj
       [(''eventType'', JStr (eventTypeName (evPayload ev))),
        (''meetingId'', JStr (evMeetingId ev)),
        (''visibility'', visibilityJson (scopeVisibility (evScope ev))),
        (''ownerParticipantId'',
           case evScope ev of PrivateScope owner \<Rightarrow> JStr owner | SharedScope \<Rightarrow> JUndefined),
        (''payload'', payloadJson (evPayload ev))])"

definition findDuplicate :: "meetingProjection \<Rightarrow> domainEvent \<Rightarrow> string \<Rightarrow> exn + bool" where
  "findDuplicate st ev fingerprint =
     (case findFirst (\<lambda>r. prcEventId r = evEventId ev) (mprProcessedEvents st) of
        Some processed \<Rightarrow>
          if prcFingerprint processed \<noteq> fingerprint then
            Inl (ProjectionError EventIdConflict
              ''An event ID was reused with different domain content'')
          else Inr True
      | None \<Rightarrow>
          (case evIdempotencyKey ev of
             None \<Rightarrow> Inr False
           | Some k \<Rightarrow>
               (case findFirst (\<lambda>r. rcpKey r = k) (mprIdempotencyReceipts st) of
                  None \<Rightarrow> Inr False
                | Some receipt \<Rightarrow>
                    if rcpFingerprint receipt \<noteq> fingerprint then
                      Inl (ProjectionError IdempotencyConflict
                        ''An idempotency key was reused with different domain content'')
                    else Inr True)))"

subsection \<open>Private workspaces\<close>

definition emptyWorkspace :: "string \<Rightarrow> string \<Rightarrow> ownerPrivateProjection" where
  "emptyWorkspace m owner =
     \<lparr>oppMeetingId = m, oppOwnerParticipantId = owner, oppArtifacts = [], oppUtterances = [],
      oppDisclosures = [], oppInferenceSuggestionIds = [], oppInferenceSuggestions = []\<rparr>"

definition ownerWorkspace :: "ownerPrivateProjection list \<Rightarrow> string \<Rightarrow> string \<Rightarrow> ownerPrivateProjection" where
  "ownerWorkspace workspaces m owner =
     (case findFirst (\<lambda>w. oppOwnerParticipantId w = owner \<and> oppMeetingId w = m) workspaces of
        Some w \<Rightarrow> w
      | None \<Rightarrow> emptyWorkspace m owner)"

definition upsertOwnerWorkspace ::
  "ownerPrivateProjection list \<Rightarrow> ownerPrivateProjection \<Rightarrow> ownerPrivateProjection list" where
  "upsertOwnerWorkspace workspaces w =
     upsertBy (\<lambda>v. oppMeetingId v = oppMeetingId w \<and> oppOwnerParticipantId v = oppOwnerParticipantId w)
       w workspaces"

definition updateDisclosure ::
  "disclosureProjection list \<Rightarrow> disclosureProjection \<Rightarrow> disclosureProjection list" where
  "updateDisclosure disclosures d = upsertBy (\<lambda>c. dspDisclosureId c = dspDisclosureId d) d disclosures"

definition upsertInferenceSuggestion ::
  "inferenceSuggestedPayload list \<Rightarrow> inferenceSuggestedPayload \<Rightarrow> inferenceSuggestedPayload list" where
  "upsertInferenceSuggestion suggestions s = upsertBy (\<lambda>c. infSuggestionId c = infSuggestionId s) s suggestions"

definition invalidPayload :: "string \<Rightarrow> exn" where
  "invalidPayload message = ProjectionError InvalidEventPayload message"

definition validateEntityScope :: "domainEvent \<Rightarrow> string \<Rightarrow> exn + unit" where
  "validateEntityScope ev entityMeetingId =
     ensure (entityMeetingId = evMeetingId ev)
       (invalidPayload (eventTypeName (evPayload ev) @ '' payload belongs to a different meeting''))"

definition applyProcessing :: "artifactProcessing \<Rightarrow> sourceArtifact \<Rightarrow> sourceArtifact" where
  "applyProcessing g a =
     (let a1 = a\<lparr>artProcessingState := apgProcessingState g\<rparr>;
          a2 = (case apgContentHash g of
                  None \<Rightarrow> a1
                | Some h \<Rightarrow>
                    (if apgDerivedArtifactId g = None then a1\<lparr>artContentHash := h\<rparr>
                     else a1\<lparr>artDerivedContentHash := Some h\<rparr>));
          a3 = (if apgDerivedArtifactId g = None then a2
                else a2\<lparr>artDerivedArtifactId := apgDerivedArtifactId g\<rparr>);
          a4 = (if apgDerivedSizeBytes g = None then a3
                else a3\<lparr>artDerivedSizeBytes := apgDerivedSizeBytes g\<rparr>)
      in if apgDerivedStorageReference g = None then a4
         else a4\<lparr>artDerivedStorageReference := apgDerivedStorageReference g\<rparr>)"

definition processArtifacts :: "artifactProcessing \<Rightarrow> sourceArtifact list \<Rightarrow> sourceArtifact list" where
  "processArtifacts g artifacts =
     map (\<lambda>a. if recId a = apgArtifactId g then applyProcessing g a else a) artifacts"

definition setDisclosure ::
  "ownerPrivateProjection \<Rightarrow> string \<Rightarrow> disclosureState \<Rightarrow> string option \<Rightarrow> ownerPrivateProjection" where
  "setDisclosure w i state h =
     w\<lparr>oppDisclosures := updateDisclosure (oppDisclosures w)
          \<lparr>dspDisclosureId = i, dspState = state, dspPreviewHash = h\<rparr>\<rparr>"

definition reduceWorkspace ::
  "ownerPrivateProjection \<Rightarrow> domainEvent \<Rightarrow> string \<Rightarrow> exn + ownerPrivateProjection" where
  "reduceWorkspace w ev owner =
     (case evPayload ev of
        ArtifactRegistered a \<Rightarrow>
          bindE (validateEntityScope ev (recMeetingId a)) (\<lambda>_.
          bindE (ensure (\<not> (recVisibility a \<noteq> Private \<or> recOwner a \<noteq> Some owner))
            (invalidPayload ''Private ArtifactRegistered payload must match its event owner'')) (\<lambda>_.
          Inr (w\<lparr>oppArtifacts := upsertById (oppArtifacts w) a\<rparr>)))
      | ArtifactProcessed g \<Rightarrow> Inr (w\<lparr>oppArtifacts := processArtifacts g (oppArtifacts w)\<rparr>)
      | UtteranceCaptured u \<Rightarrow>
          bindE (validateEntityScope ev (recMeetingId u)) (\<lambda>_.
          bindE (ensure (\<not> (recVisibility u \<noteq> Private \<or> recOwner u \<noteq> Some owner))
            (invalidPayload ''Private UtteranceCaptured payload must match its event owner'')) (\<lambda>_.
          Inr (w\<lparr>oppUtterances := upsertById (oppUtterances w) u\<rparr>)))
      | DisclosureProposed i _ _ \<Rightarrow> Inr (setDisclosure w i DspProposed None)
      | DisclosurePreviewed i _ h \<Rightarrow> Inr (setDisclosure w i DspPreviewed (Some h))
      | DisclosureApproved i h _ _ \<Rightarrow> Inr (setDisclosure w i DspApproved (Some h))
      | DisclosureRejected i _ _ \<Rightarrow> Inr (setDisclosure w i DspRejected None)
      | InferenceSuggested p \<Rightarrow>
          Inr (w\<lparr>oppInferenceSuggestionIds :=
                   (if List.member (oppInferenceSuggestionIds w) (infSuggestionId p)
                    then oppInferenceSuggestionIds w
                    else oppInferenceSuggestionIds w @ [infSuggestionId p]),
                 oppInferenceSuggestions := upsertInferenceSuggestion (oppInferenceSuggestions w) p\<rparr>)
      | _ \<Rightarrow> Inr w)"

definition reducePrivateWorkspace ::
  "ownerPrivateProjection list \<Rightarrow> domainEvent \<Rightarrow> string \<Rightarrow> exn + ownerPrivateProjection list" where
  "reducePrivateWorkspace st ev owner =
     bindE (reduceWorkspace (ownerWorkspace st (evMeetingId ev) owner) ev owner)
       (\<lambda>next. Inr (upsertOwnerWorkspace st next))"

subsection \<open>The shared projection\<close>

definition reduceMeetingLifecycle ::
  "sharedMeetingProjection \<Rightarrow> domainEvent \<Rightarrow> exn + sharedMeetingProjection" where
  "reduceMeetingLifecycle st ev =
     (case evPayload ev of
        MeetingCreated m \<Rightarrow>
          bindE (ensure (recId m = evMeetingId ev)
            (invalidPayload ''MeetingCreated payload belongs to a different meeting'')) (\<lambda>_.
          Inr (st\<lparr>shpMeeting := Some m\<rparr>))
      | ParticipantAssigned p \<Rightarrow>
          bindE (validateEntityScope ev (recMeetingId p)) (\<lambda>_.
          Inr (st\<lparr>shpParticipants := upsertById (shpParticipants st) p\<rparr>))
      | ParticipantJoined i t \<Rightarrow>
          Inr (st\<lparr>shpParticipants :=
            map (\<lambda>p. if recId p = i then p\<lparr>parActive := True, parJoinedAt := Some t\<rparr> else p)
              (shpParticipants st)\<rparr>)
      | MeetingEnded _ _ \<Rightarrow>
          Inr (st\<lparr>shpMeeting := map_option (\<lambda>m. m\<lparr>mtgPhase := Ended\<rparr>) (shpMeeting st),
                  shpSharedFloor := None\<rparr>)
      | DisplayTokenIssued i t \<Rightarrow>
          Inr (st\<lparr>shpMeeting := map_option
            (\<lambda>m. m\<lparr>mtgDisplayTokens := mtgDisplayTokens m @
                      [\<lparr>tokTokenId = i, tokExpiresAt = t, tokRevokedAt = None\<rparr>]\<rparr>) (shpMeeting st)\<rparr>)
      | DisplayTokenRevoked i t \<Rightarrow>
          Inr (st\<lparr>shpMeeting := map_option
            (\<lambda>m. m\<lparr>mtgDisplayTokens :=
                      map (\<lambda>k. if tokTokenId k = i then k\<lparr>tokRevokedAt := Some t\<rparr> else k)
                        (mtgDisplayTokens m)\<rparr>) (shpMeeting st)\<rparr>)
      | _ \<Rightarrow> Inr st)"

definition reduceSharedContent ::
  "sharedMeetingProjection \<Rightarrow> domainEvent \<Rightarrow> exn + sharedMeetingProjection" where
  "reduceSharedContent st ev =
     (case evPayload ev of
        ArtifactRegistered a \<Rightarrow>
          bindE (validateEntityScope ev (recMeetingId a)) (\<lambda>_.
          bindE (ensure (recVisibility a = Shared)
            (invalidPayload ''Shared ArtifactRegistered event cannot contain a private artifact'')) (\<lambda>_.
          Inr (st\<lparr>shpArtifacts := upsertById (shpArtifacts st) a\<rparr>)))
      | ArtifactProcessed g \<Rightarrow> Inr (st\<lparr>shpArtifacts := processArtifacts g (shpArtifacts st)\<rparr>)
      | UtteranceCaptured u \<Rightarrow>
          bindE (validateEntityScope ev (recMeetingId u)) (\<lambda>_.
          bindE (ensure (recVisibility u = Shared)
            (invalidPayload ''Shared UtteranceCaptured event cannot contain a private utterance'')) (\<lambda>_.
          Inr (st\<lparr>shpUtterances := upsertById (shpUtterances st) u\<rparr>)))
      | SharedFloorAcquired p t \<Rightarrow>
          Inr (st\<lparr>shpSharedFloor := Some \<lparr>flrParticipantId = p, flrLeaseExpiresAt = t\<rparr>\<rparr>)
      | SharedFloorReleased p _ \<Rightarrow>
          Inr (if map_option flrParticipantId (shpSharedFloor st) = Some p
               then st\<lparr>shpSharedFloor := None\<rparr> else st)
      | EvidenceShared e \<Rightarrow>
          bindE (validateEntityScope ev (recMeetingId e)) (\<lambda>_.
          bindE (ensure (recVisibility e = Shared)
            (invalidPayload ''EvidenceShared cannot contain private Evidence'')) (\<lambda>_.
          Inr (st\<lparr>shpEvidence := upsertById (shpEvidence st) e\<rparr>)))
      | _ \<Rightarrow> Inr st)"

fun inferenceMeetingId :: "confirmedInference \<Rightarrow> string" where
  "inferenceMeetingId (ConfirmedProposition x) = recMeetingId x"
| "inferenceMeetingId (ConfirmedStance x) = recMeetingId x"
| "inferenceMeetingId (ConfirmedPremise x) = recMeetingId x"
| "inferenceMeetingId (ConfirmedOption x) = recMeetingId x"
| "inferenceMeetingId (ConfirmedDissent x) = recMeetingId x"
| "inferenceMeetingId (ConfirmedAction x) = recMeetingId x"

fun addConfirmed :: "sharedMeetingProjection \<Rightarrow> confirmedInference \<Rightarrow> sharedMeetingProjection" where
  "addConfirmed st (ConfirmedProposition x) = st\<lparr>shpPropositions := upsertById (shpPropositions st) x\<rparr>"
| "addConfirmed st (ConfirmedStance x) = st\<lparr>shpStances := upsertById (shpStances st) x\<rparr>"
| "addConfirmed st (ConfirmedPremise x) = st\<lparr>shpPremises := upsertById (shpPremises st) x\<rparr>"
| "addConfirmed st (ConfirmedOption x) = st\<lparr>shpOptions := upsertById (shpOptions st) x\<rparr>"
| "addConfirmed st (ConfirmedDissent x) = st\<lparr>shpDissent := upsertById (shpDissent st) x\<rparr>"
| "addConfirmed st (ConfirmedAction x) = st\<lparr>shpActions := upsertById (shpActions st) x\<rparr>"

fun decisionOfPayload :: "domainEventPayload \<Rightarrow> (decision \<times> decisionRevision option) option" where
  "decisionOfPayload (DecisionDrafted d rv) = Some (d, Some rv)"
| "decisionOfPayload (DecisionMarkedReady d) = Some (d, None)"
| "decisionOfPayload (DecisionCommitted d rv) = Some (d, Some rv)"
| "decisionOfPayload (MonitoringStarted d _) = Some (d, None)"
| "decisionOfPayload (DecisionMarkedAtRisk d _ _ _) = Some (d, None)"
| "decisionOfPayload (FacilitatorReviewed f) = Some (fvwDecision f, None)"
| "decisionOfPayload (DecisionReviewRequired d _ _ _) = Some (d, None)"
| "decisionOfPayload (DecisionRevisionCommitted d rv) = Some (d, Some rv)"
| "decisionOfPayload (DecisionSuperseded d _) = Some (d, None)"
| "decisionOfPayload (DecisionRejected d _) = Some (d, None)"
| "decisionOfPayload _ = None"

definition reduceDecision ::
  "sharedMeetingProjection \<Rightarrow> domainEvent \<Rightarrow> decision \<Rightarrow> decisionRevision option \<Rightarrow>
     exn + sharedMeetingProjection" where
  "reduceDecision st ev d rv =
     bindE (validateEntityScope ev (recMeetingId d)) (\<lambda>_.
     Inr (st\<lparr>shpDecisions := upsertById (shpDecisions st) d,
             shpDecisionRevisions :=
               (case rv of None \<Rightarrow> shpDecisionRevisions st
                | Some r \<Rightarrow> upsertById (shpDecisionRevisions st) r)\<rparr>))"

definition resetShared :: "sharedMeetingProjection \<Rightarrow> sharedMeetingProjection" where
  "resetShared st =
     (createEmptySharedMeetingProjection (shpMeetingId st))
       \<lparr>shpMeeting := map_option (\<lambda>m. m\<lparr>mtgPhase := Preparing, mtgDisplayTokens := []\<rparr>) (shpMeeting st),
        shpParticipants := shpParticipants st,
        shpAuditTimeline := shpAuditTimeline st\<rparr>"

definition reduceSharedPayload ::
  "sharedMeetingProjection \<Rightarrow> domainEvent \<Rightarrow> exn + sharedMeetingProjection" where
  "reduceSharedPayload st ev =
     (case decisionOfPayload (evPayload ev) of
        Some (d, rv) \<Rightarrow> reduceDecision st ev d rv
      | None \<Rightarrow>
          (case evPayload ev of
             InferenceConfirmed _ c _ \<Rightarrow>
               bindE (validateEntityScope ev (inferenceMeetingId c)) (\<lambda>_. Inr (addConfirmed st c))
           | ExternalEventReceived x \<Rightarrow>
               bindE (validateEntityScope ev (recMeetingId x)) (\<lambda>_.
               Inr (st\<lparr>shpExternalEvents := upsertById (shpExternalEvents st) x\<rparr>))
           | ActionHeld _ _ as \<Rightarrow> Inr (st\<lparr>shpActions := foldl upsertById (shpActions st) as\<rparr>)
           | ReconsiderationTaskCreated k \<Rightarrow>
               bindE (validateEntityScope ev (recMeetingId k)) (\<lambda>_.
               Inr (st\<lparr>shpReconsiderationTasks := upsertById (shpReconsiderationTasks st) k\<rparr>))
           | DemoResetCompleted _ _ \<Rightarrow> Inr (resetShared st)
           | MeetingCreated _ \<Rightarrow> reduceMeetingLifecycle st ev
           | ParticipantAssigned _ \<Rightarrow> reduceMeetingLifecycle st ev
           | ParticipantJoined _ _ \<Rightarrow> reduceMeetingLifecycle st ev
           | MeetingEnded _ _ \<Rightarrow> reduceMeetingLifecycle st ev
           | DisplayTokenIssued _ _ \<Rightarrow> reduceMeetingLifecycle st ev
           | DisplayTokenRevoked _ _ \<Rightarrow> reduceMeetingLifecycle st ev
           | _ \<Rightarrow> reduceSharedContent st ev))"

definition reduceSharedEvent ::
  "sharedMeetingProjection \<Rightarrow> domainEvent \<Rightarrow> exn + sharedMeetingProjection" where
  "reduceSharedEvent st ev =
     (if evMeetingId ev \<noteq> shpMeetingId st then
        Inl (ProjectionError MeetingScopeMismatch
          ''Event and shared projection meeting IDs differ'')
      else if evPosition ev \<le> shpPosition st then
        Inl (ProjectionError StalePosition
          (''Shared event position '' @ intString (evPosition ev) @ '' is not newer than '' @
           intString (shpPosition st)))
      else bindE (reduceSharedPayload st ev) (\<lambda>next.
        Inr (next\<lparr>shpPosition := evPosition ev,
                  shpAuditTimeline := shpAuditTimeline next @ [toEventReference ev]\<rparr>)))"

subsection \<open>The meeting projection\<close>

definition isDemoResetCompleted :: "domainEventPayload \<Rightarrow> bool" where
  "isDemoResetCompleted p = (case p of DemoResetCompleted _ _ \<Rightarrow> True | _ \<Rightarrow> False)"

definition reduceScopes ::
  "meetingProjection \<Rightarrow> domainEvent \<Rightarrow> exn + sharedMeetingProjection \<times> ownerPrivateProjection list" where
  "reduceScopes st ev =
     (case evScope ev of
        SharedScope \<Rightarrow>
          bindE (reduceSharedEvent (mprShared st) ev) (\<lambda>shared.
          Inr (shared, if isDemoResetCompleted (evPayload ev) then [] else mprPrivateWorkspaces st))
      | PrivateScope owner \<Rightarrow>
          bindE (reducePrivateWorkspace (mprPrivateWorkspaces st) ev owner) (\<lambda>ws.
          Inr (mprShared st, ws)))"

definition recordEvent ::
  "meetingProjection \<Rightarrow> domainEvent \<Rightarrow> string \<Rightarrow> sharedMeetingProjection \<Rightarrow>
     ownerPrivateProjection list \<Rightarrow> meetingProjection" where
  "recordEvent st ev fingerprint shared workspaces =
     st\<lparr>mprPosition := evPosition ev, mprShared := shared, mprPrivateWorkspaces := workspaces,
        mprProcessedEvents := mprProcessedEvents st @
          [\<lparr>prcEventId = evEventId ev, prcFingerprint = fingerprint\<rparr>],
        mprIdempotencyReceipts :=
          (case evIdempotencyKey ev of
             None \<Rightarrow> mprIdempotencyReceipts st
           | Some k \<Rightarrow> mprIdempotencyReceipts st @
               [\<lparr>rcpKey = k, rcpEventId = evEventId ev, rcpFingerprint = fingerprint\<rparr>])\<rparr>"

definition reduceMeetingProjection :: "meetingProjection \<Rightarrow> domainEvent \<Rightarrow> exn + meetingProjection" where
  "reduceMeetingProjection st ev =
     (if evMeetingId ev \<noteq> mprMeetingId st then
        Inl (ProjectionError MeetingScopeMismatch ''Event and projection meeting IDs differ'')
      else
        let fingerprint = eventFingerprint ev in
        bindE (findDuplicate st ev fingerprint) (\<lambda>duplicate.
          if duplicate then Inr st
          else if evPosition ev \<le> mprPosition st then
            Inl (ProjectionError StalePosition
              (''Event position '' @ intString (evPosition ev) @ '' is stale at '' @
               intString (mprPosition st)))
          else if evPosition ev \<noteq> mprPosition st + 1 then
            Inl (ProjectionError PositionGap
              (''Expected event position '' @ intString (mprPosition st + 1) @ '', received '' @
               intString (evPosition ev)))
          else bindE (reduceScopes st ev) (\<lambda>(shared, workspaces).
            Inr (recordEvent st ev fingerprint shared workspaces))))"

definition replayMeeting :: "string \<Rightarrow> domainEvent list \<Rightarrow> exn + meetingProjection" where
  "replayMeeting m evs = foldE reduceMeetingProjection (createEmptyMeetingProjection m) evs"

definition replaySharedMeeting :: "string \<Rightarrow> domainEvent list \<Rightarrow> exn + sharedMeetingProjection" where
  "replaySharedMeeting m evs = foldE reduceSharedEvent (createEmptySharedMeetingProjection m) evs"

definition toSharedMeetingProjection :: "meetingProjection \<Rightarrow> sharedMeetingProjection" where
  "toSharedMeetingProjection p = mprShared p"

definition getOwnerPrivateProjection :: "meetingProjection \<Rightarrow> string \<Rightarrow> ownerPrivateProjection" where
  "getOwnerPrivateProjection p owner = ownerWorkspace (mprPrivateWorkspaces p) (mprMeetingId p) owner"

definition eventTypes :: "sharedMeetingProjection \<Rightarrow> string list" where
  "eventTypes p = map refEventType (shpAuditTimeline p)"


subsection \<open>Steps of the reducer\<close>

lemma findFirst_key_None: "findFirst (\<lambda>x. k x = a) xs = None \<longleftrightarrow> a \<notin> k ` set xs"
  by (induction xs) auto

lemma findDuplicate_True:
  "findDuplicate st ev f = Inr True \<longleftrightarrow>
     (case findFirst (\<lambda>r. prcEventId r = evEventId ev) (mprProcessedEvents st) of
        Some r \<Rightarrow> prcFingerprint r = f
      | None \<Rightarrow> (\<exists>k r. evIdempotencyKey ev = Some k \<and>
          findFirst (\<lambda>r. rcpKey r = k) (mprIdempotencyReceipts st) = Some r \<and> rcpFingerprint r = f))"
  by (auto simp: findDuplicate_def split: option.splits)

lemma findDuplicate_False:
  "findDuplicate st ev f = Inr False \<longleftrightarrow>
     evEventId ev \<notin> prcEventId ` set (mprProcessedEvents st) \<and>
     (\<forall>k. evIdempotencyKey ev = Some k \<longrightarrow> k \<notin> rcpKey ` set (mprIdempotencyReceipts st))"
  unfolding findFirst_key_None[symmetric]
  by (auto simp: findDuplicate_def split: option.splits)

definition acceptsEvent :: "meetingProjection \<Rightarrow> domainEvent \<Rightarrow> bool" where
  "acceptsEvent st ev \<longleftrightarrow> findDuplicate st ev (eventFingerprint ev) = Inr False"

lemma reduceMeetingProjection_Inr:
  "reduceMeetingProjection st ev = Inr st' \<longleftrightarrow>
     evMeetingId ev = mprMeetingId st \<and>
     (if acceptsEvent st ev
      then evPosition ev = mprPosition st + 1 \<and>
           (\<exists>shared ws. reduceScopes st ev = Inr (shared, ws) \<and>
              st' = recordEvent st ev (eventFingerprint ev) shared ws)
      else findDuplicate st ev (eventFingerprint ev) = Inr True \<and> st' = st)"
  unfolding reduceMeetingProjection_def acceptsEvent_def Let_def
  by (cases "findDuplicate st ev (eventFingerprint ev)") (auto simp: result_simps split: if_splits)

lemma recordEvent_simps [simp]:
  "mprMeetingId (recordEvent st ev f sh ws) = mprMeetingId st"
  "mprPosition (recordEvent st ev f sh ws) = evPosition ev"
  "mprShared (recordEvent st ev f sh ws) = sh"
  "mprPrivateWorkspaces (recordEvent st ev f sh ws) = ws"
  "mprProcessedEvents (recordEvent st ev f sh ws) =
     mprProcessedEvents st @ [\<lparr>prcEventId = evEventId ev, prcFingerprint = f\<rparr>]"
  by (simp_all add: recordEvent_def)

lemma recordEvent_receipts:
  "mprIdempotencyReceipts (recordEvent st ev f sh ws) =
     mprIdempotencyReceipts st @
       (case evIdempotencyKey ev of None \<Rightarrow> []
        | Some k \<Rightarrow> [\<lparr>rcpKey = k, rcpEventId = evEventId ev, rcpFingerprint = f\<rparr>])"
  by (simp add: recordEvent_def split: option.splits)

lemma reduceScopes_shared:
  "evScope ev = SharedScope \<Longrightarrow> reduceScopes st ev = Inr (sh, ws) \<longleftrightarrow>
     reduceSharedEvent (mprShared st) ev = Inr sh \<and>
     ws = (if isDemoResetCompleted (evPayload ev) then [] else mprPrivateWorkspaces st)"
  by (auto simp: reduceScopes_def result_simps)

lemma reduceScopes_private:
  "evScope ev = PrivateScope owner \<Longrightarrow> reduceScopes st ev = Inr (sh, ws) \<longleftrightarrow>
     reducePrivateWorkspace (mprPrivateWorkspaces st) ev owner = Inr ws \<and> sh = mprShared st"
  by (auto simp: reduceScopes_def result_simps)

lemma reduceSharedEvent_Inr:
  "reduceSharedEvent st ev = Inr st' \<longleftrightarrow>
     evMeetingId ev = shpMeetingId st \<and> shpPosition st < evPosition ev \<and>
     (\<exists>next. reduceSharedPayload st ev = Inr next \<and>
        st' = next\<lparr>shpPosition := evPosition ev,
                   shpAuditTimeline := shpAuditTimeline next @ [toEventReference ev]\<rparr>)"
  by (auto simp: reduceSharedEvent_def result_simps)

text \<open>The events that a replay accepts, that is, those it does not recognise as duplicates.\<close>

fun acceptedFrom :: "meetingProjection \<Rightarrow> domainEvent list \<Rightarrow> domainEvent list" where
  "acceptedFrom st [] = []"
| "acceptedFrom st (ev # evs) =
     (case reduceMeetingProjection st ev of
        Inl _ \<Rightarrow> []
      | Inr st' \<Rightarrow> (if acceptsEvent st ev then [ev] else []) @ acceptedFrom st' evs)"

definition acceptedEvents :: "string \<Rightarrow> domainEvent list \<Rightarrow> domainEvent list" where
  "acceptedEvents m evs = acceptedFrom (createEmptyMeetingProjection m) evs"

lemma acceptedFrom_snoc:
  "foldE reduceMeetingProjection st evs = Inr p \<Longrightarrow> reduceMeetingProjection p ev = Inr q \<Longrightarrow>
     acceptedFrom st (evs @ [ev]) = acceptedFrom st evs @ (if acceptsEvent p ev then [ev] else [])"
  by (induction evs arbitrary: st) (auto simp: result_simps)

lemma acceptedFrom_subset: "set (acceptedFrom st evs) \<subseteq> set evs"
  by (induction evs arbitrary: st) (auto split: sum.splits)

lemma replay_induct [consumes 1, case_names empty accept]:
  assumes "replayMeeting m evs = Inr p"
    and "P [] (createEmptyMeetingProjection m)"
    and "\<And>acc st ev shared ws. P acc st \<Longrightarrow> evMeetingId ev = mprMeetingId st \<Longrightarrow>
      acceptsEvent st ev \<Longrightarrow> evPosition ev = mprPosition st + 1 \<Longrightarrow>
      reduceScopes st ev = Inr (shared, ws) \<Longrightarrow>
      P (acc @ [ev]) (recordEvent st ev (eventFingerprint ev) shared ws)"
  shows "P (acceptedEvents m evs) p"
  using assms(1)
proof (induction evs arbitrary: p rule: rev_induct)
  case Nil
  then show ?case using assms(2) by (simp add: replayMeeting_def acceptedEvents_def)
next
  case (snoc ev evs)
  then obtain st where st: "replayMeeting m evs = Inr st" "reduceMeetingProjection st ev = Inr p"
    by (auto simp: replayMeeting_def foldE_snoc result_simps)
  then have acc: "acceptedEvents m (evs @ [ev]) =
      acceptedEvents m evs @ (if acceptsEvent st ev then [ev] else [])"
    by (simp add: acceptedEvents_def replayMeeting_def acceptedFrom_snoc)
  show ?case
  proof (cases "acceptsEvent st ev")
    case True
    then obtain shared ws where "evMeetingId ev = mprMeetingId st" "evPosition ev = mprPosition st + 1"
      "reduceScopes st ev = Inr (shared, ws)" "p = recordEvent st ev (eventFingerprint ev) shared ws"
      using st(2) by (auto simp: reduceMeetingProjection_Inr)
    with True acc assms(3)[OF snoc.IH[OF st(1)]] show ?thesis by simp
  next
    case False
    with acc snoc.IH[OF st(1)] st(2) show ?thesis by (simp add: reduceMeetingProjection_Inr)
  qed
qed

subsection \<open>Well-formed projections\<close>

definition entitiesOk :: "string \<Rightarrow> 'a commonRecord_scheme list \<Rightarrow> bool" where
  "entitiesOk m xs \<longleftrightarrow> distinct (map recId xs) \<and> (\<forall>x \<in> set xs. recMeetingId x = m)"

lemma entitiesOk_Nil [simp]: "entitiesOk m []"
  by (simp add: entitiesOk_def)

lemma distinct_upsertById [simp]:
  "distinct (map recId xs) \<Longrightarrow> distinct (map recId (upsertById xs x))"
  by (simp add: upsertById_def upsert_simps)

lemma set_upsertById: "set (upsertById xs x) \<subseteq> insert x (set xs)"
  by (simp add: upsertById_def set_upsertBy)

definition allShared :: "'a commonRecord_scheme list \<Rightarrow> bool" where
  "allShared xs \<longleftrightarrow> (\<forall>x \<in> set xs. recVisibility x = Shared)"

lemma allShared_Nil [simp]: "allShared []"
  by (simp add: allShared_def)

lemma allShared_upsertById: "allShared xs \<Longrightarrow> recVisibility x = Shared \<Longrightarrow> allShared (upsertById xs x)"
  using set_upsertById[of xs x] by (auto simp: allShared_def)

lemma entitiesOk_upsertById:
  "entitiesOk m xs \<Longrightarrow> recMeetingId x = m \<Longrightarrow> entitiesOk m (upsertById xs x)"
  using set_upsertById[of xs x] by (auto simp: entitiesOk_def)

lemma distinct_upsert_fold:
  "distinct (map recId xs) \<Longrightarrow> distinct (map recId (foldl upsertById xs ys))"
  by (induction ys arbitrary: xs) auto

lemma applyProcessing_common [simp]:
  "recId (applyProcessing g a) = recId a" "recMeetingId (applyProcessing g a) = recMeetingId a"
  "recVisibility (applyProcessing g a) = recVisibility a" "recOwner (applyProcessing g a) = recOwner a"
  by (simp_all add: applyProcessing_def Let_def split: option.splits)

lemma processArtifacts_recId: "map recId (processArtifacts g as) = map recId as"
  by (simp add: processArtifacts_def)

lemma entitiesOk_map:
  assumes "entitiesOk m xs" "\<And>x. recId (h x) = recId x \<and> recMeetingId (h x) = recMeetingId x"
  shows "entitiesOk m (map h xs)"
proof -
  have "map recId (map h xs) = map recId xs" using assms(2) by simp
  with assms show ?thesis by (auto simp: entitiesOk_def simp del: map_map)
qed

lemma entitiesOk_process: "entitiesOk m as \<Longrightarrow> entitiesOk m (processArtifacts g as)"
  unfolding processArtifacts_def by (rule entitiesOk_map) auto

definition auditOk :: "sharedMeetingProjection \<Rightarrow> bool" where
  "auditOk st \<longleftrightarrow>
     sorted_wrt (<) (map refPosition (shpAuditTimeline st)) \<and>
     (\<forall>r \<in> set (shpAuditTimeline st). refMeetingId r = shpMeetingId st \<and> refVisibility r = Shared \<and>
        refPosition r \<le> shpPosition st)"

definition sharedOk :: "sharedMeetingProjection \<Rightarrow> bool" where
  "sharedOk st \<longleftrightarrow>
     entitiesOk (shpMeetingId st) (shpParticipants st) \<and>
     entitiesOk (shpMeetingId st) (shpArtifacts st) \<and>
     entitiesOk (shpMeetingId st) (shpUtterances st) \<and>
     entitiesOk (shpMeetingId st) (shpEvidence st) \<and>
     entitiesOk (shpMeetingId st) (shpDecisions st) \<and>
     entitiesOk (shpMeetingId st) (shpReconsiderationTasks st) \<and>
     entitiesOk (shpMeetingId st) (shpExternalEvents st) \<and>
     distinct (map recId (shpDecisionRevisions st)) \<and> distinct (map recId (shpActions st)) \<and>
     allShared (shpArtifacts st) \<and> allShared (shpUtterances st) \<and> allShared (shpEvidence st) \<and>
     pred_option (\<lambda>m. recId m = shpMeetingId st) (shpMeeting st)"

definition inferenceListsOk :: "sharedMeetingProjection \<Rightarrow> bool" where
  "inferenceListsOk st \<longleftrightarrow>
     entitiesOk (shpMeetingId st) (shpPropositions st) \<and>
     entitiesOk (shpMeetingId st) (shpStances st) \<and>
     entitiesOk (shpMeetingId st) (shpPremises st) \<and>
     entitiesOk (shpMeetingId st) (shpOptions st) \<and>
     entitiesOk (shpMeetingId st) (shpDissent st)"

lemmas shared_reduce =
  reduceSharedPayload_def reduceMeetingLifecycle_def reduceSharedContent_def reduceDecision_def
  validateEntityScope_def

text \<open>A property of the shared projection that every branch of the switch keeps.\<close>

lemma shared_payload_induct:
  assumes "reduceSharedPayload st ev = Inr next"
    and "\<And>d rv. recMeetingId d = evMeetingId ev \<Longrightarrow> reduceDecision st ev d rv = Inr next \<Longrightarrow> Q next"
    and "\<And>c. inferenceMeetingId c = evMeetingId ev \<Longrightarrow> Q (addConfirmed st c)"
    and "\<And>x. recMeetingId x = evMeetingId ev \<Longrightarrow>
      Q (st\<lparr>shpExternalEvents := upsertById (shpExternalEvents st) x\<rparr>)"
    and "\<And>as. Q (st\<lparr>shpActions := foldl upsertById (shpActions st) as\<rparr>)"
    and "\<And>k. recMeetingId k = evMeetingId ev \<Longrightarrow>
      Q (st\<lparr>shpReconsiderationTasks := upsertById (shpReconsiderationTasks st) k\<rparr>)"
    and "Q (resetShared st)"
    and "reduceMeetingLifecycle st ev = Inr next \<Longrightarrow> Q next"
    and "reduceSharedContent st ev = Inr next \<Longrightarrow> Q next"
  shows "Q next"
proof (cases "decisionOfPayload (evPayload ev)")
  case None
  then show ?thesis using assms(1) assms(3-)
    by (cases "evPayload ev")
      (simp_all add: reduceSharedPayload_def bindE_eq_Inr validateEntityScope_def, blast+)
next
  case (Some x)
  then show ?thesis using assms(1,2)
    by (cases x) (auto simp: reduceSharedPayload_def reduceDecision_def validateEntityScope_def result_simps)
qed

lemma lifecycle_induct:
  assumes "reduceMeetingLifecycle st ev = Inr next"
    and "Q st"
    and "\<And>m. recId m = evMeetingId ev \<Longrightarrow> Q (st\<lparr>shpMeeting := Some m\<rparr>)"
    and "\<And>p. recMeetingId p = evMeetingId ev \<Longrightarrow>
      Q (st\<lparr>shpParticipants := upsertById (shpParticipants st) p\<rparr>)"
    and "\<And>h. (\<And>p. recId (h p) = recId p \<and> recMeetingId (h p) = recMeetingId p) \<Longrightarrow>
      Q (st\<lparr>shpParticipants := map h (shpParticipants st)\<rparr>)"
    and "\<And>h. (\<And>m. recId (h m) = recId m) \<Longrightarrow>
      Q (st\<lparr>shpMeeting := map_option h (shpMeeting st), shpSharedFloor := None\<rparr>)"
    and "\<And>h. (\<And>m. recId (h m) = recId m) \<Longrightarrow> Q (st\<lparr>shpMeeting := map_option h (shpMeeting st)\<rparr>)"
  shows "Q next"
  using assms
  by (cases "evPayload ev")
    (simp_all add: reduceMeetingLifecycle_def bindE_eq_Inr validateEntityScope_def, auto)

lemma content_induct:
  assumes "reduceSharedContent st ev = Inr next"
    and "Q st"
    and "\<And>a. recMeetingId a = evMeetingId ev \<Longrightarrow> recVisibility a = Shared \<Longrightarrow>
      Q (st\<lparr>shpArtifacts := upsertById (shpArtifacts st) a\<rparr>)"
    and "\<And>g. Q (st\<lparr>shpArtifacts := processArtifacts g (shpArtifacts st)\<rparr>)"
    and "\<And>u. recMeetingId u = evMeetingId ev \<Longrightarrow> recVisibility u = Shared \<Longrightarrow>
      Q (st\<lparr>shpUtterances := upsertById (shpUtterances st) u\<rparr>)"
    and "\<And>e. recMeetingId e = evMeetingId ev \<Longrightarrow> recVisibility e = Shared \<Longrightarrow>
      Q (st\<lparr>shpEvidence := upsertById (shpEvidence st) e\<rparr>)"
    and "\<And>f. Q (st\<lparr>shpSharedFloor := f\<rparr>)"
  shows "Q next"
  using assms
  by (cases "evPayload ev")
    (simp_all add: reduceSharedContent_def bindE_eq_Inr validateEntityScope_def split: if_splits, auto)

lemma reduceSharedPayload_frame:
  assumes "reduceSharedPayload st ev = Inr next"
  shows "shpMeetingId next = shpMeetingId st \<and> shpAuditTimeline next = shpAuditTimeline st"
  using assms
proof (rule shared_payload_induct)
  fix c
  show "shpMeetingId (addConfirmed st c) = shpMeetingId st \<and>
    shpAuditTimeline (addConfirmed st c) = shpAuditTimeline st"
    by (cases c) simp_all
next
  assume "reduceMeetingLifecycle st ev = Inr next"
  then show ?thesis by (rule lifecycle_induct) simp_all
next
  assume "reduceSharedContent st ev = Inr next"
  then show ?thesis by (rule content_induct) simp_all
qed (auto simp: reduceDecision_def result_simps resetShared_def createEmptySharedMeetingProjection_def)

lemma processArtifacts_shared: "allShared as \<Longrightarrow> allShared (processArtifacts g as)"
  by (auto simp: allShared_def processArtifacts_def)

lemmas sharedOk_update =
  sharedOk_def inferenceListsOk_def entitiesOk_upsertById entitiesOk_process entitiesOk_map
  allShared_upsertById distinct_upsert_fold processArtifacts_shared option.pred_map comp_def

lemma sharedOk_frame [simp]:
  "sharedOk (st\<lparr>shpPropositions := xs1\<rparr>) = sharedOk st"
  "sharedOk (st\<lparr>shpStances := xs2\<rparr>) = sharedOk st"
  "sharedOk (st\<lparr>shpPremises := xs3\<rparr>) = sharedOk st"
  "sharedOk (st\<lparr>shpOptions := xs4\<rparr>) = sharedOk st"
  "sharedOk (st\<lparr>shpDissent := xs5\<rparr>) = sharedOk st"
  "sharedOk (st\<lparr>shpSharedFloor := f\<rparr>) = sharedOk st"
  "inferenceListsOk (st\<lparr>shpActions := as\<rparr>) = inferenceListsOk st"
  by (simp_all add: sharedOk_def inferenceListsOk_def)

lemma addConfirmed_ok:
  "sharedOk st \<Longrightarrow> inferenceListsOk st \<Longrightarrow> inferenceMeetingId c = shpMeetingId st \<Longrightarrow>
     sharedOk (addConfirmed st c) \<and> inferenceListsOk (addConfirmed st c)"
proof (cases c)
  case (ConfirmedAction a)
  assume "sharedOk st" "inferenceListsOk st"
  then show ?thesis by (simp add: ConfirmedAction) (simp add: sharedOk_def)
qed (simp_all add: inferenceListsOk_def entitiesOk_upsertById)

lemma reduceSharedPayload_ok:
  assumes "reduceSharedPayload st ev = Inr next" "sharedOk st \<and> inferenceListsOk st"
    and m: "evMeetingId ev = shpMeetingId st"
  shows "sharedOk next \<and> inferenceListsOk next"
  using assms(1)
proof (rule shared_payload_induct)
  fix c assume "inferenceMeetingId c = evMeetingId ev"
  then show "sharedOk (addConfirmed st c) \<and> inferenceListsOk (addConfirmed st c)"
    using assms(2) m addConfirmed_ok by simp
next
  assume "reduceMeetingLifecycle st ev = Inr next"
  then show ?thesis
    by (rule lifecycle_induct)
      (use assms(2) m in \<open>simp_all add: sharedOk_update\<close>)
next
  assume "reduceSharedContent st ev = Inr next"
  then show ?thesis
    by (rule content_induct) (use assms(2) m in \<open>simp_all add: sharedOk_update\<close>)
next
  fix d rv assume "recMeetingId d = evMeetingId ev" "reduceDecision st ev d rv = Inr next"
  then show ?thesis using assms(2) m
    by (auto simp: reduceDecision_def result_simps sharedOk_update split: option.splits)
next
  show "sharedOk (resetShared st) \<and> inferenceListsOk (resetShared st)"
    using assms(2) by (auto simp: sharedOk_update resetShared_def createEmptySharedMeetingProjection_def)
qed (use assms(2) m in \<open>simp_all add: sharedOk_update\<close>)


lemma reduceSharedEvent_ok:
  assumes "reduceSharedEvent st ev = Inr st'" "sharedOk st \<and> inferenceListsOk st \<and> auditOk st"
    "evScope ev = SharedScope"
  shows "sharedOk st' \<and> inferenceListsOk st' \<and> auditOk st' \<and> shpMeetingId st' = shpMeetingId st \<and>
    shpPosition st' = evPosition ev"
proof -
  from assms(1) obtain "next" where n: "reduceSharedPayload st ev = Inr next"
    "evMeetingId ev = shpMeetingId st" "shpPosition st < evPosition ev"
    "st' = next\<lparr>shpPosition := evPosition ev,
                shpAuditTimeline := shpAuditTimeline next @ [toEventReference ev]\<rparr>"
    by (auto simp: reduceSharedEvent_Inr)
  have "sharedOk next" "inferenceListsOk next"
    using reduceSharedPayload_ok[OF n(1)] assms(2) n(2) by auto
  then have "sharedOk st'" "inferenceListsOk st'"
    unfolding n(4) by (simp_all add: sharedOk_def inferenceListsOk_def)
  moreover have "auditOk st'"
    using assms(2,3) n(2,3) reduceSharedPayload_frame[OF n(1)]
    by (force simp: n(4) auditOk_def sorted_wrt_append toEventReference_def)
  ultimately show ?thesis using reduceSharedPayload_frame[OF n(1)] n(4) by simp
qed

definition ownedBy :: "string \<Rightarrow> 'a commonRecord_scheme \<Rightarrow> bool" where
  "ownedBy owner r \<longleftrightarrow> recVisibility r = Private \<and> recOwner r = Some owner"

definition workspaceOk :: "string \<Rightarrow> ownerPrivateProjection \<Rightarrow> bool" where
  "workspaceOk m w \<longleftrightarrow>
     oppMeetingId w = m \<and> entitiesOk m (oppArtifacts w) \<and> entitiesOk m (oppUtterances w) \<and>
     (\<forall>a \<in> set (oppArtifacts w). ownedBy (oppOwnerParticipantId w) a) \<and>
     (\<forall>u \<in> set (oppUtterances w). ownedBy (oppOwnerParticipantId w) u) \<and>
     distinct (map dspDisclosureId (oppDisclosures w)) \<and>
     distinct (oppInferenceSuggestionIds w) \<and>
     map infSuggestionId (oppInferenceSuggestions w) = oppInferenceSuggestionIds w"

lemma workspaceOk_empty [simp]: "workspaceOk m (emptyWorkspace m owner)"
  by (simp add: workspaceOk_def emptyWorkspace_def)

lemma workspaceOk_setDisclosure: "workspaceOk m w \<Longrightarrow> workspaceOk m (setDisclosure w i s h)"
  using distinct_upsertBy[of dspDisclosureId "oppDisclosures w"
      "\<lparr>dspDisclosureId = i, dspState = s, dspPreviewHash = h\<rparr>"]
  by (simp add: workspaceOk_def setDisclosure_def updateDisclosure_def)

lemma reduceWorkspace_owner:
  "reduceWorkspace w ev owner = Inr w' \<Longrightarrow>
     oppOwnerParticipantId w' = oppOwnerParticipantId w \<and> oppMeetingId w' = oppMeetingId w"
  by (cases "evPayload ev") (auto simp: reduceWorkspace_def result_simps setDisclosure_def)

lemma reduceWorkspace_ok:
  assumes "reduceWorkspace w ev (oppOwnerParticipantId w) = Inr w'" "workspaceOk (evMeetingId ev) w"
  shows "workspaceOk (evMeetingId ev) w'"
proof (cases "evPayload ev")
  case (InferenceSuggested p)
  then show ?thesis using assms
    by (auto simp: reduceWorkspace_def workspaceOk_def upsertInferenceSuggestion_def map_upsertBy
        simp flip: set_map)
next
  case (ArtifactProcessed g)
  then show ?thesis using assms
    by (auto simp: reduceWorkspace_def workspaceOk_def entitiesOk_process)
      (auto simp: processArtifacts_def ownedBy_def)
next
  case (ArtifactRegistered a)
  then show ?thesis using assms
    by (auto simp: reduceWorkspace_def workspaceOk_def entitiesOk_upsertById validateEntityScope_def
        result_simps ownedBy_def dest!: set_upsertById[THEN subsetD])
next
  case (UtteranceCaptured u)
  then show ?thesis using assms
    by (auto simp: reduceWorkspace_def workspaceOk_def entitiesOk_upsertById validateEntityScope_def
        result_simps ownedBy_def dest!: set_upsertById[THEN subsetD])
qed (use assms in \<open>auto simp: reduceWorkspace_def workspaceOk_setDisclosure\<close>)

text \<open>All workspaces of a projection: one per owner, all of this meeting.\<close>

definition workspacesOk :: "string \<Rightarrow> ownerPrivateProjection list \<Rightarrow> bool" where
  "workspacesOk m ws \<longleftrightarrow>
     distinct (map oppOwnerParticipantId ws) \<and> (\<forall>w \<in> set ws. workspaceOk m w)"

lemma workspace_key:
  assumes "workspacesOk m ws"
  shows "findFirst (\<lambda>w. oppOwnerParticipantId w = owner \<and> oppMeetingId w = m) ws =
    findFirst (\<lambda>w. oppOwnerParticipantId w = owner) ws"
  using assms by (intro findFirst_cong) (auto simp: workspacesOk_def workspaceOk_def)

lemma upsertBy_cong: "(\<And>y. y \<in> set ys \<Longrightarrow> p y = q y) \<Longrightarrow> upsertBy p x ys = upsertBy q x ys"
  by (induction ys) auto

lemma workspace_upsert:
  assumes "workspacesOk m ws" "oppMeetingId w = m"
  shows "upsertOwnerWorkspace ws w =
    upsertBy (\<lambda>v. oppOwnerParticipantId v = oppOwnerParticipantId w) w ws"
  unfolding upsertOwnerWorkspace_def
  using assms by (intro upsertBy_cong) (auto simp: workspacesOk_def workspaceOk_def)

lemma ownerWorkspace_ok:
  assumes "workspacesOk m ws"
  shows "workspaceOk m (ownerWorkspace ws m owner) \<and>
    oppOwnerParticipantId (ownerWorkspace ws m owner) = owner"
proof (cases "findFirst (\<lambda>w. oppOwnerParticipantId w = owner \<and> oppMeetingId w = m) ws")
  case None
  then show ?thesis by (simp add: ownerWorkspace_def) (simp add: emptyWorkspace_def)
next
  case (Some w)
  with findFirst_SomeD[OF Some] assms show ?thesis by (auto simp: ownerWorkspace_def workspacesOk_def)
qed

lemma upsertOwnerWorkspace_ok:
  assumes "workspacesOk m ws" "workspaceOk m w"
  shows "workspacesOk m (upsertOwnerWorkspace ws w)"
proof -
  have m: "oppMeetingId w = m" using assms(2) by (simp add: workspaceOk_def)
  show ?thesis
    using assms upsert_simps(1)[of oppOwnerParticipantId ws w] set_upsertBy
    unfolding workspace_upsert[OF assms(1) m] workspacesOk_def by fastforce
qed

lemma ownerWorkspace_upsert:
  assumes "workspacesOk m ws" "workspaceOk m w"
  shows "ownerWorkspace (upsertOwnerWorkspace ws w) m owner =
    (if oppOwnerParticipantId w = owner then w else ownerWorkspace ws m owner)"
proof -
  have m: "oppMeetingId w = m" using assms(2) by (simp add: workspaceOk_def)
  have "findFirst (\<lambda>v. oppOwnerParticipantId v = owner \<and> oppMeetingId v = m) (upsertOwnerWorkspace ws w) =
    findFirst (\<lambda>v. oppOwnerParticipantId v = owner)
      (upsertBy (\<lambda>v. oppOwnerParticipantId v = oppOwnerParticipantId w) w ws)"
    using workspace_key[OF upsertOwnerWorkspace_ok[OF assms], of owner] workspace_upsert[OF assms(1) m]
    by simp
  then show ?thesis
    by (auto simp: ownerWorkspace_def workspace_key[OF assms(1)] upsert_simps)
qed

lemma reducePrivateWorkspace_Inr:
  assumes "workspacesOk (evMeetingId ev) ws"
  shows "reducePrivateWorkspace ws ev owner = Inr ws' \<longleftrightarrow>
    (\<exists>w. reduceWorkspace (ownerWorkspace ws (evMeetingId ev) owner) ev owner = Inr w \<and>
       workspaceOk (evMeetingId ev) w \<and> oppOwnerParticipantId w = owner \<and>
       ws' = upsertOwnerWorkspace ws w)"
proof -
  note ow = ownerWorkspace_ok[OF assms, of owner]
  have "workspaceOk (evMeetingId ev) w \<and> oppOwnerParticipantId w = owner"
    if "reduceWorkspace (ownerWorkspace ws (evMeetingId ev) owner) ev owner = Inr w" for w
    using reduceWorkspace_ok[of "ownerWorkspace ws (evMeetingId ev) owner" ev w]
      reduceWorkspace_owner[OF that] that ow by auto
  then show ?thesis by (auto simp: reducePrivateWorkspace_def result_simps)
qed

definition receiptsOk :: "meetingProjection \<Rightarrow> bool" where
  "receiptsOk st \<longleftrightarrow>
     mprPosition st = int (length (mprProcessedEvents st)) \<and>
     distinct (map prcEventId (mprProcessedEvents st)) \<and>
     distinct (map rcpKey (mprIdempotencyReceipts st)) \<and>
     (\<forall>r \<in> set (mprIdempotencyReceipts st).
        \<lparr>prcEventId = rcpEventId r, prcFingerprint = rcpFingerprint r\<rparr> \<in> set (mprProcessedEvents st))"

definition projectionOk :: "meetingProjection \<Rightarrow> bool" where
  "projectionOk st \<longleftrightarrow>
     shpMeetingId (mprShared st) = mprMeetingId st \<and> shpPosition (mprShared st) \<le> mprPosition st \<and>
     (sharedOk (mprShared st) \<and> inferenceListsOk (mprShared st) \<and> auditOk (mprShared st)) \<and>
     workspacesOk (mprMeetingId st) (mprPrivateWorkspaces st) \<and> receiptsOk st"

lemma projectionOk_empty: "projectionOk (createEmptyMeetingProjection m)"
  by (simp add: projectionOk_def createEmptyMeetingProjection_def sharedOk_def inferenceListsOk_def
      auditOk_def workspacesOk_def receiptsOk_def createEmptySharedMeetingProjection_def)

lemma recordEvent_receiptsOk:
  assumes "receiptsOk st" "acceptsEvent st ev" "evPosition ev = mprPosition st + 1"
  shows "receiptsOk (recordEvent st ev f sh ws)"
  using assms unfolding receiptsOk_def acceptsEvent_def findDuplicate_False recordEvent_receipts
  by (auto split: option.splits)

lemma projectionOk_record:
  assumes "projectionOk st" "evMeetingId ev = mprMeetingId st" "acceptsEvent st ev"
    "evPosition ev = mprPosition st + 1" "reduceScopes st ev = Inr (sh, ws)"
  shows "projectionOk (recordEvent st ev f sh ws)"
proof (cases "evScope ev")
  case SharedScope
  with assms(5) have "reduceSharedEvent (mprShared st) ev = Inr sh"
    "workspacesOk (mprMeetingId st) ws"
    using assms(1) by (auto simp: reduceScopes_shared projectionOk_def workspacesOk_def split: if_splits)
  with reduceSharedEvent_ok[of "mprShared st" ev sh] SharedScope assms recordEvent_receiptsOk[OF _ assms(3,4)]
  show ?thesis by (simp add: projectionOk_def)
next
  case (PrivateScope owner)
  have ok: "workspacesOk (evMeetingId ev) (mprPrivateWorkspaces st)"
    using assms(1,2) by (simp add: projectionOk_def)
  have "sh = mprShared st" "workspacesOk (mprMeetingId st) ws"
    using assms(2,5) upsertOwnerWorkspace_ok[OF ok]
    by (auto simp: reduceScopes_private[OF PrivateScope] reducePrivateWorkspace_Inr[OF ok])
  with assms recordEvent_receiptsOk[OF _ assms(3,4)] show ?thesis by (simp add: projectionOk_def)
qed

lemma replay_projectionOk:
  "replayMeeting m evs = Inr p \<Longrightarrow> projectionOk p \<and> mprMeetingId p = m"
proof (induction rule: replay_induct)
  case empty
  then show ?case by (simp add: projectionOk_empty) (simp add: createEmptyMeetingProjection_def)
next
  case (accept acc st ev shared ws)
  then show ?case using projectionOk_record by simp
qed


subsection \<open>What a replay computes\<close>

definition isShared :: "domainEvent \<Rightarrow> bool" where
  "isShared ev \<longleftrightarrow> evScope ev = SharedScope"

lemma replay_positions:
  "replayMeeting m evs = Inr p \<Longrightarrow>
     mprPosition p = int (length (acceptedEvents m evs)) \<and>
     map evPosition (acceptedEvents m evs) = map int [1..<Suc (length (acceptedEvents m evs))]"
proof (induction rule: replay_induct)
  case empty
  then show ?case by (simp add: createEmptyMeetingProjection_def)
qed simp

lemma replay_shared:
  "replayMeeting m evs = Inr p \<Longrightarrow>
     replaySharedMeeting m (filter isShared (acceptedEvents m evs)) = Inr (mprShared p)"
proof (induction rule: replay_induct)
  case empty
  then show ?case by (simp add: replaySharedMeeting_def createEmptyMeetingProjection_def)
next
  case (accept acc st ev shared ws)
  then show ?case
    by (cases "evScope ev")
      (auto simp: isShared_def replaySharedMeeting_def foldE_snoc reduceScopes_shared reduceScopes_private)
qed

lemma replay_audit:
  "replayMeeting m evs = Inr p \<Longrightarrow>
     shpAuditTimeline (mprShared p) = map toEventReference (filter isShared (acceptedEvents m evs))"
proof (induction rule: replay_induct)
  case empty
  then show ?case
    by (simp add: createEmptyMeetingProjection_def createEmptySharedMeetingProjection_def)
next
  case (accept acc st ev shared ws)
  then show ?case
    by (cases "evScope ev")
      (auto simp: isShared_def reduceScopes_shared reduceScopes_private reduceSharedEvent_Inr
        dest: reduceSharedPayload_frame)
qed

text \<open>What one event means to the workspace of one owner.\<close>

definition ownerView ::
  "string \<Rightarrow> string \<Rightarrow> ownerPrivateProjection \<Rightarrow> domainEvent \<Rightarrow> exn + ownerPrivateProjection" where
  "ownerView m owner w ev =
     (if evScope ev = PrivateScope owner then reduceWorkspace w ev owner
      else Inr (emptyWorkspace m owner))"

definition concernsOwner :: "string \<Rightarrow> domainEvent \<Rightarrow> bool" where
  "concernsOwner owner ev \<longleftrightarrow>
     evScope ev = PrivateScope owner \<or>
     evScope ev = SharedScope \<and> isDemoResetCompleted (evPayload ev)"

lemma ownerWorkspace_Nil [simp]: "ownerWorkspace [] m owner = emptyWorkspace m owner"
  by (simp add: ownerWorkspace_def)

lemma accept_owner:
  assumes "projectionOk st" "evMeetingId ev = mprMeetingId st" "reduceScopes st ev = Inr (sh, ws)"
  shows "(if concernsOwner owner ev
      then ownerView (mprMeetingId st) owner (ownerWorkspace (mprPrivateWorkspaces st) (mprMeetingId st) owner) ev
      else Inr (ownerWorkspace (mprPrivateWorkspaces st) (mprMeetingId st) owner)) =
    Inr (ownerWorkspace ws (mprMeetingId st) owner)"
proof (cases "evScope ev")
  case SharedScope
  with assms(3) show ?thesis
    by (auto simp: reduceScopes_shared concernsOwner_def ownerView_def)
next
  case (PrivateScope o2)
  have ok: "workspacesOk (evMeetingId ev) (mprPrivateWorkspaces st)"
    using assms(1,2) by (simp add: projectionOk_def)
  from assms(3) obtain w where
    "reduceWorkspace (ownerWorkspace (mprPrivateWorkspaces st) (evMeetingId ev) o2) ev o2 = Inr w"
    "workspaceOk (evMeetingId ev) w" "oppOwnerParticipantId w = o2"
    "ws = upsertOwnerWorkspace (mprPrivateWorkspaces st) w"
    by (auto simp: reduceScopes_private[OF PrivateScope] reducePrivateWorkspace_Inr[OF ok])
  with ownerWorkspace_upsert[OF ok] PrivateScope assms(2) show ?thesis
    by (auto simp: concernsOwner_def ownerView_def)
qed

lemma replay_owner:
  "replayMeeting m evs = Inr p \<Longrightarrow>
     projectionOk p \<and> mprMeetingId p = m \<and>
     foldE (ownerView m owner) (emptyWorkspace m owner)
       (filter (concernsOwner owner) (acceptedEvents m evs)) =
     Inr (getOwnerPrivateProjection p owner)"
proof (induction rule: replay_induct)
  case empty
  then show ?case
    by (simp add: projectionOk_empty) (simp add: getOwnerPrivateProjection_def createEmptyMeetingProjection_def)
next
  case (accept acc st ev shared ws)
  then have "projectionOk (recordEvent st ev (eventFingerprint ev) shared ws)"
    using projectionOk_record by blast
  with accept accept_owner[of st ev shared ws owner] show ?case
    by (auto simp: foldE_snoc getOwnerPrivateProjection_def split: if_splits)
qed

text \<open>An event is remembered once its receipt is stored.\<close>

definition remembers :: "meetingProjection \<Rightarrow> domainEvent \<Rightarrow> bool" where
  "remembers st ev \<longleftrightarrow>
     \<lparr>prcEventId = evEventId ev, prcFingerprint = eventFingerprint ev\<rparr> \<in> set (mprProcessedEvents st)"

lemma remembered_is_duplicate:
  assumes "projectionOk st" "remembers st ev" "evMeetingId ev = mprMeetingId st"
  shows "reduceMeetingProjection st ev = Inr st"
proof -
  have "findFirst (\<lambda>r. prcEventId r = evEventId ev) (mprProcessedEvents st) =
    Some \<lparr>prcEventId = evEventId ev, prcFingerprint = eventFingerprint ev\<rparr>"
    using findFirst_distinct[of prcEventId "mprProcessedEvents st"
        "\<lparr>prcEventId = evEventId ev, prcFingerprint = eventFingerprint ev\<rparr>"] assms(1,2)
    by (simp add: projectionOk_def receiptsOk_def remembers_def)
  then have "findDuplicate st ev (eventFingerprint ev) = Inr True"
    by (simp add: findDuplicate_True)
  with assms(3) show ?thesis by (simp add: reduceMeetingProjection_Inr acceptsEvent_def)
qed

lemma replay_remembers:
  "replayMeeting m evs = Inr p \<Longrightarrow>
     mprMeetingId p = m \<and> (\<forall>ev \<in> set (acceptedEvents m evs). remembers p ev \<and> evMeetingId ev = m)"
proof (induction rule: replay_induct)
  case empty
  then show ?case by (simp add: createEmptyMeetingProjection_def)
qed (auto simp: remembers_def)

text \<open>The latest Decision with an identifier since the last completed reset.\<close>

definition decisionStepOf :: "string \<Rightarrow> decision option \<Rightarrow> domainEvent \<Rightarrow> decision option" where
  "decisionStepOf i cur ev =
     (if isDemoResetCompleted (evPayload ev) then None
      else case decisionOfPayload (evPayload ev) of
             Some (d, _) \<Rightarrow> if recId d = i then Some d else cur
           | None \<Rightarrow> cur)"

definition latestDecision :: "string \<Rightarrow> domainEvent list \<Rightarrow> decision option" where
  "latestDecision i evs = foldl (decisionStepOf i) None (filter isShared evs)"

lemma isDemoResetCompleted_iff: "isDemoResetCompleted p \<longleftrightarrow> (\<exists>i n. p = DemoResetCompleted i n)"
  by (cases p) (simp_all add: isDemoResetCompleted_def)

lemma findFirst_upsertById:
  "findFirst (\<lambda>y. recId y = i) (upsertById xs x) =
     (if recId x = i then Some x else findFirst (\<lambda>y. recId y = i) xs)"
  by (auto simp: upsertById_def upsert_simps)

lemma content_decisions:
  "reduceSharedContent st ev = Inr next \<Longrightarrow> shpDecisions next = shpDecisions st"
  by (erule content_induct) simp_all

lemma lifecycle_decisions:
  "reduceMeetingLifecycle st ev = Inr next \<Longrightarrow> shpDecisions next = shpDecisions st"
  by (erule lifecycle_induct) simp_all

lemma addConfirmed_decisions [simp]: "shpDecisions (addConfirmed st c) = shpDecisions st"
  by (cases c) simp_all

lemma payload_decision:
  assumes "reduceSharedPayload st ev = Inr next"
  shows "findFirst (\<lambda>d. recId d = i) (shpDecisions next) =
    decisionStepOf i (findFirst (\<lambda>d. recId d = i) (shpDecisions st)) ev"
proof (cases "decisionOfPayload (evPayload ev)")
  case (Some x)
  then have "\<not> isDemoResetCompleted (evPayload ev)" by (auto simp: isDemoResetCompleted_iff)
  with Some assms show ?thesis
    by (cases x) (auto simp: reduceSharedPayload_def reduceDecision_def result_simps decisionStepOf_def
        findFirst_upsertById)
next
  case None
  show ?thesis
  proof (cases "isDemoResetCompleted (evPayload ev)")
    case True
    with None assms show ?thesis
      by (auto simp: isDemoResetCompleted_iff reduceSharedPayload_def decisionStepOf_def resetShared_def
          createEmptySharedMeetingProjection_def)
  next
    case False
    with None assms have "shpDecisions next = shpDecisions st"
      by (cases "evPayload ev")
        (auto simp: reduceSharedPayload_def isDemoResetCompleted_def result_simps
          dest: content_decisions lifecycle_decisions)
    with None False show ?thesis by (simp add: decisionStepOf_def)
  qed
qed

lemma replay_latestDecision:
  "replayMeeting m evs = Inr p \<Longrightarrow>
     findFirst (\<lambda>d. recId d = i) (shpDecisions (mprShared p)) = latestDecision i (acceptedEvents m evs)"
proof (induction rule: replay_induct)
  case empty
  then show ?case
    by (simp add: createEmptyMeetingProjection_def createEmptySharedMeetingProjection_def latestDecision_def)
next
  case (accept acc st ev shared ws)
  then show ?case
    by (cases "evScope ev")
      (auto simp: isShared_def reduceScopes_shared reduceScopes_private reduceSharedEvent_Inr
        latestDecision_def payload_decision)
qed


subsection \<open>Properties\<close>

lemma example_replay:
  "\<exists>p. replayMeeting ''m1'' exampleLog = Inr p \<and> acceptedEvents ''m1'' exampleLog = exampleLog"
  by (simp add: replayMeeting_def acceptedEvents_def reduceMeetingProjection_def reduceScopes_def
      findDuplicate_def acceptsEvent_def example_event_defs example_record_defs
      createEmptyMeetingProjection_def createEmptySharedMeetingProjection_def
      reduceSharedEvent_def shared_reduce recordEvent_def reducePrivateWorkspace_def reduceWorkspace_def
      isDemoResetCompleted_def ownerWorkspace_def emptyWorkspace_def Let_def)

text \<open>C7. Replaying any log that is accepted yields a well-formed projection: the shared part holds
  only records of this meeting with distinct identifiers, and its artifacts, utterances and evidence
  are all shared; every workspace belongs to this meeting and holds only private records of its
  owner, one workspace per owner; and the position is the number of accepted events, whose positions
  are 1, 2, 3, ... in order.\<close>

theorem replay_well_formed:
  "replayMeeting m evs = Inr p \<Longrightarrow>
     projectionOk p \<and> mprMeetingId p = m \<and>
     mprPosition p = int (length (acceptedEvents m evs)) \<and>
     map evPosition (acceptedEvents m evs) = map int [1..<Suc (length (acceptedEvents m evs))]"
  using replay_projectionOk replay_positions by blast

theorem replay_well_formed_witness:
  "\<exists>p. replayMeeting ''m1'' exampleLog = Inr p \<and> projectionOk p \<and> mprPosition p = 4"
proof -
  obtain p where p: "replayMeeting ''m1'' exampleLog = Inr p" "acceptedEvents ''m1'' exampleLog = exampleLog"
    using example_replay by blast
  from replay_well_formed[OF p(1)] p show ?thesis by (auto simp: exampleLog_def)
qed

text \<open>C8. Confidentiality of the shared projection: it is the projection of the shared events alone.
  Whatever private events a log contains, what every participant sees is what the shared reducer
  computes from the accepted shared events.\<close>

theorem shared_projection_ignores_private_events:
  "replayMeeting m evs = Inr p \<Longrightarrow>
     replaySharedMeeting m (filter (\<lambda>ev. evScope ev = SharedScope) (acceptedEvents m evs)) =
     Inr (toSharedMeetingProjection p)"
  using replay_shared by (simp add: toSharedMeetingProjection_def isShared_def[abs_def])

theorem shared_projection_ignores_private_events_witness:
  "\<exists>p. replayMeeting ''m1'' exampleLog = Inr p \<and>
     replaySharedMeeting ''m1'' [createdEvent, draftedEvent, readyEvent] = Inr (toSharedMeetingProjection p)"
proof -
  obtain p where p: "replayMeeting ''m1'' exampleLog = Inr p" "acceptedEvents ''m1'' exampleLog = exampleLog"
    using example_replay by blast
  from shared_projection_ignores_private_events[OF p(1)] p show ?thesis
    by (simp add: example_event_defs)
qed

text \<open>C9. Isolation of private workspaces: what an owner sees is computed from that owner's own
  private events and the completed resets alone; no other event of the log, shared or private, can
  change it.\<close>

theorem owner_view_depends_on_own_events:
  "replayMeeting m evs = Inr p \<Longrightarrow>
     foldE (ownerView m owner) (emptyWorkspace m owner)
       (filter (\<lambda>ev. evScope ev = PrivateScope owner \<or>
                     evScope ev = SharedScope \<and> isDemoResetCompleted (evPayload ev))
          (acceptedEvents m evs)) =
     Inr (getOwnerPrivateProjection p owner)"
  using replay_owner[of m evs p owner] by (simp add: concernsOwner_def[abs_def])

theorem owner_view_depends_on_own_events_witness:
  "\<exists>p. replayMeeting ''m1'' exampleLog = Inr p \<and>
     getOwnerPrivateProjection p ''p1'' = emptyWorkspace ''m1'' ''p1'' \<and>
     oppUtterances (getOwnerPrivateProjection p ''p2'') = [exampleUtterance ''u1'' Private (Some ''p2'')]"
proof -
  obtain p where p: "replayMeeting ''m1'' exampleLog = Inr p" "acceptedEvents ''m1'' exampleLog = exampleLog"
    using example_replay by blast
  have "Inr (emptyWorkspace ''m1'' ''p1'') = (Inr (getOwnerPrivateProjection p ''p1'') :: exn + _)"
    unfolding owner_view_depends_on_own_events[OF p(1), symmetric] p(2)
    by (simp add: example_event_defs isDemoResetCompleted_def)
  moreover have "Inr ((emptyWorkspace ''m1'' ''p2'')
      \<lparr>oppUtterances := [exampleUtterance ''u1'' Private (Some ''p2'')]\<rparr>) =
      (Inr (getOwnerPrivateProjection p ''p2'') :: exn + _)"
    unfolding owner_view_depends_on_own_events[OF p(1), symmetric] p(2)
    by (simp add: example_event_defs isDemoResetCompleted_def ownerView_def reduceWorkspace_def
        emptyWorkspace_def validateEntityScope_def upsertById_def)
  ultimately have "emptyWorkspace ''m1'' ''p1'' = getOwnerPrivateProjection p ''p1''"
    "(emptyWorkspace ''m1'' ''p2'')\<lparr>oppUtterances := [exampleUtterance ''u1'' Private (Some ''p2'')]\<rparr> =
      getOwnerPrivateProjection p ''p2''" by simp_all
  from this(1) this(2)[symmetric] p(1) show ?thesis by simp
qed

text \<open>C12. Delivery is idempotent: delivering any event again that a replay accepted, at any later
  time, leaves the projection exactly as it is.\<close>

theorem redelivery_changes_nothing:
  "replayMeeting m evs = Inr p \<Longrightarrow> ev \<in> set (acceptedEvents m evs) \<Longrightarrow>
     reduceMeetingProjection p ev = Inr p"
  using replay_remembers[of m evs p] replay_projectionOk[of m evs p] remembered_is_duplicate[of p ev]
  by auto

theorem redelivery_changes_nothing_witness:
  "\<exists>p. replayMeeting ''m1'' exampleLog = Inr p \<and> reduceMeetingProjection p createdEvent = Inr p"
proof -
  obtain p where p: "replayMeeting ''m1'' exampleLog = Inr p" "acceptedEvents ''m1'' exampleLog = exampleLog"
    using example_replay by blast
  from redelivery_changes_nothing[OF p(1), of createdEvent] p show ?thesis by (simp add: exampleLog_def)
qed

text \<open>C13. What the reducer refuses, and how: an event of another meeting, an event identifier reused
  with other content, a new event at or before the current position, and a new event that leaves a
  gap each raise their own error.\<close>

theorem reducer_errors:
  assumes "projectionOk st"
  shows "(evMeetingId ev \<noteq> mprMeetingId st \<longrightarrow>
      (\<exists>msg. reduceMeetingProjection st ev = Inl (ProjectionError MeetingScopeMismatch msg))) \<and>
    (evMeetingId ev = mprMeetingId st \<longrightarrow>
      (\<forall>r \<in> set (mprProcessedEvents st). prcEventId r = evEventId ev \<and>
          prcFingerprint r \<noteq> eventFingerprint ev \<longrightarrow>
        (\<exists>msg. reduceMeetingProjection st ev = Inl (ProjectionError EventIdConflict msg))) \<and>
      (acceptsEvent st ev \<and> evPosition ev \<le> mprPosition st \<longrightarrow>
        (\<exists>msg. reduceMeetingProjection st ev = Inl (ProjectionError StalePosition msg))) \<and>
      (acceptsEvent st ev \<and> evPosition ev > mprPosition st + 1 \<longrightarrow>
        (\<exists>msg. reduceMeetingProjection st ev = Inl (ProjectionError PositionGap msg))))"
proof -
  have "findFirst (\<lambda>s. prcEventId s = evEventId ev) (mprProcessedEvents st) = Some r"
    if "r \<in> set (mprProcessedEvents st)" "prcEventId r = evEventId ev" for r
    using findFirst_distinct[of prcEventId "mprProcessedEvents st" r] assms that
    by (simp add: projectionOk_def receiptsOk_def)
  then show ?thesis
    by (auto simp: reduceMeetingProjection_def acceptsEvent_def findDuplicate_def)
qed

theorem reducer_errors_witness:
  "\<exists>msg. reduceMeetingProjection (createEmptyMeetingProjection ''m1'') privateEvent =
     Inl (ProjectionError PositionGap msg)"
  using reducer_errors[OF projectionOk_empty, of privateEvent "''m1''"]
  by (simp add: example_event_defs createEmptyMeetingProjection_def acceptsEvent_def findDuplicate_def)

text \<open>The audit timeline is the full history of shared events: one reference per accepted shared
  event, in order, never one of a private event; not even a reset removes one.\<close>

theorem audit_timeline_is_shared_history:
  "replayMeeting m evs = Inr p \<Longrightarrow>
     shpAuditTimeline (toSharedMeetingProjection p) =
       map toEventReference (filter (\<lambda>ev. evScope ev = SharedScope) (acceptedEvents m evs)) \<and>
     eventTypes (toSharedMeetingProjection p) =
       map (\<lambda>ev. eventTypeName (evPayload ev))
         (filter (\<lambda>ev. evScope ev = SharedScope) (acceptedEvents m evs))"
  using replay_audit[of m evs p]
  by (simp add: toSharedMeetingProjection_def isShared_def[abs_def] eventTypes_def toEventReference_def)

theorem audit_timeline_is_shared_history_witness:
  "\<exists>p. replayMeeting ''m1'' exampleLog = Inr p \<and>
     eventTypes (toSharedMeetingProjection p) =
       [''MeetingCreated'', ''DecisionDrafted'', ''DecisionMarkedReady'']"
proof -
  obtain p where p: "replayMeeting ''m1'' exampleLog = Inr p" "acceptedEvents ''m1'' exampleLog = exampleLog"
    using example_replay by blast
  from audit_timeline_is_shared_history[OF p(1)] p show ?thesis by (simp add: example_event_defs)
qed

text \<open>The projected Decision with an identifier is the one that the latest accepted shared
  Decision event since the last completed reset carries; if there is none, no Decision with that
  identifier is projected.\<close>

theorem projected_decision_is_latest:
  "replayMeeting m evs = Inr p \<Longrightarrow>
     findFirst (\<lambda>d. recId d = i) (shpDecisions (toSharedMeetingProjection p)) =
     latestDecision i (acceptedEvents m evs)"
  using replay_latestDecision by (simp add: toSharedMeetingProjection_def)

theorem projected_decision_is_latest_witness:
  "\<exists>p. replayMeeting ''m1'' exampleLog = Inr p \<and>
     findFirst (\<lambda>d. recId d = ''d1'') (shpDecisions (toSharedMeetingProjection p)) =
     Some (exampleDecision DECISION_READY)"
proof -
  obtain p where p: "replayMeeting ''m1'' exampleLog = Inr p" "acceptedEvents ''m1'' exampleLog = exampleLog"
    using example_replay by blast
  from projected_decision_is_latest[OF p(1), of "''d1''"] p show ?thesis
    by (simp add: latestDecision_def isShared_def decisionStepOf_def isDemoResetCompleted_def
        example_event_defs example_record_defs)
qed

text \<open>A completed reset leaves the meeting in its preparing phase without display tokens, keeps
  the participants and the audit history, and clears everything else: no Decision, revision, Action,
  task, artifact, utterance, evidence, floor or private workspace survives.\<close>

theorem completed_reset_clears_meeting:
  assumes "reduceMeetingProjection st ev = Inr st'" "acceptsEvent st ev"
    and "evScope ev = SharedScope" "evPayload ev = DemoResetCompleted i n"
  shows "mprPrivateWorkspaces st' = [] \<and>
    mprShared st' = (createEmptySharedMeetingProjection (shpMeetingId (mprShared st)))
      \<lparr>shpPosition := evPosition ev,
       shpMeeting := map_option (\<lambda>m. m\<lparr>mtgPhase := Preparing, mtgDisplayTokens := []\<rparr>)
         (shpMeeting (mprShared st)),
       shpParticipants := shpParticipants (mprShared st),
       shpAuditTimeline := shpAuditTimeline (mprShared st) @ [toEventReference ev]\<rparr>"
  using assms
  by (auto simp: reduceMeetingProjection_Inr reduceScopes_shared reduceSharedEvent_Inr
      reduceSharedPayload_def resetShared_def isDemoResetCompleted_def)

theorem completed_reset_clears_meeting_witness:
  "\<exists>st'. reduceMeetingProjection (createEmptyMeetingProjection ''m1'')
       (exampleEvent ''v1'' 1 SharedScope (DemoResetCompleted ''x'' ''s'')) = Inr st' \<and>
     mprPrivateWorkspaces st' = []"
proof -
  let ?st = "createEmptyMeetingProjection ''m1''"
  let ?ev = "exampleEvent ''v1'' 1 SharedScope (DemoResetCompleted ''x'' ''s'')"
  have acc: "acceptsEvent ?st ?ev"
    by (simp add: acceptsEvent_def findDuplicate_def createEmptyMeetingProjection_def exampleEvent_def)
  have "\<exists>st'. reduceMeetingProjection ?st ?ev = Inr st'"
    by (simp add: reduceMeetingProjection_Inr acc)
      (simp add: createEmptyMeetingProjection_def exampleEvent_def reduceScopes_def reduceSharedEvent_def
        reduceSharedPayload_def createEmptySharedMeetingProjection_def)
  then obtain st' where "reduceMeetingProjection ?st ?ev = Inr st'" by blast
  with completed_reset_clears_meeting[OF this acc] show ?thesis by (simp add: exampleEvent_def)
qed

end
