(* ===== verification/Commands.thy ===== *)
theory Commands
  imports Authorization EventStore DecisionStateMachine Projections
begin

section \<open>Commands over the ports\<close>

text \<open>
  What the command modules of \<open>packages/application/src\<close> have in common. A command runs in a world
  \<open>'w\<close> (the event store, the projection store, clock, identifiers, hash) that it can only reach
  through its dependencies, the record \<open>ports\<close>. It ends with a value, with a failure that the source
  returns, or with an exception that the source throws; what it did to the world until then stays
  done. Awaiting a port is calling it: one command runs at a time.
\<close>

subsection \<open>Commands\<close>

datatype failureCode =
    FORBIDDEN | IDEMPOTENCY_CONFLICT | INVALID_STATE_TRANSITION | VALIDATION_FAILED
  | DECISION_NOT_FOUND | EXPLICIT_COMMIT_REQUIRED | READINESS_INCOMPLETE
  | REFERENCED_ENTITY_NOT_FOUND | SHARED_FLOOR_BUSY | MEETING_NOT_FOUND
  | MONITOR_REGISTRATION_NOT_FOUND | EXTERNAL_EVENT_NOT_FOUND | SUGGESTION_NOT_FOUND
  | SUGGESTION_MISMATCH | CANDIDATE_NOT_FOUND | DISCLOSURE_PREVIEW_MISMATCH
  | INVALID_MODEL_OUTPUT | OPENAI_UNAVAILABLE | API_KEY_REQUIRED | JUDGE_MODE_FORBIDDEN
  | AUTHENTICATION_REQUIRED | SESSION_EXPIRED | DISPLAY_TOKEN_EXPIRED

datatype commandFailure =
    ConflictFailure int int
  | PositionFailure int
  | FailedWith failureCode

datatype abort = Raised exn | Failed commandFailure

type_synonym ('w, 'a) command = "'w \<Rightarrow> (abort + 'a) \<times> 'w"

definition returnC :: "'a \<Rightarrow> ('w, 'a) command" where
  "returnC a w = (Inr a, w)"

definition bindC :: "('w, 'a) command \<Rightarrow> ('a \<Rightarrow> ('w, 'b) command) \<Rightarrow> ('w, 'b) command" where
  "bindC m f w = (case m w of (Inl e, w') \<Rightarrow> (Inl e, w') | (Inr a, w') \<Rightarrow> f a w')"

definition failC :: "failureCode \<Rightarrow> ('w, 'a) command" where
  "failC code w = (Inl (Failed (FailedWith code)), w)"

definition raiseC :: "exn \<Rightarrow> ('w, 'a) command" where
  "raiseC e w = (Inl (Raised e), w)"

definition liftC :: "exn + 'a \<Rightarrow> ('w, 'a) command" where
  "liftC r = (case r of Inl e \<Rightarrow> raiseC e | Inr a \<Rightarrow> returnC a)"

definition unlessC :: "bool \<Rightarrow> failureCode \<Rightarrow> ('w, unit) command" where
  "unlessC b code = (if b then returnC () else failC code)"

definition portC :: "('w \<Rightarrow> (exn + 'a) \<times> 'w) \<Rightarrow> ('w, 'a) command" where
  "portC p w = (case p w of (Inl e, w') \<Rightarrow> (Inl (Raised e), w') | (Inr a, w') \<Rightarrow> (Inr a, w'))"

definition readC :: "('w \<Rightarrow> 'a \<times> 'w) \<Rightarrow> ('w, 'a) command" where
  "readC p w = (case p w of (a, w') \<Rightarrow> (Inr a, w'))"

text \<open>\<open>try { m } catch (error) { ... }\<close>: an exception that the handler knows becomes a failure.\<close>

definition tryC :: "(exn \<Rightarrow> failureCode option) \<Rightarrow> ('w, 'a) command \<Rightarrow> ('w, 'a) command" where
  "tryC handler m w =
     (case m w of
        (Inl (Raised e), w') \<Rightarrow>
          (case handler e of
             None \<Rightarrow> (Inl (Raised e), w')
           | Some code \<Rightarrow> (Inl (Failed (FailedWith code)), w'))
      | r \<Rightarrow> r)"

definition validationHandler :: "exn \<Rightarrow> failureCode option" where
  "validationHandler e = (if isDomainValueError e then Some VALIDATION_FAILED else None)"

definition transitionFailure :: "exn \<Rightarrow> failureCode option" where
  "transitionFailure e =
     (case e of
        DecisionTransitionError _ _ \<Rightarrow> Some INVALID_STATE_TRANSITION
      | DomainValueError _ \<Rightarrow> Some VALIDATION_FAILED
      | _ \<Rightarrow> None)"

subsection \<open>Dependencies\<close>

record 'w ports =
  prtNow :: "'w \<Rightarrow> string \<times> 'w"
  prtNext :: "string \<Rightarrow> 'w \<Rightarrow> string \<times> 'w"
  prtHash :: "string \<Rightarrow> 'w \<Rightarrow> (exn + string) \<times> 'w"
  prtAppend :: "domainEvent appendEventsRequest \<Rightarrow> 'w \<Rightarrow> (exn + domainEvent appendEventsOutcome) \<times> 'w"
  prtLoad :: "string \<Rightarrow> 'w \<Rightarrow> (exn + domainEvent eventRecord list) \<times> 'w"
  prtPut :: "projectionScope \<Rightarrow> meetingProjection \<Rightarrow> 'w \<Rightarrow> (exn + unit) \<times> 'w"

record mutationInput =
  mutCorrelationId :: "string option"
  mutExpectedPosition :: int
  mutIdempotencyKey :: string
  mutMeetingId :: string

record 'a commandSuccess =
  sucCorrelationId :: string
  sucPosition :: int
  sucReplayed :: bool
  sucValue :: 'a

record loadedState =
  lstProjection :: meetingProjection
  lstRecords :: "domainEvent eventRecord list"

record appendResult =
  aprReplayed :: bool
  aprRecords :: "domainEvent eventRecord list"

subsection \<open>Shared steps\<close>

definition hashValue :: "'w ports \<Rightarrow> string \<Rightarrow> ('w, string) command" where
  "hashValue deps value =
     bindC (portC (prtHash deps value)) (\<lambda>result.
       if length result = 0 \<or> length result > 512 \<or> trim result \<noteq> result \<or> hasWhitespace result
       then raiseC (DomainValueError ''Injected hash must be a non-empty, whitespace-free value'')
       else returnC result)"

definition clockNow :: "'w ports \<Rightarrow> ('w, string) command" where
  "clockNow deps = bindC (readC (prtNow deps)) (\<lambda>now. liftC (timestamp now))"

definition participantActor :: "userContext \<Rightarrow> exn + domainActor" where
  "participantActor context = bindE (participantId (uctParticipantId context)) (\<lambda>p. Inr (ParticipantActor p))"

definition normalizeRecord :: "domainEvent eventRecord \<Rightarrow> exn + domainEvent" where
  "normalizeRecord r =
     bindE (meetingPosition (ercPosition r)) (\<lambda>p. Inr ((ercEvent r)\<lparr>evPosition := p\<rparr>))"

definition normalizeRecords :: "domainEvent eventRecord list \<Rightarrow> exn + domainEvent list" where
  "normalizeRecords records = mapE normalizeRecord records"

definition projectRecords :: "string \<Rightarrow> domainEvent eventRecord list \<Rightarrow> exn + meetingProjection" where
  "projectRecords m records =
     bindE (meetingId m) (\<lambda>i. bindE (normalizeRecords records) (replayMeeting i))"

definition loadState :: "'w ports \<Rightarrow> string \<Rightarrow> ('w, loadedState) command" where
  "loadState deps m =
     bindC (portC (prtLoad deps m)) (\<lambda>records.
     bindC (liftC (projectRecords m records)) (\<lambda>projection.
     returnC \<lparr>lstProjection = projection, lstRecords = records\<rparr>))"

definition refreshProjection :: "'w ports \<Rightarrow> string \<Rightarrow> string \<Rightarrow> ('w, unit) command" where
  "refreshProjection deps m participant =
     bindC (loadState deps m) (\<lambda>st.
     portC (prtPut deps
       \<lparr>pscMeetingId = m, pscOwnerParticipantId = Some participant, pscProjection = ''meeting''\<rparr>
       (lstProjection st)))"

definition appendMutation ::
  "'w ports \<Rightarrow> 'x mutationInput_scheme \<Rightarrow> string \<Rightarrow> domainEvent list \<Rightarrow> string \<Rightarrow> ('w, appendResult) command" where
  "appendMutation deps input fingerprint evs participant =
     bindC (portC (prtAppend deps
       \<lparr>aprEvents = evs, aprExpectedPosition = Some (mutExpectedPosition input),
        aprIdempotencyKey = Some (mutIdempotencyKey input), aprMeetingId = mutMeetingId input,
        aprPayloadFingerprint = Some fingerprint, aprTrustFingerprint = Some True\<rparr>)) (\<lambda>result.
     case result of
       PositionConflict actual expected \<Rightarrow> (\<lambda>w. (Inl (Failed (ConflictFailure actual expected)), w))
     | AppendIdempotencyConflict _ \<Rightarrow> failC IDEMPOTENCY_CONFLICT
     | Appended records \<Rightarrow>
         bindC (refreshProjection deps (mutMeetingId input) participant) (\<lambda>_.
         returnC \<lparr>aprReplayed = False, aprRecords = records\<rparr>)
     | Replayed records \<Rightarrow>
         bindC (refreshProjection deps (mutMeetingId input) participant) (\<lambda>_.
         returnC \<lparr>aprReplayed = True, aprRecords = records\<rparr>))"

text \<open>The first record of an event type; \<open>select\<close> recognises the type and gives the payload.\<close>

definition eventAt ::
  "(domainEventPayload \<Rightarrow> 'a option) \<Rightarrow> domainEvent eventRecord list \<Rightarrow> exn + (domainEvent \<times> 'a) option" where
  "eventAt select records =
     bindE (normalizeRecords records) (\<lambda>evs.
     Inr (case findFirst (\<lambda>ev. select (evPayload ev) \<noteq> None) evs of
            None \<Rightarrow> None
          | Some ev \<Rightarrow> Some (ev, the (select (evPayload ev)))))"

definition idempotentRecord :: "domainEvent eventRecord list \<Rightarrow> string \<Rightarrow> domainEvent eventRecord option" where
  "idempotentRecord records k = findFirst (\<lambda>r. evIdempotencyKey (ercEvent r) = Some k) records"

definition commandCorrelationId :: "'w ports \<Rightarrow> 'x mutationInput_scheme \<Rightarrow> ('w, string) command" where
  "commandCorrelationId deps input =
     bindC (case mutCorrelationId input of
              Some c \<Rightarrow> returnC c | None \<Rightarrow> readC (prtNext deps ''correlation''))
       (\<lambda>c. liftC (correlationId c))"

definition success :: "bool \<Rightarrow> domainEvent \<times> 'a \<Rightarrow> 'a commandSuccess" where
  "success replayed found =
     \<lparr>sucCorrelationId = evCorrelationId (fst found), sucPosition = evPosition (fst found),
      sucReplayed = replayed, sucValue = snd found\<rparr>"

text \<open>
  The branch for an idempotency key that the log already holds: append again, so that the store
  decides between replay and conflict, and answer from the stored records.
\<close>

definition replayPrior ::
  "'w ports \<Rightarrow> 'x mutationInput_scheme \<Rightarrow> string \<Rightarrow> domainEvent \<Rightarrow> string \<Rightarrow>
     (domainEventPayload \<Rightarrow> 'a option) \<Rightarrow> ('w, 'a commandSuccess) command" where
  "replayPrior deps input fingerprint prior participant select =
     bindC (appendMutation deps input fingerprint [prior] participant) (\<lambda>replay.
     bindC (liftC (eventAt select (aprRecords replay))) (\<lambda>found.
     case found of None \<Rightarrow> failC IDEMPOTENCY_CONFLICT | Some x \<Rightarrow> returnC (success True x)))"

text \<open>The event of a command, made from its checked parts, then its append and its answer.\<close>

definition appendAndAnswer ::
  "'w ports \<Rightarrow> 'x mutationInput_scheme \<Rightarrow> string \<Rightarrow> domainEvent \<Rightarrow> string \<Rightarrow> string \<Rightarrow>
     (domainEventPayload \<Rightarrow> 'a option) \<Rightarrow> ('w, 'a commandSuccess) command" where
  "appendAndAnswer deps input fingerprint ev participant message select =
     bindC (appendMutation deps input fingerprint [ev] participant) (\<lambda>appended.
     bindC (liftC (eventAt select (aprRecords appended))) (\<lambda>found.
     case found of
       None \<Rightarrow> raiseC (JsError message)
     | Some x \<Rightarrow> returnC (success (aprReplayed appended) x)))"

definition sharedCommandEvent ::
  "'w ports \<Rightarrow> 'x mutationInput_scheme \<Rightarrow> exn + domainActor \<Rightarrow> string \<Rightarrow> string \<Rightarrow> int \<Rightarrow> string \<Rightarrow>
     domainEventPayload \<Rightarrow> ('w, domainEvent) command" where
  "sharedCommandEvent deps input actorResult correlation occurredAt expectedPosition key payload =
     bindC (liftC actorResult) (\<lambda>actor.
     bindC (readC (prtNext deps ''event'')) (\<lambda>i.
     bindC (liftC (eventId i)) (\<lambda>evId.
     bindC (liftC (meetingId (mutMeetingId input))) (\<lambda>m.
     bindC (liftC (meetingPosition (expectedPosition + 1))) (\<lambda>position.
     bindC (liftC (schemaVersion 1)) (\<lambda>version.
     returnC \<lparr>evEventId = evId, evSchemaVersion = version, evMeetingId = m, evPosition = position,
       evActor = actor, evOccurredAt = occurredAt, evCorrelationId = correlation,
       evCausationId = None, evIdempotencyKey = Some key, evScope = SharedScope,
       evPayload = payload\<rparr>))))))"

end
