(* ===== verification/MeetingLogs.thy ===== *)
theory MeetingLogs
  imports Commands
begin

section \<open>The log of a meeting and its projection\<close>

text \<open>
  A command reads a meeting by replaying its log, and a log that no longer replays makes every
  later command of the meeting throw. \<open>healthy\<close> says that a log replays and that no event of it is
  skipped; \<open>wellPlaced\<close> says what an appended event must satisfy for the log to stay so:
  the next position, this meeting, a new idempotency key and a payload that the reducer takes.
\<close>

text \<open>The projection that a command loads.\<close>

definition projectionAt :: "string \<Rightarrow> domainEvent list \<Rightarrow> meetingProjection \<Rightarrow> bool" where
  "projectionAt m log p \<longleftrightarrow> projectRecords m (numberRecords 1 log) = Inr p"

definition healthy :: "string \<Rightarrow> domainEvent list \<Rightarrow> bool" where
  "healthy m log \<longleftrightarrow> (\<exists>p. projectionAt m log p \<and> mprPosition p = int (length log))"

definition payloadFits :: "domainEvent \<Rightarrow> bool" where
  "payloadFits ev \<longleftrightarrow>
     (case evScope ev of
        SharedScope \<Rightarrow> \<not> isl (reduceSharedPayload (createEmptySharedMeetingProjection (evMeetingId ev)) ev)
      | PrivateScope owner \<Rightarrow> \<not> isl (reducePrivateWorkspace [] ev owner))"

definition wellPlaced :: "string \<Rightarrow> domainEvent list \<Rightarrow> domainEvent \<Rightarrow> bool" where
  "wellPlaced m log ev \<longleftrightarrow>
     meetingId m = Inr (evMeetingId ev) \<and> meetingPosition (int (length log) + 1) = Inr (evPosition ev) \<and>
     (\<forall>old \<in> set log. \<forall>k. evIdempotencyKey ev = Some k \<longrightarrow> evIdempotencyKey old \<noteq> Some k) \<and>
     payloadFits ev"

text \<open>A condition on an event and the log before it, for every event of a list in turn.\<close>

fun stepwise ::
  "(domainEvent list \<Rightarrow> domainEvent \<Rightarrow> bool) \<Rightarrow> domainEvent list \<Rightarrow> domainEvent list \<Rightarrow> bool" where
  "stepwise P log [] = True"
| "stepwise P log (ev # evs) = (P log ev \<and> stepwise P (log @ [ev]) evs)"

abbreviation wellPlacedAll :: "string \<Rightarrow> domainEvent list \<Rightarrow> domainEvent list \<Rightarrow> bool" where
  "wellPlacedAll m \<equiv> stepwise (wellPlaced m)"

lemma stepwise_append:
  "stepwise P log (xs @ ys) \<longleftrightarrow> stepwise P log xs \<and> stepwise P (log @ xs) ys"
  by (induction xs arbitrary: log) simp_all

lemma stepwise_mono:
  "stepwise P log evs \<Longrightarrow> (\<And>pre ev. P pre ev \<Longrightarrow> ev \<in> set evs \<Longrightarrow> Q pre ev) \<Longrightarrow> stepwise Q log evs"
  by (induction evs arbitrary: log) simp_all

lemma stepwise_and: "stepwise (\<lambda>l e. P l e \<and> Q l e) log evs \<longleftrightarrow> stepwise P log evs \<and> stepwise Q log evs"
  by (induction evs arbitrary: log) auto

lemma stepwise_split: "stepwise P [] (pre @ ev # post) \<Longrightarrow> stepwise P [] pre \<and> P pre ev"
  by (simp add: stepwise_append)

subsection \<open>Whether a payload is taken does not depend on the projection\<close>

lemma isl_bindE_const: "isl (bindE m (\<lambda>_. Inr x)) = isl m"
  by (cases m) simp_all

lemma isl_bindE: "isl (bindE m f) \<longleftrightarrow> isl m \<or> (\<exists>a. m = Inr a \<and> isl (f a))"
  by (cases m) auto

lemma isl_bindE_cong: "(\<And>a. isl (f a) = isl (g a)) \<Longrightarrow> isl (bindE m f) = isl (bindE m g)"
  by (cases m) simp_all

lemma shared_payload_independent:
  "isl (reduceSharedPayload st ev) = isl (reduceSharedPayload st' ev)"
proof (cases "decisionOfPayload (evPayload ev)")
  case None
  then show ?thesis
    by (cases "evPayload ev")
      (simp_all add: reduceSharedPayload_def reduceMeetingLifecycle_def reduceSharedContent_def isl_bindE)
next
  case (Some x)
  then show ?thesis
    by (cases x) (simp add: reduceSharedPayload_def reduceDecision_def isl_bindE)
qed

lemma private_payload_independent:
  "isl (reducePrivateWorkspace ws ev owner) = isl (reducePrivateWorkspace ws' ev owner)"
  by (cases "evPayload ev") (simp_all add: reducePrivateWorkspace_def reduceWorkspace_def isl_bindE)

lemma payloadFits_decision:
  "decisionOfPayload (evPayload ev) \<noteq> None \<Longrightarrow> evScope ev = SharedScope \<Longrightarrow>
     payloadFits ev \<longleftrightarrow> recMeetingId (fst (the (decisionOfPayload (evPayload ev)))) = evMeetingId ev"
  by (auto simp: payloadFits_def reduceSharedPayload_def reduceDecision_def isl_bindE validateEntityScope_def
      ensure_def split: if_splits)

lemma reduceScopes_fits:
  assumes "projectionOk p" "evMeetingId ev = mprMeetingId p" "mprPosition p < evPosition ev" "payloadFits ev"
  shows "\<exists>sh ws. reduceScopes p ev = Inr (sh, ws)"
proof (cases "evScope ev")
  case SharedScope
  with assms(4) have "\<not> isl (reduceSharedPayload (mprShared p) ev)"
    using shared_payload_independent by (auto simp: payloadFits_def)
  then obtain next' where "reduceSharedPayload (mprShared p) ev = Inr next'"
    by (cases "reduceSharedPayload (mprShared p) ev") auto
  with assms(1-3) show ?thesis
    by (auto simp: reduceScopes_shared[OF SharedScope] reduceSharedEvent_Inr projectionOk_def)
next
  case (PrivateScope owner)
  with assms(4) have "\<not> isl (reducePrivateWorkspace (mprPrivateWorkspaces p) ev owner)"
    using private_payload_independent by (auto simp: payloadFits_def)
  then show ?thesis
    by (cases "reducePrivateWorkspace (mprPrivateWorkspaces p) ev owner")
      (auto simp: reduceScopes_private[OF PrivateScope])
qed

subsection \<open>Appending to a healthy log\<close>

lemma mapE_append: "mapE f (xs @ ys) = bindE (mapE f xs) (\<lambda>as. bindE (mapE f ys) (\<lambda>bs. Inr (as @ bs)))"
proof (induction xs)
  case Nil
  then show ?case by (cases "mapE f ys") simp_all
next
  case (Cons x xs)
  then show ?case by (cases "f x"; cases "mapE f xs"; cases "mapE f ys") simp_all
qed

lemma numberRecords_append:
  "numberRecords n (xs @ ys) = numberRecords n xs @ numberRecords (n + int (length xs)) ys"
  by (induction xs arbitrary: n) (simp_all add: add.assoc add.commute)

lemma normalizeRecords_keep:
  assumes "normalizeRecords (numberRecords n log) = Inr evs" "\<And>e x. f (e\<lparr>evPosition := x\<rparr>) = f e"
  shows "map f evs = map f log"
proof -
  have "map f evs = map f (map ercEvent (numberRecords n log))"
    using assms(1) unfolding normalizeRecords_def mapE_eq_Inr
    by (induction rule: list_all2_induct) (auto simp: normalizeRecord_def result_simps assms(2))
  then show ?thesis by simp
qed

lemma projectionAt_normalized:
  assumes "projectionAt m log p"
  obtains i evs where "meetingId m = Inr i" "normalizeRecords (numberRecords 1 log) = Inr evs"
    "replayMeeting i evs = Inr p" "map evEventId evs = map evEventId log"
    "map evIdempotencyKey evs = map evIdempotencyKey log" "map evPayload evs = map evPayload log"
    "map evScope evs = map evScope log" "map evActor evs = map evActor log"
proof -
  obtain i evs where i: "meetingId m = Inr i" and evs: "normalizeRecords (numberRecords 1 log) = Inr evs"
    and p: "replayMeeting i evs = Inr p"
    using assms by (auto simp: projectionAt_def projectRecords_def result_simps)
  show thesis
    by (rule that[OF i evs p]) (rule normalizeRecords_keep[OF evs], simp)+
qed

lemma projectionAt_meeting:
  assumes "projectionAt m log p"
  shows "meetingId m = Inr (mprMeetingId p) \<and> projectionOk p"
proof -
  obtain i evs where "meetingId m = Inr i" "replayMeeting i evs = Inr p"
    using assms by (rule projectionAt_normalized)
  with replay_projectionOk[of i evs p] show ?thesis by simp
qed

lemma projectionAt_snoc:
  assumes "projectionAt m log p" "meetingPosition (int (length log) + 1) = Inr (evPosition ev)"
  shows "projectionAt m (log @ [ev]) q \<longleftrightarrow> reduceMeetingProjection p ev = Inr q"
proof -
  obtain i evs where i: "meetingId m = Inr i" "normalizeRecords (numberRecords 1 log) = Inr evs"
    "replayMeeting i evs = Inr p"
    using assms(1) by (rule projectionAt_normalized)
  have "normalizeRecords (numberRecords 1 (log @ [ev])) = Inr (evs @ [ev])"
    using i(2) assms(2) by (simp add: normalizeRecords_def numberRecords_append mapE_append normalizeRecord_def
        add.commute)
  with i show ?thesis
    by (simp add: projectionAt_def projectRecords_def replayMeeting_def foldE_snoc)
qed

lemma replay_receipts:
  "replayMeeting m evs = Inr p \<Longrightarrow>
     prcEventId ` set (mprProcessedEvents p) \<subseteq> evEventId ` set (acceptedEvents m evs) \<and>
     (\<forall>k \<in> rcpKey ` set (mprIdempotencyReceipts p). \<exists>ev \<in> set (acceptedEvents m evs). evIdempotencyKey ev = Some k)"
proof (induction rule: replay_induct)
  case empty
  then show ?case by (simp add: createEmptyMeetingProjection_def)
next
  case (accept acc st ev shared ws)
  then show ?case by (auto simp: recordEvent_receipts split: option.splits)
qed

lemma projectionAt_receipts:
  assumes "projectionAt m log p"
  shows "prcEventId ` set (mprProcessedEvents p) \<subseteq> evEventId ` set log \<and>
    (\<forall>k \<in> rcpKey ` set (mprIdempotencyReceipts p). \<exists>ev \<in> set log. evIdempotencyKey ev = Some k)"
proof -
  obtain i evs where evs: "replayMeeting i evs = Inr p" "map evEventId evs = map evEventId log"
    "map evIdempotencyKey evs = map evIdempotencyKey log"
    using assms by (rule projectionAt_normalized)
  have sub: "set (acceptedEvents i evs) \<subseteq> set evs"
    unfolding acceptedEvents_def by (rule acceptedFrom_subset)
  have ids: "evEventId ` set evs = evEventId ` set log" and
    keys: "evIdempotencyKey ` set evs = evIdempotencyKey ` set log"
    using evs(2,3) by (metis list.set_map)+
  have "\<exists>old \<in> set log. evIdempotencyKey old = Some k" if "ev \<in> set evs" "evIdempotencyKey ev = Some k" for ev k
  proof -
    have "Some k \<in> evIdempotencyKey ` set evs" unfolding that(2)[symmetric] by (rule imageI) (rule that(1))
    then obtain old where "Some k = evIdempotencyKey old" "old \<in> set log" unfolding keys by (rule imageE)
    then show ?thesis by (intro bexI[of _ old]) simp_all
  qed
  with replay_receipts[OF evs(1)] sub have "\<forall>k \<in> rcpKey ` set (mprIdempotencyReceipts p).
      \<exists>ev \<in> set log. evIdempotencyKey ev = Some k" by blast
  moreover from replay_receipts[OF evs(1)] image_mono[OF sub, of evEventId]
  have "prcEventId ` set (mprProcessedEvents p) \<subseteq> evEventId ` set log" unfolding ids by (blast intro: subset_trans)
  ultimately show ?thesis by (rule conjI[rotated])
qed

lemma projectionAt_step:
  assumes p: "projectionAt m log p" "mprPosition p = int (length log)"
    and ev: "wellPlaced m log ev" "evEventId ev \<notin> evEventId ` set log"
  shows "acceptsEvent p ev \<and> (\<exists>sh ws. reduceScopes p ev = Inr (sh, ws) \<and>
    projectionAt m (log @ [ev]) (recordEvent p ev (eventFingerprint ev) sh ws))"
proof -
  have meeting: "evMeetingId ev = mprMeetingId p" and ok: "projectionOk p"
    using projectionAt_meeting[OF p(1)] ev(1) by (auto simp: wellPlaced_def)
  have pos: "meetingPosition (int (length log) + 1) = Inr (evPosition ev)"
    and at: "evPosition ev = mprPosition p + 1"
    using ev(1) p(2) by (auto simp: wellPlaced_def meetingPosition_Inr)
  have new: "acceptsEvent p ev"
    unfolding acceptsEvent_def findDuplicate_False
    using projectionAt_receipts[OF p(1)] ev by (auto simp: wellPlaced_def)
  obtain sh ws where "reduceScopes p ev = Inr (sh, ws)"
    using reduceScopes_fits[OF ok meeting] at ev(1) by (auto simp: wellPlaced_def)
  then have "reduceMeetingProjection p ev = Inr (recordEvent p ev (eventFingerprint ev) sh ws)"
    using meeting new at by (simp add: reduceMeetingProjection_Inr)
  with new \<open>reduceScopes p ev = Inr (sh, ws)\<close> projectionAt_snoc[OF p(1) pos] show ?thesis by blast
qed

lemma healthy_snoc:
  assumes "healthy m log" "wellPlaced m log ev" "evEventId ev \<notin> evEventId ` set log"
  shows "healthy m (log @ [ev])"
proof -
  obtain p where p: "projectionAt m log p" "mprPosition p = int (length log)"
    using assms(1) by (auto simp: healthy_def)
  from projectionAt_step[OF this assms(2,3)] obtain sh ws where
    "projectionAt m (log @ [ev]) (recordEvent p ev (eventFingerprint ev) sh ws)" by blast
  moreover have "evPosition ev = int (length (log @ [ev]))"
    using assms(2) by (auto simp: wellPlaced_def meetingPosition_Inr)
  ultimately show ?thesis unfolding healthy_def by (metis recordEvent_simps(2))
qed

lemma healthy_append:
  "healthy m log \<Longrightarrow> wellPlacedAll m log evs \<Longrightarrow> distinct (map evEventId (log @ evs)) \<Longrightarrow>
     healthy m (log @ evs)"
proof (induction evs arbitrary: log)
  case (Cons ev evs)
  have "healthy m (log @ [ev])"
    by (rule healthy_snoc) (use Cons.prems in \<open>auto\<close>)
  from Cons.IH[OF this] Cons.prems show ?case by simp
qed simp

lemma healthy_empty: "meetingId m = Inr i \<Longrightarrow> healthy m []"
  by (auto simp: healthy_def projectionAt_def projectRecords_def normalizeRecords_def replayMeeting_def
      createEmptyMeetingProjection_def)

text \<open>Induction over a well-placed log and the projections of its prefixes.\<close>

lemma placed_induct [consumes 3, case_names empty accept]:
  assumes "wellPlacedAll m [] log" "distinct (map evEventId log)" "projectionAt m log p"
    and empty: "\<And>i. meetingId m = Inr i \<Longrightarrow> P [] (createEmptyMeetingProjection i)"
    and accept: "\<And>log ev p sh ws. wellPlacedAll m [] log \<Longrightarrow> distinct (map evEventId log) \<Longrightarrow>
      projectionAt m log p \<Longrightarrow> P log p \<Longrightarrow> wellPlaced m log ev \<Longrightarrow> reduceScopes p ev = Inr (sh, ws) \<Longrightarrow>
      P (log @ [ev]) (recordEvent p ev (eventFingerprint ev) sh ws)"
  shows "P log p"
  using assms(1-3)
proof (induction log arbitrary: p rule: rev_induct)
  case Nil
  then show ?case
    by (auto simp: projectionAt_def projectRecords_def normalizeRecords_def replayMeeting_def result_simps
        intro: empty)
next
  case (snoc ev log)
  obtain i where i: "meetingId m = Inr i" using projectionAt_meeting[OF snoc.prems(3)] by blast
  have placed: "wellPlacedAll m [] log" "wellPlaced m log ev"
    using snoc.prems(1) by (auto simp: stepwise_append)
  have ids: "distinct (map evEventId log)" "evEventId ev \<notin> evEventId ` set log" using snoc.prems(2) by auto
  have "healthy m log" using healthy_append[OF healthy_empty[OF i], of log] placed ids by simp
  then obtain p0 where p0: "projectionAt m log p0" "mprPosition p0 = int (length log)"
    by (auto simp: healthy_def)
  obtain sh ws where step: "reduceScopes p0 ev = Inr (sh, ws)"
    "projectionAt m (log @ [ev]) (recordEvent p0 ev (eventFingerprint ev) sh ws)"
    using projectionAt_step[OF p0 placed(2) ids(2)] by blast
  then have "p = recordEvent p0 ev (eventFingerprint ev) sh ws"
    using snoc.prems(3) by (simp add: projectionAt_def)
  with accept[OF placed(1) ids(1) p0(1) snoc.IH[OF placed(1) ids(1) p0(1)] placed(2) step(1)]
  show ?case by simp
qed

end
