(* ===== verification/Bytes.thy ===== *)
theory Bytes
  imports JsLib "HOL-Library.Word"
begin

section \<open>Bytes and UTF-8\<close>

text \<open>
  \<open>TextEncoder\<close> and the fatal \<open>TextDecoder\<close> of the language's library on the texts of the model, whose
  code units are below 256: one byte for each below 128, two bytes above. The decoder drops a
  leading byte order mark, and refuses what is not the encoding of such a text. Decoding what was
  encoded gives the text back.
\<close>

type_synonym bytes = "8 word list"

definition byte :: "nat \<Rightarrow> 8 word" where
  "byte n = word_of_nat n"

definition utf8Char :: "char \<Rightarrow> bytes" where
  "utf8Char c =
     (let n = codeUnit c in
      if n < 128 then [byte n]
      else [byte (192 + n div 64), byte (128 + n mod 64)])"

definition textEncode :: "string \<Rightarrow> bytes" where
  "textEncode s = concat (map utf8Char s)"

fun utf8Decode :: "bytes \<Rightarrow> string option" where
  "utf8Decode [] = Some []"
| "utf8Decode (b # bs) =
     (if unat b < 128 then map_option (Cons (char_of (unat b))) (utf8Decode bs)
      else if unat b = 194 \<or> unat b = 195 then
        (case bs of
           [] \<Rightarrow> None
         | c # cs \<Rightarrow>
             if 128 \<le> unat c \<and> unat c < 192
             then map_option (Cons (char_of ((unat b - 192) * 64 + (unat c - 128)))) (utf8Decode cs)
             else None)
      else None)"

definition byteOrderMark :: bytes where
  "byteOrderMark = [239, 187, 191]"

definition textDecode :: "bytes \<Rightarrow> string option" where
  "textDecode bs = utf8Decode (if take 3 bs = byteOrderMark then drop 3 bs else bs)"

lemma codeUnit_less: "codeUnit c < 256"
  unfolding codeUnit_def using nat_of_char_less_256[of c] by simp

lemma char_of_codeUnit [simp]: "char_of (codeUnit c) = c"
  by (simp add: codeUnit_def)

lemma unat_byte: "n < 256 \<Longrightarrow> unat (byte n) = n"
  by (simp add: byte_def unat_of_nat)

lemma utf8Decode_char: "utf8Decode (utf8Char c @ bs) = map_option (Cons c) (utf8Decode bs)"
proof (cases "codeUnit c < 128")
  case True
  then show ?thesis by (simp add: utf8Char_def unat_byte)
next
  case False
  let ?n = "codeUnit c"
  have n: "?n < 256" by (rule codeUnit_less)
  then have "unat (byte (192 + ?n div 64)) = 192 + ?n div 64"
    "unat (byte (128 + ?n mod 64)) = 128 + ?n mod 64"
    by (simp_all add: unat_byte)
  moreover have "?n div 64 = 2 \<or> ?n div 64 = 3" using False n by linarith
  moreover have "(?n div 64) * 64 + ?n mod 64 = ?n" by simp
  ultimately show ?thesis using False by (auto simp: utf8Char_def Let_def)
qed

lemma utf8Decode_encode: "utf8Decode (textEncode s @ bs) = map_option ((@) s) (utf8Decode bs)"
  by (induction s) (auto simp: textEncode_def utf8Decode_char option.map_comp comp_def option.map_ident)

lemma utf8Char_lead: "b \<in> set (utf8Char c) \<Longrightarrow> unat b \<noteq> 239"
  using codeUnit_less[of c] by (auto simp: utf8Char_def Let_def unat_byte split: if_splits)

lemma encode_no_mark: "take 3 (textEncode s) \<noteq> byteOrderMark"
proof
  assume "take 3 (textEncode s) = byteOrderMark"
  then have "239 \<in> set (take 3 (textEncode s))" by (simp add: byteOrderMark_def)
  then have "239 \<in> set (textEncode s)" by (meson in_set_takeD)
  then obtain c where "239 \<in> set (utf8Char c)" by (auto simp: textEncode_def)
  from utf8Char_lead[OF this] show False by simp
qed

theorem decode_encode: "textDecode (textEncode s) = Some s"
  using utf8Decode_encode[of s "[]"] encode_no_mark[of s] by (simp add: textDecode_def)

lemma length_textEncode: "length (textEncode s) \<le> 2 * length s"
  by (induction s) (auto simp: textEncode_def utf8Char_def Let_def)

end
