(* ===== verification/ArtifactStore.thy ===== *)
theory ArtifactStore
  imports Bytes Entities
begin

section \<open>The artifact store: \<open>packages/adapters-node/src/artifacts.ts\<close>\<close>

text \<open>
  Artifacts are files below the root directory of the store, in the directory of their meeting and,
  when private, of their owner. A file system gives the node of every path; paths are strings, and
  \<open>join\<close> of a directory and a checked segment puts a slash between them. The store refuses segments
  that could leave its directory and never follows a link. \<open>root\<close> is the resolved root directory and
  \<open>unique\<close> the random part of the name of a temporary file. Failures of the disk are not modelled.
\<close>

subsection \<open>The port\<close>

record artifactScope =
  ascArtifactId :: string
  ascMeetingId :: string
  ascOwnerParticipantId :: "string option"
  ascVisibility :: visibility

record artifactMetadata =
  amdScope :: artifactScope
  amdContentType :: string
  amdHash :: string
  amdSize :: int
  amdStorageReference :: string

record artifactWrite =
  awrBytes :: bytes
  awrContentType :: string
  awrHash :: string
  awrScope :: artifactScope

subsection \<open>The file system\<close>

datatype fileNode = DirectoryNode | FileNode bytes | LinkNode

type_synonym files = "string \<Rightarrow> fileNode option"

definition joinPath :: "string \<Rightarrow> string \<Rightarrow> string" where
  "joinPath directory segment = directory @ ''/'' @ segment"

definition hasChar :: "string \<Rightarrow> char \<Rightarrow> bool" where
  "hasChar s c = List.member s c"

subsection \<open>Checked paths\<close>

definition validateSegment :: "string \<Rightarrow> string \<Rightarrow> exn + unit" where
  "validateSegment value label =
     ensure (\<not> (length value = 0 \<or> value = ''.'' \<or> value = ''..'' \<or> hasChar value (CHR ''/'') \<or>
              hasChar value (CHR 0x5C) \<or> hasChar value (CHR 0x00) \<or> take 1 value = ''/''))
       (TypeError (label @ '' is not a safe path segment''))"

definition validateScope :: "artifactScope \<Rightarrow> exn + unit" where
  "validateScope scope =
     bindE (validateSegment (ascMeetingId scope) ''meetingId'') (\<lambda>_.
     bindE (validateSegment (ascArtifactId scope) ''artifactId'') (\<lambda>_.
     bindE (ensure (\<not> (ascVisibility scope = Private \<and> ascOwnerParticipantId scope = None \<or>
                      ascVisibility scope = Shared \<and> ascOwnerParticipantId scope \<noteq> None))
       (JsError ''Artifact visibility and owner scope do not agree'')) (\<lambda>_.
     case ascOwnerParticipantId scope of
       None \<Rightarrow> Inr ()
     | Some owner \<Rightarrow> validateSegment owner ''ownerParticipantId'')))"

text \<open>On normalised absolute paths: the candidate is the root or lies below it.\<close>

definition isWithinRoot :: "string \<Rightarrow> string \<Rightarrow> bool" where
  "isWithinRoot root candidate \<longleftrightarrow>
     candidate = root \<or> take (length root + 1) candidate = root @ ''/''"

subsection \<open>Operations\<close>

definition ensureRoot :: "string \<Rightarrow> files \<Rightarrow> (exn + string) \<times> files" where
  "ensureRoot root fs =
     (case fs root of
        None \<Rightarrow> (Inr root, fs(root \<mapsto> DirectoryNode))
      | Some DirectoryNode \<Rightarrow> (Inr root, fs)
      | Some _ \<Rightarrow> (Inl (JsError ''EEXIST''), fs))"

definition scopeSegments :: "artifactScope \<Rightarrow> string list" where
  "scopeSegments scope =
     (if ascVisibility scope = Shared then [''meetings'', ascMeetingId scope, ''shared'']
      else [''meetings'', ascMeetingId scope, ''private'',
            case ascOwnerParticipantId scope of None \<Rightarrow> '''' | Some owner \<Rightarrow> owner])"

fun openDirectories ::
  "string \<Rightarrow> bool \<Rightarrow> string \<Rightarrow> string list \<Rightarrow> files \<Rightarrow> (exn + string option) \<times> files" where
  "openDirectories root create directory [] fs = (Inr (Some directory), fs)"
| "openDirectories root create directory (segment # segments) fs =
     (let next = joinPath directory segment in
      if \<not> isWithinRoot root next then (Inl (JsError ''Artifact path escapes its storage root''), fs)
      else
        (case fs next of
           Some DirectoryNode \<Rightarrow> openDirectories root create next segments fs
         | Some _ \<Rightarrow> (Inl (JsError ''Artifact directory path is not a safe directory''), fs)
         | None \<Rightarrow>
             if create then openDirectories root create next segments (fs(next \<mapsto> DirectoryNode))
             else (Inr None, fs)))"

definition locate ::
  "string \<Rightarrow> artifactScope \<Rightarrow> bool \<Rightarrow> files \<Rightarrow> (exn + (string \<times> string) option) \<times> files" where
  "locate root scope create fs =
     (case validateScope scope of
        Inl e \<Rightarrow> (Inl e, fs)
      | Inr _ \<Rightarrow>
          (case ensureRoot root fs of
             (Inl e, fs') \<Rightarrow> (Inl e, fs')
           | (Inr r, fs') \<Rightarrow>
               (case openDirectories r create r (scopeSegments scope) fs' of
                  (Inl e, fs'') \<Rightarrow> (Inl e, fs'')
                | (Inr None, fs'') \<Rightarrow> (Inr None, fs'')
                | (Inr (Some path), fs'') \<Rightarrow>
                    (Inr (Some (path, joinWith ''/'' (scopeSegments scope))), fs''))))"

definition readSafeFile :: "string \<Rightarrow> files \<Rightarrow> exn + bytes option" where
  "readSafeFile path fs =
     (case fs path of
        None \<Rightarrow> Inr None
      | Some (FileNode bs) \<Rightarrow> Inr (Some bs)
      | Some _ \<Rightarrow> Inl (JsError ''Artifact path is not a regular file''))"

definition getArtifact :: "string \<Rightarrow> artifactScope \<Rightarrow> files \<Rightarrow> (exn + bytes option) \<times> files" where
  "getArtifact root scope fs =
     (case locate root scope False fs of
        (Inl e, fs') \<Rightarrow> (Inl e, fs')
      | (Inr None, fs') \<Rightarrow> (Inr None, fs')
      | (Inr (Some (path, _)), fs') \<Rightarrow> (readSafeFile (joinPath path (ascArtifactId scope)) fs', fs'))"

definition deleteArtifact :: "string \<Rightarrow> artifactScope \<Rightarrow> files \<Rightarrow> (exn + unit) \<times> files" where
  "deleteArtifact root scope fs =
     (case locate root scope False fs of
        (Inl e, fs') \<Rightarrow> (Inl e, fs')
      | (Inr None, fs') \<Rightarrow> (Inr (), fs')
      | (Inr (Some (path, _)), fs') \<Rightarrow>
          (let target = joinPath path (ascArtifactId scope) in
           case fs' target of
             None \<Rightarrow> (Inr (), fs')
           | Some (FileNode _) \<Rightarrow> (Inr (), fs'(target := None))
           | Some _ \<Rightarrow> (Inl (JsError ''Artifact path is not a regular file''), fs')))"

text \<open>
  The bytes go to a new temporary file that is renamed to the artifact. When the file cannot be
  created or renamed, the temporary file is unlinked and the error thrown on.
\<close>

definition temporaryName :: "string \<Rightarrow> string \<Rightarrow> string" where
  "temporaryName artifact unique = ''.'' @ artifact @ ''.'' @ unique @ ''.tmp''"

definition unlinkQuietly :: "string \<Rightarrow> files \<Rightarrow> files" where
  "unlinkQuietly path fs = (if fs path = Some DirectoryNode then fs else fs(path := None))"

definition writeNew :: "string \<Rightarrow> string \<Rightarrow> bytes \<Rightarrow> files \<Rightarrow> (exn + unit) \<times> files" where
  "writeNew temporary target bs fs =
     (if fs temporary \<noteq> None then (Inl (JsError ''EEXIST''), unlinkQuietly temporary fs)
      else if fs target = Some DirectoryNode then (Inl (JsError ''EISDIR''), fs)
      else (Inr (), fs(target \<mapsto> FileNode bs)))"

definition putArtifact ::
  "string \<Rightarrow> string \<Rightarrow> artifactWrite \<Rightarrow> files \<Rightarrow> (exn + artifactMetadata) \<times> files" where
  "putArtifact root unique write fs =
     (let scope = awrScope write in
      case locate root scope True fs of
        (Inl e, fs') \<Rightarrow> (Inl e, fs')
      | (Inr None, fs') \<Rightarrow> (Inl (JsError ''Artifact directory could not be created''), fs')
      | (Inr (Some (path, reference)), fs') \<Rightarrow>
          (let temporary = joinPath path (temporaryName (ascArtifactId scope) unique);
               target = joinPath path (ascArtifactId scope) in
           if \<not> isWithinRoot root temporary \<or> \<not> isWithinRoot root target
           then (Inl (JsError ''Artifact path escapes its storage root''), fs')
           else
             (case writeNew temporary target (awrBytes write) fs' of
                (Inl e, fs'') \<Rightarrow> (Inl e, fs'')
              | (Inr _, fs'') \<Rightarrow>
                  (Inr \<lparr>amdScope = scope, amdContentType = awrContentType write,
                     amdHash = awrHash write, amdSize = int (length (awrBytes write)),
                     amdStorageReference = reference @ ''/'' @ ascArtifactId scope\<rparr>, fs''))))"

subsection \<open>Paths are unambiguous\<close>

definition pathOf :: "string \<Rightarrow> string list \<Rightarrow> string" where
  "pathOf root segments = foldl joinPath root segments"

definition plainSegment :: "string \<Rightarrow> bool" where
  "plainSegment s \<longleftrightarrow> CHR ''/'' \<notin> set s"

lemma pathOf_Nil [simp]: "pathOf root [] = root"
  by (simp add: pathOf_def)

lemma pathOf_snoc [simp]: "pathOf root (segs @ [s]) = joinPath (pathOf root segs) s"
  by (simp add: pathOf_def)

lemma pathOf_Cons: "pathOf root (s # segs) = pathOf (joinPath root s) segs"
  by (simp add: pathOf_def)

lemma joinPath_inj:
  assumes "joinPath d s = joinPath d' s'" "plainSegment s" "plainSegment s'"
  shows "d = d' \<and> s = s'"
proof -
  let ?p = "\<lambda>c. c \<noteq> CHR ''/''"
  have split: "takeWhile ?p (rev (joinPath x y)) = rev y" "dropWhile ?p (rev (joinPath x y)) = CHR ''/'' # rev x"
    if "plainSegment y" for x y
  proof -
    have "takeWhile ?p (rev y @ CHR ''/'' # rev x) = rev y"
      using that by (subst takeWhile_append2) (auto simp: plainSegment_def)
    moreover have "dropWhile ?p (rev y @ CHR ''/'' # rev x) = CHR ''/'' # rev x"
      using that by (subst dropWhile_append2) (auto simp: plainSegment_def)
    ultimately show "takeWhile ?p (rev (joinPath x y)) = rev y"
      "dropWhile ?p (rev (joinPath x y)) = CHR ''/'' # rev x" by (simp_all add: joinPath_def)
  qed
  have "rev s = rev s'" using split(1)[OF assms(2), of d] split(1)[OF assms(3), of d'] assms(1) by simp
  moreover have "CHR ''/'' # rev d = CHR ''/'' # rev d'"
    using split(2)[OF assms(2), of d] split(2)[OF assms(3), of d'] assms(1) by simp
  ultimately show ?thesis by simp
qed

lemma length_joinPath: "length (joinPath d s) = length d + length s + 1"
  by (simp add: joinPath_def)

lemma length_pathOf: "length (pathOf root segs) \<ge> length root + length segs"
  by (induction segs rule: rev_induct) (simp_all add: length_joinPath)

lemma pathOf_inj:
  "pathOf root segs = pathOf root segs' \<Longrightarrow> list_all plainSegment segs \<Longrightarrow> list_all plainSegment segs' \<Longrightarrow>
     segs = segs'"
proof (induction segs arbitrary: segs' rule: rev_induct)
  case Nil
  show ?case using length_pathOf[of root segs'] Nil(1) by (cases segs') auto
next
  case (snoc s segs)
  show ?case
  proof (cases segs' rule: rev_cases)
    case Nil
    with snoc.prems(1) length_pathOf[of root "segs @ [s]"] show ?thesis by simp
  next
    case (snoc ts t)
    with snoc.prems snoc.IH[of ts] joinPath_inj[of "pathOf root segs" s "pathOf root ts" t] show ?thesis by simp
  qed
qed

lemma joinPath_not_shorter: "joinPath d s \<noteq> d"
  using length_joinPath[of d s] by (metis add_cancel_right_right less_add_one nat_neq_iff trans_less_add1)

lemma pathOf_prefix: "\<exists>rest. pathOf root segs = root @ rest \<and> (segs \<noteq> [] \<longrightarrow> take 1 rest = ''/'')"
proof (induction segs rule: rev_induct)
  case (snoc s segs)
  then obtain rest where "pathOf root segs = root @ rest" "segs \<noteq> [] \<longrightarrow> take 1 rest = ''/''" by blast
  moreover have "pathOf root [] = root" by simp
  ultimately have "joinPath (pathOf root segs) s = root @ rest @ ''/'' @ s"
    "take 1 (rest @ ''/'' @ s) = ''/''"
    by (cases segs; cases rest; simp add: joinPath_def)+
  then show ?case unfolding pathOf_snoc by blast
qed simp

lemma within_pathOf: "isWithinRoot root (pathOf root segs)"
  using pathOf_prefix[of root segs] by (cases segs) (auto simp: isWithinRoot_def)

subsection \<open>Scopes\<close>

lemma validateSegment_plain: "validateSegment s l = Inr u \<Longrightarrow> plainSegment s"
  by (auto simp: validateSegment_def ensure_def plainSegment_def hasChar_def split: if_splits)

definition scopePath :: "artifactScope \<Rightarrow> string list" where
  "scopePath scope = scopeSegments scope @ [ascArtifactId scope]"

definition validScope :: "artifactScope \<Rightarrow> bool" where
  "validScope scope \<longleftrightarrow> validateScope scope = Inr ()"

lemma validScope_plain: "validScope scope \<Longrightarrow> list_all plainSegment (scopePath scope)"
  by (auto simp: validScope_def validateScope_def result_simps scopePath_def scopeSegments_def
      plainSegment_def[of "''meetings''"] plainSegment_def[of "''shared''"] plainSegment_def[of "''private''"]
      plainSegment_def[of "[]"] dest!: validateSegment_plain split: option.splits)

lemma validScope_owner:
  "validScope scope \<Longrightarrow> (ascVisibility scope = Shared) = (ascOwnerParticipantId scope = None)"
  by (cases "ascVisibility scope")
    (auto simp: validScope_def validateScope_def result_simps ensure_def split: option.splits if_splits)

lemma scopePath_inj:
  "scopePath s = scopePath t \<Longrightarrow> validScope s \<Longrightarrow> validScope t \<Longrightarrow> s = t"
  using validScope_owner[of s] validScope_owner[of t]
  by (cases s; cases t) (auto simp: scopePath_def scopeSegments_def split: if_splits option.splits, (metis visibility.exhaust)+)

text \<open>The directory of one scope is never the file of another.\<close>

lemma directory_not_artifact:
  assumes "take k (scopeSegments s) = scopePath t"
  shows False
proof -
  have "length (scopePath t) \<le> length (scopeSegments s)"
    using arg_cong[OF assms, of length] by simp
  moreover from this have "take k (scopeSegments s) = scopeSegments s"
    using arg_cong[OF assms, of length] by (auto simp: scopePath_def scopeSegments_def split: if_splits)
  ultimately show False using assms by (auto simp: scopePath_def scopeSegments_def split: if_splits)
qed

subsection \<open>Reading\<close>

text \<open>\<open>readBelow\<close> is what a get finds below a directory.\<close>

fun readBelow :: "string \<Rightarrow> string \<Rightarrow> string list \<Rightarrow> string \<Rightarrow> files \<Rightarrow> exn + bytes option" where
  "readBelow root d [] a fs = readSafeFile (joinPath d a) fs"
| "readBelow root d (s # ss) a fs =
     (if \<not> isWithinRoot root (joinPath d s) then Inl (JsError ''Artifact path escapes its storage root'')
      else case fs (joinPath d s) of
             Some DirectoryNode \<Rightarrow> readBelow root (joinPath d s) ss a fs
           | Some _ \<Rightarrow> Inl (JsError ''Artifact directory path is not a safe directory'')
           | None \<Rightarrow> Inr None)"

lemma openDirectories_read:
  "openDirectories root False d ss fs = (r, fs') \<Longrightarrow>
     fs' = fs \<and> readBelow root d ss a fs =
       (case r of Inl e \<Rightarrow> Inl e | Inr None \<Rightarrow> Inr None | Inr (Some p) \<Rightarrow> readSafeFile (joinPath p a) fs)"
  by (induction ss arbitrary: d) (auto simp: Let_def split: if_splits option.splits fileNode.splits)

text \<open>What a get of a valid scope answers, once the root directory exists.\<close>

definition rootOk :: "string \<Rightarrow> files \<Rightarrow> bool" where
  "rootOk root fs \<longleftrightarrow> fs root = Some DirectoryNode"

definition lookupArtifact :: "string \<Rightarrow> files \<Rightarrow> artifactScope \<Rightarrow> exn + bytes option" where
  "lookupArtifact root fs scope = readBelow root root (scopeSegments scope) (ascArtifactId scope) fs"

lemma getArtifact_lookup:
  assumes "validScope scope" "rootOk root fs"
  shows "getArtifact root scope fs = (lookupArtifact root fs scope, fs)"
proof -
  obtain r fs' where o: "openDirectories root False root (scopeSegments scope) fs = (r, fs')"
    by (cases "openDirectories root False root (scopeSegments scope) fs")
  from openDirectories_read[OF o, of "ascArtifactId scope"] o assms show ?thesis
    by (auto simp: getArtifact_def locate_def lookupArtifact_def validScope_def rootOk_def ensureRoot_def
        split: sum.splits option.splits)
qed

subsection \<open>Writing\<close>

text \<open>The directories on the way to a scope.\<close>

definition onTheWay :: "string \<Rightarrow> string list \<Rightarrow> string \<Rightarrow> bool" where
  "onTheWay d ss q \<longleftrightarrow> (\<exists>k. 0 < k \<and> k \<le> length ss \<and> q = pathOf d (take k ss))"

lemma onTheWay_Cons: "onTheWay d (s # ss) q \<longleftrightarrow> q = joinPath d s \<or> onTheWay (joinPath d s) ss q"
proof
  assume "onTheWay d (s # ss) q"
  then obtain k where "0 < k" "k \<le> Suc (length ss)" "q = pathOf d (take k (s # ss))"
    by (auto simp: onTheWay_def)
  then show "q = joinPath d s \<or> onTheWay (joinPath d s) ss q"
    by (cases k) (auto simp: onTheWay_def pathOf_Cons intro!: exI[of _ "k - 1"], metis gr0I pathOf_Nil take0)
next
  assume "q = joinPath d s \<or> onTheWay (joinPath d s) ss q"
  then show "onTheWay d (s # ss) q"
  proof
    assume "q = joinPath d s"
    then show ?thesis unfolding onTheWay_def by (intro exI[of _ 1]) (simp add: pathOf_Cons)
  next
    assume "onTheWay (joinPath d s) ss q"
    then obtain k where "0 < k" "k \<le> length ss" "q = pathOf (joinPath d s) (take k ss)"
      by (auto simp: onTheWay_def)
    then show ?thesis unfolding onTheWay_def by (intro exI[of _ "Suc k"]) (simp add: pathOf_Cons)
  qed
qed

lemma openDirectories_create:
  "openDirectories root True d ss fs = (Inr x, fs') \<Longrightarrow>
     x = Some (pathOf d ss) \<and>
     (\<forall>q. fs' q = (if onTheWay d ss q then Some DirectoryNode else fs q)) \<and>
     (\<forall>q. onTheWay d ss q \<longrightarrow> fs q = None \<or> fs q = Some DirectoryNode)"
proof (induction ss arbitrary: d fs)
  case Nil
  then show ?case by (auto simp: onTheWay_def)
next
  case (Cons s ss)
  show ?case
  proof (cases "fs (joinPath d s)")
    case None
    with Cons.prems have "openDirectories root True (joinPath d s) ss (fs(joinPath d s \<mapsto> DirectoryNode)) = (Inr x, fs')"
      by (auto simp: Let_def split: if_splits)
    from Cons.IH[OF this] None show ?thesis by (auto simp: onTheWay_Cons pathOf_Cons split: if_splits)
  next
    case (Some node)
    with Cons.prems have "node = DirectoryNode" "openDirectories root True (joinPath d s) ss fs = (Inr x, fs')"
      by (auto simp: Let_def split: if_splits fileNode.splits)
    from Cons.IH[OF this(2)] Some this(1) show ?thesis by (auto simp: onTheWay_Cons pathOf_Cons)
  qed
qed

definition artifactPath :: "string \<Rightarrow> artifactScope \<Rightarrow> string" where
  "artifactPath root scope = pathOf root (scopePath scope)"

lemma putArtifact_Inr:
  assumes put: "putArtifact root unique write fs = (Inr stored, fs')" and root: "rootOk root fs"
  shows "validScope (awrScope write) \<and> amdSize stored = int (length (awrBytes write)) \<and>
    fs (artifactPath root (awrScope write)) \<noteq> Some DirectoryNode \<and>
    \<not> onTheWay root (scopeSegments (awrScope write)) (artifactPath root (awrScope write)) \<and>
    (\<forall>q. onTheWay root (scopeSegments (awrScope write)) q \<longrightarrow> fs q = None \<or> fs q = Some DirectoryNode) \<and>
    (\<forall>q. fs' q = (if q = artifactPath root (awrScope write) then Some (FileNode (awrBytes write))
                  else if onTheWay root (scopeSegments (awrScope write)) q then Some DirectoryNode
                  else fs q))"
proof -
  let ?scope = "awrScope write" and ?ss = "scopeSegments (awrScope write)"
  obtain path reference fs1 where loc: "locate root ?scope True fs = (Inr (Some (path, reference)), fs1)"
    using put by (auto simp: putArtifact_def Let_def split: prod.splits sum.splits option.splits)
  then have valid: "validScope ?scope" and o: "openDirectories root True root ?ss fs = (Inr (Some path), fs1)"
    using root by (auto simp: locate_def validScope_def rootOk_def ensureRoot_def split: sum.splits prod.splits option.splits)
  note dirs = openDirectories_create[OF o]
  then have target: "joinPath path (ascArtifactId ?scope) = artifactPath root ?scope"
    by (simp add: artifactPath_def scopePath_def)
  have w: "writeNew (joinPath path (temporaryName (ascArtifactId ?scope) unique)) (artifactPath root ?scope)
      (awrBytes write) fs1 = (Inr (), fs')" and size: "amdSize stored = int (length (awrBytes write))"
    using put loc target by (auto simp: putArtifact_def Let_def split: prod.splits sum.splits if_splits)
  then have "fs1 (artifactPath root ?scope) \<noteq> Some DirectoryNode"
    "fs' = fs1(artifactPath root ?scope \<mapsto> FileNode (awrBytes write))"
    by (auto simp: writeNew_def split: if_splits)
  with dirs valid size show ?thesis by (auto split: if_splits)
qed

subsection \<open>Well-formed directory trees\<close>

definition treeOk :: "string \<Rightarrow> files \<Rightarrow> bool" where
  "treeOk root fs \<longleftrightarrow> rootOk root fs \<and>
     (\<forall>segs s. list_all plainSegment (segs @ [s]) \<longrightarrow> fs (pathOf root (segs @ [s])) \<noteq> None \<longrightarrow>
        fs (pathOf root segs) = Some DirectoryNode)"

lemma treeOk_child:
  "treeOk root fs \<Longrightarrow> list_all plainSegment (segs @ [s]) \<Longrightarrow> fs (pathOf root segs) = None \<Longrightarrow>
     fs (pathOf root (segs @ [s])) = None"
  unfolding treeOk_def by (metis option.distinct(1))

lemma onTheWay_plain:
  assumes "onTheWay root ss (pathOf root segs)" "list_all plainSegment ss" "list_all plainSegment segs"
  shows "\<exists>k. 0 < k \<and> k \<le> length ss \<and> segs = take k ss"
proof -
  obtain k where k: "0 < k" "k \<le> length ss" "pathOf root segs = pathOf root (take k ss)"
    using assms(1) by (auto simp: onTheWay_def)
  moreover have "list_all plainSegment (take k ss)" using assms(2) by (auto simp: list_all_iff dest: in_set_takeD)
  ultimately show ?thesis using pathOf_inj[OF k(3)] assms(3) by blast
qed

lemma put_treeOk:
  assumes put: "putArtifact root unique write fs = (Inr stored, fs')" and tree: "treeOk root fs"
  shows "treeOk root fs'"
proof -
  let ?scope = "awrScope write" and ?ss = "scopeSegments (awrScope write)"
  have root: "rootOk root fs" using tree by (simp add: treeOk_def)
  note p = putArtifact_Inr[OF put root]
  have plain: "list_all plainSegment (?ss @ [ascArtifactId ?scope])" "list_all plainSegment ?ss"
    using validScope_plain p by (auto simp: scopePath_def)
  have notdir: "q \<noteq> artifactPath root ?scope" if "fs q = Some DirectoryNode" for q
    using p that by auto
  have keep: "fs' q = Some DirectoryNode" if "fs q = Some DirectoryNode" for q
    using p notdir[OF that] that by auto
  have way: "fs' q = Some DirectoryNode" if "onTheWay root ?ss q" for q
    using p that by auto
  have "fs' (pathOf root segs) = Some DirectoryNode"
    if pl: "list_all plainSegment (segs @ [s])" and ex: "fs' (pathOf root (segs @ [s])) \<noteq> None" for segs s
  proof -
    consider (target) "pathOf root (segs @ [s]) = artifactPath root ?scope"
      | (way) "onTheWay root ?ss (pathOf root (segs @ [s]))"
      | (old) "fs (pathOf root (segs @ [s])) \<noteq> None"
      using p ex by metis
    then show ?thesis
    proof cases
      case target
      then have "segs @ [s] = scopePath ?scope"
        using pathOf_inj[of root "segs @ [s]" "scopePath ?scope"] pl plain by (simp add: artifactPath_def scopePath_def)
      then have "segs = ?ss" by (simp add: scopePath_def)
      then have "onTheWay root ?ss (pathOf root segs)"
        unfolding onTheWay_def by (intro exI[of _ "length ?ss"]) (simp add: scopeSegments_def)
      then show ?thesis by (rule way)
    next
      case w: way
      then obtain k where k: "0 < k" "k \<le> length ?ss" "segs @ [s] = take k ?ss"
        using onTheWay_plain[OF w plain(2) pl] by blast
      then have segs: "segs = take (k - 1) ?ss"
        by (metis butlast_snoc butlast_take)
      show ?thesis
      proof (cases "k = 1")
        case True
        then show ?thesis using segs keep root by (simp add: rootOk_def)
      next
        case False
        then have "onTheWay root ?ss (pathOf root segs)"
          unfolding onTheWay_def using k segs by (intro exI[of _ "k - 1"]) auto
        then show ?thesis by (rule way)
      qed
    next
      case old
      then show ?thesis using tree pl keep unfolding treeOk_def by blast
    qed
  qed
  then show ?thesis using keep root by (auto simp: treeOk_def rootOk_def)
qed

subsection \<open>The store is a map from scopes to bytes\<close>

lemma readBelow_grow:
  assumes "treeOk root fs" "list_all plainSegment (segs @ ss @ [a])"
    and "\<And>q. onTheWay (pathOf root segs) ss q \<Longrightarrow> fs' q = fs q \<or> fs q = None \<and> fs' q = Some DirectoryNode"
    and "fs' (pathOf root (segs @ ss @ [a])) = fs (pathOf root (segs @ ss @ [a]))"
  shows "(fs (pathOf root segs) = Some DirectoryNode \<longrightarrow>
      readBelow root (pathOf root segs) ss a fs' = readBelow root (pathOf root segs) ss a fs) \<and>
    (fs (pathOf root segs) = None \<longrightarrow> readBelow root (pathOf root segs) ss a fs' = Inr None)"
  using assms(2-4)
proof (induction ss arbitrary: segs)
  case Nil
  have "fs (pathOf root (segs @ [a])) = None" if "fs (pathOf root segs) = None"
    using treeOk_child[OF assms(1)] Nil.prems(1) that by simp
  with Nil.prems(3) show ?case by (auto simp: readSafeFile_def)
next
  case (Cons s ss)
  let ?next = "pathOf root (segs @ [s])"
  have n: "joinPath (pathOf root segs) s = ?next" by simp
  have step: "fs' ?next = fs ?next \<or> fs ?next = None \<and> fs' ?next = Some DirectoryNode"
    using Cons.prems(2)[of ?next] by (simp add: onTheWay_Cons)
  have ih: "(fs ?next = Some DirectoryNode \<longrightarrow> readBelow root ?next ss a fs' = readBelow root ?next ss a fs) \<and>
      (fs ?next = None \<longrightarrow> readBelow root ?next ss a fs' = Inr None)"
    by (rule Cons.IH) (use Cons.prems in \<open>auto simp: onTheWay_Cons\<close>)
  have missing: "fs (pathOf root segs) = None \<longrightarrow> fs ?next = None"
    using treeOk_child[OF assms(1), of segs s] Cons.prems(1) by simp
  have inside: "isWithinRoot root ?next" by (rule within_pathOf)
  show ?case
  proof (cases "fs ?next")
    case None
    with step ih inside show ?thesis unfolding readBelow.simps n by auto
  next
    case (Some node)
    with missing step ih inside show ?thesis unfolding readBelow.simps n by (cases node) auto
  qed
qed

lemma lookup_put_other:
  assumes put: "putArtifact root unique write fs = (Inr stored, fs')" and tree: "treeOk root fs"
    and scope: "validScope scope" "scope \<noteq> awrScope write"
  shows "lookupArtifact root fs' scope = lookupArtifact root fs scope"
proof -
  let ?w = "awrScope write" and ?ss = "scopeSegments scope"
  have root: "fs (pathOf root []) = Some DirectoryNode" "rootOk root fs"
    using tree by (simp_all add: treeOk_def rootOk_def)
  note p = putArtifact_Inr[OF put root(2)]
  have pw: "list_all plainSegment (scopePath ?w)" "list_all plainSegment (scopeSegments ?w)"
    and ps: "list_all plainSegment (scopePath scope)" "list_all plainSegment ?ss"
    using validScope_plain[of ?w] validScope_plain[OF scope(1)] p by (auto simp: scopePath_def)
  have way: "fs' q = fs q \<or> fs q = None \<and> fs' q = Some DirectoryNode" if q: "onTheWay root ?ss q" for q
  proof -
    obtain k where k: "q = pathOf root (take k ?ss)" using q by (auto simp: onTheWay_def)
    have "q \<noteq> artifactPath root ?w"
    proof
      assume "q = artifactPath root ?w"
      then have "take k ?ss = scopePath ?w"
        unfolding k artifactPath_def by (rule pathOf_inj) (use ps pw in \<open>auto simp: list_all_iff dest: in_set_takeD\<close>)
      then show False by (rule directory_not_artifact)
    qed
    with p show ?thesis by auto
  qed
  have kept: "fs' (pathOf root (scopePath scope)) = fs (pathOf root (scopePath scope))"
  proof -
    have "pathOf root (scopePath scope) \<noteq> artifactPath root ?w"
      using pathOf_inj[of root "scopePath scope" "scopePath ?w"] scopePath_inj[of scope ?w] scope p pw ps
      by (auto simp: artifactPath_def)
    moreover have "\<not> onTheWay root (scopeSegments ?w) (pathOf root (scopePath scope))"
      using onTheWay_plain[OF _ pw(2) ps(1)] directory_not_artifact by metis
    ultimately show ?thesis using p by simp
  qed
  show ?thesis
    using readBelow_grow[OF tree, of "[]" ?ss "ascArtifactId scope" fs'] way kept root ps
    by (simp add: lookupArtifact_def scopePath_def)
qed

lemma readBelow_found:
  assumes "\<And>q. onTheWay (pathOf root segs) ss q \<Longrightarrow> fs q = Some DirectoryNode"
  shows "readBelow root (pathOf root segs) ss a fs = readSafeFile (pathOf root (segs @ ss @ [a])) fs"
  using assms
proof (induction ss arbitrary: segs)
  case (Cons s ss)
  have "fs (pathOf root (segs @ [s])) = Some DirectoryNode"
    using Cons.prems[of "pathOf root (segs @ [s])"] by (simp add: onTheWay_Cons)
  moreover have "readBelow root (pathOf root (segs @ [s])) ss a fs = readSafeFile (pathOf root (segs @ s # ss @ [a])) fs"
    using Cons.IH[of "segs @ [s]"] Cons.prems by (simp add: onTheWay_Cons)
  ultimately show ?case using within_pathOf[of root "segs @ [s]"] by simp
qed simp

lemma lookup_put_same:
  assumes put: "putArtifact root unique write fs = (Inr stored, fs')" and root: "rootOk root fs"
  shows "lookupArtifact root fs' (awrScope write) = Inr (Some (awrBytes write))"
proof -
  let ?w = "awrScope write"
  note p = putArtifact_Inr[OF put root]
  have "fs' q = Some DirectoryNode" if "onTheWay root (scopeSegments ?w) q" for q
    using p that by auto
  then have "lookupArtifact root fs' ?w = readSafeFile (artifactPath root ?w) fs'"
    using readBelow_found[of root "[]" "scopeSegments ?w" fs' "ascArtifactId ?w"]
    by (simp add: lookupArtifact_def artifactPath_def scopePath_def)
  with p show ?thesis by (simp add: readSafeFile_def)
qed

text \<open>C31. The artifact store is a map from scopes to bytes: after a put the scope holds exactly the bytes
  that were written, and every other scope, another meeting's or another owner's in particular, is as
  it was; the tree of directories stays well formed.
\<close>

theorem artifact_store_is_a_map:
  assumes "putArtifact root unique write fs = (Inr stored, fs')" "treeOk root fs"
  shows "getArtifact root (awrScope write) fs' = (Inr (Some (awrBytes write)), fs') \<and>
    amdSize stored = int (length (awrBytes write)) \<and> treeOk root fs' \<and>
    (\<forall>scope. validScope scope \<longrightarrow> scope \<noteq> awrScope write \<longrightarrow>
       fst (getArtifact root scope fs') = fst (getArtifact root scope fs))"
proof -
  have root: "rootOk root fs" using assms(2) by (simp add: treeOk_def)
  have tree: "treeOk root fs'" by (rule put_treeOk[OF assms])
  then have root': "rootOk root fs'" by (simp add: treeOk_def)
  show ?thesis
    using putArtifact_Inr[OF assms(1) root] lookup_put_same[OF assms(1) root] lookup_put_other[OF assms] tree
      getArtifact_lookup[OF _ root] getArtifact_lookup[OF _ root'] by simp
qed

definition exampleFiles :: files where
  "exampleFiles = Map.empty(''/data'' \<mapsto> DirectoryNode)"

definition exampleWrite :: artifactWrite where
  "exampleWrite =
     \<lparr>awrBytes = textEncode ''hello'', awrContentType = ''text/plain'', awrHash = ''h'',
      awrScope = \<lparr>ascArtifactId = ''a1'', ascMeetingId = ''m1'', ascOwnerParticipantId = Some ''p1'',
        ascVisibility = Private\<rparr>\<rparr>"

lemma exampleFiles_ok: "treeOk ''/data'' exampleFiles"
proof -
  have "pathOf ''/data'' (segs @ [s]) \<noteq> ''/data''" for segs s
    using length_pathOf[of "''/data''" "segs @ [s]"] by auto
  then show ?thesis by (simp add: treeOk_def rootOk_def exampleFiles_def)
qed

theorem artifact_store_is_a_map_witness:
  "\<exists>stored fs'. putArtifact ''/data'' ''u'' exampleWrite exampleFiles = (Inr stored, fs') \<and>
     getArtifact ''/data'' (awrScope exampleWrite) fs' = (Inr (Some (textEncode ''hello'')), fs')"
proof -
  obtain stored fs' where put: "putArtifact ''/data'' ''u'' exampleWrite exampleFiles = (Inr stored, fs')"
  proof -
    let ?w = "awrScope exampleWrite"
    have valid: "validateScope ?w = Inr ()" by code_simp
    have "\<exists>fs1. openDirectories ''/data'' True ''/data'' (scopeSegments ?w) exampleFiles = (Inr (Some ''/data/meetings/m1/private/p1''), fs1)
      \<and> fs1 ''/data/meetings/m1/private/p1/.a1.u.tmp'' = None \<and> fs1 ''/data/meetings/m1/private/p1/a1'' = None"
      by (simp add: exampleWrite_def scopeSegments_def exampleFiles_def joinPath_def isWithinRoot_def Let_def)
    then obtain fs1 where "locate ''/data'' ?w True exampleFiles =
        (Inr (Some (''/data/meetings/m1/private/p1'', joinWith ''/'' (scopeSegments ?w))), fs1)"
      "fs1 ''/data/meetings/m1/private/p1/.a1.u.tmp'' = None" "fs1 ''/data/meetings/m1/private/p1/a1'' = None"
      using valid by (auto simp: locate_def ensureRoot_def exampleFiles_def)
    moreover have "ascArtifactId ?w = ''a1''" by (simp add: exampleWrite_def)
    ultimately show thesis
      by (intro that) (simp add: putArtifact_def Let_def writeNew_def temporaryName_def joinPath_def isWithinRoot_def)
  qed
  from artifact_store_is_a_map[OF put exampleFiles_ok] put show ?thesis by (auto simp: exampleWrite_def)
qed

end
