(* ===== verification/CommandLogic.thy ===== *)
theory CommandLogic
  imports MeetingLogs ArtifactStore
begin

section \<open>Reasoning about commands\<close>

text \<open>
  The locale \<open>command_world\<close> states what a command relies on: clock, identifiers, hash and the
  projection store leave the event log alone, a load returns the log, and an append either extends
  the log of its meeting by the given events, at the expected position, or changes nothing; and an
  idempotency key that is in the log is known to the store. \<open>gives\<close> speaks of the steps of a
  command that only read, \<open>writes\<close> of those that may append one event. The SQLite store with any
  clock, identifier generator and hash is an instance.
\<close>

subsection \<open>Steps that throw but never return a failure\<close>

definition neverFails :: "('w, 'a) command \<Rightarrow> bool" where
  "neverFails c \<longleftrightarrow> (\<forall>w w' x. c w \<noteq> (Inl (Failed x), w'))"

lemma bindC_cases:
  assumes "bindC c f w = (r, w')"
  obtains e where "c w = (Inl e, w')" "r = Inl e"
  | a w1 where "c w = (Inr a, w1)" "f a w1 = (r, w')"
  using assms by (cases "c w") (auto simp: bindC_def split: sum.splits)

lemma tryC_cases:
  assumes "tryC h c w = (r, w')"
  obtains r0 where "c w = (r0, w')" "\<And>a. r = Inr a \<Longrightarrow> r0 = Inr a"
  using assms by (cases "c w") (auto simp: tryC_def split: sum.splits abort.splits option.splits)

lemma portC_cases:
  assumes "portC p w = (r, w')"
  obtains e where "p w = (Inl e, w')" "r = Inl (Raised e)" | a where "p w = (Inr a, w')" "r = Inr a"
  using assms by (cases "p w") (auto simp: portC_def split: sum.splits)

lemma neverFails_bind:
  assumes "neverFails c" "\<And>a. neverFails (f a)"
  shows "neverFails (bindC c f)"
  unfolding neverFails_def
proof (intro allI notI)
  fix w w' x assume "bindC c f w = (Inl (Failed x), w')"
  then show False
    by (cases rule: bindC_cases) (use assms in \<open>auto simp: neverFails_def\<close>)
qed

lemma neverFails_basic [simp]:
  "neverFails (returnC a)" "neverFails (raiseC e)" "neverFails (liftC r)" "neverFails (readC g)"
  "neverFails (portC p)"
  by (auto simp: neverFails_def returnC_def raiseC_def liftC_def readC_def portC_def
      split: sum.splits prod.splits)

lemma neverFails_refresh: "neverFails (refreshProjection deps m p)"
  unfolding refreshProjection_def loadState_def by (intro neverFails_bind) simp_all

subsection \<open>The world of a command\<close>

locale command_world =
  fixes deps :: "'w ports"
    and log :: "'w \<Rightarrow> string \<Rightarrow> domainEvent list"
    and ok :: "'w \<Rightarrow> bool"
  assumes now_keeps: "ok w \<Longrightarrow> ok (snd (prtNow deps w)) \<and> log (snd (prtNow deps w)) = log w"
    and next_keeps: "ok w \<Longrightarrow> ok (snd (prtNext deps ns w)) \<and> log (snd (prtNext deps ns w)) = log w"
    and hash_keeps: "ok w \<Longrightarrow> ok (snd (prtHash deps v w)) \<and> log (snd (prtHash deps v w)) = log w"
    and put_keeps: "ok w \<Longrightarrow> ok (snd (prtPut deps sc p w)) \<and> log (snd (prtPut deps sc p w)) = log w"
    and load_keeps: "ok w \<Longrightarrow> ok (snd (prtLoad deps m w)) \<and> log (snd (prtLoad deps m w)) = log w"
    and load_log: "ok w \<Longrightarrow> fst (prtLoad deps m w) = Inr records \<Longrightarrow>
      records = numberRecords 1 (log w m)"
    and append_new: "ok w \<Longrightarrow> prtAppend deps r w = (Inr (Appended records), w') \<Longrightarrow>
      log w' = (log w)(aprMeetingId r := log w (aprMeetingId r) @ aprEvents r) \<and>
      records = numberRecords (int (length (log w (aprMeetingId r))) + 1) (aprEvents r) \<and>
      (\<forall>e. aprExpectedPosition r = Some e \<longrightarrow> e = int (length (log w (aprMeetingId r))))"
    and append_ok: "ok w \<Longrightarrow>
      (\<And>ev k. ev \<in> set (aprEvents r) \<Longrightarrow> evIdempotencyKey ev = Some k \<Longrightarrow> aprIdempotencyKey r = Some k) \<Longrightarrow>
      ok (snd (prtAppend deps r w))"
    and append_other: "ok w \<Longrightarrow> prtAppend deps r w = (out, w') \<Longrightarrow>
      (\<And>records. out \<noteq> Inr (Appended records)) \<Longrightarrow> ok w' \<and> log w' = log w"
    and append_known: "ok w \<Longrightarrow> prtAppend deps r w = (Inr (Appended records), w') \<Longrightarrow>
      aprIdempotencyKey r = Some k \<Longrightarrow> ev \<in> set (log w (aprMeetingId r)) \<Longrightarrow>
      evIdempotencyKey ev \<noteq> Some k"
begin

definition gives ::
  "(string \<Rightarrow> domainEvent list) \<Rightarrow> ('w, 'a) command \<Rightarrow> ('a \<Rightarrow> bool) \<Rightarrow> bool" where
  "gives L c R \<longleftrightarrow>
     (\<forall>w r w'. ok w \<longrightarrow> log w = L \<longrightarrow> c w = (r, w') \<longrightarrow>
        ok w' \<and> log w' = L \<and> (\<forall>a. r = Inr a \<longrightarrow> R a))"

text \<open>
  Either the log is as before and an answer satisfies \<open>P\<close>, or events were appended to the log of one
  meeting and \<open>Q\<close> holds of them and of the result.
\<close>

definition effect ::
  "(string \<Rightarrow> domainEvent list) \<Rightarrow> string \<Rightarrow> ('a \<Rightarrow> bool) \<Rightarrow> (domainEvent list \<Rightarrow> abort + 'a \<Rightarrow> bool) \<Rightarrow>
     abort + 'a \<Rightarrow> (string \<Rightarrow> domainEvent list) \<Rightarrow> bool" where
  "effect L m P Q r L' \<longleftrightarrow>
     L' = L \<and> (\<forall>a. r = Inr a \<longrightarrow> P a) \<or> (\<exists>evs. L' = L(m := L m @ evs) \<and> Q evs r)"

definition affects ::
  "(string \<Rightarrow> domainEvent list) \<Rightarrow> string \<Rightarrow> ('w, 'a) command \<Rightarrow> ('a \<Rightarrow> bool) \<Rightarrow>
     (domainEvent list \<Rightarrow> abort + 'a \<Rightarrow> bool) \<Rightarrow> bool" where
  "affects L m c P Q \<longleftrightarrow>
     (\<forall>w r w'. ok w \<longrightarrow> log w = L \<longrightarrow> c w = (r, w') \<longrightarrow> ok w' \<and> effect L m P Q r (log w'))"

text \<open>
  The commands with a \<open>commandSuccess\<close>: without an append the answer is a replay; an append adds one
  event, which the answer reports, and is never followed by a failure.
\<close>

definition answered ::
  "(string \<Rightarrow> domainEvent list) \<Rightarrow> string \<Rightarrow> (domainEvent \<Rightarrow> bool) \<Rightarrow> domainEvent list \<Rightarrow>
     abort + 'a commandSuccess \<Rightarrow> bool" where
  "answered L m Q evs r \<longleftrightarrow>
     (\<exists>ev. evs = [ev] \<and> Q ev \<and> (\<forall>f. r \<noteq> Inl (Failed f)) \<and>
        (\<forall>s. r = Inr s \<longrightarrow> \<not> sucReplayed s \<and> sucPosition s = int (length (L m)) + 1 \<and>
           sucCorrelationId s = evCorrelationId ev))"

definition writes ::
  "(string \<Rightarrow> domainEvent list) \<Rightarrow> string \<Rightarrow> ('w, 'a commandSuccess) command \<Rightarrow> (domainEvent \<Rightarrow> bool) \<Rightarrow> bool" where
  "writes L m c Q \<longleftrightarrow> affects L m c sucReplayed (answered L m Q)"

lemma givesI:
  "(\<And>w r w'. ok w \<Longrightarrow> log w = L \<Longrightarrow> c w = (r, w') \<Longrightarrow> ok w' \<and> log w' = L \<and> (\<forall>a. r = Inr a \<longrightarrow> R a)) \<Longrightarrow>
     gives L c R"
  unfolding gives_def by blast

lemma givesD:
  "gives L c R \<Longrightarrow> ok w \<Longrightarrow> log w = L \<Longrightarrow> c w = (r, w') \<Longrightarrow>
     ok w' \<and> log w' = L \<and> (\<forall>a. r = Inr a \<longrightarrow> R a)"
  unfolding gives_def by blast

lemma affectsI:
  "(\<And>w r w'. ok w \<Longrightarrow> log w = L \<Longrightarrow> c w = (r, w') \<Longrightarrow> ok w' \<and> effect L m P Q r (log w')) \<Longrightarrow>
     affects L m c P Q"
  unfolding affects_def by blast

lemma affectsD:
  "affects L m c P Q \<Longrightarrow> ok w \<Longrightarrow> log w = L \<Longrightarrow> c w = (r, w') \<Longrightarrow> ok w' \<and> effect L m P Q r (log w')"
  unfolding affects_def by blast

lemma effect_same: "(\<And>a. r = Inr a \<Longrightarrow> P a) \<Longrightarrow> effect L m P Q r L"
  by (simp add: effect_def)

lemma effect_append: "Q evs r \<Longrightarrow> effect L m P Q r (L(m := L m @ evs))"
  unfolding effect_def by blast

lemma affects_mono:
  "affects L m c P Q \<Longrightarrow> (\<And>a. P a \<Longrightarrow> P' a) \<Longrightarrow> (\<And>evs r. Q evs r \<Longrightarrow> Q' evs r) \<Longrightarrow> affects L m c P' Q'"
  unfolding affects_def effect_def by blast

subsection \<open>Reading steps\<close>

lemma gives_return [intro]: "R a \<Longrightarrow> gives L (returnC a) R"
  by (simp add: gives_def returnC_def)

lemma gives_fail [intro, simp]: "gives L (failC code) R"
  by (simp add: gives_def failC_def)

lemma gives_raise [intro, simp]: "gives L (raiseC e) R"
  by (simp add: gives_def raiseC_def)

lemma gives_bind:
  assumes "gives L c S" "\<And>a. S a \<Longrightarrow> gives L (f a) R"
  shows "gives L (bindC c f) R"
proof (rule givesI)
  fix w r w' assume w: "ok w" "log w = L" and "bindC c f w = (r, w')"
  from this(3) show "ok w' \<and> log w' = L \<and> (\<forall>a. r = Inr a \<longrightarrow> R a)"
  proof (cases rule: bindC_cases)
    case (1 e)
    then show ?thesis using givesD[OF assms(1) w] by auto
  next
    case (2 a w1)
    from givesD[OF assms(1) w 2(1)] have "ok w1" "log w1 = L" "S a" by auto
    then show ?thesis using givesD[OF assms(2) _ _ 2(2)] by blast
  qed
qed

lemma gives_bind3:
  "gives L c (\<lambda>(a, b, d). S a b d) \<Longrightarrow> (\<And>a b d. S a b d \<Longrightarrow> gives L (f a b d) R) \<Longrightarrow>
     gives L (bindC c (\<lambda>(a, b, d). f a b d)) R"
  by (erule gives_bind) auto

lemma gives_try:
  assumes "gives L c R"
  shows "gives L (tryC h c) R"
proof (rule givesI)
  fix w r w' assume w: "ok w" "log w = L" and "tryC h c w = (r, w')"
  from this(3) obtain r0 where "c w = (r0, w')" "\<And>a. r = Inr a \<Longrightarrow> r0 = Inr a"
    by (rule tryC_cases) blast
  with givesD[OF assms w] show "ok w' \<and> log w' = L \<and> (\<forall>a. r = Inr a \<longrightarrow> R a)" by blast
qed

lemma gives_mono: "gives L c S \<Longrightarrow> (\<And>a. S a \<Longrightarrow> R a) \<Longrightarrow> gives L c R"
  unfolding gives_def by blast

lemma gives_lift: "gives L (liftC r) (\<lambda>a. r = Inr a)"
  by (cases r) (auto simp: liftC_def returnC_def gives_def raiseC_def)

lemma gives_unless: "gives L (unlessC b code) (\<lambda>_. b)"
  by (auto simp: unlessC_def returnC_def gives_def failC_def)

lemma gives_now: "gives L (readC (prtNow deps)) (\<lambda>_. True)"
  using now_keeps by (auto simp: gives_def readC_def split: prod.splits) (metis snd_conv)+

lemma gives_clock: "gives L (clockNow deps) (\<lambda>now. timestamp now = Inr now)"
  unfolding clockNow_def
  by (rule gives_bind[OF gives_now]) (rule gives_mono[OF gives_lift], simp add: timestamp_Inr)

lemma gives_next: "gives L (readC (prtNext deps ns)) (\<lambda>_. True)"
  using next_keeps by (auto simp: gives_def readC_def split: prod.splits) (metis snd_conv)+

lemma gives_port:
  assumes "\<And>w. ok w \<Longrightarrow> ok (snd (p w)) \<and> log (snd (p w)) = log w"
    and "\<And>w a. ok w \<Longrightarrow> log w = L \<Longrightarrow> fst (p w) = Inr a \<Longrightarrow> R a"
  shows "gives L (portC p) R"
  unfolding gives_def portC_def
proof (intro allI impI)
  fix w r w'
  assume w: "ok w" "log w = L"
    and c: "(case p w of (Inl e, w') \<Rightarrow> (Inl (Raised e), w') | (Inr a, w') \<Rightarrow> (Inr a, w')) = (r, w')"
  from assms(1)[OF w(1)] assms(2)[OF w] w(2) c
  show "ok w' \<and> log w' = L \<and> (\<forall>a. r = Inr a \<longrightarrow> R a)"
    by (cases "p w") (auto split: sum.splits)
qed

lemma gives_hash: "gives L (hashValue deps v) (\<lambda>_. True)"
  unfolding hashValue_def
  by (rule gives_bind[OF gives_port[where R = "\<lambda>_. True"]]) (use hash_keeps in auto)

lemma gives_loadState:
  "gives L (loadState deps m) (\<lambda>st. lstRecords st = numberRecords 1 (L m) \<and>
     projectRecords m (numberRecords 1 (L m)) = Inr (lstProjection st))"
  unfolding loadState_def
proof (rule gives_bind)
  show "gives L (portC (prtLoad deps m)) (\<lambda>records. records = numberRecords 1 (L m))"
    using load_keeps load_log by (intro gives_port) auto
  fix records assume "records = numberRecords 1 (L m)"
  then show "gives L (bindC (liftC (projectRecords m records))
      (\<lambda>projection. returnC \<lparr>lstProjection = projection, lstRecords = records\<rparr>))
      (\<lambda>st. lstRecords st = numberRecords 1 (L m) \<and>
        projectRecords m (numberRecords 1 (L m)) = Inr (lstProjection st))"
    by (auto intro!: gives_bind[OF gives_lift])
qed

lemma gives_refresh: "gives L (refreshProjection deps m p) (\<lambda>_. True)"
  unfolding refreshProjection_def
  by (rule gives_bind[OF gives_loadState], rule gives_port) (use put_keeps in auto)

lemma gives_correlation: "gives L (commandCorrelationId deps input) (\<lambda>_. True)"
  unfolding commandCorrelationId_def
  by (rule gives_bind[where S = "\<lambda>_. True"], cases "mutCorrelationId input")
    (auto intro: gives_next gives_mono[OF gives_lift])

text \<open>The event that \<open>sharedCommandEvent\<close> makes.\<close>

definition commandEventOk ::
  "'x mutationInput_scheme \<Rightarrow> exn + domainActor \<Rightarrow> string \<Rightarrow> string \<Rightarrow> int \<Rightarrow> string \<Rightarrow>
     domainEventPayload \<Rightarrow> domainEvent \<Rightarrow> bool" where
  "commandEventOk input actorResult correlation occurredAt expected key payload ev \<longleftrightarrow>
     actorResult = Inr (evActor ev) \<and> meetingId (mutMeetingId input) = Inr (evMeetingId ev) \<and>
     meetingPosition (expected + 1) = Inr (evPosition ev) \<and> evCorrelationId ev = correlation \<and> evOccurredAt ev = occurredAt \<and>
     evCausationId ev = None \<and> evIdempotencyKey ev = Some key \<and> evScope ev = SharedScope \<and>
     evPayload ev = payload \<and> evSchemaVersion ev = 1"

lemma gives_commandEvent:
  "gives L (sharedCommandEvent deps input actorResult correlation occurredAt expected key payload)
     (commandEventOk input actorResult correlation occurredAt expected key payload)"
  unfolding sharedCommandEvent_def
  by (intro gives_bind[OF gives_lift] gives_bind[OF gives_next] gives_return)
    (auto simp: commandEventOk_def schemaVersion_1)

subsection \<open>Appending steps\<close>

lemma affects_bind:
  assumes "gives L c S" "\<And>a. S a \<Longrightarrow> affects L m (f a) P Q"
  shows "affects L m (bindC c f) P Q"
proof (rule affectsI)
  fix w r w' assume w: "ok w" "log w = L" and "bindC c f w = (r, w')"
  from this(3) show "ok w' \<and> effect L m P Q r (log w')"
  proof (cases rule: bindC_cases)
    case (1 e)
    then show ?thesis using givesD[OF assms(1) w] by (auto intro: effect_same)
  next
    case (2 a w1)
    from givesD[OF assms(1) w 2(1)] have "ok w1" "log w1 = L" "S a" by auto
    then show ?thesis using affectsD[OF assms(2) _ _ 2(2)] by blast
  qed
qed

lemma affects_bind2:
  "gives L c (\<lambda>(a, b). S a b) \<Longrightarrow> (\<And>a b. S a b \<Longrightarrow> affects L m (f a b) P Q) \<Longrightarrow>
     affects L m (bindC c (\<lambda>(a, b). f a b)) P Q"
  by (erule affects_bind) auto

lemma affects_bind3:
  "gives L c (\<lambda>(a, b, d). S a b d) \<Longrightarrow> (\<And>a b d. S a b d \<Longrightarrow> affects L m (f a b d) P Q) \<Longrightarrow>
     affects L m (bindC c (\<lambda>(a, b, d). f a b d)) P Q"
  by (erule affects_bind) auto

lemma affects_bind4:
  "gives L c (\<lambda>(a, b, d, e). S a b d e) \<Longrightarrow> (\<And>a b d e. S a b d e \<Longrightarrow> affects L m (f a b d e) P Q) \<Longrightarrow>
     affects L m (bindC c (\<lambda>(a, b, d, e). f a b d e)) P Q"
  by (erule affects_bind) auto

lemma affects_gives: "gives L c P \<Longrightarrow> affects L m c P Q"
  unfolding affects_def effect_def by (meson givesD)

lemma writes_bind:
  "gives L c S \<Longrightarrow> (\<And>a. S a \<Longrightarrow> writes L m (f a) Q) \<Longrightarrow> writes L m (bindC c f) Q"
  unfolding writes_def by (rule affects_bind)

lemma writes_fail: "writes L m (failC code) Q"
  unfolding writes_def by (rule affects_gives) simp

lemma writes_mono: "writes L m c Q \<Longrightarrow> (\<And>ev. Q ev \<Longrightarrow> Q' ev) \<Longrightarrow> writes L m c Q'"
  unfolding writes_def by (erule affects_mono) (auto simp: answered_def)

text \<open>An append of a port either appends, at the end of the log, or leaves the log alone.\<close>

lemma append_cases:
  assumes w: "ok w" "log w = L" and ap: "prtAppend deps q w = (out, w')"
    and key: "\<And>ev k. ev \<in> set (aprEvents q) \<Longrightarrow> evIdempotencyKey ev = Some k \<Longrightarrow> aprIdempotencyKey q = Some k"
  obtains (append) records where "ok w'" "out = Inr (Appended records)"
      "log w' = L(aprMeetingId q := L (aprMeetingId q) @ aprEvents q)"
      "records = numberRecords (int (length (L (aprMeetingId q))) + 1) (aprEvents q)"
      "\<And>e. aprExpectedPosition q = Some e \<Longrightarrow> e = int (length (L (aprMeetingId q)))"
      "\<And>ev k. ev \<in> set (L (aprMeetingId q)) \<Longrightarrow> aprIdempotencyKey q = Some k \<Longrightarrow> evIdempotencyKey ev \<noteq> Some k"
  | (keep) "ok w'" "log w' = L" "\<And>records. out \<noteq> Inr (Appended records)"
proof (cases "\<exists>records. out = Inr (Appended records)")
  case True
  then obtain records where out: "out = Inr (Appended records)" by blast
  from append_ok[OF w(1) key] ap have "ok w'" by simp
  with append_new[OF w(1) ap[unfolded out]] append_known[OF w(1) ap[unfolded out]] w(2) out show thesis
    by (intro append[of records]) auto
next
  case False
  with append_other[OF w(1) ap] w(2) show thesis by (intro keep) auto
qed

text \<open>An append either ends as an append of the given events or reads.\<close>

definition mutationRequest ::
  "'x mutationInput_scheme \<Rightarrow> string \<Rightarrow> domainEvent list \<Rightarrow> domainEvent appendEventsRequest" where
  "mutationRequest input fingerprint evs =
     \<lparr>aprEvents = evs, aprExpectedPosition = Some (mutExpectedPosition input),
      aprIdempotencyKey = Some (mutIdempotencyKey input), aprMeetingId = mutMeetingId input,
      aprPayloadFingerprint = Some fingerprint, aprTrustFingerprint = Some True\<rparr>"

lemma mutationRequest_simps [simp]:
  "aprEvents (mutationRequest input f evs) = evs"
  "aprExpectedPosition (mutationRequest input f evs) = Some (mutExpectedPosition input)"
  "aprIdempotencyKey (mutationRequest input f evs) = Some (mutIdempotencyKey input)"
  "aprMeetingId (mutationRequest input f evs) = mutMeetingId input"
  by (simp_all add: mutationRequest_def)

lemma afterAppend_cases:
  assumes "ok w" "bindC (refreshProjection deps m p) (\<lambda>_. returnC a) w = (r, w')"
  shows "ok w' \<and> log w' = log w \<and> (\<forall>x. r \<noteq> Inl (Failed x)) \<and> (\<forall>b. r = Inr b \<longrightarrow> b = a)"
proof -
  have "gives (log w) (bindC (refreshProjection deps m p) (\<lambda>_. returnC a)) (\<lambda>b. b = a)"
    by (rule gives_bind[OF gives_refresh]) auto
  from givesD[OF this assms(1) refl assms(2)]
  have "ok w' \<and> log w' = log w \<and> (\<forall>b. r = Inr b \<longrightarrow> b = a)" by blast
  moreover have "neverFails (bindC (refreshProjection deps m p) (\<lambda>_. returnC a))"
    by (intro neverFails_bind neverFails_refresh) simp
  ultimately show ?thesis using assms(2) by (auto simp: neverFails_def)
qed

definition appendedOnly ::
  "(string \<Rightarrow> domainEvent list) \<Rightarrow> 'x mutationInput_scheme \<Rightarrow> domainEvent list \<Rightarrow> abort + appendResult \<Rightarrow>
     (string \<Rightarrow> domainEvent list) \<Rightarrow> bool" where
  "appendedOnly L input evs r L' \<longleftrightarrow>
     L' = L(mutMeetingId input := L (mutMeetingId input) @ evs) \<and>
     mutExpectedPosition input = int (length (L (mutMeetingId input))) \<and>
     (\<forall>ev \<in> set (L (mutMeetingId input)). evIdempotencyKey ev \<noteq> Some (mutIdempotencyKey input)) \<and>
     (\<forall>x. r \<noteq> Inl (Failed x)) \<and>
     (\<forall>a. r = Inr a \<longrightarrow> \<not> aprReplayed a \<and>
        aprRecords a = numberRecords (int (length (L (mutMeetingId input))) + 1) evs)"

lemma appendMutation_cases:
  assumes w: "ok w" "log w = L" and c: "appendMutation deps input f evs p w = (r, w')"
    and key: "\<And>ev k. ev \<in> set evs \<Longrightarrow> evIdempotencyKey ev = Some k \<Longrightarrow> mutIdempotencyKey input = k"
  shows "ok w' \<and> (log w' = L \<and> (\<forall>a. r = Inr a \<longrightarrow> aprReplayed a) \<or> appendedOnly L input evs r (log w'))"
proof -
  let ?q = "mutationRequest input f evs"
  let ?m = "mutMeetingId input"
  from c obtain out w1 where ap: "prtAppend deps ?q w = (out, w1)"
    by (cases "prtAppend deps ?q w")
  have keys: "aprIdempotencyKey ?q = Some k" if "ev \<in> set (aprEvents ?q)" "evIdempotencyKey ev = Some k" for ev k
    using key that by simp
  show ?thesis
  proof (rule append_cases[OF w ap keys])
    fix records
    assume append: "ok w1" "out = Inr (Appended records)" "log w1 = L(aprMeetingId ?q := L (aprMeetingId ?q) @ aprEvents ?q)"
      "records = numberRecords (int (length (L (aprMeetingId ?q))) + 1) (aprEvents ?q)"
      "\<And>e. aprExpectedPosition ?q = Some e \<Longrightarrow> e = int (length (L (aprMeetingId ?q)))"
      "\<And>ev k. ev \<in> set (L (aprMeetingId ?q)) \<Longrightarrow> aprIdempotencyKey ?q = Some k \<Longrightarrow> evIdempotencyKey ev \<noteq> Some k"
    have r: "bindC (refreshProjection deps ?m p)
        (\<lambda>_. returnC \<lparr>aprReplayed = False, aprRecords = records\<rparr>) w1 = (r, w')"
      using c ap append(2) by (simp add: appendMutation_def bindC_def portC_def mutationRequest_def)
    from afterAppend_cases[OF append(1) r] append show ?thesis by (auto simp: appendedOnly_def)
  next
    assume keep: "ok w1" "log w1 = L" "\<And>records. out \<noteq> Inr (Appended records)"
    show ?thesis
    proof (cases "\<exists>records. out = Inr (Replayed records)")
      case True
      then obtain records where out: "out = Inr (Replayed records)" by blast
      have r: "bindC (refreshProjection deps ?m p)
          (\<lambda>_. returnC \<lparr>aprReplayed = True, aprRecords = records\<rparr>) w1 = (r, w')"
        using c ap out by (simp add: appendMutation_def bindC_def portC_def mutationRequest_def)
      from afterAppend_cases[OF keep(1) r] keep(2) show ?thesis by auto
    next
      case False
      have "w' = w1 \<and> (\<forall>a. r \<noteq> Inr a)"
      proof (cases out)
        case (Inl e)
        then show ?thesis
          using c ap by (auto simp: appendMutation_def bindC_def portC_def mutationRequest_def)
      next
        case (Inr o1)
        then show ?thesis using c ap keep(3) False
          by (cases o1) (auto simp: appendMutation_def bindC_def portC_def mutationRequest_def failC_def)
      qed
      with keep show ?thesis by blast
    qed
  qed
qed

lemma appendAndAnswer_log:
  assumes ap: "prtAppend deps (mutationRequest input f [ev]) w = (Inr (Appended records), w1)" and ok: "ok w1"
    and run: "appendAndAnswer deps input f ev p message select w = (r, w')"
  shows "log w' = log w1"
proof -
  let ?refresh = "bindC (refreshProjection deps (mutMeetingId input) p)
      (\<lambda>_. returnC \<lparr>aprReplayed = False, aprRecords = records\<rparr>)"
  have m: "appendMutation deps input f [ev] p w = ?refresh w1"
    using ap by (simp add: appendMutation_def bindC_def portC_def mutationRequest_def)
  from run[unfolded appendAndAnswer_def] show ?thesis
  proof (cases rule: bindC_cases)
    case (1 e)
    from afterAppend_cases[OF ok 1(1)[unfolded m]] show ?thesis by blast
  next
    case (2 a w2)
    have "log w2 = log w1" using afterAppend_cases[OF ok 2(1)[unfolded m]] by blast
    moreover have "w' = w2"
      using 2(2) by (cases "eventAt select (aprRecords a)")
        (auto simp: bindC_def liftC_def raiseC_def returnC_def split: option.splits)
    ultimately show ?thesis by simp
  qed
qed

text \<open>
  A retry whose key is in the log never appends, and the append of a new event answers with that
  event at the next position.
\<close>

lemma writes_replayPrior:
  assumes "prior \<in> set (L (mutMeetingId input))" "evIdempotencyKey prior = Some (mutIdempotencyKey input)"
  shows "writes L (mutMeetingId input) (replayPrior deps input f prior p select) Q"
  unfolding writes_def
proof (rule affectsI)
  fix w r w' assume w: "ok w" "log w = L" and c: "replayPrior deps input f prior p select w = (r, w')"
  from c[unfolded replayPrior_def] show "ok w' \<and> effect L (mutMeetingId input) sucReplayed (answered L (mutMeetingId input) Q) r (log w')"
  proof (cases rule: bindC_cases)
    case (1 e)
    from appendMutation_cases[OF w 1(1)] assms 1(2) show ?thesis
      by (auto simp: appendedOnly_def intro: effect_same)
  next
    case (2 a w1)
    have keep: "ok w1" "log w1 = L"
      using appendMutation_cases[OF w 2(1)] assms by (auto simp: appendedOnly_def)
    from 2(2) have "w' = w1 \<and> (\<forall>s. r = Inr s \<longrightarrow> sucReplayed s)"
      by (cases "eventAt select (aprRecords a)")
        (auto simp: bindC_def liftC_def raiseC_def returnC_def failC_def success_def split: option.splits)
    with keep show ?thesis by (auto intro: effect_same)
  qed
qed

lemma eventAt_single:
  "eventAt select (numberRecords n [ev]) = Inr (Some found) \<Longrightarrow>
     evPosition (fst found) = n \<and> evCorrelationId (fst found) = evCorrelationId ev \<and>
     select (evPayload ev) = Some (snd found)"
  by (auto simp: eventAt_def normalizeRecords_def normalizeRecord_def result_simps meetingPosition_Inr
      split: if_splits option.splits)

lemma writes_appendAndAnswer:
  assumes key: "evIdempotencyKey ev = Some (mutIdempotencyKey input)"
    and Q: "mutExpectedPosition input = int (length (L (mutMeetingId input))) \<Longrightarrow>
      \<forall>old \<in> set (L (mutMeetingId input)). evIdempotencyKey old \<noteq> Some (mutIdempotencyKey input) \<Longrightarrow> Q ev"
  shows "writes L (mutMeetingId input) (appendAndAnswer deps input f ev p message select) Q"
  unfolding writes_def
proof (rule affectsI)
  let ?m = "mutMeetingId input"
  fix w r w' assume w: "ok w" "log w = L" and c: "appendAndAnswer deps input f ev p message select w = (r, w')"
  have app: "ok w1 \<and> (log w1 = L \<and> (\<forall>a. x = Inr a \<longrightarrow> aprReplayed a) \<or> appendedOnly L input [ev] x (log w1))"
    if "appendMutation deps input f [ev] p w = (x, w1)" for x w1
    using appendMutation_cases[OF w that] key by simp
  from c[unfolded appendAndAnswer_def] show "ok w' \<and> effect L ?m sucReplayed (answered L ?m Q) r (log w')"
  proof (cases rule: bindC_cases)
    case (1 e)
    from app[OF 1(1)] 1(2) Q show ?thesis by (auto simp: appendedOnly_def effect_def answered_def)
  next
    case (2 a w1)
    from 2(2) have same: "w' = w1" and nofail: "\<forall>x. r \<noteq> Inl (Failed x)"
      and ans: "\<And>s. r = Inr s \<Longrightarrow> \<exists>found. eventAt select (aprRecords a) = Inr (Some found) \<and>
        s = success (aprReplayed a) found"
      by (cases "eventAt select (aprRecords a)";
          auto simp: bindC_def liftC_def raiseC_def returnC_def split: option.splits)+
    from app[OF 2(1)] show ?thesis
    proof (elim conjE disjE)
      assume "ok w1" "log w1 = L" "\<forall>b. Inr a = Inr b \<longrightarrow> aprReplayed b"
      with same ans show ?thesis by (auto simp: success_def intro!: effect_same)
    next
      assume "ok w1" and ao: "appendedOnly L input [ev] (Inr a) (log w1)"
      then have "r = Inr s \<Longrightarrow> \<not> sucReplayed s \<and> sucPosition s = int (length (L ?m)) + 1 \<and>
          sucCorrelationId s = evCorrelationId ev" for s
        using ans eventAt_single by (fastforce simp: appendedOnly_def success_def)
      with ao nofail Q same \<open>ok w1\<close> show ?thesis
        unfolding effect_def answered_def
        by (intro conjI disjI2 exI[of _ "[ev]"] exI[of _ ev]) (auto simp: appendedOnly_def)
    qed
  qed
qed

subsection \<open>The shape of a command\<close>

lemma writes_after_load:
  assumes new: "\<And>loaded. projectionAt (mutMeetingId input) (L (mutMeetingId input)) (lstProjection loaded) \<Longrightarrow>
      lstRecords loaded = numberRecords 1 (L (mutMeetingId input)) \<Longrightarrow>
      writes L (mutMeetingId input) (continue loaded) Q"
  shows "writes L (mutMeetingId input)
     (bindC (loadState deps (mutMeetingId input)) (\<lambda>loaded.
      case idempotentRecord (lstRecords loaded) (mutIdempotencyKey input) of
        Some prior \<Rightarrow> replayPrior deps input f (ercEvent prior) p select
      | None \<Rightarrow> continue loaded)) Q"
proof (rule writes_bind[OF gives_loadState])
  fix loaded :: loadedState
  assume st: "lstRecords loaded = numberRecords 1 (L (mutMeetingId input)) \<and>
    projectRecords (mutMeetingId input) (numberRecords 1 (L (mutMeetingId input))) = Inr (lstProjection loaded)"
  show "writes L (mutMeetingId input)
      (case idempotentRecord (lstRecords loaded) (mutIdempotencyKey input) of
        Some prior \<Rightarrow> replayPrior deps input f (ercEvent prior) p select | None \<Rightarrow> continue loaded) Q"
  proof (cases "idempotentRecord (lstRecords loaded) (mutIdempotencyKey input)")
    case None
    with new st show ?thesis by (simp add: projectionAt_def)
  next
    case (Some prior)
    then have "prior \<in> set (lstRecords loaded)" "evIdempotencyKey (ercEvent prior) = Some (mutIdempotencyKey input)"
      by (auto simp: idempotentRecord_def dest: findFirst_SomeD)
    moreover from this(1) have "ercEvent prior \<in> set (map ercEvent (numberRecords 1 (L (mutMeetingId input))))"
      using st by (simp del: events_numberRecords)
    ultimately show ?thesis using Some by (simp add: writes_replayPrior)
  qed
qed

text \<open>The end of every command: make the event, append it, answer.\<close>

lemma writes_event:
  assumes key: "idempotencyKey (mutIdempotencyKey input) = Inr key" "trim (mutIdempotencyKey input) = mutIdempotencyKey input"
    and expected: "expected = mutExpectedPosition input"
    and fits: "\<And>ev. meetingId (mutMeetingId input) = Inr (evMeetingId ev) \<Longrightarrow> evScope ev = SharedScope \<Longrightarrow>
      evPayload ev = payload \<Longrightarrow> payloadFits ev"
    and Q: "\<And>ev. wellPlaced (mutMeetingId input) (L (mutMeetingId input)) ev \<Longrightarrow> evScope ev = SharedScope \<Longrightarrow>
      evPayload ev = payload \<Longrightarrow> actorResult = Inr (evActor ev) \<Longrightarrow> evOccurredAt ev = occurredAt \<Longrightarrow> Q ev"
  shows "writes L (mutMeetingId input)
     (bindC (commandCorrelationId deps input) (\<lambda>correlation.
      bindC (sharedCommandEvent deps input actorResult correlation occurredAt expected key payload) (\<lambda>ev.
      appendAndAnswer deps input f ev p message select))) Q"
proof (rule writes_bind[OF gives_correlation], rule writes_bind[OF gives_commandEvent])
  fix correlation ev
  assume ev: "commandEventOk input actorResult correlation occurredAt expected key payload ev"
  have k: "key = mutIdempotencyKey input" using key by (simp add: idempotencyKey_def opaqueText_Inr)
  show "writes L (mutMeetingId input) (appendAndAnswer deps input f ev p message select) Q"
  proof (rule writes_appendAndAnswer)
    show "evIdempotencyKey ev = Some (mutIdempotencyKey input)" using ev k by (simp add: commandEventOk_def)
    assume "mutExpectedPosition input = int (length (L (mutMeetingId input)))"
      "\<forall>old \<in> set (L (mutMeetingId input)). evIdempotencyKey old \<noteq> Some (mutIdempotencyKey input)"
    then have "wellPlaced (mutMeetingId input) (L (mutMeetingId input)) ev"
      using ev k expected fits by (auto simp: commandEventOk_def wellPlaced_def)
    with ev Q show "Q ev" by (auto simp: commandEventOk_def)
  qed
qed


end

subsection \<open>The Node server's world\<close>

text \<open>
  What \<open>createLocalServerRuntime\<close> wires together: the SQLite event and projection stores, the system
  clock, random identifiers and SHA-256. Time (\<open>clk\<close>, in milliseconds), randomness (\<open>uuid\<close>) and
  the hash (\<open>sha\<close>) come from outside; each use advances the tick they depend on.
\<close>

record sqliteWorld =
  swDatabase :: "(domainEvent, meetingProjection) database"
  swTick :: nat
  swFiles :: files

definition systemNow :: "(nat \<Rightarrow> int) \<Rightarrow> sqliteWorld \<Rightarrow> string \<times> sqliteWorld" where
  "systemNow clk w = (isoString (clk (swTick w)), w\<lparr>swTick := swTick w + 1\<rparr>)"

definition cryptographicNext :: "(nat \<Rightarrow> string) \<Rightarrow> string \<Rightarrow> sqliteWorld \<Rightarrow> string \<times> sqliteWorld" where
  "cryptographicNext uuid ns w = (ns @ ''_'' @ uuid (swTick w), w\<lparr>swTick := swTick w + 1\<rparr>)"

definition sqlitePorts ::
  "(domainEvent \<Rightarrow> string) \<Rightarrow> (nat \<Rightarrow> int) \<Rightarrow> (nat \<Rightarrow> string) \<Rightarrow> (string \<Rightarrow> string) \<Rightarrow> sqliteWorld ports" where
  "sqlitePorts enc clk uuid sha =
     \<lparr>prtNow = systemNow clk,
      prtNext = cryptographicNext uuid,
      prtHash = (\<lambda>v w. (Inr (sha v), w)),
      prtAppend = (\<lambda>r w. case sqliteAppend enc r (swDatabase w) of
                     (out, db) \<Rightarrow> (out, w\<lparr>swDatabase := db\<rparr>)),
      prtLoad = (\<lambda>m w. (sqliteLoad (swDatabase w) m None, w)),
      prtPut = (\<lambda>sc p w. case sqlitePut sc p (swDatabase w) of
                  (out, db) \<Rightarrow> (out, w\<lparr>swDatabase := db\<rparr>))\<rparr>"

definition worldLog :: "sqliteWorld \<Rightarrow> string \<Rightarrow> domainEvent list" where
  "worldLog w = logOf (swDatabase w)"

text \<open>The store is well-formed and has a receipt for every idempotency key in a log.\<close>

definition keysKnown :: "(domainEvent, 'p) database \<Rightarrow> bool" where
  "keysKnown db \<longleftrightarrow>
     (\<forall>m. \<forall>ev \<in> set (logOf db m). \<forall>k. evIdempotencyKey ev = Some k \<longrightarrow> findAppend db m k \<noteq> None)"

definition worldOk :: "(domainEvent \<Rightarrow> string) \<Rightarrow> sqliteWorld \<Rightarrow> bool" where
  "worldOk enc w \<longleftrightarrow> storeOk enc (swDatabase w) \<and> keysKnown (swDatabase w)"

definition emptyWorld :: sqliteWorld where
  "emptyWorld = \<lparr>swDatabase = emptyDatabase, swTick = 0, swFiles = Map.empty\<rparr>"

lemma worldOk_empty [simp]: "worldOk enc emptyWorld"
  by (simp add: worldOk_def emptyWorld_def storeOk_empty)
    (simp add: keysKnown_def emptyDatabase_def logOf_def)

lemma newReceipt_key [simp]:
  "idrMeetingId (newReceipt enc r n k) = aprMeetingId r" "idrKey (newReceipt enc r n k) = k"
  by (simp_all add: newReceipt_def)

lemma findAppend_after:
  assumes "aprIdempotencyKey r = Some k"
  shows "findAppend (afterAppendOf enc r db) (aprMeetingId r) k \<noteq> None"
proof -
  let ?row = "newReceipt enc r (int (length (logOf db (aprMeetingId r)))) k"
  have "?row \<in> set (dbAppends (afterAppendOf enc r db))"
    using assms by (simp add: afterAppendOf_def)
  moreover have "idrMeetingId ?row = aprMeetingId r \<and> idrKey ?row = k" by simp
  ultimately show ?thesis unfolding findAppend_None list_ex_iff by blast
qed

lemma keysKnown_cong:
  "dbEvents db' = dbEvents db \<Longrightarrow> dbAppends db' = dbAppends db \<Longrightarrow> keysKnown db' = keysKnown db"
  by (simp add: keysKnown_def findAppend_def logOf_def)

lemma sqliteAppend_new:
  assumes "storeOk enc db" "sqliteAppend enc r db = (Inr (Appended records), db')"
  shows "db' = afterAppendOf enc r db \<and> appendsNew db r records"
  using appendSqlite_cases[OF assms(1) keepsEvents_Inr, of r] assms(2)
  by (auto simp: sqliteAppend_def)

lemma keysKnown_after:
  assumes known: "keysKnown db"
    and keys: "\<And>ev k. ev \<in> set (aprEvents r) \<Longrightarrow> evIdempotencyKey ev = Some k \<Longrightarrow> aprIdempotencyKey r = Some k"
  shows "keysKnown (afterAppendOf enc r db)"
  unfolding keysKnown_def
proof (intro allI ballI impI)
  fix m ev k
  let ?m = "aprMeetingId r"
  have log: "logOf (afterAppendOf enc r db) = (logOf db)(?m := logOf db ?m @ aprEvents r)"
    unfolding logOf_addEvents[symmetric] by (rule logOf_events) (simp add: afterAppendOf_def)
  assume "ev \<in> set (logOf (afterAppendOf enc r db) m)" and k: "evIdempotencyKey ev = Some k"
  then consider "ev \<in> set (logOf db m)" | "m = ?m" "ev \<in> set (aprEvents r)"
    by (auto simp: log split: if_splits)
  then show "findAppend (afterAppendOf enc r db) m k \<noteq> None"
  proof cases
    case 1
    then obtain row where row: "findAppend db m k = Some row" using known k by (force simp: keysKnown_def)
    have "findAppend (afterAppendOf enc r db) m k = Some row"
      by (rule findAppend_extend[OF _ row]) (simp add: afterAppendOf_def)
    then show ?thesis by simp
  next
    case 2
    then show ?thesis using findAppend_after keys k by blast
  qed
qed

interpretation node: command_world "sqlitePorts enc clk uuid sha" worldLog "worldOk enc"
  for enc :: "domainEvent \<Rightarrow> string" and clk :: "nat \<Rightarrow> int" and uuid :: "nat \<Rightarrow> string"
    and sha :: "string \<Rightarrow> string"
proof unfold_locales
  let ?d = "sqlitePorts enc clk uuid sha"
  fix w w' :: sqliteWorld and r :: "domainEvent appendEventsRequest"
    and records :: "domainEvent eventRecord list" and out ns v sc p m k and ev :: domainEvent
  assume ok: "worldOk enc w"
  then have st: "storeOk enc (swDatabase w)" and known: "keysKnown (swDatabase w)"
    by (auto simp: worldOk_def)
  show "worldOk enc (snd (prtNow ?d w)) \<and> worldLog (snd (prtNow ?d w)) = worldLog w"
    using ok by (simp add: sqlitePorts_def systemNow_def worldOk_def worldLog_def)
  show "worldOk enc (snd (prtNext ?d ns w)) \<and> worldLog (snd (prtNext ?d ns w)) = worldLog w"
    using ok by (simp add: sqlitePorts_def cryptographicNext_def worldOk_def worldLog_def)
  show "worldOk enc (snd (prtHash ?d v w)) \<and> worldLog (snd (prtHash ?d v w)) = worldLog w"
    using ok by (simp add: sqlitePorts_def)
  show "worldOk enc (snd (prtLoad ?d m w)) \<and> worldLog (snd (prtLoad ?d m w)) = worldLog w"
    using ok by (simp add: sqlitePorts_def)
  show "worldOk enc (snd (prtPut ?d sc p w)) \<and> worldLog (snd (prtPut ?d sc p w)) = worldLog w"
  proof -
    have same: "storeOk enc db' \<and> keysKnown db' \<and> logOf db' = logOf (swDatabase w)"
      if "upsertProjection sc p (swDatabase w) = Inr db'" for db'
    proof -
      have eq: "dbEvents db' = dbEvents (swDatabase w)" "dbAppends db' = dbAppends (swDatabase w)"
        using that by (auto simp: upsertProjection_Inr)
      show ?thesis using storeOk_cong[OF eq] keysKnown_cong[OF eq] logOf_events[OF eq(1)] st known by simp
    qed
    show ?thesis
    proof (cases "upsertProjection sc p (swDatabase w)")
      case (Inl e)
      then show ?thesis using ok by (simp add: sqlitePorts_def sqlitePut_def worldOk_def worldLog_def)
    next
      case (Inr db')
      from same[OF Inr] Inr show ?thesis
        by (simp add: sqlitePorts_def sqlitePut_def worldOk_def worldLog_def)
    qed
  qed
  show "records = numberRecords 1 (worldLog w m)" if "fst (prtLoad ?d m w) = Inr records"
  proof -
    have "m \<noteq> []" using that by (auto simp: sqlitePorts_def sqliteLoad_def requireNonEmpty_def result_simps)
    then show ?thesis
      using that sqlite.load_log[OF st] by (simp add: sqlitePorts_def worldLog_def)
  qed
  have app: "sqliteAppend enc r (swDatabase w) = (out, swDatabase w') \<and>
      w' = w\<lparr>swDatabase := swDatabase w'\<rparr>" if "prtAppend ?d r w = (out, w')" for out w'
    using that by (auto simp: sqlitePorts_def split: prod.splits)
  show "worldLog w' = (worldLog w)(aprMeetingId r := worldLog w (aprMeetingId r) @ aprEvents r) \<and>
      records = numberRecords (int (length (worldLog w (aprMeetingId r))) + 1) (aprEvents r) \<and>
      (\<forall>e. aprExpectedPosition r = Some e \<longrightarrow> e = int (length (worldLog w (aprMeetingId r))))"
    if "prtAppend ?d r w = (Inr (Appended records), w')"
    using sqlite.append_new[OF st] app[OF that] unfolding worldLog_def by blast
  show "worldOk enc (snd (prtAppend ?d r w))"
    if keys: "\<And>ev k. ev \<in> set (aprEvents r) \<Longrightarrow> evIdempotencyKey ev = Some k \<Longrightarrow> aprIdempotencyKey r = Some k"
  proof -
    obtain o1 w1 where ap: "prtAppend ?d r w = (o1, w1)" by (cases "prtAppend ?d r w")
    have "storeOk enc (swDatabase w1)" using sqlite.append_ok[OF st, of r] app[OF ap] by simp
    moreover have "keysKnown (swDatabase w1)"
    proof (cases "\<exists>records. o1 = Inr (Appended records)")
      case True
      then have "swDatabase w1 = afterAppendOf enc r (swDatabase w)"
        using sqliteAppend_new[OF st] app[OF ap] by blast
      then show ?thesis using keysKnown_after[OF known keys] by simp
    next
      case False
      then show ?thesis using sqlite.append_other[OF st, of r o1 "swDatabase w1"] app[OF ap] known by auto
    qed
    ultimately show ?thesis using ap by (simp add: worldOk_def)
  qed
  show "worldOk enc w' \<and> worldLog w' = worldLog w"
    if "prtAppend ?d r w = (out, w')" "\<And>records. out \<noteq> Inr (Appended records)"
    using sqlite.append_other[OF st, of r out "swDatabase w'"] app[OF that(1)] that(2) ok
    by (simp add: worldOk_def worldLog_def)
  show "evIdempotencyKey ev \<noteq> Some k"
    if "prtAppend ?d r w = (Inr (Appended records), w')" "aprIdempotencyKey r = Some k"
      "ev \<in> set (worldLog w (aprMeetingId r))"
    using sqliteAppend_new[OF st] app[OF that(1)] that(2,3) known
    unfolding appendsNew_def keysKnown_def worldLog_def by metis
qed

end
