(* ===== verification/Decisions.thy ===== *)
theory Decisions
  imports Commands
begin

section \<open>Decision commands: \<open>packages/application/src/decisions.ts\<close>\<close>

text \<open>
  The four commands of a facilitator on a Decision: save a draft, mark it ready, commit it, start
  monitoring. Each checks the authority, validates its input and hashes it, loads the meeting,
  answers a retry from the log, checks the current projection, makes one event and appends it.
\<close>

subsection \<open>Inputs\<close>

record monitorConditionInput =
  mciDescription :: string
  mciRegistrationId :: "string option"

record saveDecisionDraftInput = mutationInput +
  sdiActionIds :: "string list"
  sdiDissentIds :: "string list"
  sdiEvidenceIds :: "string list"
  sdiMonitorCondition :: monitorConditionInput
  sdiOutcome :: string
  sdiPremiseIds :: "string list"
  sdiTitle :: string
  sdiChangeReason :: string
  sdiDecisionId :: "string option"

record decisionCommandInput = mutationInput +
  dciDecisionId :: string

record commitDecisionInput = decisionCommandInput +
  cdiExplicitCommit :: bool

record preparedDraft =
  pdrActionIds :: "string list"
  pdrDissentIds :: "string list"
  pdrEvidenceIds :: "string list"
  pdrMonitorCondition :: monitorCondition
  pdrOutcome :: string
  pdrPremiseIds :: "string list"
  pdrTitle :: string

subsection \<open>Parts\<close>

definition authorizeFacilitatorMutation ::
  "userContext \<Rightarrow> 'x mutationInput_scheme \<Rightarrow> ('w, unit) command" where
  "authorizeFacilitatorMutation context input =
     (if uctRole context \<noteq> FacilitatorRole then failC FORBIDDEN
      else unlessC (mayUse context DecisionCommit (mutMeetingId input)) FORBIDDEN)"

definition prepareDraft :: "'x saveDecisionDraftInput_scheme \<Rightarrow> exn + preparedDraft" where
  "prepareDraft input =
     bindE (mapE actionId (sdiActionIds input)) (\<lambda>actions.
     bindE (mapE dissentId (sdiDissentIds input)) (\<lambda>dissents.
     bindE (mapE evidenceId (sdiEvidenceIds input)) (\<lambda>evidences.
     bindE (nonEmptyText (mciDescription (sdiMonitorCondition input))) (\<lambda>description.
     bindE (case mciRegistrationId (sdiMonitorCondition input) of
              None \<Rightarrow> Inr None
            | Some r \<Rightarrow> bindE (monitorRegistrationId r) (\<lambda>i. Inr (Some i))) (\<lambda>registration.
     bindE (nonEmptyText (sdiOutcome input)) (\<lambda>outcome.
     bindE (mapE premiseId (sdiPremiseIds input)) (\<lambda>premises.
     bindE (nonEmptyText (sdiTitle input)) (\<lambda>title.
     Inr \<lparr>pdrActionIds = actions, pdrDissentIds = dissents, pdrEvidenceIds = evidences,
          pdrMonitorCondition = \<lparr>monDescription = description, monRegistrationId = registration\<rparr>,
          pdrOutcome = outcome, pdrPremiseIds = premises, pdrTitle = title\<rparr>))))))))"

definition draftSnapshot :: "preparedDraft \<Rightarrow> decisionSnapshot" where
  "draftSnapshot draft =
     \<lparr>snpTitle = pdrTitle draft, snpOutcome = pdrOutcome draft, snpStatus = DRAFT,
      snpPremiseIds = pdrPremiseIds draft, snpEvidenceIds = pdrEvidenceIds draft,
      snpDissentIds = pdrDissentIds draft, snpActionIds = pdrActionIds draft,
      snpMonitorCondition = pdrMonitorCondition draft\<rparr>"

definition snapshotOf :: "decision \<Rightarrow> decisionStatus \<Rightarrow> decisionSnapshot" where
  "snapshotOf d status =
     \<lparr>snpTitle = decTitle d, snpOutcome = decOutcome d, snpStatus = status,
      snpPremiseIds = decPremiseIds d, snpEvidenceIds = decEvidenceIds d,
      snpDissentIds = decDissentIds d, snpActionIds = decActionIds d,
      snpMonitorCondition = decMonitorCondition d\<rparr>"

definition initialRevision ::
  "userContext \<Rightarrow> decision \<Rightarrow> string \<Rightarrow> string \<Rightarrow> exn + decisionRevision" where
  "initialRevision context d changeReason occurredAt =
     bindE (participantId (uctParticipantId context)) (\<lambda>p.
     bindE (revisionNumber 1) (\<lambda>one.
     createDecisionRevision \<lparr>recId = decActiveRevisionId d, recMeetingId = recMeetingId d,
       recCreatedAt = occurredAt, recCreatedBy = p, recOrigin = HumanInput,
       recConfirmation = Confirmed, recRevision = one, recVisibility = Shared, recOwner = None,
       drvDecisionId = recId d, drvVersion = one, drvPreviousRevisionId = None,
       drvSnapshot = snapshotOf d DRAFT, drvChangeReason = changeReason\<rparr>))"

definition decisionFromRevision :: "decision \<Rightarrow> decisionRevision \<Rightarrow> exn + decision" where
  "decisionFromRevision d rv =
     createDecision (d\<lparr>decActionIds := snpActionIds (drvSnapshot rv),
       decActiveRevision := drvVersion rv, decActiveRevisionId := recId rv,
       decDissentIds := snpDissentIds (drvSnapshot rv),
       decEvidenceIds := snpEvidenceIds (drvSnapshot rv),
       decMonitorCondition := snpMonitorCondition (drvSnapshot rv),
       decOutcome := snpOutcome (drvSnapshot rv), decPremiseIds := snpPremiseIds (drvSnapshot rv),
       recRevision := drvVersion rv, decStatus := snpStatus (drvSnapshot rv),
       decTitle := snpTitle (drvSnapshot rv)\<rparr>)"

definition containsAll :: "string list \<Rightarrow> 'x commonRecord_scheme list \<Rightarrow> bool" where
  "containsAll ids records =
     list_all (\<lambda>i. list_ex (\<lambda>r. recId r = i \<and> recVisibility r = Shared \<and> recConfirmation r = Confirmed)
       records) ids"

definition allReferencesExist :: "meetingProjection \<Rightarrow> decision \<Rightarrow> bool" where
  "allReferencesExist p d \<longleftrightarrow>
     containsAll (decPremiseIds d) (shpPremises (mprShared p)) \<and>
     containsAll (decEvidenceIds d) (shpEvidence (mprShared p)) \<and>
     containsAll (decDissentIds d) (shpDissent (mprShared p)) \<and>
     containsAll (decActionIds d) (shpActions (mprShared p))"

definition deriveCanonicalReadiness :: "meetingProjection \<Rightarrow> decision \<Rightarrow> decisionReadiness" where
  "deriveCanonicalReadiness p d =
     \<lparr>rdyOutcome = (length (decOutcome d) > 0),
      rdyPremiseIds = (length (decPremiseIds d) > 0 \<and>
        containsAll (decPremiseIds d) (shpPremises (mprShared p))),
      rdyEvidenceIds = (length (decEvidenceIds d) > 0 \<and>
        containsAll (decEvidenceIds d) (shpEvidence (mprShared p))),
      rdyActionIds = (length (decActionIds d) > 0 \<and>
        containsAll (decActionIds d) (shpActions (mprShared p))),
      rdyMonitorCondition = (length (monDescription (decMonitorCondition d)) > 0)\<rparr>"

definition findDecision :: "loadedState \<Rightarrow> string \<Rightarrow> decision option" where
  "findDecision st i = findFirst (\<lambda>d. recId d = i) (shpDecisions (mprShared (lstProjection st)))"

subsection \<open>What the hash covers\<close>

definition monitorConditionInputJson :: "monitorConditionInput \<Rightarrow> js_value" where
  "monitorConditionInputJson c =
     JObj [(''description'', JStr (mciDescription c)),
           (''registrationId'', jsOption JStr (mciRegistrationId c))]"

definition draftFingerprintText :: "'x saveDecisionDraftInput_scheme \<Rightarrow> string" where
  "draftFingerprintText input =
     localeSerialize (JObj
       [(''actionIds'', jsStrings (sdiActionIds input)),
        (''changeReason'', JStr (sdiChangeReason input)),
        (''command'', JStr ''save-decision-draft''),
        (''decisionId'', jsOption JStr (sdiDecisionId input)),
        (''dissentIds'', jsStrings (sdiDissentIds input)),
        (''evidenceIds'', jsStrings (sdiEvidenceIds input)),
        (''meetingId'', JStr (mutMeetingId input)),
        (''monitorCondition'', monitorConditionInputJson (sdiMonitorCondition input)),
        (''outcome'', JStr (sdiOutcome input)),
        (''premiseIds'', jsStrings (sdiPremiseIds input)),
        (''title'', JStr (sdiTitle input))])"

definition commandFingerprintText :: "string \<Rightarrow> 'x decisionCommandInput_scheme \<Rightarrow> string" where
  "commandFingerprintText name input =
     localeSerialize (JObj [(''command'', JStr name), (''decisionId'', JStr (dciDecisionId input)),
       (''meetingId'', JStr (mutMeetingId input))])"

definition commitFingerprintText :: "'x commitDecisionInput_scheme \<Rightarrow> string" where
  "commitFingerprintText input =
     localeSerialize (JObj [(''command'', JStr ''commit-decision''),
       (''decisionId'', JStr (dciDecisionId input)),
       (''explicitCommit'', JBool (cdiExplicitCommit input)),
       (''meetingId'', JStr (mutMeetingId input))])"

subsection \<open>Event selectors\<close>

definition drafted :: "domainEventPayload \<Rightarrow> (decision \<times> decisionRevision) option" where
  "drafted p = (case p of DecisionDrafted d rv \<Rightarrow> Some (d, rv) | _ \<Rightarrow> None)"

definition markedReady :: "domainEventPayload \<Rightarrow> decision option" where
  "markedReady p = (case p of DecisionMarkedReady d \<Rightarrow> Some d | _ \<Rightarrow> None)"

definition committed :: "domainEventPayload \<Rightarrow> (decision \<times> decisionRevision) option" where
  "committed p = (case p of DecisionCommitted d rv \<Rightarrow> Some (d, rv) | _ \<Rightarrow> None)"

definition monitoringStarted :: "domainEventPayload \<Rightarrow> (decision \<times> string) option" where
  "monitoringStarted p = (case p of MonitoringStarted d i \<Rightarrow> Some (d, i) | _ \<Rightarrow> None)"

subsection \<open>Saving a draft\<close>

definition validateDraft ::
  "'w ports \<Rightarrow> 'x saveDecisionDraftInput_scheme \<Rightarrow>
     ('w, preparedDraft \<times> string \<times> string \<times> int \<times> string) command" where
  "validateDraft deps input =
     tryC validationHandler
       (bindC (liftC (prepareDraft input)) (\<lambda>draft.
        bindC (liftC (nonEmptyText (sdiChangeReason input))) (\<lambda>reason.
        bindC (liftC (idempotencyKey (mutIdempotencyKey input))) (\<lambda>key.
        bindC (liftC (meetingPosition (mutExpectedPosition input))) (\<lambda>expected.
        bindC (case sdiDecisionId input of
                 None \<Rightarrow> returnC ()
               | Some i \<Rightarrow> bindC (liftC (decisionId i)) (\<lambda>_. returnC ())) (\<lambda>_.
        bindC (hashValue deps (draftFingerprintText input)) (\<lambda>fingerprint.
        returnC (draft, reason, key, expected, fingerprint))))))))"

definition newDraft ::
  "'w ports \<Rightarrow> userContext \<Rightarrow> 'x saveDecisionDraftInput_scheme \<Rightarrow> loadedState \<Rightarrow> preparedDraft \<Rightarrow>
     string \<Rightarrow> string \<Rightarrow> ('w, decision \<times> decisionRevision) command" where
  "newDraft deps context input loaded draft changeReason occurredAt =
     bindC (readC (prtNext deps ''decision'')) (\<lambda>i.
     bindC (liftC (decisionId i)) (\<lambda>newId.
     bindC (unlessC (findDecision loaded newId = None) INVALID_STATE_TRANSITION) (\<lambda>_.
     bindC (readC (prtNext deps ''decision-revision'')) (\<lambda>ri.
     bindC (liftC (decisionRevisionId ri)) (\<lambda>newRevisionId.
     bindC (liftC (revisionNumber 1)) (\<lambda>one.
     bindC (liftC (participantId (uctParticipantId context))) (\<lambda>p.
     bindC (liftC (meetingId (mutMeetingId input))) (\<lambda>m.
     bindC (liftC (createDecision \<lparr>recId = newId, recMeetingId = m, recCreatedAt = occurredAt,
       recCreatedBy = p, recOrigin = HumanInput, recConfirmation = Confirmed, recRevision = one,
       recVisibility = Shared, recOwner = None, decTitle = pdrTitle draft,
       decOutcome = pdrOutcome draft, decStatus = DRAFT, decActiveRevision = one,
       decActiveRevisionId = newRevisionId, decPremiseIds = pdrPremiseIds draft,
       decEvidenceIds = pdrEvidenceIds draft, decDissentIds = pdrDissentIds draft,
       decActionIds = pdrActionIds draft, decMonitorCondition = pdrMonitorCondition draft,
       decSupersededBy = None\<rparr>)) (\<lambda>d.
     bindC (liftC (initialRevision context d changeReason occurredAt)) (\<lambda>rv.
     returnC (d, rv)))))))))))"

definition revisedDraft ::
  "'w ports \<Rightarrow> userContext \<Rightarrow> preparedDraft \<Rightarrow> string \<Rightarrow> string \<Rightarrow> decision \<Rightarrow>
     ('w, decision \<times> decisionRevision) command" where
  "revisedDraft deps context draft changeReason occurredAt existing =
     bindC (liftC (participantId (uctParticipantId context))) (\<lambda>p.
     bindC (readC (prtNext deps ''decision-revision'')) (\<lambda>ri.
     bindC (liftC (decisionRevisionId ri)) (\<lambda>newRevisionId.
     bindC (liftC (nextDecisionRevision existing \<lparr>nriId = newRevisionId,
       nriChangeReason = changeReason, nriCreatedAt = occurredAt, nriCreatedBy = p,
       nriSnapshot = draftSnapshot draft\<rparr>)) (\<lambda>rv.
     bindC (liftC (decisionFromRevision existing rv)) (\<lambda>d. returnC (d, rv))))))"

definition makeDraft ::
  "'w ports \<Rightarrow> userContext \<Rightarrow> 'x saveDecisionDraftInput_scheme \<Rightarrow> loadedState \<Rightarrow> preparedDraft \<Rightarrow>
     string \<Rightarrow> ('w, decision \<times> decisionRevision) command" where
  "makeDraft deps context input loaded draft changeReason =
     tryC transitionFailure
       (bindC (case sdiDecisionId input of
                 None \<Rightarrow> returnC None
               | Some i \<Rightarrow>
                   (case findDecision loaded i of
                      None \<Rightarrow> failC DECISION_NOT_FOUND
                    | Some d \<Rightarrow>
                        bindC (unlessC (decStatus d = DRAFT) INVALID_STATE_TRANSITION)
                          (\<lambda>_. returnC (Some d)))) (\<lambda>existing.
        bindC (readC (prtNow deps)) (\<lambda>now.
        bindC (liftC (timestamp now)) (\<lambda>occurredAt.
        bindC (case existing of
                 None \<Rightarrow> newDraft deps context input loaded draft changeReason occurredAt
               | Some d \<Rightarrow> revisedDraft deps context draft changeReason occurredAt d) (\<lambda>(d, rv).
        bindC (liftC (appendDecisionRevision
                 (shpDecisionRevisions (mprShared (lstProjection loaded))) rv)) (\<lambda>_.
        returnC (d, rv)))))))"

definition saveDecisionDraft ::
  "'w ports \<Rightarrow> userContext \<Rightarrow> 'x saveDecisionDraftInput_scheme \<Rightarrow>
     ('w, (decision \<times> decisionRevision) commandSuccess) command" where
  "saveDecisionDraft deps context input =
     bindC (authorizeFacilitatorMutation context input) (\<lambda>_.
     bindC (validateDraft deps input) (\<lambda>(draft, changeReason, key, expected, fingerprint).
     bindC (loadState deps (mutMeetingId input)) (\<lambda>loaded.
     case idempotentRecord (lstRecords loaded) (mutIdempotencyKey input) of
       Some prior \<Rightarrow>
         replayPrior deps input fingerprint (ercEvent prior) (uctParticipantId context) drafted
     | None \<Rightarrow>
         bindC (makeDraft deps context input loaded draft changeReason) (\<lambda>(d, rv).
         bindC (commandCorrelationId deps input) (\<lambda>correlation.
         bindC (sharedCommandEvent deps input (participantActor context) correlation (recCreatedAt rv)
                  expected key (DecisionDrafted d rv)) (\<lambda>ev.
         appendAndAnswer deps input fingerprint ev (uctParticipantId context)
           ''Decision draft append returned no DecisionDrafted event'' drafted))))))"

subsection \<open>Marking ready\<close>

definition validateDecisionCommand ::
  "'w ports \<Rightarrow> 'x decisionCommandInput_scheme \<Rightarrow> string \<Rightarrow> ('w, string \<times> string \<times> int \<times> string) command" where
  "validateDecisionCommand deps input text =
     tryC validationHandler
       (bindC (liftC (decisionId (dciDecisionId input))) (\<lambda>target.
        bindC (liftC (idempotencyKey (mutIdempotencyKey input))) (\<lambda>key.
        bindC (liftC (meetingPosition (mutExpectedPosition input))) (\<lambda>expected.
        bindC (hashValue deps text) (\<lambda>fingerprint.
        returnC (target, key, expected, fingerprint))))))"

definition requireDecision :: "loadedState \<Rightarrow> string \<Rightarrow> ('w, decision) command" where
  "requireDecision loaded target =
     (case findDecision loaded target of None \<Rightarrow> failC DECISION_NOT_FOUND | Some d \<Rightarrow> returnC d)"

definition readyDecision :: "userContext \<Rightarrow> meetingProjection \<Rightarrow> decision \<Rightarrow> exn + decision" where
  "readyDecision context p current =
     bindE (participantId (uctParticipantId context)) (\<lambda>i.
     transitionDecision current ((plainRequest DECISION_READY (FacilitatorAuthority i))
       \<lparr>reqReadiness := Some (deriveCanonicalReadiness p current)\<rparr>))"

definition markDecisionReady ::
  "'w ports \<Rightarrow> userContext \<Rightarrow> 'x decisionCommandInput_scheme \<Rightarrow> ('w, decision commandSuccess) command" where
  "markDecisionReady deps context input =
     bindC (authorizeFacilitatorMutation context input) (\<lambda>_.
     bindC (validateDecisionCommand deps input (commandFingerprintText ''mark-decision-ready'' input))
       (\<lambda>(target, key, expected, fingerprint).
     bindC (loadState deps (mutMeetingId input)) (\<lambda>loaded.
     case idempotentRecord (lstRecords loaded) (mutIdempotencyKey input) of
       Some prior \<Rightarrow>
         replayPrior deps input fingerprint (ercEvent prior) (uctParticipantId context) markedReady
     | None \<Rightarrow>
         bindC (requireDecision loaded target) (\<lambda>current.
         bindC (unlessC (allReferencesExist (lstProjection loaded) current)
                  REFERENCED_ENTITY_NOT_FOUND) (\<lambda>_.
         bindC (unlessC (readinessComplete (Some (deriveCanonicalReadiness (lstProjection loaded) current)))
                  READINESS_INCOMPLETE) (\<lambda>_.
         bindC (tryC transitionFailure (liftC (readyDecision context (lstProjection loaded) current))) (\<lambda>ready.
         bindC (tryC validationHandler (clockNow deps)) (\<lambda>occurredAt.
         bindC (commandCorrelationId deps input) (\<lambda>correlation.
         bindC (sharedCommandEvent deps input (participantActor context) correlation occurredAt expected
                  key (DecisionMarkedReady ready)) (\<lambda>ev.
         appendAndAnswer deps input fingerprint ev (uctParticipantId context)
           ''Decision ready append returned no DecisionMarkedReady event'' markedReady))))))))))"

subsection \<open>Committing\<close>

definition makeCommit ::
  "'w ports \<Rightarrow> userContext \<Rightarrow> loadedState \<Rightarrow> decision \<Rightarrow> ('w, decision \<times> decisionRevision) command" where
  "makeCommit deps context loaded current =
     tryC transitionFailure
       (bindC (liftC (participantId (uctParticipantId context))) (\<lambda>p.
        bindC (liftC (transitionDecision current ((plainRequest COMMITTED (FacilitatorAuthority p))
                 \<lparr>reqExplicitCommit := Some True\<rparr>))) (\<lambda>transitioned.
        bindC (clockNow deps) (\<lambda>occurredAt.
        bindC (liftC (nonEmptyText ''Explicit facilitator commitment'')) (\<lambda>reason.
        bindC (readC (prtNext deps ''decision-revision'')) (\<lambda>ri.
        bindC (liftC (decisionRevisionId ri)) (\<lambda>newRevisionId.
        bindC (liftC (nextDecisionRevision current \<lparr>nriId = newRevisionId, nriChangeReason = reason,
                 nriCreatedAt = occurredAt, nriCreatedBy = p,
                 nriSnapshot = snapshotOf transitioned COMMITTED\<rparr>)) (\<lambda>rv.
        bindC (liftC (appendDecisionRevision
                 (shpDecisionRevisions (mprShared (lstProjection loaded))) rv)) (\<lambda>_.
        bindC (liftC (decisionFromRevision transitioned rv)) (\<lambda>d.
        returnC (d, rv)))))))))))"

definition hasActiveRevision :: "loadedState \<Rightarrow> decision \<Rightarrow> bool" where
  "hasActiveRevision loaded current =
     list_ex (\<lambda>rv. recId rv = decActiveRevisionId current \<and> drvVersion rv = decActiveRevision current)
       (shpDecisionRevisions (mprShared (lstProjection loaded)))"

definition commitDecision ::
  "'w ports \<Rightarrow> userContext \<Rightarrow> 'x commitDecisionInput_scheme \<Rightarrow>
     ('w, (decision \<times> decisionRevision) commandSuccess) command" where
  "commitDecision deps context input =
     bindC (authorizeFacilitatorMutation context input) (\<lambda>_.
     bindC (validateDecisionCommand deps input (commitFingerprintText input))
       (\<lambda>(target, key, expected, fingerprint).
     bindC (loadState deps (mutMeetingId input)) (\<lambda>loaded.
     case idempotentRecord (lstRecords loaded) (mutIdempotencyKey input) of
       Some prior \<Rightarrow>
         replayPrior deps input fingerprint (ercEvent prior) (uctParticipantId context) committed
     | None \<Rightarrow>
         bindC (unlessC (cdiExplicitCommit input) EXPLICIT_COMMIT_REQUIRED) (\<lambda>_.
         bindC (requireDecision loaded target) (\<lambda>current.
         bindC (unlessC (hasActiveRevision loaded current) REFERENCED_ENTITY_NOT_FOUND) (\<lambda>_.
         bindC (makeCommit deps context loaded current) (\<lambda>(d, rv).
         bindC (commandCorrelationId deps input) (\<lambda>correlation.
         bindC (sharedCommandEvent deps input (participantActor context) correlation (recCreatedAt rv)
                  expected key (DecisionCommitted d rv)) (\<lambda>ev.
         appendAndAnswer deps input fingerprint ev (uctParticipantId context)
           ''Decision commit append returned no DecisionCommitted'' committed)))))))))"

subsection \<open>Starting to monitor\<close>

definition makeMonitoring :: "'w ports \<Rightarrow> decision \<Rightarrow> ('w, decision \<times> string \<times> string) command" where
  "makeMonitoring deps current =
     tryC transitionFailure
       (bindC (readC (prtNext deps ''monitor-registration'')) (\<lambda>ri.
        bindC (liftC (monitorRegistrationId ri)) (\<lambda>registration.
        bindC (liftC (transitionDecision current ((plainRequest MONITORING SystemAuthority)
                 \<lparr>reqMonitorRegistrationId := Some registration\<rparr>))) (\<lambda>d.
        bindC (clockNow deps) (\<lambda>occurredAt.
        returnC (d, registration, occurredAt))))))"

definition startDecisionMonitoring ::
  "'w ports \<Rightarrow> userContext \<Rightarrow> 'x decisionCommandInput_scheme \<Rightarrow>
     ('w, (decision \<times> string) commandSuccess) command" where
  "startDecisionMonitoring deps context input =
     bindC (authorizeFacilitatorMutation context input) (\<lambda>_.
     bindC (validateDecisionCommand deps input (commandFingerprintText ''start-decision-monitoring'' input))
       (\<lambda>(target, key, expected, fingerprint).
     bindC (loadState deps (mutMeetingId input)) (\<lambda>loaded.
     case idempotentRecord (lstRecords loaded) (mutIdempotencyKey input) of
       Some prior \<Rightarrow>
         replayPrior deps input fingerprint (ercEvent prior) (uctParticipantId context) monitoringStarted
     | None \<Rightarrow>
         bindC (requireDecision loaded target) (\<lambda>current.
         bindC (makeMonitoring deps current) (\<lambda>(d, registration, occurredAt).
         bindC (commandCorrelationId deps input) (\<lambda>correlation.
         bindC (sharedCommandEvent deps input (Inr SystemActor) correlation occurredAt expected key
                  (MonitoringStarted d registration)) (\<lambda>ev.
         appendAndAnswer deps input fingerprint ev (uctParticipantId context)
           ''Monitoring start append returned no MonitoringStarted'' monitoringStarted)))))))"

end
