(* ===== verification/DecisionCommands.thy ===== *)
theory DecisionCommands
  imports CommandLogic Decisions
begin

section \<open>What the Decision commands guarantee\<close>

text \<open>
  \<open>draftedFrom\<close>, \<open>readyFrom\<close>, \<open>committedFrom\<close> and \<open>monitoredFrom\<close> say which Decision an event of the
  commands may carry, given the projection of the meeting before it. The lemmas of the locale
  \<open>command_world\<close> show that every command either leaves the log alone or appends one such event.
  \<open>meetingStep\<close> then runs the commands in any order over the Node server's world, between appends
  of the other modules, and the properties speak of every reachable log.
\<close>

subsection \<open>Specification\<close>

definition projected :: "meetingProjection \<Rightarrow> decision \<Rightarrow> bool" where
  "projected p d \<longleftrightarrow> d \<in> set (shpDecisions (mprShared p))"

definition revisionAccepted :: "meetingProjection \<Rightarrow> decisionRevision \<Rightarrow> bool" where
  "revisionAccepted p rv \<longleftrightarrow>
     (\<exists>h. appendDecisionRevision (shpDecisionRevisions (mprShared p)) rv = Inr h)"

text \<open>A Decision whose active revision is this one, and says the same.\<close>

definition activeRevisionIs :: "decision \<Rightarrow> decisionRevision \<Rightarrow> bool" where
  "activeRevisionIs d rv \<longleftrightarrow>
     drvDecisionId rv = recId d \<and> recId rv = decActiveRevisionId d \<and> drvVersion rv = decActiveRevision d \<and>
     drvSnapshot rv = snapshotOf d (decStatus d) \<and> revisionOk rv"

definition draftedFrom :: "meetingProjection \<Rightarrow> string \<Rightarrow> decision \<Rightarrow> decisionRevision \<Rightarrow> bool" where
  "draftedFrom p facilitator d rv \<longleftrightarrow>
     decStatus d = DRAFT \<and> activeRevisionIs d rv \<and> recCreatedBy rv = facilitator \<and> revisionAccepted p rv \<and>
     ((\<forall>c. projected p c \<longrightarrow> recId c \<noteq> recId d) \<and> drvVersion rv = 1 \<and> drvPreviousRevisionId rv = None \<or>
      (\<exists>c. projected p c \<and> recId d = recId c \<and> decStatus c = DRAFT \<and>
         drvVersion rv = decActiveRevision c + 1 \<and> drvPreviousRevisionId rv = Some (decActiveRevisionId c)))"

definition readyFrom :: "meetingProjection \<Rightarrow> string \<Rightarrow> decision \<Rightarrow> bool" where
  "readyFrom p target d \<longleftrightarrow>
     (\<exists>c. projected p c \<and> recId c = target \<and> decStatus c = DRAFT \<and> d = c\<lparr>decStatus := DECISION_READY\<rparr> \<and>
        decOutcome c \<noteq> [] \<and> monDescription (decMonitorCondition c) \<noteq> [] \<and>
        decPremiseIds c \<noteq> [] \<and> decEvidenceIds c \<noteq> [] \<and> decActionIds c \<noteq> [] \<and>
        allReferencesExist p c)"

definition committedFrom ::
  "meetingProjection \<Rightarrow> string \<Rightarrow> string \<Rightarrow> decision \<Rightarrow> decisionRevision \<Rightarrow> bool" where
  "committedFrom p facilitator target d rv \<longleftrightarrow>
     (\<exists>c. projected p c \<and> recId c = target \<and> decStatus c = DECISION_READY \<and> decStatus d = COMMITTED \<and>
        recId d = recId c \<and> snapshotOf d COMMITTED = snapshotOf c COMMITTED \<and>
        activeRevisionIs d rv \<and> recCreatedBy rv = facilitator \<and> revisionAccepted p rv \<and>
        drvVersion rv = decActiveRevision c + 1 \<and> drvPreviousRevisionId rv = Some (decActiveRevisionId c) \<and>
        (\<exists>old \<in> set (shpDecisionRevisions (mprShared p)).
           recId old = decActiveRevisionId c \<and> drvVersion old = decActiveRevision c))"

definition monitoredFrom :: "meetingProjection \<Rightarrow> string \<Rightarrow> decision \<Rightarrow> string \<Rightarrow> bool" where
  "monitoredFrom p target d registration \<longleftrightarrow>
     (\<exists>c. projected p c \<and> recId c = target \<and> decStatus c = COMMITTED \<and>
        d = c\<lparr>decMonitorCondition := (decMonitorCondition c)\<lparr>monRegistrationId := Some registration\<rparr>,
              decStatus := MONITORING\<rparr>)"

text \<open>The Decision event is justified by what the meeting was before it.\<close>

definition justified :: "string \<Rightarrow> domainEvent list \<Rightarrow> domainEvent \<Rightarrow> bool" where
  "justified m log ev \<longleftrightarrow>
     wellPlaced m log ev \<and> evScope ev = SharedScope \<and>
     (\<exists>p. projectionAt m log p \<and>
        (case evPayload ev of
           DecisionDrafted d rv \<Rightarrow>
             (\<exists>f. evActor ev = ParticipantActor f \<and> draftedFrom p f d rv)
         | DecisionMarkedReady d \<Rightarrow>
             (\<exists>f. evActor ev = ParticipantActor f \<and> readyFrom p (recId d) d)
         | DecisionCommitted d rv \<Rightarrow>
             (\<exists>f. evActor ev = ParticipantActor f \<and> committedFrom p f (recId d) d rv)
         | MonitoringStarted d i \<Rightarrow> evActor ev = SystemActor \<and> monitoredFrom p (recId d) d i
         | _ \<Rightarrow> False))"

text \<open>What one command adds, beyond a justified event.\<close>

definition actsAs :: "userContext \<Rightarrow> domainEvent \<Rightarrow> bool" where
  "actsAs context ev \<longleftrightarrow>
     (\<exists>f. participantId (uctParticipantId context) = Inr f \<and> evActor ev = ParticipantActor f)"

definition mayDecide :: "userContext \<Rightarrow> string \<Rightarrow> bool" where
  "mayDecide context m \<longleftrightarrow> uctRole context = FacilitatorRole \<and> mayUse context DecisionCommit m"

definition draftEffect :: "userContext \<Rightarrow> string \<Rightarrow> domainEvent list \<Rightarrow> domainEvent \<Rightarrow> bool" where
  "draftEffect context m log ev \<longleftrightarrow>
     justified m log ev \<and> mayDecide context m \<and> actsAs context ev \<and>
     (\<exists>d rv. evPayload ev = DecisionDrafted d rv)"

definition readyEffect ::
  "userContext \<Rightarrow> string \<Rightarrow> string \<Rightarrow> domainEvent list \<Rightarrow> domainEvent \<Rightarrow> bool" where
  "readyEffect context m target log ev \<longleftrightarrow>
     justified m log ev \<and> mayDecide context m \<and> actsAs context ev \<and>
     (\<exists>d. evPayload ev = DecisionMarkedReady d \<and> recId d = target)"

definition commitEffect ::
  "userContext \<Rightarrow> string \<Rightarrow> string \<Rightarrow> domainEvent list \<Rightarrow> domainEvent \<Rightarrow> bool" where
  "commitEffect context m target log ev \<longleftrightarrow>
     justified m log ev \<and> mayDecide context m \<and> actsAs context ev \<and>
     (\<exists>d rv. evPayload ev = DecisionCommitted d rv \<and> recId d = target \<and> evOccurredAt ev = recCreatedAt rv)"

definition monitoringEffect ::
  "userContext \<Rightarrow> string \<Rightarrow> string \<Rightarrow> domainEvent list \<Rightarrow> domainEvent \<Rightarrow> bool" where
  "monitoringEffect context m target log ev \<longleftrightarrow>
     justified m log ev \<and> mayDecide context m \<and>
     (\<exists>d i. evPayload ev = MonitoringStarted d i \<and> recId d = target)"

text \<open>
  What a command may do to the Node server's world: nothing, and then an answer is a replay; or it
  appends one event that satisfies \<open>Q\<close>, does not fail, and its answer, if it gives one, reports that
  event.
\<close>

definition commandOutcome ::
  "(domainEvent list \<Rightarrow> domainEvent \<Rightarrow> bool) \<Rightarrow> string \<Rightarrow> sqliteWorld \<Rightarrow> abort + 'a commandSuccess \<Rightarrow>
     sqliteWorld \<Rightarrow> bool" where
  "commandOutcome Q m w r w' \<longleftrightarrow>
     worldLog w' = worldLog w \<and> (\<forall>s. r = Inr s \<longrightarrow> sucReplayed s) \<or>
     (\<exists>ev. worldLog w' = (worldLog w)(m := worldLog w m @ [ev]) \<and> Q (worldLog w m) ev \<and>
        (\<forall>f. r \<noteq> Inl (Failed f)) \<and>
        (\<forall>s. r = Inr s \<longrightarrow> \<not> sucReplayed s \<and> sucPosition s = int (length (worldLog w m)) + 1 \<and>
           sucCorrelationId s = evCorrelationId ev))"

subsection \<open>Steps of the commands\<close>

lemma findDecision_Some:
  "findDecision loaded i = Some d \<Longrightarrow> projected (lstProjection loaded) d \<and> recId d = i"
  by (auto simp: findDecision_def projected_def dest: findFirst_SomeD)

lemma findDecision_None: "findDecision loaded i = None \<Longrightarrow> projected (lstProjection loaded) c \<Longrightarrow> recId c \<noteq> i"
  by (auto simp: findDecision_def projected_def findFirst_None)

lemma projected_meeting:
  assumes "projectionAt m log p" "projected p d"
  shows "meetingId m = Inr (recMeetingId d)"
  using projectionAt_meeting[OF assms(1)] assms(2)
  by (auto simp: projectionOk_def sharedOk_def entitiesOk_def projected_def)

lemma decisionFromRevision_Inr:
  "decisionFromRevision d rv = Inr d' \<Longrightarrow>
     recId d' = recId d \<and> recMeetingId d' = recMeetingId d \<and> decActiveRevisionId d' = recId rv \<and>
     decActiveRevision d' = drvVersion rv \<and> decStatus d' = snpStatus (drvSnapshot rv) \<and>
     snapshotOf d' (decStatus d') = drvSnapshot rv"
  by (auto simp: decisionFromRevision_def createDecision_Inr snapshotOf_def)

lemma ready_step:
  "decisionStep c r d \<Longrightarrow> reqTo r = DECISION_READY \<Longrightarrow>
     decStatus c = DRAFT \<and> d = c\<lparr>decStatus := DECISION_READY\<rparr> \<and> decOutcome c \<noteq> [] \<and>
     monDescription (decMonitorCondition c) \<noteq> [] \<and> decPremiseIds c \<noteq> [] \<and> decEvidenceIds c \<noteq> [] \<and>
     decActionIds c \<noteq> []"
  by (erule decisionStepE) simp_all

lemma commit_step:
  "decisionStep c r d \<Longrightarrow> reqTo r = COMMITTED \<Longrightarrow> reqRevision r = None \<Longrightarrow>
     decStatus c = DECISION_READY \<and> d = c\<lparr>decStatus := COMMITTED\<rparr>"
  by (erule decisionStepE) simp_all

lemma monitor_step:
  assumes "decisionStep c r d" "reqTo r = MONITORING" "reqAuthority r = SystemAuthority"
    "reqMonitorRegistrationId r = Some i"
  shows "decStatus c = COMMITTED \<and>
    d = c\<lparr>decMonitorCondition := (decMonitorCondition c)\<lparr>monRegistrationId := Some i\<rparr>, decStatus := MONITORING\<rparr>"
proof -
  define result where "result x \<longleftrightarrow>
      x = c\<lparr>decMonitorCondition := (decMonitorCondition c)\<lparr>monRegistrationId := Some i\<rparr>, decStatus := MONITORING\<rparr>" for x
  from assms(1) have "decStatus c = COMMITTED \<and> result d"
  proof (cases rule: decisionStep.cases)
    case (step_monitor m)
    from step_monitor(5) assms(4) have "m = i" by simp
    with step_monitor(1,2) show ?thesis unfolding result_def by blast
  qed (use assms(2,3) in simp_all)
  then show ?thesis by (simp only: result_def)
qed

lemma ready_transition:
  "readyDecision context p c = Inr d \<Longrightarrow>
     decStatus c = DRAFT \<and> d = c\<lparr>decStatus := DECISION_READY\<rparr> \<and> decOutcome c \<noteq> [] \<and>
     monDescription (decMonitorCondition c) \<noteq> [] \<and> decPremiseIds c \<noteq> [] \<and> decEvidenceIds c \<noteq> [] \<and>
     decActionIds c \<noteq> []"
  unfolding readyDecision_def result_simps
  by (elim exE conjE, drule transition_step, erule ready_step) (simp add: plainRequest_def)

lemma readyFrom_ready:
  assumes "readyDecision context p c = Inr d" "projected p c" "allReferencesExist p c"
  shows "readyFrom p (recId c) d \<and> recId d = recId c \<and> recMeetingId d = recMeetingId c"
  using ready_transition[OF assms(1)] assms(2,3) by (auto simp: readyFrom_def)

lemma committedFrom_id: "committedFrom p f target d rv \<Longrightarrow> recId d = target"
  by (auto simp: committedFrom_def)

lemma monitoredFrom_id: "monitoredFrom p target d i \<Longrightarrow> recId d = target"
  by (auto simp: monitoredFrom_def)

lemma participantActor_Inr:
  "participantActor context = Inr a \<longleftrightarrow>
     (\<exists>f. participantId (uctParticipantId context) = Inr f \<and> a = ParticipantActor f)"
  by (auto simp: participantActor_def result_simps)

lemma commit_transition:
  "transitionDecision c ((plainRequest COMMITTED auth)\<lparr>reqExplicitCommit := Some True\<rparr>) = Inr d \<Longrightarrow>
     decStatus c = DECISION_READY \<and> d = c\<lparr>decStatus := COMMITTED\<rparr>"
  by (drule transition_step, erule commit_step) (simp_all add: plainRequest_def)

lemma monitor_transition:
  "transitionDecision c ((plainRequest MONITORING SystemAuthority)\<lparr>reqMonitorRegistrationId := Some i\<rparr>) = Inr d \<Longrightarrow>
     decStatus c = COMMITTED \<and>
     d = c\<lparr>decMonitorCondition := (decMonitorCondition c)\<lparr>monRegistrationId := Some i\<rparr>, decStatus := MONITORING\<rparr>"
  by (drule transition_step, erule monitor_step) (simp_all add: plainRequest_def)

lemma snapshotOf_status [simp]: "snapshotOf (d\<lparr>decStatus := s\<rparr>) t = snapshotOf d t"
  by (simp add: snapshotOf_def)

context command_world
begin

lemma gives_authorize:
  "gives L (authorizeFacilitatorMutation context input) (\<lambda>_. mayDecide context (mutMeetingId input))"
  using gives_mono[OF gives_unless] by (auto simp: authorizeFacilitatorMutation_def mayDecide_def)

lemma gives_validate:
  "gives L (validateDecisionCommand deps input text) (\<lambda>(target, key, expected, fingerprint).
     decisionId (dciDecisionId input) = Inr target \<and> idempotencyKey (mutIdempotencyKey input) = Inr key \<and>
     expected = mutExpectedPosition input)"
  unfolding validateDecisionCommand_def
  by (intro gives_try gives_bind[OF gives_lift] gives_bind[OF gives_hash] gives_return)
    (simp add: meetingPosition_Inr)

lemma gives_validateDraft:
  "gives L (validateDraft deps input) (\<lambda>(draft, reason, key, expected, fingerprint).
     idempotencyKey (mutIdempotencyKey input) = Inr key \<and> expected = mutExpectedPosition input)"
proof -
  have opt: "gives L (case sdiDecisionId input of None \<Rightarrow> returnC ()
      | Some i \<Rightarrow> bindC (liftC (decisionId i)) (\<lambda>_. returnC ())) (\<lambda>_. True)"
    by (cases "sdiDecisionId input") (auto intro!: gives_bind[OF gives_lift])
  show ?thesis
    unfolding validateDraft_def
    by (intro gives_try gives_bind[OF gives_lift] gives_bind[OF opt] gives_bind[OF gives_hash] gives_return)
      (simp add: meetingPosition_Inr)
qed

lemma gives_requireDecision:
  "gives L (requireDecision loaded target) (\<lambda>d. projected (lstProjection loaded) d \<and> recId d = target)"
  by (auto simp: requireDecision_def findDecision_Some split: option.splits)

lemma gives_newDraft:
  "gives L (newDraft deps context input loaded draft reason t) (\<lambda>(d, rv).
     decStatus d = DRAFT \<and> activeRevisionIs d rv \<and> participantId (uctParticipantId context) = Inr (recCreatedBy rv) \<and>
     meetingId (mutMeetingId input) = Inr (recMeetingId d) \<and>
     (\<forall>c. projected (lstProjection loaded) c \<longrightarrow> recId c \<noteq> recId d) \<and>
     drvVersion rv = 1 \<and> drvPreviousRevisionId rv = None)"
  unfolding newDraft_def
  by (intro gives_bind[OF gives_next] gives_bind[OF gives_lift] gives_bind[OF gives_unless] gives_return)
    (auto simp: createDecision_Inr initialRevision_def createDecisionRevision_Inr result_simps
      activeRevisionIs_def revisionNumber_Inr snapshotOf_def dest: findDecision_None)

lemma gives_revisedDraft:
  "gives L (revisedDraft deps context draft reason t c) (\<lambda>(d, rv).
     decStatus d = DRAFT \<and> activeRevisionIs d rv \<and> participantId (uctParticipantId context) = Inr (recCreatedBy rv) \<and>
     recMeetingId d = recMeetingId c \<and> recId d = recId c \<and>
     drvVersion rv = decActiveRevision c + 1 \<and> drvPreviousRevisionId rv = Some (decActiveRevisionId c))"
  unfolding revisedDraft_def
  by (intro gives_bind[OF gives_next] gives_bind[OF gives_lift] gives_return)
    (auto dest!: decisionFromRevision_Inr nextDecisionRevision_Inr simp: activeRevisionIs_def draftSnapshot_def)


lemma gives_makeDraft:
  assumes p: "projectionAt (mutMeetingId input) log0 (lstProjection loaded)"
  shows "gives L (makeDraft deps context input loaded draft reason) (\<lambda>(d, rv).
     draftedFrom (lstProjection loaded) (recCreatedBy rv) d rv \<and>
     participantId (uctParticipantId context) = Inr (recCreatedBy rv) \<and>
     meetingId (mutMeetingId input) = Inr (recMeetingId d))"
proof -
  let ?p = "lstProjection loaded"
  have target: "gives L (case sdiDecisionId input of None \<Rightarrow> returnC None
      | Some i \<Rightarrow> (case findDecision loaded i of None \<Rightarrow> failC DECISION_NOT_FOUND
          | Some d \<Rightarrow> bindC (unlessC (decStatus d = DRAFT) INVALID_STATE_TRANSITION) (\<lambda>_. returnC (Some d))))
      (\<lambda>existing. \<forall>c. existing = Some c \<longrightarrow> projected ?p c \<and> decStatus c = DRAFT)"
    by (auto intro!: gives_bind[OF gives_unless] dest: findDecision_Some split: option.splits)
  have made: "gives L (case existing of None \<Rightarrow> newDraft deps context input loaded draft reason t
      | Some d \<Rightarrow> revisedDraft deps context draft reason t d)
      (\<lambda>(d, rv). (revisionAccepted ?p rv \<longrightarrow> draftedFrom ?p (recCreatedBy rv) d rv) \<and>
        participantId (uctParticipantId context) = Inr (recCreatedBy rv) \<and>
        meetingId (mutMeetingId input) = Inr (recMeetingId d))"
    if "\<forall>c. existing = Some c \<longrightarrow> projected ?p c \<and> decStatus c = DRAFT" for existing t
  proof (cases existing)
    case None
    then show ?thesis
      by (auto intro!: gives_mono[OF gives_newDraft] simp: draftedFrom_def)
  next
    case (Some c)
    then have "projected ?p c" "decStatus c = DRAFT" using that by auto
    with Some projected_meeting[OF p] show ?thesis
      by (auto intro!: gives_mono[OF gives_revisedDraft] simp: draftedFrom_def)
  qed
  show ?thesis
    unfolding makeDraft_def
    by (intro gives_try gives_bind[OF target] gives_bind[OF gives_now] gives_bind[OF gives_lift])
      (auto intro!: gives_bind[OF made] gives_bind[OF gives_lift] simp: revisionAccepted_def)
qed

lemma gives_makeCommit:
  assumes "projected (lstProjection loaded) c" "hasActiveRevision loaded c"
  shows "gives L (makeCommit deps context loaded c) (\<lambda>(d, rv).
     committedFrom (lstProjection loaded) (recCreatedBy rv) (recId c) d rv \<and>
     participantId (uctParticipantId context) = Inr (recCreatedBy rv) \<and> recMeetingId d = recMeetingId c)"
  unfolding makeCommit_def
  by (intro gives_try gives_bind[OF gives_next] gives_bind[OF gives_lift] gives_bind[OF gives_clock]
      gives_return)
    (use assms in \<open>auto dest!: decisionFromRevision_Inr nextDecisionRevision_Inr commit_transition
      simp: committedFrom_def activeRevisionIs_def revisionAccepted_def hasActiveRevision_def list_ex_iff
        snapshotOf_def\<close>)

lemma gives_makeMonitoring:
  assumes "projected (lstProjection loaded) c"
  shows "gives L (makeMonitoring deps c) (\<lambda>(d, i, t).
     monitoredFrom (lstProjection loaded) (recId c) d i \<and> recMeetingId d = recMeetingId c)"
  unfolding makeMonitoring_def
  by (intro gives_try gives_bind[OF gives_next] gives_bind[OF gives_lift] gives_bind[OF gives_clock]
      gives_return)
    (use assms in \<open>auto dest!: monitor_transition simp: monitoredFrom_def\<close>)


lemma saveDecisionDraft_writes:
  assumes "trim (mutIdempotencyKey input) = mutIdempotencyKey input"
  shows "writes L (mutMeetingId input) (saveDecisionDraft deps context input)
    (draftEffect context (mutMeetingId input) (L (mutMeetingId input)))"
  unfolding saveDecisionDraft_def
proof (rule writes_bind[OF gives_authorize], rule writes_bind[OF gives_validateDraft], clarify)
  fix draft reason key expected f
  assume may: "mayDecide context (mutMeetingId input)"
    and key: "idempotencyKey (mutIdempotencyKey input) = Inr key"
  show "writes L (mutMeetingId input)
     (bindC (loadState deps (mutMeetingId input)) (\<lambda>loaded.
      case idempotentRecord (lstRecords loaded) (mutIdempotencyKey input) of
        Some prior \<Rightarrow> replayPrior deps input f (ercEvent prior) (uctParticipantId context) drafted
      | None \<Rightarrow>
         bindC (makeDraft deps context input loaded draft reason) (\<lambda>(d, rv).
         bindC (commandCorrelationId deps input) (\<lambda>correlation.
         bindC (sharedCommandEvent deps input (participantActor context) correlation (recCreatedAt rv)
                  (mutExpectedPosition input) key (DecisionDrafted d rv)) (\<lambda>ev.
         appendAndAnswer deps input f ev (uctParticipantId context)
           ''Decision draft append returned no DecisionDrafted event'' drafted)))))
     (draftEffect context (mutMeetingId input) (L (mutMeetingId input)))"
  proof (rule writes_after_load, rule writes_bind[OF gives_makeDraft], assumption, clarify)
    fix loaded :: loadedState and d rv
    assume p: "projectionAt (mutMeetingId input) (L (mutMeetingId input)) (lstProjection loaded)"
      and d: "draftedFrom (lstProjection loaded) (recCreatedBy rv) d rv"
      and f: "participantId (uctParticipantId context) = Inr (recCreatedBy rv)"
      and m: "meetingId (mutMeetingId input) = Inr (recMeetingId d)"
    show "writes L (mutMeetingId input)
       (bindC (commandCorrelationId deps input) (\<lambda>correlation.
         bindC (sharedCommandEvent deps input (participantActor context) correlation (recCreatedAt rv)
                  (mutExpectedPosition input) key (DecisionDrafted d rv)) (\<lambda>ev.
         appendAndAnswer deps input f ev (uctParticipantId context)
           ''Decision draft append returned no DecisionDrafted event'' drafted)))
       (draftEffect context (mutMeetingId input) (L (mutMeetingId input)))"
      by (rule writes_event[OF key assms refl])
        (use p d f m may in \<open>auto simp: payloadFits_decision draftEffect_def justified_def actsAs_def participantActor_Inr\<close>)
  qed
qed


lemma markDecisionReady_writes:
  assumes "trim (mutIdempotencyKey input) = mutIdempotencyKey input"
  shows "writes L (mutMeetingId input) (markDecisionReady deps context input)
    (readyEffect context (mutMeetingId input) (trim (dciDecisionId input)) (L (mutMeetingId input)))"
  unfolding markDecisionReady_def
  apply (rule writes_bind[OF gives_authorize], rule writes_bind[OF gives_validate], clarify)
  apply (rule writes_after_load, rule writes_bind[OF gives_requireDecision])
  apply (rule writes_bind[OF gives_unless], rule writes_bind[OF gives_unless])
  apply (rule writes_bind[OF gives_try[OF gives_lift]], rule writes_bind[OF gives_try[OF gives_clock]])
  apply (rule writes_event[OF _ assms refl], assumption)
  subgoal by (auto simp: payloadFits_decision dest!: readyFrom_ready projected_meeting)
  subgoal
    by (auto simp: readyEffect_def justified_def actsAs_def decisionId_def opaqueText_Inr
participantActor_Inr
        dest!: readyFrom_ready)
  done

lemma commitDecision_writes:
  assumes "trim (mutIdempotencyKey input) = mutIdempotencyKey input"
  shows "writes L (mutMeetingId input) (commitDecision deps context input)
    (\<lambda>ev. commitEffect context (mutMeetingId input) (trim (dciDecisionId input)) (L (mutMeetingId input)) ev \<and>
       cdiExplicitCommit input)"
  unfolding commitDecision_def
  apply (rule writes_bind[OF gives_authorize], rule writes_bind[OF gives_validate], clarify)
  apply (rule writes_after_load, rule writes_bind[OF gives_unless])
  apply (rule writes_bind[OF gives_requireDecision], rule writes_bind[OF gives_unless])
  apply (rule writes_bind[OF gives_makeCommit], blast, assumption, clarify)
  apply (rule writes_event[OF _ assms refl], assumption)
  subgoal by (auto simp: payloadFits_decision dest!: projected_meeting)
  subgoal
    using committedFrom_id
    by (fastforce simp: commitEffect_def justified_def actsAs_def decisionId_def opaqueText_Inr
        participantActor_Inr)
  done

lemma startDecisionMonitoring_writes:
  assumes "trim (mutIdempotencyKey input) = mutIdempotencyKey input"
  shows "writes L (mutMeetingId input) (startDecisionMonitoring deps context input)
    (monitoringEffect context (mutMeetingId input) (trim (dciDecisionId input)) (L (mutMeetingId input)))"
  unfolding startDecisionMonitoring_def
  apply (rule writes_bind[OF gives_authorize], rule writes_bind[OF gives_validate], clarify)
  apply (rule writes_after_load, rule writes_bind[OF gives_requireDecision])
  apply (rule writes_bind[OF gives_makeMonitoring], blast, clarify)
  apply (rule writes_event[OF _ assms refl], assumption)
  subgoal by (auto simp: payloadFits_decision dest!: projected_meeting)
  subgoal
    using monitoredFrom_id
    by (fastforce simp: monitoringEffect_def justified_def decisionId_def opaqueText_Inr)
  done

end

lemma writes_outcome:
  assumes "node.writes enc (worldLog w) m c (Q (worldLog w m))" "worldOk enc w" "c w = (r, w')"
  shows "worldOk enc w' \<and> commandOutcome Q m w r w'"
  using node.affectsD[OF assms(1)[unfolded node.writes_def] assms(2) refl assms(3)]
  by (auto simp: node.effect_def node.answered_def commandOutcome_def)

end
