(* ===== verification/DecisionExample.thy ===== *)
theory DecisionExample
  imports DecisionCommands
begin

section \<open>A concrete command\<close>

text \<open>
  A facilitator saves the first draft of a meeting in the empty world: the steps of the command are
  evaluated one by one, up to the event that it appends. The properties of commands and of runs are
  instantiated at this command.
\<close>

subsection \<open>The user, the input and the ports\<close>

definition exampleFacilitator :: userContext where
  "exampleFacilitator = \<lparr>uctCapabilities = [DecisionCommit], uctMeetingId = ''m1'', uctParticipantId = ''p1'',
     uctRole = FacilitatorRole, uctSessionId = ''s1'', uctUserId = ''u1''\<rparr>"
definition examplePorts :: "sqliteWorld ports" where
  "examplePorts = sqlitePorts (\<lambda>_. ''e'') (\<lambda>_. 0) (\<lambda>_. ''x'') (\<lambda>_. ''h'')"
definition exampleDraftInput :: saveDecisionDraftInput where
  "exampleDraftInput = \<lparr>mutCorrelationId = None, mutExpectedPosition = 0, mutIdempotencyKey = ''k1'',
    mutMeetingId = ''m1'', sdiActionIds = [], sdiDissentIds = [], sdiEvidenceIds = [],
    sdiMonitorCondition = \<lparr>mciDescription = ''w'', mciRegistrationId = None\<rparr>, sdiOutcome = ''o'',
    sdiPremiseIds = [], sdiTitle = ''t'', sdiChangeReason = ''r'', sdiDecisionId = None\<rparr>"

lemmas run_simps = bindC_def tryC_def liftC_def returnC_def readC_def portC_def unlessC_def failC_def

definition exampleTick :: "nat \<Rightarrow> sqliteWorld" where
  "exampleTick n = \<lparr>swDatabase = emptyDatabase, swTick = n, swFiles = Map.empty\<rparr>"

definition examplePrepared :: preparedDraft where
  "examplePrepared =
     \<lparr>pdrActionIds = [], pdrDissentIds = [], pdrEvidenceIds = [],
          pdrMonitorCondition = \<lparr>monDescription = ''w'', monRegistrationId = None\<rparr>,
          pdrOutcome = ''o'', pdrPremiseIds = [], pdrTitle = ''t''\<rparr>"

definition exampleLoaded :: loadedState where
  "exampleLoaded = \<lparr>lstProjection = createEmptyMeetingProjection ''m1'', lstRecords = []\<rparr>"

subsection \<open>The steps\<close>

lemma example_ports [simp]:
  "prtNow examplePorts (exampleTick n) = (isoString 0, exampleTick (n + 1))"
  "prtNext examplePorts ns (exampleTick n) = (ns @ ''_x'', exampleTick (n + 1))"
  "prtHash examplePorts v w = (Inr ''h'', w)"
  "prtLoad examplePorts ''m1'' (exampleTick n) = (Inr [], exampleTick n)"
  by (simp_all add: examplePorts_def sqlitePorts_def systemNow_def cryptographicNext_def exampleTick_def
      sqliteLoad_def emptyDatabase_def requireNonEmpty_def requireOption_def requirePosition_def isSafeInteger_def MAX_SAFE_INTEGER_def)

lemma example_texts [simp]:
  "idempotencyKey ''k1'' = Inr ''k1''" "meetingId ''m1'' = Inr ''m1''" "participantId ''p1'' = Inr ''p1''"
  "nonEmptyText ''w'' = Inr ''w''" "nonEmptyText ''o'' = Inr ''o''" "nonEmptyText ''t'' = Inr ''t''"
  "nonEmptyText ''r'' = Inr ''r''" 
  "decisionId ''decision_x'' = Inr ''decision_x''" "decisionRevisionId ''decision-revision_x'' = Inr ''decision-revision_x''"
  "correlationId ''correlation_x'' = Inr ''correlation_x''" "eventId ''event_x'' = Inr ''event_x''"
  by code_simp+

lemma example_hash [simp]: "hashValue examplePorts v w = (Inr ''h'', w)"
  by (simp add: hashValue_def run_simps raiseC_def hasWhitespace_def) code_simp

lemma example_authorize [simp]: "authorizeFacilitatorMutation exampleFacilitator exampleDraftInput w = (Inr (), w)"
  by (simp add: authorizeFacilitatorMutation_def exampleFacilitator_def exampleDraftInput_def mayUse_iff run_simps)

lemma example_position [simp]: "meetingPosition 0 = Inr 0" "meetingPosition 1 = Inr 1" "revisionNumber 1 = Inr 1"
  "schemaVersion 1 = Inr 1"
  by code_simp+

lemma example_validate [simp]: "validateDraft examplePorts exampleDraftInput w = (Inr (examplePrepared, ''r'', ''k1'', 0, ''h''), w)"
  by (simp add: validateDraft_def run_simps prepareDraft_def exampleDraftInput_def examplePrepared_def)

definition exampleDecisionDraft :: decision where
  "exampleDecisionDraft = \<lparr>recId = ''decision_x'', recMeetingId = ''m1'', recCreatedAt = isoString 0,
       recCreatedBy = ''p1'', recOrigin = HumanInput, recConfirmation = Confirmed, recRevision = 1,
       recVisibility = Shared, recOwner = None, decTitle = ''t'',
       decOutcome = ''o'', decStatus = DRAFT, decActiveRevision = 1,
       decActiveRevisionId = ''decision-revision_x'', decPremiseIds = [],
       decEvidenceIds = [], decDissentIds = [],
       decActionIds = [], decMonitorCondition = \<lparr>monDescription = ''w'', monRegistrationId = None\<rparr>,
       decSupersededBy = None\<rparr>"

definition exampleDraftRevision :: decisionRevision where
  "exampleDraftRevision = \<lparr>recId = ''decision-revision_x'', recMeetingId = ''m1'',
       recCreatedAt = isoString 0, recCreatedBy = ''p1'', recOrigin = HumanInput,
       recConfirmation = Confirmed, recRevision = 1, recVisibility = Shared, recOwner = None,
       drvDecisionId = ''decision_x'', drvVersion = 1, drvPreviousRevisionId = None,
       drvSnapshot = snapshotOf exampleDecisionDraft DRAFT, drvChangeReason = ''r''\<rparr>"

lemma example_load [simp]: "loadState examplePorts ''m1'' (exampleTick n) =
   (Inr exampleLoaded, exampleTick n)"
  by (simp add: loadState_def run_simps projectRecords_def normalizeRecords_def replayMeeting_def
      exampleLoaded_def)

lemma example_now [simp]: "timestamp (isoString 0) = Inr (isoString 0)"
  by (simp add: timestamp_isoString MAX_TIME_def)

lemma example_decision [simp]: "createDecision exampleDecisionDraft = Inr exampleDecisionDraft"
  by (simp add: createDecision_Inr decisionOk_def recordOk_def exampleDecisionDraft_def)

lemma example_revision [simp]: "createDecisionRevision exampleDraftRevision = Inr exampleDraftRevision"
  by (simp add: createDecisionRevision_Inr revisionOk_def recordOk_def exampleDraftRevision_def exampleDecisionDraft_def snapshotOf_def)

lemma example_no_decisions [simp]: "shpDecisions (mprShared (createEmptyMeetingProjection m)) = []"
  "shpDecisionRevisions (mprShared (createEmptyMeetingProjection m)) = []"
  by (simp_all add: createEmptyMeetingProjection_def createEmptySharedMeetingProjection_def)

lemma exampleLoaded_records [simp]: "lstRecords exampleLoaded = []"
  by (simp add: exampleLoaded_def)

lemma example_makeDraft: "makeDraft examplePorts exampleFacilitator exampleDraftInput
   exampleLoaded examplePrepared ''r'' (exampleTick 0) =
   (Inr (exampleDecisionDraft, exampleDraftRevision), exampleTick 3)"
proof -
  have "newDraft examplePorts exampleFacilitator exampleDraftInput
   exampleLoaded examplePrepared ''r'' (isoString 0) (exampleTick 1) =
   (Inr (exampleDecisionDraft, exampleDraftRevision), exampleTick 3)"
    using example_decision example_revision
    by (simp add: newDraft_def run_simps findDecision_def initialRevision_def exampleDecisionDraft_def exampleDraftRevision_def
      exampleDraftInput_def exampleFacilitator_def examplePrepared_def exampleLoaded_def eval_nat_numeral)
  moreover have "drvVersion exampleDraftRevision = 1" "drvPreviousRevisionId exampleDraftRevision = None"
    by (simp_all add: exampleDraftRevision_def)
  ultimately show ?thesis
    by (simp add: makeDraft_def requireCondition_def run_simps appendDecisionRevision_def latestRevision_def findLast_def
      exampleDraftInput_def exampleLoaded_def)
qed

definition exampleDraftEvent :: domainEvent where
  "exampleDraftEvent = \<lparr>evEventId = ''event_x'', evSchemaVersion = 1, evMeetingId = ''m1'', evPosition = 1,
       evActor = ParticipantActor ''p1'', evOccurredAt = isoString 0, evCorrelationId = ''correlation_x'',
       evCausationId = None, evIdempotencyKey = Some ''k1'', evScope = SharedScope,
       evPayload = DecisionDrafted exampleDecisionDraft exampleDraftRevision\<rparr>"

definition exampleAppended :: sqliteWorld where
  "exampleAppended = snd (prtAppend examplePorts (node.mutationRequest exampleDraftInput ''h'' [exampleDraftEvent]) (exampleTick 5))"

lemma example_append:
  "prtAppend examplePorts (node.mutationRequest exampleDraftInput ''h'' [exampleDraftEvent]) (exampleTick 5) =
     (Inr (Appended [\<lparr>ercEvent = exampleDraftEvent, ercPosition = 1\<rparr>]), exampleAppended)"
  unfolding exampleAppended_def
  by (simp add: examplePorts_def sqlitePorts_def exampleTick_def node.mutationRequest_def exampleDraftInput_def store_eval)

lemma example_draft_run:
  "\<exists>r w'. saveDecisionDraft examplePorts exampleFacilitator exampleDraftInput emptyWorld = (r, w') \<and>
     worldLog w' = worldLog exampleAppended"
proof -
  obtain r w' where run: "appendAndAnswer examplePorts exampleDraftInput ''h'' exampleDraftEvent ''p1''
           ''Decision draft append returned no DecisionDrafted event'' drafted (exampleTick 5) = (r, w')"
    by (cases "appendAndAnswer examplePorts exampleDraftInput ''h'' exampleDraftEvent ''p1''
           ''Decision draft append returned no DecisionDrafted event'' drafted (exampleTick 5)")
  have m: "mutMeetingId exampleDraftInput = ''m1''" "mutIdempotencyKey exampleDraftInput = ''k1''"
     "mutCorrelationId exampleDraftInput = None" "uctParticipantId exampleFacilitator = ''p1''"
    by (simp_all add: exampleDraftInput_def exampleFacilitator_def)
  have ev: "sharedCommandEvent examplePorts exampleDraftInput (participantActor exampleFacilitator) ''correlation_x''
     (recCreatedAt exampleDraftRevision) 0 ''k1'' (DecisionDrafted exampleDecisionDraft exampleDraftRevision) (exampleTick 4)
     = (Inr exampleDraftEvent, exampleTick 5)"
    by (simp add: sharedCommandEvent_def run_simps participantActor_def m exampleDraftEvent_def exampleDraftRevision_def)
  have corr: "commandCorrelationId examplePorts exampleDraftInput (exampleTick 3) = (Inr ''correlation_x'', exampleTick 4)"
    by (simp add: commandCorrelationId_def run_simps m)
  have "saveDecisionDraft examplePorts exampleFacilitator exampleDraftInput (exampleTick 0) = (r, w')"
    using example_makeDraft run ev corr
    by (simp add: saveDecisionDraft_def bindC_def idempotentRecord_def m)
  moreover have "worldLog w' = worldLog exampleAppended" 
  proof (rule node.appendAndAnswer_log[OF _ _ run[unfolded examplePorts_def]])
    show "prtAppend (sqlitePorts (\<lambda>_. ''e'') (\<lambda>_. 0) (\<lambda>_. ''x'') (\<lambda>_. ''h''))
      (node.mutationRequest exampleDraftInput ''h'' [exampleDraftEvent]) (exampleTick 5) =
     (Inr (Appended [\<lparr>ercEvent = exampleDraftEvent, ercPosition = 1\<rparr>]), exampleAppended)"
      using example_append by (simp add: examplePorts_def)
    show "worldOk (\<lambda>_. ''e'') exampleAppended"
    proof -
      have ok: "worldOk (\<lambda>_. ''e'') (exampleTick 5)"
        using worldOk_empty by (simp add: worldOk_def exampleTick_def emptyWorld_def)
      have key: "aprIdempotencyKey (node.mutationRequest exampleDraftInput ''h'' [exampleDraftEvent]) = Some k"
        if "ev \<in> set (aprEvents (node.mutationRequest exampleDraftInput ''h'' [exampleDraftEvent]))"
          "evIdempotencyKey ev = Some k" for ev k
        using that m by (simp add: exampleDraftEvent_def)
      have "worldOk (\<lambda>_. ''e'') (snd (prtAppend examplePorts
          (node.mutationRequest exampleDraftInput ''h'' [exampleDraftEvent]) (exampleTick 5)))"
        unfolding examplePorts_def by (rule node.append_ok[OF ok]) (rule key)
      then show ?thesis by (simp add: example_append)
    qed
  qed
  ultimately show ?thesis by (auto simp: exampleTick_def emptyWorld_def)
qed

lemma exampleAppended_log: "worldLog exampleAppended ''m1'' = [exampleDraftEvent]"
proof -
  have ok: "worldOk (\<lambda>_. ''e'') (exampleTick 5)" and empty: "worldLog (exampleTick 5) ''m1'' = []"
    using worldOk_empty by (simp_all add: worldOk_def exampleTick_def emptyWorld_def worldLog_def
        emptyDatabase_def logOf_def)
  from node.append_new[OF ok example_append[unfolded examplePorts_def]] empty show ?thesis
    by (simp add: exampleDraftInput_def)
qed

end
