(* ===== verification/SharedFloor.thy ===== *)
theory SharedFloor
  imports Commands
begin

section \<open>The shared floor and utterances: \<open>packages/application/src/utterances.ts\<close>\<close>

text \<open>
  A participant speaks to the room while holding the shared floor, a lease of fifteen seconds that is
  acquired for one utterance; what is said in private needs no floor. The three commands are
  \<open>acquireSharedFloor\<close>, \<open>releaseSharedFloor\<close> and \<open>captureUtterance\<close>. Unlike the Decision commands
  they derive event identifiers and idempotency keys from the meeting and the utterance, append at
  the position they loaded, and let the store compare the events themselves on a retry.
\<close>

subsection \<open>Inputs, state and answers\<close>

definition SHARED_FLOOR_LEASE_MS :: int where
  "SHARED_FLOOR_LEASE_MS = 15000"

record acquireSharedFloorInput =
  asfCorrelationId :: "string option"
  asfMeetingId :: string
  asfUtteranceId :: string

record releaseSharedFloorInput =
  rsfMeetingId :: string
  rsfUtteranceId :: string

text \<open>The channel of a request is untrusted text; the command checks it.\<close>

record captureUtteranceInput =
  cuiCapturedAt :: string
  cuiChannel :: string
  cuiMeetingId :: string
  cuiText :: string
  cuiUtteranceId :: string

record floorState =
  flsEvents :: "domainEvent list"
  flsPosition :: int
  flsProjection :: meetingProjection

record acquireSharedFloorResult =
  asrCorrelationId :: string
  asrLeaseExpiresAt :: string
  asrMeetingId :: string
  asrParticipantId :: string
  asrPosition :: int
  asrReplayed :: bool
  asrUtteranceId :: string

record releaseSharedFloorResult =
  rsrCorrelationId :: string
  rsrMeetingId :: string
  rsrPosition :: int
  rsrReleasedAt :: string
  rsrReplayed :: bool
  rsrUtteranceId :: string

record captureUtteranceResult =
  curCorrelationId :: string
  curMeetingId :: string
  curPosition :: int
  curReplayed :: bool
  curUtterance :: utterance

definition channelString :: "visibility \<Rightarrow> string" where
  "channelString v = (case v of Private \<Rightarrow> ''private'' | Shared \<Rightarrow> ''shared'')"

subsection \<open>Loading\<close>

definition loadFloorState :: "'w ports \<Rightarrow> string \<Rightarrow> ('w, floorState) command" where
  "loadFloorState deps m =
     bindC (portC (prtLoad deps m)) (\<lambda>records.
     bindC (liftC (normalizeRecords records)) (\<lambda>evs.
     bindC (liftC (bindE (meetingId m) (\<lambda>i. replayMeeting i evs))) (\<lambda>projection.
     returnC \<lparr>flsEvents = evs,
       flsPosition = (if records = [] then 0 else ercPosition (last records)),
       flsProjection = projection\<rparr>)))"

subsection \<open>Keys\<close>

definition floorKey :: "string \<Rightarrow> string \<Rightarrow> string" where
  "floorKey m u = ''shared-floor:'' @ m @ '':'' @ u"

definition floorReleaseKey :: "string \<Rightarrow> string \<Rightarrow> string" where
  "floorReleaseKey m u = ''shared-floor-release:'' @ m @ '':'' @ u"

definition utteranceCorrelation :: "string \<Rightarrow> string \<Rightarrow> string" where
  "utteranceCorrelation m u = ''utterance:'' @ m @ '':'' @ u"

subsection \<open>Reading the log\<close>

fun acquiredBy :: "domainEventPayload \<Rightarrow> (string \<times> string) option" where
  "acquiredBy (SharedFloorAcquired p t) = Some (p, t)"
| "acquiredBy _ = None"

fun releasedBy :: "domainEventPayload \<Rightarrow> string option" where
  "releasedBy (SharedFloorReleased p _) = Some p"
| "releasedBy _ = None"

fun capturedUtterance :: "domainEventPayload \<Rightarrow> utterance option" where
  "capturedUtterance (UtteranceCaptured u) = Some u"
| "capturedUtterance _ = None"

definition acquirer :: "domainEvent \<Rightarrow> string option" where
  "acquirer ev = map_option fst (acquiredBy (evPayload ev))"

definition acquisitionStep :: "domainEvent option \<Rightarrow> domainEvent \<Rightarrow> domainEvent option" where
  "acquisitionStep acquisition ev =
     (if acquiredBy (evPayload ev) \<noteq> None then Some ev
      else if releasedBy (evPayload ev) \<noteq> None \<and> acquisition \<noteq> None \<and>
              acquirer (the acquisition) = releasedBy (evPayload ev) then None
      else acquisition)"

definition currentFloorAcquisition :: "domainEvent list \<Rightarrow> domainEvent option" where
  "currentFloorAcquisition evs = foldl acquisitionStep None evs"

definition findRelease :: "domainEvent list \<Rightarrow> string \<Rightarrow> domainEvent option" where
  "findRelease evs k =
     findFirst (\<lambda>ev. releasedBy (evPayload ev) \<noteq> None \<and> evIdempotencyKey ev = Some k) evs"

definition findUtterance :: "domainEvent list \<Rightarrow> string \<Rightarrow> domainEvent option" where
  "findUtterance evs i =
     findFirst (\<lambda>ev. map_option recId (capturedUtterance (evPayload ev)) = Some i) evs"

text \<open>\<open>Date.parse(left) > Date.parse(right)\<close>; a comparison with \<open>NaN\<close> is false.\<close>

definition parsesAfter :: "string \<Rightarrow> string \<Rightarrow> bool" where
  "parsesAfter left right =
     (case (dateParse left, dateParse right) of (Some a, Some b) \<Rightarrow> b < a | _ \<Rightarrow> False)"

definition floorActive :: "sharedFloorProjection option \<Rightarrow> string \<Rightarrow> bool" where
  "floorActive floor now =
     (case floor of None \<Rightarrow> False | Some f \<Rightarrow> parsesAfter (flrLeaseExpiresAt f) now)"

text \<open>The active floor is this participant's, acquired under this key.\<close>

definition holdsFloor :: "meetingProjection \<Rightarrow> domainEvent list \<Rightarrow> string \<Rightarrow> string \<Rightarrow> bool" where
  "holdsFloor p evs participant k \<longleftrightarrow>
     map_option flrParticipantId (shpSharedFloor (mprShared p)) = Some participant \<and>
     Option.bind (currentFloorAcquisition evs) evIdempotencyKey = Some k"

subsection \<open>Answers\<close>

definition acquiredResult :: "domainEvent \<Rightarrow> string \<Rightarrow> bool \<Rightarrow> acquireSharedFloorResult" where
  "acquiredResult ev u replayed =
     \<lparr>asrCorrelationId = evCorrelationId ev, asrLeaseExpiresAt = snd (the (acquiredBy (evPayload ev))),
      asrMeetingId = evMeetingId ev, asrParticipantId = fst (the (acquiredBy (evPayload ev))),
      asrPosition = evPosition ev, asrReplayed = replayed, asrUtteranceId = u\<rparr>"

definition releasedResult :: "domainEvent \<Rightarrow> string \<Rightarrow> bool \<Rightarrow> releaseSharedFloorResult" where
  "releasedResult ev u replayed =
     \<lparr>rsrCorrelationId = evCorrelationId ev, rsrMeetingId = evMeetingId ev, rsrPosition = evPosition ev,
      rsrReleasedAt = evOccurredAt ev, rsrReplayed = replayed, rsrUtteranceId = u\<rparr>"

definition capturedResult :: "domainEvent \<Rightarrow> bool \<Rightarrow> captureUtteranceResult" where
  "capturedResult ev replayed =
     \<lparr>curCorrelationId = evCorrelationId ev, curMeetingId = evMeetingId ev, curPosition = evPosition ev,
      curReplayed = replayed, curUtterance = the (capturedUtterance (evPayload ev))\<rparr>"

definition conflictC :: "int \<Rightarrow> int \<Rightarrow> ('w, 'a) command" where
  "conflictC actual expected w = (Inl (Failed (ConflictFailure actual expected)), w)"

text \<open>The answer of an append: the first stored event that \<open>wanted\<close> recognises.\<close>

definition answerFrom ::
  "(domainEvent \<Rightarrow> bool) \<Rightarrow> (domainEvent \<Rightarrow> bool \<Rightarrow> 'a) \<Rightarrow> domainEvent eventRecord list \<Rightarrow> bool \<Rightarrow> ('w, 'a) command" where
  "answerFrom wanted answer records replayed =
     bindC (liftC (normalizeRecords records)) (\<lambda>evs.
     case findFirst wanted evs of
       None \<Rightarrow> failC IDEMPOTENCY_CONFLICT
     | Some ev \<Rightarrow> returnC (answer ev replayed))"

definition appendAt ::
  "'w ports \<Rightarrow> string \<Rightarrow> int \<Rightarrow> string \<Rightarrow> domainEvent list \<Rightarrow> ('w, domainEvent appendEventsOutcome) command" where
  "appendAt deps m expected k evs =
     portC (prtAppend deps
       \<lparr>aprEvents = evs, aprExpectedPosition = Some expected, aprIdempotencyKey = Some k,
        aprMeetingId = m, aprPayloadFingerprint = None, aprTrustFingerprint = None\<rparr>)"

text \<open>
  What every command makes of an append: a conflict of positions is handled by the caller, a
  conflict of keys is a failure, and the stored records answer.
\<close>

definition finishAppend ::
  "(domainEvent \<Rightarrow> bool) \<Rightarrow> (domainEvent \<Rightarrow> bool \<Rightarrow> 'a) \<Rightarrow> (int \<Rightarrow> int \<Rightarrow> ('w, 'a) command) \<Rightarrow>
     domainEvent appendEventsOutcome \<Rightarrow> ('w, 'a) command" where
  "finishAppend wanted answer onConflict out =
     (case out of
        PositionConflict actual expected \<Rightarrow> onConflict actual expected
      | AppendIdempotencyConflict _ \<Rightarrow> failC IDEMPOTENCY_CONFLICT
      | Appended records \<Rightarrow> answerFrom wanted answer records False
      | Replayed records \<Rightarrow> answerFrom wanted answer records True)"

subsection \<open>Scopes\<close>

definition prepareScopes ::
  "userContext \<Rightarrow> string \<Rightarrow> string \<Rightarrow> ('w, string \<times> string \<times> string) command" where
  "prepareScopes context m u =
     tryC validationHandler
       (bindC (liftC (meetingId m)) (\<lambda>meetingScope.
        bindC (liftC (participantId (uctParticipantId context))) (\<lambda>participantScope.
        bindC (liftC (utteranceId u)) (\<lambda>utteranceScope.
        returnC (meetingScope, participantScope, utteranceScope)))))"

subsection \<open>Acquiring the floor\<close>

definition leaseEnd :: "string \<Rightarrow> exn + string" where
  "leaseEnd now =
     (case dateParse now of
        Some ms \<Rightarrow>
          if \<bar>ms + SHARED_FLOOR_LEASE_MS\<bar> \<le> MAX_TIME
          then timestamp (isoString (ms + SHARED_FLOOR_LEASE_MS))
          else Inl (RangeError ''Invalid time value'')
      | None \<Rightarrow> Inl (RangeError ''Invalid time value''))"

definition expiredEvent ::
  "string \<Rightarrow> string \<Rightarrow> string \<Rightarrow> int \<Rightarrow> string \<Rightarrow> string \<Rightarrow> exn + domainEvent" where
  "expiredEvent k correlation m position now holder =
     bindE (eventId (k @ '':expired'')) (\<lambda>i.
     bindE (meetingPosition (position + 1)) (\<lambda>pos.
     bindE (schemaVersion 1) (\<lambda>version.
     Inr \<lparr>evEventId = i, evSchemaVersion = version, evMeetingId = m, evPosition = pos,
       evActor = SystemActor, evOccurredAt = now, evCorrelationId = correlation,
       evCausationId = None, evIdempotencyKey = None, evScope = SharedScope,
       evPayload = SharedFloorReleased holder Expired\<rparr>)))"

definition acquiredEvent ::
  "string \<Rightarrow> string \<Rightarrow> string \<Rightarrow> int \<Rightarrow> string \<Rightarrow> string \<Rightarrow> string \<Rightarrow> exn + domainEvent" where
  "acquiredEvent k correlation m position now participant lease =
     bindE (eventId (k @ '':acquired'')) (\<lambda>i.
     bindE (idempotencyKey k) (\<lambda>key.
     bindE (meetingPosition (position + 1)) (\<lambda>pos.
     bindE (schemaVersion 1) (\<lambda>version.
     Inr \<lparr>evEventId = i, evSchemaVersion = version, evMeetingId = m, evPosition = pos,
       evActor = ParticipantActor participant, evOccurredAt = now, evCorrelationId = correlation,
       evCausationId = None, evIdempotencyKey = Some key, evScope = SharedScope,
       evPayload = SharedFloorAcquired participant lease\<rparr>))))"

definition acquireEvents ::
  "string \<Rightarrow> string \<Rightarrow> string \<Rightarrow> int \<Rightarrow> string \<Rightarrow> string \<Rightarrow> string \<Rightarrow> sharedFloorProjection option \<Rightarrow>
     exn + domainEvent list" where
  "acquireEvents k correlation m position now participant lease floor =
     (case floor of
        None \<Rightarrow>
          bindE (acquiredEvent k correlation m position now participant lease) (\<lambda>ev. Inr [ev])
      | Some f \<Rightarrow>
          bindE (expiredEvent k correlation m position now (flrParticipantId f)) (\<lambda>old.
          bindE (acquiredEvent k correlation m (position + 1) now participant lease) (\<lambda>ev.
          Inr [old, ev])))"

definition activeFloorAnswer ::
  "floorState \<Rightarrow> string \<Rightarrow> string \<Rightarrow> string \<Rightarrow> ('w, acquireSharedFloorResult) command" where
  "activeFloorAnswer st participant k u =
     (if holdsFloor (flsProjection st) (flsEvents st) participant k
      then returnC (acquiredResult (the (currentFloorAcquisition (flsEvents st))) u True)
      else failC SHARED_FLOOR_BUSY)"

definition acquireAfterConflict ::
  "'w ports \<Rightarrow> string \<Rightarrow> string \<Rightarrow> string \<Rightarrow> string \<Rightarrow> string \<Rightarrow> int \<Rightarrow> int \<Rightarrow>
     ('w, acquireSharedFloorResult) command" where
  "acquireAfterConflict deps m participant k u now actual expected =
     bindC (loadFloorState deps m) (\<lambda>latest.
     if floorActive (shpSharedFloor (mprShared (flsProjection latest))) now
     then activeFloorAnswer latest participant k u
     else conflictC actual expected)"

definition isAcquisition :: "string \<Rightarrow> domainEvent \<Rightarrow> bool" where
  "isAcquisition k ev \<longleftrightarrow> acquiredBy (evPayload ev) \<noteq> None \<and> evIdempotencyKey ev = Some k"

definition validateAcquire ::
  "'w ports \<Rightarrow> acquireSharedFloorInput \<Rightarrow> string \<Rightarrow> string \<Rightarrow> ('w, string \<times> string) command" where
  "validateAcquire deps input m u =
     tryC validationHandler
       (bindC (clockNow deps) (\<lambda>now.
        bindC (liftC (correlationId (case asfCorrelationId input of
                 Some c \<Rightarrow> c | None \<Rightarrow> floorKey m u))) (\<lambda>correlation.
        returnC (now, correlation))))"

definition acquireFrom ::
  "'w ports \<Rightarrow> string \<Rightarrow> string \<Rightarrow> string \<Rightarrow> string \<Rightarrow> string \<Rightarrow> floorState \<Rightarrow>
     ('w, acquireSharedFloorResult) command" where
  "acquireFrom deps m participant u now correlation st =
     (let floor = shpSharedFloor (mprShared (flsProjection st)); k = floorKey m u in
      if floorActive floor now then activeFloorAnswer st participant k u
      else
        bindC (liftC (leaseEnd now)) (\<lambda>lease.
        bindC (liftC (acquireEvents k correlation m (flsPosition st) now participant lease floor)) (\<lambda>evs.
        bindC (appendAt deps m (flsPosition st) k evs)
          (finishAppend (isAcquisition k) (\<lambda>ev. acquiredResult ev u)
            (acquireAfterConflict deps m participant k u now)))))"

definition acquireSharedFloor ::
  "'w ports \<Rightarrow> userContext \<Rightarrow> acquireSharedFloorInput \<Rightarrow> ('w, acquireSharedFloorResult) command" where
  "acquireSharedFloor deps context input =
     bindC (unlessC (mayUse context MeetingRead (asfMeetingId input)) FORBIDDEN) (\<lambda>_.
     bindC (prepareScopes context (asfMeetingId input) (asfUtteranceId input)) (\<lambda>(m, participant, u).
     bindC (validateAcquire deps input m u) (\<lambda>(now, correlation).
     bindC (loadFloorState deps m) (acquireFrom deps m participant u now correlation))))"

subsection \<open>Releasing the floor\<close>

definition releasedEvent :: "string \<Rightarrow> string \<Rightarrow> int \<Rightarrow> string \<Rightarrow> string \<Rightarrow> exn + domainEvent" where
  "releasedEvent k m position releasedAt participant =
     bindE (correlationId k) (\<lambda>correlation.
     bindE (eventId (k @ '':released'')) (\<lambda>i.
     bindE (idempotencyKey k) (\<lambda>key.
     bindE (meetingPosition (position + 1)) (\<lambda>pos.
     bindE (schemaVersion 1) (\<lambda>version.
     Inr \<lparr>evEventId = i, evSchemaVersion = version, evMeetingId = m, evPosition = pos,
       evActor = ParticipantActor participant, evOccurredAt = releasedAt, evCorrelationId = correlation,
       evCausationId = None, evIdempotencyKey = Some key, evScope = SharedScope,
       evPayload = SharedFloorReleased participant Released\<rparr>)))))"

definition isRelease :: "string \<Rightarrow> domainEvent \<Rightarrow> bool" where
  "isRelease k ev \<longleftrightarrow> releasedBy (evPayload ev) \<noteq> None \<and> evIdempotencyKey ev = Some k"

definition releaseHeld ::
  "'w ports \<Rightarrow> string \<Rightarrow> string \<Rightarrow> string \<Rightarrow> string \<Rightarrow> floorState \<Rightarrow> ('w, releaseSharedFloorResult) command" where
  "releaseHeld deps m participant u k st =
     (if \<not> holdsFloor (flsProjection st) (flsEvents st) participant (floorKey m u) then failC FORBIDDEN
      else
        bindC (tryC validationHandler (clockNow deps)) (\<lambda>releasedAt.
        bindC (liftC (releasedEvent k m (flsPosition st) releasedAt participant)) (\<lambda>ev.
        bindC (appendAt deps m (flsPosition st) k [ev])
          (finishAppend (isRelease k) (\<lambda>ev. releasedResult ev u) conflictC))))"

definition releaseFrom ::
  "'w ports \<Rightarrow> string \<Rightarrow> string \<Rightarrow> string \<Rightarrow> floorState \<Rightarrow> ('w, releaseSharedFloorResult) command" where
  "releaseFrom deps m participant u st =
     (let k = floorReleaseKey m u in
      case findRelease (flsEvents st) k of
        Some prior \<Rightarrow>
          if releasedBy (evPayload prior) = Some participant \<and> evActor prior = ParticipantActor participant
          then returnC (releasedResult prior u True)
          else releaseHeld deps m participant u k st
      | None \<Rightarrow> releaseHeld deps m participant u k st)"

definition releaseSharedFloor ::
  "'w ports \<Rightarrow> userContext \<Rightarrow> releaseSharedFloorInput \<Rightarrow> ('w, releaseSharedFloorResult) command" where
  "releaseSharedFloor deps context input =
     bindC (unlessC (mayUse context MeetingRead (rsfMeetingId input)) FORBIDDEN) (\<lambda>_.
     bindC (prepareScopes context (rsfMeetingId input) (rsfUtteranceId input)) (\<lambda>(m, participant, u).
     bindC (loadFloorState deps m) (releaseFrom deps m participant u)))"

subsection \<open>Capturing an utterance\<close>

definition sameUtterance :: "utterance \<Rightarrow> string \<Rightarrow> captureUtteranceInput \<Rightarrow> string \<Rightarrow> bool" where
  "sameUtterance u participant input canonicalText \<longleftrightarrow>
     uttParticipantId u = participant \<and> channelString (uttChannel u) = cuiChannel input \<and>
     uttText u = canonicalText \<and> uttCapturedAt u = cuiCapturedAt input"

definition buildUtterance ::
  "string \<Rightarrow> string \<Rightarrow> string \<Rightarrow> visibility \<Rightarrow> string \<Rightarrow> string \<Rightarrow> exn + utterance" where
  "buildUtterance m participant u channel txt capturedAt =
     bindE (idempotencyKey u) (\<lambda>key.
     bindE (revisionNumber 1) (\<lambda>one.
     createUtterance \<lparr>recId = u, recMeetingId = m, recCreatedAt = capturedAt,
       recCreatedBy = participant, recOrigin = HumanUtterance, recConfirmation = NotApplicable,
       recRevision = one, recVisibility = channel,
       recOwner = (if channel = Private then Some participant else None),
       uttParticipantId = participant, uttChannel = channel, uttText = txt,
       uttCapturedAt = capturedAt, uttIdempotencyKey = key\<rparr>))"

definition validateCapture ::
  "'w ports \<Rightarrow> captureUtteranceInput \<Rightarrow> ('w, string \<times> string \<times> string \<times> visibility) command" where
  "validateCapture deps input =
     bindC (tryC validationHandler
       (bindC (unlessC (length (cuiText input) \<le> 4000) VALIDATION_FAILED) (\<lambda>_.
        bindC (liftC (timestamp (cuiCapturedAt input))) (\<lambda>capturedAt.
        bindC (liftC (nonEmptyText (cuiText input))) (\<lambda>txt.
        bindC (clockNow deps) (\<lambda>now.
        returnC (capturedAt, txt, now))))))) (\<lambda>(capturedAt, txt, now).
     if cuiChannel input = channelString Private then returnC (capturedAt, txt, now, Private)
     else if cuiChannel input = channelString Shared then returnC (capturedAt, txt, now, Shared)
     else failC VALIDATION_FAILED)"

text \<open>The floor that a shared utterance needs: held now, by the speaker, acquired for this utterance.\<close>

definition requireFloor ::
  "floorState \<Rightarrow> string \<Rightarrow> string \<Rightarrow> string \<Rightarrow> ('w, unit) command" where
  "requireFloor st now participant k =
     (let floor = shpSharedFloor (mprShared (flsProjection st));
          acquisition = currentFloorAcquisition (flsEvents st);
          active = floorActive floor now in
      if active \<and> map_option flrParticipantId floor \<noteq> Some participant then failC SHARED_FLOOR_BUSY
      else if \<not> active \<or> Option.bind acquisition acquirer \<noteq> Some participant \<or>
              Option.bind acquisition evIdempotencyKey \<noteq> Some k then failC FORBIDDEN
      else returnC ())"

definition capturedEvent ::
  "string \<Rightarrow> string \<Rightarrow> string \<Rightarrow> int \<Rightarrow> string \<Rightarrow> utterance \<Rightarrow> exn + domainEvent" where
  "capturedEvent m participant u position now utt =
     bindE (correlationId (utteranceCorrelation m u)) (\<lambda>correlation.
     bindE (eventId (utteranceCorrelation m u @ '':captured'')) (\<lambda>i.
     bindE (idempotencyKey u) (\<lambda>key.
     bindE (meetingPosition (position + 1)) (\<lambda>pos.
     bindE (schemaVersion 1) (\<lambda>version.
     Inr \<lparr>evEventId = i, evSchemaVersion = version, evMeetingId = m, evPosition = pos,
       evActor = ParticipantActor participant, evOccurredAt = now, evCorrelationId = correlation,
       evCausationId = None, evIdempotencyKey = Some key,
       evScope = (if recVisibility utt = Private then PrivateScope participant else SharedScope),
       evPayload = UtteranceCaptured utt\<rparr>)))))"

definition isCapture :: "string \<Rightarrow> domainEvent \<Rightarrow> bool" where
  "isCapture u ev \<longleftrightarrow> map_option recId (capturedUtterance (evPayload ev)) = Some u"

definition captureNew ::
  "'w ports \<Rightarrow> string \<Rightarrow> string \<Rightarrow> string \<Rightarrow> string \<Rightarrow> string \<Rightarrow> string \<Rightarrow> visibility \<Rightarrow> floorState \<Rightarrow>
     ('w, captureUtteranceResult) command" where
  "captureNew deps m participant u capturedAt txt now channel st =
     bindC (if channel = Shared then requireFloor st now participant (floorKey m u)
            else returnC ()) (\<lambda>_.
     bindC (tryC validationHandler
              (liftC (buildUtterance m participant u channel txt capturedAt))) (\<lambda>utt.
     bindC (liftC (capturedEvent m participant u (flsPosition st) now utt)) (\<lambda>ev.
     bindC (appendAt deps m (flsPosition st) u [ev])
       (finishAppend (isCapture u) capturedResult conflictC))))"

definition captureUtterance ::
  "'w ports \<Rightarrow> userContext \<Rightarrow> captureUtteranceInput \<Rightarrow> ('w, captureUtteranceResult) command" where
  "captureUtterance deps context input =
     bindC (unlessC (mayUse context MeetingRead (cuiMeetingId input)) FORBIDDEN) (\<lambda>_.
     bindC (prepareScopes context (cuiMeetingId input) (cuiUtteranceId input)) (\<lambda>(m, participant, u).
     bindC (validateCapture deps input) (\<lambda>(capturedAt, txt, now, channel).
     bindC (loadFloorState deps m) (\<lambda>st.
     case findUtterance (flsEvents st) u of
       Some prior \<Rightarrow>
         if sameUtterance (the (capturedUtterance (evPayload prior))) participant input txt
         then returnC (capturedResult prior True)
         else failC IDEMPOTENCY_CONFLICT
     | None \<Rightarrow> captureNew deps m participant u capturedAt txt now channel st))))"

end
