(* ===== verification/FloorLogic.thy ===== *)
theory FloorLogic
  imports CommandLogic SharedFloor
begin

section \<open>The shared floor as a lease\<close>

text \<open>
  The specification of the floor is read off the log alone: \<open>floorOf\<close> is the lease in force after a
  log, and \<open>floorJustified\<close> and \<open>captureJustified\<close> say which floor and utterance events may follow
  a log. The commands append only such events; that the projection and the search for the current
  acquisition, which the commands consult, agree with \<open>floorOf\<close> is \<open>projection_floor\<close> and
  \<open>acquisition_of_floor\<close>.
\<close>

subsection \<open>The lease in force\<close>

record floorHold =
  fhdHolder :: string
  fhdLease :: string
  fhdKey :: "string option"

definition floorAfter :: "floorHold option \<Rightarrow> domainEvent \<Rightarrow> floorHold option" where
  "floorAfter h ev =
     (case evPayload ev of
        SharedFloorAcquired p t \<Rightarrow> Some \<lparr>fhdHolder = p, fhdLease = t, fhdKey = evIdempotencyKey ev\<rparr>
      | SharedFloorReleased p _ \<Rightarrow> if map_option fhdHolder h = Some p then None else h
      | MeetingEnded _ _ \<Rightarrow> if evScope ev = SharedScope then None else h
      | DemoResetCompleted _ _ \<Rightarrow> if evScope ev = SharedScope then None else h
      | _ \<Rightarrow> h)"

definition floorOf :: "domainEvent list \<Rightarrow> floorHold option" where
  "floorOf log = foldl floorAfter None log"

definition leaseOf :: "floorHold \<Rightarrow> sharedFloorProjection" where
  "leaseOf h = \<lparr>flrParticipantId = fhdHolder h, flrLeaseExpiresAt = fhdLease h\<rparr>"

lemma floorOf_Nil [simp]: "floorOf [] = None"
  by (simp add: floorOf_def)

lemma floorOf_snoc: "floorOf (log @ [ev]) = floorAfter (floorOf log) ev"
  by (simp add: floorOf_def)

lemma floorAfter_stays:
  assumes "floorAfter (Some h) ev \<noteq> Some h"
  shows "acquiredBy (evPayload ev) \<noteq> None \<or> releasedBy (evPayload ev) = Some (fhdHolder h) \<or>
    (\<exists>i r. evPayload ev = MeetingEnded i r) \<or> isDemoResetCompleted (evPayload ev)"
  using assms by (cases "evPayload ev") (auto simp: floorAfter_def isDemoResetCompleted_def split: if_splits)

text \<open>The acquisition that the commands look for is the one of the lease in force.\<close>

definition grantedBy :: "floorHold \<Rightarrow> domainEvent \<Rightarrow> bool" where
  "grantedBy h ev \<longleftrightarrow>
     acquiredBy (evPayload ev) = Some (fhdHolder h, fhdLease h) \<and> evIdempotencyKey ev = fhdKey h"

lemma acquisition_step:
  assumes "\<And>h. floor = Some h \<Longrightarrow> \<exists>e. acq = Some e \<and> grantedBy h e" "floorAfter floor ev = Some h"
  shows "\<exists>e. acquisitionStep acq ev = Some e \<and> grantedBy h e"
proof (cases "evPayload ev")
  case (SharedFloorAcquired p t)
  with assms(2) show ?thesis by (auto simp: floorAfter_def acquisitionStep_def grantedBy_def)
next
  case (SharedFloorReleased p why)
  with assms(2) have "floor = Some h" "fhdHolder h \<noteq> p" by (auto simp: floorAfter_def split: if_splits)
  moreover from assms(1)[OF this(1)] obtain e where "acq = Some e" "grantedBy h e" by blast
  ultimately show ?thesis
    using SharedFloorReleased by (auto simp: acquisitionStep_def acquirer_def grantedBy_def)
qed (use assms in \<open>auto simp: floorAfter_def acquisitionStep_def split: if_splits\<close>)

lemma acquisition_of_floor:
  "floorOf evs = Some h \<Longrightarrow> \<exists>e. currentFloorAcquisition evs = Some e \<and> grantedBy h e"
proof (induction evs arbitrary: h rule: rev_induct)
  case (snoc ev evs)
  from acquisition_step[OF snoc.IH, of "floorOf evs" ev h] snoc.prems show ?case
    by (simp add: floorOf_snoc currentFloorAcquisition_def)
qed simp

text \<open>Normalising positions does not touch the floor.\<close>

lemma floorOf_map:
  "map (\<lambda>e. (evPayload e, evScope e, evIdempotencyKey e)) xs =
     map (\<lambda>e. (evPayload e, evScope e, evIdempotencyKey e)) ys \<Longrightarrow> floorOf xs = floorOf ys"
proof (induction xs arbitrary: ys rule: rev_induct)
  case (snoc x xs)
  from snoc.prems obtain zs z where ys: "ys = zs @ [z]"
    by (cases ys rule: rev_cases) auto
  with snoc.prems have "floorOf xs = floorOf zs" "evPayload x = evPayload z" "evScope x = evScope z"
    "evIdempotencyKey x = evIdempotencyKey z"
    using snoc.IH[of zs] by auto
  then show ?case unfolding ys floorOf_snoc
    by (cases "evPayload z") (simp_all add: floorAfter_def)
qed simp

lemma floorOf_normalized:
  "normalizeRecords (numberRecords n log) = Inr evs \<Longrightarrow> floorOf evs = floorOf log"
  by (rule floorOf_map) (rule normalizeRecords_keep, simp_all)

subsection \<open>The projected floor\<close>

definition floorPayload :: "domainEventPayload \<Rightarrow> bool" where
  "floorPayload p \<longleftrightarrow> acquiredBy p \<noteq> None \<or> releasedBy p \<noteq> None"

lemma shared_payload_floor:
  assumes "reduceSharedPayload st ev = Inr next" "evScope ev = SharedScope"
    and "shpSharedFloor st = map_option leaseOf h"
  shows "shpSharedFloor next = map_option leaseOf (floorAfter h ev)"
proof -
  have confirmed: "shpSharedFloor (addConfirmed st c) = shpSharedFloor st" for c by (cases c) simp_all
  have holder: "map_option flrParticipantId (map_option leaseOf h) = map_option fhdHolder h"
    by (cases h) (simp_all add: leaseOf_def)
  show ?thesis
    using assms holder
    by (cases "evPayload ev")
      (auto simp: reduceSharedPayload_def reduceDecision_def reduceMeetingLifecycle_def reduceSharedContent_def
        resetShared_def createEmptySharedMeetingProjection_def floorAfter_def leaseOf_def confirmed result_simps
        split: if_splits)
qed

lemma scopes_floor:
  assumes "reduceScopes p ev = Inr (sh, ws)" "floorPayload (evPayload ev) \<longrightarrow> evScope ev = SharedScope"
    and "shpSharedFloor (mprShared p) = map_option leaseOf h"
  shows "shpSharedFloor sh = map_option leaseOf (floorAfter h ev)"
proof (cases "evScope ev")
  case SharedScope
  then obtain next' where "reduceSharedPayload (mprShared p) ev = Inr next'" "shpSharedFloor sh = shpSharedFloor next'"
    using assms(1) by (auto simp: reduceScopes_shared reduceSharedEvent_Inr)
  with shared_payload_floor[OF this(1) SharedScope assms(3)] show ?thesis by simp
next
  case (PrivateScope owner)
  then have "sh = mprShared p" using assms(1) by (auto simp: reduceScopes_private)
  moreover have "floorAfter h ev = h"
    using assms(2) PrivateScope by (cases "evPayload ev") (auto simp: floorAfter_def floorPayload_def)
  ultimately show ?thesis using assms(3) by simp
qed

lemma projection_floor:
  assumes "wellPlacedAll m [] log" "distinct (map evEventId log)" "projectionAt m log p"
    and "\<And>ev. ev \<in> set log \<Longrightarrow> floorPayload (evPayload ev) \<Longrightarrow> evScope ev = SharedScope"
  shows "shpSharedFloor (mprShared p) = map_option leaseOf (floorOf log)"
  using assms
proof (induction rule: placed_induct)
  case (empty i)
  then show ?case by (simp add: createEmptyMeetingProjection_def createEmptySharedMeetingProjection_def)
next
  case (accept log ev p sh ws)
  have "shpSharedFloor (mprShared p) = map_option leaseOf (floorOf log)"
    using accept.IH accept.prems by simp
  from scopes_floor[OF accept.hyps(5) _ this] accept.prems show ?case
    by (simp add: floorOf_snoc)
qed

subsection \<open>Justified floor and utterance events\<close>

text \<open>A lease that is granted runs for fifteen seconds from the moment the event names.\<close>

definition leaseFrom :: "string \<Rightarrow> string \<Rightarrow> bool" where
  "leaseFrom now lease \<longleftrightarrow>
     (\<exists>ms. \<bar>ms\<bar> \<le> MAX_TIME \<and> \<bar>ms + 15000\<bar> \<le> MAX_TIME \<and> now = isoString ms \<and> lease = isoString (ms + 15000))"

definition floorJustified :: "string \<Rightarrow> domainEvent list \<Rightarrow> domainEvent \<Rightarrow> bool" where
  "floorJustified m log ev \<longleftrightarrow>
     evScope ev = SharedScope \<and> timestamp (evOccurredAt ev) = Inr (evOccurredAt ev) \<and>
     (case evPayload ev of
        SharedFloorAcquired p t \<Rightarrow>
          floorOf log = None \<and> evActor ev = ParticipantActor p \<and> leaseFrom (evOccurredAt ev) t \<and>
          (\<exists>u. evIdempotencyKey ev = Some (floorKey m u))
      | SharedFloorReleased p why \<Rightarrow>
          (\<exists>h. floorOf log = Some h \<and> fhdHolder h = p \<and>
             (why = Released \<and> evActor ev = ParticipantActor p \<or>
              why = Expired \<and> evActor ev = SystemActor \<and> \<not> parsesAfter (fhdLease h) (evOccurredAt ev)))
      | _ \<Rightarrow> False)"

definition captureJustified :: "string \<Rightarrow> domainEvent list \<Rightarrow> domainEvent \<Rightarrow> bool" where
  "captureJustified m log ev \<longleftrightarrow>
     (case evPayload ev of
        UtteranceCaptured u \<Rightarrow>
          evActor ev = ParticipantActor (uttParticipantId u) \<and> uttChannel u = recVisibility u \<and>
          (\<forall>old \<in> set log. map_option recId (capturedUtterance (evPayload old)) \<noteq> Some (recId u)) \<and>
          (case recVisibility u of
             Private \<Rightarrow> evScope ev = PrivateScope (uttParticipantId u) \<and> recOwner u = Some (uttParticipantId u)
           | Shared \<Rightarrow> evScope ev = SharedScope \<and>
               (\<exists>h. floorOf log = Some h \<and> fhdHolder h = uttParticipantId u \<and>
                  fhdKey h = Some (floorKey m (recId u)) \<and> parsesAfter (fhdLease h) (evOccurredAt ev)))
      | _ \<Rightarrow> False)"

text \<open>What the three commands may append.\<close>

definition speechPayload :: "domainEventPayload \<Rightarrow> bool" where
  "speechPayload p \<longleftrightarrow> floorPayload p \<or> capturedUtterance p \<noteq> None"

definition speechJustified :: "string \<Rightarrow> domainEvent list \<Rightarrow> domainEvent \<Rightarrow> bool" where
  "speechJustified m log ev \<longleftrightarrow>
     (floorPayload (evPayload ev) \<longrightarrow> floorJustified m log ev) \<and>
     (capturedUtterance (evPayload ev) \<noteq> None \<longrightarrow> captureJustified m log ev)"

lemma speechJustified_other: "\<not> speechPayload (evPayload ev) \<Longrightarrow> speechJustified m log ev"
  by (simp add: speechJustified_def speechPayload_def)

definition floorSeen :: "string \<Rightarrow> domainEvent list \<Rightarrow> bool" where
  "floorSeen m log \<longleftrightarrow>
     (\<forall>p. projectionAt m log p \<longrightarrow> shpSharedFloor (mprShared p) = map_option leaseOf (floorOf log))"

text \<open>A list of events that the commands may append after a log.\<close>

definition speaks :: "string \<Rightarrow> domainEvent list \<Rightarrow> domainEvent list \<Rightarrow> bool" where
  "speaks m log evs \<longleftrightarrow>
     wellPlacedAll m log evs \<and> list_all (\<lambda>ev. speechPayload (evPayload ev)) evs \<and>
     (floorSeen m log \<longrightarrow> stepwise (speechJustified m) log evs)"

lemma speaks_single:
  "wellPlaced m log ev \<Longrightarrow> speechPayload (evPayload ev) \<Longrightarrow>
     (floorSeen m log \<Longrightarrow> speechJustified m log ev) \<Longrightarrow> speaks m log [ev]"
  by (simp add: speaks_def)

subsection \<open>Parts of the commands\<close>

lemma trim_floorKey:
  assumes "u = trim u'" "u \<noteq> []"
  shows "trim (floorKey m u) = floorKey m u" "trim (floorReleaseKey m u) = floorReleaseKey m u"
  using assms trim_ends[of u']
  by (auto intro!: trim_fixed simp: floorKey_def floorReleaseKey_def isWhitespace_def codeUnit_def)

lemma leaseEnd_Inr:
  assumes "timestamp v = Inr now" "leaseEnd now = Inr lease"
  shows "leaseFrom now lease"
proof -
  obtain ms where ms: "\<bar>ms\<bar> \<le> MAX_TIME" "now = isoString ms" using assms(1) by (auto simp: timestamp_Inr)
  then have "\<bar>ms + 15000\<bar> \<le> MAX_TIME" "timestamp (isoString (ms + 15000)) = Inr lease"
    using assms(2) dateParse_isoString[OF ms(1)]
    by (auto simp: leaseEnd_def SHARED_FLOOR_LEASE_MS_def split: if_splits)
  with ms show ?thesis by (auto simp: leaseFrom_def timestamp_isoString)
qed

lemma floor_payload_fits:
  assumes "evScope ev = SharedScope" "floorPayload (evPayload ev)"
  shows "payloadFits ev"
  using assms by (cases "evPayload ev")
    (auto simp: floorPayload_def payloadFits_def reduceSharedPayload_def reduceSharedContent_def)

lemma normalize_record:
  "meetingPosition n = Inr (evPosition ev) \<Longrightarrow> normalizeRecord \<lparr>ercEvent = ev, ercPosition = n\<rparr> = Inr ev"
  by (cases ev) (simp add: normalizeRecord_def)

lemma normalize_single:
  "meetingPosition n = Inr (evPosition ev) \<Longrightarrow> normalizeRecords (numberRecords n [ev]) = Inr [ev]"
  by (simp add: normalizeRecords_def normalize_record)

lemma normalize_pair:
  "meetingPosition n = Inr (evPosition a) \<Longrightarrow> meetingPosition (n + 1) = Inr (evPosition b) \<Longrightarrow>
     normalizeRecords (numberRecords n [a, b]) = Inr [a, b]"
  by (simp add: normalizeRecords_def normalize_record)

lemma holdsFloor_floor:
  assumes "shpSharedFloor (mprShared p) = map_option leaseOf (floorOf evs)" "holdsFloor p evs participant k"
  shows "\<exists>h. floorOf evs = Some h \<and> fhdHolder h = participant \<and> fhdKey h = Some k"
proof -
  from assms obtain h where h: "floorOf evs = Some h" "fhdHolder h = participant"
    by (auto simp: holdsFloor_def leaseOf_def)
  from acquisition_of_floor[OF h(1)] obtain e where
    "currentFloorAcquisition evs = Some e" "grantedBy h e" by blast
  with assms(2) h show ?thesis by (auto simp: holdsFloor_def grantedBy_def)
qed

lemma acquiredEvent_Inr:
  assumes "acquiredEvent k correlation m position now participant lease = Inr ev"
  shows "evPayload ev = SharedFloorAcquired participant lease \<and> evScope ev = SharedScope \<and>
    evActor ev = ParticipantActor participant \<and> evOccurredAt ev = now \<and> evMeetingId ev = m \<and>
    evIdempotencyKey ev = Some (trim k) \<and> meetingPosition (position + 1) = Inr (evPosition ev)"
  using assms by (auto simp: acquiredEvent_def result_simps idempotencyKey_def opaqueText_Inr meetingPosition_Inr)

lemma expiredEvent_Inr:
  assumes "expiredEvent k correlation m position now holder = Inr ev"
  shows "evPayload ev = SharedFloorReleased holder Expired \<and> evScope ev = SharedScope \<and>
    evActor ev = SystemActor \<and> evOccurredAt ev = now \<and> evMeetingId ev = m \<and>
    evIdempotencyKey ev = None \<and> meetingPosition (position + 1) = Inr (evPosition ev)"
  using assms by (auto simp: expiredEvent_def result_simps meetingPosition_Inr)

lemma releasedEvent_Inr:
  assumes "releasedEvent k m position now participant = Inr ev"
  shows "evPayload ev = SharedFloorReleased participant Released \<and> evScope ev = SharedScope \<and>
    evActor ev = ParticipantActor participant \<and> evOccurredAt ev = now \<and> evMeetingId ev = m \<and>
    evIdempotencyKey ev = Some (trim k) \<and> meetingPosition (position + 1) = Inr (evPosition ev)"
  using assms by (auto simp: releasedEvent_def result_simps idempotencyKey_def opaqueText_Inr meetingPosition_Inr)

lemma capturedEvent_Inr:
  assumes "capturedEvent m participant u position now utt = Inr ev"
  shows "evPayload ev = UtteranceCaptured utt \<and>
    evScope ev = (if recVisibility utt = Private then PrivateScope participant else SharedScope) \<and>
    evActor ev = ParticipantActor participant \<and> evOccurredAt ev = now \<and> evMeetingId ev = m \<and>
    evIdempotencyKey ev = Some (trim u) \<and> meetingPosition (position + 1) = Inr (evPosition ev)"
  using assms by (auto simp: capturedEvent_def result_simps idempotencyKey_def opaqueText_Inr meetingPosition_Inr)

lemma buildUtterance_Inr:
  assumes "buildUtterance m participant u channel txt capturedAt = Inr utt"
  shows "recId utt = u \<and> recMeetingId utt = m \<and> recVisibility utt = channel \<and> uttChannel utt = channel \<and>
    uttParticipantId utt = participant \<and> uttText utt = txt \<and> uttCapturedAt utt = capturedAt \<and>
    recOwner utt = (if channel = Private then Some participant else None)"
  using assms by (auto simp: buildUtterance_def result_simps createUtterance_Inr)

text \<open>The events of an acquisition: the release of a lease that ran out, if there is one, and the new lease.\<close>

lemma acquireEvents_Inr:
  assumes "acquireEvents k correlation m (int n) now participant lease floor = Inr evs" "trim k = k"
  shows "normalizeRecords (numberRecords (int n + 1) evs) = Inr evs \<and>
    findFirst (isAcquisition k) evs = Some (last evs) \<and>
    (\<forall>e \<in> set evs. \<forall>k'. evIdempotencyKey e = Some k' \<longrightarrow> k' = k) \<and>
    evPayload (last evs) = SharedFloorAcquired participant lease"
proof (cases floor)
  case None
  then obtain ev where ev: "acquiredEvent k correlation m (int n) now participant lease = Inr ev" "evs = [ev]"
    using assms(1) by (auto simp: acquireEvents_def result_simps)
  from acquiredEvent_Inr[OF ev(1)] ev(2) assms(2) show ?thesis
    by (simp add: normalize_single isAcquisition_def del: numberRecords_simps)
next
  case (Some f)
  then obtain old ev where evs: "expiredEvent k correlation m (int n) now (flrParticipantId f) = Inr old"
    "acquiredEvent k correlation m (int n + 1) now participant lease = Inr ev" "evs = [old, ev]"
    using assms(1) by (auto simp: acquireEvents_def result_simps)
  from expiredEvent_Inr[OF evs(1)] acquiredEvent_Inr[OF evs(2)] evs(3) assms(2) show ?thesis
    by (simp add: normalize_pair isAcquisition_def del: numberRecords_simps)
qed

lemma acquire_speaks:
  assumes m: "meetingId m = Inr m" and k: "trim (floorKey m u) = floorKey m u"
    and now: "timestamp now = Inr now" "leaseEnd now = Inr lease"
    and p: "projectionAt m log p" "\<not> floorActive (shpSharedFloor (mprShared p)) now"
    and evs: "acquireEvents (floorKey m u) correlation m (int (length log)) now participant lease
      (shpSharedFloor (mprShared p)) = Inr evs"
    and fresh: "\<forall>old \<in> set log. evIdempotencyKey old \<noteq> Some (floorKey m u)"
  shows "speaks m log evs"
proof (cases "shpSharedFloor (mprShared p)")
  case None
  then obtain ev where ev: "acquiredEvent (floorKey m u) correlation m (int (length log)) now participant lease = Inr ev"
    and e: "evs = [ev]"
    using evs by (auto simp: acquireEvents_def result_simps)
  note a = acquiredEvent_Inr[OF ev] k
  have sp: "speechPayload (evPayload ev)" using a by (simp add: speechPayload_def floorPayload_def)
  have "wellPlaced m log ev"
    using a m fresh floor_payload_fits[of ev] by (auto simp: wellPlaced_def floorPayload_def)
  moreover have "speechJustified m log ev" if "floorSeen m log"
  proof -
    have "floorOf log = None" using that p(1) None by (auto simp: floorSeen_def)
    with a now(1) leaseEnd_Inr[OF now] show ?thesis
      by (auto simp: speechJustified_def floorJustified_def)
  qed
  ultimately show ?thesis unfolding e using sp by (intro speaks_single) 
next
  case (Some f)
  then obtain old ev where old: "expiredEvent (floorKey m u) correlation m (int (length log)) now (flrParticipantId f) = Inr old"
    and ev: "acquiredEvent (floorKey m u) correlation m (int (length log) + 1) now participant lease = Inr ev"
    and e: "evs = [old, ev]"
    using evs by (auto simp: acquireEvents_def result_simps)
  note o = expiredEvent_Inr[OF old] and a = acquiredEvent_Inr[OF ev] k
  have sp: "speechPayload (evPayload ev)" "speechPayload (evPayload old)"
    using a o by (simp_all add: speechPayload_def floorPayload_def)
  have "wellPlaced m log old"
    using o m floor_payload_fits[of old] by (auto simp: wellPlaced_def floorPayload_def)
  moreover have "wellPlaced m (log @ [old]) ev"
    using a o m fresh floor_payload_fits[of ev] by (auto simp: wellPlaced_def floorPayload_def add.commute)
  moreover have "speechJustified m log old \<and> speechJustified m (log @ [old]) ev" if "floorSeen m log"
  proof -
    have "map_option leaseOf (floorOf log) = Some f" using that p(1) Some by (simp add: floorSeen_def)
    then obtain h where h: "floorOf log = Some h" "leaseOf h = f" by auto
    then have "\<not> parsesAfter (fhdLease h) now" "fhdHolder h = flrParticipantId f"
      using p(2) Some by (auto simp: floorActive_def leaseOf_def)
    moreover from this h o have "floorOf (log @ [old]) = None"
      by (simp add: floorOf_snoc floorAfter_def)
    ultimately show ?thesis
      using o a h now(1) leaseEnd_Inr[OF now] by (auto simp: speechJustified_def floorJustified_def)
  qed
  ultimately show ?thesis unfolding e speaks_def using sp by simp
qed

lemma seen_holdsFloor:
  assumes "projectionAt m log p" "normalizeRecords (numberRecords 1 log) = Inr evs"
    and "holdsFloor p evs participant k" "floorSeen m log"
  shows "\<exists>h. floorOf log = Some h \<and> fhdHolder h = participant \<and> fhdKey h = Some k"
  using holdsFloor_floor[of p evs participant k] assms floorOf_normalized[OF assms(2)]
  by (simp add: floorSeen_def)

lemma release_speaks:
  assumes m: "meetingId m = Inr m" and k: "trim (floorReleaseKey m u) = floorReleaseKey m u"
    and now: "timestamp now = Inr now"
    and ev: "releasedEvent (floorReleaseKey m u) m (int (length log)) now participant = Inr ev"
    and held: "floorSeen m log \<Longrightarrow> \<exists>h. floorOf log = Some h \<and> fhdHolder h = participant"
    and fresh: "\<forall>old \<in> set log. evIdempotencyKey old \<noteq> Some (floorReleaseKey m u)"
  shows "speaks m log [ev]"
proof (rule speaks_single)
  note e = releasedEvent_Inr[OF ev] k
  show "wellPlaced m log ev"
    using e m fresh floor_payload_fits[of ev] by (auto simp: wellPlaced_def floorPayload_def)
  show "speechPayload (evPayload ev)" using e by (simp add: speechPayload_def floorPayload_def)
  show "speechJustified m log ev" if "floorSeen m log"
    using held[OF that] now e by (auto simp: speechJustified_def floorJustified_def)
qed

text \<open>Whether an utterance is in the log does not depend on normalised positions.\<close>

lemma unsaid_normalized:
  assumes "normalizeRecords (numberRecords n log) = Inr evs"
  shows "(\<forall>e \<in> set evs. map_option recId (capturedUtterance (evPayload e)) \<noteq> Some u) \<longleftrightarrow>
    (\<forall>e \<in> set log. map_option recId (capturedUtterance (evPayload e)) \<noteq> Some u)"
proof -
  have "map (\<lambda>e. map_option recId (capturedUtterance (evPayload e))) evs =
      map (\<lambda>e. map_option recId (capturedUtterance (evPayload e))) log"
    by (rule normalizeRecords_keep[OF assms]) simp
  then have "(\<lambda>e. map_option recId (capturedUtterance (evPayload e))) ` set evs =
      (\<lambda>e. map_option recId (capturedUtterance (evPayload e))) ` set log"
    unfolding list.set_map[symmetric] by (rule arg_cong)
  then show ?thesis by (metis (no_types, lifting) image_iff)
qed

text \<open>What \<open>requireFloor\<close> checks.\<close>

definition floorGranted :: "floorState \<Rightarrow> string \<Rightarrow> string \<Rightarrow> string \<Rightarrow> bool" where
  "floorGranted st now participant k \<longleftrightarrow>
     floorActive (shpSharedFloor (mprShared (flsProjection st))) now \<and>
     map_option flrParticipantId (shpSharedFloor (mprShared (flsProjection st))) = Some participant \<and>
     Option.bind (currentFloorAcquisition (flsEvents st)) evIdempotencyKey = Some k"

lemma seen_floorGranted:
  assumes "projectionAt m log (flsProjection st)" "normalizeRecords (numberRecords 1 log) = Inr (flsEvents st)"
    and granted: "floorGranted st now participant k" and "floorSeen m log"
  shows "\<exists>h. floorOf log = Some h \<and> fhdHolder h = participant \<and> fhdKey h = Some k \<and>
    parsesAfter (fhdLease h) now"
proof -
  have "holdsFloor (flsProjection st) (flsEvents st) participant k"
    using granted by (simp add: floorGranted_def holdsFloor_def)
  from seen_holdsFloor[OF assms(1,2) this assms(4)] obtain h where
    h: "floorOf log = Some h" "fhdHolder h = participant" "fhdKey h = Some k" by blast
  moreover have "shpSharedFloor (mprShared (flsProjection st)) = Some (leaseOf h)"
    using assms(1,4) h(1) by (simp add: floorSeen_def)
  then have "parsesAfter (fhdLease h) now"
    using granted by (simp add: floorGranted_def floorActive_def leaseOf_def)
  ultimately show ?thesis by blast
qed

lemma capture_speaks:
  assumes m: "meetingId m = Inr m" and u: "trim u = u"
    and utt: "buildUtterance m participant u channel txt capturedAt = Inr utt"
    and ev: "capturedEvent m participant u (int (length log)) now utt = Inr ev"
    and new: "\<forall>old \<in> set log. map_option recId (capturedUtterance (evPayload old)) \<noteq> Some u"
    and floor: "floorSeen m log \<Longrightarrow> channel = Shared \<Longrightarrow> \<exists>h. floorOf log = Some h \<and> fhdHolder h = participant \<and>
      fhdKey h = Some (floorKey m u) \<and> parsesAfter (fhdLease h) now"
    and fresh: "\<forall>old \<in> set log. evIdempotencyKey old \<noteq> Some u"
  shows "speaks m log [ev]"
proof (rule speaks_single)
  note b = buildUtterance_Inr[OF utt] and e = capturedEvent_Inr[OF ev]
  have scope: "evScope ev = (if channel = Private then PrivateScope participant else SharedScope)"
    using b e by simp
  have "payloadFits ev"
    using b e by (cases channel) (auto simp: payloadFits_def reduceSharedPayload_def reduceSharedContent_def
        reducePrivateWorkspace_def reduceWorkspace_def validateEntityScope_def ensure_def)
  with e m u fresh show "wellPlaced m log ev" by (auto simp: wellPlaced_def)
  show "speechPayload (evPayload ev)" using e by (simp add: speechPayload_def)
  show "speechJustified m log ev" if "floorSeen m log"
    using floor[OF that] new b e scope
    by (cases channel) (auto simp: speechJustified_def captureJustified_def floorPayload_def)
qed

subsection \<open>The commands\<close>

context command_world
begin

lemma gives_mayUse: "gives L (unlessC (mayUse context cap m) FORBIDDEN) (\<lambda>_. mayUse context cap m)"
  by (rule gives_unless)

lemma gives_scopes:
  "gives L (prepareScopes context m u) (\<lambda>(m', participant, u').
     m' = trim m \<and> m' \<noteq> [] \<and> participantId (uctParticipantId context) = Inr participant \<and>
     u' = trim u \<and> u' \<noteq> [])"
  unfolding prepareScopes_def
  by (intro gives_try gives_bind[OF gives_lift] gives_return)
    (simp add: meetingId_def utteranceId_def opaqueText_Inr)

text \<open>What a load shows: the projection, the next position and the events with checked positions.\<close>

lemma gives_loadFloor:
  "gives L (loadFloorState deps m) (\<lambda>st. projectionAt m (L m) (flsProjection st) \<and>
     flsPosition st = int (length (L m)) \<and> normalizeRecords (numberRecords 1 (L m)) = Inr (flsEvents st))"
  unfolding loadFloorState_def
proof (rule gives_bind)
  show "gives L (portC (prtLoad deps m)) (\<lambda>records. records = numberRecords 1 (L m))"
    using load_keeps load_log by (intro gives_port) auto
  fix records assume records: "records = numberRecords 1 (L m)"
  have last: "(if records = [] then 0 else ercPosition (last records)) = int (length (L m))"
    unfolding records by (cases "L m" rule: rev_cases) (simp_all add: numberRecords_append)
  show "gives L (bindC (liftC (normalizeRecords records)) (\<lambda>evs.
     bindC (liftC (bindE (meetingId m) (\<lambda>i. replayMeeting i evs))) (\<lambda>projection.
     returnC \<lparr>flsEvents = evs, flsPosition = (if records = [] then 0 else ercPosition (last records)),
       flsProjection = projection\<rparr>)))
     (\<lambda>st. projectionAt m (L m) (flsProjection st) \<and> flsPosition st = int (length (L m)) \<and>
       normalizeRecords (numberRecords 1 (L m)) = Inr (flsEvents st))"
    unfolding last
    by (intro gives_bind[OF gives_lift] gives_return)
      (auto simp: records projectionAt_def projectRecords_def result_simps)
qed

text \<open>An append that answers from the stored records.\<close>

lemma affects_finish:
  assumes norm: "normalizeRecords (numberRecords (int (length (L m)) + 1) evs) = Inr evs"
    and wanted: "findFirst wanted evs = Some ev"
    and key: "\<And>e k'. e \<in> set evs \<Longrightarrow> evIdempotencyKey e = Some k' \<Longrightarrow> k' = k"
    and conflict: "\<And>a e. gives L (onConflict a e) P"
    and replay: "\<And>e. P (answer e True)"
    and Q: "\<forall>old \<in> set (L m). evIdempotencyKey old \<noteq> Some k \<Longrightarrow> Q evs (Inr (answer ev False))"
  shows "affects L m (bindC (appendAt deps m pos k evs) (finishAppend wanted answer onConflict)) P Q"
proof (rule affectsI)
  let ?q = "\<lparr>aprEvents = evs, aprExpectedPosition = Some pos, aprIdempotencyKey = Some k,
        aprMeetingId = m, aprPayloadFingerprint = None, aprTrustFingerprint = None\<rparr> :: domainEvent appendEventsRequest"
  fix w r w'
  assume w: "ok w" "log w = L"
    and run: "bindC (appendAt deps m pos k evs) (finishAppend wanted answer onConflict) w = (r, w')"
  obtain out w1 where ap: "prtAppend deps ?q w = (out, w1)" by (cases "prtAppend deps ?q w")
  have keys: "aprIdempotencyKey ?q = Some k'" if "e \<in> set (aprEvents ?q)" "evIdempotencyKey e = Some k'" for e k'
    using key that by simp
  show "ok w' \<and> effect L m P Q r (log w')"
  proof (rule append_cases[OF w ap keys])
    fix records
    assume new: "ok w1" "out = Inr (Appended records)" "log w1 = L(aprMeetingId ?q := L (aprMeetingId ?q) @ aprEvents ?q)"
      "records = numberRecords (int (length (L (aprMeetingId ?q))) + 1) (aprEvents ?q)"
      and fresh: "\<And>e k'. e \<in> set (L (aprMeetingId ?q)) \<Longrightarrow> aprIdempotencyKey ?q = Some k' \<Longrightarrow> evIdempotencyKey e \<noteq> Some k'"
    have "r = Inr (answer ev False) \<and> w' = w1"
      using run ap new(2,4) norm wanted
      by (auto simp: appendAt_def portC_def bindC_def finishAppend_def answerFrom_def liftC_def returnC_def)
    then have "log w' = L(m := L m @ evs)" "ok w'" "Q evs r"
      using new(1,3) Q fresh by auto
    then show ?thesis using effect_append[of Q evs r L m P] by simp
  next
    assume keep: "ok w1" "log w1 = L" "\<And>records. out \<noteq> Inr (Appended records)"
    show ?thesis
    proof (cases out)
      case (Inl e)
      then show ?thesis using run ap keep
        by (auto simp: appendAt_def portC_def bindC_def intro: effect_same)
    next
      case (Inr o1)
      have rest: "finishAppend wanted answer onConflict o1 w1 = (r, w')"
        using run ap Inr by (simp add: appendAt_def portC_def bindC_def)
      have answers: "gives L (answerFrom wanted answer records True) P" for records
        unfolding answerFrom_def
        by (rule gives_bind[OF gives_lift]) (auto split: option.split intro: gives_return replay)
      have "gives L (finishAppend wanted answer onConflict o1) P"
        using keep(3) Inr conflict answers by (cases o1) (auto simp: finishAppend_def)
      from givesD[OF this keep(1,2) rest] show ?thesis by (auto intro: effect_same)
    qed
  qed
qed

lemma gives_conflict: "gives L (conflictC a e) P"
  by (simp add: gives_def conflictC_def)

lemma gives_activeAnswer: "gives L (activeFloorAnswer st participant k u) asrReplayed"
  by (auto simp: activeFloorAnswer_def acquiredResult_def intro: gives_return)

lemma gives_afterConflict: "gives L (acquireAfterConflict deps m participant k u now a e) asrReplayed"
  unfolding acquireAfterConflict_def
  by (rule gives_bind[OF gives_loadFloor]) (auto intro: gives_activeAnswer gives_conflict)

lemma acquireFrom_affects:
  assumes m: "meetingId m = Inr m" and k: "trim (floorKey m u) = floorKey m u" and now: "timestamp now = Inr now"
    and st: "projectionAt m (L m) (flsProjection st)" "flsPosition st = int (length (L m))"
  shows "affects L m (acquireFrom deps m participant u now correlation st) asrReplayed (\<lambda>evs r.
     speaks m (L m) evs \<and> acquirer (last evs) = Some participant \<and> r = Inr (acquiredResult (last evs) u False))"
proof (cases "floorActive (shpSharedFloor (mprShared (flsProjection st))) now")
  case True
  then show ?thesis by (simp add: acquireFrom_def affects_gives[OF gives_activeAnswer])
next
  case False
  show ?thesis unfolding acquireFrom_def Let_def if_not_P[OF False] st(2)
  proof (rule affects_bind[OF gives_lift], rule affects_bind[OF gives_lift], rule affects_finish)
    fix lease evs
    assume lease: "leaseEnd now = Inr lease" and evs: "acquireEvents (floorKey m u) correlation m (int (length (L m)))
      now participant lease (shpSharedFloor (mprShared (flsProjection st))) = Inr evs"
    note e = acquireEvents_Inr[OF evs k]
    show "normalizeRecords (numberRecords (int (length (L m)) + 1) evs) = Inr evs"
      "findFirst (isAcquisition (floorKey m u)) evs = Some (last evs)" using e by blast+
    show "e' \<in> set evs \<Longrightarrow> evIdempotencyKey e' = Some k' \<Longrightarrow> k' = floorKey m u" for e' k' using e by blast
    show "gives L (acquireAfterConflict deps m participant (floorKey m u) u now a b) asrReplayed" for a b
      by (rule gives_afterConflict)
    show "asrReplayed (acquiredResult x u True)" for x by (simp add: acquiredResult_def)
    assume fresh: "\<forall>old \<in> set (L m). evIdempotencyKey old \<noteq> Some (floorKey m u)"
    from acquire_speaks[OF m k now lease st(1) False evs fresh] e
    show "speaks m (L m) evs \<and> acquirer (last evs) = Some participant \<and>
        Inr (acquiredResult (last evs) u False) = Inr (acquiredResult (last evs) u False)"
      by (simp add: acquirer_def)
  qed
qed

lemma acquireSharedFloor_affects:
  "affects L (trim (asfMeetingId input)) (acquireSharedFloor deps context input) asrReplayed (\<lambda>evs r.
     speaks (trim (asfMeetingId input)) (L (trim (asfMeetingId input))) evs \<and>
     (\<exists>participant. participantId (uctParticipantId context) = Inr participant \<and>
        acquirer (last evs) = Some participant) \<and>
     r = Inr (acquiredResult (last evs) (trim (asfUtteranceId input)) False))"
  unfolding acquireSharedFloor_def
proof (rule affects_bind[OF gives_mayUse], rule affects_bind3[OF gives_scopes], elim conjE, hypsubst)
  let ?m = "trim (asfMeetingId input)" and ?u = "trim (asfUtteranceId input)"
  fix participant
  assume ne: "?m \<noteq> []" "?u \<noteq> []" and part: "participantId (uctParticipantId context) = Inr participant"
  have v: "gives L (validateAcquire deps input ?m ?u) (\<lambda>(now, correlation). timestamp now = Inr now)"
    unfolding validateAcquire_def
    by (intro gives_try gives_bind[OF gives_clock] gives_bind[OF gives_lift] gives_return) simp
  show "affects L ?m (bindC (validateAcquire deps input ?m ?u) (\<lambda>(now, correlation).
     bindC (loadFloorState deps ?m) (acquireFrom deps ?m participant ?u now correlation))) asrReplayed
     (\<lambda>evs r. speaks ?m (L ?m) evs \<and> (\<exists>participant. participantId (uctParticipantId context) = Inr participant \<and>
        acquirer (last evs) = Some participant) \<and> r = Inr (acquiredResult (last evs) ?u False))"
  proof (rule affects_bind2[OF v], rule affects_bind[OF gives_loadFloor])
    fix now correlation :: string and st :: floorState
    assume now: "timestamp now = Inr now" and st: "projectionAt ?m (L ?m) (flsProjection st) \<and>
      flsPosition st = int (length (L ?m)) \<and> normalizeRecords (numberRecords 1 (L ?m)) = Inr (flsEvents st)"
    have "meetingId ?m = Inr ?m" using ne(1) by (simp add: meetingId_def opaqueText_Inr)
    from acquireFrom_affects[OF this trim_floorKey(1)[OF refl ne(2)] now, where L = L and st = st and
        participant = participant and correlation = correlation] st part
    show "affects L ?m (acquireFrom deps ?m participant ?u now correlation st) asrReplayed
       (\<lambda>evs r. speaks ?m (L ?m) evs \<and> (\<exists>participant. participantId (uctParticipantId context) = Inr participant \<and>
        acquirer (last evs) = Some participant) \<and> r = Inr (acquiredResult (last evs) ?u False))"
      by (auto elim: affects_mono)
  qed
qed

lemma gives_requireFloor: "gives L (requireFloor st now participant k) (\<lambda>_. floorGranted st now participant k)"
  by (auto simp: requireFloor_def floorGranted_def Let_def intro!: gives_return)

lemma releaseHeld_affects:
  assumes m: "meetingId m = Inr m" and k: "trim (floorReleaseKey m u) = floorReleaseKey m u"
    and st: "projectionAt m (L m) (flsProjection st)" "flsPosition st = int (length (L m))"
      "normalizeRecords (numberRecords 1 (L m)) = Inr (flsEvents st)"
  shows "affects L m (releaseHeld deps m participant u (floorReleaseKey m u) st) rsrReplayed (\<lambda>evs r.
     speaks m (L m) evs \<and> (\<exists>ev. evs = [ev] \<and> evActor ev = ParticipantActor participant \<and>
       r = Inr (releasedResult ev u False)))"
proof (cases "holdsFloor (flsProjection st) (flsEvents st) participant (floorKey m u)")
  case False
  then show ?thesis by (simp add: releaseHeld_def affects_gives)
next
  case True
  have held: "\<exists>h. floorOf (L m) = Some h \<and> fhdHolder h = participant" if "floorSeen m (L m)"
    using seen_holdsFloor[OF st(1,3) True that] by blast
  have "affects L m (bindC (tryC validationHandler (clockNow deps)) (\<lambda>releasedAt.
        bindC (liftC (releasedEvent (floorReleaseKey m u) m (int (length (L m))) releasedAt participant)) (\<lambda>ev.
        bindC (appendAt deps m (int (length (L m))) (floorReleaseKey m u) [ev])
          (finishAppend (isRelease (floorReleaseKey m u)) (\<lambda>ev. releasedResult ev u) conflictC)))) rsrReplayed
     (\<lambda>evs r. speaks m (L m) evs \<and> (\<exists>ev. evs = [ev] \<and> evActor ev = ParticipantActor participant \<and>
        r = Inr (releasedResult ev u False)))"
  proof (rule affects_bind[OF gives_try[OF gives_clock]], rule affects_bind[OF gives_lift], rule affects_finish)
    fix now ev
    assume now: "timestamp now = Inr now" and ev: "releasedEvent (floorReleaseKey m u) m (int (length (L m))) now participant = Inr ev"
    note e = releasedEvent_Inr[OF ev] k
    show "normalizeRecords (numberRecords (int (length (L m)) + 1) [ev]) = Inr [ev]"
      using e by (intro normalize_single) simp
    show "findFirst (isRelease (floorReleaseKey m u)) [ev] = Some ev" using e by (simp add: isRelease_def)
    show "x \<in> set [ev] \<Longrightarrow> evIdempotencyKey x = Some k' \<Longrightarrow> k' = floorReleaseKey m u" for x k' using e by simp
    show "gives L (conflictC a b) rsrReplayed" for a b by (rule gives_conflict)
    show "rsrReplayed (releasedResult x u True)" for x by (simp add: releasedResult_def)
    assume "\<forall>old \<in> set (L m). evIdempotencyKey old \<noteq> Some (floorReleaseKey m u)"
    from release_speaks[OF m k now ev held this] e
    show "speaks m (L m) [ev] \<and> (\<exists>ev'. [ev] = [ev'] \<and> evActor ev' = ParticipantActor participant \<and>
        Inr (releasedResult ev u False) = Inr (releasedResult ev' u False))" by simp
  qed
  with True st(2) show ?thesis by (simp add: releaseHeld_def)
qed

lemma releaseSharedFloor_affects:
  "affects L (trim (rsfMeetingId input)) (releaseSharedFloor deps context input) rsrReplayed (\<lambda>evs r.
     speaks (trim (rsfMeetingId input)) (L (trim (rsfMeetingId input))) evs \<and>
     (\<exists>ev participant. evs = [ev] \<and> participantId (uctParticipantId context) = Inr participant \<and>
        evActor ev = ParticipantActor participant \<and>
        r = Inr (releasedResult ev (trim (rsfUtteranceId input)) False)))"
  unfolding releaseSharedFloor_def
proof (rule affects_bind[OF gives_mayUse], rule affects_bind3[OF gives_scopes], elim conjE, hypsubst,
    rule affects_bind[OF gives_loadFloor])
  let ?m = "trim (rsfMeetingId input)" and ?u = "trim (rsfUtteranceId input)"
  fix participant and st :: floorState
  assume ne: "?m \<noteq> []" "?u \<noteq> []" and part: "participantId (uctParticipantId context) = Inr participant"
    and st: "projectionAt ?m (L ?m) (flsProjection st) \<and> flsPosition st = int (length (L ?m)) \<and>
      normalizeRecords (numberRecords 1 (L ?m)) = Inr (flsEvents st)"
  have m: "meetingId ?m = Inr ?m" using ne(1) by (simp add: meetingId_def opaqueText_Inr)
  have "affects L ?m (releaseHeld deps ?m participant ?u (floorReleaseKey ?m ?u) st) rsrReplayed (\<lambda>evs r.
     speaks ?m (L ?m) evs \<and> (\<exists>ev. evs = [ev] \<and> evActor ev = ParticipantActor participant \<and>
       r = Inr (releasedResult ev ?u False)))"
    by (rule releaseHeld_affects[OF m trim_floorKey(2)[OF refl ne(2)]]) (use st in auto)
  then have "affects L ?m (releaseFrom deps ?m participant ?u st) rsrReplayed (\<lambda>evs r.
     speaks ?m (L ?m) evs \<and> (\<exists>ev. evs = [ev] \<and> evActor ev = ParticipantActor participant \<and>
       r = Inr (releasedResult ev ?u False)))"
    by (auto simp: releaseFrom_def Let_def releasedResult_def split: option.split intro!: affects_gives gives_return)
  then show "affects L ?m (releaseFrom deps ?m participant ?u st) rsrReplayed (\<lambda>evs r.
     speaks ?m (L ?m) evs \<and> (\<exists>ev participant. evs = [ev] \<and> participantId (uctParticipantId context) = Inr participant \<and>
        evActor ev = ParticipantActor participant \<and> r = Inr (releasedResult ev ?u False)))"
    by (rule affects_mono) (use part in auto)
qed

lemma gives_validateCapture:
  "gives L (validateCapture deps input) (\<lambda>(capturedAt, txt, now, channel).
     timestamp now = Inr now \<and> txt = trim (cuiText input) \<and> cuiChannel input = channelString channel)"
proof -
  have "gives L (tryC validationHandler
       (bindC (unlessC (length (cuiText input) \<le> 4000) VALIDATION_FAILED) (\<lambda>_.
        bindC (liftC (timestamp (cuiCapturedAt input))) (\<lambda>capturedAt.
        bindC (liftC (nonEmptyText (cuiText input))) (\<lambda>txt.
        bindC (clockNow deps) (\<lambda>now.
        returnC (capturedAt, txt, now))))))) (\<lambda>(capturedAt, txt, now).
     timestamp now = Inr now \<and> txt = trim (cuiText input))"
    by (intro gives_try gives_bind[OF gives_unless] gives_bind[OF gives_lift] gives_bind[OF gives_clock] gives_return)
      (simp add: nonEmptyText_def opaqueText_Inr)
  then show ?thesis unfolding validateCapture_def
    by (rule gives_bind) (auto intro: gives_return)
qed

lemma captureNew_affects:
  assumes m: "meetingId m = Inr m" and u: "trim u = u"
    and st: "projectionAt m (L m) (flsProjection st)" "flsPosition st = int (length (L m))"
      "normalizeRecords (numberRecords 1 (L m)) = Inr (flsEvents st)"
    and new: "findUtterance (flsEvents st) u = None"
  shows "affects L m (captureNew deps m participant u capturedAt txt now channel st) curReplayed (\<lambda>evs r.
     speaks m (L m) evs \<and> (\<exists>ev utt. evs = [ev] \<and> evPayload ev = UtteranceCaptured utt \<and>
       uttParticipantId utt = participant \<and> uttText utt = txt \<and> recVisibility utt = channel \<and>
       r = Inr (capturedResult ev False)))"
proof -
  have unsaid: "\<forall>old \<in> set (L m). map_option recId (capturedUtterance (evPayload old)) \<noteq> Some u"
    using new unsaid_normalized[OF st(3)] unfolding findUtterance_def findFirst_None by metis
  have floor: "gives L (if channel = Shared then requireFloor st now participant (floorKey m u) else returnC ())
      (\<lambda>_. channel = Shared \<longrightarrow> floorGranted st now participant (floorKey m u))"
    by (auto intro: gives_return gives_mono[OF gives_requireFloor])
  show ?thesis unfolding captureNew_def st(2)
  proof (rule affects_bind[OF floor], rule affects_bind[OF gives_try[OF gives_lift]],
      rule affects_bind[OF gives_lift], rule affects_finish)
    fix utt ev
    assume granted: "channel = Shared \<longrightarrow> floorGranted st now participant (floorKey m u)"
      and utt: "buildUtterance m participant u channel txt capturedAt = Inr utt"
      and ev: "capturedEvent m participant u (int (length (L m))) now utt = Inr ev"
    note b = buildUtterance_Inr[OF utt] and e = capturedEvent_Inr[OF ev] u
    show "normalizeRecords (numberRecords (int (length (L m)) + 1) [ev]) = Inr [ev]"
      using e by (intro normalize_single) simp
    show "findFirst (isCapture u) [ev] = Some ev" using b e by (simp add: isCapture_def)
    show "x \<in> set [ev] \<Longrightarrow> evIdempotencyKey x = Some k' \<Longrightarrow> k' = u" for x k' using e by simp
    show "gives L (conflictC a c) curReplayed" for a c by (rule gives_conflict)
    show "curReplayed (capturedResult x True)" for x by (simp add: capturedResult_def)
    assume fresh: "\<forall>old \<in> set (L m). evIdempotencyKey old \<noteq> Some u"
    have "speaks m (L m) [ev]"
      by (rule capture_speaks[OF m u utt ev unsaid _ fresh])
        (use granted seen_floorGranted[OF st(1,3)] in blast)
    with b e show "speaks m (L m) [ev] \<and> (\<exists>ev' utt'. [ev] = [ev'] \<and> evPayload ev' = UtteranceCaptured utt' \<and>
       uttParticipantId utt' = participant \<and> uttText utt' = txt \<and> recVisibility utt' = channel \<and>
       Inr (capturedResult ev False) = Inr (capturedResult ev' False))" by simp
  qed
qed

lemma captureUtterance_affects:
  "affects L (trim (cuiMeetingId input)) (captureUtterance deps context input) curReplayed (\<lambda>evs r.
     speaks (trim (cuiMeetingId input)) (L (trim (cuiMeetingId input))) evs \<and>
     (\<exists>ev utt. evs = [ev] \<and> evPayload ev = UtteranceCaptured utt \<and>
       participantId (uctParticipantId context) = Inr (uttParticipantId utt) \<and>
       uttText utt = trim (cuiText input) \<and> channelString (recVisibility utt) = cuiChannel input \<and>
       r = Inr (capturedResult ev False)))"
  unfolding captureUtterance_def
proof (rule affects_bind[OF gives_mayUse], rule affects_bind3[OF gives_scopes], elim conjE, hypsubst,
    rule affects_bind4[OF gives_validateCapture], rule affects_bind[OF gives_loadFloor])
  let ?m = "trim (cuiMeetingId input)" and ?u = "trim (cuiUtteranceId input)"
  fix participant capturedAt "txt" now channel and st :: floorState
  assume ne: "?m \<noteq> []" "?u \<noteq> []" and part: "participantId (uctParticipantId context) = Inr participant"
    and v: "timestamp now = Inr now \<and> txt = trim (cuiText input) \<and> cuiChannel input = channelString channel"
    and st: "projectionAt ?m (L ?m) (flsProjection st) \<and> flsPosition st = int (length (L ?m)) \<and>
      normalizeRecords (numberRecords 1 (L ?m)) = Inr (flsEvents st)"
  let ?Q = "\<lambda>evs r. speaks ?m (L ?m) evs \<and>
     (\<exists>ev utt. evs = [ev] \<and> evPayload ev = UtteranceCaptured utt \<and>
       participantId (uctParticipantId context) = Inr (uttParticipantId utt) \<and>
       uttText utt = trim (cuiText input) \<and> channelString (recVisibility utt) = cuiChannel input \<and>
       r = Inr (capturedResult ev False))"
  have m: "meetingId ?m = Inr ?m" using ne(1) by (simp add: meetingId_def opaqueText_Inr)
  show "affects L ?m (case findUtterance (flsEvents st) ?u of
       Some prior \<Rightarrow>
         if sameUtterance (the (capturedUtterance (evPayload prior))) participant input txt
         then returnC (capturedResult prior True)
         else failC IDEMPOTENCY_CONFLICT
     | None \<Rightarrow> captureNew deps ?m participant ?u capturedAt txt now channel st) curReplayed ?Q"
  proof (cases "findUtterance (flsEvents st) ?u")
    case None
    have "affects L ?m (captureNew deps ?m participant ?u capturedAt txt now channel st) curReplayed ?Q"
      by (rule affects_mono[OF captureNew_affects[OF m trim_trim _ _ _ None]]) (use st v part in auto)
    with None show ?thesis by simp
  next
    case (Some prior)
    then show ?thesis by (auto simp: capturedResult_def intro!: affects_gives gives_return)
  qed
qed

end

end
