(* ===== verification/Disclosures.thy ===== *)
theory Disclosures
  imports Commands ArtifactStore
begin

section \<open>Disclosures: \<open>packages/application/src/disclosures.ts\<close>\<close>

text \<open>
  How private text becomes shared evidence: its owner registers a private text source, a disclosure
  of a range of it is proposed (by the owner, or by a model that reads the text), previewed and
  finally approved or rejected by the owner. The approval appends the owner's private approval and
  the shared evidence together. The artifact store is a port like the others; the model that
  proposes a range is an optional one.
\<close>

subsection \<open>Dependencies, inputs and answers\<close>

record 'w artifactPorts =
  aspPut :: "artifactWrite \<Rightarrow> 'w \<Rightarrow> (exn + artifactMetadata) \<times> 'w"
  aspGet :: "artifactScope \<Rightarrow> 'w \<Rightarrow> (exn + bytes option) \<times> 'w"
  aspDelete :: "artifactScope \<Rightarrow> 'w \<Rightarrow> (exn + unit) \<times> 'w"

record sourceRangeInput =
  sriStart :: int
  sriEnd :: int

record proposerInput =
  ppiMeetingId :: string
  ppiOwnerParticipantId :: string
  ppiSourceArtifactId :: string
  ppiText :: string

record disclosureProposal =
  dprExactSnippet :: "string option"
  dprSourceRange :: sourceRangeInput

record 'w disclosurePorts =
  ddpPorts :: "'w ports"
  ddpArtifacts :: "'w artifactPorts"
  ddpProposer :: "(proposerInput \<Rightarrow> 'w \<Rightarrow> (exn + disclosureProposal) \<times> 'w) option"

record registerSourceInput = mutationInput +
  rsiText :: string
  rsiTitle :: string

record proposeDisclosureInput = mutationInput +
  pdiExactSnippet :: "string option"
  pdiSourceArtifactId :: string
  pdiSourceRange :: "sourceRangeInput option"

record previewDisclosureInput = mutationInput +
  pviCandidateId :: string
  pviExactSnippet :: string
  pviSourceRange :: sourceRangeInput

record approveDisclosureInput = mutationInput +
  adiCandidateId :: string
  adiPreviewHash :: string

record rejectDisclosureInput = mutationInput +
  rdiCandidateId :: string
  rdiReason :: "string option"

record sourceView =
  srvCreatedAt :: string
  srvSourceArtifactId :: string
  srvText :: string
  srvTitle :: string

record candidateView =
  cvwCandidateId :: string
  cvwOutgoingPayload :: disclosureOutgoingPayload
  cvwState :: disclosureState

record previewView =
  pvwCandidateId :: string
  pvwOutgoingPayload :: disclosureOutgoingPayload
  pvwPreviewHash :: string

record evidenceView =
  evwCreatedAt :: string
  evwEvidenceId :: string
  evwExactSnippet :: string
  evwSourceArtifactId :: string
  evwSourceRange :: textRange

record approvalView =
  apvCandidateId :: string
  apvEvidence :: evidenceView
  apvPreviewHash :: string

record ownedSource =
  owsArtifact :: sourceArtifact
  owsContentHash :: string
  owsText :: string

record candidateSnapshot =
  csnEvents :: "domainEvent list"
  csnOutgoingPayload :: disclosureOutgoingPayload
  csnOwner :: "string option"
  csnPreviewHash :: "string option"
  csnEvidenceId :: "string option"
  csnState :: disclosureState

subsection \<open>Authorization\<close>

definition authorizeMutation ::
  "userContext \<Rightarrow> 'x mutationInput_scheme \<Rightarrow> permission \<Rightarrow> ('w, unit) command" where
  "authorizeMutation context input capability =
     unlessC (authorize (UserContext context)
       \<lparr>areCapability = capability, areMeetingId = mutMeetingId input,
        areOwnerParticipantId = Some (uctParticipantId context)\<rparr> = Authorized) FORBIDDEN"

definition authorizeOwner ::
  "userContext \<Rightarrow> permission \<Rightarrow> string \<Rightarrow> string option \<Rightarrow> ('w, unit) command" where
  "authorizeOwner context capability m owner =
     unlessC (authorize (UserContext context)
       \<lparr>areCapability = capability, areMeetingId = m, areOwnerParticipantId = owner\<rparr> = Authorized)
       FORBIDDEN"

subsection \<open>Texts and hashes\<close>

definition exactText :: "string \<Rightarrow> exn + string" where
  "exactText v = bindE (nonEmptyText v) (\<lambda>_. Inr v)"

definition sourceHashText :: "string \<Rightarrow> string" where
  "sourceHashText txt = ''source'' @ [CHR 0x00] @ txt"

definition previewFingerprintPayload :: "disclosureOutgoingPayload \<Rightarrow> string" where
  "previewFingerprintPayload p =
     localeSerialize (JObj
       [(''exactSnippet'', JStr (outExactSnippet p)),
        (''sourceArtifactId'', JStr (outSourceArtifactId p)),
        (''sourceRange'', JObj [(''start'', JNum (IntNum (rangeStart (outSourceRange p)))),
                                (''end'', JNum (IntNum (rangeEnd (outSourceRange p))))])])"

subsection \<open>Reading the log\<close>

definition eventsAfterLatestDemoReset :: "domainEvent list \<Rightarrow> domainEvent list" where
  "eventsAfterLatestDemoReset evs =
     rev (takeWhile (\<lambda>ev. \<not> isDemoResetCompleted (evPayload ev)) (rev evs))"

definition eventOwner :: "domainEvent \<Rightarrow> string option" where
  "eventOwner ev = (case evScope ev of PrivateScope owner \<Rightarrow> Some owner | SharedScope \<Rightarrow> None)"

fun disclosureOf :: "domainEventPayload \<Rightarrow> string option" where
  "disclosureOf (DisclosureProposed i _ _) = Some i"
| "disclosureOf (DisclosurePreviewed i _ _) = Some i"
| "disclosureOf (DisclosureApproved i _ _ _) = Some i"
| "disclosureOf (DisclosureRejected i _ _) = Some i"
| "disclosureOf _ = None"

fun proposedPayload :: "domainEventPayload \<Rightarrow> disclosureOutgoingPayload option" where
  "proposedPayload (DisclosureProposed _ _ out) = Some out"
| "proposedPayload _ = None"

definition candidateStep :: "string option \<Rightarrow> candidateSnapshot \<Rightarrow> domainEvent \<Rightarrow> candidateSnapshot" where
  "candidateStep owner c ev =
     (if eventOwner ev \<noteq> owner then c
      else case evPayload ev of
             DisclosurePreviewed _ out h \<Rightarrow>
               c\<lparr>csnOutgoingPayload := out, csnPreviewHash := Some h, csnState := DspPreviewed\<rparr>
           | DisclosureApproved _ h e _ \<Rightarrow>
               c\<lparr>csnPreviewHash := Some h, csnEvidenceId := Some e, csnState := DspApproved\<rparr>
           | DisclosureRejected _ _ _ \<Rightarrow> c\<lparr>csnState := DspRejected\<rparr>
           | _ \<Rightarrow> c)"

definition candidateFrom :: "domainEvent list \<Rightarrow> string \<Rightarrow> candidateSnapshot option" where
  "candidateFrom evs i =
     (let own = filter (\<lambda>ev. disclosureOf (evPayload ev) = Some i) evs in
      case findFirst (\<lambda>ev. proposedPayload (evPayload ev) \<noteq> None) own of
        None \<Rightarrow> None
      | Some proposed \<Rightarrow>
          Some (foldl (candidateStep (eventOwner proposed))
            \<lparr>csnEvents = own, csnOutgoingPayload = the (proposedPayload (evPayload proposed)),
             csnOwner = eventOwner proposed, csnPreviewHash = None, csnEvidenceId = None,
             csnState = DspProposed\<rparr> own))"

definition loadEvents :: "'w disclosurePorts \<Rightarrow> string \<Rightarrow> ('w, domainEvent list) command" where
  "loadEvents deps m =
     bindC (portC (prtLoad (ddpPorts deps) m)) (\<lambda>records. liftC (normalizeRecords records))"

definition loadCandidate ::
  "'w disclosurePorts \<Rightarrow> string \<Rightarrow> string \<Rightarrow> ('w, candidateSnapshot) command" where
  "loadCandidate deps m i =
     bindC (loadEvents deps m) (\<lambda>evs.
     case candidateFrom (eventsAfterLatestDemoReset evs) i of
       None \<Rightarrow> failC FORBIDDEN
     | Some c \<Rightarrow> returnC c)"

definition candidateHasIdempotencyKey :: "candidateSnapshot \<Rightarrow> string \<Rightarrow> bool" where
  "candidateHasIdempotencyKey c k = list_ex (\<lambda>ev. evIdempotencyKey ev = Some k) (csnEvents c)"

text \<open>The private registration of an artifact: its owner and the artifact.\<close>

definition registeredSource :: "domainEvent \<Rightarrow> (string \<times> sourceArtifact) option" where
  "registeredSource ev =
     (case (evPayload ev, evScope ev) of
        (ArtifactRegistered a, PrivateScope owner) \<Rightarrow> Some (owner, a)
      | _ \<Rightarrow> None)"

definition registeredAs :: "string \<Rightarrow> domainEvent \<Rightarrow> bool" where
  "registeredAs i ev \<longleftrightarrow> map_option (recId \<circ> snd) (registeredSource ev) = Some i"

definition processingOf :: "string \<Rightarrow> string \<Rightarrow> domainEvent \<Rightarrow> artifactProcessing option" where
  "processingOf owner i ev =
     (case evPayload ev of
        ArtifactProcessed g \<Rightarrow>
          if eventOwner ev = Some owner \<and> apgArtifactId g = i then Some g else None
      | _ \<Rightarrow> None)"

text \<open>Identifier and content hash of the text to read: the artifact itself, or what was derived from it.\<close>

definition readableSource ::
  "domainEvent list \<Rightarrow> string \<Rightarrow> sourceArtifact \<Rightarrow> string \<Rightarrow> string option \<times> string option" where
  "readableSource evs owner a i =
     (if artType a = TextArtifact then (Some i, Some (artContentHash a))
      else case findFirst (\<lambda>ev. processingOf owner i ev \<noteq> None) evs of
             None \<Rightarrow> (None, None)
           | Some ev \<Rightarrow>
               (let g = the (processingOf owner i ev) in
                if apgProcessingState g = Processed then (apgDerivedArtifactId g, apgContentHash g)
                else (None, None)))"

definition loadOwnedSource ::
  "'w disclosurePorts \<Rightarrow> userContext \<Rightarrow> string \<Rightarrow> string \<Rightarrow> permission \<Rightarrow> ('w, ownedSource) command" where
  "loadOwnedSource deps context m i capability =
     bindC (loadEvents deps m) (\<lambda>evs.
     let active = eventsAfterLatestDemoReset evs in
     case findFirst (registeredAs i) active of
       None \<Rightarrow> failC FORBIDDEN
     | Some ev \<Rightarrow>
         (let (owner, a) = the (registeredSource ev) in
          bindC (authorizeOwner context capability (evMeetingId ev) (Some owner)) (\<lambda>_.
          bindC (unlessC (\<not> (recVisibility a \<noteq> Private \<or> recOwner a \<noteq> Some owner)) FORBIDDEN) (\<lambda>_.
          case readableSource active owner a i of
            (Some readable, Some hash) \<Rightarrow>
              bindC (portC (aspGet (ddpArtifacts deps)
                \<lparr>ascArtifactId = readable, ascMeetingId = m, ascOwnerParticipantId = Some owner,
                 ascVisibility = Private\<rparr>)) (\<lambda>stored.
              case stored of
                None \<Rightarrow> failC FORBIDDEN
              | Some bs \<Rightarrow>
                  (case textDecode bs of
                     None \<Rightarrow> failC VALIDATION_FAILED
                   | Some txt \<Rightarrow> returnC \<lparr>owsArtifact = a, owsContentHash = hash, owsText = txt\<rparr>))
          | _ \<Rightarrow> failC VALIDATION_FAILED))))"

text \<open>
  The payload that a range of a text gives. The constructors throw domain errors only, which the
  source turns into validation failures.
\<close>

definition selectedPayload ::
  "string \<Rightarrow> string \<Rightarrow> sourceRangeInput \<Rightarrow> string option \<Rightarrow> failureCode + disclosureOutgoingPayload" where
  "selectedPayload i txt input expected =
     (case mkTextRange (sriStart input) (sriEnd input) of
        Inl _ \<Rightarrow> Inl VALIDATION_FAILED
      | Inr rng \<Rightarrow>
          if rangeEnd rng > int (length txt) then Inl VALIDATION_FAILED
          else
            (let snippet = take (nat (rangeEnd rng - rangeStart rng)) (drop (nat (rangeStart rng)) txt) in
             if expected \<noteq> None \<and> expected \<noteq> Some snippet then Inl DISCLOSURE_PREVIEW_MISMATCH
             else case bindE (exactText snippet) (\<lambda>s. bindE (artifactId i) (\<lambda>a.
                     Inr \<lparr>outExactSnippet = s, outSourceArtifactId = a, outSourceRange = rng\<rparr>)) of
                    Inl _ \<Rightarrow> Inl VALIDATION_FAILED
                  | Inr p \<Rightarrow> Inr p))"

definition selectC ::
  "(failureCode \<Rightarrow> failureCode) \<Rightarrow> failureCode + disclosureOutgoingPayload \<Rightarrow>
     ('w, disclosureOutgoingPayload) command" where
  "selectC recode r = (case r of Inl code \<Rightarrow> failC (recode code) | Inr p \<Rightarrow> returnC p)"

subsection \<open>Parts of the commands\<close>

definition commandFields :: "'w ports \<Rightarrow> 'x mutationInput_scheme \<Rightarrow> ('w, string \<times> int \<times> string) command" where
  "commandFields deps input =
     bindC (clockNow deps) (\<lambda>occurredAt.
     bindC (liftC (meetingPosition (mutExpectedPosition input))) (\<lambda>expected.
     bindC (liftC (idempotencyKey (mutIdempotencyKey input))) (\<lambda>key.
     returnC (occurredAt, expected, key))))"

definition ownerEvent ::
  "userContext \<Rightarrow> 'x mutationInput_scheme \<Rightarrow> string \<Rightarrow> string \<Rightarrow> string \<Rightarrow> int \<Rightarrow> string \<Rightarrow>
     exn + domainEventPayload \<Rightarrow> exn + domainEvent" where
  "ownerEvent context input evId correlation occurredAt expected key payloadResult =
     bindE (participantActor context) (\<lambda>actor.
     bindE (meetingId (mutMeetingId input)) (\<lambda>m.
     bindE (participantId (uctParticipantId context)) (\<lambda>owner.
     bindE payloadResult (\<lambda>payload.
     bindE (meetingPosition (expected + 1)) (\<lambda>position.
     bindE (schemaVersion 1) (\<lambda>version.
     Inr \<lparr>evEventId = evId, evSchemaVersion = version, evMeetingId = m, evPosition = position,
       evActor = actor, evOccurredAt = occurredAt, evCorrelationId = correlation,
       evCausationId = None, evIdempotencyKey = Some key, evScope = PrivateScope owner,
       evPayload = payload\<rparr>))))))"

definition nextEventId :: "'w ports \<Rightarrow> ('w, string) command" where
  "nextEventId deps = bindC (readC (prtNext deps ''event'')) (\<lambda>i. liftC (eventId i))"

text \<open>The answer of a command: the first stored event of its type, or the error the source throws.\<close>

definition answerWith ::
  "appendResult \<Rightarrow> (domainEventPayload \<Rightarrow> 'a option) \<Rightarrow> string \<Rightarrow> (domainEvent \<Rightarrow> 'a \<Rightarrow> 'b) \<Rightarrow>
     ('w, 'b commandSuccess) command" where
  "answerWith appended select message view =
     bindC (liftC (eventAt select (aprRecords appended))) (\<lambda>found.
     case found of
       None \<Rightarrow> raiseC (JsError message)
     | Some (ev, x) \<Rightarrow> returnC (success (aprReplayed appended) (ev, view ev x)))"

text \<open>A failure runs the clean-up before it is returned; an exception does not.\<close>

definition onFailureC :: "('w, unit) command \<Rightarrow> ('w, 'a) command \<Rightarrow> ('w, 'a) command" where
  "onFailureC cleanup m w =
     (case m w of
        (Inl (Failed f), w') \<Rightarrow>
          (case cleanup w' of (Inl e, w'') \<Rightarrow> (Inl e, w'') | (Inr _, w'') \<Rightarrow> (Inl (Failed f), w''))
      | r \<Rightarrow> r)"

definition privateCommandEvent ::
  "'w ports \<Rightarrow> userContext \<Rightarrow> 'x mutationInput_scheme \<Rightarrow> string \<Rightarrow> string \<Rightarrow> int \<Rightarrow> string \<Rightarrow>
     exn + domainEventPayload \<Rightarrow> ('w, domainEvent) command" where
  "privateCommandEvent deps context input correlation occurredAt expected key payloadResult =
     bindC (liftC (participantActor context)) (\<lambda>_.
     bindC (nextEventId deps) (\<lambda>i.
     liftC (ownerEvent context input i correlation occurredAt expected key payloadResult)))"

definition fingerprintC ::
  "'w ports \<Rightarrow> 'x mutationInput_scheme \<Rightarrow> userContext \<Rightarrow> string \<Rightarrow> (string \<times> js_value) list \<Rightarrow>
     ('w, string) command" where
  "fingerprintC deps input context name entries =
     hashValue deps (localeSerialize (JObj
       ([(''command'', JStr name), (''meetingId'', JStr (mutMeetingId input)),
         (''ownerParticipantId'', JStr (uctParticipantId context))] @ entries)))"

fun artifactOf :: "domainEventPayload \<Rightarrow> sourceArtifact option" where
  "artifactOf (ArtifactRegistered a) = Some a"
| "artifactOf _ = None"

fun proposalOf :: "domainEventPayload \<Rightarrow> (string \<times> disclosureOutgoingPayload) option" where
  "proposalOf (DisclosureProposed i _ out) = Some (i, out)"
| "proposalOf _ = None"

fun previewOf :: "domainEventPayload \<Rightarrow> previewView option" where
  "previewOf (DisclosurePreviewed i out h) =
     Some \<lparr>pvwCandidateId = i, pvwOutgoingPayload = out, pvwPreviewHash = h\<rparr>"
| "previewOf _ = None"

fun approvalOf :: "domainEventPayload \<Rightarrow> (string \<times> string) option" where
  "approvalOf (DisclosureApproved i h _ _) = Some (i, h)"
| "approvalOf _ = None"

fun rejectionOf :: "domainEventPayload \<Rightarrow> string option" where
  "rejectionOf (DisclosureRejected i _ _) = Some i"
| "rejectionOf _ = None"

fun evidenceOf :: "domainEventPayload \<Rightarrow> evidence option" where
  "evidenceOf (EvidenceShared e) = Some e"
| "evidenceOf _ = None"

subsection \<open>Registering a private text\<close>

definition sourceScope :: "userContext \<Rightarrow> 'x mutationInput_scheme \<Rightarrow> string \<Rightarrow> artifactScope" where
  "sourceScope context input i =
     \<lparr>ascArtifactId = i, ascMeetingId = mutMeetingId input,
      ascOwnerParticipantId = Some (uctParticipantId context), ascVisibility = Private\<rparr>"

definition validateSource ::
  "'w ports \<Rightarrow> registerSourceInput \<Rightarrow> ('w, string \<times> string \<times> int \<times> string \<times> string) command" where
  "validateSource deps input =
     tryC validationHandler
       (bindC (liftC (nonEmptyText (rsiTitle input))) (\<lambda>title.
        bindC (liftC (exactText (rsiText input))) (\<lambda>_.
        bindC (commandFields deps input) (\<lambda>(occurredAt, expected, key).
        bindC (hashValue deps (sourceHashText (rsiText input))) (\<lambda>sourceHash.
        returnC (title, occurredAt, expected, key, sourceHash))))))"

definition buildSourceArtifact ::
  "userContext \<Rightarrow> registerSourceInput \<Rightarrow> string \<Rightarrow> string \<Rightarrow> string \<Rightarrow> artifactMetadata \<Rightarrow> exn + sourceArtifact" where
  "buildSourceArtifact context input i occurredAt sourceHash metadata =
     bindE (contentHash sourceHash) (\<lambda>hash.
     bindE (participantId (uctParticipantId context)) (\<lambda>owner.
     bindE (meetingId (mutMeetingId input)) (\<lambda>m.
     bindE (revisionNumber 1) (\<lambda>one.
     bindE (nonEmptyText (amdStorageReference metadata)) (\<lambda>reference.
     createSourceArtifact \<lparr>recId = i, recMeetingId = m, recCreatedAt = occurredAt,
       recCreatedBy = owner, recOrigin = HumanInput, recConfirmation = NotApplicable,
       recRevision = one, recVisibility = Private, recOwner = Some owner,
       artType = TextArtifact, artStorageReference = reference, artContentHash = hash,
       artContentType = None, artDerivedArtifactId = None, artDerivedContentHash = None,
       artDerivedSizeBytes = None, artDerivedStorageReference = None, artOriginalFilename = None,
       artSourceLocatorHash = None, artSizeBytes = amdSize metadata, artProcessingState = Processed\<rparr>)))))"

definition deleteSource :: "'w disclosurePorts \<Rightarrow> userContext \<Rightarrow> registerSourceInput \<Rightarrow> string \<Rightarrow> ('w, unit) command" where
  "deleteSource deps context input i = portC (aspDelete (ddpArtifacts deps) (sourceScope context input i))"

definition registerPrivateTextSource ::
  "'w disclosurePorts \<Rightarrow> userContext \<Rightarrow> registerSourceInput \<Rightarrow> ('w, sourceView commandSuccess) command" where
  "registerPrivateTextSource deps context input =
     bindC (authorizeMutation context input ArtifactCreateOwn) (\<lambda>_.
     bindC (validateSource (ddpPorts deps) input) (\<lambda>(title, occurredAt, expected, key, sourceHash).
     bindC (bindC (readC (prtNext (ddpPorts deps) ''artifact'')) (\<lambda>i. liftC (artifactId i))) (\<lambda>i.
     bindC (portC (aspPut (ddpArtifacts deps)
       \<lparr>awrBytes = textEncode (rsiText input), awrContentType = ''text/plain; charset=utf-8'',
        awrHash = sourceHash, awrScope = sourceScope context input i\<rparr>)) (\<lambda>metadata.
     bindC (commandCorrelationId (ddpPorts deps) input) (\<lambda>correlation.
     bindC (liftC (buildSourceArtifact context input i occurredAt sourceHash metadata)) (\<lambda>a.
     bindC (privateCommandEvent (ddpPorts deps) context input correlation occurredAt expected key
              (Inr (ArtifactRegistered a))) (\<lambda>ev.
     bindC (fingerprintC (ddpPorts deps) input context ''register-private-text-source''
              [(''contentHash'', JStr sourceHash), (''title'', JStr title)]) (\<lambda>fingerprint.
     bindC (onFailureC (deleteSource deps context input i)
              (appendMutation (ddpPorts deps) input fingerprint [ev] (uctParticipantId context))) (\<lambda>appended.
     bindC (liftC (eventAt artifactOf (aprRecords appended))) (\<lambda>found.
     case found of
       None \<Rightarrow> raiseC (JsError ''Artifact registration append returned no registration'')
     | Some (registered, b) \<Rightarrow>
         bindC (if aprReplayed appended \<and> recId b \<noteq> i then deleteSource deps context input i
                else returnC ()) (\<lambda>_.
         returnC (success (aprReplayed appended) (registered,
           \<lparr>srvCreatedAt = evOccurredAt registered, srvSourceArtifactId = recId b,
            srvText = rsiText input, srvTitle = title\<rparr>)))))))))))))"

subsection \<open>Proposing\<close>

definition proposalAnswer :: "bool \<Rightarrow> domainEvent \<Rightarrow> string \<times> disclosureOutgoingPayload \<Rightarrow> candidateView commandSuccess" where
  "proposalAnswer replayed ev proposal =
     success replayed (ev, \<lparr>cvwCandidateId = fst proposal, cvwOutgoingPayload = snd proposal,
       cvwState = DspProposed\<rparr>)"

text \<open>An earlier command with the key: found before the model is asked again.\<close>

definition replayedAiProposal ::
  "'w disclosurePorts \<Rightarrow> userContext \<Rightarrow> proposeDisclosureInput \<Rightarrow>
     ('w, candidateView commandSuccess option) command" where
  "replayedAiProposal deps context input =
     bindC (loadEvents deps (mutMeetingId input)) (\<lambda>evs.
     let keyed = (\<lambda>ev. evIdempotencyKey ev = Some (mutIdempotencyKey input));
         old = take (length evs - length (eventsAfterLatestDemoReset evs)) evs in
     case findFirst keyed evs of
       None \<Rightarrow> returnC None
     | Some existing \<Rightarrow>
         if findFirst keyed old \<noteq> None then failC IDEMPOTENCY_CONFLICT
         else
           (case proposalOf (evPayload existing) of
              None \<Rightarrow> failC IDEMPOTENCY_CONFLICT
            | Some proposal \<Rightarrow>
                if eventOwner existing \<noteq> Some (uctParticipantId context) \<or>
                   outSourceArtifactId (snd proposal) \<noteq> pdiSourceArtifactId input
                then failC IDEMPOTENCY_CONFLICT
                else returnC (Some (proposalAnswer True existing proposal))))"

definition appendProposal ::
  "'w disclosurePorts \<Rightarrow> userContext \<Rightarrow> proposeDisclosureInput \<Rightarrow> disclosureOutgoingPayload \<Rightarrow>
     ('w, candidateView commandSuccess) command" where
  "appendProposal deps context input out =
     bindC (tryC validationHandler (commandFields (ddpPorts deps) input)) (\<lambda>(occurredAt, expected, key).
     bindC (bindC (readC (prtNext (ddpPorts deps) ''disclosure'')) (\<lambda>i. liftC (disclosureId i))) (\<lambda>candidate.
     bindC (commandCorrelationId (ddpPorts deps) input) (\<lambda>correlation.
     bindC (privateCommandEvent (ddpPorts deps) context input correlation occurredAt expected key
              (bindE (participantId (uctParticipantId context)) (\<lambda>p. Inr (DisclosureProposed candidate p out)))) (\<lambda>ev.
     bindC (hashValue (ddpPorts deps) (previewFingerprintPayload out)) (\<lambda>payloadHash.
     bindC (fingerprintC (ddpPorts deps) input context ''propose-disclosure''
              [(''outgoingPayloadHash'', JStr payloadHash)]) (\<lambda>fingerprint.
     bindC (appendMutation (ddpPorts deps) input fingerprint [ev] (uctParticipantId context)) (\<lambda>appended.
     bindC (liftC (eventAt proposalOf (aprRecords appended))) (\<lambda>found.
     case found of
       None \<Rightarrow> raiseC (JsError ''Disclosure proposal append returned no proposal'')
     | Some (proposed, proposal) \<Rightarrow>
         returnC (proposalAnswer (aprReplayed appended) proposed proposal)))))))))"

definition proposeRange ::
  "'w disclosurePorts \<Rightarrow> userContext \<Rightarrow> proposeDisclosureInput \<Rightarrow> string \<Rightarrow>
     sourceRangeInput option \<Rightarrow> string option \<Rightarrow> ('w, candidateView commandSuccess) command" where
  "proposeRange deps context input txt selected snippet =
     (case selected of
        None \<Rightarrow> failC VALIDATION_FAILED
      | Some r \<Rightarrow>
          bindC (selectC (\<lambda>code. if code = DISCLOSURE_PREVIEW_MISMATCH then VALIDATION_FAILED else code)
                   (selectedPayload (pdiSourceArtifactId input) txt r snippet))
            (appendProposal deps context input))"

definition proposeDisclosure ::
  "'w disclosurePorts \<Rightarrow> userContext \<Rightarrow> proposeDisclosureInput \<Rightarrow> ('w, candidateView commandSuccess) command" where
  "proposeDisclosure deps context input =
     bindC (authorizeMutation context input DisclosureProposeOwn) (\<lambda>_.
     bindC (loadOwnedSource deps context (mutMeetingId input) (pdiSourceArtifactId input)
              DisclosureProposeOwn) (\<lambda>source.
     case ddpProposer deps of
       None \<Rightarrow> proposeRange deps context input (owsText source) (pdiSourceRange input) (pdiExactSnippet input)
     | Some propose \<Rightarrow>
         bindC (replayedAiProposal deps context input) (\<lambda>replayed.
         case replayed of
           Some answer \<Rightarrow> returnC answer
         | None \<Rightarrow>
             bindC (portC (propose
               \<lparr>ppiMeetingId = mutMeetingId input, ppiOwnerParticipantId = uctParticipantId context,
                ppiSourceArtifactId = pdiSourceArtifactId input, ppiText = owsText source\<rparr>)) (\<lambda>proposal.
             proposeRange deps context input (owsText source) (Some (dprSourceRange proposal))
               (dprExactSnippet proposal)))))"

subsection \<open>Previewing\<close>

definition requireCandidate ::
  "'w disclosurePorts \<Rightarrow> userContext \<Rightarrow> 'x mutationInput_scheme \<Rightarrow> string \<Rightarrow> permission \<Rightarrow>
     (candidateSnapshot \<Rightarrow> bool) \<Rightarrow> ('w, candidateSnapshot) command" where
  "requireCandidate deps context input i capability allowed =
     bindC (loadCandidate deps (mutMeetingId input) i) (\<lambda>candidate.
     bindC (authorizeOwner context capability (mutMeetingId input) (csnOwner candidate)) (\<lambda>_.
     bindC (unlessC (allowed candidate) INVALID_STATE_TRANSITION) (\<lambda>_.
     returnC candidate)))"

definition stillOpen :: "string \<Rightarrow> candidateSnapshot \<Rightarrow> bool" where
  "stillOpen k c \<longleftrightarrow>
     \<not> ((csnState c = DspApproved \<or> csnState c = DspRejected) \<and> \<not> candidateHasIdempotencyKey c k)"

definition appendPreview ::
  "'w disclosurePorts \<Rightarrow> userContext \<Rightarrow> previewDisclosureInput \<Rightarrow> disclosureOutgoingPayload \<Rightarrow>
     ('w, previewView commandSuccess) command" where
  "appendPreview deps context input out =
     bindC (tryC validationHandler
       (bindC (commandFields (ddpPorts deps) input) (\<lambda>(occurredAt, expected, key).
        bindC (hashValue (ddpPorts deps) (previewFingerprintPayload out)) (\<lambda>hash.
        returnC (occurredAt, expected, key, hash))))) (\<lambda>(occurredAt, expected, key, hash).
     bindC (commandCorrelationId (ddpPorts deps) input) (\<lambda>correlation.
     bindC (privateCommandEvent (ddpPorts deps) context input correlation occurredAt expected key
              (bindE (disclosureId (pviCandidateId input)) (\<lambda>i.
               bindE (previewHash hash) (\<lambda>h. Inr (DisclosurePreviewed i out h))))) (\<lambda>ev.
     bindC (fingerprintC (ddpPorts deps) input context ''preview-disclosure''
              [(''candidateId'', JStr (pviCandidateId input)), (''previewHash'', JStr hash)]) (\<lambda>fingerprint.
     bindC (appendMutation (ddpPorts deps) input fingerprint [ev] (uctParticipantId context)) (\<lambda>appended.
     answerWith appended previewOf ''Disclosure preview append returned no preview'' (\<lambda>_ v. v))))))"

definition previewDisclosure ::
  "'w disclosurePorts \<Rightarrow> userContext \<Rightarrow> previewDisclosureInput \<Rightarrow> ('w, previewView commandSuccess) command" where
  "previewDisclosure deps context input =
     bindC (authorizeMutation context input DisclosureProposeOwn) (\<lambda>_.
     bindC (requireCandidate deps context input (pviCandidateId input) DisclosureProposeOwn
              (stillOpen (mutIdempotencyKey input))) (\<lambda>candidate.
     bindC (loadOwnedSource deps context (mutMeetingId input)
              (outSourceArtifactId (csnOutgoingPayload candidate)) DisclosureProposeOwn) (\<lambda>source.
     bindC (selectC (\<lambda>code. if code = VALIDATION_FAILED then code else DISCLOSURE_PREVIEW_MISMATCH)
              (selectedPayload (recId (owsArtifact source)) (owsText source) (pviSourceRange input)
                (Some (pviExactSnippet input))))
       (appendPreview deps context input))))"

subsection \<open>Approving\<close>

definition rangeInput :: "textRange \<Rightarrow> sourceRangeInput" where
  "rangeInput r = \<lparr>sriStart = rangeStart r, sriEnd = rangeEnd r\<rparr>"

text \<open>The source is hashed and the preview fingerprinted again; both must be what they were.\<close>

definition revalidate ::
  "'w ports \<Rightarrow> approveDisclosureInput \<Rightarrow> candidateSnapshot \<Rightarrow> ownedSource \<Rightarrow> disclosureOutgoingPayload \<Rightarrow>
     ('w, string \<times> int \<times> string \<times> string) command" where
  "revalidate deps input candidate source out =
     tryC validationHandler
       (bindC (commandFields deps input) (\<lambda>(occurredAt, expected, key).
        bindC (hashValue deps (if recOrigin (owsArtifact source) = HumanInput
                               then sourceHashText (owsText source) else owsText source)) (\<lambda>sourceHash.
        bindC (hashValue deps (previewFingerprintPayload out)) (\<lambda>hash.
        bindC (unlessC (\<not> (sourceHash \<noteq> owsContentHash source \<or> csnPreviewHash candidate = None \<or>
                          csnPreviewHash candidate \<noteq> Some (adiPreviewHash input) \<or>
                          hash \<noteq> adiPreviewHash input)) DISCLOSURE_PREVIEW_MISMATCH) (\<lambda>_.
        returnC (occurredAt, expected, key, hash))))))"

definition buildEvidence ::
  "userContext \<Rightarrow> approveDisclosureInput \<Rightarrow> string \<Rightarrow> string \<Rightarrow> string \<Rightarrow> disclosureOutgoingPayload \<Rightarrow>
     exn + evidence" where
  "buildEvidence context input i approvalId occurredAt out =
     bindE (participantId (uctParticipantId context)) (\<lambda>p.
     bindE (auditReferenceId approvalId) (\<lambda>audit.
     bindE (meetingId (mutMeetingId input)) (\<lambda>m.
     bindE (revisionNumber 1) (\<lambda>one.
     createEvidence \<lparr>recId = i, recMeetingId = m, recCreatedAt = occurredAt, recCreatedBy = p,
       recOrigin = SourceArtifactOrigin, recConfirmation = Confirmed, recRevision = one,
       recVisibility = Shared, recOwner = None, evdExactSnippet = outExactSnippet out,
       evdSourceArtifactId = outSourceArtifactId out, evdSourceRange = outSourceRange out,
       evdDisclosureAuditReferenceId = audit\<rparr>))))"

definition evidenceEvent ::
  "userContext \<Rightarrow> approveDisclosureInput \<Rightarrow> string \<Rightarrow> string \<Rightarrow> string \<Rightarrow> string \<Rightarrow> int \<Rightarrow> evidence \<Rightarrow>
     exn + domainEvent" where
  "evidenceEvent context input evId approvalId correlation occurredAt expected e =
     bindE (participantActor context) (\<lambda>actor.
     bindE (causationId approvalId) (\<lambda>cause.
     bindE (meetingId (mutMeetingId input)) (\<lambda>m.
     bindE (meetingPosition (expected + 2)) (\<lambda>position.
     bindE (schemaVersion 1) (\<lambda>version.
     Inr \<lparr>evEventId = evId, evSchemaVersion = version, evMeetingId = m, evPosition = position,
       evActor = actor, evOccurredAt = occurredAt, evCorrelationId = correlation,
       evCausationId = Some cause, evIdempotencyKey = None, evScope = SharedScope,
       evPayload = EvidenceShared e\<rparr>)))))"

definition evidenceIdFor :: "'w ports \<Rightarrow> candidateSnapshot \<Rightarrow> ('w, string) command" where
  "evidenceIdFor deps candidate =
     (case csnEvidenceId candidate of
        None \<Rightarrow> bindC (readC (prtNext deps ''evidence'')) (\<lambda>i. liftC (evidenceId i))
      | Some i \<Rightarrow> liftC (evidenceId i))"

text \<open>The two events of an approval: the owner's private approval, then the shared evidence.\<close>

definition approvalEvents ::
  "'w ports \<Rightarrow> userContext \<Rightarrow> approveDisclosureInput \<Rightarrow> candidateSnapshot \<Rightarrow> disclosureOutgoingPayload \<Rightarrow>
     string \<Rightarrow> int \<Rightarrow> string \<Rightarrow> string \<Rightarrow> ('w, domainEvent list) command" where
  "approvalEvents deps context input candidate out occurredAt expected key hash =
     bindC (commandCorrelationId deps input) (\<lambda>correlation.
     bindC (nextEventId deps) (\<lambda>approvalId.
     bindC (evidenceIdFor deps candidate) (\<lambda>resulting.
     bindC (liftC (buildEvidence context input resulting approvalId occurredAt out)) (\<lambda>e.
     bindC (liftC (ownerEvent context input approvalId correlation occurredAt expected key
              (bindE (disclosureId (adiCandidateId input)) (\<lambda>i.
               bindE (previewHash hash) (\<lambda>h. Inr (DisclosureApproved i h resulting occurredAt)))))) (\<lambda>approved.
     bindC (nextEventId deps) (\<lambda>sharedId.
     bindC (liftC (evidenceEvent context input sharedId approvalId correlation occurredAt expected e)) (\<lambda>shared.
     returnC [approved, shared])))))))"

definition evidenceViewOf :: "evidence \<Rightarrow> evidenceView" where
  "evidenceViewOf e =
     \<lparr>evwCreatedAt = recCreatedAt e, evwEvidenceId = recId e, evwExactSnippet = evdExactSnippet e,
      evwSourceArtifactId = evdSourceArtifactId e, evwSourceRange = evdSourceRange e\<rparr>"

definition approvalAnswer :: "appendResult \<Rightarrow> ('w, approvalView commandSuccess) command" where
  "approvalAnswer appended =
     bindC (liftC (eventAt approvalOf (aprRecords appended))) (\<lambda>approval.
     bindC (liftC (eventAt evidenceOf (aprRecords appended))) (\<lambda>stored.
     case (approval, stored) of
       (Some (approved, i, h), Some (shared, e)) \<Rightarrow>
         returnC \<lparr>sucCorrelationId = evCorrelationId approved, sucPosition = evPosition shared,
           sucReplayed = aprReplayed appended,
           sucValue = \<lparr>apvCandidateId = i, apvEvidence = evidenceViewOf e, apvPreviewHash = h\<rparr>\<rparr>
     | _ \<Rightarrow> raiseC (JsError ''Disclosure approval append returned incomplete records'')))"

definition approvable :: "string \<Rightarrow> candidateSnapshot \<Rightarrow> bool" where
  "approvable k c \<longleftrightarrow>
     \<not> (csnState c \<noteq> DspPreviewed \<and> \<not> (csnState c = DspApproved \<and> candidateHasIdempotencyKey c k))"

definition approveDisclosure ::
  "'w disclosurePorts \<Rightarrow> userContext \<Rightarrow> approveDisclosureInput \<Rightarrow> ('w, approvalView commandSuccess) command" where
  "approveDisclosure deps context input =
     bindC (authorizeMutation context input DisclosureApproveOwn) (\<lambda>_.
     bindC (requireCandidate deps context input (adiCandidateId input) DisclosureApproveOwn
              (approvable (mutIdempotencyKey input))) (\<lambda>candidate.
     bindC (loadOwnedSource deps context (mutMeetingId input)
              (outSourceArtifactId (csnOutgoingPayload candidate)) DisclosureApproveOwn) (\<lambda>source.
     bindC (selectC (\<lambda>_. DISCLOSURE_PREVIEW_MISMATCH)
              (selectedPayload (recId (owsArtifact source)) (owsText source)
                (rangeInput (outSourceRange (csnOutgoingPayload candidate)))
                (Some (outExactSnippet (csnOutgoingPayload candidate))))) (\<lambda>out.
     bindC (revalidate (ddpPorts deps) input candidate source out) (\<lambda>(occurredAt, expected, key, hash).
     bindC (approvalEvents (ddpPorts deps) context input candidate out occurredAt expected key hash) (\<lambda>evs.
     bindC (fingerprintC (ddpPorts deps) input context ''approve-disclosure''
              [(''candidateId'', JStr (adiCandidateId input)),
               (''previewHash'', JStr (adiPreviewHash input))]) (\<lambda>fingerprint.
     bindC (appendMutation (ddpPorts deps) input fingerprint evs (uctParticipantId context))
       approvalAnswer)))))))"

subsection \<open>Rejecting\<close>

definition validateRejection ::
  "'w ports \<Rightarrow> rejectDisclosureInput \<Rightarrow> ('w, string \<times> int \<times> string \<times> string option) command" where
  "validateRejection deps input =
     tryC validationHandler
       (bindC (commandFields deps input) (\<lambda>(occurredAt, expected, key).
        bindC (liftC (case rdiReason input of
                        None \<Rightarrow> Inr None
                      | Some why \<Rightarrow> bindE (nonEmptyText why) (\<lambda>s. Inr (Some s)))) (\<lambda>reason.
        returnC (occurredAt, expected, key, reason))))"

definition reasonHash :: "'w ports \<Rightarrow> string option \<Rightarrow> ('w, string option) command" where
  "reasonHash deps reason =
     (case reason of
        None \<Rightarrow> returnC None
      | Some why \<Rightarrow>
          bindC (hashValue deps (''rejection'' @ [CHR 0x00] @ why)) (\<lambda>h. returnC (Some h)))"

definition rejectDisclosure ::
  "'w disclosurePorts \<Rightarrow> userContext \<Rightarrow> rejectDisclosureInput \<Rightarrow> ('w, string commandSuccess) command" where
  "rejectDisclosure deps context input =
     bindC (authorizeMutation context input DisclosureApproveOwn) (\<lambda>_.
     bindC (requireCandidate deps context input (rdiCandidateId input) DisclosureApproveOwn
              (stillOpen (mutIdempotencyKey input))) (\<lambda>_.
     bindC (validateRejection (ddpPorts deps) input) (\<lambda>(occurredAt, expected, key, reason).
     bindC (commandCorrelationId (ddpPorts deps) input) (\<lambda>correlation.
     bindC (privateCommandEvent (ddpPorts deps) context input correlation occurredAt expected key
              (bindE (disclosureId (rdiCandidateId input)) (\<lambda>i.
               Inr (DisclosureRejected i occurredAt reason)))) (\<lambda>ev.
     bindC (reasonHash (ddpPorts deps) reason) (\<lambda>hash.
     bindC (fingerprintC (ddpPorts deps) input context ''reject-disclosure''
              [(''candidateId'', JStr (rdiCandidateId input)), (''reasonHash'', jsOption JStr hash)]) (\<lambda>fingerprint.
     bindC (appendMutation (ddpPorts deps) input fingerprint [ev] (uctParticipantId context)) (\<lambda>appended.
     answerWith appended rejectionOf ''Disclosure rejection append returned no rejection''
       (\<lambda>_ i. i)))))))))"

end
