(* ===== verification/DisclosureLogic.thy ===== *)
theory DisclosureLogic
  imports CommandLogic Disclosures
begin

section \<open>What disclosures may append\<close>

text \<open>
  \<open>disclosureJustified\<close> says, from the log alone, which disclosure events may follow a log: who may
  propose, preview, approve and reject which candidate in which state, and that shared evidence is
  the owner's approved preview, a slice of a text whose hash is the one on record. The locale
  \<open>disclosure_world\<close> extends the world of a command by the artifact store, the optional model and a
  hash function; its lemmas show that the commands append nothing else.
\<close>

subsection \<open>Logs since the latest reset\<close>

abbreviation active :: "domainEvent list \<Rightarrow> domainEvent list" where
  "active \<equiv> eventsAfterLatestDemoReset"

lemma active_snoc:
  "active (log @ [ev]) = (if isDemoResetCompleted (evPayload ev) then [] else active log @ [ev])"
  by (simp add: eventsAfterLatestDemoReset_def)

lemma active_Nil [simp]: "active [] = []"
  by (simp add: eventsAfterLatestDemoReset_def)

lemma set_active: "set (active log) \<subseteq> set log"
  by (induction log rule: rev_induct) (auto simp: active_snoc)

lemma active_split: "\<exists>pre. log = pre @ active log"
proof (induction log rule: rev_induct)
  case (snoc ev log)
  then obtain pre where "log = pre @ active log" by blast
  then show ?case by (cases "isDemoResetCompleted (evPayload ev)") (auto simp: active_snoc)
qed simp

subsection \<open>Candidates\<close>

lemma candidateStep_frame [simp]:
  "csnEvents (candidateStep o' c ev) = csnEvents c" "csnOwner (candidateStep o' c ev) = csnOwner c"
  by (auto simp: candidateStep_def split: domainEventPayload.splits)

lemma foldl_candidateStep_frame [simp]:
  "csnEvents (foldl (candidateStep o') c evs) = csnEvents c"
  "csnOwner (foldl (candidateStep o') c evs) = csnOwner c"
  by (induction evs arbitrary: c) simp_all

text \<open>What the fold over the events of a candidate has seen.\<close>

definition movesCandidate :: "domainEventPayload \<Rightarrow> bool" where
  "movesCandidate p \<longleftrightarrow> previewOf p \<noteq> None \<or> approvalOf p \<noteq> None \<or> rejectionOf p \<noteq> None"

definition previewedLast ::
  "string option \<Rightarrow> domainEvent list \<Rightarrow> disclosureOutgoingPayload \<Rightarrow> string \<Rightarrow> bool" where
  "previewedLast owner evs out h \<longleftrightarrow>
     (\<exists>us pv vs i. evs = us @ pv # vs \<and> eventOwner pv = owner \<and> evPayload pv = DisclosurePreviewed i out h \<and>
        (\<forall>ev \<in> set vs. eventOwner ev = owner \<longrightarrow> \<not> movesCandidate (evPayload ev)))"

definition candidateSeen :: "string option \<Rightarrow> candidateSnapshot \<Rightarrow> domainEvent list \<Rightarrow> candidateSnapshot \<Rightarrow> bool" where
  "candidateSeen owner start evs c \<longleftrightarrow>
     (csnState c = DspPreviewed \<longrightarrow> csnState start = DspPreviewed \<or>
        (\<exists>h. csnPreviewHash c = Some h \<and> previewedLast owner evs (csnOutgoingPayload c) h)) \<and>
     (csnOutgoingPayload c = csnOutgoingPayload start \<or>
        (\<exists>pv \<in> set evs. \<exists>i h. eventOwner pv = owner \<and> evPayload pv = DisclosurePreviewed i (csnOutgoingPayload c) h))"

lemma previewedLast_snoc:
  "previewedLast owner evs out h \<Longrightarrow> eventOwner ev \<noteq> owner \<or> \<not> movesCandidate (evPayload ev) \<Longrightarrow>
     previewedLast owner (evs @ [ev]) out h"
  unfolding previewedLast_def by (elim exE) (rule exI, rule exI, rule_tac x = "vs @ [ev]" in exI, auto)

lemma previewedLast_new:
  "eventOwner ev = owner \<Longrightarrow> evPayload ev = DisclosurePreviewed i out h \<Longrightarrow> previewedLast owner (evs @ [ev]) out h"
  unfolding previewedLast_def by (rule exI[of _ evs], rule exI[of _ ev], rule exI[of _ "[]"], rule exI[of _ i]) auto

lemma candidateSeen_step:
  assumes "candidateSeen owner start evs c"
  shows "candidateSeen owner start (evs @ [ev]) (candidateStep owner c ev)"
proof -
  have keep: "candidateSeen owner start (evs @ [ev]) c" if "eventOwner ev \<noteq> owner \<or> \<not> movesCandidate (evPayload ev)"
    using assms previewedLast_snoc[OF _ that] unfolding candidateSeen_def by fastforce
  show ?thesis
  proof (cases "eventOwner ev = owner \<and> movesCandidate (evPayload ev)")
    case True
    then show ?thesis using assms previewedLast_new[of ev owner]
      by (cases "evPayload ev") (auto simp: candidateSeen_def candidateStep_def movesCandidate_def)
  next
    case False
    then have "candidateStep owner c ev = c"
      by (cases "evPayload ev") (auto simp: candidateStep_def movesCandidate_def)
    with keep False show ?thesis by auto
  qed
qed

lemma foldl_candidateSeen: "candidateSeen owner start evs (foldl (candidateStep owner) start evs)"
  by (induction evs rule: rev_induct) (simp_all add: candidateSeen_step, simp add: candidateSeen_def)

lemma proposedPayload_Some: "proposedPayload p = Some out \<longleftrightarrow> (\<exists>i q. p = DisclosureProposed i q out)"
  by (cases p) auto

lemma candidateFrom_Some:
  assumes "candidateFrom evs i = Some c"
  obtains proposed q out where "proposed \<in> set evs" "evPayload proposed = DisclosureProposed i q out"
    "csnOwner c = eventOwner proposed" "csnEvents c = filter (\<lambda>ev. disclosureOf (evPayload ev) = Some i) evs"
    "candidateSeen (csnOwner c)
       \<lparr>csnEvents = csnEvents c, csnOutgoingPayload = out, csnOwner = csnOwner c, csnPreviewHash = None,
        csnEvidenceId = None, csnState = DspProposed\<rparr> (csnEvents c) c"
proof -
  let ?own = "filter (\<lambda>ev. disclosureOf (evPayload ev) = Some i) evs"
  obtain proposed where p: "findFirst (\<lambda>ev. proposedPayload (evPayload ev) \<noteq> None) ?own = Some proposed"
    using assms by (auto simp: candidateFrom_def Let_def split: option.splits)
  let ?start = "\<lparr>csnEvents = ?own, csnOutgoingPayload = the (proposedPayload (evPayload proposed)),
             csnOwner = eventOwner proposed, csnPreviewHash = None, csnEvidenceId = None,
             csnState = DspProposed\<rparr>"
  have c: "c = foldl (candidateStep (eventOwner proposed)) ?start ?own"
    using assms p by (simp add: candidateFrom_def Let_def)
  from p have "proposed \<in> set ?own" "proposedPayload (evPayload proposed) \<noteq> None"
    by (auto dest: findFirst_SomeD)
  then obtain q out where q: "proposed \<in> set evs" "evPayload proposed = DisclosureProposed i q out"
    by (auto simp: proposedPayload_Some)
  show thesis
    by (rule that[OF q]) (use c q(2) foldl_candidateSeen[of "eventOwner proposed" ?start ?own] in auto)
qed

text \<open>The candidate after one more event.\<close>

lemma candidateFrom_snoc:
  assumes "candidateFrom evs i = Some c"
  shows "candidateFrom (evs @ [ev]) i =
    Some (if disclosureOf (evPayload ev) = Some i
          then candidateStep (csnOwner c) (c\<lparr>csnEvents := csnEvents c @ [ev]\<rparr>) ev else c)"
proof -
  let ?own = "filter (\<lambda>ev. disclosureOf (evPayload ev) = Some i) evs"
  obtain proposed where p: "findFirst (\<lambda>ev. proposedPayload (evPayload ev) \<noteq> None) ?own = Some proposed"
    using assms by (auto simp: candidateFrom_def Let_def split: option.splits)
  have fold: "foldl (candidateStep o') (s\<lparr>csnEvents := es\<rparr>) xs = (foldl (candidateStep o') s xs)\<lparr>csnEvents := es\<rparr>"
    for o' s es xs
  proof (induction xs arbitrary: s)
    case (Cons x xs)
    have "candidateStep o' (s\<lparr>csnEvents := es\<rparr>) x = (candidateStep o' s x)\<lparr>csnEvents := es\<rparr>"
      by (cases "evPayload x") (simp_all add: candidateStep_def)
    with Cons show ?case by simp
  qed simp
  let ?start = "\<lparr>csnEvents = ?own, csnOutgoingPayload = the (proposedPayload (evPayload proposed)),
             csnOwner = eventOwner proposed, csnPreviewHash = None, csnEvidenceId = None,
             csnState = DspProposed\<rparr>"
  have c: "c = foldl (candidateStep (eventOwner proposed)) ?start ?own"
    using assms p by (simp add: candidateFrom_def Let_def)
  then have "csnOwner c = eventOwner proposed" "csnEvents c = ?own" by simp_all
  with p c fold[of "eventOwner proposed" "?own @ [ev]" ?start ?own] show ?thesis
    by (simp add: candidateFrom_def Let_def findFirst_append)
qed

subsection \<open>Justified disclosure events\<close>

definition disclosurePayload :: "domainEventPayload \<Rightarrow> bool" where
  "disclosurePayload p \<longleftrightarrow> disclosureOf p \<noteq> None \<or> evidenceOf p \<noteq> None"

text \<open>
  The identifiers of a disclosure event are trimmed, and so is its owner, who is also its actor.
\<close>

definition tidyDisclosure :: "domainEvent \<Rightarrow> bool" where
  "tidyDisclosure ev \<longleftrightarrow>
     (\<forall>i. disclosureOf (evPayload ev) = Some i \<longrightarrow> trim i = i \<and>
        (\<exists>owner. trim owner = owner \<and> evScope ev = PrivateScope owner \<and> evActor ev = ParticipantActor owner)) \<and>
     (\<forall>i q out. evPayload ev = DisclosureProposed i q out \<longrightarrow>
        Some q = eventOwner ev \<and> trim (outSourceArtifactId out) = outSourceArtifactId out) \<and>
     (\<forall>i out h. evPayload ev = DisclosurePreviewed i out h \<longrightarrow>
        trim (outSourceArtifactId out) = outSourceArtifactId out)"

text \<open>The payload is a slice of the text.\<close>

definition sliceOf :: "string \<Rightarrow> disclosureOutgoingPayload \<Rightarrow> bool" where
  "sliceOf txt out \<longleftrightarrow>
     0 \<le> rangeStart (outSourceRange out) \<and> rangeStart (outSourceRange out) < rangeEnd (outSourceRange out) \<and>
     rangeEnd (outSourceRange out) \<le> int (length txt) \<and>
     outExactSnippet out =
       take (nat (rangeEnd (outSourceRange out) - rangeStart (outSourceRange out)))
         (drop (nat (rangeStart (outSourceRange out))) txt)"

text \<open>
  A private artifact of the owner is registered, and its readable text is on record with this hash.
\<close>

definition ownsSource :: "domainEvent list \<Rightarrow> string \<Rightarrow> string \<Rightarrow> sourceArtifact \<Rightarrow> string \<Rightarrow> bool" where
  "ownsSource log owner i a hash \<longleftrightarrow>
     (\<exists>ev \<in> set (active log). \<exists>o' readable. trim o' = owner \<and>
        evPayload ev = ArtifactRegistered a \<and> evScope ev = PrivateScope o' \<and>
        recVisibility a = Private \<and> recOwner a = Some o' \<and> trim (recId a) = i \<and>
        readableSource (active log) o' a (recId a) = (Some readable, Some hash))"

definition hashedText :: "sourceArtifact \<Rightarrow> string \<Rightarrow> string" where
  "hashedText a txt = (if recOrigin a = HumanInput then sourceHashText txt else txt)"

definition approvedBy ::
  "(string \<Rightarrow> string) \<Rightarrow> domainEvent list \<Rightarrow> string \<Rightarrow> domainEventPayload \<Rightarrow> disclosureOutgoingPayload \<Rightarrow> bool" where
  "approvedBy sha log owner p out \<longleftrightarrow>
     (\<exists>i h e t c a txt. p = DisclosureApproved i h e t \<and>
        candidateFrom (active log) i = Some c \<and> csnOwner c = Some owner \<and>
        csnState c = DspPreviewed \<and> csnPreviewHash c = Some h \<and> csnOutgoingPayload c = out \<and>
        h = sha (previewFingerprintPayload out) \<and>
        ownsSource log owner (outSourceArtifactId out) a (sha (hashedText a txt)) \<and> sliceOf txt out)"

definition disclosureJustified :: "(string \<Rightarrow> string) \<Rightarrow> domainEvent list \<Rightarrow> domainEvent \<Rightarrow> bool" where
  "disclosureJustified sha log ev \<longleftrightarrow>
     tidyDisclosure ev \<and>
     (case evPayload ev of
        DisclosureProposed i q out \<Rightarrow>
          (\<exists>a hash txt. ownsSource log q (outSourceArtifactId out) a hash \<and> sliceOf txt out)
      | DisclosurePreviewed i out h \<Rightarrow>
          (\<exists>c owner. candidateFrom (active log) i = Some c \<and> csnOwner c = Some owner \<and>
             eventOwner ev = Some owner \<and> csnState c \<in> {DspProposed, DspPreviewed} \<and>
             h = sha (previewFingerprintPayload out) \<and>
             (\<exists>a hash txt. ownsSource log owner (outSourceArtifactId out) a hash \<and> sliceOf txt out))
      | DisclosureApproved i h e t \<Rightarrow>
          (\<exists>owner out. eventOwner ev = Some owner \<and> approvedBy sha log owner (evPayload ev) out)
      | DisclosureRejected i t why \<Rightarrow>
          (\<exists>c. candidateFrom (active log) i = Some c \<and> csnOwner c = eventOwner ev \<and>
             csnState c \<in> {DspProposed, DspPreviewed})
      | EvidenceShared e \<Rightarrow>
          (\<exists>pre ap owner i h t out. log = pre @ [ap] \<and> evPayload ap = DisclosureApproved i h (recId e) t \<and>
             eventOwner ap = Some owner \<and> evActor ap = ParticipantActor owner \<and>
             evActor ev = ParticipantActor owner \<and> recCreatedBy e = owner \<and> evScope ev = SharedScope \<and>
             evCausationId ev = Some (evEventId ap) \<and> evdDisclosureAuditReferenceId e = evEventId ap \<and>
             approvedBy sha pre owner (evPayload ap) out \<and>
             evdExactSnippet e = outExactSnippet out \<and> evdSourceArtifactId e = outSourceArtifactId out \<and>
             evdSourceRange e = outSourceRange out)
      | _ \<Rightarrow> True)"

lemma disclosureJustified_other:
  "\<not> disclosurePayload (evPayload ev) \<Longrightarrow> disclosureJustified sha log ev"
  by (cases "evPayload ev")
    (simp_all add: disclosureJustified_def disclosurePayload_def tidyDisclosure_def)

text \<open>A log whose positions are in order and whose disclosure events are tidy.\<close>

definition settled :: "domainEvent list \<Rightarrow> bool" where
  "settled log \<longleftrightarrow>
     normalizeRecords (numberRecords 1 log) = Inr log \<and> (\<forall>ev \<in> set log. tidyDisclosure ev)"

definition discloses :: "(string \<Rightarrow> string) \<Rightarrow> string \<Rightarrow> domainEvent list \<Rightarrow> domainEvent list \<Rightarrow> bool" where
  "discloses sha m log evs \<longleftrightarrow>
     wellPlacedAll m log evs \<and> list_all (\<lambda>ev. disclosurePayload (evPayload ev)) evs \<and>
     (settled log \<longrightarrow> stepwise (disclosureJustified sha) log evs)"

lemma discloses_single:
  "wellPlaced m log ev \<Longrightarrow> disclosurePayload (evPayload ev) \<Longrightarrow>
     (settled log \<Longrightarrow> disclosureJustified sha log ev) \<Longrightarrow> discloses sha m log [ev]"
  by (simp add: discloses_def)

lemma placed_normalized:
  "wellPlacedAll m [] log \<Longrightarrow> normalizeRecords (numberRecords 1 log) = Inr log"
proof (induction log rule: rev_induct)
  case Nil
  show ?case by (simp add: normalizeRecords_def)
next
  case (snoc ev log)
  then have "wellPlacedAll m [] log" "wellPlaced m log ev" by (simp_all add: stepwise_append)
  moreover from snoc.IH[OF this(1)] this(2) have "normalizeRecords (numberRecords 1 log) = Inr log"
    "meetingPosition (int (length log) + 1) = Inr (evPosition ev)"
    by (auto simp: wellPlaced_def)
  ultimately show ?case
    by (cases ev) (simp add: normalizeRecords_def numberRecords_append mapE_append normalizeRecord_def add.commute)
qed

subsection \<open>Parts of the commands\<close>

lemma selectedPayload_Inr:
  assumes "selectedPayload i txt input expected = Inr out"
  shows "sliceOf txt out \<and> outSourceArtifactId out = trim i \<and> trim i \<noteq> [] \<and>
    outSourceRange out = \<lparr>rangeStart = sriStart input, rangeEnd = sriEnd input\<rparr> \<and>
    (\<forall>s. expected = Some s \<longrightarrow> outExactSnippet out = s)"
proof -
  from assms obtain rng where r: "mkTextRange (sriStart input) (sriEnd input) = Inr rng"
    "\<not> rangeEnd rng > int (length txt)"
    by (auto simp: selectedPayload_def split: sum.splits if_splits)
  then have rng: "rng = \<lparr>rangeStart = sriStart input, rangeEnd = sriEnd input\<rparr>"
    "0 \<le> rangeStart rng" "rangeStart rng < rangeEnd rng"
    by (auto simp: mkTextRange_def split: if_splits)
  let ?s = "take (nat (rangeEnd rng - rangeStart rng)) (drop (nat (rangeStart rng)) txt)"
  from assms r have "out = \<lparr>outExactSnippet = ?s, outSourceArtifactId = trim i, outSourceRange = rng\<rparr>"
    "trim i \<noteq> []" "expected = None \<or> expected = Some ?s"
    by (auto simp: selectedPayload_def Let_def exactText_def artifactId_def opaqueText_Inr result_simps
        split: sum.splits if_splits)
  with r rng show ?thesis by (auto simp: sliceOf_def)
qed

lemma ownerEvent_Inr:
  assumes "ownerEvent context input evId correlation occurredAt expected key payloadResult = Inr ev"
  shows "\<exists>owner. participantId (uctParticipantId context) = Inr owner \<and> owner = trim (uctParticipantId context) \<and>
    trim owner = owner \<and> evActor ev = ParticipantActor owner \<and> evScope ev = PrivateScope owner \<and>
    meetingId (mutMeetingId input) = Inr (evMeetingId ev) \<and> meetingPosition (expected + 1) = Inr (evPosition ev) \<and>
    evIdempotencyKey ev = Some key \<and> payloadResult = Inr (evPayload ev) \<and> evOccurredAt ev = occurredAt \<and>
    evEventId ev = evId \<and> eventOwner ev = Some owner"
  using assms
  by (auto simp: ownerEvent_def participantActor_def participantId_def opaqueText_Inr result_simps eventOwner_def)

text \<open>Disclosure events of an owner always fit the projection.\<close>

lemma disclosure_payload_fits:
  assumes "evScope ev = PrivateScope owner" "disclosureOf (evPayload ev) \<noteq> None"
  shows "payloadFits ev"
  using assms by (cases "evPayload ev")
    (auto simp: payloadFits_def reducePrivateWorkspace_def reduceWorkspace_def)

lemma source_payload_fits:
  assumes "evScope ev = PrivateScope owner" "evPayload ev = ArtifactRegistered a"
    and "recMeetingId a = evMeetingId ev" "recVisibility a = Private" "recOwner a = Some owner"
  shows "payloadFits ev"
  using assms by (auto simp: payloadFits_def reducePrivateWorkspace_def reduceWorkspace_def
      validateEntityScope_def ensure_def)

lemma evidence_payload_fits:
  assumes "evScope ev = SharedScope" "evPayload ev = EvidenceShared e"
    and "recMeetingId e = evMeetingId ev" "recVisibility e = Shared"
  shows "payloadFits ev"
  using assms by (auto simp: payloadFits_def reduceSharedPayload_def reduceSharedContent_def
      validateEntityScope_def ensure_def)

lemma placed_next:
  assumes "meetingId m = Inr (evMeetingId ev)" "meetingPosition (int (length log) + 1) = Inr (evPosition ev)"
    and "payloadFits ev" "\<forall>old \<in> set log. evIdempotencyKey old \<noteq> Some k"
    and "evIdempotencyKey ev = Some k \<or> evIdempotencyKey ev = None"
  shows "wellPlaced m log ev"
  using assms by (auto simp: wellPlaced_def)

text \<open>What a command knows of the source that it loaded and of the candidate that it checked.\<close>

definition loadedSource :: "domainEvent list \<Rightarrow> string \<Rightarrow> string \<Rightarrow> ownedSource \<Rightarrow> bool" where
  "loadedSource evs participant i s \<longleftrightarrow>
     (\<exists>ev \<in> set (active evs). \<exists>readable.
        evPayload ev = ArtifactRegistered (owsArtifact s) \<and> evScope ev = PrivateScope participant \<and>
        recId (owsArtifact s) = i \<and> recVisibility (owsArtifact s) = Private \<and>
        recOwner (owsArtifact s) = Some participant \<and>
        readableSource (active evs) participant (owsArtifact s) i = (Some readable, Some (owsContentHash s)))"

lemma loadedSource_owns:
  assumes "loadedSource log participant i s" "owner = trim participant" "trim i = j"
  shows "ownsSource log owner j (owsArtifact s) (owsContentHash s)"
  using assms unfolding loadedSource_def ownsSource_def by blast

definition loadedCandidate :: "domainEvent list \<Rightarrow> string \<Rightarrow> string \<Rightarrow> candidateSnapshot \<Rightarrow> bool" where
  "loadedCandidate evs participant i c \<longleftrightarrow>
     candidateFrom (active evs) i = Some c \<and> (\<forall>owner. csnOwner c = Some owner \<longrightarrow> owner = participant)"

lemma candidate_event: "candidateHasIdempotencyKey c k \<Longrightarrow> candidateFrom (active log) i = Some c \<Longrightarrow>
    \<exists>ev \<in> set log. evIdempotencyKey ev = Some k"
  using set_active[of log] by (elim candidateFrom_Some) (auto simp: candidateHasIdempotencyKey_def list_ex_iff)

text \<open>In a settled log the owner of a candidate is the participant, and identifiers are trimmed.\<close>

lemma settled_candidate:
  assumes "settled log" "loadedCandidate log participant i c"
  shows "csnOwner c = Some participant \<and> trim participant = participant \<and> trim i = i \<and>
    trim (outSourceArtifactId (csnOutgoingPayload c)) = outSourceArtifactId (csnOutgoingPayload c)"
proof -
  from assms(2) have c: "candidateFrom (active log) i = Some c"
    "\<And>owner. csnOwner c = Some owner \<Longrightarrow> owner = participant" by (auto simp: loadedCandidate_def)
  from c(1) show ?thesis
  proof (rule candidateFrom_Some)
    fix proposed q out
    assume p: "proposed \<in> set (active log)" "evPayload proposed = DisclosureProposed i q out"
      and c': "csnOwner c = eventOwner proposed" "csnEvents c = filter (\<lambda>ev. disclosureOf (evPayload ev) = Some i) (active log)"
      and seen: "candidateSeen (csnOwner c)
       \<lparr>csnEvents = csnEvents c, csnOutgoingPayload = out, csnOwner = csnOwner c, csnPreviewHash = None,
        csnEvidenceId = None, csnState = DspProposed\<rparr> (csnEvents c) c"
    have tidy: "tidyDisclosure ev" if "ev \<in> set (active log)" for ev
      using that set_active[of log] assms(1) by (auto simp: settled_def)
    from tidy[OF p(1)] p(2) obtain owner where o: "trim owner = owner" "evScope proposed = PrivateScope owner"
      "trim i = i" "trim (outSourceArtifactId out) = outSourceArtifactId out"
      by (auto simp: tidyDisclosure_def)
    have "trim (outSourceArtifactId (csnOutgoingPayload c)) = outSourceArtifactId (csnOutgoingPayload c)"
    proof (cases "csnOutgoingPayload c = out")
      case False
      with seen obtain pv i' h where "pv \<in> set (csnEvents c)" "evPayload pv = DisclosurePreviewed i' (csnOutgoingPayload c) h"
        by (auto simp: candidateSeen_def)
      with tidy[of pv] c'(2) show ?thesis by (auto simp: tidyDisclosure_def)
    qed (use o in simp)
    with o c'(1) c(2)[of owner] show ?thesis by (simp add: eventOwner_def)
  qed
qed

definition freshKey :: "domainEvent list \<Rightarrow> string \<Rightarrow> bool" where
  "freshKey evs k \<longleftrightarrow> (\<forall>old \<in> set evs. evIdempotencyKey old \<noteq> Some k)"

text \<open>Registering a source appends its private registration; disclosures append what is justified.\<close>

definition registers :: "string \<Rightarrow> domainEvent list \<Rightarrow> domainEvent list \<Rightarrow> bool" where
  "registers m evs new \<longleftrightarrow>
     (\<exists>ev a owner. new = [ev] \<and> wellPlaced m evs ev \<and> evPayload ev = ArtifactRegistered a \<and>
        evScope ev = PrivateScope owner \<and> evActor ev = ParticipantActor owner \<and>
        recVisibility a = Private \<and> recOwner a = Some owner \<and> recOrigin a = HumanInput \<and>
        artType a = TextArtifact)"

text \<open>The two events of an approval of a payload.\<close>

definition approvalPair ::
  "userContext \<Rightarrow> approveDisclosureInput \<Rightarrow> string \<Rightarrow> disclosureOutgoingPayload \<Rightarrow> domainEvent list \<Rightarrow> bool" where
  "approvalPair context input hash out evs \<longleftrightarrow>
     (\<exists>ap ev owner e t. evs = [ap, ev] \<and> owner = trim (uctParticipantId context) \<and> trim owner = owner \<and>
        meetingId (mutMeetingId input) = Inr (evMeetingId ap) \<and> evMeetingId ev = evMeetingId ap \<and>
        meetingPosition (mutExpectedPosition input + 1) = Inr (evPosition ap) \<and>
        meetingPosition (mutExpectedPosition input + 2) = Inr (evPosition ev) \<and>
        evActor ap = ParticipantActor owner \<and> evScope ap = PrivateScope owner \<and> eventOwner ap = Some owner \<and>
        evIdempotencyKey ap = Some (mutIdempotencyKey input) \<and> evIdempotencyKey ev = None \<and>
        evPayload ap = DisclosureApproved (trim (adiCandidateId input)) hash (recId e) t \<and>
        evActor ev = ParticipantActor owner \<and> evScope ev = SharedScope \<and>
        evCausationId ev = Some (evEventId ap) \<and> evPayload ev = EvidenceShared e \<and>
        recCreatedBy e = owner \<and> recVisibility e = Shared \<and> recMeetingId e = evMeetingId ap \<and>
        evdDisclosureAuditReferenceId e = evEventId ap \<and> evdExactSnippet e = outExactSnippet out \<and>
        evdSourceArtifactId e = outSourceArtifactId out \<and> evdSourceRange e = outSourceRange out)"

subsection \<open>The world of a disclosure\<close>

locale disclosure_world = command_world "ddpPorts dd" log ok
  for dd :: "'w disclosurePorts" and log :: "'w \<Rightarrow> string \<Rightarrow> domainEvent list" and ok :: "'w \<Rightarrow> bool" +
  fixes sha :: "string \<Rightarrow> string"
  assumes hash_is: "prtHash (ddpPorts dd) v w = (Inr (sha v), w)"
    and artifact_put_keeps: "ok w \<Longrightarrow>
      ok (snd (aspPut (ddpArtifacts dd) aw w)) \<and> log (snd (aspPut (ddpArtifacts dd) aw w)) = log w"
    and artifact_get_keeps: "ok w \<Longrightarrow>
      ok (snd (aspGet (ddpArtifacts dd) sc w)) \<and> log (snd (aspGet (ddpArtifacts dd) sc w)) = log w"
    and artifact_delete_keeps: "ok w \<Longrightarrow>
      ok (snd (aspDelete (ddpArtifacts dd) sc w)) \<and> log (snd (aspDelete (ddpArtifacts dd) sc w)) = log w"
    and propose_keeps: "ddpProposer dd = Some propose \<Longrightarrow> ok w \<Longrightarrow>
      ok (snd (propose x w)) \<and> log (snd (propose x w)) = log w"
begin

lemma gives_sha: "gives L (hashValue (ddpPorts dd) v) (\<lambda>h. h = sha v \<and> trim h = h \<and> h \<noteq> [])"
  by (auto simp: gives_def hashValue_def bindC_def portC_def hash_is raiseC_def returnC_def split: if_splits)

lemma gives_loadEvents:
  "gives L (loadEvents dd m) (\<lambda>evs. normalizeRecords (numberRecords 1 (L m)) = Inr evs)"
  unfolding loadEvents_def
proof (rule gives_bind)
  show "gives L (portC (prtLoad (ddpPorts dd) m)) (\<lambda>records. records = numberRecords 1 (L m))"
    using load_keeps load_log by (intro gives_port) auto
qed (auto intro: gives_mono[OF gives_lift])

lemma gives_select: "gives L (selectC recode r) (\<lambda>out. r = Inr out)"
  by (cases r) (auto simp: selectC_def intro: gives_return)

lemma gives_owner:
  "gives L (authorizeOwner context capability m owner)
     (\<lambda>_. \<forall>o'. owner = Some o' \<longrightarrow> o' = uctParticipantId context)"
  unfolding authorizeOwner_def
  by (rule gives_mono[OF gives_unless]) (auto simp: authorize_Authorized)

lemma gives_mutation:
  "gives L (authorizeMutation context input capability) (\<lambda>_. uctMeetingId context = mutMeetingId input)"
  unfolding authorizeMutation_def
  by (rule gives_mono[OF gives_unless]) (auto simp: authorize_Authorized)

lemma gives_candidate:
  "gives L (requireCandidate dd context input i capability allowed) (\<lambda>c.
     (\<forall>evs. normalizeRecords (numberRecords 1 (L (mutMeetingId input))) = Inr evs \<longrightarrow>
        loadedCandidate evs (uctParticipantId context) i c) \<and> allowed c)"
proof -
  have load: "gives L (loadCandidate dd (mutMeetingId input) i) (\<lambda>c.
      \<forall>evs. normalizeRecords (numberRecords 1 (L (mutMeetingId input))) = Inr evs \<longrightarrow>
        candidateFrom (active evs) i = Some c)"
    unfolding loadCandidate_def
    by (rule gives_bind[OF gives_loadEvents]) (auto split: option.split intro: gives_return)
  show ?thesis unfolding requireCandidate_def
    by (intro gives_bind[OF load] gives_bind[OF gives_owner] gives_bind[OF gives_unless] gives_return)
      (auto simp: loadedCandidate_def)
qed

lemma gives_source:
  "gives L (loadOwnedSource dd context m i capability) (\<lambda>s.
     \<forall>evs. normalizeRecords (numberRecords 1 (L m)) = Inr evs \<longrightarrow>
       loadedSource evs (uctParticipantId context) i s)"
  unfolding loadOwnedSource_def
proof (rule gives_bind[OF gives_loadEvents])
  fix evs assume norm: "normalizeRecords (numberRecords 1 (L m)) = Inr evs"
  let ?R = "\<lambda>s. \<forall>evs. normalizeRecords (numberRecords 1 (L m)) = Inr evs \<longrightarrow>
       loadedSource evs (uctParticipantId context) i s"
  show "gives L (let active = active evs in
     case findFirst (registeredAs i) active of
       None \<Rightarrow> failC FORBIDDEN
     | Some ev \<Rightarrow>
         (let (owner, a) = the (registeredSource ev) in
          bindC (authorizeOwner context capability (evMeetingId ev) (Some owner)) (\<lambda>_.
          bindC (unlessC (\<not> (recVisibility a \<noteq> Private \<or> recOwner a \<noteq> Some owner)) FORBIDDEN) (\<lambda>_.
          case readableSource active owner a i of
            (Some readable, Some hash) \<Rightarrow>
              bindC (portC (aspGet (ddpArtifacts dd)
                \<lparr>ascArtifactId = readable, ascMeetingId = m, ascOwnerParticipantId = Some owner,
                 ascVisibility = Private\<rparr>)) (\<lambda>stored.
              case stored of
                None \<Rightarrow> failC FORBIDDEN
              | Some bs \<Rightarrow>
                  (case textDecode bs of
                     None \<Rightarrow> failC VALIDATION_FAILED
                   | Some txt \<Rightarrow> returnC \<lparr>owsArtifact = a, owsContentHash = hash, owsText = txt\<rparr>))
          | _ \<Rightarrow> failC VALIDATION_FAILED)))) ?R"
  proof (cases "findFirst (registeredAs i) (active evs)")
    case None
    then show ?thesis by simp
  next
    case (Some ev)
    from findFirst_SomeD[OF this] have ev: "ev \<in> set (active evs)" "registeredAs i ev" by auto
    then obtain owner a where a: "evPayload ev = ArtifactRegistered a" "evScope ev = PrivateScope owner" "recId a = i"
      by (auto simp: registeredAs_def registeredSource_def split: domainEventPayload.splits eventScope.splits)
    then have reg: "the (registeredSource ev) = (owner, a)" by (simp add: registeredSource_def)
    have "gives L (bindC (authorizeOwner context capability (evMeetingId ev) (Some owner)) (\<lambda>_.
          bindC (unlessC (\<not> (recVisibility a \<noteq> Private \<or> recOwner a \<noteq> Some owner)) FORBIDDEN) (\<lambda>_.
          case readableSource (active evs) owner a i of
            (Some readable, Some hash) \<Rightarrow>
              bindC (portC (aspGet (ddpArtifacts dd)
                \<lparr>ascArtifactId = readable, ascMeetingId = m, ascOwnerParticipantId = Some owner,
                 ascVisibility = Private\<rparr>)) (\<lambda>stored.
              case stored of
                None \<Rightarrow> failC FORBIDDEN
              | Some bs \<Rightarrow>
                  (case textDecode bs of
                     None \<Rightarrow> failC VALIDATION_FAILED
                   | Some txt \<Rightarrow> returnC \<lparr>owsArtifact = a, owsContentHash = hash, owsText = txt\<rparr>))
          | _ \<Rightarrow> failC VALIDATION_FAILED))) ?R"
    proof (rule gives_bind[OF gives_owner], rule gives_bind[OF gives_unless])
      assume own: "\<forall>o'. Some owner = Some o' \<longrightarrow> o' = uctParticipantId context"
        and priv: "\<not> (recVisibility a \<noteq> Private \<or> recOwner a \<noteq> Some owner)"
      have found: "?R \<lparr>owsArtifact = a, owsContentHash = hash, owsText = txt\<rparr>"
        if "readableSource (active evs) owner a i = (Some readable, Some hash)" for readable hash "txt"
        using ev a own priv norm that by (auto simp: loadedSource_def)
      have get: "gives L (portC (aspGet (ddpArtifacts dd) sc)) (\<lambda>_. True)" for sc
        by (rule gives_port) (use artifact_get_keeps in auto)
      show "gives L (case readableSource (active evs) owner a i of
            (Some readable, Some hash) \<Rightarrow>
              bindC (portC (aspGet (ddpArtifacts dd)
                \<lparr>ascArtifactId = readable, ascMeetingId = m, ascOwnerParticipantId = Some owner,
                 ascVisibility = Private\<rparr>)) (\<lambda>stored.
              case stored of
                None \<Rightarrow> failC FORBIDDEN
              | Some bs \<Rightarrow>
                  (case textDecode bs of
                     None \<Rightarrow> failC VALIDATION_FAILED
                   | Some txt \<Rightarrow> returnC \<lparr>owsArtifact = a, owsContentHash = hash, owsText = txt\<rparr>))
          | _ \<Rightarrow> failC VALIDATION_FAILED) ?R"
        using found
        by (auto split: option.split prod.split intro!: gives_bind[OF get] gives_return)
    qed
    then show ?thesis using Some reg by simp
  qed
qed

lemma gives_fields:
  "gives L (commandFields (ddpPorts dd) input) (\<lambda>(occurredAt, expected, key).
     timestamp occurredAt = Inr occurredAt \<and> expected = mutExpectedPosition input \<and>
     idempotencyKey (mutIdempotencyKey input) = Inr key)"
  unfolding commandFields_def
  by (intro gives_bind[OF gives_clock] gives_bind[OF gives_lift] gives_return) (simp add: meetingPosition_Inr)

lemma gives_nextEventId: "gives L (nextEventId (ddpPorts dd)) (\<lambda>i. trim i = i \<and> i \<noteq> [])"
  unfolding nextEventId_def
  by (rule gives_bind[OF gives_next]) (auto intro!: gives_mono[OF gives_lift] simp: eventId_def opaqueText_Inr)

lemma gives_privateEvent:
  "gives L (privateCommandEvent (ddpPorts dd) context input correlation occurredAt expected key payloadResult)
     (\<lambda>ev. \<exists>i. ownerEvent context input i correlation occurredAt expected key payloadResult = Inr ev)"
  unfolding privateCommandEvent_def
  by (intro gives_bind[OF gives_lift] gives_bind[OF gives_nextEventId]) (auto intro: gives_mono[OF gives_lift])

lemma gives_fingerprint: "gives L (fingerprintC (ddpPorts dd) input context name entries) (\<lambda>_. True)"
  unfolding fingerprintC_def by (rule gives_hash)

text \<open>A step that appends the given events of a command, or nothing.\<close>

definition mutates ::
  "(string \<Rightarrow> domainEvent list) \<Rightarrow> 'x mutationInput_scheme \<Rightarrow> domainEvent list \<Rightarrow> ('w, appendResult) command \<Rightarrow> bool" where
  "mutates L input evs c \<longleftrightarrow>
     (\<forall>w r w'. ok w \<longrightarrow> log w = L \<longrightarrow> c w = (r, w') \<longrightarrow>
        ok w' \<and> (log w' = L \<and> (\<forall>a. r = Inr a \<longrightarrow> aprReplayed a) \<or> appendedOnly L input evs r (log w')))"

lemma mutates_append:
  assumes "\<And>ev k. ev \<in> set evs \<Longrightarrow> evIdempotencyKey ev = Some k \<Longrightarrow> mutIdempotencyKey input = k"
  shows "mutates L input evs (appendMutation (ddpPorts dd) input f evs p)"
  unfolding mutates_def by (intro allI impI, rule appendMutation_cases) (use assms in auto)

lemma mutates_onFailure:
  assumes c: "mutates L input evs c" and cleanup: "gives L cleanup (\<lambda>_. True)"
  shows "mutates L input evs (onFailureC cleanup c)"
  unfolding mutates_def
proof (intro allI impI)
  fix w r w' assume w: "ok w" "log w = L" and run: "onFailureC cleanup c w = (r, w')"
  obtain r1 w1 where c1: "c w = (r1, w1)" by (cases "c w")
  have m: "ok w1" "log w1 = L \<and> (\<forall>a. r1 = Inr a \<longrightarrow> aprReplayed a) \<or> appendedOnly L input evs r1 (log w1)"
    using c w c1 by (auto simp: mutates_def)
  show "ok w' \<and> (log w' = L \<and> (\<forall>a. r = Inr a \<longrightarrow> aprReplayed a) \<or> appendedOnly L input evs r (log w'))"
  proof (cases "\<exists>f. r1 = Inl (Failed f)")
    case True
    then obtain f where f: "r1 = Inl (Failed f)" by blast
    obtain r2 w2 where c2: "cleanup w1 = (r2, w2)" by (cases "cleanup w1")
    have "w' = w2 \<and> (\<forall>a. r \<noteq> Inr a)"
      using run c1 f c2 by (cases r2) (auto simp: onFailureC_def)
    moreover have "log w1 = L" using m(2) f by (auto simp: appendedOnly_def)
    ultimately show ?thesis using givesD[OF cleanup m(1) _ c2] by auto
  next
    case False
    then have "r = r1 \<and> w' = w1"
      using run c1 by (auto simp: onFailureC_def split: sum.splits abort.splits)
    with m show ?thesis by simp
  qed
qed

lemma affects_mutates:
  assumes c: "mutates L input evs c"
    and cont: "\<And>a L. gives L (cont a) (\<lambda>s. sucReplayed s = aprReplayed a)"
    and Q: "mutExpectedPosition input = int (length (L (mutMeetingId input))) \<Longrightarrow>
      freshKey (L (mutMeetingId input)) (mutIdempotencyKey input) \<Longrightarrow> Q evs"
  shows "affects L (mutMeetingId input) (bindC c cont) sucReplayed
     (\<lambda>evs r. Q evs \<and> (\<forall>s. r = Inr s \<longrightarrow> \<not> sucReplayed s))"
proof (rule affectsI)
  let ?m = "mutMeetingId input"
  fix w r w' assume w: "ok w" "log w = L" and "bindC c cont w = (r, w')"
  from this(3) show "ok w' \<and> effect L ?m sucReplayed (\<lambda>evs r. Q evs \<and> (\<forall>s. r = Inr s \<longrightarrow> \<not> sucReplayed s)) r (log w')"
  proof (cases rule: bindC_cases)
    case (1 e)
    then have "ok w' \<and> (log w' = L \<or> appendedOnly L input evs (Inl e) (log w'))"
      using c w by (auto simp: mutates_def)
    with Q 1(2) show ?thesis by (auto simp: appendedOnly_def freshKey_def intro: effect_same effect_append)
  next
    case (2 a w1)
    then have m: "ok w1" "log w1 = L \<and> aprReplayed a \<or> appendedOnly L input evs (Inr a) (log w1)"
      using c w by (auto simp: mutates_def)
    from givesD[OF cont m(1) refl 2(2)] have keep: "ok w'" "log w' = log w1"
      "\<And>s. r = Inr s \<Longrightarrow> sucReplayed s = aprReplayed a" by auto
    from m(2) show ?thesis
    proof
      assume "log w1 = L \<and> aprReplayed a"
      with keep show ?thesis by (auto intro: effect_same)
    next
      assume ao: "appendedOnly L input evs (Inr a) (log w1)"
      then have "log w' = L(?m := L ?m @ evs)" "Q evs" "\<forall>s. r = Inr s \<longrightarrow> \<not> sucReplayed s"
        using keep Q by (auto simp: appendedOnly_def freshKey_def)
      with keep(1) show ?thesis by (auto intro!: effect_append)
    qed
  qed
qed

lemma gives_answer: "gives L (answerWith appended select message view) (\<lambda>s. sucReplayed s = aprReplayed appended)"
  unfolding answerWith_def
  by (rule gives_bind[OF gives_lift]) (auto split: option.split intro!: gives_return simp: success_def)

lemma key_is: "idempotencyKey k = Inr key \<Longrightarrow> trim k = k \<Longrightarrow> key = k"
  by (simp add: idempotencyKey_def opaqueText_Inr)

text \<open>An event of the owner at the position that the command expects is well placed.\<close>

lemma owner_placed:
  assumes ev: "ownerEvent context input i correlation occurredAt (mutExpectedPosition input) key payloadResult = Inr ev"
    and at: "mutExpectedPosition input = int (length evs)" "freshKey evs key" and fits: "payloadFits ev"
  shows "wellPlaced (mutMeetingId input) evs ev"
  using ownerEvent_Inr[OF ev] at fits by (intro placed_next) (auto simp: freshKey_def)

subsection \<open>The commands\<close>

lemma rejectDisclosure_affects:
  assumes key: "trim (mutIdempotencyKey input) = mutIdempotencyKey input"
  shows "affects L (mutMeetingId input) (rejectDisclosure dd context input) sucReplayed
     (\<lambda>evs r. discloses sha (mutMeetingId input) (L (mutMeetingId input)) evs \<and> (\<forall>s. r = Inr s \<longrightarrow> \<not> sucReplayed s))"
proof -
  let ?m = "mutMeetingId input" and ?k = "mutIdempotencyKey input"
  have fields: "gives L (validateRejection (ddpPorts dd) input) (\<lambda>(occurredAt, expected, k, reason).
      expected = mutExpectedPosition input \<and> k = ?k)"
    unfolding validateRejection_def
    by (intro gives_try gives_bind3[OF gives_fields] gives_bind[OF gives_lift] gives_return)
      (auto simp: key_is[OF _ key])
  have reason: "gives L (reasonHash (ddpPorts dd) why) (\<lambda>_. True)" for why
    by (cases why) (auto simp: reasonHash_def intro!: gives_return gives_bind[OF gives_hash])
  show ?thesis unfolding rejectDisclosure_def
  proof (rule affects_bind[OF gives_mutation], rule affects_bind[OF gives_candidate],
      rule affects_bind4[OF fields], rule affects_bind[OF gives_correlation],
      rule affects_bind[OF gives_privateEvent], rule affects_bind[OF reason],
      rule affects_bind[OF gives_fingerprint], rule affects_mutates[OF _ gives_answer])
    fix c occurredAt expected k why correlation ev hash fingerprint
    assume c: "(\<forall>evs. normalizeRecords (numberRecords 1 (L ?m)) = Inr evs \<longrightarrow>
        loadedCandidate evs (uctParticipantId context) (rdiCandidateId input) c) \<and> stillOpen ?k c"
      and f: "expected = mutExpectedPosition input \<and> k = ?k"
      and "\<exists>i. ownerEvent context input i correlation occurredAt expected k
        (bindE (disclosureId (rdiCandidateId input)) (\<lambda>i. Inr (DisclosureRejected i occurredAt why))) = Inr ev"
    then obtain i where ev: "ownerEvent context input i correlation occurredAt (mutExpectedPosition input) ?k
        (bindE (disclosureId (rdiCandidateId input)) (\<lambda>i. Inr (DisclosureRejected i occurredAt why))) = Inr ev"
      by auto
    from ownerEvent_Inr[OF ev] obtain owner where o: "owner = trim (uctParticipantId context)" "trim owner = owner"
      "evActor ev = ParticipantActor owner" "evScope ev = PrivateScope owner" "evIdempotencyKey ev = Some ?k"
      "evPayload ev = DisclosureRejected (trim (rdiCandidateId input)) occurredAt why" "eventOwner ev = Some owner"
      by (auto simp: result_simps disclosureId_def opaqueText_Inr)
    show "mutates L input [ev] (appendMutation (ddpPorts dd) input fingerprint [ev] (uctParticipantId context))"
      by (rule mutates_append) (use o in auto)
    assume at: "mutExpectedPosition input = int (length (L ?m))" "freshKey (L ?m) ?k"
    show "discloses sha ?m (L ?m) [ev]"
    proof (rule discloses_single)
      show "wellPlaced ?m (L ?m) ev"
        by (rule owner_placed[OF ev at]) (rule disclosure_payload_fits[OF o(4)], use o in simp)
      show "disclosurePayload (evPayload ev)" using o by (simp add: disclosurePayload_def)
      assume s: "settled (L ?m)"
      then have lc: "loadedCandidate (L ?m) (uctParticipantId context) (rdiCandidateId input) c"
        using c by (simp add: settled_def)
      have "\<not> candidateHasIdempotencyKey c ?k"
        using candidate_event[of c ?k "L ?m"] lc at(2) by (auto simp: loadedCandidate_def freshKey_def)
      then have "csnState c \<in> {DspProposed, DspPreviewed}"
        using c by (cases "csnState c") (auto simp: stillOpen_def)
      with settled_candidate[OF s lc] lc o show "disclosureJustified sha (L ?m) ev"
        by (auto simp: disclosureJustified_def tidyDisclosure_def loadedCandidate_def)
    qed
  qed
qed

lemma previewDisclosure_affects:
  assumes key: "trim (mutIdempotencyKey input) = mutIdempotencyKey input"
  shows "affects L (mutMeetingId input) (previewDisclosure dd context input) sucReplayed
     (\<lambda>evs r. discloses sha (mutMeetingId input) (L (mutMeetingId input)) evs \<and> (\<forall>s. r = Inr s \<longrightarrow> \<not> sucReplayed s))"
proof -
  let ?m = "mutMeetingId input" and ?k = "mutIdempotencyKey input"
  have fields: "gives L (tryC validationHandler
       (bindC (commandFields (ddpPorts dd) input) (\<lambda>(occurredAt, expected, key).
        bindC (hashValue (ddpPorts dd) (previewFingerprintPayload out)) (\<lambda>hash.
        returnC (occurredAt, expected, key, hash))))) (\<lambda>(occurredAt, expected, k, hash).
      expected = mutExpectedPosition input \<and> k = ?k \<and> hash = sha (previewFingerprintPayload out) \<and> trim hash = hash)" for out
    by (intro gives_try gives_bind3[OF gives_fields] gives_bind[OF gives_sha] gives_return)
      (auto simp: key_is[OF _ key])
  show ?thesis unfolding previewDisclosure_def appendPreview_def
  proof (rule affects_bind[OF gives_mutation], rule affects_bind[OF gives_candidate],
      rule affects_bind[OF gives_source], rule affects_bind[OF gives_select],
      rule affects_bind4[OF fields], rule affects_bind[OF gives_correlation],
      rule affects_bind[OF gives_privateEvent],
      rule affects_bind[OF gives_fingerprint], rule affects_mutates[OF _ gives_answer])
    fix c src out occurredAt expected k hash correlation ev fingerprint
    let ?payload = "bindE (disclosureId (pviCandidateId input)) (\<lambda>i.
        bindE (previewHash hash) (\<lambda>h. Inr (DisclosurePreviewed i out h)))"
    assume c: "(\<forall>evs. normalizeRecords (numberRecords 1 (L ?m)) = Inr evs \<longrightarrow>
        loadedCandidate evs (uctParticipantId context) (pviCandidateId input) c) \<and> stillOpen ?k c"
      and src: "\<forall>evs. normalizeRecords (numberRecords 1 (L ?m)) = Inr evs \<longrightarrow>
        loadedSource evs (uctParticipantId context) (outSourceArtifactId (csnOutgoingPayload c)) src"
      and out: "selectedPayload (recId (owsArtifact src)) (owsText src) (pviSourceRange input)
        (Some (pviExactSnippet input)) = Inr out"
      and f: "expected = mutExpectedPosition input \<and> k = ?k \<and> hash = sha (previewFingerprintPayload out) \<and> trim hash = hash"
      and "\<exists>i. ownerEvent context input i correlation occurredAt expected k ?payload = Inr ev"
    then obtain i where ev: "ownerEvent context input i correlation occurredAt (mutExpectedPosition input) ?k ?payload = Inr ev"
      by auto
    from ownerEvent_Inr[OF ev] f obtain owner where o: "owner = trim (uctParticipantId context)" "trim owner = owner"
      "evActor ev = ParticipantActor owner" "evScope ev = PrivateScope owner" "evIdempotencyKey ev = Some ?k"
      "evPayload ev = DisclosurePreviewed (trim (pviCandidateId input)) out hash" "eventOwner ev = Some owner"
      by (auto simp: result_simps disclosureId_def previewHash_def opaqueText_Inr)
    show "mutates L input [ev] (appendMutation (ddpPorts dd) input fingerprint [ev] (uctParticipantId context))"
      by (rule mutates_append) (use o in auto)
    assume at: "mutExpectedPosition input = int (length (L ?m))" "freshKey (L ?m) ?k"
    show "discloses sha ?m (L ?m) [ev]"
    proof (rule discloses_single)
      show "wellPlaced ?m (L ?m) ev"
        by (rule owner_placed[OF ev at]) (rule disclosure_payload_fits[OF o(4)], use o in simp)
      show "disclosurePayload (evPayload ev)" using o by (simp add: disclosurePayload_def)
      assume s: "settled (L ?m)"
      then have lc: "loadedCandidate (L ?m) (uctParticipantId context) (pviCandidateId input) c"
        and ls: "loadedSource (L ?m) (uctParticipantId context) (outSourceArtifactId (csnOutgoingPayload c)) src"
        using c src by (simp_all add: settled_def)
      have "\<not> candidateHasIdempotencyKey c ?k"
        using candidate_event[of c ?k "L ?m"] lc at(2) by (auto simp: loadedCandidate_def freshKey_def)
      then have state: "csnState c \<in> {DspProposed, DspPreviewed}"
        using c by (cases "csnState c") (auto simp: stillOpen_def)
      note sel = selectedPayload_Inr[OF out]
      have "recId (owsArtifact src) = outSourceArtifactId (csnOutgoingPayload c)"
        using ls by (auto simp: loadedSource_def)
      then have "ownsSource (L ?m) owner (outSourceArtifactId out) (owsArtifact src) (owsContentHash src)"
        using loadedSource_owns[OF ls o(1)] sel by simp
      with settled_candidate[OF s lc] lc o state f sel show "disclosureJustified sha (L ?m) ev"
        by (auto simp: disclosureJustified_def tidyDisclosure_def loadedCandidate_def)
    qed
  qed
qed

lemma appendProposal_affects:
  assumes key: "trim (mutIdempotencyKey input) = mutIdempotencyKey input"
    and src: "\<forall>evs. normalizeRecords (numberRecords 1 (L (mutMeetingId input))) = Inr evs \<longrightarrow>
        loadedSource evs (uctParticipantId context) (pdiSourceArtifactId input) src"
    and out: "selectedPayload (pdiSourceArtifactId input) (owsText src) rng expected = Inr out"
  shows "affects L (mutMeetingId input) (appendProposal dd context input out) sucReplayed
     (\<lambda>evs r. discloses sha (mutMeetingId input) (L (mutMeetingId input)) evs \<and> (\<forall>s. r = Inr s \<longrightarrow> \<not> sucReplayed s))"
proof -
  let ?m = "mutMeetingId input" and ?k = "mutIdempotencyKey input"
  have fields: "gives L (tryC validationHandler (commandFields (ddpPorts dd) input))
      (\<lambda>(occurredAt, expected, k). expected = mutExpectedPosition input \<and> k = ?k)"
    by (rule gives_try, rule gives_mono[OF gives_fields]) (auto simp: key_is[OF _ key])
  have candidate: "gives L (bindC (readC (prtNext (ddpPorts dd) ''disclosure'')) (\<lambda>i. liftC (disclosureId i)))
      (\<lambda>i. trim i = i)"
    by (rule gives_bind[OF gives_next]) (auto intro!: gives_mono[OF gives_lift] simp: disclosureId_def opaqueText_Inr)
  have answer: "gives L' (bindC (liftC (eventAt proposalOf (aprRecords a))) (\<lambda>found.
     case found of
       None \<Rightarrow> raiseC (JsError ''Disclosure proposal append returned no proposal'')
     | Some (proposed, proposal) \<Rightarrow> returnC (proposalAnswer (aprReplayed a) proposed proposal)))
      (\<lambda>s. sucReplayed s = aprReplayed a)" for a L'
    by (rule gives_bind[OF gives_lift])
      (auto split: option.split intro!: gives_return simp: proposalAnswer_def success_def)
  show ?thesis unfolding appendProposal_def
  proof (rule affects_bind3[OF fields], rule affects_bind[OF candidate], rule affects_bind[OF gives_correlation],
      rule affects_bind[OF gives_privateEvent], rule affects_bind[OF gives_hash],
      rule affects_bind[OF gives_fingerprint], rule affects_mutates[OF _ answer])
    fix occurredAt expected k candidate correlation ev hash fingerprint
    let ?payload = "bindE (participantId (uctParticipantId context)) (\<lambda>p. Inr (DisclosureProposed candidate p out))"
    assume "expected = mutExpectedPosition input \<and> k = ?k" and cand: "trim candidate = candidate"
      and "\<exists>i. ownerEvent context input i correlation occurredAt expected k ?payload = Inr ev"
    then obtain i where ev: "ownerEvent context input i correlation occurredAt (mutExpectedPosition input) ?k ?payload = Inr ev"
      by auto
    from ownerEvent_Inr[OF ev] obtain owner where o: "owner = trim (uctParticipantId context)" "trim owner = owner"
      "evActor ev = ParticipantActor owner" "evScope ev = PrivateScope owner" "evIdempotencyKey ev = Some ?k"
      "evPayload ev = DisclosureProposed candidate owner out" "eventOwner ev = Some owner"
      by (auto simp: result_simps)
    show "mutates L input [ev] (appendMutation (ddpPorts dd) input fingerprint [ev] (uctParticipantId context))"
      by (rule mutates_append) (use o in auto)
    assume at: "mutExpectedPosition input = int (length (L ?m))" "freshKey (L ?m) ?k"
    show "discloses sha ?m (L ?m) [ev]"
    proof (rule discloses_single)
      show "wellPlaced ?m (L ?m) ev"
        by (rule owner_placed[OF ev at]) (rule disclosure_payload_fits[OF o(4)], use o in simp)
      show "disclosurePayload (evPayload ev)" using o by (simp add: disclosurePayload_def)
      assume "settled (L ?m)"
      then have ls: "loadedSource (L ?m) (uctParticipantId context) (pdiSourceArtifactId input) src"
        using src by (simp add: settled_def)
      note sel = selectedPayload_Inr[OF out]
      have "ownsSource (L ?m) owner (outSourceArtifactId out) (owsArtifact src) (owsContentHash src)"
        using loadedSource_owns[OF ls o(1)] sel by simp
      with o cand sel show "disclosureJustified sha (L ?m) ev"
        by (auto simp: disclosureJustified_def tidyDisclosure_def)
    qed
  qed
qed

lemma proposeRange_affects:
  assumes "trim (mutIdempotencyKey input) = mutIdempotencyKey input"
    and "\<forall>evs. normalizeRecords (numberRecords 1 (L (mutMeetingId input))) = Inr evs \<longrightarrow>
        loadedSource evs (uctParticipantId context) (pdiSourceArtifactId input) src"
  shows "affects L (mutMeetingId input) (proposeRange dd context input (owsText src) selected snippet) sucReplayed
     (\<lambda>evs r. discloses sha (mutMeetingId input) (L (mutMeetingId input)) evs \<and> (\<forall>s. r = Inr s \<longrightarrow> \<not> sucReplayed s))"
proof (cases selected)
  case None
  then show ?thesis unfolding proposeRange_def by (auto intro: affects_gives)
next
  case (Some r)
  show ?thesis unfolding proposeRange_def Some option.case
    by (rule affects_bind[OF gives_select], rule appendProposal_affects, rule assms(1), rule assms(2))
qed

lemma gives_replayedAi: "gives L (replayedAiProposal dd context input) (\<lambda>x. \<forall>s. x = Some s \<longrightarrow> sucReplayed s)"
  unfolding replayedAiProposal_def Let_def
  by (rule gives_bind[OF gives_loadEvents])
    (auto split: option.split intro!: gives_return simp: proposalAnswer_def success_def)

lemma proposeDisclosure_affects:
  assumes key: "trim (mutIdempotencyKey input) = mutIdempotencyKey input"
  shows "affects L (mutMeetingId input) (proposeDisclosure dd context input) sucReplayed
     (\<lambda>evs r. discloses sha (mutMeetingId input) (L (mutMeetingId input)) evs \<and> (\<forall>s. r = Inr s \<longrightarrow> \<not> sucReplayed s))"
  unfolding proposeDisclosure_def
proof (rule affects_bind[OF gives_mutation], rule affects_bind[OF gives_source])
  fix src
  assume src: "\<forall>evs. normalizeRecords (numberRecords 1 (L (mutMeetingId input))) = Inr evs \<longrightarrow>
        loadedSource evs (uctParticipantId context) (pdiSourceArtifactId input) src"
  let ?Q = "\<lambda>evs r. discloses sha (mutMeetingId input) (L (mutMeetingId input)) evs \<and>
      (\<forall>s. r = Inr s \<longrightarrow> \<not> sucReplayed s)"
  show "affects L (mutMeetingId input) (case ddpProposer dd of
       None \<Rightarrow> proposeRange dd context input (owsText src) (pdiSourceRange input) (pdiExactSnippet input)
     | Some propose \<Rightarrow>
         bindC (replayedAiProposal dd context input) (\<lambda>replayed.
         case replayed of
           Some answer \<Rightarrow> returnC answer
         | None \<Rightarrow>
             bindC (portC (propose
               \<lparr>ppiMeetingId = mutMeetingId input, ppiOwnerParticipantId = uctParticipantId context,
                ppiSourceArtifactId = pdiSourceArtifactId input, ppiText = owsText src\<rparr>)) (\<lambda>proposal.
             proposeRange dd context input (owsText src) (Some (dprSourceRange proposal))
               (dprExactSnippet proposal)))) sucReplayed ?Q"
  proof (cases "ddpProposer dd")
    case None
    show ?thesis unfolding None option.case by (rule proposeRange_affects, rule key, rule src)
  next
    case (Some propose)
    have ask: "gives L (portC (propose x)) (\<lambda>_. True)" for x
      by (rule gives_port) (use propose_keeps[OF Some] in auto)
    show ?thesis unfolding Some option.case
    proof (rule affects_bind[OF gives_replayedAi])
      fix replayed :: "candidateView commandSuccess option" assume r: "\<forall>s. replayed = Some s \<longrightarrow> sucReplayed s"
      show "affects L (mutMeetingId input) (case replayed of
           Some answer \<Rightarrow> returnC answer
         | None \<Rightarrow>
             bindC (portC (propose
               \<lparr>ppiMeetingId = mutMeetingId input, ppiOwnerParticipantId = uctParticipantId context,
                ppiSourceArtifactId = pdiSourceArtifactId input, ppiText = owsText src\<rparr>)) (\<lambda>proposal.
             proposeRange dd context input (owsText src) (Some (dprSourceRange proposal))
               (dprExactSnippet proposal))) sucReplayed ?Q"
      proof (cases replayed)
        case None
        show ?thesis unfolding None option.case
          by (rule affects_bind[OF ask], rule proposeRange_affects, rule key, rule src)
      next
        case (Some s)
        with r show ?thesis by (auto intro!: affects_gives gives_return)
      qed
    qed
  qed
qed

lemma gives_revalidate:
  assumes key: "trim (mutIdempotencyKey input) = mutIdempotencyKey input"
  shows "gives L (revalidate (ddpPorts dd) input c src out) (\<lambda>(occurredAt, expected, k, hash).
     expected = mutExpectedPosition input \<and> k = mutIdempotencyKey input \<and>
     hash = sha (previewFingerprintPayload out) \<and> trim hash = hash \<and> csnPreviewHash c = Some hash \<and>
     owsContentHash src = sha (hashedText (owsArtifact src) (owsText src)))"
  unfolding revalidate_def hashedText_def[symmetric]
  by (intro gives_try gives_bind3[OF gives_fields] gives_bind[OF gives_sha] gives_bind[OF gives_unless] gives_return)
    (auto simp: key_is[OF _ key])

lemma gives_evidenceId: "gives L (evidenceIdFor (ddpPorts dd) c) (\<lambda>_. True)"
  by (cases "csnEvidenceId c") (auto simp: evidenceIdFor_def intro!: gives_bind[OF gives_next] gives_mono[OF gives_lift])

lemma gives_approvalEvents:
  assumes "expected = mutExpectedPosition input" "k = mutIdempotencyKey input" "trim hash = hash"
  shows "gives L (approvalEvents (ddpPorts dd) context input c out occurredAt expected k hash)
     (approvalPair context input hash out)"
  unfolding approvalEvents_def assms(1,2)
proof (rule gives_bind[OF gives_correlation], rule gives_bind[OF gives_nextEventId],
    rule gives_bind[OF gives_evidenceId], rule gives_bind[OF gives_lift], rule gives_bind[OF gives_lift],
    rule gives_bind[OF gives_nextEventId], rule gives_bind[OF gives_lift], rule gives_return)
  fix correlation approvalId resulting e ap sharedId ev
  assume aid: "trim approvalId = approvalId \<and> approvalId \<noteq> []"
    and e: "buildEvidence context input resulting approvalId occurredAt out = Inr e"
    and ap: "ownerEvent context input approvalId correlation occurredAt (mutExpectedPosition input)
      (mutIdempotencyKey input) (bindE (disclosureId (adiCandidateId input)) (\<lambda>i.
         bindE (previewHash hash) (\<lambda>h. Inr (DisclosureApproved i h resulting occurredAt)))) = Inr ap"
    and ev: "evidenceEvent context input sharedId approvalId correlation occurredAt (mutExpectedPosition input) e = Inr ev"
  have e': "recId e = resulting" "recCreatedBy e = trim (uctParticipantId context)" "recVisibility e = Shared"
    "meetingId (mutMeetingId input) = Inr (recMeetingId e)" "evdDisclosureAuditReferenceId e = approvalId"
    "evdExactSnippet e = outExactSnippet out" "evdSourceArtifactId e = outSourceArtifactId out"
    "evdSourceRange e = outSourceRange out"
    using e aid by (auto simp: buildEvidence_def result_simps createEvidence_Inr participantId_def auditReferenceId_def
        opaqueText_Inr)
  have ev': "evActor ev = ParticipantActor (trim (uctParticipantId context))" "evScope ev = SharedScope"
    "evCausationId ev = Some approvalId" "meetingId (mutMeetingId input) = Inr (evMeetingId ev)"
    "meetingPosition (mutExpectedPosition input + 2) = Inr (evPosition ev)" "evIdempotencyKey ev = None"
    "evPayload ev = EvidenceShared e"
    using ev aid by (auto simp: evidenceEvent_def participantActor_def participantId_def causationId_def opaqueText_Inr
        result_simps)
  show "approvalPair context input hash out [ap, ev]"
    unfolding approvalPair_def
    by (intro exI[of _ ap] exI[of _ ev] exI[of _ "trim (uctParticipantId context)"]
        exI[of _ e] exI[of _ occurredAt])
      (use ownerEvent_Inr[OF ap] e' ev' assms(3) in \<open>auto simp: result_simps disclosureId_def previewHash_def opaqueText_Inr\<close>)
qed

lemma gives_approvalAnswer: "gives L (approvalAnswer a) (\<lambda>s. sucReplayed s = aprReplayed a)"
  unfolding approvalAnswer_def
  by (intro gives_bind[OF gives_lift]) (auto split: option.split prod.split intro!: gives_return)

lemma approveDisclosure_affects:
  assumes key: "trim (mutIdempotencyKey input) = mutIdempotencyKey input"
  shows "affects L (mutMeetingId input) (approveDisclosure dd context input) sucReplayed
     (\<lambda>evs r. discloses sha (mutMeetingId input) (L (mutMeetingId input)) evs \<and> (\<forall>s. r = Inr s \<longrightarrow> \<not> sucReplayed s))"
  unfolding approveDisclosure_def
proof (rule affects_bind[OF gives_mutation], rule affects_bind[OF gives_candidate],
    rule affects_bind[OF gives_source], rule affects_bind[OF gives_select],
    rule affects_bind4[OF gives_revalidate[OF key]])
  let ?m = "mutMeetingId input" and ?k = "mutIdempotencyKey input"
  fix c src out occurredAt expected k hash
  assume c: "(\<forall>evs. normalizeRecords (numberRecords 1 (L ?m)) = Inr evs \<longrightarrow>
        loadedCandidate evs (uctParticipantId context) (adiCandidateId input) c) \<and> approvable ?k c"
    and src: "\<forall>evs. normalizeRecords (numberRecords 1 (L ?m)) = Inr evs \<longrightarrow>
        loadedSource evs (uctParticipantId context) (outSourceArtifactId (csnOutgoingPayload c)) src"
    and out: "selectedPayload (recId (owsArtifact src)) (owsText src)
        (rangeInput (outSourceRange (csnOutgoingPayload c))) (Some (outExactSnippet (csnOutgoingPayload c))) = Inr out"
    and f: "expected = mutExpectedPosition input \<and> k = ?k \<and> hash = sha (previewFingerprintPayload out) \<and>
        trim hash = hash \<and> csnPreviewHash c = Some hash \<and>
        owsContentHash src = sha (hashedText (owsArtifact src) (owsText src))"
  have events: "gives L (approvalEvents (ddpPorts dd) context input c out occurredAt expected k hash)
      (approvalPair context input hash out)"
    by (rule gives_approvalEvents) (use f in auto)
  show "affects L ?m
     (bindC (approvalEvents (ddpPorts dd) context input c out occurredAt expected k hash) (\<lambda>evs.
      bindC (fingerprintC (ddpPorts dd) input context ''approve-disclosure''
              [(''candidateId'', JStr (adiCandidateId input)), (''previewHash'', JStr (adiPreviewHash input))]) (\<lambda>fingerprint.
      bindC (appendMutation (ddpPorts dd) input fingerprint evs (uctParticipantId context)) approvalAnswer)))
     sucReplayed (\<lambda>evs r. discloses sha ?m (L ?m) evs \<and> (\<forall>s. r = Inr s \<longrightarrow> \<not> sucReplayed s))"
  proof (rule affects_bind[OF events], rule affects_bind[OF gives_fingerprint], rule affects_mutates[OF _ gives_approvalAnswer])
    fix evs fingerprint assume "approvalPair context input hash out evs"
    then obtain ap ev owner e t where p: "evs = [ap, ev]" "owner = trim (uctParticipantId context)" "trim owner = owner"
        "meetingId ?m = Inr (evMeetingId ap)" "evMeetingId ev = evMeetingId ap"
        "meetingPosition (mutExpectedPosition input + 1) = Inr (evPosition ap)"
        "meetingPosition (mutExpectedPosition input + 2) = Inr (evPosition ev)"
        "evActor ap = ParticipantActor owner" "evScope ap = PrivateScope owner" "eventOwner ap = Some owner"
        "evIdempotencyKey ap = Some ?k" "evIdempotencyKey ev = None"
        "evPayload ap = DisclosureApproved (trim (adiCandidateId input)) hash (recId e) t"
        "evActor ev = ParticipantActor owner" "evScope ev = SharedScope"
        "evCausationId ev = Some (evEventId ap)" "evPayload ev = EvidenceShared e"
        "recCreatedBy e = owner" "recVisibility e = Shared" "recMeetingId e = evMeetingId ap"
        "evdDisclosureAuditReferenceId e = evEventId ap" "evdExactSnippet e = outExactSnippet out"
        "evdSourceArtifactId e = outSourceArtifactId out" "evdSourceRange e = outSourceRange out"
      unfolding approvalPair_def by blast
    show "mutates L input evs (appendMutation (ddpPorts dd) input fingerprint evs (uctParticipantId context))"
      by (rule mutates_append) (use p(1,11,12) in auto)
    assume at: "mutExpectedPosition input = int (length (L ?m))" "freshKey (L ?m) ?k"
    have "wellPlaced ?m (L ?m) ap"
      using p at disclosure_payload_fits[OF p(9)] by (intro placed_next[of _ _ _ ?k]) (auto simp: freshKey_def)
    moreover have "wellPlaced ?m (L ?m @ [ap]) ev"
      using p at evidence_payload_fits[OF p(15) p(17)] by (auto simp: wellPlaced_def add.commute)
    moreover have "disclosureJustified sha (L ?m) ap \<and> disclosureJustified sha (L ?m @ [ap]) ev" if s: "settled (L ?m)"
    proof -
      have lc: "loadedCandidate (L ?m) (uctParticipantId context) (adiCandidateId input) c"
        and ls: "loadedSource (L ?m) (uctParticipantId context) (outSourceArtifactId (csnOutgoingPayload c)) src"
        using c src s by (simp_all add: settled_def)
      have "\<not> candidateHasIdempotencyKey c ?k"
        using candidate_event[of c ?k "L ?m"] lc at(2) by (auto simp: loadedCandidate_def freshKey_def)
      then have state: "csnState c = DspPreviewed" using c by (auto simp: approvable_def)
      note sc = settled_candidate[OF s lc] and sel = selectedPayload_Inr[OF out]
      have rid: "recId (owsArtifact src) = outSourceArtifactId (csnOutgoingPayload c)"
        using ls by (auto simp: loadedSource_def)
      then have same: "csnOutgoingPayload c = out"
        using sel sc by (cases "csnOutgoingPayload c"; cases out) (auto simp: rangeInput_def)
      have "ownsSource (L ?m) owner (outSourceArtifactId out) (owsArtifact src) (sha (hashedText (owsArtifact src) (owsText src)))"
        using loadedSource_owns[OF ls p(2)] sel f rid by simp
      then have "approvedBy sha (L ?m) owner (evPayload ap) out"
        unfolding approvedBy_def using p(2,13) lc state sc same f sel
        by (intro exI[of _ "adiCandidateId input"] exI[of _ hash] exI[of _ "recId e"] exI[of _ t] exI[of _ c]
            exI[of _ "owsArtifact src"] exI[of _ "owsText src"]) (auto simp: loadedCandidate_def)
      then show ?thesis using p by (auto simp: disclosureJustified_def tidyDisclosure_def)
    qed
    ultimately show "discloses sha ?m (L ?m) evs"
      using p(13,17) by (auto simp: discloses_def p(1) disclosurePayload_def)
  qed
qed

lemma registerPrivateTextSource_affects:
  assumes key: "trim (mutIdempotencyKey input) = mutIdempotencyKey input"
  shows "affects L (mutMeetingId input) (registerPrivateTextSource dd context input) sucReplayed
     (\<lambda>evs r. registers (mutMeetingId input) (L (mutMeetingId input)) evs \<and> (\<forall>s. r = Inr s \<longrightarrow> \<not> sucReplayed s))"
proof -
  let ?m = "mutMeetingId input" and ?k = "mutIdempotencyKey input"
  have "gives L (validateSource (ddpPorts dd) input) (\<lambda>x. case x of (title, occurredAt, expected, k, hash) \<Rightarrow>
      expected = mutExpectedPosition input \<and> k = ?k)"
    unfolding validateSource_def
    by (intro gives_try gives_bind[OF gives_lift] gives_bind3[OF gives_fields] gives_bind[OF gives_hash] gives_return)
      (auto simp: key_is[OF _ key])
  then have fields: "gives L (validateSource (ddpPorts dd) input) (\<lambda>x. fst (snd (snd x)) = mutExpectedPosition input \<and>
      fst (snd (snd (snd x))) = ?k)"
    by (rule gives_mono) auto
  have next': "gives L (bindC (readC (prtNext (ddpPorts dd) ''artifact'')) (\<lambda>i. liftC (artifactId i))) (\<lambda>_. True)"
    by (rule gives_bind[OF gives_next]) (auto intro!: gives_mono[OF gives_lift])
  have put: "gives L (portC (aspPut (ddpArtifacts dd) aw)) (\<lambda>_. True)" for aw
    by (rule gives_port) (use artifact_put_keeps in auto)
  have delete: "gives L (deleteSource dd context input i) (\<lambda>_. True)" for L i
    unfolding deleteSource_def by (rule gives_port) (use artifact_delete_keeps in auto)
  have answer: "gives L' (bindC (liftC (eventAt artifactOf (aprRecords a))) (\<lambda>found.
     case found of
       None \<Rightarrow> raiseC (JsError ''Artifact registration append returned no registration'')
     | Some (registered, b) \<Rightarrow>
         bindC (if aprReplayed a \<and> recId b \<noteq> i then deleteSource dd context input i else returnC ()) (\<lambda>_.
         returnC (success (aprReplayed a) (registered,
           \<lparr>srvCreatedAt = evOccurredAt registered, srvSourceArtifactId = recId b,
            srvText = rsiText input, srvTitle = title\<rparr>))))) (\<lambda>s. sucReplayed s = aprReplayed a)" for a L' i title
    by (rule gives_bind[OF gives_lift])
      (auto split: option.split intro!: gives_bind[where S = "\<lambda>_. True"] gives_return delete simp: success_def)
  show ?thesis unfolding registerPrivateTextSource_def
  proof (rule affects_bind[OF gives_mutation], rule affects_bind[OF fields], unfold split_beta,
      rule affects_bind[OF next'], rule affects_bind[OF put], rule affects_bind[OF gives_correlation],
      rule affects_bind[OF gives_lift], rule affects_bind[OF gives_privateEvent], rule affects_bind[OF gives_fingerprint],
      rule affects_mutates[OF _ answer[unfolded split_beta]])
    fix x i metadata correlation a ev fingerprint
    assume f: "fst (snd (snd x)) = mutExpectedPosition input \<and> fst (snd (snd (snd x))) = ?k"
      and a: "buildSourceArtifact context input i (fst (snd x)) (snd (snd (snd (snd x)))) metadata = Inr a"
      and "\<exists>j. ownerEvent context input j correlation (fst (snd x)) (fst (snd (snd x))) (fst (snd (snd (snd x))))
        (Inr (ArtifactRegistered a)) = Inr ev"
    then obtain j where ev: "ownerEvent context input j correlation (fst (snd x)) (mutExpectedPosition input) ?k
        (Inr (ArtifactRegistered a)) = Inr ev" by auto
    from ownerEvent_Inr[OF ev] obtain owner where o: "owner = trim (uctParticipantId context)"
      "evActor ev = ParticipantActor owner" "evScope ev = PrivateScope owner" "evIdempotencyKey ev = Some ?k"
      "evPayload ev = ArtifactRegistered a" "meetingId ?m = Inr (evMeetingId ev)" by auto
    have a': "recVisibility a = Private" "recOwner a = Some owner" "recOrigin a = HumanInput" "artType a = TextArtifact"
      "meetingId ?m = Inr (recMeetingId a)"
      using a o(1) by (auto simp: buildSourceArtifact_def createSourceArtifact_def checked_Inr result_simps participantId_def opaqueText_Inr)
    show "mutates L input [ev] (onFailureC (deleteSource dd context input i)
        (appendMutation (ddpPorts dd) input fingerprint [ev] (uctParticipantId context)))"
      by (rule mutates_onFailure[OF mutates_append delete]) (use o in auto)
    assume at: "mutExpectedPosition input = int (length (L ?m))" "freshKey (L ?m) ?k"
    have "wellPlaced ?m (L ?m) ev"
      by (rule owner_placed[OF ev at]) (use source_payload_fits[OF o(3,5)] a' o(6) in simp)
    with o a' show "registers ?m (L ?m) [ev]" by (auto simp: registers_def)
  qed
qed

end

subsection \<open>The Node server's world\<close>

text \<open>
  The artifact store of the server lies below \<open>root\<close>; the model that proposes a range, when there is
  one, answers from its input and from chance.
\<close>

definition nodeArtifacts :: "string \<Rightarrow> (nat \<Rightarrow> string) \<Rightarrow> sqliteWorld artifactPorts" where
  "nodeArtifacts root uuid =
     \<lparr>aspPut = (\<lambda>aw w. case putArtifact root (uuid (swTick w)) aw (swFiles w) of
                  (out, fs) \<Rightarrow> (out, w\<lparr>swFiles := fs, swTick := swTick w + 1\<rparr>)),
      aspGet = (\<lambda>sc w. case getArtifact root sc (swFiles w) of (out, fs) \<Rightarrow> (out, w\<lparr>swFiles := fs\<rparr>)),
      aspDelete = (\<lambda>sc w. case deleteArtifact root sc (swFiles w) of (out, fs) \<Rightarrow> (out, w\<lparr>swFiles := fs\<rparr>))\<rparr>"

definition nodeDisclosures ::
  "(domainEvent \<Rightarrow> string) \<Rightarrow> (nat \<Rightarrow> int) \<Rightarrow> (nat \<Rightarrow> string) \<Rightarrow> (string \<Rightarrow> string) \<Rightarrow> string \<Rightarrow>
     (proposerInput \<Rightarrow> nat \<Rightarrow> exn + disclosureProposal) option \<Rightarrow> sqliteWorld disclosurePorts" where
  "nodeDisclosures enc clk uuid sha root proposer =
     \<lparr>ddpPorts = sqlitePorts enc clk uuid sha, ddpArtifacts = nodeArtifacts root uuid,
      ddpProposer = map_option (\<lambda>propose x w. (propose x (swTick w), w\<lparr>swTick := swTick w + 1\<rparr>)) proposer\<rparr>"

lemma nodeDisclosures_ports [simp]:
  "ddpPorts (nodeDisclosures enc clk uuid sha root proposer) = sqlitePorts enc clk uuid sha"
  by (simp add: nodeDisclosures_def)

lemma world_irrelevant [simp]:
  "worldOk enc (w\<lparr>swFiles := fs\<rparr>) = worldOk enc w" "worldLog (w\<lparr>swFiles := fs\<rparr>) = worldLog w"
  "worldOk enc (w\<lparr>swTick := n\<rparr>) = worldOk enc w" "worldLog (w\<lparr>swTick := n\<rparr>) = worldLog w"
  by (simp_all add: worldOk_def worldLog_def)

interpretation share: disclosure_world "nodeDisclosures enc clk uuid sha root proposer" worldLog "worldOk enc" sha
  for enc :: "domainEvent \<Rightarrow> string" and clk :: "nat \<Rightarrow> int" and uuid :: "nat \<Rightarrow> string"
    and sha :: "string \<Rightarrow> string" and root :: string
    and proposer :: "(proposerInput \<Rightarrow> nat \<Rightarrow> exn + disclosureProposal) option"
proof -
  let ?d = "nodeDisclosures enc clk uuid sha root proposer"
  show "disclosure_world ?d worldLog (worldOk enc) sha"
  proof (intro disclosure_world.intro disclosure_world_axioms.intro)
    show "command_world (ddpPorts ?d) worldLog (worldOk enc)"
      unfolding nodeDisclosures_ports by (rule node.command_world_axioms)
    show "prtHash (ddpPorts ?d) v w = (Inr (sha v), w)" for v w by (simp add: sqlitePorts_def)
  qed (auto simp: nodeDisclosures_def nodeArtifacts_def split: prod.split)
qed

end
