(* ===== verification/InvalidationReviews.thy ===== *)
theory InvalidationReviews
  imports Decisions
begin

section \<open>Reviewing a suggested invalidation: \<open>packages/application/src/invalidation-reviews.ts\<close>\<close>

text \<open>
  When the monitoring of a Decision suggested that a premise no longer holds, a facilitator confirms or
  rejects the suggestion. A confirmation is four events in one append: the review, the Decision that now
  requires review, the held Actions and the reconsideration task.
\<close>

subsection \<open>Appending a batch\<close>

text \<open>
  A batch that is in the log already is appended again under its key, so that the store answers with what
  it recorded; a new batch is appended once. \<open>read\<close> makes the answer from the records, given whether they
  are a replay; it gives none when an event that the answer needs is missing.
\<close>

definition replayBatch ::
  "'w ports \<Rightarrow> 'x mutationInput_scheme \<Rightarrow> string \<Rightarrow> domainEvent list \<Rightarrow> string \<Rightarrow>
     (domainEvent eventRecord list \<Rightarrow> exn + (bool \<Rightarrow> 'a) option) \<Rightarrow> ('w, 'a) command" where
  "replayBatch deps input fingerprint batch participant read =
     bindC (appendMutation deps input fingerprint batch participant) (\<lambda>replay.
     bindC (liftC (read (aprRecords replay))) (\<lambda>answer.
     case answer of None \<Rightarrow> failC IDEMPOTENCY_CONFLICT | Some f \<Rightarrow> returnC (f True)))"

definition appendBatch ::
  "'w ports \<Rightarrow> 'x mutationInput_scheme \<Rightarrow> string \<Rightarrow> domainEvent list \<Rightarrow> string \<Rightarrow> string \<Rightarrow>
     (domainEvent eventRecord list \<Rightarrow> exn + (bool \<Rightarrow> 'a) option) \<Rightarrow> ('w, 'a) command" where
  "appendBatch deps input fingerprint batch participant message read =
     bindC (appendMutation deps input fingerprint batch participant) (\<lambda>appended.
     bindC (liftC (read (aprRecords appended))) (\<lambda>answer.
     case answer of None \<Rightarrow> raiseC (JsError message) | Some f \<Rightarrow> returnC (f (aprReplayed appended))))"

text \<open>An event of a batch: \<open>key\<close> is the idempotency key of its first event, the others have none.\<close>

definition causedEvent ::
  "'w ports \<Rightarrow> 'x mutationInput_scheme \<Rightarrow> domainActor \<Rightarrow> string \<Rightarrow> string \<Rightarrow> string \<Rightarrow> string option \<Rightarrow> int \<Rightarrow>
     domainEventPayload \<Rightarrow> ('w, domainEvent) command" where
  "causedEvent deps input actor cause correlation occurredAt rawKey rawPosition payload =
     bindC (liftC (causationId cause)) (\<lambda>caused.
     bindC (readC (prtNext deps ''event'')) (\<lambda>i.
     bindC (liftC (eventId i)) (\<lambda>evId.
     bindC (case rawKey of
              None \<Rightarrow> returnC None
            | Some k \<Rightarrow> bindC (liftC (idempotencyKey k)) (\<lambda>k'. returnC (Some k'))) (\<lambda>key.
     bindC (liftC (meetingId (mutMeetingId input))) (\<lambda>m.
     bindC (liftC (meetingPosition rawPosition)) (\<lambda>position.
     bindC (liftC (schemaVersion 1)) (\<lambda>version.
     returnC \<lparr>evEventId = evId, evSchemaVersion = version, evMeetingId = m, evPosition = position,
       evActor = actor, evOccurredAt = occurredAt, evCorrelationId = correlation,
       evCausationId = Some caused, evIdempotencyKey = key, evScope = SharedScope,
       evPayload = payload\<rparr>)))))))"

definition hasIdempotencyKey :: "domainEvent eventRecord list \<Rightarrow> string \<Rightarrow> bool" where
  "hasIdempotencyKey records k = list_ex (\<lambda>r. evIdempotencyKey (ercEvent r) = Some k) records"

subsection \<open>Inputs and answers\<close>

record reviewInput = mutationInput +
  rvwDecisionId :: string
  rvwReason :: string
  rvwSuggestionId :: string

record matchedSuggestion =
  mtsAtRisk :: domainEvent
  mtsSuggested :: invalidationSuggestion

record preparedReview =
  prwFingerprint :: string
  prwLoaded :: loadedState
  prwReason :: string
  prwTargetDecisionId :: string
  prwTargetSuggestionId :: string

record reviewAnswer =
  rwaCorrelationId :: string
  rwaDecision :: decision
  rwaPosition :: int
  rwaReviewEventId :: string
  rwaReviewReason :: string
  rwaReplayed :: bool
  rwaSuggestionId :: string

record confirmedAnswer = reviewAnswer +
  cfaHeldActionIds :: "string list"
  cfaHeldActions :: "action list"
  cfaReconsiderationTask :: reconsiderationTask

subsection \<open>What the review rests on\<close>

definition authorizeFacilitatorReview :: "userContext \<Rightarrow> 'x mutationInput_scheme \<Rightarrow> ('w, unit) command" where
  "authorizeFacilitatorReview context input =
     (if uctRole context \<noteq> FacilitatorRole then failC FORBIDDEN
      else unlessC (mayUse context DecisionReviewConfirm (mutMeetingId input)) FORBIDDEN)"

definition suggestedIn :: "domainEventPayload \<Rightarrow> invalidationSuggestion option" where
  "suggestedIn p = (case p of AssumptionInvalidationSuggested v \<Rightarrow> Some v | _ \<Rightarrow> None)"

definition markedAtRisk :: "domainEventPayload \<Rightarrow> (decision \<times> string \<times> string list \<times> string list) option" where
  "markedAtRisk p = (case p of DecisionMarkedAtRisk d i ps as \<Rightarrow> Some (d, i, ps, as) | _ \<Rightarrow> None)"

definition facilitatorReviewed :: "domainEventPayload \<Rightarrow> facilitatorReview option" where
  "facilitatorReviewed p = (case p of FacilitatorReviewed f \<Rightarrow> Some f | _ \<Rightarrow> None)"

definition reviewRequiredIn :: "domainEventPayload \<Rightarrow> (decision \<times> string \<times> string list \<times> string) option" where
  "reviewRequiredIn p = (case p of DecisionReviewRequired d i as k \<Rightarrow> Some (d, i, as, k) | _ \<Rightarrow> None)"

definition actionsHeld :: "domainEventPayload \<Rightarrow> (string \<times> string \<times> action list) option" where
  "actionsHeld p = (case p of ActionHeld d i as \<Rightarrow> Some (d, i, as) | _ \<Rightarrow> None)"

definition taskCreatedIn :: "domainEventPayload \<Rightarrow> reconsiderationTask option" where
  "taskCreatedIn p = (case p of ReconsiderationTaskCreated k \<Rightarrow> Some k | _ \<Rightarrow> None)"

text \<open>\<open>stableSerialize(left) === stableSerialize(right)\<close>.\<close>

definition sameDecision :: "decision \<Rightarrow> decision \<Rightarrow> bool" where
  "sameDecision left right \<longleftrightarrow> localeSerialize (decisionJson left) = localeSerialize (decisionJson right)"

definition suggestionMatches ::
  "invalidationSuggestion \<Rightarrow> decision \<Rightarrow> decision \<times> string \<times> string list \<times> string list \<Rightarrow> bool" where
  "suggestionMatches suggested current latest =
     (case latest of (atRisk, suggestion, premises, actions) \<Rightarrow>
        suggestion = ivsSuggestionId suggested \<and> ivsDecisionId suggested = recId current \<and>
        ivsActiveRevisionId suggested = decActiveRevisionId current \<and> sameDecision atRisk current \<and>
        sameValues (ivsAffectedPremiseIds suggested) premises \<and>
        sameValues (ivsAffectedActionIds suggested) actions)"

definition findMatchedSuggestion ::
  "domainEvent eventRecord list \<Rightarrow> decision \<Rightarrow> string \<Rightarrow> ('w, matchedSuggestion) command" where
  "findMatchedSuggestion records current target =
     bindC (liftC (normalizeRecords records)) (\<lambda>evs.
     case findFirst (\<lambda>ev. map_option ivsSuggestionId (suggestedIn (evPayload ev)) = Some target) evs of
       None \<Rightarrow> failC SUGGESTION_NOT_FOUND
     | Some found \<Rightarrow>
         (let suggested = the (suggestedIn (evPayload found)) in
          case findLast (\<lambda>ev. map_option (recId \<circ> fst) (markedAtRisk (evPayload ev)) = Some (recId current)) evs of
            None \<Rightarrow> failC SUGGESTION_MISMATCH
          | Some latest \<Rightarrow>
              bindC (unlessC (suggestionMatches suggested current (the (markedAtRisk (evPayload latest))))
                SUGGESTION_MISMATCH) (\<lambda>_.
              returnC \<lparr>mtsAtRisk = latest, mtsSuggested = suggested\<rparr>)))"

definition confirmedShared :: "string \<Rightarrow> 'a commonRecord_scheme list \<Rightarrow> bool" where
  "confirmedShared i records \<longleftrightarrow>
     list_ex (\<lambda>r. recId r = i \<and> recVisibility r = Shared \<and> recConfirmation r = Confirmed) records"

definition referencesExist :: "meetingProjection \<Rightarrow> decision \<Rightarrow> invalidationSuggestion \<Rightarrow> bool" where
  "referencesExist p d suggested \<longleftrightarrow>
     list_ex (\<lambda>rv. drvDecisionId rv = recId d \<and> recId rv = decActiveRevisionId d)
       (shpDecisionRevisions (mprShared p)) \<and>
     list_ex (\<lambda>x. recId x = ivsExternalEventId suggested) (shpExternalEvents (mprShared p)) \<and>
     list_all (\<lambda>i. List.member (decPremiseIds d) i \<and> confirmedShared i (shpPremises (mprShared p)))
       (ivsAffectedPremiseIds suggested) \<and>
     list_all (\<lambda>i. List.member (decActionIds d) i \<and> confirmedShared i (shpActions (mprShared p)))
       (ivsAffectedActionIds suggested)"

text \<open>\<open>find\<close> with a condition that can throw.\<close>

fun findFirstE :: "('a \<Rightarrow> exn + bool) \<Rightarrow> 'a list \<Rightarrow> exn + 'a option" where
  "findFirstE p [] = Inr None"
| "findFirstE p (x # xs) = bindE (p x) (\<lambda>b. if b then Inr (Some x) else findFirstE p xs)"

definition causedBy :: "domainEvent \<Rightarrow> domainEvent \<Rightarrow> exn + bool" where
  "causedBy cause ev = bindE (causationId (evEventId cause)) (\<lambda>c. Inr (evCausationId ev = Some c))"

definition confirmedBatch :: "domainEvent list \<Rightarrow> domainEvent \<Rightarrow> exn + domainEvent list option" where
  "confirmedBatch evs reviewed =
     (let suggestion = map_option fvwSuggestionId (facilitatorReviewed (evPayload reviewed)) in
      bindE (findFirstE (\<lambda>ev. case reviewRequiredIn (evPayload ev) of
               None \<Rightarrow> Inr False
             | Some (_, i, _, _) \<Rightarrow>
                 bindE (causedBy reviewed ev) (\<lambda>c. Inr (c \<and> Some i = suggestion))) evs) (\<lambda>required.
      case required of
        None \<Rightarrow> Inr None
      | Some reviewRequired \<Rightarrow>
          bindE (findFirstE (\<lambda>ev. case actionsHeld (evPayload ev) of
                   None \<Rightarrow> Inr False
                 | Some (_, i, _) \<Rightarrow>
                     bindE (causedBy reviewRequired ev) (\<lambda>c. Inr (c \<and> Some i = suggestion))) evs) (\<lambda>held.
          bindE (findFirstE (\<lambda>ev. case taskCreatedIn (evPayload ev) of
                   None \<Rightarrow> Inr False
                 | Some task \<Rightarrow>
                     bindE (causedBy reviewRequired ev) (\<lambda>c.
                       Inr (c \<and> Some (recId task) =
                         map_option (\<lambda>(_, _, _, k). k) (reviewRequiredIn (evPayload reviewRequired))))) evs)
            (\<lambda>task.
          Inr (case (held, task) of
                 (Some actionHeld, Some taskCreated) \<Rightarrow> Some [reviewed, reviewRequired, actionHeld, taskCreated]
               | _ \<Rightarrow> None)))))"

definition priorReviewBatch ::
  "domainEvent eventRecord list \<Rightarrow> string \<Rightarrow> reviewDisposition \<Rightarrow> exn + domainEvent list option" where
  "priorReviewBatch records key disposition =
     bindE (normalizeRecords records) (\<lambda>evs.
     case findFirst (\<lambda>ev. facilitatorReviewed (evPayload ev) \<noteq> None \<and> evIdempotencyKey ev = Some key) evs of
       None \<Rightarrow> Inr None
     | Some reviewed \<Rightarrow>
         if map_option fvwDisposition (facilitatorReviewed (evPayload reviewed)) \<noteq> Some disposition then Inr None
         else if disposition = RejectSuggestion then Inr (Some [reviewed])
         else confirmedBatch evs reviewed)"

fun dispositionText :: "reviewDisposition \<Rightarrow> string" where
  "dispositionText ConfirmInvalidation = ''confirm_invalidation''"
| "dispositionText RejectSuggestion = ''reject_suggestion''"

definition checkCorrelation :: "'x mutationInput_scheme \<Rightarrow> exn + unit" where
  "checkCorrelation input =
     (case mutCorrelationId input of None \<Rightarrow> Inr () | Some c \<Rightarrow> bindE (correlationId c) (\<lambda>_. Inr ()))"

definition prepareReview ::
  "'w ports \<Rightarrow> userContext \<Rightarrow> 'x reviewInput_scheme \<Rightarrow> reviewDisposition \<Rightarrow> ('w, preparedReview) command" where
  "prepareReview deps context input disposition =
     bindC (authorizeFacilitatorReview context input) (\<lambda>_.
     tryC validationHandler
       (bindC (liftC (decisionId (rvwDecisionId input))) (\<lambda>target.
        bindC (liftC (suggestionId (rvwSuggestionId input))) (\<lambda>suggestion.
        bindC (liftC (nonEmptyText (rvwReason input))) (\<lambda>reason.
        bindC (liftC (idempotencyKey (mutIdempotencyKey input))) (\<lambda>_.
        bindC (liftC (meetingId (mutMeetingId input))) (\<lambda>_.
        bindC (liftC (meetingPosition (mutExpectedPosition input))) (\<lambda>_.
        bindC (liftC (participantId (uctParticipantId context))) (\<lambda>_.
        bindC (liftC (checkCorrelation input)) (\<lambda>_.
        bindC (hashValue deps (localeSerialize (JObj
          [(''command'', JStr ''review-assumption-invalidation''), (''decisionId'', JStr target),
           (''disposition'', JStr (dispositionText disposition)), (''meetingId'', JStr (mutMeetingId input)),
           (''reason'', JStr reason), (''suggestionId'', JStr suggestion)]))) (\<lambda>fingerprint.
        bindC (loadState deps (mutMeetingId input)) (\<lambda>loaded.
        returnC \<lparr>prwFingerprint = fingerprint, prwLoaded = loaded, prwReason = reason,
          prwTargetDecisionId = target, prwTargetSuggestionId = suggestion\<rparr>))))))))))))"

text \<open>The Decision under review and the suggestion that put it at risk.\<close>

definition reviewTarget :: "preparedReview \<Rightarrow> ('w, decision \<times> matchedSuggestion) command" where
  "reviewTarget prepared =
     (case findDecision (prwLoaded prepared) (prwTargetDecisionId prepared) of
        None \<Rightarrow> failC DECISION_NOT_FOUND
      | Some current \<Rightarrow>
          bindC (unlessC (decStatus current = AT_RISK) INVALID_STATE_TRANSITION) (\<lambda>_.
          bindC (findMatchedSuggestion (lstRecords (prwLoaded prepared)) current (prwTargetSuggestionId prepared))
            (\<lambda>matched.
          bindC (unlessC (referencesExist (lstProjection (prwLoaded prepared)) current (mtsSuggested matched))
            REFERENCED_ENTITY_NOT_FOUND) (\<lambda>_.
          returnC (current, matched)))))"

subsection \<open>Confirming\<close>

definition readConfirmed :: "domainEvent eventRecord list \<Rightarrow> exn + (bool \<Rightarrow> confirmedAnswer) option" where
  "readConfirmed records =
     bindE (eventAt facilitatorReviewed records) (\<lambda>reviewed.
     bindE (eventAt actionsHeld records) (\<lambda>held.
     bindE (eventAt taskCreatedIn records) (\<lambda>task.
     Inr (case (reviewed, held, task) of
            (Some (ev, review), Some (_, _, _, actions), Some (taskEvent, created)) \<Rightarrow>
              Some (\<lambda>replayed. \<lparr>rwaCorrelationId = evCorrelationId ev, rwaDecision = fvwDecision review,
                rwaPosition = evPosition taskEvent, rwaReviewEventId = evEventId ev,
                rwaReviewReason = fvwReason review, rwaReplayed = replayed,
                rwaSuggestionId = fvwSuggestionId review, cfaHeldActionIds = map recId actions,
                cfaHeldActions = actions, cfaReconsiderationTask = created\<rparr>)
          | _ \<Rightarrow> None))))"

definition makeConfirmation ::
  "'w ports \<Rightarrow> userContext \<Rightarrow> preparedReview \<Rightarrow> decision \<Rightarrow> matchedSuggestion \<Rightarrow>
     ('w, decision \<times> action list \<times> reconsiderationTask \<times> string) command" where
  "makeConfirmation deps context prepared current matched =
     (let suggested = mtsSuggested matched; actions = shpActions (mprShared (lstProjection (prwLoaded prepared))) in
      tryC transitionFailure
       (bindC (liftC (participantId (uctParticipantId context))) (\<lambda>facilitator.
        bindC (liftC (transitionDecision current ((plainRequest REVIEW_REQUIRED (FacilitatorAuthority facilitator))
          \<lparr>reqAffectedActionIds := Some (ivsAffectedActionIds suggested),
           reqAffectedPremiseIds := Some (ivsAffectedPremiseIds suggested),
           reqInvalidationConfirmed := Some True,
           reqReviewedActionIds := Some (ivsAffectedActionIds suggested),
           reqReviewedEvidenceReferenceIds := Some (ivsEvidenceReferenceIds suggested),
           reqReviewedPremiseIds := Some (ivsAffectedPremiseIds suggested),
           reqSuggestionReferenceIds := Some (ivsEvidenceReferenceIds suggested)\<rparr>))) (\<lambda>required.
        bindC (clockNow deps) (\<lambda>occurredAt.
        let selection = \<lparr>holdAffectedPremiseIds = ivsAffectedPremiseIds suggested,
              holdSuggestedActionIds = ivsAffectedActionIds suggested, holdReason = prwReason prepared\<rparr>;
            selectedIds = map recId (selectActionsToHold actions selection) in
        bindC (liftC (holdAffectedActions actions selection)) (\<lambda>all.
        let heldActions = filter (\<lambda>a. List.member selectedIds (recId a)) all in
        bindC (readC (prtNext deps ''reconsideration-task'')) (\<lambda>i.
        bindC (liftC (reconsiderationTaskId i)) (\<lambda>taskId.
        bindC (liftC (newReconsiderationTask \<lparr>ntiId = taskId, ntiMeetingId = recMeetingId current,
          ntiDecisionId = recId current, ntiTriggerExternalEventId = ivsExternalEventId suggested,
          ntiOwnerParticipantId = facilitator, ntiAffectedPremiseIds = ivsAffectedPremiseIds suggested,
          ntiAffectedActionIds = ivsAffectedActionIds suggested, ntiCreatedAt = occurredAt\<rparr>)) (\<lambda>task.
        returnC (required, heldActions, task, occurredAt))))))))))"

definition reviewOf ::
  "preparedReview \<Rightarrow> matchedSuggestion \<Rightarrow> reviewDisposition \<Rightarrow> string \<Rightarrow> string \<Rightarrow> decision \<Rightarrow> facilitatorReview" where
  "reviewOf prepared matched disposition facilitator currentId d =
     \<lparr>fvwDecision = d, fvwDecisionId = currentId, fvwSuggestionId = ivsSuggestionId (mtsSuggested matched),
      fvwFacilitatorParticipantId = facilitator, fvwDisposition = disposition,
      fvwReviewedPremiseIds = ivsAffectedPremiseIds (mtsSuggested matched),
      fvwReviewedEvidenceReferenceIds = ivsEvidenceReferenceIds (mtsSuggested matched),
      fvwReviewedActionIds = ivsAffectedActionIds (mtsSuggested matched), fvwReason = prwReason prepared\<rparr>"

definition confirmationEvents ::
  "'w ports \<Rightarrow> userContext \<Rightarrow> 'x reviewInput_scheme \<Rightarrow> preparedReview \<Rightarrow> decision \<Rightarrow> matchedSuggestion \<Rightarrow>
     decision \<times> action list \<times> reconsiderationTask \<times> string \<Rightarrow> ('w, domainEvent list) command" where
  "confirmationEvents deps context input prepared current matched made =
     (case made of (required, heldActions, task, occurredAt) \<Rightarrow>
      let suggestion = ivsSuggestionId (mtsSuggested matched) in
      bindC (commandCorrelationId deps input) (\<lambda>correlation.
      bindC (liftC (participantId (uctParticipantId context))) (\<lambda>facilitator.
      bindC (liftC (meetingPosition (mutExpectedPosition input))) (\<lambda>expected.
      bindC (causedEvent deps input (ParticipantActor facilitator) (evEventId (mtsAtRisk matched)) correlation
        occurredAt (Some (mutIdempotencyKey input)) (expected + 1)
        (FacilitatorReviewed (reviewOf prepared matched ConfirmInvalidation facilitator (recId current) required)))
        (\<lambda>reviewed.
      bindC (causedEvent deps input SystemActor (evEventId reviewed) correlation occurredAt None (expected + 2)
        (DecisionReviewRequired required suggestion (map recId heldActions) (recId task))) (\<lambda>reviewRequired.
      bindC (causedEvent deps input SystemActor (evEventId reviewRequired) correlation occurredAt None (expected + 3)
        (ActionHeld (recId current) suggestion heldActions)) (\<lambda>actionHeld.
      bindC (causedEvent deps input SystemActor (evEventId reviewRequired) correlation occurredAt None (expected + 4)
        (ReconsiderationTaskCreated task)) (\<lambda>taskCreated.
      returnC [reviewed, reviewRequired, actionHeld, taskCreated]))))))))"

definition confirmInvalidationReview ::
  "'w ports \<Rightarrow> userContext \<Rightarrow> 'x reviewInput_scheme \<Rightarrow> ('w, confirmedAnswer) command" where
  "confirmInvalidationReview deps context input =
     bindC (prepareReview deps context input ConfirmInvalidation) (\<lambda>prepared.
     bindC (liftC (priorReviewBatch (lstRecords (prwLoaded prepared)) (mutIdempotencyKey input) ConfirmInvalidation))
       (\<lambda>prior.
     case prior of
       Some batch \<Rightarrow>
         replayBatch deps input (prwFingerprint prepared) batch (uctParticipantId context) readConfirmed
     | None \<Rightarrow>
         bindC (unlessC (\<not> hasIdempotencyKey (lstRecords (prwLoaded prepared)) (mutIdempotencyKey input))
           IDEMPOTENCY_CONFLICT) (\<lambda>_.
         bindC (reviewTarget prepared) (\<lambda>(current, matched).
         bindC (makeConfirmation deps context prepared current matched) (\<lambda>made.
         bindC (confirmationEvents deps context input prepared current matched made) (\<lambda>batch.
         appendBatch deps input (prwFingerprint prepared) batch (uctParticipantId context)
           ''Invalidation confirmation append was incomplete'' readConfirmed))))))"

subsection \<open>Rejecting\<close>

definition readRejected :: "domainEvent eventRecord list \<Rightarrow> exn + (bool \<Rightarrow> reviewAnswer) option" where
  "readRejected records =
     bindE (eventAt facilitatorReviewed records) (\<lambda>reviewed.
     Inr (case reviewed of
            None \<Rightarrow> None
          | Some (ev, review) \<Rightarrow>
              Some (\<lambda>replayed. \<lparr>rwaCorrelationId = evCorrelationId ev, rwaDecision = fvwDecision review,
                rwaPosition = evPosition ev, rwaReviewEventId = evEventId ev,
                rwaReviewReason = fvwReason review, rwaReplayed = replayed,
                rwaSuggestionId = fvwSuggestionId review\<rparr>)))"

definition makeRejection ::
  "'w ports \<Rightarrow> userContext \<Rightarrow> preparedReview \<Rightarrow> decision \<Rightarrow> ('w, decision \<times> string) command" where
  "makeRejection deps context prepared current =
     tryC transitionFailure
       (bindC (liftC (participantId (uctParticipantId context))) (\<lambda>facilitator.
        bindC (liftC (transitionDecision current ((plainRequest MONITORING (FacilitatorAuthority facilitator))
          \<lparr>reqRejectionReason := Some (prwReason prepared)\<rparr>))) (\<lambda>monitoring.
        bindC (clockNow deps) (\<lambda>occurredAt. returnC (monitoring, occurredAt)))))"

definition rejectionEvent ::
  "'w ports \<Rightarrow> userContext \<Rightarrow> 'x reviewInput_scheme \<Rightarrow> preparedReview \<Rightarrow> decision \<Rightarrow> matchedSuggestion \<Rightarrow>
     decision \<times> string \<Rightarrow> ('w, domainEvent list) command" where
  "rejectionEvent deps context input prepared current matched made =
     (case made of (monitoring, occurredAt) \<Rightarrow>
      bindC (commandCorrelationId deps input) (\<lambda>correlation.
      bindC (liftC (meetingPosition (mutExpectedPosition input))) (\<lambda>expected.
      bindC (liftC (participantId (uctParticipantId context))) (\<lambda>facilitator.
      bindC (causedEvent deps input (ParticipantActor facilitator) (evEventId (mtsAtRisk matched)) correlation
        occurredAt (Some (mutIdempotencyKey input)) (expected + 1)
        (FacilitatorReviewed (reviewOf prepared matched RejectSuggestion facilitator (recId current) monitoring)))
        (\<lambda>reviewed.
      returnC [reviewed])))))"

definition rejectInvalidationReview ::
  "'w ports \<Rightarrow> userContext \<Rightarrow> 'x reviewInput_scheme \<Rightarrow> ('w, reviewAnswer) command" where
  "rejectInvalidationReview deps context input =
     bindC (prepareReview deps context input RejectSuggestion) (\<lambda>prepared.
     bindC (liftC (priorReviewBatch (lstRecords (prwLoaded prepared)) (mutIdempotencyKey input) RejectSuggestion))
       (\<lambda>prior.
     case prior of
       Some batch \<Rightarrow>
         replayBatch deps input (prwFingerprint prepared) batch (uctParticipantId context) readRejected
     | None \<Rightarrow>
         bindC (unlessC (\<not> hasIdempotencyKey (lstRecords (prwLoaded prepared)) (mutIdempotencyKey input))
           IDEMPOTENCY_CONFLICT) (\<lambda>_.
         bindC (reviewTarget prepared) (\<lambda>(current, matched).
         bindC (makeRejection deps context prepared current) (\<lambda>made.
         bindC (rejectionEvent deps context input prepared current matched made) (\<lambda>batch.
         appendBatch deps input (prwFingerprint prepared) batch (uctParticipantId context)
           ''Invalidation rejection append returned no review event'' readRejected))))))"

datatype reviewResult = ReviewConfirmed confirmedAnswer | ReviewRejected reviewAnswer

definition reviewInvalidation ::
  "'w ports \<Rightarrow> userContext \<Rightarrow> reviewDisposition \<Rightarrow> 'x reviewInput_scheme \<Rightarrow> ('w, reviewResult) command" where
  "reviewInvalidation deps context disposition input =
     (if disposition = ConfirmInvalidation
      then bindC (confirmInvalidationReview deps context input) (\<lambda>a. returnC (ReviewConfirmed a))
      else bindC (rejectInvalidationReview deps context input) (\<lambda>a. returnC (ReviewRejected a)))"

end
