(* ===== verification/ReviewResolutions.thy ===== *)
theory ReviewResolutions
  imports InvalidationReviews
begin

section \<open>Resolving a required review: \<open>packages/application/src/decision-review-resolutions.ts\<close>\<close>

text \<open>
  A Decision that requires review is committed again with a new revision, superseded by another Decision,
  or rejected. Each resolution is one event of a facilitator, caused by the event that required the review.
\<close>

record recommitDecisionInput = mutationInput +
  rciDecisionId :: string
  rciChangeReason :: string
  rciExplicitCommit :: bool
  rciMonitorDescription :: string
  rciOutcome :: string
  rciTitle :: string

record supersedeDecisionInput = mutationInput +
  spiDecisionId :: string
  spiReplacementDecisionId :: string

record rejectDecisionInput = mutationInput +
  rjiDecisionId :: string
  rjiReason :: string

text \<open>The answer; \<open>rslValue\<close> is the revision, the replacement or the reason.\<close>

record 'a resolution =
  rslCorrelationId :: string
  rslDecision :: decision
  rslPosition :: int
  rslReplayed :: bool
  rslResolutionEventId :: string
  rslValue :: 'a

subsection \<open>Selectors\<close>

definition revisionCommitted :: "domainEventPayload \<Rightarrow> (decision \<times> decisionRevision) option" where
  "revisionCommitted p = (case p of DecisionRevisionCommitted d rv \<Rightarrow> Some (d, rv) | _ \<Rightarrow> None)"

definition superseded :: "domainEventPayload \<Rightarrow> (decision \<times> string) option" where
  "superseded p = (case p of DecisionSuperseded d i \<Rightarrow> Some (d, i) | _ \<Rightarrow> None)"

definition rejectedDecision :: "domainEventPayload \<Rightarrow> (decision \<times> string) option" where
  "rejectedDecision p = (case p of DecisionRejected d why \<Rightarrow> Some (d, why) | _ \<Rightarrow> None)"

definition isResolution :: "domainEventPayload \<Rightarrow> bool" where
  "isResolution p \<longleftrightarrow> revisionCommitted p \<noteq> None \<or> superseded p \<noteq> None \<or> rejectedDecision p \<noteq> None"

definition readResolution ::
  "(domainEventPayload \<Rightarrow> (decision \<times> 'a) option) \<Rightarrow> domainEvent eventRecord list \<Rightarrow>
     exn + (bool \<Rightarrow> 'a resolution) option" where
  "readResolution select records =
     bindE (eventAt select records) (\<lambda>found.
     Inr (map_option (\<lambda>(ev, d, v) replayed.
       \<lparr>rslCorrelationId = evCorrelationId ev, rslDecision = d, rslPosition = evPosition ev,
        rslReplayed = replayed, rslResolutionEventId = evEventId ev, rslValue = v\<rparr>) found))"

definition priorResolution ::
  "domainEvent eventRecord list \<Rightarrow> string \<Rightarrow> (domainEventPayload \<Rightarrow> 'a option) \<Rightarrow> exn + domainEvent option" where
  "priorResolution records key select =
     bindE (normalizeRecords records) (\<lambda>evs.
     Inr (case findFirst (\<lambda>ev. isResolution (evPayload ev) \<and> evIdempotencyKey ev = Some key) evs of
            None \<Rightarrow> None
          | Some prior \<Rightarrow> if select (evPayload prior) = None then None else Some prior))"

subsection \<open>What a resolution rests on\<close>

definition reviewedFor :: "decision \<Rightarrow> domainEvent \<Rightarrow> domainEvent \<Rightarrow> bool" where
  "reviewedFor current required reviewed \<longleftrightarrow>
     (case facilitatorReviewed (evPayload reviewed) of
        None \<Rightarrow> False
      | Some f \<Rightarrow> fvwDisposition f = ConfirmInvalidation \<and> fvwDecisionId f = recId current \<and>
          sameDecision (fvwDecision f) current \<and> evCorrelationId reviewed = evCorrelationId required)"

definition findCurrentReviewRequired ::
  "domainEvent eventRecord list \<Rightarrow> decision \<Rightarrow> exn + domainEvent option" where
  "findCurrentReviewRequired records current =
     bindE (normalizeRecords records) (\<lambda>evs.
     Inr (case findLast (\<lambda>ev. map_option (recId \<circ> fst) (reviewRequiredIn (evPayload ev)) = Some (recId current)) evs of
            None \<Rightarrow> None
          | Some required \<Rightarrow>
              if \<not> sameDecision (fst (the (reviewRequiredIn (evPayload required)))) current then None
              else
                (case findFirst (\<lambda>ev. facilitatorReviewed (evPayload ev) \<noteq> None \<and>
                        evEventId ev = (case evCausationId required of Some c \<Rightarrow> c | None \<Rightarrow> ''undefined'')) evs of
                   None \<Rightarrow> None
                 | Some reviewed \<Rightarrow> if reviewedFor current required reviewed then Some required else None)))"

definition hasOwnActiveRevision :: "meetingProjection \<Rightarrow> decision \<Rightarrow> bool" where
  "hasOwnActiveRevision p d \<longleftrightarrow>
     list_ex (\<lambda>rv. drvDecisionId rv = recId d \<and> recId rv = decActiveRevisionId d \<and>
       drvVersion rv = decActiveRevision d) (shpDecisionRevisions (mprShared p))"

definition hasCanonicalReferences :: "meetingProjection \<Rightarrow> decision \<Rightarrow> bool" where
  "hasCanonicalReferences p d \<longleftrightarrow>
     hasOwnActiveRevision p d \<and>
     list_all (\<lambda>i. confirmedShared i (shpPremises (mprShared p))) (decPremiseIds d) \<and>
     list_all (\<lambda>i. confirmedShared i (shpEvidence (mprShared p))) (decEvidenceIds d) \<and>
     list_all (\<lambda>i. confirmedShared i (shpDissent (mprShared p))) (decDissentIds d) \<and>
     list_all (\<lambda>i. confirmedShared i (shpActions (mprShared p))) (decActionIds d)"

definition currentDecision :: "loadedState \<Rightarrow> string \<Rightarrow> ('w, decision \<times> domainEvent) command" where
  "currentDecision loaded target =
     (case findDecision loaded target of
        None \<Rightarrow> failC DECISION_NOT_FOUND
      | Some current \<Rightarrow>
          bindC (unlessC (decStatus current = REVIEW_REQUIRED) INVALID_STATE_TRANSITION) (\<lambda>_.
          bindC (liftC (findCurrentReviewRequired (lstRecords loaded) current)) (\<lambda>required.
          case required of
            None \<Rightarrow> failC REFERENCED_ENTITY_NOT_FOUND
          | Some reviewRequired \<Rightarrow>
              bindC (unlessC (hasOwnActiveRevision (lstProjection loaded) current) REFERENCED_ENTITY_NOT_FOUND)
                (\<lambda>_. returnC (current, reviewRequired)))))"

text \<open>The checks that end every validation.\<close>

definition checkMutation :: "userContext \<Rightarrow> 'x mutationInput_scheme \<Rightarrow> ('w, unit) command" where
  "checkMutation context input =
     bindC (liftC (idempotencyKey (mutIdempotencyKey input))) (\<lambda>_.
     bindC (liftC (meetingId (mutMeetingId input))) (\<lambda>_.
     bindC (liftC (meetingPosition (mutExpectedPosition input))) (\<lambda>_.
     bindC (liftC (participantId (uctParticipantId context))) (\<lambda>_.
     liftC (checkCorrelation input)))))"

text \<open>
  The frame of the three commands: authority, validation (target, what the command needs of its input,
  fingerprint), the meeting, a retry or a used key, then the resolution itself and its one event.
\<close>

definition resolutionEvent ::
  "'w ports \<Rightarrow> userContext \<Rightarrow> 'x mutationInput_scheme \<Rightarrow> domainEvent \<Rightarrow> string \<Rightarrow> domainEventPayload \<Rightarrow>
     ('w, domainEvent) command" where
  "resolutionEvent deps context input required occurredAt payload =
     bindC (liftC (participantActor context)) (\<lambda>actor.
     bindC (liftC (causationId (evEventId required))) (\<lambda>_.
     bindC (commandCorrelationId deps input) (\<lambda>correlation.
     causedEvent deps input actor (evEventId required) correlation occurredAt (Some (mutIdempotencyKey input))
       (mutExpectedPosition input + 1) payload)))"

definition resolveReview ::
  "'w ports \<Rightarrow> userContext \<Rightarrow> 'x mutationInput_scheme \<Rightarrow> ('w, 'v \<times> string) command \<Rightarrow>
     (domainEventPayload \<Rightarrow> (decision \<times> 'a) option) \<Rightarrow> string \<Rightarrow>
     ('v \<Rightarrow> loadedState \<Rightarrow> ('w, domainEvent \<times> string \<times> domainEventPayload) command) \<Rightarrow>
     ('w, 'a resolution) command" where
  "resolveReview deps context input validate select message resolve =
     bindC (authorizeFacilitatorReview context input) (\<lambda>_.
     bindC (tryC validationHandler validate) (\<lambda>(values, fingerprint).
     bindC (loadState deps (mutMeetingId input)) (\<lambda>loaded.
     bindC (liftC (priorResolution (lstRecords loaded) (mutIdempotencyKey input) select)) (\<lambda>prior.
     case prior of
       Some event \<Rightarrow> replayBatch deps input fingerprint [event] (uctParticipantId context) (readResolution select)
     | None \<Rightarrow>
         bindC (unlessC (\<not> hasIdempotencyKey (lstRecords loaded) (mutIdempotencyKey input)) IDEMPOTENCY_CONFLICT) (\<lambda>_.
         bindC (resolve values loaded) (\<lambda>(required, occurredAt, payload).
         bindC (resolutionEvent deps context input required occurredAt payload) (\<lambda>event.
         appendBatch deps input fingerprint [event] (uctParticipantId context) message (readResolution select))))))))"

subsection \<open>Committing again\<close>

record recommitValues =
  rcvTarget :: string
  rcvTitle :: string
  rcvOutcome :: string
  rcvMonitorDescription :: string
  rcvChangeReason :: string

definition validateRecommit ::
  "'w ports \<Rightarrow> userContext \<Rightarrow> 'x recommitDecisionInput_scheme \<Rightarrow> ('w, recommitValues \<times> string) command" where
  "validateRecommit deps context input =
     bindC (liftC (decisionId (rciDecisionId input))) (\<lambda>target.
     bindC (liftC (nonEmptyText (rciTitle input))) (\<lambda>title.
     bindC (liftC (nonEmptyText (rciOutcome input))) (\<lambda>outcome.
     bindC (liftC (nonEmptyText (rciMonitorDescription input))) (\<lambda>description.
     bindC (liftC (nonEmptyText (rciChangeReason input))) (\<lambda>reason.
     bindC (checkMutation context input) (\<lambda>_.
     bindC (hashValue deps (localeSerialize (JObj
       [(''changeReason'', JStr reason), (''command'', JStr ''recommit-decision-review''),
        (''decisionId'', JStr target), (''explicitCommit'', JBool (rciExplicitCommit input)),
        (''meetingId'', JStr (mutMeetingId input)),
        (''monitorCondition'', JObj [(''description'', JStr description)]), (''outcome'', JStr outcome),
        (''title'', JStr title)]))) (\<lambda>fingerprint.
     returnC (\<lparr>rcvTarget = target, rcvTitle = title, rcvOutcome = outcome, rcvMonitorDescription = description,
       rcvChangeReason = reason\<rparr>, fingerprint))))))))"

definition makeRecommit ::
  "'w ports \<Rightarrow> userContext \<Rightarrow> loadedState \<Rightarrow> recommitValues \<Rightarrow> decision \<Rightarrow>
     ('w, decision \<times> decisionRevision \<times> string) command" where
  "makeRecommit deps context loaded values current =
     tryC transitionFailure
       (bindC (clockNow deps) (\<lambda>occurredAt.
        bindC (liftC (participantId (uctParticipantId context))) (\<lambda>facilitator.
        bindC (readC (prtNext deps ''decision-revision'')) (\<lambda>i.
        bindC (liftC (decisionRevisionId i)) (\<lambda>revisionId.
        bindC (liftC (nextDecisionRevision current \<lparr>nriId = revisionId, nriChangeReason = rcvChangeReason values,
          nriCreatedAt = occurredAt, nriCreatedBy = facilitator,
          nriSnapshot = \<lparr>snpTitle = rcvTitle values, snpOutcome = rcvOutcome values, snpStatus = COMMITTED,
            snpPremiseIds = decPremiseIds current, snpEvidenceIds = decEvidenceIds current,
            snpDissentIds = decDissentIds current, snpActionIds = decActionIds current,
            snpMonitorCondition = \<lparr>monDescription = rcvMonitorDescription values, monRegistrationId = None\<rparr>\<rparr>\<rparr>))
          (\<lambda>revision.
        bindC (liftC (appendDecisionRevision (shpDecisionRevisions (mprShared (lstProjection loaded))) revision)) (\<lambda>_.
        bindC (liftC (transitionDecision current ((plainRequest COMMITTED (FacilitatorAuthority facilitator))
          \<lparr>reqExplicitCommit := Some True, reqRevision := Some revision\<rparr>))) (\<lambda>d.
        returnC (d, revision, occurredAt)))))))))"

definition recommitDecision ::
  "'w ports \<Rightarrow> userContext \<Rightarrow> 'x recommitDecisionInput_scheme \<Rightarrow> ('w, decisionRevision resolution) command" where
  "recommitDecision deps context input =
     resolveReview deps context input (validateRecommit deps context input) revisionCommitted
       ''Decision review recommit append returned no DecisionRevisionCommitted''
       (\<lambda>values loaded.
        bindC (unlessC (rciExplicitCommit input) EXPLICIT_COMMIT_REQUIRED) (\<lambda>_.
        bindC (currentDecision loaded (rcvTarget values)) (\<lambda>(current, required).
        bindC (unlessC (hasCanonicalReferences (lstProjection loaded) current) REFERENCED_ENTITY_NOT_FOUND) (\<lambda>_.
        bindC (makeRecommit deps context loaded values current) (\<lambda>(d, revision, occurredAt).
        returnC (required, occurredAt, DecisionRevisionCommitted d revision))))))"

subsection \<open>Superseding\<close>

definition validateSupersede ::
  "'w ports \<Rightarrow> userContext \<Rightarrow> 'x supersedeDecisionInput_scheme \<Rightarrow> ('w, (string \<times> string) \<times> string) command" where
  "validateSupersede deps context input =
     bindC (liftC (decisionId (spiDecisionId input))) (\<lambda>target.
     bindC (liftC (decisionId (spiReplacementDecisionId input))) (\<lambda>replacement.
     bindC (checkMutation context input) (\<lambda>_.
     bindC (hashValue deps (localeSerialize (JObj
       [(''command'', JStr ''supersede-decision-review''), (''decisionId'', JStr target),
        (''meetingId'', JStr (mutMeetingId input)), (''replacementDecisionId'', JStr replacement)]))) (\<lambda>fingerprint.
     returnC ((target, replacement), fingerprint)))))"

definition makeSupersede ::
  "'w ports \<Rightarrow> userContext \<Rightarrow> string \<Rightarrow> decision \<Rightarrow> ('w, decision \<times> string) command" where
  "makeSupersede deps context replacement current =
     tryC transitionFailure
       (bindC (liftC (participantId (uctParticipantId context))) (\<lambda>facilitator.
        bindC (liftC (transitionDecision current ((plainRequest SUPERSEDED (FacilitatorAuthority facilitator))
          \<lparr>reqReplacementDecisionId := Some replacement\<rparr>))) (\<lambda>d.
        bindC (clockNow deps) (\<lambda>occurredAt. returnC (d, occurredAt)))))"

definition replacementFor :: "loadedState \<Rightarrow> decision \<Rightarrow> string \<Rightarrow> ('w, unit) command" where
  "replacementFor loaded current i =
     (case findDecision loaded i of
        None \<Rightarrow> failC DECISION_NOT_FOUND
      | Some replacement \<Rightarrow>
          if recId replacement = recId current then failC INVALID_STATE_TRANSITION
          else unlessC (hasOwnActiveRevision (lstProjection loaded) replacement) REFERENCED_ENTITY_NOT_FOUND)"

definition supersedeDecision ::
  "'w ports \<Rightarrow> userContext \<Rightarrow> 'x supersedeDecisionInput_scheme \<Rightarrow> ('w, string resolution) command" where
  "supersedeDecision deps context input =
     resolveReview deps context input (validateSupersede deps context input) superseded
       ''Decision review supersede append returned no DecisionSuperseded''
       (\<lambda>(target, replacement) loaded.
        bindC (currentDecision loaded target) (\<lambda>(current, required).
        bindC (replacementFor loaded current replacement) (\<lambda>_.
        bindC (makeSupersede deps context replacement current) (\<lambda>(d, occurredAt).
        returnC (required, occurredAt, DecisionSuperseded d replacement)))))"

subsection \<open>Rejecting\<close>

definition validateReject ::
  "'w ports \<Rightarrow> userContext \<Rightarrow> 'x rejectDecisionInput_scheme \<Rightarrow> ('w, (string \<times> string) \<times> string) command" where
  "validateReject deps context input =
     bindC (liftC (decisionId (rjiDecisionId input))) (\<lambda>target.
     bindC (liftC (nonEmptyText (rjiReason input))) (\<lambda>reason.
     bindC (checkMutation context input) (\<lambda>_.
     bindC (hashValue deps (localeSerialize (JObj
       [(''command'', JStr ''reject-decision-review''), (''decisionId'', JStr target),
        (''meetingId'', JStr (mutMeetingId input)), (''reason'', JStr reason)]))) (\<lambda>fingerprint.
     returnC ((target, reason), fingerprint)))))"

definition makeReject :: "'w ports \<Rightarrow> userContext \<Rightarrow> string \<Rightarrow> decision \<Rightarrow> ('w, decision \<times> string) command" where
  "makeReject deps context reason current =
     tryC transitionFailure
       (bindC (liftC (participantId (uctParticipantId context))) (\<lambda>facilitator.
        bindC (liftC (transitionDecision current ((plainRequest REJECTED (FacilitatorAuthority facilitator))
          \<lparr>reqRejectionReason := Some reason\<rparr>))) (\<lambda>d.
        bindC (clockNow deps) (\<lambda>occurredAt. returnC (d, occurredAt)))))"

definition rejectDecision ::
  "'w ports \<Rightarrow> userContext \<Rightarrow> 'x rejectDecisionInput_scheme \<Rightarrow> ('w, string resolution) command" where
  "rejectDecision deps context input =
     resolveReview deps context input (validateReject deps context input) rejectedDecision
       ''Decision review rejection append returned no DecisionRejected''
       (\<lambda>(target, reason) loaded.
        bindC (currentDecision loaded target) (\<lambda>(current, required).
        bindC (makeReject deps context reason current) (\<lambda>(d, occurredAt).
        returnC (required, occurredAt, DecisionRejected d reason))))"

end
