(* ===== verification/ReviewLogic.thy ===== *)
theory ReviewLogic
  imports DecisionCommands ReviewResolutions
begin

section \<open>What reviews and resolutions write\<close>

text \<open>
  A review or a resolution either leaves the log alone or appends its whole batch. The specification says
  what the batch is, given the projection of the meeting before it; the lemmas extend the locale
  \<open>command_world\<close> with rules for batches.
\<close>

subsection \<open>Specification\<close>

definition mayReview :: "userContext \<Rightarrow> string \<Rightarrow> bool" where
  "mayReview context m \<longleftrightarrow> uctRole context = FacilitatorRole \<and> mayUse context DecisionReviewConfirm m"

text \<open>The suggestion is on record, and speaks of this Decision in its active revision.\<close>

definition suggestedFor :: "domainEvent list \<Rightarrow> meetingProjection \<Rightarrow> decision \<Rightarrow> invalidationSuggestion \<Rightarrow> bool" where
  "suggestedFor log p c suggested \<longleftrightarrow>
     (\<exists>ev \<in> set log. evPayload ev = AssumptionInvalidationSuggested suggested) \<and>
     ivsDecisionId suggested = recId c \<and> ivsActiveRevisionId suggested = decActiveRevisionId c \<and>
     referencesExist p c suggested"

text \<open>The Actions that a suggestion selects, now on hold for a reason.\<close>

definition suggestedAction :: "invalidationSuggestion \<Rightarrow> action \<Rightarrow> bool" where
  "suggestedAction suggested a \<longleftrightarrow>
     actStatus a \<notin> {Completed, Held} \<and> recId a \<in> set (ivsAffectedActionIds suggested) \<and>
     set (actAffectedPremiseIds a) \<inter> set (ivsAffectedPremiseIds suggested) \<noteq> {}"

definition heldFor :: "meetingProjection \<Rightarrow> invalidationSuggestion \<Rightarrow> string \<Rightarrow> action list \<Rightarrow> bool" where
  "heldFor p suggested reason held \<longleftrightarrow>
     (\<forall>a' \<in> set held. \<exists>a \<in> set (shpActions (mprShared p)). suggestedAction suggested a \<and>
        a' = a\<lparr>actStatus := Held, actHoldReason := Some reason, recRevision := recRevision a + 1\<rparr>) \<and>
     (\<forall>a \<in> set (shpActions (mprShared p)). suggestedAction suggested a \<longrightarrow> recId a \<in> recId ` set held)"

definition taskFor :: "decision \<Rightarrow> invalidationSuggestion \<Rightarrow> string \<Rightarrow> reconsiderationTask \<Rightarrow> bool" where
  "taskFor c suggested owner task \<longleftrightarrow>
     tskState task = TaskOpen \<and> tskDecisionId task = recId c \<and> recMeetingId task = recMeetingId c \<and>
     recOwner task = Some owner \<and> tskTriggerExternalEventId task = ivsExternalEventId suggested \<and>
     tskAffectedPremiseIds task = ivsAffectedPremiseIds suggested \<and>
     tskAffectedActionIds task = ivsAffectedActionIds suggested"

text \<open>The review event of a facilitator on a Decision at risk, with the Decision as the review leaves it.\<close>

definition reviewedBy ::
  "userContext \<Rightarrow> decision \<Rightarrow> decision \<Rightarrow> invalidationSuggestion \<Rightarrow> reviewDisposition \<Rightarrow> string \<Rightarrow> domainEvent \<Rightarrow> bool" where
  "reviewedBy context c d suggested disposition reason ev \<longleftrightarrow>
     actsAs context ev \<and>
     evPayload ev = FacilitatorReviewed
       \<lparr>fvwDecision = d, fvwDecisionId = recId c, fvwSuggestionId = ivsSuggestionId suggested,
        fvwFacilitatorParticipantId = trim (uctParticipantId context), fvwDisposition = disposition,
        fvwReviewedPremiseIds = ivsAffectedPremiseIds suggested,
        fvwReviewedEvidenceReferenceIds = ivsEvidenceReferenceIds suggested,
        fvwReviewedActionIds = ivsAffectedActionIds suggested, fvwReason = reason\<rparr>"

definition confirmation ::
  "userContext \<Rightarrow> 'x reviewInput_scheme \<Rightarrow> domainEvent list \<Rightarrow> domainEvent list \<Rightarrow> bool" where
  "confirmation context input log batch \<longleftrightarrow>
     mayReview context (mutMeetingId input) \<and> wellPlacedAll (mutMeetingId input) log batch \<and>
     (\<forall>ev \<in> set batch. evScope ev = SharedScope) \<and>
     (\<exists>p c suggested reason held task reviewed required actionHeld created.
        batch = [reviewed, required, actionHeld, created] \<and>
        projectionAt (mutMeetingId input) log p \<and> projected p c \<and> recId c = trim (rvwDecisionId input) \<and>
        decStatus c = AT_RISK \<and> ivsSuggestionId suggested = trim (rvwSuggestionId input) \<and>
        suggestedFor log p c suggested \<and> nonEmptyText (rvwReason input) = Inr reason \<and>
        heldFor p suggested reason held \<and> taskFor c suggested (trim (uctParticipantId context)) task \<and>
        reviewedBy context c (c\<lparr>decStatus := REVIEW_REQUIRED\<rparr>) suggested ConfirmInvalidation reason reviewed \<and>
        evPayload required = DecisionReviewRequired (c\<lparr>decStatus := REVIEW_REQUIRED\<rparr>)
          (ivsSuggestionId suggested) (map recId held) (recId task) \<and>
        evPayload actionHeld = ActionHeld (recId c) (ivsSuggestionId suggested) held \<and>
        evPayload created = ReconsiderationTaskCreated task \<and>
        evCausationId required = Some (evEventId reviewed) \<and>
        evCausationId actionHeld = Some (evEventId required) \<and>
        evCausationId created = Some (evEventId required) \<and>
        (\<forall>ev \<in> {required, actionHeld, created}. evActor ev = SystemActor \<and>
           evCorrelationId ev = evCorrelationId reviewed \<and> evOccurredAt ev = evOccurredAt reviewed))"

definition rejection ::
  "userContext \<Rightarrow> 'x reviewInput_scheme \<Rightarrow> domainEvent list \<Rightarrow> domainEvent list \<Rightarrow> bool" where
  "rejection context input log batch \<longleftrightarrow>
     mayReview context (mutMeetingId input) \<and> wellPlacedAll (mutMeetingId input) log batch \<and>
     (\<forall>ev \<in> set batch. evScope ev = SharedScope) \<and>
     (\<exists>p c suggested reason reviewed.
        batch = [reviewed] \<and>
        projectionAt (mutMeetingId input) log p \<and> projected p c \<and> recId c = trim (rvwDecisionId input) \<and>
        decStatus c = AT_RISK \<and> ivsSuggestionId suggested = trim (rvwSuggestionId input) \<and>
        suggestedFor log p c suggested \<and> nonEmptyText (rvwReason input) = Inr reason \<and>
        reviewedBy context c (c\<lparr>decStatus := MONITORING\<rparr>) suggested RejectSuggestion reason reviewed)"

subsection \<open>Parts\<close>

lemma eventAt_normalized:
  "eventAt select (numberRecords n log) = Inr found \<Longrightarrow>
     (\<exists>evs. normalizeRecords (numberRecords n log) = Inr evs)"
  by (auto simp: eventAt_def result_simps)

lemma normalized_member:
  assumes "normalizeRecords (numberRecords n log) = Inr evs" "ev \<in> set evs"
  obtains old where "old \<in> set log" "evPayload old = evPayload ev" "evIdempotencyKey old = evIdempotencyKey ev"
    "evEventId old = evEventId ev"
proof -
  let ?f = "\<lambda>e. (evPayload e, evIdempotencyKey e, evEventId e)"
  have same: "map ?f evs = map ?f log" by (rule normalizeRecords_keep[OF assms(1)]) simp
  have "?f ev \<in> set (map ?f evs)" unfolding set_map by (rule imageI[OF assms(2)])
  then have "?f ev \<in> ?f ` set log" unfolding same set_map .
  then obtain old where "old \<in> set log" "?f ev = ?f old" by blast
  then show thesis by (intro that[of old]) simp_all
qed

lemma findFirstE_SomeD: "findFirstE p xs = Inr (Some x) \<Longrightarrow> x \<in> set xs \<and> p x = Inr True"
  by (induction xs) (auto simp: result_simps split: if_splits)

lemma hasIdempotencyKey_iff:
  "hasIdempotencyKey (numberRecords n log) k \<longleftrightarrow> (\<exists>ev \<in> set log. evIdempotencyKey ev = Some k)"
  by (induction log arbitrary: n) (auto simp: hasIdempotencyKey_def)

lemma priorReviewBatch_known:
  assumes "priorReviewBatch (numberRecords 1 log) key disposition = Inr (Some batch)"
  shows "\<exists>ev \<in> set log. evIdempotencyKey ev = Some key"
proof -
  obtain evs reviewed where evs: "normalizeRecords (numberRecords 1 log) = Inr evs"
    and "findFirst (\<lambda>ev. facilitatorReviewed (evPayload ev) \<noteq> None \<and> evIdempotencyKey ev = Some key) evs = Some reviewed"
    using assms by (auto simp: priorReviewBatch_def result_simps split: option.splits)
  then have "reviewed \<in> set evs" and key: "evIdempotencyKey reviewed = Some key" by (auto dest: findFirst_SomeD)
  from normalized_member[OF evs this(1)] obtain old where "old \<in> set log" "evIdempotencyKey old = evIdempotencyKey reviewed" .
  with key show ?thesis by auto
qed

lemma priorResolution_known:
  assumes "priorResolution (numberRecords 1 log) key select = Inr (Some prior)"
  shows "\<exists>ev \<in> set log. evIdempotencyKey ev = Some key"
proof -
  obtain evs where evs: "normalizeRecords (numberRecords 1 log) = Inr evs"
    and found: "findFirst (\<lambda>ev. isResolution (evPayload ev) \<and> evIdempotencyKey ev = Some key) evs = Some prior"
    using assms by (auto simp: priorResolution_def result_simps split: option.splits if_splits)
  then have "prior \<in> set evs" and key: "evIdempotencyKey prior = Some key" by (auto dest: findFirst_SomeD)
  from normalized_member[OF evs this(1)] obtain old where "old \<in> set log" "evIdempotencyKey old = evIdempotencyKey prior" .
  with key show ?thesis by auto
qed

lemma review_step:
  "decisionStep c r d \<Longrightarrow> reqTo r = REVIEW_REQUIRED \<Longrightarrow> decStatus c = AT_RISK \<and> d = c\<lparr>decStatus := REVIEW_REQUIRED\<rparr>"
  by (erule decisionStepE) simp_all

lemma dismiss_step:
  assumes "decisionStep c r d" "reqTo r = MONITORING" "reqAuthority r = FacilitatorAuthority f"
  shows "decStatus c = AT_RISK \<and> d = c\<lparr>decStatus := MONITORING\<rparr>"
proof -
  define result where "result x \<longleftrightarrow> x = c\<lparr>decStatus := MONITORING\<rparr>" for x
  from assms(1) have "decStatus c = AT_RISK \<and> result d"
  proof (cases rule: decisionStep.cases)
    case (step_dismiss p why)
    then show ?thesis unfolding result_def by blast
  qed (use assms(2,3) in simp_all)
  then show ?thesis by (simp only: result_def)
qed

lemma heldFor_selected:
  assumes "distinct (map recId (shpActions (mprShared p)))"
    and "holdAffectedActions (shpActions (mprShared p))
      \<lparr>holdAffectedPremiseIds = ivsAffectedPremiseIds suggested,
       holdSuggestedActionIds = ivsAffectedActionIds suggested, holdReason = reason\<rparr> = Inr all"
    (is "holdAffectedActions ?actions ?sel = _")
  shows "heldFor p suggested reason
    (filter (\<lambda>a. List.member (map recId (selectActionsToHold ?actions ?sel)) (recId a)) all)"
proof -
  have rel: "list_all2 (\<lambda>a a'. if selectedForHold ?sel a then holdAction ?sel a = Inr a' else a' = a) ?actions all"
    using holdAffectedActions_spec[OF assms(1)] assms(2) by blast
  have ids: "map recId all = map recId ?actions" by (rule holdAffectedActions_ids[OF assms(2)])
  have member: "List.member (map recId (selectActionsToHold ?actions ?sel)) (recId a) \<longleftrightarrow> selectedForHold ?sel a"
    if "a \<in> set ?actions" for a
    unfolding selectActionsToHold_spec by (rule selected_iff[OF assms(1) that])
  have sel: "selectedForHold ?sel a \<longleftrightarrow> suggestedAction suggested a" for a
    by (simp add: selectedForHold_def suggestedAction_def)
  have held: "\<exists>a \<in> set ?actions. selectedForHold ?sel a \<and>
      a' = a\<lparr>actStatus := Held, actHoldReason := Some reason, recRevision := recRevision a + 1\<rparr>"
    if "a' \<in> set all" "List.member (map recId (selectActionsToHold ?actions ?sel)) (recId a')" for a'
  proof -
    note in_all = that(1) and is_selected = that(2)
    obtain i where i: "i < length all" "a' = all ! i" using in_all unfolding in_set_conv_nth by blast
    then have len: "i < length ?actions" using rel by (simp add: list_all2_lengthD)
    have a: "?actions ! i \<in> set ?actions" using len by simp
    have "recId a' = recId (?actions ! i)" using ids i len by (metis nth_map length_map)
    with is_selected member[OF a] have "selectedForHold ?sel (?actions ! i)" by simp
    with rel i len have "holdAction ?sel (?actions ! i) = Inr a'" by (auto simp: list_all2_conv_all_nth)
    with a \<open>selectedForHold ?sel (?actions ! i)\<close> show ?thesis by (auto simp: holdAction_Inr)
  qed
  have covered: "recId a \<in> recId ` set (filter (\<lambda>a. List.member (map recId (selectActionsToHold ?actions ?sel)) (recId a)) all)"
    if "a \<in> set ?actions" "selectedForHold ?sel a" for a
  proof -
    have "recId a \<in> recId ` set all" using ids that(1) by (metis image_eqI list.set_map)
    then obtain a' where "a' \<in> set all" "recId a = recId a'" by blast
    moreover have "List.member (map recId (selectActionsToHold ?actions ?sel)) (recId a)" using member that by blast
    ultimately show ?thesis by auto
  qed
  show ?thesis unfolding heldFor_def sel[symmetric]
  proof (intro conjI ballI impI)
    fix a' assume "a' \<in> set (filter (\<lambda>a. List.member (map recId (selectActionsToHold ?actions ?sel)) (recId a)) all)"
    then have "a' \<in> set all" "List.member (map recId (selectActionsToHold ?actions ?sel)) (recId a')"
      unfolding set_filter by blast+
    then show "\<exists>a \<in> set ?actions. selectedForHold ?sel a \<and>
        a' = a\<lparr>actStatus := Held, actHoldReason := Some reason, recRevision := recRevision a + 1\<rparr>" by (rule held)
  qed (rule covered)
qed

subsection \<open>Batches\<close>

context command_world
begin

lemma appendMutation_known:
  assumes w: "ok w" "log w = L" and c: "appendMutation deps input f evs p w = (r, w')"
    and known: "\<exists>ev \<in> set (L (mutMeetingId input)). evIdempotencyKey ev = Some (mutIdempotencyKey input)"
  shows "ok w' \<and> log w' = L \<and> (\<forall>a. r = Inr a \<longrightarrow> aprReplayed a)"
proof -
  let ?q = "mutationRequest input f evs"
  let ?m = "mutMeetingId input"
  from c obtain out w1 where ap: "prtAppend deps ?q w = (out, w1)"
    by (cases "prtAppend deps ?q w")
  have notNew: "out \<noteq> Inr (Appended records)" for records
    using append_known[OF w(1)] ap known w(2) by auto
  from append_other[OF w(1) ap notNew] w(2) have keep: "ok w1" "log w1 = L" by auto
  show ?thesis
  proof (cases "\<exists>records. out = Inr (Replayed records)")
    case True
    then obtain records where out: "out = Inr (Replayed records)" by blast
    have r: "bindC (refreshProjection deps ?m p)
        (\<lambda>_. returnC \<lparr>aprReplayed = True, aprRecords = records\<rparr>) w1 = (r, w')"
      using c ap out by (simp add: appendMutation_def bindC_def portC_def mutationRequest_def)
    from afterAppend_cases[OF keep(1) r] keep(2) show ?thesis by auto
  next
    case False
    have "w' = w1 \<and> (\<forall>a. r \<noteq> Inr a)"
    proof (cases out)
      case (Inl e)
      then show ?thesis
        using c ap by (auto simp: appendMutation_def bindC_def portC_def mutationRequest_def)
    next
      case (Inr o1)
      then show ?thesis using c ap notNew False
        by (cases o1) (auto simp: appendMutation_def bindC_def portC_def mutationRequest_def failC_def)
    qed
    with keep show ?thesis by blast
  qed
qed

text \<open>\<open>rep\<close> tells of an answer whether it is a replay.\<close>

lemma affects_replayBatch:
  assumes known: "\<exists>ev \<in> set (L (mutMeetingId input)). evIdempotencyKey ev = Some (mutIdempotencyKey input)"
    and rep: "\<And>records g b. read records = Inr (Some g) \<Longrightarrow> rep (g b) = b"
  shows "affects L (mutMeetingId input) (replayBatch deps input f batch p read) rep Q"
proof (rule affectsI)
  fix w r w' assume w: "ok w" "log w = L" and c: "replayBatch deps input f batch p read w = (r, w')"
  from c[unfolded replayBatch_def] show "ok w' \<and> effect L (mutMeetingId input) rep Q r (log w')"
  proof (cases rule: bindC_cases)
    case (1 e)
    from appendMutation_known[OF w 1(1) known] 1(2) show ?thesis by (auto intro: effect_same)
  next
    case (2 a w1)
    have keep: "ok w1" "log w1 = L" using appendMutation_known[OF w 2(1) known] by auto
    from 2(2) rep have "w' = w1 \<and> (\<forall>s. r = Inr s \<longrightarrow> rep s)"
      by (cases "read (aprRecords a)")
        (auto simp: bindC_def liftC_def raiseC_def returnC_def failC_def split: option.splits)
    with keep show ?thesis by (auto intro: effect_same)
  qed
qed

definition batchAnswered ::
  "(string \<Rightarrow> domainEvent list) \<Rightarrow> string \<Rightarrow> (domainEvent eventRecord list \<Rightarrow> exn + (bool \<Rightarrow> 'a) option) \<Rightarrow>
     (domainEvent list \<Rightarrow> bool) \<Rightarrow> domainEvent list \<Rightarrow> abort + 'a \<Rightarrow> bool" where
  "batchAnswered L m read Q evs r \<longleftrightarrow>
     Q evs \<and> (\<forall>x. r \<noteq> Inl (Failed x)) \<and>
     (\<forall>a. r = Inr a \<longrightarrow>
        (\<exists>g. read (numberRecords (int (length (L m)) + 1) evs) = Inr (Some g) \<and> a = g False))"

lemma affects_appendBatch:
  assumes key: "\<And>ev k. ev \<in> set batch \<Longrightarrow> evIdempotencyKey ev = Some k \<Longrightarrow> mutIdempotencyKey input = k"
    and rep: "\<And>records g b. read records = Inr (Some g) \<Longrightarrow> rep (g b) = b"
    and Q: "mutExpectedPosition input = int (length (L (mutMeetingId input))) \<Longrightarrow>
      \<forall>old \<in> set (L (mutMeetingId input)). evIdempotencyKey old \<noteq> Some (mutIdempotencyKey input) \<Longrightarrow> Q batch"
  shows "affects L (mutMeetingId input) (appendBatch deps input f batch p message read) rep
    (batchAnswered L (mutMeetingId input) read Q)"
proof (rule affectsI)
  let ?m = "mutMeetingId input"
  fix w r w' assume w: "ok w" "log w = L" and c: "appendBatch deps input f batch p message read w = (r, w')"
  have app: "ok w1 \<and> (log w1 = L \<and> (\<forall>a. x = Inr a \<longrightarrow> aprReplayed a) \<or> appendedOnly L input batch x (log w1))"
    if "appendMutation deps input f batch p w = (x, w1)" for x w1
    using appendMutation_cases[OF w that] key by blast
  from c[unfolded appendBatch_def] show "ok w' \<and> effect L ?m rep (batchAnswered L ?m read Q) r (log w')"
  proof (cases rule: bindC_cases)
    case (1 e)
    from app[OF 1(1)] 1(2) Q show ?thesis by (auto simp: appendedOnly_def effect_def batchAnswered_def)
  next
    case (2 a w1)
    from 2(2) have same: "w' = w1" and nofail: "\<forall>x. r \<noteq> Inl (Failed x)"
      and ans: "\<And>s. r = Inr s \<Longrightarrow> \<exists>g. read (aprRecords a) = Inr (Some g) \<and> s = g (aprReplayed a)"
      by (cases "read (aprRecords a)";
          auto simp: bindC_def liftC_def raiseC_def returnC_def split: option.splits)+
    from app[OF 2(1)] show ?thesis
    proof (elim conjE disjE)
      assume "ok w1" "log w1 = L" "\<forall>b. Inr a = Inr b \<longrightarrow> aprReplayed b"
      with same ans rep show ?thesis by (auto intro!: effect_same)
    next
      assume "ok w1" and ao: "appendedOnly L input batch (Inr a) (log w1)"
      then have "\<exists>g. read (numberRecords (int (length (L ?m)) + 1) batch) = Inr (Some g) \<and> s = g False"
        if "r = Inr s" for s
        using ans[OF that] by (auto simp: appendedOnly_def)
      with ao nofail Q same \<open>ok w1\<close> show ?thesis
        unfolding effect_def batchAnswered_def
        by (intro conjI disjI2 exI[of _ batch]) (auto simp: appendedOnly_def)
    qed
  qed
qed

text \<open>The events that \<open>causedEvent\<close> makes.\<close>

definition causedEventOk ::
  "'x mutationInput_scheme \<Rightarrow> domainActor \<Rightarrow> string \<Rightarrow> string \<Rightarrow> string \<Rightarrow> string option \<Rightarrow> int \<Rightarrow>
     domainEventPayload \<Rightarrow> domainEvent \<Rightarrow> bool" where
  "causedEventOk input actor cause correlation occurredAt rawKey position payload ev \<longleftrightarrow>
     evActor ev = actor \<and> meetingId (mutMeetingId input) = Inr (evMeetingId ev) \<and>
     meetingPosition position = Inr (evPosition ev) \<and> evCorrelationId ev = correlation \<and>
     evOccurredAt ev = occurredAt \<and> evCausationId ev = Some (trim cause) \<and>
     evIdempotencyKey ev = map_option trim rawKey \<and> evScope ev = SharedScope \<and> evPayload ev = payload \<and>
     trim (evEventId ev) = evEventId ev"

lemma gives_causedEvent:
  "gives L (causedEvent deps input actor cause correlation occurredAt rawKey position payload)
     (causedEventOk input actor cause correlation occurredAt rawKey position payload)"
proof -
  have "gives L (case rawKey of None \<Rightarrow> returnC None
      | Some k \<Rightarrow> bindC (liftC (idempotencyKey k)) (\<lambda>k'. returnC (Some k'))) (\<lambda>key. key = map_option trim rawKey)"
    by (cases rawKey) (auto intro!: gives_bind[OF gives_lift] gives_return simp: idempotencyKey_def opaqueText_Inr)
  then show ?thesis
    unfolding causedEvent_def
    by (intro gives_bind[OF gives_lift] gives_bind[OF gives_next] gives_bind gives_return)
      (auto simp: causedEventOk_def causationId_def eventId_def opaqueText_Inr)
qed

end

subsection \<open>Reviews\<close>

lemma actsAs_participant:
  "participantId (uctParticipantId context) = Inr f \<Longrightarrow> evActor ev = ParticipantActor f \<Longrightarrow> actsAs context ev"
  by (simp add: actsAs_def)

lemma participantId_trim: "participantId v = Inr f \<Longrightarrow> f = trim v"
  by (simp add: participantId_def opaqueText_Inr)

text \<open>An event made for the next position of a log, with a key that the log does not hold.\<close>

lemma placed_caused:
  assumes "meetingId m = Inr (evMeetingId ev)" "meetingPosition (int (length log) + 1) = Inr (evPosition ev)"
    and "\<And>k old. evIdempotencyKey ev = Some k \<Longrightarrow> old \<in> set log \<Longrightarrow> evIdempotencyKey old \<noteq> Some k" "payloadFits ev"
  shows "wellPlaced m log ev"
  using assms by (simp add: wellPlaced_def)

context command_world
begin

lemma gives_authorizeReview:
  "gives L (authorizeFacilitatorReview context input) (\<lambda>_. mayReview context (mutMeetingId input))"
  using gives_mono[OF gives_unless] by (auto simp: authorizeFacilitatorReview_def mayReview_def)

definition preparedFor ::
  "(string \<Rightarrow> domainEvent list) \<Rightarrow> userContext \<Rightarrow> 'x reviewInput_scheme \<Rightarrow> preparedReview \<Rightarrow> bool" where
  "preparedFor L context input prepared \<longleftrightarrow>
     mayReview context (mutMeetingId input) \<and>
     lstRecords (prwLoaded prepared) = numberRecords 1 (L (mutMeetingId input)) \<and>
     projectionAt (mutMeetingId input) (L (mutMeetingId input)) (lstProjection (prwLoaded prepared)) \<and>
     prwTargetDecisionId prepared = trim (rvwDecisionId input) \<and>
     prwTargetSuggestionId prepared = trim (rvwSuggestionId input) \<and>
     nonEmptyText (rvwReason input) = Inr (prwReason prepared)"

lemma gives_prepareReview:
  "gives L (prepareReview deps context input disposition) (preparedFor L context input)"
  unfolding prepareReview_def
  by (intro gives_try gives_bind[OF gives_authorizeReview] gives_bind[OF gives_lift] gives_bind[OF gives_hash]
      gives_bind[OF gives_loadState] gives_return)
    (auto simp: preparedFor_def projectionAt_def decisionId_def suggestionId_def opaqueText_Inr)

definition reviewing ::
  "(string \<Rightarrow> domainEvent list) \<Rightarrow> 'x reviewInput_scheme \<Rightarrow> preparedReview \<Rightarrow> decision \<Rightarrow> matchedSuggestion \<Rightarrow> bool" where
  "reviewing L input prepared c matched \<longleftrightarrow>
     projected (lstProjection (prwLoaded prepared)) c \<and> recId c = trim (rvwDecisionId input) \<and>
     decStatus c = AT_RISK \<and> ivsSuggestionId (mtsSuggested matched) = trim (rvwSuggestionId input) \<and>
     suggestedFor (L (mutMeetingId input)) (lstProjection (prwLoaded prepared)) c (mtsSuggested matched)"

lemma gives_matched:
  "gives L (findMatchedSuggestion (numberRecords 1 log0) c target) (\<lambda>matched.
     ivsSuggestionId (mtsSuggested matched) = target \<and> ivsDecisionId (mtsSuggested matched) = recId c \<and>
     ivsActiveRevisionId (mtsSuggested matched) = decActiveRevisionId c \<and>
     (\<exists>ev \<in> set log0. evPayload ev = AssumptionInvalidationSuggested (mtsSuggested matched)))"
  unfolding findMatchedSuggestion_def
proof (rule gives_bind[OF gives_lift])
  fix evs assume evs: "normalizeRecords (numberRecords 1 log0) = Inr evs"
  let ?found = "findFirst (\<lambda>ev. map_option ivsSuggestionId (suggestedIn (evPayload ev)) = Some target) evs"
  show "gives L (case ?found of None \<Rightarrow> failC SUGGESTION_NOT_FOUND
     | Some found \<Rightarrow>
         (let suggested = the (suggestedIn (evPayload found)) in
          case findLast (\<lambda>ev. map_option (recId \<circ> fst) (markedAtRisk (evPayload ev)) = Some (recId c)) evs of
            None \<Rightarrow> failC SUGGESTION_MISMATCH
          | Some latest \<Rightarrow>
              bindC (unlessC (suggestionMatches suggested c (the (markedAtRisk (evPayload latest))))
                SUGGESTION_MISMATCH) (\<lambda>_.
              returnC \<lparr>mtsAtRisk = latest, mtsSuggested = suggested\<rparr>)))
     (\<lambda>matched. ivsSuggestionId (mtsSuggested matched) = target \<and> ivsDecisionId (mtsSuggested matched) = recId c \<and>
       ivsActiveRevisionId (mtsSuggested matched) = decActiveRevisionId c \<and>
       (\<exists>ev \<in> set log0. evPayload ev = AssumptionInvalidationSuggested (mtsSuggested matched)))"
  proof (cases ?found)
    case (Some found)
    then have "found \<in> set evs" "map_option ivsSuggestionId (suggestedIn (evPayload found)) = Some target"
      by (auto dest: findFirst_SomeD)
    then obtain v where v: "evPayload found = AssumptionInvalidationSuggested v" "ivsSuggestionId v = target"
      by (auto simp: suggestedIn_def split: domainEventPayload.splits)
    from normalized_member[OF evs \<open>found \<in> set evs\<close>] obtain old where
      "old \<in> set log0" "evPayload old = evPayload found" .
    with v Some show ?thesis
      by (auto intro!: gives_bind[OF gives_unless] gives_return simp: Let_def suggestedIn_def suggestionMatches_def
          split: option.split prod.splits)
  qed simp
qed

lemma gives_reviewTarget:
  assumes "preparedFor L context input prepared"
  shows "gives L (reviewTarget prepared) (\<lambda>(c, matched). reviewing L input prepared c matched)"
proof (cases "findDecision (prwLoaded prepared) (prwTargetDecisionId prepared)")
  case (Some c)
  have records: "lstRecords (prwLoaded prepared) = numberRecords 1 (L (mutMeetingId input))"
    using assms by (simp add: preparedFor_def)
  show ?thesis unfolding reviewTarget_def records using Some findDecision_Some[OF Some] assms
    by (auto intro!: gives_bind[OF gives_unless] gives_bind[OF gives_matched] gives_return
        simp: reviewing_def suggestedFor_def preparedFor_def)
qed (simp add: reviewTarget_def)

lemma gives_makeConfirmation:
  assumes "preparedFor L context input prepared" "reviewing L input prepared c matched"
  shows "gives L (makeConfirmation deps context prepared c matched) (\<lambda>(d, held, task, t).
     d = c\<lparr>decStatus := REVIEW_REQUIRED\<rparr> \<and>
     heldFor (lstProjection (prwLoaded prepared)) (mtsSuggested matched) (prwReason prepared) held \<and>
     taskFor c (mtsSuggested matched) (trim (uctParticipantId context)) task)"
proof -
  have "distinct (map recId (shpActions (mprShared (lstProjection (prwLoaded prepared)))))"
    using projectionAt_meeting assms(1)
    by (auto simp: preparedFor_def projectionOk_def sharedOk_def entitiesOk_def)
  note held = heldFor_selected[OF this, simplified]
  show ?thesis unfolding makeConfirmation_def Let_def
    by (intro gives_try gives_bind[OF gives_lift] gives_bind[OF gives_clock] gives_bind[OF gives_next] gives_return)
      (auto dest!: transition_step review_step participantId_trim
        simp: held plainRequest_def newReconsiderationTask_def createReconsiderationTask_Inr result_simps taskFor_def)
qed

end

text \<open>What the events of a confirmation are, before they are placed in the log.\<close>

definition confirmationMade ::
  "userContext \<Rightarrow> 'x reviewInput_scheme \<Rightarrow> preparedReview \<Rightarrow> decision \<Rightarrow> matchedSuggestion \<Rightarrow> decision \<Rightarrow>
     action list \<Rightarrow> reconsiderationTask \<Rightarrow> domainEvent list \<Rightarrow> bool" where
  "confirmationMade context input prepared c matched d held task batch \<longleftrightarrow>
     (\<exists>reviewed required actionHeld created expected.
        batch = [reviewed, required, actionHeld, created] \<and> expected = mutExpectedPosition input \<and>
        reviewedBy context c d (mtsSuggested matched) ConfirmInvalidation (prwReason prepared) reviewed \<and>
        evPayload required = DecisionReviewRequired d (ivsSuggestionId (mtsSuggested matched)) (map recId held) (recId task) \<and>
        evPayload actionHeld = ActionHeld (recId c) (ivsSuggestionId (mtsSuggested matched)) held \<and>
        evPayload created = ReconsiderationTaskCreated task \<and>
        evCausationId required = Some (evEventId reviewed) \<and>
        evCausationId actionHeld = Some (evEventId required) \<and>
        evCausationId created = Some (evEventId required) \<and>
        (\<forall>ev \<in> {required, actionHeld, created}. evActor ev = SystemActor \<and> evIdempotencyKey ev = None \<and>
           evCorrelationId ev = evCorrelationId reviewed \<and> evOccurredAt ev = evOccurredAt reviewed) \<and>
        evIdempotencyKey reviewed = Some (trim (mutIdempotencyKey input)) \<and>
        (\<forall>ev \<in> set batch. evScope ev = SharedScope \<and> meetingId (mutMeetingId input) = Inr (evMeetingId ev)) \<and>
        meetingPosition (expected + 1) = Inr (evPosition reviewed) \<and>
        meetingPosition (expected + 2) = Inr (evPosition required) \<and>
        meetingPosition (expected + 3) = Inr (evPosition actionHeld) \<and>
        meetingPosition (expected + 4) = Inr (evPosition created))"

context command_world
begin

lemma gives_confirmationEvents:
  "gives L (confirmationEvents deps context input prepared c matched (d, held, task, t))
     (confirmationMade context input prepared c matched d held task)"
  unfolding confirmationEvents_def Let_def prod.case
  by (intro gives_bind[OF gives_correlation] gives_bind[OF gives_lift] gives_bind[OF gives_causedEvent] gives_return)
    (auto simp: confirmationMade_def causedEventOk_def reviewedBy_def reviewOf_def actsAs_def meetingPosition_Inr
      dest: participantId_trim)

end

lemma confirmationMade_placed:
  assumes made: "confirmationMade context input prepared c matched d held task batch"
    and expected: "mutExpectedPosition input = int (length log)"
    and fresh: "\<forall>old \<in> set log. evIdempotencyKey old \<noteq> Some (trim (mutIdempotencyKey input))"
    and m: "meetingId (mutMeetingId input) = Inr (recMeetingId d)" "recMeetingId task = recMeetingId d"
  shows "wellPlacedAll (mutMeetingId input) log batch"
proof -
  obtain reviewed required actionHeld created where batch: "batch = [reviewed, required, actionHeld, created]"
    and payload: "decisionOfPayload (evPayload reviewed) = Some (d, None)" "decisionOfPayload (evPayload required) = Some (d, None)"
      "evPayload actionHeld = ActionHeld (recId c) (ivsSuggestionId (mtsSuggested matched)) held"
      "evPayload created = ReconsiderationTaskCreated task"
    and keys: "evIdempotencyKey reviewed = Some (trim (mutIdempotencyKey input))" "evIdempotencyKey required = None"
      "evIdempotencyKey actionHeld = None" "evIdempotencyKey created = None"
    and scopes: "\<forall>ev \<in> set batch. evScope ev = SharedScope \<and> meetingId (mutMeetingId input) = Inr (evMeetingId ev)"
    and positions: "meetingPosition (mutExpectedPosition input + 1) = Inr (evPosition reviewed)"
      "meetingPosition (mutExpectedPosition input + 2) = Inr (evPosition required)"
      "meetingPosition (mutExpectedPosition input + 3) = Inr (evPosition actionHeld)"
      "meetingPosition (mutExpectedPosition input + 4) = Inr (evPosition created)"
    using made by (auto simp: confirmationMade_def reviewedBy_def)
  have fits: "payloadFits reviewed" "payloadFits required" "payloadFits actionHeld" "payloadFits created"
    using scopes m payload unfolding batch
    by (auto simp: payloadFits_def reduceSharedPayload_def reduceDecision_def validateEntityScope_def result_simps
        split: option.split)
  have "wellPlaced (mutMeetingId input) log reviewed"
    by (rule placed_caused) (use scopes positions keys fits fresh expected batch in auto)
  moreover have "wellPlaced (mutMeetingId input) (log @ [reviewed]) required"
    by (rule placed_caused) (use scopes positions keys fits fresh expected batch in \<open>auto simp: algebra_simps\<close>)
  moreover have "wellPlaced (mutMeetingId input) (log @ [reviewed, required]) actionHeld"
    by (rule placed_caused) (use scopes positions keys fits fresh expected batch in \<open>auto simp: algebra_simps\<close>)
  moreover have "wellPlaced (mutMeetingId input) (log @ [reviewed, required, actionHeld]) created"
    by (rule placed_caused) (use scopes positions keys fits fresh expected batch in \<open>auto simp: algebra_simps\<close>)
  ultimately show ?thesis unfolding batch by simp
qed

lemma confirmationMade_keys:
  "confirmationMade context input prepared c matched d held task batch \<Longrightarrow> ev \<in> set batch \<Longrightarrow>
     evIdempotencyKey ev = Some k \<Longrightarrow> trim (mutIdempotencyKey input) = k"
  by (auto simp: confirmationMade_def)

lemma readConfirmed_rep: "readConfirmed records = Inr (Some g) \<Longrightarrow> rwaReplayed (g b) = b"
  unfolding readConfirmed_def bindE_eq_Inr
  by (elim exE conjE) (auto split: option.splits prod.splits)

lemma readRejected_rep: "readRejected records = Inr (Some g) \<Longrightarrow> rwaReplayed (g b) = b"
  unfolding readRejected_def bindE_eq_Inr
  by (elim exE conjE) (auto split: option.splits prod.splits)

context command_world
begin

lemma confirmInvalidationReview_affects:
  assumes "trim (mutIdempotencyKey input) = mutIdempotencyKey input"
  shows "affects L (mutMeetingId input) (confirmInvalidationReview deps context input) rwaReplayed
    (batchAnswered L (mutMeetingId input) readConfirmed (confirmation context input (L (mutMeetingId input))))"
  unfolding confirmInvalidationReview_def
proof (rule affects_bind[OF gives_prepareReview], rule affects_bind[OF gives_lift])
  let ?m = "mutMeetingId input"
  fix prepared prior
  assume prep: "preparedFor L context input prepared"
    and prior: "priorReviewBatch (lstRecords (prwLoaded prepared)) (mutIdempotencyKey input) ConfirmInvalidation = Inr prior"
  have records: "lstRecords (prwLoaded prepared) = numberRecords 1 (L ?m)"
    and at: "projectionAt ?m (L ?m) (lstProjection (prwLoaded prepared))"
    using prep by (simp_all add: preparedFor_def)
  show "affects L ?m
      (case prior of
         Some batch \<Rightarrow>
           replayBatch deps input (prwFingerprint prepared) batch (uctParticipantId context) readConfirmed
       | None \<Rightarrow>
           bindC (unlessC (\<not> hasIdempotencyKey (lstRecords (prwLoaded prepared)) (mutIdempotencyKey input))
             IDEMPOTENCY_CONFLICT) (\<lambda>_.
           bindC (reviewTarget prepared) (\<lambda>(current, matched).
           bindC (makeConfirmation deps context prepared current matched) (\<lambda>made.
           bindC (confirmationEvents deps context input prepared current matched made) (\<lambda>batch.
           appendBatch deps input (prwFingerprint prepared) batch (uctParticipantId context)
             ''Invalidation confirmation append was incomplete'' readConfirmed)))))
      rwaReplayed (batchAnswered L ?m readConfirmed (confirmation context input (L ?m)))"
  proof (cases prior)
    case (Some batch)
    from priorReviewBatch_known[OF prior[unfolded records Some]] show ?thesis
      unfolding Some by (simp add: affects_replayBatch readConfirmed_rep)
  next
    case None
    show ?thesis unfolding None option.case
    proof (rule affects_bind[OF gives_unless], rule affects_bind2[OF gives_reviewTarget[OF prep]])
      fix c matched
      assume rev: "reviewing L input prepared c matched"
      show "affects L ?m (bindC (makeConfirmation deps context prepared c matched) (\<lambda>made.
           bindC (confirmationEvents deps context input prepared c matched made) (\<lambda>batch.
           appendBatch deps input (prwFingerprint prepared) batch (uctParticipantId context)
             ''Invalidation confirmation append was incomplete'' readConfirmed)))
          rwaReplayed (batchAnswered L ?m readConfirmed (confirmation context input (L ?m)))"
      proof (rule affects_bind[OF gives_makeConfirmation[OF prep rev]], clarify, rule affects_bind[OF gives_confirmationEvents])
        fix d held task t batch
        let ?d = "c\<lparr>decStatus := REVIEW_REQUIRED\<rparr>"
        assume made: "confirmationMade context input prepared c matched ?d held task batch"
          and held: "heldFor (lstProjection (prwLoaded prepared)) (mtsSuggested matched) (prwReason prepared) held"
          and task: "taskFor c (mtsSuggested matched) (trim (uctParticipantId context)) task"
        have m: "meetingId ?m = Inr (recMeetingId ?d)" "recMeetingId task = recMeetingId ?d"
          using projected_meeting[OF at] rev task by (simp_all add: reviewing_def taskFor_def)
        show "affects L ?m (appendBatch deps input (prwFingerprint prepared) batch (uctParticipantId context)
             ''Invalidation confirmation append was incomplete'' readConfirmed)
            rwaReplayed (batchAnswered L ?m readConfirmed (confirmation context input (L ?m)))"
        proof (rule affects_appendBatch)
          assume "mutExpectedPosition input = int (length (L ?m))"
            "\<forall>old \<in> set (L ?m). evIdempotencyKey old \<noteq> Some (mutIdempotencyKey input)"
          then have "wellPlacedAll ?m (L ?m) batch"
            using confirmationMade_placed[OF made _ _ m] assms by simp
          with made held task rev prep show "confirmation context input (L ?m) batch"
            unfolding confirmation_def reviewing_def preparedFor_def confirmationMade_def by blast
        qed (use confirmationMade_keys[OF made] assms readConfirmed_rep in auto)
      qed
    qed
  qed
qed

end

subsection \<open>Rejections\<close>

context command_world
begin

lemma gives_makeRejection:
  "gives L (makeRejection deps context prepared c) (\<lambda>(d, t). d = c\<lparr>decStatus := MONITORING\<rparr>)"
  unfolding makeRejection_def
  by (intro gives_try gives_bind[OF gives_lift] gives_bind[OF gives_clock] gives_return)
    (auto dest!: transition_step dismiss_step simp: plainRequest_def)

definition rejectionMade ::
  "userContext \<Rightarrow> 'x reviewInput_scheme \<Rightarrow> preparedReview \<Rightarrow> decision \<Rightarrow> matchedSuggestion \<Rightarrow> decision \<Rightarrow>
     domainEvent list \<Rightarrow> bool" where
  "rejectionMade context input prepared c matched d batch \<longleftrightarrow>
     (\<exists>reviewed. batch = [reviewed] \<and> evScope reviewed = SharedScope \<and>
        reviewedBy context c d (mtsSuggested matched) RejectSuggestion (prwReason prepared) reviewed \<and>
        evIdempotencyKey reviewed = Some (trim (mutIdempotencyKey input)) \<and>
        meetingId (mutMeetingId input) = Inr (evMeetingId reviewed) \<and>
        meetingPosition (mutExpectedPosition input + 1) = Inr (evPosition reviewed))"

lemma gives_rejectionEvent:
  "gives L (rejectionEvent deps context input prepared c matched (d, t))
     (rejectionMade context input prepared c matched d)"
  unfolding rejectionEvent_def prod.case
  by (intro gives_bind[OF gives_correlation] gives_bind[OF gives_lift] gives_bind[OF gives_causedEvent] gives_return)
    (auto simp: rejectionMade_def causedEventOk_def reviewedBy_def reviewOf_def actsAs_def meetingPosition_Inr
      dest: participantId_trim)

lemma rejectInvalidationReview_affects:
  assumes "trim (mutIdempotencyKey input) = mutIdempotencyKey input"
  shows "affects L (mutMeetingId input) (rejectInvalidationReview deps context input) rwaReplayed
    (batchAnswered L (mutMeetingId input) readRejected (rejection context input (L (mutMeetingId input))))"
  unfolding rejectInvalidationReview_def
proof (rule affects_bind[OF gives_prepareReview], rule affects_bind[OF gives_lift])
  let ?m = "mutMeetingId input"
  fix prepared prior
  assume prep: "preparedFor L context input prepared"
    and prior: "priorReviewBatch (lstRecords (prwLoaded prepared)) (mutIdempotencyKey input) RejectSuggestion = Inr prior"
  have records: "lstRecords (prwLoaded prepared) = numberRecords 1 (L ?m)"
    and at: "projectionAt ?m (L ?m) (lstProjection (prwLoaded prepared))"
    using prep by (simp_all add: preparedFor_def)
  show "affects L ?m
      (case prior of
         Some batch \<Rightarrow>
           replayBatch deps input (prwFingerprint prepared) batch (uctParticipantId context) readRejected
       | None \<Rightarrow>
           bindC (unlessC (\<not> hasIdempotencyKey (lstRecords (prwLoaded prepared)) (mutIdempotencyKey input))
             IDEMPOTENCY_CONFLICT) (\<lambda>_.
           bindC (reviewTarget prepared) (\<lambda>(current, matched).
           bindC (makeRejection deps context prepared current) (\<lambda>made.
           bindC (rejectionEvent deps context input prepared current matched made) (\<lambda>batch.
           appendBatch deps input (prwFingerprint prepared) batch (uctParticipantId context)
             ''Invalidation rejection append returned no review event'' readRejected)))))
      rwaReplayed (batchAnswered L ?m readRejected (rejection context input (L ?m)))"
  proof (cases prior)
    case (Some batch)
    from priorReviewBatch_known[OF prior[unfolded records Some]] show ?thesis
      unfolding Some by (simp add: affects_replayBatch readRejected_rep)
  next
    case None
    show ?thesis unfolding None option.case
    proof (rule affects_bind[OF gives_unless], rule affects_bind2[OF gives_reviewTarget[OF prep]],
        rule affects_bind[OF gives_makeRejection], clarify, rule affects_bind[OF gives_rejectionEvent])
      fix c :: decision and matched d t batch
      let ?d = "c\<lparr>decStatus := MONITORING\<rparr>"
      assume rev: "reviewing L input prepared c matched"
        and made: "rejectionMade context input prepared c matched ?d batch"
      have m: "meetingId ?m = Inr (recMeetingId ?d)"
        using projected_meeting[OF at] rev by (simp add: reviewing_def)
      show "affects L ?m (appendBatch deps input (prwFingerprint prepared) batch (uctParticipantId context)
           ''Invalidation rejection append returned no review event'' readRejected)
          rwaReplayed (batchAnswered L ?m readRejected (rejection context input (L ?m)))"
      proof (rule affects_appendBatch)
        assume pos: "mutExpectedPosition input = int (length (L ?m))"
          "\<forall>old \<in> set (L ?m). evIdempotencyKey old \<noteq> Some (mutIdempotencyKey input)"
        from made obtain reviewed where batch: "batch = [reviewed]"
          and ev: "reviewedBy context c ?d (mtsSuggested matched) RejectSuggestion (prwReason prepared) reviewed"
          by (auto simp: rejectionMade_def)
        have "wellPlaced ?m (L ?m) reviewed"
          by (rule placed_caused)
            (use made pos assms m batch ev in \<open>auto simp: rejectionMade_def reviewedBy_def payloadFits_decision\<close>)
        with batch have "wellPlacedAll ?m (L ?m) batch" by simp
        moreover have "\<forall>ev \<in> set batch. evScope ev = SharedScope" using made by (auto simp: rejectionMade_def)
        ultimately show "rejection context input (L ?m) batch"
          using made rev prep unfolding rejection_def reviewing_def preparedFor_def rejectionMade_def by blast
      qed (use made assms readRejected_rep in \<open>auto simp: rejectionMade_def\<close>)
    qed
  qed
qed

end

subsection \<open>Resolutions\<close>

text \<open>The review that is required of a Decision, on record.\<close>

definition requiredFor :: "domainEvent list \<Rightarrow> decision \<Rightarrow> string \<Rightarrow> bool" where
  "requiredFor log c i \<longleftrightarrow>
     (\<exists>ev \<in> set log. evEventId ev = i \<and> map_option (recId \<circ> fst) (reviewRequiredIn (evPayload ev)) = Some (recId c))"

text \<open>What the event of a resolution is; \<open>P\<close> says what it carries, given the Decision under review.\<close>

definition resolvedBy ::
  "userContext \<Rightarrow> string \<Rightarrow> string \<Rightarrow> (meetingProjection \<Rightarrow> decision \<Rightarrow> domainEventPayload \<Rightarrow> bool) \<Rightarrow>
     domainEvent list \<Rightarrow> domainEvent \<Rightarrow> bool" where
  "resolvedBy context m target P log ev \<longleftrightarrow>
     mayReview context m \<and> actsAs context ev \<and> wellPlaced m log ev \<and> evScope ev = SharedScope \<and>
     (\<exists>p c i. projectionAt m log p \<and> projected p c \<and> recId c = target \<and> decStatus c = REVIEW_REQUIRED \<and>
        hasOwnActiveRevision p c \<and> requiredFor log c i \<and> evCausationId ev = Some (trim i) \<and> P p c (evPayload ev))"

definition recommitCarries ::
  "userContext \<Rightarrow> 'x recommitDecisionInput_scheme \<Rightarrow> meetingProjection \<Rightarrow> decision \<Rightarrow> domainEventPayload \<Rightarrow> bool" where
  "recommitCarries context input p c payload \<longleftrightarrow>
     rciExplicitCommit input \<and> hasCanonicalReferences p c \<and>
     (\<exists>rv. payload = DecisionRevisionCommitted (recommitted c rv) rv \<and> revisionAccepted p rv \<and>
        drvDecisionId rv = recId c \<and> drvVersion rv = decActiveRevision c + 1 \<and>
        drvPreviousRevisionId rv = Some (decActiveRevisionId c) \<and>
        recCreatedBy rv = trim (uctParticipantId context) \<and>
        nonEmptyText (rciTitle input) = Inr (snpTitle (drvSnapshot rv)) \<and>
        nonEmptyText (rciOutcome input) = Inr (snpOutcome (drvSnapshot rv)) \<and>
        nonEmptyText (rciChangeReason input) = Inr (drvChangeReason rv) \<and>
        snpStatus (drvSnapshot rv) = COMMITTED \<and> snpPremiseIds (drvSnapshot rv) = decPremiseIds c \<and>
        snpEvidenceIds (drvSnapshot rv) = decEvidenceIds c \<and> snpDissentIds (drvSnapshot rv) = decDissentIds c \<and>
        snpActionIds (drvSnapshot rv) = decActionIds c \<and>
        monRegistrationId (snpMonitorCondition (drvSnapshot rv)) = None)"

definition supersedeCarries ::
  "'x supersedeDecisionInput_scheme \<Rightarrow> meetingProjection \<Rightarrow> decision \<Rightarrow> domainEventPayload \<Rightarrow> bool" where
  "supersedeCarries input p c payload \<longleftrightarrow>
     (\<exists>new. projected p new \<and> recId new = trim (spiReplacementDecisionId input) \<and> recId new \<noteq> recId c \<and>
        hasOwnActiveRevision p new \<and>
        payload = DecisionSuperseded (c\<lparr>decSupersededBy := Some (recId new), decStatus := SUPERSEDED\<rparr>) (recId new))"

definition rejectCarries ::
  "'x rejectDecisionInput_scheme \<Rightarrow> meetingProjection \<Rightarrow> decision \<Rightarrow> domainEventPayload \<Rightarrow> bool" where
  "rejectCarries input p c payload \<longleftrightarrow>
     (\<exists>reason. nonEmptyText (rjiReason input) = Inr reason \<and>
        payload = DecisionRejected (c\<lparr>decStatus := REJECTED\<rparr>) reason)"

lemma supersede_step:
  assumes "decisionStep c r d" "reqTo r = SUPERSEDED"
  shows "\<exists>i. reqReplacementDecisionId r = Some i \<and> i \<noteq> recId c \<and> d = c\<lparr>decSupersededBy := Some i, decStatus := SUPERSEDED\<rparr>"
proof -
  define result where "result x i \<longleftrightarrow> x = c\<lparr>decSupersededBy := Some i, decStatus := SUPERSEDED\<rparr>" for x i
  from assms(1) have "\<exists>i. reqReplacementDecisionId r = Some i \<and> i \<noteq> recId c \<and> result d i"
  proof (cases rule: decisionStep.cases)
    case (step_supersede p i)
    then show ?thesis unfolding result_def by blast
  qed (use assms(2) in simp_all)
  then show ?thesis by (simp only: result_def)
qed

lemma reject_step:
  "decisionStep c r d \<Longrightarrow> reqTo r = REJECTED \<Longrightarrow> d = c\<lparr>decStatus := REJECTED\<rparr>"
  by (erule decisionStepE) simp_all

lemma recommit_step:
  assumes "decisionStep c r d" "reqTo r = COMMITTED" "reqRevision r = Some rv"
  shows "decStatus c = REVIEW_REQUIRED \<longrightarrow> d = recommitted c rv"
proof -
  define result where "result x \<longleftrightarrow> x = recommitted c rv" for x
  from assms(1) have "decStatus c = REVIEW_REQUIRED \<longrightarrow> result d"
  proof (cases rule: decisionStep.cases)
    case (step_recommit p rv')
    with assms(3) show ?thesis unfolding result_def by simp
  qed (use assms(2) in simp_all)
  then show ?thesis by (simp only: result_def)
qed

lemma readResolution_rep: "readResolution select records = Inr (Some g) \<Longrightarrow> rslReplayed (g b) = b"
  unfolding readResolution_def bindE_eq_Inr
  by (elim exE conjE) (auto split: prod.splits)

lemma findCurrentReviewRequired_on_record:
  assumes "findCurrentReviewRequired (numberRecords 1 log) c = Inr (Some required)"
  shows "requiredFor log c (evEventId required)"
proof -
  obtain evs where evs: "normalizeRecords (numberRecords 1 log) = Inr evs"
    and found: "findLast (\<lambda>ev. map_option (recId \<circ> fst) (reviewRequiredIn (evPayload ev)) = Some (recId c)) evs = Some required"
    using assms unfolding findCurrentReviewRequired_def bindE_eq_Inr
    by (elim exE conjE) (auto split: option.splits if_splits)
  from found have "required \<in> set evs" and payload: "map_option (recId \<circ> fst) (reviewRequiredIn (evPayload required)) = Some (recId c)"
    using findFirst_SomeD[of _ "rev evs" required] unfolding findLast_def set_rev by blast+
  from normalized_member[OF evs this(1)] obtain old where
    "old \<in> set log" "evPayload old = evPayload required" "evEventId old = evEventId required" .
  with payload show ?thesis by (auto simp: requiredFor_def)
qed

context command_world
begin

text \<open>\<open>resolving\<close>: the Decision of the target, under a review that is on record.\<close>

definition resolving ::
  "domainEvent list \<Rightarrow> loadedState \<Rightarrow> string \<Rightarrow> decision \<Rightarrow> domainEvent \<Rightarrow> bool" where
  "resolving log0 loaded target c required \<longleftrightarrow>
     projected (lstProjection loaded) c \<and> recId c = target \<and> decStatus c = REVIEW_REQUIRED \<and>
     hasOwnActiveRevision (lstProjection loaded) c \<and> requiredFor log0 c (evEventId required)"

lemma gives_currentDecision:
  assumes "lstRecords loaded = numberRecords 1 log0"
  shows "gives L (currentDecision loaded target) (\<lambda>(c, required). resolving log0 loaded target c required)"
proof (cases "findDecision loaded target")
  case (Some c)
  show ?thesis unfolding currentDecision_def assms using Some findDecision_Some[OF Some]
    by (auto intro!: gives_bind[OF gives_unless] gives_bind[OF gives_lift] gives_return
        simp: resolving_def findCurrentReviewRequired_on_record split: option.split)
qed (simp add: currentDecision_def)

lemma gives_checkMutation: "gives L (checkMutation context input) (\<lambda>_. True)"
  unfolding checkMutation_def
  by (intro gives_bind[OF gives_lift] gives_mono[OF gives_lift]) simp

definition resolutionMade ::
  "userContext \<Rightarrow> 'x mutationInput_scheme \<Rightarrow> domainEvent \<Rightarrow> domainEventPayload \<Rightarrow> domainEvent \<Rightarrow> bool" where
  "resolutionMade context input required payload ev \<longleftrightarrow>
     actsAs context ev \<and> evScope ev = SharedScope \<and> evCausationId ev = Some (trim (evEventId required)) \<and>
     evPayload ev = payload \<and> evIdempotencyKey ev = Some (trim (mutIdempotencyKey input)) \<and>
     meetingId (mutMeetingId input) = Inr (evMeetingId ev) \<and>
     meetingPosition (mutExpectedPosition input + 1) = Inr (evPosition ev)"

lemma gives_resolutionEvent:
  "gives L (resolutionEvent deps context input required t payload) (resolutionMade context input required payload)"
  unfolding resolutionEvent_def
  by (intro gives_bind[OF gives_lift] gives_bind[OF gives_correlation] gives_mono[OF gives_causedEvent])
    (auto simp: resolutionMade_def causedEventOk_def actsAs_def participantActor_Inr)

lemma resolveReview_affects:
  assumes key: "trim (mutIdempotencyKey input) = mutIdempotencyKey input"
    and validate: "gives L validate (\<lambda>(v, f). V v)"
    and resolve: "\<And>v loaded. V v \<Longrightarrow> lstRecords loaded = numberRecords 1 (L (mutMeetingId input)) \<Longrightarrow>
      projectionAt (mutMeetingId input) (L (mutMeetingId input)) (lstProjection loaded) \<Longrightarrow>
      gives L (resolve v loaded) (\<lambda>(required, t, payload).
        \<exists>c. resolving (L (mutMeetingId input)) loaded target c required \<and> P (lstProjection loaded) c payload)"
    and payload: "\<And>p c x. P p c x \<Longrightarrow> \<exists>d rv. decisionOfPayload x = Some (d, rv) \<and> recMeetingId d = recMeetingId c"
  shows "affects L (mutMeetingId input) (resolveReview deps context input validate select message resolve) rslReplayed
    (batchAnswered L (mutMeetingId input) (readResolution select)
      (\<lambda>evs. \<exists>ev. evs = [ev] \<and> resolvedBy context (mutMeetingId input) target P (L (mutMeetingId input)) ev))"
    (is "affects L ?m _ _ ?answered")
  unfolding resolveReview_def
proof (rule affects_bind[OF gives_authorizeReview], rule affects_bind2[OF gives_try[OF validate]],
    rule affects_bind[OF gives_loadState], elim conjE, rule affects_bind[OF gives_lift])
  fix v f prior and loaded :: loadedState
  assume may: "mayReview context ?m" and v: "V v" and records: "lstRecords loaded = numberRecords 1 (L ?m)"
    and at0: "projectRecords ?m (numberRecords 1 (L ?m)) = Inr (lstProjection loaded)"
    and prior: "priorResolution (lstRecords loaded) (mutIdempotencyKey input) select = Inr prior"
  have at: "projectionAt ?m (L ?m) (lstProjection loaded)" using at0 by (simp add: projectionAt_def)
  show "affects L ?m
      (case prior of
         Some event \<Rightarrow> replayBatch deps input f [event] (uctParticipantId context) (readResolution select)
       | None \<Rightarrow>
           bindC (unlessC (\<not> hasIdempotencyKey (lstRecords loaded) (mutIdempotencyKey input)) IDEMPOTENCY_CONFLICT) (\<lambda>_.
           bindC (resolve v loaded) (\<lambda>(required, occurredAt, payload).
           bindC (resolutionEvent deps context input required occurredAt payload) (\<lambda>event.
           appendBatch deps input f [event] (uctParticipantId context) message (readResolution select)))))
      rslReplayed ?answered"
  proof (cases prior)
    case (Some event)
    from priorResolution_known[OF prior[unfolded records Some]] show ?thesis
      unfolding Some by (simp add: affects_replayBatch readResolution_rep)
  next
    case None
    show ?thesis unfolding None option.case
    proof (rule affects_bind[OF gives_unless], rule affects_bind[OF resolve[OF v records at]], clarify,
        rule affects_bind[OF gives_resolutionEvent])
      fix required t payload c ev
      assume res: "resolving (L ?m) loaded target c required" and carries: "P (lstProjection loaded) c payload"
        and made: "resolutionMade context input required payload ev"
      show "affects L ?m (appendBatch deps input f [ev] (uctParticipantId context) message (readResolution select))
          rslReplayed ?answered"
      proof (rule affects_appendBatch)
        assume pos: "mutExpectedPosition input = int (length (L ?m))"
          "\<forall>old \<in> set (L ?m). evIdempotencyKey old \<noteq> Some (mutIdempotencyKey input)"
        obtain d rv where d: "decisionOfPayload payload = Some (d, rv)" "recMeetingId d = recMeetingId c"
          using local.payload[OF carries] by blast
        have "meetingId ?m = Inr (recMeetingId c)"
          using projected_meeting[OF at] res by (simp add: resolving_def)
        then have "wellPlaced ?m (L ?m) ev"
          by (intro placed_caused)
            (use made pos key d in \<open>auto simp: resolutionMade_def payloadFits_decision\<close>)
        with may made res at carries show "\<exists>ev'. [ev] = [ev'] \<and> resolvedBy context ?m target P (L ?m) ev'"
          unfolding resolvedBy_def resolutionMade_def resolving_def by blast
      qed (use made key readResolution_rep in \<open>auto simp: resolutionMade_def\<close>)
    qed
  qed
qed

end

lemma supersedeCarriesI:
  "projected p new \<Longrightarrow> recId new = i \<Longrightarrow> i = trim (spiReplacementDecisionId input) \<Longrightarrow> recId new \<noteq> recId c \<Longrightarrow>
     hasOwnActiveRevision p new \<Longrightarrow>
     supersedeCarries input p c (DecisionSuperseded (c\<lparr>decSupersededBy := Some i, decStatus := SUPERSEDED\<rparr>) i)"
  by (auto simp: supersedeCarries_def)

context command_world
begin

lemma gives_replacementFor:
  "gives L (replacementFor loaded c i) (\<lambda>_. \<exists>new. projected (lstProjection loaded) new \<and> recId new = i \<and>
     recId new \<noteq> recId c \<and> hasOwnActiveRevision (lstProjection loaded) new)"
proof (cases "findDecision loaded i")
  case (Some new)
  show ?thesis unfolding replacementFor_def using Some findDecision_Some[OF Some]
    by (auto intro!: gives_mono[OF gives_unless])
qed (simp add: replacementFor_def)

lemma gives_makeSupersede:
  "gives L (makeSupersede deps context i c) (\<lambda>(d, t). d = c\<lparr>decSupersededBy := Some i, decStatus := SUPERSEDED\<rparr>)"
  unfolding makeSupersede_def
  by (intro gives_try gives_bind[OF gives_lift] gives_bind[OF gives_clock] gives_return)
    (auto dest!: transition_step supersede_step simp: plainRequest_def)

lemma gives_makeReject:
  "gives L (makeReject deps context why c) (\<lambda>(d, t). d = c\<lparr>decStatus := REJECTED\<rparr>)"
  unfolding makeReject_def
  by (intro gives_try gives_bind[OF gives_lift] gives_bind[OF gives_clock] gives_return)
    (auto dest!: transition_step reject_step simp: plainRequest_def)

lemma gives_makeRecommit:
  assumes "decStatus c = REVIEW_REQUIRED"
  shows "gives L (makeRecommit deps context loaded values c) (\<lambda>(d, rv, t).
     d = recommitted c rv \<and> revisionAccepted (lstProjection loaded) rv \<and> drvDecisionId rv = recId c \<and>
     drvVersion rv = decActiveRevision c + 1 \<and> drvPreviousRevisionId rv = Some (decActiveRevisionId c) \<and>
     recCreatedBy rv = trim (uctParticipantId context) \<and> drvChangeReason rv = rcvChangeReason values \<and>
     drvSnapshot rv = \<lparr>snpTitle = rcvTitle values, snpOutcome = rcvOutcome values, snpStatus = COMMITTED,
       snpPremiseIds = decPremiseIds c, snpEvidenceIds = decEvidenceIds c, snpDissentIds = decDissentIds c,
       snpActionIds = decActionIds c,
       snpMonitorCondition = \<lparr>monDescription = rcvMonitorDescription values, monRegistrationId = None\<rparr>\<rparr>)"
proof -
  have made: "recId rv = nriId input \<and> drvDecisionId rv = recId c \<and> drvVersion rv = decActiveRevision c + 1 \<and>
      drvPreviousRevisionId rv = Some (decActiveRevisionId c) \<and> drvSnapshot rv = nriSnapshot input \<and>
      recCreatedBy rv = nriCreatedBy input \<and> drvChangeReason rv = nriChangeReason input"
    if "nextDecisionRevision c input = Inr rv" for rv input
    using that by (auto simp: nextDecisionRevision_def result_simps createDecisionRevision_Inr revisionNumber_Inr)
  show ?thesis unfolding makeRecommit_def
    by (intro gives_try gives_bind[OF gives_lift] gives_bind[OF gives_clock] gives_bind[OF gives_next] gives_return)
      (use assms in \<open>auto dest!: transition_step recommit_step made participantId_trim
        simp: plainRequest_def revisionAccepted_def\<close>)
qed

lemma supersedeDecision_affects:
  fixes input :: "'x supersedeDecisionInput_scheme"
  assumes "trim (mutIdempotencyKey input) = mutIdempotencyKey input"
  shows "affects L (mutMeetingId input) (supersedeDecision deps context input) rslReplayed
    (batchAnswered L (mutMeetingId input) (readResolution superseded)
      (\<lambda>evs. \<exists>ev. evs = [ev] \<and> resolvedBy context (mutMeetingId input) (trim (spiDecisionId input))
         (supersedeCarries input) (L (mutMeetingId input)) ev))"
  unfolding supersedeDecision_def
proof (rule resolveReview_affects[OF assms, where V = "\<lambda>(target, replacement).
    target = trim (spiDecisionId input) \<and> replacement = trim (spiReplacementDecisionId input)"], goal_cases)
  case 1
  show ?case unfolding validateSupersede_def
    by (intro gives_bind[OF gives_lift] gives_bind[OF gives_checkMutation] gives_bind[OF gives_hash] gives_return)
      (simp add: decisionId_def opaqueText_Inr)
next
  case (2 v loaded)
  obtain target replacement where v: "v = (target, replacement)" by (cases v)
  show ?case unfolding v prod.case
    by (rule gives_bind[OF gives_currentDecision[OF 2(2)]], clarify, rule gives_bind[OF gives_replacementFor],
        rule gives_bind[OF gives_makeSupersede], clarify, rule gives_return)
      (use 2(1) in \<open>fastforce simp: v intro: supersedeCarriesI\<close>)
next
  case (3 p c x)
  then show ?case by (auto simp: supersedeCarries_def)
qed

lemma rejectDecision_affects:
  fixes input :: "'x rejectDecisionInput_scheme"
  assumes "trim (mutIdempotencyKey input) = mutIdempotencyKey input"
  shows "affects L (mutMeetingId input) (rejectDecision deps context input) rslReplayed
    (batchAnswered L (mutMeetingId input) (readResolution rejectedDecision)
      (\<lambda>evs. \<exists>ev. evs = [ev] \<and> resolvedBy context (mutMeetingId input) (trim (rjiDecisionId input))
         (rejectCarries input) (L (mutMeetingId input)) ev))"
  unfolding rejectDecision_def
proof (rule resolveReview_affects[OF assms, where V = "\<lambda>(target, reason).
    target = trim (rjiDecisionId input) \<and> nonEmptyText (rjiReason input) = Inr reason"], goal_cases)
  case 1
  show ?case unfolding validateReject_def
    by (intro gives_bind[OF gives_lift] gives_bind[OF gives_checkMutation] gives_bind[OF gives_hash] gives_return)
      (simp add: decisionId_def opaqueText_Inr)
next
  case (2 v loaded)
  obtain target reason where v: "v = (target, reason)" by (cases v)
  show ?case unfolding v prod.case
    by (rule gives_bind[OF gives_currentDecision[OF 2(2)]], clarify,
        rule gives_bind[OF gives_makeReject], clarify, rule gives_return)
      (use 2(1) in \<open>auto simp: v rejectCarries_def\<close>)
next
  case (3 p c x)
  then show ?case by (auto simp: rejectCarries_def)
qed

lemma recommitDecision_affects:
  fixes input :: "'x recommitDecisionInput_scheme"
  assumes "trim (mutIdempotencyKey input) = mutIdempotencyKey input"
  shows "affects L (mutMeetingId input) (recommitDecision deps context input) rslReplayed
    (batchAnswered L (mutMeetingId input) (readResolution revisionCommitted)
      (\<lambda>evs. \<exists>ev. evs = [ev] \<and> resolvedBy context (mutMeetingId input) (trim (rciDecisionId input))
         (recommitCarries context input) (L (mutMeetingId input)) ev))"
  unfolding recommitDecision_def
proof (rule resolveReview_affects[OF assms, where V = "\<lambda>values.
    rcvTarget values = trim (rciDecisionId input) \<and> nonEmptyText (rciTitle input) = Inr (rcvTitle values) \<and>
    nonEmptyText (rciOutcome input) = Inr (rcvOutcome values) \<and>
    nonEmptyText (rciChangeReason input) = Inr (rcvChangeReason values)"], goal_cases)
  case 1
  show ?case unfolding validateRecommit_def
    by (intro gives_bind[OF gives_lift] gives_bind[OF gives_checkMutation] gives_bind[OF gives_hash] gives_return)
      (simp add: decisionId_def opaqueText_Inr)
next
  case (2 vals loaded)
  show ?case
  proof (rule gives_bind[OF gives_unless], rule gives_bind[OF gives_currentDecision[OF 2(2)]], clarify,
      rule gives_bind[OF gives_unless])
    fix c required
    assume res: "resolving (L (mutMeetingId input)) loaded (rcvTarget vals) c required"
      and refs: "rciExplicitCommit input" "hasCanonicalReferences (lstProjection loaded) c"
    then have "decStatus c = REVIEW_REQUIRED" by (simp add: resolving_def)
    note recommit = gives_makeRecommit[OF this]
    show "gives L (bindC (makeRecommit deps context loaded vals c) (\<lambda>(d, revision, occurredAt).
          returnC (required, occurredAt, DecisionRevisionCommitted d revision)))
        (\<lambda>(required, t, payload). \<exists>c. resolving (L (mutMeetingId input)) loaded (trim (rciDecisionId input)) c required \<and>
          recommitCarries context input (lstProjection loaded) c payload)"
      by (rule gives_bind[OF recommit], clarify, intro gives_return)
        (use 2(1) res refs in \<open>auto simp: recommitCarries_def\<close>)
  qed
next
  case (3 p c x)
  then show ?case by (auto simp: recommitCarries_def recommitted_def)
qed

end

end
