(* ===== verification/ExternalEvents.thy ===== *)
theory ExternalEvents
  imports Decisions
begin

section \<open>Events from outside: \<open>packages/application/src/external-events.ts\<close>\<close>

text \<open>
  A regulatory change arrives from a monitor's webhook, or a facilitator injects the staged one of the demo. It
  becomes one shared event of the meeting if a monitored Decision waits for it. The key of the append is the
  identifier of the outside event, so that a redelivery is answered from the log.
\<close>

record regulatoryChange =
  rgcCorrelationId :: "string option"
  rgcDescription :: string
  rgcEffectiveAt :: string
  rgcEventId :: string
  rgcEventType :: string
  rgcJurisdiction :: string
  rgcMeetingId :: string
  rgcMonitorRegistrationId :: string
  rgcPayloadHash :: string
  rgcSource :: string
  rgcSourceReference :: string

datatype externalEventActor = ExternalSystem | ExternalParticipant string

record receivedChange =
  rchCorrelationId :: string
  rchEvent :: externalEvent
  rchPosition :: int
  rchReplayed :: bool

record injectDemoInput =
  idiCorrelationId :: "string option"
  idiIdempotencyKey :: string
  idiMeetingId :: string

definition externalEventIn :: "domainEventPayload \<Rightarrow> externalEvent option" where
  "externalEventIn p = (case p of ExternalEventReceived x \<Rightarrow> Some x | _ \<Rightarrow> None)"

subsection \<open>Appending without a mutation\<close>

text \<open>An append whose conflict reports the actual position only; the projection is not refreshed here.\<close>

definition appendRequest ::
  "'w ports \<Rightarrow> domainEvent appendEventsRequest \<Rightarrow> ('w, appendResult) command" where
  "appendRequest deps request =
     bindC (portC (prtAppend deps request)) (\<lambda>result.
     case result of
       AppendIdempotencyConflict _ \<Rightarrow> failC IDEMPOTENCY_CONFLICT
     | PositionConflict actual _ \<Rightarrow> (\<lambda>w. (Inl (Failed (PositionFailure actual)), w))
     | Appended records \<Rightarrow> returnC \<lparr>aprReplayed = False, aprRecords = records\<rparr>
     | Replayed records \<Rightarrow> returnC \<lparr>aprReplayed = True, aprRecords = records\<rparr>)"

definition lastPosition :: "domainEvent eventRecord list \<Rightarrow> int" where
  "lastPosition records = (if records = [] then 0 else ercPosition (last records))"

definition putMeeting :: "'w ports \<Rightarrow> string \<Rightarrow> meetingProjection \<Rightarrow> ('w, unit) command" where
  "putMeeting deps m projection =
     portC (prtPut deps \<lparr>pscMeetingId = m, pscOwnerParticipantId = None, pscProjection = ''meeting''\<rparr> projection)"

definition changeRequest ::
  "regulatoryChange \<Rightarrow> domainEvent \<Rightarrow> int \<Rightarrow> domainEvent appendEventsRequest" where
  "changeRequest input ev expected =
     \<lparr>aprEvents = [ev], aprExpectedPosition = Some expected, aprIdempotencyKey = Some (rgcEventId input),
      aprMeetingId = rgcMeetingId input, aprPayloadFingerprint = Some (rgcPayloadHash input),
      aprTrustFingerprint = Some True\<rparr>"

definition receivedAnswer :: "bool \<Rightarrow> domainEvent \<times> externalEvent \<Rightarrow> receivedChange" where
  "receivedAnswer replayed found =
     \<lparr>rchCorrelationId = evCorrelationId (fst found), rchEvent = snd found,
      rchPosition = evPosition (fst found), rchReplayed = replayed\<rparr>"

subsection \<open>Receiving\<close>

definition monitoredBy :: "string \<Rightarrow> decision \<Rightarrow> bool" where
  "monitoredBy registration d \<longleftrightarrow>
     decStatus d = MONITORING \<and> monRegistrationId (decMonitorCondition d) = Some registration"

definition makeExternalEvent ::
  "externalEventActor \<Rightarrow> regulatoryChange \<Rightarrow> string \<Rightarrow> string \<Rightarrow> string \<Rightarrow> exn + externalEvent" where
  "makeExternalEvent actor input scope registration receivedAt =
     bindE (case actor of ExternalSystem \<Rightarrow> Inr ''system'' | ExternalParticipant p \<Rightarrow> participantId p) (\<lambda>createdBy.
     bindE (nonEmptyText (rgcDescription input)) (\<lambda>description.
     bindE (timestamp (rgcEffectiveAt input)) (\<lambda>effectiveAt.
     bindE (nonEmptyText (rgcEventType input)) (\<lambda>eventType.
     bindE (externalEventId (rgcEventId input)) (\<lambda>i.
     bindE (nonEmptyText (rgcJurisdiction input)) (\<lambda>jurisdiction.
     bindE (contentHash (rgcPayloadHash input)) (\<lambda>payloadHash.
     bindE (revisionNumber 1) (\<lambda>one.
     bindE (nonEmptyText (rgcSource input)) (\<lambda>source.
     bindE (nonEmptyText (rgcSourceReference input)) (\<lambda>sourceReference.
     createExternalEvent
       \<lparr>recId = i, recMeetingId = scope, recCreatedAt = receivedAt, recCreatedBy = createdBy,
        recOrigin = (case actor of ExternalSystem \<Rightarrow> SystemOrigin | ExternalParticipant _ \<Rightarrow> HumanInput),
        recConfirmation = NotApplicable, recRevision = one, recVisibility = Shared, recOwner = None,
        extDescription = description, extEventType = eventType, extMonitorRegistrationId = registration,
        extPayloadHash = payloadHash, extSchemaVersion = one, extSource = source,
        extSourceReference = sourceReference, extJurisdiction = jurisdiction, extEffectiveAt = effectiveAt,
        extReceivedAt = receivedAt,
        extSignatureResult = (case actor of ExternalSystem \<Rightarrow> ValidSignature | ExternalParticipant _ \<Rightarrow> NoSignature)\<rparr>
     ))))))))))"

definition changeEnvelope ::
  "'w ports \<Rightarrow> externalEventActor \<Rightarrow> regulatoryChange \<Rightarrow> string \<Rightarrow> string \<Rightarrow> string \<Rightarrow> int \<Rightarrow>
     ('w, domainEvent) command" where
  "changeEnvelope deps actor input key scope registration currentPosition =
     tryC validationHandler
       (bindC (clockNow deps) (\<lambda>receivedAt.
        bindC (liftC (case actor of
                        ExternalSystem \<Rightarrow> Inr SystemActor
                      | ExternalParticipant p \<Rightarrow> bindE (participantId p) (\<lambda>q. Inr (ParticipantActor q))))
          (\<lambda>eventActor.
        bindC (liftC (makeExternalEvent actor input scope registration receivedAt)) (\<lambda>external.
        bindC (case rgcCorrelationId input of
                 Some c \<Rightarrow> returnC c | None \<Rightarrow> readC (prtNext deps ''correlation'')) (\<lambda>c.
        bindC (liftC (correlationId c)) (\<lambda>correlation.
        bindC (readC (prtNext deps ''event'')) (\<lambda>i.
        bindC (liftC (eventId i)) (\<lambda>evId.
        bindC (liftC (meetingPosition (currentPosition + 1))) (\<lambda>position.
        bindC (liftC (schemaVersion 1)) (\<lambda>version.
        returnC \<lparr>evEventId = evId, evSchemaVersion = version, evMeetingId = scope, evPosition = position,
          evActor = eventActor, evOccurredAt = receivedAt, evCorrelationId = correlation,
          evCausationId = None, evIdempotencyKey = Some key, evScope = SharedScope,
          evPayload = ExternalEventReceived external\<rparr>))))))))))"

definition replayChange ::
  "'w ports \<Rightarrow> regulatoryChange \<Rightarrow> domainEvent eventRecord \<Rightarrow> ('w, receivedChange) command" where
  "replayChange deps input prior =
     bindC (appendRequest deps (changeRequest input (ercEvent prior) (ercPosition prior - 1))) (\<lambda>replay.
     bindC (liftC (eventAt externalEventIn (aprRecords replay))) (\<lambda>found.
     case found of None \<Rightarrow> failC IDEMPOTENCY_CONFLICT | Some x \<Rightarrow> returnC (receivedAnswer True x)))"

definition appendChange ::
  "'w ports \<Rightarrow> regulatoryChange \<Rightarrow> string \<Rightarrow> domainEvent \<Rightarrow> int \<Rightarrow> ('w, receivedChange) command" where
  "appendChange deps input scope ev currentPosition =
     bindC (appendRequest deps (changeRequest input ev currentPosition)) (\<lambda>appended.
     bindC (liftC (eventAt externalEventIn (aprRecords appended))) (\<lambda>found.
     case found of
       None \<Rightarrow> raiseC (JsError ''External event append returned no receipt'')
     | Some x \<Rightarrow>
         bindC (portC (prtLoad deps (rgcMeetingId input))) (\<lambda>records.
         bindC (liftC (bindE (normalizeRecords records) (replayMeeting scope))) (\<lambda>refreshed.
         bindC (putMeeting deps (rgcMeetingId input) refreshed) (\<lambda>_.
         returnC (receivedAnswer (aprReplayed appended) x))))))"

definition receiveRegulatoryChange ::
  "'w ports \<Rightarrow> externalEventActor \<Rightarrow> regulatoryChange \<Rightarrow> ('w, receivedChange) command" where
  "receiveRegulatoryChange deps actor input =
     bindC (tryC validationHandler
       (bindC (liftC (idempotencyKey (rgcEventId input))) (\<lambda>key.
        bindC (liftC (meetingId (rgcMeetingId input))) (\<lambda>scope.
        returnC (key, scope))))) (\<lambda>(key, scope).
     bindC (portC (prtLoad deps (rgcMeetingId input))) (\<lambda>records.
     case idempotentRecord records (rgcEventId input) of
       Some prior \<Rightarrow> replayChange deps input prior
     | None \<Rightarrow>
         bindC (liftC (bindE (normalizeRecords records) (replayMeeting scope))) (\<lambda>projection.
         bindC (liftC (monitorRegistrationId (rgcMonitorRegistrationId input))) (\<lambda>registration.
         bindC (unlessC (list_ex (monitoredBy registration) (shpDecisions (mprShared projection)))
           MONITOR_REGISTRATION_NOT_FOUND) (\<lambda>_.
         bindC (changeEnvelope deps actor input key scope registration (lastPosition records)) (\<lambda>ev.
         appendChange deps input scope ev (lastPosition records)))))))"

subsection \<open>The staged event of the demo\<close>

definition demoChange :: "injectDemoInput \<Rightarrow> string \<Rightarrow> regulatoryChange" where
  "demoChange input registration =
     \<lparr>rgcCorrelationId = idiCorrelationId input,
      rgcDescription = ''Staged demo event: a synthetic regional regulation changes the approval gate.'',
      rgcEffectiveAt = ''2026-08-01T00:00:00.000Z'',
      rgcEventId = ''demo-regulator:'' @ idiIdempotencyKey input, rgcEventType = ''regulatory_change'',
      rgcJurisdiction = ''European Union'', rgcMeetingId = idiMeetingId input,
      rgcMonitorRegistrationId = registration,
      rgcPayloadHash = ''sha256:c3RhZ2VkLWRlbW8tcmVndWxhdG9yeS1ldmVudA'',
      rgcSource = ''Counterpoint staged synthetic regulator'',
      rgcSourceReference = ''demo://regulatory-change/eu-approval-gate''\<rparr>"

definition demoRegistration :: "domainEvent list \<Rightarrow> string \<Rightarrow> meetingProjection \<Rightarrow> string option" where
  "demoRegistration evs demoEventId projection =
     (let monitored = findFirst (\<lambda>d. decStatus d = MONITORING \<and> monRegistrationId (decMonitorCondition d) \<noteq> None)
           (shpDecisions (mprShared projection)) in
      case findFirst (\<lambda>ev. map_option recId (externalEventIn (evPayload ev)) = Some demoEventId) evs of
        Some prior \<Rightarrow> map_option extMonitorRegistrationId (externalEventIn (evPayload prior))
      | None \<Rightarrow> Option.bind monitored (\<lambda>d. monRegistrationId (decMonitorCondition d)))"

definition injectDemoRegulatoryChange ::
  "'w ports \<Rightarrow> userContext \<Rightarrow> injectDemoInput \<Rightarrow> ('w, receivedChange) command" where
  "injectDemoRegulatoryChange deps context input =
     bindC (unlessC (mayUse context DemoEventInject (idiMeetingId input) \<and> uctRole context = FacilitatorRole)
       FORBIDDEN) (\<lambda>_.
     bindC (portC (prtLoad deps (idiMeetingId input))) (\<lambda>records.
     bindC (liftC (normalizeRecords records)) (\<lambda>evs.
     bindC (liftC (projectRecords (idiMeetingId input) records)) (\<lambda>projection.
     case demoRegistration evs (''demo-regulator:'' @ idiIdempotencyKey input) projection of
       None \<Rightarrow> failC MONITOR_REGISTRATION_NOT_FOUND
     | Some r \<Rightarrow>
         receiveRegulatoryChange deps (ExternalParticipant (uctParticipantId context)) (demoChange input r)))))"

end
