(* ===== verification/InvalidationEvaluations.thy ===== *)
theory InvalidationEvaluations
  imports ExternalEvents InvalidationReviews
begin

section \<open>Evaluating an outside event: \<open>packages/application/src/invalidation-evaluations.ts\<close>\<close>

text \<open>
  A language model is asked whether an outside event invalidates a premise of the monitored Decision. Its answer
  is checked against what it was given, recorded as a suggestion, and the system marks the Decision at risk; both
  are one append. The model is the optional parameter \<open>evaluator\<close>.
\<close>

record evaluatedAction =
  evaActionId :: string
  evaAffectedPremiseIds :: "string list"
  evaScope :: "string list"
  evaStatus :: actionStatus

record evaluatedDecision =
  evkDecisionId :: string
  evkMonitorCondition :: string
  evkOutcome :: string
  evkRevision :: int
  evkRevisionId :: string
  evkTitle :: string

record evaluatedEvidence =
  eveEvidenceReferenceId :: string
  eveExactSnippet :: string

record evaluatedEvent =
  evxDescription :: string
  evxEffectiveAt :: string
  evxEventType :: string
  evxExternalEventId :: string
  evxJurisdiction :: string
  evxSource :: string
  evxSourceReference :: string

record evaluatedPremise =
  evqConfirmationStatus :: confirmationStatus
  evqPremiseId :: string
  evqStatement :: string

record evaluatorInput =
  eviActions :: "evaluatedAction list"
  eviDecision :: evaluatedDecision
  eviEvidence :: "evaluatedEvidence list"
  eviExternalEvent :: evaluatedEvent
  eviMeetingId :: string
  eviPremises :: "evaluatedPremise list"

record invalidationCandidate =
  icdAffectedActionIds :: "string list"
  icdAffectedPremiseIds :: "string list"
  icdConfidence :: js_number
  icdEvidenceReferenceIds :: "string list"
  icdReason :: string

record aiEvaluation =
  aieCandidates :: "invalidationCandidate list"
  aieGeneratedAt :: string
  aieInputReferenceIds :: "string list"
  aieModel :: string
  aieOperation :: string
  aiePromptVersion :: string
  aieSchemaVersion :: string
  aieSuggestion :: invalidationCandidate

record evaluateInput =
  evnCorrelationId :: "string option"
  evnExternalEventId :: string
  evnMeetingId :: string

record reviewView =
  rvvDisposition :: reviewDisposition
  rvvFacilitatorParticipantId :: string
  rvvHeldActionIds :: "string list"
  rvvReason :: string
  rvvReconsiderationTask :: "reconsiderationTask option"
  rvvReviewedAt :: string

record evaluationView =
  ievAffectedActionIds :: "string list"
  ievAffectedPremiseIds :: "string list"
  ievConfidence :: js_number
  ievDecision :: decision
  ievEvidenceReferenceIds :: "string list"
  ievExternalEventId :: string
  ievGeneratedAt :: string
  ievInputReferenceIds :: "string list"
  ievModel :: string
  ievOperation :: string
  ievOutputSchemaVersion :: string
  ievPromptVersion :: string
  ievReason :: string
  ievReview :: "reviewView option"
  ievSuggestionId :: string

record evaluationReceipt =
  ercCorrelationId :: string
  ercEvaluation :: evaluationView
  ercReceiptPosition :: int
  ercReplayed :: bool

type_synonym 'w evaluator = "evaluatorInput \<Rightarrow> 'w \<Rightarrow> (exn + aiEvaluation) \<times> 'w"

subsection \<open>Views\<close>

definition reviewViewOf :: "domainEvent list \<Rightarrow> string \<Rightarrow> reviewView option" where
  "reviewViewOf evs suggestion =
     (let required = findFirst (\<lambda>ev. map_option (\<lambda>(_, i, _, _). i) (reviewRequiredIn (evPayload ev)) = Some suggestion) evs;
          requirement = Option.bind required (\<lambda>ev. reviewRequiredIn (evPayload ev));
          task = findFirst (\<lambda>ev. case taskCreatedIn (evPayload ev) of
                     None \<Rightarrow> False
                   | Some k \<Rightarrow> map_option (\<lambda>(_, _, _, i). i) requirement = Some (recId k)) evs in
      map_option (\<lambda>ev. let f = the (facilitatorReviewed (evPayload ev)) in
        \<lparr>rvvDisposition = fvwDisposition f, rvvFacilitatorParticipantId = fvwFacilitatorParticipantId f,
         rvvHeldActionIds = (case requirement of None \<Rightarrow> [] | Some (_, _, held, _) \<Rightarrow> held),
         rvvReason = fvwReason f,
         rvvReconsiderationTask = Option.bind task (\<lambda>t. taskCreatedIn (evPayload t)),
         rvvReviewedAt = evOccurredAt ev\<rparr>)
        (findFirst (\<lambda>ev. map_option fvwSuggestionId (facilitatorReviewed (evPayload ev)) = Some suggestion) evs))"

definition evaluationViewOf :: "invalidationSuggestion \<Rightarrow> decision \<Rightarrow> domainEvent list \<Rightarrow> evaluationView" where
  "evaluationViewOf v atRisk evs =
     \<lparr>ievAffectedActionIds = ivsAffectedActionIds v, ievAffectedPremiseIds = ivsAffectedPremiseIds v,
      ievConfidence = aimConfidence (ivsMetadata v), ievDecision = atRisk,
      ievEvidenceReferenceIds = ivsEvidenceReferenceIds v, ievExternalEventId = ivsExternalEventId v,
      ievGeneratedAt = ivsGeneratedAt v, ievInputReferenceIds = aimInputReferenceIds (ivsMetadata v),
      ievModel = aimModel (ivsMetadata v), ievOperation = ivsOperation v,
      ievOutputSchemaVersion = ivsOutputSchemaVersion v, ievPromptVersion = aimPromptVersion (ivsMetadata v),
      ievReason = aimReason (ivsMetadata v), ievReview = reviewViewOf evs (ivsSuggestionId v),
      ievSuggestionId = ivsSuggestionId v\<rparr>"

text \<open>The mark of a suggestion, and the Decision that it put at risk.\<close>

definition marksFor :: "string \<Rightarrow> domainEvent \<Rightarrow> bool" where
  "marksFor suggestion ev \<longleftrightarrow> map_option (\<lambda>(_, i, _, _). i) (markedAtRisk (evPayload ev)) = Some suggestion"

definition riskDecision :: "domainEvent \<Rightarrow> decision" where
  "riskDecision ev = fst (the (markedAtRisk (evPayload ev)))"

definition evaluationFromEvents :: "bool \<Rightarrow> domainEvent list \<Rightarrow> evaluationReceipt option" where
  "evaluationFromEvents replayed evs =
     Option.bind (findFirst (\<lambda>ev. suggestedIn (evPayload ev) \<noteq> None) evs) (\<lambda>suggested.
       let v = the (suggestedIn (evPayload suggested)) in
       map_option (\<lambda>marked. \<lparr>ercCorrelationId = evCorrelationId suggested,
           ercEvaluation = evaluationViewOf v (riskDecision marked) [],
           ercReceiptPosition = evPosition marked, ercReplayed = replayed\<rparr>)
         (findFirst (marksFor (ivsSuggestionId v)) evs))"

text \<open>What lies after the last completed reset; the list may hold records or events.\<close>

definition afterReset :: "domainEvent list \<Rightarrow> 'a list \<Rightarrow> 'a list" where
  "afterReset evs xs = drop (length (dropWhile (\<lambda>ev. \<not> isDemoResetCompleted (evPayload ev)) (rev evs))) xs"

definition listAssumptionInvalidationEvaluations ::
  "domainEvent eventRecord list \<Rightarrow> exn + evaluationView list" where
  "listAssumptionInvalidationEvaluations records =
     bindE (normalizeRecords records) (\<lambda>normalized.
     let evs = afterReset normalized normalized in
     Inr (concat (map (\<lambda>ev. case suggestedIn (evPayload ev) of
         None \<Rightarrow> []
       | Some v \<Rightarrow>
           (case findFirst (marksFor (ivsSuggestionId v)) evs of
              None \<Rightarrow> []
            | Some marked \<Rightarrow> [evaluationViewOf v (riskDecision marked) evs])) evs)))"

subsection \<open>Checking the model's answer\<close>

definition referencesAreValid :: "invalidationCandidate \<Rightarrow> evaluatorInput \<Rightarrow> bool" where
  "referencesAreValid candidate input \<longleftrightarrow>
     (let premises = map evqPremiseId (eviPremises input);
          evidence = map eveEvidenceReferenceId (eviEvidence input) @ [evxSourceReference (eviExternalEvent input)] in
      icdAffectedPremiseIds candidate \<noteq> [] \<and> icdAffectedActionIds candidate \<noteq> [] \<and>
      icdEvidenceReferenceIds candidate \<noteq> [] \<and>
      distinct (icdAffectedPremiseIds candidate) \<and> distinct (icdAffectedActionIds candidate) \<and>
      distinct (icdEvidenceReferenceIds candidate) \<and>
      List.member (icdEvidenceReferenceIds candidate) (evxSourceReference (eviExternalEvent input)) \<and>
      icdConfidence candidate \<noteq> NaN \<and> \<not> numberLessInt (icdConfidence candidate) 0 \<and>
      \<not> numberGreaterInt (icdConfidence candidate) 1 \<and>
      length (trim (icdReason candidate)) > 0 \<and> length (icdReason candidate) \<le> 1000 \<and>
      list_all (List.member premises) (icdAffectedPremiseIds candidate) \<and>
      list_all (List.member evidence) (icdEvidenceReferenceIds candidate) \<and>
      list_all (\<lambda>i. case findLast (\<lambda>a. evaActionId a = i) (eviActions input) of
          None \<Rightarrow> False
        | Some a \<Rightarrow> list_ex (List.member (icdAffectedPremiseIds candidate)) (evaAffectedPremiseIds a))
        (icdAffectedActionIds candidate))"

definition candidateValue :: "invalidationCandidate \<Rightarrow> js_value" where
  "candidateValue c = JObj
     [(''affectedActionIds'', jsStrings (icdAffectedActionIds c)),
      (''affectedPremiseIds'', jsStrings (icdAffectedPremiseIds c)),
      (''confidence'', JNum (icdConfidence c)),
      (''evidenceReferenceIds'', jsStrings (icdEvidenceReferenceIds c)),
      (''reason'', JStr (icdReason c))]"

definition authorizedReferences :: "evaluatorInput \<Rightarrow> string list" where
  "authorizedReferences input =
     [evxExternalEventId (eviExternalEvent input), evxSourceReference (eviExternalEvent input),
      evkDecisionId (eviDecision input), evkRevisionId (eviDecision input)] @
     map evqPremiseId (eviPremises input) @ map evaActionId (eviActions input) @
     map eveEvidenceReferenceId (eviEvidence input)"

definition evaluationIsValid :: "aiEvaluation \<Rightarrow> evaluatorInput \<Rightarrow> bool" where
  "evaluationIsValid e input \<longleftrightarrow>
     aieOperation e = ''assumption_invalidation'' \<and> aiePromptVersion e = ''assumption-invalidation-v1'' \<and>
     aieSchemaVersion e = ''1'' \<and> length (aieCandidates e) = 1 \<and>
     localeSerialize (candidateValue (hd (aieCandidates e))) = localeSerialize (candidateValue (aieSuggestion e)) \<and>
     aieInputReferenceIds e \<noteq> [] \<and> distinct (aieInputReferenceIds e) \<and>
     list_all (\<lambda>r. length (trim r) > 0 \<and> List.member (authorizedReferences input) r) (aieInputReferenceIds e) \<and>
     referencesAreValid (aieSuggestion e) input"

subsection \<open>What the model is given\<close>

definition evaluationInputOf ::
  "sharedMeetingProjection \<Rightarrow> decision \<Rightarrow> externalEvent \<Rightarrow> decisionRevision \<Rightarrow> evaluatorInput option" where
  "evaluationInputOf p d external rv =
     (let snapshot = drvSnapshot rv;
          premises = filter (\<lambda>q. recConfirmation q = Confirmed \<and> List.member (snpPremiseIds snapshot) (recId q)) (shpPremises p);
          actions = filter (\<lambda>a. List.member (snpActionIds snapshot) (recId a)) (shpActions p);
          evidence = filter (\<lambda>e. List.member (snpEvidenceIds snapshot) (recId e)) (shpEvidence p) in
      if length premises \<noteq> length (snpPremiseIds snapshot) \<or> length actions \<noteq> length (snpActionIds snapshot) \<or>
         length evidence \<noteq> length (snpEvidenceIds snapshot) \<or>
         list_ex (\<lambda>a. actStatus a = Completed \<or> actStatus a = Held) actions
      then None
      else Some
        \<lparr>eviActions = map (\<lambda>a. \<lparr>evaActionId = recId a, evaAffectedPremiseIds = actAffectedPremiseIds a,
            evaScope = actScope a, evaStatus = actStatus a\<rparr>) actions,
         eviDecision = \<lparr>evkDecisionId = recId d, evkMonitorCondition = monDescription (snpMonitorCondition snapshot),
            evkOutcome = snpOutcome snapshot, evkRevision = drvVersion rv, evkRevisionId = recId rv,
            evkTitle = snpTitle snapshot\<rparr>,
         eviEvidence = map (\<lambda>e. \<lparr>eveEvidenceReferenceId = recId e, eveExactSnippet = evdExactSnippet e\<rparr>) evidence,
         eviExternalEvent = \<lparr>evxDescription = extDescription external, evxEffectiveAt = extEffectiveAt external,
            evxEventType = extEventType external, evxExternalEventId = recId external,
            evxJurisdiction = extJurisdiction external, evxSource = extSource external,
            evxSourceReference = extSourceReference external\<rparr>,
         eviMeetingId = shpMeetingId p,
         eviPremises = map (\<lambda>q. \<lparr>evqConfirmationStatus = recConfirmation q, evqPremiseId = recId q,
            evqStatement = preStatement q\<rparr>) premises\<rparr>)"

definition buildEvaluationInput ::
  "sharedMeetingProjection \<Rightarrow> decision \<Rightarrow> string \<Rightarrow> evaluatorInput option" where
  "buildEvaluationInput p d target =
     (if decStatus d \<noteq> MONITORING then None
      else
        (case findFirst (\<lambda>x. recId x = target) (shpExternalEvents p) of
           None \<Rightarrow> None
         | Some external \<Rightarrow>
             if monRegistrationId (decMonitorCondition d) \<noteq> Some (extMonitorRegistrationId external) then None
             else
               (case findFirst (\<lambda>rv. recId rv = decActiveRevisionId d) (shpDecisionRevisions p) of
                  None \<Rightarrow> None
                | Some rv \<Rightarrow>
                    if drvDecisionId rv \<noteq> recId d \<or> drvVersion rv \<noteq> decActiveRevision d \<or>
                       snpStatus (drvSnapshot rv) \<noteq> COMMITTED then None
                    else evaluationInputOf p d external rv)))"


subsection \<open>The command\<close>

fun insertText :: "string \<Rightarrow> string list \<Rightarrow> string list" where
  "insertText s [] = [s]"
| "insertText s (t # ts) = (if stringLess t s then t # insertText s ts else s # t # ts)"

definition sortTexts :: "string list \<Rightarrow> string list" where
  "sortTexts ts = foldr insertText ts []"

definition evaluationKey :: "string \<Rightarrow> decision \<Rightarrow> string" where
  "evaluationKey external d = ''assumption-invalidation:'' @ external @ '':'' @ decActiveRevisionId d @ '':v1''"

definition evaluationFingerprintText :: "evaluatorInput \<Rightarrow> string \<Rightarrow> externalEvent \<Rightarrow> string" where
  "evaluationFingerprintText input target external = localeSerialize (JObj
     [(''actionIds'', jsStrings (sortTexts (map evaActionId (eviActions input)))),
      (''decisionId'', JStr (evkDecisionId (eviDecision input))),
      (''evidenceReferenceIds'', jsStrings (sortTexts (map eveEvidenceReferenceId (eviEvidence input)))),
      (''externalEventId'', JStr target),
      (''externalEventPayloadHash'', JStr (extPayloadHash external)),
      (''operation'', JStr ''assumption_invalidation''), (''outputSchemaVersion'', JStr ''1''),
      (''premiseIds'', jsStrings (sortTexts (map evqPremiseId (eviPremises input)))),
      (''promptVersion'', JStr ''assumption-invalidation-v1''),
      (''revision'', JNum (IntNum (evkRevision (eviDecision input)))),
      (''revisionId'', JStr (evkRevisionId (eviDecision input)))])"

definition evaluationRequest ::
  "evaluateInput \<Rightarrow> domainEvent list \<Rightarrow> int \<Rightarrow> string \<Rightarrow> string \<Rightarrow> domainEvent appendEventsRequest" where
  "evaluationRequest input evs expected key fingerprint =
     \<lparr>aprEvents = evs, aprExpectedPosition = Some expected, aprIdempotencyKey = Some key,
      aprMeetingId = evnMeetingId input, aprPayloadFingerprint = Some fingerprint, aprTrustFingerprint = Some True\<rparr>"

text \<open>An event of the active part of the log that was evaluated already.\<close>

definition recordedEvaluation ::
  "domainEvent eventRecord list \<Rightarrow> domainEvent \<Rightarrow> ('w, evaluationReceipt) command" where
  "recordedEvaluation active suggested =
     (let v = the (suggestedIn (evPayload suggested)) in
      case findFirst (\<lambda>r. marksFor (ivsSuggestionId v) (ercEvent r)) active of
        None \<Rightarrow> failC IDEMPOTENCY_CONFLICT
      | Some marked \<Rightarrow>
          returnC \<lparr>ercCorrelationId = evCorrelationId suggested,
            ercEvaluation = evaluationViewOf v (riskDecision (ercEvent marked)) [],
            ercReceiptPosition = ercPosition marked, ercReplayed = True\<rparr>)"

definition replayEvaluation ::
  "'w ports \<Rightarrow> evaluateInput \<Rightarrow> domainEvent eventRecord list \<Rightarrow> domainEvent eventRecord \<Rightarrow> string \<Rightarrow> string \<Rightarrow>
     ('w, evaluationReceipt) command" where
  "replayEvaluation deps input records prior key fingerprint =
     (case findFirst (\<lambda>r. marksFor (ivsSuggestionId (the (suggestedIn (evPayload (ercEvent prior))))) (ercEvent r)) records of
        None \<Rightarrow> failC IDEMPOTENCY_CONFLICT
      | Some marked \<Rightarrow>
          bindC (appendRequest deps (evaluationRequest input [ercEvent prior, ercEvent marked]
            (ercPosition prior - 1) key fingerprint)) (\<lambda>replay.
          bindC (liftC (normalizeRecords (aprRecords replay))) (\<lambda>evs.
          case evaluationFromEvents True evs of
            None \<Rightarrow> failC IDEMPOTENCY_CONFLICT
          | Some receipt \<Rightarrow> returnC receipt)))"

definition markRequest :: "invalidationCandidate \<Rightarrow> exn + transitionRequest" where
  "markRequest candidate =
     bindE (mapE actionId (icdAffectedActionIds candidate)) (\<lambda>actions.
     bindE (mapE premiseId (icdAffectedPremiseIds candidate)) (\<lambda>premises.
     Inr ((plainRequest AT_RISK SystemAuthority)
       \<lparr>reqAffectedActionIds := Some actions, reqAffectedPremiseIds := Some premises,
        reqSuggestionRecorded := Some True,
        reqSuggestionReferenceIds := Some (icdEvidenceReferenceIds candidate)\<rparr>)))"

definition makeMark ::
  "'w ports \<Rightarrow> decision \<Rightarrow> aiEvaluation \<Rightarrow> ('w, decision \<times> string \<times> string \<times> string) command" where
  "makeMark deps target evaluation =
     tryC transitionFailure
       (bindC (clockNow deps) (\<lambda>occurredAt.
        bindC (liftC (timestamp (aieGeneratedAt evaluation))) (\<lambda>generatedAt.
        bindC (readC (prtNext deps ''suggestion'')) (\<lambda>i.
        bindC (liftC (suggestionId i)) (\<lambda>suggestion.
        bindC (liftC (bindE (markRequest (aieSuggestion evaluation)) (transitionDecision target))) (\<lambda>d.
        returnC (d, occurredAt, generatedAt, suggestion)))))))"

definition suggestionPayload ::
  "evaluateInput \<Rightarrow> decision \<Rightarrow> aiEvaluation \<Rightarrow> string \<Rightarrow> string \<Rightarrow> string list \<Rightarrow> string list \<Rightarrow>
     exn + invalidationSuggestion" where
  "suggestionPayload input target evaluation generatedAt suggestion premises actions =
     (let candidate = aieSuggestion evaluation in
      bindE (mapE sourceReferenceId (icdEvidenceReferenceIds candidate)) (\<lambda>evidence.
      bindE (externalEventId (evnExternalEventId input)) (\<lambda>external.
      bindE (mapE sourceReferenceId (aieInputReferenceIds evaluation)) (\<lambda>references.
      bindE (nonEmptyText (aieModel evaluation)) (\<lambda>model.
      bindE (promptVersion (aiePromptVersion evaluation)) (\<lambda>prompt.
      bindE (nonEmptyText (icdReason candidate)) (\<lambda>reason.
      bindE (nonEmptyText (aieOperation evaluation)) (\<lambda>operation.
      bindE (nonEmptyText (aieSchemaVersion evaluation)) (\<lambda>schema.
      Inr \<lparr>ivsSuggestionId = suggestion, ivsDecisionId = recId target,
        ivsActiveRevisionId = decActiveRevisionId target, ivsExternalEventId = external,
        ivsAffectedPremiseIds = premises, ivsAffectedActionIds = actions, ivsEvidenceReferenceIds = evidence,
        ivsMetadata = \<lparr>aimModel = model, aimPromptVersion = prompt, aimInputReferenceIds = references,
          aimConfidence = icdConfidence candidate, aimReason = reason\<rparr>,
        ivsGeneratedAt = generatedAt, ivsOperation = operation, ivsOutputSchemaVersion = schema\<rparr>)))))))))"

definition evaluationEvents ::
  "'w ports \<Rightarrow> evaluateInput \<Rightarrow> domainEvent \<Rightarrow> decision \<Rightarrow> aiEvaluation \<Rightarrow> int \<Rightarrow> decision \<times> string \<times> string \<times> string \<Rightarrow>
     ('w, domainEvent list) command" where
  "evaluationEvents deps input received target evaluation expected made =
     (case made of (atRisk, occurredAt, generatedAt, suggestion) \<Rightarrow>
      bindC (liftC (correlationId (case evnCorrelationId input of Some c \<Rightarrow> c | None \<Rightarrow> evCorrelationId received)))
        (\<lambda>correlation.
      bindC (liftC (idempotencyKey (evaluationKey (evnExternalEventId input) target))) (\<lambda>key.
      bindC (liftC (meetingId (evnMeetingId input))) (\<lambda>scope.
      bindC (liftC (mapE premiseId (icdAffectedPremiseIds (aieSuggestion evaluation)))) (\<lambda>premises.
      bindC (liftC (mapE actionId (icdAffectedActionIds (aieSuggestion evaluation)))) (\<lambda>actions.
      bindC (liftC (nonEmptyText (aieModel evaluation))) (\<lambda>model.
      bindC (liftC (causationId (evEventId received))) (\<lambda>cause.
      bindC (readC (prtNext deps ''event'')) (\<lambda>i.
      bindC (liftC (eventId i)) (\<lambda>suggestedId.
      bindC (liftC (suggestionPayload input target evaluation generatedAt suggestion premises actions)) (\<lambda>v.
      bindC (liftC (meetingPosition (expected + 1))) (\<lambda>position.
      bindC (liftC (schemaVersion 1)) (\<lambda>version.
      bindC (liftC (causationId suggestedId)) (\<lambda>cause'.
      bindC (readC (prtNext deps ''event'')) (\<lambda>j.
      bindC (liftC (eventId j)) (\<lambda>markedId.
      bindC (liftC (meetingPosition (expected + 2))) (\<lambda>position'.
      returnC
        [\<lparr>evEventId = suggestedId, evSchemaVersion = version, evMeetingId = scope, evPosition = position,
          evActor = AiActor model, evOccurredAt = occurredAt, evCorrelationId = correlation,
          evCausationId = Some cause, evIdempotencyKey = Some key, evScope = SharedScope,
          evPayload = AssumptionInvalidationSuggested v\<rparr>,
         \<lparr>evEventId = markedId, evSchemaVersion = version, evMeetingId = scope, evPosition = position',
          evActor = SystemActor, evOccurredAt = occurredAt, evCorrelationId = correlation,
          evCausationId = Some cause', evIdempotencyKey = None, evScope = SharedScope,
          evPayload = DecisionMarkedAtRisk atRisk suggestion premises actions\<rparr>])))))))))))))))))"


definition appendEvaluation ::
  "'w ports \<Rightarrow> evaluateInput \<Rightarrow> domainEvent list \<Rightarrow> int \<Rightarrow> string \<Rightarrow> string \<Rightarrow> ('w, evaluationReceipt) command" where
  "appendEvaluation deps input evs expected key fingerprint =
     bindC (appendRequest deps (evaluationRequest input evs expected key fingerprint)) (\<lambda>appended.
     bindC (loadState deps (evnMeetingId input)) (\<lambda>loaded.
     bindC (putMeeting deps (evnMeetingId input) (lstProjection loaded)) (\<lambda>_.
     bindC (liftC (normalizeRecords (aprRecords appended))) (\<lambda>stored.
     case evaluationFromEvents (aprReplayed appended) stored of
       None \<Rightarrow> raiseC (JsError ''Invalidation append returned no complete evaluation'')
     | Some receipt \<Rightarrow> returnC receipt))))"

definition askEvaluator ::
  "'w evaluator option \<Rightarrow> evaluatorInput \<Rightarrow> ('w, aiEvaluation) command" where
  "askEvaluator evaluator given =
     (case evaluator of
        None \<Rightarrow> failC OPENAI_UNAVAILABLE
      | Some evaluate \<Rightarrow>
          bindC (portC (evaluate given)) (\<lambda>evaluation.
          bindC (unlessC (evaluationIsValid evaluation given) INVALID_MODEL_OUTPUT) (\<lambda>_.
          returnC evaluation)))"

definition evaluateMonitored ::
  "'w ports \<Rightarrow> 'w evaluator option \<Rightarrow> evaluateInput \<Rightarrow> domainEvent eventRecord list \<Rightarrow> domainEvent eventRecord list \<Rightarrow>
     domainEvent \<Rightarrow> meetingProjection \<Rightarrow> ('w, evaluationReceipt) command" where
  "evaluateMonitored deps evaluator input records active received projection =
     (let external = the (externalEventIn (evPayload received)) in
      case findFirst (monitoredBy (extMonitorRegistrationId external)) (shpDecisions (mprShared projection)) of
        None \<Rightarrow> failC INVALID_STATE_TRANSITION
      | Some target \<Rightarrow>
          (case buildEvaluationInput (mprShared projection) target (evnExternalEventId input) of
             None \<Rightarrow> failC REFERENCED_ENTITY_NOT_FOUND
           | Some given \<Rightarrow>
               (let key = evaluationKey (evnExternalEventId input) target in
                bindC (portC (prtHash deps (evaluationFingerprintText given (evnExternalEventId input) external)))
                  (\<lambda>fingerprint.
                case findFirst (\<lambda>r. evIdempotencyKey (ercEvent r) = Some key \<and>
                    suggestedIn (evPayload (ercEvent r)) \<noteq> None) active of
                  Some prior \<Rightarrow> replayEvaluation deps input records prior key fingerprint
                | None \<Rightarrow>
                    bindC (askEvaluator evaluator given) (\<lambda>evaluation.
                    bindC (makeMark deps target evaluation) (\<lambda>made.
                    bindC (evaluationEvents deps input received target evaluation (lastPosition records) made) (\<lambda>evs.
                    appendEvaluation deps input evs (lastPosition records) key fingerprint)))))))"

definition evaluateAssumptionInvalidation ::
  "'w ports \<Rightarrow> 'w evaluator option \<Rightarrow> evaluateInput \<Rightarrow> ('w, evaluationReceipt) command" where
  "evaluateAssumptionInvalidation deps evaluator input =
     bindC (tryC validationHandler
       (bindC (liftC (meetingId (evnMeetingId input))) (\<lambda>_.
        bindC (liftC (externalEventId (evnExternalEventId input))) (\<lambda>_. returnC ())))) (\<lambda>_.
     bindC (portC (prtLoad deps (evnMeetingId input))) (\<lambda>records.
     bindC (liftC (normalizeRecords records)) (\<lambda>normalized.
     let active = afterReset normalized records in
     case findFirst (\<lambda>r. map_option recId (externalEventIn (evPayload (ercEvent r))) = Some (evnExternalEventId input))
         active of
       None \<Rightarrow> failC EXTERNAL_EVENT_NOT_FOUND
     | Some received \<Rightarrow>
         (case findFirst (\<lambda>r. map_option ivsExternalEventId (suggestedIn (evPayload (ercEvent r))) =
             Some (evnExternalEventId input)) active of
            Some existing \<Rightarrow> recordedEvaluation active (ercEvent existing)
          | None \<Rightarrow>
              bindC (liftC (projectRecords (evnMeetingId input) records)) (\<lambda>projection.
              evaluateMonitored deps evaluator input records active (ercEvent received) projection)))))"

end
