(* ===== verification/EvaluationLogic.thy ===== *)
theory EvaluationLogic
  imports ReviewLogic InvalidationEvaluations
begin

section \<open>What outside events and evaluations write\<close>

text \<open>
  An outside event or an evaluation either leaves the log alone or appends what the specification names: the
  received event, or a grounded suggestion followed at once by the mark that puts the Decision at risk.
\<close>

subsection \<open>Specification\<close>

definition actorOf :: "externalEventActor \<Rightarrow> domainActor" where
  "actorOf actor = (case actor of ExternalSystem \<Rightarrow> SystemActor | ExternalParticipant p \<Rightarrow> ParticipantActor (trim p))"

text \<open>A Decision of the meeting waits for this event; only the system's own events count as signed.\<close>

definition receivedFrom :: "meetingProjection \<Rightarrow> domainActor \<Rightarrow> externalEvent \<Rightarrow> bool" where
  "receivedFrom p actor x \<longleftrightarrow>
     (\<exists>d. projected p d \<and> monitoredBy (extMonitorRegistrationId x) d) \<and>
     (extSignatureResult x = ValidSignature \<longrightarrow> actor = SystemActor)"

definition changeReceived :: "externalEventActor \<Rightarrow> regulatoryChange \<Rightarrow> domainEvent list \<Rightarrow> domainEvent \<Rightarrow> bool" where
  "changeReceived actor input log ev \<longleftrightarrow>
     wellPlaced (rgcMeetingId input) log ev \<and> evScope ev = SharedScope \<and> evActor ev = actorOf actor \<and>
     (\<exists>p x. projectionAt (rgcMeetingId input) log p \<and> receivedFrom p (evActor ev) x \<and>
        evPayload ev = ExternalEventReceived x \<and> recId x = trim (rgcEventId input) \<and>
        extMonitorRegistrationId x = trim (rgcMonitorRegistrationId input))"

text \<open>
  The suggestion names a monitored Decision, an outside event that it waits for, at least one confirmed premise of
  its committed revision, and at least one open Action of that revision, each depending on such a premise.
\<close>

definition grounded :: "meetingProjection \<Rightarrow> decision \<Rightarrow> invalidationSuggestion \<Rightarrow> bool" where
  "grounded p c v \<longleftrightarrow>
     ivsDecisionId v = recId c \<and> ivsActiveRevisionId v = decActiveRevisionId c \<and>
     (\<exists>x \<in> set (shpExternalEvents (mprShared p)). ivsExternalEventId v = trim (recId x) \<and>
        monitoredBy (extMonitorRegistrationId x) c) \<and>
     (\<exists>rv \<in> set (shpDecisionRevisions (mprShared p)). \<exists>premises actions.
        drvDecisionId rv = recId c \<and> recId rv = decActiveRevisionId c \<and> drvVersion rv = decActiveRevision c \<and> snpStatus (drvSnapshot rv) = COMMITTED \<and>
        premises \<noteq> [] \<and> ivsAffectedPremiseIds v = map trim premises \<and>
        (\<forall>i \<in> set premises. i \<in> set (snpPremiseIds (drvSnapshot rv)) \<and>
           (\<exists>q \<in> set (shpPremises (mprShared p)). recId q = i \<and> recConfirmation q = Confirmed)) \<and>
        actions \<noteq> [] \<and> ivsAffectedActionIds v = map trim actions \<and>
        (\<forall>i \<in> set actions. i \<in> set (snpActionIds (drvSnapshot rv)) \<and>
           (\<exists>a \<in> set (shpActions (mprShared p)). recId a = i \<and> actStatus a \<notin> {Completed, Held} \<and>
              set (actAffectedPremiseIds a) \<inter> set premises \<noteq> {})))"

definition evaluated :: "evaluateInput \<Rightarrow> domainEvent list \<Rightarrow> domainEvent list \<Rightarrow> bool" where
  "evaluated input log evs \<longleftrightarrow>
     wellPlacedAll (evnMeetingId input) log evs \<and>
     (\<exists>p c v suggested marked model. evs = [suggested, marked] \<and>
        projectionAt (evnMeetingId input) log p \<and> projected p c \<and> grounded p c v \<and>
        ivsExternalEventId v = trim (evnExternalEventId input) \<and>
        evPayload suggested = AssumptionInvalidationSuggested v \<and> evActor suggested = AiActor model \<and>
        evPayload marked = DecisionMarkedAtRisk (c\<lparr>decStatus := AT_RISK\<rparr>) (ivsSuggestionId v)
          (ivsAffectedPremiseIds v) (ivsAffectedActionIds v) \<and>
        evActor marked = SystemActor \<and> evCausationId marked = Some (evEventId suggested) \<and>
        evScope suggested = SharedScope \<and> evScope marked = SharedScope)"

subsection \<open>Appending a request\<close>

lemma lastPosition_number: "lastPosition (numberRecords 1 log) = int (length log)"
proof (cases log rule: rev_cases)
  case (snoc xs x)
  then show ?thesis by (simp add: lastPosition_def numberRecords_append)
qed (simp add: lastPosition_def)

context command_world
begin

text \<open>
  An append of a given request, and what follows it. \<open>R\<close> is what the answer tells after a new append; a retry
  of a key that the log holds never appends.
\<close>

definition requestAnswered ::
  "domainEvent list \<Rightarrow> bool \<Rightarrow> ('a \<Rightarrow> bool) \<Rightarrow> domainEvent list \<Rightarrow> abort + 'a \<Rightarrow> bool" where
  "requestAnswered batch S R evs r \<longleftrightarrow>
     evs = batch \<and> S \<and> (\<forall>x. r \<noteq> Inl (Failed x)) \<and> (\<forall>a. r = Inr a \<longrightarrow> R a)"

lemma affects_request:
  assumes m: "aprMeetingId q = m"
    and key: "\<And>ev k. ev \<in> set (aprEvents q) \<Longrightarrow> evIdempotencyKey ev = Some k \<Longrightarrow> aprIdempotencyKey q = Some k"
    and replay: "\<And>records. gives L (f \<lparr>aprReplayed = True, aprRecords = records\<rparr>) P"
    and fails: "\<And>a. \<not> aprReplayed a \<Longrightarrow> neverFails (f a)"
    and new: "\<And>L'. gives L' (f \<lparr>aprReplayed = False, aprRecords = numberRecords (int (length (L m)) + 1) (aprEvents q)\<rparr>) R"
    and S: "(\<And>e. aprExpectedPosition q = Some e \<Longrightarrow> e = int (length (L m))) \<Longrightarrow>
      (\<And>old k. old \<in> set (L m) \<Longrightarrow> aprIdempotencyKey q = Some k \<Longrightarrow> evIdempotencyKey old \<noteq> Some k) \<Longrightarrow> S"
  shows "affects L m (bindC (appendRequest deps q) f) P (requestAnswered (aprEvents q) S R)"
proof (rule affectsI)
  fix w r w' assume w: "ok w" "log w = L" and c: "bindC (appendRequest deps q) f w = (r, w')"
  obtain out w1 where ap: "prtAppend deps q w = (out, w1)" by (metis surj_pair)
  show "ok w' \<and> effect L m P (requestAnswered (aprEvents q) S R) r (log w')"
  proof (rule append_cases[OF w ap key])
    fix records
    assume a: "ok w1" "out = Inr (Appended records)" "log w1 = L(aprMeetingId q := L (aprMeetingId q) @ aprEvents q)"
      "records = numberRecords (int (length (L (aprMeetingId q))) + 1) (aprEvents q)"
      "\<And>e. aprExpectedPosition q = Some e \<Longrightarrow> e = int (length (L (aprMeetingId q)))"
      "\<And>ev k. ev \<in> set (L (aprMeetingId q)) \<Longrightarrow> aprIdempotencyKey q = Some k \<Longrightarrow> evIdempotencyKey ev \<noteq> Some k"
    let ?a = "\<lparr>aprReplayed = False, aprRecords = records\<rparr>"
    have run: "f ?a w1 = (r, w')" using c ap a(2) by (simp add: appendRequest_def bindC_def portC_def returnC_def)
    have "gives (log w1) (f ?a) R" using new[of "log w1"] a(4) m by simp
    from givesD[OF this a(1) refl run] have "ok w'" "log w' = log w1" "\<forall>b. r = Inr b \<longrightarrow> R b" by auto
    moreover have "\<forall>x. r \<noteq> Inl (Failed x)" using fails[of ?a] run by (auto simp: neverFails_def)
    moreover have S using S a(5,6) m by simp
    ultimately show ?thesis using a(3) m by (auto simp: requestAnswered_def intro: effect_append)
  next
    assume a: "ok w1" "log w1 = L" "\<And>records. out \<noteq> Inr (Appended records)"
    show ?thesis
    proof (cases "\<exists>records. out = Inr (Replayed records)")
      case True
      then obtain records where "out = Inr (Replayed records)" by blast
      then have "f \<lparr>aprReplayed = True, aprRecords = records\<rparr> w1 = (r, w')"
        using c ap by (simp add: appendRequest_def bindC_def portC_def returnC_def)
      from givesD[OF replay a(1,2) this] show ?thesis by (auto intro: effect_same)
    next
      case False
      have "w' = w1 \<and> (\<forall>x. r \<noteq> Inr x)"
      proof (cases out)
        case (Inl e)
        then show ?thesis using c ap by (auto simp: appendRequest_def bindC_def portC_def)
      next
        case (Inr o1)
        then show ?thesis using c ap a(3) False
          by (cases o1) (auto simp: appendRequest_def bindC_def portC_def failC_def)
      qed
      with a show ?thesis by (auto intro: effect_same)
    qed
  qed
qed

lemma gives_knownRequest:
  assumes known: "old \<in> set (L (aprMeetingId q))" "aprIdempotencyKey q = Some k" "evIdempotencyKey old = Some k"
    and replay: "\<And>records. gives L (f \<lparr>aprReplayed = True, aprRecords = records\<rparr>) P"
  shows "gives L (bindC (appendRequest deps q) f) P"
proof (rule givesI)
  fix w r w' assume w: "ok w" "log w = L" and c: "bindC (appendRequest deps q) f w = (r, w')"
  obtain out w1 where ap: "prtAppend deps q w = (out, w1)" by (metis surj_pair)
  have notNew: "out \<noteq> Inr (Appended records)" for records
    using append_known[OF w(1)] ap known w(2) by auto
  from append_other[OF w(1) ap notNew] w(2) have keep: "ok w1" "log w1 = L" by auto
  show "ok w' \<and> log w' = L \<and> (\<forall>a. r = Inr a \<longrightarrow> P a)"
  proof (cases "\<exists>records. out = Inr (Replayed records)")
    case True
    then obtain records where "out = Inr (Replayed records)" by blast
    then have "f \<lparr>aprReplayed = True, aprRecords = records\<rparr> w1 = (r, w')"
      using c ap by (simp add: appendRequest_def bindC_def portC_def returnC_def)
    from givesD[OF replay keep this] show ?thesis .
  next
    case False
    have "w' = w1 \<and> (\<forall>x. r \<noteq> Inr x)"
    proof (cases out)
      case (Inl e)
      then show ?thesis using c ap by (auto simp: appendRequest_def bindC_def portC_def)
    next
      case (Inr o1)
      then show ?thesis using c ap notNew False
        by (cases o1) (auto simp: appendRequest_def bindC_def portC_def failC_def)
    qed
    with keep show ?thesis by auto
  qed
qed

lemma gives_load: "gives L (portC (prtLoad deps m)) (\<lambda>records. records = numberRecords 1 (L m))"
  using load_keeps load_log by (intro gives_port) auto

lemma gives_put: "gives L (putMeeting deps m p) (\<lambda>_. True)"
  unfolding putMeeting_def by (rule gives_port) (use put_keeps in auto)

end

subsection \<open>Receiving an event\<close>

lemma receivedAnswer_simps [simp]:
  "rchReplayed (receivedAnswer b x) = b" "rchPosition (receivedAnswer b x) = evPosition (fst x)"
  by (simp_all add: receivedAnswer_def)

lemma makeExternalEvent_Inr:
  assumes "makeExternalEvent actor input scope registration t = Inr x"
  shows "recId x = trim (rgcEventId input) \<and> recMeetingId x = scope \<and> extMonitorRegistrationId x = registration \<and>
    (extSignatureResult x = ValidSignature \<longleftrightarrow> actor = ExternalSystem)"
  using assms
  by (auto simp: makeExternalEvent_def result_simps createExternalEvent_def checked_def domainCheck_def ensure_def
      externalEventId_def opaqueText_Inr split: externalEventActor.splits if_splits)

lemma payloadFits_external:
  "evPayload ev = ExternalEventReceived x \<Longrightarrow> evScope ev = SharedScope \<Longrightarrow> recMeetingId x = evMeetingId ev \<Longrightarrow>
     payloadFits ev"
  by (simp add: payloadFits_def reduceSharedPayload_def reduceSharedContent_def validateEntityScope_def isl_bindE)

context command_world
begin

lemma gives_envelope:
  "gives L (changeEnvelope deps actor input key scope registration n) (\<lambda>ev. evScope ev = SharedScope \<and>
     evActor ev = actorOf actor \<and> evMeetingId ev = scope \<and> meetingPosition (n + 1) = Inr (evPosition ev) \<and>
     evIdempotencyKey ev = Some key \<and> (\<exists>x. evPayload ev = ExternalEventReceived x \<and> recId x = trim (rgcEventId input) \<and>
       recMeetingId x = scope \<and> extMonitorRegistrationId x = registration \<and>
       (extSignatureResult x = ValidSignature \<longleftrightarrow> actor = ExternalSystem)))"
proof -
  have correlation: "gives L (case rgcCorrelationId input of Some c \<Rightarrow> returnC c
      | None \<Rightarrow> readC (prtNext deps ''correlation'')) (\<lambda>_. True)"
    by (cases "rgcCorrelationId input") (auto intro: gives_next)
  show ?thesis unfolding changeEnvelope_def
    by (intro gives_try gives_bind[OF gives_clock] gives_bind[OF gives_lift] gives_bind[OF correlation]
        gives_bind[OF gives_next] gives_return)
      (auto dest!: makeExternalEvent_Inr participantId_trim simp: actorOf_def result_simps split: externalEventActor.splits)
qed

lemma replayChange_gives:
  assumes "ercEvent prior \<in> set (L (rgcMeetingId input))" "evIdempotencyKey (ercEvent prior) = Some (rgcEventId input)"
  shows "gives L (replayChange deps input prior) rchReplayed"
  unfolding replayChange_def
  by (rule gives_knownRequest[OF _ _ assms(2)])
    (use assms(1) in \<open>auto simp: changeRequest_def intro!: gives_bind[OF gives_lift] gives_return split: option.splits\<close>)

lemma appendChange_affects:
  assumes "\<And>k. evIdempotencyKey ev = Some k \<Longrightarrow> rgcEventId input = k"
  shows "affects L (rgcMeetingId input) (appendChange deps input scope ev n) rchReplayed
    (requestAnswered [ev] (n = int (length (L (rgcMeetingId input))) \<and>
        (\<forall>old \<in> set (L (rgcMeetingId input)). evIdempotencyKey old \<noteq> Some (rgcEventId input)))
      (\<lambda>a. \<not> rchReplayed a \<and> rchPosition a = int (length (L (rgcMeetingId input))) + 1))"
proof -
  let ?q = "changeRequest input ev n" and ?m = "rgcMeetingId input"
  have q: "aprEvents ?q = [ev]" "aprMeetingId ?q = ?m" "aprIdempotencyKey ?q = Some (rgcEventId input)"
    "aprExpectedPosition ?q = Some n"
    by (simp_all add: changeRequest_def)
  have rest: "gives L' (bindC (portC (prtLoad deps ?m)) (\<lambda>records.
      bindC (liftC (bindE (normalizeRecords records) (replayMeeting scope))) (\<lambda>refreshed.
      bindC (putMeeting deps ?m refreshed) (\<lambda>_. returnC (receivedAnswer b x))))) R"
    if "R (receivedAnswer b x)" for L' b x R
    by (intro gives_bind[OF gives_load] gives_bind[OF gives_lift] gives_bind[OF gives_put] gives_return that)
  show ?thesis unfolding appendChange_def
  proof (rule affects_request[of ?q, unfolded q(1), OF q(2)], goal_cases)
    case (2 records)
    show ?case by (auto intro!: gives_bind[OF gives_lift] rest split: option.splits)
  next
    case (3 a)
    then show ?case by (intro neverFails_bind) (auto simp: putMeeting_def intro!: neverFails_bind split: option.splits)
  next
    case (4 L')
    show ?case
    proof (rule gives_bind[OF gives_lift])
      fix found assume "eventAt externalEventIn (aprRecords \<lparr>aprReplayed = False,
        aprRecords = numberRecords (int (length (L ?m)) + 1) [ev]\<rparr>) = Inr found"
      then have found: "eventAt externalEventIn (numberRecords (int (length (L ?m)) + 1) [ev]) = Inr found"
        by simp
      show "gives L' (case found of
          None \<Rightarrow> raiseC (JsError ''External event append returned no receipt'')
        | Some x \<Rightarrow>
            bindC (portC (prtLoad deps ?m)) (\<lambda>records.
            bindC (liftC (bindE (normalizeRecords records) (replayMeeting scope))) (\<lambda>refreshed.
            bindC (putMeeting deps ?m refreshed) (\<lambda>_.
            returnC (receivedAnswer (aprReplayed \<lparr>aprReplayed = False,
              aprRecords = numberRecords (int (length (L ?m)) + 1) [ev]\<rparr>) x)))))
        (\<lambda>a. \<not> rchReplayed a \<and> rchPosition a = int (length (L ?m)) + 1)"
      proof (cases found)
        case (Some x)
        from eventAt_single[OF found[unfolded Some]] show ?thesis
          unfolding Some option.case by (intro rest) simp
      qed simp
    qed
  qed (use assms q in auto)
qed

end

lemma receivedFrom_projected:
  assumes "list_ex (monitoredBy registration) (shpDecisions (mprShared p))" "extMonitorRegistrationId x = registration"
    "extSignatureResult x = ValidSignature \<longrightarrow> actor = SystemActor"
  shows "receivedFrom p actor x"
  using assms by (auto simp: receivedFrom_def projected_def list_ex_iff)

lemma demoChange_ids [simp]:
  "rgcMeetingId (demoChange input r) = idiMeetingId input"
  "rgcEventId (demoChange input r) = ''demo-regulator:'' @ idiIdempotencyKey input"
  "rgcMonitorRegistrationId (demoChange input r) = r"
  by (simp_all add: demoChange_def)

context command_world
begin

lemma receiveRegulatoryChange_affects:
  assumes key: "trim (rgcEventId input) = rgcEventId input"
  shows "affects L (rgcMeetingId input) (receiveRegulatoryChange deps actor input) rchReplayed (\<lambda>evs r.
    (\<exists>ev. evs = [ev] \<and> changeReceived actor input (L (rgcMeetingId input)) ev) \<and> (\<forall>x. r \<noteq> Inl (Failed x)) \<and>
    (\<forall>a. r = Inr a \<longrightarrow> \<not> rchReplayed a \<and> rchPosition a = int (length (L (rgcMeetingId input))) + 1))"
  unfolding receiveRegulatoryChange_def
proof (rule affects_bind2)
  let ?m = "rgcMeetingId input"
  show "gives L (tryC validationHandler
       (bindC (liftC (idempotencyKey (rgcEventId input))) (\<lambda>key.
        bindC (liftC (meetingId ?m)) (\<lambda>scope. returnC (key, scope)))))
     (\<lambda>(k, scope). k = rgcEventId input \<and> meetingId ?m = Inr scope)"
    by (intro gives_try gives_bind[OF gives_lift] gives_return)
      (use key in \<open>auto simp: idempotencyKey_def opaqueText_Inr\<close>)
  fix k scope assume k: "k = rgcEventId input \<and> meetingId ?m = Inr scope"
  show "affects L ?m (bindC (portC (prtLoad deps ?m)) (\<lambda>records.
     case idempotentRecord records (rgcEventId input) of
       Some prior \<Rightarrow> replayChange deps input prior
     | None \<Rightarrow>
         bindC (liftC (bindE (normalizeRecords records) (replayMeeting scope))) (\<lambda>projection.
         bindC (liftC (monitorRegistrationId (rgcMonitorRegistrationId input))) (\<lambda>registration.
         bindC (unlessC (list_ex (monitoredBy registration) (shpDecisions (mprShared projection)))
           MONITOR_REGISTRATION_NOT_FOUND) (\<lambda>_.
         bindC (changeEnvelope deps actor input k scope registration (lastPosition records)) (\<lambda>ev.
         appendChange deps input scope ev (lastPosition records)))))))
    rchReplayed (\<lambda>evs r. (\<exists>ev. evs = [ev] \<and> changeReceived actor input (L ?m) ev) \<and> (\<forall>x. r \<noteq> Inl (Failed x)) \<and>
      (\<forall>a. r = Inr a \<longrightarrow> \<not> rchReplayed a \<and> rchPosition a = int (length (L ?m)) + 1))"
  proof (rule affects_bind[OF gives_load], goal_cases)
    case (1 records)
    show ?case
    proof (cases "idempotentRecord records (rgcEventId input)")
      case (Some prior)
      then have prior: "ercEvent prior \<in> ercEvent ` set records" "evIdempotencyKey (ercEvent prior) = Some (rgcEventId input)"
        by (auto simp: idempotentRecord_def dest: findFirst_SomeD)
      have "ercEvent ` set records = set (L ?m)" unfolding 1 by (metis events_numberRecords list.set_map)
      with prior show ?thesis unfolding Some option.case
        by (intro affects_gives replayChange_gives) simp_all
    next
      case None
      show ?thesis unfolding None option.case
      proof (rule affects_bind[OF gives_lift], rule affects_bind[OF gives_lift], rule affects_bind[OF gives_unless],
          rule affects_bind[OF gives_envelope], goal_cases)
        case (1 p registration u ev)
        have at: "projectionAt ?m (L ?m) p"
          using 1(1) k by (simp add: projectionAt_def projectRecords_def \<open>records = _\<close>)
        have reg: "registration = trim (rgcMonitorRegistrationId input)"
          using 1(2) by (simp add: monitorRegistrationId_def opaqueText_Inr)
        from 1(4) k have "\<And>k'. evIdempotencyKey ev = Some k' \<Longrightarrow> rgcEventId input = k'" by simp
        note appended = appendChange_affects[OF this, where L = L and scope = scope and n = "lastPosition records"]
        have "changeReceived actor input (L ?m) ev"
          if "\<forall>old \<in> set (L ?m). evIdempotencyKey old \<noteq> Some (rgcEventId input)"
        proof -
          obtain x where x: "evPayload ev = ExternalEventReceived x" "recId x = trim (rgcEventId input)"
            "recMeetingId x = scope" "extMonitorRegistrationId x = registration"
            "extSignatureResult x = ValidSignature \<longleftrightarrow> actor = ExternalSystem" and
            ev: "evScope ev = SharedScope" "evActor ev = actorOf actor" "evMeetingId ev = scope"
            "meetingPosition (lastPosition records + 1) = Inr (evPosition ev)" "evIdempotencyKey ev = Some (rgcEventId input)"
            using 1(4) k by auto
          have "wellPlaced ?m (L ?m) ev"
            by (intro placed_caused payloadFits_external[OF x(1)])
              (use ev x k that in \<open>auto simp: \<open>records = _\<close> lastPosition_number\<close>)
          moreover have "receivedFrom p (evActor ev) x"
            by (rule receivedFrom_projected[OF 1(3) x(4)]) (use x(5) ev(2) in \<open>auto simp: actorOf_def\<close>)
          ultimately show ?thesis using ev x at reg by (auto simp: changeReceived_def)
        qed
        then show ?case
          by (intro affects_mono[OF appended]) (auto simp: requestAnswered_def)
      qed
    qed
  qed
qed

lemma injectDemoRegulatoryChange_affects:
  assumes "trim (''demo-regulator:'' @ idiIdempotencyKey input) = ''demo-regulator:'' @ idiIdempotencyKey input"
  shows "affects L (idiMeetingId input) (injectDemoRegulatoryChange deps context input) rchReplayed (\<lambda>evs r.
    uctRole context = FacilitatorRole \<and>
    (\<exists>ev registration. evs = [ev] \<and> changeReceived (ExternalParticipant (uctParticipantId context))
       (demoChange input registration) (L (idiMeetingId input)) ev) \<and> (\<forall>x. r \<noteq> Inl (Failed x)))"
proof -
  let ?m = "idiMeetingId input"
  let ?Q = "\<lambda>evs (r :: abort + receivedChange). (\<exists>ev registration. evs = [ev] \<and> changeReceived (ExternalParticipant (uctParticipantId context))
       (demoChange input registration) (L ?m) ev) \<and> (\<forall>x. r \<noteq> Inl (Failed x))"
  have received: "affects L ?m
      (receiveRegulatoryChange deps (ExternalParticipant (uctParticipantId context)) (demoChange input r)) rchReplayed ?Q" for r
  proof -
    have "trim (rgcEventId (demoChange input r)) = rgcEventId (demoChange input r)" using assms by simp
    from receiveRegulatoryChange_affects[OF this, of L "ExternalParticipant (uctParticipantId context)"]
    show ?thesis unfolding demoChange_ids by (rule affects_mono) auto
  qed
  show ?thesis unfolding injectDemoRegulatoryChange_def
  proof (rule affects_bind[OF gives_unless], rule affects_bind[OF gives_load], rule affects_bind[OF gives_lift],
      rule affects_bind[OF gives_lift], goal_cases)
    case (1 u records evs p)
    then have "uctRole context = FacilitatorRole" by simp
    show ?case
    proof (cases "demoRegistration evs (''demo-regulator:'' @ idiIdempotencyKey input) p")
      case None
      then show ?thesis by (simp add: affects_gives)
    next
      case (Some r)
      show ?thesis unfolding Some option.case
        by (rule affects_mono[OF received]) (use \<open>uctRole context = FacilitatorRole\<close> in auto)
    qed
  qed
qed

end

subsection \<open>A checked answer is grounded\<close>

lemma mapE_trim:
  "mapE premiseId xs = Inr ys \<Longrightarrow> ys = map trim xs" "mapE actionId xs = Inr ys \<Longrightarrow> ys = map trim xs"
  by (induction xs arbitrary: ys) (auto simp: result_simps premiseId_def actionId_def opaqueText_Inr)

lemma givenPremise:
  assumes "evaluationInputOf sh d x rv = Some given" "i \<in> evqPremiseId ` set (eviPremises given)"
  shows "i \<in> set (snpPremiseIds (drvSnapshot rv)) \<and> (\<exists>q \<in> set (shpPremises sh). recId q = i \<and> recConfirmation q = Confirmed)"
proof -
  have "eviPremises given = map (\<lambda>q. \<lparr>evqConfirmationStatus = recConfirmation q, evqPremiseId = recId q,
            evqStatement = preStatement q\<rparr>)
      (filter (\<lambda>q. recConfirmation q = Confirmed \<and> List.member (snpPremiseIds (drvSnapshot rv)) (recId q)) (shpPremises sh))"
    using assms(1) by (auto simp: evaluationInputOf_def Let_def split: if_splits)
  with assms(2) show ?thesis by (auto simp: List.member_iff)
qed

lemma givenAction:
  assumes "evaluationInputOf sh d x rv = Some given" "b \<in> set (eviActions given)"
  shows "evaActionId b \<in> set (snpActionIds (drvSnapshot rv)) \<and>
    (\<exists>a \<in> set (shpActions sh). recId a = evaActionId b \<and> actStatus a \<notin> {Completed, Held} \<and>
       evaAffectedPremiseIds b = actAffectedPremiseIds a)"
proof -
  let ?actions = "filter (\<lambda>a. List.member (snpActionIds (drvSnapshot rv)) (recId a)) (shpActions sh)"
  have given: "eviActions given = map (\<lambda>a. \<lparr>evaActionId = recId a, evaAffectedPremiseIds = actAffectedPremiseIds a,
            evaScope = actScope a, evaStatus = actStatus a\<rparr>) ?actions"
    "\<not> list_ex (\<lambda>a. actStatus a = Completed \<or> actStatus a = Held) ?actions"
    using assms(1) by (auto simp: evaluationInputOf_def Let_def split: if_splits)
  then obtain a where "a \<in> set ?actions" "b = \<lparr>evaActionId = recId a, evaAffectedPremiseIds = actAffectedPremiseIds a,
            evaScope = actScope a, evaStatus = actStatus a\<rparr>"
    using assms(2) by auto
  with given(2) show ?thesis by (intro conjI bexI[of _ a]) (auto simp: List.member_iff list_ex_iff)
qed

lemma validReferences:
  assumes "referencesAreValid c given"
  shows "icdAffectedPremiseIds c \<noteq> [] \<and> icdAffectedActionIds c \<noteq> [] \<and>
    set (icdAffectedPremiseIds c) \<subseteq> evqPremiseId ` set (eviPremises given) \<and>
    (\<forall>i \<in> set (icdAffectedActionIds c). \<exists>b \<in> set (eviActions given). evaActionId b = i \<and>
       set (evaAffectedPremiseIds b) \<inter> set (icdAffectedPremiseIds c) \<noteq> {})"
proof -
  have "\<exists>b \<in> set (eviActions given). evaActionId b = i \<and>
       set (evaAffectedPremiseIds b) \<inter> set (icdAffectedPremiseIds c) \<noteq> {}"
    if "i \<in> set (icdAffectedActionIds c)" for i
    using assms that findLast_SomeD
    by (fastforce simp: referencesAreValid_def Let_def list_all_iff list_ex_iff List.member_iff split: option.splits)
  with assms show ?thesis
    by (auto simp: referencesAreValid_def Let_def list_all_iff List.member_iff)
qed

lemma valid_grounded:
  assumes given: "buildEvaluationInput (mprShared p) d target = Some given" and valid: "evaluationIsValid e given"
    and v: "ivsDecisionId v = recId d" "ivsActiveRevisionId v = decActiveRevisionId d" "ivsExternalEventId v = trim target"
      "ivsAffectedPremiseIds v = map trim (icdAffectedPremiseIds (aieSuggestion e))"
      "ivsAffectedActionIds v = map trim (icdAffectedActionIds (aieSuggestion e))"
  shows "grounded p d v"
proof -
  from given obtain x rv where x: "x \<in> set (shpExternalEvents (mprShared p))" "recId x = target"
      "monitoredBy (extMonitorRegistrationId x) d"
    and rv: "rv \<in> set (shpDecisionRevisions (mprShared p))" "drvDecisionId rv = recId d" "recId rv = decActiveRevisionId d"
      "drvVersion rv = decActiveRevision d" "snpStatus (drvSnapshot rv) = COMMITTED"
    and input: "evaluationInputOf (mprShared p) d x rv = Some given"
    by (auto simp: buildEvaluationInput_def monitoredBy_def dest: findFirst_SomeD split: if_splits option.splits)
  let ?ps = "icdAffectedPremiseIds (aieSuggestion e)" and ?as = "icdAffectedActionIds (aieSuggestion e)"
  have refs: "?ps \<noteq> []" "?as \<noteq> []" "set ?ps \<subseteq> evqPremiseId ` set (eviPremises given)"
    "\<forall>i \<in> set ?as. \<exists>b \<in> set (eviActions given). evaActionId b = i \<and> set (evaAffectedPremiseIds b) \<inter> set ?ps \<noteq> {}"
    using validReferences[of "aieSuggestion e" given] valid unfolding evaluationIsValid_def by blast+
  have allPremises: "\<forall>i \<in> set ?ps. i \<in> set (snpPremiseIds (drvSnapshot rv)) \<and>
      (\<exists>q \<in> set (shpPremises (mprShared p)). recId q = i \<and> recConfirmation q = Confirmed)"
    using givenPremise[OF input] refs(3) by blast
  have allActions: "\<forall>i \<in> set ?as. i \<in> set (snpActionIds (drvSnapshot rv)) \<and>
      (\<exists>a \<in> set (shpActions (mprShared p)). recId a = i \<and> actStatus a \<notin> {Completed, Held} \<and>
         set (actAffectedPremiseIds a) \<inter> set ?ps \<noteq> {})"
    using givenAction[OF input] refs(4) by fastforce
  show ?thesis unfolding grounded_def
  proof (intro conjI)
    show "\<exists>x \<in> set (shpExternalEvents (mprShared p)). ivsExternalEventId v = trim (recId x) \<and>
        monitoredBy (extMonitorRegistrationId x) d" using x v(3) by blast
    show "\<exists>rv \<in> set (shpDecisionRevisions (mprShared p)). \<exists>premises actions.
        drvDecisionId rv = recId d \<and> recId rv = decActiveRevisionId d \<and> drvVersion rv = decActiveRevision d \<and>
        snpStatus (drvSnapshot rv) = COMMITTED \<and>
        premises \<noteq> [] \<and> ivsAffectedPremiseIds v = map trim premises \<and>
        (\<forall>i \<in> set premises. i \<in> set (snpPremiseIds (drvSnapshot rv)) \<and>
           (\<exists>q \<in> set (shpPremises (mprShared p)). recId q = i \<and> recConfirmation q = Confirmed)) \<and>
        actions \<noteq> [] \<and> ivsAffectedActionIds v = map trim actions \<and>
        (\<forall>i \<in> set actions. i \<in> set (snpActionIds (drvSnapshot rv)) \<and>
           (\<exists>a \<in> set (shpActions (mprShared p)). recId a = i \<and> actStatus a \<notin> {Completed, Held} \<and>
              set (actAffectedPremiseIds a) \<inter> set premises \<noteq> {}))"
      using rv refs(1,2) allPremises allActions v(4,5) by blast
  qed (rule v(1), rule v(2))
qed

subsection \<open>Evaluating an event\<close>

text \<open>The suggestion and the mark, before they are placed in the log.\<close>

definition evaluationMade ::
  "evaluateInput \<Rightarrow> decision \<Rightarrow> aiEvaluation \<Rightarrow> int \<Rightarrow> domainEvent list \<Rightarrow> bool" where
  "evaluationMade input c e n evs \<longleftrightarrow>
     (\<exists>v suggested marked model. evs = [suggested, marked] \<and>
        evPayload suggested = AssumptionInvalidationSuggested v \<and> evActor suggested = AiActor model \<and>
        ivsDecisionId v = recId c \<and> ivsActiveRevisionId v = decActiveRevisionId c \<and>
        ivsExternalEventId v = trim (evnExternalEventId input) \<and>
        ivsAffectedPremiseIds v = map trim (icdAffectedPremiseIds (aieSuggestion e)) \<and>
        ivsAffectedActionIds v = map trim (icdAffectedActionIds (aieSuggestion e)) \<and>
        evPayload marked = DecisionMarkedAtRisk (c\<lparr>decStatus := AT_RISK\<rparr>) (ivsSuggestionId v)
          (ivsAffectedPremiseIds v) (ivsAffectedActionIds v) \<and>
        evActor marked = SystemActor \<and> evCausationId marked = Some (evEventId suggested) \<and>
        evIdempotencyKey suggested = Some (evaluationKey (evnExternalEventId input) c) \<and> evIdempotencyKey marked = None \<and>
        (\<forall>ev \<in> {suggested, marked}. evScope ev = SharedScope \<and> meetingId (evnMeetingId input) = Inr (evMeetingId ev)) \<and>
        meetingPosition (n + 1) = Inr (evPosition suggested) \<and> meetingPosition (n + 2) = Inr (evPosition marked))"

lemma evaluationKey_trimmed: "trim (evaluationKey x d) = evaluationKey x d"
  by (rule trim_fixed) (simp add: evaluationKey_def isWhitespace_def codeUnit_def)

lemma at_risk_step:
  assumes "transitionDecision c r = Inr d" "reqTo r = AT_RISK"
  shows "decStatus c = MONITORING \<and> d = c\<lparr>decStatus := AT_RISK\<rparr>"
  using transition_step[OF assms(1)] assms(2) by (auto elim!: decisionStepE)

lemma markRequest_to: "markRequest candidate = Inr r \<Longrightarrow> reqTo r = AT_RISK"
  by (auto simp: markRequest_def result_simps plainRequest_def)

lemma payloadFits_suggested:
  "evPayload ev = AssumptionInvalidationSuggested v \<Longrightarrow> evScope ev = SharedScope \<Longrightarrow> payloadFits ev"
  by (simp add: payloadFits_def reduceSharedPayload_def reduceSharedContent_def isl_bindE)

lemma evaluationMade_placed:
  assumes "evaluationMade input c e (int (length log)) evs" "meetingId (evnMeetingId input) = Inr (recMeetingId c)"
    and "\<forall>old \<in> set log. evIdempotencyKey old \<noteq> Some (evaluationKey (evnExternalEventId input) c)"
  shows "wellPlacedAll (evnMeetingId input) log evs"
proof -
  obtain v suggested marked where evs: "evs = [suggested, marked]"
    and payload: "evPayload suggested = AssumptionInvalidationSuggested v"
      "evPayload marked = DecisionMarkedAtRisk (c\<lparr>decStatus := AT_RISK\<rparr>) (ivsSuggestionId v)
          (ivsAffectedPremiseIds v) (ivsAffectedActionIds v)"
    and keys: "evIdempotencyKey suggested = Some (evaluationKey (evnExternalEventId input) c)" "evIdempotencyKey marked = None"
    and scope: "\<forall>ev \<in> {suggested, marked}. evScope ev = SharedScope \<and> meetingId (evnMeetingId input) = Inr (evMeetingId ev)"
    and at: "meetingPosition (int (length log) + 1) = Inr (evPosition suggested)"
      "meetingPosition (int (length log) + 2) = Inr (evPosition marked)"
    using assms(1) unfolding evaluationMade_def by blast
  have "payloadFits suggested" "payloadFits marked"
    using scope payload(2) assms(2) by (auto intro: payloadFits_suggested[OF payload(1)] simp: payloadFits_decision)
  then have "wellPlaced (evnMeetingId input) log suggested" "wellPlaced (evnMeetingId input) (log @ [suggested]) marked"
    using scope keys at assms(3) by (auto intro!: placed_caused simp: algebra_simps)
  then show ?thesis by (simp add: evs)
qed

context command_world
begin

lemma gives_makeMark:
  "gives L (makeMark deps c e) (\<lambda>(d, t). decStatus c = MONITORING \<and> d = c\<lparr>decStatus := AT_RISK\<rparr>)"
  unfolding makeMark_def
  by (intro gives_try gives_bind[OF gives_lift] gives_bind[OF gives_clock] gives_bind[OF gives_next] gives_return)
    (auto simp: result_simps dest!: markRequest_to at_risk_step)

lemma gives_evaluationEvents:
  assumes "d = c\<lparr>decStatus := AT_RISK\<rparr>"
  shows "gives L (evaluationEvents deps input received c e n (d, t, g, suggestion)) (evaluationMade input c e n)"
  unfolding evaluationEvents_def prod.case
  by (intro gives_bind[OF gives_lift] gives_bind[OF gives_next] gives_return)
    (use assms in \<open>auto dest!: mapE_trim simp: evaluationMade_def suggestionPayload_def Let_def result_simps
       idempotencyKey_def eventId_def causationId_def externalEventId_def opaqueText_Inr evaluationKey_trimmed\<close>)

lemma evaluationFromEvents_rep: "evaluationFromEvents b evs = Some receipt \<Longrightarrow> ercReplayed receipt = b"
  by (auto simp: evaluationFromEvents_def Let_def split: bind_splits)

lemma appendEvaluation_affects:
  assumes keys: "\<And>ev k. ev \<in> set evs \<Longrightarrow> evIdempotencyKey ev = Some k \<Longrightarrow> key = k"
    and expected: "n = int (length (L (evnMeetingId input)))"
  shows "affects L (evnMeetingId input) (appendEvaluation deps input evs n key fingerprint) ercReplayed
    (requestAnswered evs (\<forall>old \<in> set (L (evnMeetingId input)). evIdempotencyKey old \<noteq> Some key)
      (\<lambda>a. \<not> ercReplayed a))"
proof -
  let ?q = "evaluationRequest input evs n key fingerprint"
  have q: "aprEvents ?q = evs" "aprMeetingId ?q = evnMeetingId input" "aprIdempotencyKey ?q = Some key"
    "aprExpectedPosition ?q = Some n"
    by (simp_all add: evaluationRequest_def)
  show ?thesis unfolding appendEvaluation_def
  proof (rule affects_request[of ?q, unfolded q(1), OF q(2)], goal_cases)
    case (2 records)
    show ?case
      by (intro gives_bind[OF gives_loadState] gives_bind[OF gives_put] gives_bind[OF gives_lift])
        (auto split: option.splits dest: evaluationFromEvents_rep)
  next
    case (3 a)
    then show ?case
      by (intro neverFails_bind) (auto simp: putMeeting_def loadState_def intro!: neverFails_bind split: option.splits)
  next
    case (4 L')
    show ?case
      by (intro gives_bind[OF gives_loadState] gives_bind[OF gives_put] gives_bind[OF gives_lift])
        (auto split: option.splits dest: evaluationFromEvents_rep)
  qed (use assms q in auto)
qed

lemma recordedEvaluation_gives: "gives L (recordedEvaluation active ev) ercReplayed"
  by (auto simp: recordedEvaluation_def Let_def split: option.splits)

lemma replayEvaluation_gives:
  assumes "ercEvent prior \<in> set (L (evnMeetingId input))" "evIdempotencyKey (ercEvent prior) = Some key"
  shows "gives L (replayEvaluation deps input records prior key fingerprint) ercReplayed"
proof -
  have "gives L (bindC (appendRequest deps (evaluationRequest input evs n key fingerprint)) (\<lambda>replay.
          bindC (liftC (normalizeRecords (aprRecords replay))) (\<lambda>evs.
          case evaluationFromEvents True evs of
            None \<Rightarrow> failC IDEMPOTENCY_CONFLICT
          | Some receipt \<Rightarrow> returnC receipt))) ercReplayed" for evs n
    by (rule gives_knownRequest[OF _ _ assms(2)])
      (use assms(1) in \<open>auto simp: evaluationRequest_def intro!: gives_bind[OF gives_lift] gives_return
         dest: evaluationFromEvents_rep split: option.splits\<close>)
  then show ?thesis by (auto simp: replayEvaluation_def split: option.splits)
qed

end

subsection \<open>The command\<close>

locale evaluation_world = command_world deps log ok
  for deps :: "'w ports" and log ok +
  fixes evaluator :: "'w evaluator option"
  assumes evaluator_keeps:
    "evaluator = Some evaluate \<Longrightarrow> ok w \<Longrightarrow> ok (snd (evaluate given w)) \<and> log (snd (evaluate given w)) = log w"
begin

lemma gives_askEvaluator: "gives L (askEvaluator evaluator given) (\<lambda>e. evaluationIsValid e given)"
proof (cases evaluator)
  case (Some evaluate)
  have "gives L (portC (evaluate given)) (\<lambda>_. True)"
    by (rule gives_port) (use evaluator_keeps[OF Some] in auto)
  then show ?thesis unfolding askEvaluator_def Some option.case
    by (auto intro!: gives_bind[OF gives_unless] gives_return elim!: gives_bind)
qed (simp add: askEvaluator_def)

lemma evaluateMonitored_affects:
  assumes at: "projectionAt (evnMeetingId input) (L (evnMeetingId input)) p"
    and active: "ercEvent ` set active \<subseteq> set (L (evnMeetingId input))"
    and records: "records = numberRecords 1 (L (evnMeetingId input))"
  shows "affects L (evnMeetingId input) (evaluateMonitored deps evaluator input records active received p) ercReplayed
    (\<lambda>evs r. evaluated input (L (evnMeetingId input)) evs \<and> (\<forall>x. r \<noteq> Inl (Failed x)) \<and> (\<forall>a. r = Inr a \<longrightarrow> \<not> ercReplayed a))"
proof -
  let ?m = "evnMeetingId input" and ?x = "the (externalEventIn (evPayload received))"
  let ?Q = "\<lambda>evs (r :: abort + evaluationReceipt). evaluated input (L ?m) evs \<and> (\<forall>x. r \<noteq> Inl (Failed x)) \<and> (\<forall>a. r = Inr a \<longrightarrow> \<not> ercReplayed a)"
  show ?thesis
  proof (cases "findFirst (monitoredBy (extMonitorRegistrationId ?x)) (shpDecisions (mprShared p))")
    case None
    then show ?thesis by (simp add: evaluateMonitored_def affects_gives Let_def)
  next
    case target: (Some c)
    then have c: "projected p c" by (auto simp: projected_def dest: findFirst_SomeD)
    let ?key = "evaluationKey (evnExternalEventId input) c"
    show ?thesis
    proof (cases "buildEvaluationInput (mprShared p) c (evnExternalEventId input)")
      case None
      then show ?thesis using target by (simp add: evaluateMonitored_def affects_gives Let_def)
    next
      case given: (Some given)
      have new: "affects L ?m (bindC (askEvaluator evaluator given) (\<lambda>evaluation.
                    bindC (makeMark deps c evaluation) (\<lambda>made.
                    bindC (evaluationEvents deps input received c evaluation (lastPosition records) made) (\<lambda>evs.
                    appendEvaluation deps input evs (lastPosition records) ?key fingerprint)))) ercReplayed ?Q" for fingerprint
      proof (rule affects_bind[OF gives_askEvaluator], rule affects_bind[OF gives_makeMark], clarify,
          rule affects_bind[OF gives_evaluationEvents[OF refl]])
        fix e t g suggestion evs
        assume valid: "evaluationIsValid e given" and made: "evaluationMade input c e (lastPosition records) evs"
        have n: "lastPosition records = int (length (L ?m))" by (simp add: records lastPosition_number)
        have keys: "?key = k" if "ev \<in> set evs" "evIdempotencyKey ev = Some k" for ev k
          using made that by (auto simp: evaluationMade_def)
        have "evaluated input (L ?m) evs" if "\<forall>old \<in> set (L ?m). evIdempotencyKey old \<noteq> Some ?key"
        proof -
          have "wellPlacedAll ?m (L ?m) evs"
            using evaluationMade_placed[OF made[unfolded n] _ that] projected_meeting[OF at c] by simp
          moreover obtain v suggested marked model where "evs = [suggested, marked]" and
            v: "ivsDecisionId v = recId c" "ivsActiveRevisionId v = decActiveRevisionId c"
              "ivsExternalEventId v = trim (evnExternalEventId input)"
              "ivsAffectedPremiseIds v = map trim (icdAffectedPremiseIds (aieSuggestion e))"
              "ivsAffectedActionIds v = map trim (icdAffectedActionIds (aieSuggestion e))" and
            "evPayload suggested = AssumptionInvalidationSuggested v" "evActor suggested = AiActor model"
            "evPayload marked = DecisionMarkedAtRisk (c\<lparr>decStatus := AT_RISK\<rparr>) (ivsSuggestionId v)
              (ivsAffectedPremiseIds v) (ivsAffectedActionIds v)"
            "evActor marked = SystemActor" "evCausationId marked = Some (evEventId suggested)"
            "evScope suggested = SharedScope" "evScope marked = SharedScope"
            using made unfolding evaluationMade_def by blast
          moreover have "grounded p c v" by (rule valid_grounded[OF given valid v])
          ultimately show ?thesis using at c unfolding evaluated_def by blast
        qed
        then show "affects L ?m (appendEvaluation deps input evs (lastPosition records) ?key fingerprint) ercReplayed ?Q"
          by (intro affects_mono[OF appendEvaluation_affects[where L = L and input = input and evs = evs and key = ?key, OF keys n]]) (auto simp: requestAnswered_def)
      qed
      have hash: "gives L (portC (prtHash deps v)) (\<lambda>_. True)" for v
        by (rule gives_port) (use hash_keeps in auto)
      show ?thesis
        unfolding evaluateMonitored_def Let_def target option.case given
      proof (rule affects_bind[OF hash], goal_cases)
        case (1 fingerprint)
        show ?case
        proof (cases "findFirst (\<lambda>r. evIdempotencyKey (ercEvent r) = Some ?key \<and> suggestedIn (evPayload (ercEvent r)) \<noteq> None) active")
          case None
          then show ?thesis using new by simp
        next
          case (Some prior)
          then have "ercEvent prior \<in> set (L ?m)" "evIdempotencyKey (ercEvent prior) = Some ?key"
            using active by (auto dest: findFirst_SomeD)
          from affects_gives[OF replayEvaluation_gives[where L = L and input = input, OF this]] show ?thesis unfolding Some option.case .
        qed
      qed
    qed
  qed
qed

lemma evaluateAssumptionInvalidation_affects:
  "affects L (evnMeetingId input) (evaluateAssumptionInvalidation deps evaluator input) ercReplayed
    (\<lambda>evs r. evaluated input (L (evnMeetingId input)) evs \<and> (\<forall>x. r \<noteq> Inl (Failed x)) \<and> (\<forall>a. r = Inr a \<longrightarrow> \<not> ercReplayed a))"
  (is "affects L ?m _ _ ?Q")
proof -
  have checked: "gives L (tryC validationHandler (bindC (liftC (meetingId ?m)) (\<lambda>_.
        bindC (liftC (externalEventId (evnExternalEventId input))) (\<lambda>_. returnC ())))) (\<lambda>_. True)"
    by (intro gives_try gives_bind[OF gives_lift] gives_return) simp
  show ?thesis unfolding evaluateAssumptionInvalidation_def
  proof (rule affects_bind[OF checked], rule affects_bind[OF gives_load], rule affects_bind[OF gives_lift], goal_cases)
    case (1 u records normalized)
    have "ercEvent ` set (afterReset normalized records) \<subseteq> ercEvent ` set records"
      by (auto simp: afterReset_def dest: in_set_dropD)
    also have "\<dots> = set (L ?m)" unfolding 1(2) by (metis events_numberRecords list.set_map)
    finally have active: "ercEvent ` set (afterReset normalized records) \<subseteq> set (L ?m)" .
    have evaluate: "affects L ?m (bindC (liftC (projectRecords ?m records)) (\<lambda>projection.
        evaluateMonitored deps evaluator input records (afterReset normalized records) received projection)) ercReplayed ?Q" for received
      by (rule affects_bind[OF gives_lift]) (rule evaluateMonitored_affects[where L = L, OF _ active 1(2)], simp add: projectionAt_def 1(2))
    show ?case
      by (auto simp: Let_def intro!: evaluate affects_gives recordedEvaluation_gives split: option.split)
  qed
qed

end

text \<open>A language model beside the Node server: its answer may vary from call to call, it leaves the store alone.\<close>

definition nodeEvaluator ::
  "(evaluatorInput \<Rightarrow> nat \<Rightarrow> exn + aiEvaluation) option \<Rightarrow> sqliteWorld evaluator option" where
  "nodeEvaluator model =
     map_option (\<lambda>evaluate given w. (evaluate given (swTick w), w\<lparr>swTick := swTick w + 1\<rparr>)) model"

lemma tick_keeps: "worldOk enc (w\<lparr>swTick := n\<rparr>) = worldOk enc w" "worldLog (w\<lparr>swTick := n\<rparr>) = worldLog w"
  by (simp_all add: worldOk_def worldLog_def fun_eq_iff)

interpretation evaluating: evaluation_world "sqlitePorts enc clk uuid sha" worldLog "worldOk enc" "nodeEvaluator model"
  for enc :: "domainEvent \<Rightarrow> string" and clk uuid sha
    and model :: "(evaluatorInput \<Rightarrow> nat \<Rightarrow> exn + aiEvaluation) option"
proof (intro evaluation_world.intro evaluation_world_axioms.intro)
  show "command_world (sqlitePorts enc clk uuid sha) worldLog (worldOk enc)"
    by (rule node.command_world_axioms)
qed (auto simp: nodeEvaluator_def tick_keeps)

end
