(* ===== verification/ReviewLife.thy ===== *)
theory ReviewLife
  imports EvaluationLogic
begin

section \<open>The second half of a Decision's life\<close>

text \<open>
  What justifies an event of an outside change, an evaluation, a review or a resolution, given the log before it.
  The followers of a batch are judged by the events directly before them. Every command of these modules appends
  justified events only.
\<close>

subsection \<open>Specification\<close>

definition reviewPayload :: "domainEventPayload \<Rightarrow> bool" where
  "reviewPayload p \<longleftrightarrow>
     (case p of
        ExternalEventReceived _ \<Rightarrow> True | AssumptionInvalidationSuggested _ \<Rightarrow> True | DecisionMarkedAtRisk _ _ _ _ \<Rightarrow> True
      | FacilitatorReviewed _ \<Rightarrow> True | DecisionReviewRequired _ _ _ _ \<Rightarrow> True | ActionHeld _ _ _ \<Rightarrow> True
      | ReconsiderationTaskCreated _ \<Rightarrow> True | DecisionRevisionCommitted _ _ \<Rightarrow> True | DecisionSuperseded _ _ \<Rightarrow> True
      | DecisionRejected _ _ \<Rightarrow> True | _ \<Rightarrow> False)"

definition markedAfter :: "string \<Rightarrow> domainEvent list \<Rightarrow> domainEvent \<Rightarrow> bool" where
  "markedAfter m log ev \<longleftrightarrow>
     evActor ev = SystemActor \<and>
     (\<exists>pre suggested p c v. log = pre @ [suggested] \<and> evPayload suggested = AssumptionInvalidationSuggested v \<and>
        evCausationId ev = Some (evEventId suggested) \<and> projectionAt m pre p \<and> projected p c \<and> grounded p c v \<and>
        evPayload ev = DecisionMarkedAtRisk (c\<lparr>decStatus := AT_RISK\<rparr>) (ivsSuggestionId v)
          (ivsAffectedPremiseIds v) (ivsAffectedActionIds v))"

definition reviewedStatus :: "reviewDisposition \<Rightarrow> decisionStatus" where
  "reviewedStatus disposition = (case disposition of ConfirmInvalidation \<Rightarrow> REVIEW_REQUIRED | RejectSuggestion \<Rightarrow> MONITORING)"

definition reviewedFrom :: "string \<Rightarrow> domainEvent list \<Rightarrow> domainEvent \<Rightarrow> facilitatorReview \<Rightarrow> bool" where
  "reviewedFrom m log ev f \<longleftrightarrow>
     evActor ev = ParticipantActor (fvwFacilitatorParticipantId f) \<and>
     (\<exists>p c suggested. projectionAt m log p \<and> projected p c \<and> decStatus c = AT_RISK \<and> suggestedFor log p c suggested \<and>
        fvwDecisionId f = recId c \<and> fvwSuggestionId f = ivsSuggestionId suggested \<and>
        fvwDecision f = c\<lparr>decStatus := reviewedStatus (fvwDisposition f)\<rparr>)"

definition confirmedReview :: "domainEvent \<Rightarrow> facilitatorReview \<Rightarrow> bool" where
  "confirmedReview ev f \<longleftrightarrow>
     evPayload ev = FacilitatorReviewed f \<and> evScope ev = SharedScope \<and> fvwDisposition f = ConfirmInvalidation"

definition requiredAfter :: "domainEvent list \<Rightarrow> domainEvent \<Rightarrow> bool" where
  "requiredAfter log ev \<longleftrightarrow>
     evActor ev = SystemActor \<and>
     (\<exists>pre reviewed f held task. log = pre @ [reviewed] \<and> confirmedReview reviewed f \<and>
        evCausationId ev = Some (evEventId reviewed) \<and>
        evPayload ev = DecisionReviewRequired (fvwDecision f) (fvwSuggestionId f) held task)"

definition heldAfter :: "string \<Rightarrow> domainEvent list \<Rightarrow> domainEvent \<Rightarrow> bool" where
  "heldAfter m log ev \<longleftrightarrow>
     evActor ev = SystemActor \<and>
     (\<exists>pre reviewed required f held task p c suggested. log = pre @ [reviewed, required] \<and> confirmedReview reviewed f \<and>
        evPayload required = DecisionReviewRequired (fvwDecision f) (fvwSuggestionId f) (map recId held) task \<and>
        evCausationId ev = Some (evEventId required) \<and> evPayload ev = ActionHeld (fvwDecisionId f) (fvwSuggestionId f) held \<and>
        projectionAt m pre p \<and> projected p c \<and> suggestedFor pre p c suggested \<and>
        fvwSuggestionId f = ivsSuggestionId suggested \<and> heldFor p suggested (fvwReason f) held)"

definition taskAfter :: "domainEvent list \<Rightarrow> domainEvent \<Rightarrow> bool" where
  "taskAfter log ev \<longleftrightarrow>
     evActor ev = SystemActor \<and>
     (\<exists>pre reviewed required actionHeld f held task. log = pre @ [reviewed, required, actionHeld] \<and> confirmedReview reviewed f \<and>
        evPayload required = DecisionReviewRequired (fvwDecision f) (fvwSuggestionId f) held (recId task) \<and>
        evCausationId ev = Some (evEventId required) \<and> evPayload ev = ReconsiderationTaskCreated task \<and>
        tskState task = TaskOpen \<and> tskDecisionId task = fvwDecisionId f \<and>
        recOwner task = Some (fvwFacilitatorParticipantId f))"

definition resolvedFrom :: "string \<Rightarrow> domainEvent list \<Rightarrow> domainEvent \<Rightarrow> bool" where
  "resolvedFrom m log ev \<longleftrightarrow>
     (\<exists>f p c i. evActor ev = ParticipantActor f \<and> projectionAt m log p \<and> projected p c \<and> decStatus c = REVIEW_REQUIRED \<and>
        requiredFor log c i \<and> evCausationId ev = Some (trim i) \<and>
        (case evPayload ev of
           DecisionRevisionCommitted d rv \<Rightarrow>
             d = recommitted c rv \<and> recCreatedBy rv = f \<and> revisionAccepted p rv \<and> drvDecisionId rv = recId c \<and>
             drvVersion rv = decActiveRevision c + 1 \<and> drvPreviousRevisionId rv = Some (decActiveRevisionId c) \<and>
             snpStatus (drvSnapshot rv) = COMMITTED \<and> hasCanonicalReferences p c
         | DecisionSuperseded d new \<Rightarrow>
             new \<noteq> recId c \<and> (\<exists>e. projected p e \<and> recId e = new) \<and>
             d = c\<lparr>decSupersededBy := Some new, decStatus := SUPERSEDED\<rparr>
         | DecisionRejected d reason \<Rightarrow> d = c\<lparr>decStatus := REJECTED\<rparr>
         | _ \<Rightarrow> False))"

definition reviewJustified :: "string \<Rightarrow> domainEvent list \<Rightarrow> domainEvent \<Rightarrow> bool" where
  "reviewJustified m log ev \<longleftrightarrow>
     wellPlaced m log ev \<and> evScope ev = SharedScope \<and>
     (case evPayload ev of
        ExternalEventReceived x \<Rightarrow> (\<exists>p. projectionAt m log p \<and> receivedFrom p (evActor ev) x)
      | AssumptionInvalidationSuggested v \<Rightarrow>
          (\<exists>model p c. evActor ev = AiActor model \<and> projectionAt m log p \<and> projected p c \<and> grounded p c v)
      | DecisionMarkedAtRisk _ _ _ _ \<Rightarrow> markedAfter m log ev
      | FacilitatorReviewed f \<Rightarrow> reviewedFrom m log ev f
      | DecisionReviewRequired _ _ _ _ \<Rightarrow> requiredAfter log ev
      | ActionHeld _ _ _ \<Rightarrow> heldAfter m log ev
      | ReconsiderationTaskCreated _ \<Rightarrow> taskAfter log ev
      | DecisionRevisionCommitted _ _ \<Rightarrow> resolvedFrom m log ev
      | DecisionSuperseded _ _ \<Rightarrow> resolvedFrom m log ev
      | DecisionRejected _ _ \<Rightarrow> resolvedFrom m log ev
      | _ \<Rightarrow> False)"

abbreviation reviewLives :: "string \<Rightarrow> domainEvent list \<Rightarrow> domainEvent list \<Rightarrow> bool" where
  "reviewLives m \<equiv> stepwise (reviewJustified m)"

lemma reviewJustified_payload: "reviewJustified m log ev \<Longrightarrow> wellPlaced m log ev \<and> reviewPayload (evPayload ev)"
  by (cases "evPayload ev") (simp_all add: reviewJustified_def reviewPayload_def)

subsection \<open>The commands append justified events\<close>

lemma changeReceived_lives: "changeReceived actor input log ev \<Longrightarrow> reviewJustified (rgcMeetingId input) log ev"
  by (auto simp: changeReceived_def reviewJustified_def)

lemma evaluated_lives: "evaluated input log evs \<Longrightarrow> reviewLives (evnMeetingId input) log evs"
  unfolding evaluated_def
  by (elim conjE exE) (auto simp: reviewJustified_def markedAfter_def)

lemma reviewedBy_from:
  assumes "reviewedBy context c (c\<lparr>decStatus := reviewedStatus disposition\<rparr>) suggested disposition reason ev"
    and "projectionAt m log p" "projected p c" "decStatus c = AT_RISK" "suggestedFor log p c suggested"
  obtains f where "evPayload ev = FacilitatorReviewed f" "reviewedFrom m log ev f" "fvwDisposition f = disposition"
    "fvwDecision f = c\<lparr>decStatus := reviewedStatus disposition\<rparr>" "fvwDecisionId f = recId c"
    "fvwSuggestionId f = ivsSuggestionId suggested" "fvwReason f = reason"
    "fvwFacilitatorParticipantId f = trim (uctParticipantId context)"
proof -
  let ?f = "\<lparr>fvwDecision = c\<lparr>decStatus := reviewedStatus disposition\<rparr>, fvwDecisionId = recId c,
    fvwSuggestionId = ivsSuggestionId suggested,
    fvwFacilitatorParticipantId = trim (uctParticipantId context), fvwDisposition = disposition,
    fvwReviewedPremiseIds = ivsAffectedPremiseIds suggested,
    fvwReviewedEvidenceReferenceIds = ivsEvidenceReferenceIds suggested,
    fvwReviewedActionIds = ivsAffectedActionIds suggested, fvwReason = reason\<rparr>"
  have payload: "evPayload ev = FacilitatorReviewed ?f" and actor: "evActor ev = ParticipantActor (trim (uctParticipantId context))"
    using assms(1) by (auto simp: reviewedBy_def actsAs_def dest: participantId_trim)
  from actor assms(2-5) have "reviewedFrom m log ev ?f"
    unfolding reviewedFrom_def by (intro conjI exI[of _ p] exI[of _ c] exI[of _ suggested]) simp_all
  from that[OF payload this] show thesis by simp
qed

lemma rejection_lives:
  assumes "rejection context input log batch"
  shows "reviewLives (mutMeetingId input) log batch"
proof -
  let ?m = "mutMeetingId input"
  from assms obtain p c suggested reason reviewed where batch: "batch = [reviewed]"
    and at: "projectionAt ?m log p" "projected p c" "decStatus c = AT_RISK" "suggestedFor log p c suggested"
    and acts: "reviewedBy context c (c\<lparr>decStatus := MONITORING\<rparr>) suggested RejectSuggestion reason reviewed"
    and placed: "wellPlacedAll ?m log batch" "\<forall>ev \<in> set batch. evScope ev = SharedScope"
    unfolding rejection_def by blast
  from acts have "reviewedBy context c (c\<lparr>decStatus := reviewedStatus RejectSuggestion\<rparr>) suggested RejectSuggestion reason reviewed"
    by (simp add: reviewedStatus_def)
  from this at obtain f where "evPayload reviewed = FacilitatorReviewed f" "reviewedFrom ?m log reviewed f"
    by (rule reviewedBy_from)
  with placed batch show ?thesis by (simp add: reviewJustified_def)
qed

lemma confirmation_lives:
  assumes "confirmation context input log batch"
  shows "reviewLives (mutMeetingId input) log batch"
proof -
  let ?m = "mutMeetingId input"
  from assms obtain p c suggested reason held task reviewed required actionHeld created where
    batch: "batch = [reviewed, required, actionHeld, created]"
    and at: "projectionAt ?m log p" "projected p c" "decStatus c = AT_RISK" "suggestedFor log p c suggested"
    and acts: "reviewedBy context c (c\<lparr>decStatus := REVIEW_REQUIRED\<rparr>) suggested ConfirmInvalidation reason reviewed"
    and placed: "wellPlacedAll ?m log batch" and scopes: "\<forall>ev \<in> set batch. evScope ev = SharedScope"
    and held: "heldFor p suggested reason held" and task: "taskFor c suggested (trim (uctParticipantId context)) task"
    and payloads: "evPayload required = DecisionReviewRequired (c\<lparr>decStatus := REVIEW_REQUIRED\<rparr>)
          (ivsSuggestionId suggested) (map recId held) (recId task)"
      "evPayload actionHeld = ActionHeld (recId c) (ivsSuggestionId suggested) held"
      "evPayload created = ReconsiderationTaskCreated task"
    and causes: "evCausationId required = Some (evEventId reviewed)" "evCausationId actionHeld = Some (evEventId required)"
      "evCausationId created = Some (evEventId required)"
    and actors: "\<forall>ev \<in> {required, actionHeld, created}. evActor ev = SystemActor \<and>
           evCorrelationId ev = evCorrelationId reviewed \<and> evOccurredAt ev = evOccurredAt reviewed"
    unfolding confirmation_def by blast
  from acts have "reviewedBy context c (c\<lparr>decStatus := reviewedStatus ConfirmInvalidation\<rparr>) suggested ConfirmInvalidation reason reviewed"
    by (simp add: reviewedStatus_def)
  from this at obtain f where payload: "evPayload reviewed = FacilitatorReviewed f" and judged: "reviewedFrom ?m log reviewed f"
    and f: "fvwDisposition f = ConfirmInvalidation" "fvwDecision f = c\<lparr>decStatus := reviewedStatus ConfirmInvalidation\<rparr>"
      "fvwDecisionId f = recId c" "fvwSuggestionId f = ivsSuggestionId suggested" "fvwReason f = reason"
      "fvwFacilitatorParticipantId f = trim (uctParticipantId context)"
    by (rule reviewedBy_from)
  have confirmed: "confirmedReview reviewed f" using payload f(1) scopes batch by (simp add: confirmedReview_def)
  have d: "c\<lparr>decStatus := REVIEW_REQUIRED\<rparr> = fvwDecision f" by (simp add: f(2) reviewedStatus_def)
  have "reviewJustified ?m log reviewed"
    using placed scopes batch payload judged by (simp add: reviewJustified_def)
  moreover have "requiredAfter (log @ [reviewed]) required"
    unfolding requiredAfter_def
    using confirmed payloads(1)[unfolded d f(4)[symmetric]] causes(1) actors by blast
  moreover have "heldAfter ?m (log @ [reviewed, required]) actionHeld"
    unfolding heldAfter_def
    using confirmed payloads(1,2)[unfolded d f(3,4)[symmetric]] causes(2) actors at(1,2,4) f(4) held[folded f(5)] by blast
  moreover have "taskAfter (log @ [reviewed, required, actionHeld]) created"
    unfolding taskAfter_def
    using confirmed payloads(1,3)[unfolded d f(4)[symmetric]] causes(3) actors task f(3,6)
    by (auto simp: taskFor_def)
  ultimately show ?thesis
    using placed scopes unfolding batch by (simp add: reviewJustified_def payloads)
qed

lemma resolvedBy_lives:
  assumes "resolvedBy context m target P log ev"
    and "\<And>p c f. P p c (evPayload ev) \<Longrightarrow> f = trim (uctParticipantId context) \<Longrightarrow>
      (case evPayload ev of
           DecisionRevisionCommitted d rv \<Rightarrow>
             d = recommitted c rv \<and> recCreatedBy rv = f \<and> revisionAccepted p rv \<and> drvDecisionId rv = recId c \<and>
             drvVersion rv = decActiveRevision c + 1 \<and> drvPreviousRevisionId rv = Some (decActiveRevisionId c) \<and>
             snpStatus (drvSnapshot rv) = COMMITTED \<and> hasCanonicalReferences p c
         | DecisionSuperseded d new \<Rightarrow>
             new \<noteq> recId c \<and> (\<exists>e. projected p e \<and> recId e = new) \<and>
             d = c\<lparr>decSupersededBy := Some new, decStatus := SUPERSEDED\<rparr>
         | DecisionRejected d reason \<Rightarrow> d = c\<lparr>decStatus := REJECTED\<rparr>
         | _ \<Rightarrow> False)"
  shows "reviewJustified m log ev"
proof -
  from assms(1) obtain f p c i where
    "evActor ev = ParticipantActor f" "f = trim (uctParticipantId context)" "projectionAt m log p" "projected p c"
    "decStatus c = REVIEW_REQUIRED" "requiredFor log c i" "evCausationId ev = Some (trim i)" and P: "P p c (evPayload ev)"
    and placed: "wellPlaced m log ev" "evScope ev = SharedScope"
    unfolding resolvedBy_def actsAs_def by (blast dest: participantId_trim)
  with assms(2)[OF P \<open>f = _\<close>] have "resolvedFrom m log ev" unfolding resolvedFrom_def by blast
  with placed assms(2)[OF P \<open>f = _\<close>] show ?thesis
    by (cases "evPayload ev") (simp_all add: reviewJustified_def)
qed

lemma recommitted_lives:
  "resolvedBy context m target (recommitCarries context input) log ev \<Longrightarrow> reviewJustified m log ev"
  by (erule resolvedBy_lives) (auto simp: recommitCarries_def)

lemma superseded_lives:
  "resolvedBy context m target (supersedeCarries input) log ev \<Longrightarrow> reviewJustified m log ev"
  by (erule resolvedBy_lives) (auto simp: supersedeCarries_def)

lemma rejected_lives:
  "resolvedBy context m target (rejectCarries input) log ev \<Longrightarrow> reviewJustified m log ev"
  by (erule resolvedBy_lives) (auto simp: rejectCarries_def)

end
