(* ===== verification/MeetingSteps.thy ===== *)
theory MeetingSteps
  imports DecisionExample FloorLogic DisclosureLogic ReviewLife
begin

section \<open>Runs of the server\<close>

text \<open>
  Any sequence of commands, by any users with any inputs, over the Node server's world:
  \<open>meetingStep\<close> has one rule per modelled command and one for the appends of the other modules,
  which may add well-placed events that no modelled command makes. The invariant of every reachable
  world is that each log is lawful: every event was well placed when it was appended, and every event
  of a modelled command was justified by the meeting before it.
\<close>

subsection \<open>Steps\<close>

text \<open>The payloads that only the modelled commands write.\<close>

definition lifePayload :: "domainEventPayload \<Rightarrow> bool" where
  "lifePayload p \<longleftrightarrow> decisionOfPayload p \<noteq> None \<or> reviewPayload p"

definition guardedPayload :: "domainEventPayload \<Rightarrow> bool" where
  "guardedPayload p \<longleftrightarrow> lifePayload p \<or> speechPayload p \<or> disclosurePayload p"

definition otherEvents :: "string \<Rightarrow> domainEvent list \<Rightarrow> domainEvent appendEventsRequest \<Rightarrow> bool" where
  "otherEvents m log request \<longleftrightarrow>
     aprMeetingId request = m \<and> wellPlacedAll m log (aprEvents request) \<and>
     list_all (\<lambda>ev. \<not> guardedPayload (evPayload ev) \<and>
       (evIdempotencyKey ev = None \<or> evIdempotencyKey ev = aprIdempotencyKey request)) (aprEvents request)"

inductive meetingStep ::
  "(domainEvent \<Rightarrow> string) \<Rightarrow> (nat \<Rightarrow> int) \<Rightarrow> (nat \<Rightarrow> string) \<Rightarrow> (string \<Rightarrow> string) \<Rightarrow>
     sqliteWorld \<Rightarrow> sqliteWorld \<Rightarrow> bool"
  for enc clk uuid sha
  where
    step_draft:
      "trim (mutIdempotencyKey input) = mutIdempotencyKey input \<Longrightarrow>
       saveDecisionDraft (sqlitePorts enc clk uuid sha) user (input :: saveDecisionDraftInput) w = (r, w') \<Longrightarrow>
       meetingStep enc clk uuid sha w w'"
  | step_ready:
      "trim (mutIdempotencyKey input) = mutIdempotencyKey input \<Longrightarrow>
       markDecisionReady (sqlitePorts enc clk uuid sha) user (input :: decisionCommandInput) w = (r', w') \<Longrightarrow>
       meetingStep enc clk uuid sha w w'"
  | step_commit:
      "trim (mutIdempotencyKey input) = mutIdempotencyKey input \<Longrightarrow>
       commitDecision (sqlitePorts enc clk uuid sha) user (input :: commitDecisionInput) w = (r, w') \<Longrightarrow>
       meetingStep enc clk uuid sha w w'"
  | step_monitor:
      "trim (mutIdempotencyKey input) = mutIdempotencyKey input \<Longrightarrow>
       startDecisionMonitoring (sqlitePorts enc clk uuid sha) user (input :: decisionCommandInput) w = (r'', w') \<Longrightarrow>
       meetingStep enc clk uuid sha w w'"
  | step_receive:
      "trim (rgcEventId change) = rgcEventId change \<Longrightarrow>
       receiveRegulatoryChange (sqlitePorts enc clk uuid sha) actor change w = (rx, w') \<Longrightarrow>
       meetingStep enc clk uuid sha w w'"
  | step_inject:
      "trim (''demo-regulator:'' @ idiIdempotencyKey demo) = ''demo-regulator:'' @ idiIdempotencyKey demo \<Longrightarrow>
       injectDemoRegulatoryChange (sqlitePorts enc clk uuid sha) user demo w = (rx, w') \<Longrightarrow>
       meetingStep enc clk uuid sha w w'"
  | step_evaluate:
      "evaluateAssumptionInvalidation (sqlitePorts enc clk uuid sha) (nodeEvaluator model) target w = (re, w') \<Longrightarrow>
       meetingStep enc clk uuid sha w w'"
  | step_confirm:
      "trim (mutIdempotencyKey input) = mutIdempotencyKey input \<Longrightarrow>
       confirmInvalidationReview (sqlitePorts enc clk uuid sha) user (input :: reviewInput) w = (ri, w') \<Longrightarrow>
       meetingStep enc clk uuid sha w w'"
  | step_dismiss:
      "trim (mutIdempotencyKey input) = mutIdempotencyKey input \<Longrightarrow>
       rejectInvalidationReview (sqlitePorts enc clk uuid sha) user (input :: reviewInput) w = (ri, w') \<Longrightarrow>
       meetingStep enc clk uuid sha w w'"
  | step_recommit:
      "trim (mutIdempotencyKey input) = mutIdempotencyKey input \<Longrightarrow>
       recommitDecision (sqlitePorts enc clk uuid sha) user (input :: recommitDecisionInput) w = (rd, w') \<Longrightarrow>
       meetingStep enc clk uuid sha w w'"
  | step_supersede:
      "trim (mutIdempotencyKey input) = mutIdempotencyKey input \<Longrightarrow>
       supersedeDecision (sqlitePorts enc clk uuid sha) user (input :: supersedeDecisionInput) w = (rd, w') \<Longrightarrow>
       meetingStep enc clk uuid sha w w'"
  | step_turn_down:
      "trim (mutIdempotencyKey input) = mutIdempotencyKey input \<Longrightarrow>
       rejectDecision (sqlitePorts enc clk uuid sha) user (input :: rejectDecisionInput) w = (rd, w') \<Longrightarrow>
       meetingStep enc clk uuid sha w w'"
  | step_acquire:
      "acquireSharedFloor (sqlitePorts enc clk uuid sha) user acquisition w = (ra, w') \<Longrightarrow>
       meetingStep enc clk uuid sha w w'"
  | step_release:
      "releaseSharedFloor (sqlitePorts enc clk uuid sha) user release w = (rr, w') \<Longrightarrow>
       meetingStep enc clk uuid sha w w'"
  | step_capture:
      "captureUtterance (sqlitePorts enc clk uuid sha) user capture w = (rc, w') \<Longrightarrow>
       meetingStep enc clk uuid sha w w'"
  | step_register:
      "trim (mutIdempotencyKey source) = mutIdempotencyKey source \<Longrightarrow>
       registerPrivateTextSource (nodeDisclosures enc clk uuid sha root proposer) user source w = (rs, w') \<Longrightarrow>
       meetingStep enc clk uuid sha w w'"
  | step_propose:
      "trim (mutIdempotencyKey proposal) = mutIdempotencyKey proposal \<Longrightarrow>
       proposeDisclosure (nodeDisclosures enc clk uuid sha root proposer) user proposal w = (rp, w') \<Longrightarrow>
       meetingStep enc clk uuid sha w w'"
  | step_preview:
      "trim (mutIdempotencyKey preview) = mutIdempotencyKey preview \<Longrightarrow>
       previewDisclosure (nodeDisclosures enc clk uuid sha root proposer) user preview w = (rv, w') \<Longrightarrow>
       meetingStep enc clk uuid sha w w'"
  | step_approve:
      "trim (mutIdempotencyKey approval) = mutIdempotencyKey approval \<Longrightarrow>
       approveDisclosure (nodeDisclosures enc clk uuid sha root proposer) user approval w = (rv', w') \<Longrightarrow>
       meetingStep enc clk uuid sha w w'"
  | step_reject:
      "trim (mutIdempotencyKey refusal) = mutIdempotencyKey refusal \<Longrightarrow>
       rejectDisclosure (nodeDisclosures enc clk uuid sha root proposer) user refusal w = (rj, w') \<Longrightarrow>
       meetingStep enc clk uuid sha w w'"
  | step_other:
      "otherEvents m (worldLog w m) request \<Longrightarrow>
       prtAppend (sqlitePorts enc clk uuid sha) request w = (out, w') \<Longrightarrow>
       meetingStep enc clk uuid sha w w'"

definition reachable ::
  "(domainEvent \<Rightarrow> string) \<Rightarrow> (nat \<Rightarrow> int) \<Rightarrow> (nat \<Rightarrow> string) \<Rightarrow> (string \<Rightarrow> string) \<Rightarrow> sqliteWorld \<Rightarrow> bool" where
  "reachable enc clk uuid sha w \<longleftrightarrow> rtranclp (meetingStep enc clk uuid sha) emptyWorld w"

subsection \<open>Lawful logs\<close>

text \<open>An event of a Decision's life, in either half, was justified by the meeting before it.\<close>

definition lifeJustified :: "string \<Rightarrow> domainEvent list \<Rightarrow> domainEvent \<Rightarrow> bool" where
  "lifeJustified m log ev \<longleftrightarrow>
     (if reviewPayload (evPayload ev) then reviewJustified m log ev else justified m log ev)"

definition lawful :: "(string \<Rightarrow> string) \<Rightarrow> string \<Rightarrow> domainEvent list \<Rightarrow> domainEvent \<Rightarrow> bool" where
  "lawful sha m log ev \<longleftrightarrow>
     wellPlaced m log ev \<and> (lifePayload (evPayload ev) \<longrightarrow> lifeJustified m log ev) \<and>
     (distinct (map evEventId log) \<longrightarrow> speechJustified m log ev) \<and> disclosureJustified sha log ev"

abbreviation lawfulAll ::
  "(string \<Rightarrow> string) \<Rightarrow> string \<Rightarrow> domainEvent list \<Rightarrow> domainEvent list \<Rightarrow> bool" where
  "lawfulAll sha m \<equiv> stepwise (lawful sha m)"

lemma lawfulAll_wellPlaced: "lawfulAll sha m log evs \<Longrightarrow> wellPlacedAll m log evs"
  by (erule stepwise_mono) (simp add: lawful_def)

lemma lawfulAll_other:
  "wellPlacedAll m log evs \<Longrightarrow> list_all (\<lambda>ev. \<not> guardedPayload (evPayload ev) \<and> P ev) evs \<Longrightarrow>
     lawfulAll sha m log evs"
  by (erule stepwise_mono) (auto simp: lawful_def guardedPayload_def list_all_iff speechJustified_other disclosureJustified_other)

text \<open>The three kinds of guarded payloads are disjoint.\<close>

lemma life_payload:
  "lifePayload p \<Longrightarrow> \<not> speechPayload p \<and> \<not> disclosurePayload p"
  by (cases p) (simp_all add: lifePayload_def reviewPayload_def speechPayload_def floorPayload_def disclosurePayload_def)

lemma speech_payload: "speechPayload p \<Longrightarrow> \<not> lifePayload p \<and> \<not> disclosurePayload p"
  using life_payload[of p] by (cases p) (auto simp: speechPayload_def floorPayload_def disclosurePayload_def)

lemma disclosure_payload: "disclosurePayload p \<Longrightarrow> \<not> lifePayload p \<and> \<not> speechPayload p"
  using life_payload[of p] speech_payload[of p] by auto

lemma justified_placed:
  "justified m log ev \<Longrightarrow> wellPlaced m log ev \<and> lifePayload (evPayload ev) \<and> \<not> reviewPayload (evPayload ev)"
  by (cases "evPayload ev") (auto simp: justified_def lifePayload_def reviewPayload_def)

lemma life_lawful:
  "lifeJustified m log ev \<Longrightarrow> wellPlaced m log ev \<Longrightarrow> lifePayload (evPayload ev) \<Longrightarrow> lawful sha m log ev"
  using life_payload[of "evPayload ev"]
  by (simp add: lawful_def speechJustified_other disclosureJustified_other)

lemma justified_lawful: "justified m log ev \<Longrightarrow> lawful sha m log ev"
  using justified_placed[of m log ev] by (intro life_lawful) (auto simp: lifeJustified_def)

lemma review_lawful: "reviewJustified m log ev \<Longrightarrow> lawful sha m log ev"
  using reviewJustified_payload[of m log ev]
  by (intro life_lawful) (auto simp: lifeJustified_def lifePayload_def)

lemma reviewLives_lawful: "reviewLives m log evs \<Longrightarrow> lawfulAll sha m log evs"
  by (erule stepwise_mono) (rule review_lawful)

text \<open>In a lawful log the projected floor is the lease in force, so what the floor commands append is lawful.\<close>

lemma lawful_scope:
  assumes "lawfulAll sha m [] log" "distinct (map evEventId log)" "ev \<in> set log" "floorPayload (evPayload ev)"
  shows "evScope ev = SharedScope"
proof -
  obtain pre post where log: "log = pre @ ev # post" using assms(3) by (meson split_list)
  then have "lawful sha m pre ev" "distinct (map evEventId pre)"
    using assms(1,2) stepwise_split[of "lawful sha m" pre ev post] by auto
  with assms(4) show ?thesis by (simp add: lawful_def speechJustified_def floorJustified_def)
qed

lemma lawful_floorSeen:
  assumes "lawfulAll sha m [] log" "distinct (map evEventId log)"
  shows "floorSeen m log"
  using projection_floor[OF lawfulAll_wellPlaced[OF assms(1)] assms(2)] lawful_scope[OF assms]
  by (auto simp: floorSeen_def)

lemma stepwise_vacuous:
  "\<not> distinct (map evEventId log) \<Longrightarrow> stepwise (\<lambda>pre ev. distinct (map evEventId pre) \<longrightarrow> P pre ev) log evs"
  by (induction evs arbitrary: log) auto

lemma speaks_lawful:
  assumes "lawfulAll sha m [] log" "speaks m log evs"
  shows "lawfulAll sha m log evs"
proof -
  have "stepwise (\<lambda>pre ev. distinct (map evEventId pre) \<longrightarrow> speechJustified m pre ev) log evs"
  proof (cases "distinct (map evEventId log)")
    case True
    then have "stepwise (speechJustified m) log evs"
      using lawful_floorSeen[OF assms(1)] assms(2) by (simp add: speaks_def)
    then show ?thesis by (rule stepwise_mono) simp
  qed (rule stepwise_vacuous)
  with assms(2) have "stepwise (\<lambda>pre ev. wellPlaced m pre ev \<and>
      (distinct (map evEventId pre) \<longrightarrow> speechJustified m pre ev)) log evs"
    by (simp add: stepwise_and speaks_def)
  then show ?thesis
    by (rule stepwise_mono)
      (use assms(2) speech_payload in \<open>auto simp: lawful_def speaks_def list_all_iff disclosureJustified_other\<close>)
qed

text \<open>Lawful logs are settled, so what the disclosure commands append is lawful.\<close>

lemma lawful_settled:
  assumes "lawfulAll sha m [] log"
  shows "settled log"
proof -
  have "tidyDisclosure ev" if "ev \<in> set log" for ev
  proof -
    from split_list[OF that] obtain pre post where "log = pre @ ev # post" by blast
    then have "lawful sha m pre ev" using assms stepwise_split[of "lawful sha m" pre ev post] by simp
    then show ?thesis by (simp add: lawful_def disclosureJustified_def)
  qed
  with placed_normalized[OF lawfulAll_wellPlaced[OF assms]] show ?thesis by (simp add: settled_def)
qed

lemma discloses_lawful:
  assumes "lawfulAll sha m [] log" "discloses sha m log evs"
  shows "lawfulAll sha m log evs"
proof -
  have "stepwise (\<lambda>pre ev. wellPlaced m pre ev \<and> disclosureJustified sha pre ev) log evs"
    using assms lawful_settled by (auto simp: stepwise_and discloses_def)
  then show ?thesis
    by (rule stepwise_mono)
      (use assms(2) disclosure_payload in \<open>auto simp: lawful_def discloses_def list_all_iff speechJustified_other\<close>)
qed

lemma registers_lawful: "registers m log evs \<Longrightarrow> lawfulAll sha m log evs"
  by (auto simp: registers_def lawful_def speechJustified_other disclosureJustified_other speechPayload_def
      floorPayload_def disclosurePayload_def lifePayload_def reviewPayload_def)

definition lawfulWorld ::
  "(domainEvent \<Rightarrow> string) \<Rightarrow> (string \<Rightarrow> string) \<Rightarrow> sqliteWorld \<Rightarrow> bool" where
  "lawfulWorld enc sha w \<longleftrightarrow> worldOk enc w \<and> (\<forall>m. lawfulAll sha m [] (worldLog w m))"

lemma lawfulWorld_extend:
  "worldOk enc w' \<Longrightarrow> lawfulWorld enc sha w \<Longrightarrow> worldLog w' = (worldLog w)(m := worldLog w m @ evs) \<Longrightarrow>
     lawfulAll sha m (worldLog w m) evs \<Longrightarrow> lawfulWorld enc sha w'"
  by (simp add: lawfulWorld_def stepwise_append)

lemma affects_lawful:
  assumes c: "node.affects enc (worldLog w) m c P Q" and w: "lawfulWorld enc sha w" and run: "c w = (r, w')"
    and Q: "\<And>evs r. Q evs r \<Longrightarrow> lawfulAll sha m (worldLog w m) evs"
  shows "lawfulWorld enc sha w'"
proof -
  have ok: "worldOk enc w" using w by (simp add: lawfulWorld_def)
  from node.affectsD[OF c ok refl run]
  have ok': "worldOk enc w'" and "node.effect (worldLog w) m P Q r (worldLog w')" by blast+
  then consider "worldLog w' = worldLog w"
    | evs where "worldLog w' = (worldLog w)(m := worldLog w m @ evs)" "Q evs r"
    unfolding node.effect_def by blast
  then show ?thesis
  proof cases
    case 1
    with w ok' show ?thesis by (simp add: lawfulWorld_def)
  next
    case 2
    from lawfulWorld_extend[OF ok' w 2(1) Q[OF 2(2)]] show ?thesis .
  qed
qed

lemma writes_lawful:
  assumes c: "node.writes enc (worldLog w) m c Q" and w: "lawfulWorld enc sha w" and run: "c w = (r, w')"
    and Q: "\<And>ev. Q ev \<Longrightarrow> justified m (worldLog w m) ev"
  shows "lawfulWorld enc sha w'"
  by (rule affects_lawful[OF c[unfolded node.writes_def] w run])
    (use Q justified_lawful in \<open>auto simp: node.answered_def\<close>)

lemma speech_lawful:
  assumes "node.affects enc (worldLog w) m c P (\<lambda>evs r. speaks m (worldLog w m) evs \<and> R evs r)"
    and "lawfulWorld enc sha w" "c w = (r, w')"
  shows "lawfulWorld enc sha w'"
  by (rule affects_lawful[OF assms]) (use assms(2) speaks_lawful in \<open>auto simp: lawfulWorld_def\<close>)

lemma disclosure_lawful:
  assumes "share.affects enc (worldLog w) m c P (\<lambda>evs r. discloses sha m (worldLog w m) evs \<and> R evs r)"
    and "lawfulWorld enc sha w" "c w = (r, w')"
  shows "lawfulWorld enc sha w'"
  by (rule affects_lawful[OF assms]) (use assms(2) discloses_lawful in \<open>auto simp: lawfulWorld_def\<close>)

lemma register_lawful:
  assumes "share.affects enc (worldLog w) m c P (\<lambda>evs r. registers m (worldLog w m) evs \<and> R evs r)"
    and "lawfulWorld enc sha w" "c w = (r, w')"
  shows "lawfulWorld enc sha w'"
  by (rule affects_lawful[OF assms]) (use registers_lawful in auto)

lemma batch_lawful:
  assumes "node.affects enc (worldLog w) m c P (node.batchAnswered (worldLog w) m read Q)"
    and "lawfulWorld enc sha w" "c w = (r, w')"
    and Q: "\<And>evs. Q evs \<Longrightarrow> reviewLives m (worldLog w m) evs"
  shows "lawfulWorld enc sha w'"
  by (rule affects_lawful[OF assms(1-3)]) (use Q reviewLives_lawful in \<open>auto simp: node.batchAnswered_def\<close>)

lemma other_lawful:
  assumes w: "lawfulWorld enc sha w" and other: "otherEvents m (worldLog w m) request"
    and run: "prtAppend (sqlitePorts enc clk uuid sha) request w = (out, w')"
  shows "lawfulWorld enc sha w'"
proof -
  have ok: "worldOk enc w" using w by (simp add: lawfulWorld_def)
  have keys: "aprIdempotencyKey request = Some k"
    if "ev \<in> set (aprEvents request)" "evIdempotencyKey ev = Some k" for ev k
    using other that by (auto simp: otherEvents_def list_all_iff)
  show ?thesis
  proof (rule node.append_cases[OF ok refl run keys])
    fix records
    assume "worldOk enc w'"
      "worldLog w' = (worldLog w)(aprMeetingId request := worldLog w (aprMeetingId request) @ aprEvents request)"
    moreover have "aprMeetingId request = m" "lawfulAll sha m (worldLog w m) (aprEvents request)"
      using other by (auto simp: otherEvents_def intro: lawfulAll_other)
    ultimately show ?thesis using lawfulWorld_extend[OF _ w] by simp
  next
    assume "worldOk enc w'" "worldLog w' = worldLog w"
    with w show ?thesis by (simp add: lawfulWorld_def)
  qed
qed

lemma step_lawful: "meetingStep enc clk uuid sha w w' \<Longrightarrow> lawfulWorld enc sha w \<Longrightarrow> lawfulWorld enc sha w'"
proof (induction rule: meetingStep.induct)
  case (step_draft input user w r w')
  from writes_lawful[OF node.saveDecisionDraft_writes[OF step_draft(1)] step_draft(3,2)]
  show ?case by (simp add: draftEffect_def)
next
  case (step_ready input user w r' w')
  from writes_lawful[OF node.markDecisionReady_writes[OF step_ready(1)] step_ready(3,2)]
  show ?case by (simp add: readyEffect_def)
next
  case (step_commit input user w r w')
  from writes_lawful[OF node.commitDecision_writes[OF step_commit(1)] step_commit(3,2)]
  show ?case by (simp add: commitEffect_def)
next
  case (step_monitor input user w r'' w')
  from writes_lawful[OF node.startDecisionMonitoring_writes[OF step_monitor(1)] step_monitor(3,2)]
  show ?case by (simp add: monitoringEffect_def)
next
  case (step_receive change actor w rx w')
  show ?case
    by (rule affects_lawful[OF node.receiveRegulatoryChange_affects[OF step_receive(1)] step_receive(3,2)])
      (use changeReceived_lives review_lawful in auto)
next
  case (step_inject demo user w rx w')
  show ?case
    by (rule affects_lawful[OF node.injectDemoRegulatoryChange_affects[OF step_inject(1)] step_inject(3,2)])
      (auto dest!: changeReceived_lives intro: review_lawful)
next
  case (step_evaluate model target w re w')
  show ?case
    by (rule affects_lawful[OF evaluating.evaluateAssumptionInvalidation_affects step_evaluate(2,1)])
      (auto dest!: evaluated_lives intro: reviewLives_lawful)
next
  case (step_confirm input user w ri w')
  show ?case
    by (rule batch_lawful[OF node.confirmInvalidationReview_affects[OF step_confirm(1)] step_confirm(3,2)])
      (rule confirmation_lives)
next
  case (step_dismiss input user w ri w')
  show ?case
    by (rule batch_lawful[OF node.rejectInvalidationReview_affects[OF step_dismiss(1)] step_dismiss(3,2)])
      (rule rejection_lives)
next
  case (step_recommit input user w rd w')
  show ?case
    by (rule batch_lawful[OF node.recommitDecision_affects[OF step_recommit(1)] step_recommit(3,2)])
      (auto dest: recommitted_lives)
next
  case (step_supersede input user w rd w')
  show ?case
    by (rule batch_lawful[OF node.supersedeDecision_affects[OF step_supersede(1)] step_supersede(3,2)])
      (auto dest: superseded_lives)
next
  case (step_turn_down input user w rd w')
  show ?case
    by (rule batch_lawful[OF node.rejectDecision_affects[OF step_turn_down(1)] step_turn_down(3,2)])
      (auto dest: rejected_lives)
next
  case (step_acquire user acquisition w ra w')
  show ?case by (rule speech_lawful[OF node.acquireSharedFloor_affects step_acquire(2,1)])
next
  case (step_release user release w rr w')
  show ?case by (rule speech_lawful[OF node.releaseSharedFloor_affects step_release(2,1)])
next
  case (step_capture user capture w rc w')
  show ?case by (rule speech_lawful[OF node.captureUtterance_affects step_capture(2,1)])
next
  case (step_register source root proposer user w rs w')
  show ?case by (rule register_lawful[OF share.registerPrivateTextSource_affects[OF step_register(1)] step_register(3,2)])
next
  case (step_propose proposal root proposer user w rp w')
  show ?case by (rule disclosure_lawful[OF share.proposeDisclosure_affects[OF step_propose(1)] step_propose(3,2)])
next
  case (step_preview preview root proposer user w rv w')
  show ?case by (rule disclosure_lawful[OF share.previewDisclosure_affects[OF step_preview(1)] step_preview(3,2)])
next
  case (step_approve approval root proposer user w rv' w')
  show ?case by (rule disclosure_lawful[OF share.approveDisclosure_affects[OF step_approve(1)] step_approve(3,2)])
next
  case (step_reject refusal root proposer user w rj w')
  show ?case by (rule disclosure_lawful[OF share.rejectDisclosure_affects[OF step_reject(1)] step_reject(3,2)])
next
  case (step_other m w request out w')
  then show ?case using other_lawful by blast
qed

lemma lawfulWorld_empty: "lawfulWorld enc sha emptyWorld"
proof -
  have "worldLog emptyWorld m = []" for m
    by (simp add: worldLog_def emptyWorld_def emptyDatabase_def logOf_def)
  then show ?thesis by (simp add: lawfulWorld_def)
qed

lemma reachable_lawful:
  assumes "reachable enc clk uuid sha w"
  shows "lawfulWorld enc sha w"
  using assms unfolding reachable_def
  by (induction rule: rtranclp_induct) (auto intro: lawfulWorld_empty step_lawful)

lemma reachable_log: "reachable enc clk uuid sha w \<Longrightarrow> lawfulAll sha m [] (worldLog w m)"
  using reachable_lawful by (auto simp: lawfulWorld_def)

end
