(* ===== verification/LifeCycle.thy ===== *)
theory LifeCycle
  imports MeetingSteps
begin

section \<open>The life cycle of a Decision, as a log shows it\<close>

text \<open>
  Lawful logs replay, and what their projection holds comes from events of the log. So every event of a Decision's
  life has its cause earlier in the log: the draft of what is marked ready, up to the outside event and the review
  behind an Action on hold.
\<close>

subsection \<open>What lawful logs project to\<close>

lemma lawful_healthy:
  "lawfulAll sha m [] log \<Longrightarrow> distinct (map evEventId log) \<Longrightarrow> meetingId m = Inr i \<Longrightarrow> healthy m log"
  using healthy_append[OF healthy_empty, of m i log] lawfulAll_wellPlaced[of sha m "[]" log] by simp

lemma healthyD: "healthy m log \<Longrightarrow> projectionAt m log p \<Longrightarrow> mprPosition p = int (length log)"
  by (auto simp: healthy_def projectionAt_def)

text \<open>The last event of a lawful log was accepted by the projection of what lies before it.\<close>

lemma lawful_snoc:
  assumes "lawfulAll sha m [] (log @ [ev])" "distinct (map evEventId (log @ [ev]))" "projectionAt m (log @ [ev]) p"
  obtains p0 sh ws where "projectionAt m log p0" "reduceScopes p0 ev = Inr (sh, ws)"
    "p = recordEvent p0 ev (eventFingerprint ev) sh ws"
proof -
  obtain i where "meetingId m = Inr i" using projectionAt_meeting[OF assms(3)] by blast
  have law: "lawfulAll sha m [] log" "lawful sha m log ev" using assms(1) by (auto simp: stepwise_append)
  have ids: "distinct (map evEventId log)" "evEventId ev \<notin> evEventId ` set log" using assms(2) by auto
  obtain p0 where p0: "projectionAt m log p0" "mprPosition p0 = int (length log)"
    using lawful_healthy[OF law(1) ids(1) \<open>meetingId m = Inr i\<close>] by (auto simp: healthy_def)
  have placed: "wellPlaced m log ev" using law(2) by (simp add: lawful_def)
  obtain sh ws where step: "reduceScopes p0 ev = Inr (sh, ws)"
    "projectionAt m (log @ [ev]) (recordEvent p0 ev (eventFingerprint ev) sh ws)"
    using projectionAt_step[OF p0 placed ids(2)] by blast
  then have "p = recordEvent p0 ev (eventFingerprint ev) sh ws"
    using assms(3) by (simp add: projectionAt_def)
  with p0(1) step(1) that show thesis by blast
qed

text \<open>Induction over a lawful log and the projections of its prefixes.\<close>

lemma lawful_induct [consumes 3, case_names empty accept]:
  assumes "lawfulAll sha m [] log" "distinct (map evEventId log)" "projectionAt m log p"
    and empty: "\<And>i. meetingId m = Inr i \<Longrightarrow> P [] (createEmptyMeetingProjection i)"
    and accept: "\<And>log ev p sh ws. lawfulAll sha m [] log \<Longrightarrow> distinct (map evEventId log) \<Longrightarrow> projectionAt m log p \<Longrightarrow>
      P log p \<Longrightarrow> lawful sha m log ev \<Longrightarrow> reduceScopes p ev = Inr (sh, ws) \<Longrightarrow>
      P (log @ [ev]) (recordEvent p ev (eventFingerprint ev) sh ws)"
  shows "P log p"
  using assms(1-3)
proof (induction log arbitrary: p rule: rev_induct)
  case Nil
  then show ?case
    by (auto simp: projectionAt_def projectRecords_def normalizeRecords_def replayMeeting_def result_simps
        intro: empty)
next
  case (snoc ev log)
  from snoc.prems obtain p0 sh ws where p0: "projectionAt m log p0" "reduceScopes p0 ev = Inr (sh, ws)"
    "p = recordEvent p0 ev (eventFingerprint ev) sh ws" by (rule lawful_snoc)
  have law: "lawfulAll sha m [] log" "lawful sha m log ev" "distinct (map evEventId log)"
    using snoc.prems(1,2) by (auto simp: stepwise_append)
  from accept[OF law(1,3) p0(1) snoc.IH[OF law(1,3) p0(1)] law(2) p0(2)] p0(3) show ?case by simp
qed

text \<open>Where a Decision of a projection comes from.\<close>

lemma other_payload_decisions:
  assumes "reduceSharedPayload st ev = Inr next" "decisionOfPayload (evPayload ev) = None"
  shows "shpDecisions next = shpDecisions st \<and> shpDecisionRevisions next = shpDecisionRevisions st \<or>
    shpDecisions next = [] \<and> shpDecisionRevisions next = []"
proof -
  have "shpDecisions next = shpDecisions st \<and> shpDecisionRevisions next = shpDecisionRevisions st"
    if "reduceSharedContent st ev = Inr next" using that by (rule content_induct) simp_all
  moreover have "shpDecisions next = shpDecisions st \<and> shpDecisionRevisions next = shpDecisionRevisions st"
    if "reduceMeetingLifecycle st ev = Inr next" using that by (rule lifecycle_induct) simp_all
  moreover have "shpDecisions (addConfirmed st c) = shpDecisions st \<and>
      shpDecisionRevisions (addConfirmed st c) = shpDecisionRevisions st" for c by (cases c) simp_all
  ultimately show ?thesis
    using assms by (cases "evPayload ev")
      (auto simp: reduceSharedPayload_def result_simps resetShared_def createEmptySharedMeetingProjection_def)
qed

lemma scopes_decisions:
  assumes "reduceScopes p ev = Inr (sh, ws)"
  shows "shpDecisions sh = shpDecisions (mprShared p) \<and>
      shpDecisionRevisions sh = shpDecisionRevisions (mprShared p) \<or>
    shpDecisions sh = [] \<and> shpDecisionRevisions sh = [] \<or>
    evScope ev = SharedScope \<and> (\<exists>d rv. decisionOfPayload (evPayload ev) = Some (d, rv) \<and>
      shpDecisions sh = upsertById (shpDecisions (mprShared p)) d \<and>
      shpDecisionRevisions sh = (case rv of None \<Rightarrow> shpDecisionRevisions (mprShared p)
        | Some r \<Rightarrow> upsertById (shpDecisionRevisions (mprShared p)) r))"
proof (cases "evScope ev")
  case SharedScope
  then obtain next' where next': "reduceSharedPayload (mprShared p) ev = Inr next'"
    "shpDecisions sh = shpDecisions next'" "shpDecisionRevisions sh = shpDecisionRevisions next'"
    using assms by (auto simp: reduceScopes_shared reduceSharedEvent_Inr)
  show ?thesis
  proof (cases "decisionOfPayload (evPayload ev)")
    case None
    with other_payload_decisions[OF next'(1)] next' show ?thesis by auto
  next
    case (Some x)
    with next' SharedScope show ?thesis
      by (cases x) (auto simp: reduceSharedPayload_def reduceDecision_def result_simps split: option.splits)
  qed
next
  case (PrivateScope owner)
  with assms show ?thesis by (auto simp: reduceScopes_private)
qed

lemma set_upsertById_mem: "d \<in> set (upsertById ds x) \<Longrightarrow> d = x \<or> d \<in> set ds"
  using set_upsertById[of ds x] by auto

text \<open>An event that carries a Decision puts it into the projection; a suggestion leaves all Decisions alone.\<close>

lemma upsertById_mem: "x \<in> set (upsertById xs x)"
  by (induction xs) (auto simp: upsertById_def)

lemma scopes_carried:
  assumes "reduceScopes p ev = Inr (sh, ws)" "evScope ev = SharedScope" "decisionOfPayload (evPayload ev) = Some (d, rv)"
  shows "d \<in> set (shpDecisions sh)"
proof -
  from assms obtain next' where "reduceDecision (mprShared p) ev d rv = Inr next'" "shpDecisions sh = shpDecisions next'"
    by (auto simp: reduceScopes_shared reduceSharedEvent_Inr reduceSharedPayload_def)
  then have "shpDecisions sh = upsertById (shpDecisions (mprShared p)) d"
    by (auto simp: reduceDecision_def result_simps)
  then show ?thesis by (simp add: upsertById_mem)
qed

lemma scopes_suggested:
  assumes "reduceScopes p ev = Inr (sh, ws)" "evPayload ev = AssumptionInvalidationSuggested v"
  shows "shpDecisions sh = shpDecisions (mprShared p)"
proof (cases "evScope ev")
  case SharedScope
  with assms show ?thesis
    by (auto simp: reduceScopes_shared reduceSharedEvent_Inr reduceSharedPayload_def reduceSharedContent_def result_simps)
next
  case (PrivateScope owner)
  with assms show ?thesis by (simp add: reduceScopes_private)
qed

lemma scopes_external:
  assumes "reduceScopes p ev = Inr (sh, ws)" "x \<in> set (shpExternalEvents sh)"
  shows "x \<in> set (shpExternalEvents (mprShared p)) \<or> evPayload ev = ExternalEventReceived x"
proof (cases "evScope ev")
  case SharedScope
  then obtain next' where next': "reduceSharedPayload (mprShared p) ev = Inr next'"
    "shpExternalEvents sh = shpExternalEvents next'"
    using assms(1) by (auto simp: reduceScopes_shared reduceSharedEvent_Inr)
  have "set (shpExternalEvents n) \<subseteq> set (shpExternalEvents (mprShared p))"
    if "reduceSharedContent (mprShared p) ev = Inr n" for n using that by (rule content_induct) simp_all
  moreover have "set (shpExternalEvents n) \<subseteq> set (shpExternalEvents (mprShared p))"
    if "reduceMeetingLifecycle (mprShared p) ev = Inr n" for n using that by (rule lifecycle_induct) simp_all
  moreover have "shpExternalEvents (addConfirmed (mprShared p) c) = shpExternalEvents (mprShared p)" for c
    by (cases c) simp_all
  ultimately show ?thesis
    using next' assms(2)
    by (cases "evPayload ev")
      (auto simp: reduceSharedPayload_def reduceDecision_def result_simps resetShared_def
        createEmptySharedMeetingProjection_def dest!: set_upsertById_mem)
next
  case (PrivateScope owner)
  with assms show ?thesis by (auto simp: reduceScopes_private)
qed

lemma lawful_external_source:
  assumes "lawfulAll sha m [] log" "distinct (map evEventId log)" "projectionAt m log p"
    "x \<in> set (shpExternalEvents (mprShared p))"
  shows "\<exists>old \<in> set log. evPayload old = ExternalEventReceived x"
  using assms
proof (induction rule: lawful_induct)
  case (empty i)
  then show ?case by (simp add: createEmptyMeetingProjection_def createEmptySharedMeetingProjection_def)
next
  case (accept log ev p sh ws)
  then show ?case using scopes_external[of p ev sh ws x] by auto
qed

lemma lawful_decision_source:
  assumes "lawfulAll sha m [] log" "distinct (map evEventId log)" "projectionAt m log p" "projected p d"
  shows "\<exists>pre ev post rv. log = pre @ ev # post \<and> decisionOfPayload (evPayload ev) = Some (d, rv) \<and>
    lawful sha m pre ev"
  using assms
proof (induction arbitrary: d rule: lawful_induct)
  case (empty i)
  then show ?case
    by (simp add: projected_def createEmptyMeetingProjection_def createEmptySharedMeetingProjection_def)
next
  case (accept log ev p sh ws)
  have "projected p d \<or> (\<exists>rv. decisionOfPayload (evPayload ev) = Some (d, rv))"
    using accept.prems scopes_decisions[OF accept.hyps(5)]
    by (auto simp: projected_def dest!: set_upsertById_mem)
  then consider "projected p d" | rv where "decisionOfPayload (evPayload ev) = Some (d, rv)" by blast
  then show ?case
  proof cases
    case 1
    from accept.IH[OF 1] obtain pre e post rv where
      e: "log = pre @ e # post" "decisionOfPayload (evPayload e) = Some (d, rv)" "lawful sha m pre e" by blast
    then have "log @ [ev] = pre @ e # (post @ [ev])" by simp
    with e show ?thesis by blast
  next
    case 2
    with accept.hyps(4) show ?thesis by blast
  qed
qed

subsection \<open>What an event of a Decision's life does to the projection before it\<close>

lemma lawful_justified:
  "lawful sha m log ev \<Longrightarrow> lifePayload (evPayload ev) \<Longrightarrow> lifeJustified m log ev"
  by (simp add: lawful_def)

lemma lawful_reviewed:
  assumes "lawful sha m log ev" "evPayload ev = FacilitatorReviewed f"
  shows "reviewedFrom m log ev f"
  using lawful_justified[OF assms(1)] assms(2)
  by (simp add: lifePayload_def lifeJustified_def reviewPayload_def reviewJustified_def)

text \<open>The event directly before the last one of a lawful log.\<close>

lemma lawful_previous: "lawfulAll sha m [] (pre @ [old]) \<Longrightarrow> lawfulAll sha m [] pre \<and> lawful sha m pre old"
  by (simp add: stepwise_append)

lemma marked_moves:
  assumes log: "lawfulAll sha m [] log" "distinct (map evEventId log)" "projectionAt m log p"
    and ev: "lawful sha m log ev" "evPayload ev = DecisionMarkedAtRisk d i ps as"
  obtains c v where "projected p c" "decStatus c = MONITORING" "d = c\<lparr>decStatus := AT_RISK\<rparr>"
    "\<exists>old \<in> set log. evPayload old = AssumptionInvalidationSuggested v" "ivsSuggestionId v = i" "ivsDecisionId v = recId d"
proof -
  have "markedAfter m log ev"
    using lawful_justified[OF ev(1)] ev(2)
    by (simp add: lifePayload_def lifeJustified_def reviewPayload_def reviewJustified_def)
  then obtain pre suggested q c v where pre: "log = pre @ [suggested]" "evPayload suggested = AssumptionInvalidationSuggested v"
    and q: "projectionAt m pre q" "projected q c" "grounded q c v"
    and pay: "evPayload ev = DecisionMarkedAtRisk (c\<lparr>decStatus := AT_RISK\<rparr>) (ivsSuggestionId v)
        (ivsAffectedPremiseIds v) (ivsAffectedActionIds v)"
    unfolding markedAfter_def by blast
  from log[unfolded pre] obtain q' sh ws where "projectionAt m pre q'" "reduceScopes q' suggested = Inr (sh, ws)"
    "p = recordEvent q' suggested (eventFingerprint suggested) sh ws" by (rule lawful_snoc)
  with q(1) have "reduceScopes q suggested = Inr (sh, ws)" "mprShared p = sh" by (auto simp: projectionAt_def)
  with scopes_suggested[of q suggested sh ws v] pre(2) q(2) have "projected p c" by (simp add: projected_def)
  moreover have "decStatus c = MONITORING" "ivsDecisionId v = recId c"
    using q(3) unfolding grounded_def monitoredBy_def by blast+
  moreover have "\<exists>old \<in> set log. evPayload old = AssumptionInvalidationSuggested v" using pre by auto
  ultimately show thesis using pay ev(2) by (intro that[of c v]) simp_all
qed

lemma required_moves:
  assumes log: "lawfulAll sha m [] log" "distinct (map evEventId log)" "projectionAt m log p"
    and ev: "lawful sha m log ev" "evPayload ev = DecisionReviewRequired d i held task"
  obtains f where "projected p d" "decStatus d = REVIEW_REQUIRED" "\<exists>old \<in> set log. evPayload old = FacilitatorReviewed f"
    "fvwDisposition f = ConfirmInvalidation" "fvwDecision f = d" "fvwSuggestionId f = i"
proof -
  have "requiredAfter log ev"
    using lawful_justified[OF ev(1)] ev(2)
    by (simp add: lifePayload_def lifeJustified_def reviewPayload_def reviewJustified_def)
  then obtain pre reviewed f where pre: "log = pre @ [reviewed]" and f: "confirmedReview reviewed f" "fvwDecision f = d" "fvwSuggestionId f = i"
    using ev(2) by (auto simp: requiredAfter_def)
  then have reviewed: "evPayload reviewed = FacilitatorReviewed f" "evScope reviewed = SharedScope" "fvwDisposition f = ConfirmInvalidation"
    by (simp_all add: confirmedReview_def)
  from log[unfolded pre] obtain q sh ws where "reduceScopes q reviewed = Inr (sh, ws)"
    "p = recordEvent q reviewed (eventFingerprint reviewed) sh ws" by (rule lawful_snoc)
  with scopes_carried[of q reviewed sh ws d None] reviewed f(2) have "projected p d" by (simp add: projected_def)
  moreover have "reviewedFrom m pre reviewed f"
    using lawful_reviewed[OF _ reviewed(1)] lawful_previous log(1) pre by blast
  then have "decStatus d = REVIEW_REQUIRED" using f(2) reviewed(3) by (auto simp: reviewedFrom_def reviewedStatus_def)
  moreover have "\<exists>old \<in> set log. evPayload old = FacilitatorReviewed f" using pre reviewed(1) by auto
  ultimately show thesis using f(2,3) reviewed(3) by (intro that[of f]) simp_all
qed

lemma lawful_resolved:
  assumes "lawful sha m log ev" "projectionAt m log p"
    "(\<exists>d rv. evPayload ev = DecisionRevisionCommitted d rv) \<or> (\<exists>d i. evPayload ev = DecisionSuperseded d i) \<or>
     (\<exists>d reason. evPayload ev = DecisionRejected d reason)"
  obtains f c i where "evActor ev = ParticipantActor f" "projected p c" "decStatus c = REVIEW_REQUIRED" "requiredFor log c i"
    "case evPayload ev of
       DecisionRevisionCommitted d rv \<Rightarrow>
         d = recommitted c rv \<and> revisionAccepted p rv \<and> drvDecisionId rv = recId c \<and> drvVersion rv = decActiveRevision c + 1
     | DecisionSuperseded d new \<Rightarrow> d = c\<lparr>decSupersededBy := Some new, decStatus := SUPERSEDED\<rparr>
     | DecisionRejected d reason \<Rightarrow> d = c\<lparr>decStatus := REJECTED\<rparr>
     | _ \<Rightarrow> False"
proof -
  have "resolvedFrom m log ev"
    using lawful_justified[OF assms(1)] assms(3)
    by (auto simp: lifePayload_def lifeJustified_def reviewPayload_def reviewJustified_def)
  then obtain f q c i where q: "projectionAt m log q" and facts: "evActor ev = ParticipantActor f" "projected q c"
    "decStatus c = REVIEW_REQUIRED" "requiredFor log c i"
    "case evPayload ev of
       DecisionRevisionCommitted d rv \<Rightarrow>
         d = recommitted c rv \<and> revisionAccepted q rv \<and> drvDecisionId rv = recId c \<and> drvVersion rv = decActiveRevision c + 1
     | DecisionSuperseded d new \<Rightarrow> d = c\<lparr>decSupersededBy := Some new, decStatus := SUPERSEDED\<rparr>
     | DecisionRejected d reason \<Rightarrow> d = c\<lparr>decStatus := REJECTED\<rparr>
     | _ \<Rightarrow> False"
    unfolding resolvedFrom_def by (elim exE conjE) (cases "evPayload ev"; simp)
  have "q = p" using assms(2) q by (simp add: projectionAt_def)
  show thesis by (rule that, fact facts(1), (fact facts[unfolded \<open>q = p\<close>])+)
qed

subsection \<open>The event behind the status of a projected Decision\<close>

definition bearsStatus :: "decision \<Rightarrow> domainEventPayload \<Rightarrow> bool" where
  "bearsStatus d payload \<longleftrightarrow>
     (case decStatus d of
        DRAFT \<Rightarrow> (\<exists>r. payload = DecisionDrafted d r)
      | DECISION_READY \<Rightarrow> payload = DecisionMarkedReady d
      | COMMITTED \<Rightarrow> (\<exists>r. payload = DecisionCommitted d r \<or> payload = DecisionRevisionCommitted d r)
      | MONITORING \<Rightarrow> (\<exists>i. payload = MonitoringStarted d i) \<or>
          (\<exists>f. payload = FacilitatorReviewed f \<and> fvwDisposition f = RejectSuggestion \<and> fvwDecision f = d)
      | AT_RISK \<Rightarrow> (\<exists>i ps as. payload = DecisionMarkedAtRisk d i ps as)
      | REVIEW_REQUIRED \<Rightarrow> (\<exists>i as k. payload = DecisionReviewRequired d i as k) \<or>
          (\<exists>f. payload = FacilitatorReviewed f \<and> fvwDisposition f = ConfirmInvalidation \<and> fvwDecision f = d)
      | SUPERSEDED \<Rightarrow> (\<exists>i. payload = DecisionSuperseded d i)
      | REJECTED \<Rightarrow> (\<exists>reason. payload = DecisionRejected d reason))"

lemma first_half_status:
  "justified m log ev \<Longrightarrow> decisionOfPayload (evPayload ev) = Some (d, rv) \<Longrightarrow> bearsStatus d (evPayload ev)"
  by (cases "evPayload ev")
    (auto simp: justified_def draftedFrom_def readyFrom_def committedFrom_def monitoredFrom_def bearsStatus_def)

lemma lawful_status:
  assumes log: "lawfulAll sha m [] log" "distinct (map evEventId log)" "projectionAt m log p"
    and ev: "lawful sha m log ev" "decisionOfPayload (evPayload ev) = Some (d, rv)"
  shows "bearsStatus d (evPayload ev)"
proof (cases "reviewPayload (evPayload ev)")
  case False
  then have "justified m log ev" using lawful_justified[OF ev(1)] ev(2) by (simp add: lifePayload_def lifeJustified_def)
  then show ?thesis by (rule first_half_status[OF _ ev(2)])
next
  case True
  note resolved = lawful_resolved[OF ev(1) log(3)]
  show ?thesis
  proof (cases "evPayload ev")
    case (DecisionMarkedAtRisk e i ps as)
    from marked_moves[OF log ev(1) this] obtain c where "e = c\<lparr>decStatus := AT_RISK\<rparr>" by blast
    then have "decStatus e = AT_RISK" by simp
    with ev(2) DecisionMarkedAtRisk show ?thesis by (simp add: bearsStatus_def)
  next
    case (FacilitatorReviewed f)
    from lawful_reviewed[OF ev(1) this] obtain c where "fvwDecision f = c\<lparr>decStatus := reviewedStatus (fvwDisposition f)\<rparr>"
      unfolding reviewedFrom_def by blast
    then have "decStatus (fvwDecision f) = reviewedStatus (fvwDisposition f)" by simp
    with ev(2) FacilitatorReviewed show ?thesis
      by (cases "fvwDisposition f") (auto simp: bearsStatus_def reviewedStatus_def)
  next
    case (DecisionReviewRequired e i held task)
    from required_moves[OF log ev(1) this] have "decStatus e = REVIEW_REQUIRED" by blast
    with ev(2) DecisionReviewRequired show ?thesis by (simp add: bearsStatus_def)
  next
    case (DecisionRevisionCommitted e r)
    obtain c where "e = recommitted c r" by (rule resolved) (use DecisionRevisionCommitted in auto)
    then have "decStatus e = COMMITTED" by (simp add: recommitted_def)
    with ev(2) DecisionRevisionCommitted show ?thesis by (simp add: bearsStatus_def)
  next
    case (DecisionSuperseded e i)
    obtain c where "e = c\<lparr>decSupersededBy := Some i, decStatus := SUPERSEDED\<rparr>" by (rule resolved) (use DecisionSuperseded in auto)
    then have "decStatus e = SUPERSEDED" by simp
    with ev(2) DecisionSuperseded show ?thesis by (simp add: bearsStatus_def)
  next
    case (DecisionRejected e reason)
    obtain c where "e = c\<lparr>decStatus := REJECTED\<rparr>" by (rule resolved) (use DecisionRejected in auto)
    then have "decStatus e = REJECTED" by simp
    with ev(2) DecisionRejected show ?thesis by (simp add: bearsStatus_def)
  qed (use True ev(2) in \<open>simp_all add: reviewPayload_def\<close>)
qed

lemma earlier_decision_event:
  assumes log: "lawfulAll sha m [] log" "distinct (map evEventId log)" "projectionAt m log p" "projected p c"
  shows "\<exists>old \<in> set log. bearsStatus c (evPayload old)"
proof -
  obtain pre ev post rv where split: "log = pre @ ev # post" and ev: "decisionOfPayload (evPayload ev) = Some (c, rv)"
    "lawful sha m pre ev"
    using lawful_decision_source[OF log] by blast
  have pre: "lawfulAll sha m [] pre" "distinct (map evEventId pre)"
    using log(1,2) stepwise_split[of "lawful sha m" pre ev post] unfolding split by auto
  obtain i where "meetingId m = Inr i" using projectionAt_meeting[OF log(3)] by blast
  with lawful_healthy[OF pre] obtain q where "projectionAt m pre q" by (auto simp: healthy_def)
  from lawful_status[OF pre this ev(2,1)] split show ?thesis by (intro bexI[of _ ev]) auto
qed

subsection \<open>The life cycle in the log\<close>

text \<open>
  What must have happened before an event of this payload. Every ready mark follows a draft, every commitment a ready
  mark, every monitoring a commitment; a suggestion follows the outside event it names, a mark the suggestion, a
  review the mark, the Actions on hold a facilitator's confirmation; and a resolution the review that it resolves.
\<close>

definition followsLifeCycle :: "domainEvent list \<Rightarrow> domainEventPayload \<Rightarrow> bool" where
  "followsLifeCycle log payload \<longleftrightarrow>
     (case payload of
        DecisionMarkedReady d \<Rightarrow>
          (\<exists>old \<in> set log. \<exists>c r. evPayload old = DecisionDrafted c r \<and> recId c = recId d \<and>
             snapshotOf c DRAFT = snapshotOf d DRAFT)
      | DecisionCommitted d rv \<Rightarrow>
          (\<exists>old \<in> set log. \<exists>c. evPayload old = DecisionMarkedReady c \<and> recId c = recId d \<and>
             snapshotOf c COMMITTED = snapshotOf d COMMITTED)
      | MonitoringStarted d i \<Rightarrow>
          (\<exists>old \<in> set log. \<exists>c r. (evPayload old = DecisionCommitted c r \<or> evPayload old = DecisionRevisionCommitted c r) \<and>
             recId c = recId d)
      | AssumptionInvalidationSuggested v \<Rightarrow>
          (\<exists>old \<in> set log. \<exists>x. evPayload old = ExternalEventReceived x \<and> ivsExternalEventId v = trim (recId x))
      | DecisionMarkedAtRisk d i ps as \<Rightarrow>
          (\<exists>old \<in> set log. \<exists>v. evPayload old = AssumptionInvalidationSuggested v \<and> ivsSuggestionId v = i \<and>
             ivsDecisionId v = recId d) \<and>
          (\<exists>old \<in> set log. \<exists>c. decStatus c = MONITORING \<and> bearsStatus c (evPayload old) \<and> d = c\<lparr>decStatus := AT_RISK\<rparr>)
      | FacilitatorReviewed f \<Rightarrow>
          (\<exists>old \<in> set log. \<exists>v. evPayload old = AssumptionInvalidationSuggested v \<and> ivsSuggestionId v = fvwSuggestionId f \<and>
             ivsDecisionId v = fvwDecisionId f) \<and>
          (\<exists>old \<in> set log. \<exists>c i ps as. evPayload old = DecisionMarkedAtRisk c i ps as \<and>
             fvwDecision f = c\<lparr>decStatus := reviewedStatus (fvwDisposition f)\<rparr>)
      | DecisionReviewRequired d i held task \<Rightarrow>
          (\<exists>old \<in> set log. \<exists>f. evPayload old = FacilitatorReviewed f \<and> fvwDisposition f = ConfirmInvalidation \<and>
             fvwDecision f = d \<and> fvwSuggestionId f = i)
      | ActionHeld i s held \<Rightarrow>
          (\<exists>old \<in> set log. \<exists>f. evPayload old = FacilitatorReviewed f \<and> fvwDisposition f = ConfirmInvalidation \<and>
             fvwDecisionId f = i \<and> fvwSuggestionId f = s) \<and>
          (\<exists>old \<in> set log. \<exists>v. evPayload old = AssumptionInvalidationSuggested v \<and> ivsSuggestionId v = s \<and>
             recId ` set held \<subseteq> set (ivsAffectedActionIds v))
      | ReconsiderationTaskCreated task \<Rightarrow>
          (\<exists>old \<in> set log. \<exists>d i held. evPayload old = DecisionReviewRequired d i held (recId task))
      | DecisionRevisionCommitted d rv \<Rightarrow>
          (\<exists>old \<in> set log. \<exists>c i held task. evPayload old = DecisionReviewRequired c i held task \<and> recId c = recId d)
      | DecisionSuperseded d new \<Rightarrow>
          (\<exists>old \<in> set log. \<exists>c i held task. evPayload old = DecisionReviewRequired c i held task \<and> recId c = recId d)
      | DecisionRejected d reason \<Rightarrow>
          (\<exists>old \<in> set log. \<exists>c i held task. evPayload old = DecisionReviewRequired c i held task \<and> recId c = recId d)
      | _ \<Rightarrow> True)"

lemma first_half_follows:
  assumes "lawfulAll sha m [] log" "distinct (map evEventId log)" "justified m log ev"
  shows "followsLifeCycle log (evPayload ev)"
proof -
  obtain p where p: "projectionAt m log p" using assms(3) by (auto simp: justified_def)
  have src: "\<exists>old \<in> set log. bearsStatus c (evPayload old)" if "projected p c" for c
    using earlier_decision_event[OF assms(1,2) p that] .
  have same: "p' = p" if "projectionAt m log p'" for p' using that p by (simp add: projectionAt_def)
  show ?thesis
  proof (cases "evPayload ev")
    case (DecisionMarkedReady d)
    then obtain c where c: "projected p c" "decStatus c = DRAFT" "d = c\<lparr>decStatus := DECISION_READY\<rparr>"
    proof -
      obtain q where "projectionAt m log q" "readyFrom q (recId d) d"
        using assms(3) unfolding justified_def DecisionMarkedReady domainEventPayload.case by blast
      then have "readyFrom p (recId d) d" using same by blast
      then show thesis unfolding readyFrom_def by (elim exE conjE) (rule that)
    qed
    obtain old r where "old \<in> set log" "evPayload old = DecisionDrafted c r"
      using src[OF c(1)] c(2) by (auto simp: bearsStatus_def)
    then show ?thesis
      unfolding followsLifeCycle_def DecisionMarkedReady domainEventPayload.case c(3)
      by (intro bexI[of _ old] exI[of _ c] exI[of _ r]) simp_all
  next
    case (DecisionCommitted d rv)
    then obtain c where c: "projected p c" "decStatus c = DECISION_READY" "recId d = recId c"
      "snapshotOf d COMMITTED = snapshotOf c COMMITTED"
    proof -
      obtain q f where "projectionAt m log q" "committedFrom q f (recId d) d rv"
        using assms(3) unfolding justified_def DecisionCommitted domainEventPayload.case by blast
      then have "committedFrom p f (recId d) d rv" using same by blast
      then show thesis unfolding committedFrom_def by (elim exE conjE) (rule that)
    qed
    obtain old where "old \<in> set log" "evPayload old = DecisionMarkedReady c"
      using src[OF c(1)] c(2) by (auto simp: bearsStatus_def)
    with c show ?thesis
      unfolding followsLifeCycle_def DecisionCommitted domainEventPayload.case
      by (intro bexI[of _ old] exI[of _ c]) simp_all
  next
    case (MonitoringStarted d i)
    then obtain c where c: "projected p c" "decStatus c = COMMITTED" "recId d = recId c"
    proof -
      obtain q where "projectionAt m log q" "monitoredFrom q (recId d) d i"
        using assms(3) unfolding justified_def MonitoringStarted domainEventPayload.case by blast
      then have "monitoredFrom p (recId d) d i" using same by blast
      then show thesis unfolding monitoredFrom_def by (elim exE conjE) (rule that, simp_all)
    qed
    obtain old r where "old \<in> set log"
      "evPayload old = DecisionCommitted c r \<or> evPayload old = DecisionRevisionCommitted c r"
      using src[OF c(1)] c(2) by (auto simp: bearsStatus_def)
    with c show ?thesis
      unfolding followsLifeCycle_def MonitoringStarted domainEventPayload.case
      by (intro bexI[of _ old] exI[of _ c] exI[of _ r]) simp_all
  qed (use assms(3) in \<open>simp_all add: justified_def followsLifeCycle_def\<close>)
qed

lemma reviewRequiredIn_Some:
  "reviewRequiredIn payload = Some x \<longleftrightarrow> (\<exists>d i held task. payload = DecisionReviewRequired d i held task \<and> x = (d, i, held, task))"
  by (cases payload) (auto simp: reviewRequiredIn_def)

lemma requiredFor_event:
  "requiredFor log c i \<Longrightarrow> \<exists>old \<in> set log. \<exists>d j held task. evPayload old = DecisionReviewRequired d j held task \<and> recId d = recId c"
  unfolding requiredFor_def by (auto simp: reviewRequiredIn_Some) blast

lemma resolved_follows:
  assumes "lawful sha m log ev" "projectionAt m log p"
    "(\<exists>d rv. evPayload ev = DecisionRevisionCommitted d rv) \<or> (\<exists>d i. evPayload ev = DecisionSuperseded d i) \<or>
     (\<exists>d reason. evPayload ev = DecisionRejected d reason)"
  shows "followsLifeCycle log (evPayload ev)"
proof -
  from assms obtain c i where "requiredFor log c i" and
    d: "case evPayload ev of
       DecisionRevisionCommitted d rv \<Rightarrow>
         d = recommitted c rv \<and> revisionAccepted p rv \<and> drvDecisionId rv = recId c \<and> drvVersion rv = decActiveRevision c + 1
     | DecisionSuperseded d new \<Rightarrow> d = c\<lparr>decSupersededBy := Some new, decStatus := SUPERSEDED\<rparr>
     | DecisionRejected d reason \<Rightarrow> d = c\<lparr>decStatus := REJECTED\<rparr>
     | _ \<Rightarrow> False"
    by (rule lawful_resolved)
  then have required: "\<exists>old \<in> set log. \<exists>e j held task. evPayload old = DecisionReviewRequired e j held task \<and> recId e = recId c"
    by (intro requiredFor_event)
  from assms(3) show ?thesis
  proof (elim disjE exE)
    fix e rv assume ev: "evPayload ev = DecisionRevisionCommitted e rv"
    with d have "recId e = recId c" by (simp add: recommitted_def)
    with required show ?thesis by (simp only: followsLifeCycle_def ev domainEventPayload.case)
  next
    fix e j assume ev: "evPayload ev = DecisionSuperseded e j"
    with d have "recId e = recId c" by simp
    with required show ?thesis by (simp only: followsLifeCycle_def ev domainEventPayload.case)
  next
    fix e reason assume ev: "evPayload ev = DecisionRejected e reason"
    with d have "recId e = recId c" by simp
    with required show ?thesis by (simp only: followsLifeCycle_def ev domainEventPayload.case)
  qed
qed

lemma lawful_followsLifeCycle:
  assumes log: "lawfulAll sha m [] log" "distinct (map evEventId log)" "projectionAt m log p"
    and ev: "lawful sha m log ev" "lifePayload (evPayload ev)"
  shows "followsLifeCycle log (evPayload ev)"
proof (cases "reviewPayload (evPayload ev)")
  case False
  then have "justified m log ev" using lawful_justified[OF ev] by (simp add: lifeJustified_def)
  with log show ?thesis by (intro first_half_follows)
next
  case True
  then have just: "reviewJustified m log ev" using lawful_justified[OF ev] by (simp add: lifeJustified_def)
  have same: "q = p" if "projectionAt m log q" for q using that log(3) by (simp add: projectionAt_def)
  show ?thesis
  proof (cases "evPayload ev")
    case (AssumptionInvalidationSuggested v)
    then obtain c where "grounded p c v" using just same unfolding reviewJustified_def by fastforce
    then obtain x where "x \<in> set (shpExternalEvents (mprShared p))" "ivsExternalEventId v = trim (recId x)"
      unfolding grounded_def by blast
    with lawful_external_source[OF log] show ?thesis
      unfolding followsLifeCycle_def AssumptionInvalidationSuggested domainEventPayload.case by blast
  next
    case (DecisionMarkedAtRisk d i ps as)
    from marked_moves[OF log ev(1) this] obtain c v where c: "projected p c" "decStatus c = MONITORING" "d = c\<lparr>decStatus := AT_RISK\<rparr>"
      and v: "\<exists>old \<in> set log. evPayload old = AssumptionInvalidationSuggested v" "ivsSuggestionId v = i" "ivsDecisionId v = recId d" .
    from earlier_decision_event[OF log c(1)] c(2,3) v show ?thesis
      unfolding followsLifeCycle_def DecisionMarkedAtRisk domainEventPayload.case by blast
  next
    case (FacilitatorReviewed f)
    from lawful_reviewed[OF ev(1) this] obtain q c v where "projectionAt m log q" "projected q c" "decStatus c = AT_RISK"
      and v: "suggestedFor log q c v" "fvwDecisionId f = recId c" "fvwSuggestionId f = ivsSuggestionId v"
      and d: "fvwDecision f = c\<lparr>decStatus := reviewedStatus (fvwDisposition f)\<rparr>"
      unfolding reviewedFrom_def by blast
    then obtain old where "old \<in> set log" "bearsStatus c (evPayload old)"
      using earlier_decision_event[OF log] same by blast
    with \<open>decStatus c = AT_RISK\<close> have "\<exists>old \<in> set log. \<exists>i ps as. evPayload old = DecisionMarkedAtRisk c i ps as"
      by (auto simp: bearsStatus_def)
    moreover have "\<exists>old \<in> set log. evPayload old = AssumptionInvalidationSuggested v" "ivsDecisionId v = recId c"
      using v(1) unfolding suggestedFor_def by blast+
    ultimately show ?thesis
      unfolding followsLifeCycle_def FacilitatorReviewed domainEventPayload.case v(2,3) using d by blast
  next
    case (DecisionReviewRequired d i held task)
    from required_moves[OF log ev(1) this] obtain f where "\<exists>old \<in> set log. evPayload old = FacilitatorReviewed f"
      "fvwDisposition f = ConfirmInvalidation" "fvwDecision f = d" "fvwSuggestionId f = i" by blast
    then show ?thesis unfolding followsLifeCycle_def DecisionReviewRequired domainEventPayload.case by blast
  next
    case (ActionHeld i s held)
    from just have "heldAfter m log ev" by (simp add: reviewJustified_def ActionHeld)
    then obtain pre reviewed required f q v where pre: "log = pre @ [reviewed, required]" "confirmedReview reviewed f"
      and f: "fvwDecisionId f = i" "fvwSuggestionId f = s" "fvwSuggestionId f = ivsSuggestionId v"
      and v: "\<exists>c. suggestedFor pre q c v" "heldFor q v (fvwReason f) held"
      using ActionHeld unfolding heldAfter_def by (elim conjE exE) (rule that, simp_all, blast)
    have "\<exists>old \<in> set pre. evPayload old = AssumptionInvalidationSuggested v" using v(1) unfolding suggestedFor_def by blast
    moreover have "recId ` set held \<subseteq> set (ivsAffectedActionIds v)"
      using v(2) unfolding heldFor_def suggestedAction_def by fastforce
    moreover have "evPayload reviewed = FacilitatorReviewed f" "fvwDisposition f = ConfirmInvalidation"
      using pre(2) by (simp_all add: confirmedReview_def)
    ultimately show ?thesis
      unfolding followsLifeCycle_def ActionHeld domainEventPayload.case pre(1) using f by auto
  next
    case (ReconsiderationTaskCreated task)
    with just show ?thesis by (auto simp: reviewJustified_def taskAfter_def followsLifeCycle_def)
  qed (use True resolved_follows[OF ev(1) log(3)] in \<open>auto simp: reviewPayload_def followsLifeCycle_def\<close>)
qed

end
