(* ===== verification/MeetingRuns.thy ===== *)
theory MeetingRuns
  imports LifeCycle
begin

section \<open>What runs of the server can produce\<close>

text \<open>
  Consequences of the invariant of \<open>MeetingSteps\<close> and of \<open>LifeCycle\<close>: each Decision's history is tracked. The properties of the Decision
  commands stand here too; the run that shows them at work is in \<open>MeetingExample\<close>.
\<close>

subsection \<open>The shared projection of a run\<close>

text \<open>A healthy log as it is replayed: nothing is skipped, and the shared part comes from the shared events.\<close>

lemma acceptedFrom_full: "length (acceptedFrom st evs) \<le> length evs \<and>
    (length (acceptedFrom st evs) = length evs \<longrightarrow> acceptedFrom st evs = evs)"
proof (induction evs arbitrary: st)
  case (Cons ev evs)
  show ?case
  proof (cases "reduceMeetingProjection st ev")
    case (Inr x)
    with Cons.IH[of x] show ?thesis by auto
  qed simp
qed simp

lemma healthy_shared:
  assumes "healthy m log" "normalizeRecords (numberRecords 1 log) = Inr log" "meetingId m = Inr i"
  obtains p where "projectRecords m (numberRecords 1 log) = Inr p"
    "replaySharedMeeting i (filter isShared log) = Inr (mprShared p)"
proof -
  obtain p where p: "projectionAt m log p" "mprPosition p = int (length log)" using assms(1) by (auto simp: healthy_def)
  then have replay: "replayMeeting i log = Inr p" using assms(2,3) by (simp add: projectionAt_def projectRecords_def)
  then have "length (acceptedEvents i log) = length log" using replay_positions[OF replay] p(2) by simp
  then have "acceptedEvents i log = log"
    using acceptedFrom_full[of "createEmptyMeetingProjection i" log] by (simp add: acceptedEvents_def)
  with replay_shared[OF replay] p(1) that show thesis by (simp add: projectionAt_def)
qed

subsection \<open>The revision history of a run\<close>

text \<open>
  The projected history is well-formed and every projected Decision points at its latest revision.
\<close>

definition activeIn :: "decisionRevision list \<Rightarrow> decision \<Rightarrow> bool" where
  "activeIn rs d \<longleftrightarrow>
     (\<exists>rv. latestRevision rs (recId d) = Some rv \<and> recId rv = decActiveRevisionId d \<and>
        drvVersion rv = decActiveRevision d)"

definition trackedLists :: "decision list \<Rightarrow> decisionRevision list \<Rightarrow> bool" where
  "trackedLists ds rs \<longleftrightarrow>
     historyOk rs \<and> distinct (map recId ds) \<and> drvDecisionId ` set rs \<subseteq> recId ` set ds \<and>
     (\<forall>d \<in> set ds. activeIn rs d)"

definition tracked :: "meetingProjection \<Rightarrow> bool" where
  "tracked p \<longleftrightarrow> trackedLists (shpDecisions (mprShared p)) (shpDecisionRevisions (mprShared p))"

lemma revision_version_le:
  assumes "historyOk rs" "r \<in> set rs" "latestRevision rs (drvDecisionId r) = Some l"
  shows "drvVersion r \<le> drvVersion l"
proof -
  let ?rs = "revisionsOf rs (drvDecisionId r)"
  have ch: "chained ?rs" using assms(1) by (simp add: historyOk_def)
  have "r \<in> set ?rs" using assms(2) by (simp add: revisionsOf_def)
  then obtain i where i: "i < length ?rs" "?rs ! i = r" by (auto simp: in_set_conv_nth)
  then have "drvVersion r = int i + 1" using ch by (auto simp: chained_def)
  moreover have "drvVersion l = int (length ?rs)"
    using assms(3) chained_last[OF ch] by (auto simp: latestRevision_last split: if_splits)
  ultimately show ?thesis using i(1) by simp
qed

lemma upsertById_ids: "recId ` set (upsertById xs x) = insert (recId x) (recId ` set xs)"
proof -
  have "set (map recId (upsertById xs x)) = insert (recId x) (set (map recId xs))"
    by (auto simp: upsertById_def map_upsertBy)
  then show ?thesis by simp
qed

lemma upsertById_new: "recId x \<notin> recId ` set xs \<Longrightarrow> upsertById xs x = xs @ [x]"
  by (induction xs) (auto simp: upsertById_def)

lemma upsertById_others:
  "distinct (map recId xs) \<Longrightarrow> y \<in> set (upsertById xs x) \<Longrightarrow> y = x \<or> y \<in> set xs \<and> recId y \<noteq> recId x"
  by (induction xs) (auto simp: upsertById_def intro: rev_image_eqI split: if_splits)

lemma tracked_same_revision:
  assumes "trackedLists ds rs" "c \<in> set ds" "recId d = recId c"
    "decActiveRevisionId d = decActiveRevisionId c" "decActiveRevision d = decActiveRevision c"
  shows "trackedLists (upsertById ds d) rs"
proof -
  have "activeIn rs d" using assms by (auto simp: trackedLists_def activeIn_def)
  with assms show ?thesis
    unfolding trackedLists_def upsertById_ids by (auto dest: set_upsertById_mem)
qed

lemma latestRevision_snoc:
  "latestRevision (rs @ [rv]) i = (if drvDecisionId rv = i then Some rv else latestRevision rs i)"
  by (simp add: latestRevision_def findLast_snoc)

lemma tracked_new_revision:
  assumes t: "trackedLists ds rs" and app: "appendDecisionRevision rs rv = Inr h"
    and d: "drvDecisionId rv = recId d" "recId rv = decActiveRevisionId d" "drvVersion rv = decActiveRevision d"
    and next_version: "recId d \<notin> recId ` set ds \<or>
      (\<exists>c \<in> set ds. recId c = recId d \<and> drvVersion rv = decActiveRevision c + 1)"
  shows "trackedLists (upsertById ds d) (upsertById rs rv)"
proof -
  have "\<not> sameDecisionRevision r rv" if r: "r \<in> set rs" for r
  proof
    assume "sameDecisionRevision r rv"
    then have same: "drvDecisionId r = recId d" "drvVersion r = drvVersion rv"
      using d(1) by (auto simp: sameDecisionRevision_def)
    have "recId d \<in> recId ` set ds" using t r same(1) by (force simp: trackedLists_def)
    then obtain c where c: "c \<in> set ds" "recId c = recId d" "drvVersion rv = decActiveRevision c + 1"
      using next_version by blast
    then obtain l where "latestRevision rs (recId d) = Some l" "drvVersion l = decActiveRevision c"
      using t by (force simp: trackedLists_def activeIn_def)
    with revision_version_le[of rs r l] t r same c(3) show False by (simp add: trackedLists_def)
  qed
  with appendDecisionRevision_cases[OF app] have h: "h = rs @ [rv]" "recId rv \<notin> recId ` set rs" by blast+
  have hist: "historyOk (rs @ [rv])"
    using appendDecisionRevision_historyOk[OF _ app] t h(1) by (simp add: trackedLists_def)
  have "activeIn (rs @ [rv]) e" if "e \<in> set (upsertById ds d)" for e
    using upsertById_others[OF _ that] t d
    by (auto simp: trackedLists_def activeIn_def latestRevision_snoc)
  moreover have "drvDecisionId ` set (rs @ [rv]) \<subseteq> recId ` set (upsertById ds d)"
    using t d(1) unfolding trackedLists_def upsertById_ids by auto
  ultimately show ?thesis
    using hist t unfolding upsertById_new[OF h(2)] trackedLists_def by simp
qed

text \<open>The first half of the life cycle: drafts and commitments add a revision, the other steps keep it.\<close>

lemma tracked_first_half:
  assumes tr: "trackedLists ds rs" and p: "projectionAt m log p" "ds = shpDecisions (mprShared p)"
      "rs = shpDecisionRevisions (mprShared p)"
    and law: "justified m log ev" and pay: "decisionOfPayload (evPayload ev) = Some (d, rv)"
  shows "trackedLists (upsertById ds d) (case rv of None \<Rightarrow> rs | Some r \<Rightarrow> upsertById rs r)"
proof -
  obtain q where q: "projectionAt m log q" "case evPayload ev of
           DecisionDrafted d rv \<Rightarrow> (\<exists>f. evActor ev = ParticipantActor f \<and> draftedFrom q f d rv)
         | DecisionMarkedReady d \<Rightarrow> (\<exists>f. evActor ev = ParticipantActor f \<and> readyFrom q (recId d) d)
         | DecisionCommitted d rv \<Rightarrow> (\<exists>f. evActor ev = ParticipantActor f \<and> committedFrom q f (recId d) d rv)
         | MonitoringStarted d i \<Rightarrow> evActor ev = SystemActor \<and> monitoredFrom q (recId d) d i
         | _ \<Rightarrow> False"
    using law by (auto simp: justified_def)
  have "q = p" using p(1) q(1) by (simp add: projectionAt_def)
  show ?thesis
  proof (cases "evPayload ev")
    case (DecisionDrafted d' r)
    with q(2) \<open>q = p\<close> obtain f where "draftedFrom p f d r" "rv = Some r" using pay by auto
    then show ?thesis
      unfolding p(2,3) draftedFrom_def revisionAccepted_def activeRevisionIs_def
      by (auto intro!: tracked_new_revision[OF tr[unfolded p(2,3)]] simp: projected_def)
  next
    case (DecisionMarkedReady d')
    with q(2) \<open>q = p\<close> pay have "readyFrom p (recId d) d" "rv = None" by auto
    then show ?thesis
      unfolding p(2,3) readyFrom_def projected_def by (auto intro!: tracked_same_revision[OF tr[unfolded p(2,3)]])
  next
    case (DecisionCommitted d' r)
    with q(2) \<open>q = p\<close> obtain f where "committedFrom p f (recId d) d r" "rv = Some r" using pay by auto
    then show ?thesis
      unfolding p(2,3) committedFrom_def revisionAccepted_def activeRevisionIs_def
      by (auto intro!: tracked_new_revision[OF tr[unfolded p(2,3)]] simp: projected_def)
  next
    case (MonitoringStarted d' i)
    with q(2) \<open>q = p\<close> pay have "monitoredFrom p (recId d) d i" "rv = None" by auto
    then show ?thesis
      unfolding p(2,3) monitoredFrom_def projected_def by (auto intro!: tracked_same_revision[OF tr[unfolded p(2,3)]])
  qed (use q(2) in simp_all)
qed

text \<open>The second half: only a recommitment adds a revision.\<close>

lemma tracked_second_half:
  assumes tr: "trackedLists ds rs" and p: "projectionAt m log p" "ds = shpDecisions (mprShared p)"
      "rs = shpDecisionRevisions (mprShared p)"
    and log: "lawfulAll sha m [] log" "distinct (map evEventId log)"
    and law: "lawful sha m log ev" "reviewPayload (evPayload ev)" and pay: "decisionOfPayload (evPayload ev) = Some (d, rv)"
  shows "trackedLists (upsertById ds d) (case rv of None \<Rightarrow> rs | Some r \<Rightarrow> upsertById rs r)"
proof -
  have same: "trackedLists (upsertById ds d) rs"
    if "projected p c" "recId d = recId c" "decActiveRevisionId d = decActiveRevisionId c" "decActiveRevision d = decActiveRevision c"
    for c using tracked_same_revision[OF tr] that p(2) by (simp add: projected_def)
  note resolved = lawful_resolved[OF law(1) p(1)]
  show ?thesis
  proof (cases "evPayload ev")
    case (DecisionMarkedAtRisk e i ps as)
    from marked_moves[OF log p(1) law(1) this] obtain c where "projected p c" "e = c\<lparr>decStatus := AT_RISK\<rparr>" by blast
    with same[of c] pay DecisionMarkedAtRisk show ?thesis by auto
  next
    case (FacilitatorReviewed f)
    from lawful_reviewed[OF law(1) this] obtain q c where "projectionAt m log q" "projected q c"
      "fvwDecision f = c\<lparr>decStatus := reviewedStatus (fvwDisposition f)\<rparr>" unfolding reviewedFrom_def by blast
    moreover from this(1) p(1) have "q = p" by (simp add: projectionAt_def)
    ultimately have "projected p c" "d = c\<lparr>decStatus := reviewedStatus (fvwDisposition f)\<rparr>" "rv = None"
      using pay FacilitatorReviewed by auto
    with same[of c] show ?thesis by simp
  next
    case (DecisionReviewRequired e i held task)
    from required_moves[OF log p(1) law(1) this] have "projected p e" by blast
    with same[of e] pay DecisionReviewRequired show ?thesis by auto
  next
    case (DecisionRevisionCommitted e r)
    obtain c where "projected p c" "e = recommitted c r" "revisionAccepted p r" "drvDecisionId r = recId c"
      "drvVersion r = decActiveRevision c + 1" by (rule resolved) (use DecisionRevisionCommitted in auto)
    then have "trackedLists (upsertById ds e) (upsertById rs r)"
      unfolding revisionAccepted_def p(2,3)
      by (elim exE) (rule tracked_new_revision[OF tr[unfolded p(2,3)]], auto simp: recommitted_def projected_def)
    with pay DecisionRevisionCommitted show ?thesis by auto
  next
    case (DecisionSuperseded e i)
    obtain c where "projected p c" "e = c\<lparr>decSupersededBy := Some i, decStatus := SUPERSEDED\<rparr>"
      by (rule resolved) (use DecisionSuperseded in auto)
    with same[of c] pay DecisionSuperseded show ?thesis by auto
  next
    case (DecisionRejected e reason)
    obtain c where "projected p c" "e = c\<lparr>decStatus := REJECTED\<rparr>" by (rule resolved) (use DecisionRejected in auto)
    with same[of c] pay DecisionRejected show ?thesis by auto
  qed (use law(2) pay in \<open>simp_all add: reviewPayload_def\<close>)
qed

lemma tracked_step:
  assumes t: "tracked p" and p: "projectionAt m log p" and log: "lawfulAll sha m [] log" "distinct (map evEventId log)"
    and law: "lawful sha m log ev" and step: "reduceScopes p ev = Inr (sh, ws)"
  shows "trackedLists (shpDecisions sh) (shpDecisionRevisions sh)"
  using scopes_decisions[OF step]
proof (elim disjE conjE exE)
  fix d rv
  let ?ds = "shpDecisions (mprShared p)" and ?rs = "shpDecisionRevisions (mprShared p)"
  assume pay: "decisionOfPayload (evPayload ev) = Some (d, rv)" and ds: "shpDecisions sh = upsertById ?ds d"
    and rs: "shpDecisionRevisions sh = (case rv of None \<Rightarrow> ?rs | Some r \<Rightarrow> upsertById ?rs r)"
  have tr: "trackedLists ?ds ?rs" using t by (simp add: tracked_def)
  show ?thesis unfolding ds rs
  proof (cases "reviewPayload (evPayload ev)")
    case True
    show "trackedLists (upsertById ?ds d) (case rv of None \<Rightarrow> ?rs | Some r \<Rightarrow> upsertById ?rs r)"
      by (rule tracked_second_half[OF tr p refl refl log law True pay])
  next
    case False
    then have "justified m log ev"
      using lawful_justified[OF law] pay by (simp add: lifePayload_def lifeJustified_def)
    from tracked_first_half[OF tr p refl refl this pay]
    show "trackedLists (upsertById ?ds d) (case rv of None \<Rightarrow> ?rs | Some r \<Rightarrow> upsertById ?rs r)" .
  qed
qed (use t in \<open>simp_all add: tracked_def, simp add: trackedLists_def\<close>)

lemma lawful_tracked:
  "lawfulAll sha m [] log \<Longrightarrow> distinct (map evEventId log) \<Longrightarrow> projectionAt m log p \<Longrightarrow> tracked p"
proof (induction rule: lawful_induct)
  case (empty i)
  then show ?case
    by (simp add: tracked_def trackedLists_def createEmptyMeetingProjection_def
        createEmptySharedMeetingProjection_def)
next
  case (accept log ev p sh ws)
  from tracked_step[OF accept.IH accept.hyps(3,1,2,4,5)] show ?case by (simp add: tracked_def)
qed

subsection \<open>Properties of single commands\<close>

lemma example_world_ok: "worldOk (\<lambda>_. ''e'') emptyWorld"
  by simp

lemma example_key: "trim (mutIdempotencyKey exampleDraftInput) = mutIdempotencyKey exampleDraftInput"
  by (rule trim_no_whitespace) (simp add: exampleDraftInput_def, code_simp)

lemma emptyWorld_log [simp]: "worldLog emptyWorld m = []"
  by (simp add: worldLog_def emptyWorld_def emptyDatabase_def logOf_def)

text \<open>Saving a draft, by any user with any input, either leaves every log as it was, and then an
  answer is the replay of an earlier command, or it appends one event: a draft or redraft, in the
  name of the facilitator who called, of a Decision that is new or still a draft, with a revision
  that continues the Decision's history.\<close>

theorem save_draft_appends_justified_event:
  assumes "worldOk enc w" "trim (mutIdempotencyKey input) = mutIdempotencyKey input"
    and "saveDecisionDraft (sqlitePorts enc clk uuid sha) user input w = (r, w')"
  shows "worldOk enc w' \<and> commandOutcome (draftEffect user (mutMeetingId input)) (mutMeetingId input) w r w'"
  by (rule writes_outcome, rule node.saveDecisionDraft_writes[OF assms(2)], rule assms(1), rule assms(3))

theorem save_draft_appends_justified_event_witness:
  "\<exists>r w'. saveDecisionDraft examplePorts exampleFacilitator exampleDraftInput emptyWorld = (r, w') \<and>
     worldLog w' ''m1'' = [exampleDraftEvent] \<and>
     draftEffect exampleFacilitator ''m1'' [] exampleDraftEvent"
proof -
  obtain r w' where run: "saveDecisionDraft examplePorts exampleFacilitator exampleDraftInput emptyWorld = (r, w')"
    and log: "worldLog w' ''m1'' = [exampleDraftEvent]"
    using example_draft_run exampleAppended_log by auto
  have m: "mutMeetingId exampleDraftInput = ''m1''" by (simp add: exampleDraftInput_def)
  from save_draft_appends_justified_event[OF example_world_ok example_key run[unfolded examplePorts_def]] log
  have "draftEffect exampleFacilitator ''m1'' [] exampleDraftEvent"
    by (auto simp: commandOutcome_def m)
  with run log show ?thesis by blast
qed

text \<open>C17. A Decision becomes ready only through a facilitator with the capability, only from a draft of
  the current projection that states an outcome and a monitor condition and refers to at least one
  premise, one piece of evidence and one Action, all of them shared and confirmed in the meeting;
  nothing but its status changes. Every other call leaves every log as it was.\<close>

theorem ready_needs_complete_shared_references:
  assumes "worldOk enc w" "trim (mutIdempotencyKey input) = mutIdempotencyKey input"
    and "markDecisionReady (sqlitePorts enc clk uuid sha) user input w = (r, w')"
  shows "worldOk enc w' \<and>
    commandOutcome (readyEffect user (mutMeetingId input) (trim (dciDecisionId input))) (mutMeetingId input) w r w'"
  by (rule writes_outcome, rule node.markDecisionReady_writes[OF assms(2)], rule assms(1), rule assms(3))

text \<open>C18. Commitment is explicit and gated: a Decision is committed only by a facilitator with the
  capability, with the explicit flag, from a ready Decision of the current projection whose active
  revision is in the history, as the next revision by this facilitator, and its content is what was
  marked ready. Every other call, in particular every failure, leaves every log as it was.\<close>

theorem commit_is_explicit_and_gated:
  assumes "worldOk enc w" "trim (mutIdempotencyKey input) = mutIdempotencyKey input"
    and "commitDecision (sqlitePorts enc clk uuid sha) user input w = (r, w')"
  shows "worldOk enc w' \<and>
    commandOutcome (\<lambda>log ev. commitEffect user (mutMeetingId input) (trim (dciDecisionId input)) log ev \<and>
      cdiExplicitCommit input) (mutMeetingId input) w r w'"
  by (rule writes_outcome, rule node.commitDecision_writes[OF assms(2)], rule assms(1), rule assms(3))

subsection \<open>Properties of all runs\<close>

lemma example_reachable:
  "\<exists>w. reachable (\<lambda>_. ''e'') (\<lambda>_. 0) (\<lambda>_. ''x'') (\<lambda>_. ''h'') w \<and> worldLog w ''m1'' = [exampleDraftEvent]"
proof -
  obtain r w' where run: "saveDecisionDraft examplePorts exampleFacilitator exampleDraftInput emptyWorld = (r, w')"
    and log: "worldLog w' ''m1'' = [exampleDraftEvent]"
    using example_draft_run exampleAppended_log by auto
  from step_draft[OF example_key run[unfolded examplePorts_def]]
  have "reachable (\<lambda>_. ''e'') (\<lambda>_. 0) (\<lambda>_. ''x'') (\<lambda>_. ''h'') w'"
    unfolding reachable_def by (rule r_into_rtranclp)
  with log show ?thesis by blast
qed

text \<open>C19. In every log that any run of the server can produce, every event of a Decision's life was justified by the
  meeting before it. Drafts, ready marks, commitments, reviews and resolutions were made by a facilitator, monitoring
  and its consequences by the system, suggestions by a language model; each from the Decision's projected state, in the
  step that its type names, at the next position. The followers of a batch stand directly after their cause.\<close>

theorem reachable_decision_events_are_justified:
  assumes "reachable enc clk uuid sha w" "worldLog w m = pre @ ev # post"
    and "lifePayload (evPayload ev)"
  shows "lifeJustified m pre ev"
  using stepwise_split[of "lawful sha m" pre ev post] reachable_log[OF assms(1), of m] assms(2,3)
  by (simp add: lawful_def)

theorem reachable_decision_events_are_justified_witness: "lifeJustified ''m1'' [] exampleDraftEvent"
proof -
  obtain w where w: "reachable (\<lambda>_. ''e'') (\<lambda>_. 0) (\<lambda>_. ''x'') (\<lambda>_. ''h'') w"
    "worldLog w ''m1'' = [] @ exampleDraftEvent # []" using example_reachable by auto
  show ?thesis
    by (rule reachable_decision_events_are_justified[OF w]) (simp add: exampleDraftEvent_def lifePayload_def)
qed

text \<open>C20. A meeting never gets stuck: every log that a run can produce replays without an error and
  without skipping an event, to a well-formed projection of that meeting, provided that the generated event
  identifiers are distinct. Every later command of the meeting can therefore load it.\<close>

theorem reachable_meetings_replay:
  assumes "reachable enc clk uuid sha w" "distinct (map evEventId (worldLog w m))" "meetingId m = Inr i"
  shows "\<exists>p. projectRecords m (numberRecords 1 (worldLog w m)) = Inr p \<and>
    projectionOk p \<and> mprMeetingId p = i \<and> mprPosition p = int (length (worldLog w m))"
proof -
  obtain p where p: "projectionAt m (worldLog w m) p" "mprPosition p = int (length (worldLog w m))"
    using lawful_healthy[OF reachable_log[OF assms(1)] assms(2,3)] by (auto simp: healthy_def)
  with projectionAt_meeting[OF p(1)] assms(3) show ?thesis by (simp add: projectionAt_def)
qed

text \<open>C21. In every meeting that a run can produce, each Decision's revisions form an unbroken chain of
  versions 1, 2, 3, ..., every revision belongs to a projected Decision, and the projected Decision
  points at its latest revision. A commit therefore always finds the revision that it requires.\<close>

theorem reachable_history_is_tracked:
  assumes "reachable enc clk uuid sha w" "distinct (map evEventId (worldLog w m))"
    and "projectRecords m (numberRecords 1 (worldLog w m)) = Inr p"
  shows "tracked p"
  using lawful_tracked[OF reachable_log[OF assms(1)] assms(2)] assms(3) by (simp add: projectionAt_def)

theorem reachable_history_is_tracked_witness:
  "\<exists>p. projectRecords ''m1'' (numberRecords 1 [exampleDraftEvent]) = Inr p \<and> tracked p"
proof -
  obtain w where w: "reachable (\<lambda>_. ''e'') (\<lambda>_. 0) (\<lambda>_. ''x'') (\<lambda>_. ''h'') w"
    "worldLog w ''m1'' = [exampleDraftEvent]" using example_reachable by auto
  have ids: "distinct (map evEventId (worldLog w ''m1''))" using w(2) by simp
  obtain p where p: "projectRecords ''m1'' (numberRecords 1 (worldLog w ''m1'')) = Inr p"
    using lawful_healthy[OF reachable_log[OF w(1)] ids example_texts(2)] by (auto simp: healthy_def projectionAt_def)
  from reachable_history_is_tracked[OF w(1) ids p] p w(2) show ?thesis by auto
qed

text \<open>C22. The life cycle is visible in the log of every run whose generated event identifiers are distinct: before a Decision is marked ready there is a draft event
  of it with the same content, before it is committed an event that marked exactly this content ready, before its
  monitoring starts a commitment. Before a suggestion there is the outside event it names, before a Decision is put at
  risk the suggestion and the event that had it monitored, before a review that mark, before Actions are held a
  facilitator's confirmation and a suggestion that names every one of them, and before a resolution the event that
  required the review.\<close>

theorem reachable_log_follows_life_cycle:
  assumes "reachable enc clk uuid sha w" "worldLog w m = pre @ ev # post"
    and "distinct (map evEventId (worldLog w m))" "lifePayload (evPayload ev)"
  shows "followsLifeCycle pre (evPayload ev)"
proof -
  have law: "lawfulAll sha m [] pre \<and> lawful sha m pre ev"
    using stepwise_split reachable_log[OF assms(1), of m] unfolding assms(2) by blast
  have ids: "distinct (map evEventId pre)" using assms(2,3) by simp
  have "wellPlaced m pre ev" using law by (simp add: lawful_def)
  then obtain i where "meetingId m = Inr i" by (auto simp: wellPlaced_def)
  with lawful_healthy[of sha m pre] law ids obtain p where "projectionAt m pre p" by (auto simp: healthy_def)
  with lawful_followsLifeCycle[of sha m pre p ev] law ids assms(4) show ?thesis by simp
qed

end
