(* ===== verification/Progress.thy ===== *)
theory Progress
  imports CommandLogic
begin

section \<open>Commands that succeed\<close>

text \<open>
  \<open>command_world\<close> says what a command may do; its extension \<open>live_world\<close> says when the ports
  answer: a load of a named meeting returns the log, and an append at the current position under a
  key that the store has not seen is written. Commands are then run step by step.
\<close>

lemma tryC_run: "c w = (Inr a, w1) \<Longrightarrow> tryC h c w = (Inr a, w1)"
  by (simp add: tryC_def)

subsection \<open>Ports that answer\<close>

locale live_world = command_world deps log ok
  for deps :: "'w ports" and log :: "'w \<Rightarrow> string \<Rightarrow> domainEvent list" and ok :: "'w \<Rightarrow> bool" +
  fixes unused :: "'w \<Rightarrow> string \<Rightarrow> string \<Rightarrow> bool"
  assumes now_unused: "ok w \<Longrightarrow> unused (snd (prtNow deps w)) = unused w"
    and load_answers: "ok w \<Longrightarrow> m \<noteq> [] \<Longrightarrow> prtLoad deps m w = (Inr (numberRecords 1 (log w m)), w)"
    and append_answers: "ok w \<Longrightarrow> aprMeetingId r \<noteq> [] \<Longrightarrow> aprIdempotencyKey r = Some k \<Longrightarrow> k \<noteq> [] \<Longrightarrow>
      unused w (aprMeetingId r) k \<Longrightarrow> aprExpectedPosition r = Some (int (length (log w (aprMeetingId r)))) \<Longrightarrow>
      int (length (log w (aprMeetingId r))) + int (length (aprEvents r)) \<le> MAX_SAFE_INTEGER \<Longrightarrow>
      fst (prtAppend deps r w) =
        Inr (Appended (numberRecords (int (length (log w (aprMeetingId r))) + 1) (aprEvents r)))"

subsection \<open>The SQLite store answers\<close>

lemma appendRows_succeeds:
  assumes "contiguous db (aprMeetingId r)" "aprIdempotencyKey r = Some k"
    and "findAppend db (aprMeetingId r) k = None"
    and "int (length (logOf db (aprMeetingId r))) + int (length (aprEvents r)) \<le> MAX_SAFE_INTEGER"
  shows "\<exists>db'. appendRows enc Inr r (int (length (logOf db (aprMeetingId r)))) db =
    Inr (Appended (numberRecords (int (length (logOf db (aprMeetingId r))) + 1) (aprEvents r)), db')"
  using insertEvents_contiguous[OF assms(1), of "aprEvents r"] assms(2-4)
  by (auto simp: appendRows_def insertAppend_def findAppend_None)

lemma sqliteAppend_succeeds:
  assumes "storeOk enc db" "aprMeetingId r \<noteq> []" "aprIdempotencyKey r = Some k" "k \<noteq> []"
    and "findAppend db (aprMeetingId r) k = None"
    and e: "aprExpectedPosition r = Some (int (length (logOf db (aprMeetingId r))))"
    and len: "int (length (logOf db (aprMeetingId r))) + int (length (aprEvents r)) \<le> MAX_SAFE_INTEGER"
  shows "fst (sqliteAppend enc r db) =
    Inr (Appended (numberRecords (int (length (logOf db (aprMeetingId r))) + 1) (aprEvents r)))"
proof -
  have c: "contiguous db (aprMeetingId r)" using assms(1) by (simp add: storeOk_def)
  have "checkAppend r = Inr ()"
    using assms(2-4) e len by (simp add: checkAppend_def requireNonEmpty_def requireOption_def requirePosition_def
        isSafeInteger_def MAX_SAFE_INTEGER_def)
  moreover obtain db' where "appendWork enc Inr r db =
      Inr (Appended (numberRecords (int (length (logOf db (aprMeetingId r))) + 1) (aprEvents r)), db')"
    using appendRows_succeeds[OF c assms(3,5) len, of enc] assms(3,5) e readPosition_contiguous[OF c]
    by (auto simp: appendWork_def appendNew_def Let_def)
  ultimately show ?thesis by (simp add: sqliteAppend_def appendSqlite_def runTransaction_def)
qed

definition keyUnused :: "sqliteWorld \<Rightarrow> string \<Rightarrow> string \<Rightarrow> bool" where
  "keyUnused w m k \<longleftrightarrow> findAppend (swDatabase w) m k = None"

interpretation live: live_world "sqlitePorts enc clk uuid sha" worldLog "worldOk enc" keyUnused
  for enc :: "domainEvent \<Rightarrow> string" and clk :: "nat \<Rightarrow> int" and uuid :: "nat \<Rightarrow> string"
    and sha :: "string \<Rightarrow> string"
proof unfold_locales
  let ?d = "sqlitePorts enc clk uuid sha"
  fix w :: sqliteWorld and r :: "domainEvent appendEventsRequest" and m k
  assume ok: "worldOk enc w"
  then have st: "storeOk enc (swDatabase w)" by (simp add: worldOk_def)
  show "keyUnused (snd (prtNow ?d w)) = keyUnused w"
    by (intro ext) (simp add: sqlitePorts_def systemNow_def keyUnused_def)
  show "m \<noteq> [] \<Longrightarrow> prtLoad ?d m w = (Inr (numberRecords 1 (worldLog w m)), w)"
    using sqliteLoad_log[of "swDatabase w" m] st by (simp add: sqlitePorts_def worldLog_def storeOk_def)
  show "fst (prtAppend ?d r w) =
      Inr (Appended (numberRecords (int (length (worldLog w (aprMeetingId r))) + 1) (aprEvents r)))"
    if "aprMeetingId r \<noteq> []" "aprIdempotencyKey r = Some k" "k \<noteq> []" "keyUnused w (aprMeetingId r) k"
      "aprExpectedPosition r = Some (int (length (worldLog w (aprMeetingId r))))"
      "int (length (worldLog w (aprMeetingId r))) + int (length (aprEvents r)) \<le> MAX_SAFE_INTEGER"
    using sqliteAppend_succeeds[OF st, of r k] that
    by (auto simp: sqlitePorts_def worldLog_def keyUnused_def split: prod.splits)
qed

end
