(* ===== verification/FloorRuns.thy ===== *)
theory FloorRuns
  imports MeetingRuns Progress
begin

section \<open>The shared floor in every run\<close>

text \<open>
  Consequences of lawfulness for the floor: leases do not overlap, only the holder of an unexpired
  lease speaks to the room, and a lease that is over never blocks the next speaker.
\<close>

subsection \<open>The end of a lease\<close>

definition leaseOver :: "string \<Rightarrow> string \<Rightarrow> bool" where
  "leaseOver lease now \<longleftrightarrow> (\<exists>a b. lease = isoString a \<and> now = isoString b \<and> \<bar>a\<bar> \<le> MAX_TIME \<and> \<bar>b\<bar> \<le> MAX_TIME \<and> a \<le> b)"

text \<open>What may end the lease of \<open>p\<close> until \<open>lease\<close>: its holder, its expiry, the end or reset of the meeting.\<close>

definition endsLease :: "string \<Rightarrow> string \<Rightarrow> domainEvent \<Rightarrow> bool" where
  "endsLease p lease ev \<longleftrightarrow>
     (case evPayload ev of
        SharedFloorReleased q why \<Rightarrow>
          q = p \<and> (why = Released \<and> evActor ev = ParticipantActor p \<or>
                   why = Expired \<and> evActor ev = SystemActor \<and> leaseOver lease (evOccurredAt ev))
      | MeetingEnded _ _ \<Rightarrow> True
      | DemoResetCompleted _ _ \<Rightarrow> True
      | _ \<Rightarrow> False)"

lemma leaseOver_parses:
  assumes "leaseFrom start lease" "timestamp now = Inr now" "\<not> parsesAfter lease now"
  shows "leaseOver lease now"
proof -
  obtain a b where "lease = isoString a" "\<bar>a\<bar> \<le> MAX_TIME" "now = isoString b" "\<bar>b\<bar> \<le> MAX_TIME"
    using assms(1,2) by (auto simp: leaseFrom_def timestamp_Inr)
  moreover from this assms(3) have "a \<le> b" by (simp add: parsesAfter_def dateParse_isoString)
  ultimately show ?thesis unfolding leaseOver_def by blast
qed

lemma floor_changes:
  "floorOf pre = Some h \<Longrightarrow> floorOf (pre @ mid) \<noteq> Some h \<Longrightarrow>
     \<exists>mid1 ev mid2. mid = mid1 @ ev # mid2 \<and> floorOf (pre @ mid1) = Some h \<and> floorAfter (Some h) ev \<noteq> Some h"
proof (induction mid arbitrary: pre)
  case (Cons ev mid)
  show ?case
  proof (cases "floorAfter (Some h) ev = Some h")
    case True
    then have "floorOf (pre @ [ev]) = Some h" using Cons.prems(1) by (simp add: floorOf_snoc)
    from Cons.IH[OF this] Cons.prems(2) obtain mid1 x mid2 where
      "mid = mid1 @ x # mid2" "floorOf ((pre @ [ev]) @ mid1) = Some h" "floorAfter (Some h) x \<noteq> Some h"
      by auto
    then show ?thesis by (intro exI[of _ "ev # mid1"] exI[of _ x] exI[of _ mid2]) simp
  next
    case False
    with Cons.prems(1) show ?thesis
      by (intro exI[of _ "[]"] exI[of _ ev] exI[of _ mid]) simp
  qed
qed simp

lemma lease_ends:
  assumes ev: "floorJustified m log ev" "floorOf log = Some h" "leaseFrom start (fhdLease h)"
    and "floorAfter (Some h) ev \<noteq> Some h"
  shows "endsLease (fhdHolder h) (fhdLease h) ev"
  using assms leaseOver_parses[OF ev(3)]
  by (cases "evPayload ev")
    (auto simp: floorJustified_def endsLease_def split: if_splits)

lemma lawful_speech:
  assumes "lawfulAll sha m [] (pre @ ev # post)" "distinct (map evEventId (pre @ ev # post))"
  shows "speechJustified m pre ev"
  using stepwise_split[OF assms(1)] assms(2) by (simp add: lawful_def)

lemma lawful_lease_ends:
  assumes law: "lawfulAll sha m [] (pre @ mid)" and ids: "distinct (map evEventId (pre @ mid))"
    and h: "floorOf pre = Some h" "leaseFrom start (fhdLease h)" and "floorOf (pre @ mid) \<noteq> Some h"
  shows "\<exists>ev \<in> set mid. endsLease (fhdHolder h) (fhdLease h) ev"
proof -
  from floor_changes[OF h(1) assms(5)] obtain mid1 ev mid2 where
    mid: "mid = mid1 @ ev # mid2" "floorOf (pre @ mid1) = Some h" "floorAfter (Some h) ev \<noteq> Some h" by blast
  then have sp: "speechJustified m (pre @ mid1) ev" using lawful_speech[of sha m "pre @ mid1" ev mid2] law ids by simp
  have "endsLease (fhdHolder h) (fhdLease h) ev"
  proof (cases "floorPayload (evPayload ev)")
    case True
    with sp have "floorJustified m (pre @ mid1) ev" by (simp add: speechJustified_def)
    from lease_ends[OF this mid(2) h(2) mid(3)] show ?thesis .
  next
    case False
    with floorAfter_stays[OF mid(3)] show ?thesis
      by (cases "evPayload ev") (auto simp: endsLease_def floorPayload_def isDemoResetCompleted_def)
  qed
  with mid(1) show ?thesis by auto
qed

subsection \<open>Acquiring a free floor succeeds\<close>

lemma eventId_key: "trim k = k \<Longrightarrow> k \<noteq> [] \<Longrightarrow> suffix \<noteq> [] \<Longrightarrow> \<not> isWhitespace (last suffix) \<Longrightarrow>
     eventId (k @ suffix) = Inr (k @ suffix)"
proof -
  assume k: "trim k = k" "k \<noteq> []" and s: "suffix \<noteq> []" "\<not> isWhitespace (last suffix)"
  then have "\<not> isWhitespace (hd k)" using trim_ends[of k] by simp
  with k s have "trim (k @ suffix) = k @ suffix" by (intro trim_fixed) simp
  with k(2) show ?thesis by (simp add: eventId_def opaqueText_clean)
qed

definition leaseEvent :: "string \<Rightarrow> string \<Rightarrow> string \<Rightarrow> string \<Rightarrow> nat \<Rightarrow> int \<Rightarrow> domainEvent" where
  "leaseEvent c m u p n ms =
     \<lparr>evEventId = floorKey m u @ '':acquired'', evSchemaVersion = 1, evMeetingId = m,
      evPosition = int n + 1, evActor = ParticipantActor p, evOccurredAt = isoString ms,
      evCorrelationId = c, evCausationId = None, evIdempotencyKey = Some (floorKey m u),
      evScope = SharedScope, evPayload = SharedFloorAcquired p (isoString (ms + 15000))\<rparr>"

definition expiryEvent :: "string \<Rightarrow> string \<Rightarrow> string \<Rightarrow> string \<Rightarrow> nat \<Rightarrow> int \<Rightarrow> domainEvent" where
  "expiryEvent c m u holder n ms =
     \<lparr>evEventId = floorKey m u @ '':expired'', evSchemaVersion = 1, evMeetingId = m,
      evPosition = int n + 1, evActor = SystemActor, evOccurredAt = isoString ms,
      evCorrelationId = c, evCausationId = None, evIdempotencyKey = None,
      evScope = SharedScope, evPayload = SharedFloorReleased holder Expired\<rparr>"

text \<open>The events of a successful acquisition after a log.\<close>

definition leaseEvents :: "string \<Rightarrow> string \<Rightarrow> string \<Rightarrow> string \<Rightarrow> domainEvent list \<Rightarrow> int \<Rightarrow> domainEvent list" where
  "leaseEvents c m u p log ms =
     (case floorOf log of
        None \<Rightarrow> [leaseEvent c m u p (length log) ms]
      | Some h \<Rightarrow> [expiryEvent c m u (fhdHolder h) (length log) ms, leaseEvent c m u p (length log + 1) ms])"

lemma acquireEvents_succeed:
  assumes k: "trim (floorKey m u) = floorKey m u"
    and len: "int (length log) + 2 \<le> MAX_SAFE_INTEGER"
  shows "acquireEvents (floorKey m u) c m (int (length log)) (isoString ms) p
    (isoString (ms + 15000)) (map_option leaseOf (floorOf log)) = Inr (leaseEvents c m u p log ms)"
proof -
  have ne: "floorKey m u \<noteq> []" by (simp add: floorKey_def)
  have ids: "eventId (floorKey m u @ '':acquired'') = Inr (floorKey m u @ '':acquired'')"
    "eventId (floorKey m u @ '':expired'') = Inr (floorKey m u @ '':expired'')"
    by (rule eventId_key[OF k ne]; simp add: isWhitespace_def codeUnit_def)+
  have key: "idempotencyKey (floorKey m u) = Inr (floorKey m u)"
    using k ne by (simp add: idempotencyKey_def opaqueText_clean)
  have pos: "meetingPosition n = Inr n" if "0 \<le> n" "n \<le> int (length log) + 2" for n
    using that len by (simp add: meetingPosition_Inr)
  show ?thesis
    by (cases "floorOf log")
      (simp_all add: acquireEvents_def expiredEvent_def acquiredEvent_def ids key pos leaseEvents_def
        leaseEvent_def expiryEvent_def leaseOf_def)
qed

definition captureEvent ::
  "string \<Rightarrow> string \<Rightarrow> string \<Rightarrow> nat \<Rightarrow> string \<Rightarrow> utterance \<Rightarrow> domainEvent" where
  "captureEvent m p u n now utt =
     \<lparr>evEventId = utteranceCorrelation m u @ '':captured'', evSchemaVersion = 1, evMeetingId = m,
      evPosition = int n + 1, evActor = ParticipantActor p, evOccurredAt = now,
      evCorrelationId = utteranceCorrelation m u, evCausationId = None, evIdempotencyKey = Some u,
      evScope = (if recVisibility utt = Private then PrivateScope p else SharedScope),
      evPayload = UtteranceCaptured utt\<rparr>"

lemma capturedEvent_succeeds:
  assumes u: "trim u = u" "u \<noteq> []" and len: "int n + 1 \<le> MAX_SAFE_INTEGER"
  shows "capturedEvent m p u (int n) now utt = Inr (captureEvent m p u n now utt)"
proof -
  have "\<not> isWhitespace (last u)" using trim_ends[of u] u by simp
  then have c: "trim (utteranceCorrelation m u) = utteranceCorrelation m u" "utteranceCorrelation m u \<noteq> []"
    using u(2) by (auto intro!: trim_fixed simp: utteranceCorrelation_def isWhitespace_def codeUnit_def)
  have "eventId (utteranceCorrelation m u @ '':captured'') = Inr (utteranceCorrelation m u @ '':captured'')"
    by (rule eventId_key[OF c]) (simp_all add: isWhitespace_def codeUnit_def)
  moreover have "meetingPosition (int n + 1) = Inr (int n + 1)" using len by (simp add: meetingPosition_Inr)
  ultimately show ?thesis using c u
    by (simp add: capturedEvent_def correlationId_def idempotencyKey_def opaqueText_clean captureEvent_def)
qed

context live_world
begin

lemma loadFloor_run:
  assumes "ok w" "m \<noteq> []" "projectionAt m (log w m) p"
  shows "\<exists>st. loadFloorState deps m w = (Inr st, w) \<and> flsPosition st = int (length (log w m)) \<and> flsProjection st = p"
proof -
  obtain i evs where n: "meetingId m = Inr i" "normalizeRecords (numberRecords 1 (log w m)) = Inr evs"
    "replayMeeting i evs = Inr p"
    using projectionAt_normalized[OF assms(3)] by metis
  have last: "(if numberRecords 1 (log w m) = [] then 0 else ercPosition (last (numberRecords 1 (log w m)))) =
      int (length (log w m))"
    by (cases "log w m" rule: rev_cases) (simp_all add: numberRecords_append)
  have "portC (prtLoad deps m) w = (Inr (numberRecords 1 (log w m)), w)"
    using load_answers[OF assms(1,2)] by (simp add: portC_def)
  then show ?thesis
    by (simp add: loadFloorState_def bindC_def n liftC_def returnC_def last)
qed

lemma appendAt_run:
  assumes ok: "ok w" "m \<noteq> []" "k \<noteq> []" "unused w m k"
    and len: "int (length (log w m)) + int (length evs) \<le> MAX_SAFE_INTEGER"
    and keys: "\<And>e k'. e \<in> set evs \<Longrightarrow> evIdempotencyKey e = Some k' \<Longrightarrow> k' = k"
  shows "\<exists>w'. appendAt deps m (int (length (log w m))) k evs w =
      (Inr (Appended (numberRecords (int (length (log w m)) + 1) evs)), w') \<and>
    ok w' \<and> log w' = (log w)(m := log w m @ evs) \<and>
    (\<exists>q. prtAppend deps q w = (Inr (Appended (numberRecords (int (length (log w m)) + 1) evs)), w') \<and>
       aprIdempotencyKey q = Some k)"
proof -
  let ?q = "\<lparr>aprEvents = evs, aprExpectedPosition = Some (int (length (log w m))), aprIdempotencyKey = Some k,
        aprMeetingId = m, aprPayloadFingerprint = None, aprTrustFingerprint = None\<rparr> :: domainEvent appendEventsRequest"
  have "fst (prtAppend deps ?q w) = Inr (Appended (numberRecords (int (length (log w m)) + 1) evs))"
    using append_answers[of w ?q k] ok len by simp
  then obtain w' where ap: "prtAppend deps ?q w = (Inr (Appended (numberRecords (int (length (log w m)) + 1) evs)), w')"
    by (metis prod.collapse)
  have "ok w'" using append_ok[OF ok(1), of ?q] keys ap by simp
  moreover have "log w' = (log w)(m := log w m @ evs)" using append_new[OF ok(1) ap] by simp
  moreover have "appendAt deps m (int (length (log w m))) k evs w =
      (Inr (Appended (numberRecords (int (length (log w m)) + 1) evs)), w')"
    using ap by (simp add: appendAt_def portC_def)
  moreover have "aprIdempotencyKey ?q = Some k" by simp
  ultimately show ?thesis using ap by blast
qed

text \<open>The floor is free, or its lease is over, and the key is new: the acquisition goes through.\<close>

lemma acquire_succeeds:
  assumes ok: "ok w" "healthy m (log w m)" "floorSeen m (log w m)"
    and auth: "mayUse user MeetingRead m" "participantId (uctParticipantId user) = Inr p"
    and names: "trim m = m" "m \<noteq> []" "trim u = u" "u \<noteq> []"
    and cor: "correlationId (case cor of Some i \<Rightarrow> i | None \<Rightarrow> floorKey m u) = Inr c"
    and clock: "prtNow deps w = (isoString ms, w1)" "\<bar>ms\<bar> \<le> MAX_TIME" "\<bar>ms + 15000\<bar> \<le> MAX_TIME"
    and free: "\<And>h. floorOf (log w m) = Some h \<Longrightarrow> \<not> parsesAfter (fhdLease h) (isoString ms)"
    and unused: "unused w m (floorKey m u)" and len: "int (length (log w m)) + 2 \<le> MAX_SAFE_INTEGER"
  defines "input \<equiv> \<lparr>asfCorrelationId = cor, asfMeetingId = m, asfUtteranceId = u\<rparr>"
  shows "\<exists>w'. acquireSharedFloor deps user input w =
      (Inr (acquiredResult (last (leaseEvents c m u p (log w m) ms)) u False), w') \<and>
    ok w' \<and> log w' = (log w)(m := log w m @ leaseEvents c m u p (log w m) ms) \<and>
    (\<exists>q records. prtAppend deps q w1 = (Inr (Appended records), w') \<and>
       aprIdempotencyKey q = Some (floorKey m u))"
proof -
  let ?k = "floorKey m u" and ?evs = "leaseEvents c m u p (log w m) ms"
  have w1: "ok w1" "log w1 = log w" "unused w1 = unused w"
    using now_keeps[OF ok(1)] now_unused[OF ok(1)] clock(1) by auto
  have k: "trim ?k = ?k" "?k \<noteq> []" using trim_floorKey(1)[of u u m] names by (simp_all add: floorKey_def)
  obtain q where q: "projectionAt m (log w m) q" using ok(2) by (auto simp: healthy_def)
  then have floor: "shpSharedFloor (mprShared q) = map_option leaseOf (floorOf (log w m))"
    using ok(3) by (simp add: floorSeen_def)
  have scopes: "prepareScopes user m u w = (Inr (m, p, u), w)"
    unfolding prepareScopes_def by (rule tryC_run)
      (use names auth(2) in \<open>simp add: meetingId_def utteranceId_def opaqueText_clean bindC_def liftC_def returnC_def\<close>)
  have time: "timestamp (isoString ms) = Inr (isoString ms)" using clock(2) by (rule timestamp_isoString)
  have valid: "validateAcquire deps input m u w = (Inr (isoString ms, c), w1)"
    unfolding validateAcquire_def clockNow_def
    by (rule tryC_run) (use cor time clock(1) in \<open>simp add: input_def bindC_def readC_def liftC_def returnC_def\<close>)
  obtain st where st: "loadFloorState deps m w1 = (Inr st, w1)" "flsPosition st = int (length (log w m))"
    "flsProjection st = q"
    using loadFloor_run[OF w1(1) names(2), of q] q w1(2) by auto
  have inactive: "\<not> floorActive (map_option leaseOf (floorOf (log w m))) (isoString ms)"
    using free by (auto simp: floorActive_def leaseOf_def split: option.splits)
  have lease: "leaseEnd (isoString ms) = Inr (isoString (ms + 15000))"
    using clock(2,3) by (simp add: leaseEnd_def SHARED_FLOOR_LEASE_MS_def dateParse_isoString timestamp_isoString)
  note evs = acquireEvents_succeed[OF k(1) len, of c ms p]
  note e = acquireEvents_Inr[OF evs k(1)]
  have size: "int (length (log w1 m)) + int (length ?evs) \<le> MAX_SAFE_INTEGER"
    using len by (auto simp: leaseEvents_def w1(2) split: option.split)
  obtain w' where ap: "appendAt deps m (int (length (log w m))) ?k ?evs w1 =
      (Inr (Appended (numberRecords (int (length (log w m)) + 1) ?evs)), w')"
    "ok w'" "log w' = (log w)(m := log w m @ ?evs)"
    "\<exists>q records. prtAppend deps q w1 = (Inr (Appended records), w') \<and> aprIdempotencyKey q = Some ?k"
    using appendAt_run[OF w1(1) names(2) k(2) _ size] unused w1(2,3) e by auto
  have "acquireFrom deps m p u (isoString ms) c st w1 = (Inr (acquiredResult (last ?evs) u False), w')"
    using inactive lease evs ap(1) e
    by (simp add: acquireFrom_def Let_def st floor bindC_def liftC_def returnC_def ap(1)
        finishAppend_def answerFrom_def)
  then have "acquireSharedFloor deps user input w = (Inr (acquiredResult (last ?evs) u False), w')"
    using auth(1) valid by (simp add: acquireSharedFloor_def input_def bindC_def unlessC_def returnC_def scopes st(1))
  with ap(2-4) show ?thesis by blast
qed

text \<open>A new utterance, private or with the floor for it, is captured.\<close>

lemma loadFloor_events:
  assumes "loadFloorState deps m w = (Inr st, w)" "ok w"
  shows "normalizeRecords (numberRecords 1 (log w m)) = Inr (flsEvents st)"
  using givesD[OF gives_loadFloor[of "log w" m] assms(2) refl assms(1)] by blast

lemma requireFloor_run:
  assumes st: "normalizeRecords (numberRecords 1 log0) = Inr (flsEvents st)"
    "shpSharedFloor (mprShared (flsProjection st)) = map_option leaseOf (floorOf log0)"
    and h: "floorOf log0 = Some h" "fhdHolder h = p" "fhdKey h = Some k" "parsesAfter (fhdLease h) now"
  shows "requireFloor st now p k w = (Inr (), w)"
proof -
  obtain e where "currentFloorAcquisition (flsEvents st) = Some e" "grantedBy h e"
    using acquisition_of_floor[of "flsEvents st" h] floorOf_normalized[OF st(1)] h(1) by auto
  then show ?thesis
    using h st(2) by (auto simp: requireFloor_def Let_def floorActive_def leaseOf_def grantedBy_def acquirer_def returnC_def)
qed

lemma capture_succeeds:
  assumes ok: "ok w" "healthy m (log w m)" "floorSeen m (log w m)"
    and auth: "mayUse user MeetingRead m" "participantId (uctParticipantId user) = Inr p"
    and names: "trim m = m" "m \<noteq> []" "trim u = u" "u \<noteq> []"
    and said: "timestamp at = Inr at" "trim words \<noteq> []" "length words \<le> 4000"
    and clock: "prtNow deps w = (isoString ms, w1)" "\<bar>ms\<bar> \<le> MAX_TIME"
    and new: "\<forall>old \<in> set (log w m). map_option recId (capturedUtterance (evPayload old)) \<noteq> Some u"
    and floor: "channel = Shared \<Longrightarrow> \<exists>h. floorOf (log w m) = Some h \<and> fhdHolder h = p \<and>
      fhdKey h = Some (floorKey m u) \<and> parsesAfter (fhdLease h) (isoString ms)"
    and unused: "unused w m u" and len: "int (length (log w m)) + 1 \<le> MAX_SAFE_INTEGER"
    and utt: "buildUtterance m p u channel (trim words) at = Inr utt"
  defines "input \<equiv> \<lparr>cuiCapturedAt = at, cuiChannel = channelString channel, cuiMeetingId = m,
      cuiText = words, cuiUtteranceId = u\<rparr>"
  shows "\<exists>w'. captureUtterance deps user input w =
      (Inr (capturedResult (captureEvent m p u (length (log w m)) (isoString ms) utt) False), w') \<and>
    ok w' \<and> log w' = (log w)(m := log w m @ [captureEvent m p u (length (log w m)) (isoString ms) utt])"
proof -
  let ?ev = "captureEvent m p u (length (log w m)) (isoString ms) utt"
  have w1: "ok w1" "log w1 = log w" "unused w1 = unused w"
    using now_keeps[OF ok(1)] now_unused[OF ok(1)] clock(1) by auto
  obtain q where q: "projectionAt m (log w m) q" using ok(2) by (auto simp: healthy_def)
  have scopes: "prepareScopes user m u w = (Inr (m, p, u), w)"
    unfolding prepareScopes_def by (rule tryC_run)
      (use names auth(2) in \<open>simp add: meetingId_def utteranceId_def opaqueText_clean bindC_def liftC_def returnC_def\<close>)
  have valid: "validateCapture deps input w = (Inr (at, trim words, isoString ms, channel), w1)"
    using said clock timestamp_isoString[OF clock(2)]
    by (cases channel) (simp_all add: validateCapture_def clockNow_def input_def bindC_def tryC_def unlessC_def
        readC_def liftC_def returnC_def nonEmptyText_def opaqueText_def channelString_def)
  obtain st where st: "loadFloorState deps m w1 = (Inr st, w1)" "flsPosition st = int (length (log w m))"
    "flsProjection st = q"
    using loadFloor_run[OF w1(1) names(2), of q] q w1(2) by auto
  have evs: "normalizeRecords (numberRecords 1 (log w m)) = Inr (flsEvents st)"
    using loadFloor_events[OF st(1) w1(1)] w1(2) by simp
  have unsaid: "findUtterance (flsEvents st) u = None"
    using new unsaid_normalized[OF evs] unfolding findUtterance_def findFirst_None by metis
  have granted: "(if channel = Shared then requireFloor st (isoString ms) p (floorKey m u) else returnC ()) w1 = (Inr (), w1)"
    using floor requireFloor_run[OF evs, of _ p "floorKey m u" "isoString ms" w1] q ok(3) st(3)
    by (auto simp: floorSeen_def returnC_def)
  have e: "evPayload ?ev = UtteranceCaptured utt" "recId utt = u" "evIdempotencyKey ?ev = Some u"
    "meetingPosition (int (length (log w m)) + 1) = Inr (evPosition ?ev)"
    using buildUtterance_Inr[OF utt] len by (simp_all add: captureEvent_def meetingPosition_Inr)
  obtain w' where ap: "appendAt deps m (int (length (log w m))) u [?ev] w1 =
      (Inr (Appended (numberRecords (int (length (log w m)) + 1) [?ev])), w')"
    "ok w'" "log w' = (log w)(m := log w m @ [?ev])"
    using appendAt_run[OF w1(1) names(2,4), of "[?ev]"] unused w1(2,3) e(3) len by auto
  have "captureNew deps m p u at (trim words) (isoString ms) channel st w1 = (Inr (capturedResult ?ev False), w')"
    using granted utt capturedEvent_succeeds[OF names(3,4) len, of m p "isoString ms" utt] ap(1)
      normalize_single[OF e(4)] e(1,2)
    by (simp add: captureNew_def bindC_def tryC_def liftC_def returnC_def st(2) finishAppend_def answerFrom_def
        isCapture_def)
  then have "captureUtterance deps user input w = (Inr (capturedResult ?ev False), w')"
    using auth(1) valid unsaid
    by (simp add: captureUtterance_def input_def bindC_def unlessC_def returnC_def scopes st(1))
  with ap(2,3) show ?thesis by blast
qed

end

subsection \<open>Where a lease comes from\<close>

lemma floor_granted:
  "floorOf log = Some h \<Longrightarrow> \<exists>pre acq mid. log = pre @ acq # mid \<and> grantedBy h acq \<and>
     (\<forall>ev \<in> set mid. releasedBy (evPayload ev) \<noteq> Some (fhdHolder h))"
proof (induction log arbitrary: h rule: rev_induct)
  case (snoc ev log)
  show ?case
  proof (cases "acquiredBy (evPayload ev)")
    case None
    with snoc.prems have "floorOf log = Some h" "releasedBy (evPayload ev) \<noteq> Some (fhdHolder h)"
      by (cases "evPayload ev"; auto simp: floorOf_snoc floorAfter_def split: if_splits)+
    from snoc.IH[OF this(1)] obtain pre acq mid where
      "log = pre @ acq # mid" "grantedBy h acq" "\<forall>ev \<in> set mid. releasedBy (evPayload ev) \<noteq> Some (fhdHolder h)"
      by blast
    with \<open>releasedBy (evPayload ev) \<noteq> Some (fhdHolder h)\<close> show ?thesis
      by (intro exI[of _ pre] exI[of _ acq] exI[of _ "mid @ [ev]"]) simp
  next
    case (Some x)
    with snoc.prems have "grantedBy h ev"
      by (cases "evPayload ev") (auto simp: floorOf_snoc floorAfter_def grantedBy_def)
    then show ?thesis by (intro exI[of _ log] exI[of _ ev] exI[of _ "[]"]) simp
  qed
qed simp

subsection \<open>Example\<close>

text \<open>
  Participant p1 acquires the floor at time 0, says something, and twenty seconds later, the lease being
  over, participant p2 acquires it.
\<close>

definition exampleSpeaker :: "string \<Rightarrow> userContext" where
  "exampleSpeaker p = \<lparr>uctCapabilities = [MeetingRead], uctMeetingId = ''m1'', uctParticipantId = p,
     uctRole = PlainParticipantRole, uctSessionId = ''s1'', uctUserId = ''u1''\<rparr>"

definition exampleClock :: "nat \<Rightarrow> int" where
  "exampleClock n = (if n = 0 then 0 else 20000)"

abbreviation examplePort :: "sqliteWorld ports" where
  "examplePort \<equiv> sqlitePorts (\<lambda>_. ''e'') exampleClock (\<lambda>_. ''x'') (\<lambda>_. ''h'')"

lemma prtNow_node [simp]:
  "prtNow (sqlitePorts enc clk uuid sha) w = (isoString (clk (swTick w)), w\<lparr>swTick := swTick w + 1\<rparr>)"
  by (simp add: sqlitePorts_def systemNow_def)

lemma append_keeps_unused:
  assumes ok: "worldOk enc w" and ap: "prtAppend (sqlitePorts enc clk uuid sha) q w = (Inr (Appended records), w')"
    and k: "aprIdempotencyKey q = Some k" "keyUnused w m k'" "k' \<noteq> k"
  shows "keyUnused w' m k' \<and> swTick w' = swTick w"
proof -
  have db: "sqliteAppend enc q (swDatabase w) = (Inr (Appended records), swDatabase w')" "swTick w' = swTick w"
    using ap by (auto simp: sqlitePorts_def split: prod.splits)
  then have "swDatabase w' = afterAppendOf enc q (swDatabase w)"
    using sqliteAppend_new[of enc "swDatabase w" q] ok by (auto simp: worldOk_def)
  with k db(2) show ?thesis
    by (auto simp: keyUnused_def afterAppendOf_def findAppend_def findFirst_append newReceipt_def split: option.splits)
qed

lemma reachable_ready:
  assumes "reachable enc clk uuid sha w" "distinct (map evEventId (worldLog w m))" "meetingId m = Inr i"
  shows "worldOk enc w \<and> healthy m (worldLog w m) \<and> floorSeen m (worldLog w m)"
  using reachable_lawful[OF assms(1)] reachable_log[OF assms(1), of m] lawful_healthy[OF _ assms(2,3)]
    lawful_floorSeen[OF _ assms(2)]
  by (auto simp: lawfulWorld_def)

lemma reachable_step: "reachable enc clk uuid sha w \<Longrightarrow> meetingStep enc clk uuid sha w w' \<Longrightarrow> reachable enc clk uuid sha w'"
  unfolding reachable_def by (rule rtranclp.rtrancl_into_rtrancl)

lemma reachable_empty [simp]: "reachable enc clk uuid sha emptyWorld"
  by (simp add: reachable_def)

lemma leaseOver_not_after: "leaseOver lease now \<Longrightarrow> \<not> parsesAfter lease now"
  by (auto simp: leaseOver_def parsesAfter_def dateParse_isoString)

lemma acquire_in_run:
  assumes r: "reachable enc clk uuid sha w" "distinct (map evEventId (worldLog w m))"
    and auth: "mayUse user MeetingRead m" "participantId (uctParticipantId user) = Inr p"
    and names: "trim m = m" "m \<noteq> []" "trim u = u" "u \<noteq> []"
    and cor: "correlationId (case cor of Some i \<Rightarrow> i | None \<Rightarrow> floorKey m u) = Inr c"
    and clock: "\<bar>clk (swTick w)\<bar> \<le> MAX_TIME" "\<bar>clk (swTick w) + 15000\<bar> \<le> MAX_TIME"
    and free: "\<forall>h. floorOf (worldLog w m) = Some h \<longrightarrow> leaseOver (fhdLease h) (isoString (clk (swTick w)))"
    and unused: "keyUnused w m (floorKey m u)" and len: "int (length (worldLog w m)) + 2 \<le> MAX_SAFE_INTEGER"
  shows "\<exists>w'. acquireSharedFloor (sqlitePorts enc clk uuid sha) user
        \<lparr>asfCorrelationId = cor, asfMeetingId = m, asfUtteranceId = u\<rparr> w =
      (Inr (acquiredResult (last (leaseEvents c m u p (worldLog w m) (clk (swTick w)))) u False), w') \<and>
    reachable enc clk uuid sha w' \<and>
    worldLog w' = (worldLog w)(m := worldLog w m @ leaseEvents c m u p (worldLog w m) (clk (swTick w))) \<and>
    (\<forall>k. keyUnused w m k \<longrightarrow> k \<noteq> floorKey m u \<longrightarrow> keyUnused w' m k) \<and> swTick w' = swTick w + 1"
proof -
  have "meetingId m = Inr m" using names by (simp add: meetingId_def opaqueText_clean)
  note ready = reachable_ready[OF r this]
  let ?w1 = "w\<lparr>swTick := swTick w + 1\<rparr>"
  have over: "\<not> parsesAfter (fhdLease h) (isoString (clk (swTick w)))" if "floorOf (worldLog w m) = Some h" for h
    using free that leaseOver_not_after by blast
  have ok: "worldOk enc w" "healthy m (worldLog w m)" "floorSeen m (worldLog w m)" using ready by blast+
  have now: "prtNow (sqlitePorts enc clk uuid sha) w = (isoString (clk (swTick w)), ?w1)" by simp
  from live.acquire_succeeds[OF ok auth names cor now clock over unused len]
  obtain w' q records where run: "acquireSharedFloor (sqlitePorts enc clk uuid sha) user
        \<lparr>asfCorrelationId = cor, asfMeetingId = m, asfUtteranceId = u\<rparr> w =
      (Inr (acquiredResult (last (leaseEvents c m u p (worldLog w m) (clk (swTick w)))) u False), w')"
    "worldLog w' = (worldLog w)(m := worldLog w m @ leaseEvents c m u p (worldLog w m) (clk (swTick w)))"
    "prtAppend (sqlitePorts enc clk uuid sha) q ?w1 = (Inr (Appended records), w')"
    "aprIdempotencyKey q = Some (floorKey m u)"
    by blast
  have "worldOk enc ?w1" using ready by (simp add: worldOk_def)
  then have "keyUnused w' m k" if "keyUnused w m k" "k \<noteq> floorKey m u" for k
    using append_keeps_unused[OF _ run(3,4), of m k] that by (simp add: keyUnused_def)
  moreover have "swTick w' = swTick w + 1"
    using run(3) by (auto simp: sqlitePorts_def split: prod.splits)
  ultimately show ?thesis using run(1,2) reachable_step[OF r(1) step_acquire[OF run(1)]] by blast
qed

lemma example_user:
  "mayUse (exampleSpeaker p) MeetingRead ''m1''"
  "participantId (uctParticipantId (exampleSpeaker ''p1'')) = Inr ''p1''"
  "participantId (uctParticipantId (exampleSpeaker ''p2'')) = Inr ''p2''"
  "trim ''m1'' = ''m1''" "trim ''u1'' = ''u1''" "trim ''u2'' = ''u2''"
  "trim ''c2'' = ''c2''" "correlationId ''c1'' = Inr ''c1''" "correlationId ''c2'' = Inr ''c2''"
  by (auto simp: mayUse_iff exampleSpeaker_def participantId_def correlationId_def opaqueText_def trim_def isWhitespace_def codeUnit_def)

lemma emptyWorld_unused [simp]: "keyUnused emptyWorld m k" "swTick emptyWorld = 0"
  by (simp_all add: keyUnused_def emptyWorld_def emptyDatabase_def findAppend_def)

lemma example_first_lease:
  assumes "clk 0 = 0"
  shows "\<exists>w. reachable (\<lambda>_. ''e'') clk (\<lambda>_. ''x'') (\<lambda>_. ''h'') w \<and>
     worldLog w ''m1'' = [leaseEvent ''c1'' ''m1'' ''u1'' ''p1'' 0 0] \<and> swTick w = 1 \<and>
     (\<forall>k. k \<noteq> floorKey ''m1'' ''u1'' \<longrightarrow> keyUnused w ''m1'' k)"
  using acquire_in_run[where enc = "\<lambda>_. ''e''" and clk = clk and uuid = "\<lambda>_. ''x''" and sha = "\<lambda>_. ''h''" and
      w = emptyWorld and m = "''m1''" and user = "exampleSpeaker ''p1''" and p = "''p1''" and u = "''u1''" and cor = "Some ''c1''"] example_user
    assms
  by (auto simp: MAX_TIME_def MAX_SAFE_INTEGER_def leaseEvents_def)

lemma example_floor: "floorOf [leaseEvent ''c1'' ''m1'' ''u1'' ''p1'' 0 0] =
  Some \<lparr>fhdHolder = ''p1'', fhdLease = isoString 15000, fhdKey = Some (floorKey ''m1'' ''u1'')\<rparr>"
  by (simp add: floorOf_def floorAfter_def leaseEvent_def)

lemma example_lease_over: "leaseOver (isoString 15000) (isoString (exampleClock 1))"
  unfolding leaseOver_def by (intro exI[of _ 15000] exI[of _ "exampleClock 1"]) (simp add: exampleClock_def MAX_TIME_def)

text \<open>C27. The shared floor is exclusive: in every log that a run can produce, between one acquisition and
  any later one the first lease ended: its holder released it, the system expired it at a time when the
  lease was over, or the meeting ended or was reset. A lease always runs for fifteen seconds from the
  moment of its acquisition.\<close>

theorem shared_floor_is_exclusive:
  assumes "reachable enc clk uuid sha w" "distinct (map evEventId (worldLog w m))"
    and "worldLog w m = pre @ ev # mid @ ev' # post"
    and "evPayload ev = SharedFloorAcquired p lease" "evPayload ev' = SharedFloorAcquired p' lease'"
  shows "leaseFrom (evOccurredAt ev) lease \<and> (\<exists>x \<in> set mid. endsLease p lease x)"
proof -
  have law: "lawfulAll sha m [] (pre @ ev # mid @ ev' # post)" "distinct (map evEventId (pre @ ev # mid @ ev' # post))"
    using reachable_log[OF assms(1), of m] assms(2,3) by auto
  have "speechJustified m pre ev" "speechJustified m (pre @ ev # mid) ev'"
    using lawful_speech[of sha m pre ev "mid @ ev' # post"] lawful_speech[of sha m "pre @ ev # mid" ev' post] law by auto
  then have lease: "leaseFrom (evOccurredAt ev) lease" and free: "floorOf (pre @ ev # mid) = None"
    using assms(4,5) by (auto simp: speechJustified_def floorPayload_def floorJustified_def)
  have h: "floorOf (pre @ [ev]) = Some \<lparr>fhdHolder = p, fhdLease = lease, fhdKey = evIdempotencyKey ev\<rparr>"
    using assms(4) by (simp add: floorOf_snoc floorAfter_def)
  have "lawfulAll sha m [] ((pre @ [ev]) @ mid)" "distinct (map evEventId ((pre @ [ev]) @ mid))"
    using law stepwise_append[of "lawful sha m" "[]" "(pre @ [ev]) @ mid" "ev' # post"] by auto
  from lawful_lease_ends[OF this h, of "evOccurredAt ev"] lease free show ?thesis by simp
qed

theorem shared_floor_is_exclusive_witness:
  "\<exists>x \<in> set [expiryEvent ''c2'' ''m1'' ''u2'' ''p1'' 1 20000]. endsLease ''p1'' (isoString 15000) x"
proof -
  obtain w where w: "reachable (\<lambda>_. ''e'') exampleClock (\<lambda>_. ''x'') (\<lambda>_. ''h'') w"
    "worldLog w ''m1'' = [leaseEvent ''c1'' ''m1'' ''u1'' ''p1'' 0 0]" "swTick w = 1"
    "\<forall>k. k \<noteq> floorKey ''m1'' ''u1'' \<longrightarrow> keyUnused w ''m1'' k"
    using example_first_lease[of exampleClock] by (auto simp: exampleClock_def)
  from acquire_in_run[OF w(1), where m = "''m1''" and user = "exampleSpeaker ''p2''" and p = "''p2''" and u = "''u2''"
      and cor = "Some ''c2''"]
  obtain w' where w': "reachable (\<lambda>_. ''e'') exampleClock (\<lambda>_. ''x'') (\<lambda>_. ''h'') w'"
    "worldLog w' ''m1'' = [leaseEvent ''c1'' ''m1'' ''u1'' ''p1'' 0 0, expiryEvent ''c2'' ''m1'' ''u2'' ''p1'' 1 20000,
       leaseEvent ''c2'' ''m1'' ''u2'' ''p2'' 2 20000]"
    using w example_user example_floor example_lease_over
    by (auto simp: exampleClock_def MAX_TIME_def MAX_SAFE_INTEGER_def leaseEvents_def floorKey_def numeral_2_eq_2)
  have "distinct (map evEventId (worldLog w' ''m1''))"
    by (simp add: w'(2) leaseEvent_def expiryEvent_def floorKey_def)
  from shared_floor_is_exclusive[OF w'(1) this, of "[]" "leaseEvent ''c1'' ''m1'' ''u1'' ''p1'' 0 0"
      "[expiryEvent ''c2'' ''m1'' ''u2'' ''p1'' 1 20000]" "leaseEvent ''c2'' ''m1'' ''u2'' ''p2'' 2 20000" "[]"]
  show ?thesis by (simp add: w'(2) leaseEvent_def)
qed

text \<open>C28. Who speaks to the room holds the floor: every utterance in a log that a run can produce was
  recorded for its own speaker and once only; a private one went to its speaker's own scope, and a
  shared one was recorded while the speaker's lease, acquired for this very utterance, was running and
  had not been given back.\<close>

theorem speakers_hold_the_floor:
  assumes "reachable enc clk uuid sha w" "distinct (map evEventId (worldLog w m))"
    and "worldLog w m = pre @ ev # post" "evPayload ev = UtteranceCaptured u"
  shows "evActor ev = ParticipantActor (uttParticipantId u) \<and>
    (\<forall>old \<in> set pre. map_option recId (capturedUtterance (evPayload old)) \<noteq> Some (recId u)) \<and>
    (recVisibility u = Private \<and> evScope ev = PrivateScope (uttParticipantId u) \<or>
     recVisibility u = Shared \<and> evScope ev = SharedScope \<and>
       (\<exists>pre1 acq mid lease. pre = pre1 @ acq # mid \<and>
          evPayload acq = SharedFloorAcquired (uttParticipantId u) lease \<and>
          evIdempotencyKey acq = Some (floorKey m (recId u)) \<and> parsesAfter lease (evOccurredAt ev) \<and>
          (\<forall>x \<in> set mid. releasedBy (evPayload x) \<noteq> Some (uttParticipantId u))))"
proof -
  have "speechJustified m pre ev"
    using lawful_speech[of sha m pre ev post] reachable_log[OF assms(1), of m] assms(2,3) by simp
  then have just: "captureJustified m pre ev" using assms(4) by (simp add: speechJustified_def)
  show ?thesis
  proof (cases "recVisibility u")
    case Private
    with just assms(4) show ?thesis by (auto simp: captureJustified_def)
  next
    case Shared
    with just assms(4) obtain h where h: "floorOf pre = Some h" "fhdHolder h = uttParticipantId u"
      "fhdKey h = Some (floorKey m (recId u))" "parsesAfter (fhdLease h) (evOccurredAt ev)"
      by (auto simp: captureJustified_def)
    from floor_granted[OF h(1)] obtain pre1 acq mid where "pre = pre1 @ acq # mid" "grantedBy h acq"
      "\<forall>x \<in> set mid. releasedBy (evPayload x) \<noteq> Some (fhdHolder h)" by blast
    moreover from this(2) have "evPayload acq = SharedFloorAcquired (fhdHolder h) (fhdLease h)"
      "evIdempotencyKey acq = fhdKey h"
      by (cases "evPayload acq"; simp add: grantedBy_def)+
    ultimately show ?thesis using Shared just assms(4) h by (auto simp: captureJustified_def)
  qed
qed

definition exampleSaid :: utterance where
  "exampleSaid = \<lparr>recId = ''u1'', recMeetingId = ''m1'', recCreatedAt = isoString 0, recCreatedBy = ''p1'',
     recOrigin = HumanUtterance, recConfirmation = NotApplicable, recRevision = 1, recVisibility = Shared,
     recOwner = None, uttParticipantId = ''p1'', uttChannel = Shared, uttText = ''hi'',
     uttCapturedAt = isoString 0, uttIdempotencyKey = ''u1''\<rparr>"

lemma example_said: "buildUtterance ''m1'' ''p1'' ''u1'' Shared ''hi'' (isoString 0) = Inr exampleSaid"
  using example_user
  by (simp add: buildUtterance_def idempotencyKey_def opaqueText_def exampleSaid_def createUtterance_Inr recordOk_def)

lemma example_capture:
  "\<exists>w. reachable (\<lambda>_. ''e'') (\<lambda>_. 0) (\<lambda>_. ''x'') (\<lambda>_. ''h'') w \<and> worldLog w ''m1'' =
     [leaseEvent ''c1'' ''m1'' ''u1'' ''p1'' 0 0, captureEvent ''m1'' ''p1'' ''u1'' 1 (isoString 0) exampleSaid]"
proof -
  obtain w where w: "reachable (\<lambda>_. ''e'') (\<lambda>_. 0) (\<lambda>_. ''x'') (\<lambda>_. ''h'') w"
    "worldLog w ''m1'' = [leaseEvent ''c1'' ''m1'' ''u1'' ''p1'' 0 0]" "keyUnused w ''m1'' ''u1''"
    using example_first_lease[of "\<lambda>_. 0"] by (auto simp: floorKey_def)
  have "meetingId ''m1'' = Inr ''m1''" using example_user by (simp add: meetingId_def opaqueText_def)
  from reachable_ready[OF w(1) _ this] w(2)
  have ok: "worldOk (\<lambda>_. ''e'') w" "healthy ''m1'' (worldLog w ''m1'')" "floorSeen ''m1'' (worldLog w ''m1'')" by auto
  have floor: "\<exists>h. floorOf (worldLog w ''m1'') = Some h \<and> fhdHolder h = ''p1'' \<and>
      fhdKey h = Some (floorKey ''m1'' ''u1'') \<and> parsesAfter (fhdLease h) (isoString 0)"
    by (simp add: w(2) example_floor parsesAfter_def dateParse_isoString MAX_TIME_def)
  have hi: "trim ''hi'' = ''hi''" by (simp add: trim_def isWhitespace_def codeUnit_def)
  from live.capture_succeeds[OF ok, where user = "exampleSpeaker ''p1''" and p = "''p1''" and u = "''u1''" and
      at = "isoString 0" and words = "''hi''" and channel = Shared and utt = exampleSaid and ms = 0 and
      clk = "\<lambda>_. 0" and uuid = "\<lambda>_. ''x''" and sha = "\<lambda>_. ''h''"]
  obtain r w' where "captureUtterance (sqlitePorts (\<lambda>_. ''e'') (\<lambda>_. 0) (\<lambda>_. ''x'') (\<lambda>_. ''h'')) (exampleSpeaker ''p1'')
      \<lparr>cuiCapturedAt = isoString 0, cuiChannel = channelString Shared, cuiMeetingId = ''m1'',
      cuiText = ''hi'', cuiUtteranceId = ''u1''\<rparr> w = (r, w')"
    "worldLog w' = (worldLog w)(''m1'' := worldLog w ''m1'' @ [captureEvent ''m1'' ''p1'' ''u1'' 1 (isoString 0) exampleSaid])"
    using example_user floor w(2,3) example_said hi timestamp_isoString[of 0]
    by (auto simp: MAX_TIME_def MAX_SAFE_INTEGER_def leaseEvent_def)
  with reachable_step[OF w(1) step_capture] w(2) show ?thesis by (intro exI[of _ w']) simp
qed

theorem speakers_hold_the_floor_witness:
  "evActor (captureEvent ''m1'' ''p1'' ''u1'' 1 (isoString 0) exampleSaid) = ParticipantActor (uttParticipantId exampleSaid)"
proof -
  obtain w where w: "reachable (\<lambda>_. ''e'') (\<lambda>_. 0) (\<lambda>_. ''x'') (\<lambda>_. ''h'') w"
    "worldLog w ''m1'' = [leaseEvent ''c1'' ''m1'' ''u1'' ''p1'' 0 0, captureEvent ''m1'' ''p1'' ''u1'' 1 (isoString 0) exampleSaid]"
    using example_capture by blast
  have "distinct (map evEventId (worldLog w ''m1''))"
    by (simp add: w(2) leaseEvent_def captureEvent_def floorKey_def utteranceCorrelation_def)
  from speakers_hold_the_floor[OF w(1) this, of "[leaseEvent ''c1'' ''m1'' ''u1'' ''p1'' 0 0]"
      "captureEvent ''m1'' ''p1'' ''u1'' 1 (isoString 0) exampleSaid" "[]" exampleSaid]
  show ?thesis by (simp add: w(2) captureEvent_def)
qed

text \<open>C29. Nobody can keep the floor: once the lease in force is over, or when there is none, any
  participant of the meeting who asks for the floor with a new utterance gets it at once, for fifteen
  seconds, whatever happened before; the request may bring a correlation identifier, which the
  answer repeats, or none, and then the key of the floor serves.\<close>

theorem floor_is_free_after_lease:
  assumes "reachable enc clk uuid sha w" "distinct (map evEventId (worldLog w m))"
    and "mayUse user MeetingRead m" "participantId (uctParticipantId user) = Inr p"
    and "trim m = m" "m \<noteq> []" "trim u = u" "u \<noteq> []" "\<forall>c. cor = Some c \<longrightarrow> trim c \<noteq> []"
    and "\<bar>clk (swTick w)\<bar> \<le> MAX_TIME" "\<bar>clk (swTick w) + 15000\<bar> \<le> MAX_TIME"
    and "\<forall>h. floorOf (worldLog w m) = Some h \<longrightarrow> leaseOver (fhdLease h) (isoString (clk (swTick w)))"
    and "keyUnused w m (floorKey m u)" "int (length (worldLog w m)) + 2 \<le> MAX_SAFE_INTEGER"
  shows "\<exists>r w'. acquireSharedFloor (sqlitePorts enc clk uuid sha) user
        \<lparr>asfCorrelationId = cor, asfMeetingId = m, asfUtteranceId = u\<rparr> w = (Inr r, w') \<and>
    asrParticipantId r = p \<and> asrLeaseExpiresAt r = isoString (clk (swTick w) + 15000) \<and> \<not> asrReplayed r \<and>
    asrCorrelationId r = (case cor of Some c \<Rightarrow> trim c | None \<Rightarrow> floorKey m u) \<and>
    floorOf (worldLog w' m) = Some \<lparr>fhdHolder = p, fhdLease = isoString (clk (swTick w) + 15000),
      fhdKey = Some (floorKey m u)\<rparr>"
proof -
  define c where "c = (case cor of Some c \<Rightarrow> trim c | None \<Rightarrow> floorKey m u)"
  let ?evs = "leaseEvents c m u p (worldLog w m) (clk (swTick w))"
  have "trim (floorKey m u) = floorKey m u" "floorKey m u \<noteq> []"
    using trim_floorKey(1)[of u u m] assms(5-8) by (simp_all add: floorKey_def)
  then have cor: "correlationId (case cor of Some i \<Rightarrow> i | None \<Rightarrow> floorKey m u) = Inr c"
    using assms(9) by (cases cor) (simp_all add: c_def correlationId_def opaqueText_def Let_def)
  obtain w' where run: "acquireSharedFloor (sqlitePorts enc clk uuid sha) user
        \<lparr>asfCorrelationId = cor, asfMeetingId = m, asfUtteranceId = u\<rparr> w = (Inr (acquiredResult (last ?evs) u False), w')"
    "worldLog w' m = worldLog w m @ ?evs"
    using acquire_in_run[OF assms(1-8) cor assms(10-)] by auto
  have "floorOf (worldLog w m @ ?evs) = Some \<lparr>fhdHolder = p, fhdLease = isoString (clk (swTick w) + 15000),
      fhdKey = Some (floorKey m u)\<rparr>"
    by (cases "floorOf (worldLog w m)")
      (simp_all add: leaseEvents_def leaseEvent_def floorOf_def floorAfter_def)
  then show ?thesis using run
    by (intro exI[of _ "acquiredResult (last ?evs) u False"] exI[of _ w'])
      (simp add: acquiredResult_def leaseEvents_def leaseEvent_def flip: c_def split: option.split)
qed

theorem floor_is_free_after_lease_witness:
  "\<exists>w r w'. worldLog w ''m1'' = [leaseEvent ''c1'' ''m1'' ''u1'' ''p1'' 0 0] \<and>
     acquireSharedFloor examplePort (exampleSpeaker ''p2'')
       \<lparr>asfCorrelationId = Some ''c2'', asfMeetingId = ''m1'', asfUtteranceId = ''u2''\<rparr> w = (Inr r, w') \<and>
     asrParticipantId r = ''p2'' \<and> asrCorrelationId r = ''c2''"
proof -
  obtain w where w: "reachable (\<lambda>_. ''e'') exampleClock (\<lambda>_. ''x'') (\<lambda>_. ''h'') w"
    "worldLog w ''m1'' = [leaseEvent ''c1'' ''m1'' ''u1'' ''p1'' 0 0]" "swTick w = 1"
    "\<forall>k. k \<noteq> floorKey ''m1'' ''u1'' \<longrightarrow> keyUnused w ''m1'' k"
    using example_first_lease[of exampleClock] by (auto simp: exampleClock_def)
  from floor_is_free_after_lease[OF w(1), where m = "''m1''" and user = "exampleSpeaker ''p2''" and p = "''p2''" and u = "''u2''"
      and cor = "Some ''c2''"]
  show ?thesis
    using w example_user example_floor example_lease_over
    by (auto simp: exampleClock_def MAX_TIME_def MAX_SAFE_INTEGER_def floorKey_def)
qed

end
