(* ===== verification/DisclosureExample.thy ===== *)
theory DisclosureExample
  imports FloorRuns Progress
begin

section \<open>A disclosure, run from the empty server\<close>

text \<open>
  How an accepted mutation ends on the server's own database, and a concrete run: a participant
  registers a text, proposes a range of it, previews it and approves it.
\<close>

subsection \<open>Running a mutation\<close>

lemmas step_simps = bindC_def tryC_def liftC_def returnC_def readC_def portC_def unlessC_def failC_def

lemma runI: "c w = (Inr a, w1) \<Longrightarrow> f a w1 = x \<Longrightarrow> bindC c f w = x"
  by (simp add: bindC_def)

lemma prtLoad_node:
  "worldOk enc w \<Longrightarrow> m \<noteq> [] \<Longrightarrow> prtLoad (sqlitePorts enc clk uuid sha) m w = (Inr (numberRecords 1 (worldLog w m)), w)"
  by (rule live.load_answers)

text \<open>What stays of a world when a command ends: files, tick and the keys it did not use.\<close>

definition sameSurroundings :: "string \<Rightarrow> string \<Rightarrow> sqliteWorld \<Rightarrow> sqliteWorld \<Rightarrow> bool" where
  "sameSurroundings m k w w' \<longleftrightarrow>
     swFiles w' = swFiles w \<and> swTick w' = swTick w \<and>
     (\<forall>k'. keyUnused w m k' \<longrightarrow> k' \<noteq> k \<longrightarrow> keyUnused w' m k')"

lemma put_surroundings:
  assumes "prtPut (sqlitePorts enc clk uuid sha) sc p w = (out, w')"
  shows "swFiles w' = swFiles w \<and> swTick w' = swTick w \<and> keyUnused w' = keyUnused w"
proof -
  have "dbAppends (snd (sqlitePut sc p (swDatabase w))) = dbAppends (swDatabase w)"
  proof (cases "upsertProjection sc p (swDatabase w)")
    case (Inr db)
    then have "dbAppends db = dbAppends (swDatabase w)" by (auto simp: upsertProjection_Inr)
    with Inr show ?thesis by (simp add: sqlitePut_def)
  qed (simp add: sqlitePut_def)
  with assms show ?thesis
    by (auto simp: sqlitePorts_def keyUnused_def findAppend_def fun_eq_iff split: prod.splits)
qed

lemma refresh_surroundings:
  assumes "refreshProjection (sqlitePorts enc clk uuid sha) m p w = (r, w')"
  shows "swFiles w' = swFiles w \<and> swTick w' = swTick w \<and> keyUnused w' = keyUnused w"
proof -
  have load: "snd (loadState (sqlitePorts enc clk uuid sha) m w) = w"
    by (auto simp: loadState_def step_simps raiseC_def sqlitePorts_def split: sum.splits prod.splits)
  show ?thesis using assms load put_surroundings
    unfolding refreshProjection_def
    by (cases "loadState (sqlitePorts enc clk uuid sha) m w")
      (fastforce simp: bindC_def portC_def split: sum.splits prod.splits)
qed

lemma append_surroundings:
  assumes ok: "worldOk enc w" and ap: "prtAppend (sqlitePorts enc clk uuid sha) q w = (Inr (Appended records), w')"
    and k: "aprIdempotencyKey q = Some k"
  shows "sameSurroundings (aprMeetingId q) k w w'"
proof -
  have db: "sqliteAppend enc q (swDatabase w) = (Inr (Appended records), swDatabase w')"
    "swTick w' = swTick w" "swFiles w' = swFiles w"
    using ap by (auto simp: sqlitePorts_def split: prod.splits)
  then have "swDatabase w' = afterAppendOf enc q (swDatabase w)"
    using sqliteAppend_new[of enc "swDatabase w" q] ok by (auto simp: worldOk_def)
  with k db(2,3) show ?thesis
    by (auto simp: sameSurroundings_def keyUnused_def afterAppendOf_def findAppend_def findFirst_append newReceipt_def
        split: option.splits)
qed

lemma mutation_runs:
  assumes ok: "worldOk enc w" and key: "mutIdempotencyKey input \<noteq> []" "keyUnused w (mutMeetingId input) (mutIdempotencyKey input)"
    and m: "mutMeetingId input \<noteq> []" and at: "mutExpectedPosition input = int (length (worldLog w (mutMeetingId input)))"
    and len: "int (length (worldLog w (mutMeetingId input))) + int (length evs) \<le> MAX_SAFE_INTEGER"
    and keys: "\<And>ev k. ev \<in> set evs \<Longrightarrow> evIdempotencyKey ev = Some k \<Longrightarrow> k = mutIdempotencyKey input"
  shows "\<exists>r w'. appendMutation (sqlitePorts enc clk uuid sha) input f evs p w = (r, w') \<and>
    (\<forall>x. r \<noteq> Inl (Failed x)) \<and> (\<forall>a. r = Inr a \<longrightarrow> \<not> aprReplayed a) \<and> worldOk enc w' \<and>
    worldLog w' = (worldLog w)(mutMeetingId input := worldLog w (mutMeetingId input) @ evs) \<and>
    sameSurroundings (mutMeetingId input) (mutIdempotencyKey input) w w'"
proof -
  let ?d = "sqlitePorts enc clk uuid sha" and ?q = "node.mutationRequest input f evs" and ?m = "mutMeetingId input"
  obtain out w1 where ap: "prtAppend ?d ?q w = (out, w1)" by (cases "prtAppend ?d ?q w")
  have "fst (prtAppend ?d ?q w) = Inr (Appended (numberRecords (int (length (worldLog w ?m)) + 1) evs))"
    using live.append_answers[OF ok, of ?q "mutIdempotencyKey input"] key m at len by simp
  then have out: "out = Inr (Appended (numberRecords (int (length (worldLog w ?m)) + 1) evs))" using ap by simp
  obtain r w' where run: "appendMutation ?d input f evs p w = (r, w')"
    by (cases "appendMutation ?d input f evs p w")
  have "worldOk enc w1" "worldLog w1 = (worldLog w)(?m := worldLog w ?m @ evs)"
    using node.append_new[OF ok ap[unfolded out]] node.append_ok[OF ok, of ?q clk uuid sha] ap keys by auto
  moreover have cont: "bindC (refreshProjection ?d ?m p)
      (\<lambda>_. returnC \<lparr>aprReplayed = False, aprRecords = numberRecords (int (length (worldLog w ?m)) + 1) evs\<rparr>) w1 = (r, w')"
    using run ap out by (simp add: appendMutation_def bindC_def portC_def node.mutationRequest_def)
  moreover note after = node.afterAppend_cases[OF calculation(1) cont]
  have "swFiles w' = swFiles w1 \<and> swTick w' = swTick w1 \<and> keyUnused w' = keyUnused w1"
    using cont refresh_surroundings[of enc clk uuid sha ?m p w1]
    by (cases "refreshProjection ?d ?m p w1") (fastforce simp: bindC_def returnC_def split: sum.splits)
  with append_surroundings[OF ok ap[unfolded out], of "mutIdempotencyKey input"]
  have "sameSurroundings ?m (mutIdempotencyKey input) w w'" by (simp add: sameSurroundings_def)
  ultimately show ?thesis using run after by auto
qed

text \<open>The end of a disclosure command: the mutation, then an answer that leaves the world alone.\<close>

definition appendedTo ::
  "(domainEvent \<Rightarrow> string) \<Rightarrow> string \<Rightarrow> string \<Rightarrow> domainEvent list \<Rightarrow> sqliteWorld \<Rightarrow> sqliteWorld \<Rightarrow> bool" where
  "appendedTo enc m k evs w w' \<longleftrightarrow>
     worldOk enc w' \<and> worldLog w' = (worldLog w)(m := worldLog w m @ evs) \<and> sameSurroundings m k w w'"

lemma command_ends:
  assumes "worldOk enc w" "mutIdempotencyKey input \<noteq> []" "keyUnused w (mutMeetingId input) (mutIdempotencyKey input)"
    and "mutMeetingId input \<noteq> []" "mutExpectedPosition input = int (length (worldLog w (mutMeetingId input)))"
    and "int (length (worldLog w (mutMeetingId input))) + int (length evs) \<le> MAX_SAFE_INTEGER"
    and "\<And>ev k. ev \<in> set evs \<Longrightarrow> evIdempotencyKey ev = Some k \<Longrightarrow> k = mutIdempotencyKey input"
    and cont: "\<And>a w. \<not> aprReplayed a \<Longrightarrow> snd (cont a w) = w"
  shows "\<exists>r w'. bindC (appendMutation (sqlitePorts enc clk uuid sha) input f evs p) cont w = (r, w') \<and>
      appendedTo enc (mutMeetingId input) (mutIdempotencyKey input) evs w w'"
    and "\<exists>r w'. bindC (onFailureC cleanup (appendMutation (sqlitePorts enc clk uuid sha) input f evs p)) cont w = (r, w') \<and>
      appendedTo enc (mutMeetingId input) (mutIdempotencyKey input) evs w w'"
proof -
  obtain r w1 where run: "appendMutation (sqlitePorts enc clk uuid sha) input f evs p w = (r, w1)"
    and r: "\<And>x. r \<noteq> Inl (Failed x)" "\<And>a. r = Inr a \<Longrightarrow> \<not> aprReplayed a"
    and w1: "appendedTo enc (mutMeetingId input) (mutIdempotencyKey input) evs w w1"
    using mutation_runs[where enc = enc and clk = clk and uuid = uuid and sha = sha and f = f and p = p,
        OF assms(1-6)] assms(7) unfolding appendedTo_def by blast
  have "onFailureC cleanup (appendMutation (sqlitePorts enc clk uuid sha) input f evs p) w = (r, w1)"
    using run r(1) by (auto simp: onFailureC_def split: sum.splits abort.splits)
  moreover have "\<exists>r' w'. bindC c cont w = (r', w') \<and>
      appendedTo enc (mutMeetingId input) (mutIdempotencyKey input) evs w w'" if "c w = (r, w1)" for c
  proof (cases r)
    case (Inl e)
    with that w1 show ?thesis by (simp add: bindC_def)
  next
    case (Inr a)
    with cont[OF r(2)[OF Inr], of w1] that w1 show ?thesis
      by (cases "cont a w1") (simp add: bindC_def)
  qed
  ultimately show "\<exists>r w'. bindC (appendMutation (sqlitePorts enc clk uuid sha) input f evs p) cont w = (r, w') \<and>
      appendedTo enc (mutMeetingId input) (mutIdempotencyKey input) evs w w'"
    and "\<exists>r w'. bindC (onFailureC cleanup (appendMutation (sqlitePorts enc clk uuid sha) input f evs p)) cont w = (r, w') \<and>
      appendedTo enc (mutMeetingId input) (mutIdempotencyKey input) evs w w'"
    using run by blast+
qed

lemma answerWith_world: "snd (answerWith a select message view w) = w"
  by (auto simp: answerWith_def step_simps raiseC_def split: sum.splits option.splits)

lemma approvalAnswer_world: "snd (approvalAnswer a w) = w"
  by (auto simp: approvalAnswer_def step_simps raiseC_def split: sum.splits option.splits prod.splits)

subsection \<open>A concrete disclosure\<close>

text \<open>Identifiers that count: the uuid of a tick is one character.\<close>

definition countedUuid :: "nat \<Rightarrow> string" where
  "countedUuid n = [''0123456789abcdefghijklmnopqrstuvwxyz'' ! n]"

abbreviation runPorts :: "sqliteWorld ports" where
  "runPorts \<equiv> sqlitePorts (\<lambda>_. ''e'') (\<lambda>_. 0) countedUuid (\<lambda>_. ''h'')"

abbreviation runSharing :: "sqliteWorld disclosurePorts" where
  "runSharing \<equiv> nodeDisclosures (\<lambda>_. ''e'') (\<lambda>_. 0) countedUuid (\<lambda>_. ''h'') ''/d'' None"

definition exampleOwner :: userContext where
  "exampleOwner = \<lparr>uctCapabilities = [ArtifactCreateOwn, DisclosureProposeOwn, DisclosureApproveOwn],
     uctMeetingId = ''m1'', uctParticipantId = ''p1'', uctRole = PlainParticipantRole,
     uctSessionId = ''s1'', uctUserId = ''u1''\<rparr>"

text \<open>A world at a tick, with the same database and files.\<close>

abbreviation atTick :: "nat \<Rightarrow> sqliteWorld \<Rightarrow> sqliteWorld" where
  "atTick n w \<equiv> w\<lparr>swTick := n\<rparr>"

lemma keyUnused_irrelevant [simp]:
  "keyUnused (w\<lparr>swTick := n\<rparr>) = keyUnused w" "keyUnused (w\<lparr>swFiles := fs\<rparr>) = keyUnused w"
  by (simp_all add: keyUnused_def fun_eq_iff)

definition plainInput :: "'x mutationInput_scheme \<Rightarrow> bool" where
  "plainInput input \<longleftrightarrow>
     mutCorrelationId input = None \<and> mutMeetingId input = ''m1'' \<and>
     idempotencyKey (mutIdempotencyKey input) = Inr (mutIdempotencyKey input) \<and>
     meetingPosition (mutExpectedPosition input) = Inr (mutExpectedPosition input) \<and>
     meetingPosition (mutExpectedPosition input + 1) = Inr (mutExpectedPosition input + 1)"

definition ownersEvent :: "'x mutationInput_scheme \<Rightarrow> string \<Rightarrow> string \<Rightarrow> domainEventPayload \<Rightarrow> domainEvent" where
  "ownersEvent input i correlation payload =
     \<lparr>evEventId = ''event_'' @ i, evSchemaVersion = 1, evMeetingId = ''m1'',
      evPosition = mutExpectedPosition input + 1, evActor = ParticipantActor ''p1'',
      evOccurredAt = isoString 0, evCorrelationId = ''correlation_'' @ correlation, evCausationId = None,
      evIdempotencyKey = Some (mutIdempotencyKey input), evScope = PrivateScope ''p1'', evPayload = payload\<rparr>"

lemma run_steps:
  "prtNext runPorts ns (atTick n w) = (ns @ ''_'' @ countedUuid n, atTick (Suc n) w)"
  "clockNow runPorts (atTick n w) = (Inr (isoString 0), atTick (Suc n) w)"
  "hashValue runPorts v w = (Inr ''h'', w)"
  "fingerprintC runPorts input user name entries w = (Inr ''h'', w)"
proof -
  show hash: "hashValue runPorts v w = (Inr ''h'', w)" for v
    by (simp add: hashValue_def step_simps raiseC_def sqlitePorts_def hasWhitespace_def) code_simp
  show "fingerprintC runPorts input user name entries w = (Inr ''h'', w)"
    unfolding fingerprintC_def by (rule hash)
qed (simp_all add: sqlitePorts_def cryptographicNext_def systemNow_def clockNow_def step_simps)

text \<open>Identifiers that the ports give are valid.\<close>

lemma counted_ids:
  assumes "n < 36"
  shows "eventId (''event_'' @ countedUuid n) = Inr (''event_'' @ countedUuid n)"
    and "correlationId (''correlation_'' @ countedUuid n) = Inr (''correlation_'' @ countedUuid n)"
proof -
  have "\<forall>n \<in> set (upt 0 36). eventId (''event_'' @ countedUuid n) = Inr (''event_'' @ countedUuid n) \<and>
    correlationId (''correlation_'' @ countedUuid n) = Inr (''correlation_'' @ countedUuid n)"
    by code_simp
  then show "eventId (''event_'' @ countedUuid n) = Inr (''event_'' @ countedUuid n)"
    and "correlationId (''correlation_'' @ countedUuid n) = Inr (''correlation_'' @ countedUuid n)"
    using assms by simp_all
qed

lemma run_commandFields:
  assumes "plainInput input"
  shows "commandFields runPorts input (atTick n w) =
      (Inr (isoString 0, mutExpectedPosition input, mutIdempotencyKey input), atTick (Suc n) w)"
  using assms run_steps(2) by (simp add: plainInput_def commandFields_def step_simps)

lemma run_fields:
  assumes "plainInput input" "n < 36"
  shows "nextEventId runPorts (atTick n w) = (Inr (''event_'' @ countedUuid n), atTick (Suc n) w)"
    and "commandCorrelationId runPorts input (atTick n w) = (Inr (''correlation_'' @ countedUuid n), atTick (Suc n) w)"
    and "privateCommandEvent runPorts exampleOwner input (''correlation_'' @ c) (isoString 0) (mutExpectedPosition input)
      (mutIdempotencyKey input) (Inr payload) (atTick n w) =
        (Inr (ownersEvent input (countedUuid n) c payload), atTick (Suc n) w)"
    and "ownerEvent exampleOwner input (''event_'' @ i) (''correlation_'' @ c) (isoString 0) (mutExpectedPosition input)
      (mutIdempotencyKey input) (Inr payload) = Inr (ownersEvent input i c payload)"
  using assms(1) run_steps(1)[of "''correlation''"] run_steps(1)[of "''event''"] counted_ids[OF assms(2)]
  by (simp_all add: plainInput_def commandCorrelationId_def privateCommandEvent_def ownerEvent_def
      participantActor_def exampleOwner_def ownersEvent_def step_simps nextEventId_def)

subsubsection \<open>Steps of a command that succeed\<close>

lemma runsI: "c w = (Inr a, w1) \<Longrightarrow> \<exists>r w'. f a w1 = (r, w') \<and> P w' \<Longrightarrow> \<exists>r w'. bindC c f w = (r, w') \<and> P w'"
  by (simp add: bindC_def)

lemma lift_runs: "r = Inr a \<Longrightarrow> liftC r w = (Inr a, w)"
  by (simp add: liftC_def returnC_def)

lemma run_mutation_auth:
  assumes "plainInput input" "cap \<in> set (uctCapabilities exampleOwner)"
  shows "authorizeMutation exampleOwner input cap w = (Inr (), w)"
  using assms by (auto simp: authorizeMutation_def step_simps authorize_Authorized exampleOwner_def plainInput_def)

text \<open>What a run knows of its world: the log of the meeting, the files and the keys used so far.\<close>

definition stands :: "domainEvent list \<Rightarrow> files \<Rightarrow> string set \<Rightarrow> nat \<Rightarrow> sqliteWorld \<Rightarrow> bool" where
  "stands log fs keys n w \<longleftrightarrow> worldOk (\<lambda>_. ''e'') w \<and> worldLog w ''m1'' = log \<and> swFiles w = fs \<and> swTick w = n \<and>
     (\<forall>k. k \<notin> keys \<longrightarrow> keyUnused w ''m1'' k)"

lemma stands_atTick: "stands log fs keys n w \<Longrightarrow> stands log fs keys n' (atTick n' w)"
  by (simp add: stands_def)

lemma stands_tick: "stands log fs keys n w \<Longrightarrow> w = atTick n w"
  by (simp add: stands_def)

lemma stands_appended:
  assumes "stands log fs keys n w" "appendedTo (\<lambda>_. ''e'') ''m1'' k evs w w'"
  shows "stands (log @ evs) fs (insert k keys) n w'"
  using assms by (auto simp: stands_def appendedTo_def sameSurroundings_def)

lemma stands_start: "stands [] fs {} n (atTick n (emptyWorld\<lparr>swFiles := fs\<rparr>))"
  by (auto simp: stands_def keyUnused_def findAppend_def) (simp_all add: emptyWorld_def emptyDatabase_def)

lemma command_stands:
  assumes "stands log fs keys n w" "plainInput input" "mutIdempotencyKey input = k" "k \<noteq> []" "k \<notin> keys"
    and "mutExpectedPosition input = int (length log)" "int (length log) + int (length evs) \<le> MAX_SAFE_INTEGER"
    and "\<And>ev k'. ev \<in> set evs \<Longrightarrow> evIdempotencyKey ev = Some k' \<Longrightarrow> k' = k"
    and "\<And>a w. \<not> aprReplayed a \<Longrightarrow> snd (cont a w) = w"
  shows "\<exists>r w'. bindC (appendMutation runPorts input f evs p) cont w = (r, w') \<and>
      stands (log @ evs) fs (insert k keys) n w'"
    and "\<exists>r w'. bindC (onFailureC cleanup (appendMutation runPorts input f evs p)) cont w = (r, w') \<and>
      stands (log @ evs) fs (insert k keys) n w'"
proof -
  have *: "worldOk (\<lambda>_. ''e'') w" "mutIdempotencyKey input \<noteq> []" "mutMeetingId input = ''m1''"
    "keyUnused w (mutMeetingId input) (mutIdempotencyKey input)" "mutMeetingId input \<noteq> []"
    "mutExpectedPosition input = int (length (worldLog w (mutMeetingId input)))"
    "int (length (worldLog w (mutMeetingId input))) + int (length evs) \<le> MAX_SAFE_INTEGER"
    "\<And>ev k. ev \<in> set evs \<Longrightarrow> evIdempotencyKey ev = Some k \<Longrightarrow> k = mutIdempotencyKey input"
    using assms by (auto simp: stands_def plainInput_def)
  have ends: "\<exists>r w'. bindC (appendMutation runPorts input f evs p) cont w = (r, w') \<and>
      appendedTo (\<lambda>_. ''e'') (mutMeetingId input) (mutIdempotencyKey input) evs w w'"
    "\<exists>r w'. bindC (onFailureC cleanup (appendMutation runPorts input f evs p)) cont w = (r, w') \<and>
      appendedTo (\<lambda>_. ''e'') (mutMeetingId input) (mutIdempotencyKey input) evs w w'"
    by (rule command_ends(1); fact * assms(9)) (rule command_ends(2); fact * assms(9))
  have step: "appendedTo (\<lambda>_. ''e'') (mutMeetingId input) (mutIdempotencyKey input) evs w w' \<Longrightarrow>
      stands (log @ evs) fs (insert k keys) n w'" for w'
    using stands_appended[OF assms(1), of k evs w'] *(3) assms(3) by simp
  show "\<exists>r w'. bindC (appendMutation runPorts input f evs p) cont w = (r, w') \<and>
      stands (log @ evs) fs (insert k keys) n w'"
    using ends(1) step by blast
  show "\<exists>r w'. bindC (onFailureC cleanup (appendMutation runPorts input f evs p)) cont w = (r, w') \<and>
      stands (log @ evs) fs (insert k keys) n w'"
    using ends(2) step by blast
qed

subsubsection \<open>Registering the text\<close>

definition exampleRegister :: registerSourceInput where
  "exampleRegister = \<lparr>mutCorrelationId = None, mutExpectedPosition = 0, mutIdempotencyKey = ''k1'',
     mutMeetingId = ''m1'', rsiText = ''abc'', rsiTitle = ''t''\<rparr>"

definition exampleStored :: files where
  "exampleStored = Map.empty(''/d'' \<mapsto> DirectoryNode, ''/d/meetings'' \<mapsto> DirectoryNode,
     ''/d/meetings/m1'' \<mapsto> DirectoryNode, ''/d/meetings/m1/private'' \<mapsto> DirectoryNode,
     ''/d/meetings/m1/private/p1'' \<mapsto> DirectoryNode,
     ''/d/meetings/m1/private/p1/artifact_1'' \<mapsto> FileNode (textEncode ''abc''))"

definition exampleScope :: artifactScope where
  "exampleScope = \<lparr>ascArtifactId = ''artifact_1'', ascMeetingId = ''m1'',
     ascOwnerParticipantId = Some ''p1'', ascVisibility = Private\<rparr>"

definition exampleMetadata :: artifactMetadata where
  "exampleMetadata = \<lparr>amdScope = exampleScope, amdContentType = ''text/plain; charset=utf-8'',
     amdHash = ''h'', amdSize = 3, amdStorageReference = ''meetings/m1/private/p1/artifact_1''\<rparr>"

lemma exampleScope_valid: "validateScope exampleScope = Inr ()" "length (textEncode ''abc'') = 3"
  "joinWith ''/'' (scopeSegments exampleScope) = ''meetings/m1/private/p1''"
  by code_simp+

lemma example_segments: "scopeSegments exampleScope = [''meetings'', ''m1'', ''private'', ''p1'']"
  "ascArtifactId exampleScope = ''artifact_1''"
  by (simp_all add: scopeSegments_def exampleScope_def)

lemma example_put:
  "putArtifact ''/d'' ''2'' \<lparr>awrBytes = textEncode ''abc'', awrContentType = ''text/plain; charset=utf-8'',
     awrHash = ''h'', awrScope = exampleScope\<rparr> Map.empty = (Inr exampleMetadata, exampleStored)"
proof -
  let ?fs = "Map.empty(''/d'' \<mapsto> DirectoryNode, ''/d/meetings'' \<mapsto> DirectoryNode,
     ''/d/meetings/m1'' \<mapsto> DirectoryNode, ''/d/meetings/m1/private'' \<mapsto> DirectoryNode,
     ''/d/meetings/m1/private/p1'' \<mapsto> DirectoryNode) :: files"
  have "locate ''/d'' exampleScope True Map.empty =
      (Inr (Some (''/d/meetings/m1/private/p1'', ''meetings/m1/private/p1'')), ?fs)"
    using exampleScope_valid
    by (simp add: locate_def ensureRoot_def example_segments joinPath_def isWithinRoot_def Let_def)
  then show ?thesis using exampleScope_valid(2)
    by (simp add: putArtifact_def Let_def writeNew_def temporaryName_def joinPath_def isWithinRoot_def
        example_segments exampleMetadata_def exampleStored_def)
qed

lemma example_get: "getArtifact ''/d'' exampleScope exampleStored = (Inr (Some (textEncode ''abc'')), exampleStored)"
proof -
  have "locate ''/d'' exampleScope False exampleStored =
      (Inr (Some (''/d/meetings/m1/private/p1'', ''meetings/m1/private/p1'')), exampleStored)"
    using exampleScope_valid
    by (simp add: locate_def ensureRoot_def example_segments joinPath_def isWithinRoot_def Let_def exampleStored_def)
  then show ?thesis
    by (simp add: getArtifact_def example_segments readSafeFile_def joinPath_def, simp add: exampleStored_def)
qed

definition exampleSource :: sourceArtifact where
  "exampleSource = \<lparr>recId = ''artifact_1'', recMeetingId = ''m1'', recCreatedAt = isoString 0,
       recCreatedBy = ''p1'', recOrigin = HumanInput, recConfirmation = NotApplicable,
       recRevision = 1, recVisibility = Private, recOwner = Some ''p1'',
       artType = TextArtifact, artStorageReference = ''meetings/m1/private/p1/artifact_1'', artContentHash = ''h'',
       artContentType = None, artDerivedArtifactId = None, artDerivedContentHash = None,
       artDerivedSizeBytes = None, artDerivedStorageReference = None, artOriginalFilename = None,
       artSourceLocatorHash = None, artSizeBytes = 3, artProcessingState = Processed\<rparr>"

definition registeredText :: domainEvent where
  "registeredText = ownersEvent exampleRegister (countedUuid 4) (countedUuid 3) (ArtifactRegistered exampleSource)"

lemma plain_register: "plainInput exampleRegister"
  by (simp add: plainInput_def exampleRegister_def)

lemma example_source_built:
  "buildSourceArtifact exampleOwner exampleRegister ''artifact_1'' (isoString 0) ''h'' exampleMetadata = Inr exampleSource"
proof -
  have "contentHash ''h'' = Inr ''h''" "nonEmptyText ''meetings/m1/private/p1/artifact_1'' = Inr ''meetings/m1/private/p1/artifact_1''"
    "createSourceArtifact exampleSource = Inr exampleSource"
    by (code_simp, code_simp)
      (simp add: createSourceArtifact_def checked_Inr exampleSource_def assertCommonRecord_def assertRecordScope_def
        domainCheck_def ensure_def isSafeInteger_def MAX_SAFE_INTEGER_def MAX_ARTIFACT_BYTES_def)
  then show ?thesis
    by (simp add: buildSourceArtifact_def exampleOwner_def exampleRegister_def exampleMetadata_def exampleSource_def)
qed

lemma register_valid:
  "validateSource runPorts exampleRegister (atTick n w) = (Inr (''t'', isoString 0, 0, ''k1'', ''h''), atTick (Suc n) w)"
proof -
  have "nonEmptyText ''t'' = Inr ''t''" "exactText ''abc'' = Inr ''abc''" by code_simp+
  then show ?thesis using run_commandFields[OF plain_register, of n w]
    by (simp add: validateSource_def step_simps run_steps exampleRegister_def)
qed

lemma register_id: "artifactId ''artifact_1'' = Inr ''artifact_1''"
  by code_simp

lemma register_input:
  "mutExpectedPosition exampleRegister = 0" "mutIdempotencyKey exampleRegister = ''k1''"
  by (simp_all add: exampleRegister_def)

lemma register_put:
  "portC (aspPut (ddpArtifacts runSharing) \<lparr>awrBytes = textEncode (rsiText exampleRegister),
     awrContentType = ''text/plain; charset=utf-8'', awrHash = ''h'',
     awrScope = sourceScope exampleOwner exampleRegister ''artifact_1''\<rparr>) (atTick 2 emptyWorld) =
   (Inr exampleMetadata, atTick 3 (emptyWorld\<lparr>swFiles := exampleStored\<rparr>))"
proof -
  have "sourceScope exampleOwner exampleRegister ''artifact_1'' = exampleScope"
    by (simp add: sourceScope_def exampleOwner_def exampleRegister_def exampleScope_def)
  then show ?thesis using example_put
    by (simp add: portC_def nodeDisclosures_def nodeArtifacts_def exampleRegister_def emptyWorld_def countedUuid_def)
qed

lemma register_runs:
  "\<exists>r w'. registerPrivateTextSource runSharing exampleOwner exampleRegister emptyWorld = (r, w') \<and>
     stands [registeredText] exampleStored {''k1''} 5 w'"
proof -
  have idx: "bindC (readC (prtNext runPorts ''artifact'')) (\<lambda>i. liftC (artifactId i)) (atTick 1 w) =
      (Inr ''artifact_1'', atTick 2 w)" for w
    using register_id by (simp add: step_simps run_steps countedUuid_def)
  have start: "emptyWorld = atTick 0 emptyWorld" by (simp add: emptyWorld_def)
  show ?thesis
    unfolding registerPrivateTextSource_def nodeDisclosures_ports
    apply (subst start)
    apply (rule runsI, rule run_mutation_auth[OF plain_register], simp add: exampleOwner_def)
    apply (rule runsI, rule register_valid, simp only: prod.case One_nat_def[symmetric])
    apply (rule runsI, rule idx, rule runsI, rule register_put)
    apply (rule runsI, rule run_fields(2)[OF plain_register], simp)
    apply (rule runsI, rule lift_runs[OF example_source_built])
    apply (rule runsI, rule run_fields(3)[OF plain_register, unfolded register_input], simp)
    apply (rule runsI, rule run_steps(4))
    apply (simp only: Suc_numeral add_num_simps)
    apply (unfold registeredText_def, rule command_stands(2)[where log = "[]" and keys = "{}", simplified append.simps])
            apply (simp_all add: plain_register)
    apply (rule stands_start)
    apply (auto simp: exampleRegister_def registeredText_def ownersEvent_def MAX_SAFE_INTEGER_def step_simps raiseC_def
        split: sum.splits option.splits)
    done
qed
subsubsection \<open>Loading what was registered\<close>

lemma stands_loads:
  assumes "stands log fs keys n w" "normalizeRecords (numberRecords 1 log) = Inr log"
  shows "loadEvents runSharing ''m1'' w = (Inr log, w)"
  using assms prtLoad_node[of "\<lambda>_. ''e''" w "''m1''" "\<lambda>_. 0" countedUuid "\<lambda>_. ''h''"]
  by (simp add: loadEvents_def stands_def step_simps)

definition startsRegistered :: "domainEvent list \<Rightarrow> bool" where
  "startsRegistered log \<longleftrightarrow> hd log = registeredText \<and> log \<noteq> [] \<and> normalizeRecords (numberRecords 1 log) = Inr log \<and>
     \<not> list_ex (\<lambda>ev. isDemoResetCompleted (evPayload ev)) log"

lemma no_reset_active:
  "\<not> list_ex (\<lambda>ev. isDemoResetCompleted (evPayload ev)) log \<Longrightarrow> eventsAfterLatestDemoReset log = log"
  by (simp add: eventsAfterLatestDemoReset_def list_ex_iff takeWhile_eq_all_conv[THEN iffD2])

lemma source_loads:
  assumes st: "stands log exampleStored keys n w" and log: "startsRegistered log"
    and cap: "cap \<in> set (uctCapabilities exampleOwner)"
  shows "loadOwnedSource runSharing exampleOwner ''m1'' ''artifact_1'' cap w =
    (Inr \<lparr>owsArtifact = exampleSource, owsContentHash = ''h'', owsText = ''abc''\<rparr>, w)"
proof -
  obtain rest where l: "log = registeredText # rest" using log by (cases log) (auto simp: startsRegistered_def)
  have found: "findFirst (registeredAs ''artifact_1'') log = Some registeredText"
    "registeredSource registeredText = Some (''p1'', exampleSource)" "evMeetingId registeredText = ''m1''"
    unfolding l by (simp_all add: registeredText_def ownersEvent_def registeredAs_def registeredSource_def exampleSource_def)
  have get: "portC (aspGet (ddpArtifacts runSharing) exampleScope) w = (Inr (Some (textEncode ''abc'')), w)"
    using st example_get by (cases w) (simp add: stands_def portC_def nodeDisclosures_def nodeArtifacts_def)
  have auth: "authorizeOwner exampleOwner cap ''m1'' (Some ''p1'') w = (Inr (), w)"
    using cap by (auto simp: authorizeOwner_def step_simps authorize_Authorized exampleOwner_def)
  have "recVisibility exampleSource = Private" "recOwner exampleSource = Some ''p1''"
    "readableSource log ''p1'' exampleSource ''artifact_1'' = (Some ''artifact_1'', Some ''h'')"
    by (simp_all add: exampleSource_def readableSource_def)
  moreover have "loadEvents runSharing ''m1'' w = (Inr log, w)" "eventsAfterLatestDemoReset log = log"
    using stands_loads[OF st] log no_reset_active by (auto simp: startsRegistered_def)
  moreover have "textDecode (textEncode ''abc'') = Some ''abc''" by code_simp
  ultimately show ?thesis
    unfolding loadOwnedSource_def using found auth get
    by (simp add: step_simps exampleScope_def)
qed

subsubsection \<open>Proposing a range of it\<close>

definition exampleOutgoing :: disclosureOutgoingPayload where
  "exampleOutgoing = \<lparr>outExactSnippet = ''ab'', outSourceArtifactId = ''artifact_1'',
     outSourceRange = \<lparr>rangeStart = 0, rangeEnd = 2\<rparr>\<rparr>"

definition examplePropose :: proposeDisclosureInput where
  "examplePropose = \<lparr>mutCorrelationId = None, mutExpectedPosition = 1, mutIdempotencyKey = ''k2'',
     mutMeetingId = ''m1'', pdiExactSnippet = Some ''ab'', pdiSourceArtifactId = ''artifact_1'',
     pdiSourceRange = Some \<lparr>sriStart = 0, sriEnd = 2\<rparr>\<rparr>"

definition proposedRange :: domainEvent where
  "proposedRange = ownersEvent examplePropose (countedUuid 8) (countedUuid 7)
     (DisclosureProposed ''disclosure_6'' ''p1'' exampleOutgoing)"

lemma example_selected:
  "selectedPayload ''artifact_1'' ''abc'' \<lparr>sriStart = 0, sriEnd = 2\<rparr> (Some ''ab'') = Inr exampleOutgoing"
  by code_simp

lemma plain_propose: "plainInput examplePropose"
  by (simp add: plainInput_def examplePropose_def) code_simp

lemma propose_input:
  "mutExpectedPosition examplePropose = 1" "mutIdempotencyKey examplePropose = ''k2''"
  "mutMeetingId examplePropose = ''m1''" "pdiSourceArtifactId examplePropose = ''artifact_1''"
  "pdiSourceRange examplePropose = Some \<lparr>sriStart = 0, sriEnd = 2\<rparr>" "pdiExactSnippet examplePropose = Some ''ab''"
  by (simp_all add: examplePropose_def)

lemma sharing_proposer [simp]: "ddpProposer runSharing = None"
  by (simp add: nodeDisclosures_def)

lemma try_runs: "c w = (Inr a, w1) \<Longrightarrow> tryC h c w = (Inr a, w1)"
  by (simp add: tryC_def)

lemma select_runs: "r = Inr p \<Longrightarrow> selectC f r w = (Inr p, w)"
  by (simp add: selectC_def returnC_def)

lemma registered_starts: "startsRegistered [registeredText]"
  by (simp add: startsRegistered_def normalizeRecords_def normalizeRecord_def registeredText_def ownersEvent_def register_input
      isDemoResetCompleted_def)

lemma propose_runs:
  assumes st: "stands [registeredText] exampleStored {''k1''} 5 w"
  shows "\<exists>r w'. proposeDisclosure runSharing exampleOwner examplePropose w = (r, w') \<and>
     stands [registeredText, proposedRange] exampleStored {''k2'', ''k1''} 9 w'"
proof -
  have idx: "bindC (readC (prtNext runPorts ''disclosure'')) (\<lambda>i. liftC (disclosureId i)) (atTick 6 w) =
      (Inr ''disclosure_6'', atTick 7 w)" for w
  proof -
    have "disclosureId ''disclosure_6'' = Inr ''disclosure_6''" by code_simp
    then show ?thesis by (simp add: step_simps run_steps countedUuid_def)
  qed
  have payload: "bindE (participantId (uctParticipantId exampleOwner)) (\<lambda>p. Inr (DisclosureProposed i p out)) =
      Inr (DisclosureProposed i ''p1'' out)" for i out
    by (simp add: exampleOwner_def)
  show ?thesis
    unfolding proposeDisclosure_def nodeDisclosures_ports propose_input
    apply (rule runsI, rule run_mutation_auth[OF plain_propose], simp add: exampleOwner_def)
    apply (rule runsI, rule source_loads[OF st registered_starts], simp add: exampleOwner_def)
    apply (simp only: sharing_proposer proposeRange_def option.case propose_input ownedSource.simps)
    apply (rule runsI, rule select_runs, rule example_selected)
    apply (subst stands_tick[OF st])
    apply (unfold appendProposal_def nodeDisclosures_ports payload)
    apply (rule runsI, rule try_runs, rule run_commandFields[OF plain_propose])
    apply (simp only: prod.case propose_input Suc_numeral add_num_simps)
    apply (rule runsI, rule idx, rule runsI, rule run_fields(2)[OF plain_propose], simp)
    apply (rule runsI, rule run_fields(3)[OF plain_propose, unfolded propose_input], simp)
    apply (rule runsI, rule run_steps(3), rule runsI, rule run_steps(4))
    apply (simp only: Suc_numeral add_num_simps proposedRange_def[symmetric])
    apply (rule command_stands(1)[OF stands_atTick[OF st] plain_propose, simplified append.simps])
         apply (simp_all add: propose_input MAX_SAFE_INTEGER_def)
    apply (auto simp: proposedRange_def ownersEvent_def propose_input step_simps raiseC_def
        split: sum.splits option.splits)
    done
qed

subsubsection \<open>Previewing and approving it\<close>

definition examplePreview :: previewDisclosureInput where
  "examplePreview = \<lparr>mutCorrelationId = None, mutExpectedPosition = 2, mutIdempotencyKey = ''k3'',
     mutMeetingId = ''m1'', pviCandidateId = ''disclosure_6'', pviExactSnippet = ''ab'',
     pviSourceRange = \<lparr>sriStart = 0, sriEnd = 2\<rparr>\<rparr>"

definition previewedRange :: domainEvent where
  "previewedRange = ownersEvent examplePreview (countedUuid 11) (countedUuid 10)
     (DisclosurePreviewed ''disclosure_6'' exampleOutgoing ''h'')"

definition exampleApprove :: approveDisclosureInput where
  "exampleApprove = \<lparr>mutCorrelationId = None, mutExpectedPosition = 3, mutIdempotencyKey = ''k4'',
     mutMeetingId = ''m1'', adiCandidateId = ''disclosure_6'', adiPreviewHash = ''h''\<rparr>"

lemma plain_preview: "plainInput examplePreview"
  by (simp add: plainInput_def examplePreview_def) code_simp

lemma plain_approve: "plainInput exampleApprove"
  by (simp add: plainInput_def exampleApprove_def) code_simp

lemma preview_input:
  "mutExpectedPosition examplePreview = 2" "mutIdempotencyKey examplePreview = ''k3''"
  "mutMeetingId examplePreview = ''m1''" "pviCandidateId examplePreview = ''disclosure_6''"
  "pviSourceRange examplePreview = \<lparr>sriStart = 0, sriEnd = 2\<rparr>" "pviExactSnippet examplePreview = ''ab''"
  by (simp_all add: examplePreview_def)

lemma approve_input:
  "mutExpectedPosition exampleApprove = 3" "mutIdempotencyKey exampleApprove = ''k4''"
  "mutMeetingId exampleApprove = ''m1''" "adiCandidateId exampleApprove = ''disclosure_6''"
  "adiPreviewHash exampleApprove = ''h''"
  by (simp_all add: exampleApprove_def)

lemma example_positions: "meetingPosition 2 = Inr 2" "meetingPosition 3 = Inr 3" "meetingPosition 4 = Inr 4"
  by code_simp+

lemma proposed_starts: "startsRegistered [registeredText, proposedRange]"
  by (simp add: startsRegistered_def normalizeRecords_def normalizeRecord_def registeredText_def ownersEvent_def register_input
      proposedRange_def propose_input isDemoResetCompleted_def example_positions)

lemma previewed_starts: "startsRegistered [registeredText, proposedRange, previewedRange]"
  by (simp add: startsRegistered_def normalizeRecords_def normalizeRecord_def registeredText_def ownersEvent_def register_input
      proposedRange_def propose_input previewedRange_def preview_input isDemoResetCompleted_def example_positions)

definition openCandidate :: candidateSnapshot where
  "openCandidate = \<lparr>csnEvents = [proposedRange], csnOutgoingPayload = exampleOutgoing, csnOwner = Some ''p1'',
     csnPreviewHash = None, csnEvidenceId = None, csnState = DspProposed\<rparr>"

definition previewedCandidate :: candidateSnapshot where
  "previewedCandidate = \<lparr>csnEvents = [proposedRange, previewedRange], csnOutgoingPayload = exampleOutgoing,
     csnOwner = Some ''p1'', csnPreviewHash = Some ''h'', csnEvidenceId = None, csnState = DspPreviewed\<rparr>"

lemma example_candidates:
  "candidateFrom [registeredText, proposedRange] ''disclosure_6'' = Some openCandidate"
  "candidateFrom [registeredText, proposedRange, previewedRange] ''disclosure_6'' = Some previewedCandidate"
  by (simp_all add: candidateFrom_def candidateStep_def eventOwner_def registeredText_def proposedRange_def
      previewedRange_def ownersEvent_def openCandidate_def previewedCandidate_def)

lemma candidate_loads:
  assumes st: "stands log fs keys n w" "startsRegistered log" and c: "candidateFrom log i = Some c"
    and "csnOwner c = Some ''p1''" "allowed c" "cap \<in> set (uctCapabilities exampleOwner)" "mutMeetingId input = ''m1''"
  shows "requireCandidate runSharing exampleOwner input i cap allowed w = (Inr c, w)"
proof -
  have "loadEvents runSharing ''m1'' w = (Inr log, w)" "eventsAfterLatestDemoReset log = log"
    using stands_loads[OF st(1)] st(2) no_reset_active by (auto simp: startsRegistered_def)
  moreover have "authorizeOwner exampleOwner cap ''m1'' (Some ''p1'') w = (Inr (), w)"
    using assms(6) by (auto simp: authorizeOwner_def step_simps authorize_Authorized exampleOwner_def)
  ultimately show ?thesis
    using c assms(4,5,7) by (simp add: requireCandidate_def loadCandidate_def step_simps)
qed

lemma preview_runs:
  assumes st: "stands [registeredText, proposedRange] exampleStored {''k2'', ''k1''} 9 w"
  shows "\<exists>r w'. previewDisclosure runSharing exampleOwner examplePreview w = (r, w') \<and>
     stands [registeredText, proposedRange, previewedRange] exampleStored {''k3'', ''k2'', ''k1''} 12 w'"
proof -
  have payload: "bindE (disclosureId ''disclosure_6'') (\<lambda>i. bindE (previewHash ''h'') (\<lambda>h. Inr (DisclosurePreviewed i out h))) =
      Inr (DisclosurePreviewed ''disclosure_6'' out ''h'')" for out
  proof -
    have "disclosureId ''disclosure_6'' = Inr ''disclosure_6''" "previewHash ''h'' = Inr ''h''" by code_simp+
    then show ?thesis by simp
  qed
  have ids: "recId exampleSource = ''artifact_1''" "outSourceArtifactId (csnOutgoingPayload openCandidate) = ''artifact_1''"
    by (simp_all add: exampleSource_def openCandidate_def exampleOutgoing_def)
  have fields: "bindC (commandFields runPorts examplePreview) (\<lambda>(occurredAt, expected, key).
        bindC (hashValue runPorts v) (\<lambda>hash. returnC (occurredAt, expected, key, hash))) (atTick 9 w) =
      (Inr (isoString 0, 2, ''k3'', ''h''), atTick 10 w)" for v w
    using run_commandFields[OF plain_preview, of 9 w] by (simp add: step_simps run_steps preview_input)
  show ?thesis
    unfolding previewDisclosure_def nodeDisclosures_ports preview_input
    apply (rule runsI, rule run_mutation_auth[OF plain_preview], simp add: exampleOwner_def)
    apply (rule runsI, rule candidate_loads[OF st proposed_starts example_candidates(1)])
        apply (simp_all only: preview_input)
       apply (simp_all add: openCandidate_def stillOpen_def exampleOwner_def)[3]
    apply (simp only: ids)
    apply (rule runsI, rule source_loads[OF st proposed_starts], simp add: exampleOwner_def)
    apply (simp only: ownedSource.simps ids)
    apply (rule runsI, rule select_runs, rule example_selected)
    apply (subst stands_tick[OF st])
    apply (unfold appendPreview_def nodeDisclosures_ports preview_input)
    apply (rule runsI, rule try_runs, rule fields, simp only: prod.case payload)
    apply (rule runsI, rule run_fields(2)[OF plain_preview], simp)
    apply (rule runsI, rule run_fields(3)[OF plain_preview, unfolded preview_input], simp)
    apply (rule runsI, rule run_steps(4))
    apply (simp only: Suc_numeral add_num_simps previewedRange_def[symmetric])
    apply (rule command_stands(1)[OF stands_atTick[OF st] plain_preview, simplified append.simps])
         apply (simp_all add: preview_input MAX_SAFE_INTEGER_def answerWith_world)
    apply (simp add: previewedRange_def ownersEvent_def preview_input)
    done
qed

definition exampleEvidence :: evidence where
  "exampleEvidence = \<lparr>recId = ''evidence_'' @ countedUuid 15, recMeetingId = ''m1'', recCreatedAt = isoString 0,
     recCreatedBy = ''p1'', recOrigin = SourceArtifactOrigin, recConfirmation = Confirmed, recRevision = 1,
     recVisibility = Shared, recOwner = None, evdExactSnippet = ''ab'', evdSourceArtifactId = ''artifact_1'',
     evdSourceRange = \<lparr>rangeStart = 0, rangeEnd = 2\<rparr>,
     evdDisclosureAuditReferenceId = ''event_'' @ countedUuid 14\<rparr>"

definition approvedRange :: domainEvent where
  "approvedRange = ownersEvent exampleApprove (countedUuid 14) (countedUuid 13)
     (DisclosureApproved ''disclosure_6'' ''h'' (''evidence_'' @ countedUuid 15) (isoString 0))"

definition sharedRange :: domainEvent where
  "sharedRange = \<lparr>evEventId = ''event_'' @ countedUuid 16, evSchemaVersion = 1, evMeetingId = ''m1'',
     evPosition = 5, evActor = ParticipantActor ''p1'', evOccurredAt = isoString 0,
     evCorrelationId = ''correlation_'' @ countedUuid 13, evCausationId = Some (''event_'' @ countedUuid 14),
     evIdempotencyKey = None, evScope = SharedScope, evPayload = EvidenceShared exampleEvidence\<rparr>"

lemma evidence_ids:
  "evidenceId (''evidence_'' @ countedUuid 15) = Inr (''evidence_'' @ countedUuid 15)"
  "auditReferenceId (''event_'' @ countedUuid 14) = Inr (''event_'' @ countedUuid 14)"
  "causationId (''event_'' @ countedUuid 14) = Inr (''event_'' @ countedUuid 14)"
  "disclosureId ''disclosure_6'' = Inr ''disclosure_6''" "previewHash ''h'' = Inr ''h''"
  "meetingPosition 5 = Inr 5"
  by code_simp+

lemma evidence_builds:
  "buildEvidence exampleOwner exampleApprove (''evidence_'' @ countedUuid 15) (''event_'' @ countedUuid 14)
     (isoString 0) exampleOutgoing = Inr exampleEvidence"
proof -
  have "createEvidence exampleEvidence = Inr exampleEvidence"
    by (simp add: createEvidence_def checked_Inr exampleEvidence_def assertCommonRecord_def assertRecordScope_def
        domainCheck_def ensure_def)
  then show ?thesis using evidence_ids
    by (simp add: buildEvidence_def exampleOwner_def approve_input exampleEvidence_def exampleOutgoing_def)
qed

lemma approval_builds:
  "approvalEvents runPorts exampleOwner exampleApprove previewedCandidate exampleOutgoing (isoString 0) 3 ''k4'' ''h''
     (atTick 13 w) = (Inr [approvedRange, sharedRange], atTick 17 w)"
proof -
  have own: "ownerEvent exampleOwner exampleApprove (''event_'' @ i) (''correlation_'' @ c) (isoString 0) 3 ''k4''
      (bindE (disclosureId ''disclosure_6'') (\<lambda>i. bindE (previewHash ''h'') (\<lambda>h. Inr (DisclosureApproved i h e t)))) =
      Inr (ownersEvent exampleApprove i c (DisclosureApproved ''disclosure_6'' ''h'' e t))" for i c e t
    using run_fields(4)[OF plain_approve, of 0 i c "DisclosureApproved ''disclosure_6'' ''h'' e t"]
    by (simp add: evidence_ids approve_input)
  have shared: "evidenceEvent exampleOwner exampleApprove (''event_'' @ countedUuid 16) (''event_'' @ countedUuid 14)
      (''correlation_'' @ countedUuid 13) (isoString 0) 3 exampleEvidence = Inr sharedRange"
    using evidence_ids by (simp add: evidenceEvent_def participantActor_def exampleOwner_def approve_input sharedRange_def)
  have idx: "evidenceIdFor runPorts previewedCandidate (atTick 15 w) = (Inr (''evidence_'' @ countedUuid 15), atTick 16 w)"
    using evidence_ids by (simp add: evidenceIdFor_def previewedCandidate_def step_simps run_steps)
  show ?thesis
    unfolding approvalEvents_def approve_input
    apply (rule runI, rule run_fields(2)[OF plain_approve], simp)
    apply (rule runI, rule run_fields(1)[OF plain_approve], simp, simp only: Suc_numeral add_num_simps)
    apply (rule runI, rule idx, rule runI, rule lift_runs, rule evidence_builds)
    apply (rule runI, rule lift_runs, rule own, rule runI, rule run_fields(1)[OF plain_approve], simp)
    apply (rule runI, rule lift_runs, rule shared)
    apply (simp add: returnC_def approvedRange_def)
    done
qed

lemma approve_runs:
  assumes st: "stands [registeredText, proposedRange, previewedRange] exampleStored {''k3'', ''k2'', ''k1''} 12 w"
  shows "\<exists>r w'. approveDisclosure runSharing exampleOwner exampleApprove w = (r, w') \<and>
     stands [registeredText, proposedRange, previewedRange, approvedRange, sharedRange] exampleStored
       {''k4'', ''k3'', ''k2'', ''k1''} 17 w'"
proof -
  have ids: "recId exampleSource = ''artifact_1''" "outSourceArtifactId (csnOutgoingPayload previewedCandidate) = ''artifact_1''"
    "rangeInput (outSourceRange (csnOutgoingPayload previewedCandidate)) = \<lparr>sriStart = 0, sriEnd = 2\<rparr>"
    "outExactSnippet (csnOutgoingPayload previewedCandidate) = ''ab''"
    by (simp_all add: exampleSource_def previewedCandidate_def exampleOutgoing_def rangeInput_def)
  have valid: "revalidate runPorts exampleApprove previewedCandidate
      \<lparr>owsArtifact = exampleSource, owsContentHash = ''h'', owsText = ''abc''\<rparr> exampleOutgoing (atTick 12 w) =
      (Inr (isoString 0, 3, ''k4'', ''h''), atTick 13 w)" for w
    using run_commandFields[OF plain_approve, of 12 w]
    by (simp add: revalidate_def step_simps run_steps approve_input previewedCandidate_def)
  show ?thesis
    unfolding approveDisclosure_def nodeDisclosures_ports approve_input
    apply (rule runsI, rule run_mutation_auth[OF plain_approve], simp add: exampleOwner_def)
    apply (rule runsI, rule candidate_loads[OF st previewed_starts example_candidates(2)])
        apply (simp_all only: approve_input)
       apply (simp_all add: previewedCandidate_def approvable_def exampleOwner_def)[3]
    apply (simp only: ids)
    apply (rule runsI, rule source_loads[OF st previewed_starts], simp add: exampleOwner_def)
    apply (simp only: ownedSource.simps ids)
    apply (rule runsI, rule select_runs, rule example_selected)
    apply (subst stands_tick[OF st])
    apply (rule runsI, rule valid, simp only: prod.case)
    apply (rule runsI, rule approval_builds, rule runsI, rule run_steps(4))
    apply (rule command_stands(1)[OF stands_atTick[OF st] plain_approve, simplified append.simps])
         apply (simp_all add: approve_input MAX_SAFE_INTEGER_def approvalAnswer_world)
    apply (auto simp add: approvedRange_def sharedRange_def ownersEvent_def approve_input)
    done
qed

text \<open>So the server can reach a log with shared evidence.\<close>

abbreviation sharedLog :: "domainEvent list" where
  "sharedLog \<equiv> [registeredText, proposedRange, previewedRange, approvedRange, sharedRange]"

lemma disclosure_stands:
  "\<exists>w. reachable (\<lambda>_. ''e'') (\<lambda>_. 0) countedUuid (\<lambda>_. ''h'') w \<and>
     stands sharedLog exampleStored {''k4'', ''k3'', ''k2'', ''k1''} 17 w"
proof -
  have trimmed: "trim ''k1'' = ''k1''" "trim ''k2'' = ''k2''" "trim ''k3'' = ''k3''" "trim ''k4'' = ''k4''" by code_simp+
  obtain r1 w1 where 1: "registerPrivateTextSource runSharing exampleOwner exampleRegister emptyWorld = (r1, w1)"
    "stands [registeredText] exampleStored {''k1''} 5 w1" using register_runs by blast
  obtain r2 w2 where 2: "proposeDisclosure runSharing exampleOwner examplePropose w1 = (r2, w2)"
    "stands [registeredText, proposedRange] exampleStored {''k2'', ''k1''} 9 w2" using propose_runs[OF 1(2)] by blast
  obtain r3 w3 where 3: "previewDisclosure runSharing exampleOwner examplePreview w2 = (r3, w3)"
    "stands [registeredText, proposedRange, previewedRange] exampleStored {''k3'', ''k2'', ''k1''} 12 w3"
    using preview_runs[OF 2(2)] by blast
  obtain r4 w4 where 4: "approveDisclosure runSharing exampleOwner exampleApprove w3 = (r4, w4)"
    "stands sharedLog exampleStored {''k4'', ''k3'', ''k2'', ''k1''} 17 w4" using approve_runs[OF 3(2)] by blast
  have s1: "meetingStep (\<lambda>_. ''e'') (\<lambda>_. 0) countedUuid (\<lambda>_. ''h'') emptyWorld w1"
    by (rule step_register[OF _ 1(1)]) (simp add: register_input trimmed)
  have s2: "meetingStep (\<lambda>_. ''e'') (\<lambda>_. 0) countedUuid (\<lambda>_. ''h'') w1 w2"
    by (rule step_propose[OF _ 2(1)]) (simp add: propose_input trimmed)
  have s3: "meetingStep (\<lambda>_. ''e'') (\<lambda>_. 0) countedUuid (\<lambda>_. ''h'') w2 w3"
    by (rule step_preview[OF _ 3(1)]) (simp add: preview_input trimmed)
  have s4: "meetingStep (\<lambda>_. ''e'') (\<lambda>_. 0) countedUuid (\<lambda>_. ''h'') w3 w4"
    by (rule step_approve[OF _ 4(1)]) (simp add: approve_input trimmed)
  have "reachable (\<lambda>_. ''e'') (\<lambda>_. 0) countedUuid (\<lambda>_. ''h'') w4"
    by (rule reachable_step[OF reachable_step[OF reachable_step[OF reachable_step[OF reachable_empty s1] s2] s3] s4])
  with 4(2) show ?thesis by blast
qed

lemma disclosure_reached:
  "\<exists>w. reachable (\<lambda>_. ''e'') (\<lambda>_. 0) countedUuid (\<lambda>_. ''h'') w \<and> worldLog w ''m1'' = sharedLog"
  using disclosure_stands by (auto simp: stands_def)

end
