(* ===== verification/DisclosureRuns.thy ===== *)
theory DisclosureRuns
  imports DisclosureExample
begin

section \<open>Disclosures in the runs of the server\<close>

text \<open>
  What the invariant of the runs says of disclosures: shared evidence is an approved preview of the
  owner's own text, and an approved or rejected candidate is done. The concrete run at the end
  registers a text, proposes, previews and approves a disclosure of it.
\<close>

subsection \<open>What an approval has seen\<close>

lemma filter_split:
  "filter P xs = us @ x # vs \<Longrightarrow> \<exists>us' vs'. xs = us' @ x # vs' \<and> filter P vs' = vs"
proof (induction xs arbitrary: us)
  case (Cons a xs)
  show ?case
  proof (cases "P a")
    case True
    then show ?thesis
    proof (cases us)
      case Nil
      with True Cons.prems have "a = x" "filter P xs = vs" by auto
      then show ?thesis by (rule_tac exI[of _ "[]"], rule_tac exI[of _ xs]) auto
    next
      case (Cons u us1)
      with True Cons.prems Cons.IH[of us1] obtain us' vs' where "xs = us' @ x # vs'" "filter P vs' = vs" by auto
      then show ?thesis by (rule_tac exI[of _ "a # us'"], rule_tac exI[of _ vs']) auto
    qed
  next
    case False
    with Cons.prems Cons.IH[of us] obtain us' vs' where "xs = us' @ x # vs'" "filter P vs' = vs" by auto
    then show ?thesis by (rule_tac exI[of _ "a # us'"], rule_tac exI[of _ vs']) auto
  qed
qed simp

text \<open>The latest preview of a candidate by its owner: no later preview, approval or rejection.\<close>

definition latestPreview ::
  "domainEvent list \<Rightarrow> string \<Rightarrow> string \<Rightarrow> disclosureOutgoingPayload \<Rightarrow> string \<Rightarrow> bool" where
  "latestPreview log owner i out h \<longleftrightarrow>
     (\<exists>before pv later. active log = before @ pv # later \<and>
        evPayload pv = DisclosurePreviewed i out h \<and> evScope pv = PrivateScope owner \<and>
        (\<forall>ev \<in> set later. disclosureOf (evPayload ev) = Some i \<longrightarrow> evScope ev = PrivateScope owner \<longrightarrow>
           \<not> movesCandidate (evPayload ev)))"

lemma eventOwner_Some: "eventOwner ev = Some owner \<longleftrightarrow> evScope ev = PrivateScope owner"
  by (cases "evScope ev") (auto simp: eventOwner_def)

lemma previewed_latest:
  assumes "candidateFrom (active log) i = Some c" "csnOwner c = Some owner" "csnState c = DspPreviewed"
    and "csnPreviewHash c = Some h"
  shows "latestPreview log owner i (csnOutgoingPayload c) h"
  using assms(1)
proof (rule candidateFrom_Some)
  fix proposed q out
  let ?own = "\<lambda>ev. disclosureOf (evPayload ev) = Some i"
  assume own: "csnEvents c = filter ?own (active log)"
    and "candidateSeen (csnOwner c)
       \<lparr>csnEvents = csnEvents c, csnOutgoingPayload = out, csnOwner = csnOwner c, csnPreviewHash = None,
        csnEvidenceId = None, csnState = DspProposed\<rparr> (csnEvents c) c"
  then obtain us pv vs i' where s: "filter ?own (active log) = us @ pv # vs" "eventOwner pv = Some owner"
    "evPayload pv = DisclosurePreviewed i' (csnOutgoingPayload c) h"
    "\<forall>ev \<in> set vs. eventOwner ev = Some owner \<longrightarrow> \<not> movesCandidate (evPayload ev)"
    using assms(2-4) by (auto simp: candidateSeen_def previewedLast_def)
  from filter_split[OF s(1)] obtain us' vs' where split: "active log = us' @ pv # vs'" "filter ?own vs' = vs" by blast
  have "pv \<in> set (filter ?own (active log))" unfolding s(1) by simp
  with s(3) have "i' = i" by simp
  with s split show ?thesis
    unfolding latestPreview_def
    by (intro exI[of _ us'] exI[of _ pv] exI[of _ vs']) (auto simp: eventOwner_Some)
qed

text \<open>Shared evidence: what must have come before it.\<close>

definition publishedByOwner ::
  "(string \<Rightarrow> string) \<Rightarrow> domainEvent list \<Rightarrow> domainEvent \<Rightarrow> evidence \<Rightarrow> bool" where
  "publishedByOwner sha pre ev e \<longleftrightarrow>
     (\<exists>before ap owner i h t out a txt.
        pre = before @ [ap] \<and> evPayload ap = DisclosureApproved i h (recId e) t \<and>
        evScope ap = PrivateScope owner \<and> evActor ap = ParticipantActor owner \<and>
        evActor ev = ParticipantActor owner \<and> recCreatedBy e = owner \<and>
        evCausationId ev = Some (evEventId ap) \<and> evdDisclosureAuditReferenceId e = evEventId ap \<and>
        out = \<lparr>outExactSnippet = evdExactSnippet e, outSourceArtifactId = evdSourceArtifactId e,
               outSourceRange = evdSourceRange e\<rparr> \<and>
        latestPreview before owner i out h \<and> h = sha (previewFingerprintPayload out) \<and>
        ownsSource before owner (evdSourceArtifactId e) a (sha (hashedText a txt)) \<and> sliceOf txt out)"

lemma justified_published:
  assumes "disclosureJustified sha pre ev" "evPayload ev = EvidenceShared e"
  shows "publishedByOwner sha pre ev e"
proof -
  from assms obtain before ap owner i h t out where
    e: "pre = before @ [ap]" "evPayload ap = DisclosureApproved i h (recId e) t"
       "eventOwner ap = Some owner" "evActor ap = ParticipantActor owner"
       "evActor ev = ParticipantActor owner" "recCreatedBy e = owner"
       "evCausationId ev = Some (evEventId ap)" "evdDisclosureAuditReferenceId e = evEventId ap"
    and by_owner: "approvedBy sha before owner (evPayload ap) out"
    and same: "evdExactSnippet e = outExactSnippet out" "evdSourceArtifactId e = outSourceArtifactId out"
       "evdSourceRange e = outSourceRange out"
    by (auto simp: disclosureJustified_def)
  from by_owner e(2) obtain c a "txt" where
    c: "candidateFrom (active before) i = Some c" "csnOwner c = Some owner" "csnState c = DspPreviewed"
       "csnPreviewHash c = Some h" "csnOutgoingPayload c = out"
    and src: "h = sha (previewFingerprintPayload out)"
       "ownsSource before owner (outSourceArtifactId out) a (sha (hashedText a txt))" "sliceOf txt out"
    by (auto simp: approvedBy_def)
  let ?out = "\<lparr>outExactSnippet = evdExactSnippet e, outSourceArtifactId = evdSourceArtifactId e,
      outSourceRange = evdSourceRange e\<rparr>"
  have out: "out = ?out" using same by simp
  have "latestPreview before owner i ?out h" using previewed_latest[OF c(1-4)] c(5) out by simp
  then show ?thesis
    unfolding publishedByOwner_def using e src[unfolded out]
    by (rule_tac exI[of _ before], rule_tac exI[of _ ap], rule_tac exI[of _ owner], rule_tac exI[of _ i],
        rule_tac exI[of _ h], rule_tac exI[of _ t], rule_tac exI[of _ ?out], rule_tac exI[of _ a],
        rule_tac exI[of _ "txt"]) (simp add: eventOwner_Some)
qed

subsection \<open>Approved or rejected is final\<close>

definition closesCandidate :: "string \<Rightarrow> string \<Rightarrow> domainEvent \<Rightarrow> bool" where
  "closesCandidate owner i ev \<longleftrightarrow>
     evScope ev = PrivateScope owner \<and> disclosureOf (evPayload ev) = Some i \<and>
     (approvalOf (evPayload ev) \<noteq> None \<or> rejectionOf (evPayload ev) \<noteq> None)"

definition closedCandidate :: "domainEvent list \<Rightarrow> string \<Rightarrow> string \<Rightarrow> bool" where
  "closedCandidate evs owner i \<longleftrightarrow>
     (\<exists>c. candidateFrom evs i = Some c \<and> csnOwner c = Some owner \<and> csnState c \<in> {DspApproved, DspRejected})"

lemma closes_closed:
  assumes "disclosureJustified sha log ev" "closesCandidate owner i ev"
  shows "closedCandidate (active log @ [ev]) owner i"
proof (cases "evPayload ev")
  case (DisclosureApproved j h e t)
  with assms obtain c where "candidateFrom (active log) i = Some c" "csnOwner c = Some owner"
    by (auto simp: closesCandidate_def disclosureJustified_def approvedBy_def eventOwner_def)
  with candidateFrom_snoc[of "active log" i c ev] assms(2) DisclosureApproved show ?thesis
    by (auto simp: closedCandidate_def closesCandidate_def candidateStep_def eventOwner_def)
next
  case (DisclosureRejected j t why)
  with assms obtain c where "candidateFrom (active log) i = Some c" "csnOwner c = Some owner"
    by (auto simp: closesCandidate_def disclosureJustified_def eventOwner_def)
  with candidateFrom_snoc[of "active log" i c ev] assms(2) DisclosureRejected show ?thesis
    by (auto simp: closedCandidate_def closesCandidate_def candidateStep_def eventOwner_def)
qed (use assms(2) in \<open>auto simp: closesCandidate_def\<close>)

lemma justified_move_open:
  assumes "disclosureJustified sha log ev" "movesCandidate (evPayload ev)" "evScope ev = PrivateScope owner"
    and "disclosureOf (evPayload ev) = Some i"
  shows "\<not> closedCandidate (active log) owner i"
  using assms
  by (cases "evPayload ev")
    (auto simp: movesCandidate_def disclosureJustified_def approvedBy_def closedCandidate_def eventOwner_def)

lemma closed_stays:
  assumes "closedCandidate (active log) owner i" "disclosureJustified sha log ev"
    and "\<not> isDemoResetCompleted (evPayload ev)"
  shows "closedCandidate (active (log @ [ev])) owner i"
proof -
  from assms(1) obtain c where c: "candidateFrom (active log) i = Some c" "csnOwner c = Some owner"
    "csnState c \<in> {DspApproved, DspRejected}" by (auto simp: closedCandidate_def)
  have "candidateStep (csnOwner c) (c\<lparr>csnEvents := csnEvents c @ [ev]\<rparr>) ev = c\<lparr>csnEvents := csnEvents c @ [ev]\<rparr>"
    if "disclosureOf (evPayload ev) = Some i"
  proof (cases "eventOwner ev = Some owner \<and> movesCandidate (evPayload ev)")
    case True
    with justified_move_open[OF assms(2)] assms(1) that show ?thesis by (auto simp: eventOwner_Some)
  next
    case False
    then show ?thesis using c(2)
      by (cases "evPayload ev") (auto simp: candidateStep_def movesCandidate_def)
  qed
  with candidateFrom_snoc[OF c(1), of ev] c assms(3) show ?thesis
    by (auto simp: closedCandidate_def active_snoc)
qed

lemma lawful_disclosure:
  "lawfulAll sha m [] (pre @ ev # post) \<Longrightarrow> disclosureJustified sha pre ev \<and> lawfulAll sha m [] pre"
  using stepwise_split[of "lawful sha m" pre ev post] by (simp add: lawful_def)

lemma closed_until_reset:
  assumes "lawfulAll sha m [] (pre @ ev # mid)" "closesCandidate owner i ev"
    and "\<forall>x \<in> set mid. \<not> isDemoResetCompleted (evPayload x)"
  shows "closedCandidate (active (pre @ ev # mid)) owner i"
  using assms(1,3)
proof (induction mid rule: rev_induct)
  case Nil
  have "\<not> isDemoResetCompleted (evPayload ev)"
    using assms(2) by (cases "evPayload ev") (auto simp: closesCandidate_def isDemoResetCompleted_def)
  with closes_closed[of sha pre ev owner i] assms(2) lawful_disclosure[of sha m pre ev "[]"] Nil show ?case
    by (simp add: active_snoc)
next
  case (snoc x mid)
  have law: "disclosureJustified sha (pre @ ev # mid) x" "lawfulAll sha m [] (pre @ ev # mid)"
    using lawful_disclosure[of sha m "pre @ ev # mid" x "[]"] snoc.prems(1) by simp_all
  with snoc.IH snoc.prems(2) closed_stays[of "pre @ ev # mid" owner i sha x] show ?case by simp
qed

subsection \<open>What the runs of the server keep\<close>

lemma reachable_disclosure:
  assumes "reachable enc clk uuid sha w" "worldLog w m = pre @ ev # post"
  shows "disclosureJustified sha pre ev" "lawfulAll sha m [] (pre @ ev # post)"
  using reachable_log[OF assms(1), of m] lawful_disclosure[of sha m pre ev post] assms(2) by simp_all

text \<open>C30. Shared evidence is published by its owner alone. In every log the server can reach,
  evidence follows directly on the owner's own approval, which cites the latest preview of the
  candidate, with its hash over exactly the snippet, source and range that the evidence shows; the
  source is a private text registered by the same owner, and the snippet is that slice of it.\<close>

theorem evidence_published_by_owner:
  assumes "reachable enc clk uuid sha w" "worldLog w m = pre @ ev # post" "evPayload ev = EvidenceShared e"
  shows "publishedByOwner sha pre ev e"
  using justified_published[OF reachable_disclosure(1)[OF assms(1,2)] assms(3)] .

theorem evidence_published_by_owner_witness:
  "publishedByOwner (\<lambda>_. ''h'') [registeredText, proposedRange, previewedRange, approvedRange] sharedRange exampleEvidence"
proof -
  obtain w where "reachable (\<lambda>_. ''e'') (\<lambda>_. 0) countedUuid (\<lambda>_. ''h'') w" "worldLog w ''m1'' = sharedLog"
    using disclosure_reached by blast
  then show ?thesis
    using evidence_published_by_owner[where pre = "[registeredText, proposedRange, previewedRange, approvedRange]" and
        ev = sharedRange and post = "[]" and m = "''m1''"]
    by (simp add: sharedRange_def)
qed

text \<open>C32. An approved or rejected candidate is done. Until the next reset of the demo, no later
  event of its owner previews, approves or rejects it again.\<close>

theorem closed_candidate_stays_closed:
  assumes "reachable enc clk uuid sha w" "worldLog w m = pre @ ev # mid @ ev' # post"
    and "closesCandidate owner i ev" "\<forall>x \<in> set mid. \<not> isDemoResetCompleted (evPayload x)"
  shows "\<not> (evScope ev' = PrivateScope owner \<and> disclosureOf (evPayload ev') = Some i \<and> movesCandidate (evPayload ev'))"
proof
  assume moves: "evScope ev' = PrivateScope owner \<and> disclosureOf (evPayload ev') = Some i \<and> movesCandidate (evPayload ev')"
  have law: "disclosureJustified sha (pre @ ev # mid) ev'" "lawfulAll sha m [] (pre @ ev # mid)"
    using reachable_disclosure[OF assms(1), of m "pre @ ev # mid" ev' post]
      lawful_disclosure[of sha m "pre @ ev # mid" ev' post] assms(2) by simp_all
  from justified_move_open[OF law(1)] moves closed_until_reset[OF law(2) assms(3,4)]
  show False by blast
qed

theorem closed_candidate_stays_closed_witness:
  "closesCandidate ''p1'' ''disclosure_6'' approvedRange \<and>
   \<not> (evScope sharedRange = PrivateScope ''p1'' \<and> disclosureOf (evPayload sharedRange) = Some ''disclosure_6'' \<and>
      movesCandidate (evPayload sharedRange))"
proof -
  have "closesCandidate ''p1'' ''disclosure_6'' approvedRange"
    by (simp add: closesCandidate_def approvedRange_def ownersEvent_def)
  moreover obtain w where "reachable (\<lambda>_. ''e'') (\<lambda>_. 0) countedUuid (\<lambda>_. ''h'') w" "worldLog w ''m1'' = sharedLog"
    using disclosure_reached by blast
  ultimately show ?thesis
    using closed_candidate_stays_closed[where pre = "[registeredText, proposedRange, previewedRange]" and
        ev = approvedRange and mid = "[]" and ev' = sharedRange and post = "[]" and m = "''m1''"]
    by simp
qed

end
