(* ===== verification/ReviewExample.thy ===== *)
theory ReviewExample
  imports ReviewLogic Progress Examples
begin

section \<open>A review and its resolution, evaluated\<close>

text \<open>
  A concrete meeting with a committed Decision: its review is confirmed on a log where the Decision is at risk,
  and it is committed again on a log where the review is required. Both runs are evaluated step by step.
\<close>

subsection \<open>A meeting with a given log\<close>

definition logRequest :: "domainEvent list \<Rightarrow> domainEvent appendEventsRequest" where
  "logRequest evs = \<lparr>aprEvents = evs, aprExpectedPosition = Some 0, aprIdempotencyKey = Some ''k0'',
     aprMeetingId = ''m1'', aprPayloadFingerprint = Some ''f'', aprTrustFingerprint = Some True\<rparr>"

definition reviewPorts :: "sqliteWorld ports" where
  "reviewPorts = sqlitePorts (\<lambda>_. ''e'') (\<lambda>_. 0) natString (\<lambda>_. ''h'')"

definition loggedWorld :: "domainEvent list \<Rightarrow> nat \<Rightarrow> sqliteWorld" where
  "loggedWorld evs n = \<lparr>swDatabase = snd (sqliteAppend (\<lambda>_. ''e'') (logRequest evs) emptyDatabase), swTick = n,
     swFiles = Map.empty\<rparr>"

lemma loggedWorld_log:
  assumes "\<forall>ev \<in> set evs. evIdempotencyKey ev = None" "int (length evs) \<le> MAX_SAFE_INTEGER"
  shows "worldOk (\<lambda>_. ''e'') (loggedWorld evs n)" "worldLog (loggedWorld evs n) ''m1'' = evs"
    "k \<noteq> ''k0'' \<Longrightarrow> keyUnused (loggedWorld evs n) ''m1'' k"
proof -
  let ?enc = "\<lambda>_ :: domainEvent. ''e''"
  let ?w = "emptyWorld\<lparr>swDatabase := snd (sqliteAppend ?enc (logRequest evs) emptyDatabase)\<rparr>"
  have empty: "worldLog emptyWorld ''m1'' = []"
    by (simp add: worldLog_def emptyWorld_def emptyDatabase_def logOf_def)
  have fst: "fst (prtAppend reviewPorts (logRequest evs) emptyWorld) = Inr (Appended (numberRecords 1 evs))"
    using live.append_answers[OF worldOk_empty, of "logRequest evs" "''k0''"] assms(2) empty
    by (simp add: logRequest_def reviewPorts_def keyUnused_def emptyWorld_def emptyDatabase_def findAppend_def)
  then have run: "prtAppend (sqlitePorts ?enc (\<lambda>_. 0) natString (\<lambda>_. ''h'')) (logRequest evs) emptyWorld =
      (Inr (Appended (numberRecords 1 evs)), ?w)"
    by (auto simp: reviewPorts_def sqlitePorts_def emptyWorld_def split: prod.splits)
  have "worldOk ?enc (snd (prtAppend (sqlitePorts ?enc (\<lambda>_. 0) natString (\<lambda>_. ''h'')) (logRequest evs) emptyWorld))"
    by (rule node.append_ok[OF worldOk_empty]) (use assms(1) in \<open>simp add: logRequest_def\<close>)
  then have ok: "worldOk ?enc ?w" unfolding run by simp
  from node.append_new[OF worldOk_empty run] empty have log: "worldLog ?w ''m1'' = evs"
    by (simp add: logRequest_def)
  show "worldOk ?enc (loggedWorld evs n)" using ok by (simp add: worldOk_def loggedWorld_def)
  show "worldLog (loggedWorld evs n) ''m1'' = evs" using log by (simp add: worldLog_def loggedWorld_def)
  assume "k \<noteq> ''k0''"
  have "sqliteAppend ?enc (logRequest evs) emptyDatabase = (Inr (Appended (numberRecords 1 evs)), swDatabase ?w)"
    using fst by (auto simp: reviewPorts_def sqlitePorts_def emptyWorld_def split: prod.splits)
  from sqliteAppend_new[OF storeOk_empty this] \<open>k \<noteq> ''k0''\<close>
  show "keyUnused (loggedWorld evs n) ''m1'' k"
    by (simp add: keyUnused_def loggedWorld_def emptyWorld_def findAppend_None afterAppendOf_def emptyDatabase_def
        logRequest_def newReceipt_def list_ex_iff)
qed

text \<open>An append at the end of the log under a new key is written, and nothing after it changes the log.\<close>

lemma appendBatch_appends:
  fixes input :: "'x mutationInput_scheme"
  assumes w: "worldOk enc w" and m: "mutMeetingId input \<noteq> []" "mutIdempotencyKey input \<noteq> []"
    and unused: "keyUnused w (mutMeetingId input) (mutIdempotencyKey input)"
    and pos: "mutExpectedPosition input = int (length (worldLog w (mutMeetingId input)))"
    and len: "int (length (worldLog w (mutMeetingId input))) + int (length batch) \<le> MAX_SAFE_INTEGER"
    and key: "\<And>ev k. ev \<in> set batch \<Longrightarrow> evIdempotencyKey ev = Some k \<Longrightarrow> mutIdempotencyKey input = k"
  shows "worldLog (snd (appendBatch (sqlitePorts enc clk uuid sha) input f batch p message read w)) =
    (worldLog w)(mutMeetingId input := worldLog w (mutMeetingId input) @ batch)"
proof -
  let ?deps = "sqlitePorts enc clk uuid sha"
  let ?q = "node.mutationRequest input f batch"
  let ?m = "mutMeetingId input"
  obtain w1 where ap: "prtAppend ?deps ?q w =
      (Inr (Appended (numberRecords (int (length (worldLog w ?m)) + 1) batch)), w1)"
    using live.append_answers[OF w, of ?q "mutIdempotencyKey input"] m unused pos len
    by (metis node.mutationRequest_simps prod.collapse)
  have log: "worldLog w1 = (worldLog w)(?m := worldLog w ?m @ batch)"
    using node.append_new[OF w ap] by simp
  have "worldOk enc (snd (prtAppend ?deps ?q w))"
    by (rule node.append_ok[OF w]) (use key in \<open>auto simp: node.mutationRequest_def\<close>)
  then have ok: "worldOk enc w1" by (simp add: ap)
  obtain r2 w2 where am: "appendMutation ?deps input f batch p w = (r2, w2)" by (metis surj_pair)
  then have "bindC (refreshProjection ?deps ?m p)
      (\<lambda>_. returnC \<lparr>aprReplayed = False, aprRecords = numberRecords (int (length (worldLog w ?m)) + 1) batch\<rparr>) w1 = (r2, w2)"
    using ap by (simp add: appendMutation_def bindC_def portC_def node.mutationRequest_def)
  from node.afterAppend_cases[OF ok this] have "worldLog w2 = worldLog w1" by blast
  moreover have "snd (appendBatch ?deps input f batch p message read w) = w2"
    using am by (cases r2) (auto simp: appendBatch_def bindC_def liftC_def raiseC_def returnC_def split: sum.splits option.splits)
  ultimately show ?thesis using log by simp
qed

subsection \<open>A Decision at risk\<close>

definition reviewPremise :: premise where
  "reviewPremise = \<lparr>recId = ''q1'', recMeetingId = ''m1'', recCreatedAt = ''t'', recCreatedBy = ''p1'',
     recOrigin = HumanInput, recConfirmation = Confirmed, recRevision = 1, recVisibility = Shared,
     recOwner = None, preStatement = ''s'', preDependencyScope = [], preMonitorCondition = None\<rparr>"

definition reviewEvidence :: evidence where
  "reviewEvidence = \<lparr>recId = ''e1'', recMeetingId = ''m1'', recCreatedAt = ''t'', recCreatedBy = ''p1'',
     recOrigin = HumanInput, recConfirmation = Confirmed, recRevision = 1, recVisibility = Shared,
     recOwner = None, evdExactSnippet = ''s'', evdSourceArtifactId = ''b1'',
     evdSourceRange = \<lparr>rangeStart = 0, rangeEnd = 1\<rparr>, evdDisclosureAuditReferenceId = ''v''\<rparr>"

definition reviewExternal :: externalEvent where
  "reviewExternal = \<lparr>recId = ''x1'', recMeetingId = ''m1'', recCreatedAt = ''t'', recCreatedBy = ''system'',
     recOrigin = SystemOrigin, recConfirmation = NotApplicable, recRevision = 1, recVisibility = Shared,
     recOwner = None, extDescription = ''d'', extEventType = ''regulatory_change'', extMonitorRegistrationId = ''g1'',
     extPayloadHash = ''h'', extSchemaVersion = 1, extSource = ''s'', extSourceReference = ''s'',
     extJurisdiction = ''EU'', extEffectiveAt = ''t'', extReceivedAt = ''t'', extSignatureResult = ValidSignature\<rparr>"

definition reviewSuggestion :: invalidationSuggestion where
  "reviewSuggestion = \<lparr>ivsSuggestionId = ''s1'', ivsDecisionId = ''d1'', ivsActiveRevisionId = ''r1'',
     ivsExternalEventId = ''x1'', ivsAffectedPremiseIds = [''q1''], ivsAffectedActionIds = [''a1''],
     ivsEvidenceReferenceIds = [''x1''], ivsMetadata = \<lparr>aimModel = ''m'', aimPromptVersion = ''v'',
       aimInputReferenceIds = [], aimConfidence = IntNum 1, aimReason = ''r''\<rparr>, ivsGeneratedAt = ''t'',
     ivsOperation = ''o'', ivsOutputSchemaVersion = ''v''\<rparr>"

definition reviewBasis :: "domainEvent list" where
  "reviewBasis =
     [exampleEvent ''v1'' 1 SharedScope (InferenceConfirmed ''i1'' (ConfirmedPremise reviewPremise) ''p1''),
      exampleEvent ''v2'' 2 SharedScope (InferenceConfirmed ''i2'' (ConfirmedAction (exampleAction ''a1'' Planned)) ''p1''),
      exampleEvent ''v3'' 3 SharedScope (EvidenceShared reviewEvidence),
      exampleEvent ''v4'' 4 SharedScope (DecisionCommitted (exampleDecision COMMITTED) (exampleRevision 1 ''r1'' None)),
      exampleEvent ''v5'' 5 SharedScope (ExternalEventReceived reviewExternal)]"

definition atRiskLog :: "domainEvent list" where
  "atRiskLog = reviewBasis @
     [exampleEvent ''v6'' 6 SharedScope (AssumptionInvalidationSuggested reviewSuggestion),
      exampleEvent ''v7'' 7 SharedScope (DecisionMarkedAtRisk (exampleDecision AT_RISK) ''s1'' [''q1''] [''a1''])]"

definition atRiskProjection :: meetingProjection where
  "atRiskProjection = (case projectRecords ''m1'' (numberRecords 1 atRiskLog) of Inr p \<Rightarrow> p)"

lemma review_meeting [simp]: "meetingId ''m1'' = Inr ''m1''"
  by code_simp

lemma atRisk_records: "normalizeRecords (numberRecords 1 atRiskLog) = Inr atRiskLog"
  by (simp add: atRiskLog_def reviewBasis_def exampleEvent_def normalizeRecords_def normalizeRecord_def
      meetingPosition_def opaqueInteger_def isSafeInteger_def MAX_SAFE_INTEGER_def)

lemmas review_replay_simps = replayMeeting_def reduceMeetingProjection_def Let_def findDuplicate_def reduceScopes_def
  reduceSharedEvent_def reduceSharedPayload_def reduceDecision_def reduceSharedContent_def validateEntityScope_def
  recordEvent_def isDemoResetCompleted_def createEmptyMeetingProjection_def createEmptySharedMeetingProjection_def
  upsertById_def

lemma atRisk_projection:
  "projectRecords ''m1'' (numberRecords 1 atRiskLog) = Inr atRiskProjection \<and>
   shpDecisions (mprShared atRiskProjection) = [exampleDecision AT_RISK] \<and>
   shpDecisionRevisions (mprShared atRiskProjection) = [exampleRevision 1 ''r1'' None] \<and>
   shpPremises (mprShared atRiskProjection) = [reviewPremise] \<and>
   shpActions (mprShared atRiskProjection) = [exampleAction ''a1'' Planned] \<and>
   shpExternalEvents (mprShared atRiskProjection) = [reviewExternal]"
proof -
  have "\<exists>p. projectRecords ''m1'' (numberRecords 1 atRiskLog) = Inr p \<and>
     shpDecisions (mprShared p) = [exampleDecision AT_RISK] \<and>
     shpDecisionRevisions (mprShared p) = [exampleRevision 1 ''r1'' None] \<and>
     shpPremises (mprShared p) = [reviewPremise] \<and>
     shpActions (mprShared p) = [exampleAction ''a1'' Planned] \<and>
     shpExternalEvents (mprShared p) = [reviewExternal]"
    unfolding projectRecords_def atRisk_records
    by (simp add: atRiskLog_def reviewBasis_def exampleEvent_def review_replay_simps example_record_defs
        reviewPremise_def reviewEvidence_def reviewExternal_def)
  then show ?thesis by (auto simp: atRiskProjection_def)
qed

subsection \<open>The run of a confirmation\<close>

definition reviewFacilitator :: userContext where
  "reviewFacilitator = \<lparr>uctCapabilities = [DecisionReviewConfirm], uctMeetingId = ''m1'', uctParticipantId = ''p1'',
     uctRole = FacilitatorRole, uctSessionId = ''s1'', uctUserId = ''u1''\<rparr>"

definition confirmInput :: reviewInput where
  "confirmInput = \<lparr>mutCorrelationId = None, mutExpectedPosition = 7, mutIdempotencyKey = ''k1'',
     mutMeetingId = ''m1'', rvwDecisionId = ''d1'', rvwReason = ''why'', rvwSuggestionId = ''s1''\<rparr>"

lemmas step_simps = bindC_def tryC_def liftC_def returnC_def readC_def portC_def unlessC_def failC_def

lemma review_texts [simp]:
  "idempotencyKey ''k1'' = Inr ''k1''" "participantId ''p1'' = Inr ''p1''" "nonEmptyText ''why'' = Inr ''why''"
  "decisionId ''d1'' = Inr ''d1''" "suggestionId ''s1'' = Inr ''s1''" "causationId ''v7'' = Inr ''v7''"
  by code_simp+

lemma review_ports [simp]:
  "prtNow reviewPorts (loggedWorld evs n) = (isoString 0, loggedWorld evs (n + 1))"
  "prtNext reviewPorts ns (loggedWorld evs n) = (ns @ ''_'' @ natString n, loggedWorld evs (n + 1))"
  "prtHash reviewPorts v w = (Inr ''h'', w)"
  by (simp_all add: reviewPorts_def sqlitePorts_def systemNow_def cryptographicNext_def loggedWorld_def)

lemma review_hash [simp]: "hashValue reviewPorts v w = (Inr ''h'', w)"
  by (simp add: hashValue_def step_simps raiseC_def hasWhitespace_def) code_simp

lemma review_clock [simp]: "clockNow reviewPorts (loggedWorld evs n) = (Inr (isoString 0), loggedWorld evs (n + 1))"
  by (simp add: clockNow_def step_simps timestamp_isoString MAX_TIME_def)

lemma review_load:
  assumes "\<forall>ev \<in> set evs. evIdempotencyKey ev = None" "int (length evs) \<le> MAX_SAFE_INTEGER"
    "projectRecords ''m1'' (numberRecords 1 evs) = Inr p"
  shows "loadState reviewPorts ''m1'' (loggedWorld evs n) =
    (Inr \<lparr>lstProjection = p, lstRecords = numberRecords 1 evs\<rparr>, loggedWorld evs n)"
  using live.load_answers[OF loggedWorld_log(1)[OF assms(1,2)], of "''m1''"] loggedWorld_log(2)[OF assms(1,2)] assms(3)
  by (simp add: loadState_def step_simps reviewPorts_def)

lemma atRisk_keys: "\<forall>ev \<in> set atRiskLog. evIdempotencyKey ev = None" "int (length atRiskLog) \<le> MAX_SAFE_INTEGER"
  "length atRiskLog = 7"
  by (simp_all add: atRiskLog_def reviewBasis_def exampleEvent_def MAX_SAFE_INTEGER_def)

definition confirmPrepared :: preparedReview where
  "confirmPrepared = \<lparr>prwFingerprint = ''h'', prwLoaded = \<lparr>lstProjection = atRiskProjection,
     lstRecords = numberRecords 1 atRiskLog\<rparr>, prwReason = ''why'', prwTargetDecisionId = ''d1'',
     prwTargetSuggestionId = ''s1''\<rparr>"

lemma confirm_prepared:
  "prepareReview reviewPorts reviewFacilitator confirmInput ConfirmInvalidation (loggedWorld atRiskLog n) =
     (Inr confirmPrepared, loggedWorld atRiskLog n)"
  using review_load[OF atRisk_keys(1,2) conjunct1[OF atRisk_projection]]
  by (simp add: prepareReview_def step_simps authorizeFacilitatorReview_def reviewFacilitator_def confirmInput_def
      mayUse_iff checkCorrelation_def confirmPrepared_def meetingPosition_def opaqueInteger_def isSafeInteger_def
      MAX_SAFE_INTEGER_def)

definition confirmMatched :: matchedSuggestion where
  "confirmMatched = \<lparr>mtsAtRisk = exampleEvent ''v7'' 7 SharedScope
     (DecisionMarkedAtRisk (exampleDecision AT_RISK) ''s1'' [''q1''] [''a1'']), mtsSuggested = reviewSuggestion\<rparr>"

lemma confirm_target:
  "reviewTarget confirmPrepared w = (Inr (exampleDecision AT_RISK, confirmMatched), w)"
proof -
  have "findMatchedSuggestion (numberRecords 1 atRiskLog) (exampleDecision AT_RISK) ''s1'' w = (Inr confirmMatched, w)"
    unfolding findMatchedSuggestion_def atRisk_records
    by (simp add: step_simps atRiskLog_def reviewBasis_def exampleEvent_def suggestedIn_def markedAtRisk_def findLast_def
        reviewSuggestion_def exampleDecision_def suggestionMatches_def sameDecision_def sameValues_def confirmMatched_def)
  moreover have "findDecision (prwLoaded confirmPrepared) ''d1'' = Some (exampleDecision AT_RISK)"
    using atRisk_projection by (simp add: findDecision_def confirmPrepared_def) (simp add: exampleDecision_def)
  moreover have "referencesExist atRiskProjection (exampleDecision AT_RISK) reviewSuggestion"
    using atRisk_projection
    by (simp add: referencesExist_def confirmedShared_def)
      (simp add: example_record_defs reviewSuggestion_def reviewExternal_def reviewPremise_def)
  ultimately show ?thesis
    by (simp add: reviewTarget_def step_simps confirmPrepared_def confirmMatched_def) (simp add: exampleDecision_def)
qed

lemma confirm_prior: "priorReviewBatch (numberRecords 1 atRiskLog) ''k1'' d = Inr None"
  "\<not> hasIdempotencyKey (numberRecords 1 atRiskLog) ''k1''"
proof -
  have "findFirst (\<lambda>ev. facilitatorReviewed (evPayload ev) \<noteq> None \<and> evIdempotencyKey ev = Some ''k1'') atRiskLog = None"
    using atRisk_keys(1) by (simp add: findFirst_None)
  then show "priorReviewBatch (numberRecords 1 atRiskLog) ''k1'' d = Inr None"
    by (simp add: priorReviewBatch_def atRisk_records)
qed (use atRisk_keys(1) in \<open>simp add: hasIdempotencyKey_iff\<close>)

definition confirmRequest :: transitionRequest where
  "confirmRequest = (plainRequest REVIEW_REQUIRED (FacilitatorAuthority ''p1''))
     \<lparr>reqAffectedActionIds := Some [''a1''], reqAffectedPremiseIds := Some [''q1''],
      reqInvalidationConfirmed := Some True, reqReviewedActionIds := Some [''a1''],
      reqReviewedEvidenceReferenceIds := Some [''x1''], reqReviewedPremiseIds := Some [''q1''],
      reqSuggestionReferenceIds := Some [''x1'']\<rparr>"

definition confirmSelection :: actionHoldSelection where
  "confirmSelection = \<lparr>holdAffectedPremiseIds = [''q1''], holdSuggestedActionIds = [''a1''], holdReason = ''why''\<rparr>"

definition confirmHeld :: action where
  "confirmHeld = (exampleAction ''a1'' Held)\<lparr>recRevision := 2, actHoldReason := Some ''why''\<rparr>"

definition confirmTask :: "string \<Rightarrow> reconsiderationTask" where
  "confirmTask at = exampleTask\<lparr>recId := ''reconsideration-task_1'', recCreatedAt := at\<rparr>"

lemma confirm_transition: "transitionDecision (exampleDecision AT_RISK) confirmRequest = Inr (exampleDecision REVIEW_REQUIRED)"
  by (simp add: confirmRequest_def transitionDecision_def plainRequest_def decisionTransitionMatrix_def
      requireFacilitator_def requireCondition_def replaceDecisionStatus_def createDecision_Inr decisionOk_def
      recordOk_def example_record_defs result_simps optionLength_def MAX_SAFE_INTEGER_def)

lemma confirm_hold:
  "selectActionsToHold [exampleAction ''a1'' Planned] confirmSelection = [exampleAction ''a1'' Planned]"
  "holdAffectedActions [exampleAction ''a1'' Planned] confirmSelection = Inr [confirmHeld]"
proof -
  show "selectActionsToHold [exampleAction ''a1'' Planned] confirmSelection = [exampleAction ''a1'' Planned]"
    by (simp add: selectActionsToHold_def confirmSelection_def exampleAction_def)
  then show "holdAffectedActions [exampleAction ''a1'' Planned] confirmSelection = Inr [confirmHeld]"
    by (simp add: holdAffectedActions_def holdAction_def confirmSelection_def confirmHeld_def exampleAction_def
        result_simps revisionNumber_Inr createAction_Inr actionOk_def recordOk_def MAX_SAFE_INTEGER_def)
qed

lemma confirm_task:
  "newReconsiderationTask \<lparr>ntiId = ''reconsideration-task_1'', ntiMeetingId = ''m1'', ntiDecisionId = ''d1'',
     ntiTriggerExternalEventId = ''x1'', ntiOwnerParticipantId = ''p1'', ntiAffectedPremiseIds = [''q1''],
     ntiAffectedActionIds = [''a1''], ntiCreatedAt = at\<rparr> = Inr (confirmTask at)"
  by (simp add: newReconsiderationTask_def createReconsiderationTask_Inr taskOk_def recordOk_def result_simps
      confirmTask_def exampleTask_def MAX_SAFE_INTEGER_def)

lemma confirm_made:
  "makeConfirmation reviewPorts reviewFacilitator confirmPrepared (exampleDecision AT_RISK) confirmMatched
     (loggedWorld atRiskLog 0) =
   (Inr (exampleDecision REVIEW_REQUIRED, [confirmHeld], confirmTask (isoString 0), isoString 0), loggedWorld atRiskLog 2)"
proof -
  have task: "reconsiderationTaskId ''reconsideration-task_1'' = Inr ''reconsideration-task_1''" "natString (Suc 0) = ''1''"
    by code_simp+
  have fields: "uctParticipantId reviewFacilitator = ''p1''" "ivsAffectedActionIds (mtsSuggested confirmMatched) = [''a1'']"
    "ivsAffectedPremiseIds (mtsSuggested confirmMatched) = [''q1'']" "prwReason confirmPrepared = ''why''"
    "ivsEvidenceReferenceIds (mtsSuggested confirmMatched) = [''x1'']"
    "ivsExternalEventId (mtsSuggested confirmMatched) = ''x1''" "recId (exampleDecision AT_RISK) = ''d1''"
    "recMeetingId (exampleDecision AT_RISK) = ''m1''" "recId (exampleAction ''a1'' Planned) = ''a1''" "recId confirmHeld = ''a1''"
    "shpActions (mprShared (lstProjection (prwLoaded confirmPrepared))) = [exampleAction ''a1'' Planned]"
    using atRisk_projection
    by (simp_all add: reviewFacilitator_def confirmMatched_def reviewSuggestion_def confirmPrepared_def confirmHeld_def
        exampleDecision_def exampleAction_def)
  show ?thesis
    unfolding makeConfirmation_def Let_def fields confirmRequest_def[symmetric] confirmSelection_def[symmetric] confirm_hold
      confirm_transition
    by (simp add: step_simps task confirm_task fields numeral_2_eq_2 confirm_transition[unfolded confirmRequest_def])
qed


lemma confirm_correlation: "commandCorrelationId reviewPorts confirmInput (loggedWorld atRiskLog 2) =
    (Inr ''correlation_2'', loggedWorld atRiskLog 3)"
proof -
  have "correlationId ''correlation_2'' = Inr ''correlation_2''" "natString 2 = ''2''"
    by code_simp+
  then show ?thesis by (simp add: commandCorrelationId_def confirmInput_def step_simps)
qed

lemma review_ids [simp]:
  "natString 3 = ''3''" "natString 4 = ''4''" "natString 5 = ''5''" "natString 6 = ''6''"
  "eventId ''event_3'' = Inr ''event_3''" "eventId ''event_4'' = Inr ''event_4''"
  "eventId ''event_5'' = Inr ''event_5''" "eventId ''event_6'' = Inr ''event_6''"
  "causationId ''event_3'' = Inr ''event_3''" "causationId ''event_4'' = Inr ''event_4''"
  "schemaVersion 1 = Inr 1"
  by code_simp+

lemma review_caused:
  assumes "natString n = k" "eventId (''event_'' @ k) = Inr (''event_'' @ k)" "causationId c = Inr c"
    "rawKey = None \<or> rawKey = Some ''k1''" "0 \<le> p" "p \<le> MAX_SAFE_INTEGER"
  shows "causedEvent reviewPorts confirmInput actor c correlation at rawKey p payload (loggedWorld evs n) =
    (Inr \<lparr>evEventId = ''event_'' @ k, evSchemaVersion = 1, evMeetingId = ''m1'', evPosition = p, evActor = actor,
       evOccurredAt = at, evCorrelationId = correlation, evCausationId = Some c, evIdempotencyKey = rawKey,
       evScope = SharedScope, evPayload = payload\<rparr>, loggedWorld evs (n + 1))"
proof -
  have "meetingPosition p = Inr p" using assms(5,6)
    by (simp add: meetingPosition_def opaqueInteger_def isSafeInteger_def)
  then show ?thesis using assms(1-4)
    by (auto simp: causedEvent_def step_simps confirmInput_def)
qed

lemma confirm_batch:
  "\<exists>batch. confirmationEvents reviewPorts reviewFacilitator confirmInput confirmPrepared (exampleDecision AT_RISK)
     confirmMatched (exampleDecision REVIEW_REQUIRED, [confirmHeld], confirmTask at, at) (loggedWorld atRiskLog 2) =
     (Inr batch, loggedWorld atRiskLog 7) \<and> length batch = 4 \<and>
     (\<forall>ev \<in> set batch. evIdempotencyKey ev = None \<or> evIdempotencyKey ev = Some ''k1'')"
proof -
  have fields: "uctParticipantId reviewFacilitator = ''p1''" "mutExpectedPosition confirmInput = 7"
    "mutIdempotencyKey confirmInput = ''k1''" "evEventId (mtsAtRisk confirmMatched) = ''v7''"
    by (simp_all add: reviewFacilitator_def confirmInput_def confirmMatched_def exampleEvent_def)
  have position: "meetingPosition 7 = Inr 7" by code_simp
  show ?thesis
    unfolding confirmationEvents_def Let_def fields
    by (simp add: bindC_def liftC_def returnC_def confirm_correlation position review_caused MAX_SAFE_INTEGER_def)
qed

text \<open>The facilitator confirms: the four events follow the log.\<close>

lemma confirm_runs:
  "\<exists>batch r w'. confirmInvalidationReview reviewPorts reviewFacilitator confirmInput (loggedWorld atRiskLog 0) = (r, w') \<and>
     worldLog w' = (worldLog (loggedWorld atRiskLog 0))(''m1'' := atRiskLog @ batch) \<and> length batch = 4"
proof -
  obtain batch where batch: "confirmationEvents reviewPorts reviewFacilitator confirmInput confirmPrepared
      (exampleDecision AT_RISK) confirmMatched (exampleDecision REVIEW_REQUIRED, [confirmHeld], confirmTask (isoString 0),
        isoString 0) (loggedWorld atRiskLog 2) = (Inr batch, loggedWorld atRiskLog 7)" "length batch = 4"
    "\<forall>ev \<in> set batch. evIdempotencyKey ev = None \<or> evIdempotencyKey ev = Some ''k1''"
    using confirm_batch by blast
  let ?append = "appendBatch reviewPorts confirmInput ''h'' batch ''p1''
      ''Invalidation confirmation append was incomplete'' readConfirmed"
  have fields: "mutIdempotencyKey confirmInput = ''k1''" "lstRecords (prwLoaded confirmPrepared) = numberRecords 1 atRiskLog"
    "prwFingerprint confirmPrepared = ''h''" "uctParticipantId reviewFacilitator = ''p1''"
    by (simp_all add: confirmInput_def confirmPrepared_def reviewFacilitator_def)
  have key: "\<And>ev k. ev \<in> set batch \<Longrightarrow> evIdempotencyKey ev = Some k \<Longrightarrow> ''k1'' = k"
    using batch(3) by fastforce
  have "confirmInvalidationReview reviewPorts reviewFacilitator confirmInput (loggedWorld atRiskLog 0) =
      ?append (loggedWorld atRiskLog 7)"
    unfolding confirmInvalidationReview_def
    by (simp add: bindC_def liftC_def returnC_def unlessC_def confirm_prepared fields confirm_prior confirm_target
        confirm_made batch(1))
  moreover have "worldLog (snd (?append (loggedWorld atRiskLog 7))) =
      (worldLog (loggedWorld atRiskLog 7))(''m1'' := atRiskLog @ batch)"
    using appendBatch_appends[of "\<lambda>_. ''e''" "loggedWorld atRiskLog 7" confirmInput batch "\<lambda>_. 0" natString "\<lambda>_. ''h''" "''h''"]
      loggedWorld_log[OF atRisk_keys(1,2)] atRisk_keys(3) batch(2) key
    by (simp add: reviewPorts_def[symmetric] confirmInput_def MAX_SAFE_INTEGER_def)
  moreover have "worldLog (loggedWorld atRiskLog 7) = worldLog (loggedWorld atRiskLog 0)"
    by (simp add: worldLog_def loggedWorld_def)
  ultimately show ?thesis using batch(2) by (metis prod.collapse)
qed


subsection \<open>The run of a recommit\<close>

definition reviewedLog :: "domainEvent list" where
  "reviewedLog = reviewBasis @
     [exampleEvent ''v6'' 6 SharedScope (FacilitatorReviewed \<lparr>fvwDecision = exampleDecision REVIEW_REQUIRED,
        fvwDecisionId = ''d1'', fvwSuggestionId = ''s1'', fvwFacilitatorParticipantId = ''p1'',
        fvwDisposition = ConfirmInvalidation, fvwReviewedPremiseIds = [''q1''],
        fvwReviewedEvidenceReferenceIds = [''x1''], fvwReviewedActionIds = [''a1''], fvwReason = ''why''\<rparr>),
      (exampleEvent ''v7'' 7 SharedScope (DecisionReviewRequired (exampleDecision REVIEW_REQUIRED) ''s1'' [''a1''] ''k1''))
        \<lparr>evCausationId := Some ''v6''\<rparr>]"

definition reviewedProjection :: meetingProjection where
  "reviewedProjection = (case projectRecords ''m1'' (numberRecords 1 reviewedLog) of Inr p \<Rightarrow> p)"

lemma reviewed_records: "normalizeRecords (numberRecords 1 reviewedLog) = Inr reviewedLog"
  by (simp add: reviewedLog_def reviewBasis_def exampleEvent_def normalizeRecords_def normalizeRecord_def
      meetingPosition_def opaqueInteger_def isSafeInteger_def MAX_SAFE_INTEGER_def)

lemma reviewed_projection:
  "projectRecords ''m1'' (numberRecords 1 reviewedLog) = Inr reviewedProjection \<and>
   shpDecisions (mprShared reviewedProjection) = [exampleDecision REVIEW_REQUIRED] \<and>
   shpDecisionRevisions (mprShared reviewedProjection) = [exampleRevision 1 ''r1'' None] \<and>
   shpPremises (mprShared reviewedProjection) = [reviewPremise] \<and>
   shpEvidence (mprShared reviewedProjection) = [reviewEvidence] \<and>
   shpActions (mprShared reviewedProjection) = [exampleAction ''a1'' Planned]"
proof -
  have "\<exists>p. projectRecords ''m1'' (numberRecords 1 reviewedLog) = Inr p \<and>
     shpDecisions (mprShared p) = [exampleDecision REVIEW_REQUIRED] \<and>
     shpDecisionRevisions (mprShared p) = [exampleRevision 1 ''r1'' None] \<and>
     shpPremises (mprShared p) = [reviewPremise] \<and> shpEvidence (mprShared p) = [reviewEvidence] \<and>
     shpActions (mprShared p) = [exampleAction ''a1'' Planned]"
    unfolding projectRecords_def reviewed_records
    by (simp add: reviewedLog_def reviewBasis_def exampleEvent_def review_replay_simps example_record_defs
        reviewPremise_def reviewEvidence_def reviewExternal_def)
  then show ?thesis by (auto simp: reviewedProjection_def)
qed

lemma reviewed_keys: "\<forall>ev \<in> set reviewedLog. evIdempotencyKey ev = None" "int (length reviewedLog) \<le> MAX_SAFE_INTEGER"
  "length reviewedLog = 7"
  by (simp_all add: reviewedLog_def reviewBasis_def exampleEvent_def MAX_SAFE_INTEGER_def)

definition recommitInput :: recommitDecisionInput where
  "recommitInput = \<lparr>mutCorrelationId = None, mutExpectedPosition = 7, mutIdempotencyKey = ''k1'',
     mutMeetingId = ''m1'', rciDecisionId = ''d1'', rciChangeReason = ''why'', rciExplicitCommit = True,
     rciMonitorDescription = ''EU AI Act'', rciOutcome = ''Wait'', rciTitle = ''Rollout''\<rparr>"

definition recommittedRevision :: "string \<Rightarrow> decisionRevision" where
  "recommittedRevision at = (exampleRevision 2 ''decision-revision_1'' (Some ''r1''))
     \<lparr>recCreatedAt := at, drvSnapshot := exampleSnapshot\<lparr>snpOutcome := ''Wait''\<rparr>, drvChangeReason := ''why''\<rparr>"

definition reviewedState :: loadedState where
  "reviewedState = \<lparr>lstProjection = reviewedProjection, lstRecords = numberRecords 1 reviewedLog\<rparr>"

definition recommitInputValues :: recommitValues where
  "recommitInputValues = \<lparr>rcvTarget = ''d1'', rcvTitle = ''Rollout'', rcvOutcome = ''Wait'',
     rcvMonitorDescription = ''EU AI Act'', rcvChangeReason = ''why''\<rparr>"

lemma recommit_valid: "validateRecommit reviewPorts reviewFacilitator recommitInput w = (Inr (recommitInputValues, ''h''), w)"
proof -
  have "nonEmptyText ''Rollout'' = Inr ''Rollout''" "nonEmptyText ''Wait'' = Inr ''Wait''"
    "nonEmptyText ''EU AI Act'' = Inr ''EU AI Act''" "meetingPosition 7 = Inr 7"
    by code_simp+
  then show ?thesis
    by (simp add: validateRecommit_def step_simps checkMutation_def checkCorrelation_def recommitInput_def
        reviewFacilitator_def recommitInputValues_def)
qed

lemma recommit_current:
  "currentDecision reviewedState ''d1'' w = (Inr (exampleDecision REVIEW_REQUIRED, reviewedLog ! 6), w)"
  "hasCanonicalReferences (lstProjection reviewedState) (exampleDecision REVIEW_REQUIRED)"
proof -
  have own: "hasOwnActiveRevision (lstProjection reviewedState) (exampleDecision REVIEW_REQUIRED)"
    using reviewed_projection
    by (simp add: hasOwnActiveRevision_def reviewedState_def) (simp add: example_record_defs)
  moreover have "findCurrentReviewRequired (lstRecords reviewedState) (exampleDecision REVIEW_REQUIRED) =
      Inr (Some (reviewedLog ! 6))"
    by (simp add: findCurrentReviewRequired_def reviewedState_def reviewed_records)
      (simp add: reviewedLog_def reviewBasis_def exampleEvent_def reviewRequiredIn_def findLast_def reviewedFor_def
        facilitatorReviewed_def sameDecision_def sameValues_def exampleDecision_def)
  moreover have "findDecision reviewedState ''d1'' = Some (exampleDecision REVIEW_REQUIRED)"
    using reviewed_projection by (simp add: findDecision_def reviewedState_def) (simp add: exampleDecision_def)
  ultimately show "currentDecision reviewedState ''d1'' w = (Inr (exampleDecision REVIEW_REQUIRED, reviewedLog ! 6), w)"
    by (simp add: currentDecision_def step_simps) (simp add: exampleDecision_def)
  show "hasCanonicalReferences (lstProjection reviewedState) (exampleDecision REVIEW_REQUIRED)"
    using own reviewed_projection
    by (simp add: hasCanonicalReferences_def reviewedState_def confirmedShared_def)
      (simp add: example_record_defs reviewPremise_def reviewEvidence_def)
qed


lemma recommit_made:
  "makeRecommit reviewPorts reviewFacilitator reviewedState recommitInputValues (exampleDecision REVIEW_REQUIRED)
     (loggedWorld reviewedLog 0) =
   (Inr (recommitted (exampleDecision REVIEW_REQUIRED) (recommittedRevision (isoString 0)),
      recommittedRevision (isoString 0), isoString 0), loggedWorld reviewedLog 2)"
proof -
  let ?rv = "recommittedRevision (isoString 0)" and ?d = "exampleDecision REVIEW_REQUIRED"
  let ?input = "\<lparr>nriId = ''decision-revision_1'', nriChangeReason = ''why'', nriCreatedAt = isoString 0,
      nriCreatedBy = ''p1'', nriSnapshot = \<lparr>snpTitle = ''Rollout'', snpOutcome = ''Wait'', snpStatus = COMMITTED,
        snpPremiseIds = [''q1''], snpEvidenceIds = [''e1''], snpDissentIds = [], snpActionIds = [''a1''],
        snpMonitorCondition = \<lparr>monDescription = ''EU AI Act'', monRegistrationId = None\<rparr>\<rparr>\<rparr>"
  have ids: "decisionRevisionId ''decision-revision_1'' = Inr ''decision-revision_1''" "natString (Suc 0) = ''1''"
    by code_simp+
  have fields: "uctParticipantId reviewFacilitator = ''p1''" "decPremiseIds ?d = [''q1'']" "decEvidenceIds ?d = [''e1'']"
    "decDissentIds ?d = []" "decActionIds ?d = [''a1'']" "rcvTitle recommitInputValues = ''Rollout''"
    "rcvOutcome recommitInputValues = ''Wait''" "rcvMonitorDescription recommitInputValues = ''EU AI Act''"
    "rcvChangeReason recommitInputValues = ''why''"
    "shpDecisionRevisions (mprShared (lstProjection reviewedState)) = [exampleRevision 1 ''r1'' None]"
    using reviewed_projection
    by (simp_all add: reviewFacilitator_def recommitInputValues_def exampleDecision_def reviewedState_def)
  have new: "nextDecisionRevision ?d ?input = Inr ?rv"
    by (simp add: nextDecisionRevision_def result_simps revisionNumber_Inr createDecisionRevision_Inr revisionOk_def
        recordOk_def recommittedRevision_def example_record_defs MAX_SAFE_INTEGER_def)
  have append: "appendDecisionRevision [exampleRevision 1 ''r1'' None] ?rv = Inr [exampleRevision 1 ''r1'' None, ?rv]"
    by (simp add: appendDecisionRevision_def result_simps revisionNumber_Inr createDecisionRevision_Inr revisionOk_def
        recordOk_def recommittedRevision_def example_record_defs latestRevision_def Let_def findLast_def
        requireCondition_Inr MAX_SAFE_INTEGER_def)
  have ok: "decisionOk (recommitted ?d ?rv)"
    by (simp add: decisionOk_def recordOk_def recommitted_def recommittedRevision_def example_record_defs MAX_SAFE_INTEGER_def)
  have moved: "transitionDecision ?d ((plainRequest COMMITTED (FacilitatorAuthority ''p1''))
      \<lparr>reqExplicitCommit := Some True, reqRevision := Some ?rv\<rparr>) = Inr (recommitted ?d ?rv)"
    by (rule step_transition[OF step_recommit[of _ _ "''p1''"] exampleDecision_ok])
      (simp_all add: ok plainRequest_def, simp_all add: example_defs recommittedRevision_def MAX_SAFE_INTEGER_def)
  show ?thesis
    unfolding makeRecommit_def fields
    by (simp add: step_simps ids fields new append moved numeral_2_eq_2)
qed

text \<open>The facilitator commits again: one event follows the log.\<close>

lemma recommit_runs:
  "\<exists>ev r w'. recommitDecision reviewPorts reviewFacilitator recommitInput (loggedWorld reviewedLog 0) = (r, w') \<and>
     worldLog w' = (worldLog (loggedWorld reviewedLog 0))(''m1'' := reviewedLog @ [ev])"
proof -
  let ?rv = "recommittedRevision (isoString 0)" and ?d = "exampleDecision REVIEW_REQUIRED"
  have correlation: "commandCorrelationId reviewPorts recommitInput (loggedWorld reviewedLog 2) =
      (Inr ''correlation_2'', loggedWorld reviewedLog 3)"
  proof -
    have "correlationId ''correlation_2'' = Inr ''correlation_2''" "natString 2 = ''2''" by code_simp+
    then show ?thesis by (simp add: commandCorrelationId_def recommitInput_def step_simps)
  qed
  have cause: "evEventId (reviewedLog ! 6) = ''v7''"
    by (simp add: reviewedLog_def reviewBasis_def exampleEvent_def)
  have fields: "mutIdempotencyKey recommitInput = ''k1''" "mutMeetingId recommitInput = ''m1''"
    "uctParticipantId reviewFacilitator = ''p1''" "mutExpectedPosition recommitInput = 7"
    "rciExplicitCommit recommitInput" "rcvTarget recommitInputValues = ''d1''"
    by (simp_all add: recommitInput_def reviewFacilitator_def recommitInputValues_def)
  have position: "meetingPosition 8 = Inr 8" by code_simp
  obtain ev where event: "resolutionEvent reviewPorts reviewFacilitator recommitInput (reviewedLog ! 6) (isoString 0)
      (DecisionRevisionCommitted (recommitted ?d ?rv) ?rv) (loggedWorld reviewedLog 2) = (Inr ev, loggedWorld reviewedLog 4)"
    "evIdempotencyKey ev = Some ''k1''"
    by (simp add: resolutionEvent_def causedEvent_def step_simps participantActor_def fields cause correlation position)
  have authorized: "authorizeFacilitatorReview reviewFacilitator recommitInput w = (Inr (), w)" for w :: sqliteWorld
    by (simp add: authorizeFacilitatorReview_def reviewFacilitator_def recommitInput_def mayUse_iff step_simps)
  have loaded: "loadState reviewPorts ''m1'' (loggedWorld reviewedLog 0) = (Inr reviewedState, loggedWorld reviewedLog 0)"
    using review_load[OF reviewed_keys(1,2) conjunct1[OF reviewed_projection]] by (simp add: reviewedState_def)
  have records: "lstRecords reviewedState = numberRecords 1 reviewedLog" by (simp add: reviewedState_def)
  have prior: "priorResolution (numberRecords 1 reviewedLog) ''k1'' revisionCommitted = Inr None"
    "\<not> hasIdempotencyKey (numberRecords 1 reviewedLog) ''k1''"
  proof -
    have "findFirst (\<lambda>ev. isResolution (evPayload ev) \<and> evIdempotencyKey ev = Some ''k1'') reviewedLog = None"
      using reviewed_keys(1) by (simp add: findFirst_None)
    then show "priorResolution (numberRecords 1 reviewedLog) ''k1'' revisionCommitted = Inr None"
      by (simp add: priorResolution_def reviewed_records)
  qed (use reviewed_keys(1) in \<open>simp add: hasIdempotencyKey_iff\<close>)
  let ?append = "appendBatch reviewPorts recommitInput ''h'' [ev] ''p1''
      ''Decision review recommit append returned no DecisionRevisionCommitted'' (readResolution revisionCommitted)"
  have "recommitDecision reviewPorts reviewFacilitator recommitInput (loggedWorld reviewedLog 0) =
      ?append (loggedWorld reviewedLog 4)"
    unfolding recommitDecision_def resolveReview_def
    by (simp add: step_simps authorized recommit_valid loaded records prior recommit_current recommit_made event fields)
  moreover have "worldLog (snd (?append (loggedWorld reviewedLog 4))) =
      (worldLog (loggedWorld reviewedLog 4))(''m1'' := reviewedLog @ [ev])"
    using appendBatch_appends[of "\<lambda>_. ''e''" "loggedWorld reviewedLog 4" recommitInput "[ev]" "\<lambda>_. 0" natString "\<lambda>_. ''h''" "''h''"]
      loggedWorld_log[OF reviewed_keys(1,2)] reviewed_keys(3) event(2)
    by (simp add: reviewPorts_def[symmetric] recommitInput_def MAX_SAFE_INTEGER_def)
  moreover have "worldLog (loggedWorld reviewedLog 4) = worldLog (loggedWorld reviewedLog 0)"
    by (simp add: worldLog_def loggedWorld_def)
  ultimately show ?thesis by (metis prod.collapse)
qed

end
