(* ===== verification/EvaluationExample.thy ===== *)
theory EvaluationExample
  imports ReviewExample EvaluationLogic
begin

section \<open>An outside event and its evaluation, evaluated\<close>

text \<open>
  The meeting of \<open>ReviewExample\<close> with its Decision under monitoring: an outside event is received, a language model
  names the premise and the Action that it affects, and the Decision is put at risk.
\<close>

subsection \<open>A monitored Decision\<close>

definition monitoredDecision :: decision where
  "monitoredDecision = (exampleDecision MONITORING)
     \<lparr>decMonitorCondition := \<lparr>monDescription = ''EU AI Act'', monRegistrationId = Some ''g1''\<rparr>\<rparr>"

definition monitoringLog :: "domainEvent list" where
  "monitoringLog =
     [exampleEvent ''v1'' 1 SharedScope (InferenceConfirmed ''i1'' (ConfirmedPremise reviewPremise) ''p1''),
      exampleEvent ''v2'' 2 SharedScope (InferenceConfirmed ''i2'' (ConfirmedAction (exampleAction ''a1'' Planned)) ''p1''),
      exampleEvent ''v3'' 3 SharedScope (EvidenceShared reviewEvidence),
      exampleEvent ''v4'' 4 SharedScope (DecisionCommitted (exampleDecision COMMITTED) (exampleRevision 1 ''r1'' None)),
      exampleEvent ''v5'' 5 SharedScope (MonitoringStarted monitoredDecision ''g1'')]"

definition watchedLog :: "domainEvent list" where
  "watchedLog = monitoringLog @ [exampleEvent ''v6'' 6 SharedScope (ExternalEventReceived reviewExternal)]"

lemma monitoring_records:
  "normalizeRecords (numberRecords 1 monitoringLog) = Inr monitoringLog"
  "normalizeRecords (numberRecords 1 watchedLog) = Inr watchedLog"
  by (simp_all add: watchedLog_def monitoringLog_def exampleEvent_def normalizeRecords_def normalizeRecord_def
      meetingPosition_def opaqueInteger_def isSafeInteger_def MAX_SAFE_INTEGER_def)

lemma monitoring_keys:
  "\<forall>ev \<in> set monitoringLog. evIdempotencyKey ev = None" "int (length monitoringLog) \<le> MAX_SAFE_INTEGER"
  "length monitoringLog = 5"
  "\<forall>ev \<in> set watchedLog. evIdempotencyKey ev = None" "int (length watchedLog) \<le> MAX_SAFE_INTEGER"
  "length watchedLog = 6"
  by (simp_all add: watchedLog_def monitoringLog_def exampleEvent_def MAX_SAFE_INTEGER_def)

lemma monitoring_projection:
  "\<exists>p. projectRecords ''m1'' (numberRecords 1 monitoringLog) = Inr p \<and> shpDecisions (mprShared p) = [monitoredDecision]"
  unfolding projectRecords_def monitoring_records
  by (simp add: monitoringLog_def exampleEvent_def review_replay_simps example_record_defs
      reviewPremise_def reviewEvidence_def monitoredDecision_def)

definition watchedProjection :: meetingProjection where
  "watchedProjection = (case projectRecords ''m1'' (numberRecords 1 watchedLog) of Inr p \<Rightarrow> p)"

lemma watched_projection:
  "projectRecords ''m1'' (numberRecords 1 watchedLog) = Inr watchedProjection \<and>
   shpMeetingId (mprShared watchedProjection) = ''m1'' \<and>
   shpDecisions (mprShared watchedProjection) = [monitoredDecision] \<and>
   shpDecisionRevisions (mprShared watchedProjection) = [exampleRevision 1 ''r1'' None] \<and>
   shpPremises (mprShared watchedProjection) = [reviewPremise] \<and>
   shpActions (mprShared watchedProjection) = [exampleAction ''a1'' Planned] \<and>
   shpEvidence (mprShared watchedProjection) = [reviewEvidence] \<and>
   shpExternalEvents (mprShared watchedProjection) = [reviewExternal]"
proof -
  have "\<exists>p. projectRecords ''m1'' (numberRecords 1 watchedLog) = Inr p \<and>
     shpMeetingId (mprShared p) = ''m1'' \<and>
     shpDecisions (mprShared p) = [monitoredDecision] \<and>
     shpDecisionRevisions (mprShared p) = [exampleRevision 1 ''r1'' None] \<and>
     shpPremises (mprShared p) = [reviewPremise] \<and>
     shpActions (mprShared p) = [exampleAction ''a1'' Planned] \<and>
     shpEvidence (mprShared p) = [reviewEvidence] \<and>
     shpExternalEvents (mprShared p) = [reviewExternal]"
    unfolding projectRecords_def monitoring_records
    by (simp add: watchedLog_def monitoringLog_def exampleEvent_def review_replay_simps example_record_defs
        reviewPremise_def reviewEvidence_def reviewExternal_def monitoredDecision_def)
  then show ?thesis by (auto simp: watchedProjection_def)
qed

subsection \<open>Appending in a world that answers\<close>

lemma appendRequest_appends:
  assumes w: "worldOk enc w" and q: "aprMeetingId q = m" "m \<noteq> []" "aprIdempotencyKey q = Some k" "k \<noteq> []"
    and unused: "keyUnused w m k" and pos: "aprExpectedPosition q = Some (int (length (worldLog w m)))"
    and len: "int (length (worldLog w m)) + int (length (aprEvents q)) \<le> MAX_SAFE_INTEGER"
    and key: "\<And>ev k'. ev \<in> set (aprEvents q) \<Longrightarrow> evIdempotencyKey ev = Some k' \<Longrightarrow> k = k'"
    and rest: "\<And>records. node.gives enc ((worldLog w)(m := worldLog w m @ aprEvents q))
      (f \<lparr>aprReplayed = False, aprRecords = records\<rparr>) (\<lambda>_. True)"
  shows "worldLog (snd (bindC (appendRequest (sqlitePorts enc clk uuid sha) q) f w)) =
    (worldLog w)(m := worldLog w m @ aprEvents q)"
proof -
  let ?deps = "sqlitePorts enc clk uuid sha"
  let ?records = "numberRecords (int (length (worldLog w m)) + 1) (aprEvents q)"
  obtain w1 where ap: "prtAppend ?deps q w = (Inr (Appended ?records), w1)"
    using live.append_answers[OF w, of q k] q unused pos len by (metis prod.collapse)
  have log: "worldLog w1 = (worldLog w)(m := worldLog w m @ aprEvents q)"
    using node.append_new[OF w ap] q(1) by simp
  have "worldOk enc (snd (prtAppend ?deps q w))"
    by (rule node.append_ok[OF w]) (use key q(3) in auto)
  then have ok: "worldOk enc w1" by (simp add: ap)
  have "bindC (appendRequest ?deps q) f w = f \<lparr>aprReplayed = False, aprRecords = ?records\<rparr> w1"
    using ap by (simp add: appendRequest_def bindC_def portC_def returnC_def)
  moreover obtain r w2 where "f \<lparr>aprReplayed = False, aprRecords = ?records\<rparr> w1 = (r, w2)" by (metis surj_pair)
  moreover from node.givesD[OF rest ok log this] have "worldLog w2 = (worldLog w)(m := worldLog w m @ aprEvents q)" by blast
  ultimately show ?thesis by simp
qed

subsection \<open>The run of an evaluation\<close>

definition exampleCandidate :: invalidationCandidate where
  "exampleCandidate = \<lparr>icdAffectedActionIds = [''a1''], icdAffectedPremiseIds = [''q1''], icdConfidence = IntNum 1,
     icdEvidenceReferenceIds = [''s''], icdReason = ''why''\<rparr>"

definition exampleEvaluation :: aiEvaluation where
  "exampleEvaluation = \<lparr>aieCandidates = [exampleCandidate], aieGeneratedAt = isoString 0, aieInputReferenceIds = [''x1''],
     aieModel = ''gpt'', aieOperation = ''assumption_invalidation'', aiePromptVersion = ''assumption-invalidation-v1'',
     aieSchemaVersion = ''1'', aieSuggestion = exampleCandidate\<rparr>"

definition exampleModel :: "evaluatorInput \<Rightarrow> nat \<Rightarrow> exn + aiEvaluation" where
  "exampleModel given n = Inr exampleEvaluation"

definition evaluateExample :: evaluateInput where
  "evaluateExample = \<lparr>evnCorrelationId = None, evnExternalEventId = ''x1'', evnMeetingId = ''m1''\<rparr>"

definition exampleGiven :: evaluatorInput where
  "exampleGiven = \<lparr>eviActions = [\<lparr>evaActionId = ''a1'', evaAffectedPremiseIds = [''q1''], evaScope = [''eu''], evaStatus = Planned\<rparr>],
     eviDecision = \<lparr>evkDecisionId = ''d1'', evkMonitorCondition = ''EU AI Act'', evkOutcome = ''Ship later'', evkRevision = 1,
       evkRevisionId = ''r1'', evkTitle = ''Rollout''\<rparr>,
     eviEvidence = [\<lparr>eveEvidenceReferenceId = ''e1'', eveExactSnippet = ''s''\<rparr>],
     eviExternalEvent = \<lparr>evxDescription = ''d'', evxEffectiveAt = ''t'', evxEventType = ''regulatory_change'',
       evxExternalEventId = ''x1'', evxJurisdiction = ''EU'', evxSource = ''s'', evxSourceReference = ''s''\<rparr>,
     eviMeetingId = ''m1'',
     eviPremises = [\<lparr>evqConfirmationStatus = Confirmed, evqPremiseId = ''q1'', evqStatement = ''s''\<rparr>]\<rparr>"

lemma example_given: "buildEvaluationInput (mprShared watchedProjection) monitoredDecision ''x1'' = Some exampleGiven"
proof -
  let ?p = "mprShared watchedProjection"
  have revision: "findFirst (\<lambda>rv. recId rv = decActiveRevisionId monitoredDecision) (shpDecisionRevisions ?p) =
      Some (exampleRevision 1 ''r1'' None)"
    "findFirst (\<lambda>x. recId x = ''x1'') (shpExternalEvents ?p) = Some reviewExternal"
    using watched_projection by (simp_all, simp_all add: monitoredDecision_def example_record_defs reviewExternal_def)
  have "evaluationInputOf ?p monitoredDecision reviewExternal (exampleRevision 1 ''r1'' None) = Some exampleGiven"
    unfolding evaluationInputOf_def using watched_projection
    by (simp add: Let_def)
      (simp add: monitoredDecision_def example_record_defs reviewExternal_def reviewPremise_def reviewEvidence_def exampleGiven_def)
  then show ?thesis
    unfolding buildEvaluationInput_def revision option.case
    by (simp add: monitoredDecision_def example_record_defs reviewExternal_def)
qed

lemma example_valid: "evaluationIsValid exampleEvaluation exampleGiven"
proof -
  have "trim ''x1'' = ''x1''" "trim ''why'' = ''why''" by code_simp+
  then show ?thesis
    by (simp add: evaluationIsValid_def referencesAreValid_def authorizedReferences_def exampleEvaluation_def
        exampleCandidate_def exampleGiven_def Let_def findLast_def)
qed

definition markedDecision :: decision where
  "markedDecision = monitoredDecision\<lparr>decStatus := AT_RISK\<rparr>"

lemma example_mark: "markRequest exampleCandidate = Inr ((plainRequest AT_RISK SystemAuthority)
    \<lparr>reqAffectedActionIds := Some [''a1''], reqAffectedPremiseIds := Some [''q1''],
     reqSuggestionRecorded := Some True, reqSuggestionReferenceIds := Some [''s'']\<rparr>)"
  "bindE (markRequest exampleCandidate) (transitionDecision monitoredDecision) = Inr markedDecision"
proof -
  have ids: "actionId ''a1'' = Inr ''a1''" "premiseId ''q1'' = Inr ''q1''" by code_simp+
  show request: "markRequest exampleCandidate = Inr ((plainRequest AT_RISK SystemAuthority)
    \<lparr>reqAffectedActionIds := Some [''a1''], reqAffectedPremiseIds := Some [''q1''],
     reqSuggestionRecorded := Some True, reqSuggestionReferenceIds := Some [''s'']\<rparr>)"
    by (simp add: markRequest_def exampleCandidate_def ids)
  show "bindE (markRequest exampleCandidate) (transitionDecision monitoredDecision) = Inr markedDecision"
    unfolding request
    by (simp add: transitionDecision_def plainRequest_def decisionTransitionMatrix_def monitoredDecision_def markedDecision_def
      requireSystem_def requireCondition_def replaceDecisionStatus_def createDecision_Inr decisionOk_def
      recordOk_def example_record_defs result_simps optionLength_def MAX_SAFE_INTEGER_def)
qed

lemma example_makeMark:
  "makeMark reviewPorts monitoredDecision exampleEvaluation (loggedWorld evs 1) =
     (Inr (markedDecision, isoString 0, isoString 0, ''suggestion_2''), loggedWorld evs 3)"
proof -
  have "timestamp (isoString 0) = Inr (isoString 0)" by (simp add: timestamp_isoString MAX_TIME_def)
  moreover have "suggestionId ''suggestion_2'' = Inr ''suggestion_2''" "natString (Suc (Suc 0)) = ''2''" by code_simp+
  ultimately show ?thesis
    using example_mark(2) by (simp add: makeMark_def step_simps exampleEvaluation_def numeral_2_eq_2 numeral_3_eq_3)
qed

lemma example_events:
  "\<exists>evs. evaluationEvents reviewPorts evaluateExample (exampleEvent ''v6'' 6 SharedScope (ExternalEventReceived reviewExternal))
      monitoredDecision exampleEvaluation 6 (markedDecision, isoString 0, isoString 0, ''suggestion_2'') (loggedWorld logged 3) =
     (Inr evs, loggedWorld logged 5) \<and> length evs = 2"
proof -
  have key: "idempotencyKey (evaluationKey ''x1'' monitoredDecision) = Inr (evaluationKey ''x1'' monitoredDecision)"
    unfolding idempotencyKey_def opaqueText_Inr evaluationKey_trimmed by (simp add: evaluationKey_def)
  have ids: "correlationId ''c'' = Inr ''c''" "premiseId ''q1'' = Inr ''q1''" "actionId ''a1'' = Inr ''a1''"
    "nonEmptyText ''gpt'' = Inr ''gpt''" "causationId ''v6'' = Inr ''v6''" "sourceReferenceId ''s'' = Inr ''s''"
    "externalEventId ''x1'' = Inr ''x1''" "sourceReferenceId ''x1'' = Inr ''x1''"
    "promptVersion ''assumption-invalidation-v1'' = Inr ''assumption-invalidation-v1''"
    "nonEmptyText ''assumption_invalidation'' = Inr ''assumption_invalidation''" "nonEmptyText ''1'' = Inr ''1''"
    "meetingPosition 7 = Inr 7" "meetingPosition 8 = Inr 8"
    by code_simp+
  show ?thesis
    by (simp add: evaluationEvents_def suggestionPayload_def step_simps ids key evaluateExample_def exampleEvaluation_def
        exampleCandidate_def exampleEvent_def Let_def)
qed

text \<open>The evaluation puts the Decision at risk: two events follow the log.\<close>

lemma evaluation_runs:
  "\<exists>evs r w'. evaluateAssumptionInvalidation reviewPorts (nodeEvaluator (Some exampleModel)) evaluateExample
       (loggedWorld watchedLog 0) = (r, w') \<and>
     worldLog w' = (worldLog (loggedWorld watchedLog 0))(''m1'' := watchedLog @ evs) \<and> length evs = 2"
proof -
  let ?received = "exampleEvent ''v6'' 6 SharedScope (ExternalEventReceived reviewExternal)"
  let ?key = "evaluationKey ''x1'' monitoredDecision"
  let ?records = "numberRecords 1 watchedLog"
  obtain evs where evs: "evaluationEvents reviewPorts evaluateExample ?received monitoredDecision exampleEvaluation 6
      (markedDecision, isoString 0, isoString 0, ''suggestion_2'') (loggedWorld watchedLog 3) = (Inr evs, loggedWorld watchedLog 5)"
    "length evs = 2"
    using example_events by blast
  note ok = loggedWorld_log(1)[OF monitoring_keys(4,5)] and logged = loggedWorld_log(2)[OF monitoring_keys(4,5)]
  have made: "evaluationMade evaluateExample monitoredDecision exampleEvaluation 6 evs"
    using node.givesD[OF node.gives_evaluationEvents ok refl evs(1)[unfolded reviewPorts_def]] by (simp add: markedDecision_def)
  have fields: "evnMeetingId evaluateExample = ''m1''" "evnExternalEventId evaluateExample = ''x1''"
    by (simp_all add: evaluateExample_def)
  have load: "prtLoad reviewPorts ''m1'' (loggedWorld watchedLog 0) = (Inr ?records, loggedWorld watchedLog 0)"
    using live.load_answers[OF ok, of "''m1''"] logged by (simp add: reviewPorts_def)
  have active: "afterReset watchedLog ?records = ?records"
    by (simp add: afterReset_def watchedLog_def monitoringLog_def exampleEvent_def isDemoResetCompleted_def)
  have found: "findFirst (\<lambda>r. map_option recId (externalEventIn (evPayload (ercEvent r))) = Some ''x1'') ?records =
      Some \<lparr>ercEvent = ?received, ercPosition = 6\<rparr>"
    "findFirst (\<lambda>r. map_option ivsExternalEventId (suggestedIn (evPayload (ercEvent r))) = Some ''x1'') ?records = None"
    "findFirst (\<lambda>r. evIdempotencyKey (ercEvent r) = Some ?key \<and> suggestedIn (evPayload (ercEvent r)) \<noteq> None) ?records = None"
    by (simp_all add: watchedLog_def monitoringLog_def exampleEvent_def externalEventIn_def suggestedIn_def reviewExternal_def)
  have target: "findFirst (monitoredBy (extMonitorRegistrationId reviewExternal)) (shpDecisions (mprShared watchedProjection)) =
      Some monitoredDecision"
    using watched_projection by (simp, simp add: monitoredBy_def monitoredDecision_def exampleDecision_def reviewExternal_def)
  have position: "lastPosition ?records = 6" using lastPosition_number[of watchedLog] monitoring_keys(6) by simp
  have asked: "askEvaluator (nodeEvaluator (Some exampleModel)) exampleGiven (loggedWorld watchedLog 0) =
      (Inr exampleEvaluation, loggedWorld watchedLog 1)"
    using example_valid
    by (simp add: askEvaluator_def nodeEvaluator_def exampleModel_def step_simps loggedWorld_def)
  have externalEvent: "externalEventId ''x1'' = Inr ''x1''" by code_simp
  have received: "externalEventIn (evPayload ?received) = Some reviewExternal"
    by (simp add: exampleEvent_def externalEventIn_def)
  let ?append = "appendEvaluation reviewPorts evaluateExample evs 6 ?key ''h''"
  have "evaluateMonitored reviewPorts (nodeEvaluator (Some exampleModel)) evaluateExample ?records ?records ?received
      watchedProjection (loggedWorld watchedLog 0) = ?append (loggedWorld watchedLog 5)"
    unfolding evaluateMonitored_def Let_def received option.sel target option.case fields example_given position found(3)
    by (simp add: step_simps asked example_makeMark[unfolded One_nat_def] evs(1))
  then have run: "evaluateAssumptionInvalidation reviewPorts (nodeEvaluator (Some exampleModel)) evaluateExample
      (loggedWorld watchedLog 0) = ?append (loggedWorld watchedLog 5)"
    using watched_projection
    by (simp add: evaluateAssumptionInvalidation_def step_simps fields externalEvent load monitoring_records active found Let_def
        del: map_option_eq_Some)
  let ?q = "evaluationRequest evaluateExample evs 6 ?key ''h''"
  have q: "aprMeetingId ?q = ''m1''" "aprIdempotencyKey ?q = Some ?key" "aprEvents ?q = evs" "aprExpectedPosition ?q = Some 6"
    by (simp_all add: evaluationRequest_def fields)
  have keys: "?key \<noteq> []" "?key \<noteq> ''k0''" by (simp_all add: evaluationKey_def)
  have key: "?key = k" if "ev \<in> set evs" "evIdempotencyKey ev = Some k" for ev k
    using made that by (auto simp: evaluationMade_def fields)
  have "worldLog (snd (?append (loggedWorld watchedLog 5))) = (worldLog (loggedWorld watchedLog 5))(''m1'' := watchedLog @ evs)"
    unfolding appendEvaluation_def reviewPorts_def fields(1)
  proof (subst appendRequest_appends[OF ok q(1) _ q(2)])
    show "node.gives (\<lambda>_. ''e'') ((worldLog (loggedWorld watchedLog 5))(''m1'' := worldLog (loggedWorld watchedLog 5) ''m1'' @ aprEvents ?q))
        (bindC (loadState (sqlitePorts (\<lambda>_. ''e'') (\<lambda>_. 0) natString (\<lambda>_. ''h'')) ''m1'') (\<lambda>loaded.
         bindC (putMeeting (sqlitePorts (\<lambda>_. ''e'') (\<lambda>_. 0) natString (\<lambda>_. ''h'')) ''m1'' (lstProjection loaded)) (\<lambda>_.
         bindC (liftC (normalizeRecords (aprRecords \<lparr>aprReplayed = False, aprRecords = records\<rparr>))) (\<lambda>stored.
         case evaluationFromEvents (aprReplayed \<lparr>aprReplayed = False, aprRecords = records\<rparr>) stored of
           None \<Rightarrow> raiseC (JsError ''Invalidation append returned no complete evaluation'')
         | Some receipt \<Rightarrow> returnC receipt)))) (\<lambda>_. True)" for records
      by (intro node.gives_bind[OF node.gives_loadState] node.gives_bind[OF node.gives_put] node.gives_bind[OF node.gives_lift])
        (auto split: option.splits)
  qed (use logged monitoring_keys(6) evs(2) q keys key loggedWorld_log(3)[OF monitoring_keys(4,5)]
      in \<open>simp_all add: MAX_SAFE_INTEGER_def\<close>)
  moreover have "worldLog (loggedWorld watchedLog 5) = worldLog (loggedWorld watchedLog 0)"
    by (simp add: worldLog_def loggedWorld_def)
  ultimately show ?thesis using run evs(2) by (metis prod.collapse)
qed

subsection \<open>The run of an outside event\<close>

definition exampleChange :: regulatoryChange where
  "exampleChange = \<lparr>rgcCorrelationId = Some ''c1'', rgcDescription = ''d'', rgcEffectiveAt = isoString 0, rgcEventId = ''x2'',
     rgcEventType = ''regulatory_change'', rgcJurisdiction = ''EU'', rgcMeetingId = ''m1'', rgcMonitorRegistrationId = ''g1'',
     rgcPayloadHash = ''h'', rgcSource = ''s'', rgcSourceReference = ''s''\<rparr>"

lemma example_change_ids:
  "idempotencyKey ''x2'' = Inr ''x2''" "nonEmptyText ''d'' = Inr ''d''" "externalEventId ''x2'' = Inr ''x2''"
  "nonEmptyText ''regulatory_change'' = Inr ''regulatory_change''" "nonEmptyText ''EU'' = Inr ''EU''" "contentHash ''h'' = Inr ''h''"
  "nonEmptyText ''s'' = Inr ''s''" "monitorRegistrationId ''g1'' = Inr ''g1''" "correlationId ''c1'' = Inr ''c1''"
  "eventId ''event_1'' = Inr ''event_1''" "natString (Suc 0) = ''1''" "meetingPosition 6 = Inr 6" "revisionNumber 1 = Inr 1"
  by code_simp+

lemma example_external: "\<exists>x. makeExternalEvent ExternalSystem exampleChange ''m1'' ''g1'' (isoString 0) = Inr x"
proof -
  have "timestamp (isoString 0) = Inr (isoString 0)" by (simp add: timestamp_isoString MAX_TIME_def)
  then show ?thesis
    by (simp add: makeExternalEvent_def exampleChange_def example_change_ids createExternalEvent_def checked_def
        assertCommonRecord_def assertRecordScope_def domainCheck_def result_simps MAX_SAFE_INTEGER_def)
qed

lemma example_envelope:
  "\<exists>ev. changeEnvelope reviewPorts ExternalSystem exampleChange ''x2'' ''m1'' ''g1'' 5 (loggedWorld evs 0) =
     (Inr ev, loggedWorld evs 2) \<and> evIdempotencyKey ev = Some ''x2''"
proof -
  obtain x where "makeExternalEvent ExternalSystem exampleChange ''m1'' ''g1'' (isoString 0) = Inr x"
    using example_external by blast
  moreover have "rgcCorrelationId exampleChange = Some ''c1''" by (simp add: exampleChange_def)
  ultimately show ?thesis
    by (simp add: changeEnvelope_def step_simps example_change_ids numeral_2_eq_2)
qed

text \<open>The event of the outside system is recorded: one event follows the log.\<close>

lemma change_runs:
  "\<exists>ev r w'. receiveRegulatoryChange reviewPorts ExternalSystem exampleChange (loggedWorld monitoringLog 0) = (r, w') \<and>
     worldLog w' = (worldLog (loggedWorld monitoringLog 0))(''m1'' := monitoringLog @ [ev])"
proof -
  let ?records = "numberRecords 1 monitoringLog"
  obtain ev where ev: "changeEnvelope reviewPorts ExternalSystem exampleChange ''x2'' ''m1'' ''g1'' 5 (loggedWorld monitoringLog 0) =
     (Inr ev, loggedWorld monitoringLog 2)" "evIdempotencyKey ev = Some ''x2''" using example_envelope by blast
  obtain p where p: "projectRecords ''m1'' ?records = Inr p" "shpDecisions (mprShared p) = [monitoredDecision]"
    using monitoring_projection by blast
  note ok = loggedWorld_log(1)[OF monitoring_keys(1,2)] and logged = loggedWorld_log(2)[OF monitoring_keys(1,2)]
  have fields: "rgcMeetingId exampleChange = ''m1''" "rgcEventId exampleChange = ''x2''" "rgcMonitorRegistrationId exampleChange = ''g1''"
    by (simp_all add: exampleChange_def)
  have load: "prtLoad reviewPorts ''m1'' (loggedWorld monitoringLog 0) = (Inr ?records, loggedWorld monitoringLog 0)"
    using live.load_answers[OF ok, of "''m1''"] logged by (simp add: reviewPorts_def)
  have prior: "idempotentRecord ?records ''x2'' = None"
    by (simp add: idempotentRecord_def monitoringLog_def exampleEvent_def)
  have replayed: "replayMeeting ''m1'' monitoringLog = Inr p"
    using p(1) by (simp add: projectRecords_def monitoring_records)
  have monitored: "monitoredBy ''g1'' monitoredDecision"
    by (simp add: monitoredBy_def monitoredDecision_def exampleDecision_def)
  have position: "lastPosition ?records = 5" using lastPosition_number[of monitoringLog] monitoring_keys(3) by simp
  let ?append = "appendChange reviewPorts exampleChange ''m1'' ev 5"
  have run: "receiveRegulatoryChange reviewPorts ExternalSystem exampleChange (loggedWorld monitoringLog 0) =
      ?append (loggedWorld monitoringLog 2)"
    by (simp add: receiveRegulatoryChange_def step_simps fields example_change_ids load prior monitoring_records replayed
        p(2) monitored position ev(1))
  let ?q = "changeRequest exampleChange ev 5"
  have q: "aprMeetingId ?q = ''m1''" "aprIdempotencyKey ?q = Some ''x2''" "aprEvents ?q = [ev]" "aprExpectedPosition ?q = Some 5"
    by (simp_all add: changeRequest_def fields)
  have "worldLog (snd (?append (loggedWorld monitoringLog 2))) = (worldLog (loggedWorld monitoringLog 2))(''m1'' := monitoringLog @ [ev])"
    unfolding appendChange_def reviewPorts_def fields(1)
  proof (subst appendRequest_appends[OF ok q(1) _ q(2)])
    fix records
    let ?deps = "sqlitePorts (\<lambda>_. ''e'') (\<lambda>_. 0) natString (\<lambda>_. ''h'')"
    show "node.gives (\<lambda>_. ''e'') ((worldLog (loggedWorld monitoringLog 2))(''m1'' := worldLog (loggedWorld monitoringLog 2) ''m1'' @ aprEvents ?q))
        (bindC (liftC (eventAt externalEventIn (aprRecords \<lparr>aprReplayed = False, aprRecords = records\<rparr>))) (\<lambda>found.
         case found of
           None \<Rightarrow> raiseC (JsError ''External event append returned no receipt'')
         | Some x \<Rightarrow>
             bindC (portC (prtLoad ?deps ''m1'')) (\<lambda>records'.
             bindC (liftC (bindE (normalizeRecords records') (replayMeeting ''m1''))) (\<lambda>refreshed.
             bindC (putMeeting ?deps ''m1'' refreshed) (\<lambda>_.
             returnC (receivedAnswer (aprReplayed \<lparr>aprReplayed = False, aprRecords = records\<rparr>) x)))))) (\<lambda>_. True)"
      by (auto intro!: node.gives_bind[OF node.gives_lift] node.gives_bind[OF node.gives_load] node.gives_bind[OF node.gives_put]
          split: option.splits)
  qed (use logged monitoring_keys(3) q ev(2) loggedWorld_log(3)[OF monitoring_keys(1,2)]
      in \<open>simp_all add: MAX_SAFE_INTEGER_def\<close>)
  moreover have "worldLog (loggedWorld monitoringLog 2) = worldLog (loggedWorld monitoringLog 0)"
    by (simp add: worldLog_def loggedWorld_def)
  ultimately show ?thesis using run by (metis prod.collapse)
qed

end
