(* ===== verification/EvaluationRuns.thy ===== *)
theory EvaluationRuns
  imports EvaluationExample
begin

section \<open>Outside events and evaluations on the Node server\<close>

text \<open>
  What the commands of \<open>ExternalEvents\<close> and \<open>InvalidationEvaluations\<close> do to the Node server's world: the laws of
  \<open>EvaluationLogic\<close> at the interpretation of the ports by the SQLite store, whatever the language model answers.
\<close>

text \<open>Leave the log alone, and then an answer is a replay; or append \<open>evs\<close>, and then the answer is fresh and not a failure.\<close>

definition freshOutcome ::
  "('a \<Rightarrow> bool) \<Rightarrow> (domainEvent list \<Rightarrow> domainEvent list \<Rightarrow> bool) \<Rightarrow> string \<Rightarrow> sqliteWorld \<Rightarrow> abort + 'a \<Rightarrow> sqliteWorld \<Rightarrow> bool" where
  "freshOutcome replayed Q m w r w' \<longleftrightarrow>
     worldLog w' = worldLog w \<and> (\<forall>a. r = Inr a \<longrightarrow> replayed a) \<or>
     (\<exists>evs. worldLog w' = (worldLog w)(m := worldLog w m @ evs) \<and> Q (worldLog w m) evs \<and>
        (\<forall>f. r \<noteq> Inl (Failed f)) \<and> (\<forall>a. r = Inr a \<longrightarrow> \<not> replayed a))"

lemma affects_freshOutcome:
  assumes "node.affects enc (worldLog w) m c replayed (\<lambda>evs r. Q (worldLog w m) evs \<and> (\<forall>f. r \<noteq> Inl (Failed f)) \<and>
      (\<forall>a. r = Inr a \<longrightarrow> \<not> replayed a))"
    "worldOk enc w" "c w = (r, w')"
  shows "worldOk enc w' \<and> freshOutcome replayed Q m w r w'"
  using node.affectsD[OF assms(1,2) refl assms(3)]
  unfolding node.effect_def freshOutcome_def by blast

lemma freshOutcome_new:
  "freshOutcome replayed Q m w r w' \<Longrightarrow> worldLog w' m = worldLog w m @ evs \<Longrightarrow> evs \<noteq> [] \<Longrightarrow> Q (worldLog w m) evs"
  unfolding freshOutcome_def by (metis append_self_conv fun_upd_same same_append_eq)

text \<open>C24. Whatever the language model answers, an evaluation writes nothing (and then an answer is the recorded
  evaluation) or exactly two events: the suggestion, in the model's name, and directly after it, in the system's name
  and caused by it, the mark that puts the Decision at risk and changes nothing else of it. The suggestion is grounded:
  its Decision is monitored and waits for the outside event it names, it names premises of the committed revision that
  are confirmed and open Actions of that revision, each depending on one of these premises.\<close>

theorem evaluation_suggests_and_marks:
  assumes "worldOk enc w"
    and "evaluateAssumptionInvalidation (sqlitePorts enc clk uuid sha) (nodeEvaluator model) input w = (r, w')"
  shows "worldOk enc w' \<and> freshOutcome ercReplayed (evaluated input) (evnMeetingId input) w r w'"
  by (rule affects_freshOutcome, rule evaluating.evaluateAssumptionInvalidation_affects, rule assms(1), rule assms(2))

text \<open>C23. An event of the outside is recorded once: receiving it writes nothing (and then an answer is a replay) or one
  event at the end of the log, in the name of the system or of the participant who staged it. A Decision of the meeting
  waits for it, and only the system's events count as signed.\<close>

theorem outside_event_is_recorded_once:
  assumes "worldOk enc w" "trim (rgcEventId input) = rgcEventId input"
    and "receiveRegulatoryChange (sqlitePorts enc clk uuid sha) actor input w = (r, w')"
  shows "worldOk enc w' \<and> freshOutcome rchReplayed (\<lambda>log evs. \<exists>ev. evs = [ev] \<and> changeReceived actor input log ev)
    (rgcMeetingId input) w r w'"
proof (rule affects_freshOutcome)
  show "node.affects enc (worldLog w) (rgcMeetingId input) (receiveRegulatoryChange (sqlitePorts enc clk uuid sha) actor input)
      rchReplayed (\<lambda>evs r. (\<exists>ev. evs = [ev] \<and> changeReceived actor input (worldLog w (rgcMeetingId input)) ev) \<and>
        (\<forall>f. r \<noteq> Inl (Failed f)) \<and> (\<forall>a. r = Inr a \<longrightarrow> \<not> rchReplayed a))"
    by (rule node.affects_mono[OF node.receiveRegulatoryChange_affects[OF assms(2)]]) auto
qed (rule assms(1), rule assms(3))

text \<open>Staging the demo's event is reserved to a facilitator with the capability; the rest is as for any outside event.\<close>

theorem demo_event_is_staged_by_facilitator:
  assumes "worldOk enc w" "trim (''demo-regulator:'' @ idiIdempotencyKey input) = ''demo-regulator:'' @ idiIdempotencyKey input"
    and "injectDemoRegulatoryChange (sqlitePorts enc clk uuid sha) user input w = (r, w')"
  shows "worldOk enc w' \<and> (worldLog w' = worldLog w \<or>
    uctRole user = FacilitatorRole \<and> (\<exists>ev registration. worldLog w' = (worldLog w)(idiMeetingId input := worldLog w (idiMeetingId input) @ [ev]) \<and>
      changeReceived (ExternalParticipant (uctParticipantId user)) (demoChange input registration) (worldLog w (idiMeetingId input)) ev))"
  using node.affectsD[OF node.injectDemoRegulatoryChange_affects[OF assms(2)] assms(1) refl assms(3)]
  unfolding node.effect_def by blast

subsection \<open>Witnesses\<close>

theorem evaluation_suggests_and_marks_witness:
  "\<exists>r w' evs. evaluateAssumptionInvalidation (sqlitePorts (\<lambda>_. ''e'') (\<lambda>_. 0) natString (\<lambda>_. ''h''))
       (nodeEvaluator (Some exampleModel)) evaluateExample (loggedWorld watchedLog 0) = (r, w') \<and>
     worldLog w' ''m1'' = watchedLog @ evs \<and> length evs = 2 \<and> evaluated evaluateExample watchedLog evs"
proof -
  obtain evs r w' where run: "evaluateAssumptionInvalidation (sqlitePorts (\<lambda>_. ''e'') (\<lambda>_. 0) natString (\<lambda>_. ''h''))
       (nodeEvaluator (Some exampleModel)) evaluateExample (loggedWorld watchedLog 0) = (r, w')"
    and log: "worldLog w' = (worldLog (loggedWorld watchedLog 0))(''m1'' := watchedLog @ evs)" "length evs = 2"
    using evaluation_runs unfolding reviewPorts_def by blast
  have m: "evnMeetingId evaluateExample = ''m1''" by (simp add: evaluateExample_def)
  have old: "worldLog (loggedWorld watchedLog 0) ''m1'' = watchedLog" by (rule loggedWorld_log(2)[OF monitoring_keys(4,5)])
  have new: "worldLog w' ''m1'' = watchedLog @ evs" "evs \<noteq> []" using log by auto
  have "freshOutcome ercReplayed (evaluated evaluateExample) ''m1'' (loggedWorld watchedLog 0) r w'"
    using evaluation_suggests_and_marks[OF loggedWorld_log(1)[OF monitoring_keys(4,5)] run] by (simp add: m)
  from freshOutcome_new[OF this _ new(2)] new(1) old have "evaluated evaluateExample watchedLog evs" by simp
  with run new(1) log(2) show ?thesis by blast
qed

theorem outside_event_is_recorded_once_witness:
  "\<exists>r w' ev. receiveRegulatoryChange (sqlitePorts (\<lambda>_. ''e'') (\<lambda>_. 0) natString (\<lambda>_. ''h'')) ExternalSystem exampleChange
       (loggedWorld monitoringLog 0) = (r, w') \<and>
     worldLog w' ''m1'' = monitoringLog @ [ev] \<and> changeReceived ExternalSystem exampleChange monitoringLog ev"
proof -
  obtain ev r w' where run: "receiveRegulatoryChange (sqlitePorts (\<lambda>_. ''e'') (\<lambda>_. 0) natString (\<lambda>_. ''h'')) ExternalSystem
       exampleChange (loggedWorld monitoringLog 0) = (r, w')"
    and log: "worldLog w' = (worldLog (loggedWorld monitoringLog 0))(''m1'' := monitoringLog @ [ev])"
    using change_runs unfolding reviewPorts_def by blast
  have m: "rgcMeetingId exampleChange = ''m1''" by (simp add: exampleChange_def)
  have key: "trim (rgcEventId exampleChange) = rgcEventId exampleChange" by (simp add: exampleChange_def) code_simp
  have old: "worldLog (loggedWorld monitoringLog 0) ''m1'' = monitoringLog" by (rule loggedWorld_log(2)[OF monitoring_keys(1,2)])
  have new: "worldLog w' ''m1'' = monitoringLog @ [ev]" using log by simp
  have "freshOutcome rchReplayed (\<lambda>log evs. \<exists>ev. evs = [ev] \<and> changeReceived ExternalSystem exampleChange log ev) ''m1''
      (loggedWorld monitoringLog 0) r w'"
    using outside_event_is_recorded_once[OF loggedWorld_log(1)[OF monitoring_keys(1,2)] key run] by (simp add: m)
  from freshOutcome_new[OF this] new old have "changeReceived ExternalSystem exampleChange monitoringLog ev" by fastforce
  with run new show ?thesis by blast
qed

end
