(* ===== verification/MeetingExample.thy ===== *)
theory MeetingExample
  imports DisclosureExample Examples
begin

section \<open>A Decision, from the draft to the commitment\<close>

text \<open>
  The run of \<open>DisclosureExample\<close> goes on: a premise and an Action are confirmed, the facilitator saves a draft that
  refers to them and to the shared evidence, marks it ready and commits it.
\<close>

subsection \<open>The basis of the Decision\<close>

definition runPremise :: premise where
  "runPremise = \<lparr>recId = ''q1'', recMeetingId = ''m1'', recCreatedAt = ''t'', recCreatedBy = ''p1'',
     recOrigin = HumanInput, recConfirmation = Confirmed, recRevision = 1, recVisibility = Shared,
     recOwner = None, preStatement = ''s'', preDependencyScope = [], preMonitorCondition = None\<rparr>"

definition premiseEvent :: domainEvent where
  "premiseEvent = exampleEvent ''v6'' 6 SharedScope (InferenceConfirmed ''i1'' (ConfirmedPremise runPremise) ''p1'')"

definition actionEvent :: domainEvent where
  "actionEvent = exampleEvent ''v7'' 7 SharedScope
     (InferenceConfirmed ''i2'' (ConfirmedAction (exampleAction ''a1'' Planned)) ''p1'')"

definition basisRequest :: "domainEvent appendEventsRequest" where
  "basisRequest = \<lparr>aprEvents = [premiseEvent, actionEvent], aprExpectedPosition = Some 5, aprIdempotencyKey = Some ''k5'',
     aprMeetingId = ''m1'', aprPayloadFingerprint = None, aprTrustFingerprint = None\<rparr>"

abbreviation basisLog :: "domainEvent list" where
  "basisLog \<equiv> sharedLog @ [premiseEvent, actionEvent]"

lemma basis_other: "otherEvents ''m1'' sharedLog basisRequest"
proof -
  have pos: "meetingPosition 6 = Inr 6" "meetingPosition 7 = Inr 7" "meetingId ''m1'' = Inr ''m1''" by code_simp+
  have fits: "payloadFits premiseEvent" "payloadFits actionEvent"
    by (simp_all add: payloadFits_def premiseEvent_def actionEvent_def exampleEvent_def reduceSharedPayload_def
        reduceSharedContent_def validateEntityScope_def runPremise_def exampleAction_def
        createEmptySharedMeetingProjection_def)
  show ?thesis
    unfolding otherEvents_def
    by (simp add: basisRequest_def wellPlaced_def fits)
      (simp add: premiseEvent_def actionEvent_def exampleEvent_def pos guardedPayload_def lifePayload_def reviewPayload_def
        speechPayload_def floorPayload_def disclosurePayload_def)
qed

lemma basis_runs:
  assumes st: "stands sharedLog exampleStored keys n w" and k: "''k5'' \<notin> keys"
  shows "\<exists>out w'. prtAppend runPorts basisRequest w = (out, w') \<and> stands basisLog exampleStored (insert ''k5'' keys) n w'"
proof -
  have w: "worldOk (\<lambda>_. ''e'') w" "worldLog w ''m1'' = sharedLog" "keyUnused w ''m1'' ''k5''"
    using st k by (auto simp: stands_def)
  let ?records = "numberRecords (int (length (worldLog w (aprMeetingId basisRequest))) + 1) (aprEvents basisRequest)"
  have "fst (prtAppend runPorts basisRequest w) = Inr (Appended ?records)"
    by (rule live.append_answers[OF w(1), where k = "''k5''"])
      (simp_all add: basisRequest_def w(2,3) MAX_SAFE_INTEGER_def)
  then obtain w' where run: "prtAppend runPorts basisRequest w = (Inr (Appended ?records), w')" by (metis prod.collapse)
  have "worldOk (\<lambda>_. ''e'') (snd (prtAppend runPorts basisRequest w))"
    by (rule node.append_ok[OF w(1)]) (auto simp: basisRequest_def premiseEvent_def actionEvent_def exampleEvent_def)
  moreover have "worldLog w' = (worldLog w)(''m1'' := worldLog w ''m1'' @ [premiseEvent, actionEvent])"
    using node.append_new[OF w(1) run] by (simp add: basisRequest_def)
  moreover have "sameSurroundings ''m1'' ''k5'' w w'"
    using append_surroundings[OF w(1) run, of "''k5''"] by (simp add: basisRequest_def)
  ultimately have "appendedTo (\<lambda>_. ''e'') ''m1'' ''k5'' [premiseEvent, actionEvent] w w'"
    by (simp add: appendedTo_def run)
  from stands_appended[OF st this] run show ?thesis by blast
qed

subsection \<open>The commands of the facilitator\<close>

definition runFacilitator :: userContext where
  "runFacilitator = \<lparr>uctCapabilities = [DecisionCommit], uctMeetingId = ''m1'', uctParticipantId = ''p2'',
     uctRole = FacilitatorRole, uctSessionId = ''s2'', uctUserId = ''u2''\<rparr>"

definition facilitatorsEvent :: "'x mutationInput_scheme \<Rightarrow> string \<Rightarrow> string \<Rightarrow> domainEventPayload \<Rightarrow> domainEvent" where
  "facilitatorsEvent input i correlation payload =
     \<lparr>evEventId = ''event_'' @ i, evSchemaVersion = 1, evMeetingId = ''m1'',
      evPosition = mutExpectedPosition input + 1, evActor = ParticipantActor ''p2'',
      evOccurredAt = isoString 0, evCorrelationId = ''correlation_'' @ correlation, evCausationId = None,
      evIdempotencyKey = Some (mutIdempotencyKey input), evScope = SharedScope, evPayload = payload\<rparr>"

lemma facilitator_ids: "participantId ''p2'' = Inr ''p2''" "schemaVersion 1 = Inr 1" "meetingId ''m1'' = Inr ''m1''"
  by code_simp+

lemma facilitator_steps:
  assumes "plainInput input"
  shows "authorizeFacilitatorMutation runFacilitator input w = (Inr (), w)"
    and "n < 36 \<Longrightarrow> sharedCommandEvent runPorts input (participantActor runFacilitator) (''correlation_'' @ c) (isoString 0)
      (mutExpectedPosition input) (mutIdempotencyKey input) payload (atTick n w) =
        (Inr (facilitatorsEvent input (countedUuid n) c payload), atTick (Suc n) w)"
  using assms run_steps(1)[of "''event''"] counted_ids[of n] facilitator_ids
  by (simp_all add: plainInput_def authorizeFacilitatorMutation_def mayUse_iff step_simps runFacilitator_def
      sharedCommandEvent_def participantActor_def facilitatorsEvent_def)

lemma stands_state:
  assumes "stands log fs keys n w" "projectRecords ''m1'' (numberRecords 1 log) = Inr p"
  shows "loadState runPorts ''m1'' w = (Inr \<lparr>lstProjection = p, lstRecords = numberRecords 1 log\<rparr>, w)"
  using assms by (simp add: loadState_def stands_def step_simps prtLoad_node)

text \<open>The end of a Decision command: its event is appended.\<close>

lemma answer_stands:
  assumes "stands log fs keys n w" "plainInput input" "mutIdempotencyKey input = k" "k \<noteq> []" "k \<notin> keys"
    and "mutExpectedPosition input = int (length log)" "int (length log) + 1 \<le> MAX_SAFE_INTEGER" "evIdempotencyKey ev = Some k"
  shows "\<exists>r w'. appendAndAnswer runPorts input f ev p message select w = (r, w') \<and>
      stands (log @ [ev]) fs (insert k keys) n w'"
  unfolding appendAndAnswer_def
  by (rule command_stands(1)[OF assms(1-6)])
    (use assms(7,8) in \<open>auto simp: step_simps raiseC_def split: sum.splits option.splits\<close>)

subsection \<open>Saving the draft\<close>

definition runDraftInput :: saveDecisionDraftInput where
  "runDraftInput = \<lparr>mutCorrelationId = None, mutExpectedPosition = 7, mutIdempotencyKey = ''k6'',
    mutMeetingId = ''m1'', sdiActionIds = [''a1''], sdiDissentIds = [], sdiEvidenceIds = [''evidence_f''],
    sdiMonitorCondition = \<lparr>mciDescription = ''w'', mciRegistrationId = None\<rparr>, sdiOutcome = ''o'',
    sdiPremiseIds = [''q1''], sdiTitle = ''t'', sdiChangeReason = ''r'', sdiDecisionId = None\<rparr>"

definition runDecision :: "decisionStatus \<Rightarrow> decision" where
  "runDecision s = \<lparr>recId = ''decision_i'', recMeetingId = ''m1'', recCreatedAt = isoString 0,
       recCreatedBy = ''p2'', recOrigin = HumanInput, recConfirmation = Confirmed, recRevision = 1,
       recVisibility = Shared, recOwner = None, decTitle = ''t'',
       decOutcome = ''o'', decStatus = s, decActiveRevision = 1,
       decActiveRevisionId = ''decision-revision_j'', decPremiseIds = [''q1''],
       decEvidenceIds = [''evidence_f''], decDissentIds = [],
       decActionIds = [''a1''], decMonitorCondition = \<lparr>monDescription = ''w'', monRegistrationId = None\<rparr>,
       decSupersededBy = None\<rparr>"

definition runRevision :: decisionRevision where
  "runRevision = \<lparr>recId = ''decision-revision_j'', recMeetingId = ''m1'',
       recCreatedAt = isoString 0, recCreatedBy = ''p2'', recOrigin = HumanInput,
       recConfirmation = Confirmed, recRevision = 1, recVisibility = Shared, recOwner = None,
       drvDecisionId = ''decision_i'', drvVersion = 1, drvPreviousRevisionId = None,
       drvSnapshot = snapshotOf (runDecision DRAFT) DRAFT, drvChangeReason = ''r''\<rparr>"

definition runDrafted :: domainEvent where
  "runDrafted = facilitatorsEvent runDraftInput ''l'' ''k'' (DecisionDrafted (runDecision DRAFT) runRevision)"

abbreviation draftLog :: "domainEvent list" where
  "draftLog \<equiv> basisLog @ [runDrafted]"

lemma counted: "countedUuid 15 = ''f''" "countedUuid 18 = ''i''" "countedUuid 19 = ''j''" "countedUuid 20 = ''k''"
  "countedUuid 21 = ''l''" "countedUuid 23 = ''n''" "countedUuid 24 = ''o''" "countedUuid 26 = ''q''"
  "countedUuid 27 = ''r''" "countedUuid 28 = ''s''"
  by code_simp+

lemma run_places: "meetingPosition 5 = Inr 5" "meetingPosition 6 = Inr 6" "meetingPosition 7 = Inr 7"
  "meetingPosition 8 = Inr 8" "meetingPosition 9 = Inr 9" "meetingPosition 10 = Inr 10" "meetingPosition 1 = Inr 1"
  by code_simp+

lemma run_texts: "idempotencyKey ''k6'' = Inr ''k6''" "nonEmptyText ''w'' = Inr ''w''" "nonEmptyText ''o'' = Inr ''o''"
  "nonEmptyText ''t'' = Inr ''t''" "nonEmptyText ''r'' = Inr ''r''" "decisionId ''decision_i'' = Inr ''decision_i''"
  "decisionRevisionId ''decision-revision_j'' = Inr ''decision-revision_j''" "revisionNumber 1 = Inr 1"
  "premiseId ''q1'' = Inr ''q1''" "evidenceId ''evidence_f'' = Inr ''evidence_f''" "actionId ''a1'' = Inr ''a1''"
  by code_simp+

lemma plain_draft: "plainInput runDraftInput"
  using run_texts run_places by (simp add: plainInput_def runDraftInput_def)

lemmas run_event_defs = registeredText_def proposedRange_def previewedRange_def approvedRange_def sharedRange_def
  premiseEvent_def actionEvent_def runDrafted_def ownersEvent_def facilitatorsEvent_def exampleEvent_def
  register_input propose_input preview_input approve_input

lemmas run_replay_simps = replayMeeting_def reduceMeetingProjection_def Let_def findDuplicate_def reduceScopes_def
  reduceSharedEvent_def reduceSharedPayload_def reduceDecision_def reduceSharedContent_def validateEntityScope_def
  recordEvent_def isDemoResetCompleted_def createEmptyMeetingProjection_def createEmptySharedMeetingProjection_def
  upsertById_def reducePrivateWorkspace_def reduceWorkspace_def

lemma basis_records: "normalizeRecords (numberRecords 1 basisLog) = Inr basisLog"
  by (simp add: run_event_defs normalizeRecords_def normalizeRecord_def run_places example_positions)

text \<open>The shared projection of the logs of the run.\<close>

definition sharedOfRun :: "domainEvent list \<Rightarrow> decision list \<Rightarrow> decisionRevision list \<Rightarrow> bool" where
  "sharedOfRun log ds rvs \<longleftrightarrow>
     (\<exists>p. projectRecords ''m1'' (numberRecords 1 log) = Inr p \<and>
        shpDecisions (mprShared p) = ds \<and> shpDecisionRevisions (mprShared p) = rvs \<and>
        shpPremises (mprShared p) = [runPremise] \<and> shpEvidence (mprShared p) = [exampleEvidence] \<and>
        shpActions (mprShared p) = [exampleAction ''a1'' Planned])"

lemma run_healthy:
  assumes "reachable (\<lambda>_. ''e'') (\<lambda>_. 0) countedUuid (\<lambda>_. ''h'') w" "stands log fs keys n w" "distinct (map evEventId log)"
  shows "healthy ''m1'' log"
  using lawful_healthy[OF reachable_log[OF assms(1)], of "''m1''" "''m1''"] assms(2,3) facilitator_ids by (simp add: stands_def)

lemmas run_shared_simps = replaySharedMeeting_def isShared_def reduceSharedEvent_def reduceSharedPayload_def
  reduceDecision_def reduceSharedContent_def validateEntityScope_def createEmptySharedMeetingProjection_def upsertById_def
  Let_def

lemma basis_shared:
  assumes "healthy ''m1'' basisLog"
  shows "sharedOfRun basisLog [] []"
proof -
  obtain p where p: "projectRecords ''m1'' (numberRecords 1 basisLog) = Inr p"
    "replaySharedMeeting ''m1'' (filter isShared basisLog) = Inr (mprShared p)"
    by (rule healthy_shared[OF assms basis_records facilitator_ids(3)])
  have "filter isShared basisLog = [sharedRange, premiseEvent, actionEvent]"
    by (simp add: isShared_def run_event_defs)
  with p(2) have "replaySharedMeeting ''m1'' [sharedRange, premiseEvent, actionEvent] = Inr (mprShared p)" by simp
  then have "shpDecisions (mprShared p) = [] \<and> shpDecisionRevisions (mprShared p) = [] \<and>
      shpPremises (mprShared p) = [runPremise] \<and> shpEvidence (mprShared p) = [exampleEvidence] \<and>
        shpActions (mprShared p) = [exampleAction ''a1'' Planned]"
    by (simp add: run_shared_simps run_event_defs runPremise_def exampleAction_def exampleEvidence_def) (elim subst, simp)
  with p(1) show ?thesis by (simp add: sharedOfRun_def)
qed

definition runPrepared :: preparedDraft where
  "runPrepared = \<lparr>pdrActionIds = [''a1''], pdrDissentIds = [], pdrEvidenceIds = [''evidence_f''],
          pdrMonitorCondition = \<lparr>monDescription = ''w'', monRegistrationId = None\<rparr>,
          pdrOutcome = ''o'', pdrPremiseIds = [''q1''], pdrTitle = ''t''\<rparr>"

lemma draft_input:
  "mutExpectedPosition runDraftInput = 7" "mutIdempotencyKey runDraftInput = ''k6''" "mutMeetingId runDraftInput = ''m1''"
  "sdiDecisionId runDraftInput = None"
  by (simp_all add: runDraftInput_def)

lemma draft_valid: "validateDraft runPorts runDraftInput w = (Inr (runPrepared, ''r'', ''k6'', 7, ''h''), w)"
  by (simp add: validateDraft_def step_simps prepareDraft_def runDraftInput_def runPrepared_def run_texts run_places run_steps(3))

lemma run_decision: "createDecision (runDecision DRAFT) = Inr (runDecision DRAFT)"
  by (simp add: createDecision_Inr decisionOk_def recordOk_def runDecision_def MAX_SAFE_INTEGER_def)

lemma run_revision: "createDecisionRevision runRevision = Inr runRevision"
  by (simp add: createDecisionRevision_Inr revisionOk_def recordOk_def runRevision_def runDecision_def snapshotOf_def MAX_SAFE_INTEGER_def)

lemma draft_made:
  assumes "shpDecisions (mprShared p) = []" "shpDecisionRevisions (mprShared p) = []"
  shows "makeDraft runPorts runFacilitator runDraftInput \<lparr>lstProjection = p, lstRecords = rs\<rparr> runPrepared ''r'' (atTick 17 w) =
    (Inr (runDecision DRAFT, runRevision), atTick 20 w)"
proof -
  have now: "prtNow runPorts (atTick 17 w) = (isoString 0, atTick 18 w)" "timestamp (isoString 0) = Inr (isoString 0)"
    by (simp_all add: sqlitePorts_def systemNow_def timestamp_isoString MAX_TIME_def)
  have ids: "prtNext runPorts ''decision'' (atTick 18 w) = (''decision_i'', atTick 19 w)"
    "prtNext runPorts ''decision-revision'' (atTick 19 w) = (''decision-revision_j'', atTick 20 w)"
    using run_steps(1)[of "''decision''" 18 w] run_steps(1)[of "''decision-revision''" 19 w] by (simp_all add: counted)
  have "newDraft runPorts runFacilitator runDraftInput \<lparr>lstProjection = p, lstRecords = rs\<rparr> runPrepared ''r'' (isoString 0)
      (atTick 18 w) = (Inr (runDecision DRAFT, runRevision), atTick 20 w)"
    using run_decision run_revision assms facilitator_ids
    by (simp add: newDraft_def step_simps ids run_texts findDecision_def initialRevision_def runDecision_def runRevision_def
      draft_input runFacilitator_def runPrepared_def)
  moreover have "drvVersion runRevision = 1" "drvPreviousRevisionId runRevision = None" by (simp_all add: runRevision_def)
  ultimately show ?thesis using assms run_revision
    by (simp add: makeDraft_def requireCondition_def step_simps appendDecisionRevision_def latestRevision_def findLast_def
      draft_input now)
qed

lemma draft_runs:
  assumes st: "stands basisLog exampleStored keys 17 w" and k: "''k6'' \<notin> keys" and shared: "sharedOfRun basisLog [] []"
  shows "\<exists>r w'. saveDecisionDraft runPorts runFacilitator runDraftInput w = (r, w') \<and>
    stands draftLog exampleStored (insert ''k6'' keys) 22 w'"
proof -
  obtain p where p: "projectRecords ''m1'' (numberRecords 1 basisLog) = Inr p" "shpDecisions (mprShared p) = []"
    "shpDecisionRevisions (mprShared p) = []" using shared by (auto simp: sharedOfRun_def)
  have new: "idempotentRecord (numberRecords 1 basisLog) ''k6'' = None"
    by (simp add: idempotentRecord_def run_event_defs)
  have corr: "commandCorrelationId runPorts runDraftInput (atTick 20 w) = (Inr (''correlation_'' @ ''k''), atTick 21 w)"
    using run_fields(2)[OF plain_draft, of 20 w] by (simp add: counted)
  have at: "recCreatedAt runRevision = isoString 0" by (simp add: runRevision_def)
  have ev: "sharedCommandEvent runPorts runDraftInput (participantActor runFacilitator) (''correlation_'' @ ''k'') (isoString 0)
      7 ''k6'' (DecisionDrafted (runDecision DRAFT) runRevision) (atTick 21 w) = (Inr runDrafted, atTick 22 w)"
    using facilitator_steps(2)[OF plain_draft, of 21 "''k''" "DecisionDrafted (runDecision DRAFT) runRevision" w]
    by (simp add: counted draft_input runDrafted_def)
  show ?thesis
    unfolding saveDecisionDraft_def draft_input
    apply (rule runsI, rule facilitator_steps(1)[OF plain_draft], rule runsI, rule draft_valid, simp only: prod.case)
    apply (rule runsI, rule stands_state[OF st p(1)], simp only: loadedState.simps new option.case)
    apply (subst stands_tick[OF st])
    apply (rule runsI, rule draft_made[OF p(2,3)], simp only: prod.case)
    apply (rule runsI, rule corr, rule runsI, simp only: at, rule ev)
    apply (rule answer_stands[OF stands_atTick[OF st] plain_draft])
         apply (use k in \<open>simp_all add: draft_input MAX_SAFE_INTEGER_def runDrafted_def facilitatorsEvent_def\<close>)
    done
qed

subsection \<open>Marking it ready\<close>

definition runReadyInput :: decisionCommandInput where
  "runReadyInput = \<lparr>mutCorrelationId = None, mutExpectedPosition = 8, mutIdempotencyKey = ''k7'', mutMeetingId = ''m1'',
      dciDecisionId = ''decision_i''\<rparr>"

definition runReady :: domainEvent where
  "runReady = facilitatorsEvent runReadyInput ''o'' ''n'' (DecisionMarkedReady (runDecision DECISION_READY))"

abbreviation readyLog :: "domainEvent list" where
  "readyLog \<equiv> draftLog @ [runReady]"

lemma ready_input:
  "mutExpectedPosition runReadyInput = 8" "mutIdempotencyKey runReadyInput = ''k7''" "mutMeetingId runReadyInput = ''m1''"
  "dciDecisionId runReadyInput = ''decision_i''"
  by (simp_all add: runReadyInput_def)

lemma ready_key: "idempotencyKey ''k7'' = Inr ''k7''" "idempotencyKey ''k8'' = Inr ''k8''"
  by code_simp+

lemma plain_ready: "plainInput runReadyInput"
  using ready_key run_places by (simp add: plainInput_def runReadyInput_def)

lemma draft_records: "normalizeRecords (numberRecords 1 draftLog) = Inr draftLog"
  by (simp add: run_event_defs normalizeRecords_def normalizeRecord_def run_places example_positions draft_input)

lemma draft_shared:
  assumes "healthy ''m1'' draftLog"
  shows "sharedOfRun draftLog [runDecision DRAFT] [runRevision]"
proof -
  obtain p where p: "projectRecords ''m1'' (numberRecords 1 draftLog) = Inr p"
    "replaySharedMeeting ''m1'' (filter isShared draftLog) = Inr (mprShared p)"
    by (rule healthy_shared[OF assms draft_records facilitator_ids(3)])
  have "filter isShared draftLog = [sharedRange, premiseEvent, actionEvent, runDrafted]"
    by (simp add: isShared_def run_event_defs)
  with p(2) have "replaySharedMeeting ''m1'' [sharedRange, premiseEvent, actionEvent, runDrafted] = Inr (mprShared p)" by simp
  then have "shpDecisions (mprShared p) = [runDecision DRAFT] \<and> shpDecisionRevisions (mprShared p) = [runRevision] \<and>
      shpPremises (mprShared p) = [runPremise] \<and> shpEvidence (mprShared p) = [exampleEvidence] \<and>
        shpActions (mprShared p) = [exampleAction ''a1'' Planned]"
    by (simp add: run_shared_simps run_event_defs draft_input runPremise_def exampleAction_def exampleEvidence_def runDecision_def
        runRevision_def) (elim subst, simp)
  with p(1) show ?thesis by (simp add: sharedOfRun_def)
qed

lemma ready_valid:
  "validateDecisionCommand runPorts runReadyInput f w = (Inr (''decision_i'', ''k7'', 8, ''h''), w)"
  by (simp add: validateDecisionCommand_def step_simps ready_input ready_key run_texts run_places run_steps(3))

lemma ready_references:
  assumes "shpPremises (mprShared p) = [runPremise]" "shpEvidence (mprShared p) = [exampleEvidence]"
    "shpActions (mprShared p) = [exampleAction ''a1'' Planned]"
  shows "allReferencesExist p (runDecision DRAFT)"
    "deriveCanonicalReadiness p (runDecision DRAFT) =
      \<lparr>rdyOutcome = True, rdyPremiseIds = True, rdyEvidenceIds = True, rdyActionIds = True, rdyMonitorCondition = True\<rparr>"
  using assms
  by (simp_all add: allReferencesExist_def deriveCanonicalReadiness_def containsAll_def runDecision_def)
    (simp_all add: runPremise_def exampleEvidence_def exampleAction_def counted)

lemma run_ready_transition:
  assumes "deriveCanonicalReadiness p (runDecision DRAFT) =
      \<lparr>rdyOutcome = True, rdyPremiseIds = True, rdyEvidenceIds = True, rdyActionIds = True, rdyMonitorCondition = True\<rparr>"
  shows "readyDecision runFacilitator p (runDecision DRAFT) = Inr (runDecision DECISION_READY)"
  using assms facilitator_ids
  by (simp add: readyDecision_def runFacilitator_def transitionDecision_def plainRequest_def decisionTransitionMatrix_def
      requireFacilitator_def requireCondition_def replaceDecisionStatus_def createDecision_Inr decisionOk_def readinessComplete_def
      recordOk_def runDecision_def result_simps MAX_SAFE_INTEGER_def)

lemma ready_runs:
  assumes st: "stands draftLog exampleStored keys 22 w" and k: "''k7'' \<notin> keys"
    and shared: "sharedOfRun draftLog [runDecision DRAFT] [runRevision]"
  shows "\<exists>r w'. markDecisionReady runPorts runFacilitator runReadyInput w = (r, w') \<and>
    stands readyLog exampleStored (insert ''k7'' keys) 25 w'"
proof -
  obtain p where p: "projectRecords ''m1'' (numberRecords 1 draftLog) = Inr p" "shpDecisions (mprShared p) = [runDecision DRAFT]"
    "shpPremises (mprShared p) = [runPremise]" "shpEvidence (mprShared p) = [exampleEvidence]"
    "shpActions (mprShared p) = [exampleAction ''a1'' Planned]" using shared by (auto simp: sharedOfRun_def)
  note refs = ready_references[OF p(3-5)]
  have new: "idempotentRecord (numberRecords 1 draftLog) ''k7'' = None"
    by (simp add: idempotentRecord_def run_event_defs draft_input)
  have found: "requireDecision \<lparr>lstProjection = p, lstRecords = rs\<rparr> ''decision_i'' v = (Inr (runDecision DRAFT), v)" for rs v
    by (simp add: requireDecision_def findDecision_def p(2) step_simps) (simp add: runDecision_def)
  have go: "unlessC True code v = (Inr (), v)" for code and v :: sqliteWorld by (simp add: step_simps)
  have complete: "readinessComplete (Some (deriveCanonicalReadiness p (runDecision DRAFT)))" by (simp add: refs(2) readinessComplete_def)
  have moved: "tryC transitionFailure (liftC (readyDecision runFacilitator p (runDecision DRAFT))) v =
      (Inr (runDecision DECISION_READY), v)" for v :: sqliteWorld
    by (simp add: step_simps run_ready_transition[OF refs(2)])
  have clock: "tryC validationHandler (clockNow runPorts) (atTick 22 w) = (Inr (isoString 0), atTick 23 w)"
    using run_steps(2)[of 22 w] by (simp add: tryC_def)
  have corr: "commandCorrelationId runPorts runReadyInput (atTick 23 w) = (Inr (''correlation_'' @ ''n''), atTick 24 w)"
    using run_fields(2)[OF plain_ready, of 23 w] by (simp add: counted)
  have ev: "sharedCommandEvent runPorts runReadyInput (participantActor runFacilitator) (''correlation_'' @ ''n'') (isoString 0)
      8 ''k7'' (DecisionMarkedReady (runDecision DECISION_READY)) (atTick 24 w) = (Inr runReady, atTick 25 w)"
    using facilitator_steps(2)[OF plain_ready, of 24 "''n''" "DecisionMarkedReady (runDecision DECISION_READY)" w]
    by (simp add: counted ready_input runReady_def)
  show ?thesis
    unfolding markDecisionReady_def ready_input
    apply (rule runsI, rule facilitator_steps(1)[OF plain_ready], rule runsI, rule ready_valid, simp only: prod.case)
    apply (rule runsI, rule stands_state[OF st p(1)], simp only: loadedState.simps new option.case)
    apply (rule runsI, rule found, simp only: refs(1) complete)
    apply (rule runsI, rule go, rule runsI, rule go, rule runsI, rule moved)
    apply (subst stands_tick[OF st])
    apply (rule runsI, rule clock, rule runsI, rule corr, rule runsI, rule ev)
    apply (rule answer_stands[OF stands_atTick[OF st] plain_ready])
         apply (use k in \<open>simp_all add: ready_input MAX_SAFE_INTEGER_def runReady_def facilitatorsEvent_def\<close>)
    done
qed

subsection \<open>Committing it\<close>

definition runCommitInput :: commitDecisionInput where
  "runCommitInput = \<lparr>mutCorrelationId = None, mutExpectedPosition = 9, mutIdempotencyKey = ''k8'', mutMeetingId = ''m1'',
      dciDecisionId = ''decision_i'', cdiExplicitCommit = True\<rparr>"

definition runCommitRevision :: decisionRevision where
  "runCommitRevision = \<lparr>recId = ''decision-revision_q'', recMeetingId = ''m1'',
       recCreatedAt = isoString 0, recCreatedBy = ''p2'', recOrigin = HumanInput,
       recConfirmation = Confirmed, recRevision = 2, recVisibility = Shared, recOwner = None,
       drvDecisionId = ''decision_i'', drvVersion = 2, drvPreviousRevisionId = Some ''decision-revision_j'',
       drvSnapshot = snapshotOf (runDecision COMMITTED) COMMITTED, drvChangeReason = ''Explicit facilitator commitment''\<rparr>"

definition runCommitted :: decision where
  "runCommitted = (runDecision COMMITTED)\<lparr>decActiveRevision := 2, decActiveRevisionId := ''decision-revision_q'', recRevision := 2\<rparr>"

definition runCommit :: domainEvent where
  "runCommit = facilitatorsEvent runCommitInput ''s'' ''r'' (DecisionCommitted runCommitted runCommitRevision)"

abbreviation commitLog :: "domainEvent list" where
  "commitLog \<equiv> readyLog @ [runCommit]"

lemma commit_input:
  "mutExpectedPosition runCommitInput = 9" "mutIdempotencyKey runCommitInput = ''k8''" "mutMeetingId runCommitInput = ''m1''"
  "dciDecisionId runCommitInput = ''decision_i''" "cdiExplicitCommit runCommitInput"
  by (simp_all add: runCommitInput_def)

lemma plain_commit: "plainInput runCommitInput"
  using ready_key run_places by (simp add: plainInput_def runCommitInput_def)

lemma ready_records: "normalizeRecords (numberRecords 1 readyLog) = Inr readyLog"
  by (simp add: run_event_defs runReady_def normalizeRecords_def normalizeRecord_def run_places example_positions draft_input
      ready_input)

lemma ready_shared:
  assumes "healthy ''m1'' readyLog"
  shows "sharedOfRun readyLog [runDecision DECISION_READY] [runRevision]"
proof -
  obtain p where p: "projectRecords ''m1'' (numberRecords 1 readyLog) = Inr p"
    "replaySharedMeeting ''m1'' (filter isShared readyLog) = Inr (mprShared p)"
    by (rule healthy_shared[OF assms ready_records facilitator_ids(3)])
  have "filter isShared readyLog = [sharedRange, premiseEvent, actionEvent, runDrafted, runReady]"
    by (simp add: isShared_def run_event_defs runReady_def)
  with p(2) have "replaySharedMeeting ''m1'' [sharedRange, premiseEvent, actionEvent, runDrafted, runReady] = Inr (mprShared p)"
    by simp
  then have "shpDecisions (mprShared p) = [runDecision DECISION_READY] \<and> shpDecisionRevisions (mprShared p) = [runRevision] \<and>
      shpPremises (mprShared p) = [runPremise] \<and> shpEvidence (mprShared p) = [exampleEvidence] \<and>
        shpActions (mprShared p) = [exampleAction ''a1'' Planned]"
    by (simp add: run_shared_simps run_event_defs runReady_def draft_input ready_input runPremise_def exampleAction_def
        exampleEvidence_def runDecision_def runRevision_def) (elim subst, simp)
  with p(1) show ?thesis by (simp add: sharedOfRun_def)
qed

lemma commit_valid:
  "validateDecisionCommand runPorts runCommitInput f w = (Inr (''decision_i'', ''k8'', 9, ''h''), w)"
  by (simp add: validateDecisionCommand_def step_simps commit_input ready_key run_texts run_places run_steps(3))

lemma run_commit_transition:
  "transitionDecision (runDecision DECISION_READY)
     ((plainRequest COMMITTED (FacilitatorAuthority ''p2''))\<lparr>reqExplicitCommit := Some True\<rparr>) = Inr (runDecision COMMITTED)"
  by (simp add: transitionDecision_def plainRequest_def decisionTransitionMatrix_def
      requireFacilitator_def requireCondition_def replaceDecisionStatus_def createDecision_Inr decisionOk_def
      recordOk_def runDecision_def result_simps MAX_SAFE_INTEGER_def)

lemma commit_texts: "nonEmptyText ''Explicit facilitator commitment'' = Inr ''Explicit facilitator commitment''"
  "decisionRevisionId ''decision-revision_q'' = Inr ''decision-revision_q''" "revisionNumber 2 = Inr 2"
  by code_simp+

lemma commit_revision: "createDecisionRevision runCommitRevision = Inr runCommitRevision"
  by (simp add: createDecisionRevision_Inr revisionOk_def recordOk_def runCommitRevision_def runDecision_def snapshotOf_def
      MAX_SAFE_INTEGER_def)

lemma commit_follows:
  "nextDecisionRevision (runDecision DECISION_READY) \<lparr>nriId = ''decision-revision_q'',
     nriChangeReason = ''Explicit facilitator commitment'', nriCreatedAt = isoString 0, nriCreatedBy = ''p2'',
     nriSnapshot = snapshotOf (runDecision COMMITTED) COMMITTED\<rparr> = Inr runCommitRevision"
  "appendDecisionRevision [runRevision] runCommitRevision = Inr [runRevision, runCommitRevision]"
  "decisionFromRevision (runDecision COMMITTED) runCommitRevision = Inr runCommitted"
proof -
  have "recMeetingId (runDecision DECISION_READY) = ''m1''" "recId (runDecision DECISION_READY) = ''decision_i''"
    "decActiveRevision (runDecision DECISION_READY) = 1" "decActiveRevisionId (runDecision DECISION_READY) = ''decision-revision_j''"
    by (simp_all add: runDecision_def)
  then show "nextDecisionRevision (runDecision DECISION_READY) \<lparr>nriId = ''decision-revision_q'',
     nriChangeReason = ''Explicit facilitator commitment'', nriCreatedAt = isoString 0, nriCreatedBy = ''p2'',
     nriSnapshot = snapshotOf (runDecision COMMITTED) COMMITTED\<rparr> = Inr runCommitRevision"
    using commit_revision commit_texts by (simp add: nextDecisionRevision_def runCommitRevision_def)
  have rv: "recId runRevision = ''decision-revision_j''" "drvDecisionId runRevision = ''decision_i''" "drvVersion runRevision = 1"
    "recId runCommitRevision = ''decision-revision_q''" "drvDecisionId runCommitRevision = ''decision_i''"
    "drvVersion runCommitRevision = 2" "drvPreviousRevisionId runCommitRevision = Some ''decision-revision_j''"
    by (simp_all add: runRevision_def runCommitRevision_def)
  show "appendDecisionRevision [runRevision] runCommitRevision = Inr [runRevision, runCommitRevision]"
    using commit_revision commit_texts by (simp add: appendDecisionRevision_def rv latestRevision_def findLast_def requireCondition_def)
  show "decisionFromRevision (runDecision COMMITTED) runCommitRevision = Inr runCommitted"
    by (simp add: decisionFromRevision_def runCommitRevision_def snapshotOf_def runCommitted_def runDecision_def createDecision_Inr
        decisionOk_def recordOk_def MAX_SAFE_INTEGER_def)
qed

lemma commit_made:
  assumes "shpDecisionRevisions (mprShared p) = [runRevision]"
  shows "makeCommit runPorts runFacilitator \<lparr>lstProjection = p, lstRecords = rs\<rparr> (runDecision DECISION_READY) (atTick 25 w) =
    (Inr (runCommitted, runCommitRevision), atTick 27 w)"
proof -
  have clock: "clockNow runPorts (atTick 25 w) = (Inr (isoString 0), atTick 26 w)" using run_steps(2)[of 25 w] by simp
  have rid: "prtNext runPorts ''decision-revision'' (atTick 26 w) = (''decision-revision_q'', atTick 27 w)"
    using run_steps(1)[of "''decision-revision''" 26 w] by (simp add: counted)
  have user: "uctParticipantId runFacilitator = ''p2''" by (simp add: runFacilitator_def)
  show ?thesis
    unfolding makeCommit_def user
    by (simp add: step_simps facilitator_ids run_commit_transition clock commit_texts rid commit_follows assms)
qed

lemma commit_runs:
  assumes st: "stands readyLog exampleStored keys 25 w" and k: "''k8'' \<notin> keys"
    and shared: "sharedOfRun readyLog [runDecision DECISION_READY] [runRevision]"
  shows "\<exists>r w'. commitDecision runPorts runFacilitator runCommitInput w = (r, w') \<and>
    stands commitLog exampleStored (insert ''k8'' keys) 29 w'"
proof -
  obtain p where p: "projectRecords ''m1'' (numberRecords 1 readyLog) = Inr p" "shpDecisions (mprShared p) = [runDecision DECISION_READY]"
    "shpDecisionRevisions (mprShared p) = [runRevision]" using shared by (auto simp: sharedOfRun_def)
  have new: "idempotentRecord (numberRecords 1 readyLog) ''k8'' = None"
    by (simp add: idempotentRecord_def run_event_defs runReady_def draft_input ready_input)
  have found: "requireDecision \<lparr>lstProjection = p, lstRecords = rs\<rparr> ''decision_i'' v = (Inr (runDecision DECISION_READY), v)" for rs v
    by (simp add: requireDecision_def findDecision_def p(2) step_simps) (simp add: runDecision_def)
  have go: "unlessC True code v = (Inr (), v)" for code and v :: sqliteWorld by (simp add: step_simps)
  have active: "hasActiveRevision \<lparr>lstProjection = p, lstRecords = rs\<rparr> (runDecision DECISION_READY)" for rs
    by (simp add: hasActiveRevision_def p(3) runRevision_def runDecision_def)
  have corr: "commandCorrelationId runPorts runCommitInput (atTick 27 w) = (Inr (''correlation_'' @ ''r''), atTick 28 w)"
    using run_fields(2)[OF plain_commit, of 27 w] by (simp add: counted)
  have at: "recCreatedAt runCommitRevision = isoString 0" by (simp add: runCommitRevision_def)
  have ev: "sharedCommandEvent runPorts runCommitInput (participantActor runFacilitator) (''correlation_'' @ ''r'') (isoString 0)
      9 ''k8'' (DecisionCommitted runCommitted runCommitRevision) (atTick 28 w) = (Inr runCommit, atTick 29 w)"
    using facilitator_steps(2)[OF plain_commit, of 28 "''r''" "DecisionCommitted runCommitted runCommitRevision" w]
    by (simp add: counted commit_input runCommit_def)
  show ?thesis
    unfolding commitDecision_def commit_input
    apply (rule runsI, rule facilitator_steps(1)[OF plain_commit], rule runsI, rule commit_valid, simp only: prod.case)
    apply (rule runsI, rule stands_state[OF st p(1)], simp only: loadedState.simps new option.case commit_input)
    apply (rule runsI, rule go, rule runsI, rule found, simp only: active)
    apply (rule runsI, rule go)
    apply (subst stands_tick[OF st])
    apply (rule runsI, rule commit_made[OF p(3)], simp only: prod.case)
    apply (rule runsI, rule corr, rule runsI, simp only: at, rule ev)
    apply (rule answer_stands[OF stands_atTick[OF st] plain_commit])
         apply (use k in \<open>simp_all add: commit_input MAX_SAFE_INTEGER_def runCommit_def facilitatorsEvent_def\<close>)
    done
qed

subsection \<open>The worlds of the run\<close>

abbreviation runReachable :: "sqliteWorld \<Rightarrow> bool" where
  "runReachable \<equiv> reachable (\<lambda>_. ''e'') (\<lambda>_. 0) countedUuid (\<lambda>_. ''h'')"

lemma commitLog_ids: "distinct (map evEventId commitLog)"
  by (simp add: run_event_defs runReady_def runCommit_def) (simp add: countedUuid_def)

lemma run_ids: "distinct (map evEventId basisLog)" "distinct (map evEventId draftLog)" "distinct (map evEventId readyLog)"
  using commitLog_ids by simp_all

lemma decision_run:
  obtains w1 r2 w2 r3 w3 where
    "runReachable w1" "worldLog w1 ''m1'' = draftLog"
    "markDecisionReady runPorts runFacilitator runReadyInput w1 = (r2, w2)" "runReachable w2" "worldLog w2 ''m1'' = readyLog"
    "commitDecision runPorts runFacilitator runCommitInput w2 = (r3, w3)" "runReachable w3" "worldLog w3 ''m1'' = commitLog"
proof -
  have trimmed: "trim ''k6'' = ''k6''" "trim ''k7'' = ''k7''" "trim ''k8'' = ''k8''" by code_simp+
  obtain w where w: "runReachable w" "stands sharedLog exampleStored {''k4'', ''k3'', ''k2'', ''k1''} 17 w"
    using disclosure_stands by blast
  obtain out w0 where 0: "prtAppend runPorts basisRequest w = (out, w0)"
    "stands basisLog exampleStored {''k5'', ''k4'', ''k3'', ''k2'', ''k1''} 17 w0" using basis_runs[OF w(2)] by auto
  have "otherEvents ''m1'' (worldLog w ''m1'') basisRequest" using basis_other w(2) by (simp add: stands_def)
  from reachable_step[OF w(1) step_other[OF this 0(1)]] have r0: "runReachable w0" .
  obtain r1 w1 where 1: "saveDecisionDraft runPorts runFacilitator runDraftInput w0 = (r1, w1)"
    "stands draftLog exampleStored {''k6'', ''k5'', ''k4'', ''k3'', ''k2'', ''k1''} 22 w1"
    using draft_runs[OF 0(2) _ basis_shared[OF run_healthy[OF r0 0(2) run_ids(1)]]] by auto
  have s1: "runReachable w1" by (rule reachable_step[OF r0 step_draft[OF _ 1(1)]]) (simp add: draft_input trimmed)
  obtain r2 w2 where 2: "markDecisionReady runPorts runFacilitator runReadyInput w1 = (r2, w2)"
    "stands readyLog exampleStored {''k7'', ''k6'', ''k5'', ''k4'', ''k3'', ''k2'', ''k1''} 25 w2"
    using ready_runs[OF 1(2) _ draft_shared[OF run_healthy[OF s1 1(2) run_ids(2)]]] by auto
  have s2: "runReachable w2" by (rule reachable_step[OF s1 step_ready[OF _ 2(1)]]) (simp add: ready_input trimmed)
  obtain r3 w3 where 3: "commitDecision runPorts runFacilitator runCommitInput w2 = (r3, w3)"
    "stands commitLog exampleStored {''k8'', ''k7'', ''k6'', ''k5'', ''k4'', ''k3'', ''k2'', ''k1''} 29 w3"
    using commit_runs[OF 2(2) _ ready_shared[OF run_healthy[OF s2 2(2) run_ids(3)]]] by auto
  have s3: "runReachable w3" by (rule reachable_step[OF s2 step_commit[OF _ 3(1)]]) (simp add: commit_input trimmed)
  show thesis by (rule that[OF s1 _ 2(1) s2 _ 3(1) s3]) (use 1(2) 2(2) 3(2) in \<open>simp_all add: stands_def\<close>)
qed

subsection \<open>The properties of \<open>MeetingRuns\<close> on this run\<close>

lemma run_world_ok: "runReachable w \<Longrightarrow> worldOk (\<lambda>_. ''e'') w"
  using reachable_lawful by (auto simp: lawfulWorld_def)

lemma run_keys: "trim ''k7'' = ''k7''" "trim ''k8'' = ''k8''" "trim ''decision_i'' = ''decision_i''"
  by code_simp+

text \<open>The draft is marked ready: the command appends \<open>runReady\<close>, whose Decision is complete in the meeting before it.\<close>

theorem ready_needs_complete_shared_references_witness:
  "\<exists>w r w'. runReachable w \<and> worldLog w ''m1'' = draftLog \<and>
     markDecisionReady runPorts runFacilitator runReadyInput w = (r, w') \<and> worldLog w' ''m1'' = draftLog @ [runReady] \<and>
     readyEffect runFacilitator ''m1'' ''decision_i'' draftLog runReady"
proof -
  obtain w r w' where run: "runReachable w" "worldLog w ''m1'' = draftLog"
    "markDecisionReady runPorts runFacilitator runReadyInput w = (r, w')" "worldLog w' ''m1'' = draftLog @ [runReady]"
    by (rule decision_run) simp
  from ready_needs_complete_shared_references[OF run_world_ok[OF run(1)] _ run(3)] run(2,4)
  have "readyEffect runFacilitator ''m1'' ''decision_i'' draftLog runReady"
    by (auto simp: commandOutcome_def ready_input run_keys dest: fun_cong[where x = "''m1''"])
  with run show ?thesis by blast
qed

text \<open>The ready Decision is committed: the command appends \<open>runCommit\<close>, on the explicit request of the facilitator.\<close>

theorem commit_is_explicit_and_gated_witness:
  "\<exists>w r w'. runReachable w \<and> worldLog w ''m1'' = readyLog \<and>
     commitDecision runPorts runFacilitator runCommitInput w = (r, w') \<and> worldLog w' ''m1'' = readyLog @ [runCommit] \<and>
     commitEffect runFacilitator ''m1'' ''decision_i'' readyLog runCommit"
proof -
  obtain w r w' where run: "runReachable w" "worldLog w ''m1'' = readyLog"
    "commitDecision runPorts runFacilitator runCommitInput w = (r, w')" "worldLog w' ''m1'' = readyLog @ [runCommit]"
    by (rule decision_run) simp
  from commit_is_explicit_and_gated[OF run_world_ok[OF run(1)] _ run(3)] run(2,4)
  have "commitEffect runFacilitator ''m1'' ''decision_i'' readyLog runCommit"
    by (auto simp: commandOutcome_def commit_input run_keys dest: fun_cong[where x = "''m1''"])
  with run show ?thesis by blast
qed

text \<open>The log of ten events replays.\<close>

theorem reachable_meetings_replay_witness:
  "\<exists>p. projectRecords ''m1'' (numberRecords 1 commitLog) = Inr p \<and> projectionOk p \<and> mprPosition p = 10"
proof -
  obtain w where w: "runReachable w" "worldLog w ''m1'' = commitLog" by (rule decision_run)
  have "distinct (map evEventId (worldLog w ''m1''))" unfolding w(2) by (rule commitLog_ids)
  from reachable_meetings_replay[OF w(1) this facilitator_ids(3)] show ?thesis unfolding w(2) by auto
qed

text \<open>Before the ready mark there is the draft, before the commitment the ready mark.\<close>

theorem reachable_log_follows_life_cycle_witness:
  "(\<exists>old \<in> set draftLog. \<exists>c r. evPayload old = DecisionDrafted c r \<and> recId c = ''decision_i'' \<and>
      snapshotOf c DRAFT = snapshotOf (runDecision DECISION_READY) DRAFT) \<and>
   (\<exists>old \<in> set readyLog. \<exists>c. evPayload old = DecisionMarkedReady c \<and> recId c = ''decision_i'' \<and>
      snapshotOf c COMMITTED = snapshotOf runCommitted COMMITTED)"
proof -
  obtain w where w: "runReachable w" "worldLog w ''m1'' = commitLog" by (rule decision_run)
  have ids: "distinct (map evEventId (worldLog w ''m1''))" unfolding w(2) by (rule commitLog_ids)
  have at: "worldLog w ''m1'' = draftLog @ runReady # [runCommit]" "worldLog w ''m1'' = readyLog @ runCommit # []"
    by (simp_all add: w(2))
  have pay: "evPayload runReady = DecisionMarkedReady (runDecision DECISION_READY)"
    "evPayload runCommit = DecisionCommitted runCommitted runCommitRevision"
    by (simp_all add: runReady_def runCommit_def facilitatorsEvent_def)
  have name: "recId (runDecision s) = ''decision_i''" "recId runCommitted = ''decision_i''" for s
    by (simp_all add: runDecision_def runCommitted_def)
  have life: "lifePayload (evPayload runReady)" "lifePayload (evPayload runCommit)" by (simp_all add: pay lifePayload_def)
  from reachable_log_follows_life_cycle[OF w(1) at(1) ids life(1)] reachable_log_follows_life_cycle[OF w(1) at(2) ids life(2)]
  show ?thesis unfolding followsLifeCycle_def pay domainEventPayload.case name by blast
qed

end
