(* ===== verification/PasswordHashes.thy ===== *)
theory PasswordHashes
  imports Bytes Values
begin

section \<open>Password hashes and tokens: \<open>packages/adapters-node/src/identity.ts\<close>\<close>

text \<open>
  The encoded scrypt hash that the Node server stores for a user, its parser, the hasher and the
  verifier. The key derivation \<open>kdf\<close> (scrypt itself) and the random salt come from outside. base64url is
  the encoding of Node's \<open>Buffer\<close>; on texts that no bytes encode to, where Node decodes leniently,
  \<open>base64Decode\<close> may be \<open>None\<close>: the parser rejects those texts in either case, because it encodes the
  decoded bytes again and compares.
\<close>

subsection \<open>base64url\<close>

definition base64Alphabet :: string where
  "base64Alphabet = ''ABCDEFGHIJKLMNOPQRSTUVWXYZabcdefghijklmnopqrstuvwxyz0123456789-_''"

definition base64Char :: "nat \<Rightarrow> char" where
  "base64Char n = base64Alphabet ! n"

fun indexOf :: "char \<Rightarrow> string \<Rightarrow> nat option" where
  "indexOf c [] = None"
| "indexOf c (d # ds) = (if c = d then Some 0 else map_option Suc (indexOf c ds))"

definition base64Value :: "char \<Rightarrow> nat option" where
  "base64Value c = indexOf c base64Alphabet"

fun base64Encode :: "bytes \<Rightarrow> string" where
  "base64Encode [] = []"
| "base64Encode [a] = map base64Char [unat a div 4, unat a mod 4 * 16]"
| "base64Encode [a, b] = map base64Char [unat a div 4, unat a mod 4 * 16 + unat b div 16, unat b mod 16 * 4]"
| "base64Encode (a # b # c # bs) =
     map base64Char [unat a div 4, unat a mod 4 * 16 + unat b div 16, unat b mod 16 * 4 + unat c div 64, unat c mod 64] @
     base64Encode bs"

fun sextets :: "nat list \<Rightarrow> bytes option" where
  "sextets [] = Some []"
| "sextets [v, w] = Some [byte (v * 4 + w div 16)]"
| "sextets [v, w, x] = Some [byte (v * 4 + w div 16), byte (w mod 16 * 16 + x div 4)]"
| "sextets (v # w # x # y # vs) =
     map_option ((@) [byte (v * 4 + w div 16), byte (w mod 16 * 16 + x div 4), byte (x mod 4 * 64 + y)]) (sextets vs)"
| "sextets [v] = None"

definition base64Decode :: "string \<Rightarrow> bytes option" where
  "base64Decode s =
     (let vs = map base64Value s in
      if None \<in> set vs then None else sextets (map the vs))"

lemma base64_table: "\<forall>n \<in> set (upt 0 64). base64Value (base64Char n) = Some n"
  by code_simp

lemma base64Value_char [simp]: "n < 64 \<Longrightarrow> base64Value (base64Char n) = Some n"
  using base64_table by simp

lemma byte_bound: "unat (a :: 8 word) < 256"
proof -
  have "unat a < 2 ^ LENGTH(8)" by (rule unsigned_less)
  then show ?thesis by simp
qed

lemma byte_parts:
  fixes a :: "8 word"
  shows "unat a div 4 \<le> 63" "unat a mod 4 \<le> 3" "unat a div 16 \<le> 15" "unat a mod 16 \<le> 15"
    "unat a div 64 \<le> 3" "unat a mod 64 \<le> 63"
    "unat a div 16 mod 16 * 16 + unat a mod 16 = unat a" "unat a div 64 mod 4 * 64 + unat a mod 64 = unat a"
    "unat a div 16 div 16 = 0" "unat a div 64 div 4 = 0"
proof -
  let ?n = "unat a"
  have q: "?n div 4 < 64" "?n div 16 < 16" "?n div 64 < 4"
    using byte_bound[of a] by (simp_all add: less_mult_imp_div_less)
  then show "?n div 4 \<le> 63" "?n div 16 \<le> 15" "?n div 64 \<le> 3" "?n div 16 div 16 = 0" "?n div 64 div 4 = 0"
    by simp_all
  show "?n div 16 mod 16 * 16 + ?n mod 16 = ?n" "?n div 64 mod 4 * 64 + ?n mod 64 = ?n"
    using q by (simp_all only: mod_less div_mult_mod_eq)
  show "?n mod 4 \<le> 3" "?n mod 16 \<le> 15" "?n mod 64 \<le> 63"
    using mod_less_divisor[of 4 ?n] mod_less_divisor[of 16 ?n] mod_less_divisor[of 64 ?n] by linarith+
qed

lemma base64_digits [simp]:
  fixes a b c :: "8 word"
  shows "unat a div 4 < 64" "unat a mod 4 * 16 < 64" "unat a mod 4 * 16 + unat b div 16 < 64"
    "unat b mod 16 * 4 < 64" "unat b mod 16 * 4 + unat c div 64 < 64" "unat c mod 64 < 64"
  using byte_parts(1,2)[of a] byte_parts(3,4)[of b] byte_parts(5,6)[of c] by linarith+

lemma sextet_bytes:
  fixes a b c :: "8 word"
  shows "byte (unat a) = a" "byte (unat a + unat b div 16 div 16) = a" "byte (unat b div 16 mod 16 * 16 + unat b mod 16) = b"
    "byte (unat b div 16 mod 16 * 16 + (unat b mod 16 + unat c div 64 div 4)) = b"
    "byte (unat c div 64 mod 4 * 64 + unat c mod 64) = c"
proof -
  show a: "byte (unat a) = a" for a by (simp add: byte_def)
  show "byte (unat a + unat b div 16 div 16) = a" "byte (unat b div 16 mod 16 * 16 + unat b mod 16) = b"
    "byte (unat b div 16 mod 16 * 16 + (unat b mod 16 + unat c div 64 div 4)) = b"
    "byte (unat c div 64 mod 4 * 64 + unat c mod 64) = c"
    by (simp_all only: byte_parts(7-10) add_0_right a)
qed

lemma base64_values: "list_all (\<lambda>c. base64Value c \<noteq> None) (base64Encode bs) \<and>
   sextets (map (the \<circ> base64Value) (base64Encode bs)) = Some bs"
  by (induction bs rule: base64Encode.induct) (simp_all add: sextet_bytes)

lemma base64_roundtrip: "base64Decode (base64Encode bs) = Some bs"
proof -
  have "None \<notin> set (map base64Value (base64Encode bs))"
    using base64_values[of bs] by (auto simp: list_all_iff)
  with base64_values[of bs] show ?thesis by (simp add: base64Decode_def Let_def)
qed

lemma base64_plain: "CHR ''$'' \<notin> set (base64Encode bs)"
proof
  assume "CHR ''$'' \<in> set (base64Encode bs)"
  with base64_values[of bs] have "base64Value (CHR ''$'') \<noteq> None" by (auto simp: list_all_iff)
  moreover have "base64Value (CHR ''$'') = None" by code_simp
  ultimately show False by simp
qed

subsection \<open>Splitting a text\<close>

fun splitOn :: "char \<Rightarrow> string \<Rightarrow> string list" where
  "splitOn d [] = [[]]"
| "splitOn d (c # cs) =
     (if c = d then [] # splitOn d cs
      else case splitOn d cs of [] \<Rightarrow> [[c]] | s # ss \<Rightarrow> (c # s) # ss)"

lemma splitOn_field: "d \<notin> set s \<Longrightarrow> splitOn d (s @ d # cs) = s # splitOn d cs"
  by (induction s) auto

lemma splitOn_last: "d \<notin> set s \<Longrightarrow> splitOn d s = [s]"
  by (induction s) auto

lemma splitOn_join:
  "ss \<noteq> [] \<Longrightarrow> (\<And>s. s \<in> set ss \<Longrightarrow> d \<notin> set s) \<Longrightarrow> splitOn d (joinWith [d] ss) = ss"
proof (induction ss rule: induct_list012)
  case (2 s)
  then show ?case by (simp add: splitOn_last)
next
  case (3 s t ss)
  from 3(2)[of] 3(4) have "splitOn d (joinWith [d] (t # ss)) = t # ss" by simp
  with 3(4)[of s] show ?case by (simp add: splitOn_field)
qed simp

subsection \<open>Encoded scrypt hashes\<close>

definition SCRYPT_COST :: int where "SCRYPT_COST = 16384"
definition SCRYPT_BLOCK_SIZE :: int where "SCRYPT_BLOCK_SIZE = 8"
definition SCRYPT_PARALLELIZATION :: int where "SCRYPT_PARALLELIZATION = 1"
definition SCRYPT_KEY_BYTES :: nat where "SCRYPT_KEY_BYTES = 32"
definition SCRYPT_SALT_BYTES :: nat where "SCRYPT_SALT_BYTES = 16"

definition isDigit :: "char \<Rightarrow> bool" where
  "isDigit c \<longleftrightarrow> 48 \<le> codeUnit c \<and> codeUnit c \<le> 57"

definition digitsValue :: "string \<Rightarrow> int" where
  "digitsValue s = foldl (\<lambda>n c. 10 * n + (int (codeUnit c) - 48)) 0 s"

definition parsePositiveInteger :: "string \<Rightarrow> int option" where
  "parsePositiveInteger s =
     (case s of
        [] \<Rightarrow> None
      | c # cs \<Rightarrow>
          if isDigit c \<and> c \<noteq> CHR ''0'' \<and> list_all isDigit cs \<and> isSafeInteger (digitsValue s)
          then Some (digitsValue s) else None)"

definition parseScryptHash :: "string \<Rightarrow> (bytes \<times> bytes) option" where
  "parseScryptHash encoded =
     (case splitOn (CHR ''$'') encoded of
        [format, version, cost, blockSize, parallelization, encodedSalt, encodedKey] \<Rightarrow>
          if format \<noteq> ''scrypt'' \<or> version \<noteq> ''v1'' then None
          else if parsePositiveInteger cost \<noteq> Some SCRYPT_COST \<or>
                  parsePositiveInteger blockSize \<noteq> Some SCRYPT_BLOCK_SIZE \<or>
                  parsePositiveInteger parallelization \<noteq> Some SCRYPT_PARALLELIZATION then None
          else (case (base64Decode encodedSalt, base64Decode encodedKey) of
                  (Some salt, Some key) \<Rightarrow>
                    if length salt \<noteq> SCRYPT_SALT_BYTES \<or> length key \<noteq> SCRYPT_KEY_BYTES \<or>
                       base64Encode salt \<noteq> encodedSalt \<or> base64Encode key \<noteq> encodedKey then None
                    else Some (salt, key)
                | _ \<Rightarrow> None)
      | _ \<Rightarrow> None)"

definition isScryptPasswordHash :: "string \<Rightarrow> bool" where
  "isScryptPasswordHash encoded \<longleftrightarrow> parseScryptHash encoded \<noteq> None"

text \<open>\<open>timingSafeEqual\<close> compares buffers of one length and throws on others.\<close>

definition timingSafeEqual :: "bytes \<Rightarrow> bytes \<Rightarrow> exn + bool" where
  "timingSafeEqual a b =
     (if length a \<noteq> length b then Inl (RangeError ''Input buffers must have the same byte length'')
      else Inr (a = b))"

definition hashPassword ::
  "(string \<Rightarrow> bytes \<Rightarrow> exn + bytes) \<Rightarrow> bytes \<Rightarrow> string \<Rightarrow> exn + string" where
  "hashPassword kdf salt password =
     (if password = [] then Inl (TypeError ''Password must not be empty'')
      else bindE (kdf password salt) (\<lambda>key.
        Inr (joinWith ''$''
          [''scrypt'', ''v1'', intString SCRYPT_COST, intString SCRYPT_BLOCK_SIZE,
           intString SCRYPT_PARALLELIZATION, base64Encode salt, base64Encode key])))"

definition verifyPassword ::
  "(string \<Rightarrow> bytes \<Rightarrow> exn + bytes) \<Rightarrow> string \<Rightarrow> string \<Rightarrow> exn + bool" where
  "verifyPassword kdf password encoded =
     (case parseScryptHash encoded of
        None \<Rightarrow> Inr False
      | Some (salt, key) \<Rightarrow> bindE (kdf password salt) (\<lambda>candidate. timingSafeEqual candidate key))"

lemma scrypt_texts:
  "intString SCRYPT_COST = ''16384''" "intString SCRYPT_BLOCK_SIZE = ''8''" "intString SCRYPT_PARALLELIZATION = ''1''"
  by (simp_all add: SCRYPT_COST_def SCRYPT_BLOCK_SIZE_def SCRYPT_PARALLELIZATION_def intString_def natString.simps digitChar_def)
    code_simp+

lemma scrypt_numbers:
  "parsePositiveInteger ''16384'' = Some SCRYPT_COST" "parsePositiveInteger ''8'' = Some SCRYPT_BLOCK_SIZE"
  "parsePositiveInteger ''1'' = Some SCRYPT_PARALLELIZATION"
  by code_simp+

lemma hashPassword_Inr:
  assumes "hashPassword kdf salt password = Inr encoded" "length salt = SCRYPT_SALT_BYTES"
    and "\<And>key. kdf password salt = Inr key \<Longrightarrow> length key = SCRYPT_KEY_BYTES"
  shows "\<exists>key. kdf password salt = Inr key \<and> parseScryptHash encoded = Some (salt, key)"
proof -
  let ?fields = "\<lambda>key. [''scrypt'', ''v1'', intString SCRYPT_COST, intString SCRYPT_BLOCK_SIZE,
           intString SCRYPT_PARALLELIZATION, base64Encode salt, base64Encode key]"
  from assms(1) obtain key where key: "kdf password salt = Inr key"
    and encoded: "encoded = joinWith ''$'' (?fields key)"
    by (auto simp: hashPassword_def result_simps split: if_splits)
  have "splitOn (CHR ''$'') encoded = ?fields key"
    unfolding encoded by (rule splitOn_join) (use base64_plain in \<open>auto simp: scrypt_texts\<close>)
  then have "parseScryptHash encoded = Some (salt, key)"
    using scrypt_numbers assms(2) assms(3)[OF key]
    by (simp add: parseScryptHash_def base64_roundtrip scrypt_texts)
  with key show ?thesis by blast
qed

end
