(* ===== verification/Accounts.thy ===== *)
theory Accounts
  imports Commands PasswordHashes
begin

section \<open>Identities, sessions and meetings\<close>

text \<open>
  The repositories of \<open>packages/ports/src/repositories.ts\<close>, the session commands of
  \<open>packages/application/src/sessions.ts\<close>, the meeting commands of
  \<open>packages/application/src/meetings.ts\<close>, and the SQLite repositories of
  \<open>packages/adapters-node/src/repositories.ts\<close> that the Node server gives them. Rejections are
  failures; exceptions, a broken SQL constraint among them, are raised.
\<close>

subsection \<open>Records\<close>

record identityRecord =
  idnActive :: bool
  idnPasswordHash :: string
  idnUserId :: string

record meetingRecord =
  mrcActive :: bool
  mrcCode :: string
  mrcCreatedByUserId :: string
  mrcFacilitatorParticipantId :: string
  mrcMeetingId :: string
  mrcPurpose :: string

record assignmentRecord =
  asnActive :: bool
  asnMeetingId :: string
  asnParticipantId :: string
  asnRole :: contextRole
  asnUserId :: string

record sessionRecord =
  ssnAbsoluteExpiresAt :: string
  ssnCreatedAt :: string
  ssnLastActivityAt :: string
  ssnRevokedAt :: "string option"
  ssnSessionId :: string
  ssnTokenHash :: string
  ssnUserId :: string

record sessionToken =
  tokHash :: string
  tokValue :: string

record 'w sessionPorts =
  spoNow :: "'w \<Rightarrow> string \<times> 'w"
  spoNext :: "string \<Rightarrow> 'w \<Rightarrow> string \<times> 'w"
  spoFindUser :: "string \<Rightarrow> 'w \<Rightarrow> (exn + identityRecord option) \<times> 'w"
  spoVerify :: "string \<Rightarrow> string \<Rightarrow> 'w \<Rightarrow> (exn + bool) \<times> 'w"
  spoDigest :: "string \<Rightarrow> 'w \<Rightarrow> (exn + string) \<times> 'w"
  spoIssue :: "'w \<Rightarrow> (exn + sessionToken) \<times> 'w"
  spoFindById :: "string \<Rightarrow> 'w \<Rightarrow> (exn + sessionRecord option) \<times> 'w"
  spoFindByTokenHash :: "string \<Rightarrow> 'w \<Rightarrow> (exn + sessionRecord option) \<times> 'w"
  spoPut :: "sessionRecord \<Rightarrow> 'w \<Rightarrow> (exn + unit) \<times> 'w"
  spoRevoke :: "string \<Rightarrow> string \<Rightarrow> 'w \<Rightarrow> (exn + unit) \<times> 'w"
  spoTouch :: "string \<Rightarrow> string \<Rightarrow> 'w \<Rightarrow> (exn + unit) \<times> 'w"

record 'w meetingPorts =
  mpoNext :: "string \<Rightarrow> 'w \<Rightarrow> string \<times> 'w"
  mpoCreate :: "meetingRecord \<Rightarrow> assignmentRecord list \<Rightarrow> 'w \<Rightarrow> (exn + unit) \<times> 'w"
  mpoFindAssignment :: "string \<Rightarrow> string \<Rightarrow> 'w \<Rightarrow> (exn + assignmentRecord option) \<times> 'w"
  mpoFindByCode :: "string \<Rightarrow> 'w \<Rightarrow> (exn + meetingRecord option) \<times> 'w"
  mpoFindById :: "string \<Rightarrow> 'w \<Rightarrow> (exn + meetingRecord option) \<times> 'w"
  mpoListAssignments :: "string \<Rightarrow> 'w \<Rightarrow> (exn + assignmentRecord list) \<times> 'w"
  mpoListAssigned :: "string \<Rightarrow> 'w \<Rightarrow> (exn + meetingRecord list) \<times> 'w"

subsection \<open>Sessions\<close>

definition SESSION_INACTIVITY_MS :: int where "SESSION_INACTIVITY_MS = 2 * 60 * 60 * 1000"
definition SESSION_ABSOLUTE_MS :: int where "SESSION_ABSOLUTE_MS = 8 * 60 * 60 * 1000"

definition timestampMs :: "string \<Rightarrow> exn + int" where
  "timestampMs value =
     (case dateParse value of
        None \<Rightarrow> Inl (JsError ''Clock returned a non-ISO timestamp'')
      | Some ms \<Rightarrow> Inr ms)"

definition isoTimestamp :: "int \<Rightarrow> exn + string" where
  "isoTimestamp ms =
     (if \<bar>ms\<bar> \<le> MAX_TIME then Inr (isoString ms) else Inl (RangeError ''Invalid time value''))"

definition sessionExpired :: "int \<Rightarrow> sessionRecord \<Rightarrow> exn + bool" where
  "sessionExpired nowMs session =
     bindE (timestampMs (ssnAbsoluteExpiresAt session)) (\<lambda>absolute.
     if nowMs \<ge> absolute then Inr True
     else bindE (timestampMs (ssnLastActivityAt session)) (\<lambda>last.
       Inr (nowMs - last \<ge> SESSION_INACTIVITY_MS)))"

definition authenticateStoredSession ::
  "'w sessionPorts \<Rightarrow> bool \<Rightarrow> sessionRecord option \<Rightarrow> ('w, sessionRecord) command" where
  "authenticateStoredSession deps touchActivity stored =
     (case stored of
        None \<Rightarrow> failC AUTHENTICATION_REQUIRED
      | Some session \<Rightarrow>
          if ssnRevokedAt session \<noteq> None then failC AUTHENTICATION_REQUIRED
          else
            bindC (readC (spoNow deps)) (\<lambda>now.
            bindC (liftC (timestampMs now)) (\<lambda>nowMs.
            bindC (liftC (sessionExpired nowMs session)) (\<lambda>expired.
            if expired then
              bindC (portC (spoRevoke deps (ssnSessionId session) now)) (\<lambda>_. failC SESSION_EXPIRED)
            else
              bindC (if touchActivity then portC (spoTouch deps (ssnSessionId session) now) else returnC ()) (\<lambda>_.
              returnC (session\<lparr>ssnLastActivityAt := if touchActivity then now else ssnLastActivityAt session\<rparr>))))))"

record loginAnswer =
  lgaBearerToken :: string
  lgaExpiresAt :: string
  lgaUserId :: string

definition checkPassword ::
  "'w sessionPorts \<Rightarrow> string \<Rightarrow> identityRecord option \<Rightarrow> ('w, identityRecord) command" where
  "checkPassword deps password found =
     (case found of
        None \<Rightarrow> failC AUTHENTICATION_REQUIRED
      | Some identity \<Rightarrow>
          if \<not> idnActive identity then failC AUTHENTICATION_REQUIRED
          else bindC (portC (spoVerify deps password (idnPasswordHash identity))) (\<lambda>ok.
               if ok then returnC identity else failC AUTHENTICATION_REQUIRED))"

definition login :: "'w sessionPorts \<Rightarrow> string \<Rightarrow> string \<Rightarrow> ('w, loginAnswer) command" where
  "login deps password user =
     bindC (portC (spoFindUser deps user)) (\<lambda>found.
     bindC (checkPassword deps password found) (\<lambda>identity.
     bindC (readC (spoNow deps)) (\<lambda>now.
     bindC (liftC (timestampMs now)) (\<lambda>nowMs.
     bindC (portC (spoIssue deps)) (\<lambda>token.
     bindC (liftC (isoTimestamp (nowMs + SESSION_ABSOLUTE_MS))) (\<lambda>expires.
     bindC (readC (spoNext deps ''session'')) (\<lambda>sid.
     bindC (portC (spoPut deps
       \<lparr>ssnAbsoluteExpiresAt = expires, ssnCreatedAt = now, ssnLastActivityAt = now, ssnRevokedAt = None,
        ssnSessionId = sid, ssnTokenHash = tokHash token, ssnUserId = idnUserId identity\<rparr>)) (\<lambda>_.
     returnC \<lparr>lgaBearerToken = tokValue token, lgaExpiresAt = expires, lgaUserId = idnUserId identity\<rparr>))))))))"

definition authenticateSession :: "'w sessionPorts \<Rightarrow> string \<Rightarrow> ('w, sessionRecord) command" where
  "authenticateSession deps bearer =
     (if bearer = [] then failC AUTHENTICATION_REQUIRED
      else bindC (portC (spoDigest deps bearer)) (\<lambda>hash.
           bindC (portC (spoFindByTokenHash deps hash)) (authenticateStoredSession deps True)))"

definition authenticateSessionById :: "'w sessionPorts \<Rightarrow> string \<Rightarrow> bool \<Rightarrow> ('w, sessionRecord) command" where
  "authenticateSessionById deps sid touchActivity =
     (if sid = [] then failC AUTHENTICATION_REQUIRED
      else bindC (portC (spoFindById deps sid)) (authenticateStoredSession deps touchActivity))"

definition logout :: "'w sessionPorts \<Rightarrow> string \<Rightarrow> ('w, unit) command" where
  "logout deps bearer =
     bindC (portC (spoDigest deps bearer)) (\<lambda>hash.
     bindC (portC (spoFindByTokenHash deps hash)) (\<lambda>stored.
     case stored of
       None \<Rightarrow> returnC ()
     | Some session \<Rightarrow>
         if ssnRevokedAt session \<noteq> None then returnC ()
         else bindC (readC (spoNow deps)) (\<lambda>now. portC (spoRevoke deps (ssnSessionId session) now))))"

subsection \<open>Capabilities\<close>

definition capabilitiesForRole :: "contextRole \<Rightarrow> bool \<Rightarrow> permission list" where
  "capabilitiesForRole role judgeManagedAi =
     [MeetingRead, PrivateReadOwn, ArtifactCreateOwn, DisclosureProposeOwn, DisclosureApproveOwn] @
     (if role = FacilitatorRole
      then [DecisionCommit, DecisionReviewConfirm, DemoEventInject, DemoReset, ByokConfigure] else []) @
     (if judgeManagedAi then [JudgeManagedAi] else [])"

text \<open>The policy: the users with managed AI, when there is such a list.\<close>

definition userAuthorizationContext ::
  "string \<Rightarrow> string \<Rightarrow> contextRole \<Rightarrow> string \<Rightarrow> string \<Rightarrow> string list option \<Rightarrow> userContext" where
  "userAuthorizationContext m participant role sid user policy =
     \<lparr>uctCapabilities = capabilitiesForRole role
        (case policy of None \<Rightarrow> False | Some users \<Rightarrow> List.member users user),
      uctMeetingId = m, uctParticipantId = participant, uctRole = role, uctSessionId = sid, uctUserId = user\<rparr>"

subsection \<open>Meetings\<close>

definition MINIMUM_PARTICIPANTS :: nat where "MINIMUM_PARTICIPANTS = 3"
definition MAXIMUM_PARTICIPANTS :: nat where "MAXIMUM_PARTICIPANTS = 8"

record meetingUser =
  mruRole :: contextRole
  mruUserId :: string

record createdMeeting =
  crmAssignments :: "assignmentRecord list"
  crmMeeting :: meetingRecord

definition meetingUsersOk :: "string \<Rightarrow> meetingUser list \<Rightarrow> bool" where
  "meetingUsersOk creator users \<longleftrightarrow>
     (let facilitators = filter (\<lambda>u. mruRole u = FacilitatorRole) users in
      \<not> (length users < MINIMUM_PARTICIPANTS \<or> MAXIMUM_PARTICIPANTS < length users \<or>
         length (remdups (map mruUserId users)) \<noteq> length users \<or>
         length facilitators \<noteq> 1 \<or> mruUserId (hd facilitators) \<noteq> creator))"

fun assignUsers :: "'w meetingPorts \<Rightarrow> string \<Rightarrow> meetingUser list \<Rightarrow> ('w, assignmentRecord list) command" where
  "assignUsers deps m [] = returnC []"
| "assignUsers deps m (u # us) =
     bindC (readC (mpoNext deps ''participant'')) (\<lambda>p.
     bindC (assignUsers deps m us) (\<lambda>rest.
     returnC (\<lparr>asnActive = True, asnMeetingId = m, asnParticipantId = p, asnRole = mruRole u,
       asnUserId = mruUserId u\<rparr> # rest)))"

definition createMeetingRecord ::
  "'w meetingPorts \<Rightarrow> userContext \<Rightarrow> string \<Rightarrow> meetingUser list \<Rightarrow> ('w, createdMeeting) command" where
  "createMeetingRecord deps context text users =
     bindC (unlessC (uctRole context = FacilitatorRole) FORBIDDEN) (\<lambda>_.
     bindC (unlessC (trim text \<noteq> [] \<and> meetingUsersOk (uctUserId context) users) VALIDATION_FAILED) (\<lambda>_.
     bindC (readC (mpoNext deps ''meeting'')) (\<lambda>m.
     bindC (assignUsers deps m users) (\<lambda>assignments.
     case findFirst (\<lambda>a. asnRole a = FacilitatorRole) assignments of
       None \<Rightarrow> raiseC (JsError ''Validated meeting lost its facilitator assignment'')
     | Some facilitator \<Rightarrow>
         bindC (readC (mpoNext deps ''meeting-code'')) (\<lambda>code.
         let meeting = \<lparr>mrcActive = True, mrcCode = code, mrcCreatedByUserId = uctUserId context,
               mrcFacilitatorParticipantId = asnParticipantId facilitator, mrcMeetingId = m,
               mrcPurpose = trim text\<rparr> in
         bindC (portC (mpoCreate deps meeting assignments)) (\<lambda>_.
         returnC \<lparr>crmAssignments = assignments, crmMeeting = meeting\<rparr>))))))"

definition listAssignedMeetings :: "'w meetingPorts \<Rightarrow> string \<Rightarrow> ('w, meetingRecord list) command" where
  "listAssignedMeetings deps user = portC (mpoListAssigned deps user)"

definition resolveMeetingAuthorization ::
  "'w meetingPorts \<Rightarrow> string \<Rightarrow> string \<Rightarrow> string \<Rightarrow> string list option \<Rightarrow> ('w, userContext) command" where
  "resolveMeetingAuthorization deps sid user m policy =
     bindC (portC (mpoFindById deps m)) (\<lambda>meeting.
     bindC (portC (mpoFindAssignment deps m user)) (\<lambda>assignment.
     case (meeting, assignment) of
       (Some found, Some a) \<Rightarrow>
         if \<not> mrcActive found \<or> \<not> asnActive a then failC FORBIDDEN
         else returnC (userAuthorizationContext m (asnParticipantId a) (asnRole a) sid user policy)
     | _ \<Rightarrow> failC FORBIDDEN))"

definition joinMeetingByCode ::
  "'w meetingPorts \<Rightarrow> string \<Rightarrow> string \<Rightarrow> string \<Rightarrow> ('w, userContext \<times> meetingRecord) command" where
  "joinMeetingByCode deps code sid user =
     bindC (portC (mpoFindByCode deps (trim code))) (\<lambda>found.
     case found of
       None \<Rightarrow> failC MEETING_NOT_FOUND
     | Some meeting \<Rightarrow>
         if \<not> mrcActive meeting then failC MEETING_NOT_FOUND
         else bindC (resolveMeetingAuthorization deps sid user (mrcMeetingId meeting) None) (\<lambda>context.
              returnC (context, meeting)))"

subsection \<open>The SQLite repositories\<close>

text \<open>
  The tables \<open>users\<close>, \<open>meetings\<close>, \<open>participant_assignments\<close> and \<open>sessions\<close> with their keys, unique
  columns and foreign keys. A row of \<open>meetings\<close> has the time that SQLite gives it.
\<close>

record accountTables =
  atbUsers :: "identityRecord list"
  atbMeetings :: "(meetingRecord \<times> string) list"
  atbAssignments :: "assignmentRecord list"
  atbSessions :: "sessionRecord list"

definition constraintFailed :: exn where
  "constraintFailed = JsError ''constraint failed''"

definition hasUser :: "accountTables \<Rightarrow> string \<Rightarrow> bool" where
  "hasUser db user \<longleftrightarrow> list_ex (\<lambda>u. idnUserId u = user) (atbUsers db)"

record userSeed =
  sedActive :: "bool option"
  sedPasswordHash :: string
  sedUserId :: string

fun checkSeeds :: "string list \<Rightarrow> userSeed list \<Rightarrow> exn + unit" where
  "checkSeeds seen [] = Inr ()"
| "checkSeeds seen (u # us) =
     bindE (requireNonEmpty (sedUserId u) ''synthetic userId'') (\<lambda>_.
     bindE (ensure (isScryptPasswordHash (sedPasswordHash u))
       (TypeError ''Synthetic users require an encoded scrypt password hash'')) (\<lambda>_.
     bindE (ensure (\<not> List.member seen (sedUserId u)) (TypeError ''Synthetic user IDs must be unique'')) (\<lambda>_.
     checkSeeds (sedUserId u # seen) us)))"

definition upsertUser :: "userSeed \<Rightarrow> identityRecord list \<Rightarrow> identityRecord list" where
  "upsertUser seed users =
     (let row = \<lparr>idnActive = sedActive seed \<noteq> Some False, idnPasswordHash = sedPasswordHash seed,
                 idnUserId = sedUserId seed\<rparr> in
      if list_ex (\<lambda>u. idnUserId u = sedUserId seed) users
      then map (\<lambda>u. if idnUserId u = sedUserId seed then row else u) users
      else users @ [row])"

definition seedSyntheticUsers :: "userSeed list \<Rightarrow> accountTables \<Rightarrow> (exn + unit) \<times> accountTables" where
  "seedSyntheticUsers seeds db =
     (case bindE (ensure (seeds \<noteq> []) (TypeError ''At least one synthetic user is required''))
             (\<lambda>_. checkSeeds [] seeds) of
        Inl e \<Rightarrow> (Inl e, db)
      | Inr _ \<Rightarrow> (Inr (), db\<lparr>atbUsers := fold upsertUser seeds (atbUsers db)\<rparr>))"

definition findByUserId :: "string \<Rightarrow> accountTables \<Rightarrow> exn + identityRecord option" where
  "findByUserId user db =
     bindE (requireNonEmpty user ''userId'') (\<lambda>_. Inr (findFirst (\<lambda>u. idnUserId u = user) (atbUsers db)))"

definition findSessionById :: "string \<Rightarrow> accountTables \<Rightarrow> exn + sessionRecord option" where
  "findSessionById sid db =
     bindE (requireNonEmpty sid ''sessionId'') (\<lambda>_.
     Inr (findFirst (\<lambda>s. ssnSessionId s = sid) (atbSessions db)))"

definition findSessionByTokenHash :: "string \<Rightarrow> accountTables \<Rightarrow> exn + sessionRecord option" where
  "findSessionByTokenHash hash db =
     bindE (requireNonEmpty hash ''tokenHash'') (\<lambda>_.
     Inr (findFirst (\<lambda>s. ssnTokenHash s = hash) (atbSessions db)))"

definition insertSession :: "sessionRecord \<Rightarrow> accountTables \<Rightarrow> exn + accountTables" where
  "insertSession s db =
     bindE (requireNonEmpty (ssnSessionId s) ''sessionId'') (\<lambda>_.
     bindE (requireNonEmpty (ssnTokenHash s) ''tokenHash'') (\<lambda>_.
     bindE (requireNonEmpty (ssnUserId s) ''session userId'') (\<lambda>_.
     bindE (requireNonEmpty (ssnCreatedAt s) ''session createdAt'') (\<lambda>_.
     bindE (requireNonEmpty (ssnLastActivityAt s) ''session lastActivityAt'') (\<lambda>_.
     bindE (requireNonEmpty (ssnAbsoluteExpiresAt s) ''session absoluteExpiresAt'') (\<lambda>_.
     bindE (ensure (\<not> list_ex (\<lambda>o'. ssnSessionId o' = ssnSessionId s \<or> ssnTokenHash o' = ssnTokenHash s) (atbSessions db) \<and>
                    hasUser db (ssnUserId s)) constraintFailed) (\<lambda>_.
     Inr (db\<lparr>atbSessions := atbSessions db @ [s]\<rparr>))))))))"

definition revokeSession :: "string \<Rightarrow> string \<Rightarrow> accountTables \<Rightarrow> exn + accountTables" where
  "revokeSession sid revokedAt db =
     bindE (requireNonEmpty sid ''sessionId'') (\<lambda>_.
     bindE (requireNonEmpty revokedAt ''revokedAt'') (\<lambda>_.
     Inr (db\<lparr>atbSessions := map (\<lambda>s. if ssnSessionId s = sid
            then s\<lparr>ssnRevokedAt := Some (case ssnRevokedAt s of None \<Rightarrow> revokedAt | Some earlier \<Rightarrow> earlier)\<rparr>
            else s) (atbSessions db)\<rparr>)))"

definition touchSession :: "string \<Rightarrow> string \<Rightarrow> accountTables \<Rightarrow> exn + accountTables" where
  "touchSession sid lastActivityAt db =
     bindE (requireNonEmpty sid ''sessionId'') (\<lambda>_.
     bindE (requireNonEmpty lastActivityAt ''lastActivityAt'') (\<lambda>_.
     Inr (db\<lparr>atbSessions := map (\<lambda>s. if ssnSessionId s = sid \<and> ssnRevokedAt s = None
            then s\<lparr>ssnLastActivityAt := lastActivityAt\<rparr> else s) (atbSessions db)\<rparr>)))"

fun checkAssignments :: "meetingRecord \<Rightarrow> assignmentRecord list \<Rightarrow> assignmentRecord list \<Rightarrow> exn + unit" where
  "checkAssignments meeting seen [] = Inr ()"
| "checkAssignments meeting seen (a # as) =
     bindE (requireNonEmpty (asnParticipantId a) ''participantId'') (\<lambda>_.
     bindE (requireNonEmpty (asnUserId a) ''assignment userId'') (\<lambda>_.
     bindE (ensure (asnMeetingId a = mrcMeetingId meeting)
       (TypeError ''Every assignment must match its meeting'')) (\<lambda>_.
     bindE (ensure (asnActive a) (TypeError ''New meeting assignments must be active'')) (\<lambda>_.
     bindE (ensure (\<not> list_ex (\<lambda>b. asnParticipantId b = asnParticipantId a \<or> asnUserId b = asnUserId a) seen)
       (TypeError ''Meeting assignments require unique participants and users'')) (\<lambda>_.
     checkAssignments meeting (a # seen) as)))))"

definition validateMeetingCreation :: "meetingRecord \<Rightarrow> assignmentRecord list \<Rightarrow> exn + unit" where
  "validateMeetingCreation meeting assignments =
     bindE (requireNonEmpty (mrcMeetingId meeting) ''meetingId'') (\<lambda>_.
     bindE (requireNonEmpty (mrcCode meeting) ''meeting code'') (\<lambda>_.
     bindE (requireNonEmpty (mrcCreatedByUserId meeting) ''createdByUserId'') (\<lambda>_.
     bindE (requireNonEmpty (mrcFacilitatorParticipantId meeting) ''facilitatorParticipantId'') (\<lambda>_.
     bindE (requireNonEmpty (mrcPurpose meeting) ''meeting purpose'') (\<lambda>_.
     bindE (ensure (\<not> (length assignments < MINIMUM_PARTICIPANTS \<or> MAXIMUM_PARTICIPANTS < length assignments))
       (TypeError ''Meeting requires 3-8 participant assignments'')) (\<lambda>_.
     bindE (checkAssignments meeting [] assignments) (\<lambda>_.
     let facilitators = filter (\<lambda>a. asnRole a = FacilitatorRole) assignments in
     ensure (\<not> (length facilitators \<noteq> 1 \<or>
                asnParticipantId (hd facilitators) \<noteq> mrcFacilitatorParticipantId meeting \<or>
                asnUserId (hd facilitators) \<noteq> mrcCreatedByUserId meeting))
       (TypeError ''Meeting requires its creator as the single facilitator assignment''))))))))"

definition insertMeeting :: "string \<Rightarrow> meetingRecord \<Rightarrow> accountTables \<Rightarrow> exn + accountTables" where
  "insertMeeting createdAt meeting db =
     bindE (ensure (\<not> list_ex (\<lambda>(o', _). mrcMeetingId o' = mrcMeetingId meeting \<or> mrcCode o' = mrcCode meeting)
                      (atbMeetings db) \<and>
                    hasUser db (mrcCreatedByUserId meeting)) constraintFailed) (\<lambda>_.
     Inr (db\<lparr>atbMeetings := atbMeetings db @ [(meeting, createdAt)]\<rparr>))"

fun insertAssignments :: "assignmentRecord list \<Rightarrow> accountTables \<Rightarrow> exn + accountTables" where
  "insertAssignments [] db = Inr db"
| "insertAssignments (a # as) db =
     bindE (ensure (\<not> list_ex (\<lambda>b. asnMeetingId b = asnMeetingId a \<and>
                        (asnParticipantId b = asnParticipantId a \<or> asnUserId b = asnUserId a)) (atbAssignments db) \<and>
                    list_ex (\<lambda>(m, _). mrcMeetingId m = asnMeetingId a) (atbMeetings db) \<and>
                    hasUser db (asnUserId a)) constraintFailed) (\<lambda>_.
     insertAssignments as (db\<lparr>atbAssignments := atbAssignments db @ [a]\<rparr>))"

definition createWithAssignments ::
  "string \<Rightarrow> meetingRecord \<Rightarrow> assignmentRecord list \<Rightarrow> accountTables \<Rightarrow> exn + accountTables" where
  "createWithAssignments createdAt meeting assignments db =
     bindE (validateMeetingCreation meeting assignments) (\<lambda>_.
     bindE (insertMeeting createdAt meeting db) (insertAssignments assignments))"

definition findAssignment :: "string \<Rightarrow> string \<Rightarrow> accountTables \<Rightarrow> exn + assignmentRecord option" where
  "findAssignment m user db =
     bindE (requireNonEmpty m ''meetingId'') (\<lambda>_.
     bindE (requireNonEmpty user ''userId'') (\<lambda>_.
     Inr (findFirst (\<lambda>a. asnMeetingId a = m \<and> asnUserId a = user) (atbAssignments db))))"

definition findMeetingByCode :: "string \<Rightarrow> accountTables \<Rightarrow> exn + meetingRecord option" where
  "findMeetingByCode code db =
     bindE (requireNonEmpty code ''meeting code'') (\<lambda>_.
     Inr (findFirst (\<lambda>m. mrcCode m = code) (map fst (atbMeetings db))))"

definition findMeetingById :: "string \<Rightarrow> accountTables \<Rightarrow> exn + meetingRecord option" where
  "findMeetingById m db =
     bindE (requireNonEmpty m ''meetingId'') (\<lambda>_.
     Inr (findFirst (\<lambda>r. mrcMeetingId r = m) (map fst (atbMeetings db))))"

text \<open>\<open>ORDER BY\<close>: a stable sort by a key, compared as SQLite compares texts.\<close>

fun insertBy :: "('a \<Rightarrow> 'a \<Rightarrow> bool) \<Rightarrow> 'a \<Rightarrow> 'a list \<Rightarrow> 'a list" where
  "insertBy lt x [] = [x]"
| "insertBy lt x (y # ys) = (if lt y x then y # insertBy lt x ys else x # y # ys)"

definition sortBy :: "('a \<Rightarrow> 'a \<Rightarrow> bool) \<Rightarrow> 'a list \<Rightarrow> 'a list" where
  "sortBy lt xs = foldr (insertBy lt) xs []"

definition listAssignments :: "string \<Rightarrow> accountTables \<Rightarrow> exn + assignmentRecord list" where
  "listAssignments m db =
     bindE (requireNonEmpty m ''meetingId'') (\<lambda>_.
     Inr (sortBy (\<lambda>a b. stringLess (asnParticipantId a) (asnParticipantId b))
            (filter (\<lambda>a. asnMeetingId a = m) (atbAssignments db))))"

definition earlierMeeting :: "meetingRecord \<times> string \<Rightarrow> meetingRecord \<times> string \<Rightarrow> bool" where
  "earlierMeeting a b \<longleftrightarrow>
     stringLess (snd a) (snd b) \<or> snd a = snd b \<and> stringLess (mrcMeetingId (fst a)) (mrcMeetingId (fst b))"

definition listAssigned :: "string \<Rightarrow> accountTables \<Rightarrow> exn + meetingRecord list" where
  "listAssigned user db =
     bindE (requireNonEmpty user ''userId'') (\<lambda>_.
     Inr (map fst (sortBy earlierMeeting
       (concat (map (\<lambda>row. map (\<lambda>_. row)
          (filter (\<lambda>a. asnMeetingId a = mrcMeetingId (fst row) \<and> asnUserId a = user \<and> asnActive a \<and>
                       mrcActive (fst row)) (atbAssignments db))) (atbMeetings db))))))"

end
