(* ===== verification/AccountLogic.thy ===== *)
theory AccountLogic
  imports Accounts
begin

section \<open>Sessions and meetings on the Node server\<close>

text \<open>
  What a session repository and a clock must give so that the session commands keep their promise (the
  locale \<open>session_store\<close>), the proof that the SQLite repository gives it, and the runs of the Node
  server's account commands.
\<close>

subsection \<open>How stored sessions change\<close>

lemma findFirst_map: "(\<And>x. P (f x) = P x) \<Longrightarrow> findFirst P (map f xs) = map_option f (findFirst P xs)"
  by (induction xs) auto

text \<open>A stored session keeps what it was issued with; once revoked it does not change any more.\<close>

definition evolves :: "sessionRecord \<Rightarrow> sessionRecord \<Rightarrow> bool" where
  "evolves s s' \<longleftrightarrow>
     ssnSessionId s' = ssnSessionId s \<and> ssnTokenHash s' = ssnTokenHash s \<and> ssnUserId s' = ssnUserId s \<and>
     ssnCreatedAt s' = ssnCreatedAt s \<and> ssnAbsoluteExpiresAt s' = ssnAbsoluteExpiresAt s \<and>
     (ssnRevokedAt s \<noteq> None \<longrightarrow> s' = s)"

definition sessionsEvolve :: "sessionRecord list \<Rightarrow> sessionRecord list \<Rightarrow> bool" where
  "sessionsEvolve ss ss' \<longleftrightarrow> (\<exists>old new. ss' = old @ new \<and> list_all2 evolves ss old)"

lemma evolves_refl [simp]: "evolves s s"
  by (simp add: evolves_def)

lemma evolves_trans: "evolves a b \<Longrightarrow> evolves b c \<Longrightarrow> evolves a c"
  by (auto simp: evolves_def)

lemma sessionsEvolve_refl [simp]: "sessionsEvolve ss ss"
  unfolding sessionsEvolve_def by (intro exI[of _ ss] exI[of _ "[]"]) (simp add: list_all2_refl)

lemma sessionsEvolve_map: "(\<And>s. s \<in> set ss \<Longrightarrow> evolves s (f s)) \<Longrightarrow> sessionsEvolve ss (map f ss)"
  unfolding sessionsEvolve_def
  by (intro exI[of _ "map f ss"] exI[of _ "[]"]) (simp add: list_all2_conv_all_nth)

lemma sessionsEvolve_snoc: "sessionsEvolve ss (ss @ [s])"
  unfolding sessionsEvolve_def by (intro exI[of _ ss] exI[of _ "[s]"]) (simp add: list_all2_refl)

lemma sessionsEvolve_trans:
  assumes "sessionsEvolve a b" "sessionsEvolve b c" shows "sessionsEvolve a c"
proof -
  from assms(1) obtain o1 n1 where 1: "b = o1 @ n1" "list_all2 evolves a o1" by (auto simp: sessionsEvolve_def)
  from assms(2) 1(1) obtain o2 n2 where 2: "c = o2 @ n2" "list_all2 evolves (o1 @ n1) o2" by (auto simp: sessionsEvolve_def)
  from 2(2) obtain p q where pq: "o2 = p @ q" "list_all2 evolves o1 p" by (auto simp: list_all2_append1)
  have "list_all2 evolves a p" by (rule list_all2_trans[OF _ 1(2) pq(2)]) (rule evolves_trans)
  with 2(1) pq(1) show ?thesis unfolding sessionsEvolve_def by (intro exI[of _ p] exI[of _ "q @ n2"]) simp
qed

lemma sessionsEvolve_find:
  assumes "sessionsEvolve ss ss'" "findFirst P ss = Some s" "\<And>a b. evolves a b \<Longrightarrow> P b = P a"
  shows "\<exists>s'. findFirst P ss' = Some s' \<and> evolves s s'"
proof -
  from assms(1) obtain old new where o: "ss' = old @ new" "list_all2 evolves ss old" by (auto simp: sessionsEvolve_def)
  from o(2) assms(2) have "\<exists>s'. findFirst P old = Some s' \<and> evolves s s'"
    by (induction rule: list_all2_induct) (auto simp: assms(3) split: if_splits)
  with o(1) show ?thesis by (auto simp: findFirst_append)
qed

subsection \<open>What every stored session satisfies\<close>

text \<open>The end of a session is eight hours after its creation; all times are times of the clock.\<close>

definition lifetimeOk :: "sessionRecord \<Rightarrow> bool" where
  "lifetimeOk s \<longleftrightarrow>
     (\<exists>created last. \<bar>created\<bar> \<le> MAX_TIME \<and> \<bar>created + SESSION_ABSOLUTE_MS\<bar> \<le> MAX_TIME \<and> \<bar>last\<bar> \<le> MAX_TIME \<and>
        ssnCreatedAt s = isoString created \<and> ssnAbsoluteExpiresAt s = isoString (created + SESSION_ABSOLUTE_MS) \<and>
        ssnLastActivityAt s = isoString last)"

lemma lifetimeOk_changes:
  "lifetimeOk s \<Longrightarrow> \<bar>t\<bar> \<le> MAX_TIME \<Longrightarrow> lifetimeOk (s\<lparr>ssnLastActivityAt := isoString t\<rparr>)"
  "lifetimeOk (s\<lparr>ssnRevokedAt := r\<rparr>) = lifetimeOk s"
  unfolding lifetimeOk_def by auto

definition liveAt :: "int \<Rightarrow> sessionRecord \<Rightarrow> bool" where
  "liveAt now s \<longleftrightarrow>
     (\<exists>created last. \<bar>created\<bar> \<le> MAX_TIME \<and> \<bar>last\<bar> \<le> MAX_TIME \<and> ssnRevokedAt s = None \<and>
        ssnCreatedAt s = isoString created \<and> ssnLastActivityAt s = isoString last \<and>
        now < created + SESSION_ABSOLUTE_MS \<and> now - last < SESSION_INACTIVITY_MS)"

lemma lifetimeOk_expired:
  assumes "lifetimeOk s" "ssnRevokedAt s = None"
  shows "sessionExpired now s = Inr (\<not> liveAt now s)"
proof -
  from assms(1) obtain created last where s: "\<bar>created\<bar> \<le> MAX_TIME" "\<bar>created + SESSION_ABSOLUTE_MS\<bar> \<le> MAX_TIME"
    "\<bar>last\<bar> \<le> MAX_TIME" "ssnCreatedAt s = isoString created"
    "ssnAbsoluteExpiresAt s = isoString (created + SESSION_ABSOLUTE_MS)" "ssnLastActivityAt s = isoString last"
    by (auto simp: lifetimeOk_def)
  have "liveAt now s \<longleftrightarrow> now < created + SESSION_ABSOLUTE_MS \<and> now - last < SESSION_INACTIVITY_MS"
    using assms(2) s isoString_inj by (auto simp: liveAt_def)
  with s show ?thesis by (auto simp: sessionExpired_def timestampMs_def dateParse_isoString)
qed

subsection \<open>The interface of the session commands\<close>

locale session_store =
  fixes deps :: "'w sessionPorts" and sessions :: "'w \<Rightarrow> sessionRecord list" and time :: "'w \<Rightarrow> int"
  assumes now: "\<exists>w'. spoNow deps w = (isoString (time w), w') \<and> sessions w' = sessions w"
    and time: "\<bar>time w\<bar> \<le> MAX_TIME"
    and next_same: "sessions (snd (spoNext deps ns w)) = sessions w"
    and user_same: "sessions (snd (spoFindUser deps u w)) = sessions w"
    and verify_same: "sessions (snd (spoVerify deps p h w)) = sessions w"
    and issue_same: "sessions (snd (spoIssue deps w)) = sessions w"
    and digest: "\<exists>h. spoDigest deps b w = (h, w)"
    and by_id: "sid \<noteq> [] \<Longrightarrow> spoFindById deps sid w = (Inr (findFirst (\<lambda>s. ssnSessionId s = sid) (sessions w)), w)"
    and by_hash: "\<exists>out. spoFindByTokenHash deps h w = (out, w) \<and>
      (h \<noteq> [] \<longrightarrow> out = Inr (findFirst (\<lambda>s. ssnTokenHash s = h) (sessions w)))"
    and by_hash_empty: "h = [] \<Longrightarrow> \<exists>e. spoFindByTokenHash deps h w = (Inl e, w)"
    and put: "spoPut deps s w = (out, w') \<Longrightarrow> sessions w' = (if isl out then sessions w else sessions w @ [s])"
    and revoke: "spoRevoke deps sid at w = (out, w') \<Longrightarrow>
      sessions w' = (if isl out then sessions w
        else map (\<lambda>s. if ssnSessionId s = sid then s\<lparr>ssnRevokedAt := Some (case ssnRevokedAt s of None \<Rightarrow> at | Some e \<Rightarrow> e)\<rparr>
                      else s) (sessions w))"
    and touch: "spoTouch deps sid at w = (out, w') \<Longrightarrow>
      sessions w' = (if isl out then sessions w
        else map (\<lambda>s. if ssnSessionId s = sid \<and> ssnRevokedAt s = None then s\<lparr>ssnLastActivityAt := at\<rparr> else s) (sessions w))"
begin

definition allOk :: "'w \<Rightarrow> bool" where
  "allOk w \<longleftrightarrow> (\<forall>s \<in> set (sessions w). lifetimeOk s)"

definition grows :: "'w \<Rightarrow> 'w \<Rightarrow> bool" where
  "grows w w' \<longleftrightarrow> sessionsEvolve (sessions w) (sessions w') \<and> (allOk w \<longrightarrow> allOk w')"

lemma grows_refl [simp]: "grows w w" and grows_same: "sessions w' = sessions w \<Longrightarrow> grows w w'"
  by (simp_all add: grows_def allOk_def)

lemma grows_trans: "grows a b \<Longrightarrow> grows b c \<Longrightarrow> grows a c"
  using sessionsEvolve_trans by (auto simp: grows_def)

lemma revoke_grows: "spoRevoke deps sid at w = (out, w') \<Longrightarrow> grows w w'"
proof -
  assume "spoRevoke deps sid at w = (out, w')"
  note r = revoke[OF this]
  show ?thesis
  proof (cases "isl out")
    case False
    have "sessionsEvolve (sessions w) (sessions w')"
      using r False by (auto intro!: sessionsEvolve_map simp: evolves_def)
    moreover have "allOk w \<Longrightarrow> allOk w'" using r False by (auto simp: allOk_def lifetimeOk_changes)
    ultimately show ?thesis by (simp add: grows_def)
  qed (use r in \<open>simp add: grows_same\<close>)
qed

lemma touch_grows: "spoTouch deps sid (isoString t) w = (out, w') \<Longrightarrow> \<bar>t\<bar> \<le> MAX_TIME \<Longrightarrow> grows w w'"
proof -
  assume "spoTouch deps sid (isoString t) w = (out, w')" and t: "\<bar>t\<bar> \<le> MAX_TIME"
  note r = touch[OF this(1)]
  show ?thesis
  proof (cases "isl out")
    case False
    have "sessionsEvolve (sessions w) (sessions w')"
      using r False by (auto intro!: sessionsEvolve_map simp: evolves_def)
    moreover have "allOk w \<Longrightarrow> allOk w'" using r False t by (auto simp: allOk_def lifetimeOk_changes)
    ultimately show ?thesis by (simp add: grows_def)
  qed (use r in \<open>simp add: grows_same\<close>)
qed

text \<open>The four outcomes of checking a stored session.\<close>

lemma stored_cases:
  assumes "authenticateStoredSession deps touching stored w = (r, w')" and "\<And>s. stored = Some s \<Longrightarrow> lifetimeOk s"
  shows "grows w w'"
    and "r = Inr s' \<Longrightarrow> \<exists>s. stored = Some s \<and> liveAt (time w) s \<and>
       s' = s\<lparr>ssnLastActivityAt := if touching then isoString (time w) else ssnLastActivityAt s\<rparr>"
    and "r = Inl (Failed (FailedWith SESSION_EXPIRED)) \<Longrightarrow>
       \<exists>s. stored = Some s \<and> ssnRevokedAt s = None \<and> \<not> liveAt (time w) s \<and>
         (\<forall>s' \<in> set (sessions w'). ssnSessionId s' = ssnSessionId s \<longrightarrow> ssnRevokedAt s' \<noteq> None)"
    and "stored = None \<or> (\<exists>s. stored = Some s \<and> ssnRevokedAt s \<noteq> None) \<Longrightarrow>
       r = Inl (Failed (FailedWith AUTHENTICATION_REQUIRED)) \<and> w' = w"
proof -
  obtain w1 where now1: "spoNow deps w = (isoString (time w), w1)" "sessions w1 = sessions w" using now by blast
  let ?live = "\<lambda>s. ssnRevokedAt s = None \<and> liveAt (time w) s"
  consider (none) "stored = None" "r = Inl (Failed (FailedWith AUTHENTICATION_REQUIRED))" "w' = w"
    | (revoked) s where "stored = Some s" "ssnRevokedAt s \<noteq> None" "r = Inl (Failed (FailedWith AUTHENTICATION_REQUIRED))" "w' = w"
    | (expired) s out where "stored = Some s" "ssnRevokedAt s = None" "\<not> liveAt (time w) s"
        "spoRevoke deps (ssnSessionId s) (isoString (time w)) w1 = (out, w')"
        "r = (case out of Inl e \<Rightarrow> Inl (Raised e) | Inr _ \<Rightarrow> Inl (Failed (FailedWith SESSION_EXPIRED)))"
    | (kept) s where "stored = Some s" "ssnRevokedAt s = None" "liveAt (time w) s" "\<not> touching" "r = Inr s" "w' = w1"
    | (touched) s out where "stored = Some s" "ssnRevokedAt s = None" "liveAt (time w) s" touching
        "spoTouch deps (ssnSessionId s) (isoString (time w)) w1 = (out, w')"
        "r = (case out of Inl e \<Rightarrow> Inl (Raised e) | Inr _ \<Rightarrow> Inr (s\<lparr>ssnLastActivityAt := isoString (time w)\<rparr>))"
  proof (cases stored)
    case None
    with assms(1) none show ?thesis by (simp add: authenticateStoredSession_def failC_def)
  next
    case (Some s)
    show ?thesis
    proof (cases "ssnRevokedAt s = None")
      case False
      with assms(1) Some revoked show ?thesis by (simp add: authenticateStoredSession_def failC_def)
    next
      case True
      note ex = lifetimeOk_expired[OF assms(2)[OF Some] True, of "time w"]
      have ms: "timestampMs (isoString (time w)) = Inr (time w)" using time by (simp add: timestampMs_def dateParse_isoString)
      have run: "(if \<not> liveAt (time w) s then
              bindC (portC (spoRevoke deps (ssnSessionId s) (isoString (time w)))) (\<lambda>_. failC SESSION_EXPIRED)
            else
              bindC (if touching then portC (spoTouch deps (ssnSessionId s) (isoString (time w))) else returnC ()) (\<lambda>_.
              returnC (s\<lparr>ssnLastActivityAt := if touching then isoString (time w) else ssnLastActivityAt s\<rparr>))) w1 = (r, w')"
        using assms(1) Some True ex now1 ms
        by (simp add: authenticateStoredSession_def bindC_def readC_def liftC_def returnC_def)
      show ?thesis
      proof (cases "liveAt (time w) s")
        case False
        obtain out w2 where rv: "spoRevoke deps (ssnSessionId s) (isoString (time w)) w1 = (out, w2)" by fastforce
        with run False Some True show ?thesis
          by (intro expired[of s out]) (auto simp: bindC_def portC_def failC_def split: sum.splits)
      next
        case live: True
        show ?thesis
        proof (cases touching)
          case False
          with run live Some True show ?thesis by (intro kept[of s]) (simp_all add: bindC_def returnC_def)
        next
          case touch: True
          obtain out w2 where tc: "spoTouch deps (ssnSessionId s) (isoString (time w)) w1 = (out, w2)" by fastforce
          with run live touch Some True show ?thesis
            by (intro touched[of s out]) (auto simp: bindC_def portC_def returnC_def split: sum.splits)
        qed
      qed
    qed
  qed
  note outcome = this
  have same: "grows w w1" using now1(2) by (rule grows_same)
  show "grows w w'"
    by (rule outcome) (use same grows_trans[OF same] revoke_grows touch_grows time in \<open>auto\<close>)
  show "\<exists>s. stored = Some s \<and> liveAt (time w) s \<and>
       s' = s\<lparr>ssnLastActivityAt := if touching then isoString (time w) else ssnLastActivityAt s\<rparr>" if "r = Inr s'"
    by (rule outcome) (use that in \<open>auto split: sum.splits\<close>)
  show "\<exists>s. stored = Some s \<and> ssnRevokedAt s = None \<and> \<not> liveAt (time w) s \<and>
         (\<forall>s' \<in> set (sessions w'). ssnSessionId s' = ssnSessionId s \<longrightarrow> ssnRevokedAt s' \<noteq> None)"
    if "r = Inl (Failed (FailedWith SESSION_EXPIRED))"
  proof (rule outcome)
    fix s out
    assume e: "stored = Some s" "ssnRevokedAt s = None" "\<not> liveAt (time w) s"
      "spoRevoke deps (ssnSessionId s) (isoString (time w)) w1 = (out, w')"
      "r = (case out of Inl e \<Rightarrow> Inl (Raised e) | Inr _ \<Rightarrow> Inl (Failed (FailedWith SESSION_EXPIRED)))"
    with that have "\<not> isl out" by (auto split: sum.splits)
    with revoke[OF e(4)] e(1-3) show ?thesis by auto
  qed (use that in \<open>auto split: sum.splits\<close>)
  show "r = Inl (Failed (FailedWith AUTHENTICATION_REQUIRED)) \<and> w' = w"
    if "stored = None \<or> (\<exists>s. stored = Some s \<and> ssnRevokedAt s \<noteq> None)"
    by (rule outcome) (use that in auto)
qed

lemma found_ok: "allOk w \<Longrightarrow> findFirst P (sessions w) = Some s \<Longrightarrow> lifetimeOk s"
  using findFirst_SomeD[of P "sessions w" s] by (auto simp: allOk_def)

lemma sessionStoreCases:
  assumes "portC p w = (r, w')"
  obtains out where "p w = (out, w')" "r = (case out of Inl e \<Rightarrow> Inl (Raised e) | Inr a \<Rightarrow> Inr a)"
  using assms by (cases "p w"; cases "fst (p w)") (auto simp: portC_def)

lemma by_hash_cases:
  obtains (found) "h \<noteq> []" "spoFindByTokenHash deps h w = (Inr (findFirst (\<lambda>s. ssnTokenHash s = h) (sessions w)), w)"
  | (failed) e where "h = []" "spoFindByTokenHash deps h w = (Inl e, w)"
  using by_hash[of h w] by_hash_empty[of h w] by (cases "h = []") auto

text \<open>Authenticating by a token or by an identifier.\<close>

lemma authenticateSession_found:
  assumes "spoDigest deps b w = (Inr h, w)" "h \<noteq> []" "b \<noteq> []"
  shows "authenticateSession deps b w =
    authenticateStoredSession deps True (findFirst (\<lambda>s. ssnTokenHash s = h) (sessions w)) w"
  using assms by_hash[of h w] by (auto simp: authenticateSession_def bindC_def portC_def)

lemma authenticateSession_cases:
  assumes "authenticateSession deps b w = (r, w')"
  obtains (early) x where "r = Inl x" "w' = w" "x \<noteq> Failed (FailedWith SESSION_EXPIRED)"
  | (stored) h where "b \<noteq> []" "spoDigest deps b w = (Inr h, w)" "h \<noteq> []"
      "authenticateStoredSession deps True (findFirst (\<lambda>s. ssnTokenHash s = h) (sessions w)) w = (r, w')"
proof (cases "b = []")
  case True
  with assms show ?thesis by (intro early) (auto simp: authenticateSession_def failC_def)
next
  case False
  obtain d where d: "spoDigest deps b w = (d, w)" using digest by blast
  show ?thesis
  proof (cases d)
    case (Inl e)
    with assms False d show ?thesis by (intro early) (auto simp: authenticateSession_def bindC_def portC_def)
  next
    case (Inr h)
    show ?thesis
    proof (cases rule: by_hash_cases[of h w])
      case found
      with stored assms False d Inr authenticateSession_found[of b w h] show ?thesis by simp
    next
      case (failed e)
      with assms False d Inr show ?thesis by (intro early) (auto simp: authenticateSession_def bindC_def portC_def)
    qed
  qed
qed

lemma authenticateSession_grows: "allOk w \<Longrightarrow> authenticateSession deps b w = (r, w') \<Longrightarrow> grows w w'"
  by (erule authenticateSession_cases) (auto dest!: stored_cases(1) intro: found_ok)

lemma authenticateSession_live:
  assumes "allOk w" "authenticateSession deps b w = (Inr s', w')"
  shows "\<exists>h s. spoDigest deps b w = (Inr h, w) \<and> s \<in> set (sessions w) \<and> ssnTokenHash s = h \<and> liveAt (time w) s \<and>
    s' = s\<lparr>ssnLastActivityAt := isoString (time w)\<rparr>"
  using assms(2)
proof (cases rule: authenticateSession_cases)
  case (stored h)
  have ok: "\<And>s. findFirst (\<lambda>s. ssnTokenHash s = h) (sessions w) = Some s \<Longrightarrow> lifetimeOk s"
    using found_ok[OF assms(1)] by blast
  from stored_cases(2)[OF stored(4) ok, of s'] obtain s where s: "findFirst (\<lambda>s. ssnTokenHash s = h) (sessions w) = Some s" "liveAt (time w) s"
    "s' = s\<lparr>ssnLastActivityAt := isoString (time w)\<rparr>" by auto
  with stored(2) findFirst_SomeD[OF s(1)] show ?thesis by blast
qed simp

lemma authenticateById_stored:
  "sid \<noteq> [] \<Longrightarrow> authenticateSessionById deps sid touching w =
     authenticateStoredSession deps touching (findFirst (\<lambda>s. ssnSessionId s = sid) (sessions w)) w"
  using by_id[of sid w] by (simp add: authenticateSessionById_def bindC_def portC_def)

lemma authenticateById_grows: "allOk w \<Longrightarrow> authenticateSessionById deps sid touching w = (r, w') \<Longrightarrow> grows w w'"
proof (cases "sid = []")
  case False
  assume "allOk w" "authenticateSessionById deps sid touching w = (r, w')"
  with False authenticateById_stored stored_cases(1)[of touching _ w r w'] found_ok show ?thesis by auto
qed (simp add: authenticateSessionById_def failC_def)

lemma logout_grows: "logout deps b w = (r, w') \<Longrightarrow> grows w w'"
proof -
  assume run: "logout deps b w = (r, w')"
  obtain d where d: "spoDigest deps b w = (d, w)" using digest by blast
  obtain w1 where now1: "spoNow deps w = (isoString (time w), w1)" "sessions w1 = sessions w" using now by blast
  then have g: "grows w w1" by (simp add: grows_same)
  show ?thesis
  proof (cases d)
    case (Inr h)
    show ?thesis
    proof (cases rule: by_hash_cases[of h w])
      case found
      show ?thesis
      proof (cases "\<exists>s. findFirst (\<lambda>s. ssnTokenHash s = h) (sessions w) = Some s \<and> ssnRevokedAt s = None")
        case True
        then obtain s where s: "findFirst (\<lambda>s. ssnTokenHash s = h) (sessions w) = Some s" "ssnRevokedAt s = None" by blast
        obtain out w2 where rv: "spoRevoke deps (ssnSessionId s) (isoString (time w)) w1 = (out, w2)" by fastforce
        with run d Inr found s now1 have "w' = w2"
          by (auto simp: logout_def bindC_def portC_def readC_def split: sum.splits)
        with revoke_grows[OF rv] grows_trans[OF g] show ?thesis by simp
      next
        case False
        with run d Inr found show ?thesis
          by (auto simp: logout_def bindC_def portC_def returnC_def split: option.splits if_splits)
      qed
    qed (use run d Inr in \<open>auto simp: logout_def bindC_def portC_def\<close>)
  qed (use run d in \<open>auto simp: logout_def bindC_def portC_def\<close>)
qed

lemma logout_revokes:
  assumes "logout deps b w = (Inr (), w')" "spoDigest deps b w = (Inr h, w)" "findFirst (\<lambda>s. ssnTokenHash s = h) (sessions w) = Some s"
    and "h \<noteq> []"
  shows "\<exists>s'. findFirst (\<lambda>s. ssnTokenHash s = h) (sessions w') = Some s' \<and> ssnSessionId s' = ssnSessionId s \<and> ssnRevokedAt s' \<noteq> None"
proof -
  obtain w1 where now1: "spoNow deps w = (isoString (time w), w1)" "sessions w1 = sessions w" using now by blast
  have found: "spoFindByTokenHash deps h w = (Inr (Some s), w)" using by_hash[of h w] assms(3,4) by auto
  show ?thesis
  proof (cases "ssnRevokedAt s = None")
    case False
    with assms(1,2) found have "w' = w" by (simp add: logout_def bindC_def portC_def returnC_def)
    with assms(3) False show ?thesis by auto
  next
    case True
    obtain out w2 where rv: "spoRevoke deps (ssnSessionId s) (isoString (time w)) w1 = (out, w2)" by fastforce
    with assms(1,2) found True now1(1) have "w2 = w'" "\<not> isl out"
      by (auto simp: logout_def bindC_def portC_def readC_def split: sum.splits)
    with revoke[OF rv] now1(2) have "sessions w' = map (\<lambda>x. if ssnSessionId x = ssnSessionId s
        then x\<lparr>ssnRevokedAt := Some (case ssnRevokedAt x of None \<Rightarrow> isoString (time w) | Some e \<Rightarrow> e)\<rparr> else x) (sessions w)"
      by simp
    then show ?thesis using assms(3) by (simp add: findFirst_map)
  qed
qed

lemma login_grows: "login deps password user w = (r, w') \<Longrightarrow> grows w w'"
proof -
  assume run: "login deps password user w = (r, w')"
  obtain found w1 where f: "portC (spoFindUser deps user) w = (found, w1)" by fastforce
  have w1: "sessions w1 = sessions w" using f user_same[of user w] by (auto elim: sessionStoreCases)
  show ?thesis
  proof (cases found)
    case (Inl e)
    with run f w1 show ?thesis by (simp add: login_def bindC_def grows_same)
  next
    case (Inr identity)
    obtain checked w2 where c: "checkPassword deps password identity w1 = (checked, w2)" by fastforce
    have w2: "sessions w2 = sessions w"
    proof (cases identity)
      case None
      with c w1 show ?thesis by (simp add: checkPassword_def failC_def)
    next
      case (Some found_user)
      obtain out wv where "spoVerify deps password (idnPasswordHash found_user) w1 = (out, wv)" by fastforce
      with c Some w1 verify_same[of password "idnPasswordHash found_user" w1] show ?thesis
        by (auto simp: checkPassword_def failC_def bindC_def portC_def returnC_def split: if_splits sum.splits)
    qed
    show ?thesis
    proof (cases checked)
      case (Inl e)
      with run f Inr c w2 show ?thesis by (simp add: login_def bindC_def grows_same)
    next
      case user: (Inr u)
      obtain w3 where n: "spoNow deps w2 = (isoString (time w2), w3)" "sessions w3 = sessions w2" using now by blast
      obtain out w4 where i: "spoIssue deps w3 = (out, w4)" by fastforce
      have w4: "sessions w4 = sessions w" using i issue_same[of w3] n(2) w2 by simp
      have ms: "timestampMs (isoString (time w2)) = Inr (time w2)" using time by (simp add: timestampMs_def dateParse_isoString)
      show ?thesis
      proof (cases out)
        case (Inl e)
        with run f Inr c user n i ms w4 show ?thesis
          by (simp add: login_def bindC_def portC_def readC_def liftC_def returnC_def grows_same)
      next
        case token: (Inr tk)
        show ?thesis
        proof (cases "\<bar>time w2 + SESSION_ABSOLUTE_MS\<bar> \<le> MAX_TIME")
          case False
          with run f Inr c user n i ms w4 token show ?thesis
            by (simp add: login_def bindC_def portC_def readC_def liftC_def returnC_def isoTimestamp_def raiseC_def grows_same)
        next
          case fits: True
          obtain sid w5 where x: "spoNext deps ''session'' w4 = (sid, w5)" by fastforce
          let ?s = "\<lparr>ssnAbsoluteExpiresAt = isoString (time w2 + SESSION_ABSOLUTE_MS), ssnCreatedAt = isoString (time w2),
              ssnLastActivityAt = isoString (time w2), ssnRevokedAt = None, ssnSessionId = sid,
              ssnTokenHash = tokHash tk, ssnUserId = idnUserId u\<rparr>"
          obtain stored w6 where p: "spoPut deps ?s w5 = (stored, w6)" by fastforce
          have "w' = w6"
            using run f Inr c user n i ms token fits x p
            by (auto simp: login_def bindC_def portC_def readC_def liftC_def returnC_def isoTimestamp_def split: sum.splits)
          moreover have "sessions w5 = sessions w" using x next_same[of "''session''" w4] w4 by simp
          moreover have "lifetimeOk ?s" using time[of w2] fits by (auto simp: lifetimeOk_def)
          ultimately show ?thesis using put[OF p]
            by (auto simp: grows_def allOk_def intro: sessionsEvolve_snoc)
        qed
      qed
    qed
  qed
qed

text \<open>A session that was revoked is never authenticated again, however the store goes on.\<close>

lemma revoked_stays_dead:
  assumes "findFirst (\<lambda>s. ssnTokenHash s = h) (sessions w) = Some s" "ssnRevokedAt s \<noteq> None" "grows w w2"
    and "spoDigest deps b w2 = (Inr h, w2)" "h \<noteq> []" "b \<noteq> []"
  shows "authenticateSession deps b w2 = (Inl (Failed (FailedWith AUTHENTICATION_REQUIRED)), w2)"
proof -
  from assms(3) have "sessionsEvolve (sessions w) (sessions w2)" by (simp add: grows_def)
  from sessionsEvolve_find[OF this assms(1)] obtain s' where
    "findFirst (\<lambda>s. ssnTokenHash s = h) (sessions w2) = Some s'" "evolves s s'" by (auto simp: evolves_def)
  with assms(2) authenticateSession_found[OF assms(4-6)] show ?thesis
    by (simp add: authenticateStoredSession_def failC_def evolves_def)
qed

end

end
