(* ===== verification/AccountRuns.thy ===== *)
theory AccountRuns
  imports AccountLogic
begin

section \<open>Runs of the account commands on the Node server\<close>

text \<open>
  The Node server's wiring of sessions and meetings: the SQLite repositories, scrypt passwords, SHA-256
  tokens. Wall clock (\<open>clk\<close>, milliseconds), identifiers (\<open>uuid\<close>), random token bytes (\<open>rand\<close>), digest
  (\<open>sha\<close>) and key derivation (\<open>kdf\<close>) come from outside; each use of the first three advances a tick.
  The start-up of runtime.ts, with the configured users of config.ts, is a step of a run like the commands.
\<close>

subsection \<open>The wiring\<close>

record accountWorld =
  awTables :: accountTables
  awTick :: nat

abbreviation tick :: "accountWorld \<Rightarrow> accountWorld" where
  "tick w \<equiv> w\<lparr>awTick := awTick w + 1\<rparr>"

definition updateTables :: "(accountTables \<Rightarrow> exn + accountTables) \<Rightarrow> accountWorld \<Rightarrow> (exn + unit) \<times> accountWorld" where
  "updateTables f w =
     (case f (awTables w) of Inl e \<Rightarrow> (Inl e, w) | Inr db \<Rightarrow> (Inr (), w\<lparr>awTables := db\<rparr>))"

definition nodeSessions ::
  "(nat \<Rightarrow> int) \<Rightarrow> (nat \<Rightarrow> string) \<Rightarrow> (nat \<Rightarrow> bytes) \<Rightarrow> (string \<Rightarrow> string) \<Rightarrow> (string \<Rightarrow> bytes \<Rightarrow> exn + bytes) \<Rightarrow>
     accountWorld sessionPorts" where
  "nodeSessions clk uuid rand sha kdf =
     \<lparr>spoNow = (\<lambda>w. (isoString (clk (awTick w)), tick w)),
      spoNext = (\<lambda>ns w. (ns @ ''_'' @ uuid (awTick w), tick w)),
      spoFindUser = (\<lambda>u w. (findByUserId u (awTables w), w)),
      spoVerify = (\<lambda>p h w. (verifyPassword kdf p h, w)),
      spoDigest = (\<lambda>b w. (Inr (sha b), w)),
      spoIssue = (\<lambda>w. let value = base64Encode (rand (awTick w)) in
                    (Inr \<lparr>tokHash = sha value, tokValue = value\<rparr>, tick w)),
      spoFindById = (\<lambda>sid w. (findSessionById sid (awTables w), w)),
      spoFindByTokenHash = (\<lambda>h w. (findSessionByTokenHash h (awTables w), w)),
      spoPut = (\<lambda>s. updateTables (insertSession s)),
      spoRevoke = (\<lambda>sid at. updateTables (revokeSession sid at)),
      spoTouch = (\<lambda>sid at. updateTables (touchSession sid at))\<rparr>"

definition nodeMeetings :: "(nat \<Rightarrow> int) \<Rightarrow> (nat \<Rightarrow> string) \<Rightarrow> accountWorld meetingPorts" where
  "nodeMeetings clk uuid =
     \<lparr>mpoNext = (\<lambda>ns w. (ns @ ''_'' @ uuid (awTick w), tick w)),
      mpoCreate = (\<lambda>m as w. updateTables (createWithAssignments (isoString (clk (awTick w))) m as) (tick w)),
      mpoFindAssignment = (\<lambda>m u w. (findAssignment m u (awTables w), w)),
      mpoFindByCode = (\<lambda>c w. (findMeetingByCode c (awTables w), w)),
      mpoFindById = (\<lambda>m w. (findMeetingById m (awTables w), w)),
      mpoListAssignments = (\<lambda>m w. (listAssignments m (awTables w), w)),
      mpoListAssigned = (\<lambda>u w. (listAssigned u (awTables w), w))\<rparr>"

abbreviation storedSessions :: "accountWorld \<Rightarrow> sessionRecord list" where
  "storedSessions w \<equiv> atbSessions (awTables w)"

subsection \<open>The start-up\<close>

text \<open>The start-up stores the configured users, then the flagship meeting, unless that is stored already.\<close>

record demoUser =
  dusPasswordHash :: string
  dusRole :: contextRole
  dusUserId :: string

definition FLAGSHIP_MEETING_ID :: string where
  "FLAGSHIP_MEETING_ID = ''meeting-global-ai-rollout''"

definition FLAGSHIP_MEETING_CODE :: string where
  "FLAGSHIP_MEETING_CODE = ''GLOBAL-AI-2026''"

definition flagshipAssignment :: "demoUser \<Rightarrow> assignmentRecord" where
  "flagshipAssignment u =
     \<lparr>asnActive = True, asnMeetingId = FLAGSHIP_MEETING_ID, asnParticipantId = ''participant-'' @ dusUserId u,
      asnRole = dusRole u, asnUserId = dusUserId u\<rparr>"

definition flagshipMeeting :: "demoUser \<Rightarrow> meetingRecord" where
  "flagshipMeeting facilitator =
     \<lparr>mrcActive = True, mrcCode = FLAGSHIP_MEETING_CODE, mrcCreatedByUserId = dusUserId facilitator,
      mrcFacilitatorParticipantId = ''participant-'' @ dusUserId facilitator, mrcMeetingId = FLAGSHIP_MEETING_ID,
      mrcPurpose = ''Global AI Product Rollout''\<rparr>"

definition DEFAULT_DEMO_USERS :: "demoUser list" where
  "DEFAULT_DEMO_USERS =
     [\<lparr>dusPasswordHash = ''scrypt$v1$16384$8$1$OEwpNCxv86k8IZcEdTDf4g$n6qQBhlpokry1hjffTiNXyS3i9kgTdck1mtoYylMNNc'',
       dusRole = FacilitatorRole, dusUserId = ''product''\<rparr>,
      \<lparr>dusPasswordHash = ''scrypt$v1$16384$8$1$mNoCK6EpZlTEErwXPN04ew$k2CJzod-vSBkJOeHfl0DYZRC8JdTUiushgpMmtR99rU'',
       dusRole = PlainParticipantRole, dusUserId = ''safety''\<rparr>,
      \<lparr>dusPasswordHash = ''scrypt$v1$16384$8$1$FbFwb6-avA-vMsmHdMOoIw$i55Hu7ezBsAqgdW97XHwRaSIFRZnJpu7TyP0KDfwe4U'',
       dusRole = PlainParticipantRole, dusUserId = ''legal''\<rparr>,
      \<lparr>dusPasswordHash = ''scrypt$v1$16384$8$1$2EL8CN_i5Ip2bygrRaYeAA$BngA7tzCOXkGWY_mg5KAygQje2Zy3LIPIDU5xLX0qks'',
       dusRole = PlainParticipantRole, dusUserId = ''engineering''\<rparr>,
      \<lparr>dusPasswordHash = ''scrypt$v1$16384$8$1$os7QZZ9UEaQ03JICKECA8A$VoLeF85ItTvIzOlOFb5upvEjV2e231uLYh6as3v20ig'',
       dusRole = PlainParticipantRole, dusUserId = ''sales''\<rparr>]"

definition seedFlagshipMeeting :: "'w meetingPorts \<Rightarrow> demoUser list \<Rightarrow> ('w, unit) command" where
  "seedFlagshipMeeting deps users =
     bindC (portC (mpoFindById deps FLAGSHIP_MEETING_ID)) (\<lambda>stored.
     if stored \<noteq> None then returnC ()
     else
       case findFirst (\<lambda>u. dusRole u = FacilitatorRole) users of
         None \<Rightarrow> raiseC (JsError ''Flagship seed requires one facilitator'')
       | Some facilitator \<Rightarrow>
           portC (mpoCreate deps (flagshipMeeting facilitator) (map flagshipAssignment users)))"

definition startUp :: "accountWorld meetingPorts \<Rightarrow> demoUser list \<Rightarrow> (accountWorld, unit) command" where
  "startUp deps users =
     bindC (\<lambda>w. case seedSyntheticUsers (map (\<lambda>u. \<lparr>sedActive = None, sedPasswordHash = dusPasswordHash u,
                      sedUserId = dusUserId u\<rparr>) users) (awTables w) of
              (Inl e, db) \<Rightarrow> (Inl (Raised e), w\<lparr>awTables := db\<rparr>)
            | (Inr _, db) \<Rightarrow> (Inr (), w\<lparr>awTables := db\<rparr>)) (\<lambda>_.
     seedFlagshipMeeting deps users)"

text \<open>The clock of the system as a time value, whatever number the outside gives.\<close>

definition validClock :: "(nat \<Rightarrow> int) \<Rightarrow> bool" where
  "validClock clk \<longleftrightarrow> (\<forall>n. \<bar>clk n\<bar> \<le> MAX_TIME)"

definition clamp :: "int \<Rightarrow> int" where
  "clamp t = max (- MAX_TIME) (min MAX_TIME t)"

lemma clamp_bound: "\<bar>clamp t\<bar> \<le> MAX_TIME"
  unfolding clamp_def MAX_TIME_def by linarith

lemma clamp_id: "validClock clk \<Longrightarrow> (\<lambda>n. clamp (clk n)) = clk"
proof
  fix n assume "validClock clk"
  then have "\<bar>clk n\<bar> \<le> MAX_TIME" by (simp add: validClock_def)
  then show "clamp (clk n) = clk n" unfolding clamp_def by linarith
qed

lemma updateTables_sessions:
  "updateTables f w = (out, w') \<Longrightarrow>
     storedSessions w' = (case f (awTables w) of Inl e \<Rightarrow> storedSessions w | Inr db \<Rightarrow> atbSessions db) \<and>
     isl out = isl (f (awTables w))"
  by (auto simp: updateTables_def split: sum.splits)

interpretation logins: session_store "nodeSessions (\<lambda>n. clamp (f n)) uuid rand sha kdf" storedSessions
    "\<lambda>w. clamp (f (awTick w))"
  for f :: "nat \<Rightarrow> int" and uuid :: "nat \<Rightarrow> string" and rand :: "nat \<Rightarrow> bytes" and sha :: "string \<Rightarrow> string"
    and kdf :: "string \<Rightarrow> bytes \<Rightarrow> exn + bytes"
proof unfold_locales
  let ?d = "nodeSessions (\<lambda>n. clamp (f n)) uuid rand sha kdf"
  fix w w' :: accountWorld and sid at h b u p ns :: string and s out
  show "\<bar>clamp (f (awTick w))\<bar> \<le> MAX_TIME" by (rule clamp_bound)
  show "spoPut ?d s w = (out, w') \<Longrightarrow> storedSessions w' = (if isl out then storedSessions w else storedSessions w @ [s])"
    by (auto simp: nodeSessions_def insertSession_def result_simps dest!: updateTables_sessions split: sum.splits)
  show "spoRevoke ?d sid at w = (out, w') \<Longrightarrow> storedSessions w' = (if isl out then storedSessions w
      else map (\<lambda>s. if ssnSessionId s = sid then s\<lparr>ssnRevokedAt := Some (case ssnRevokedAt s of None \<Rightarrow> at | Some e \<Rightarrow> e)\<rparr>
                    else s) (storedSessions w))"
    by (auto simp: nodeSessions_def revokeSession_def result_simps dest!: updateTables_sessions split: sum.splits)
  show "spoTouch ?d sid at w = (out, w') \<Longrightarrow> storedSessions w' = (if isl out then storedSessions w
      else map (\<lambda>s. if ssnSessionId s = sid \<and> ssnRevokedAt s = None then s\<lparr>ssnLastActivityAt := at\<rparr> else s) (storedSessions w))"
    by (auto simp: nodeSessions_def touchSession_def result_simps dest!: updateTables_sessions split: sum.splits)
qed (auto simp: nodeSessions_def findSessionById_def findSessionByTokenHash_def requireNonEmpty_def Let_def result_simps)

lemma allOk_iff: "logins.allOk w \<longleftrightarrow> (\<forall>s \<in> set (storedSessions w). lifetimeOk s)"
  by (rule logins.allOk_def)

subsection \<open>Runs\<close>

text \<open>
  What a start-up and the server's routes can do with the account tables, in any order and as often as they like;
  the users may also be seeded alone.
\<close>

inductive accountStep ::
  "(nat \<Rightarrow> int) \<Rightarrow> (nat \<Rightarrow> string) \<Rightarrow> (nat \<Rightarrow> bytes) \<Rightarrow> (string \<Rightarrow> string) \<Rightarrow> (string \<Rightarrow> bytes \<Rightarrow> exn + bytes) \<Rightarrow>
     accountWorld \<Rightarrow> accountWorld \<Rightarrow> bool"
  for clk uuid rand sha kdf
  where
    step_start: "startUp (nodeMeetings clk uuid) configured w = (rs, w') \<Longrightarrow> accountStep clk uuid rand sha kdf w w'"
  | step_seed: "seedSyntheticUsers seeds (awTables w) = (out, db) \<Longrightarrow> accountStep clk uuid rand sha kdf w (w\<lparr>awTables := db\<rparr>)"
  | step_login: "login (nodeSessions clk uuid rand sha kdf) password user w = (rl, w') \<Longrightarrow> accountStep clk uuid rand sha kdf w w'"
  | step_authenticate: "authenticateSession (nodeSessions clk uuid rand sha kdf) bearer w = (ra, w') \<Longrightarrow>
       accountStep clk uuid rand sha kdf w w'"
  | step_authenticate_id: "authenticateSessionById (nodeSessions clk uuid rand sha kdf) sid touching w = (ra, w') \<Longrightarrow>
       accountStep clk uuid rand sha kdf w w'"
  | step_logout: "logout (nodeSessions clk uuid rand sha kdf) bearer w = (ro, w') \<Longrightarrow> accountStep clk uuid rand sha kdf w w'"
  | step_meeting: "createMeetingRecord (nodeMeetings clk uuid) context text users w = (rm, w') \<Longrightarrow>
       accountStep clk uuid rand sha kdf w w'"
  | step_join: "joinMeetingByCode (nodeMeetings clk uuid) code sid user w = (rj, w') \<Longrightarrow> accountStep clk uuid rand sha kdf w w'"

abbreviation accountRun where
  "accountRun clk uuid rand sha kdf \<equiv> rtranclp (accountStep clk uuid rand sha kdf)"

definition emptyAccounts :: accountWorld where
  "emptyAccounts = \<lparr>awTables = \<lparr>atbUsers = [], atbMeetings = [], atbAssignments = [], atbSessions = []\<rparr>, awTick = 0\<rparr>"

subsection \<open>Meetings\<close>

text \<open>A stored meeting has three to eight active members, each a user of its own, and one facilitator: its creator.\<close>

definition membersOf :: "accountTables \<Rightarrow> string \<Rightarrow> assignmentRecord list" where
  "membersOf db m = filter (\<lambda>a. asnMeetingId a = m) (atbAssignments db)"

definition staffed :: "meetingRecord \<Rightarrow> assignmentRecord list \<Rightarrow> bool" where
  "staffed meeting members \<longleftrightarrow>
     3 \<le> length members \<and> length members \<le> 8 \<and> (\<forall>a \<in> set members. asnActive a) \<and>
     distinct (map asnParticipantId members) \<and> distinct (map asnUserId members) \<and>
     (\<exists>f. filter (\<lambda>a. asnRole a = FacilitatorRole) members = [f] \<and>
        asnParticipantId f = mrcFacilitatorParticipantId meeting \<and> asnUserId f = mrcCreatedByUserId meeting)"

definition meetingsOk :: "accountTables \<Rightarrow> bool" where
  "meetingsOk db \<longleftrightarrow>
     distinct (map (mrcMeetingId \<circ> fst) (atbMeetings db)) \<and>
     (\<forall>a \<in> set (atbAssignments db). asnMeetingId a \<in> set (map (mrcMeetingId \<circ> fst) (atbMeetings db))) \<and>
     (\<forall>row \<in> set (atbMeetings db). staffed (fst row) (membersOf db (mrcMeetingId (fst row))))"

lemma checkAssignments_Inr:
  "checkAssignments meeting seen as = Inr x \<Longrightarrow>
     (\<forall>a \<in> set as. asnMeetingId a = mrcMeetingId meeting \<and> asnActive a \<and>
        asnParticipantId a \<notin> asnParticipantId ` set seen \<and> asnUserId a \<notin> asnUserId ` set seen) \<and>
     distinct (map asnParticipantId as) \<and> distinct (map asnUserId as)"
proof (induction meeting seen as arbitrary: x rule: checkAssignments.induct)
  case (2 meeting seen a as)
  from 2(2) have h: "checkAssignments meeting (a # seen) as = Inr x" "asnMeetingId a = mrcMeetingId meeting" "asnActive a"
    "\<forall>b \<in> set seen. asnParticipantId b \<noteq> asnParticipantId a \<and> asnUserId b \<noteq> asnUserId a"
    by (auto simp: result_simps list_ex_iff)
  with 2(1)[OF h(1)] show ?case by auto
qed simp

lemma insertAssignments_Inr:
  "insertAssignments as db = Inr db' \<Longrightarrow> db' = db\<lparr>atbAssignments := atbAssignments db @ as\<rparr>"
  by (induction as db arbitrary: db' rule: insertAssignments.induct) (auto simp: result_simps)

lemma createWithAssignments_same:
  assumes "createWithAssignments t meeting as db = Inr db'"
  shows "atbSessions db' = atbSessions db" "atbUsers db' = atbUsers db"
proof -
  obtain db1 where "insertMeeting t meeting db = Inr db1" "insertAssignments as db1 = Inr db'"
    using assms by (auto simp: createWithAssignments_def result_simps)
  then show "atbSessions db' = atbSessions db" "atbUsers db' = atbUsers db"
    by (auto simp: insertMeeting_def result_simps dest!: insertAssignments_Inr)
qed

lemma createWithAssignments_ok:
  assumes "createWithAssignments t meeting as db = Inr db'" "meetingsOk db"
  shows "meetingsOk db'"
proof -
  obtain db1 where valid: "validateMeetingCreation meeting as = Inr ()" and ins: "insertMeeting t meeting db = Inr db1"
    "insertAssignments as db1 = Inr db'"
    using assms(1) by (auto simp: createWithAssignments_def result_simps)
  have db1: "db1 = db\<lparr>atbMeetings := atbMeetings db @ [(meeting, t)]\<rparr>"
    and fresh: "mrcMeetingId meeting \<notin> set (map (mrcMeetingId \<circ> fst) (atbMeetings db))"
    using ins(1) by (auto simp: insertMeeting_def result_simps list_ex_iff)
  have db': "db' = db1\<lparr>atbAssignments := atbAssignments db @ as\<rparr>"
    using insertAssignments_Inr[OF ins(2)] db1 by simp
  obtain f where checked: "checkAssignments meeting [] as = Inr ()" "3 \<le> length as" "length as \<le> 8"
    "filter (\<lambda>a. asnRole a = FacilitatorRole) as = [f]" "asnParticipantId f = mrcFacilitatorParticipantId meeting"
    "asnUserId f = mrcCreatedByUserId meeting"
    using valid by (auto simp: validateMeetingCreation_def result_simps MINIMUM_PARTICIPANTS_def MAXIMUM_PARTICIPANTS_def
        Let_def length_Suc_conv)
  note as = checkAssignments_Inr[OF checked(1)]
  have none: "membersOf db (mrcMeetingId meeting) = []"
    using assms(2) fresh by (force simp: membersOf_def meetingsOk_def filter_empty_conv)
  have "membersOf db' (mrcMeetingId meeting) = as"
    using none as by (simp add: membersOf_def db' filter_id_conv)
  then have "staffed meeting (membersOf db' (mrcMeetingId meeting))"
    using checked as by (simp add: staffed_def)
  moreover have "membersOf db' m = membersOf db m" if "m \<noteq> mrcMeetingId meeting" for m
    using that as by (auto simp: membersOf_def db' filter_empty_conv)
  moreover have "mrcMeetingId (fst row) \<noteq> mrcMeetingId meeting" if "row \<in> set (atbMeetings db)" for row
  proof
    assume "mrcMeetingId (fst row) = mrcMeetingId meeting"
    with imageI[OF that, of "mrcMeetingId \<circ> fst"] fresh show False by (simp add: comp_def)
  qed
  ultimately have "\<forall>row \<in> set (atbMeetings db'). staffed (fst row) (membersOf db' (mrcMeetingId (fst row)))"
    using assms(2) by (simp add: db' db1 meetingsOk_def)
  moreover have "distinct (map (mrcMeetingId \<circ> fst) (atbMeetings db'))"
    using assms(2) fresh by (simp add: db' db1 meetingsOk_def)
  moreover have "\<forall>a \<in> set (atbAssignments db'). asnMeetingId a \<in> set (map (mrcMeetingId \<circ> fst) (atbMeetings db'))"
    using assms(2) as by (simp add: db' db1 meetingsOk_def ball_Un)
  ultimately show "meetingsOk db'" by (simp add: meetingsOk_def)
qed

subsection \<open>What the commands leave alone\<close>

text \<open>A property of the world that a command keeps, whatever it answers.\<close>

definition preserves :: "('w \<Rightarrow> bool) \<Rightarrow> ('w, 'a) command \<Rightarrow> bool" where
  "preserves P c \<longleftrightarrow> (\<forall>w. P w \<longrightarrow> P (snd (c w)))"

lemma preserves_basic:
  "preserves P (returnC a)" "preserves P (failC code)" "preserves P (raiseC e)" "preserves P (liftC r)" "preserves P (unlessC b code)"
  by (auto simp: preserves_def returnC_def failC_def raiseC_def liftC_def unlessC_def split: sum.splits)

lemma preserves_bind: "preserves P c \<Longrightarrow> (\<And>a. preserves P (f a)) \<Longrightarrow> preserves P (bindC c f)"
  by (fastforce simp: preserves_def bindC_def split: sum.splits prod.splits)

lemma preserves_port: "(\<And>w. P w \<Longrightarrow> P (snd (p w))) \<Longrightarrow> preserves P (portC p)"
  by (fastforce simp: preserves_def portC_def split: sum.splits prod.splits)

lemma preserves_read: "(\<And>w. P w \<Longrightarrow> P (snd (p w))) \<Longrightarrow> preserves P (readC p)"
  by (fastforce simp: preserves_def readC_def split: prod.splits)

lemmas preserves_rules = preserves_basic preserves_bind preserves_port preserves_read

lemma preserves_assign: "(\<And>w. P w \<Longrightarrow> P (snd (mpoNext d ''participant'' w))) \<Longrightarrow> preserves P (assignUsers d m us)"
  by (induction us) (auto intro!: preserves_rules)

lemma preserves_stored:
  assumes "\<And>w. P w \<Longrightarrow> P (snd (spoNow d w))" "\<And>w sid at. P w \<Longrightarrow> P (snd (spoRevoke d sid at w))"
    and "\<And>w sid at. P w \<Longrightarrow> P (snd (spoTouch d sid at w))"
  shows "preserves P (authenticateStoredSession d touching stored)"
  unfolding authenticateStoredSession_def using assms by (auto intro!: preserves_rules split: option.split)

abbreviation meetingTables :: "accountWorld \<Rightarrow> identityRecord list \<times> (meetingRecord \<times> string) list \<times> assignmentRecord list" where
  "meetingTables w \<equiv> (atbUsers (awTables w), atbMeetings (awTables w), atbAssignments (awTables w))"

lemma sessions_leave_meetings:
  assumes d_def: "d = nodeSessions clk uuid rand sha kdf"
  shows "preserves (\<lambda>w. meetingTables w = x) (login d password user)"
    "preserves (\<lambda>w. meetingTables w = x) (authenticateSession d bearer)"
    "preserves (\<lambda>w. meetingTables w = x) (authenticateSessionById d sid touching)"
    "preserves (\<lambda>w. meetingTables w = x) (logout d bearer)"
proof -
  have ports: "meetingTables (snd (spoNow d w)) = meetingTables w" "meetingTables (snd (spoNext d ns w)) = meetingTables w"
    "meetingTables (snd (spoFindUser d u w)) = meetingTables w" "meetingTables (snd (spoVerify d p h w)) = meetingTables w"
    "meetingTables (snd (spoDigest d b w)) = meetingTables w" "meetingTables (snd (spoIssue d w)) = meetingTables w"
    "meetingTables (snd (spoFindById d s w)) = meetingTables w" "meetingTables (snd (spoFindByTokenHash d h w)) = meetingTables w"
    "meetingTables (snd (spoPut d r w)) = meetingTables w" "meetingTables (snd (spoRevoke d s a w)) = meetingTables w"
    "meetingTables (snd (spoTouch d s a w)) = meetingTables w" for ns u p h b s r a w
    by (auto simp: d_def nodeSessions_def Let_def updateTables_def insertSession_def revokeSession_def touchSession_def
        result_simps split: sum.splits)
  note stored = preserves_stored[of "\<lambda>w. meetingTables w = x" d]
  show "preserves (\<lambda>w. meetingTables w = x) (login d password user)"
    unfolding login_def checkPassword_def using ports by (auto intro!: preserves_rules split: option.split)
  show "preserves (\<lambda>w. meetingTables w = x) (authenticateSession d bearer)"
    unfolding authenticateSession_def using ports by (auto intro!: preserves_rules stored)
  show "preserves (\<lambda>w. meetingTables w = x) (authenticateSessionById d sid touching)"
    unfolding authenticateSessionById_def using ports by (auto intro!: preserves_rules stored)
  show "preserves (\<lambda>w. meetingTables w = x) (logout d bearer)"
    unfolding logout_def using ports by (auto intro!: preserves_rules split: option.split)
qed

lemma meetings_leave_sessions:
  assumes d_def: "d = nodeMeetings clk uuid"
  shows "preserves (\<lambda>w. storedSessions w = x) (createMeetingRecord d context text users)"
    "preserves (\<lambda>w. meetingsOk (awTables w)) (createMeetingRecord d context text users)"
proof -
  have "storedSessions (snd (mpoNext d ns w)) = storedSessions w" "storedSessions (snd (mpoCreate d m as w)) = storedSessions w"
    "meetingsOk (awTables w) \<Longrightarrow> meetingsOk (awTables (snd (mpoNext d ns w)))"
    "meetingsOk (awTables w) \<Longrightarrow> meetingsOk (awTables (snd (mpoCreate d m as w)))" for ns m as w
    by (auto simp: d_def nodeMeetings_def updateTables_def createWithAssignments_same createWithAssignments_ok split: sum.splits)
  then show "preserves (\<lambda>w. storedSessions w = x) (createMeetingRecord d context text users)"
    "preserves (\<lambda>w. meetingsOk (awTables w)) (createMeetingRecord d context text users)"
    unfolding createMeetingRecord_def Let_def
    by (auto intro!: preserves_rules preserves_assign split: option.split)
qed

lemma seed_leaves:
  "seedSyntheticUsers seeds db = (out, db') \<Longrightarrow> atbMeetings db' = atbMeetings db \<and> atbAssignments db' = atbAssignments db \<and>
     atbSessions db' = atbSessions db"
  by (auto simp: seedSyntheticUsers_def split: sum.splits)

lemma meetingsOk_cong:
  "atbMeetings db' = atbMeetings db \<Longrightarrow> atbAssignments db' = atbAssignments db \<Longrightarrow> meetingsOk db' = meetingsOk db"
  by (simp add: meetingsOk_def membersOf_def)

lemma preserves_seeding:
  assumes "\<And>w db out seeds. P w \<Longrightarrow> seedSyntheticUsers seeds (awTables w) = (out, db) \<Longrightarrow> P (w\<lparr>awTables := db\<rparr>)"
    and "\<And>w. P w \<Longrightarrow> P (snd (mpoFindById d FLAGSHIP_MEETING_ID w))" "\<And>w m as. P w \<Longrightarrow> P (snd (mpoCreate d m as w))"
  shows "preserves P (startUp d users)"
proof -
  have flagship: "preserves P (seedFlagshipMeeting d users)"
    unfolding seedFlagshipMeeting_def
    by (rule preserves_bind, rule preserves_port, rule assms(2), assumption)
      (auto intro!: preserves_basic preserves_port assms(3) split: option.split)
  have "P (snd (case seedSyntheticUsers seeds (awTables w) of
      (Inl e, db) \<Rightarrow> (Inl (Raised e), w\<lparr>awTables := db\<rparr>) | (Inr _, db) \<Rightarrow> (Inr (), w\<lparr>awTables := db\<rparr>)))"
    if "P w" for w seeds
    using assms(1)[OF that, of seeds] by (cases "seedSyntheticUsers seeds (awTables w)") (simp split: sum.split)
  then show ?thesis unfolding startUp_def
    by (intro preserves_bind flagship) (simp add: preserves_def)
qed

lemma start_leaves:
  assumes d_def: "d = nodeMeetings clk uuid"
  shows "preserves (\<lambda>w. storedSessions w = x) (startUp d users)" "preserves (\<lambda>w. meetingsOk (awTables w)) (startUp d users)"
proof -
  have ports: "snd (mpoFindById d m w) = w" "storedSessions (snd (mpoCreate d r as w)) = storedSessions w"
    "meetingsOk (awTables w) \<Longrightarrow> meetingsOk (awTables (snd (mpoCreate d r as w)))" for m r as w
    by (auto simp: d_def nodeMeetings_def updateTables_def createWithAssignments_same createWithAssignments_ok split: sum.splits)
  show "preserves (\<lambda>w. storedSessions w = x) (startUp d users)"
    by (rule preserves_seeding) (use ports seed_leaves in auto)
  have seeded: "meetingsOk db = meetingsOk (awTables w)" if "seedSyntheticUsers seeds (awTables w) = (out, db)" for seeds out db w
    using seed_leaves[OF that] meetingsOk_cong by blast
  show "preserves (\<lambda>w. meetingsOk (awTables w)) (startUp d users)"
    by (rule preserves_seeding) (use ports in \<open>auto dest: seeded\<close>)
qed

lemma resolve_preserves: "preserves (\<lambda>v. v = w) (resolveMeetingAuthorization (nodeMeetings clk uuid) sid user m policy)"
  unfolding resolveMeetingAuthorization_def
  by (auto intro!: preserves_rules simp: nodeMeetings_def split: option.split)

lemma resolve_leaves: "snd (resolveMeetingAuthorization (nodeMeetings clk uuid) sid user m policy w) = w"
  using resolve_preserves by (simp add: preserves_def)

lemma join_leaves: "snd (joinMeetingByCode (nodeMeetings clk uuid) code sid user w) = w"
proof -
  have ports: "snd (mpoFindByCode (nodeMeetings clk uuid) c v) = v" for c v by (simp add: nodeMeetings_def)
  have "preserves (\<lambda>v. v = w) (joinMeetingByCode (nodeMeetings clk uuid) code sid user)"
    unfolding joinMeetingByCode_def using ports
    by (auto intro!: preserves_rules resolve_preserves split: option.split)
  then show ?thesis by (simp add: preserves_def)
qed

subsection \<open>Invariants of a run\<close>

lemma step_meetingsOk: "accountStep clk uuid rand sha kdf w w' \<Longrightarrow> meetingsOk (awTables w) \<Longrightarrow> meetingsOk (awTables w')"
proof (induction rule: accountStep.induct)
  case (step_start configured w rs w')
  then show ?case using start_leaves(2)[OF refl, of clk uuid configured]
    by (simp add: preserves_def) (metis snd_conv)
next
  case (step_seed seeds w out db)
  then show ?case using seed_leaves[OF step_seed(1)] meetingsOk_cong[of db "awTables w"] by simp
next
  case (step_meeting ctx p users w rm w')
  then show ?case using meetings_leave_sessions(2)[OF refl, of clk uuid ctx p users]
    by (simp add: preserves_def) (metis snd_conv)
next
  case (step_join code sid user w rj w')
  then show ?case using join_leaves by (metis snd_conv)
next
  case (step_login password user w rl w')
  then have "meetingTables w' = meetingTables w"
    using sessions_leave_meetings(1)[OF refl, of "meetingTables w" clk uuid rand sha kdf password user]
    unfolding preserves_def by (metis snd_conv)
  then show ?case using step_login meetingsOk_cong[of "awTables w'" "awTables w"] by simp
next
  case (step_authenticate bearer w ra w')
  then have "meetingTables w' = meetingTables w"
    using sessions_leave_meetings(2)[OF refl, of "meetingTables w" clk uuid rand sha kdf bearer]
    unfolding preserves_def by (metis snd_conv)
  then show ?case using step_authenticate meetingsOk_cong[of "awTables w'" "awTables w"] by simp
next
  case (step_authenticate_id sid touching w ra w')
  then have "meetingTables w' = meetingTables w"
    using sessions_leave_meetings(3)[OF refl, of "meetingTables w" clk uuid rand sha kdf sid touching]
    unfolding preserves_def by (metis snd_conv)
  then show ?case using step_authenticate_id meetingsOk_cong[of "awTables w'" "awTables w"] by simp
next
  case (step_logout bearer w ro w')
  then have "meetingTables w' = meetingTables w"
    using sessions_leave_meetings(4)[OF refl, of "meetingTables w" clk uuid rand sha kdf bearer]
    unfolding preserves_def by (metis snd_conv)
  then show ?case using step_logout meetingsOk_cong[of "awTables w'" "awTables w"] by simp
qed

lemma step_grows:
  assumes "accountStep clk uuid rand sha kdf w w'" "validClock clk" "logins.allOk w"
  shows "logins.grows w w'"
  using assms(1,3)
proof (induction rule: accountStep.induct)
  case (step_start configured w rs w')
  have "storedSessions w' = storedSessions w"
    using start_leaves(1)[OF refl, of "storedSessions w" clk uuid configured] step_start(1)
    unfolding preserves_def by (metis snd_conv)
  then show ?case by (rule logins.grows_same)
next
  case (step_seed seeds w out db)
  show ?case by (rule logins.grows_same) (use seed_leaves[OF step_seed(1)] in simp)
next
  case (step_meeting ctx p users w rm w')
  have "storedSessions w' = storedSessions w"
    using meetings_leave_sessions(1)[OF refl, of "storedSessions w" clk uuid ctx p users] step_meeting(1)
    unfolding preserves_def by (metis snd_conv)
  then show ?case by (rule logins.grows_same)
next
  case (step_join code sid user w rj w')
  then show ?case using join_leaves logins.grows_refl by (metis snd_conv)
next
  case (step_login password user w rl w')
  then show ?case using logins.login_grows[of clk uuid rand sha kdf] by (simp add: clamp_id[OF assms(2)])
next
  case (step_authenticate bearer w ra w')
  then show ?case using logins.authenticateSession_grows[of w clk uuid rand sha kdf] by (simp add: clamp_id[OF assms(2)])
next
  case (step_authenticate_id sid touching w ra w')
  then show ?case using logins.authenticateById_grows[of w clk uuid rand sha kdf] by (simp add: clamp_id[OF assms(2)])
next
  case (step_logout bearer w ro w')
  then show ?case using logins.logout_grows[of clk uuid rand sha kdf] by (simp add: clamp_id[OF assms(2)])
qed

lemma run_grows:
  assumes "accountRun clk uuid rand sha kdf w w'" "validClock clk" "logins.allOk w"
  shows "logins.grows w w' \<and> logins.allOk w'"
  using assms(1)
proof (induction rule: rtranclp_induct)
  case base
  then show ?case using assms(3) by simp
next
  case (step y z)
  with step_grows[OF step(2) assms(2)] logins.grows_trans have "logins.grows y z" "logins.grows w z" by blast+
  with step.IH show ?case by (simp add: logins.grows_def)
qed

lemma run_ok:
  assumes "accountRun clk uuid rand sha kdf emptyAccounts w"
  shows "meetingsOk (awTables w)" and "validClock clk \<Longrightarrow> logins.allOk w"
proof -
  show "meetingsOk (awTables w)"
    using assms
  proof (induction rule: rtranclp_induct)
    case base
    show ?case by (simp add: emptyAccounts_def meetingsOk_def)
  qed (rule step_meetingsOk)
  have "logins.allOk emptyAccounts" by (simp add: allOk_iff emptyAccounts_def)
  then show "validClock clk \<Longrightarrow> logins.allOk w" using run_grows[OF assms] by blast
qed

subsection \<open>Roles and capabilities\<close>

definition facilitatorOnly :: "permission \<Rightarrow> bool" where
  "facilitatorOnly cap \<longleftrightarrow>
     cap \<in> set [DecisionCommit, DecisionReviewConfirm, DemoEventInject, DemoReset, ByokConfigure]"

lemma capability_of_role:
  "facilitatorOnly cap \<Longrightarrow> cap \<in> set (capabilitiesForRole role managed) \<longleftrightarrow> role = FacilitatorRole"
  by (auto simp: facilitatorOnly_def capabilitiesForRole_def)

lemma resolve_Inr:
  assumes "resolveMeetingAuthorization (nodeMeetings clk uuid) sid user m policy w = (Inr ctx, w')"
  shows "\<exists>row a. row \<in> set (map fst (atbMeetings (awTables w))) \<and> mrcMeetingId row = m \<and> mrcActive row \<and>
     a \<in> set (membersOf (awTables w) m) \<and> asnUserId a = user \<and> asnActive a \<and>
     ctx = userAuthorizationContext m (asnParticipantId a) (asnRole a) sid user policy"
proof -
  from assms obtain row a where found: "findMeetingById m (awTables w) = Inr (Some row)"
      "findAssignment m user (awTables w) = Inr (Some a)" "mrcActive row" "asnActive a"
      "ctx = userAuthorizationContext m (asnParticipantId a) (asnRole a) sid user policy"
    by (auto simp: resolveMeetingAuthorization_def nodeMeetings_def bindC_def portC_def returnC_def failC_def
        split: option.splits if_splits sum.splits)
  then have "row \<in> set (map fst (atbMeetings (awTables w)))" "mrcMeetingId row = m"
    "a \<in> set (membersOf (awTables w) m)" "asnUserId a = user"
    by (auto simp: findMeetingById_def findAssignment_def membersOf_def result_simps dest!: findFirst_SomeD)
  with found show ?thesis by blast
qed

text \<open>The single facilitator of a meeting is its creator.\<close>

lemma staffed_facilitator:
  assumes "staffed meeting members" "a \<in> set members" "asnRole a = FacilitatorRole"
  shows "asnParticipantId a = mrcFacilitatorParticipantId meeting \<and> asnUserId a = mrcCreatedByUserId meeting"
proof -
  from assms(1) obtain f where f: "filter (\<lambda>a. asnRole a = FacilitatorRole) members = [f]"
    "asnParticipantId f = mrcFacilitatorParticipantId meeting" "asnUserId f = mrcCreatedByUserId meeting"
    by (auto simp: staffed_def)
  have "a \<in> set (filter (\<lambda>a. asnRole a = FacilitatorRole) members)" using assms(2,3) by simp
  with f show ?thesis by simp
qed

subsection \<open>A concrete run\<close>

definition exampleKdf :: "string \<Rightarrow> bytes \<Rightarrow> exn + bytes" where
  "exampleKdf password salt = Inr (replicate 32 (byte (length password)))"

definition exampleHash :: string where
  "exampleHash = (case hashPassword exampleKdf (replicate 16 0) ''pw'' of Inr h \<Rightarrow> h | Inl e \<Rightarrow> [])"

definition exampleUuid :: "nat \<Rightarrow> string" where
  "exampleUuid n = [''0123456789abcdef'' ! n]"

lemma exampleHash_parses: "parseScryptHash exampleHash = Some (replicate 16 0, replicate 32 (byte (Suc (Suc 0))))"
  "hashPassword exampleKdf (replicate 16 0) ''pw'' = Inr exampleHash"
proof -
  obtain h where h: "hashPassword exampleKdf (replicate 16 0) ''pw'' = Inr h"
    by (simp add: hashPassword_def exampleKdf_def)
  then show eq: "hashPassword exampleKdf (replicate 16 0) ''pw'' = Inr exampleHash" by (simp add: exampleHash_def)
  show "parseScryptHash exampleHash = Some (replicate 16 0, replicate 32 (byte (Suc (Suc 0))))"
    using hashPassword_Inr[OF eq] by (simp add: exampleKdf_def SCRYPT_SALT_BYTES_def SCRYPT_KEY_BYTES_def)
qed

definition exampleUser :: "string \<Rightarrow> identityRecord" where
  "exampleUser u = \<lparr>idnActive = True, idnPasswordHash = exampleHash, idnUserId = u\<rparr>"

definition exampleSeed :: "string \<Rightarrow> userSeed" where
  "exampleSeed u = \<lparr>sedActive = None, sedPasswordHash = exampleHash, sedUserId = u\<rparr>"

definition seededAccounts :: accountWorld where
  "seededAccounts = \<lparr>awTables = \<lparr>atbUsers = map exampleUser [''u1'', ''u2'', ''u3''], atbMeetings = [], atbAssignments = [],
     atbSessions = []\<rparr>, awTick = 0\<rparr>"

abbreviation exampleSessions :: "accountWorld sessionPorts" where
  "exampleSessions \<equiv> nodeSessions (\<lambda>_. 0) exampleUuid (\<lambda>_. [1]) (\<lambda>s. ''h'') exampleKdf"

abbreviation exampleRun where
  "exampleRun \<equiv> accountRun (\<lambda>_. 0) exampleUuid (\<lambda>_. [1]) (\<lambda>s. ''h'') exampleKdf"

lemma seeded_reached: "exampleRun emptyAccounts seededAccounts"
proof -
  have "seedSyntheticUsers (map exampleSeed [''u1'', ''u2'', ''u3'']) (awTables emptyAccounts) = (Inr (), awTables seededAccounts)"
    by (simp add: seedSyntheticUsers_def exampleSeed_def isScryptPasswordHash_def exampleHash_parses requireNonEmpty_def
        upsertUser_def Let_def emptyAccounts_def seededAccounts_def exampleUser_def)
  from step_seed[OF this] show ?thesis by (simp add: emptyAccounts_def seededAccounts_def r_into_rtranclp)
qed

definition exampleSession :: sessionRecord where
  "exampleSession = \<lparr>ssnAbsoluteExpiresAt = isoString 28800000, ssnCreatedAt = isoString 0, ssnLastActivityAt = isoString 0,
     ssnRevokedAt = None, ssnSessionId = ''session_2'', ssnTokenHash = ''h'', ssnUserId = ''u1''\<rparr>"

definition loggedIn :: accountWorld where
  "loggedIn = seededAccounts\<lparr>awTables := (awTables seededAccounts)\<lparr>atbSessions := [exampleSession]\<rparr>, awTick := 3\<rparr>"

lemma iso_nonempty [simp]: "isoString t \<noteq> []"
  using isoString_ends[of t] by auto

lemma login_reached:
  "login exampleSessions ''pw'' ''u1'' seededAccounts = (Inr \<lparr>lgaBearerToken = base64Encode [1],
     lgaExpiresAt = isoString 28800000, lgaUserId = ''u1''\<rparr>, loggedIn)"
  "exampleRun emptyAccounts loggedIn"
proof -
  have "verifyPassword exampleKdf ''pw'' exampleHash = Inr True"
    by (simp add: verifyPassword_def exampleHash_parses exampleKdf_def timingSafeEqual_def)
  moreover have "timestampMs (isoString 0) = Inr 0" by (simp add: timestampMs_def dateParse_isoString MAX_TIME_def)
  ultimately show run: "login exampleSessions ''pw'' ''u1'' seededAccounts = (Inr \<lparr>lgaBearerToken = base64Encode [1],
     lgaExpiresAt = isoString 28800000, lgaUserId = ''u1''\<rparr>, loggedIn)"
    by (simp add: login_def nodeSessions_def bindC_def portC_def readC_def liftC_def returnC_def findByUserId_def
        requireNonEmpty_def seededAccounts_def exampleUser_def checkPassword_def isoTimestamp_def SESSION_ABSOLUTE_MS_def
        MAX_TIME_def updateTables_def insertSession_def hasUser_def loggedIn_def exampleSession_def exampleUuid_def Let_def)
  show "exampleRun emptyAccounts loggedIn"
    using seeded_reached step_login[OF run] by (rule rtranclp.rtrancl_into_rtrancl)
qed

definition exampleContext :: userContext where
  "exampleContext = userAuthorizationContext ''m0'' ''p0'' FacilitatorRole ''session_2'' ''u1'' None"

definition exampleUsers :: "meetingUser list" where
  "exampleUsers = [\<lparr>mruRole = FacilitatorRole, mruUserId = ''u1''\<rparr>,
     \<lparr>mruRole = PlainParticipantRole, mruUserId = ''u2''\<rparr>, \<lparr>mruRole = PlainParticipantRole, mruUserId = ''u3''\<rparr>]"

definition exampleMembers :: "assignmentRecord list" where
  "exampleMembers =
     [\<lparr>asnActive = True, asnMeetingId = ''meeting_3'', asnParticipantId = ''participant_4'', asnRole = FacilitatorRole, asnUserId = ''u1''\<rparr>,
      \<lparr>asnActive = True, asnMeetingId = ''meeting_3'', asnParticipantId = ''participant_5'', asnRole = PlainParticipantRole, asnUserId = ''u2''\<rparr>,
      \<lparr>asnActive = True, asnMeetingId = ''meeting_3'', asnParticipantId = ''participant_6'', asnRole = PlainParticipantRole, asnUserId = ''u3''\<rparr>]"

definition exampleMeetingRow :: meetingRecord where
  "exampleMeetingRow = \<lparr>mrcActive = True, mrcCode = ''meeting-code_7'', mrcCreatedByUserId = ''u1'',
     mrcFacilitatorParticipantId = ''participant_4'', mrcMeetingId = ''meeting_3'', mrcPurpose = ''p''\<rparr>"

definition meetingCreated :: accountWorld where
  "meetingCreated = loggedIn\<lparr>awTables := (awTables loggedIn)\<lparr>atbMeetings := [(exampleMeetingRow, isoString 0)],
     atbAssignments := exampleMembers\<rparr>, awTick := 9\<rparr>"

lemma meeting_reached: "exampleRun emptyAccounts meetingCreated"
proof -
  have valid: "validateMeetingCreation exampleMeetingRow exampleMembers = Inr ()"
    by (simp add: validateMeetingCreation_def exampleMeetingRow_def exampleMembers_def requireNonEmpty_def ensure_def
        MINIMUM_PARTICIPANTS_def MAXIMUM_PARTICIPANTS_def Let_def)
  have "meetingUsersOk ''u1'' exampleUsers"
    by (simp add: meetingUsersOk_def exampleUsers_def Let_def MINIMUM_PARTICIPANTS_def MAXIMUM_PARTICIPANTS_def)
  moreover have "trim ''p'' = ''p''" by code_simp
  moreover have "assignUsers (nodeMeetings (\<lambda>_. 0) exampleUuid) ''meeting_3'' exampleUsers (loggedIn\<lparr>awTick := 4\<rparr>) =
      (Inr exampleMembers, loggedIn\<lparr>awTick := 7\<rparr>)"
    by (simp add: exampleUsers_def bindC_def readC_def returnC_def nodeMeetings_def exampleUuid_def exampleMembers_def)
  moreover have "createWithAssignments (isoString 0) exampleMeetingRow exampleMembers (awTables loggedIn) =
      Inr ((awTables loggedIn)\<lparr>atbMeetings := [(exampleMeetingRow, isoString 0)], atbAssignments := exampleMembers\<rparr>)"
    unfolding createWithAssignments_def using valid
    by (simp add: insertMeeting_def ensure_def hasUser_def exampleMembers_def loggedIn_def seededAccounts_def exampleUser_def
        exampleMeetingRow_def)
  moreover have "mpoNext (nodeMeetings (\<lambda>_. 0) exampleUuid) ns w = (ns @ ''_'' @ exampleUuid (awTick w), tick w)"
    "mpoCreate (nodeMeetings (\<lambda>_. 0) exampleUuid) m as w = updateTables (createWithAssignments (isoString 0) m as) (tick w)"
    for ns m as w by (simp_all add: nodeMeetings_def)
  moreover have "awTick loggedIn = 3" "exampleUuid 3 = ''3''" "exampleUuid 7 = ''7''"
    by (simp_all add: loggedIn_def exampleUuid_def)
  moreover have "findFirst (\<lambda>a. asnRole a = FacilitatorRole) exampleMembers = Some (hd exampleMembers)"
    "\<lparr>mrcActive = True, mrcCode = ''meeting-code_7'', mrcCreatedByUserId = ''u1'',
       mrcFacilitatorParticipantId = asnParticipantId (hd exampleMembers), mrcMeetingId = ''meeting_3'', mrcPurpose = ''p''\<rparr> =
     exampleMeetingRow" "uctRole exampleContext = FacilitatorRole" "uctUserId exampleContext = ''u1''"
    by (simp_all add: exampleMembers_def exampleMeetingRow_def exampleContext_def userAuthorizationContext_def)
  ultimately have "createMeetingRecord (nodeMeetings (\<lambda>_. 0) exampleUuid) exampleContext ''p'' exampleUsers loggedIn =
      (Inr \<lparr>crmAssignments = exampleMembers, crmMeeting = exampleMeetingRow\<rparr>, meetingCreated)"
    by (simp add: createMeetingRecord_def bindC_def unlessC_def returnC_def readC_def portC_def updateTables_def
        meetingCreated_def Let_def)
  from rtranclp.rtrancl_into_rtrancl[OF login_reached(2) step_meeting[OF this]] show ?thesis .
qed

text \<open>The first start-up with the default users stores the flagship meeting.\<close>

definition startedAccounts :: accountWorld where
  "startedAccounts = \<lparr>awTables = \<lparr>
     atbUsers = map (\<lambda>u. \<lparr>idnActive = True, idnPasswordHash = dusPasswordHash u, idnUserId = dusUserId u\<rparr>) DEFAULT_DEMO_USERS,
     atbMeetings = [(flagshipMeeting (hd DEFAULT_DEMO_USERS), isoString 0)],
     atbAssignments = map flagshipAssignment DEFAULT_DEMO_USERS, atbSessions = []\<rparr>, awTick = 1\<rparr>"

lemma default_hashes: "list_all (\<lambda>u. isScryptPasswordHash (dusPasswordHash u)) DEFAULT_DEMO_USERS"
  by code_simp

lemma start_reached:
  "startUp (nodeMeetings (\<lambda>_. 0) exampleUuid) DEFAULT_DEMO_USERS emptyAccounts = (Inr (), startedAccounts)"
  "exampleRun emptyAccounts startedAccounts"
proof -
  let ?seeds = "map (\<lambda>u. \<lparr>sedActive = None, sedPasswordHash = dusPasswordHash u, sedUserId = dusUserId u\<rparr>) DEFAULT_DEMO_USERS"
  let ?users = "map (\<lambda>u. \<lparr>idnActive = True, idnPasswordHash = dusPasswordHash u, idnUserId = dusUserId u\<rparr>) DEFAULT_DEMO_USERS"
  let ?tables = "(awTables emptyAccounts)\<lparr>atbUsers := ?users\<rparr>"
  have seeded: "seedSyntheticUsers ?seeds (awTables emptyAccounts) = (Inr (), ?tables)"
    using default_hashes
    by (simp add: seedSyntheticUsers_def requireNonEmpty_def upsertUser_def Let_def emptyAccounts_def DEFAULT_DEMO_USERS_def)
  have valid: "validateMeetingCreation (flagshipMeeting (hd DEFAULT_DEMO_USERS)) (map flagshipAssignment DEFAULT_DEMO_USERS) = Inr ()"
    by (simp add: validateMeetingCreation_def flagshipMeeting_def flagshipAssignment_def DEFAULT_DEMO_USERS_def requireNonEmpty_def
        ensure_def MINIMUM_PARTICIPANTS_def MAXIMUM_PARTICIPANTS_def Let_def FLAGSHIP_MEETING_ID_def FLAGSHIP_MEETING_CODE_def)
  have created: "createWithAssignments (isoString 0) (flagshipMeeting (hd DEFAULT_DEMO_USERS))
      (map flagshipAssignment DEFAULT_DEMO_USERS) ?tables = Inr (awTables startedAccounts)"
    unfolding createWithAssignments_def using valid
    by (simp add: insertMeeting_def ensure_def hasUser_def emptyAccounts_def startedAccounts_def flagshipMeeting_def
        flagshipAssignment_def DEFAULT_DEMO_USERS_def)
  have first: "findFirst (\<lambda>u. dusRole u = FacilitatorRole) DEFAULT_DEMO_USERS = Some (hd DEFAULT_DEMO_USERS)"
    by (simp add: DEFAULT_DEMO_USERS_def)
  have none: "findMeetingById FLAGSHIP_MEETING_ID ?tables = Inr None"
    by (simp add: findMeetingById_def requireNonEmpty_def FLAGSHIP_MEETING_ID_def emptyAccounts_def)
  show run: "startUp (nodeMeetings (\<lambda>_. 0) exampleUuid) DEFAULT_DEMO_USERS emptyAccounts = (Inr (), startedAccounts)"
    unfolding startUp_def seedFlagshipMeeting_def
    by (simp add: bindC_def portC_def seeded nodeMeetings_def none first updateTables_def created)
      (simp add: startedAccounts_def emptyAccounts_def)
  show "exampleRun emptyAccounts startedAccounts"
    by (rule r_into_rtranclp, rule step_start[OF run])
qed

subsection \<open>Ended sessions\<close>

lemma expired_is_revoked:
  assumes "validClock clk" "logins.allOk w"
    and "authenticateSession (nodeSessions clk uuid rand sha kdf) bearer w = (Inl (Failed (FailedWith SESSION_EXPIRED)), w1)"
  shows "bearer = [] \<or> sha bearer \<noteq> [] \<and> logins.allOk w1 \<and>
    (\<exists>s. findFirst (\<lambda>s. ssnTokenHash s = sha bearer) (storedSessions w1) = Some s \<and> ssnRevokedAt s \<noteq> None)"
proof -
  let ?d = "nodeSessions clk uuid rand sha kdf"
  note clock = clamp_id[OF assms(1)]
  have grows: "logins.grows w w1"
    using logins.authenticateSession_grows[of w clk uuid rand sha kdf, unfolded clock, OF assms(2,3)] .
  have ok: "logins.allOk w1" using grows assms(2) by (simp add: logins.grows_def)
  from logins.authenticateSession_cases[of clk uuid rand sha kdf, unfolded clock, OF assms(3)]
  obtain h where h: "spoDigest ?d bearer w = (Inr h, w)" "h \<noteq> []"
    "authenticateStoredSession ?d True (findFirst (\<lambda>s. ssnTokenHash s = h) (storedSessions w)) w =
      (Inl (Failed (FailedWith SESSION_EXPIRED)), w1)" by blast
  then have sha: "h = sha bearer" by (simp add: nodeSessions_def)
  have found_ok: "\<And>s. findFirst (\<lambda>s. ssnTokenHash s = h) (storedSessions w) = Some s \<Longrightarrow> lifetimeOk s"
    using logins.found_ok[OF assms(2)] by blast
  from logins.stored_cases(3)[of clk uuid rand sha kdf, unfolded clock, OF h(3) found_ok refl]
  obtain s where s: "findFirst (\<lambda>s. ssnTokenHash s = h) (storedSessions w) = Some s"
    "\<forall>s' \<in> set (storedSessions w1). ssnSessionId s' = ssnSessionId s \<longrightarrow> ssnRevokedAt s' \<noteq> None" by blast
  from sessionsEvolve_find[OF _ s(1)] grows obtain s' where
    s': "findFirst (\<lambda>s. ssnTokenHash s = h) (storedSessions w1) = Some s'" "evolves s s'"
    by (auto simp: logins.grows_def evolves_def)
  with s(2) findFirst_SomeD[OF s'(1)] have "ssnRevokedAt s' \<noteq> None" by (auto simp: evolves_def)
  with s'(1) ok h(2) sha show ?thesis by blast
qed

lemma logout_is_revoked:
  assumes "validClock clk" "logins.allOk w"
    and "\<exists>s \<in> set (storedSessions w). ssnTokenHash s = sha bearer" "logout (nodeSessions clk uuid rand sha kdf) bearer w = (Inr (), w1)"
  shows "bearer = [] \<or> sha bearer \<noteq> [] \<and> logins.allOk w1 \<and>
    (\<exists>s. findFirst (\<lambda>s. ssnTokenHash s = sha bearer) (storedSessions w1) = Some s \<and> ssnRevokedAt s \<noteq> None)"
proof -
  let ?d = "nodeSessions clk uuid rand sha kdf"
  note clock = clamp_id[OF assms(1)]
  have ok: "logins.allOk w1"
    using logins.logout_grows[of clk uuid rand sha kdf, unfolded clock, OF assms(4)] assms(2) by (simp add: logins.grows_def)
  have digest: "spoDigest ?d bearer w = (Inr (sha bearer), w)" by (simp add: nodeSessions_def)
  have ne: "sha bearer \<noteq> []"
  proof
    assume "sha bearer = []"
    with assms(4) show False
      by (simp add: logout_def nodeSessions_def bindC_def portC_def findSessionByTokenHash_def requireNonEmpty_def ensure_def)
  qed
  from assms(3) obtain s where "findFirst (\<lambda>s. ssnTokenHash s = sha bearer) (storedSessions w) = Some s"
    by (cases "findFirst (\<lambda>s. ssnTokenHash s = sha bearer) (storedSessions w)") (auto simp: findFirst_None)
  from logins.logout_revokes[of clk uuid rand sha kdf, unfolded clock, OF assms(4) digest this ne] ok ne show ?thesis by blast
qed

subsection \<open>What the runs of the server keep\<close>

lemma example_token:
  "base64Encode [1] = ''AQ''" "validClock (\<lambda>_. 0)" "timestampMs (isoString 0) = Inr 0"
  "storedSessions loggedIn = [exampleSession]" "awTick loggedIn = 3"
proof -
  show "base64Encode [1] = ''AQ''" by code_simp
  show "timestampMs (isoString 0) = Inr 0" by (simp add: timestampMs_def dateParse_isoString MAX_TIME_def)
qed (simp_all add: validClock_def MAX_TIME_def loggedIn_def)

lemma example_authenticates:
  "\<exists>w'. authenticateSession exampleSessions ''AQ'' loggedIn = (Inr exampleSession, w')"
proof -
  have "sessionExpired 0 exampleSession = Inr False"
    by (simp add: sessionExpired_def exampleSession_def timestampMs_def dateParse_isoString MAX_TIME_def SESSION_INACTIVITY_MS_def)
  moreover have "ssnTokenHash exampleSession = ''h''" "ssnRevokedAt exampleSession = None" "ssnSessionId exampleSession \<noteq> []"
    "exampleSession\<lparr>ssnLastActivityAt := isoString 0\<rparr> = exampleSession"
    by (simp_all add: exampleSession_def)
  ultimately show ?thesis using example_token
    by (simp add: authenticateSession_def authenticateStoredSession_def nodeSessions_def bindC_def portC_def readC_def
        liftC_def returnC_def findSessionByTokenHash_def requireNonEmpty_def ensure_def updateTables_def touchSession_def)
qed

lemma example_logs_out:
  "logout exampleSessions ''AQ'' loggedIn = (Inr (), snd (logout exampleSessions ''AQ'' loggedIn))"
proof -
  have "ssnTokenHash exampleSession = ''h''" "ssnRevokedAt exampleSession = None" "ssnSessionId exampleSession \<noteq> []"
    by (simp_all add: exampleSession_def)
  then show ?thesis using example_token
    by (simp add: logout_def nodeSessions_def bindC_def portC_def readC_def findSessionByTokenHash_def requireNonEmpty_def
        ensure_def updateTables_def revokeSession_def)
qed

text \<open>C33. A session that authenticates is alive: the stored session has the digest of the bearer's
  token, was not revoked, was created less than eight hours ago and was active less than two hours
  ago by the server's clock; the answer is that session with its activity moved to now.\<close>

theorem authenticated_session_is_live:
  assumes "accountRun clk uuid rand sha kdf emptyAccounts w" "validClock clk"
    and "authenticateSession (nodeSessions clk uuid rand sha kdf) bearer w = (Inr s, w')"
  shows "\<exists>stored \<in> set (storedSessions w). \<exists>created last.
     ssnTokenHash stored = sha bearer \<and> ssnRevokedAt stored = None \<and>
     ssnCreatedAt stored = isoString created \<and> clk (awTick w) < created + 8 * 3600000 \<and>
     ssnLastActivityAt stored = isoString last \<and> clk (awTick w) - last < 2 * 3600000 \<and>
     s = stored\<lparr>ssnLastActivityAt := isoString (clk (awTick w))\<rparr>"
proof -
  from logins.authenticateSession_live[of w clk uuid rand sha kdf bearer s w', unfolded clamp_id[OF assms(2)],
      OF run_ok(2)[OF assms(1,2)] assms(3)]
  obtain stored where st: "stored \<in> set (storedSessions w)" "ssnTokenHash stored = sha bearer"
    "liveAt (clk (awTick w)) stored" "s = stored\<lparr>ssnLastActivityAt := isoString (clk (awTick w))\<rparr>"
    using clamp_id[OF assms(2)] by (auto simp: nodeSessions_def fun_eq_iff)
  then show ?thesis
    by (auto simp: liveAt_def SESSION_ABSOLUTE_MS_def SESSION_INACTIVITY_MS_def intro!: bexI[of _ stored])
qed

theorem authenticated_session_is_live_witness:
  "\<exists>stored \<in> set (storedSessions loggedIn). \<exists>created last.
     ssnTokenHash stored = ''h'' \<and> ssnRevokedAt stored = None \<and>
     ssnCreatedAt stored = isoString created \<and> 0 < created + 8 * 3600000 \<and>
     ssnLastActivityAt stored = isoString last \<and> 0 - last < 2 * 3600000 \<and>
     exampleSession = stored\<lparr>ssnLastActivityAt := isoString 0\<rparr>"
proof -
  obtain w' where "authenticateSession exampleSessions ''AQ'' loggedIn = (Inr exampleSession, w')"
    using example_authenticates by blast
  from authenticated_session_is_live[OF login_reached(2) example_token(2) this] show ?thesis .
qed

text \<open>C34. A session that expired or was logged out never comes back: whatever the server does next,
  its token authenticates nobody.\<close>

theorem ended_session_stays_dead:
  assumes "accountRun clk uuid rand sha kdf emptyAccounts w" "validClock clk"
    and ended: "fst (authenticateSession (nodeSessions clk uuid rand sha kdf) bearer w) = Inl (Failed (FailedWith SESSION_EXPIRED)) \<and>
        w1 = snd (authenticateSession (nodeSessions clk uuid rand sha kdf) bearer w) \<or>
      (\<exists>s \<in> set (storedSessions w). ssnTokenHash s = sha bearer) \<and>
        logout (nodeSessions clk uuid rand sha kdf) bearer w = (Inr (), w1)"
    and "accountRun clk uuid rand sha kdf w1 w2"
  shows "authenticateSession (nodeSessions clk uuid rand sha kdf) bearer w2 =
    (Inl (Failed (FailedWith AUTHENTICATION_REQUIRED)), w2)"
proof -
  let ?d = "nodeSessions clk uuid rand sha kdf"
  note ok = run_ok(2)[OF assms(1,2)]
  note clock = clamp_id[OF assms(2)]
  have digest: "spoDigest ?d bearer v = (Inr (sha bearer), v)" for v by (simp add: nodeSessions_def)
  have "bearer = [] \<or> sha bearer \<noteq> [] \<and> logins.allOk w1 \<and>
    (\<exists>s. findFirst (\<lambda>s. ssnTokenHash s = sha bearer) (storedSessions w1) = Some s \<and> ssnRevokedAt s \<noteq> None)"
    using ended
  proof
    assume e: "fst (authenticateSession ?d bearer w) = Inl (Failed (FailedWith SESSION_EXPIRED)) \<and> w1 = snd (authenticateSession ?d bearer w)"
    then have run: "authenticateSession ?d bearer w = (Inl (Failed (FailedWith SESSION_EXPIRED)), w1)" by (metis prod.collapse)
    show ?thesis by (rule expired_is_revoked[OF assms(2) ok run])
  next
    assume l: "(\<exists>s \<in> set (storedSessions w). ssnTokenHash s = sha bearer) \<and> logout ?d bearer w = (Inr (), w1)"
    show ?thesis by (rule logout_is_revoked[OF assms(2) ok]) (use l in auto)
  qed
  then show ?thesis
  proof
    assume "bearer = []"
    then show ?thesis by (simp add: authenticateSession_def failC_def)
  next
    assume dead: "sha bearer \<noteq> [] \<and> logins.allOk w1 \<and>
      (\<exists>s. findFirst (\<lambda>s. ssnTokenHash s = sha bearer) (storedSessions w1) = Some s \<and> ssnRevokedAt s \<noteq> None)"
    then have "logins.grows w1 w2" using run_grows[OF assms(4,2)] by blast
    then show ?thesis using dead digest[of w2]
      logins.revoked_stays_dead[where f = clk and uuid = uuid and rand = rand and sha = sha and kdf = kdf and w = w1 and ?w2.0 = w2
        and h = "sha bearer" and b = bearer, unfolded clock]
      by (cases "bearer = []") (auto simp: authenticateSession_def failC_def)
  qed
qed

theorem ended_session_stays_dead_witness:
  "authenticateSession exampleSessions ''AQ'' (snd (logout exampleSessions ''AQ'' loggedIn)) =
    (Inl (Failed (FailedWith AUTHENTICATION_REQUIRED)), snd (logout exampleSessions ''AQ'' loggedIn))"
proof (rule ended_session_stays_dead[OF login_reached(2) example_token(2)])
  have "ssnTokenHash exampleSession = ''h''" by (simp add: exampleSession_def)
  then show "fst (authenticateSession exampleSessions ''AQ'' loggedIn) = Inl (Failed (FailedWith SESSION_EXPIRED)) \<and>
        snd (logout exampleSessions ''AQ'' loggedIn) = snd (authenticateSession exampleSessions ''AQ'' loggedIn) \<or>
      (\<exists>s \<in> set (storedSessions loggedIn). ssnTokenHash s = ''h'') \<and>
        logout exampleSessions ''AQ'' loggedIn = (Inr (), snd (logout exampleSessions ''AQ'' loggedIn))"
    using example_logs_out example_token by simp
qed simp

text \<open>C35. Only the facilitator of a meeting gets a facilitator's powers: a context that the server
  resolved for a user and a meeting may commit, confirm reviews, inject events, reset or configure keys
  in a meeting only if that meeting is active and was created by that very user as its facilitator.\<close>

theorem facilitator_powers_are_the_creators:
  assumes "accountRun clk uuid rand sha kdf emptyAccounts w"
    and "resolveMeetingAuthorization (nodeMeetings clk uuid) sid user m policy w = (Inr ctx, w')"
    and "facilitatorOnly cap" "mayUse ctx cap m'"
  shows "\<exists>row \<in> set (map fst (atbMeetings (awTables w))).
     mrcMeetingId row = m' \<and> mrcActive row \<and> mrcCreatedByUserId row = user \<and>
     mrcFacilitatorParticipantId row = uctParticipantId ctx \<and> uctUserId ctx = user"
proof -
  from resolve_Inr[OF assms(2)] obtain row a where r: "row \<in> set (map fst (atbMeetings (awTables w)))" "mrcMeetingId row = m"
    "mrcActive row" "a \<in> set (membersOf (awTables w) m)" "asnUserId a = user"
    "ctx = userAuthorizationContext m (asnParticipantId a) (asnRole a) sid user policy" by blast
  with assms(3,4) have role: "asnRole a = FacilitatorRole" "m' = m"
    by (auto simp: mayUse_iff userAuthorizationContext_def capability_of_role)
  have "staffed row (membersOf (awTables w) m)"
    using run_ok(1)[OF assms(1)] r(1,2) by (auto simp: meetingsOk_def)
  from staffed_facilitator[OF this r(4) role(1)] r role(2) show ?thesis
    by (auto simp: userAuthorizationContext_def)
qed

theorem facilitator_powers_are_the_creators_witness:
  "(\<exists>row \<in> set (map fst (atbMeetings (awTables startedAccounts))).
     mrcMeetingId row = ''meeting-global-ai-rollout'' \<and> mrcActive row \<and> mrcCreatedByUserId row = ''product'' \<and>
     mrcFacilitatorParticipantId row = ''participant-product'') \<and>
   (\<exists>row \<in> set (map fst (atbMeetings (awTables meetingCreated))).
     mrcMeetingId row = ''meeting_3'' \<and> mrcActive row \<and> mrcCreatedByUserId row = ''u1'' \<and>
     mrcFacilitatorParticipantId row = ''participant_4'')"
proof -
  let ?flagship = "userAuthorizationContext ''meeting-global-ai-rollout'' ''participant-product'' FacilitatorRole ''s'' ''product'' None"
  let ?ctx = "userAuthorizationContext ''meeting_3'' ''participant_4'' FacilitatorRole ''s'' ''u1'' None"
  have cap: "facilitatorOnly DecisionCommit"
    "mayUse ?flagship DecisionCommit ''meeting-global-ai-rollout''" "mayUse ?ctx DecisionCommit ''meeting_3''"
    by (simp_all add: facilitatorOnly_def mayUse_iff userAuthorizationContext_def capabilitiesForRole_def)
  have started: "resolveMeetingAuthorization (nodeMeetings (\<lambda>_. 0) exampleUuid) ''s'' ''product'' ''meeting-global-ai-rollout'' None
      startedAccounts = (Inr ?flagship, startedAccounts)"
    by (simp add: resolveMeetingAuthorization_def nodeMeetings_def bindC_def portC_def returnC_def findMeetingById_def
        findAssignment_def requireNonEmpty_def ensure_def startedAccounts_def flagshipMeeting_def flagshipAssignment_def
        DEFAULT_DEMO_USERS_def FLAGSHIP_MEETING_ID_def)
  have created: "resolveMeetingAuthorization (nodeMeetings (\<lambda>_. 0) exampleUuid) ''s'' ''u1'' ''meeting_3'' None meetingCreated =
      (Inr ?ctx, meetingCreated)"
    by (simp add: resolveMeetingAuthorization_def nodeMeetings_def bindC_def portC_def returnC_def findMeetingById_def
        findAssignment_def requireNonEmpty_def ensure_def meetingCreated_def exampleMeetingRow_def exampleMembers_def)
  show ?thesis
    using facilitator_powers_are_the_creators[OF start_reached(2) started cap(1,2)]
      facilitator_powers_are_the_creators[OF meeting_reached created cap(1,3)]
    by (simp add: userAuthorizationContext_def)
qed

end
