(* ===== verification/PasswordRuns.thy ===== *)
theory PasswordRuns
  imports AccountRuns
begin

section \<open>Hashing a password and checking it\<close>

text \<open>
  The hash of a password survives being written to text and read back: checking an attempt against the
  text is comparing the derived keys. The key derivation (scrypt) is a parameter; what is assumed of it
  is the length of its result, which the source passes to it.
\<close>

text \<open>C40. A password hash can be read back, and checking an attempt against it answers whether the attempt
  derives the same key with the stored salt; in particular the password itself is accepted. The length
  comparison of the constant-time comparison never throws.\<close>

theorem password_hash_roundtrip:
  assumes "hashPassword kdf salt password = Inr encoded" "length salt = SCRYPT_SALT_BYTES"
    and "\<And>attempt key. kdf attempt salt = Inr key \<Longrightarrow> length key = SCRYPT_KEY_BYTES"
  shows "isScryptPasswordHash encoded \<and> verifyPassword kdf password encoded = Inr True \<and>
    verifyPassword kdf attempt encoded =
      (case kdf attempt salt of Inl e \<Rightarrow> Inl e | Inr key \<Rightarrow> Inr (kdf password salt = Inr key))"
proof -
  obtain key where key: "kdf password salt = Inr key" and parsed: "parseScryptHash encoded = Some (salt, key)"
    using hashPassword_Inr[OF assms(1,2)] assms(3)[of password] by metis
  have "verifyPassword kdf p encoded =
      (case kdf p salt of Inl e \<Rightarrow> Inl e | Inr k \<Rightarrow> Inr (kdf password salt = Inr k))" for p
    using assms(3)[of p] assms(3)[OF key] key
    by (cases "kdf p salt") (auto simp: verifyPassword_def parsed timingSafeEqual_def result_simps)
  with key parsed show ?thesis by (simp add: isScryptPasswordHash_def)
qed

theorem password_hash_roundtrip_witness:
  "isScryptPasswordHash exampleHash \<and> verifyPassword exampleKdf ''pw'' exampleHash = Inr True \<and>
   verifyPassword exampleKdf ''other'' exampleHash = Inr False"
proof -
  have "isScryptPasswordHash exampleHash \<and> verifyPassword exampleKdf ''pw'' exampleHash = Inr True \<and>
      verifyPassword exampleKdf ''other'' exampleHash =
      (case exampleKdf ''other'' (replicate 16 0) of Inl e \<Rightarrow> Inl e
       | Inr key \<Rightarrow> Inr (exampleKdf ''pw'' (replicate 16 0) = Inr key))"
    by (rule password_hash_roundtrip)
      (auto simp: exampleHash_parses(2) SCRYPT_SALT_BYTES_def SCRYPT_KEY_BYTES_def exampleKdf_def)
  moreover have "exampleKdf ''pw'' (replicate 16 0) \<noteq> exampleKdf ''other'' (replicate 16 0)"
    by (simp add: exampleKdf_def byte_def replicate_eq_replicate)
  ultimately show ?thesis by (simp add: exampleKdf_def)
qed

end
