(* ===== verification/ReviewRuns.thy ===== *)
theory ReviewRuns
  imports ReviewExample
begin

section \<open>Reviews and resolutions on the Node server\<close>

text \<open>
  What the commands of \<open>InvalidationReviews\<close> and \<open>ReviewResolutions\<close> do to the Node server's world: the
  laws of \<open>ReviewLogic\<close> at the interpretation of the ports by the SQLite store.
\<close>

text \<open>
  What a command may do: leave the log alone, and then an answer is a replay; or append one batch that
  satisfies \<open>Q\<close>, and then it does not fail and its answer is read from the new records.
\<close>

definition batchOutcome ::
  "('a \<Rightarrow> bool) \<Rightarrow> (domainEvent eventRecord list \<Rightarrow> exn + (bool \<Rightarrow> 'a) option) \<Rightarrow>
     (domainEvent list \<Rightarrow> domainEvent list \<Rightarrow> bool) \<Rightarrow> string \<Rightarrow> sqliteWorld \<Rightarrow> abort + 'a \<Rightarrow> sqliteWorld \<Rightarrow> bool" where
  "batchOutcome replay read Q m w r w' \<longleftrightarrow>
     worldLog w' = worldLog w \<and> (\<forall>a. r = Inr a \<longrightarrow> replay a) \<or>
     (\<exists>batch. worldLog w' = (worldLog w)(m := worldLog w m @ batch) \<and> Q (worldLog w m) batch \<and>
        (\<forall>f. r \<noteq> Inl (Failed f)) \<and>
        (\<forall>a. r = Inr a \<longrightarrow> (\<exists>g. read (numberRecords (int (length (worldLog w m)) + 1) batch) = Inr (Some g) \<and> a = g False)))"

lemma affects_batchOutcome:
  assumes "node.affects enc (worldLog w) m c replay (node.batchAnswered (worldLog w) m read (Q (worldLog w m)))"
    "worldOk enc w" "c w = (r, w')"
  shows "worldOk enc w' \<and> batchOutcome replay read Q m w r w'"
  using node.affectsD[OF assms(1,2) refl assms(3)]
  unfolding node.effect_def node.batchAnswered_def batchOutcome_def by blast

text \<open>C25. Confirming that a premise of a Decision no longer holds is all or nothing: either the log is as
  it was (and an answer is a replay of an earlier confirmation), or exactly four events follow each other at
  the end of the log, in the name of a facilitator who may review: the review itself, of a Decision at risk
  for which the suggestion is on record in the active revision; the Decision, now requiring review and
  otherwise unchanged; the affected Actions, each held for the given reason, and no affected Action missing;
  and an open reconsideration task for the facilitator. Each event names the one that caused it.\<close>

theorem confirmed_review_is_one_batch:
  assumes "worldOk enc w" "trim (mutIdempotencyKey input) = mutIdempotencyKey input"
    and "confirmInvalidationReview (sqlitePorts enc clk uuid sha) user input w = (r, w')"
  shows "worldOk enc w' \<and>
    batchOutcome rwaReplayed readConfirmed (confirmation user input) (mutMeetingId input) w r w'"
  by (rule affects_batchOutcome, rule node.confirmInvalidationReview_affects[OF assms(2)], rule assms(1), rule assms(3))

text \<open>Rejecting a suggestion likewise writes nothing or one review event, which returns the Decision to
  monitoring and changes nothing else of it.\<close>

theorem rejected_review_is_one_event:
  assumes "worldOk enc w" "trim (mutIdempotencyKey input) = mutIdempotencyKey input"
    and "rejectInvalidationReview (sqlitePorts enc clk uuid sha) user input w = (r, w')"
  shows "worldOk enc w' \<and>
    batchOutcome rwaReplayed readRejected (rejection user input) (mutMeetingId input) w r w'"
  by (rule affects_batchOutcome, rule node.rejectInvalidationReview_affects[OF assms(2)], rule assms(1), rule assms(3))

text \<open>C26. Committing a Decision again after its review writes nothing (and answers with the recorded result)
  or one event of a facilitator who may review, caused by the event on record that required the review, for a
  Decision that is under review with its active revision on record. The event needs the explicit flag and every
  reference of the Decision shared and confirmed, and carries the next revision: made by this facilitator, accepted
  by the history, linked to the active revision, with the new title, outcome and reason, the same references, and no
  monitor registration; the Decision is committed with exactly that content.\<close>

theorem recommit_is_one_justified_event:
  fixes input :: recommitDecisionInput
  assumes "worldOk enc w" "trim (mutIdempotencyKey input) = mutIdempotencyKey input"
    and "recommitDecision (sqlitePorts enc clk uuid sha) user input w = (r, w')"
  shows "worldOk enc w' \<and>
    batchOutcome rslReplayed (readResolution revisionCommitted) (\<lambda>log evs. \<exists>ev. evs = [ev] \<and>
      resolvedBy user (mutMeetingId input) (trim (rciDecisionId input)) (recommitCarries user input) log ev)
      (mutMeetingId input) w r w'"
  by (rule affects_batchOutcome, rule node.recommitDecision_affects[OF assms(2)], rule assms(1), rule assms(3))

text \<open>Superseding names another projected Decision, rejecting records the reason; both change nothing else.\<close>

theorem supersede_is_one_justified_event:
  fixes input :: supersedeDecisionInput
  assumes "worldOk enc w" "trim (mutIdempotencyKey input) = mutIdempotencyKey input"
    and "supersedeDecision (sqlitePorts enc clk uuid sha) user input w = (r, w')"
  shows "worldOk enc w' \<and>
    batchOutcome rslReplayed (readResolution superseded) (\<lambda>log evs. \<exists>ev. evs = [ev] \<and>
      resolvedBy user (mutMeetingId input) (trim (spiDecisionId input)) (supersedeCarries input) log ev)
      (mutMeetingId input) w r w'"
  by (rule affects_batchOutcome, rule node.supersedeDecision_affects[OF assms(2)], rule assms(1), rule assms(3))

theorem reject_is_one_justified_event:
  fixes input :: rejectDecisionInput
  assumes "worldOk enc w" "trim (mutIdempotencyKey input) = mutIdempotencyKey input"
    and "rejectDecision (sqlitePorts enc clk uuid sha) user input w = (r, w')"
  shows "worldOk enc w' \<and>
    batchOutcome rslReplayed (readResolution rejectedDecision) (\<lambda>log evs. \<exists>ev. evs = [ev] \<and>
      resolvedBy user (mutMeetingId input) (trim (rjiDecisionId input)) (rejectCarries input) log ev)
      (mutMeetingId input) w r w'"
  by (rule affects_batchOutcome, rule node.rejectDecision_affects[OF assms(2)], rule assms(1), rule assms(3))

subsection \<open>Witnesses\<close>

theorem confirmed_review_is_one_batch_witness:
  "\<exists>r w' batch. confirmInvalidationReview (sqlitePorts (\<lambda>_. ''e'') (\<lambda>_. 0) natString (\<lambda>_. ''h'')) reviewFacilitator
       confirmInput (loggedWorld atRiskLog 0) = (r, w') \<and>
     worldLog w' ''m1'' = atRiskLog @ batch \<and> length batch = 4 \<and>
     confirmation reviewFacilitator confirmInput atRiskLog batch"
proof -
  obtain batch r w' where run: "confirmInvalidationReview (sqlitePorts (\<lambda>_. ''e'') (\<lambda>_. 0) natString (\<lambda>_. ''h''))
      reviewFacilitator confirmInput (loggedWorld atRiskLog 0) = (r, w')"
    and log: "worldLog w' = (worldLog (loggedWorld atRiskLog 0))(''m1'' := atRiskLog @ batch)" "length batch = 4"
    using confirm_runs unfolding reviewPorts_def by blast
  have trim: "trim (mutIdempotencyKey confirmInput) = mutIdempotencyKey confirmInput"
    by (simp add: confirmInput_def) code_simp
  have "batchOutcome rwaReplayed readConfirmed (confirmation reviewFacilitator confirmInput) (mutMeetingId confirmInput)
      (loggedWorld atRiskLog 0) r w'"
    using confirmed_review_is_one_batch[OF loggedWorld_log(1)[OF atRisk_keys(1,2)] trim run] by blast
  moreover have "mutMeetingId confirmInput = ''m1''" by (simp add: confirmInput_def)
  moreover have "worldLog (loggedWorld atRiskLog 0) ''m1'' = atRiskLog" by (rule loggedWorld_log(2)[OF atRisk_keys(1,2)])
  ultimately have "worldLog w' ''m1'' = atRiskLog \<or>
      (\<exists>b. worldLog w' ''m1'' = atRiskLog @ b \<and> confirmation reviewFacilitator confirmInput atRiskLog b)"
    unfolding batchOutcome_def by (metis fun_upd_same)
  moreover have new: "worldLog w' ''m1'' = atRiskLog @ batch" using log(1) by simp
  ultimately have "confirmation reviewFacilitator confirmInput atRiskLog batch" using log(2) by force
  then show ?thesis using run new log(2) by blast
qed


theorem recommit_is_one_justified_event_witness:
  "\<exists>r w' ev. recommitDecision (sqlitePorts (\<lambda>_. ''e'') (\<lambda>_. 0) natString (\<lambda>_. ''h'')) reviewFacilitator recommitInput
       (loggedWorld reviewedLog 0) = (r, w') \<and>
     worldLog w' ''m1'' = reviewedLog @ [ev] \<and>
     resolvedBy reviewFacilitator ''m1'' ''d1'' (recommitCarries reviewFacilitator recommitInput) reviewedLog ev"
proof -
  obtain ev r w' where run: "recommitDecision (sqlitePorts (\<lambda>_. ''e'') (\<lambda>_. 0) natString (\<lambda>_. ''h''))
      reviewFacilitator recommitInput (loggedWorld reviewedLog 0) = (r, w')"
    and log: "worldLog w' = (worldLog (loggedWorld reviewedLog 0))(''m1'' := reviewedLog @ [ev])"
    using recommit_runs unfolding reviewPorts_def by blast
  have trims: "trim (mutIdempotencyKey recommitInput) = mutIdempotencyKey recommitInput" "trim (rciDecisionId recommitInput) = ''d1''"
    by (simp add: recommitInput_def, code_simp)+
  note outcome = recommit_is_one_justified_event[OF loggedWorld_log(1)[OF reviewed_keys(1,2)] trims(1) run]
  moreover have "mutMeetingId recommitInput = ''m1''" by (simp add: recommitInput_def)
  moreover have "worldLog (loggedWorld reviewedLog 0) ''m1'' = reviewedLog" by (rule loggedWorld_log(2)[OF reviewed_keys(1,2)])
  ultimately have "worldLog w' ''m1'' = reviewedLog \<or> (\<exists>b. worldLog w' ''m1'' = reviewedLog @ [b] \<and>
      resolvedBy reviewFacilitator ''m1'' ''d1'' (recommitCarries reviewFacilitator recommitInput) reviewedLog b)"
    unfolding batchOutcome_def trims(2) by (metis fun_upd_same)
  moreover have new: "worldLog w' ''m1'' = reviewedLog @ [ev]" using log by simp
  ultimately have "resolvedBy reviewFacilitator ''m1'' ''d1'' (recommitCarries reviewFacilitator recommitInput) reviewedLog ev"
    by force
  then show ?thesis using run new by blast
qed

end
