(* ===== verification/RoleProjection.thy ===== *)
theory RoleProjection
  imports DisclosureLogic Accounts
begin

section \<open>Role projections: \<open>apps/server/src/role-projection.ts\<close>\<close>

text \<open>
  What the server shows of a meeting: the projection of a participant, its realtime variant, and the
  shared display. Each replays the meeting's log and copies parts of the projection into a view. The
  schemas that check a finished view are \<open>zod\<close>'s and come in as functions of the view. A member of a
  view that TypeScript adds conditionally is an option.
\<close>

subsection \<open>Views\<close>

record decisionView =
  dvwActiveRevision :: int
  dvwActiveRevisionId :: string
  dvwDecisionId :: string
  dvwReadiness :: decisionReadiness
  dvwSnapshot :: decisionSnapshot
  dvwStatus :: decisionStatus
  dvwSupersededBy :: "string option"
  dvwUpdatedAt :: string

record utteranceView =
  utvCapturedAt :: string
  utvChannel :: visibility
  utvParticipantId :: string
  utvText :: string
  utvUtteranceId :: string

record candidateEntry =
  cneCandidateId :: string
  cneOutgoingPayload :: disclosureOutgoingPayload
  cnePreviewHash :: "string option"
  cneState :: disclosureState

record suggestionView =
  sgvConfirmationStatus :: confirmationStatus
  sgvKind :: string
  sgvStatement :: string
  sgvSuggestionId :: string

record artifactView =
  afvContentType :: string
  afvCreatedAt :: string
  afvDerivedArtifactId :: "string option"
  afvDerivedContentHash :: "string option"
  afvDerivedSizeBytes :: "int option"
  afvFailureCode :: "string option"
  afvFilename :: string
  afvIngestionMethod :: string
  afvProcessingState :: artifactProcessingState
  afvSizeBytes :: int
  afvSourceArtifactId :: string
  afvSourceContentHash :: string

record realtimeSourceView =
  rsvCreatedAt :: string
  rsvProcessingState :: artifactProcessingState
  rsvSizeBytes :: int
  rsvSourceArtifactId :: string

record actionView =
  acvActionId :: string
  acvOwnerParticipantId :: "string option"
  acvScope :: "string list"
  acvStatus :: actionStatus

record dissentView =
  dsvDissentId :: string
  dsvReason :: string
  dsvRetained :: bool

record sharedEvidenceView = evidenceView +
  sevConfirmationStatus :: string
  sevOrigin :: string
  sevProvenance :: string
  sevScope :: string

record premiseView =
  prvConfirmationStatus :: confirmationStatus
  prvPremiseId :: string
  prvStatement :: string

record sharedView =
  shvActions :: "actionView list"
  shvDecisions :: "decisionView list"
  shvDissent :: "dissentView list"
  shvEvidence :: "sharedEvidenceView list"
  shvPosition :: int
  shvPremises :: "premiseView list"

record memberView =
  mbvActive :: bool
  mbvParticipantId :: string
  mbvRole :: contextRole
  mbvUserId :: string

record roleSharedView = sharedView +
  rshParticipants :: "memberView list"
  rshSharedFloor :: "sharedFloorProjection option"
  rshUtterances :: "utteranceView list"

record workspaceView =
  wsvDisclosureCandidates :: "candidateEntry list"
  wsvInferenceSuggestions :: "suggestionView list"
  wsvUtterances :: "utteranceView list"

record roleWorkspaceView = workspaceView +
  rwvArtifacts :: "artifactView list"
  rwvSources :: "sourceView list"

record realtimeWorkspaceView = workspaceView +
  twvSources :: "realtimeSourceView list"

record meetingView =
  mevMeetingId :: string
  mevPhase :: meetingPhase
  mevPurpose :: string

record assignedView =
  asvParticipantId :: string
  asvRole :: contextRole
  asvUserId :: string

record 'ws roleView =
  rovCapabilities :: "permission list"
  rovCorrelationId :: string
  rovMeeting :: meetingView
  rovParticipant :: assignedView
  rovPrivateWorkspace :: 'ws
  rovShared :: roleSharedView

record displayView =
  divCorrelationId :: string
  divExpiresAt :: string
  divMeeting :: meetingView
  divShared :: sharedView

text \<open>The parts of the server's runtime that the projections use, and the schemas.\<close>

record 'w serverRuntime =
  srtMeetings :: "'w meetingPorts"
  srtLoad :: "string \<Rightarrow> 'w \<Rightarrow> (exn + domainEvent eventRecord list) \<times> 'w"
  srtGetArtifact :: "artifactScope \<Rightarrow> 'w \<Rightarrow> (exn + bytes option) \<times> 'w"
  srtDecodeMalformed :: "bytes \<Rightarrow> string"
  srtRoleSchema :: "roleWorkspaceView roleView \<Rightarrow> exn + roleWorkspaceView roleView"
  srtRealtimeSchema :: "realtimeWorkspaceView roleView \<Rightarrow> exn + realtimeWorkspaceView roleView"
  srtDisplaySchema :: "displayView \<Rightarrow> exn + displayView"

definition publicCapabilities :: "permission list \<Rightarrow> permission list" where
  "publicCapabilities capabilities = filter (\<lambda>c. c \<noteq> JudgeManagedAi) capabilities"

subsection \<open>Shared parts\<close>

definition readinessOf :: "decision \<Rightarrow> decisionReadiness" where
  "readinessOf d =
     \<lparr>rdyOutcome = length (decOutcome d) > 0, rdyPremiseIds = length (decPremiseIds d) > 0,
      rdyEvidenceIds = length (decEvidenceIds d) > 0, rdyActionIds = length (decActionIds d) > 0,
      rdyMonitorCondition = length (monDescription (decMonitorCondition d)) > 0\<rparr>"

definition decisionViewOf :: "decision \<Rightarrow> string \<Rightarrow> decisionView" where
  "decisionViewOf d updatedAt =
     \<lparr>dvwActiveRevision = decActiveRevision d, dvwActiveRevisionId = decActiveRevisionId d,
      dvwDecisionId = recId d, dvwReadiness = readinessOf d,
      dvwSnapshot = \<lparr>snpTitle = decTitle d, snpOutcome = decOutcome d, snpStatus = decStatus d,
        snpPremiseIds = decPremiseIds d, snpEvidenceIds = decEvidenceIds d,
        snpDissentIds = decDissentIds d, snpActionIds = decActionIds d,
        snpMonitorCondition = decMonitorCondition d\<rparr>,
      dvwStatus = decStatus d, dvwSupersededBy = decSupersededBy d, dvwUpdatedAt = updatedAt\<rparr>"

definition isVisibleTo :: "domainEvent \<Rightarrow> string \<Rightarrow> bool" where
  "isVisibleTo ev participant \<longleftrightarrow> evScope ev = SharedScope \<or> eventOwner ev = Some participant"

definition utteranceViewOf :: "utterance \<Rightarrow> utteranceView" where
  "utteranceViewOf u =
     \<lparr>utvCapturedAt = uttCapturedAt u, utvChannel = uttChannel u, utvParticipantId = uttParticipantId u,
      utvText = uttText u, utvUtteranceId = recId u\<rparr>"

definition currentDecisionView :: "sharedMeetingProjection \<Rightarrow> decision \<Rightarrow> decisionView" where
  "currentDecisionView shared d =
     decisionViewOf d
       (case findFirst (\<lambda>r. recId r = decActiveRevisionId d) (shpDecisionRevisions shared) of
          None \<Rightarrow> recCreatedAt d | Some r \<Rightarrow> recCreatedAt r)"

definition sharedViewOf :: "sharedMeetingProjection \<Rightarrow> int \<Rightarrow> sharedView" where
  "sharedViewOf shared position =
     \<lparr>shvActions = map (\<lambda>a. \<lparr>acvActionId = recId a, acvOwnerParticipantId = recOwner a,
        acvScope = actScope a, acvStatus = actStatus a\<rparr>) (shpActions shared),
      shvDecisions = map (currentDecisionView shared) (shpDecisions shared),
      shvDissent = map (\<lambda>d. \<lparr>dsvDissentId = recId d, dsvReason = disReason d,
        dsvRetained = disRetained d\<rparr>) (shpDissent shared),
      shvEvidence = map (\<lambda>e. \<lparr>evwCreatedAt = recCreatedAt e, evwEvidenceId = recId e,
        evwExactSnippet = evdExactSnippet e, evwSourceArtifactId = evdSourceArtifactId e,
        evwSourceRange = evdSourceRange e, sevConfirmationStatus = ''human_confirmed'',
        sevOrigin = ''source'', sevProvenance = ''approved_exact_excerpt'',
        sevScope = ''shared''\<rparr>) (shpEvidence shared),
      shvPosition = position,
      shvPremises = map (\<lambda>p. \<lparr>prvConfirmationStatus = recConfirmation p, prvPremiseId = recId p,
        prvStatement = preStatement p\<rparr>) (shpPremises shared)\<rparr>"

definition meetingViewOf :: "meetingRecord \<Rightarrow> sharedMeetingProjection \<Rightarrow> meetingView" where
  "meetingViewOf meeting shared =
     \<lparr>mevMeetingId = mrcMeetingId meeting,
      mevPhase = (case shpMeeting shared of None \<Rightarrow> Preparing | Some m \<Rightarrow> mtgPhase m),
      mevPurpose = mrcPurpose meeting\<rparr>"

subsection \<open>Private parts\<close>

text \<open>A JavaScript map keeps the place of a key that is set again.\<close>

definition setEntry :: "candidateEntry list \<Rightarrow> candidateEntry \<Rightarrow> candidateEntry list" where
  "setEntry entries c = upsertBy (\<lambda>o'. cneCandidateId o' = cneCandidateId c) c entries"

definition changeEntry ::
  "candidateEntry list \<Rightarrow> string \<Rightarrow> (candidateEntry \<Rightarrow> candidateEntry) \<Rightarrow> candidateEntry list" where
  "changeEntry entries i f =
     (case findFirst (\<lambda>c. cneCandidateId c = i) entries of
        None \<Rightarrow> entries
      | Some prior \<Rightarrow> setEntry entries (f prior))"

definition candidateEntryStep ::
  "string \<Rightarrow> candidateEntry list \<Rightarrow> domainEvent \<Rightarrow> candidateEntry list" where
  "candidateEntryStep participant entries ev =
     (if eventOwner ev \<noteq> Some participant then entries
      else case evPayload ev of
        DisclosureProposed i _ out \<Rightarrow>
          setEntry entries \<lparr>cneCandidateId = i, cneOutgoingPayload = out, cnePreviewHash = None,
            cneState = DspProposed\<rparr>
      | DisclosurePreviewed i out h \<Rightarrow>
          changeEntry entries i (\<lambda>c. c\<lparr>cneOutgoingPayload := out, cnePreviewHash := Some h,
            cneState := DspPreviewed\<rparr>)
      | DisclosureApproved i h _ _ \<Rightarrow>
          changeEntry entries i (\<lambda>c. c\<lparr>cnePreviewHash := Some h, cneState := DspApproved\<rparr>)
      | DisclosureRejected i _ _ \<Rightarrow> changeEntry entries i (\<lambda>c. c\<lparr>cneState := DspRejected\<rparr>)
      | _ \<Rightarrow> entries)"

definition privateDisclosureCandidates :: "domainEvent list \<Rightarrow> string \<Rightarrow> candidateEntry list" where
  "privateDisclosureCandidates evs participant = foldl (candidateEntryStep participant) [] evs"

fun candidateKind :: "inferenceCandidate \<Rightarrow> string" where
  "candidateKind PropositionCandidate = ''proposition''"
| "candidateKind (PremiseCandidate _) = ''premise''"
| "candidateKind (DissentCandidate _) = ''dissent''"
| "candidateKind (ActionCandidate _) = ''action''"
| "candidateKind (DecisionCandidate _) = ''decision''"

text \<open>Whether an event confirms or rejects a suggestion.\<close>

fun dispositionOf :: "domainEventPayload \<Rightarrow> (string \<times> confirmationStatus) option" where
  "dispositionOf (InferenceConfirmed i _ _) = Some (i, Confirmed)"
| "dispositionOf (InferenceRejected i _ _) = Some (i, RejectedConfirmation)"
| "dispositionOf _ = None"

definition suggestionStatus :: "domainEvent list \<Rightarrow> string \<Rightarrow> confirmationStatus" where
  "suggestionStatus evs i =
     (case findFirst (\<lambda>ev. map_option fst (dispositionOf (evPayload ev)) = Some i) evs of
        None \<Rightarrow> Proposed
      | Some ev \<Rightarrow> snd (the (dispositionOf (evPayload ev))))"

definition suggestionViewsOf :: "domainEvent list \<Rightarrow> string \<Rightarrow> domainEvent \<Rightarrow> suggestionView list" where
  "suggestionViewsOf evs participant ev =
     (case evPayload ev of
        InferenceSuggested p \<Rightarrow>
          if eventOwner ev \<noteq> Some participant then []
          else [\<lparr>sgvConfirmationStatus = suggestionStatus evs (infSuggestionId p),
                 sgvKind = candidateKind (infCandidate p), sgvStatement = infStatement p,
                 sgvSuggestionId = infSuggestionId p\<rparr>]
      | _ \<Rightarrow> [])"

definition privateInferenceSuggestions :: "domainEvent list \<Rightarrow> string \<Rightarrow> suggestionView list" where
  "privateInferenceSuggestions evs participant = concat (map (suggestionViewsOf evs participant) evs)"

text \<open>The private text artifacts that a participant registered, with the time of registration.\<close>

definition ownTextSource :: "string \<Rightarrow> domainEvent \<Rightarrow> (string \<times> sourceArtifact) option" where
  "ownTextSource participant ev =
     (case evPayload ev of
        ArtifactRegistered a \<Rightarrow>
          if eventOwner ev = Some participant \<and> artType a = TextArtifact
          then Some (evOccurredAt ev, a) else None
      | _ \<Rightarrow> None)"

text \<open>
  \<open>new TextDecoder().decode\<close> is not fatal: bytes that are no encoding of a text of the model decode to
  one with replacement characters, which comes from outside.
\<close>

definition decodeLenient :: "'w serverRuntime \<Rightarrow> bytes \<Rightarrow> string" where
  "decodeLenient runtime bs =
     (case textDecode bs of Some s \<Rightarrow> s | None \<Rightarrow> srtDecodeMalformed runtime bs)"

fun readSources ::
  "'w serverRuntime \<Rightarrow> string \<Rightarrow> string \<Rightarrow> (string \<times> sourceArtifact) list \<Rightarrow> ('w, sourceView list) command" where
  "readSources runtime m participant [] = returnC []"
| "readSources runtime m participant ((createdAt, a) # rest) =
     bindC (portC (srtGetArtifact runtime
       \<lparr>ascArtifactId = recId a, ascMeetingId = m, ascOwnerParticipantId = Some participant,
        ascVisibility = Private\<rparr>)) (\<lambda>found.
     bindC (readSources runtime m participant rest) (\<lambda>views.
     returnC ((case found of
         None \<Rightarrow> []
       | Some bs \<Rightarrow> [\<lparr>srvCreatedAt = createdAt, srvSourceArtifactId = recId a, srvText = decodeLenient runtime bs,
           srvTitle = ''Registered private text source''\<rparr>]) @ views)))"

definition privateSources ::
  "'w serverRuntime \<Rightarrow> string \<Rightarrow> string \<Rightarrow> domainEvent list \<Rightarrow> ('w, sourceView list) command" where
  "privateSources runtime m participant evs =
     readSources runtime m participant (List.map_filter (ownTextSource participant) evs)"

fun processedReport :: "domainEventPayload \<Rightarrow> artifactProcessing option" where
  "processedReport (ArtifactProcessed g) = Some g"
| "processedReport _ = None"

definition artifactViewsOf :: "domainEvent list \<Rightarrow> sourceArtifact \<Rightarrow> artifactView list" where
  "artifactViewsOf evs a =
     (case (artOriginalFilename a, artContentType a) of
        (Some filename, Some contentType) \<Rightarrow>
          if artProcessingState a \<noteq> Processed \<and> artProcessingState a \<noteq> FailedProcessing then []
          else
            [\<lparr>afvContentType = contentType, afvCreatedAt = recCreatedAt a,
              afvDerivedArtifactId = artDerivedArtifactId a,
              afvDerivedContentHash = artDerivedContentHash a,
              afvDerivedSizeBytes = artDerivedSizeBytes a,
              afvFailureCode =
                (case findFirst (\<lambda>ev. map_option apgArtifactId (processedReport (evPayload ev)) = Some (recId a)) evs of
                   None \<Rightarrow> None
                 | Some ev \<Rightarrow> apgFailureCode (the (processedReport (evPayload ev)))),
              afvFilename = filename,
              afvIngestionMethod = (if artSourceLocatorHash a = None then ''upload'' else ''url''),
              afvProcessingState = artProcessingState a, afvSizeBytes = artSizeBytes a,
              afvSourceArtifactId = recId a, afvSourceContentHash = artContentHash a\<rparr>]
      | _ \<Rightarrow> [])"

definition privateArtifacts :: "sourceArtifact list \<Rightarrow> domainEvent list \<Rightarrow> artifactView list" where
  "privateArtifacts artifacts evs = concat (map (artifactViewsOf evs) artifacts)"

subsection \<open>Projections\<close>

definition replayedMeeting :: "string \<Rightarrow> domainEvent list \<Rightarrow> exn + meetingProjection" where
  "replayedMeeting m evs = bindE (meetingId m) (\<lambda>i. replayMeeting i evs)"

definition loadNormalized :: "'w serverRuntime \<Rightarrow> string \<Rightarrow> ('w, domainEvent list) command" where
  "loadNormalized runtime m =
     bindC (portC (srtLoad runtime m)) (\<lambda>records. liftC (normalizeRecords records))"

definition roleViewOf ::
  "userContext \<Rightarrow> string \<Rightarrow> meetingRecord \<Rightarrow> assignmentRecord \<Rightarrow> assignmentRecord list \<Rightarrow>
     sourceView list \<Rightarrow> domainEvent list \<Rightarrow> meetingProjection \<Rightarrow> roleWorkspaceView roleView" where
  "roleViewOf context correlation meeting assignment assignments sources evs projection =
     (let participant = uctParticipantId context;
          shared = mprShared projection;
          activeEvents = eventsAfterLatestDemoReset evs;
          workspace = findFirst (\<lambda>w. oppOwnerParticipantId w = participant) (mprPrivateWorkspaces projection)
      in
     \<lparr>rovCapabilities = publicCapabilities (uctCapabilities context),
      rovCorrelationId = correlation,
      rovMeeting = meetingViewOf meeting shared,
      rovParticipant = \<lparr>asvParticipantId = asnParticipantId assignment, asvRole = asnRole assignment,
        asvUserId = asnUserId assignment\<rparr>,
      rovPrivateWorkspace =
        \<lparr>wsvDisclosureCandidates = privateDisclosureCandidates activeEvents participant,
         wsvInferenceSuggestions = privateInferenceSuggestions activeEvents participant,
         wsvUtterances = map utteranceViewOf (case workspace of None \<Rightarrow> [] | Some w \<Rightarrow> oppUtterances w),
         rwvArtifacts = privateArtifacts (case workspace of None \<Rightarrow> [] | Some w \<Rightarrow> oppArtifacts w) activeEvents,
         rwvSources = sources\<rparr>,
      rovShared = sharedView.extend
        (sharedViewOf shared (int (length (filter (\<lambda>ev. isVisibleTo ev participant) evs))))
        (roleSharedView.fields
          (map (\<lambda>a. \<lparr>mbvActive = asnActive a, mbvParticipantId = asnParticipantId a,
             mbvRole = asnRole a, mbvUserId = asnUserId a\<rparr>) (filter asnActive assignments))
          (shpSharedFloor shared)
          (map utteranceViewOf (shpUtterances shared)))\<rparr>)"

definition roleProjectionFor ::
  "'w serverRuntime \<Rightarrow> userContext \<Rightarrow> string \<Rightarrow> bool \<Rightarrow> ('w, roleWorkspaceView roleView option) command" where
  "roleProjectionFor runtime context correlation includeBodies =
     (let m = uctMeetingId context in
     bindC (portC (mpoFindById (srtMeetings runtime) m)) (\<lambda>meeting.
     bindC (portC (mpoFindAssignment (srtMeetings runtime) m (uctUserId context))) (\<lambda>assignment.
     case (meeting, assignment) of
       (Some found, Some a) \<Rightarrow>
         if \<not> mrcActive found \<or> \<not> asnActive a then returnC None
         else
           bindC (loadNormalized runtime m) (\<lambda>evs.
           bindC (liftC (replayedMeeting m evs)) (\<lambda>projection.
           bindC (portC (mpoListAssignments (srtMeetings runtime) m)) (\<lambda>assignments.
           bindC (if includeBodies
                  then privateSources runtime m (uctParticipantId context) (eventsAfterLatestDemoReset evs)
                  else returnC []) (\<lambda>sources.
           bindC (liftC (srtRoleSchema runtime
             (roleViewOf context correlation found a assignments sources evs projection))) (\<lambda>view.
           returnC (Some view))))))
     | _ \<Rightarrow> returnC None)))"

definition realtimeSource :: "string \<Rightarrow> domainEvent \<Rightarrow> realtimeSourceView option" where
  "realtimeSource participant ev =
     map_option (\<lambda>(createdAt, a). \<lparr>rsvCreatedAt = createdAt, rsvProcessingState = artProcessingState a,
       rsvSizeBytes = artSizeBytes a, rsvSourceArtifactId = recId a\<rparr>) (ownTextSource participant ev)"

definition realtimeViewOf ::
  "roleWorkspaceView roleView \<Rightarrow> realtimeSourceView list \<Rightarrow> realtimeWorkspaceView roleView" where
  "realtimeViewOf v sources =
     \<lparr>rovCapabilities = rovCapabilities v, rovCorrelationId = rovCorrelationId v, rovMeeting = rovMeeting v,
      rovParticipant = rovParticipant v,
      rovPrivateWorkspace =
        \<lparr>wsvDisclosureCandidates = wsvDisclosureCandidates (rovPrivateWorkspace v),
         wsvInferenceSuggestions = wsvInferenceSuggestions (rovPrivateWorkspace v),
         wsvUtterances = wsvUtterances (rovPrivateWorkspace v), twvSources = sources\<rparr>,
      rovShared = rovShared v\<rparr>"

definition realtimeRoleProjectionFor ::
  "'w serverRuntime \<Rightarrow> userContext \<Rightarrow> string \<Rightarrow> ('w, realtimeWorkspaceView roleView option) command" where
  "realtimeRoleProjectionFor runtime context correlation =
     bindC (roleProjectionFor runtime context correlation False) (\<lambda>projection.
     case projection of
       None \<Rightarrow> returnC None
     | Some v \<Rightarrow>
         bindC (loadNormalized runtime (uctMeetingId context)) (\<lambda>evs.
         bindC (liftC (srtRealtimeSchema runtime (realtimeViewOf v
           (List.map_filter (realtimeSource (uctParticipantId context)) (eventsAfterLatestDemoReset evs)))))
           (\<lambda>view. returnC (Some view))))"

definition sharedDisplayProjectionFor ::
  "'w serverRuntime \<Rightarrow> string \<Rightarrow> string \<Rightarrow> string \<Rightarrow> ('w, displayView option) command" where
  "sharedDisplayProjectionFor runtime m expiresAt correlation =
     bindC (portC (mpoFindById (srtMeetings runtime) m)) (\<lambda>meeting.
     case meeting of
       None \<Rightarrow> returnC None
     | Some found \<Rightarrow>
         if \<not> mrcActive found then returnC None
         else
           bindC (loadNormalized runtime m) (\<lambda>evs.
           bindC (liftC (replayedMeeting m evs)) (\<lambda>projection.
           bindC (liftC (srtDisplaySchema runtime
             \<lparr>divCorrelationId = correlation, divExpiresAt = expiresAt,
              divMeeting = meetingViewOf found (mprShared projection),
              divShared = sharedViewOf (mprShared projection)
                (int (length (filter (\<lambda>ev. scopeVisibility (evScope ev) = Shared) evs)))\<rparr>)) (\<lambda>view.
           returnC (Some view)))))"

end
