(* ===== verification/RoleViews.thy ===== *)
theory RoleViews
  imports RoleProjection DisclosureExample AccountRuns
begin

section \<open>What a view depends on\<close>

text \<open>
  Confidentiality of the role projections: a view is computed from the events that its reader may see,
  up to their positions in the log, and from the few hidden events that name something the reader owns. The lemmas first cut the replay of a log down to its content
  without positions, then the private parts down to the reader's own events.
\<close>

subsection \<open>Events without their positions\<close>

definition placeless :: "domainEvent \<Rightarrow> domainEvent" where
  "placeless ev = ev\<lparr>evPosition := 0\<rparr>"

lemma placeless_simps [simp]:
  "evScope (placeless ev) = evScope ev" "evPayload (placeless ev) = evPayload ev"
  "evMeetingId (placeless ev) = evMeetingId ev" "evOccurredAt (placeless ev) = evOccurredAt ev"
  "eventOwner (placeless ev) = eventOwner ev" "isVisibleTo (placeless ev) p = isVisibleTo ev p"
  "isShared (placeless ev) = isShared ev" "concernsOwner p (placeless ev) = concernsOwner p ev"
  by (simp_all add: placeless_def eventOwner_def isVisibleTo_def isShared_def concernsOwner_def)

lemma filter_placeless:
  assumes "map placeless xs = map placeless ys" "\<And>ev. P (placeless ev) = P ev"
  shows "map placeless (filter P xs) = map placeless (filter P ys)"
proof -
  have "map placeless (filter P zs) = filter P (map placeless zs)" for zs
    using assms(2) by (simp add: filter_map comp_def)
  with assms(1) show ?thesis by simp
qed

lemma map_placeless:
  assumes "map placeless xs = map placeless ys" "\<And>ev. f (placeless ev) = f ev"
  shows "map f xs = map f ys"
proof -
  have "map f zs = map f (map placeless zs)" for zs using assms(2) by simp
  then show ?thesis using assms(1) by metis
qed

lemma foldl_placeless:
  assumes "map placeless xs = map placeless ys" "\<And>s ev. f s (placeless ev) = f s ev"
  shows "foldl f s xs = foldl f s ys"
proof -
  have "foldl f s zs = foldl f s (map placeless zs)" for zs
    using assms(2) by (induction zs arbitrary: s) simp_all
  then show ?thesis using assms(1) by metis
qed

lemma foldE_placeless:
  assumes "map placeless xs = map placeless ys" "\<And>s ev. f s (placeless ev) = f s ev"
  shows "foldE f s xs = foldE f s ys"
proof -
  have "foldE f s zs = foldE f s (map placeless zs)" for zs
  proof (induction zs arbitrary: s)
    case (Cons z zs)
    then show ?case by (cases "f s z") (simp_all add: assms(2))
  qed simp
  then show ?thesis using assms(1) by metis
qed

subsection \<open>The content of the shared projection\<close>

definition sharedContent :: "sharedMeetingProjection \<Rightarrow> sharedMeetingProjection" where
  "sharedContent p = p\<lparr>shpPosition := 0, shpAuditTimeline := []\<rparr>"

lemma sharedContent_simps [simp]:
  "shpMeeting (sharedContent p) = shpMeeting p" "shpSharedFloor (sharedContent p) = shpSharedFloor p"
  "shpUtterances (sharedContent p) = shpUtterances p" "sharedContent (sharedContent p) = sharedContent p"
  "sharedViewOf (sharedContent p) n = sharedViewOf p n"
  by (simp_all add: sharedContent_def sharedViewOf_def currentDecisionView_def[abs_def])

lemma sharedContent_update [simp]: "sharedContent (p\<lparr>shpPosition := n, shpAuditTimeline := refs\<rparr>) = sharedContent p"
  by (simp add: sharedContent_def)

lemma payload_content:
  "reduceSharedPayload st ev = Inr st' \<Longrightarrow>
     reduceSharedPayload (sharedContent st) (placeless ev) = Inr (sharedContent st')"
proof (cases "decisionOfPayload (evPayload ev)")
  case None
  then show "reduceSharedPayload st ev = Inr st' \<Longrightarrow> ?thesis"
  proof (cases "evPayload ev")
    case (InferenceConfirmed i c p)
    then show "reduceSharedPayload st ev = Inr st' \<Longrightarrow> ?thesis"
      by (cases c) (auto simp: reduceSharedPayload_def validateEntityScope_def sharedContent_def result_simps)
  qed (auto simp: reduceSharedPayload_def reduceMeetingLifecycle_def reduceSharedContent_def
      validateEntityScope_def sharedContent_def resetShared_def createEmptySharedMeetingProjection_def result_simps split: if_splits)
next
  case (Some x)
  then show "reduceSharedPayload st ev = Inr st' \<Longrightarrow> ?thesis"
    by (cases x; cases "snd x") (auto simp: reduceSharedPayload_def reduceDecision_def validateEntityScope_def sharedContent_def result_simps)
qed

lemma shared_step_content:
  assumes "reduceSharedEvent st ev = Inr st'" "reduceSharedEvent tt ev2 = Inr tt'"
    and "sharedContent st = sharedContent tt" "placeless ev = placeless ev2"
  shows "sharedContent st' = sharedContent tt'"
proof -
  obtain n where n: "reduceSharedPayload st ev = Inr n" "sharedContent st' = sharedContent n"
    using assms(1) by (auto simp: reduceSharedEvent_Inr)
  obtain k where k: "reduceSharedPayload tt ev2 = Inr k" "sharedContent tt' = sharedContent k"
    using assms(2) by (auto simp: reduceSharedEvent_Inr)
  from payload_content[OF n(1)] payload_content[OF k(1)] assms(3,4) n(2) k(2) show ?thesis by simp
qed

lemma shared_replay_content:
  assumes "map placeless evs = map placeless evs2"
    and "foldE reduceSharedEvent st evs = Inr p" "foldE reduceSharedEvent tt evs2 = Inr q"
    and "sharedContent st = sharedContent tt"
  shows "sharedContent p = sharedContent q"
proof -
  have "list_all2 (\<lambda>a b. placeless a = placeless b) evs evs2"
    using assms(1) by (simp add: list_all2_conv_all_nth list_eq_iff_nth_eq)
  then show ?thesis using assms(2-4)
  proof (induction arbitrary: st tt rule: list_all2_induct)
    case (Cons x xs y ys)
    then obtain s t where "reduceSharedEvent st x = Inr s" "reduceSharedEvent tt y = Inr t"
      "foldE reduceSharedEvent s xs = Inr p" "foldE reduceSharedEvent t ys = Inr q"
      by (auto simp: result_simps)
    with Cons shared_step_content[of st x s tt y t] show ?case by blast
  qed simp
qed

subsection \<open>Healthy logs\<close>

text \<open>A healthy log as the projections read it: nothing of it is skipped.\<close>

lemma healthy_replay:
  assumes "healthy m log"
  obtains i evs p where "meetingId m = Inr i" "normalizeRecords (numberRecords 1 log) = Inr evs"
    "replayMeeting i evs = Inr p" "acceptedEvents i evs = evs" "map placeless evs = map placeless log"
proof -
  obtain p where p: "projectionAt m log p" "mprPosition p = int (length log)"
    using assms by (auto simp: healthy_def)
  then obtain i evs where i: "meetingId m = Inr i" "normalizeRecords (numberRecords 1 log) = Inr evs"
    "replayMeeting i evs = Inr p" by (metis projectionAt_normalized)
  have "map placeless evs = map placeless log"
    by (rule normalizeRecords_keep[OF i(2)]) (simp add: placeless_def)
  moreover have "length (acceptedEvents i evs) = length evs"
    using replay_positions[OF i(3)] p(2) arg_cong[OF calculation, of length] by simp
  ultimately show thesis
    using that[OF i] acceptedFrom_full[of "createEmptyMeetingProjection i" evs] by (simp add: acceptedEvents_def)
qed

subsection \<open>The private workspace of a reader\<close>

lemma workspace_placeless [simp]: "reduceWorkspace w (placeless ev) owner = reduceWorkspace w ev owner"
  by (cases "evPayload ev") (simp_all add: reduceWorkspace_def validateEntityScope_def)

lemma ownerView_placeless [simp]: "ownerView m owner w (placeless ev) = ownerView m owner w ev"
  by (simp add: ownerView_def)

lemma visible_sub:
  "filter isShared (filter (\<lambda>ev. isVisibleTo ev p) evs) = filter isShared evs"
  "filter (concernsOwner p) (filter (\<lambda>ev. isVisibleTo ev p) evs) = filter (concernsOwner p) evs"
proof -
  have "isVisibleTo ev p \<and> isShared ev \<longleftrightarrow> isShared ev" "isVisibleTo ev p \<and> concernsOwner p ev \<longleftrightarrow> concernsOwner p ev" for ev
    by (auto simp: isVisibleTo_def isShared_def concernsOwner_def eventOwner_def)
  then show "filter isShared (filter (\<lambda>ev. isVisibleTo ev p) evs) = filter isShared evs"
    "filter (concernsOwner p) (filter (\<lambda>ev. isVisibleTo ev p) evs) = filter (concernsOwner p) evs"
    by simp_all
qed

lemma workspace_found:
  assumes "replayMeeting m evs = Inr p"
  shows "(case findFirst (\<lambda>w. oppOwnerParticipantId w = owner) (mprPrivateWorkspaces p) of
      None \<Rightarrow> [] | Some w \<Rightarrow> oppUtterances w) = oppUtterances (getOwnerPrivateProjection p owner)"
    and "(case findFirst (\<lambda>w. oppOwnerParticipantId w = owner) (mprPrivateWorkspaces p) of
      None \<Rightarrow> [] | Some w \<Rightarrow> oppArtifacts w) = oppArtifacts (getOwnerPrivateProjection p owner)"
proof -
  have "oppMeetingId w = mprMeetingId p" if "w \<in> set (mprPrivateWorkspaces p)" for w
    using replay_owner[OF assms, of owner] that by (auto simp: projectionOk_def workspacesOk_def workspaceOk_def)
  then have "findFirst (\<lambda>w. oppOwnerParticipantId w = owner) (mprPrivateWorkspaces p) =
      findFirst (\<lambda>w. oppOwnerParticipantId w = owner \<and> oppMeetingId w = mprMeetingId p) (mprPrivateWorkspaces p)"
    by (intro findFirst_cong) auto
  then show "(case findFirst (\<lambda>w. oppOwnerParticipantId w = owner) (mprPrivateWorkspaces p) of
      None \<Rightarrow> [] | Some w \<Rightarrow> oppUtterances w) = oppUtterances (getOwnerPrivateProjection p owner)"
    "(case findFirst (\<lambda>w. oppOwnerParticipantId w = owner) (mprPrivateWorkspaces p) of
      None \<Rightarrow> [] | Some w \<Rightarrow> oppArtifacts w) = oppArtifacts (getOwnerPrivateProjection p owner)"
    by (auto simp: getOwnerPrivateProjection_def ownerWorkspace_def emptyWorkspace_def split: option.splits)
qed

text \<open>The artifacts of a workspace were registered by its owner.\<close>

definition ownPayloads :: "string \<Rightarrow> domainEvent list \<Rightarrow> domainEventPayload set" where
  "ownPayloads p evs = evPayload ` {ev \<in> set evs. evScope ev = PrivateScope p}"

definition ownArtifacts :: "string \<Rightarrow> domainEvent list \<Rightarrow> string set" where
  "ownArtifacts p evs = {recId a | a. ArtifactRegistered a \<in> ownPayloads p evs}"

definition ownSuggestions :: "string \<Rightarrow> domainEvent list \<Rightarrow> string set" where
  "ownSuggestions p evs = {infSuggestionId s | s. InferenceSuggested s \<in> ownPayloads p evs}"

lemma eventOwner_iff: "eventOwner ev = Some p \<longleftrightarrow> evScope ev = PrivateScope p"
  by (simp add: eventOwner_def split: eventScope.splits)

lemma own_sets_placeless:
  assumes "map placeless (filter (\<lambda>ev. isVisibleTo ev p) xs) = map placeless (filter (\<lambda>ev. isVisibleTo ev p) ys)"
  shows "ownPayloads p xs = ownPayloads p ys"
proof -
  have "map placeless (filter (\<lambda>ev. evScope ev = PrivateScope p) (filter (\<lambda>ev. isVisibleTo ev p) xs)) =
      map placeless (filter (\<lambda>ev. evScope ev = PrivateScope p) (filter (\<lambda>ev. isVisibleTo ev p) ys))"
    by (rule filter_placeless[OF assms]) simp
  then have "map placeless (filter (\<lambda>ev. evScope ev = PrivateScope p) xs) =
      map placeless (filter (\<lambda>ev. evScope ev = PrivateScope p) ys)"
    by (simp add: isVisibleTo_def eventOwner_iff) (metis (mono_tags, lifting) eventOwner_iff filter_cong)
  from map_placeless[OF this, of evPayload] have "set (map evPayload (filter (\<lambda>ev. evScope ev = PrivateScope p) xs)) =
      set (map evPayload (filter (\<lambda>ev. evScope ev = PrivateScope p) ys))" by simp
  then show ?thesis by (simp add: ownPayloads_def)
qed

definition idsIn :: "string set \<Rightarrow> 'a commonRecord_scheme list \<Rightarrow> bool" where
  "idsIn ids rs \<longleftrightarrow> recId ` set rs \<subseteq> ids"

lemma idsIn_simps [simp]:
  "idsIn ids []" "idsIn ids (processArtifacts g as) = idsIn ids as"
  "idsIn ids (upsertById rs r) \<longleftrightarrow> recId r \<in> ids \<and> idsIn ids rs"
proof -
  have "recId ` set (processArtifacts g as) = recId ` set as" by (metis list.set_map processArtifacts_recId)
  then show "idsIn ids (processArtifacts g as) = idsIn ids as" by (simp add: idsIn_def)
  have "recId ` set (upsertById rs r) = insert (recId r) (recId ` set rs)"
    by (induction rs) (auto simp: upsertById_def)
  then show "idsIn ids (upsertById rs r) \<longleftrightarrow> recId r \<in> ids \<and> idsIn ids rs" by (simp add: idsIn_def)
qed (simp add: idsIn_def)

lemma workspace_step_artifacts:
  assumes "ownerView m p w ev = Inr w'" "idsIn ids (oppArtifacts w)"
    and "\<And>a. evScope ev = PrivateScope p \<Longrightarrow> evPayload ev = ArtifactRegistered a \<Longrightarrow> recId a \<in> ids"
  shows "idsIn ids (oppArtifacts w')"
proof (cases "evScope ev = PrivateScope p")
  case True
  with assms show ?thesis
    by (cases "evPayload ev") (auto simp: ownerView_def reduceWorkspace_def result_simps setDisclosure_def)
next
  case False
  then show ?thesis using assms(1) by (auto simp: ownerView_def emptyWorkspace_def)
qed

lemma workspace_artifacts:
  assumes "replayMeeting m evs = Inr p"
  shows "idsIn (ownArtifacts owner evs) (oppArtifacts (getOwnerPrivateProjection p owner))"
proof -
  have fold: "foldE (ownerView m owner) (emptyWorkspace m owner)
      (filter (concernsOwner owner) (acceptedEvents m evs)) = Inr (getOwnerPrivateProjection p owner)"
    using replay_owner[OF assms] by blast
  have sub: "set (acceptedEvents m evs) \<subseteq> set evs" unfolding acceptedEvents_def by (rule acceptedFrom_subset)
  show ?thesis
  proof (rule foldE_invariant[where I = "\<lambda>w. idsIn (ownArtifacts owner evs) (oppArtifacts w)", OF _ _ fold])
    fix w ev w'
    assume w: "idsIn (ownArtifacts owner evs) (oppArtifacts w)" "ownerView m owner w ev = Inr w'"
      and ev: "ev \<in> set (filter (concernsOwner owner) (acceptedEvents m evs))"
    show "idsIn (ownArtifacts owner evs) (oppArtifacts w')"
    proof (rule workspace_step_artifacts[OF w(2,1)])
      fix a assume "evScope ev = PrivateScope owner" and a: "evPayload ev = ArtifactRegistered a"
      then have "ev \<in> {ev \<in> set evs. evScope ev = PrivateScope owner}" using ev sub by auto
      from imageI[OF this, of evPayload] a show "recId a \<in> ownArtifacts owner evs"
        by (auto simp: ownArtifacts_def ownPayloads_def)
    qed
  qed (simp add: emptyWorkspace_def)
qed

subsection \<open>What a reader may see of a log\<close>

definition visible :: "string \<Rightarrow> domainEvent list \<Rightarrow> domainEvent list" where
  "visible p evs = map placeless (filter (\<lambda>ev. isVisibleTo ev p) evs)"

text \<open>
  Three kinds of events that are hidden from the reader reach the reader's projection all the same: a completed reset,
  and what disposes of a suggestion or reports on an artifact that the reader owns, whoever wrote it.
\<close>

definition concernsReader :: "string \<Rightarrow> string set \<Rightarrow> string set \<Rightarrow> domainEvent \<Rightarrow> bool" where
  "concernsReader p suggestions artifacts ev \<longleftrightarrow>
     isVisibleTo ev p \<or> isDemoResetCompleted (evPayload ev) \<or>
     (case dispositionOf (evPayload ev) of None \<Rightarrow> False | Some x \<Rightarrow> fst x \<in> suggestions) \<or>
     (case processedReport (evPayload ev) of None \<Rightarrow> False | Some g \<Rightarrow> apgArtifactId g \<in> artifacts)"

definition readerSees :: "string \<Rightarrow> string set \<Rightarrow> string set \<Rightarrow> domainEvent list \<Rightarrow> domainEvent list" where
  "readerSees p suggestions artifacts evs = map placeless (filter (concernsReader p suggestions artifacts) evs)"

definition concerning :: "string \<Rightarrow> domainEvent list \<Rightarrow> domainEvent list" where
  "concerning p evs = readerSees p (ownSuggestions p evs) (ownArtifacts p evs) evs"

lemma concernsReader_placeless [simp]: "concernsReader p ss as (placeless ev) = concernsReader p ss as ev"
  by (simp add: concernsReader_def)

lemma readerSees_active:
  "readerSees p ss as (eventsAfterLatestDemoReset evs) = eventsAfterLatestDemoReset (readerSees p ss as evs)"
proof (induction evs rule: rev_induct)
  case Nil
  then show ?case by (simp add: readerSees_def)
next
  case (snoc ev evs)
  moreover have "isDemoResetCompleted (evPayload ev) \<Longrightarrow> concernsReader p ss as ev" by (simp add: concernsReader_def)
  ultimately show ?case by (auto simp: readerSees_def active_snoc)
qed

lemma readerSees_visible:
  assumes "readerSees p ss as xs = readerSees p ss2 as2 ys"
  shows "visible p xs = visible p ys"
proof -
  have "filter (\<lambda>ev. isVisibleTo ev p) (filter (concernsReader p ss as) evs) = filter (\<lambda>ev. isVisibleTo ev p) evs" for ss as evs
    by (simp add: concernsReader_def) (metis (mono_tags, lifting) filter_cong)
  with filter_placeless[OF assms[unfolded readerSees_def], of "\<lambda>ev. isVisibleTo ev p"] show ?thesis
    by (simp add: visible_def)
qed

lemma own_visible:
  assumes "visible p xs = visible p ys"
  shows "ownSuggestions p xs = ownSuggestions p ys" "ownArtifacts p xs = ownArtifacts p ys"
  using own_sets_placeless[OF assms[unfolded visible_def]] by (simp_all add: ownSuggestions_def ownArtifacts_def)

lemma concerning_same:
  assumes "concerning p xs = concerning p ys"
  shows "readerSees p (ownSuggestions p xs) (ownArtifacts p xs) xs = readerSees p (ownSuggestions p xs) (ownArtifacts p xs) ys"
  using assms own_visible[OF readerSees_visible[OF assms[unfolded concerning_def]]] by (simp add: concerning_def)

lemma visible_cong: "map placeless xs = map placeless ys \<Longrightarrow> visible p xs = visible p ys"
  unfolding visible_def by (rule filter_placeless) simp_all

lemma visible_length: "length (filter (\<lambda>ev. isVisibleTo ev p) evs) = length (visible p evs)"
  by (simp add: visible_def)

lemma findFirst_seen:
  assumes "\<And>ev. Q ev \<Longrightarrow> concernsReader p ss as ev" "\<And>ev. Q (placeless ev) = Q ev"
  shows "findFirst Q (readerSees p ss as evs) = map_option placeless (findFirst Q evs)"
proof -
  have "findFirst Q (readerSees p ss as evs) = map_option placeless (findFirst Q (filter (concernsReader p ss as) evs))"
    unfolding readerSees_def by (rule findFirst_map) (rule assms(2))
  also have "findFirst Q (filter (concernsReader p ss as) evs) = findFirst Q evs"
    using assms(1) by (induction evs) auto
  finally show ?thesis .
qed

lemma candidates_visible:
  "privateDisclosureCandidates (visible p evs) p = privateDisclosureCandidates evs p"
proof -
  have "foldl (candidateEntryStep p) s (visible p evs) = foldl (candidateEntryStep p) s evs" for s
    by (induction evs arbitrary: s) (auto simp: visible_def candidateEntryStep_def isVisibleTo_def)
  then show ?thesis by (simp add: privateDisclosureCandidates_def)
qed

lemma map_filter_visible:
  assumes "\<And>ev. f ev \<noteq> None \<Longrightarrow> isVisibleTo ev p" "\<And>ev. f (placeless ev) = f ev"
  shows "List.map_filter f (visible p evs) = List.map_filter f evs"
proof (induction evs)
  case (Cons ev evs)
  then show ?case
    using assms(1)[of ev] by (auto simp: visible_def List.map_filter_def assms(2))
qed (simp add: visible_def)

lemma sources_visible:
  "List.map_filter (ownTextSource p) (visible p evs) = List.map_filter (ownTextSource p) evs"
  "List.map_filter (realtimeSource p) (visible p evs) = List.map_filter (realtimeSource p) evs"
  by (rule map_filter_visible;
      auto simp: ownTextSource_def realtimeSource_def isVisibleTo_def split: domainEventPayload.splits if_splits)+

lemma concat_seen:
  assumes "\<And>ev. ev \<in> set evs \<Longrightarrow> f ev \<noteq> [] \<Longrightarrow> concernsReader p ss as ev" "\<And>ev. ev \<in> set evs \<Longrightarrow> g (placeless ev) = f ev"
  shows "concat (map g (readerSees p ss as evs)) = concat (map f evs)"
  using assms by (induction evs) (auto simp: readerSees_def)

lemma suggestions_seen:
  assumes "set evs \<subseteq> set log"
  shows "privateInferenceSuggestions (readerSees p (ownSuggestions p log) as evs) p = privateInferenceSuggestions evs p"
  unfolding privateInferenceSuggestions_def
proof (rule concat_seen)
  let ?seen = "readerSees p (ownSuggestions p log) as evs"
  fix ev assume ev: "ev \<in> set evs"
  show "suggestionViewsOf evs p ev \<noteq> [] \<Longrightarrow> concernsReader p (ownSuggestions p log) as ev"
    by (auto simp: suggestionViewsOf_def concernsReader_def isVisibleTo_def split: domainEventPayload.splits if_splits)
  show "suggestionViewsOf ?seen p (placeless ev) = suggestionViewsOf evs p ev"
  proof (cases "\<exists>s. evPayload ev = InferenceSuggested s \<and> eventOwner ev = Some p")
    case True
    then obtain s where s: "evPayload ev = InferenceSuggested s" "evScope ev = PrivateScope p"
      by (auto simp: eventOwner_iff)
    then have "ev \<in> {ev \<in> set log. evScope ev = PrivateScope p}" using ev assms by auto
    from imageI[OF this, of evPayload] s have own: "infSuggestionId s \<in> ownSuggestions p log"
      by (auto simp: ownSuggestions_def ownPayloads_def)
    have "findFirst (\<lambda>ev. map_option fst (dispositionOf (evPayload ev)) = Some (infSuggestionId s)) ?seen =
        map_option placeless (findFirst (\<lambda>ev. map_option fst (dispositionOf (evPayload ev)) = Some (infSuggestionId s)) evs)"
      by (rule findFirst_seen) (use own in \<open>auto simp: concernsReader_def split: option.splits\<close>)
    with s show ?thesis
      by (auto simp: suggestionViewsOf_def suggestionStatus_def split: option.splits)
  next
    case False
    then show ?thesis by (auto simp: suggestionViewsOf_def split: domainEventPayload.splits)
  qed
qed

lemma artifacts_seen:
  assumes "idsIn ids as"
  shows "privateArtifacts as (readerSees p ss ids evs) = privateArtifacts as evs"
proof -
  have "artifactViewsOf (readerSees p ss ids evs) a = artifactViewsOf evs a" if a: "a \<in> set as" for a
  proof -
    have "recId a \<in> ids" using a assms by (auto simp: idsIn_def)
    then have "findFirst (\<lambda>ev. map_option apgArtifactId (processedReport (evPayload ev)) = Some (recId a)) (readerSees p ss ids evs) =
        map_option placeless (findFirst (\<lambda>ev. map_option apgArtifactId (processedReport (evPayload ev)) = Some (recId a)) evs)"
      by (intro findFirst_seen) (auto simp: concernsReader_def split: option.splits)
    then show ?thesis by (auto simp: artifactViewsOf_def split: option.splits)
  qed
  then show ?thesis unfolding privateArtifacts_def by (metis (no_types, lifting) map_eq_conv)
qed

lemma workspace_visible:
  assumes "replayMeeting i xs = Inr p" "acceptedEvents i xs = xs" "replayMeeting i ys = Inr q" "acceptedEvents i ys = ys"
    and "visible owner xs = visible owner ys"
  shows "getOwnerPrivateProjection p owner = getOwnerPrivateProjection q owner"
proof -
  have "map placeless (filter (concernsOwner owner) xs) = map placeless (filter (concernsOwner owner) ys)"
    using filter_placeless[OF assms(5)[unfolded visible_def], of "concernsOwner owner", unfolded visible_sub] by simp
  from foldE_placeless[OF this, of "ownerView i owner" "emptyWorkspace i owner"]
    replay_owner[OF assms(1), of owner] replay_owner[OF assms(3), of owner] assms(2,4)
  show ?thesis by simp
qed

lemma shared_visible:
  assumes "replayMeeting i xs = Inr p" "acceptedEvents i xs = xs" "replayMeeting i ys = Inr q" "acceptedEvents i ys = ys"
    and "map placeless (filter isShared xs) = map placeless (filter isShared ys)"
  shows "sharedContent (mprShared p) = sharedContent (mprShared q)"
  using shared_replay_content[OF assms(5), of "createEmptySharedMeetingProjection i" "mprShared p"
      "createEmptySharedMeetingProjection i" "mprShared q"] replay_shared[OF assms(1)] replay_shared[OF assms(3)] assms(2,4)
  by (simp add: replaySharedMeeting_def)

lemma shared_view_cong:
  assumes "sharedContent s = sharedContent t"
  shows "sharedViewOf s n = sharedViewOf t n" "meetingViewOf meeting s = meetingViewOf meeting t"
    "shpSharedFloor s = shpSharedFloor t" "shpUtterances s = shpUtterances t"
proof -
  show "sharedViewOf s n = sharedViewOf t n"
    using arg_cong[OF assms, of "\<lambda>c. sharedViewOf c n"] by simp
  show "meetingViewOf meeting s = meetingViewOf meeting t"
    using arg_cong[OF assms, of shpMeeting] by (simp add: meetingViewOf_def)
  show "shpSharedFloor s = shpSharedFloor t" using arg_cong[OF assms, of shpSharedFloor] by simp
  show "shpUtterances s = shpUtterances t" using arg_cong[OF assms, of shpUtterances] by simp
qed

subsection \<open>The Node server's runtime\<close>

text \<open>
  The event and artifact stores and the account tables side by side. The schemas and the decoding of
  malformed bytes come from outside.
\<close>

definition onStore ::
  "(sqliteWorld \<Rightarrow> 'r \<times> sqliteWorld) \<Rightarrow> sqliteWorld \<times> accountWorld \<Rightarrow> 'r \<times> sqliteWorld \<times> accountWorld" where
  "onStore f w = (case f (fst w) of (r, s) \<Rightarrow> (r, s, snd w))"

definition onAccounts ::
  "(accountWorld \<Rightarrow> 'r \<times> accountWorld) \<Rightarrow> sqliteWorld \<times> accountWorld \<Rightarrow> 'r \<times> sqliteWorld \<times> accountWorld" where
  "onAccounts f w = (case f (snd w) of (r, a) \<Rightarrow> (r, fst w, a))"

definition bothMeetings :: "accountWorld meetingPorts \<Rightarrow> (sqliteWorld \<times> accountWorld) meetingPorts" where
  "bothMeetings ports =
     \<lparr>mpoNext = (\<lambda>ns. onAccounts (mpoNext ports ns)), mpoCreate = (\<lambda>m as. onAccounts (mpoCreate ports m as)),
      mpoFindAssignment = (\<lambda>m u. onAccounts (mpoFindAssignment ports m u)),
      mpoFindByCode = (\<lambda>c. onAccounts (mpoFindByCode ports c)),
      mpoFindById = (\<lambda>m. onAccounts (mpoFindById ports m)),
      mpoListAssignments = (\<lambda>m. onAccounts (mpoListAssignments ports m)),
      mpoListAssigned = (\<lambda>u. onAccounts (mpoListAssigned ports u))\<rparr>"

record viewSchemas =
  vscMalformed :: "bytes \<Rightarrow> string"
  vscRole :: "roleWorkspaceView roleView \<Rightarrow> exn + roleWorkspaceView roleView"
  vscRealtime :: "realtimeWorkspaceView roleView \<Rightarrow> exn + realtimeWorkspaceView roleView"
  vscDisplay :: "displayView \<Rightarrow> exn + displayView"

definition nodeRuntime ::
  "(domainEvent \<Rightarrow> string) \<Rightarrow> (nat \<Rightarrow> int) \<Rightarrow> (nat \<Rightarrow> string) \<Rightarrow> (string \<Rightarrow> string) \<Rightarrow> string \<Rightarrow> viewSchemas \<Rightarrow>
     (sqliteWorld \<times> accountWorld) serverRuntime" where
  "nodeRuntime enc clk uuid sha root schemas =
     \<lparr>srtMeetings = bothMeetings (nodeMeetings clk uuid),
      srtLoad = (\<lambda>m. onStore (prtLoad (sqlitePorts enc clk uuid sha) m)),
      srtGetArtifact = (\<lambda>sc. onStore (aspGet (nodeArtifacts root uuid) sc)),
      srtDecodeMalformed = vscMalformed schemas, srtRoleSchema = vscRole schemas,
      srtRealtimeSchema = vscRealtime schemas, srtDisplaySchema = vscDisplay schemas\<rparr>"

lemma nodeRuntime_simps:
  "mpoFindById (srtMeetings (nodeRuntime enc clk uuid sha root schemas)) m w = (findMeetingById m (awTables (snd w)), w)"
  "mpoFindAssignment (srtMeetings (nodeRuntime enc clk uuid sha root schemas)) m u w =
     (findAssignment m u (awTables (snd w)), w)"
  "mpoListAssignments (srtMeetings (nodeRuntime enc clk uuid sha root schemas)) m w =
     (listAssignments m (awTables (snd w)), w)"
  "srtRoleSchema (nodeRuntime enc clk uuid sha root schemas) = vscRole schemas"
  "srtRealtimeSchema (nodeRuntime enc clk uuid sha root schemas) = vscRealtime schemas"
  "srtDisplaySchema (nodeRuntime enc clk uuid sha root schemas) = vscDisplay schemas"
  by (simp_all add: nodeRuntime_def bothMeetings_def nodeMeetings_def onAccounts_def)

text \<open>A stored meeting as the projections load and replay it.\<close>

lemma load_run:
  assumes "worldOk enc w" "healthy m (worldLog w m)" "meetingId m = Inr i"
  obtains evs p where "replayMeeting i evs = Inr p" "acceptedEvents i evs = evs"
    "map placeless evs = map placeless (worldLog w m)"
    "\<And>a. loadNormalized (nodeRuntime enc clk uuid sha root schemas) m (w, a) = (Inr evs, w, a)"
    "replayedMeeting m evs = Inr p"
proof -
  obtain evs p where h: "normalizeRecords (numberRecords 1 (worldLog w m)) = Inr evs"
    "replayMeeting i evs = Inr p" "acceptedEvents i evs = evs" "map placeless evs = map placeless (worldLog w m)"
    using healthy_replay[OF assms(2)] assms(3) by (metis sum.inject(2))
  have "m \<noteq> []" using assms(3) by (auto simp: meetingId_def opaqueText_Inr)
  then have "prtLoad (sqlitePorts enc clk uuid sha) m w = (Inr (numberRecords 1 (worldLog w m)), w)"
    by (rule prtLoad_node[OF assms(1)])
  then have "loadNormalized (nodeRuntime enc clk uuid sha root schemas) m (w, a) = (Inr evs, w, a)" for a
    using h(1) by (simp add: loadNormalized_def nodeRuntime_def onStore_def step_simps)
  with h assms(3) that show thesis by (simp add: replayedMeeting_def)
qed

lemma healthy_meeting: "healthy m log \<Longrightarrow> \<exists>i. meetingId m = Inr i"
  using healthy_replay by metis

text \<open>Two file trees that hold the same under the scopes of a reader.\<close>

definition ownFilesAgree :: "string \<Rightarrow> string \<Rightarrow> files \<Rightarrow> files \<Rightarrow> bool" where
  "ownFilesAgree root p fs fs2 \<longleftrightarrow>
     rootOk root fs \<and> rootOk root fs2 \<and>
     (\<forall>sc. ascOwnerParticipantId sc = Some p \<longrightarrow> fst (getArtifact root sc fs) = fst (getArtifact root sc fs2))"

lemma get_unchanged: "rootOk root fs \<Longrightarrow> snd (getArtifact root sc fs) = fs"
proof (cases "validScope sc")
  case True
  then show "rootOk root fs \<Longrightarrow> ?thesis" using getArtifact_lookup by simp
next
  case False
  then show ?thesis by (auto simp: validScope_def getArtifact_def locate_def split: sum.splits)
qed

lemma readSources_run:
  assumes "ownFilesAgree root p (swFiles w1) (swFiles w2)"
  shows "\<exists>r. readSources (nodeRuntime enc clk uuid sha root schemas) m p xs (w1, a) = (r, w1, a) \<and>
    readSources (nodeRuntime enc clk uuid sha root schemas) m p xs (w2, a) = (r, w2, a)"
proof (induction xs)
  case Nil
  then show ?case by (simp add: returnC_def)
next
  case (Cons x xs)
  let ?rt = "nodeRuntime enc clk uuid sha root schemas"
  let ?sc = "\<lparr>ascArtifactId = recId (snd x), ascMeetingId = m, ascOwnerParticipantId = Some p, ascVisibility = Private\<rparr>"
  obtain r where r: "getArtifact root ?sc (swFiles w1) = (r, swFiles w1)" "getArtifact root ?sc (swFiles w2) = (r, swFiles w2)"
    using assms get_unchanged[of root _ ?sc] by (auto simp: ownFilesAgree_def prod_eq_iff)
  then have "srtGetArtifact ?rt ?sc (w1, a) = (r, w1, a)" "srtGetArtifact ?rt ?sc (w2, a) = (r, w2, a)"
    by (simp_all add: nodeRuntime_def nodeArtifacts_def onStore_def)
  with Cons.IH show ?case
    by (cases x) (auto simp: bindC_def portC_def returnC_def split: sum.splits)
qed

text \<open>C10. Confidentiality of the shared display: it shows what the shared events alone determine.
  Take two stores whose logs of a meeting differ in private events, and so in the positions of the
  shared ones, but agree in the shared events otherwise: the display of the meeting is the same, view
  or error.\<close>

theorem shared_display_shows_shared_events_only:
  assumes "worldOk enc w1" "worldOk enc w2" "healthy m (worldLog w1 m)" "healthy m (worldLog w2 m)"
    and "map placeless (filter isShared (worldLog w1 m)) = map placeless (filter isShared (worldLog w2 m))"
  shows "fst (sharedDisplayProjectionFor (nodeRuntime enc clk uuid sha root schemas) m expiresAt correlation (w1, a)) =
    fst (sharedDisplayProjectionFor (nodeRuntime enc clk uuid sha root schemas) m expiresAt correlation (w2, a))"
proof -
  let ?rt = "nodeRuntime enc clk uuid sha root schemas"
  obtain i where i: "meetingId m = Inr i" using healthy_meeting[OF assms(3)] by blast
  obtain evs p where l1: "replayMeeting i evs = Inr p" "acceptedEvents i evs = evs"
    "map placeless evs = map placeless (worldLog w1 m)" "\<And>a. loadNormalized ?rt m (w1, a) = (Inr evs, w1, a)"
    "replayedMeeting m evs = Inr p"
    using load_run[OF assms(1,3) i, where clk = clk and uuid = uuid and sha = sha and root = root and schemas = schemas] by blast
  obtain evs2 q where l2: "replayMeeting i evs2 = Inr q" "acceptedEvents i evs2 = evs2"
    "map placeless evs2 = map placeless (worldLog w2 m)" "\<And>a. loadNormalized ?rt m (w2, a) = (Inr evs2, w2, a)"
    "replayedMeeting m evs2 = Inr q"
    using load_run[OF assms(2,4) i, where clk = clk and uuid = uuid and sha = sha and root = root and schemas = schemas] by blast
  have same: "map placeless (filter isShared evs) = map placeless (filter isShared evs2)"
    using filter_placeless[OF l1(3), of isShared] filter_placeless[OF l2(3), of isShared] assms(5) by simp
  note content = shared_view_cong[OF shared_visible[OF l1(1,2) l2(1,2) same]]
  have "length (filter (\<lambda>ev. scopeVisibility (evScope ev) = Shared) xs) = length (map placeless (filter isShared xs))" for xs
    unfolding length_map by (rule arg_cong[where f = length], rule filter_cong) (auto simp: isShared_def elim: scopeVisibility.elims)
  with same have positions: "length (filter (\<lambda>ev. scopeVisibility (evScope ev) = Shared) evs) =
      length (filter (\<lambda>ev. scopeVisibility (evScope ev) = Shared) evs2)" by metis
  show ?thesis
    by (simp add: sharedDisplayProjectionFor_def bindC_def portC_def liftC_def nodeRuntime_simps l1(4,5) l2(4,5)
        content positions returnC_def raiseC_def split: sum.splits option.splits)
qed

lemma role_view_seen:
  assumes l1: "replayMeeting i evs = Inr p" "acceptedEvents i evs = evs"
    and l2: "replayMeeting i evs2 = Inr q" "acceptedEvents i evs2 = evs2"
    and same: "concerning (uctParticipantId context) evs = concerning (uctParticipantId context) evs2"
  shows "roleViewOf context correlation meeting a as sources evs p = roleViewOf context correlation meeting a as sources evs2 q"
    and "visible (uctParticipantId context) (eventsAfterLatestDemoReset evs) =
      visible (uctParticipantId context) (eventsAfterLatestDemoReset evs2)"
proof -
  let ?me = "uctParticipantId context"
  let ?ss = "ownSuggestions ?me evs" and ?ids = "ownArtifacts ?me evs"
  note visible = readerSees_visible[OF same[unfolded concerning_def]]
  have shared: "map placeless (filter isShared evs) = map placeless (filter isShared evs2)"
    using filter_placeless[OF visible[unfolded visible_def], of isShared, unfolded visible_sub] by simp
  note content = shared_view_cong[OF shared_visible[OF l1 l2 shared]]
  have active: "readerSees ?me ?ss ?ids (eventsAfterLatestDemoReset evs) = readerSees ?me ?ss ?ids (eventsAfterLatestDemoReset evs2)"
    using concerning_same[OF same] by (simp add: readerSees_active)
  show resets: "visible ?me (eventsAfterLatestDemoReset evs) = visible ?me (eventsAfterLatestDemoReset evs2)"
    by (rule readerSees_visible[OF active])
  have candidates: "privateDisclosureCandidates (eventsAfterLatestDemoReset evs) ?me =
      privateDisclosureCandidates (eventsAfterLatestDemoReset evs2) ?me"
    using candidates_visible[of ?me "eventsAfterLatestDemoReset evs"]
      candidates_visible[of ?me "eventsAfterLatestDemoReset evs2"] resets by simp
  have suggestions: "privateInferenceSuggestions (eventsAfterLatestDemoReset evs) ?me =
      privateInferenceSuggestions (eventsAfterLatestDemoReset evs2) ?me"
    using suggestions_seen[OF set_active, of ?me evs ?ids] suggestions_seen[OF set_active, of ?me evs2 ?ids] active
      own_visible(1)[OF visible] by simp
  have workspace: "getOwnerPrivateProjection p ?me = getOwnerPrivateProjection q ?me"
    by (rule workspace_visible[OF l1 l2 visible])
  have artifacts: "privateArtifacts (oppArtifacts (getOwnerPrivateProjection q ?me)) (eventsAfterLatestDemoReset evs) =
      privateArtifacts (oppArtifacts (getOwnerPrivateProjection q ?me)) (eventsAfterLatestDemoReset evs2)"
    using artifacts_seen[OF workspace_artifacts[OF l1(1), of ?me], of ?me ?ss "eventsAfterLatestDemoReset evs"]
      artifacts_seen[OF workspace_artifacts[OF l1(1), of ?me], of ?me ?ss "eventsAfterLatestDemoReset evs2"] active workspace by simp
  show "roleViewOf context correlation meeting a as sources evs p = roleViewOf context correlation meeting a as sources evs2 q"
    unfolding roleViewOf_def Let_def workspace_found[OF l1(1)] workspace_found[OF l2(1)] visible_length
      content candidates suggestions workspace artifacts visible ..
qed

lemma concerning_placeless:
  assumes "map placeless evs = map placeless log"
  shows "concerning p evs = concerning p log"
  using own_visible[OF visible_cong[OF assms]] filter_placeless[OF assms] by (simp add: concerning_def readerSees_def)

lemma role_run:
  assumes "worldOk enc w1" "worldOk enc w2" "healthy m (worldLog w1 m)" "healthy m (worldLog w2 m)"
    and "concerning (uctParticipantId context) (worldLog w1 m) = concerning (uctParticipantId context) (worldLog w2 m)"
    and "ownFilesAgree root (uctParticipantId context) (swFiles w1) (swFiles w2)" "uctMeetingId context = m"
  shows "\<exists>r. roleProjectionFor (nodeRuntime enc clk uuid sha root schemas) context correlation bodies (w1, a) = (r, w1, a) \<and>
      roleProjectionFor (nodeRuntime enc clk uuid sha root schemas) context correlation bodies (w2, a) = (r, w2, a)"
    and "\<exists>evs evs2. loadNormalized (nodeRuntime enc clk uuid sha root schemas) m (w1, a) = (Inr evs, w1, a) \<and>
      loadNormalized (nodeRuntime enc clk uuid sha root schemas) m (w2, a) = (Inr evs2, w2, a) \<and>
      visible (uctParticipantId context) (eventsAfterLatestDemoReset evs) =
        visible (uctParticipantId context) (eventsAfterLatestDemoReset evs2)"
proof -
  let ?rt = "nodeRuntime enc clk uuid sha root schemas"
  let ?me = "uctParticipantId context"
  obtain i where i: "meetingId m = Inr i" using healthy_meeting[OF assms(3)] by blast
  obtain evs p where l1: "replayMeeting i evs = Inr p" "acceptedEvents i evs = evs"
    "map placeless evs = map placeless (worldLog w1 m)" "\<And>a. loadNormalized ?rt m (w1, a) = (Inr evs, w1, a)"
    "replayedMeeting m evs = Inr p"
    using load_run[OF assms(1,3) i, where clk = clk and uuid = uuid and sha = sha and root = root and schemas = schemas] by blast
  obtain evs2 q where l2: "replayMeeting i evs2 = Inr q" "acceptedEvents i evs2 = evs2"
    "map placeless evs2 = map placeless (worldLog w2 m)" "\<And>a. loadNormalized ?rt m (w2, a) = (Inr evs2, w2, a)"
    "replayedMeeting m evs2 = Inr q"
    using load_run[OF assms(2,4) i, where clk = clk and uuid = uuid and sha = sha and root = root and schemas = schemas] by blast
  have same: "concerning ?me evs = concerning ?me evs2"
    using concerning_placeless[OF l1(3)] concerning_placeless[OF l2(3)] assms(5) by simp
  note view = role_view_seen(1)[OF l1(1,2) l2(1,2) same] and active = role_view_seen(2)[OF l1(1,2) l2(1,2) same]
  with l1(4) l2(4) show "\<exists>evs evs2. loadNormalized ?rt m (w1, a) = (Inr evs, w1, a) \<and>
      loadNormalized ?rt m (w2, a) = (Inr evs2, w2, a) \<and>
      visible ?me (eventsAfterLatestDemoReset evs) = visible ?me (eventsAfterLatestDemoReset evs2)" by blast
  have texts: "List.map_filter (ownTextSource ?me) (eventsAfterLatestDemoReset evs) =
      List.map_filter (ownTextSource ?me) (eventsAfterLatestDemoReset evs2)"
    using sources_visible(1)[of ?me "eventsAfterLatestDemoReset evs"]
      sources_visible(1)[of ?me "eventsAfterLatestDemoReset evs2"] active by simp
  obtain s where s: "privateSources ?rt m ?me (eventsAfterLatestDemoReset evs) (w1, a) = (s, w1, a)"
    "privateSources ?rt m ?me (eventsAfterLatestDemoReset evs2) (w2, a) = (s, w2, a)"
    using readSources_run[OF assms(6)] unfolding privateSources_def texts by blast
  show "\<exists>r. roleProjectionFor ?rt context correlation bodies (w1, a) = (r, w1, a) \<and>
      roleProjectionFor ?rt context correlation bodies (w2, a) = (r, w2, a)"
    by (simp add: roleProjectionFor_def bindC_def portC_def liftC_def nodeRuntime_simps l1(4,5) l2(4,5) assms(7) s
        view returnC_def raiseC_def Let_def split: sum.splits option.splits)
qed

text \<open>C11. Confidentiality of a participant's projection: it is determined by the shared events, the reader's
  own private events and the reader's own files, and of other participants' private events only by
  those that complete a reset, dispose of a suggestion of the reader or report on an artifact of the
  reader. Take two stores whose logs differ in any other private events: the projection and the realtime
  projection are the same, view or error.\<close>

theorem participant_sees_visible_events_only:
  assumes "worldOk enc w1" "worldOk enc w2" "healthy m (worldLog w1 m)" "healthy m (worldLog w2 m)"
    and "concerning (uctParticipantId context) (worldLog w1 m) = concerning (uctParticipantId context) (worldLog w2 m)"
    and "ownFilesAgree root (uctParticipantId context) (swFiles w1) (swFiles w2)" "uctMeetingId context = m"
  shows "fst (roleProjectionFor (nodeRuntime enc clk uuid sha root schemas) context correlation bodies (w1, a)) =
      fst (roleProjectionFor (nodeRuntime enc clk uuid sha root schemas) context correlation bodies (w2, a)) \<and>
    fst (realtimeRoleProjectionFor (nodeRuntime enc clk uuid sha root schemas) context correlation (w1, a)) =
      fst (realtimeRoleProjectionFor (nodeRuntime enc clk uuid sha root schemas) context correlation (w2, a))"
proof
  let ?rt = "nodeRuntime enc clk uuid sha root schemas"
  let ?me = "uctParticipantId context"
  show "fst (roleProjectionFor ?rt context correlation bodies (w1, a)) =
      fst (roleProjectionFor ?rt context correlation bodies (w2, a))"
  proof -
    obtain r where "roleProjectionFor ?rt context correlation bodies (w1, a) = (r, w1, a)"
      "roleProjectionFor ?rt context correlation bodies (w2, a) = (r, w2, a)" using role_run(1)[OF assms] by blast
    then show ?thesis by simp
  qed
  obtain r where r: "roleProjectionFor ?rt context correlation False (w1, a) = (r, w1, a)"
    "roleProjectionFor ?rt context correlation False (w2, a) = (r, w2, a)"
    using role_run(1)[OF assms] by blast
  obtain evs evs2 where l: "loadNormalized ?rt m (w1, a) = (Inr evs, w1, a)" "loadNormalized ?rt m (w2, a) = (Inr evs2, w2, a)"
    and active: "visible ?me (eventsAfterLatestDemoReset evs) = visible ?me (eventsAfterLatestDemoReset evs2)"
    using role_run(2)[OF assms] by blast
  have "List.map_filter (realtimeSource ?me) (eventsAfterLatestDemoReset evs) =
      List.map_filter (realtimeSource ?me) (eventsAfterLatestDemoReset evs2)"
    using sources_visible(2)[of ?me "eventsAfterLatestDemoReset evs"]
      sources_visible(2)[of ?me "eventsAfterLatestDemoReset evs2"] active by simp
  then show "fst (realtimeRoleProjectionFor ?rt context correlation (w1, a)) =
      fst (realtimeRoleProjectionFor ?rt context correlation (w2, a))"
    by (simp add: realtimeRoleProjectionFor_def bindC_def liftC_def nodeRuntime_simps r l assms(7) returnC_def raiseC_def
        split: sum.splits option.splits)
qed

subsection \<open>Two stores that differ in a private source\<close>

text \<open>Participant \<open>p1\<close> of meeting \<open>m1\<close> has registered a private source, or has not; \<open>p2\<close> and the display look.\<close>

definition exampleViewers :: accountWorld where
  "exampleViewers = \<lparr>awTables = \<lparr>atbUsers = [],
     atbMeetings = [(exampleMeetingRow\<lparr>mrcMeetingId := ''m1''\<rparr>, isoString 0)],
     atbAssignments = [\<lparr>asnActive = True, asnMeetingId = ''m1'', asnParticipantId = ''p2'', asnRole = PlainParticipantRole,
       asnUserId = ''u2''\<rparr>], atbSessions = []\<rparr>, awTick = 0\<rparr>"

definition exampleReader :: userContext where
  "exampleReader = userAuthorizationContext ''m1'' ''p2'' PlainParticipantRole ''s1'' ''u2'' None"

definition plainSchemas :: viewSchemas where
  "plainSchemas = \<lparr>vscMalformed = (\<lambda>_. ''''), vscRole = Inr, vscRealtime = Inr, vscDisplay = Inr\<rparr>"

lemma plainSchemas_simps [simp]: "vscRole plainSchemas = Inr" "vscDisplay plainSchemas = Inr"
  by (simp_all add: plainSchemas_def)

abbreviation exampleRuntime :: "(sqliteWorld \<times> accountWorld) serverRuntime" where
  "exampleRuntime \<equiv> nodeRuntime (\<lambda>_. ''e'') (\<lambda>_. 0) countedUuid (\<lambda>_. ''h'') ''/d'' plainSchemas"

abbreviation unregisteredWorld :: sqliteWorld where
  "unregisteredWorld \<equiv> emptyWorld\<lparr>swFiles := exampleStored\<rparr>"

lemma unregistered_world: "worldOk (\<lambda>_. ''e'') unregisteredWorld" "worldLog unregisteredWorld ''m1'' = []"
  using worldOk_empty[of "\<lambda>_. ''e''"] by (simp_all add: emptyWorld_log)

lemma registered_healthy: "healthy ''m1'' [registeredText]"
proof -
  have "wellPlaced ''m1'' [] registeredText"
    by (simp add: wellPlaced_def registeredText_def ownersEvent_def exampleRegister_def example_positions
        payloadFits_def reducePrivateWorkspace_def reduceWorkspace_def validateEntityScope_def exampleSource_def)
  from healthy_snoc[OF healthy_empty this] show ?thesis by simp
qed

lemma example_viewers:
  "findMeetingById ''m1'' (awTables exampleViewers) = Inr (Some (exampleMeetingRow\<lparr>mrcMeetingId := ''m1''\<rparr>))"
  "\<exists>as. findAssignment ''m1'' ''u2'' (awTables exampleViewers) = Inr (Some as) \<and> asnActive as"
  "\<exists>as. listAssignments ''m1'' (awTables exampleViewers) = Inr as"
  by (simp_all add: exampleViewers_def findMeetingById_def findAssignment_def listAssignments_def requireNonEmpty_def)

theorem shared_display_shows_shared_events_only_witness:
  "\<exists>w v. worldLog w ''m1'' = [registeredText] \<and>
     fst (sharedDisplayProjectionFor exampleRuntime ''m1'' ''t'' ''c'' (w, exampleViewers)) = Inr (Some v)"
proof -
  obtain r w where "registerPrivateTextSource runSharing exampleOwner exampleRegister emptyWorld = (r, w)"
    and st: "stands [registeredText] exampleStored {''k1''} 5 w" using register_runs by blast
  have w: "worldOk (\<lambda>_. ''e'') w" "worldLog w ''m1'' = [registeredText]" using st by (auto simp: stands_def)
  have same: "fst (sharedDisplayProjectionFor exampleRuntime ''m1'' ''t'' ''c'' (unregisteredWorld, exampleViewers)) =
      fst (sharedDisplayProjectionFor exampleRuntime ''m1'' ''t'' ''c'' (w, exampleViewers))"
    by (rule shared_display_shows_shared_events_only[OF unregistered_world(1) w(1)])
      (use registered_healthy healthy_empty in \<open>simp_all add: unregistered_world w isShared_def registeredText_def ownersEvent_def\<close>)
  obtain evs p where "loadNormalized exampleRuntime ''m1'' (unregisteredWorld, exampleViewers) = (Inr evs, unregisteredWorld, exampleViewers)"
    "replayedMeeting ''m1'' evs = Inr p"
    using load_run[OF unregistered_world(1), of "''m1''" "''m1''"] healthy_empty by (metis example_texts(2) unregistered_world(2))
  then have "\<exists>v. fst (sharedDisplayProjectionFor exampleRuntime ''m1'' ''t'' ''c'' (unregisteredWorld, exampleViewers)) = Inr (Some v)"
    by (simp add: sharedDisplayProjectionFor_def bindC_def portC_def liftC_def nodeRuntime_simps example_viewers returnC_def
        exampleMeetingRow_def Let_def)
  with same w(2) show ?thesis by metis
qed

theorem participant_sees_visible_events_only_witness:
  "\<exists>w v. worldLog w ''m1'' = [registeredText] \<and> uctParticipantId exampleReader = ''p2'' \<and>
     fst (roleProjectionFor exampleRuntime exampleReader ''c'' True (w, exampleViewers)) = Inr (Some v)"
proof -
  obtain r w where "registerPrivateTextSource runSharing exampleOwner exampleRegister emptyWorld = (r, w)"
    and st: "stands [registeredText] exampleStored {''k1''} 5 w" using register_runs by blast
  have w: "worldOk (\<lambda>_. ''e'') w" "worldLog w ''m1'' = [registeredText]" "swFiles w = exampleStored"
    using st by (auto simp: stands_def)
  have reader: "uctParticipantId exampleReader = ''p2''" "uctMeetingId exampleReader = ''m1''" "uctUserId exampleReader = ''u2''"
    by (simp_all add: exampleReader_def userAuthorizationContext_def)
  have hidden: "\<not> isVisibleTo registeredText ''p2''" "evPayload registeredText = ArtifactRegistered exampleSource"
    by (simp_all add: registeredText_def ownersEvent_def isVisibleTo_def eventOwner_def)
  then have log: "concerning ''p2'' [registeredText] = concerning ''p2'' []"
    by (simp add: concerning_def readerSees_def concernsReader_def isDemoResetCompleted_def)
  have files: "ownFilesAgree ''/d'' ''p2'' exampleStored exampleStored"
    by (simp add: ownFilesAgree_def rootOk_def exampleStored_def)
  have h: "healthy ''m1'' (worldLog unregisteredWorld ''m1'')" "healthy ''m1'' (worldLog w ''m1'')"
    using healthy_empty registered_healthy by (simp_all add: unregistered_world w)
  have same: "fst (roleProjectionFor exampleRuntime exampleReader ''c'' True (unregisteredWorld, exampleViewers)) =
      fst (roleProjectionFor exampleRuntime exampleReader ''c'' True (w, exampleViewers))"
    by (rule participant_sees_visible_events_only[OF unregistered_world(1) w(1) h, THEN conjunct1])
      (simp_all only: unregistered_world(2) w reader log, simp_all add: files)
  obtain evs p where l: "loadNormalized exampleRuntime ''m1'' (unregisteredWorld, exampleViewers) =
      (Inr evs, unregisteredWorld, exampleViewers)" "replayedMeeting ''m1'' evs = Inr p" and evs: "map placeless evs = []"
    using load_run[OF unregistered_world(1) h(1), of "''m1''"] by (metis example_texts(2) unregistered_world(2) list.map(1))
  have "privateSources exampleRuntime ''m1'' ''p2'' (eventsAfterLatestDemoReset evs) w' = (Inr [], w')" for w'
    using evs by (simp add: privateSources_def returnC_def List.map_filter_def)
  then have "\<exists>v. fst (roleProjectionFor exampleRuntime exampleReader ''c'' True (unregisteredWorld, exampleViewers)) = Inr (Some v)"
    using example_viewers(2,3) l
    by (auto simp: roleProjectionFor_def bindC_def portC_def liftC_def nodeRuntime_simps example_viewers(1) reader returnC_def
        exampleMeetingRow_def Let_def)
  with same w(2) reader(1) show ?thesis by metis
qed

end
