(* ===== verification/UrlFetcher.thy ===== *)
theory UrlFetcher
  imports PasswordHashes
begin

section \<open>Fetching a URL safely: \<open>packages/adapters-node/src/safe-url-fetcher.ts\<close>\<close>

text \<open>
  The fetcher behind the import of artifacts from URLs. It follows at most three redirects, and before
  each request it resolves the host name, refuses the destination unless every address is globally
  routable, and pins the request to the first address. The parser of URLs, \<open>isIP\<close>,
  \<open>decodeURIComponent\<close>, the name service and the transport come from outside; so does the passage of time:
  whether the deadline has passed is read where the source reads the abort signal.
\<close>

unbundle bit_operations_syntax

subsection \<open>Types\<close>

datatype fetchReason =
    CredentialsNotAllowed | DnsResolutionFailed | HttpError | InvalidRedirect | InvalidUrl | NetworkError
  | PortNotAllowed | ResponseTooLarge | Timeout | TooManyRedirects | UnsafeDestination
  | UnsupportedContentEncoding | UnsupportedContentType | UnsupportedScheme

datatype fetchError = FetchFailed fetchReason | OtherFetchError

record url =
  urlProtocol :: string
  urlUsername :: string
  urlPassword :: string
  urlPort :: string
  urlHostname :: string
  urlPathname :: string
  urlHref :: string

record resolvedAddress =
  rsaAddress :: string
  rsaFamily :: nat

record transportRequest =
  trqFamily :: nat
  trqPinnedAddress :: string
  trqUrl :: url

text \<open>A header's value: one string, several, or undefined.\<close>

datatype headerValue = SingleValue string | SeveralValues "string list" | NoValue

text \<open>What the body of a response yields in turn: bytes, something else, or an exception.\<close>

datatype bodyPart = BodyBytes bytes | BodyOther | BodyBroken

record transportResponse =
  trsBody :: "bodyPart list"
  trsHeaders :: "(string \<times> headerValue) list"
  trsStatusCode :: nat

record fetchedUrl =
  fchBytes :: bytes
  fchContentType :: string
  fchFilename :: string

datatype urlFetchResult = UrlFetched fetchedUrl | UrlFailed fetchReason

record 'w urlPorts =
  urpParse :: "string \<Rightarrow> url option"
  urpResolve :: "string \<Rightarrow> url \<Rightarrow> url option"
  urpIsIp :: "string \<Rightarrow> nat"
  urpDecode :: "string \<Rightarrow> string option"
  urpAborted :: "'w \<Rightarrow> bool \<times> 'w"
  urpLookup :: "string \<Rightarrow> 'w \<Rightarrow> resolvedAddress list option \<times> 'w"
  urpRequest :: "transportRequest \<Rightarrow> 'w \<Rightarrow> transportResponse option \<times> 'w"
  urpClose :: "transportResponse \<Rightarrow> 'w \<Rightarrow> 'w"

type_synonym ('w, 'a) fetching = "'w \<Rightarrow> (fetchError + 'a) \<times> 'w"

definition yieldF :: "'a \<Rightarrow> ('w, 'a) fetching" where
  "yieldF a w = (Inr a, w)"

definition fail :: "fetchReason \<Rightarrow> ('w, 'a) fetching" where
  "fail reason w = (Inl (FetchFailed reason), w)"

definition bindF :: "('w, 'a) fetching \<Rightarrow> ('a \<Rightarrow> ('w, 'b) fetching) \<Rightarrow> ('w, 'b) fetching" where
  "bindF m f w = (case m w of (Inl e, w') \<Rightarrow> (Inl e, w') | (Inr a, w') \<Rightarrow> f a w')"

definition checkF :: "bool \<Rightarrow> fetchReason \<Rightarrow> ('w, unit) fetching" where
  "checkF ok reason = (if ok then yieldF () else fail reason)"

definition readF :: "('w \<Rightarrow> 'a \<times> 'w) \<Rightarrow> ('w, 'a) fetching" where
  "readF g w = (case g w of (a, w') \<Rightarrow> (Inr a, w'))"

definition foundF :: "'a option \<Rightarrow> fetchReason \<Rightarrow> ('w, 'a) fetching" where
  "foundF r reason = (case r of None \<Rightarrow> fail reason | Some a \<Rightarrow> yieldF a)"

subsection \<open>Constants\<close>

definition DEFAULT_MAX_BYTES :: nat where "DEFAULT_MAX_BYTES = 20 * 1024 * 1024"
definition DEFAULT_MAX_REDIRECTS :: nat where "DEFAULT_MAX_REDIRECTS = 3"

definition REDIRECT_STATUS_CODES :: "nat list" where
  "REDIRECT_STATUS_CODES = [301, 302, 303, 307, 308]"

definition SUPPORTED_CONTENT_TYPES :: "string list" where
  "SUPPORTED_CONTENT_TYPES = [''application/json'', ''application/pdf'', ''text/markdown'', ''text/plain'']"

text \<open>The extensions that a content type allows, and the name used when the URL has no good one.\<close>

definition filePolicy :: "string \<Rightarrow> (string list \<times> string) option" where
  "filePolicy contentType =
     map_of [(''application/json'', ([''.json''], ''artifact.json'')),
             (''application/pdf'', ([''.pdf''], ''artifact.pdf'')),
             (''text/markdown'', ([''.md'', ''.markdown''], ''artifact.md'')),
             (''text/plain'', ([''.txt''], ''artifact.txt''))] contentType"

definition validatedMaxBytes :: "int option \<Rightarrow> exn + nat" where
  "validatedMaxBytes v =
     (let maxBytes = (case v of None \<Rightarrow> int DEFAULT_MAX_BYTES | Some n \<Rightarrow> n) in
      if \<not> isSafeInteger maxBytes \<or> maxBytes \<le> 0 \<or> maxBytes > int DEFAULT_MAX_BYTES
      then Inl (TypeError ''URL fetch byte limit must be a positive integer no greater than 20 MiB'')
      else Inr (nat maxBytes))"

subsection \<open>Addresses\<close>

definition hostnameWithoutBrackets :: "string \<Rightarrow> string" where
  "hostnameWithoutBrackets hostname =
     (if hostname \<noteq> [] \<and> hd hostname = CHR ''['' \<and> last hostname = CHR '']''
      then butlast (tl hostname) else hostname)"

definition parseOctet :: "string \<Rightarrow> nat option" where
  "parseOctet part =
     (if part = ''0'' \<or> part \<noteq> [] \<and> isDigit (hd part) \<and> hd part \<noteq> CHR ''0'' \<and> length part \<le> 3 \<and> list_all isDigit (tl part)
      then (let octet = nat (digitsValue part) in if octet \<le> 255 then Some octet else None)
      else None)"

definition parseIpv4 :: "string \<Rightarrow> nat list option" where
  "parseIpv4 address =
     (let parts = splitOn (CHR ''.'') address in
      if length parts \<noteq> 4 then None
      else (let octets = map parseOctet parts in
            if list_all (\<lambda>p. p \<noteq> None) octets then Some (map the octets) else None))"

text \<open>\<open>split("::")\<close>.\<close>

fun splitDouble :: "string \<Rightarrow> string list" where
  "splitDouble [] = [[]]"
| "splitDouble [c] = [[c]]"
| "splitDouble (c # d # cs) =
     (if c = CHR '':'' \<and> d = CHR '':'' then [] # splitDouble cs
      else case splitDouble (d # cs) of [] \<Rightarrow> [[c]] | s # ss \<Rightarrow> (c # s) # ss)"

definition hexValue :: "char \<Rightarrow> nat option" where
  "hexValue c =
     (if isDigit c then Some (codeUnit c - 48)
      else if 97 \<le> codeUnit c \<and> codeUnit c \<le> 102 then Some (codeUnit c - 87) else None)"

definition parseHexWord :: "string \<Rightarrow> nat option" where
  "parseHexWord token =
     (if token \<noteq> [] \<and> length token \<le> 4 \<and> list_all (\<lambda>c. hexValue c \<noteq> None) token
      then Some (foldl (\<lambda>n c. 16 * n + the (hexValue c)) 0 token) else None)"

fun parseTokens :: "string list \<Rightarrow> nat list option" where
  "parseTokens [] = Some []"
| "parseTokens (token # tokens) =
     (case parseIpv4 token of
        Some octets \<Rightarrow>
          if tokens \<noteq> [] then None
          else Some [octets ! 0 * 256 + octets ! 1, octets ! 2 * 256 + octets ! 3]
      | None \<Rightarrow>
          (case parseHexWord token of
             None \<Rightarrow> None
           | Some n \<Rightarrow> map_option (Cons n) (parseTokens tokens)))"

definition parseHalf :: "string \<Rightarrow> nat list option" where
  "parseHalf half = (if half = [] then Some [] else parseTokens (splitOn (CHR '':'') half))"

definition parseIpv6 :: "string \<Rightarrow> nat list option" where
  "parseIpv6 address =
     (if List.member address (CHR ''%'') then None
      else
        let halves = splitDouble (map lowerCase address) in
        if length halves > 2 then None
        else
          case (parseHalf (halves ! 0), parseHalf (if length halves = 2 then halves ! 1 else [])) of
            (Some left, Some right) \<Rightarrow>
              if length halves = 1 then (if length left = 8 then Some left else None)
              else if 8 - int (length left) - int (length right) < 1 then None
              else Some (left @ replicate (8 - length left - length right) 0 @ right)
          | _ \<Rightarrow> None)"

fun reservedOctets :: "nat list \<Rightarrow> bool" where
  "reservedOctets (first # second # third # rest) \<longleftrightarrow>
     first = 0 \<or> first = 10 \<or> first = 127 \<or>
     first = 100 \<and> second \<ge> 64 \<and> second \<le> 127 \<or>
     first = 169 \<and> second = 254 \<or>
     first = 172 \<and> second \<ge> 16 \<and> second \<le> 31 \<or>
     first = 192 \<and> second = 0 \<and> third = 0 \<or>
     first = 192 \<and> second = 0 \<and> third = 2 \<or>
     first = 192 \<and> second = 88 \<and> third = 99 \<or>
     first = 192 \<and> second = 168 \<or>
     first = 198 \<and> (second = 18 \<or> second = 19) \<or>
     first = 198 \<and> second = 51 \<and> third = 100 \<or>
     first = 203 \<and> second = 0 \<and> third = 113 \<or>
     first \<ge> 224"
| "reservedOctets _ = True"

definition isGlobalIpv4 :: "string \<Rightarrow> bool" where
  "isGlobalIpv4 address =
     (case parseIpv4 address of None \<Rightarrow> False | Some octets \<Rightarrow> \<not> reservedOctets octets)"

text \<open>The numbers of \<open>parseIpv6\<close> are below \<open>2^16\<close>, so \<open>>>>\<close> and \<open>&\<close> act on them as on natural numbers.\<close>

definition dotted :: "nat \<Rightarrow> nat \<Rightarrow> string" where
  "dotted seventh eighth =
     natString (drop_bit 8 seventh) @ ''.'' @ natString (seventh AND 255) @ ''.'' @
     natString (drop_bit 8 eighth) @ ''.'' @ natString (eighth AND 255)"

fun globalWords :: "nat list \<Rightarrow> bool" where
  "globalWords [first, second, third, fourth, fifth, sixth, seventh, eighth] =
     (if first = 0 \<and> second = 0 \<and> third = 0 \<and> fourth = 0 \<and> fifth = 0 \<and> sixth = 0xFFFF
      then isGlobalIpv4 (dotted seventh eighth)
      else
        first AND 0xE000 = 0x2000 \<and>
        \<not> (first = 0x2001 \<and> second \<le> 0x01FF) \<and>
        \<not> (first = 0x2001 \<and> second = 0x0DB8) \<and>
        first \<noteq> 0x2002 \<and>
        \<not> (first = 0x3FFF \<and> second AND 0xF000 = 0))"
| "globalWords _ = False"

definition isGlobalIpv6 :: "string \<Rightarrow> bool" where
  "isGlobalIpv6 address = (case parseIpv6 address of None \<Rightarrow> False | Some words \<Rightarrow> globalWords words)"

definition isGlobalAddress :: "'w urlPorts \<Rightarrow> string \<Rightarrow> nat \<Rightarrow> bool" where
  "isGlobalAddress deps address family =
     (if urpIsIp deps address \<noteq> family then False
      else if family = 4 then isGlobalIpv4 address else isGlobalIpv6 address)"

subsection \<open>Parts of a response\<close>

definition headerEntry :: "transportResponse \<Rightarrow> string \<Rightarrow> headerValue option" where
  "headerEntry response name =
     map_option snd (findFirst (\<lambda>(n, _). map lowerCase n = name) (trsHeaders response))"

definition singleHeader :: "transportResponse \<Rightarrow> string \<Rightarrow> string option" where
  "singleHeader response name =
     (case headerEntry response name of Some (SingleValue v) \<Rightarrow> Some v | _ \<Rightarrow> None)"

definition validatedUrl :: "'w urlPorts \<Rightarrow> string \<Rightarrow> ('w, url) fetching" where
  "validatedUrl deps raw =
     bindF (foundF (urpParse deps raw) InvalidUrl) (\<lambda>u.
     bindF (checkF (urlProtocol u = ''http:'' \<or> urlProtocol u = ''https:'') UnsupportedScheme) (\<lambda>_.
     bindF (checkF (\<not> (length (urlUsername u) > 0 \<or> length (urlPassword u) > 0)) CredentialsNotAllowed) (\<lambda>_.
     bindF (checkF (\<not> length (urlPort u) > 0) PortNotAllowed) (\<lambda>_.
     yieldF u))))"

definition contentTypeFrom :: "transportResponse \<Rightarrow> string option" where
  "contentTypeFrom response =
     (case singleHeader response ''content-type'' of
        None \<Rightarrow> None
      | Some v \<Rightarrow>
          (let contentType = map lowerCase (trim (hd (splitOn (CHR '';'') v))) in
           if List.member SUPPORTED_CONTENT_TYPES contentType then Some contentType else None))"

definition afterLast :: "char \<Rightarrow> string \<Rightarrow> string" where
  "afterLast c s = rev (takeWhile (\<lambda>d. d \<noteq> c) (rev s))"

text \<open>\<open>candidate.slice(candidate.lastIndexOf("."))\<close>; without a dot that is the last character.\<close>

definition extensionOf :: "string \<Rightarrow> string" where
  "extensionOf candidate =
     (if List.member candidate (CHR ''.'') then CHR ''.'' # afterLast (CHR ''.'') candidate
      else drop (length candidate - 1) candidate)"

definition unsafeCharacter :: "char \<Rightarrow> bool" where
  "unsafeCharacter c \<longleftrightarrow> codeUnit c \<le> 31 \<or> codeUnit c = 127 \<or> c = CHR ''/'' \<or> c = CHR 0x5C"

definition safeFilename :: "'w urlPorts \<Rightarrow> url \<Rightarrow> string \<Rightarrow> ('w, string) fetching" where
  "safeFilename deps u contentType =
     bindF (foundF (filePolicy contentType) UnsupportedContentType) (\<lambda>(extensions, fallback).
     case urpDecode deps (afterLast (CHR ''/'') (urlPathname u)) of
       None \<Rightarrow> yieldF fallback
     | Some candidate \<Rightarrow>
         yieldF (if \<not> (length candidate = 0 \<or> length candidate > 255 \<or> candidate = ''.'' \<or> candidate = ''..'' \<or>
                        list_ex unsafeCharacter candidate) \<and>
                    List.member extensions (extensionOf candidate)
                 then candidate else fallback))"

definition validateContentEncoding :: "transportResponse \<Rightarrow> ('w, unit) fetching" where
  "validateContentEncoding response =
     checkF (case headerEntry response ''content-encoding'' of
               None \<Rightarrow> True
             | Some NoValue \<Rightarrow> True
             | Some (SeveralValues vs) \<Rightarrow> False
             | Some (SingleValue v) \<Rightarrow> map lowerCase (trim v) = ''identity'') UnsupportedContentEncoding"

definition validateContentLength :: "transportResponse \<Rightarrow> nat \<Rightarrow> ('w, unit) fetching" where
  "validateContentLength response maxBytes =
     (case singleHeader response ''content-length'' of
        None \<Rightarrow> yieldF ()
      | Some v \<Rightarrow>
          bindF (checkF (v = ''0'' \<or> v \<noteq> [] \<and> hd v \<noteq> CHR ''0'' \<and> list_all isDigit v) NetworkError) (\<lambda>_.
          let len = digitsValue v in
          bindF (checkF (isSafeInteger len) NetworkError) (\<lambda>_.
          checkF (\<not> len > int maxBytes) ResponseTooLarge)))"

fun collectParts :: "'w urlPorts \<Rightarrow> nat \<Rightarrow> nat \<Rightarrow> bodyPart list \<Rightarrow> ('w, bytes) fetching" where
  "collectParts deps maxBytes received [] = yieldF []"
| "collectParts deps maxBytes received (BodyBroken # parts) = (\<lambda>w. (Inl OtherFetchError, w))"
| "collectParts deps maxBytes received (BodyOther # parts) =
     bindF (readF (urpAborted deps)) (\<lambda>aborted. fail (if aborted then Timeout else NetworkError))"
| "collectParts deps maxBytes received (BodyBytes chunk # parts) =
     bindF (readF (urpAborted deps)) (\<lambda>aborted.
     bindF (checkF (\<not> aborted) Timeout) (\<lambda>_.
     let received' = received + length chunk in
     bindF (checkF (\<not> received' > maxBytes) ResponseTooLarge) (\<lambda>_.
     bindF (collectParts deps maxBytes received' parts) (\<lambda>rest.
     yieldF (chunk @ rest)))))"

definition collectBody :: "'w urlPorts \<Rightarrow> transportResponse \<Rightarrow> nat \<Rightarrow> ('w, bytes) fetching" where
  "collectBody deps response maxBytes = collectParts deps maxBytes 0 (trsBody response)"

subsection \<open>The loop\<close>

definition checkAborted :: "'w urlPorts \<Rightarrow> ('w, unit) fetching" where
  "checkAborted deps = bindF (readF (urpAborted deps)) (\<lambda>aborted. checkF (\<not> aborted) Timeout)"

definition addressesOf :: "'w urlPorts \<Rightarrow> string \<Rightarrow> ('w, resolvedAddress list) fetching" where
  "addressesOf deps hostname =
     (let literalFamily = urpIsIp deps hostname in
      if literalFamily = 4 \<or> literalFamily = 6
      then yieldF [\<lparr>rsaAddress = hostname, rsaFamily = literalFamily\<rparr>]
      else
        bindF (readF (urpLookup deps hostname)) (\<lambda>found.
        case found of
          Some addresses \<Rightarrow> yieldF addresses
        | None \<Rightarrow> bindF (readF (urpAborted deps)) (\<lambda>aborted.
                   fail (if aborted then Timeout else DnsResolutionFailed))))"

definition closing :: "'w urlPorts \<Rightarrow> transportResponse \<Rightarrow> ('w, unit) fetching" where
  "closing deps response w = (Inr (), urpClose deps response w)"

definition sendRequest :: "'w urlPorts \<Rightarrow> transportRequest \<Rightarrow> ('w, transportResponse) fetching" where
  "sendRequest deps request =
     bindF (readF (urpRequest deps request)) (\<lambda>answer.
     case answer of None \<Rightarrow> (\<lambda>w. (Inl OtherFetchError, w)) | Some response \<Rightarrow> yieldF response)"

text \<open>\<open>try { m } catch (error) { response.close(); throw error; }\<close>.\<close>

definition closeOnError :: "'w urlPorts \<Rightarrow> transportResponse \<Rightarrow> ('w, 'a) fetching \<Rightarrow> ('w, 'a) fetching" where
  "closeOnError deps response m w =
     (case m w of (Inl e, w') \<Rightarrow> (Inl e, urpClose deps response w') | r \<Rightarrow> r)"

definition followRedirect :: "'w urlPorts \<Rightarrow> nat \<Rightarrow> url \<Rightarrow> transportResponse \<Rightarrow> ('w, url) fetching" where
  "followRedirect deps redirectCount current response =
     bindF (closing deps response) (\<lambda>_.
     bindF (checkF (\<not> redirectCount \<ge> DEFAULT_MAX_REDIRECTS) TooManyRedirects) (\<lambda>_.
     bindF (foundF (singleHeader response ''location'') InvalidRedirect) (\<lambda>location.
     bindF (foundF (urpResolve deps location current) InvalidRedirect) (\<lambda>target.
     validatedUrl deps (urlHref target)))))"

definition readResponse :: "'w urlPorts \<Rightarrow> nat \<Rightarrow> url \<Rightarrow> transportResponse \<Rightarrow> ('w, fetchedUrl) fetching" where
  "readResponse deps maxBytes current response =
     closeOnError deps response (
       bindF (validateContentEncoding response) (\<lambda>_.
       bindF (validateContentLength response maxBytes) (\<lambda>_.
       bindF (foundF (contentTypeFrom response) UnsupportedContentType) (\<lambda>contentType.
       bindF (collectBody deps response maxBytes) (\<lambda>bs.
       bindF (safeFilename deps current contentType) (\<lambda>filename.
       yieldF \<lparr>fchBytes = bs, fchContentType = contentType, fchFilename = filename\<rparr>))))))"

datatype fetchStepResult = Finished fetchedUrl | Redirected url

definition checkedAddresses :: "'w urlPorts \<Rightarrow> url \<Rightarrow> ('w, resolvedAddress list) fetching" where
  "checkedAddresses deps current =
     bindF (checkAborted deps) (\<lambda>_.
     bindF (addressesOf deps (hostnameWithoutBrackets (urlHostname current))) (\<lambda>addresses.
     bindF (checkAborted deps) (\<lambda>_.
     bindF (checkF (length addresses \<noteq> 0) DnsResolutionFailed) (\<lambda>_.
     bindF (checkF (\<not> list_ex (\<lambda>a. \<not> isGlobalAddress deps (rsaAddress a) (rsaFamily a)) addresses)
       UnsafeDestination) (\<lambda>_.
     yieldF addresses)))))"

definition handleResponse ::
  "'w urlPorts \<Rightarrow> nat \<Rightarrow> nat \<Rightarrow> url \<Rightarrow> transportResponse \<Rightarrow> ('w, fetchStepResult) fetching" where
  "handleResponse deps maxBytes redirectCount current response =
     bindF (readF (urpAborted deps)) (\<lambda>aborted.
     if aborted then bindF (closing deps response) (\<lambda>_. fail Timeout)
     else if List.member REDIRECT_STATUS_CODES (trsStatusCode response)
     then bindF (followRedirect deps redirectCount current response) (\<lambda>next. yieldF (Redirected next))
     else if trsStatusCode response < 200 \<or> trsStatusCode response \<ge> 300
     then bindF (closing deps response) (\<lambda>_. fail HttpError)
     else bindF (readResponse deps maxBytes current response) (\<lambda>f. yieldF (Finished f)))"

definition fetchStep :: "'w urlPorts \<Rightarrow> nat \<Rightarrow> nat \<Rightarrow> url \<Rightarrow> ('w, fetchStepResult) fetching" where
  "fetchStep deps maxBytes redirectCount current =
     bindF (checkedAddresses deps current) (\<lambda>addresses.
     bindF (sendRequest deps \<lparr>trqFamily = rsaFamily (hd addresses), trqPinnedAddress = rsaAddress (hd addresses),
       trqUrl = current\<rparr>) (\<lambda>response.
     handleResponse deps maxBytes redirectCount current response))"

text \<open>\<open>for (;;)\<close>: nothing in the loop itself says that it ends.\<close>

partial_function (option) fetchLoop ::
  "'w urlPorts \<Rightarrow> nat \<Rightarrow> nat \<Rightarrow> url \<Rightarrow> 'w \<Rightarrow> ((fetchError + fetchedUrl) \<times> 'w) option" where
  "fetchLoop deps maxBytes redirectCount current w =
     (case fetchStep deps maxBytes redirectCount current w of
        (Inl e, w') \<Rightarrow> Some (Inl e, w')
      | (Inr (Finished f), w') \<Rightarrow> Some (Inr f, w')
      | (Inr (Redirected next), w') \<Rightarrow> fetchLoop deps maxBytes (redirectCount + 1) next w')"

declare fetchLoop.simps [code]

definition fetchWithinDeadline ::
  "'w urlPorts \<Rightarrow> nat \<Rightarrow> string \<Rightarrow> 'w \<Rightarrow> ((fetchError + fetchedUrl) \<times> 'w) option" where
  "fetchWithinDeadline deps maxBytes raw w =
     (case validatedUrl deps raw w of
        (Inl e, w') \<Rightarrow> Some (Inl e, w')
      | (Inr u, w') \<Rightarrow> fetchLoop deps maxBytes 0 u w')"

text \<open>
  The race with the deadline: when it passed before the fetch settled, its rejection is what the
  caller gets; otherwise an exception that is no failure of the fetcher is a timeout if the signal is
  set, and a network error if not.
\<close>

definition fetch :: "'w urlPorts \<Rightarrow> ('w \<Rightarrow> bool \<times> 'w) \<Rightarrow> nat \<Rightarrow> string \<Rightarrow> 'w \<Rightarrow> (urlFetchResult \<times> 'w) option" where
  "fetch deps deadlineFirst maxBytes raw w =
     Option.bind (fetchWithinDeadline deps maxBytes raw w) (\<lambda>(outcome, w1).
     case deadlineFirst w1 of (late, w2) \<Rightarrow>
       if late then Some (UrlFailed Timeout, w2)
       else
         (case outcome of
            Inr f \<Rightarrow> Some (UrlFetched f, w2)
          | Inl (FetchFailed reason) \<Rightarrow> Some (UrlFailed reason, w2)
          | Inl OtherFetchError \<Rightarrow>
              (case urpAborted deps w2 of (aborted, w3) \<Rightarrow>
                 Some (UrlFailed (if aborted then Timeout else NetworkError), w3))))"

end
