(* ===== verification/UrlSafety.thy ===== *)
theory UrlSafety
  imports UrlFetcher
begin

section \<open>What the URL fetcher guarantees\<close>

text \<open>
  The classification of addresses is membership in a table of address blocks; the redirect loop ends;
  every request goes to a checked address; and what is returned keeps the limits. The ports stay
  arbitrary: nothing is assumed of name service, transport or clock.
\<close>

subsection \<open>Address blocks\<close>

definition ipv4Number :: "nat list \<Rightarrow> nat" where
  "ipv4Number octets = foldl (\<lambda>n part. n * 256 + part) 0 octets"

definition ipv6Number :: "nat list \<Rightarrow> nat" where
  "ipv6Number words = foldl (\<lambda>n part. n * 65536 + part) 0 words"

text \<open>A block \<open>base/len\<close> of addresses of a number of bits: those that share the leading bits of the base.\<close>

definition inBlock :: "nat \<Rightarrow> nat \<times> nat \<Rightarrow> nat \<Rightarrow> bool" where
  "inBlock bits block n \<longleftrightarrow> n div 2 ^ (bits - snd block) = fst block div 2 ^ (bits - snd block)"

definition reservedIpv4Blocks :: "(nat \<times> nat) list" where
  "reservedIpv4Blocks =
     [(ipv4Number [0, 0, 0, 0], 8), (ipv4Number [10, 0, 0, 0], 8), (ipv4Number [127, 0, 0, 0], 8),
      (ipv4Number [100, 64, 0, 0], 10), (ipv4Number [169, 254, 0, 0], 16), (ipv4Number [172, 16, 0, 0], 12),
      (ipv4Number [192, 0, 0, 0], 24), (ipv4Number [192, 0, 2, 0], 24), (ipv4Number [192, 88, 99, 0], 24),
      (ipv4Number [192, 168, 0, 0], 16), (ipv4Number [198, 18, 0, 0], 15), (ipv4Number [198, 51, 100, 0], 24),
      (ipv4Number [203, 0, 113, 0], 24), (ipv4Number [224, 0, 0, 0], 3)]"

definition globalUnicast :: "nat \<times> nat" where
  "globalUnicast = (ipv6Number [0x2000, 0, 0, 0, 0, 0, 0, 0], 3)"

definition ipv4Mapped :: "nat \<times> nat" where
  "ipv4Mapped = (ipv6Number [0, 0, 0, 0, 0, 0xFFFF, 0, 0], 96)"

definition reservedIpv6Blocks :: "(nat \<times> nat) list" where
  "reservedIpv6Blocks =
     [(ipv6Number [0x2001, 0, 0, 0, 0, 0, 0, 0], 23), (ipv6Number [0x2001, 0x0DB8, 0, 0, 0, 0, 0, 0], 32),
      (ipv6Number [0x2002, 0, 0, 0, 0, 0, 0, 0], 16), (ipv6Number [0x3FFF, 0, 0, 0, 0, 0, 0, 0], 20)]"

definition publicIpv4 :: "nat \<Rightarrow> bool" where
  "publicIpv4 n \<longleftrightarrow> (\<forall>b \<in> set reservedIpv4Blocks. \<not> inBlock 32 b n)"

definition publicIpv6 :: "nat \<Rightarrow> bool" where
  "publicIpv6 n \<longleftrightarrow>
     (if inBlock 128 ipv4Mapped n then publicIpv4 (n mod 2 ^ 32)
      else inBlock 128 globalUnicast n \<and> (\<forall>b \<in> set reservedIpv6Blocks. \<not> inBlock 128 b n))"

lemma leading_part: "r < k \<Longrightarrow> (q * k + r) div k = (q :: nat)"
  by simp

lemma digits_eq:
  assumes "r < k" "s < k"
  shows "q * k + r = p * k + s \<longleftrightarrow> q = p \<and> r = (s :: nat)"
proof
  assume "q * k + r = p * k + s"
  then show "q = p \<and> r = s" using leading_part[OF assms(1), of q] leading_part[OF assms(2), of p] by simp
qed simp

lemma three_digits:
  assumes "b < 256" "c < 256" "y < 256" "z < 256" "n = (x * 256 + y) * 256 + z"
  shows "(a * 256 + b) * 256 + c = n \<longleftrightarrow> a = x \<and> b = y \<and> c = (z :: nat)"
  unfolding assms(5) using assms(1-4) by (simp only: digits_eq) blast

lemma parseOctet_bound: "parseOctet part = Some n \<Longrightarrow> n \<le> 255"
  by (auto simp: parseOctet_def Let_def split: if_splits)

lemma parseIpv4_octets:
  assumes "parseIpv4 s = Some octets"
  obtains a b c d where "octets = [a, b, c, d]" "a \<le> 255" "b \<le> 255" "c \<le> 255" "d \<le> 255"
proof -
  let ?parts = "splitOn (CHR ''.'') s"
  have len: "length ?parts = 4" and all: "list_all (\<lambda>p. p \<noteq> None) (map parseOctet ?parts)"
    and octets: "octets = map the (map parseOctet ?parts)"
    using assms by (auto simp: parseIpv4_def Let_def split: if_splits)
  then have bound: "\<forall>n \<in> set octets. n \<le> 255"
    using parseOctet_bound by (fastforce simp: list_all_iff)
  have "length octets = 4" using octets len by simp
  then obtain a b c d where "octets = [a, b, c, d]"
    by (auto simp: numeral_eq_Suc length_Suc_conv)
  with bound that show thesis by simp
qed

lemma block_numbers:
  "ipv4Number [0, 0, 0, 0] = 0" "ipv4Number [10, 0, 0, 0] = 167772160" "ipv4Number [127, 0, 0, 0] = 2130706432"
  "ipv4Number [100, 64, 0, 0] = 1681915904" "ipv4Number [169, 254, 0, 0] = 2851995648"
  "ipv4Number [172, 16, 0, 0] = 2886729728" "ipv4Number [192, 0, 0, 0] = 3221225472"
  "ipv4Number [192, 0, 2, 0] = 3221225984" "ipv4Number [192, 88, 99, 0] = 3227017984"
  "ipv4Number [192, 168, 0, 0] = 3232235520" "ipv4Number [198, 18, 0, 0] = 3323068416"
  "ipv4Number [198, 51, 100, 0] = 3325256704" "ipv4Number [203, 0, 113, 0] = 3405803776"
  "ipv4Number [224, 0, 0, 0] = 3758096384"
  by (simp_all add: ipv4Number_def)

lemma publicIpv4_parts:
  "publicIpv4 n \<longleftrightarrow>
     n div 16777216 \<noteq> 0 \<and> n div 16777216 \<noteq> 10 \<and> n div 16777216 \<noteq> 127 \<and> n div 4194304 \<noteq> 401 \<and>
     n div 65536 \<noteq> 43518 \<and> n div 1048576 \<noteq> 2753 \<and> n div 256 \<noteq> 12582912 \<and> n div 256 \<noteq> 12582914 \<and>
     n div 256 \<noteq> 12605539 \<and> n div 65536 \<noteq> 49320 \<and> n div 131072 \<noteq> 25353 \<and> n div 256 \<noteq> 12989284 \<and>
     n div 256 \<noteq> 13303921 \<and> n div 536870912 \<noteq> 7"
  by (simp add: publicIpv4_def reservedIpv4Blocks_def inBlock_def block_numbers del: div_eq_0_iff)

lemma reserved_blocks:
  assumes "a \<le> 255" "b \<le> 255" "c \<le> 255" "d \<le> (255 :: nat)"
  shows "reservedOctets [a, b, c, d] \<longleftrightarrow> \<not> publicIpv4 (ipv4Number [a, b, c, d])"
proof -
  let ?n = "ipv4Number [a, b, c, d]"
  have n: "?n = ((a * 256 + b) * 256 + c) * 256 + d" by (simp add: ipv4Number_def)
  have d24: "?n div 256 = (a * 256 + b) * 256 + c"
    unfolding n by (rule leading_part) (use assms in simp)
  have d16: "?n div 65536 = a * 256 + b"
  proof -
    have "?n div 65536 = (?n div 256) div 256" by (simp flip: div_mult2_eq)
    also have "\<dots> = a * 256 + b" unfolding d24 by (rule leading_part) (use assms in simp)
    finally show ?thesis .
  qed
  have d8: "?n div 16777216 = a"
  proof -
    have "?n div 16777216 = (?n div 65536) div 256" by (simp flip: div_mult2_eq)
    also have "\<dots> = a" unfolding d16 by (rule leading_part) (use assms in simp)
    finally show ?thesis .
  qed
  have d10: "?n div 4194304 = a * 4 + b div 64"
  proof -
    have "?n div 4194304 = (?n div 65536) div 64" by (simp flip: div_mult2_eq)
    also have "\<dots> = a * 4 + b div 64" unfolding d16 using leading_part[of "b mod 64" 64 "a * 4 + b div 64"] by simp
    finally show ?thesis .
  qed
  have d12: "?n div 1048576 = a * 16 + b div 16"
  proof -
    have "?n div 1048576 = (?n div 65536) div 16" by (simp flip: div_mult2_eq)
    also have "\<dots> = a * 16 + b div 16" unfolding d16 using leading_part[of "b mod 16" 16 "a * 16 + b div 16"] by simp
    finally show ?thesis .
  qed
  have d15: "?n div 131072 = a * 128 + b div 2"
  proof -
    have "?n div 131072 = (?n div 65536) div 2" by (simp flip: div_mult2_eq)
    also have "\<dots> = a * 128 + b div 2" unfolding d16 using leading_part[of "b mod 2" 2 "a * 128 + b div 2"] by simp
    finally show ?thesis .
  qed
  have d3: "?n div 536870912 = a div 32"
    using d8 by (simp flip: div_mult2_eq[of _ 16777216 32])
  have "publicIpv4 ?n \<longleftrightarrow>
      a \<noteq> 0 \<and> a \<noteq> 10 \<and> a \<noteq> 127 \<and> a * 4 + b div 64 \<noteq> 401 \<and> a * 256 + b \<noteq> 43518 \<and> a * 16 + b div 16 \<noteq> 2753 \<and>
      (a * 256 + b) * 256 + c \<noteq> 12582912 \<and> (a * 256 + b) * 256 + c \<noteq> 12582914 \<and>
      (a * 256 + b) * 256 + c \<noteq> 12605539 \<and> a * 256 + b \<noteq> 49320 \<and> a * 128 + b div 2 \<noteq> 25353 \<and>
      (a * 256 + b) * 256 + c \<noteq> 12989284 \<and> (a * 256 + b) * 256 + c \<noteq> 13303921 \<and> a div 32 \<noteq> 7"
    unfolding publicIpv4_parts d3 d8 d10 d12 d15 d16 d24 ..
  moreover have "a * 4 + b div 64 = 401 \<longleftrightarrow> a = 100 \<and> b \<ge> 64 \<and> b \<le> 127"
  proof -
    have "b div 64 = 1 \<longleftrightarrow> b \<ge> 64 \<and> b \<le> 127" by linarith
    then show ?thesis using digits_eq[of "b div 64" 4 1 a 100] assms(2) by simp
  qed
  moreover have "a * 16 + b div 16 = 2753 \<longleftrightarrow> a = 172 \<and> b \<ge> 16 \<and> b \<le> 31"
  proof -
    have "b div 16 = 1 \<longleftrightarrow> b \<ge> 16 \<and> b \<le> 31" by linarith
    then show ?thesis using digits_eq[of "b div 16" 16 1 a 172] assms(2) by simp
  qed
  moreover have "a * 128 + b div 2 = 25353 \<longleftrightarrow> a = 198 \<and> (b = 18 \<or> b = 19)"
  proof -
    have "b div 2 = 9 \<longleftrightarrow> b = 18 \<or> b = 19" by linarith
    then show ?thesis using digits_eq[of "b div 2" 128 9 a 198] assms(2) by simp
  qed
  moreover have "a div 32 = 7 \<longleftrightarrow> a \<ge> 224"
    using assms(1) by linarith
  moreover have "a * 256 + b = 43518 \<longleftrightarrow> a = 169 \<and> b = 254" "a * 256 + b = 49320 \<longleftrightarrow> a = 192 \<and> b = 168"
    using digits_eq[of b 256 254 a 169] digits_eq[of b 256 168 a 192] assms(2) by simp_all
  moreover have "(a * 256 + b) * 256 + c = 12582912 \<longleftrightarrow> a = 192 \<and> b = 0 \<and> c = 0"
    "(a * 256 + b) * 256 + c = 12582914 \<longleftrightarrow> a = 192 \<and> b = 0 \<and> c = 2"
    "(a * 256 + b) * 256 + c = 12605539 \<longleftrightarrow> a = 192 \<and> b = 88 \<and> c = 99"
    "(a * 256 + b) * 256 + c = 12989284 \<longleftrightarrow> a = 198 \<and> b = 51 \<and> c = 100"
    "(a * 256 + b) * 256 + c = 13303921 \<longleftrightarrow> a = 203 \<and> b = 0 \<and> c = 113"
    by (rule three_digits; use assms in simp)+
  ultimately show ?thesis by (simp only: reservedOctets.simps de_Morgan_conj de_Morgan_disj not_not)
qed

subsection \<open>IPv6 words\<close>

lemma hexValue_bound: "hexValue c = Some n \<Longrightarrow> n < 16"
  by (auto simp: hexValue_def isDigit_def split: if_splits)

lemma hex_fold_bound:
  "list_all (\<lambda>c. hexValue c \<noteq> None) token \<Longrightarrow> n < 16 ^ k \<Longrightarrow>
     foldl (\<lambda>n c. 16 * n + the (hexValue c)) n token < 16 ^ (k + length token)"
proof (induction token arbitrary: n k)
  case (Cons c token)
  from Cons.prems obtain v where v: "hexValue c = Some v" by auto
  with Cons.prems hexValue_bound[OF v] have "16 * n + v < 16 ^ (Suc k)" by simp
  with Cons.IH[of "16 * n + v" "Suc k"] Cons.prems v show ?case by simp
qed simp

lemma parseHexWord_bound: "parseHexWord token = Some n \<Longrightarrow> n < 65536"
proof -
  assume h: "parseHexWord token = Some n"
  then have "n < 16 ^ length token" "length token \<le> 4"
    using hex_fold_bound[of token 0 0] by (auto simp: parseHexWord_def split: if_splits)
  moreover have "(16 :: nat) ^ length token \<le> 16 ^ 4" using calculation(2) by (rule power_increasing) simp
  ultimately show ?thesis by simp
qed

lemma parseTokens_bound: "parseTokens tokens = Some words \<Longrightarrow> \<forall>n \<in> set words. n < 65536"
proof (induction tokens arbitrary: words rule: parseTokens.induct)
  case (2 token tokens)
  show ?case
  proof (cases "parseIpv4 token")
    case (Some octets)
    then obtain a b c d where o: "octets = [a, b, c, d]" "a \<le> 255" "b \<le> 255" "c \<le> 255" "d \<le> 255"
      by (rule parseIpv4_octets)
    with 2(2) Some show ?thesis by (auto split: if_splits)
  next
    case None
    with 2 show ?thesis by (auto dest: parseHexWord_bound split: option.splits)
  qed
qed simp

lemma parseIpv6_words:
  assumes "parseIpv6 s = Some words"
  shows "length words = 8" "\<forall>n \<in> set words. n < 65536"
proof -
  define halves where "halves = splitDouble (map lowerCase s)"
  obtain left right where h: "parseHalf (halves ! 0) = Some left"
    "parseHalf (if length halves = 2 then halves ! 1 else []) = Some right"
    and words: "if length halves = 1 then length left = 8 \<and> words = left
      else length left + length right \<le> 7 \<and> words = left @ replicate (8 - length left - length right) 0 @ right"
    using assms unfolding parseIpv6_def halves_def[symmetric] Let_def
    by (auto split: if_splits option.splits)
  have "\<forall>n \<in> set ws. n < 65536" if "parseHalf half = Some ws" for half ws
    using that parseTokens_bound by (auto simp: parseHalf_def split: if_splits)
  with h have "\<forall>n \<in> set left. n < 65536" "\<forall>n \<in> set right. n < 65536" by blast+
  with words show "length words = 8" "\<forall>n \<in> set words. n < 65536" by (auto split: if_splits)
qed

subsection \<open>Printing octets\<close>

lemma digitsValue_snoc: "digitsValue (s @ [c]) = 10 * digitsValue s + (int (codeUnit c) - 48)"
  by (simp add: digitsValue_def)

lemma digitChar_props:
  assumes "d < 10"
  shows "codeUnit (digitChar d) = 48 + d" "isDigit (digitChar d)" "digitChar d = CHR ''0'' \<longleftrightarrow> d = 0"
proof -
  show "codeUnit (digitChar d) = 48 + d" using assms by (rule codeUnit_digitChar)
  then show "isDigit (digitChar d)" using assms by (simp add: isDigit_def)
  have "digitChar d = CHR ''0'' \<longleftrightarrow> codeUnit (digitChar d) = codeUnit (CHR ''0'')" by simp
  also have "\<dots> \<longleftrightarrow> d = 0" using \<open>codeUnit (digitChar d) = 48 + d\<close> by (simp add: codeUnit_def)
  finally show "digitChar d = CHR ''0'' \<longleftrightarrow> d = 0" .
qed

lemma natString_digits:
  "list_all isDigit (natString n) \<and> natString n \<noteq> [] \<and> digitsValue (natString n) = int n \<and>
     (n \<noteq> 0 \<longrightarrow> hd (natString n) \<noteq> CHR ''0'')"
proof (induction n rule: natString.induct)
  case (1 n)
  show ?case
  proof (cases "n < 10")
    case True
    then show ?thesis
      using digitChar_props[of n] by (simp add: natString.simps[of n] digitsValue_def)
  next
    case False
    with "1.IH" have ih: "list_all isDigit (natString (n div 10))" "natString (n div 10) \<noteq> []"
      "digitsValue (natString (n div 10)) = int (n div 10)" "hd (natString (n div 10)) \<noteq> CHR ''0''" by auto
    have "n = 10 * (n div 10) + n mod 10" by simp
    then have "int n = 10 * int (n div 10) + int (n mod 10)" by (metis of_nat_add of_nat_mult of_nat_numeral)
    with False ih digitChar_props[of "n mod 10"] show ?thesis
      by (simp add: natString.simps[of n] digitsValue_snoc)
  qed
qed

lemma natString_length: "n < 10 ^ Suc k \<Longrightarrow> length (natString n) \<le> Suc k"
proof (induction k arbitrary: n)
  case 0
  then show ?case by (simp add: natString.simps[of n])
next
  case (Suc k)
  show ?case
  proof (cases "n < 10")
    case False
    have "n div 10 < 10 ^ Suc k" using Suc.prems by (simp add: less_mult_imp_div_less mult.commute)
    from Suc.IH[OF this] False show ?thesis by (simp add: natString.simps[of n])
  qed (simp add: natString.simps[of n])
qed

lemma parseOctet_natString:
  assumes "n \<le> 255"
  shows "parseOctet (natString n) = Some n" "CHR ''.'' \<notin> set (natString n)"
proof -
  have len: "length (natString n) \<le> 3" using natString_length[of n 2] assms by simp
  have digits: "list_all isDigit (natString n)" "natString n \<noteq> []" "digitsValue (natString n) = int n"
    "n \<noteq> 0 \<Longrightarrow> hd (natString n) \<noteq> CHR ''0''" using natString_digits[of n] by auto
  then have "isDigit (hd (natString n))" "list_all isDigit (tl (natString n))"
    by (auto simp: list_all_iff dest: list.set_sel)
  moreover have "n = 0 \<Longrightarrow> natString n = ''0''" by (simp add: natString.simps digitChar_0)
  ultimately show "parseOctet (natString n) = Some n"
    using len digits assms by (cases "n = 0") (simp_all add: parseOctet_def Let_def)
  show "CHR ''.'' \<notin> set (natString n)"
    using digits(1) by (auto simp: list_all_iff isDigit_def codeUnit_def)
qed

lemma octet_parts:
  assumes "n < 65536"
  shows "drop_bit 8 n = n div 256" "n AND 255 = n mod (256 :: nat)" "n div 256 \<le> 255"
proof -
  have "mask 8 = (255 :: nat)" by (simp add: mask_eq_exp_minus_1)
  then show "n AND 255 = n mod 256" using take_bit_eq_mask[of 8 n] by (simp add: take_bit_eq_mod)
  show "n div 256 \<le> 255" using assms by linarith
qed (simp add: drop_bit_eq_div)

lemma parse_dotted:
  assumes "seventh < 65536" "eighth < 65536"
  shows "parseIpv4 (dotted seventh eighth) =
    Some [seventh div 256, seventh mod 256, eighth div 256, eighth mod 256]"
proof -
  have le: "seventh div 256 \<le> 255" "seventh mod 256 \<le> 255" "eighth div 256 \<le> 255" "eighth mod 256 \<le> 255"
    using assms octet_parts(3) by simp_all
  have "splitOn (CHR ''.'') (dotted seventh eighth) =
      [natString (seventh div 256), natString (seventh mod 256), natString (eighth div 256), natString (eighth mod 256)]"
    using le assms by (simp add: dotted_def octet_parts splitOn_field splitOn_last parseOctet_natString(2))
  then show ?thesis using le by (simp add: parseIpv4_def Let_def parseOctet_natString(1))
qed

subsection \<open>IPv6 blocks\<close>

lemma leading_bits:
  assumes "n < (65536 :: nat)"
  shows "n AND 0xE000 = 0x2000 \<longleftrightarrow> n div 8192 = 1" "n AND 0xF000 = 0 \<longleftrightarrow> n div 4096 = 0"
proof -
  have part: "n AND push_bit k (mask j) = push_bit k (drop_bit k n AND mask j)" for k j
    by (rule bit_eqI) (auto simp: bit_simps)
  have masks: "push_bit 13 (mask 3) = (0xE000 :: nat)" "push_bit 12 (mask 4) = (0xF000 :: nat)"
    by (simp_all add: mask_eq_exp_minus_1 push_bit_eq_mult)
  have "n AND 0xE000 = n div 8192 * 8192"
    using part[of 13 3] assms unfolding masks
    by (simp add: push_bit_eq_mult drop_bit_eq_div take_bit_eq_mask[symmetric] take_bit_eq_mod)
  then show "n AND 0xE000 = 0x2000 \<longleftrightarrow> n div 8192 = 1" by simp
  have "n AND 0xF000 = n div 4096 * 4096"
    using part[of 12 4] assms unfolding masks
    by (simp add: push_bit_eq_mult drop_bit_eq_div take_bit_eq_mask[symmetric] take_bit_eq_mod)
  then show "n AND 0xF000 = 0 \<longleftrightarrow> n div 4096 = 0" by simp
qed

lemma ipv6Number_append: "ipv6Number (ws @ vs) = ipv6Number ws * 65536 ^ length vs + ipv6Number vs"
proof (induction vs rule: rev_induct)
  case (snoc v vs)
  have step: "ipv6Number (xs @ [v]) = ipv6Number xs * 65536 + v" for xs by (simp add: ipv6Number_def)
  have "ipv6Number (ws @ vs @ [v]) = ipv6Number (ws @ vs) * 65536 + v" using step[of "ws @ vs"] by simp
  then show ?case unfolding snoc step[of vs] by (simp add: algebra_simps)
qed (simp add: ipv6Number_def)

lemma ipv6Number_bound: "\<forall>n \<in> set ws. n < 65536 \<Longrightarrow> ipv6Number ws < 65536 ^ length ws"
proof (induction ws rule: rev_induct)
  case (snoc v vs)
  then have "ipv6Number vs + 1 \<le> 65536 ^ length vs" "v < 65536" by auto
  then have "(ipv6Number vs + 1) * 65536 \<le> 65536 ^ length vs * 65536" by (intro mult_le_mono1)
  then show ?case using \<open>v < 65536\<close> ipv6Number_append[of vs "[v]"] by (simp add: ipv6Number_def)
qed (simp add: ipv6Number_def)

lemma ipv6Number_leading:
  assumes "\<forall>n \<in> set vs. n < 65536"
  shows "ipv6Number (ws @ vs) div 65536 ^ length vs = ipv6Number ws"
    "ipv6Number (ws @ vs) mod 65536 ^ length vs = ipv6Number vs"
  using ipv6Number_bound[OF assms] by (simp_all add: ipv6Number_append)

lemma ipv6Number_eq:
  assumes "length ws = length vs" "\<forall>n \<in> set ws. n < 65536" "\<forall>n \<in> set vs. n < 65536"
  shows "ipv6Number ws = ipv6Number vs \<longleftrightarrow> ws = vs"
  using assms
proof (induction ws vs rule: rev_induct2)
  case (4 x xs y ys)
  have "ipv6Number (xs @ [x]) = ipv6Number (ys @ [y]) \<longleftrightarrow> ipv6Number xs = ipv6Number ys \<and> x = y"
    unfolding ipv6Number_append using 4 by (simp add: ipv6Number_def digits_eq)
  with 4 show ?case by simp
qed simp_all

text \<open>What sharing the leading bits says of the leading words.\<close>

lemma ipv6_blocks:
  assumes "\<forall>n \<in> set [first, second, c, d, e, f, g, h]. n < 65536" "x < 65536" "y < 65536"
  defines "n \<equiv> ipv6Number [first, second, c, d, e, f, g, h]"
    and "base \<equiv> ipv6Number [x, y, 0, 0, 0, 0, 0, 0]"
  shows "inBlock 128 (base, 16) n \<longleftrightarrow> first = x"
    "inBlock 128 (base, 32) n \<longleftrightarrow> first = x \<and> second = y"
    "inBlock 128 (base, 3) n \<longleftrightarrow> first div 8192 = x div 8192"
    "inBlock 128 (base, 20) n \<longleftrightarrow> first = x \<and> second div 4096 = y div 4096"
    "inBlock 128 (base, 23) n \<longleftrightarrow> first = x \<and> second div 512 = y div 512"
proof -
  have two: "ipv6Number [u, v] = u * 65536 + v" and one: "ipv6Number [u] = u" for u v
    by (simp_all add: ipv6Number_def)
  have lead: "ipv6Number [u, v, c', d', e', f', g', h'] div 2 ^ 96 = u * 65536 + v"
    "ipv6Number [u, v, c', d', e', f', g', h'] div 2 ^ 112 = u"
    if "v < 65536" "\<forall>n \<in> set [c', d', e', f', g', h']. n < 65536" for u v c' d' e' f' g' h'
    using ipv6Number_leading(1)[of "[c', d', e', f', g', h']" "[u, v]"]
      ipv6Number_leading(1)[of "[v, c', d', e', f', g', h']" "[u]"] that
    by (simp_all add: one two)
  have n: "n div 2 ^ 96 = first * 65536 + second" "n div 2 ^ 112 = first"
    and base: "base div 2 ^ 96 = x * 65536 + y" "base div 2 ^ 112 = x"
    unfolding n_def base_def using lead assms(1-3) by simp_all
  show "inBlock 128 (base, 16) n \<longleftrightarrow> first = x"
    unfolding inBlock_def using n(2) base(2) by simp
  show "inBlock 128 (base, 32) n \<longleftrightarrow> first = x \<and> second = y"
    unfolding inBlock_def using n(1) base(1) digits_eq[of second 65536 y first x] assms(1-3) by simp
  have split: "m div 2 ^ 125 = m div 2 ^ 112 div 8192" "m div 2 ^ 108 = m div 2 ^ 96 div 4096"
    "m div 2 ^ 105 = m div 2 ^ 96 div 512" for m :: nat
    by (simp_all flip: div_mult2_eq)
  show "inBlock 128 (base, 3) n \<longleftrightarrow> first div 8192 = x div 8192"
    unfolding inBlock_def using split(1)[of n] split(1)[of base] n(2) base(2) by simp
  have cut: "(u * 65536 + v) div 4096 = u * 16 + v div 4096" "(u * 65536 + v) div 512 = u * 128 + v div 512" for u v :: nat
    using div_mult_self1[of 4096 v "u * 16"] div_mult_self1[of 512 v "u * 128"] by simp_all
  have small: "v div 4096 < 16" "v div 512 < 128" if "v < 65536" for v :: nat using that by simp_all
  show "inBlock 128 (base, 20) n \<longleftrightarrow> first = x \<and> second div 4096 = y div 4096"
    unfolding inBlock_def using split(2)[of n] split(2)[of base] n(1) base(1) cut(1) small(1)
      digits_eq[of "second div 4096" 16 "y div 4096" first x] assms(1-3) by simp
  show "inBlock 128 (base, 23) n \<longleftrightarrow> first = x \<and> second div 512 = y div 512"
    unfolding inBlock_def using split(3)[of n] split(3)[of base] n(1) base(1) cut(2) small(2)
      digits_eq[of "second div 512" 128 "y div 512" first x] assms(1-3) by simp
qed

lemma ipv4_mapped:
  assumes "\<forall>n \<in> set [a, b, c, d, e, f, g, h]. n < 65536"
  shows "inBlock 128 ipv4Mapped (ipv6Number [a, b, c, d, e, f, g, h]) \<longleftrightarrow>
      a = 0 \<and> b = 0 \<and> c = 0 \<and> d = 0 \<and> e = 0 \<and> f = 0xFFFF"
    "ipv6Number [a, b, c, d, e, f, g, h] mod 2 ^ 32 =
       ipv4Number [g div 256, g mod 256, h div 256, h mod 256]"
proof -
  have lead: "ipv6Number [a, b, c, d, e, f, g, h] div 2 ^ 32 = ipv6Number [a, b, c, d, e, f]"
    "ipv6Number [0, 0, 0, 0, 0, 0xFFFF, 0, 0] div 2 ^ 32 = ipv6Number [0, 0, 0, 0, 0, 0xFFFF]"
    using ipv6Number_leading(1)[of "[g, h]" "[a, b, c, d, e, f]"]
      ipv6Number_leading(1)[of "[0, 0]" "[0, 0, 0, 0, 0, 0xFFFF]"] assms by simp_all
  show "inBlock 128 ipv4Mapped (ipv6Number [a, b, c, d, e, f, g, h]) \<longleftrightarrow>
      a = 0 \<and> b = 0 \<and> c = 0 \<and> d = 0 \<and> e = 0 \<and> f = 0xFFFF"
    unfolding inBlock_def ipv4Mapped_def using lead assms
      ipv6Number_eq[of "[a, b, c, d, e, f]" "[0, 0, 0, 0, 0, 0xFFFF]"] by simp
  have "ipv6Number [a, b, c, d, e, f, g, h] mod 2 ^ 32 = g * 65536 + h"
    using ipv6Number_leading(2)[of "[g, h]" "[a, b, c, d, e, f]"] assms by (simp add: ipv6Number_def)
  moreover have "g * 65536 + h = ((g div 256 * 256 + g mod 256) * 256 + h div 256) * 256 + h mod 256" by simp
  ultimately show "ipv6Number [a, b, c, d, e, f, g, h] mod 2 ^ 32 =
       ipv4Number [g div 256, g mod 256, h div 256, h mod 256]"
    by (simp add: ipv4Number_def)
qed

lemma isGlobalIpv4_blocks:
  "isGlobalIpv4 address \<longleftrightarrow> (\<exists>octets. parseIpv4 address = Some octets \<and> publicIpv4 (ipv4Number octets))"
proof (cases "parseIpv4 address")
  case (Some octets)
  then obtain a b c d where "octets = [a, b, c, d]" "a \<le> 255" "b \<le> 255" "c \<le> 255" "d \<le> 255"
    by (rule parseIpv4_octets)
  with Some show ?thesis by (simp add: isGlobalIpv4_def reserved_blocks del: reservedOctets.simps)
qed (simp add: isGlobalIpv4_def)

lemma globalWords_blocks:
  assumes "length ws = 8" "\<forall>n \<in> set ws. n < 65536"
  shows "globalWords ws \<longleftrightarrow> publicIpv6 (ipv6Number ws)"
proof -
  obtain a b c d e f g h where ws: "ws = [a, b, c, d, e, f, g, h]"
    using assms(1) by (auto simp: numeral_eq_Suc length_Suc_conv)
  with assms(2) have bound: "\<forall>n \<in> set [a, b, c, d, e, f, g, h]. n < 65536" by simp
  then have parts: "a < 65536" "b < 65536" "g < 65536" "h < 65536" by simp_all
  have mapped: "isGlobalIpv4 (dotted g h) \<longleftrightarrow> publicIpv4 (ipv6Number ws mod 2 ^ 32)"
    unfolding ws isGlobalIpv4_blocks ipv4_mapped(2)[OF bound] parse_dotted[OF parts(3,4)] by simp
  have "b \<le> 0x01FF \<longleftrightarrow> b div 512 = 0" by linarith
  then show ?thesis
    unfolding publicIpv6_def mapped[symmetric]
    unfolding ws globalWords.simps ipv4_mapped(1)[OF bound]
    using leading_bits parts
    by (simp add: globalUnicast_def reservedIpv6Blocks_def ipv6_blocks[OF bound] leading_bits)
qed

text \<open>C38. The addresses the fetcher accepts as global are those outside the reserved blocks, read as
  membership of the address's number in a table of prefixes: for IPv4 the fourteen reserved blocks, for
  IPv6 the global unicast block without its four reserved ones, and an IPv4-mapped address when the IPv4
  address in its last 32 bits is public. The source decides this on octets and hexadecimal words.\<close>

theorem global_addresses_are_public_blocks:
  "(isGlobalIpv4 address \<longleftrightarrow> (\<exists>octets. parseIpv4 address = Some octets \<and> publicIpv4 (ipv4Number octets))) \<and>
   (isGlobalIpv6 address \<longleftrightarrow> (\<exists>words. parseIpv6 address = Some words \<and> publicIpv6 (ipv6Number words)))"
proof
  show "isGlobalIpv6 address \<longleftrightarrow> (\<exists>words. parseIpv6 address = Some words \<and> publicIpv6 (ipv6Number words))"
    by (cases "parseIpv6 address") (auto simp: isGlobalIpv6_def globalWords_blocks parseIpv6_words)
qed (rule isGlobalIpv4_blocks)

subsection \<open>Effects of the steps\<close>

text \<open>
  \<open>runs rel m Q\<close>: whatever the computation \<open>m\<close> does to the world is within \<open>rel\<close>, and what it
  returns, when it does not throw, satisfies \<open>Q\<close>.
\<close>

definition runs :: "('w \<Rightarrow> 'w \<Rightarrow> bool) \<Rightarrow> ('w, 'a) fetching \<Rightarrow> ('a \<Rightarrow> bool) \<Rightarrow> bool" where
  "runs rel m Q \<longleftrightarrow> (\<forall>w r w'. m w = (r, w') \<longrightarrow> rel w w' \<and> (\<forall>a. r = Inr a \<longrightarrow> Q a))"

definition admissible :: "url \<Rightarrow> bool" where
  "admissible u \<longleftrightarrow> (urlProtocol u = ''http:'' \<or> urlProtocol u = ''https:'') \<and>
     urlUsername u = [] \<and> urlPassword u = [] \<and> urlPort u = []"

definition cleanFilename :: "string \<Rightarrow> string \<Rightarrow> bool" where
  "cleanFilename contentType name \<longleftrightarrow>
     0 < length name \<and> length name \<le> 255 \<and> name \<noteq> ''.'' \<and> name \<noteq> ''..'' \<and>
     \<not> list_ex unsafeCharacter name \<and>
     (\<exists>extensions fallback. filePolicy contentType = Some (extensions, fallback) \<and> extensionOf name \<in> set extensions)"

definition withinLimits :: "nat \<Rightarrow> fetchedUrl \<Rightarrow> bool" where
  "withinLimits maxBytes f \<longleftrightarrow> length (fchBytes f) \<le> maxBytes \<and>
     fchContentType f \<in> set SUPPORTED_CONTENT_TYPES \<and> cleanFilename (fchContentType f) (fchFilename f)"

definition stepResult :: "nat \<Rightarrow> nat \<Rightarrow> fetchStepResult \<Rightarrow> bool" where
  "stepResult maxBytes redirectCount r =
     (case r of Finished f \<Rightarrow> withinLimits maxBytes f
      | Redirected u \<Rightarrow> redirectCount < DEFAULT_MAX_REDIRECTS \<and> admissible u)"

lemma fallback_clean: "filePolicy contentType = Some (extensions, fallback) \<Longrightarrow> cleanFilename contentType fallback"
  by (auto simp: cleanFilename_def filePolicy_def extensionOf_def afterLast_def unsafeCharacter_def codeUnit_def
      List.member_iff split: if_splits)

text \<open>
  The contract of the ports for a relation: it is a preorder, and reading the abort signal, resolving a
  name and closing a response stay within it. Sending a request is not one of them.
\<close>

locale fetch_effects =
  fixes rel :: "'w \<Rightarrow> 'w \<Rightarrow> bool" and deps :: "'w urlPorts"
  assumes rel_refl: "rel w w"
    and rel_trans: "rel w w' \<Longrightarrow> rel w' w'' \<Longrightarrow> rel w w''"
    and rel_aborted: "rel w (snd (urpAborted deps w))"
    and rel_lookup: "rel w (snd (urpLookup deps hostname w))"
    and rel_close: "rel w (urpClose deps response w)"
begin

lemma runs_weaken: "runs rel m P \<Longrightarrow> (\<And>a. P a \<Longrightarrow> Q a) \<Longrightarrow> runs rel m Q"
  by (auto simp: runs_def)

lemma runs_yield: "Q a \<Longrightarrow> runs rel (yieldF a) Q"
  by (simp add: runs_def yieldF_def rel_refl)

lemma runs_fail: "runs rel (fail reason) Q" "runs rel (\<lambda>w. (Inl e, w)) Q"
  by (simp_all add: runs_def fail_def rel_refl)

lemma runs_bind:
  assumes m: "runs rel m P" and f: "\<And>a. P a \<Longrightarrow> runs rel (f a) Q"
  shows "runs rel (bindF m f) Q"
  unfolding runs_def
proof (intro allI impI)
  fix w r w'
  assume run: "bindF m f w = (r, w')"
  obtain r1 w1 where first: "m w = (r1, w1)" by (cases "m w")
  with m have step: "rel w w1" "\<And>a. r1 = Inr a \<Longrightarrow> P a" by (auto simp: runs_def)
  show "rel w w' \<and> (\<forall>a. r = Inr a \<longrightarrow> Q a)"
  proof (cases r1)
    case (Inl e)
    with run first step show ?thesis by (auto simp: bindF_def)
  next
    case (Inr a)
    then have "rel w1 w' \<and> (\<forall>a. r = Inr a \<longrightarrow> Q a)"
      using run first f[OF step(2)] by (simp add: bindF_def runs_def)
    with step(1) show ?thesis by (blast intro: rel_trans)
  qed
qed

lemma runs_check: "(ok \<Longrightarrow> Q ()) \<Longrightarrow> runs rel (checkF ok reason) Q"
  by (simp add: checkF_def runs_yield runs_fail)

lemma runs_found: "(\<And>a. x = Some a \<Longrightarrow> Q a) \<Longrightarrow> runs rel (foundF x reason) Q"
  by (cases x) (simp_all add: foundF_def runs_yield runs_fail)

lemma runs_aborted: "runs rel (readF (urpAborted deps)) (\<lambda>_. True)"
  using rel_aborted unfolding runs_def readF_def by (auto split: prod.splits) (metis snd_conv)

lemma runs_lookup: "runs rel (readF (urpLookup deps hostname)) (\<lambda>_. True)"
  using rel_lookup unfolding runs_def readF_def by (auto split: prod.splits) (metis snd_conv)

lemma runs_closing: "runs rel (closing deps response) (\<lambda>_. True)"
  using rel_close by (simp add: runs_def closing_def)

lemma runs_closeOnError: "runs rel m Q \<Longrightarrow> runs rel (closeOnError deps response m) Q"
  unfolding runs_def closeOnError_def by (fastforce split: prod.splits sum.splits intro: rel_trans rel_close)

lemmas runs_rules = runs_yield runs_fail runs_aborted runs_lookup runs_closing

lemma runs_checkAborted: "runs rel (checkAborted deps) (\<lambda>_. True)"
  unfolding checkAborted_def by (rule runs_bind[OF runs_aborted], rule runs_check) simp

lemma runs_validatedUrl: "runs rel (validatedUrl deps raw) admissible"
proof -
  have "runs rel (validatedUrl deps raw) (\<lambda>u. admissible u)"
    unfolding validatedUrl_def
    by (rule runs_bind[OF runs_found], rule, rule runs_bind[OF runs_check], assumption,
        rule runs_bind[OF runs_check], assumption, rule runs_bind[OF runs_check], assumption, rule runs_yield)
      (simp add: admissible_def)
  then show ?thesis by simp
qed

lemma runs_addressesOf: "runs rel (addressesOf deps hostname) (\<lambda>_. True)"
proof -
  have "runs rel (case found of Some addresses \<Rightarrow> yieldF addresses
    | None \<Rightarrow> bindF (readF (urpAborted deps)) (\<lambda>aborted. fail (if aborted then Timeout else DnsResolutionFailed)))
    (\<lambda>_. True)" for found
    by (cases found) (auto intro: runs_bind[OF runs_aborted] runs_rules)
  then show ?thesis unfolding addressesOf_def Let_def
    by (auto intro: runs_yield runs_bind[OF runs_lookup])
qed

lemma runs_safeFilename: "runs rel (safeFilename deps u contentType) (cleanFilename contentType)"
  unfolding safeFilename_def
proof (rule runs_bind[OF runs_found])
  fix policy
  assume policy: "filePolicy contentType = Some policy"
  obtain extensions fallback where "policy = (extensions, fallback)" by (cases policy)
  with policy fallback_clean show "runs rel ((\<lambda>(extensions, fallback). case urpDecode deps (afterLast (CHR ''/'') (urlPathname u)) of
       None \<Rightarrow> yieldF fallback
     | Some candidate \<Rightarrow>
         yieldF (if \<not> (length candidate = 0 \<or> length candidate > 255 \<or> candidate = ''.'' \<or> candidate = ''..'' \<or>
                        list_ex unsafeCharacter candidate) \<and>
                    List.member extensions (extensionOf candidate)
                 then candidate else fallback)) policy) (cleanFilename contentType)"
    by (auto intro!: runs_yield simp: cleanFilename_def[of _ "_ :: string"] List.member_iff split: option.split)
qed assumption

lemma runs_collectParts:
  "received \<le> maxBytes \<Longrightarrow>
     runs rel (collectParts deps maxBytes received parts) (\<lambda>bs. received + length bs \<le> maxBytes)"
proof (induction parts arbitrary: received)
  case (Cons part parts)
  show ?case
  proof (cases part)
    case (BodyBytes chunk)
    have fits: "runs rel (bindF (collectParts deps maxBytes (received + length chunk) parts) (\<lambda>rest. yieldF (chunk @ rest)))
        (\<lambda>bs. received + length bs \<le> maxBytes)" if "\<not> received + length chunk > maxBytes"
      by (rule runs_bind[OF Cons.IH], use that in simp, rule runs_yield) simp
    show ?thesis unfolding BodyBytes collectParts.simps Let_def
      by (rule runs_bind[OF runs_aborted], rule runs_bind[OF runs_check[where Q = "\<lambda>_. True"]], simp,
          rule runs_bind[OF runs_check[where Q = "\<lambda>_. \<not> received + length chunk > maxBytes"]], assumption)
        (rule fits)
  qed (auto intro: runs_fail runs_bind[OF runs_aborted])
qed (simp add: runs_yield)

lemma runs_readResponse: "runs rel (readResponse deps maxBytes current response) (withinLimits maxBytes)"
  unfolding readResponse_def
proof (rule runs_closeOnError, rule runs_bind[where P = "\<lambda>_. True"], goal_cases)
  case 1
  show ?case unfolding validateContentEncoding_def by (rule runs_check[where Q = "\<lambda>_. True"]) simp
next
  case 2
  show ?case
  proof (rule runs_bind[where P = "\<lambda>_. True"], goal_cases)
    case 1
    show ?case unfolding validateContentLength_def Let_def
      by (cases "singleHeader response ''content-length''")
        (auto intro!: runs_bind[OF runs_check] runs_check[where Q = "\<lambda>_. True"] runs_yield)
  next
    case 2
    show ?case
    proof (rule runs_bind[OF runs_found], assumption, rule runs_bind[where P = "\<lambda>bs. length bs \<le> maxBytes"], goal_cases)
      case (1 contentType)
      show ?case unfolding collectBody_def using runs_collectParts[of 0] by simp
    next
      case (2 contentType bs)
      then have "contentType \<in> set SUPPORTED_CONTENT_TYPES"
        by (auto simp: contentTypeFrom_def Let_def List.member_iff split: option.splits if_splits)
      with 2 show ?case
        by (intro runs_bind[OF runs_safeFilename] runs_yield) (simp add: withinLimits_def)
    qed
  qed
qed

lemma runs_followRedirect:
  "runs rel (followRedirect deps redirectCount current response)
     (\<lambda>u. redirectCount < DEFAULT_MAX_REDIRECTS \<and> admissible u)"
  unfolding followRedirect_def
  by (rule runs_bind[OF runs_closing], rule runs_bind[OF runs_check], assumption,
      rule runs_bind[OF runs_found], assumption, rule runs_bind[OF runs_found], assumption,
      rule runs_weaken[OF runs_validatedUrl]) simp

lemma runs_checkedAddresses:
  "runs rel (checkedAddresses deps current)
     (\<lambda>addresses. addresses \<noteq> [] \<and> (\<forall>a \<in> set addresses. isGlobalAddress deps (rsaAddress a) (rsaFamily a)))"
  unfolding checkedAddresses_def
  by (rule runs_bind[OF runs_checkAborted], rule runs_bind[OF runs_addressesOf], rule runs_bind[OF runs_checkAborted],
      rule runs_bind[OF runs_check], assumption, rule runs_bind[OF runs_check], assumption, rule runs_yield)
    (auto simp: list_ex_iff)

lemma runs_handleResponse:
  "runs rel (handleResponse deps maxBytes redirectCount current response) (stepResult maxBytes redirectCount)"
proof -
  have "runs rel (bindF (followRedirect deps redirectCount current response) (\<lambda>next. yieldF (Redirected next)))
      (stepResult maxBytes redirectCount)"
    by (rule runs_bind[OF runs_followRedirect], rule runs_yield) (simp add: stepResult_def)
  moreover have "runs rel (bindF (readResponse deps maxBytes current response) (\<lambda>f. yieldF (Finished f)))
      (stepResult maxBytes redirectCount)"
    by (rule runs_bind[OF runs_readResponse], rule runs_yield) (simp add: stepResult_def)
  moreover have "runs rel (bindF (closing deps response) (\<lambda>_. fail reason)) (stepResult maxBytes redirectCount)" for reason
    by (rule runs_bind[OF runs_closing], rule runs_fail(1))
  ultimately show ?thesis unfolding handleResponse_def
    by (intro runs_bind[OF runs_aborted]) simp
qed

end

locale fetch_request_effects = fetch_effects +
  assumes rel_request: "rel w (snd (urpRequest deps request w))"
begin

lemma runs_sendRequest: "runs rel (sendRequest deps request) (\<lambda>_. True)"
proof -
  have "runs rel (readF (urpRequest deps request)) (\<lambda>_. True)"
    using rel_request unfolding runs_def readF_def by (auto split: prod.splits) (metis snd_conv)
  then show ?thesis unfolding sendRequest_def
    by (rule runs_bind) (auto intro: runs_fail runs_yield split: option.split)
qed

lemma runs_fetchStep: "runs rel (fetchStep deps maxBytes redirectCount current) (stepResult maxBytes redirectCount)"
  unfolding fetchStep_def
  by (rule runs_bind[OF runs_checkedAddresses], rule runs_bind[OF runs_sendRequest], rule runs_handleResponse)

end

text \<open>Every port is within the relation that always holds: this gives what the results satisfy.\<close>

interpretation anyEffect: fetch_request_effects "\<lambda>_ _. True" deps for deps
  by unfold_locales simp_all

subsection \<open>Recorded requests\<close>

definition recordingRead :: "('w \<Rightarrow> 'a \<times> 'w) \<Rightarrow> 'w \<times> transportRequest list \<Rightarrow> 'a \<times> 'w \<times> transportRequest list" where
  "recordingRead g wl = (case g (fst wl) of (a, w') \<Rightarrow> (a, w', snd wl))"

text \<open>The same ports over a world that also keeps the requests sent so far, in order.\<close>

definition recording :: "'w urlPorts \<Rightarrow> ('w \<times> transportRequest list) urlPorts" where
  "recording deps =
     \<lparr>urpParse = urpParse deps, urpResolve = urpResolve deps, urpIsIp = urpIsIp deps, urpDecode = urpDecode deps,
      urpAborted = recordingRead (urpAborted deps),
      urpLookup = (\<lambda>hostname. recordingRead (urpLookup deps hostname)),
      urpRequest = (\<lambda>request (w, log). case urpRequest deps request w of (r, w') \<Rightarrow> (r, w', log @ [request])),
      urpClose = (\<lambda>response (w, log). (urpClose deps response w, log))\<rparr>"

definition sameRequests :: "'w \<times> transportRequest list \<Rightarrow> 'w \<times> transportRequest list \<Rightarrow> bool" where
  "sameRequests wl wl' \<longleftrightarrow> snd wl' = snd wl"

interpretation unrecorded: fetch_effects sameRequests "recording deps" for deps
  by unfold_locales (auto simp: sameRequests_def recording_def recordingRead_def split: prod.splits)

definition pinned :: "'w urlPorts \<Rightarrow> transportRequest \<Rightarrow> bool" where
  "pinned deps request \<longleftrightarrow>
     isGlobalAddress deps (trqPinnedAddress request) (trqFamily request) \<and> admissible (trqUrl request)"

lemma isGlobalAddress_recording: "isGlobalAddress (recording deps) = isGlobalAddress deps"
  by (intro ext) (simp add: isGlobalAddress_def recording_def)

lemma recorded_step:
  assumes "fetchStep (recording deps) maxBytes redirectCount current (w, log) = (r, w', log')" "admissible current"
  shows "\<exists>new. log' = log @ new \<and> length new \<le> 1 \<and> list_all (pinned deps) new"
    "\<And>a. r = Inr a \<Longrightarrow> stepResult maxBytes redirectCount a"
proof -
  show "\<And>a. r = Inr a \<Longrightarrow> stepResult maxBytes redirectCount a"
    using anyEffect.runs_fetchStep[of "recording deps" maxBytes redirectCount current] assms(1) unfolding runs_def by blast
  obtain r1 w1 log1 where pre: "checkedAddresses (recording deps) current (w, log) = (r1, w1, log1)"
    by (metis prod_cases3)
  then have log1: "log1 = log" and ok: "\<And>as. r1 = Inr as \<Longrightarrow> as \<noteq> [] \<and> (\<forall>a \<in> set as. isGlobalAddress deps (rsaAddress a) (rsaFamily a))"
    using unrecorded.runs_checkedAddresses[of deps current]
    unfolding runs_def sameRequests_def isGlobalAddress_recording by fastforce+
  show "\<exists>new. log' = log @ new \<and> length new \<le> 1 \<and> list_all (pinned deps) new"
  proof (cases r1)
    case (Inl e)
    with assms(1) pre log1 show ?thesis by (simp add: fetchStep_def bindF_def)
  next
    case (Inr as)
    let ?request = "\<lparr>trqFamily = rsaFamily (hd as), trqPinnedAddress = rsaAddress (hd as), trqUrl = current\<rparr>"
    have pin: "pinned deps ?request" using ok[OF Inr] assms(2) by (simp add: pinned_def)
    obtain answer w2 where sent: "urpRequest deps ?request w1 = (answer, w2)" by (metis surj_pair)
    then have send: "sendRequest (recording deps) ?request (w1, log1) =
        (case answer of None \<Rightarrow> Inl OtherFetchError | Some response \<Rightarrow> Inr response, w2, log @ [?request])"
      by (simp add: sendRequest_def bindF_def readF_def recording_def log1 yieldF_def split: option.split)
    show ?thesis
    proof (cases answer)
      case None
      with assms(1) pre Inr send pin show ?thesis by (auto simp: fetchStep_def bindF_def)
    next
      case (Some response)
      then have "handleResponse (recording deps) maxBytes redirectCount current response (w2, log @ [?request]) = (r, w', log')"
        using assms(1) pre Inr send by (simp add: fetchStep_def bindF_def)
      then have "log' = log @ [?request]"
        using unrecorded.runs_handleResponse[of deps maxBytes redirectCount current response]
        unfolding runs_def sameRequests_def by fastforce
      with pin show ?thesis by simp
    qed
  qed
qed

lemma recorded_loop:
  assumes "redirectCount \<le> DEFAULT_MAX_REDIRECTS" "admissible current"
  shows "\<exists>r w' new. fetchLoop (recording deps) maxBytes redirectCount current (w, log) = Some (r, w', log @ new) \<and>
    length new \<le> Suc (DEFAULT_MAX_REDIRECTS - redirectCount) \<and> list_all (pinned deps) new"
  using assms
proof (induction "DEFAULT_MAX_REDIRECTS - redirectCount" arbitrary: redirectCount current w log)
  case (0 redirectCount current w log)
  obtain r w1 log1 where step: "fetchStep (recording deps) maxBytes redirectCount current (w, log) = (r, w1, log1)"
    by (metis prod_cases3)
  note facts = recorded_step[OF step 0(3)]
  have "\<not> redirectCount < DEFAULT_MAX_REDIRECTS" using 0(1) by simp
  then show ?case using facts step
    by (auto simp: fetchLoop.simps[of "recording deps" maxBytes redirectCount] stepResult_def
        split: sum.split fetchStepResult.splits)
next
  case (Suc k redirectCount current w log)
  obtain r w1 log1 where step: "fetchStep (recording deps) maxBytes redirectCount current (w, log) = (r, w1, log1)"
    by (metis prod_cases3)
  obtain new where new: "log1 = log @ new" "length new \<le> 1" "list_all (pinned deps) new"
    using recorded_step(1)[OF step Suc.prems(2)] by blast
  show ?case
  proof (cases "\<exists>next. r = Inr (Redirected next)")
    case True
    then obtain next' where r: "r = Inr (Redirected next')" ..
    with recorded_step(2)[OF step Suc.prems(2)] have "admissible next'" by (simp add: stepResult_def)
    moreover have "k = DEFAULT_MAX_REDIRECTS - (redirectCount + 1)" "redirectCount + 1 \<le> DEFAULT_MAX_REDIRECTS"
      using Suc.hyps(2) by simp_all
    ultimately obtain r' w' more where rest: "fetchLoop (recording deps) maxBytes (redirectCount + 1) next' (w1, log1)
        = Some (r', w', log1 @ more)" "length more \<le> Suc (DEFAULT_MAX_REDIRECTS - (redirectCount + 1))"
      "list_all (pinned deps) more"
      using Suc.hyps(1) by blast
    have "fetchLoop (recording deps) maxBytes redirectCount current (w, log) = Some (r', w', log @ new @ more)"
      using rest(1) step r new(1) by (simp add: fetchLoop.simps[of "recording deps" maxBytes redirectCount])
    moreover have "length (new @ more) \<le> Suc (DEFAULT_MAX_REDIRECTS - redirectCount)"
      using rest(2) new(2) Suc.hyps(2) by simp
    ultimately show ?thesis using rest(3) new(3) by (metis list_all_append)
  next
    case False
    then show ?thesis using step new
      by (auto simp: fetchLoop.simps[of "recording deps" maxBytes redirectCount] split: sum.split fetchStepResult.splits)
  qed
qed

lemma recorded_fetch:
  "\<exists>result w' log. fetch (recording deps) (recordingRead late) maxBytes raw (w, []) = Some (result, w', log) \<and>
     length log \<le> Suc DEFAULT_MAX_REDIRECTS \<and> list_all (pinned deps) log"
proof -
  have "\<exists>r w' log. fetchWithinDeadline (recording deps) maxBytes raw (w, []) = Some (r, w', log) \<and>
      length log \<le> Suc DEFAULT_MAX_REDIRECTS \<and> list_all (pinned deps) log"
  proof -
    obtain r w1 log1 where url: "validatedUrl (recording deps) raw (w, []) = (r, w1, log1)" by (metis prod_cases3)
    then have "log1 = []" and ok: "\<And>u. r = Inr u \<Longrightarrow> admissible u"
      using unrecorded.runs_validatedUrl[of deps raw] unfolding runs_def sameRequests_def by fastforce+
    with url recorded_loop[of 0 _ deps maxBytes w1 "[]"] show ?thesis
      by (cases r) (auto simp: fetchWithinDeadline_def)
  qed
  then obtain r w1 log1 where run: "fetchWithinDeadline (recording deps) maxBytes raw (w, []) = Some (r, w1, log1)"
    "length log1 \<le> Suc DEFAULT_MAX_REDIRECTS" "list_all (pinned deps) log1" by blast
  then show ?thesis
    by (auto simp: fetch_def recordingRead_def recording_def split: prod.split sum.split fetchError.split)
qed

lemma loop_withinLimits:
  "fetchLoop deps maxBytes redirectCount current w = Some p \<Longrightarrow>
     (case fst p of Inl e \<Rightarrow> True | Inr f \<Rightarrow> withinLimits maxBytes f)"
proof (rule fetchLoop.raw_induct[rotated, where P = "\<lambda>_ maxBytes _ _ _ p. case fst p of Inl e \<Rightarrow> True | Inr f \<Rightarrow> withinLimits maxBytes f"],
    assumption)
  fix loop :: "'a urlPorts \<Rightarrow> nat \<Rightarrow> nat \<Rightarrow> url \<Rightarrow> 'a \<Rightarrow> ((fetchError + fetchedUrl) \<times> 'a) option"
  fix deps maxBytes redirectCount current w q
  assume ih: "\<And>deps maxBytes redirectCount current w y. loop deps maxBytes redirectCount current w = Some y \<Longrightarrow>
      (case fst y of Inl e \<Rightarrow> True | Inr f \<Rightarrow> withinLimits maxBytes f)"
    and run: "(case fetchStep deps maxBytes redirectCount current w of
        (Inl e, w') \<Rightarrow> Some (Inl e, w')
      | (Inr (Finished f), w') \<Rightarrow> Some (Inr f, w')
      | (Inr (Redirected next), w') \<Rightarrow> loop deps maxBytes (redirectCount + 1) next w') = Some q"
  obtain r w1 where step: "fetchStep deps maxBytes redirectCount current w = (r, w1)" by (metis surj_pair)
  then have ok: "\<And>a. r = Inr a \<Longrightarrow> stepResult maxBytes redirectCount a"
    using anyEffect.runs_fetchStep[of deps maxBytes redirectCount current] unfolding runs_def by blast
  show "case fst q of Inl e \<Rightarrow> True | Inr f \<Rightarrow> withinLimits maxBytes f"
  proof (cases r)
    case (Inl e)
    with run step show ?thesis by auto
  next
    case (Inr a)
    with run step ok[OF Inr] show ?thesis
      by (cases a) (auto simp: stepResult_def dest: ih)
  qed
qed

text \<open>C37. A fetch always returns, whatever the servers answer: the redirect loop, written without a
  bound of its own, sends at most four requests (the first and three redirects), because each round that
  continues has counted one redirect against the limit.\<close>

theorem fetch_terminates:
  "\<exists>result w' log. fetch (recording deps) (recordingRead late) maxBytes raw (w, []) = Some (result, w', log) \<and>
     length log \<le> Suc DEFAULT_MAX_REDIRECTS"
  using recorded_fetch[of deps late maxBytes raw w] by blast

text \<open>C36. Every request that a fetch sends, the redirected ones too, goes to an address that was checked to
  be globally routable and of the family it is sent with, and its URL is an http or https URL without
  credentials or port.\<close>

theorem requests_go_to_public_addresses:
  "case fetch (recording deps) (recordingRead late) maxBytes raw (w, []) of
     None \<Rightarrow> False
   | Some (result, w', log) \<Rightarrow>
       list_all (\<lambda>request.
         urpIsIp deps (trqPinnedAddress request) = trqFamily request \<and>
         (if trqFamily request = 4 then isGlobalIpv4 (trqPinnedAddress request)
          else isGlobalIpv6 (trqPinnedAddress request)) \<and>
         (urlProtocol (trqUrl request) = ''http:'' \<or> urlProtocol (trqUrl request) = ''https:'') \<and>
         urlUsername (trqUrl request) = [] \<and> urlPassword (trqUrl request) = [] \<and> urlPort (trqUrl request) = []) log"
proof -
  obtain result w' log where run: "fetch (recording deps) (recordingRead late) maxBytes raw (w, []) = Some (result, w', log)"
    and all: "list_all (pinned deps) log"
    using recorded_fetch[of deps late maxBytes raw w] by blast
  from all have "list_all (\<lambda>request.
         urpIsIp deps (trqPinnedAddress request) = trqFamily request \<and>
         (if trqFamily request = 4 then isGlobalIpv4 (trqPinnedAddress request)
          else isGlobalIpv6 (trqPinnedAddress request)) \<and>
         (urlProtocol (trqUrl request) = ''http:'' \<or> urlProtocol (trqUrl request) = ''https:'') \<and>
         urlUsername (trqUrl request) = [] \<and> urlPassword (trqUrl request) = [] \<and> urlPort (trqUrl request) = []) log"
    by (rule list.pred_mono_strong) (auto simp: pinned_def isGlobalAddress_def admissible_def split: if_splits)
  with run show ?thesis by simp
qed

text \<open>C39. What a fetch returns keeps its limits: no more bytes than allowed, however the body is chunked and
  whatever length was announced; one of the supported content types; and a file name of 1 to 255 characters
  without control characters or path separators whose extension the content type allows.\<close>

theorem fetched_content_within_limits:
  assumes "fetch deps late maxBytes raw w = Some (UrlFetched f, w')"
  shows "length (fchBytes f) \<le> maxBytes \<and> fchContentType f \<in> set SUPPORTED_CONTENT_TYPES \<and>
    0 < length (fchFilename f) \<and> length (fchFilename f) \<le> 255 \<and> \<not> list_ex unsafeCharacter (fchFilename f) \<and>
    (\<exists>extensions fallback. filePolicy (fchContentType f) = Some (extensions, fallback) \<and>
       extensionOf (fchFilename f) \<in> set extensions)"
proof -
  obtain outcome w1 where run: "fetchWithinDeadline deps maxBytes raw w = Some (outcome, w1)"
    using assms by (auto simp: fetch_def bind_eq_Some_conv)
  then have "outcome = Inr f"
    using assms by (cases outcome) (auto simp: fetch_def split: prod.splits if_splits fetchError.splits)
  with run have "fetchWithinDeadline deps maxBytes raw w = Some (Inr f, w1)" by simp
  then have "withinLimits maxBytes f"
    by (auto simp: fetchWithinDeadline_def dest: loop_withinLimits split: prod.splits sum.splits)
  then show ?thesis by (auto simp: withinLimits_def cleanFilename_def)
qed

subsection \<open>An example\<close>

text \<open>
  Ports of a small network. \<open>http://a/x\<close> redirects to \<open>http://b/y/notes.md\<close>, which has a body of two
  chunks; \<open>http://evil/\<close> names a loopback address.
\<close>

definition exampleUrl :: "string \<Rightarrow> string \<Rightarrow> url" where
  "exampleUrl hostname pathname =
     \<lparr>urlProtocol = ''http:'', urlUsername = [], urlPassword = [], urlPort = [], urlHostname = hostname,
      urlPathname = pathname, urlHref = ''http://'' @ hostname @ pathname\<rparr>"

definition exampleParse :: "string \<Rightarrow> url option" where
  "exampleParse raw =
     map_of [(''http://a/x'', exampleUrl ''a'' ''/x''), (''http://b/notes.md'', exampleUrl ''b'' ''/notes.md''),
             (''http://evil/'', exampleUrl ''evil'' ''/'')] raw"

definition exampleAnswer :: "transportRequest \<Rightarrow> transportResponse" where
  "exampleAnswer request =
     (if urlHostname (trqUrl request) = ''a''
      then \<lparr>trsBody = [], trsHeaders = [(''Location'', SingleValue ''http://b/notes.md'')], trsStatusCode = 302\<rparr>
      else \<lparr>trsBody = [BodyBytes [1, 2], BodyBytes [3]],
             trsHeaders = [(''Content-Type'', SingleValue ''text/markdown; charset=utf-8'')], trsStatusCode = 200\<rparr>)"

definition examplePorts :: "unit urlPorts" where
  "examplePorts =
     \<lparr>urpParse = exampleParse, urpResolve = (\<lambda>target _. exampleParse target),
      urpIsIp = (\<lambda>s. if list_all (\<lambda>c. isDigit c \<or> c = CHR ''.'') s then 4 else 0),
      urpDecode = Some, urpAborted = Pair False,
      urpLookup = (\<lambda>hostname. Pair (Some [\<lparr>rsaAddress = (if hostname = ''evil'' then ''127.0.0.1'' else ''9.9.9.9''),
                                            rsaFamily = 4\<rparr>])),
      urpRequest = (\<lambda>request. Pair (Some (exampleAnswer request))),
      urpClose = (\<lambda>_ w. w)\<rparr>"

lemma example_fetch:
  "fetch examplePorts (Pair False) 10 ''http://a/x'' () =
     Some (UrlFetched \<lparr>fchBytes = [1, 2, 3], fchContentType = ''text/markdown'', fchFilename = ''notes.md''\<rparr>, ())"
  by code_simp

theorem fetched_content_within_limits_witness:
  "length [1, 2, 3 :: 8 word] \<le> 10 \<and> ''text/markdown'' \<in> set SUPPORTED_CONTENT_TYPES \<and>
   \<not> list_ex unsafeCharacter ''notes.md''"
  using fetched_content_within_limits[OF example_fetch] by simp

text \<open>A name that resolves to the loopback address: no request is sent.\<close>

lemma example_unsafe:
  "fetch (recording examplePorts) (Pair False) 10 ''http://evil/'' ((), []) =
     Some (UrlFailed UnsafeDestination, ((), []))"
  by code_simp

end
