(* ===== verification/Spec2Isabelle.thy ===== *)
theory Spec2Isabelle
  imports DisclosureRuns EvaluationRuns MeetingExample PasswordRuns ReviewRuns RoleViews UrlSafety
begin

text \<open>
  Verification library of the Counterpoint Living Decisions repository: a model of its domain core, of the
  application commands on top of it, and of the adapters of the Node server below it, with the theorems that
  make them correct.

  \<^bold>\<open>The program.\<close> A meeting is a log of events. Every command of the application loads the log of its meeting,
  replays it to a projection, decides, and appends new events at the position it has seen; the store keeps one
  transaction per append, recognises a retry by its idempotency key and refuses a stale position. The domain
  package defines records, events, the reducer and the life cycle of a Decision; the ports package says what a
  command may ask of its surroundings; the Node adapters answer with SQLite tables, files, scrypt and a clock;
  the server shows each reader its own part of the projection.

  \<^bold>\<open>Shared vocabulary.\<close>
  \<^item> \<open>Prelude\<close>: errors as sums, first and last match, keyed update, and their lemmas.
  \<^item> \<open>JsLib\<close>, \<open>JsDate\<close>, \<open>Bytes\<close>: the JavaScript library that the source uses: \<open>trim\<close>, decimal numbers, JSON
    text with its two key orders, \<open>Date.parse\<close> and \<open>toISOString\<close>, UTF-8.

  \<^bold>\<open>packages/domain/src.\<close>
  \<^item> \<open>Values\<close> (values.ts): the smart constructors of identifiers, texts, numbers and timestamps.
  \<^item> \<open>Entities\<close> (entities.ts): all record types and every \<open>create\<close> function; a record extends \<open>commonRecord\<close>
    as the source intersects the types.
  \<^item> \<open>Events\<close> (events.ts): the 37 payloads, the envelope, and the JSON image that fingerprints serialise.
  \<^item> \<open>DecisionStateMachine\<close> (decision-state-machine.ts): transitions, Action holds, revision history,
    reconsideration tasks. \<open>decisionStep\<close> is the life cycle as a step relation; the code refines it, and
    commitment and review gates, content and history are invariants of every run.
  \<^item> \<open>Projections\<close> (projections.ts): the reducer, replay, duplicate detection; well-formedness of every replay,
    separation of shared and private parts, redelivery, errors. \<open>Examples\<close> holds the records of the witnesses.

  \<^bold>\<open>packages/application/src.\<close> A command is a function of its world that ends with a value, a returned failure or a
  thrown exception (\<open>Commands\<close>: the dependencies as a record of functions, loading, append and refresh, retries).
  \<^item> \<open>Authorization\<close> (authorization.ts), \<open>Decisions\<close> (decisions.ts), \<open>SharedFloor\<close> (utterances.ts), \<open>Disclosures\<close>
    (disclosures.ts), \<open>ExternalEvents\<close> (external-events.ts), \<open>InvalidationEvaluations\<close> (invalidation-evaluations.ts),
    \<open>InvalidationReviews\<close> (invalidation-reviews.ts), \<open>ReviewResolutions\<close> (decision-review-resolutions.ts),
    \<open>Accounts\<close> (sessions.ts, meetings.ts and the repositories of the Node server): every exported operation with
    its validation, its checks in order and its retries.
  \<^item> \<open>CommandLogic\<close>, \<open>MeetingLogs\<close>, \<open>Progress\<close>: what a command may rely on (locales \<open>command_world\<close> and
    \<open>live_world\<close>, interpreted by the SQLite store), and when an appended event keeps the log readable.
  \<^item> \<open>DecisionCommands\<close>, \<open>FloorLogic\<close>, \<open>DisclosureLogic\<close> (locale \<open>disclosure_world\<close>), \<open>ReviewLogic\<close>,
    \<open>EvaluationLogic\<close> (locale \<open>evaluation_world\<close>): the specification of each family of commands, read off the log or
    the projection, and the proof that a command writes nothing or exactly what its specification allows.
    \<open>ReviewLife\<close> says what justifies an event of the second half of a Decision's life, and that these commands append
    justified events only.
  \<^item> \<open>MeetingSteps\<close>: any sequence of the commands of decisions.ts, utterances.ts, disclosures.ts, external-events.ts,
    invalidation-evaluations.ts, invalidation-reviews.ts and decision-review-resolutions.ts, by any users and with any
    answers of the language model, between appends of other modules; its invariant is that every log is lawful.
    \<open>LifeCycle\<close>: in a lawful log every event of a Decision's life has its cause before it. \<open>MeetingRuns\<close>, \<open>FloorRuns\<close>,
    \<open>DisclosureRuns\<close>: every log replays, histories are tracked, the floor is exclusive, evidence is published by its
    owner. \<open>EvaluationRuns\<close> and \<open>ReviewRuns\<close> state outside events, evaluations, reviews and resolutions command by
    command. \<open>AccountLogic\<close> (locale \<open>session_store\<close>) and \<open>AccountRuns\<close> do the same for sessions and meetings,
    with the start-up's users and flagship meeting (runtime.ts) among the steps of a run.
  \<^item> \<open>DecisionExample\<close>, \<open>DisclosureExample\<close>, \<open>MeetingExample\<close>, \<open>ReviewExample\<close>, \<open>EvaluationExample\<close>: concrete runs, evaluated step by
    step, at which the properties are instantiated.

  \<^bold>\<open>packages/adapters-node/src and apps/server/src.\<close>
  \<^item> \<open>EventStore\<close> (sqlite.ts): tables as lists, append with optimistic concurrency and replay, atomic commit; the
    locale \<open>event_log\<close> is the port as its clients see it, and SQLite refines it.
  \<^item> \<open>ArtifactStore\<close> (artifacts.ts): files below a root directory; the store is a map from scopes to bytes.
  \<^item> \<open>PasswordHashes\<close>, \<open>PasswordRuns\<close> (identity.ts): the encoded scrypt hash, its parser and verifier.
  \<^item> \<open>UrlFetcher\<close>, \<open>UrlSafety\<close> (safe-url-fetcher.ts): address classification, redirects, limits; the locales
    \<open>fetch_effects\<close> and \<open>fetch_request_effects\<close> carry an invariant of the requests through the loop.
  \<^item> \<open>RoleProjection\<close>, \<open>RoleViews\<close> (role-projection.ts): what a participant and the shared display are shown, and
    that it is determined by the events they may see; for a participant also by those hidden events that name the
    reader's own suggestion or artifact, which the source looks up among all events.

  \<^bold>\<open>Bounds.\<close> All recursion is structural or comes with its measure, except the redirect loop, a
  \<open>partial_function\<close> whose return after at most four requests is proved. Nothing runs on fuel. The body of a
  response is a finite list of parts. Positions and revisions are integers with the checks of
  \<open>Number.isSafeInteger\<close> written out.

  \<^bold>\<open>Parameters.\<close> Wall clock, identifiers, SHA-256, scrypt, random bytes, the codec of event payloads, zod's checks of a
  finished view, the URL parser, \<open>isIP\<close>, the name service, the transport and the language model are arguments of the
  definitions. Where a theorem needs something of one of them it is a named hypothesis of the theorem or the
  locale. A command of decisions.ts stores the trimmed idempotency key but looks up the one it was given, so the
  theorems about runs ask for keys without outer white space.

  \<^bold>\<open>Abstractions.\<close> Strings are sequences of code units below 256, so messages with an en dash write a hyphen, and the
  order of \<open>localeCompare\<close> is needed on the ASCII property names of the source only. \<open>Date.parse\<close> is taken on the
  canonical form that the source checks for. Awaiting a port is calling it: one command runs at a time, which is how
  the single connection of the Node server serialises them; interleavings of commands are sequences of steps. SQL
  statements are the list operations they denote; disk and network failures are not modelled except where a port
  returns them.

  \<^bold>\<open>Not modelled.\<close> The remaining application modules (candidates, artifacts, display tokens, demo reset, realtime secrets); the declarative zod schemas of packages/protocol; HTTP routes and
  sockets of the server; schema migrations; the Cloudflare and OpenAI adapters, which are D1 statements, Web Crypto and
  calls to a remote service; the web client. PROJECT.json lists them one by one.
\<close>

end
